(* ===== verification/Prelude.thy ===== *)
theory Prelude
  imports Main "HOL-Library.Word"
begin

text \<open>
  Shared material of the development: the machine integers of
  \<^verbatim>\<open>src/server/shared/Define.h\<close> as words, two's-complement \<open>int32\<close> arithmetic on
  \<^typ>\<open>int\<close>, the error monad used by code that throws, runs of operations over a state,
  and the collections of rewrite rules that the component theories extend.
\<close>

unbundle bit_operations_syntax

named_theorems smap_simps \<open>laws of the ordered containers\<close>
named_theorems frame_simps \<open>fields an operation leaves alone\<close>
named_theorems enc_simps \<open>sizes and shapes of encoded packet fields\<close>

type_synonym uint8 = "8 word"
type_synonym uint16 = "16 word"
type_synonym uint32 = "32 word"
type_synonym uint64 = "64 word"

section \<open>Signed 32-bit arithmetic\<close>

text \<open>
  An \<open>int32\<close> is an \<^typ>\<open>int\<close> in \<open>[-2^31, 2^31)\<close>; every arithmetic result is brought back into that
  range in two's complement, which is what the compiled code computes.
\<close>

definition wrap32 :: "int \<Rightarrow> int" where
  "wrap32 x = (x + 2147483648) mod 4294967296 - 2147483648"

definition is_int32 :: "int \<Rightarrow> bool" where
  "is_int32 x \<longleftrightarrow> -2147483648 \<le> x \<and> x < 2147483648"

lemma wrap32_range [simp]: "is_int32 (wrap32 x)"
  by (simp add: is_int32_def wrap32_def)

lemma wrap32_id: "is_int32 x \<Longrightarrow> wrap32 x = x"
  by (simp add: is_int32_def wrap32_def)

lemma wrap32_wrap32 [simp]: "wrap32 (wrap32 x) = wrap32 x"
  by (simp add: wrap32_id)

lemma wrap32_add_left [simp]: "wrap32 (wrap32 x + y) = wrap32 (x + y)"
proof -
  have "(wrap32 x + y + 2147483648) mod 4294967296
      = ((x + 2147483648) mod 4294967296 + y) mod 4294967296"
    by (simp add: wrap32_def algebra_simps)
  also have "\<dots> = (x + y + 2147483648) mod 4294967296"
    by (simp add: mod_simps algebra_simps)
  finally show ?thesis by (simp add: wrap32_def)
qed

lemma wrap32_add_right [simp]: "wrap32 (x + wrap32 y) = wrap32 (x + y)"
  using wrap32_add_left [of y x] by (simp add: add.commute)

section \<open>Results that may be an error\<close>

text \<open>Sequencing of a computation that may throw: the first error ends it.\<close>

fun bindE :: "'e + 'a \<Rightarrow> ('a \<Rightarrow> 'e + 'b) \<Rightarrow> 'e + 'b" where
  "bindE (Inl e) f = Inl e"
| "bindE (Inr x) f = f x"

lemma bindE_Inr_iff: "bindE m f = Inr y \<longleftrightarrow> (\<exists>x. m = Inr x \<and> f x = Inr y)"
  by (cases m) auto

lemma bindE_Inl_iff: "bindE m f = Inl e \<longleftrightarrow> m = Inl e \<or> (\<exists>x. m = Inr x \<and> f x = Inl e)"
  by (cases m) auto

lemma bindE_assoc: "bindE (bindE m f) g = bindE m (\<lambda>x. bindE (f x) g)"
  by (cases m) auto

section \<open>Runs of operations\<close>

text \<open>
  A component is used through a sequence of calls.  \<open>run_ops\<close> performs one; \<open>legal_run\<close> says
  that a guard holds at each call, in the state the call finds.
\<close>

fun run_ops :: "('o \<Rightarrow> 's \<Rightarrow> 's) \<Rightarrow> 'o list \<Rightarrow> 's \<Rightarrow> 's" where
  "run_ops step [] s = s"
| "run_ops step (c # cs) s = run_ops step cs (step c s)"

fun legal_run :: "('o \<Rightarrow> 's \<Rightarrow> bool) \<Rightarrow> ('o \<Rightarrow> 's \<Rightarrow> 's) \<Rightarrow> 'o list \<Rightarrow> 's \<Rightarrow> bool" where
  "legal_run ok step [] s = True"
| "legal_run ok step (c # cs) s = (ok c s \<and> legal_run ok step cs (step c s))"

lemma run_ops_append: "run_ops step (cs @ ds) s = run_ops step ds (run_ops step cs s)"
  by (induction cs arbitrary: s) auto

lemma legal_run_True [simp]: "legal_run (\<lambda>_ _. True) step cs s"
  by (induction cs arbitrary: s) auto

text \<open>
  The contract of an operation set with an invariant: every call that its guard admits keeps it.
\<close>

locale guarded_system =
  fixes ok :: "'o \<Rightarrow> 's \<Rightarrow> bool"
    and step :: "'o \<Rightarrow> 's \<Rightarrow> 's"
    and inv :: "'s \<Rightarrow> bool"
  assumes step_inv: "inv s \<Longrightarrow> ok c s \<Longrightarrow> inv (step c s)"
begin

lemma run_inv: "inv s \<Longrightarrow> legal_run ok step cs s \<Longrightarrow> inv (run_ops step cs s)"
proof (induction cs arbitrary: s)
  case Nil
  then show ?case by simp
next
  case (Cons c cs)
  then have "inv (step c s)" by (auto intro: step_inv)
  with Cons show ?case by simp
qed

end

text \<open>
  The contract of an operation set that reports what it does in a trace: a call only appends.
\<close>

locale traced_system =
  fixes step :: "'o \<Rightarrow> 's \<Rightarrow> 's"
    and trace_of :: "'s \<Rightarrow> 'e list"
  assumes step_appends: "\<exists>es. trace_of (step c s) = trace_of s @ es"
begin

lemma run_appends: "\<exists>es. trace_of (run_ops step cs s) = trace_of s @ es"
proof (induction cs arbitrary: s)
  case Nil
  then show ?case by simp
next
  case (Cons c cs)
  obtain es where es: "trace_of (step c s) = trace_of s @ es"
    using step_appends by blast
  obtain fs where fs: "trace_of (run_ops step cs (step c s)) = trace_of (step c s) @ fs"
    using Cons.IH by blast
  from es fs show ?case by simp
qed

end

end
