(* ===== verification/Std_Map.thy ===== *)
theory Std_Map
  imports Prelude
begin

text \<open>
  The ordered containers of the C++ library that the server keeps its state in:
  \<open>std::map\<close> as an association list in increasing key order and \<open>std::set\<close> as an increasing
  list.  Iteration visits the list from its head, so \<open>begin()\<close> is the smallest key.
  \<open>map_store\<close> states what a client of the map relies on; the list implementation is an instance.
\<close>

type_synonym ('k, 'v) smap = "('k \<times> 'v) list"

definition smap_find :: "('k, 'v) smap \<Rightarrow> 'k \<Rightarrow> 'v option" where
  "smap_find m k = map_of m k"

fun smap_put :: "'k::linorder \<Rightarrow> 'v \<Rightarrow> ('k, 'v) smap \<Rightarrow> ('k, 'v) smap" where
  "smap_put k v [] = [(k, v)]"
| "smap_put k v (e # m) =
     (if k < fst e then (k, v) # e # m
      else if fst e < k then e # smap_put k v m
      else (k, v) # m)"

definition smap_erase :: "'k \<Rightarrow> ('k, 'v) smap \<Rightarrow> ('k, 'v) smap" where
  "smap_erase k m = filter (\<lambda>e. fst e \<noteq> k) m"

text \<open>\<open>m[k].f()\<close>: \<open>operator[]\<close> inserts a value-initialised element when the key is absent.\<close>

definition smap_at :: "'v \<Rightarrow> ('k, 'v) smap \<Rightarrow> 'k \<Rightarrow> 'v" where
  "smap_at d m k = (case smap_find m k of None \<Rightarrow> d | Some v \<Rightarrow> v)"

definition smap_modify :: "'v \<Rightarrow> 'k::linorder \<Rightarrow> ('v \<Rightarrow> 'v) \<Rightarrow> ('k, 'v) smap \<Rightarrow> ('k, 'v) smap" where
  "smap_modify d k f m = smap_put k (f (smap_at d m k)) m"

definition smap_ok :: "('k::linorder, 'v) smap \<Rightarrow> bool" where
  "smap_ok m \<longleftrightarrow> sorted_wrt (<) (map fst m)"

section \<open>Laws of the map\<close>

lemma smap_ok_Nil [simp]: "smap_ok []"
  by (simp add: smap_ok_def)

lemma smap_ok_Cons: "smap_ok (e # m) \<longleftrightarrow> (\<forall>x \<in> set m. fst e < fst x) \<and> smap_ok m"
  by (auto simp: smap_ok_def)

lemma smap_ok_distinct: "smap_ok m \<Longrightarrow> distinct (map fst m)"
  by (simp add: smap_ok_def strict_sorted_iff)

lemma keys_put: "fst ` set (smap_put k v m) = insert k (fst ` set m)"
  by (induction m) auto

lemma find_put [smap_simps]:
  "smap_ok m \<Longrightarrow> smap_find (smap_put k v m) j = (if j = k then Some v else smap_find m j)"
proof (induction m)
  case Nil
  then show ?case by (simp add: smap_find_def)
next
  case (Cons e m)
  then show ?case
    by (cases e) (auto simp: smap_find_def smap_ok_Cons)
qed

lemma ok_put [smap_simps]: "smap_ok m \<Longrightarrow> smap_ok (smap_put k v m)"
proof (induction m)
  case Nil
  then show ?case by (simp add: smap_ok_def)
next
  case (Cons e m)
  have keys: "\<And>x. x \<in> set (smap_put k v m) \<Longrightarrow> fst x = k \<or> fst x \<in> fst ` set m"
    using keys_put [of k v m] by blast
  from Cons show ?case
    by (fastforce simp: smap_ok_Cons dest: keys)
qed

lemma find_erase [smap_simps]:
  "smap_find (smap_erase k m) j = (if j = k then None else smap_find m j)"
  by (induction m) (auto simp: smap_find_def smap_erase_def)

lemma ok_erase [smap_simps]: "smap_ok m \<Longrightarrow> smap_ok (smap_erase k m)"
  by (induction m) (auto simp: smap_ok_Cons smap_erase_def)

lemma find_None_iff: "smap_find m k = None \<longleftrightarrow> k \<notin> fst ` set m"
  by (simp add: smap_find_def map_of_eq_None_iff)

lemma find_SomeD: "smap_find m k = Some v \<Longrightarrow> (k, v) \<in> set m"
  by (simp add: smap_find_def map_of_SomeD)

lemma find_Some_iff: "smap_ok m \<Longrightarrow> smap_find m k = Some v \<longleftrightarrow> (k, v) \<in> set m"
  by (simp add: smap_find_def smap_ok_distinct)

lemma find_Nil [simp]: "smap_find [] k = None"
  by (simp add: smap_find_def)

lemma find_Cons: "smap_find (e # m) k = (if fst e = k then Some (snd e) else smap_find m k)"
  by (cases e) (simp add: smap_find_def)

lemma hd_least:
  assumes "smap_ok (e # m)" "smap_find (e # m) k \<noteq> None"
  shows "fst e \<le> k"
proof -
  have "k = fst e \<or> k \<in> fst ` set m" using assms(2) by (auto simp: find_None_iff)
  with assms(1) show ?thesis by (auto simp: smap_ok_Cons less_imp_le)
qed

lemma find_modify [smap_simps]:
  "smap_ok m \<Longrightarrow>
   smap_find (smap_modify d k f m) j = (if j = k then Some (f (smap_at d m k)) else smap_find m j)"
  by (simp add: smap_modify_def smap_simps)

lemma ok_modify [smap_simps]: "smap_ok m \<Longrightarrow> smap_ok (smap_modify d k f m)"
  by (simp add: smap_modify_def smap_simps)

lemma at_find [simp]: "smap_find m k = Some v \<Longrightarrow> smap_at d m k = v"
  by (simp add: smap_at_def)

lemma put_not_Nil [simp]: "smap_put k v m \<noteq> []"
  by (cases m) auto

lemma modify_not_Nil [simp]: "smap_modify d k f m \<noteq> []"
  by (simp add: smap_modify_def)

lemma set_put_cases: "e \<in> set (smap_put k v m) \<Longrightarrow> e = (k, v) \<or> e \<in> set m"
  by (induction m) (auto split: if_splits)

lemma set_erase_subset: "e \<in> set (smap_erase k m) \<Longrightarrow> e \<in> set m"
  by (simp add: smap_erase_def)

lemma map_keys_put_present:
  "smap_ok m \<Longrightarrow> k \<in> fst ` set m \<Longrightarrow> map fst (smap_put k v m) = map fst m"
proof (induction m)
  case Nil
  then show ?case by simp
next
  case (Cons e m)
  then show ?case by (force simp: smap_ok_Cons)
qed

lemma put_absent_length:
  "smap_ok m \<Longrightarrow> k \<notin> fst ` set m \<Longrightarrow> length (smap_put k v m) = Suc (length m)"
  by (induction m) (auto simp: smap_ok_Cons)

lemma put_same: "smap_ok m \<Longrightarrow> smap_find m k = Some v \<Longrightarrow> smap_put k v m = m"
proof (induction m)
  case Nil
  then show ?case by simp
next
  case (Cons e m)
  show ?case
  proof (cases "fst e = k")
    case True
    then show ?thesis using Cons.prems by (cases e) (simp add: find_Cons)
  next
    case False
    then have found: "smap_find m k = Some v" using Cons.prems by (simp add: find_Cons)
    then have "fst e < k" using Cons.prems(1) find_SomeD by (force simp: smap_ok_Cons)
    with False found Cons show ?thesis by (auto simp: smap_ok_Cons)
  qed
qed

text \<open>The number of entries whose value satisfies a predicate.\<close>

definition smap_count :: "('v \<Rightarrow> bool) \<Rightarrow> ('k, 'v) smap \<Rightarrow> nat" where
  "smap_count P m = length (filter (\<lambda>e. P (snd e)) m)"

lemma count_Nil [simp]: "smap_count P [] = 0"
  by (simp add: smap_count_def)

lemma count_Cons: "smap_count P (e # m) = of_bool (P (snd e)) + smap_count P m"
  by (simp add: smap_count_def)

lemma count_put:
  "smap_ok m \<Longrightarrow>
   smap_count P (smap_put k v m) + (case smap_find m k of None \<Rightarrow> 0 | Some u \<Rightarrow> of_bool (P u))
     = smap_count P m + of_bool (P v)"
proof (induction m)
  case Nil
  then show ?case by (simp add: count_Cons)
next
  case (Cons e m)
  have absent: "smap_find m k = None" if "k \<le> fst e"
    using Cons.prems that by (force simp: find_None_iff smap_ok_Cons)
  from Cons show ?case
    by (auto simp: count_Cons find_Cons smap_ok_Cons absent split: option.splits)
qed

lemma count_erase:
  "smap_ok m \<Longrightarrow>
   smap_count P (smap_erase k m) + (case smap_find m k of None \<Rightarrow> 0 | Some u \<Rightarrow> of_bool (P u))
     = smap_count P m"
proof (induction m)
  case Nil
  then show ?case by (simp add: smap_erase_def)
next
  case (Cons e m)
  have absent: "smap_find m (fst e) = None"
    using Cons.prems by (force simp: find_None_iff smap_ok_Cons)
  from Cons show ?case
    by (auto simp: count_Cons find_Cons smap_ok_Cons absent smap_erase_def split: option.splits)
qed

lemma count_put_le:
  assumes "smap_ok m" "P v \<Longrightarrow> \<exists>u. smap_find m k = Some u \<and> P u"
  shows "smap_count P (smap_put k v m) \<le> smap_count P m"
  using count_put [OF assms(1), of P k v] assms(2) by (cases "P v") (auto split: option.splits)

lemma count_put_Suc: "smap_ok m \<Longrightarrow> smap_count P (smap_put k v m) \<le> Suc (smap_count P m)"
  using count_put [of m P k v] by (cases "P v") auto

lemma count_erase_le: "smap_ok m \<Longrightarrow> smap_count P (smap_erase k m) \<le> smap_count P m"
  using count_erase [of m P k] by auto

lemma count_card:
  assumes ok: "smap_ok m"
  shows "card {k. \<exists>v. smap_find m k = Some v \<and> P v} = smap_count P m"
proof -
  have "{k. \<exists>v. smap_find m k = Some v \<and> P v} = set (map fst (filter (\<lambda>e. P (snd e)) m))"
    by (force simp: find_Some_iff [OF ok])
  moreover have "distinct (map fst (filter (\<lambda>e. P (snd e)) m))"
    using smap_ok_distinct [OF ok] by (simp add: distinct_map_filter)
  ultimately show ?thesis by (simp add: smap_count_def distinct_card del: set_map)
qed

lemma count_pos: "smap_find m k = Some v \<Longrightarrow> P v \<Longrightarrow> 0 < smap_count P m"
  by (induction m) (auto simp: count_Cons find_Cons split: if_splits)

lemma count_mono: "(\<And>v. P v \<Longrightarrow> Q v) \<Longrightarrow> smap_count P m \<le> smap_count Q m"
  by (induction m) (auto simp: count_Cons)

text \<open>What a client of an ordered map relies on, independent of the list behind it.\<close>

locale map_store =
  fixes find :: "'m \<Rightarrow> 'k \<Rightarrow> 'v option"
    and put :: "'k \<Rightarrow> 'v \<Rightarrow> 'm \<Rightarrow> 'm"
    and erase :: "'k \<Rightarrow> 'm \<Rightarrow> 'm"
    and ok :: "'m \<Rightarrow> bool"
  assumes store_put: "ok m \<Longrightarrow> find (put k v m) j = (if j = k then Some v else find m j)"
    and store_erase: "ok m \<Longrightarrow> find (erase k m) j = (if j = k then None else find m j)"
    and store_ok_put: "ok m \<Longrightarrow> ok (put k v m)"
    and store_ok_erase: "ok m \<Longrightarrow> ok (erase k m)"
begin

lemma dom_put: "ok m \<Longrightarrow> dom (find (put k v m)) = insert k (dom (find m))"
  by (auto simp: store_put dom_def)

lemma dom_erase: "ok m \<Longrightarrow> dom (find (erase k m)) = dom (find m) - {k}"
  by (auto simp: store_erase dom_def split: if_splits)

lemma put_put: "ok m \<Longrightarrow> find (put k w (put k v m)) = find (put k w m)"
  by (rule ext) (simp add: store_put store_ok_put)

lemma erase_put: "ok m \<Longrightarrow> find m k = None \<Longrightarrow> find (erase k (put k v m)) = find m"
  by (rule ext) (simp add: store_put store_erase store_ok_put)

end

interpretation sm: map_store smap_find smap_put smap_erase smap_ok
  by unfold_locales (simp_all add: smap_simps)

section \<open>Ordered sets\<close>

definition sset_insert :: "'k::linorder \<Rightarrow> 'k list \<Rightarrow> 'k list" where
  "sset_insert x s = (if x \<in> set s then s else insort x s)"

definition sset_erase :: "'k \<Rightarrow> 'k list \<Rightarrow> 'k list" where
  "sset_erase x s = filter (\<lambda>y. y \<noteq> x) s"

definition sset_ok :: "'k::linorder list \<Rightarrow> bool" where
  "sset_ok s \<longleftrightarrow> sorted s \<and> distinct s"

lemma set_sset_insert [simp]: "set (sset_insert x s) = insert x (set s)"
  by (auto simp: sset_insert_def set_insort_key)

lemma set_sset_erase [simp]: "set (sset_erase x s) = set s - {x}"
  by (auto simp: sset_erase_def)

lemma sset_ok_insert [smap_simps]: "sset_ok s \<Longrightarrow> sset_ok (sset_insert x s)"
  by (auto simp: sset_ok_def sset_insert_def sorted_insort distinct_insort)

lemma sset_ok_erase [smap_simps]: "sset_ok s \<Longrightarrow> sset_ok (sset_erase x s)"
  by (auto simp: sset_ok_def sset_erase_def sorted_wrt_filter)

lemma sset_ok_Nil [simp]: "sset_ok []"
  by (simp add: sset_ok_def)

end
