(* ===== verification/Byte_Buffer.thy ===== *)
theory Byte_Buffer
  imports Std_Map
begin

text \<open>
  \<^verbatim>\<open>src/server/shared/Packets/ByteBuffer.h\<close> and \<^verbatim>\<open>WorldPacket.h\<close>: the growable byte buffer with a
  read and a write position, the \<open><<\<close> and \<open>>>\<close> operators, packed GUIDs, and the packet that
  extends it with an opcode.  Positions are \<open>size_t\<close>, modelled as \<^typ>\<open>nat\<close> with the 64-bit
  wrap-around written out.  The build target is little endian, where \<open>EndianConvert\<close> is the
  identity.
\<close>

section \<open>State and errors\<close>

datatype bb_error =
    ByteBufferException bool nat nat nat   \<comment> \<open>add, pos, esize, size\<close>
  | AssertionFailed
  | BadAccess                              \<comment> \<open>an access outside the vector: undefined behaviour\<close>

record ByteBuffer =
  bb_rpos :: nat
  bb_wpos :: nat
  bb_storage :: "uint8 list"

record WorldPacket = ByteBuffer +
  m_opcode :: uint32

definition add64 :: "nat \<Rightarrow> nat \<Rightarrow> nat" where
  "add64 a b = (a + b) mod 2 ^ 64"

definition bb_size :: "'z ByteBuffer_scheme \<Rightarrow> nat" where
  "bb_size b = length (bb_storage b)"

definition bb_clear :: "'z ByteBuffer_scheme \<Rightarrow> 'z ByteBuffer_scheme" where
  "bb_clear b = b\<lparr>bb_storage := [], bb_rpos := 0, bb_wpos := 0\<rparr>"

definition bb_new :: ByteBuffer where
  "bb_new = \<lparr>bb_rpos = 0, bb_wpos = 0, bb_storage = []\<rparr>"

section \<open>Writing\<close>

definition bb_append :: "uint8 list \<Rightarrow> 'z ByteBuffer_scheme \<Rightarrow> bb_error + 'z ByteBuffer_scheme" where
  "bb_append src b =
     (if src = [] then Inr b
      else if \<not> bb_size b < 10000000 then Inl AssertionFailed
      else let e = add64 (bb_wpos b) (length src);
               st = (if bb_size b < e then bb_storage b @ replicate (e - bb_size b) 0
                     else bb_storage b)
           in if bb_wpos b + length src \<le> length st
              then Inr (b\<lparr>bb_storage := take (bb_wpos b) st @ src @ drop (bb_wpos b + length src) st,
                          bb_wpos := e\<rparr>)
              else Inl BadAccess)"

definition bb_put :: "nat \<Rightarrow> uint8 list \<Rightarrow> 'z ByteBuffer_scheme \<Rightarrow> bb_error + 'z ByteBuffer_scheme" where
  "bb_put pos src b =
     (if add64 pos (length src) > bb_size b
      then Inl (ByteBufferException True pos (length src) (bb_size b))
      else if pos + length src \<le> bb_size b
      then Inr (b\<lparr>bb_storage := take pos (bb_storage b) @ src @ drop (pos + length src) (bb_storage b)\<rparr>)
      else Inl BadAccess)"

definition bb_resize :: "nat \<Rightarrow> 'z ByteBuffer_scheme \<Rightarrow> 'z ByteBuffer_scheme" where
  "bb_resize n b =
     b\<lparr>bb_storage := take n (bb_storage b) @ replicate (n - bb_size b) 0, bb_rpos := 0, bb_wpos := n\<rparr>"

definition bb_append_buffer :: "ByteBuffer \<Rightarrow> 'z ByteBuffer_scheme \<Rightarrow> bb_error + 'z ByteBuffer_scheme" where
  "bb_append_buffer src b =
     (if bb_wpos src \<noteq> 0
      then if bb_wpos src \<le> bb_size src then bb_append (take (bb_wpos src) (bb_storage src)) b
           else Inl BadAccess
      else Inr b)"

text \<open>The object representation of an unsigned integer: its bytes, least significant first.\<close>

primrec le_bytes :: "nat \<Rightarrow> 'a::len word \<Rightarrow> uint8 list" where
  "le_bytes 0 w = []"
| "le_bytes (Suc n) w = ucast w # le_bytes n (drop_bit 8 w)"

fun le_word :: "uint8 list \<Rightarrow> 'a::len word" where
  "le_word [] = 0"
| "le_word (b # bs) = ucast b OR push_bit 8 (le_word bs)"

definition byte_of_char :: "char \<Rightarrow> uint8" where
  "byte_of_char c = of_nat (of_char c)"

definition char_of_byte :: "uint8 \<Rightarrow> char" where
  "char_of_byte b = char_of (unat b)"

definition out_u8 :: "uint8 \<Rightarrow> 'z ByteBuffer_scheme \<Rightarrow> bb_error + 'z ByteBuffer_scheme" where
  "out_u8 x = bb_append (le_bytes 1 x)"

definition out_u16 :: "uint16 \<Rightarrow> 'z ByteBuffer_scheme \<Rightarrow> bb_error + 'z ByteBuffer_scheme" where
  "out_u16 x = bb_append (le_bytes 2 x)"

definition out_u32 :: "uint32 \<Rightarrow> 'z ByteBuffer_scheme \<Rightarrow> bb_error + 'z ByteBuffer_scheme" where
  "out_u32 x = bb_append (le_bytes 4 x)"

definition out_u64 :: "uint64 \<Rightarrow> 'z ByteBuffer_scheme \<Rightarrow> bb_error + 'z ByteBuffer_scheme" where
  "out_u64 x = bb_append (le_bytes 8 x)"

definition out_float :: "uint32 \<Rightarrow> 'z ByteBuffer_scheme \<Rightarrow> bb_error + 'z ByteBuffer_scheme" where
  \<comment> \<open>the argument is the IEEE representation of the float\<close>
  "out_float x = bb_append (le_bytes 4 x)"

definition out_string :: "string \<Rightarrow> 'z ByteBuffer_scheme \<Rightarrow> bb_error + 'z ByteBuffer_scheme" where
  "out_string s b = bindE (bb_append (map byte_of_char s) b) (bb_append [0])"

text \<open>\<open>appendPackGUID\<close>: a mask byte that says which of the eight bytes follow, then those bytes.\<close>

function pack_guid_loop :: "nat \<Rightarrow> uint64 \<Rightarrow> uint8 \<Rightarrow> uint8 list \<Rightarrow> uint8 \<times> uint8 list" where
  "pack_guid_loop i guid mark bs =
     (if guid = 0 then (mark, bs)
      else if guid AND 255 \<noteq> 0
      then pack_guid_loop (Suc i) (drop_bit 8 guid) (mark OR push_bit i 1) (bs @ [ucast guid])
      else pack_guid_loop (Suc i) (drop_bit 8 guid) mark bs)"
  by pat_completeness auto

termination
  by (relation "measure (\<lambda>(i, guid, mark, bs). unat guid)") (auto simp: drop_bit_eq_div unat_div unat_gt_0)

declare pack_guid_loop.simps [simp del]

definition bb_appendPackGUID :: "uint64 \<Rightarrow> 'z ByteBuffer_scheme \<Rightarrow> bb_error + 'z ByteBuffer_scheme" where
  "bb_appendPackGUID guid b =
     (let (mark, bs) = pack_guid_loop 0 guid 0 [] in bb_append (mark # bs) b)"

section \<open>Reading\<close>

definition bb_read_at :: "nat \<Rightarrow> nat \<Rightarrow> 'z ByteBuffer_scheme \<Rightarrow> bb_error + uint8 list" where
  "bb_read_at n pos b =
     (if add64 pos n > bb_size b then Inl (ByteBufferException False pos n (bb_size b))
      else if pos + n \<le> bb_size b then Inr (take n (drop pos (bb_storage b)))
      else Inl BadAccess)"

definition bb_read :: "nat \<Rightarrow> 'z ByteBuffer_scheme \<Rightarrow> bb_error + uint8 list \<times> 'z ByteBuffer_scheme" where
  "bb_read n b =
     bindE (bb_read_at n (bb_rpos b) b) (\<lambda>bs. Inr (bs, b\<lparr>bb_rpos := add64 (bb_rpos b) n\<rparr>))"

definition bb_read_skip :: "nat \<Rightarrow> 'z ByteBuffer_scheme \<Rightarrow> bb_error + 'z ByteBuffer_scheme" where
  "bb_read_skip n b =
     (if add64 (bb_rpos b) n > bb_size b
      then Inl (ByteBufferException False (bb_rpos b) n (bb_size b))
      else Inr (b\<lparr>bb_rpos := add64 (bb_rpos b) n\<rparr>))"

definition bb_rfinish :: "'z ByteBuffer_scheme \<Rightarrow> 'z ByteBuffer_scheme" where
  "bb_rfinish b = b\<lparr>bb_rpos := bb_wpos b\<rparr>"

definition in_u8 :: "'z ByteBuffer_scheme \<Rightarrow> bb_error + uint8 \<times> 'z ByteBuffer_scheme" where
  "in_u8 b = bindE (bb_read 1 b) (\<lambda>(bs, b'). Inr (le_word bs, b'))"

definition in_u16 :: "'z ByteBuffer_scheme \<Rightarrow> bb_error + uint16 \<times> 'z ByteBuffer_scheme" where
  "in_u16 b = bindE (bb_read 2 b) (\<lambda>(bs, b'). Inr (le_word bs, b'))"

definition in_u32 :: "'z ByteBuffer_scheme \<Rightarrow> bb_error + uint32 \<times> 'z ByteBuffer_scheme" where
  "in_u32 b = bindE (bb_read 4 b) (\<lambda>(bs, b'). Inr (le_word bs, b'))"

definition in_u64 :: "'z ByteBuffer_scheme \<Rightarrow> bb_error + uint64 \<times> 'z ByteBuffer_scheme" where
  "in_u64 b = bindE (bb_read 8 b) (\<lambda>(bs, b'). Inr (le_word bs, b'))"

definition in_float :: "'z ByteBuffer_scheme \<Rightarrow> bb_error + uint32 \<times> 'z ByteBuffer_scheme" where
  "in_float b = bindE (bb_read 4 b) (\<lambda>(bs, b'). Inr (le_word bs, b'))"

definition in_bool :: "'z ByteBuffer_scheme \<Rightarrow> bb_error + bool \<times> 'z ByteBuffer_scheme" where
  \<comment> \<open>\<open>read<char>() > 0\<close>, with \<open>char\<close> signed\<close>
  "in_bool b = bindE (bb_read 1 b) (\<lambda>(bs, b'). Inr (sint (le_word bs :: uint8) > 0, b'))"

text \<open>
  \<open>>> std::string\<close> reads characters while the read position is inside the buffer and stops after
  a NUL.  The recursion is over the unread bytes; the second result is how many it consumed.
\<close>

fun cstr_scan :: "uint8 list \<Rightarrow> string \<times> nat" where
  "cstr_scan [] = ([], 0)"
| "cstr_scan (x # xs) =
     (if x = 0 then ([], 1)
      else case cstr_scan xs of (s, n) \<Rightarrow> (char_of_byte x # s, Suc n))"

definition in_string :: "'z ByteBuffer_scheme \<Rightarrow> bb_error + string \<times> 'z ByteBuffer_scheme" where
  "in_string b =
     (case cstr_scan (drop (bb_rpos b) (bb_storage b)) of
        (s, n) \<Rightarrow> Inr (s, b\<lparr>bb_rpos := bb_rpos b + n\<rparr>))"

fun read_pack_loop ::
  "uint8 \<Rightarrow> nat list \<Rightarrow> uint64 \<Rightarrow> 'z ByteBuffer_scheme \<Rightarrow> bb_error + uint64 \<times> 'z ByteBuffer_scheme" where
  "read_pack_loop mark [] guid b = Inr (guid, b)"
| "read_pack_loop mark (i # is) guid b =
     (if bit mark i
      then if add64 (bb_rpos b) 1 > bb_size b
           then Inl (ByteBufferException False (bb_rpos b) 1 (bb_size b))
           else bindE (in_u8 b) (\<lambda>(x, b'). read_pack_loop mark is (guid OR push_bit (i * 8) (ucast x)) b')
      else read_pack_loop mark is guid b)"

definition bb_readPackGUID :: "'z ByteBuffer_scheme \<Rightarrow> bb_error + uint64 \<times> 'z ByteBuffer_scheme" where
  "bb_readPackGUID b =
     (if add64 (bb_rpos b) 1 > bb_size b
      then Inl (ByteBufferException False (bb_rpos b) 1 (bb_size b))
      else bindE (in_u8 b) (\<lambda>(mark, b'). read_pack_loop mark [0..<8] 0 b'))"

section \<open>Containers\<close>

fun bb_write_many :: "('a \<Rightarrow> 'z ByteBuffer_scheme \<Rightarrow> bb_error + 'z ByteBuffer_scheme) \<Rightarrow> 'a list
    \<Rightarrow> 'z ByteBuffer_scheme \<Rightarrow> bb_error + 'z ByteBuffer_scheme" where
  "bb_write_many put [] b = Inr b"
| "bb_write_many put (x # xs) b = bindE (put x b) (bb_write_many put xs)"

definition bb_write_vector :: "('a \<Rightarrow> 'z ByteBuffer_scheme \<Rightarrow> bb_error + 'z ByteBuffer_scheme) \<Rightarrow> 'a list
    \<Rightarrow> 'z ByteBuffer_scheme \<Rightarrow> bb_error + 'z ByteBuffer_scheme" where
  "bb_write_vector put v b = bindE (out_u32 (of_nat (length v)) b) (bb_write_many put v)"

fun bb_read_many :: "('z ByteBuffer_scheme \<Rightarrow> bb_error + 'a \<times> 'z ByteBuffer_scheme) \<Rightarrow> nat
    \<Rightarrow> 'z ByteBuffer_scheme \<Rightarrow> bb_error + 'a list \<times> 'z ByteBuffer_scheme" where
  "bb_read_many get 0 b = Inr ([], b)"
| "bb_read_many get (Suc n) b =
     bindE (get b) (\<lambda>(x, b'). bindE (bb_read_many get n b') (\<lambda>(xs, b''). Inr (x # xs, b'')))"

definition bb_read_vector :: "('z ByteBuffer_scheme \<Rightarrow> bb_error + 'a \<times> 'z ByteBuffer_scheme)
    \<Rightarrow> 'z ByteBuffer_scheme \<Rightarrow> bb_error + 'a list \<times> 'z ByteBuffer_scheme" where
  "bb_read_vector get b = bindE (in_u32 b) (\<lambda>(n, b'). bb_read_many get (unat n) b')"

section \<open>Packets\<close>

text \<open>
  The code builds a packet by a sequence of \<open><<\<close>.  A \<open>packet\<close> value records the opcode and that
  sequence; \<open>wire\<close> performs it on the buffer, starting from \<open>WorldPacket::Initialize\<close>.
\<close>

datatype field = U8 uint8 | U16 uint16 | U32 uint32 | U64 uint64 | F32 uint32 | Str string

datatype packet = Packet uint32 "field list"

fun out_field :: "field \<Rightarrow> 'z ByteBuffer_scheme \<Rightarrow> bb_error + 'z ByteBuffer_scheme" where
  "out_field (U8 x) = out_u8 x"
| "out_field (U16 x) = out_u16 x"
| "out_field (U32 x) = out_u32 x"
| "out_field (U64 x) = out_u64 x"
| "out_field (F32 x) = out_float x"
| "out_field (Str s) = out_string s"

definition SMSG_MULTIPLE_PACKETS :: uint32 where
  "SMSG_MULTIPLE_PACKETS = 0xFEC0"

definition WorldPacket_Initialize :: "uint32 \<Rightarrow> bool \<Rightarrow> WorldPacket \<Rightarrow> bb_error + WorldPacket" where
  "WorldPacket_Initialize opcode hack p =
     (let p' = bb_clear p in
      if hack then out_u16 (ucast opcode) (p'\<lparr>m_opcode := SMSG_MULTIPLE_PACKETS\<rparr>)
      else Inr (p'\<lparr>m_opcode := opcode\<rparr>))"

definition WorldPacket_new :: WorldPacket where
  "WorldPacket_new = \<lparr>bb_rpos = 0, bb_wpos = 0, bb_storage = [], m_opcode = 0\<rparr>"

fun wire :: "packet \<Rightarrow> bb_error + WorldPacket" where
  "wire (Packet opc fs) =
     bindE (WorldPacket_Initialize opc False WorldPacket_new) (bb_write_many out_field fs)"

section \<open>Encodings of single values\<close>

definition bb_ok :: "'z ByteBuffer_scheme \<Rightarrow> bool" where
  "bb_ok b \<longleftrightarrow> bb_rpos b \<le> bb_size b \<and> bb_wpos b \<le> bb_size b \<and> bb_size b < 2 ^ 63"

definition bb_unread :: "'z ByteBuffer_scheme \<Rightarrow> uint8 list" where
  "bb_unread b = drop (bb_rpos b) (bb_storage b)"

definition bb_advance :: "nat \<Rightarrow> 'z ByteBuffer_scheme \<Rightarrow> 'z ByteBuffer_scheme" where
  "bb_advance n b = b\<lparr>bb_rpos := bb_rpos b + n\<rparr>"

lemma length_le_bytes [enc_simps, simp]: "length (le_bytes n w) = n"
  by (induction n arbitrary: w) auto

lemma le_word_le_bytes: "le_word (le_bytes n w) = take_bit (8 * n) w"
proof (induction n arbitrary: w)
  case 0
  then show ?case by simp
next
  case (Suc n)
  show ?case
    by (rule bit_word_eqI) (auto simp: Suc bit_simps)
qed

lemma le_word_le_bytes_full [simp]: "LENGTH('a) \<le> 8 * n \<Longrightarrow> le_word (le_bytes n w) = (w :: 'a::len word)"
  by (simp add: le_word_le_bytes take_bit_word_eq_self)

lemma char_of_byte_of_char [simp]: "char_of_byte (byte_of_char c) = c"
  by (simp add: char_of_byte_def byte_of_char_def unat_of_nat)

lemma byte_of_char_inj: "byte_of_char c = byte_of_char d \<Longrightarrow> c = d"
  by (metis char_of_byte_of_char)

lemma byte_of_char_eq_0_iff [simp]: "byte_of_char c = 0 \<longleftrightarrow> c = CHR 0x00"
proof -
  have "byte_of_char (CHR 0x00) = 0" by (simp add: byte_of_char_def)
  then show ?thesis by (metis byte_of_char_inj)
qed

lemma bb_read_ok:
  assumes "bb_ok b" "n < 2 ^ 63"
  shows "bb_read n b =
    (if n \<le> length (bb_unread b) then Inr (take n (bb_unread b), bb_advance n b)
     else Inl (ByteBufferException False (bb_rpos b) n (bb_size b)))"
  using assms
  by (auto simp: bb_read_def bb_read_at_def bb_ok_def bb_unread_def bb_advance_def bb_size_def add64_def)


lemma unread_advance [simp]: "bb_unread (bb_advance n b) = drop n (bb_unread b)"
  by (simp add: bb_unread_def bb_advance_def add.commute)

lemma advance_advance [simp]: "bb_advance m (bb_advance n b) = bb_advance (n + m) b"
  by (simp add: bb_advance_def add.assoc)

lemma advance_0 [simp]: "bb_advance 0 b = b"
  by (simp add: bb_advance_def)

lemma ok_advance: "bb_ok b \<Longrightarrow> n \<le> length (bb_unread b) \<Longrightarrow> bb_ok (bb_advance n b)"
  by (auto simp: bb_ok_def bb_advance_def bb_unread_def bb_size_def)

lemma bb_read_enc:
  assumes "bb_ok b" "bb_unread b = bs @ rest"
  shows "bb_read (length bs) b = Inr (bs, bb_advance (length bs) b)"
proof -
  have "length (bb_unread b) \<le> bb_size b" by (simp add: bb_unread_def bb_size_def)
  with assms have "length bs < 2 ^ 63" by (simp add: bb_ok_def)
  with assms show ?thesis by (simp add: bb_read_ok)
qed

lemma cstr_scan_enc:
  "CHR 0x00 \<notin> set s \<Longrightarrow> cstr_scan (map byte_of_char s @ 0 # rest) = (s, Suc (length s))"
  by (induction s) auto

section \<open>Codecs\<close>

text \<open>
  What a reader of a packet relies on: a value that was written is read back, and the read position
  moves past exactly its encoding.  Sequences and containers of codecs inherit it.
\<close>

locale stream_codec =
  fixes enc :: "'a \<Rightarrow> uint8 list"
    and get :: "'z ByteBuffer_scheme \<Rightarrow> bb_error + 'a \<times> 'z ByteBuffer_scheme"
    and valid :: "'a \<Rightarrow> bool"
  assumes get_enc: "bb_ok b \<Longrightarrow> valid x \<Longrightarrow> bb_unread b = enc x @ rest \<Longrightarrow>
      get b = Inr (x, bb_advance (length (enc x)) b)"
begin

lemma get_many:
  "bb_ok b \<Longrightarrow> (\<forall>x \<in> set xs. valid x) \<Longrightarrow> bb_unread b = concat (map enc xs) @ rest \<Longrightarrow>
   bb_read_many get (length xs) b = Inr (xs, bb_advance (length (concat (map enc xs))) b)"
proof (induction xs arbitrary: b)
  case Nil
  then show ?case by simp
next
  case (Cons x xs)
  have 1: "get b = Inr (x, bb_advance (length (enc x)) b)"
    using Cons.prems by (auto intro: get_enc)
  have ok: "bb_ok (bb_advance (length (enc x)) b)"
    using Cons.prems by (auto intro: ok_advance)
  have 2: "bb_read_many get (length xs) (bb_advance (length (enc x)) b)
      = Inr (xs, bb_advance (length (concat (map enc xs))) (bb_advance (length (enc x)) b))"
    by (rule Cons.IH [OF ok]) (use Cons.prems in auto)
  show ?case by (simp add: 1 2)
qed

end

lemma read_word:
  assumes "bb_ok b" "bb_unread b = le_bytes n w @ rest" "LENGTH('a) \<le> 8 * n"
  shows "bindE (bb_read n b) (\<lambda>(bs, b'). Inr (le_word bs, b')) = Inr (w :: 'a::len word, bb_advance n b)"
  using bb_read_enc [OF assms(1,2)] assms(3) by simp

interpretation c8: stream_codec "le_bytes 1" in_u8 "\<lambda>_. True"
  by unfold_locales (unfold in_u8_def length_le_bytes, rule read_word, auto)

interpretation c16: stream_codec "le_bytes 2" in_u16 "\<lambda>_. True"
  by unfold_locales (unfold in_u16_def length_le_bytes, rule read_word, auto)

interpretation c32: stream_codec "le_bytes 4" in_u32 "\<lambda>_. True"
  by unfold_locales (unfold in_u32_def length_le_bytes, rule read_word, auto)

interpretation c64: stream_codec "le_bytes 8" in_u64 "\<lambda>_. True"
  by unfold_locales (unfold in_u64_def length_le_bytes, rule read_word, auto)

interpretation cfloat: stream_codec "le_bytes 4" in_float "\<lambda>_. True"
  by unfold_locales (unfold in_float_def length_le_bytes, rule read_word, auto)

definition enc_string :: "string \<Rightarrow> uint8 list" where
  "enc_string s = map byte_of_char s @ [0]"

interpretation cstring: stream_codec enc_string in_string "\<lambda>s. CHR 0x00 \<notin> set s"
  by unfold_locales
    (auto simp: in_string_def enc_string_def bb_unread_def bb_advance_def cstr_scan_enc)

text \<open>A vector is its length as a \<open>uint32\<close> and then its elements.\<close>

definition enc_vector :: "('a \<Rightarrow> uint8 list) \<Rightarrow> 'a list \<Rightarrow> uint8 list" where
  "enc_vector enc xs = le_bytes 4 (of_nat (length xs) :: uint32) @ concat (map enc xs)"

context stream_codec
begin

lemma get_vector:
  assumes ok: "bb_ok b" and v: "\<forall>x \<in> set xs. valid x" and l: "length xs < 2 ^ 32"
    and u: "bb_unread b = enc_vector enc xs @ rest"
  shows "bb_read_vector get b = Inr (xs, bb_advance (length (enc_vector enc xs)) b)"
proof -
  have 1: "in_u32 b = Inr (of_nat (length xs), bb_advance 4 b)"
    using c32.get_enc [OF ok TrueI, of "of_nat (length xs)"] u by (simp add: enc_vector_def)
  have ok': "bb_ok (bb_advance 4 b)"
    using ok u by (auto intro!: ok_advance simp: enc_vector_def)
  have "bb_read_many get (length xs) (bb_advance 4 b)
      = Inr (xs, bb_advance (length (concat (map enc xs))) (bb_advance 4 b))"
    by (rule get_many [OF ok' v]) (simp add: u enc_vector_def)
  moreover have "unat (of_nat (length xs) :: uint32) = length xs"
    using l by (simp add: unat_of_nat)
  ultimately show ?thesis
    by (simp add: bb_read_vector_def 1 enc_vector_def)
qed

end

section \<open>Appending\<close>

text \<open>A buffer that is only appended to has its write position at the end.\<close>

definition bb_snoc :: "uint8 list \<Rightarrow> 'z ByteBuffer_scheme \<Rightarrow> 'z ByteBuffer_scheme" where
  "bb_snoc bs b = b\<lparr>bb_storage := bb_storage b @ bs, bb_wpos := bb_size b + length bs\<rparr>"

lemma snoc_simps [simp]:
  "bb_storage (bb_snoc bs b) = bb_storage b @ bs"
  "bb_wpos (bb_snoc bs b) = bb_size b + length bs"
  "bb_size (bb_snoc bs b) = bb_size b + length bs"
  "bb_rpos (bb_snoc bs b) = bb_rpos b"
  "bb_snoc bs (bb_snoc as b) = bb_snoc (as @ bs) b"
  by (simp_all add: bb_snoc_def bb_size_def)

lemma append_at_end:
  assumes "bb_wpos b = bb_size b" "bb_size b + length bs < 10000000"
  shows "bb_append bs b = Inr (bb_snoc bs b)"
proof (cases "bs = []")
  case True
  with assms show ?thesis by (simp add: bb_append_def bb_size_def bb_snoc_def)
next
  case False
  have "add64 (bb_size b) (length bs) = bb_size b + length bs"
    using assms by (simp add: add64_def)
  with assms False show ?thesis
    by (simp add: bb_append_def bb_size_def Let_def bb_snoc_def)
qed

text \<open>What a writer promises below the size assertion: exactly the encoding is appended.\<close>

locale stream_writer =
  fixes enc :: "'a \<Rightarrow> uint8 list"
    and put :: "'a \<Rightarrow> 'z ByteBuffer_scheme \<Rightarrow> bb_error + 'z ByteBuffer_scheme"
  assumes put_at_end: "bb_wpos b = bb_size b \<Longrightarrow> bb_size b + length (enc x) < 10000000 \<Longrightarrow>
      put x b = Inr (bb_snoc (enc x) b)"
begin

lemma write_many:
  "bb_wpos b = bb_size b \<Longrightarrow> bb_size b + length (concat (map enc xs)) < 10000000 \<Longrightarrow>
   bb_write_many put xs b = Inr (bb_snoc (concat (map enc xs)) b)"
proof (induction xs arbitrary: b)
  case Nil
  then show ?case by (simp add: bb_snoc_def bb_size_def)
next
  case (Cons x xs)
  then show ?case by (simp add: put_at_end)
qed

lemma write_vector:
  assumes "bb_wpos b = bb_size b" "bb_size b + length (enc_vector enc xs) < 10000000"
  shows "bb_write_vector put xs b = Inr (bb_snoc (enc_vector enc xs) b)"
  using assms
  by (simp add: bb_write_vector_def out_u32_def append_at_end enc_vector_def write_many)

end

locale stream_io = stream_codec enc get valid + stream_writer enc put
  for enc :: "'a \<Rightarrow> uint8 list"
    and get :: "'z ByteBuffer_scheme \<Rightarrow> bb_error + 'a \<times> 'z ByteBuffer_scheme"
    and valid :: "'a \<Rightarrow> bool"
    and put :: "'a \<Rightarrow> 'z ByteBuffer_scheme \<Rightarrow> bb_error + 'z ByteBuffer_scheme"
begin

lemma vector_io:
  assumes "bb_rpos b = bb_size b" "bb_wpos b = bb_size b" "\<forall>x \<in> set xs. valid x"
    and "length xs < 2 ^ 32" "bb_size b + length (enc_vector enc xs) < 10000000"
  shows "\<exists>b'. bb_write_vector put xs b = Inr b' \<and>
    bb_read_vector get b' = Inr (xs, bb_advance (length (enc_vector enc xs)) b')"
proof -
  let ?b = "bb_snoc (enc_vector enc xs) b"
  have "bb_ok ?b" "bb_unread ?b = enc_vector enc xs @ []"
    using assms by (simp_all add: bb_ok_def bb_unread_def bb_size_def)
  then have "bb_read_vector get ?b = Inr (xs, bb_advance (length (enc_vector enc xs)) ?b)"
    using assms by (intro get_vector)
  with assms show ?thesis by (simp add: write_vector)
qed

end

lemma out_string_at_end:
  assumes "bb_wpos b = bb_size b" "bb_size b + length (enc_string s) < 10000000"
  shows "out_string s b = Inr (bb_snoc (enc_string s) b)"
  using assms by (simp add: out_string_def enc_string_def append_at_end)

interpretation io8: stream_io "le_bytes 1" in_u8 "\<lambda>_. True" out_u8
  by unfold_locales (simp add: out_u8_def append_at_end del: le_bytes.simps)

interpretation io16: stream_io "le_bytes 2" in_u16 "\<lambda>_. True" out_u16
  by unfold_locales (simp add: out_u16_def append_at_end)

interpretation io32: stream_io "le_bytes 4" in_u32 "\<lambda>_. True" out_u32
  by unfold_locales (simp add: out_u32_def append_at_end)

interpretation io64: stream_io "le_bytes 8" in_u64 "\<lambda>_. True" out_u64
  by unfold_locales (simp add: out_u64_def append_at_end)

interpretation iofloat: stream_io "le_bytes 4" in_float "\<lambda>_. True" out_float
  by unfold_locales (simp add: out_float_def append_at_end)

interpretation iostring: stream_io enc_string in_string "\<lambda>s. CHR 0x00 \<notin> set s" out_string
  by unfold_locales (rule out_string_at_end)

section \<open>Packets on the wire\<close>

fun enc_field :: "field \<Rightarrow> uint8 list" where
  "enc_field (U8 x) = le_bytes 1 x"
| "enc_field (U16 x) = le_bytes 2 x"
| "enc_field (U32 x) = le_bytes 4 x"
| "enc_field (U64 x) = le_bytes 8 x"
| "enc_field (F32 x) = le_bytes 4 x"
| "enc_field (Str s) = enc_string s"

interpretation wfield: stream_writer enc_field out_field
proof unfold_locales
  fix b :: "'a ByteBuffer_scheme" and x
  assume "bb_wpos b = bb_size b" "bb_size b + length (enc_field x) < 10000000"
  then show "out_field x b = Inr (bb_snoc (enc_field x) b)"
    by (cases x) (simp_all add: io8.put_at_end io16.put_at_end io32.put_at_end io64.put_at_end
        iofloat.put_at_end iostring.put_at_end del: le_bytes.simps)
qed

lemma wire_bytes:
  assumes "length (concat (map enc_field fs)) < 10000000"
  shows "wire (Packet opc fs) =
    Inr \<lparr>bb_rpos = 0, bb_wpos = length (concat (map enc_field fs)),
         bb_storage = concat (map enc_field fs), m_opcode = opc\<rparr>"
  using assms
  by (simp add: WorldPacket_Initialize_def WorldPacket_new_def bb_clear_def wfield.write_many
      bb_size_def bb_snoc_def)

text \<open>
  \<open>data.put<uint32>(pos, x)\<close> on a packet whose field \<open>i\<close> begins at \<open>pos\<close>.  On the bytes it is \<open>put\<close>
  at the offset of that field.
\<close>

fun packet_put :: "nat \<Rightarrow> uint32 \<Rightarrow> packet \<Rightarrow> packet" where
  "packet_put i x (Packet opc fs) = Packet opc (fs[i := U32 x])"

lemma packet_put_is_put:
  assumes "length (concat (map enc_field (fs @ U32 y # gs))) < 10000000"
  shows "bindE (wire (Packet opc (fs @ U32 y # gs)))
      (bb_put (length (concat (map enc_field fs))) (le_bytes 4 x))
    = wire (packet_put (length fs) x (Packet opc (fs @ U32 y # gs)))"
proof -
  let ?n = "length (concat (map enc_field fs))"
  have n: "?n + 4 + length (concat (map enc_field gs)) < 10000000"
    using assms by simp
  then have "add64 ?n 4 = ?n + 4" by (simp add: add64_def)
  moreover have "wire (Packet opc (fs @ U32 x # gs)) =
      Inr \<lparr>bb_rpos = 0, bb_wpos = length (concat (map enc_field (fs @ U32 x # gs))),
         bb_storage = concat (map enc_field (fs @ U32 x # gs)), m_opcode = opc\<rparr>"
    using n by (intro wire_bytes) simp
  ultimately show ?thesis
    using n by (simp add: wire_bytes [OF assms] bb_put_def bb_size_def del: wire.simps le_bytes.simps)
qed

text \<open>The receiving side reads the fields in the order of their types.\<close>

datatype kind = KU8 | KU16 | KU32 | KU64 | KF32 | KStr

fun kind_of :: "field \<Rightarrow> kind" where
  "kind_of (U8 _) = KU8"
| "kind_of (U16 _) = KU16"
| "kind_of (U32 _) = KU32"
| "kind_of (U64 _) = KU64"
| "kind_of (F32 _) = KF32"
| "kind_of (Str _) = KStr"

fun in_field :: "kind \<Rightarrow> 'z ByteBuffer_scheme \<Rightarrow> bb_error + field \<times> 'z ByteBuffer_scheme" where
  "in_field KU8 b = bindE (in_u8 b) (\<lambda>(x, b'). Inr (U8 x, b'))"
| "in_field KU16 b = bindE (in_u16 b) (\<lambda>(x, b'). Inr (U16 x, b'))"
| "in_field KU32 b = bindE (in_u32 b) (\<lambda>(x, b'). Inr (U32 x, b'))"
| "in_field KU64 b = bindE (in_u64 b) (\<lambda>(x, b'). Inr (U64 x, b'))"
| "in_field KF32 b = bindE (in_float b) (\<lambda>(x, b'). Inr (F32 x, b'))"
| "in_field KStr b = bindE (in_string b) (\<lambda>(x, b'). Inr (Str x, b'))"

fun in_fields :: "kind list \<Rightarrow> 'z ByteBuffer_scheme \<Rightarrow> bb_error + field list \<times> 'z ByteBuffer_scheme" where
  "in_fields [] b = Inr ([], b)"
| "in_fields (k # ks) b =
     bindE (in_field k b) (\<lambda>(x, b'). bindE (in_fields ks b') (\<lambda>(xs, b''). Inr (x # xs, b'')))"

fun nul_free :: "field \<Rightarrow> bool" where
  "nul_free (Str s) = (CHR 0x00 \<notin> set s)"
| "nul_free _ = True"

interpretation cfield: stream_codec enc_field "in_field k" "\<lambda>f. kind_of f = k \<and> nul_free f" for k
proof unfold_locales
  fix b :: "'a ByteBuffer_scheme" and x rest
  assume ok: "bb_ok b" and v: "kind_of x = k \<and> nul_free x" and u: "bb_unread b = enc_field x @ rest"
  show "in_field k b = Inr (x, bb_advance (length (enc_field x)) b)"
    using v u
    by (cases x) (auto simp: c8.get_enc [OF ok] c16.get_enc [OF ok] c32.get_enc [OF ok]
        c64.get_enc [OF ok] cfloat.get_enc [OF ok] cstring.get_enc [OF ok] simp del: le_bytes.simps)
qed

lemma in_fields_enc:
  "bb_ok b \<Longrightarrow> \<forall>f \<in> set fs. nul_free f \<Longrightarrow> bb_unread b = concat (map enc_field fs) @ rest \<Longrightarrow>
   in_fields (map kind_of fs) b = Inr (fs, bb_advance (length (concat (map enc_field fs))) b)"
proof (induction fs arbitrary: b)
  case Nil
  then show ?case by simp
next
  case (Cons f fs)
  have 1: "in_field (kind_of f) b = Inr (f, bb_advance (length (enc_field f)) b)"
    using Cons.prems by (intro cfield.get_enc) auto
  have 2: "bb_ok (bb_advance (length (enc_field f)) b)"
    using Cons.prems by (intro ok_advance) auto
  from Cons.IH [OF 2] Cons.prems show ?case by (simp add: 1)
qed

section \<open>Packed GUIDs\<close>

definition guid_byte :: "uint64 \<Rightarrow> nat \<Rightarrow> uint8" where
  "guid_byte g k = ucast (drop_bit (8 * k) g)"

definition guid_bytes :: "uint64 \<Rightarrow> nat \<Rightarrow> uint8 list" where
  "guid_bytes g i = filter (\<lambda>x. x \<noteq> 0) (map (guid_byte g) [i..<8])"

lemma guid_bytes_step:
  "i < 8 \<Longrightarrow> guid_bytes g i = (if guid_byte g i = 0 then [] else [guid_byte g i]) @ guid_bytes g (Suc i)"
  by (simp add: guid_bytes_def upt_conv_Cons)

lemma guid_byte_drop: "ucast (drop_bit (8 * i) g) = guid_byte g i"
  by (simp add: guid_byte_def)

lemma guid_byte_and: "drop_bit (8 * i) g AND 255 = 0 \<longleftrightarrow> guid_byte g i = 0"
proof -
  have "drop_bit (8 * i) g AND 255 = take_bit 8 (drop_bit (8 * i) g)"
    by (simp add: take_bit_eq_mask mask_eq_exp_minus_1)
  also have "\<dots> = ucast (guid_byte g i)"
    by (rule bit_word_eqI) (auto simp: guid_byte_def bit_simps)
  finally have eq: "drop_bit (8 * i) g AND 255 = ucast (guid_byte g i)" .
  have "guid_byte g i = 0" if "(ucast (guid_byte g i) :: uint64) = 0"
  proof -
    have "(ucast (ucast (guid_byte g i) :: uint64) :: uint8) = guid_byte g i"
      by (rule bit_word_eqI) (auto simp: bit_simps)
    with that show ?thesis by simp
  qed
  then show ?thesis by (auto simp: eq)
qed

lemma guid_byte_zero: "drop_bit (8 * i) g = 0 \<Longrightarrow> i \<le> k \<Longrightarrow> guid_byte g k = 0"
proof -
  assume z: "drop_bit (8 * i) g = 0" and "i \<le> k"
  then obtain d where k: "k = i + d" using le_Suc_ex by blast
  have "drop_bit (8 * k) g = drop_bit (8 * d) (drop_bit (8 * i) g)"
    by (simp only: drop_bit_drop_bit k distrib_left add.commute)
  with z show ?thesis by (simp add: guid_byte_def)
qed

lemma pack_guid_loop_spec:
  assumes "i \<le> 8"
  shows "snd (pack_guid_loop i (drop_bit (8 * i) g) mark bs) = bs @ guid_bytes g i \<and>
    (\<forall>k < 8. bit (fst (pack_guid_loop i (drop_bit (8 * i) g) mark bs)) k =
      (bit mark k \<or> (i \<le> k \<and> guid_byte g k \<noteq> 0)))"
  using assms
proof (induction "8 - i" arbitrary: i mark bs)
  case 0
  then have i: "i = 8" by simp
  have "drop_bit 64 g = 0" by (rule bit_word_eqI) (auto simp: bit_simps)
  with i show ?case by (simp add: guid_bytes_def pack_guid_loop.simps [of 8])
next
  case (Suc n)
  let ?d = "drop_bit (8 * i) g"
  have i: "i < 8" "n = 8 - Suc i" using Suc.hyps by auto
  have nx: "drop_bit 8 ?d = drop_bit (8 * Suc i) g"
    by (simp add: add.commute)
  show ?case
  proof (cases "?d = 0")
    case True
    have z: "\<And>k. i \<le> k \<Longrightarrow> guid_byte g k = 0" using guid_byte_zero [OF True] .
    then have "guid_bytes g i = []" by (auto simp: guid_bytes_def filter_empty_conv)
    with True z show ?thesis by (auto simp: pack_guid_loop.simps [of i])
  next
    case False
    note IH = Suc.hyps(1) [of "Suc i", OF i(2) Suc_leI [OF i(1)]]
    have le: "\<And>k. i \<le> k \<longleftrightarrow> k = i \<or> Suc i \<le> k" by auto
    show ?thesis
    proof (cases "guid_byte g i = 0")
      case True
      have "pack_guid_loop i ?d mark bs = pack_guid_loop (Suc i) (drop_bit (8 * Suc i) g) mark bs"
        using False True by (subst pack_guid_loop.simps) (simp only: nx guid_byte_and simp_thms if_False if_True)
      with IH [of mark bs] True show ?thesis
        by (simp add: guid_bytes_step [OF i(1)] le) blast
    next
      case nz: False
      have "pack_guid_loop i ?d mark bs
          = pack_guid_loop (Suc i) (drop_bit (8 * Suc i) g) (mark OR push_bit i 1) (bs @ [guid_byte g i])"
        using False nz
        by (subst pack_guid_loop.simps) (simp only: nx guid_byte_and guid_byte_drop simp_thms if_False if_True)
      with IH [of "mark OR push_bit i 1" "bs @ [guid_byte g i]"] i nz show ?thesis
        by (simp add: guid_bytes_step [OF i(1)] le bit_simps) blast
    qed
  qed
qed


lemma take_bit_guid_step:
  "take_bit (8 * i) g OR push_bit (i * 8) (ucast (guid_byte g i)) = take_bit (8 * Suc i) g"
  by (rule bit_word_eqI) (auto simp: guid_byte_def bit_simps)

lemma take_bit_guid_skip:
  assumes "guid_byte g i = 0"
  shows "take_bit (8 * Suc i) g = take_bit (8 * i) g"
  using take_bit_guid_step [of i g] assms by simp

lemma read_pack_loop_spec:
  assumes "i \<le> 8" "bb_ok b" "bb_unread b = guid_bytes g i @ rest"
    and "\<forall>k < 8. bit mark k = (guid_byte g k \<noteq> 0)"
  shows "read_pack_loop mark [i..<8] (take_bit (8 * i) g) b
    = Inr (g, bb_advance (length (guid_bytes g i)) b)"
  using assms(1-3)
proof (induction "8 - i" arbitrary: i b)
  case 0
  then have i: "i = 8" by simp
  have "take_bit 64 g = g" by (simp add: take_bit_word_eq_self)
  with i show ?case by (simp add: guid_bytes_def)
next
  case (Suc n)
  have i: "i < 8" "n = 8 - Suc i" using Suc.hyps by auto
  note IH = Suc.hyps(1) [of "Suc i", OF i(2) Suc_leI [OF i(1)]]
  show ?case
  proof (cases "guid_byte g i = 0")
    case True
    then have "guid_bytes g i = guid_bytes g (Suc i)" using i by (simp add: guid_bytes_step)
    with IH [OF Suc.prems(2)] Suc.prems(3) True assms(4) i show ?thesis
      by (simp add: upt_conv_Cons take_bit_guid_skip del: mult_Suc_right)
  next
    case False
    have gb: "guid_bytes g i = guid_byte g i # guid_bytes g (Suc i)"
      using False i by (simp add: guid_bytes_step)
    have rd: "in_u8 b = Inr (guid_byte g i, bb_advance 1 b)"
      using c8.get_enc [OF Suc.prems(2) TrueI, of "guid_byte g i"] Suc.prems(3) by (simp add: gb)
    have room: "\<not> bb_size b < add64 (bb_rpos b) 1"
      using Suc.prems(2,3) by (auto simp: gb bb_ok_def bb_unread_def bb_size_def add64_def)
    have ok: "bb_ok (bb_advance 1 b)"
      using Suc.prems(2,3) by (intro ok_advance) (simp_all add: gb)
    have "read_pack_loop mark [Suc i..<8] (take_bit (8 * Suc i) g) (bb_advance 1 b)
        = Inr (g, bb_advance (length (guid_bytes g (Suc i))) (bb_advance 1 b))"
      by (rule IH [OF ok]) (use Suc.prems(3) gb in simp)
    moreover have "bit mark i" using False assms(4) i by simp
    ultimately show ?thesis
      using i rd room by (simp add: upt_conv_Cons take_bit_guid_step gb del: mult_Suc_right)
  qed
qed

definition enc_packguid :: "uint64 \<Rightarrow> uint8 list" where
  "enc_packguid g = fst (pack_guid_loop 0 g 0 []) # snd (pack_guid_loop 0 g 0 [])"

lemma pack_guid_bytes: "snd (pack_guid_loop 0 g 0 []) = guid_bytes g 0"
  and pack_guid_mark: "k < 8 \<Longrightarrow> bit (fst (pack_guid_loop 0 g 0 [])) k = (guid_byte g k \<noteq> 0)"
  using pack_guid_loop_spec [of 0 g 0 "[]"] by simp_all

lemma length_guid_bytes: "length (guid_bytes g i) \<le> 8"
  by (simp add: guid_bytes_def) (rule order_trans [OF length_filter_le], simp)

interpretation cguid: stream_codec enc_packguid bb_readPackGUID "\<lambda>_. True"
proof unfold_locales
  fix b :: "'a ByteBuffer_scheme" and x rest
  assume ok: "bb_ok b" and u: "bb_unread b = enc_packguid x @ rest"
  let ?m = "fst (pack_guid_loop 0 x 0 [])"
  have rd: "in_u8 b = Inr (?m, bb_advance 1 b)"
    using c8.get_enc [OF ok TrueI, of ?m] u by (simp add: enc_packguid_def)
  have room: "\<not> bb_size b < add64 (bb_rpos b) 1"
    using ok u by (auto simp: enc_packguid_def bb_ok_def bb_unread_def bb_size_def add64_def)
  have "bb_ok (bb_advance 1 b)"
    using ok u by (intro ok_advance) (simp_all add: enc_packguid_def)
  then have "read_pack_loop ?m [0..<8] (take_bit (8 * 0) x) (bb_advance 1 b)
      = Inr (x, bb_advance (length (guid_bytes x 0)) (bb_advance 1 b))"
    by (rule read_pack_loop_spec [OF le0])
      (use u in \<open>simp_all add: enc_packguid_def pack_guid_bytes pack_guid_mark\<close>)
  then show "bb_readPackGUID b = Inr (x, bb_advance (length (enc_packguid x)) b)"
    using rd room by (simp add: bb_readPackGUID_def enc_packguid_def pack_guid_bytes del: upt.simps)
qed


interpretation ioguid: stream_io enc_packguid bb_readPackGUID "\<lambda>_. True" bb_appendPackGUID
  by unfold_locales
    (simp add: bb_appendPackGUID_def enc_packguid_def append_at_end case_prod_beta)

section \<open>Properties\<close>

text \<open>
  C17 (round trip).  A packet built with any sequence of \<open><<\<close> from \<open>WorldPacket::Initialize\<close> holds
  exactly the concatenated encodings, and reading it with the \<open>>>\<close> operators of the same types
  gives the same values and ends at the write position, as long as the packet stays below the
  10,000,000 byte assertion of \<open>append\<close> and no string holds a NUL.
\<close>
theorem packet_roundtrip:
  assumes size: "length (concat (map enc_field fs)) < 10000000"
    and nul: "\<forall>f \<in> set fs. nul_free f"
  shows "\<exists>p. wire (Packet opc fs) = Inr p \<and> m_opcode p = opc \<and>
    bb_storage p = concat (map enc_field fs) \<and>
    in_fields (map kind_of fs) p = Inr (fs, p\<lparr>bb_rpos := bb_wpos p\<rparr>)"
proof -
  let ?p = "\<lparr>bb_rpos = 0, bb_wpos = length (concat (map enc_field fs)),
      bb_storage = concat (map enc_field fs), m_opcode = opc\<rparr>"
  have "bb_ok ?p" "bb_unread ?p = concat (map enc_field fs) @ []"
    using size by (simp_all add: bb_ok_def bb_unread_def bb_size_def)
  then have "in_fields (map kind_of fs) ?p
      = Inr (fs, bb_advance (length (concat (map enc_field fs))) ?p)"
    using nul by (intro in_fields_enc)
  with wire_bytes [OF size] show ?thesis by (simp add: bb_advance_def)
qed

theorem packet_roundtrip_witness:
  "\<exists>p. wire (Packet 0x7CAC [U8 5, Str ''World'', U64 7]) = Inr p \<and> m_opcode p = 0x7CAC \<and>
    in_fields [KU8, KStr, KU64] p = Inr ([U8 5, Str ''World'', U64 7], p\<lparr>bb_rpos := bb_wpos p\<rparr>)"
  using packet_roundtrip [of "[U8 5, Str ''World'', U64 7]" "0x7CAC"]
  by (auto simp: enc_string_def)

text \<open>
  \<open>appendPackGUID\<close> never writes more than the nine bytes of its local
  array, and \<open>readPackGUID\<close> reads back exactly the GUID, for every 64-bit GUID.
\<close>
theorem packguid_roundtrip:
  "\<exists>b. bb_appendPackGUID g bb_new = Inr b \<and> 1 \<le> bb_wpos b \<and> bb_wpos b \<le> 9 \<and>
    bb_readPackGUID b = Inr (g, b\<lparr>bb_rpos := bb_wpos b\<rparr>)"
proof -
  let ?b = "bb_snoc (enc_packguid g) bb_new"
  have len: "length (enc_packguid g) \<le> 9"
    using length_guid_bytes [of g 0] by (simp add: enc_packguid_def pack_guid_bytes)
  have w: "bb_appendPackGUID g bb_new = Inr ?b"
    using len by (intro ioguid.put_at_end) (simp_all add: bb_new_def bb_size_def)
  have "bb_ok ?b" "bb_unread ?b = enc_packguid g @ []"
    using len by (simp_all add: bb_ok_def bb_unread_def bb_new_def bb_size_def)
  then have "bb_readPackGUID ?b = Inr (g, bb_advance (length (enc_packguid g)) ?b)"
    by (intro cguid.get_enc TrueI)
  with w len show ?thesis
    by (auto simp: bb_advance_def bb_new_def bb_size_def enc_packguid_def)
qed

text \<open>
  C38 (safety).  On a buffer whose positions lie inside it, a read of \<open>n\<close> bytes either returns the
  next \<open>n\<close> bytes and moves past them or throws the exception that carries the read position, the
  size asked for and the buffer size; it never touches memory outside the buffer.
\<close>
theorem read_memory_safe:
  assumes "bb_ok b" "n < 2 ^ 63"
  shows "bb_read n b =
    (if n \<le> bb_size b - bb_rpos b
     then Inr (take n (drop (bb_rpos b) (bb_storage b)), b\<lparr>bb_rpos := bb_rpos b + n\<rparr>)
     else Inl (ByteBufferException False (bb_rpos b) n (bb_size b)))"
  using bb_read_ok [OF assms] by (simp add: bb_unread_def bb_advance_def bb_size_def)

theorem read_memory_safe_witness:
  "bb_ok \<lparr>bb_rpos = 1, bb_wpos = 2, bb_storage = [7, 9]\<rparr> \<and>
   bb_read 2 \<lparr>bb_rpos = 1, bb_wpos = 2, bb_storage = [7, 9]\<rparr> = Inl (ByteBufferException False 1 2 2)"
proof -
  have ok: "bb_ok \<lparr>bb_rpos = 1, bb_wpos = 2, bb_storage = [7, 9]\<rparr>"
    by (simp add: bb_ok_def bb_size_def)
  show ?thesis using read_memory_safe [OF ok, of 2] ok by (simp add: bb_size_def)
qed

text \<open>
  A \<open>std::vector\<close> of 64-bit values written with \<open><<\<close> is read back by \<open>>>\<close>: the
  element count precedes the elements, and the reader consumes exactly what was written.
\<close>
theorem vector_roundtrip:
  assumes "4 + 8 * length v < 10000000"
  shows "\<exists>b. bb_write_vector out_u64 v bb_new = Inr b \<and>
    bb_read_vector in_u64 b = Inr (v, b\<lparr>bb_rpos := bb_wpos b\<rparr>)"
proof -
  have len: "length (enc_vector (le_bytes 8) v) = 4 + 8 * length v"
    by (simp add: enc_vector_def length_concat comp_def sum_list_triv)
  obtain b where b: "bb_write_vector out_u64 v bb_new = Inr b"
      "bb_read_vector in_u64 b = Inr (v, bb_advance (length (enc_vector (le_bytes 8) v)) b)"
    using io64.vector_io [of bb_new v] assms len by (auto simp: bb_new_def bb_size_def)
  have "b = bb_snoc (enc_vector (le_bytes 8) v) bb_new"
    using b(1) io64.write_vector [of bb_new v] assms len by (simp add: bb_new_def bb_size_def)
  with b show ?thesis by (auto simp: bb_advance_def bb_new_def bb_size_def)
qed

theorem vector_roundtrip_witness:
  "\<exists>b. bb_write_vector out_u64 [1, 2 ^ 40] bb_new = Inr b \<and>
    bb_read_vector in_u64 b = Inr ([1, 2 ^ 40], b\<lparr>bb_rpos := bb_wpos b\<rparr>)"
  using vector_roundtrip [of "[1, 2 ^ 40]"] by simp

end
