(* ===== verification/Util_Strings.thy ===== *)
theory Util_Strings
  imports Prelude "HOL-Library.Sublist"
begin

text \<open>
  The string routines of \<^verbatim>\<open>src/server/shared/Utilities/Util.cpp\<close>: the tokenizer, the
  time-span printer and parser, the chat-line filter and the hexadecimal encoder, with the decimal
  output of \<open>ostream\<close> and the \<open>atol\<close> they are used with.  A \<open>std::string\<close> is a \<^typ>\<open>char list\<close> of bytes.
\<close>

section \<open>Numbers\<close>

definition digit_char :: "nat \<Rightarrow> char" where
  "digit_char d = char_of (48 + d)"

definition isdigit :: "char \<Rightarrow> bool" where
  "isdigit c \<longleftrightarrow> 48 \<le> (of_char c :: nat) \<and> (of_char c :: nat) \<le> 57"

definition digit_val :: "char \<Rightarrow> nat" where
  "digit_val c = of_char c - 48"

text \<open>\<open>os << n\<close> for an unsigned \<open>n\<close>.\<close>

fun dec_string :: "nat \<Rightarrow> string" where
  "dec_string n = (if n < 10 then [digit_char n] else dec_string (n div 10) @ [digit_char (n mod 10)])"

declare dec_string.simps [simp del]

text \<open>
  \<open>atol\<close> of the C library on a 64-bit \<open>long\<close>: white space, an optional sign, the longest run of
  digits; out of range saturates.
\<close>

definition isspace :: "char \<Rightarrow> bool" where
  "isspace c \<longleftrightarrow> c = CHR '' '' \<or> (9 \<le> (of_char c :: nat) \<and> (of_char c :: nat) \<le> 13)"

fun digits_val :: "nat \<Rightarrow> string \<Rightarrow> nat" where
  "digits_val acc [] = acc"
| "digits_val acc (c # cs) = (if isdigit c then digits_val (10 * acc + digit_val c) cs else acc)"

definition atol :: "string \<Rightarrow> int" where
  "atol s =
     (let t = dropWhile isspace s;
          v = (case t of
                 [] \<Rightarrow> 0
               | c # cs \<Rightarrow> if c = CHR ''-'' then - int (digits_val 0 cs)
                          else if c = CHR ''+'' then int (digits_val 0 cs)
                          else int (digits_val 0 t))
      in max (- (2 ^ 63)) (min (2 ^ 63 - 1) v))"

section \<open>Tokens\<close>

text \<open>
  \<open>Tokens::Tokens\<close>: \<open>acc\<close> is the text between \<open>posold\<close> and \<open>posnew\<close>.  The copy ends at the first NUL.
\<close>

fun Tokens_loop :: "char \<Rightarrow> string \<Rightarrow> string \<Rightarrow> string list" where
  "Tokens_loop sep acc [] = (if acc \<noteq> [] then [acc] else [])"
| "Tokens_loop sep acc (c # cs) =
     (if c = sep then acc # Tokens_loop sep [] cs
      else if c = CHR 0x00 then (if acc \<noteq> [] then [acc] else [])
      else Tokens_loop sep (acc @ [c]) cs)"

definition Tokens :: "string \<Rightarrow> char \<Rightarrow> string list" where
  "Tokens src sep = Tokens_loop sep [] src"

section \<open>Time spans\<close>

definition MINUTE :: nat where "MINUTE = 60"
definition HOUR :: nat where "HOUR = 3600"
definition DAY :: nat where "DAY = 86400"

definition secsToTimeString :: "nat \<Rightarrow> bool \<Rightarrow> bool \<Rightarrow> string" where
  "secsToTimeString timeInSecs shortText hoursOnly =
     (let secs = timeInSecs mod MINUTE;
          minutes = timeInSecs mod HOUR div MINUTE;
          hours = timeInSecs mod DAY div HOUR;
          days = timeInSecs div DAY
      in (if days \<noteq> 0 then dec_string days @ (if shortText then ''d'' else '' Day(s) '') else [])
         @ (if hours \<noteq> 0 \<or> hoursOnly
            then dec_string hours @ (if shortText then ''h'' else '' Hour(s) '') else [])
         @ (if \<not> hoursOnly
            then (if minutes \<noteq> 0
                  then dec_string minutes @ (if shortText then ''m'' else '' Minute(s) '') else [])
                 @ (if secs \<noteq> 0 \<or> (days = 0 \<and> hours = 0 \<and> minutes = 0)
                    then dec_string secs @ (if shortText then ''s'' else '' Second(s).'') else [])
            else []))"

definition time_multiplier :: "char \<Rightarrow> uint32 option" where
  "time_multiplier c =
     (if c = CHR ''d'' then Some (of_nat DAY)
      else if c = CHR ''h'' then Some (of_nat HOUR)
      else if c = CHR ''m'' then Some (of_nat MINUTE)
      else if c = CHR ''s'' then Some 1
      else None)"

fun TimeStringToSecs_loop :: "uint32 \<Rightarrow> uint32 \<Rightarrow> string \<Rightarrow> uint32" where
  "TimeStringToSecs_loop secs buffer [] = secs"
| "TimeStringToSecs_loop secs buffer (c # cs) =
     (if isdigit c then TimeStringToSecs_loop secs (buffer * 10 + of_nat (digit_val c)) cs
      else case time_multiplier c of
             None \<Rightarrow> 0
           | Some multiplier \<Rightarrow> TimeStringToSecs_loop (secs + buffer * multiplier) 0 cs)"

definition TimeStringToSecs :: "string \<Rightarrow> uint32" where
  "TimeStringToSecs timestring = TimeStringToSecs_loop 0 0 timestring"

section \<open>The chat-line filter\<close>

definition invChars :: string where
  "invChars = [CHR '' '', CHR 0x09, CHR 0x07, CHR 0x0A]"

text \<open>One iteration of the in-place loop, over the string, the write position and the flag.\<close>

definition strip_step :: "string \<times> nat \<times> bool \<Rightarrow> nat \<Rightarrow> string \<times> nat \<times> bool" where
  "strip_step st pos =
     (case st of (str, wpos, space) \<Rightarrow>
        if str ! pos \<in> set invChars
        then if \<not> space then (str[wpos := CHR '' ''], Suc wpos, True) else (str, wpos, space)
        else if wpos \<noteq> pos then (str[wpos := str ! pos], Suc wpos, False)
        else (str, Suc wpos, False))"

definition stripLineInvisibleChars :: "string \<Rightarrow> string" where
  "stripLineInvisibleChars str =
     (case foldl strip_step (str, 0, False) [0..<length str] of
        (str', wpos, _) \<Rightarrow>
          let r = (if wpos < length str' then take wpos str' else str')
          in if sublist ''|TInterface'' r then [] else r)"

section \<open>Hexadecimal output\<close>

definition hex_char :: "uint8 \<Rightarrow> char" where
  "hex_char nibble =
     (if unat nibble < 10 then char_of (48 + unat nibble) else char_of (65 + unat nibble - 10))"

definition hexEncodeByteArray :: "uint8 list \<Rightarrow> string" where
  "hexEncodeByteArray bytes =
     concat (map (\<lambda>b. map (\<lambda>j. hex_char (15 AND drop_bit ((1 - j) * 4) b)) [0, 1]) bytes)"

section \<open>Lemmas on digits\<close>

lemma isdigit_digit_char [simp]: "d < 10 \<Longrightarrow> isdigit (digit_char d)"
  by (simp add: isdigit_def digit_char_def)

lemma digit_val_digit_char [simp]: "d < 10 \<Longrightarrow> digit_val (digit_char d) = d"
  by (simp add: digit_val_def digit_char_def)

lemma dec_string_digits: "\<forall>c \<in> set (dec_string n). isdigit c"
  by (induction n rule: dec_string.induct) (subst dec_string.simps, auto)

lemma dec_string_nonempty [simp]: "dec_string n \<noteq> []"
  by (subst dec_string.simps) simp

lemma digits_val_append:
  "\<forall>c \<in> set xs. isdigit c \<Longrightarrow> digits_val acc (xs @ ys) = digits_val (digits_val acc xs) ys"
  by (induction xs arbitrary: acc) auto

lemma digits_val_dec_string: "digits_val 0 (dec_string n) = n"
proof (induction n rule: dec_string.induct)
  case (1 n)
  show ?case
  proof (cases "n < 10")
    case True
    then show ?thesis by (subst dec_string.simps) simp
  next
    case False
    then show ?thesis
      using "1" dec_string_digits [of "n div 10"]
      by (subst dec_string.simps) (simp add: digits_val_append)
  qed
qed

lemma not_isdigit_simps [simp]:
  "\<not> isdigit (CHR '' '')" "\<not> isdigit (CHR ''-'')" "\<not> isdigit (CHR ''+'')" "\<not> isdigit (CHR 0x00)"
  "\<not> isdigit (CHR ''d'')" "\<not> isdigit (CHR ''h'')" "\<not> isdigit (CHR ''m'')" "\<not> isdigit (CHR ''s'')"
  by (simp_all add: isdigit_def)

lemma isdigit_not_isspace: "isdigit c \<Longrightarrow> \<not> isspace c"
  by (auto simp: isdigit_def isspace_def)

lemma atol_dec_string:
  assumes "n < 2 ^ 63"
  shows "atol (dec_string n) = int n"
proof -
  obtain c cs where s: "dec_string n = c # cs" by (cases "dec_string n") simp_all
  with dec_string_digits [of n] have c: "isdigit c" by simp
  then have "c \<noteq> CHR ''-''" "c \<noteq> CHR ''+''" by auto
  with c s digits_val_dec_string [of n] assms show ?thesis
    by (simp add: atol_def isdigit_not_isspace)
qed

section \<open>Tokens of joined text\<close>

lemma Tokens_loop_piece:
  "sep \<notin> set t \<Longrightarrow> CHR 0x00 \<notin> set t \<Longrightarrow> sep \<noteq> CHR 0x00 \<Longrightarrow>
   Tokens_loop sep acc (t @ sep # rest) = (acc @ t) # Tokens_loop sep [] rest"
  by (induction t arbitrary: acc) auto

lemma Tokens_loop_joined:
  "sep \<noteq> CHR 0x00 \<Longrightarrow> \<forall>t \<in> set ts. sep \<notin> set t \<and> CHR 0x00 \<notin> set t \<Longrightarrow>
   Tokens_loop sep [] (concat (map (\<lambda>t. t @ [sep]) ts)) = ts"
  by (induction ts) (simp_all add: Tokens_loop_piece)

section \<open>Time spans read back\<close>

lemma TSS_digits:
  "\<forall>c \<in> set xs. isdigit c \<Longrightarrow>
   TimeStringToSecs_loop secs (of_nat acc) (xs @ ys)
     = TimeStringToSecs_loop secs (of_nat (digits_val acc xs)) ys"
proof (induction xs arbitrary: acc)
  case Nil
  then show ?case by simp
next
  case (Cons x xs)
  from Cons.prems Cons.IH [of "10 * acc + digit_val x"] show ?case
    by (simp add: mult.commute)
qed

lemma TSS_unit:
  assumes "time_multiplier u = Some m" "\<not> isdigit u"
  shows "TimeStringToSecs_loop secs 0 (dec_string n @ u # rest)
    = TimeStringToSecs_loop (secs + of_nat n * m) 0 rest"
  using TSS_digits [of "dec_string n" secs 0 "u # rest"] assms
  by (simp add: dec_string_digits digits_val_dec_string)

lemmas TSS_units =
  TSS_unit [of "CHR ''d''" "of_nat DAY"] TSS_unit [of "CHR ''h''" "of_nat HOUR"]
  TSS_unit [of "CHR ''m''" "of_nat MINUTE"] TSS_unit [of "CHR ''s''" 1]

lemma time_multiplier_simps [simp]:
  "time_multiplier (CHR ''d'') = Some (of_nat DAY)"
  "time_multiplier (CHR ''h'') = Some (of_nat HOUR)"
  "time_multiplier (CHR ''m'') = Some (of_nat MINUTE)"
  "time_multiplier (CHR ''s'') = Some 1"
  by (simp_all add: time_multiplier_def)

lemma split_seconds:
  "t = t div DAY * DAY + t mod DAY div HOUR * HOUR + t mod HOUR div MINUTE * MINUTE + t mod MINUTE"
proof -
  have 1: "t mod DAY mod HOUR = t mod HOUR" "t mod HOUR mod MINUTE = t mod MINUTE"
    by (simp_all add: DAY_def HOUR_def MINUTE_def mod_mod_cancel)
  have "t = t div DAY * DAY + t mod DAY" by simp
  also have "t mod DAY = t mod DAY div HOUR * HOUR + t mod HOUR"
    using div_mult_mod_eq [of "t mod DAY" HOUR] 1 by simp
  also have "t mod HOUR = t mod HOUR div MINUTE * MINUTE + t mod MINUTE"
    using div_mult_mod_eq [of "t mod HOUR" MINUTE] 1 by simp
  finally show ?thesis by (simp add: add.assoc)
qed

lemma TSS_secsToTimeString:
  "TimeStringToSecs (secsToTimeString t True False) = of_nat t"
proof -
  let ?d = "t div DAY" and ?h = "t mod DAY div HOUR" and ?m = "t mod HOUR div MINUTE" and ?s = "t mod MINUTE"
  have "TimeStringToSecs (secsToTimeString t True False)
      = of_nat ?d * of_nat DAY + of_nat ?h * of_nat HOUR + of_nat ?m * of_nat MINUTE + of_nat ?s"
    by (simp add: TimeStringToSecs_def secsToTimeString_def Let_def TSS_units)
  also have "\<dots> = (of_nat (?d * DAY + ?h * HOUR + ?m * MINUTE + ?s) :: uint32)"
    by simp
  also have "\<dots> = of_nat t" using split_seconds [of t] by simp
  finally show ?thesis .
qed

section \<open>The in-place filter against its specification\<close>

text \<open>Every run of invisible characters becomes one space.\<close>

fun squeeze :: "bool \<Rightarrow> string \<Rightarrow> string" where
  "squeeze sp [] = []"
| "squeeze sp (c # cs) =
     (if c \<in> set invChars then (if sp then squeeze True cs else CHR '' '' # squeeze True cs)
      else c # squeeze False cs)"

lemma length_squeeze: "length (squeeze sp s) \<le> length s"
  by (induction s arbitrary: sp) (auto intro: le_SucI)

definition emit :: "bool \<Rightarrow> char \<Rightarrow> string" where
  "emit sp c = (if c \<in> set invChars then (if sp then [] else '' '') else [c])"

lemma squeeze_Cons: "squeeze sp (c # cs) = emit sp c @ squeeze (c \<in> set invChars) cs"
  by (simp add: emit_def)

lemma foldl_upt_Cons:
  "foldl f st [p..<p + length (c # cs)] = foldl f (f st p) [Suc p..<Suc p + length cs]"
proof -
  have "[p..<p + length (c # cs)] = p # [Suc p..<Suc p + length cs]"
    by (subst upt_conv_Cons) simp_all
  then show ?thesis by simp
qed

text \<open>
  The loop invariant: the string is the output so far, then characters already consumed, then the
  part it has not reached, which is untouched.  One iteration moves one character.
\<close>

lemma update_gap:
  assumes "length out \<le> p" "length mid = p - length out"
  shows "\<exists>mid'. (out @ mid @ c # cs)[length out := x] = (out @ [x]) @ mid' @ cs
    \<and> length mid' = Suc p - length (out @ [x])"
proof (cases mid)
  case Nil
  with assms show ?thesis by (intro exI [of _ "[]"]) (simp add: list_update_append)
next
  case (Cons y ys)
  with assms show ?thesis by (intro exI [of _ "ys @ [c]"]) (auto simp: list_update_append)
qed

lemma strip_step_spec:
  assumes "length out \<le> p" "length mid = p - length out"
  shows "\<exists>mid'. strip_step (out @ mid @ c # cs, length out, sp) p
      = ((out @ emit sp c) @ mid' @ cs, length (out @ emit sp c), c \<in> set invChars)
    \<and> length mid' = Suc p - length (out @ emit sp c)"
proof -
  have nth: "(out @ mid @ c # cs) ! p = c"
    using assms by (simp add: nth_append)
  consider (skip) "c \<in> set invChars" sp | (blank) "c \<in> set invChars" "\<not> sp" | (copy) "c \<notin> set invChars"
    by blast
  then show ?thesis
  proof cases
    case skip
    with assms nth show ?thesis
      by (intro exI [of _ "mid @ [c]"]) (auto simp: strip_step_def emit_def)
  next
    case blank
    with nth update_gap [OF assms, of c cs "CHR '' ''"] show ?thesis
      by (simp add: strip_step_def emit_def)
  next
    case copy
    have "length out = p \<Longrightarrow> (out @ mid @ c # cs)[length out := c] = out @ mid @ c # cs"
      using nth by (metis list_update_id)
    with copy nth update_gap [OF assms, of c cs c] show ?thesis
      by (auto simp: strip_step_def emit_def)
  qed
qed

lemma strip_loop:
  assumes "length out \<le> p" "length mid = p - length out"
  shows "\<exists>tl sp'. foldl strip_step (out @ mid @ s, length out, sp) [p..<p + length s]
     = (out @ squeeze sp s @ tl, length (out @ squeeze sp s), sp')"
  using assms
proof (induction s arbitrary: out mid p sp)
  case Nil
  then show ?case by (auto intro!: exI [of _ mid])
next
  case (Cons c cs)
  obtain mid' where st: "strip_step (out @ mid @ c # cs, length out, sp) p
      = ((out @ emit sp c) @ mid' @ cs, length (out @ emit sp c), c \<in> set invChars)"
      "length mid' = Suc p - length (out @ emit sp c)"
    using strip_step_spec [OF Cons.prems] by blast
  have "length (out @ emit sp c) \<le> Suc p"
    using Cons.prems by (simp add: emit_def)
  then show ?case
    using Cons.IH [of "out @ emit sp c" "Suc p" mid' "c \<in> set invChars"] st
    by (simp only: foldl_upt_Cons squeeze_Cons append_assoc)
qed

lemma strip_is_squeeze:
  "stripLineInvisibleChars s =
    (if sublist ''|TInterface'' (squeeze False s) then [] else squeeze False s)"
proof -
  obtain tl sp' where f: "foldl strip_step (s, 0, False) [0..<length s]
      = (squeeze False s @ tl, length (squeeze False s), sp')"
    using strip_loop [of "[]" 0 "[]" s False] by auto
  show ?thesis
    by (auto simp: stripLineInvisibleChars_def f Let_def)
qed

lemma squeeze_idem: "squeeze sp (squeeze sp s) = squeeze sp s"
proof -
  have "CHR '' '' \<in> set invChars" by (simp add: invChars_def)
  then show ?thesis by (induction s arbitrary: sp) auto
qed

lemma squeeze_no_invisible: "c \<in> set (squeeze sp s) \<Longrightarrow> c \<in> set invChars \<Longrightarrow> c = CHR '' ''"
  by (induction s arbitrary: sp) (auto split: if_splits)

section \<open>Hexadecimal\<close>

lemma length_hexEncode: "length (hexEncodeByteArray bs) = 2 * length bs"
  by (induction bs) (simp_all add: hexEncodeByteArray_def)

section \<open>Properties\<close>

text \<open>
  Parsing the short form of a printed time span gives the span back, modulo the
  32 bits of the parser's counters; below \<open>2^32\<close> seconds it is exact.
\<close>
theorem time_string_roundtrip:
  "unat (TimeStringToSecs (secsToTimeString t True False)) = t mod 2 ^ 32"
  by (simp add: TSS_secsToTimeString unat_of_nat)

text \<open>
  C40 (equivalence).  The in-place loop of \<open>stripLineInvisibleChars\<close>, which writes behind its own read
  position, computes the reference function: every run of invisible characters becomes one space,
  and a text with an embedded texture link is emptied.  The result has no invisible character but
  spaces, is never longer than the input, and filtering it again changes nothing.
\<close>
theorem strip_line_spec:
  "stripLineInvisibleChars s =
     (if sublist ''|TInterface'' (squeeze False s) then [] else squeeze False s)
   \<and> length (stripLineInvisibleChars s) \<le> length s
   \<and> set (stripLineInvisibleChars s) \<inter> set invChars \<subseteq> {CHR '' ''}
   \<and> stripLineInvisibleChars (stripLineInvisibleChars s) = stripLineInvisibleChars s"
  using squeeze_no_invisible [of _ False s] length_squeeze [of False s]
  by (auto simp: strip_is_squeeze squeeze_idem)

text \<open>
  Splitting a text in which every token is followed by the separator gives the
  tokens back, whatever they hold besides the separator and NUL.
\<close>
theorem tokens_of_joined:
  assumes "sep \<noteq> CHR 0x00" "\<forall>t \<in> set ts. sep \<notin> set t \<and> CHR 0x00 \<notin> set t"
  shows "Tokens (concat (map (\<lambda>t. t @ [sep]) ts)) sep = ts"
  using assms by (simp add: Tokens_def Tokens_loop_joined)

theorem tokens_of_joined_witness:
  "Tokens ''17 4 '' (CHR '' '') = [''17'', ''4'']"
  using tokens_of_joined [of "CHR '' ''" "[''17'', ''4'']"] by simp

end
