(* ===== verification/Timers.thy ===== *)
theory Timers
  imports Prelude
begin

text \<open>
  \<^verbatim>\<open>src/server/shared/Utilities/Timer.h\<close> (millisecond clocks and the interval, countdown and periodic
  timers) and \<^verbatim>\<open>EventProcessor.cpp\<close> (the queue of delayed events every unit owns).  \<open>time_t\<close> is a
  mathematical integer, \<open>int32\<close> wraps in two's complement, \<open>uint32\<close> and \<open>uint64\<close> are words.
\<close>

section \<open>Clocks and timers\<close>

definition getMSTimeDiff :: "uint32 \<Rightarrow> uint32 \<Rightarrow> uint32" where
  "getMSTimeDiff oldMSTime newMSTime =
     (if oldMSTime > newMSTime then (0xFFFFFFFF - oldMSTime) + newMSTime
      else newMSTime - oldMSTime)"

record IntervalTimer =
  it_interval :: int
  it_current :: int

definition IntervalTimer_Update :: "int \<Rightarrow> IntervalTimer \<Rightarrow> IntervalTimer" where
  "IntervalTimer_Update diff t =
     (let c = it_current t + diff in t\<lparr>it_current := (if c < 0 then 0 else c)\<rparr>)"

definition IntervalTimer_Passed :: "IntervalTimer \<Rightarrow> bool" where
  "IntervalTimer_Passed t \<longleftrightarrow> it_current t \<ge> it_interval t"

definition IntervalTimer_Reset :: "IntervalTimer \<Rightarrow> IntervalTimer" where
  "IntervalTimer_Reset t =
     (if it_current t \<ge> it_interval t then t\<lparr>it_current := it_current t - it_interval t\<rparr> else t)"

record TimeTracker =
  tt_expiryTime :: int

definition TimeTracker_Update :: "int \<Rightarrow> TimeTracker \<Rightarrow> TimeTracker" where
  "TimeTracker_Update diff t = t\<lparr>tt_expiryTime := tt_expiryTime t - diff\<rparr>"

definition TimeTracker_Passed :: "TimeTracker \<Rightarrow> bool" where
  "TimeTracker_Passed t \<longleftrightarrow> tt_expiryTime t \<le> 0"

definition TimeTracker_Reset :: "int \<Rightarrow> TimeTracker \<Rightarrow> TimeTracker" where
  "TimeTracker_Reset interval t = t\<lparr>tt_expiryTime := interval\<rparr>"

record TimeTrackerSmall =
  ts_expiryTime :: int   \<comment> \<open>\<open>int32\<close>\<close>

definition TimeTrackerSmall_Update :: "int \<Rightarrow> TimeTrackerSmall \<Rightarrow> TimeTrackerSmall" where
  "TimeTrackerSmall_Update diff t = t\<lparr>ts_expiryTime := wrap32 (ts_expiryTime t - diff)\<rparr>"

definition TimeTrackerSmall_Passed :: "TimeTrackerSmall \<Rightarrow> bool" where
  "TimeTrackerSmall_Passed t \<longleftrightarrow> ts_expiryTime t \<le> 0"

definition TimeTrackerSmall_Reset :: "uint32 \<Rightarrow> TimeTrackerSmall \<Rightarrow> TimeTrackerSmall" where
  "TimeTrackerSmall_Reset interval t = t\<lparr>ts_expiryTime := sint interval\<rparr>"

record PeriodicTimer =
  pt_period :: int       \<comment> \<open>\<open>int32\<close>\<close>
  pt_expireTime :: int   \<comment> \<open>\<open>int32\<close>\<close>

text \<open>
  \<open>i_expireTime -= diff\<close> mixes \<open>int32\<close> and \<open>uint32\<close>: the result is taken modulo \<open>2^32\<close> and stored in
  two's complement.  \<open>cond ? i_period : diff\<close> is a \<open>uint32\<close>.
\<close>

definition PeriodicTimer_Update :: "uint32 \<Rightarrow> PeriodicTimer \<Rightarrow> bool \<times> PeriodicTimer" where
  "PeriodicTimer_Update diff t =
     (let e = wrap32 (pt_expireTime t - uint diff) in
      if e > 0 then (False, t\<lparr>pt_expireTime := e\<rparr>)
      else let d = (if pt_period t > sint diff then pt_period t else uint diff)
           in (True, t\<lparr>pt_expireTime := wrap32 (e + d)\<rparr>))"

definition PeriodicTimer_SetPeriodic :: "int \<Rightarrow> int \<Rightarrow> PeriodicTimer \<Rightarrow> PeriodicTimer" where
  "PeriodicTimer_SetPeriodic period start_time t = t\<lparr>pt_expireTime := start_time, pt_period := period\<rparr>"

definition PeriodicTimer_TUpdate :: "int \<Rightarrow> PeriodicTimer \<Rightarrow> PeriodicTimer" where
  "PeriodicTimer_TUpdate diff t = t\<lparr>pt_expireTime := wrap32 (pt_expireTime t - diff)\<rparr>"

definition PeriodicTimer_TPassed :: "PeriodicTimer \<Rightarrow> bool" where
  "PeriodicTimer_TPassed t \<longleftrightarrow> pt_expireTime t \<le> 0"

definition PeriodicTimer_TReset :: "int \<Rightarrow> int \<Rightarrow> PeriodicTimer \<Rightarrow> PeriodicTimer" where
  "PeriodicTimer_TReset diff period t =
     t\<lparr>pt_expireTime := wrap32 (pt_expireTime t + (if period > diff then period else diff))\<rparr>"

section \<open>The event queue\<close>

text \<open>
  Events are objects behind pointers; an event is named by a number, and \<open>ep_objs\<close> holds the fields of
  each.  \<open>Execute\<close>, \<open>Abort\<close> and \<open>IsDeletable\<close> are virtual: the model takes them as arguments.  An
  execution reports whether the event is to be deleted and the \<open>AddEvent\<close> calls it makes.  The log
  records the virtual calls and the deletions in order.
\<close>

record BasicEvent =
  to_Abort :: bool
  m_addTime :: uint64
  m_execTime :: uint64

datatype ep_log = Executed nat uint64 uint32 | Aborted nat uint64 | Deleted nat

record EventProcessor =
  ep_time :: uint64
  ep_events :: "(uint64 \<times> nat) list"
  ep_aborting :: bool
  ep_objs :: "nat \<Rightarrow> BasicEvent"
  ep_trace :: "ep_log list"

type_synonym execution = "nat \<Rightarrow> uint64 \<Rightarrow> uint32 \<Rightarrow> bool \<times> (nat \<times> uint64 \<times> bool) list"

text \<open>\<open>std::multimap::insert\<close> puts an element behind the elements with the same key.\<close>

fun mm_insert :: "uint64 \<Rightarrow> 'v \<Rightarrow> (uint64 \<times> 'v) list \<Rightarrow> (uint64 \<times> 'v) list" where
  "mm_insert k v [] = [(k, v)]"
| "mm_insert k v (e # m) = (if k < fst e then (k, v) # e # m else e # mm_insert k v m)"

definition EventProcessor_new :: "(nat \<Rightarrow> BasicEvent) \<Rightarrow> EventProcessor" where
  "EventProcessor_new objs =
     \<lparr>ep_time = 0, ep_events = [], ep_aborting = False, ep_objs = objs, ep_trace = []\<rparr>"

definition EventProcessor_AddEvent :: "nat \<Rightarrow> uint64 \<Rightarrow> bool \<Rightarrow> EventProcessor \<Rightarrow> EventProcessor" where
  "EventProcessor_AddEvent ev e_time set_addtime p =
     (let ob = ep_objs p ev;
          ob1 = (if set_addtime then ob\<lparr>m_addTime := ep_time p\<rparr> else ob);
          ob2 = ob1\<lparr>m_execTime := e_time\<rparr>
      in p\<lparr>ep_objs := (ep_objs p)(ev := ob2), ep_events := mm_insert e_time ev (ep_events p)\<rparr>)"

definition EventProcessor_CalculateTime :: "uint64 \<Rightarrow> EventProcessor \<Rightarrow> uint64" where
  "EventProcessor_CalculateTime t_offset p = ep_time p + t_offset"

fun add_all :: "(nat \<times> uint64 \<times> bool) list \<Rightarrow> EventProcessor \<Rightarrow> EventProcessor" where
  "add_all [] p = p"
| "add_all ((ev, t, s) # as) p = add_all as (EventProcessor_AddEvent ev t s p)"

definition emit_log :: "ep_log list \<Rightarrow> EventProcessor \<Rightarrow> EventProcessor" where
  "emit_log ls p = p\<lparr>ep_trace := ep_trace p @ ls\<rparr>"

text \<open>The body of the main loop, for the event at the front of the queue.\<close>

definition Update_event :: "execution \<Rightarrow> uint32 \<Rightarrow> nat \<Rightarrow> EventProcessor \<Rightarrow> EventProcessor" where
  "Update_event Execute p_time ev p =
     (if \<not> to_Abort (ep_objs p ev)
      then case Execute ev (ep_time p) p_time of
             (done_, adds) \<Rightarrow>
               emit_log (if done_ then [Deleted ev] else [])
                 (add_all adds (emit_log [Executed ev (ep_time p) p_time] p))
      else emit_log [Aborted ev (ep_time p), Deleted ev] p)"

partial_function (option) Update_loop :: "execution \<Rightarrow> uint32 \<Rightarrow> EventProcessor \<Rightarrow> EventProcessor option" where
  "Update_loop Execute p_time p =
     (case ep_events p of
        [] \<Rightarrow> Some p
      | e # es \<Rightarrow>
          if fst e \<le> ep_time p
          then Update_loop Execute p_time (Update_event Execute p_time (snd e) (p\<lparr>ep_events := es\<rparr>))
          else Some p)"

definition EventProcessor_Update :: "execution \<Rightarrow> uint32 \<Rightarrow> EventProcessor \<Rightarrow> EventProcessor option" where
  "EventProcessor_Update Execute p_time p =
     Update_loop Execute p_time (p\<lparr>ep_time := ep_time p + ucast p_time\<rparr>)"

fun Kill_loop :: "(nat \<Rightarrow> bool) \<Rightarrow> bool \<Rightarrow> (uint64 \<times> nat) list \<Rightarrow> EventProcessor \<Rightarrow> EventProcessor" where
  "Kill_loop IsDeletable force [] p = p\<lparr>ep_events := []\<rparr>"
| "Kill_loop IsDeletable force (e # es) p =
     (let p1 = emit_log [Aborted (snd e) (ep_time p)]
                 (p\<lparr>ep_objs := (ep_objs p)(snd e := (ep_objs p (snd e))\<lparr>to_Abort := True\<rparr>)\<rparr>)
      in if force \<or> IsDeletable (snd e)
         then Kill_loop IsDeletable force es (emit_log [Deleted (snd e)] p1)
         else let p2 = Kill_loop IsDeletable force es p1 in p2\<lparr>ep_events := e # ep_events p2\<rparr>)"

text \<open>
  \<open>Kill_loop\<close> walks the queue and rebuilds it from the events it keeps: the non-force case erases each
  deletable element, the force case clears the queue after the walk.
\<close>

definition EventProcessor_KillAllEvents :: "(nat \<Rightarrow> bool) \<Rightarrow> bool \<Rightarrow> EventProcessor \<Rightarrow> EventProcessor" where
  "EventProcessor_KillAllEvents IsDeletable force p =
     Kill_loop IsDeletable force (ep_events p) (p\<lparr>ep_aborting := True\<rparr>)"

section \<open>Lemmas on the queue\<close>

definition due :: "uint64 \<Rightarrow> (uint64 \<times> nat) list \<Rightarrow> (uint64 \<times> nat) list" where
  "due now es = takeWhile (\<lambda>e. fst e \<le> now) es"

definition queue_ok :: "(uint64 \<times> nat) list \<Rightarrow> bool" where
  "queue_ok es \<longleftrightarrow> sorted (map fst es)"

lemma set_mm_insert: "set (mm_insert k v m) = insert (k, v) (set m)"
  by (induction m) auto

lemma queue_ok_insert: "queue_ok m \<Longrightarrow> queue_ok (mm_insert k v m)"
  by (induction m) (auto simp: queue_ok_def set_mm_insert less_imp_le)

lemma due_insert_future: "now < k \<Longrightarrow> due now (mm_insert k v m) = due now m"
  by (induction m) (auto simp: due_def)

lemma due_Nil_all_future: "queue_ok es \<Longrightarrow> due now es = [] \<Longrightarrow> \<forall>e \<in> set es. now < fst e"
  by (cases es) (auto simp: due_def queue_ok_def not_le split: if_splits)

lemma AddEvent_fields [simp]:
  "ep_time (EventProcessor_AddEvent ev t s p) = ep_time p"
  "ep_trace (EventProcessor_AddEvent ev t s p) = ep_trace p"
  "ep_events (EventProcessor_AddEvent ev t s p) = mm_insert t ev (ep_events p)"
  "to_Abort (ep_objs (EventProcessor_AddEvent ev t s p) j) = to_Abort (ep_objs p j)"
  by (simp_all add: EventProcessor_AddEvent_def Let_def)

lemma add_all_fields [simp]:
  "ep_time (add_all as p) = ep_time p"
  "ep_trace (add_all as p) = ep_trace p"
  "to_Abort (ep_objs (add_all as p) j) = to_Abort (ep_objs p j)"
  by (induction as p rule: add_all.induct) auto

lemma add_all_due:
  "(\<forall>a \<in> set as. now < fst (snd a)) \<Longrightarrow> due now (ep_events (add_all as p)) = due now (ep_events p)"
  by (induction as p rule: add_all.induct) (auto simp: due_insert_future)

lemma add_all_queue_ok: "queue_ok (ep_events p) \<Longrightarrow> queue_ok (ep_events (add_all as p))"
  by (induction as p rule: add_all.induct) (auto simp: queue_ok_insert)

lemma emit_log_fields [simp]:
  "ep_time (emit_log ls p) = ep_time p"
  "ep_events (emit_log ls p) = ep_events p"
  "ep_objs (emit_log ls p) = ep_objs p"
  "ep_trace (emit_log ls p) = ep_trace p @ ls"
  by (simp_all add: emit_log_def)

section \<open>One round of the main loop\<close>

definition event_log :: "execution \<Rightarrow> uint32 \<Rightarrow> uint64 \<Rightarrow> (nat \<Rightarrow> bool) \<Rightarrow> nat \<Rightarrow> ep_log list" where
  "event_log Execute p_time now aborted ev =
     (if aborted ev then [Aborted ev now, Deleted ev]
      else Executed ev now p_time # (if fst (Execute ev now p_time) then [Deleted ev] else []))"

definition future_only :: "execution \<Rightarrow> uint32 \<Rightarrow> uint64 \<Rightarrow> bool" where
  "future_only Execute p_time now \<longleftrightarrow>
     (\<forall>ev. \<forall>a \<in> set (snd (Execute ev now p_time)). now < fst (snd a))"

lemma Update_event_fields:
  assumes "future_only Execute p_time (ep_time p)"
  shows "ep_time (Update_event Execute p_time ev p) = ep_time p"
    and "due (ep_time p) (ep_events (Update_event Execute p_time ev p)) = due (ep_time p) (ep_events p)"
    and "to_Abort (ep_objs (Update_event Execute p_time ev p) j) = to_Abort (ep_objs p j)"
    and "queue_ok (ep_events p) \<Longrightarrow> queue_ok (ep_events (Update_event Execute p_time ev p))"
    and "ep_trace (Update_event Execute p_time ev p)
      = ep_trace p @ event_log Execute p_time (ep_time p) (\<lambda>j. to_Abort (ep_objs p j)) ev"
proof -
  have fut: "\<forall>a \<in> set (snd (Execute ev (ep_time p) p_time)). ep_time p < fst (snd a)"
    using assms by (simp add: future_only_def)
  show "ep_time (Update_event Execute p_time ev p) = ep_time p"
    by (simp add: Update_event_def case_prod_beta)
  show "due (ep_time p) (ep_events (Update_event Execute p_time ev p)) = due (ep_time p) (ep_events p)"
    by (simp add: Update_event_def case_prod_beta add_all_due [OF fut])
  show "to_Abort (ep_objs (Update_event Execute p_time ev p) j) = to_Abort (ep_objs p j)"
    by (simp add: Update_event_def case_prod_beta)
  show "queue_ok (ep_events p) \<Longrightarrow> queue_ok (ep_events (Update_event Execute p_time ev p))"
    by (simp add: Update_event_def case_prod_beta add_all_queue_ok)
  show "ep_trace (Update_event Execute p_time ev p)
      = ep_trace p @ event_log Execute p_time (ep_time p) (\<lambda>j. to_Abort (ep_objs p j)) ev"
    by (simp add: Update_event_def event_log_def case_prod_beta)
qed

lemma Update_loop_spec:
  assumes "future_only Execute p_time (ep_time p)" "queue_ok (ep_events p)"
  shows "\<exists>p'. Update_loop Execute p_time p = Some p' \<and> ep_time p' = ep_time p \<and>
    queue_ok (ep_events p') \<and> (\<forall>e \<in> set (ep_events p'). ep_time p < fst e) \<and>
    ep_trace p' = ep_trace p @
      concat (map (\<lambda>e. event_log Execute p_time (ep_time p) (\<lambda>j. to_Abort (ep_objs p j)) (snd e))
        (due (ep_time p) (ep_events p)))"
  using assms
proof (induction "due (ep_time p) (ep_events p)" arbitrary: p)
  case Nil
  then have fut: "\<forall>e \<in> set (ep_events p). ep_time p < fst e"
    using due_Nil_all_future [of "ep_events p" "ep_time p"] by simp
  have "Update_loop Execute p_time p = Some p"
    by (subst Update_loop.simps) (use fut in \<open>auto simp: not_le split: list.split\<close>)
  with Nil fut show ?case by simp
next
  case (Cons e ds)
  obtain es where es: "ep_events p = e # es" "fst e \<le> ep_time p" "ds = due (ep_time p) es"
    using Cons.hyps(2) by (cases "ep_events p") (auto simp: due_def split: if_splits)
  let ?q = "Update_event Execute p_time (snd e) (p\<lparr>ep_events := es\<rparr>)"
  have fo: "future_only Execute p_time (ep_time (p\<lparr>ep_events := es\<rparr>))"
    using Cons.prems by simp
  note q = Update_event_fields [OF fo, where ev = "snd e", simplified]
  have "queue_ok es" using Cons.prems es by (simp add: queue_ok_def)
  then obtain p' where p': "Update_loop Execute p_time ?q = Some p'" "ep_time p' = ep_time p"
      "queue_ok (ep_events p')" "\<forall>e \<in> set (ep_events p'). ep_time p < fst e"
      "ep_trace p' = ep_trace ?q @
        concat (map (\<lambda>e. event_log Execute p_time (ep_time p) (\<lambda>j. to_Abort (ep_objs p j)) (snd e)) ds)"
    using Cons.hyps(1) [of ?q] Cons.prems es(3) q by auto
  have "Update_loop Execute p_time p = Some p'"
    by (subst Update_loop.simps) (simp add: es p')
  with p' q es show ?case by (simp add: due_def)
qed

lemma Kill_loop_fields:
  "ep_events (Kill_loop d force es p) = (if force then [] else filter (\<lambda>e. \<not> d (snd e)) es)"
  "ep_trace (Kill_loop d force es p) = ep_trace p @
     concat (map (\<lambda>e. Aborted (snd e) (ep_time p) # (if force \<or> d (snd e) then [Deleted (snd e)] else [])) es)"
  "ep_aborting (Kill_loop d force es p) = ep_aborting p"
  "ep_time (Kill_loop d force es p) = ep_time p"
  by (induction es arbitrary: p) (auto simp: Let_def emit_log_def)

section \<open>Properties\<close>

text \<open>
  C21 (termination and functional behaviour).  When no execution adds an event at or before the
  current time, \<open>EventProcessor::Update\<close> returns; it executes every due event exactly once, in queue
  order (nondecreasing time, insertion order among equals), calls \<open>Abort\<close> instead of \<open>Execute\<close> for the
  events marked so, deletes an event when its execution says so, and leaves only future events.
\<close>
theorem EventProcessor_Update_runs_due_events:
  fixes p :: EventProcessor and p_time :: uint32
  defines "now \<equiv> ep_time p + ucast p_time"
  assumes "future_only Execute p_time now" "queue_ok (ep_events p)"
  shows "\<exists>p'. EventProcessor_Update Execute p_time p = Some p' \<and> ep_time p' = now \<and>
    queue_ok (ep_events p') \<and> (\<forall>e \<in> set (ep_events p'). now < fst e) \<and>
    ep_trace p' = ep_trace p @
      concat (map (\<lambda>e. event_log Execute p_time now (\<lambda>j. to_Abort (ep_objs p j)) (snd e))
        (due now (ep_events p)))"
  using Update_loop_spec [of Execute p_time "p\<lparr>ep_time := now\<rparr>"] assms
  by (simp add: EventProcessor_Update_def)

theorem EventProcessor_Update_runs_due_events_witness:
  "\<exists>p'. EventProcessor_Update (\<lambda>ev t d. if ev = 1 then (False, [(1, t + 100, False)]) else (True, [])) 50
     (EventProcessor_AddEvent 2 30 True (EventProcessor_AddEvent 1 20 True
        (EventProcessor_new (\<lambda>_. \<lparr>to_Abort = False, m_addTime = 0, m_execTime = 0\<rparr>)))) = Some p' \<and>
   ep_trace p' = [Executed 1 50 50, Executed 2 50 50, Deleted 2]"
proof -
  let ?ex = "\<lambda>ev t d. if ev = 1 then (False, [(1, t + 100, False)]) else (True, [])"
  let ?p = "EventProcessor_AddEvent 2 30 True (EventProcessor_AddEvent 1 20 True
        (EventProcessor_new (\<lambda>_. \<lparr>to_Abort = False, m_addTime = 0, m_execTime = 0\<rparr>)))"
  have "future_only ?ex 50 (ep_time ?p + ucast (50 :: uint32))"
    by (simp add: future_only_def EventProcessor_new_def)
  moreover have "queue_ok (ep_events ?p)"
    by (simp add: EventProcessor_new_def queue_ok_def)
  ultimately show ?thesis
    using EventProcessor_Update_runs_due_events [of ?ex 50 ?p]
    by (auto simp: EventProcessor_new_def due_def event_log_def)
qed

text \<open>
  \<open>KillAllEvents\<close> aborts every queued event and deletes those it may, but the flag
  \<open>m_aborting\<close> that it sets to prevent insertions is read nowhere: an event added afterwards is queued.
\<close>
theorem KillAllEvents_does_not_prevent_insertion:
  "ep_aborting (EventProcessor_KillAllEvents d force p)
   \<and> ep_events (EventProcessor_KillAllEvents d force p)
       = (if force then [] else filter (\<lambda>e. \<not> d (snd e)) (ep_events p))
   \<and> (t, ev) \<in> set (ep_events (EventProcessor_AddEvent ev t s (EventProcessor_KillAllEvents d force p)))"
  by (simp add: EventProcessor_KillAllEvents_def Kill_loop_fields set_mm_insert)

text \<open>
  When the millisecond counter has not wrapped, \<open>getMSTimeDiff\<close> is the elapsed time.
  Across a wrap it is one less than the elapsed time modulo \<open>2^32\<close>.
\<close>
theorem getMSTimeDiff_elapsed:
  "getMSTimeDiff old (old + d) = (if unat old + unat d < 2 ^ 32 then d else d - 1)"
proof (cases "unat old + unat d < 2 ^ 32")
  case True
  then have "\<not> old + d < old"
    by (simp add: word_less_nat_alt unat_word_ariths)
  with True show ?thesis by (simp add: getMSTimeDiff_def)
next
  case False
  have "unat old < 2 ^ 32" "unat d < 2 ^ 32"
    using unsigned_less [of old] unsigned_less [of d] by simp_all
  moreover from calculation have "unat (old + d) = unat old + unat d - 2 ^ 32"
    using False by (simp add: unat_word_ariths mod_if)
  ultimately have "unat (old + d) < unat old" using False by linarith
  then have "old + d < old" by (simp add: word_less_nat_alt)
  moreover have "(0xFFFFFFFF :: uint32) = - 1" by simp
  ultimately show ?thesis using False by (simp add: getMSTimeDiff_def)
qed

text \<open>
  A periodic timer whose expiry is positive stays positive after an update with any
  step and period below \<open>2^30\<close>, and the update fires exactly when the step has used up the expiry.
\<close>
theorem PeriodicTimer_stays_positive:
  assumes "0 < pt_expireTime t" "pt_expireTime t < 2 ^ 30" "pt_period t < 2 ^ 30" "uint diff < 2 ^ 30"
  shows "0 < pt_expireTime (snd (PeriodicTimer_Update diff t))
    \<and> fst (PeriodicTimer_Update diff t) = (pt_expireTime t \<le> uint diff)"
proof -
  have u: "0 \<le> uint diff" "uint diff < 1073741824" using assms(4) by simp_all
  then have lo: "- 2147483648 \<le> uint diff" by linarith
  then have "signed_take_bit 31 (uint diff) = uint diff"
    using u(2) by (simp add: signed_take_bit_int_eq_self)
  then have d: "sint diff = uint diff" by (simp add: sint_uint)
  have t: "0 < pt_expireTime t" "pt_expireTime t < 1073741824" "pt_period t < 1073741824"
    using assms(1-3) by simp_all
  have w: "is_int32 (pt_expireTime t - uint diff)"
    using t u unfolding is_int32_def by linarith
  have w': "is_int32 (pt_expireTime t - uint diff + pt_period t)" if "uint diff < pt_period t"
    using that t u unfolding is_int32_def by linarith
  have w'': "is_int32 (pt_expireTime t)"
    using t unfolding is_int32_def by linarith
  show ?thesis
    using t by (auto simp: PeriodicTimer_Update_def Let_def d wrap32_id [OF w] wrap32_id [OF w'] wrap32_id [OF w''])
qed

theorem PeriodicTimer_stays_positive_witness:
  "PeriodicTimer_Update 700 \<lparr>pt_period = 500, pt_expireTime = 100\<rparr>
     = (True, \<lparr>pt_period = 500, pt_expireTime = 100\<rparr>)
   \<and> 0 < pt_expireTime (snd (PeriodicTimer_Update 700 \<lparr>pt_period = 500, pt_expireTime = 100\<rparr>))"
  using PeriodicTimer_stays_positive [of "\<lparr>pt_period = 500, pt_expireTime = 100\<rparr>" 700]
  by (simp add: PeriodicTimer_Update_def wrap32_def)

end
