(* ===== verification/Social_List.thy ===== *)
theory Social_List
  imports Std_Map
begin

text \<open>
  The friend and ignore list of one character: \<open>FriendInfo\<close> and \<open>PlayerSocial\<close> of
  \<^verbatim>\<open>src/server/game/Entities/Player/SocialMgr.h\<close> and the list operations of \<^verbatim>\<open>SocialMgr.cpp\<close>.  An
  operation returns the new list and the SQL statements it executes on \<open>character_social\<close>.
  The effect of the statements on the table is that of SQL; the lemmas show that the table keeps
  the same flags as the list, whatever the calls.
\<close>

section \<open>Data\<close>

datatype FriendStatus =
    FRIEND_STATUS_OFFLINE | FRIEND_STATUS_ONLINE | FRIEND_STATUS_AFK | FRIEND_STATUS_UNK3
  | FRIEND_STATUS_DND

definition SOCIAL_FLAG_FRIEND :: uint32 where "SOCIAL_FLAG_FRIEND = 0x01"
definition SOCIAL_FLAG_IGNORED :: uint32 where "SOCIAL_FLAG_IGNORED = 0x02"
definition SOCIAL_FLAG_MUTED :: uint32 where "SOCIAL_FLAG_MUTED = 0x04"

definition SOCIALMGR_FRIEND_LIMIT :: nat where "SOCIALMGR_FRIEND_LIMIT = 50"
definition SOCIALMGR_IGNORE_LIMIT :: nat where "SOCIALMGR_IGNORE_LIMIT = 50"

record FriendInfo =
  Status :: FriendStatus
  Flags :: uint32
  Area :: uint32
  Level :: uint8
  Class :: uint8
  Note :: string

definition FriendInfo_default :: FriendInfo where
  "FriendInfo_default =
     \<lparr>Status = FRIEND_STATUS_OFFLINE, Flags = 0, Area = 0, Level = 0, Class = 0, Note = ''''\<rparr>"

definition FriendInfo_new :: "uint32 \<Rightarrow> string \<Rightarrow> FriendInfo" where
  "FriendInfo_new flags note =
     \<lparr>Status = FRIEND_STATUS_OFFLINE, Flags = flags, Area = 0, Level = 0, Class = 0, Note = note\<rparr>"

type_synonym PlayerSocialMap = "(uint32, FriendInfo) smap"

record PlayerSocial =
  m_playerSocialMap :: PlayerSocialMap
  m_playerGUID :: uint32

definition PlayerSocial_new :: PlayerSocial where
  "PlayerSocial_new = \<lparr>m_playerSocialMap = [], m_playerGUID = 0\<rparr>"

text \<open>The statements of \<open>SocialMgr.cpp\<close>; the first two arguments are \<open>guid\<close> and \<open>friend\<close>.\<close>

datatype social_sql =
    SqlOrFlags uint32 uint32 uint32
  | SqlInsert uint32 uint32 uint32
  | SqlDelete uint32 uint32
  | SqlClearFlags uint32 uint32 uint32
  | SqlSetNote uint32 uint32 string

section \<open>Operations\<close>

definition GetNumberOfSocialsWithFlag :: "uint32 \<Rightarrow> PlayerSocial \<Rightarrow> uint32" where
  "GetNumberOfSocialsWithFlag flag s =
     foldl (\<lambda>counter e. if Flags (snd e) AND flag \<noteq> 0 then counter + 1 else counter) 0
       (m_playerSocialMap s)"

definition AddToSocialList :: "uint32 \<Rightarrow> bool \<Rightarrow> PlayerSocial \<Rightarrow> bool \<times> PlayerSocial \<times> social_sql list" where
  "AddToSocialList friend_guid ignore s =
     (if (if ignore then GetNumberOfSocialsWithFlag SOCIAL_FLAG_IGNORED s \<ge> of_nat SOCIALMGR_IGNORE_LIMIT
          else GetNumberOfSocialsWithFlag SOCIAL_FLAG_FRIEND s \<ge> of_nat SOCIALMGR_FRIEND_LIMIT)
      then (False, s, [])
      else
        let flag = (if ignore then SOCIAL_FLAG_IGNORED else SOCIAL_FLAG_FRIEND) in
        case smap_find (m_playerSocialMap s) friend_guid of
          Some _ \<Rightarrow>
            (True,
             s\<lparr>m_playerSocialMap := smap_modify FriendInfo_default friend_guid
                 (\<lambda>fi. fi\<lparr>Flags := Flags fi OR flag\<rparr>) (m_playerSocialMap s)\<rparr>,
             [SqlOrFlags (m_playerGUID s) friend_guid flag])
        | None \<Rightarrow>
            (True,
             s\<lparr>m_playerSocialMap := smap_put friend_guid
                 (FriendInfo_default\<lparr>Flags := Flags FriendInfo_default OR flag\<rparr>) (m_playerSocialMap s)\<rparr>,
             [SqlInsert (m_playerGUID s) friend_guid flag]))"

definition RemoveFromSocialList :: "uint32 \<Rightarrow> bool \<Rightarrow> PlayerSocial \<Rightarrow> PlayerSocial \<times> social_sql list" where
  "RemoveFromSocialList friend_guid ignore s =
     (case smap_find (m_playerSocialMap s) friend_guid of
        None \<Rightarrow> (s, [])
      | Some fi \<Rightarrow>
          let flag = (if ignore then SOCIAL_FLAG_IGNORED else SOCIAL_FLAG_FRIEND);
              fi' = fi\<lparr>Flags := Flags fi AND NOT flag\<rparr>
          in if Flags fi' = 0
             then (s\<lparr>m_playerSocialMap := smap_erase friend_guid (m_playerSocialMap s)\<rparr>,
                   [SqlDelete (m_playerGUID s) friend_guid])
             else (s\<lparr>m_playerSocialMap := smap_put friend_guid fi' (m_playerSocialMap s)\<rparr>,
                   [SqlClearFlags (m_playerGUID s) friend_guid flag]))"

text \<open>\<open>utf8truncate\<close> and the database client's \<open>EscapeString\<close> are arguments.\<close>

definition SetFriendNote ::
  "(string \<Rightarrow> nat \<Rightarrow> string) \<Rightarrow> (string \<Rightarrow> string) \<Rightarrow> uint32 \<Rightarrow> string \<Rightarrow> PlayerSocial
   \<Rightarrow> PlayerSocial \<times> social_sql list" where
  "SetFriendNote utf8truncate EscapeString friend_guid note s =
     (case smap_find (m_playerSocialMap s) friend_guid of
        None \<Rightarrow> (s, [])
      | Some _ \<Rightarrow>
          let note = EscapeString (utf8truncate note 48)
          in (s\<lparr>m_playerSocialMap := smap_modify FriendInfo_default friend_guid
                  (\<lambda>fi. fi\<lparr>Note := note\<rparr>) (m_playerSocialMap s)\<rparr>,
              [SqlSetNote (m_playerGUID s) friend_guid note]))"

definition HasFriend :: "uint32 \<Rightarrow> PlayerSocial \<Rightarrow> bool" where
  "HasFriend friend_guid s =
     (case smap_find (m_playerSocialMap s) friend_guid of
        Some fi \<Rightarrow> Flags fi AND SOCIAL_FLAG_FRIEND \<noteq> 0
      | None \<Rightarrow> False)"

definition HasIgnore :: "uint32 \<Rightarrow> PlayerSocial \<Rightarrow> bool" where
  "HasIgnore ignore_guid s =
     (case smap_find (m_playerSocialMap s) ignore_guid of
        Some fi \<Rightarrow> Flags fi AND SOCIAL_FLAG_IGNORED \<noteq> 0
      | None \<Rightarrow> False)"

section \<open>The list of one character: loading\<close>

text \<open>
  The loop of \<open>SocialMgr::LoadFromDB\<close> over the rows \<open>(friend, flags, note)\<close> of the result; it ends
  after the row that fills the list.
\<close>

fun LoadFromDB_rows :: "(uint32 \<times> uint8 \<times> string) list \<Rightarrow> PlayerSocial \<Rightarrow> PlayerSocial" where
  "LoadFromDB_rows [] s = s"
| "LoadFromDB_rows ((friend_guid, flags, note) # rows) s =
     (let s' = s\<lparr>m_playerSocialMap :=
                   smap_put friend_guid (FriendInfo_new (ucast flags) note) (m_playerSocialMap s)\<rparr>
      in if length (m_playerSocialMap s') \<ge> SOCIALMGR_FRIEND_LIMIT + SOCIALMGR_IGNORE_LIMIT then s'
         else LoadFromDB_rows rows s')"

section \<open>The table\<close>

type_synonym social_row = "uint32 \<times> uint32 \<times> uint32 \<times> string"

text \<open>
  What the statements do to \<open>character_social\<close>, a list of rows \<open>(guid, friend, flags, note)\<close> with primary
  key \<open>(guid, friend, flags)\<close>.  \<open>unescape\<close> is how the database reads the text of a string literal.
\<close>

fun exec_social :: "(string \<Rightarrow> string) \<Rightarrow> social_sql \<Rightarrow> social_row list \<Rightarrow> social_row list" where
  "exec_social unescape (SqlOrFlags g f fl) t =
     map (\<lambda>(g', f', fl', n). if g' = g \<and> f' = f then (g', f', fl' OR fl, n) else (g', f', fl', n)) t"
| "exec_social unescape (SqlInsert g f fl) t =
     (if \<exists>r \<in> set t. fst r = g \<and> fst (snd r) = f \<and> fst (snd (snd r)) = fl then t
      else t @ [(g, f, fl, '''')])"
| "exec_social unescape (SqlDelete g f) t = filter (\<lambda>(g', f', fl', n). \<not> (g' = g \<and> f' = f)) t"
| "exec_social unescape (SqlClearFlags g f fl) t =
     map (\<lambda>(g', f', fl', n). if g' = g \<and> f' = f then (g', f', fl' AND NOT fl, n) else (g', f', fl', n)) t"
| "exec_social unescape (SqlSetNote g f lit) t =
     map (\<lambda>(g', f', fl', n). if g' = g \<and> f' = f then (g', f', fl', unescape lit) else (g', f', fl', n)) t"

text \<open>The flags and the note of the rows of a pair \<open>(guid, friend)\<close>.\<close>

definition rows_for :: "social_row list \<Rightarrow> uint32 \<Rightarrow> uint32 \<Rightarrow> (uint32 \<times> string) list" where
  "rows_for t g f = map (snd \<circ> snd) (filter (\<lambda>(g', f', fl, n). g' = g \<and> f' = f) t)"

section \<open>Sequences of calls\<close>

datatype social_op = AddFriendOp uint32 bool | RemoveFriendOp uint32 bool | NoteOp uint32 string

type_synonym social_state = "PlayerSocial \<times> social_row list"

text \<open>A call performed on the list, and its statements on the table.\<close>

fun social_step ::
  "(string \<Rightarrow> nat \<Rightarrow> string) \<Rightarrow> (string \<Rightarrow> string) \<Rightarrow> (string \<Rightarrow> string)
   \<Rightarrow> social_op \<Rightarrow> social_state \<Rightarrow> social_state" where
  "social_step trunc esc unesc (AddFriendOp f ignore) (s, t) =
     (case AddToSocialList f ignore s of (_, s', sql) \<Rightarrow> (s', fold (exec_social unesc) sql t))"
| "social_step trunc esc unesc (RemoveFriendOp f ignore) (s, t) =
     (case RemoveFromSocialList f ignore s of (s', sql) \<Rightarrow> (s', fold (exec_social unesc) sql t))"
| "social_step trunc esc unesc (NoteOp f note) (s, t) =
     (case SetFriendNote trunc esc f note s of (s', sql) \<Rightarrow> (s', fold (exec_social unesc) sql t))"

text \<open>The calls made on the list of a new character \<open>g\<close>, with the table as they find it.\<close>

definition social_session ::
  "(string \<Rightarrow> nat \<Rightarrow> string) \<Rightarrow> (string \<Rightarrow> string) \<Rightarrow> (string \<Rightarrow> string)
   \<Rightarrow> social_op list \<Rightarrow> uint32 \<Rightarrow> social_row list \<Rightarrow> social_state" where
  "social_session trunc esc unesc ops g t =
     run_ops (social_step trunc esc unesc) ops (PlayerSocial_new\<lparr>m_playerGUID := g\<rparr>, t)"

section \<open>Lemmas on flags and counts\<close>

lemmas social_flag_defs = SOCIAL_FLAG_FRIEND_def SOCIAL_FLAG_IGNORED_def SOCIAL_FLAG_MUTED_def

definition list_flag :: "bool \<Rightarrow> uint32" where
  "list_flag ignore = (if ignore then SOCIAL_FLAG_IGNORED else SOCIAL_FLAG_FRIEND)"

definition on_list :: "bool \<Rightarrow> FriendInfo \<Rightarrow> bool" where
  "on_list ignore fi \<longleftrightarrow> Flags fi AND list_flag ignore \<noteq> 0"

lemma GetNumber_count:
  "GetNumberOfSocialsWithFlag flag s
     = of_nat (smap_count (\<lambda>fi. Flags fi AND flag \<noteq> 0) (m_playerSocialMap s))"
proof -
  have "foldl (\<lambda>counter e. if Flags (snd e) AND flag \<noteq> 0 then counter + 1 else counter) c m
      = c + of_nat (smap_count (\<lambda>fi. Flags fi AND flag \<noteq> 0) m)" for c :: uint32 and m :: PlayerSocialMap
    by (induction m arbitrary: c) (auto simp: count_Cons)
  then show ?thesis by (simp add: GetNumberOfSocialsWithFlag_def)
qed

lemma list_flags_other:
  "(x OR list_flag a) AND list_flag b = (if a = b then list_flag b else x AND list_flag b)"
  by (cases a; cases b)
    (simp_all add: list_flag_def social_flag_defs bit.conj_disj_distrib2 and.assoc)

lemma list_flags_clear:
  "(x AND NOT (list_flag a)) AND list_flag b = (if a = b then 0 else x AND list_flag b)"
  by (cases a; cases b) (simp_all add: list_flag_def social_flag_defs and.assoc)

section \<open>Lemmas on the table\<close>

lemma rows_for_Nil [simp]: "rows_for [] g f = []"
  by (simp add: rows_for_def)

lemma rows_for_Cons [simp]:
  "rows_for (r # t) g f =
     (if fst r = g \<and> fst (snd r) = f then snd (snd r) # rows_for t g f else rows_for t g f)"
  by (simp add: rows_for_def case_prod_beta)

lemma rows_for_append [simp]: "rows_for (t @ u) g f = rows_for t g f @ rows_for u g f"
  by (simp add: rows_for_def)

lemma rows_for_OrFlags [smap_simps]:
  "rows_for (exec_social u (SqlOrFlags g f fl) t) g' f' =
     (if g' = g \<and> f' = f then map (\<lambda>(x, n). (x OR fl, n)) (rows_for t g f) else rows_for t g' f')"
  by (induction t) auto

lemma rows_for_ClearFlags [smap_simps]:
  "rows_for (exec_social u (SqlClearFlags g f fl) t) g' f' =
     (if g' = g \<and> f' = f then map (\<lambda>(x, n). (x AND NOT fl, n)) (rows_for t g f) else rows_for t g' f')"
  by (induction t) auto

lemma rows_for_SetNote [smap_simps]:
  "rows_for (exec_social u (SqlSetNote g f n) t) g' f' =
     (if g' = g \<and> f' = f then map (\<lambda>(x, _). (x, u n)) (rows_for t g f) else rows_for t g' f')"
  by (induction t) auto

lemma rows_for_Delete [smap_simps]:
  "rows_for (exec_social u (SqlDelete g f) t) g' f' =
     (if g' = g \<and> f' = f then [] else rows_for t g' f')"
  by (induction t) auto

lemma rows_for_empty: "rows_for t g f = [] \<longleftrightarrow> \<not> (\<exists>r \<in> set t. fst r = g \<and> fst (snd r) = f)"
  by (induction t) auto

lemma rows_for_Insert:
  "rows_for t g f = [] \<Longrightarrow>
   rows_for (exec_social u (SqlInsert g f fl) t) g' f' =
     (if g' = g \<and> f' = f then [(fl, '''')] else rows_for t g' f')"
  by (auto simp: rows_for_empty)

section \<open>The invariant and the refinement\<close>

definition social_ok :: "PlayerSocial \<Rightarrow> bool" where
  "social_ok s \<longleftrightarrow> smap_ok (m_playerSocialMap s)
     \<and> (\<forall>e \<in> set (m_playerSocialMap s). Flags (snd e) \<in> {1, 2, 3})
     \<and> smap_count (on_list False) (m_playerSocialMap s) \<le> SOCIALMGR_FRIEND_LIMIT
     \<and> smap_count (on_list True) (m_playerSocialMap s) \<le> SOCIALMGR_IGNORE_LIMIT"

definition table_mirrors :: "PlayerSocial \<Rightarrow> social_row list \<Rightarrow> bool" where
  "table_mirrors s t \<longleftrightarrow> (\<forall>f. map fst (rows_for t (m_playerGUID s) f) =
     (case smap_find (m_playerSocialMap s) f of None \<Rightarrow> [] | Some fi \<Rightarrow> [Flags fi]))"

text \<open>\<open>AddToSocialList\<close> in terms of the two lists.\<close>

lemma AddToSocialList_full:
  assumes "smap_count (on_list ignore) (m_playerSocialMap s) = 50"
  shows "AddToSocialList f ignore s = (False, s, [])"
  using assms
  by (cases ignore)
    (simp_all add: AddToSocialList_def GetNumber_count on_list_def [abs_def] list_flag_def
      SOCIALMGR_FRIEND_LIMIT_def SOCIALMGR_IGNORE_LIMIT_def)

definition added :: "uint32 \<Rightarrow> bool \<Rightarrow> PlayerSocialMap \<Rightarrow> PlayerSocialMap" where
  "added f ignore m = smap_put f ((smap_at FriendInfo_default m f)
     \<lparr>Flags := Flags (smap_at FriendInfo_default m f) OR list_flag ignore\<rparr>) m"

lemma AddToSocialList_room:
  assumes "smap_count (on_list ignore) (m_playerSocialMap s) < 50"
  shows "AddToSocialList f ignore s =
    (True, s\<lparr>m_playerSocialMap := added f ignore (m_playerSocialMap s)\<rparr>,
     [(if smap_find (m_playerSocialMap s) f = None then SqlInsert else SqlOrFlags)
        (m_playerGUID s) f (list_flag ignore)])"
proof -
  have "\<not> (of_nat (smap_count (on_list ignore) (m_playerSocialMap s)) \<ge> (50 :: uint32))"
    using assms by (simp add: word_le_nat_alt unat_of_nat not_le)
  then show ?thesis
    by (cases ignore; cases "smap_find (m_playerSocialMap s) f")
      (simp_all add: AddToSocialList_def GetNumber_count on_list_def [abs_def] list_flag_def
        SOCIALMGR_FRIEND_LIMIT_def SOCIALMGR_IGNORE_LIMIT_def smap_modify_def added_def smap_at_def)
qed


lemma social_ok_find:
  "social_ok s \<Longrightarrow> smap_find (m_playerSocialMap s) f = Some fi \<Longrightarrow> Flags fi \<in> {1, 2, 3}"
  by (force simp: social_ok_def dest: find_SomeD)

lemma or_list_flag: "x \<in> {0, 1, 2, 3} \<Longrightarrow> x OR list_flag ignore \<in> {1, 2, 3}"
  by (cases ignore) (auto simp: list_flag_def social_flag_defs)

lemma and_not_list_flag:
  "x \<in> {1, 2, 3} \<Longrightarrow> x AND NOT (list_flag ignore) \<noteq> 0 \<Longrightarrow> x AND NOT (list_flag ignore) \<in> {1, 2, 3}"
  by (cases ignore) (auto simp: list_flag_def social_flag_defs)

lemma at_flags:
  "social_ok s \<Longrightarrow> Flags (smap_at FriendInfo_default (m_playerSocialMap s) f) \<in> {0, 1, 2, 3}"
  using social_ok_find [of s f]
  by (cases "smap_find (m_playerSocialMap s) f") (auto simp: smap_at_def FriendInfo_default_def)

lemma on_list_update:
  "on_list b (fi\<lparr>Flags := Flags fi OR list_flag a\<rparr>) \<longleftrightarrow> a = b \<or> on_list b fi"
  "on_list b (fi\<lparr>Flags := Flags fi AND NOT (list_flag a)\<rparr>) \<longleftrightarrow> a \<noteq> b \<and> on_list b fi"
  "on_list b (fi\<lparr>Note := n\<rparr>) \<longleftrightarrow> on_list b fi"
  "\<not> on_list b FriendInfo_default"
  by (simp_all add: on_list_def list_flags_other list_flags_clear FriendInfo_default_def)
    (simp add: list_flag_def social_flag_defs)

lemma added_ok:
  assumes ok: "social_ok s" and room: "smap_count (on_list ignore) (m_playerSocialMap s) < 50"
  shows "social_ok (s\<lparr>m_playerSocialMap := added f ignore (m_playerSocialMap s)\<rparr>)"
proof -
  let ?m = "m_playerSocialMap s"
  let ?fi = "(smap_at FriendInfo_default ?m f)
    \<lparr>Flags := Flags (smap_at FriendInfo_default ?m f) OR list_flag ignore\<rparr>"
  have m: "smap_ok ?m" using ok by (simp add: social_ok_def)
  have same: "smap_count (on_list b) (smap_put f ?fi ?m) \<le> smap_count (on_list b) ?m" if "b \<noteq> ignore" for b
  proof (rule count_put_le [OF m])
    assume "on_list b ?fi"
    then have "on_list b (smap_at FriendInfo_default ?m f)" using that by (simp add: on_list_update)
    then show "\<exists>u. smap_find ?m f = Some u \<and> on_list b u"
      by (cases "smap_find ?m f") (auto simp: smap_at_def on_list_update)
  qed
  have "smap_count (on_list b) (smap_put f ?fi ?m) \<le> 50" for b
  proof (cases "b = ignore")
    case True
    show ?thesis
      using count_put_Suc [OF m, of "on_list ignore" f ?fi] room unfolding True by linarith
  next
    case False
    then show ?thesis using same [OF False] ok
      by (cases b) (simp_all add: social_ok_def SOCIALMGR_FRIEND_LIMIT_def SOCIALMGR_IGNORE_LIMIT_def)
  qed
  moreover have "Flags ?fi \<in> {1, 2, 3}" using or_list_flag [OF at_flags [OF ok]] by simp
  ultimately show ?thesis using ok
    by (auto simp: social_ok_def added_def smap_simps SOCIALMGR_FRIEND_LIMIT_def SOCIALMGR_IGNORE_LIMIT_def
        dest!: set_put_cases)
qed

lemma RemoveFromSocialList_unfold:
  "RemoveFromSocialList f ignore s =
     (case smap_find (m_playerSocialMap s) f of
        None \<Rightarrow> (s, [])
      | Some fi \<Rightarrow>
          if Flags fi AND NOT (list_flag ignore) = 0
          then (s\<lparr>m_playerSocialMap := smap_erase f (m_playerSocialMap s)\<rparr>, [SqlDelete (m_playerGUID s) f])
          else (s\<lparr>m_playerSocialMap := smap_put f (fi\<lparr>Flags := Flags fi AND NOT (list_flag ignore)\<rparr>)
                    (m_playerSocialMap s)\<rparr>, [SqlClearFlags (m_playerGUID s) f (list_flag ignore)]))"
  by (simp add: RemoveFromSocialList_def list_flag_def Let_def split: option.split)

lemma put_keeps_ok:
  assumes ok: "social_ok s" and fi: "smap_find (m_playerSocialMap s) f = Some fi"
    and flags: "Flags fi' \<in> {1, 2, 3}" and sub: "\<And>b. on_list b fi' \<Longrightarrow> on_list b fi"
  shows "social_ok (s\<lparr>m_playerSocialMap := smap_put f fi' (m_playerSocialMap s)\<rparr>)"
proof -
  have m: "smap_ok (m_playerSocialMap s)" using ok by (simp add: social_ok_def)
  have "smap_count (on_list b) (smap_put f fi' (m_playerSocialMap s))
      \<le> smap_count (on_list b) (m_playerSocialMap s)" for b
    by (rule count_put_le [OF m]) (use fi sub in auto)
  from this [of False] this [of True] show ?thesis using ok flags
    by (auto simp: social_ok_def smap_simps dest!: set_put_cases)
qed

lemma erase_keeps_ok:
  assumes ok: "social_ok s"
  shows "social_ok (s\<lparr>m_playerSocialMap := smap_erase f (m_playerSocialMap s)\<rparr>)"
proof -
  have m: "smap_ok (m_playerSocialMap s)" using ok by (simp add: social_ok_def)
  show ?thesis
    using ok count_erase_le [OF m, of "on_list False" f] count_erase_le [OF m, of "on_list True" f]
    by (auto simp: social_ok_def smap_simps dest!: set_erase_subset)
qed

text \<open>Each operation keeps the invariant.\<close>

lemma AddToSocialList_ok: "social_ok s \<Longrightarrow> social_ok (fst (snd (AddToSocialList f ignore s)))"
proof (cases "smap_count (on_list ignore) (m_playerSocialMap s) < 50")
  case True
  moreover assume "social_ok s"
  ultimately show ?thesis by (simp add: AddToSocialList_room added_ok)
next
  case False
  moreover assume ok: "social_ok s"
  ultimately have "smap_count (on_list ignore) (m_playerSocialMap s) = 50"
    by (cases ignore) (auto simp: social_ok_def SOCIALMGR_FRIEND_LIMIT_def SOCIALMGR_IGNORE_LIMIT_def)
  with ok show ?thesis by (simp add: AddToSocialList_full)
qed

lemma RemoveFromSocialList_ok:
  assumes ok: "social_ok s"
  shows "social_ok (fst (RemoveFromSocialList f ignore s))"
proof (cases "smap_find (m_playerSocialMap s) f")
  case None
  with ok show ?thesis by (simp add: RemoveFromSocialList_unfold)
next
  case (Some fi)
  have keep: "social_ok (s\<lparr>m_playerSocialMap :=
      smap_put f (fi\<lparr>Flags := Flags fi AND NOT (list_flag ignore)\<rparr>) (m_playerSocialMap s)\<rparr>)"
    if "Flags fi AND NOT (list_flag ignore) \<noteq> 0"
    using and_not_list_flag [OF social_ok_find [OF ok Some] that]
    by (intro put_keeps_ok [OF ok Some]) (simp_all add: on_list_update)
  with Some ok show ?thesis by (auto simp: RemoveFromSocialList_unfold erase_keeps_ok)
qed

lemma SetFriendNote_ok: "social_ok s \<Longrightarrow> social_ok (fst (SetFriendNote trunc esc f note s))"
  by (auto simp: SetFriendNote_def Let_def smap_modify_def on_list_update
      intro!: put_keeps_ok dest: social_ok_find split: option.split)


lemma mirrors_put_flags:
  assumes ok: "smap_ok (m_playerSocialMap s)" and mir: "table_mirrors s t"
    and same: "\<And>f'. f' \<noteq> f \<Longrightarrow> rows_for t' (m_playerGUID s) f' = rows_for t (m_playerGUID s) f'"
    and new: "map fst (rows_for t' (m_playerGUID s) f) = [Flags fi]"
  shows "table_mirrors (s\<lparr>m_playerSocialMap := smap_put f fi (m_playerSocialMap s)\<rparr>) t'"
  using mir same new by (auto simp: table_mirrors_def find_put [OF ok])

lemma mirrors_row:
  "table_mirrors s t \<Longrightarrow> smap_find (m_playerSocialMap s) f = Some fi \<Longrightarrow>
   \<exists>n. rows_for t (m_playerGUID s) f = [(Flags fi, n)]"
  by (drule table_mirrors_def [THEN iffD1, rule_format, of _ _ f]) auto

lemma mirrors_no_row:
  "table_mirrors s t \<Longrightarrow> smap_find (m_playerSocialMap s) f = None \<Longrightarrow> rows_for t (m_playerGUID s) f = []"
  by (drule table_mirrors_def [THEN iffD1, rule_format, of _ _ f]) auto

lemma exec_other_guid:
  assumes "\<forall>st \<in> set sql. \<exists>f fl n. st \<in> {SqlOrFlags g f fl, SqlInsert g f fl, SqlDelete g f,
      SqlClearFlags g f fl, SqlSetNote g f n}" "g' \<noteq> g"
  shows "rows_for (fold (exec_social u) sql t) g' f' = rows_for t g' f'"
  using assms
proof (induction sql arbitrary: t)
  case Nil
  then show ?case by simp
next
  case (Cons st sql)
  then have "rows_for (exec_social u st t) g' f' = rows_for t g' f'"
    by (auto simp: smap_simps simp del: exec_social.simps(1,3-5))
  with Cons show ?case by simp
qed

lemma AddToSocialList_mirrors:
  assumes ok: "social_ok s" and mir: "table_mirrors s t"
  shows "table_mirrors (fst (snd (AddToSocialList f ignore s)))
    (fold (exec_social u) (snd (snd (AddToSocialList f ignore s))) t)"
proof (cases "smap_count (on_list ignore) (m_playerSocialMap s) < 50")
  case False
  with ok have "smap_count (on_list ignore) (m_playerSocialMap s) = 50"
    by (cases ignore) (auto simp: social_ok_def SOCIALMGR_FRIEND_LIMIT_def SOCIALMGR_IGNORE_LIMIT_def)
  with mir show ?thesis by (simp add: AddToSocialList_full)
next
  case True
  have m: "smap_ok (m_playerSocialMap s)" using ok by (simp add: social_ok_def)
  show ?thesis
  proof (cases "smap_find (m_playerSocialMap s) f")
    case None
    note row = mirrors_no_row [OF mir None]
    show ?thesis unfolding AddToSocialList_room [OF True] added_def
      by (auto simp: None rows_for_Insert [OF row] smap_at_def FriendInfo_default_def
          simp del: exec_social.simps intro!: mirrors_put_flags [OF m mir])
  next
    case (Some fi)
    obtain n where row: "rows_for t (m_playerGUID s) f = [(Flags fi, n)]"
      using mirrors_row [OF mir Some] by blast
    show ?thesis unfolding AddToSocialList_room [OF True] added_def
      by (auto simp: Some row smap_simps simp del: exec_social.simps intro!: mirrors_put_flags [OF m mir])
  qed
qed

lemma RemoveFromSocialList_mirrors:
  assumes ok: "social_ok s" and mir: "table_mirrors s t"
  shows "table_mirrors (fst (RemoveFromSocialList f ignore s))
    (fold (exec_social u) (snd (RemoveFromSocialList f ignore s)) t)"
proof (cases "smap_find (m_playerSocialMap s) f")
  case None
  with mir show ?thesis by (simp add: RemoveFromSocialList_unfold)
next
  case (Some fi)
  have m: "smap_ok (m_playerSocialMap s)" using ok by (simp add: social_ok_def)
  obtain n where row: "rows_for t (m_playerGUID s) f = [(Flags fi, n)]"
    using mirrors_row [OF mir Some] by blast
  have "table_mirrors (s\<lparr>m_playerSocialMap := smap_erase f (m_playerSocialMap s)\<rparr>)
      (exec_social u (SqlDelete (m_playerGUID s) f) t)"
    using mir by (simp add: table_mirrors_def smap_simps del: exec_social.simps)
  with m mir row Some show ?thesis
    by (auto simp: RemoveFromSocialList_unfold smap_simps simp del: exec_social.simps
        intro!: mirrors_put_flags)
qed

lemma SetFriendNote_mirrors:
  assumes ok: "social_ok s" and mir: "table_mirrors s t"
  shows "table_mirrors (fst (SetFriendNote trunc esc f note s))
    (fold (exec_social u) (snd (SetFriendNote trunc esc f note s)) t)"
proof (cases "smap_find (m_playerSocialMap s) f")
  case None
  with mir show ?thesis by (simp add: SetFriendNote_def)
next
  case (Some fi)
  have m: "smap_ok (m_playerSocialMap s)" using ok by (simp add: social_ok_def)
  obtain n where row: "rows_for t (m_playerGUID s) f = [(Flags fi, n)]"
    using mirrors_row [OF mir Some] by blast
  show ?thesis
    by (auto simp: SetFriendNote_def Some Let_def smap_modify_def row smap_simps
        simp del: exec_social.simps intro!: mirrors_put_flags [OF m mir])
qed


lemma ops_keep_guid [frame_simps]:
  "m_playerGUID (fst (snd (AddToSocialList f ignore s))) = m_playerGUID s"
  "m_playerGUID (fst (RemoveFromSocialList f ignore s)) = m_playerGUID s"
  "m_playerGUID (fst (SetFriendNote trunc esc f note s)) = m_playerGUID s"
  by (simp_all add: AddToSocialList_def RemoveFromSocialList_def SetFriendNote_def Let_def split: option.split)

fun social_inv :: "uint32 \<Rightarrow> social_state \<Rightarrow> bool" where
  "social_inv g (s, t) \<longleftrightarrow> m_playerGUID s = g \<and> social_ok s \<and> table_mirrors s t"

interpretation soc: guarded_system "\<lambda>_ _. True" "social_step trunc esc unesc" "social_inv g"
  for trunc esc unesc g
proof unfold_locales
  fix st c
  assume "social_inv g st"
  then show "social_inv g (social_step trunc esc unesc c st)"
    using AddToSocialList_ok RemoveFromSocialList_ok SetFriendNote_ok AddToSocialList_mirrors
      RemoveFromSocialList_mirrors SetFriendNote_mirrors ops_keep_guid
    by (cases st; cases c) (simp_all add: case_prod_beta)
qed

lemma social_inv_start:
  "(\<And>f. rows_for t g f = []) \<Longrightarrow> social_inv g (PlayerSocial_new\<lparr>m_playerGUID := g\<rparr>, t)"
  by (simp add: PlayerSocial_new_def social_ok_def table_mirrors_def)

lemma social_run_inv:
  "(\<And>f. rows_for t g f = []) \<Longrightarrow>
   social_inv g (social_session trunc esc unesc ops g t)"
  unfolding social_session_def by (intro soc.run_inv social_inv_start legal_run_True)

section \<open>The two lists as sets\<close>

definition social_lists :: "PlayerSocial \<Rightarrow> bool \<Rightarrow> uint32 set" where
  "social_lists s ignore = {g. if ignore then HasIgnore g s else HasFriend g s}"

text \<open>The abstract lists: two sets of at most fifty members.\<close>

definition spec_add :: "uint32 \<Rightarrow> bool \<Rightarrow> (bool \<Rightarrow> uint32 set) \<Rightarrow> bool \<times> (bool \<Rightarrow> uint32 set)" where
  "spec_add g ignore L =
     (if card (L ignore) < 50 then (True, L(ignore := insert g (L ignore))) else (False, L))"

definition spec_remove :: "uint32 \<Rightarrow> bool \<Rightarrow> (bool \<Rightarrow> uint32 set) \<Rightarrow> bool \<Rightarrow> uint32 set" where
  "spec_remove g ignore L = L(ignore := L ignore - {g})"

lemma social_lists_alt:
  "social_lists s ignore = {g. \<exists>fi. smap_find (m_playerSocialMap s) g = Some fi \<and> on_list ignore fi}"
  by (auto simp: social_lists_def HasFriend_def HasIgnore_def on_list_def list_flag_def split: option.splits)

lemma card_social_lists:
  "social_ok s \<Longrightarrow> card (social_lists s ignore) = smap_count (on_list ignore) (m_playerSocialMap s)"
  by (simp add: social_lists_alt count_card social_ok_def)

lemma lists_of_added:
  assumes "smap_ok (m_playerSocialMap s)"
  shows "social_lists (s\<lparr>m_playerSocialMap := added f ignore (m_playerSocialMap s)\<rparr>)
    = (social_lists s)(ignore := insert f (social_lists s ignore))"
proof (rule ext)
  fix b
  show "social_lists (s\<lparr>m_playerSocialMap := added f ignore (m_playerSocialMap s)\<rparr>) b
    = ((social_lists s)(ignore := insert f (social_lists s ignore))) b"
    using assms
    by (cases "smap_find (m_playerSocialMap s) f")
      (auto simp: social_lists_alt added_def smap_simps on_list_update smap_at_def split: if_splits)
qed

lemma lists_of_add:
  assumes "social_ok s"
  shows "(case AddToSocialList g ignore s of (r, s', _) \<Rightarrow> (r, social_lists s')) = spec_add g ignore (social_lists s)"
proof -
  have m: "smap_ok (m_playerSocialMap s)" using assms by (simp add: social_ok_def)
  show ?thesis
  proof (cases "smap_count (on_list ignore) (m_playerSocialMap s) < 50")
    case True
    then show ?thesis
      by (simp add: AddToSocialList_room lists_of_added [OF m] spec_add_def card_social_lists [OF assms])
  next
    case False
    with assms have "smap_count (on_list ignore) (m_playerSocialMap s) = 50"
      by (cases ignore) (auto simp: social_ok_def SOCIALMGR_FRIEND_LIMIT_def SOCIALMGR_IGNORE_LIMIT_def)
    then show ?thesis
      by (simp add: AddToSocialList_full spec_add_def card_social_lists [OF assms])
  qed
qed

lemma lists_of_removed:
  assumes "social_ok s"
  shows "social_lists (fst (RemoveFromSocialList f ignore s)) = spec_remove f ignore (social_lists s)"
proof (rule ext)
  fix b
  have m: "smap_ok (m_playerSocialMap s)" using assms by (simp add: social_ok_def)
  have gone: "b \<noteq> ignore \<Longrightarrow> Flags fi AND NOT (list_flag ignore) = 0 \<Longrightarrow> \<not> on_list b fi" for fi
    using list_flags_clear [of "Flags fi" ignore b] by (auto simp: on_list_def)
  show "social_lists (fst (RemoveFromSocialList f ignore s)) b = spec_remove f ignore (social_lists s) b"
    using m gone
    by (cases "smap_find (m_playerSocialMap s) f")
      (auto simp: RemoveFromSocialList_unfold social_lists_alt spec_remove_def smap_simps on_list_update
        split: if_splits)
qed

lemma lists_of_noted:
  assumes "social_ok s"
  shows "social_lists (fst (SetFriendNote trunc esc f note s)) = social_lists s"
proof (rule ext)
  fix b
  have m: "smap_ok (m_playerSocialMap s)" using assms by (simp add: social_ok_def)
  show "social_lists (fst (SetFriendNote trunc esc f note s)) b = social_lists s b"
    using m by (auto simp: SetFriendNote_def Let_def social_lists_alt smap_simps on_list_update
        split: option.splits if_splits)
qed


section \<open>Loading what was saved\<close>

text \<open>
  The query \<open>CHAR_LOAD_PLAYER_SOCIALLIST\<close> of \<^verbatim>\<open>CharacterDatabase.cpp\<close>: the rows of the owner, joined with the
  \<open>characters\<close> table on the friend's number, without the friends whose character is deleted, at most 255 of
  them.  Of \<open>characters\<close> the query reads the nullable column \<open>deleteinfos_name\<close>, which is set when a character
  is deleted but kept.
\<close>

type_synonym characters = "uint32 \<rightharpoonup> string option"

definition social_query :: "characters \<Rightarrow> social_row list \<Rightarrow> uint32 \<Rightarrow> (uint32 \<times> uint8 \<times> string) list" where
  "social_query chars t g = take 255 (map (\<lambda>(_, f, fl, n). (f, ucast fl, n))
     (filter (\<lambda>(guid, f, _, _). guid = g \<and> chars f = Some None) t))"

text \<open>The characters that exist and are not deleted.\<close>

definition living :: "characters \<Rightarrow> uint32 set" where
  "living chars = {f. chars f = Some None}"

text \<open>The rows of one owner, before the join.\<close>

definition owner_rows :: "social_row list \<Rightarrow> uint32 \<Rightarrow> (uint32 \<times> uint8 \<times> string) list" where
  "owner_rows t g = map (\<lambda>(_, f, fl, n). (f, ucast fl, n)) (filter (\<lambda>r. fst r = g) t)"

lemma owner_rows_simps [simp]:
  "owner_rows [] g = []"
  "owner_rows (r # t) g =
     (if fst r = g then (fst (snd r), ucast (fst (snd (snd r))), snd (snd (snd r))) # owner_rows t g
      else owner_rows t g)"
  by (simp_all add: owner_rows_def case_prod_beta)

lemma owner_keys: "f \<in> fst ` set (owner_rows t g) \<longleftrightarrow> rows_for t g f \<noteq> []"
  by (induction t) (auto simp: image_iff)

lemma owner_map_of:
  "map_of (owner_rows t g) f =
     (case rows_for t g f of [] \<Rightarrow> None | (fl, n) # _ \<Rightarrow> Some (ucast fl, n))"
  by (induction t) (auto split: list.splits)

lemma owner_distinct:
  "(\<And>f. length (rows_for t g f) \<le> 1) \<Longrightarrow> distinct (map fst (owner_rows t g))"
proof (induction t)
  case Nil
  then show ?case by simp
next
  case (Cons r t)
  have "length (rows_for t g f) \<le> 1" for f
    using Cons.prems [of f] by (auto split: if_splits)
  then have IH: "distinct (map fst (owner_rows t g))" by (rule Cons.IH)
  moreover have "fst (snd r) \<notin> fst ` set (owner_rows t g)" if "fst r = g"
    using Cons.prems [of "fst (snd r)"] that unfolding owner_keys by simp
  ultimately show ?case by simp
qed

lemma map_of_filter_keys: "map_of (filter (\<lambda>r. P (fst r)) q) f = (if P f then map_of q f else None)"
  by (induction q) auto

lemma social_query_rows:
  "social_query chars t g = take 255 (filter (\<lambda>r. fst r \<in> living chars) (owner_rows t g))"
proof -
  have "map (\<lambda>(_, f, fl, n). (f, ucast fl, n)) (filter (\<lambda>(guid, f, _, _). guid = g \<and> chars f = Some None) t)
      = filter (\<lambda>r. fst r \<in> living chars) (owner_rows t g)"
    by (induction t) (auto simp: living_def)
  then show ?thesis by (simp add: social_query_def)
qed

lemma LoadFromDB_rows_find:
  "distinct (map fst rows) \<Longrightarrow> fst ` set rows \<inter> fst ` set (m_playerSocialMap s) = {} \<Longrightarrow>
   smap_ok (m_playerSocialMap s) \<Longrightarrow> length (m_playerSocialMap s) + length rows \<le> 100 \<Longrightarrow>
   smap_find (m_playerSocialMap (LoadFromDB_rows rows s)) f =
     (case map_of rows f of Some (fl, n) \<Rightarrow> Some (FriendInfo_new (ucast fl) n)
      | None \<Rightarrow> smap_find (m_playerSocialMap s) f)"
proof (induction rows s rule: LoadFromDB_rows.induct)
  case (1 s)
  then show ?case by simp
next
  case (2 k fl n rows s)
  let ?s = "s\<lparr>m_playerSocialMap := smap_put k (FriendInfo_new (ucast fl) n) (m_playerSocialMap s)\<rparr>"
  have len: "length (m_playerSocialMap ?s) = Suc (length (m_playerSocialMap s))"
    using 2 by (auto intro: put_absent_length)
  have k: "map_of rows k = None" using "2.prems"(1) by (auto simp: map_of_eq_None_iff)
  have find: "smap_find (m_playerSocialMap ?s) j =
      (if j = k then Some (FriendInfo_new (ucast fl) n) else smap_find (m_playerSocialMap s) j)" for j
    using "2.prems"(3) by (simp add: smap_simps)
  show ?case
  proof (cases "length (m_playerSocialMap ?s) \<ge> SOCIALMGR_FRIEND_LIMIT + SOCIALMGR_IGNORE_LIMIT")
    case True
    with "2.prems"(4) len have "rows = []"
      by (cases rows) (simp_all add: SOCIALMGR_FRIEND_LIMIT_def SOCIALMGR_IGNORE_LIMIT_def)
    with True find show ?thesis by (simp add: Let_def)
  next
    case False
    have "smap_find (m_playerSocialMap (LoadFromDB_rows rows ?s)) f =
        (case map_of rows f of Some (fl, n) \<Rightarrow> Some (FriendInfo_new (ucast fl) n)
         | None \<Rightarrow> smap_find (m_playerSocialMap ?s) f)"
      using "2.prems" len by (intro "2.IH" [OF refl False]) (auto simp: smap_simps keys_put)
    with False find k show ?thesis by (auto simp: Let_def split: option.splits)
  qed
qed

lemma social_ok_length:
  assumes "social_ok s"
  shows "length (m_playerSocialMap s) \<le> 100"
proof -
  have "length m \<le> smap_count (on_list False) m + smap_count (on_list True) m"
    if "\<forall>e \<in> set m. Flags (snd e) \<in> {1, 2, 3}" for m :: PlayerSocialMap
    using that by (induction m) (auto simp: count_Cons on_list_def list_flag_def social_flag_defs)
  from this [of "m_playerSocialMap s"] assms show ?thesis
    by (simp add: social_ok_def SOCIALMGR_FRIEND_LIMIT_def SOCIALMGR_IGNORE_LIMIT_def)
qed

lemma mirrored_rows:
  assumes ok: "social_ok s" and mir: "table_mirrors s t"
  shows "distinct (map fst (owner_rows t (m_playerGUID s)))"
    and "length (owner_rows t (m_playerGUID s)) \<le> 100"
proof -
  let ?q = "owner_rows t (m_playerGUID s)"
  have one: "length (rows_for t (m_playerGUID s) f) \<le> 1" for f
    using mirrors_row [OF mir, of f] mirrors_no_row [OF mir, of f]
    by (cases "smap_find (m_playerSocialMap s) f") auto
  show d: "distinct (map fst ?q)" by (rule owner_distinct [OF one])
  have "fst ` set ?q = fst ` set (m_playerSocialMap s)"
  proof (rule set_eqI)
    fix f
    have "f \<in> fst ` set ?q \<longleftrightarrow> smap_find (m_playerSocialMap s) f \<noteq> None"
      using mirrors_row [OF mir, of f] mirrors_no_row [OF mir, of f] unfolding owner_keys
      by (cases "smap_find (m_playerSocialMap s) f") auto
    then show "f \<in> fst ` set ?q \<longleftrightarrow> f \<in> fst ` set (m_playerSocialMap s)"
      by (simp add: find_None_iff)
  qed
  moreover have "length ?q = card (fst ` set ?q)"
    using distinct_card [OF d] by simp
  moreover have "card (fst ` set (m_playerSocialMap s)) \<le> length (m_playerSocialMap s)"
    using card_length [of "map fst (m_playerSocialMap s)"] by simp
  ultimately show "length ?q \<le> 100" using social_ok_length [OF ok] by simp
qed

lemma mirrored_query:
  assumes ok: "social_ok s" and mir: "table_mirrors s t"
  shows "social_query chars t (m_playerGUID s) = filter (\<lambda>r. fst r \<in> living chars) (owner_rows t (m_playerGUID s))"
    and "distinct (map fst (social_query chars t (m_playerGUID s)))"
    and "length (social_query chars t (m_playerGUID s)) \<le> 100"
proof -
  let ?f = "filter (\<lambda>r. fst r \<in> living chars) (owner_rows t (m_playerGUID s))"
  have len: "length ?f \<le> 100"
    by (rule le_trans [OF length_filter_le mirrored_rows(2) [OF ok mir]])
  then show q: "social_query chars t (m_playerGUID s) = ?f" by (simp add: social_query_rows)
  show "distinct (map fst (social_query chars t (m_playerGUID s)))" unfolding q by (rule distinct_map_filter [OF mirrored_rows(1) [OF ok mir]])
  show "length (social_query chars t (m_playerGUID s)) \<le> 100" unfolding q by (rule len)
qed

lemma reload_find:
  assumes ok: "social_ok s" and mir: "table_mirrors s t"
  shows "map_option Flags (smap_find (m_playerSocialMap
      (LoadFromDB_rows (social_query chars t (m_playerGUID s)) (PlayerSocial_new\<lparr>m_playerGUID := m_playerGUID s\<rparr>))) f)
    = (if f \<in> living chars then map_option Flags (smap_find (m_playerSocialMap s) f) else None)"
proof -
  have u: "x \<in> {1, 2, 3} \<Longrightarrow> ucast (ucast x :: uint8) = x" for x :: uint32
    by auto
  have load: "smap_find (m_playerSocialMap
      (LoadFromDB_rows (social_query chars t (m_playerGUID s)) (PlayerSocial_new\<lparr>m_playerGUID := m_playerGUID s\<rparr>))) f
    = (case map_of (social_query chars t (m_playerGUID s)) f of
         Some (fl, n) \<Rightarrow> Some (FriendInfo_new (ucast fl) n) | None \<Rightarrow> None)"
    using mirrored_query(2,3) [OF ok mir]
    by (subst LoadFromDB_rows_find) (simp_all add: PlayerSocial_new_def split: option.split)
  have of: "map_of (social_query chars t (m_playerGUID s)) f
    = (if f \<in> living chars then case rows_for t (m_playerGUID s) f of [] \<Rightarrow> None | (fl, n) # _ \<Rightarrow> Some (ucast fl, n) else None)"
    unfolding mirrored_query(1) [OF ok mir] by (simp add: map_of_filter_keys [of "\<lambda>f. f \<in> living chars"] owner_map_of)
  show ?thesis
  proof (cases "smap_find (m_playerSocialMap s) f")
    case None
    with mirrors_no_row [OF mir None] show ?thesis by (simp add: load of)
  next
    case (Some fi)
    obtain n where "rows_for t (m_playerGUID s) f = [(Flags fi, n)]"
      using mirrors_row [OF mir Some] by blast
    with Some u [OF social_ok_find [OF ok Some]] show ?thesis
      by (simp add: load of FriendInfo_new_def)
  qed
qed

lemma lists_from_flags:
  assumes "\<And>f. map_option Flags (smap_find (m_playerSocialMap s') f) = (if f \<in> A then map_option Flags (smap_find (m_playerSocialMap s) f) else None)"
  shows "social_lists s' b = social_lists s b \<inter> A"
proof (intro set_eqI)
  fix g
  from assms [of g] show "g \<in> social_lists s' b \<longleftrightarrow> g \<in> social_lists s b \<inter> A"
    by (cases "smap_find (m_playerSocialMap s) g"; cases "smap_find (m_playerSocialMap s') g"; cases "g \<in> A")
      (auto simp: social_lists_alt on_list_def)
qed

section \<open>Properties\<close>

text \<open>
  C10 (refinement).  Whatever sequence of \<open>AddToSocialList\<close>, \<open>RemoveFromSocialList\<close> and \<open>SetFriendNote\<close>
  calls is made on a new list, the rows of \<open>character_social\<close> for its owner are exactly its entries:
  one row with the same flags for each entry, and no row for anybody else.
\<close>
theorem social_table_refines_list:
  assumes "\<And>f. rows_for t g f = []"
    and "st = social_session trunc esc unesc ops g t"
  shows "map fst (rows_for (snd st) g f) =
    (case smap_find (m_playerSocialMap (fst st)) f of None \<Rightarrow> [] | Some fi \<Rightarrow> [Flags fi])"
  using social_run_inv [OF assms(1), of trunc esc unesc ops, folded assms(2)]
  by (cases st) (auto simp: table_mirrors_def)

theorem social_table_refines_list_witness:
  "map fst (rows_for (snd (social_session (\<lambda>s n. take n s) id id
      [AddFriendOp 9 False, AddFriendOp 9 True, AddFriendOp 4 True, NoteOp 9 ''hi'', RemoveFriendOp 4 True]
      7 [(8, 9, 1, '''')])) 7 9) = [3]"
proof -
  let ?ops = "[AddFriendOp 9 False, AddFriendOp 9 True, AddFriendOp 4 True, NoteOp 9 ''hi'', RemoveFriendOp 4 True]"
  have "rows_for [(8, 9, 1, '''')] 7 f = []" for f :: uint32 by simp
  note inst = social_table_refines_list [OF this refl, of "\<lambda>s n. take n s" id id ?ops 9]
  have "map_option Flags (smap_find (m_playerSocialMap (fst (social_session (\<lambda>s n. take n s) id id
      ?ops 7 [(8, 9, 1, '''')]))) 9) = Some 3"
    by code_simp
  with inst show ?thesis by (auto split: option.splits)
qed

text \<open>
  After any sequence of calls on a new list there are at most fifty friends and fifty
  ignored characters, at most a hundred entries, and no entry that is on neither list.
\<close>
theorem social_limits:
  fixes trunc esc unesc ops g
  defines "s \<equiv> fst (social_session trunc esc unesc ops g [])"
  shows "GetNumberOfSocialsWithFlag SOCIAL_FLAG_FRIEND s \<le> 50
    \<and> GetNumberOfSocialsWithFlag SOCIAL_FLAG_IGNORED s \<le> 50
    \<and> length (m_playerSocialMap s) \<le> 100
    \<and> list_all (\<lambda>e. HasFriend (fst e) s \<or> HasIgnore (fst e) s) (m_playerSocialMap s)"
proof -
  have "social_inv g (social_session trunc esc unesc ops g [])"
    by (rule social_run_inv) simp
  then have ok: "social_ok s"
    unfolding s_def by (metis prod.collapse social_inv.simps)
  have w: "n \<le> 50 \<Longrightarrow> (of_nat n :: uint32) \<le> 50" for n :: nat
    by (simp add: word_le_nat_alt unat_of_nat)
  have "list_all (\<lambda>e. HasFriend (fst e) s \<or> HasIgnore (fst e) s) (m_playerSocialMap s)"
    unfolding list_all_iff
  proof
    fix e assume e: "e \<in> set (m_playerSocialMap s)"
    have "smap_ok (m_playerSocialMap s)" using ok by (simp add: social_ok_def)
    then have "smap_find (m_playerSocialMap s) (fst e) = Some (snd e)"
      using e by (simp add: find_Some_iff)
    moreover have "Flags (snd e) \<in> {1, 2, 3}" using ok e by (simp add: social_ok_def)
    ultimately show "HasFriend (fst e) s \<or> HasIgnore (fst e) s"
      by (auto simp: HasFriend_def HasIgnore_def social_flag_defs)
  qed
  with ok w social_ok_length [OF ok] show ?thesis
    by (simp add: GetNumber_count social_ok_def on_list_def [abs_def] list_flag_def
        SOCIALMGR_FRIEND_LIMIT_def SOCIALMGR_IGNORE_LIMIT_def)
qed

text \<open>
  C30 (refinement).  The friend list and the ignore list behave as two sets of at most fifty
  members: adding fails exactly when the set is full and otherwise inserts, removing deletes from the
  one set and leaves the other alone although both share an entry, a note changes neither.
\<close>
theorem social_lists_are_sets:
  assumes "social_ok s"
  shows "(case AddToSocialList g ignore s of (r, s', _) \<Rightarrow> (r, social_lists s')) = spec_add g ignore (social_lists s)
    \<and> social_lists (fst (RemoveFromSocialList g ignore s)) = spec_remove g ignore (social_lists s)
    \<and> social_lists (fst (SetFriendNote trunc esc g note s)) = social_lists s"
  using lists_of_add [OF assms] lists_of_removed [OF assms] lists_of_noted [OF assms] by simp

theorem social_lists_are_sets_witness:
  "social_lists (fst (RemoveFromSocialList 9 True
     (PlayerSocial_new\<lparr>m_playerSocialMap := [(9, FriendInfo_new 3 ''x'')]\<rparr>))) False = {9}"
proof -
  let ?s = "PlayerSocial_new\<lparr>m_playerSocialMap := [(9, FriendInfo_new 3 ''x'')]\<rparr>"
  have "social_ok ?s"
    by (simp add: social_ok_def smap_ok_def count_Cons SOCIALMGR_FRIEND_LIMIT_def SOCIALMGR_IGNORE_LIMIT_def
        FriendInfo_new_def)
  from social_lists_are_sets [OF this, of 9 True] show ?thesis
    by (auto simp: spec_remove_def social_lists_def HasFriend_def find_Cons FriendInfo_new_def
        social_flag_defs split: if_splits)
qed

text \<open>
  C23 (round trip).  A character that logs in again has the lists it logged out with, restricted to the characters that
  still exist and are not deleted: loading what the query returns after any sequence of calls restores exactly every such
  friend and every such ignored character.  Neither the \<open>LIMIT 255\<close> of the query nor the bound of the loading loop ever
  cuts a row off.
\<close>
theorem social_reload_roundtrip:
  assumes "\<And>f. rows_for t g f = []"
    and "st = social_session trunc esc unesc ops g t"
  shows "social_lists (LoadFromDB_rows (social_query chars (snd st) g) (PlayerSocial_new\<lparr>m_playerGUID := g\<rparr>)) ignore
    = social_lists (fst st) ignore \<inter> living chars"
proof -
  obtain s t' where st: "st = (s, t')" by (cases st)
  have "social_inv g st" unfolding assms(2) by (rule social_run_inv [OF assms(1)])
  then have "m_playerGUID s = g" "social_ok s" "table_mirrors s t'" by (simp_all add: st)
  then show ?thesis using reload_find [of s t' chars] by (auto simp: st intro!: lists_from_flags)
qed

theorem social_reload_roundtrip_witness:
  "social_lists (LoadFromDB_rows (social_query [9 \<mapsto> None, 4 \<mapsto> Some ''Eve'']
        (snd (social_session (\<lambda>s n. take n s) id id [AddFriendOp 9 False, AddFriendOp 4 False, AddFriendOp 5 False] 7 [])) 7)
      (PlayerSocial_new\<lparr>m_playerGUID := 7\<rparr>)) False = {9}"
proof -
  let ?ops = "[AddFriendOp 9 False, AddFriendOp 4 False, AddFriendOp 5 False]"
  have "rows_for [] 7 f = []" for f :: uint32 by simp
  note inst = social_reload_roundtrip [OF this refl, of "[9 \<mapsto> None, 4 \<mapsto> Some ''Eve'']" "\<lambda>s n. take n s" id id ?ops False]
  have "HasFriend 9 (fst (social_session (\<lambda>s n. take n s) id id ?ops 7 []))" by code_simp
  moreover have "living [9 \<mapsto> None, 4 \<mapsto> Some ''Eve''] = {9}" by (auto simp: living_def split: if_splits)
  ultimately show ?thesis unfolding inst by (auto simp: social_lists_def)
qed

text \<open>
  \<open>SetFriendNote\<close> keeps the note in memory in the form in which it was escaped for the
  SQL statement, so until the next login the list holds a different note than the table.
\<close>
theorem SetFriendNote_keeps_escaped_note:
  assumes "social_ok s" "table_mirrors s t" "smap_find (m_playerSocialMap s) g = Some fi"
    and "unesc (esc (trunc note 48)) = trunc note 48"
    and "res = SetFriendNote trunc esc g note s"
  shows "map snd (rows_for (fold (exec_social unesc) (snd res) t) (m_playerGUID s) g) = [trunc note 48]
    \<and> map_option Note (smap_find (m_playerSocialMap (fst res)) g) = Some (esc (trunc note 48))"
proof -
  have m: "smap_ok (m_playerSocialMap s)" using assms(1) by (simp add: social_ok_def)
  obtain n where "rows_for t (m_playerGUID s) g = [(Flags fi, n)]"
    using mirrors_row [OF assms(2,3)] by blast
  then show ?thesis
    using assms(3,4)
    by (simp add: assms(5) SetFriendNote_def Let_def smap_simps m del: exec_social.simps)
qed

theorem SetFriendNote_keeps_escaped_note_witness:
  "map_option Note (smap_find (m_playerSocialMap (fst (SetFriendNote (\<lambda>s n. take n s)
      (\<lambda>s. concat (map (\<lambda>c. if c = CHR 0x27 then [CHR 0x5C, c] else [c]) s)) 9 [CHR ''o'', CHR 0x27]
      (PlayerSocial_new\<lparr>m_playerSocialMap := [(9, FriendInfo_new 1 '''')]\<rparr>)))) 9)
     = Some [CHR ''o'', CHR 0x5C, CHR 0x27]"
proof -
  let ?s = "PlayerSocial_new\<lparr>m_playerSocialMap := [(9, FriendInfo_new 1 '''')]\<rparr>"
  let ?esc = "\<lambda>s. concat (map (\<lambda>c. if c = CHR 0x27 then [CHR 0x5C, c] else [c]) s)"
  have "social_ok ?s"
    by (simp add: social_ok_def smap_ok_def count_Cons SOCIALMGR_FRIEND_LIMIT_def SOCIALMGR_IGNORE_LIMIT_def
        FriendInfo_new_def)
  moreover have "table_mirrors ?s [(0, 9, 1, '''')]"
    by (simp add: table_mirrors_def PlayerSocial_new_def find_Cons FriendInfo_new_def)
  moreover have "smap_find (m_playerSocialMap ?s) 9 = Some (FriendInfo_new 1 '''')"
    by (simp add: find_Cons)
  moreover have "filter (\<lambda>c. c \<noteq> CHR 0x5C) (?esc (take 48 [CHR ''o'', CHR 0x27])) = take 48 [CHR ''o'', CHR 0x27]"
    by simp
  ultimately show ?thesis
    using SetFriendNote_keeps_escaped_note
      [of ?s "[(0, 9, 1, '''')]" 9 "FriendInfo_new 1 ''''" "filter (\<lambda>c. c \<noteq> CHR 0x5C)" ?esc
        "\<lambda>s n. take n s" "[CHR ''o'', CHR 0x27]", OF _ _ _ _ refl]
    by simp
qed

end
