(* ===== verification/Game_World.thy ===== *)
theory Game_World
  imports Byte_Buffer Social_List
begin

text \<open>
  What the social and chat code reads of the rest of the server: global identifiers
  (\<^verbatim>\<open>ObjectDefines.h\<close>), account levels (\<^verbatim>\<open>Common.h\<close>), the fields of \<open>Player\<close> and of its session that are
  consulted, the registry of players (\<^verbatim>\<open>ObjectAccessor\<close>), configuration values and the rows that data
  stores and queries return.
\<close>

section \<open>Global identifiers\<close>

definition HIGHGUID_PLAYER :: uint64 where "HIGHGUID_PLAYER = 0x0000"

definition MAKE_NEW_GUID :: "uint64 \<Rightarrow> uint64 \<Rightarrow> uint64 \<Rightarrow> uint64" where
  "MAKE_NEW_GUID l e h = (l OR push_bit 24 e) OR push_bit 48 h"

definition GUID_HIPART :: "uint64 \<Rightarrow> uint32" where
  "GUID_HIPART x = ucast (drop_bit 48 x AND 0xFFFF)"

text \<open>Items, players, dynamic objects, corpses and groups have no entry part.\<close>

definition IsGuidHaveEnPart :: "uint64 \<Rightarrow> bool" where
  "IsGuidHaveEnPart guid \<longleftrightarrow> GUID_HIPART guid \<notin> {0x4000, 0x0000, 0xF100, 0xF101, 0x1F50}"

definition GUID_LOPART :: "uint64 \<Rightarrow> uint32" where
  "GUID_LOPART x = (if IsGuidHaveEnPart x then ucast (x AND 0xFFFFFF) else ucast (x AND 0xFFFFFFFF))"

section \<open>Account levels\<close>

datatype AccountTypes = SEC_PLAYER | SEC_MODERATOR | SEC_GAMEMASTER | SEC_ADMINISTRATOR | SEC_CONSOLE

fun sec_value :: "AccountTypes \<Rightarrow> nat" where
  "sec_value SEC_PLAYER = 0"
| "sec_value SEC_MODERATOR = 1"
| "sec_value SEC_GAMEMASTER = 2"
| "sec_value SEC_ADMINISTRATOR = 3"
| "sec_value SEC_CONSOLE = 4"

lemma sec_value_inj: "sec_value a = sec_value b \<longleftrightarrow> a = b"
  by (cases a; cases b) auto

instantiation AccountTypes :: linorder
begin

definition less_eq_AccountTypes :: "AccountTypes \<Rightarrow> AccountTypes \<Rightarrow> bool" where
  "less_eq_AccountTypes a b \<longleftrightarrow> sec_value a \<le> sec_value b"

definition less_AccountTypes :: "AccountTypes \<Rightarrow> AccountTypes \<Rightarrow> bool" where
  "less_AccountTypes a b \<longleftrightarrow> sec_value a < sec_value b"

instance
  by standard (auto simp: less_eq_AccountTypes_def less_AccountTypes_def sec_value_inj)

end

lemmas sec_order = less_eq_AccountTypes_def less_AccountTypes_def

section \<open>Players\<close>

record Player =
  plr_GUID :: uint64
  plr_Name :: string
  plr_Team :: uint32
  plr_Security :: AccountTypes
  plr_InWorld :: bool
  plr_Visible :: bool
  plr_AFK :: bool
  plr_DND :: bool
  plr_GMChat :: bool
  plr_ZoneId :: uint32
  plr_Level :: uint8
  plr_Class :: uint8
  plr_InGroup :: bool
  plr_GuildId :: uint32

definition HORDE :: uint32 where "HORDE = 67"
definition ALLIANCE :: uint32 where "ALLIANCE = 469"

definition Player_chatTag :: "Player \<Rightarrow> uint8" where
  "Player_chatTag p = (if plr_GMChat p then 4 else if plr_DND p then 3 else if plr_AFK p then 1 else 0)"

text \<open>\<open>this == u\<close> compares pointers; a player object is named by its GUID.\<close>

definition Player_IsVisibleGloballyFor :: "Player \<Rightarrow> Player \<Rightarrow> bool" where
  "Player_IsVisibleGloballyFor this u =
     (if plr_GUID u = plr_GUID this then True
      else if plr_Visible this then True
      else if plr_Security u > SEC_PLAYER then plr_Security this \<le> plr_Security u
      else if \<not> plr_Visible this then False
      else True)"

section \<open>The world as the components see it\<close>

type_synonym SocialMap = "(uint32, PlayerSocial) smap"

record World =
  w_players :: "Player list"                             \<comment> \<open>\<open>HashMapHolder<Player>\<close>\<close>
  w_characters :: "uint64 \<Rightarrow> string option"              \<comment> \<open>names in the \<open>characters\<close> table\<close>
  w_ChatChannels :: "uint32 \<Rightarrow> uint32 option"            \<comment> \<open>\<open>sChatChannelsStore\<close>: the flags of a row\<close>
  CONFIG_ALLOW_TWO_SIDE_WHO_LIST :: bool
  CONFIG_GM_LEVEL_IN_WHO_LIST :: nat
  CONFIG_ALLOW_TWO_SIDE_ADD_FRIEND :: bool
  CONFIG_ALLOW_GM_FRIEND :: bool
  CONFIG_ALLOW_TWO_SIDE_INTERACTION_CHANNEL :: bool
  CONFIG_RESTRICTED_LFG_CHANNEL :: bool
  CONFIG_SILENTLY_GM_JOIN_TO_CHANNEL :: bool
  CONFIG_PRESERVE_CUSTOM_CHANNELS :: bool
  CONFIG_PRESERVE_CUSTOM_CHANNEL_DURATION :: uint32

definition FindPlayer :: "World \<Rightarrow> uint64 \<Rightarrow> Player option" where
  "FindPlayer w guid =
     (case find (\<lambda>p. plr_GUID p = guid) (w_players w) of
        None \<Rightarrow> None
      | Some p \<Rightarrow> if plr_InWorld p then Some p else None)"

definition FindPlayerByName :: "World \<Rightarrow> string \<Rightarrow> Player option" where
  "FindPlayerByName w name = find (\<lambda>p. plr_InWorld p \<and> plr_Name p = name) (w_players w)"

definition GetPlayerNameByGUID :: "World \<Rightarrow> uint64 \<Rightarrow> string option" where
  "GetPlayerNameByGUID w guid =
     (case FindPlayer w guid of Some p \<Rightarrow> Some (plr_Name p) | None \<Rightarrow> w_characters w guid)"

text \<open>\<open>player->GetSocial()\<close> is the entry of the social map that \<open>LoadFromDB\<close> returned for the player.\<close>

definition GetSocial :: "SocialMap \<Rightarrow> Player \<Rightarrow> PlayerSocial" where
  "GetSocial socials p = smap_at PlayerSocial_new socials (GUID_LOPART (plr_GUID p))"

section \<open>A small world for examples\<close>

definition sample_player :: "uint64 \<Rightarrow> string \<Rightarrow> Player" where
  "sample_player guid name =
     \<lparr>plr_GUID = guid, plr_Name = name, plr_Team = HORDE, plr_Security = SEC_PLAYER, plr_InWorld = True,
      plr_Visible = True, plr_AFK = False, plr_DND = False, plr_GMChat = False, plr_ZoneId = 14, plr_Level = 10,
      plr_Class = 1, plr_InGroup = False, plr_GuildId = 0\<rparr>"

definition sample_world :: "Player list \<Rightarrow> World" where
  "sample_world ps =
     \<lparr>w_players = ps, w_characters = (\<lambda>_. None), w_ChatChannels = (\<lambda>_. None),
      CONFIG_ALLOW_TWO_SIDE_WHO_LIST = False, CONFIG_GM_LEVEL_IN_WHO_LIST = 0,
      CONFIG_ALLOW_TWO_SIDE_ADD_FRIEND = False, CONFIG_ALLOW_GM_FRIEND = False,
      CONFIG_ALLOW_TWO_SIDE_INTERACTION_CHANNEL = False, CONFIG_RESTRICTED_LFG_CHANNEL = False,
      CONFIG_SILENTLY_GM_JOIN_TO_CHANNEL = False, CONFIG_PRESERVE_CUSTOM_CHANNELS = True,
      CONFIG_PRESERVE_CUSTOM_CHANNEL_DURATION = 0\<rparr>"

section \<open>Lemmas\<close>

lemma FindPlayer_GUID: "FindPlayer w guid = Some p \<Longrightarrow> plr_GUID p = guid"
  by (auto simp: FindPlayer_def List.find_Some_iff split: option.splits if_splits)

lemma FindPlayer_InWorld: "FindPlayer w guid = Some p \<Longrightarrow> plr_InWorld p"
  by (auto simp: FindPlayer_def split: option.splits if_splits)

lemma FindPlayerByName_Name: "FindPlayerByName w name = Some p \<Longrightarrow> plr_Name p = name"
  by (auto simp: FindPlayerByName_def List.find_Some_iff)

lemma GUID_LOPART_player: "GUID_LOPART (ucast (l :: uint32)) = l"
proof -
  have "drop_bit 48 (ucast l :: uint64) = 0"
    by (rule bit_word_eqI) (auto simp: bit_simps dest: bit_imp_le_length)
  moreover have "(0xFFFFFFFF :: uint64) = mask 32" by (simp add: mask_eq_exp_minus_1)
  moreover have "ucast ((ucast l :: uint64) AND mask 32) = l"
    by (rule bit_word_eqI) (auto simp: bit_simps dest: bit_imp_le_length)
  ultimately show ?thesis by (simp add: GUID_LOPART_def IsGuidHaveEnPart_def GUID_HIPART_def)
qed

lemma MAKE_NEW_GUID_player: "MAKE_NEW_GUID l 0 HIGHGUID_PLAYER = l"
  by (simp add: MAKE_NEW_GUID_def HIGHGUID_PLAYER_def)

end
