(* ===== verification/Social_Mgr.thy ===== *)
theory Social_Mgr
  imports Game_World
begin

text \<open>
  \<open>SocialMgr\<close> of \<^verbatim>\<open>src/server/game/Entities/Player/SocialMgr.cpp\<close> and the contact handlers of
  \<^verbatim>\<open>MiscHandler.cpp\<close>: the lists of all characters, the packets that show them, and who is told when a
  character comes and goes.  \<open>sm_sent\<close> and \<open>sm_sql\<close> record the packets sent (with the receiver's GUID) and
  the statements executed, oldest first.
\<close>

section \<open>Data\<close>

definition SMSG_CONTACT_LIST :: uint32 where "SMSG_CONTACT_LIST = 0x748C"
definition SMSG_FRIEND_STATUS :: uint32 where "SMSG_FRIEND_STATUS = 0xF68C"

fun FriendStatus_value :: "FriendStatus \<Rightarrow> uint8" where
  "FriendStatus_value FRIEND_STATUS_OFFLINE = 0"
| "FriendStatus_value FRIEND_STATUS_ONLINE = 1"
| "FriendStatus_value FRIEND_STATUS_AFK = 2"
| "FriendStatus_value FRIEND_STATUS_UNK3 = 3"
| "FriendStatus_value FRIEND_STATUS_DND = 4"

datatype FriendsResult =
    FRIEND_DB_ERROR | FRIEND_LIST_FULL | FRIEND_ONLINE | FRIEND_OFFLINE | FRIEND_NOT_FOUND
  | FRIEND_REMOVED | FRIEND_ADDED_ONLINE | FRIEND_ADDED_OFFLINE | FRIEND_ALREADY | FRIEND_SELF
  | FRIEND_ENEMY | FRIEND_IGNORE_FULL | FRIEND_IGNORE_SELF | FRIEND_IGNORE_NOT_FOUND
  | FRIEND_IGNORE_ALREADY | FRIEND_IGNORE_ADDED | FRIEND_IGNORE_REMOVED

fun FriendsResult_value :: "FriendsResult \<Rightarrow> uint8" where
  "FriendsResult_value FRIEND_DB_ERROR = 0x00"
| "FriendsResult_value FRIEND_LIST_FULL = 0x01"
| "FriendsResult_value FRIEND_ONLINE = 0x02"
| "FriendsResult_value FRIEND_OFFLINE = 0x03"
| "FriendsResult_value FRIEND_NOT_FOUND = 0x04"
| "FriendsResult_value FRIEND_REMOVED = 0x05"
| "FriendsResult_value FRIEND_ADDED_ONLINE = 0x06"
| "FriendsResult_value FRIEND_ADDED_OFFLINE = 0x07"
| "FriendsResult_value FRIEND_ALREADY = 0x08"
| "FriendsResult_value FRIEND_SELF = 0x09"
| "FriendsResult_value FRIEND_ENEMY = 0x0A"
| "FriendsResult_value FRIEND_IGNORE_FULL = 0x0B"
| "FriendsResult_value FRIEND_IGNORE_SELF = 0x0C"
| "FriendsResult_value FRIEND_IGNORE_NOT_FOUND = 0x0D"
| "FriendsResult_value FRIEND_IGNORE_ALREADY = 0x0E"
| "FriendsResult_value FRIEND_IGNORE_ADDED = 0x0F"
| "FriendsResult_value FRIEND_IGNORE_REMOVED = 0x10"

record SocialMgr =
  sm_socialMap :: SocialMap
  sm_sent :: "(uint64 \<times> packet) list"
  sm_sql :: "social_sql list"

definition social_send :: "uint64 \<Rightarrow> packet \<Rightarrow> SocialMgr \<Rightarrow> SocialMgr" where
  "social_send guid pkt st = st\<lparr>sm_sent := sm_sent st @ [(guid, pkt)]\<rparr>"

text \<open>The list of a player, and an operation applied to it through the pointer \<open>GetSocial()\<close>.\<close>

definition social_of :: "Player \<Rightarrow> SocialMgr \<Rightarrow> PlayerSocial" where
  "social_of p st = GetSocial (sm_socialMap st) p"

definition set_social :: "Player \<Rightarrow> PlayerSocial \<Rightarrow> social_sql list \<Rightarrow> SocialMgr \<Rightarrow> SocialMgr" where
  "set_social p s sql st =
     st\<lparr>sm_socialMap := smap_put (GUID_LOPART (plr_GUID p)) s (sm_socialMap st), sm_sql := sm_sql st @ sql\<rparr>"

section \<open>SocialMgr\<close>

definition SocialMgr_GetFriendInfo ::
  "World \<Rightarrow> SocialMap \<Rightarrow> Player option \<Rightarrow> uint32 \<Rightarrow> FriendInfo \<Rightarrow> FriendInfo" where
  "SocialMgr_GetFriendInfo w socials player friendGUID friendInfo =
     (case player of
        None \<Rightarrow> friendInfo
      | Some player \<Rightarrow>
          let fi0 = friendInfo\<lparr>Status := FRIEND_STATUS_OFFLINE, Area := 0, Level := 0, Class := 0\<rparr> in
          case FindPlayer w (ucast friendGUID) of
            None \<Rightarrow> fi0
          | Some pFriend \<Rightarrow>
              let fi1 = (case smap_find (m_playerSocialMap (GetSocial socials player)) friendGUID of
                           Some e \<Rightarrow> fi0\<lparr>Note := Note e\<rparr> | None \<Rightarrow> fi0)
              in if (plr_Security player > SEC_PLAYER \<or>
                     ((plr_Team pFriend = plr_Team player \<or> CONFIG_ALLOW_TWO_SIDE_WHO_LIST w) \<and>
                      sec_value (plr_Security pFriend) \<le> CONFIG_GM_LEVEL_IN_WHO_LIST w)) \<and>
                    Player_IsVisibleGloballyFor pFriend player
                 then fi1\<lparr>Status := (if plr_DND pFriend then FRIEND_STATUS_DND
                                    else if plr_AFK pFriend then FRIEND_STATUS_AFK
                                    else FRIEND_STATUS_ONLINE),
                           Area := plr_ZoneId pFriend,
                           Level := plr_Level pFriend,
                           Class := plr_Class pFriend\<rparr>
                 else fi1)"

definition contact_fields :: "uint32 \<Rightarrow> uint32 \<times> FriendInfo \<Rightarrow> field list" where
  "contact_fields msk e =
     (let fi = snd e in
      if Flags fi AND msk = 0 then []
      else [U64 (ucast (fst e)), U32 (Flags fi), Str (Note fi)]
           @ (if Flags fi AND SOCIAL_FLAG_FRIEND \<noteq> 0
              then U8 (FriendStatus_value (Status fi))
                   # (if FriendStatus_value (Status fi) \<noteq> 0
                      then [U32 (Area fi), U32 (ucast (Level fi)), U32 (ucast (Class fi))] else [])
              else []))"

definition PlayerSocial_SendSocialList ::
  "World \<Rightarrow> Player \<Rightarrow> Player option \<Rightarrow> uint32 \<Rightarrow> SocialMgr \<Rightarrow> SocialMgr" where
  "PlayerSocial_SendSocialList w owner plr msk st =
     (case plr of
        None \<Rightarrow> st
      | Some p \<Rightarrow>
          let s = social_of owner st;
              m = map (\<lambda>(k, fi). (k, SocialMgr_GetFriendInfo w (sm_socialMap st) plr k fi)) (m_playerSocialMap s);
              count = length (filter (\<lambda>e. Flags (snd e) AND msk \<noteq> 0) m);
              data = Packet SMSG_CONTACT_LIST ([U32 msk, U32 0] @ concat (map (contact_fields msk) m))
          in social_send (plr_GUID p) (packet_put 1 (of_nat count) data)
               (set_social owner (s\<lparr>m_playerSocialMap := m\<rparr>) [] st))"

definition MakeFriendStatusPacket :: "FriendsResult \<Rightarrow> uint32 \<Rightarrow> field list" where
  "MakeFriendStatusPacket result guid = [U8 (FriendsResult_value result), U64 (ucast guid)]"

definition SocialMgr_BroadcastToFriendListers ::
  "World \<Rightarrow> Player option \<Rightarrow> packet \<Rightarrow> SocialMgr \<Rightarrow> SocialMgr" where
  "SocialMgr_BroadcastToFriendListers w player pkt st =
     (case player of
        None \<Rightarrow> st
      | Some player \<Rightarrow>
          foldl (\<lambda>st' e.
            case smap_find (m_playerSocialMap (snd e)) (GUID_LOPART (plr_GUID player)) of
              None \<Rightarrow> st'
            | Some fi \<Rightarrow>
                if Flags fi AND SOCIAL_FLAG_FRIEND \<noteq> 0 then
                  (case FindPlayer w (MAKE_NEW_GUID (ucast (fst e)) 0 HIGHGUID_PLAYER) of
                     None \<Rightarrow> st'
                   | Some pFriend \<Rightarrow>
                       if plr_InWorld pFriend \<and>
                          (plr_Security pFriend > SEC_PLAYER \<or>
                           ((plr_Team pFriend = plr_Team player \<or> CONFIG_ALLOW_TWO_SIDE_WHO_LIST w) \<and>
                            sec_value (plr_Security player) \<le> CONFIG_GM_LEVEL_IN_WHO_LIST w)) \<and>
                          Player_IsVisibleGloballyFor player pFriend
                       then social_send (plr_GUID pFriend) pkt st'
                       else st')
                else st') st (sm_socialMap st))"

definition SocialMgr_SendFriendStatus ::
  "World \<Rightarrow> Player \<Rightarrow> FriendsResult \<Rightarrow> uint32 \<Rightarrow> bool \<Rightarrow> SocialMgr \<Rightarrow> SocialMgr" where
  "SocialMgr_SendFriendStatus w player result friend_guid broadcast st =
     (let fi = SocialMgr_GetFriendInfo w (sm_socialMap st) (Some player) friend_guid FriendInfo_default;
          data = Packet SMSG_FRIEND_STATUS
                   (MakeFriendStatusPacket result friend_guid
                    @ (if result \<in> {FRIEND_ADDED_OFFLINE, FRIEND_ADDED_ONLINE} then [Str (Note fi)] else [])
                    @ (if result \<in> {FRIEND_ADDED_ONLINE, FRIEND_ONLINE}
                       then [U8 (FriendStatus_value (Status fi)), U32 (Area fi), U32 (ucast (Level fi)),
                             U32 (ucast (Class fi))] else []))
      in if broadcast then SocialMgr_BroadcastToFriendListers w (Some player) data st
         else social_send (plr_GUID player) data st)"

definition SocialMgr_LoadFromDB ::
  "(uint32 \<times> uint8 \<times> string) list option \<Rightarrow> uint32 \<Rightarrow> SocialMgr \<Rightarrow> SocialMgr" where
  "SocialMgr_LoadFromDB result guid st =
     (let s = (smap_at PlayerSocial_new (sm_socialMap st) guid)\<lparr>m_playerGUID := guid\<rparr>;
          s' = (case result of None \<Rightarrow> s | Some rows \<Rightarrow> LoadFromDB_rows rows s)
      in st\<lparr>sm_socialMap := smap_put guid s' (sm_socialMap st)\<rparr>)"

definition SocialMgr_RemovePlayerSocial :: "uint32 \<Rightarrow> SocialMgr \<Rightarrow> SocialMgr" where
  "SocialMgr_RemovePlayerSocial guid st = st\<lparr>sm_socialMap := smap_erase guid (sm_socialMap st)\<rparr>"


section \<open>Handlers\<close>

text \<open>
  A handler reads the client's packet and may throw; otherwise it returns the new state.
  \<open>normalizePlayerName\<close>, \<open>utf8truncate\<close> and \<open>EscapeString\<close>, the account service and the race store are arguments.
\<close>

definition HandleContactListOpcode ::
  "World \<Rightarrow> Player \<Rightarrow> 'z ByteBuffer_scheme \<Rightarrow> SocialMgr \<Rightarrow> bb_error + SocialMgr" where
  "HandleContactListOpcode w player recv_data st =
     bindE (in_u32 recv_data) (\<lambda>(msk, _).
     Inr (PlayerSocial_SendSocialList w player (Some player) msk st))"

text \<open>The request only starts a query: its result is the callback's note and the name asked for.\<close>

definition HandleAddFriendOpcode ::
  "(string \<Rightarrow> string option) \<Rightarrow> (string \<Rightarrow> string) \<Rightarrow> 'z ByteBuffer_scheme \<Rightarrow> bb_error + (string \<times> string) option" where
  "HandleAddFriendOpcode normalizePlayerName EscapeString recv_data =
     bindE (in_string recv_data) (\<lambda>(friendName, d).
     bindE (in_string d) (\<lambda>(friendNote, _).
     Inr (case normalizePlayerName friendName of
            None \<Rightarrow> None
          | Some name \<Rightarrow> Some (friendNote, EscapeString name))))"

fun Player_TeamForRace :: "(uint8 \<Rightarrow> uint32 option) \<Rightarrow> uint8 \<Rightarrow> uint32" where
  "Player_TeamForRace raceStore race =
     (case raceStore race of
        Some teamID \<Rightarrow> if teamID = 1 then HORDE else if teamID = 7 then ALLIANCE else ALLIANCE
      | None \<Rightarrow> ALLIANCE)"

definition HandleAddFriendOpcodeCallBack ::
  "World \<Rightarrow> (uint8 \<Rightarrow> uint32 option) \<Rightarrow> (uint32 \<Rightarrow> nat) \<Rightarrow> (string \<Rightarrow> nat \<Rightarrow> string) \<Rightarrow> (string \<Rightarrow> string)
   \<Rightarrow> (uint32 \<times> uint8 \<times> uint32) option \<Rightarrow> string \<Rightarrow> Player option \<Rightarrow> SocialMgr \<Rightarrow> SocialMgr" where
  "HandleAddFriendOpcodeCallBack w raceStore accountSecurity utf8truncate EscapeString result friendNote player st =
     (case player of
        None \<Rightarrow> st
      | Some player \<Rightarrow>
          case result of
            None \<Rightarrow> SocialMgr_SendFriendStatus w player FRIEND_NOT_FOUND (GUID_LOPART 0) False st
          | Some (guid, race, friendAcctid) \<Rightarrow>
              let friendGuid = MAKE_NEW_GUID (ucast guid) 0 HIGHGUID_PLAYER;
                  team = Player_TeamForRace raceStore race;
                  low = GUID_LOPART friendGuid;
                  (friendResult, st') =
                    (if (plr_Security player \<ge> SEC_MODERATOR \<or> CONFIG_ALLOW_GM_FRIEND w \<or>
                         accountSecurity friendAcctid < sec_value SEC_MODERATOR) \<and> friendGuid \<noteq> 0
                     then
                       let (res, s, sql) =
                             (if friendGuid = plr_GUID player then (FRIEND_SELF, social_of player st, [])
                              else if plr_Team player \<noteq> team \<and> \<not> CONFIG_ALLOW_TWO_SIDE_ADD_FRIEND w
                                      \<and> plr_Security player < SEC_GAMEMASTER
                              then (FRIEND_ENEMY, social_of player st, [])
                              else if HasFriend low (social_of player st)
                              then (FRIEND_ALREADY, social_of player st, [])
                              else
                                let online = (case FindPlayer w friendGuid of
                                                Some pFriend \<Rightarrow> plr_InWorld pFriend \<and>
                                                  Player_IsVisibleGloballyFor pFriend player
                                              | None \<Rightarrow> False);
                                    (added, s, sql) = AddToSocialList low False (social_of player st)
                                in (if \<not> added then FRIEND_LIST_FULL
                                    else if online then FRIEND_ADDED_ONLINE else FRIEND_ADDED_OFFLINE, s, sql));
                           (s', sql') = SetFriendNote utf8truncate EscapeString low friendNote s
                       in (res, set_social player s' (sql @ sql') st)
                     else (FRIEND_NOT_FOUND, st))
              in SocialMgr_SendFriendStatus w player friendResult low False st')"

definition HandleDelFriendOpcode ::
  "World \<Rightarrow> Player \<Rightarrow> 'z ByteBuffer_scheme \<Rightarrow> SocialMgr \<Rightarrow> bb_error + SocialMgr" where
  "HandleDelFriendOpcode w player recv_data st =
     bindE (in_u64 recv_data) (\<lambda>(FriendGUID, _).
     let (s, sql) = RemoveFromSocialList (GUID_LOPART FriendGUID) False (social_of player st)
     in Inr (SocialMgr_SendFriendStatus w player FRIEND_REMOVED (GUID_LOPART FriendGUID) False
               (set_social player s sql st)))"

definition HandleAddIgnoreOpcode ::
  "(string \<Rightarrow> string option) \<Rightarrow> (string \<Rightarrow> string) \<Rightarrow> 'z ByteBuffer_scheme \<Rightarrow> bb_error + string option" where
  "HandleAddIgnoreOpcode normalizePlayerName EscapeString recv_data =
     bindE (in_string recv_data) (\<lambda>(IgnoreName, _).
     Inr (map_option EscapeString (normalizePlayerName IgnoreName)))"

definition HandleAddIgnoreOpcodeCallBack ::
  "World \<Rightarrow> uint32 option \<Rightarrow> Player option \<Rightarrow> SocialMgr \<Rightarrow> SocialMgr" where
  "HandleAddIgnoreOpcodeCallBack w result player st =
     (case player of
        None \<Rightarrow> st
      | Some player \<Rightarrow>
          case result of
            None \<Rightarrow> SocialMgr_SendFriendStatus w player FRIEND_IGNORE_NOT_FOUND (GUID_LOPART 0) False st
          | Some guid \<Rightarrow>
              let IgnoreGuid = MAKE_NEW_GUID (ucast guid) 0 HIGHGUID_PLAYER;
                  low = GUID_LOPART IgnoreGuid;
                  (ignoreResult, st') =
                    (if IgnoreGuid = 0 then (FRIEND_IGNORE_NOT_FOUND, st)
                     else if IgnoreGuid = plr_GUID player then (FRIEND_IGNORE_SELF, st)
                     else if HasIgnore low (social_of player st) then (FRIEND_IGNORE_ALREADY, st)
                     else let (added, s, sql) = AddToSocialList low True (social_of player st)
                          in (if added then FRIEND_IGNORE_ADDED else FRIEND_IGNORE_FULL, set_social player s sql st))
              in SocialMgr_SendFriendStatus w player ignoreResult low False st')"

definition HandleDelIgnoreOpcode ::
  "World \<Rightarrow> Player \<Rightarrow> 'z ByteBuffer_scheme \<Rightarrow> SocialMgr \<Rightarrow> bb_error + SocialMgr" where
  "HandleDelIgnoreOpcode w player recv_data st =
     bindE (in_u64 recv_data) (\<lambda>(IgnoreGUID, _).
     let (s, sql) = RemoveFromSocialList (GUID_LOPART IgnoreGUID) True (social_of player st)
     in Inr (SocialMgr_SendFriendStatus w player FRIEND_IGNORE_REMOVED (GUID_LOPART IgnoreGUID) False
               (set_social player s sql st)))"

definition HandleSetContactNotesOpcode ::
  "(string \<Rightarrow> nat \<Rightarrow> string) \<Rightarrow> (string \<Rightarrow> string) \<Rightarrow> Player \<Rightarrow> 'z ByteBuffer_scheme \<Rightarrow> SocialMgr \<Rightarrow> bb_error + SocialMgr" where
  "HandleSetContactNotesOpcode utf8truncate EscapeString player recv_data st =
     bindE (in_u64 recv_data) (\<lambda>(guid, d).
     bindE (in_string d) (\<lambda>(note, _).
     let (s, sql) = SetFriendNote utf8truncate EscapeString (GUID_LOPART guid) note (social_of player st)
     in Inr (set_social player s sql st)))"


section \<open>Lemmas\<close>

lemma social_send_simps [simp]:
  "sm_sent (social_send g pkt st) = sm_sent st @ [(g, pkt)]"
  "sm_socialMap (social_send g pkt st) = sm_socialMap st"
  "sm_sql (social_send g pkt st) = sm_sql st"
  by (simp_all add: social_send_def)

lemma set_social_simps [simp]:
  "sm_sent (set_social p s sql st) = sm_sent st"
  "sm_sql (set_social p s sql st) = sm_sql st @ sql"
  by (simp_all add: set_social_def)

lemma social_of_send [simp]: "social_of p (social_send g pkt st) = social_of p st"
  by (simp add: social_of_def)

lemma social_of_set [simp]: "smap_ok (sm_socialMap st) \<Longrightarrow> social_of p (set_social p s sql st) = s"
  by (simp add: social_of_def set_social_def GetSocial_def smap_at_def smap_simps)

text \<open>\<open>may_see w viewer other\<close>: the condition under which \<open>viewer\<close> is shown \<open>other\<close> as online.\<close>

definition may_see :: "World \<Rightarrow> Player \<Rightarrow> Player \<Rightarrow> bool" where
  "may_see w viewer other \<longleftrightarrow>
     (plr_Security viewer > SEC_PLAYER \<or>
      ((plr_Team other = plr_Team viewer \<or> CONFIG_ALLOW_TWO_SIDE_WHO_LIST w) \<and>
       sec_value (plr_Security other) \<le> CONFIG_GM_LEVEL_IN_WHO_LIST w)) \<and>
     Player_IsVisibleGloballyFor other viewer"

lemma GetFriendInfo_Status:
  "Status (SocialMgr_GetFriendInfo w socials (Some viewer) g fi) \<noteq> FRIEND_STATUS_OFFLINE \<longleftrightarrow>
     (\<exists>p. FindPlayer w (ucast g) = Some p \<and> may_see w viewer p)"
  by (auto simp: SocialMgr_GetFriendInfo_def Let_def may_see_def split: option.splits)

lemma Broadcast_eq:
  "SocialMgr_BroadcastToFriendListers w (Some player) pkt st =
     st\<lparr>sm_sent := sm_sent st @ concat (map (\<lambda>e.
        if HasFriend (GUID_LOPART (plr_GUID player)) (snd e)
        then (case FindPlayer w (ucast (fst e)) of
                Some p \<Rightarrow> if may_see w p player then [(plr_GUID p, pkt)] else []
              | None \<Rightarrow> [])
        else []) (sm_socialMap st))\<rparr>"
proof -
  have "foldl (\<lambda>st' e.
            case smap_find (m_playerSocialMap (snd e)) (GUID_LOPART (plr_GUID player)) of
              None \<Rightarrow> st'
            | Some fi \<Rightarrow>
                if Flags fi AND SOCIAL_FLAG_FRIEND \<noteq> 0 then
                  (case FindPlayer w (MAKE_NEW_GUID (ucast (fst e)) 0 HIGHGUID_PLAYER) of
                     None \<Rightarrow> st'
                   | Some pFriend \<Rightarrow>
                       if plr_InWorld pFriend \<and>
                          (plr_Security pFriend > SEC_PLAYER \<or>
                           ((plr_Team pFriend = plr_Team player \<or> CONFIG_ALLOW_TWO_SIDE_WHO_LIST w) \<and>
                            sec_value (plr_Security player) \<le> CONFIG_GM_LEVEL_IN_WHO_LIST w)) \<and>
                          Player_IsVisibleGloballyFor player pFriend
                       then social_send (plr_GUID pFriend) pkt st'
                       else st')
                else st') st' es =
     st'\<lparr>sm_sent := sm_sent st' @ concat (map (\<lambda>e.
        if HasFriend (GUID_LOPART (plr_GUID player)) (snd e)
        then (case FindPlayer w (ucast (fst e)) of
                Some p \<Rightarrow> if may_see w p player then [(plr_GUID p, pkt)] else []
              | None \<Rightarrow> [])
        else []) es)\<rparr>" for st' and es :: SocialMap
    by (induction es arbitrary: st')
      (auto simp: HasFriend_def may_see_def MAKE_NEW_GUID_player social_send_def
        dest: FindPlayer_InWorld split: option.splits)
  then show ?thesis by (simp add: SocialMgr_BroadcastToFriendListers_def)
qed

lemma SendFriendStatus_one:
  "\<exists>rest. SocialMgr_SendFriendStatus w player result g False st =
     social_send (plr_GUID player) (Packet SMSG_FRIEND_STATUS (U8 (FriendsResult_value result) # U64 (ucast g) # rest)) st"
  by (auto simp: SocialMgr_SendFriendStatus_def Let_def MakeFriendStatusPacket_def)

text \<open>The ways an add-friend request can end: no change, a note set on the old list, or an addition.\<close>

definition noted ::
  "(string \<Rightarrow> nat \<Rightarrow> string) \<Rightarrow> (string \<Rightarrow> string) \<Rightarrow> uint32 \<Rightarrow> string \<Rightarrow> Player \<Rightarrow> SocialMgr
   \<Rightarrow> PlayerSocial \<Rightarrow> social_sql list \<Rightarrow> SocialMgr" where
  "noted trunc esc guid note player st s sql =
     set_social player (fst (SetFriendNote trunc esc guid note s)) (sql @ snd (SetFriendNote trunc esc guid note s)) st"

lemma AddFriend_shape:
  fixes guid :: uint32
  assumes add: "AddToSocialList guid False (social_of player st) = (r, s1, sql1)"
  shows "\<exists>res x. HandleAddFriendOpcodeCallBack w raceStore accountSecurity trunc esc (Some (guid, race, acct)) note (Some player) st
      = SocialMgr_SendFriendStatus w player res guid False x
    \<and> (x = st \<and> res = FRIEND_NOT_FOUND
       \<or> x = noted trunc esc guid note player st (social_of player st) [] \<and> res \<in> {FRIEND_SELF, FRIEND_ENEMY, FRIEND_ALREADY}
       \<or> x = noted trunc esc guid note player st s1 sql1 \<and> \<not> HasFriend guid (social_of player st)
         \<and> (if r then res \<in> {FRIEND_ADDED_ONLINE, FRIEND_ADDED_OFFLINE} else res = FRIEND_LIST_FULL))"
    (is "\<exists>res x. ?h = _ \<and> ?P res x")
proof -
  let ?G = "ucast guid :: uint64"
  let ?allowed = "(plr_Security player \<ge> SEC_MODERATOR \<or> CONFIG_ALLOW_GM_FRIEND w \<or>
    accountSecurity acct < sec_value SEC_MODERATOR) \<and> ?G \<noteq> 0"
  let ?enemy = "plr_Team player \<noteq> Player_TeamForRace raceStore race \<and> \<not> CONFIG_ALLOW_TWO_SIDE_ADD_FRIEND w
    \<and> plr_Security player < SEC_GAMEMASTER"
  let ?online = "case FindPlayer w ?G of
    Some pFriend \<Rightarrow> plr_InWorld pFriend \<and> Player_IsVisibleGloballyFor pFriend player | None \<Rightarrow> False"
  note unfold = HandleAddFriendOpcodeCallBack_def MAKE_NEW_GUID_player GUID_LOPART_player option.case prod.case
    Let_def case_prod_beta if_P if_not_P
  show ?thesis
  proof (cases ?allowed)
    case False
    have "?h = SocialMgr_SendFriendStatus w player FRIEND_NOT_FOUND guid False st"
      unfolding unfold if_not_P [OF False] fst_conv snd_conv ..
    then show ?thesis by blast
  next
    case True
    note allowed = if_P [OF True]
    show ?thesis
    proof (cases "?G = plr_GUID player")
      case True
      have "?h = SocialMgr_SendFriendStatus w player FRIEND_SELF guid False
          (noted trunc esc guid note player st (social_of player st) [])"
        unfolding unfold allowed if_P [OF True] fst_conv snd_conv noted_def ..
      then show ?thesis by blast
    next
      case False
      note other = if_not_P [OF False]
      show ?thesis
      proof (cases ?enemy)
        case True
        have "?h = SocialMgr_SendFriendStatus w player FRIEND_ENEMY guid False
            (noted trunc esc guid note player st (social_of player st) [])"
          unfolding unfold allowed other if_P [OF True] fst_conv snd_conv noted_def ..
        then show ?thesis by blast
      next
        case False
        note ally = if_not_P [OF False]
        show ?thesis
        proof (cases "HasFriend guid (social_of player st)")
          case True
          have "?h = SocialMgr_SendFriendStatus w player FRIEND_ALREADY guid False
              (noted trunc esc guid note player st (social_of player st) [])"
            unfolding unfold allowed other ally if_P [OF True] fst_conv snd_conv noted_def ..
          then show ?thesis by blast
        next
          case False
          have "?h = SocialMgr_SendFriendStatus w player
              (if \<not> r then FRIEND_LIST_FULL else if ?online then FRIEND_ADDED_ONLINE else FRIEND_ADDED_OFFLINE)
              guid False (noted trunc esc guid note player st s1 sql1)"
            unfolding unfold allowed other ally if_not_P [OF False] add fst_conv snd_conv noted_def ..
          then show ?thesis
            using False
            by (intro exI [of _ "if \<not> r then FRIEND_LIST_FULL else if ?online then FRIEND_ADDED_ONLINE else FRIEND_ADDED_OFFLINE"]
                exI [of _ "noted trunc esc guid note player st s1 sql1"]) simp
        qed
      qed
    qed
  qed
qed

section \<open>Properties\<close>

text \<open>
  \<open>BroadcastToFriendListers\<close> tells exactly the players in the world that have the
  character on their friend list and to which \<open>GetFriendInfo\<close> shows it as online: the visibility test
  that the two functions repeat for exchanged roles is the same test.
\<close>
theorem broadcast_reaches_exactly_the_viewers:
  assumes "FindPlayer w (ucast low) = Some player"
  shows "\<exists>new. SocialMgr_BroadcastToFriendListers w (Some player) pkt st = st\<lparr>sm_sent := sm_sent st @ new\<rparr>
    \<and> set new = {(plr_GUID p, pkt) | k s p. (k, s) \<in> set (sm_socialMap st) \<and> HasFriend low s
        \<and> FindPlayer w (ucast k) = Some p
        \<and> Status (SocialMgr_GetFriendInfo w (sm_socialMap st) (Some p) low FriendInfo_default)
            \<noteq> FRIEND_STATUS_OFFLINE}"
proof -
  have low: "GUID_LOPART (plr_GUID player) = low"
    using FindPlayer_GUID [OF assms] by (simp add: GUID_LOPART_player)
  show ?thesis
    unfolding Broadcast_eq GetFriendInfo_Status low
    by (intro exI conjI, rule refl) (force simp: assms split: if_splits option.splits)
qed

theorem broadcast_reaches_exactly_the_viewers_witness:
  "\<exists>new. SocialMgr_BroadcastToFriendListers (sample_world [sample_player 5 ''Ann'', sample_player 9 ''Bob''])
      (Some (sample_player 5 ''Ann'')) (Packet 1 [])
      \<lparr>sm_socialMap = [(9, \<lparr>m_playerSocialMap = [(5, FriendInfo_new 1 '''')], m_playerGUID = 9\<rparr>)],
       sm_sent = [], sm_sql = []\<rparr>
    = \<lparr>sm_socialMap = [(9, \<lparr>m_playerSocialMap = [(5, FriendInfo_new 1 '''')], m_playerGUID = 9\<rparr>)],
       sm_sent = new, sm_sql = []\<rparr>
    \<and> (9, Packet 1 []) \<in> set new"
proof -
  let ?w = "sample_world [sample_player 5 ''Ann'', sample_player 9 ''Bob'']"
  let ?s = "\<lparr>m_playerSocialMap = [(5, FriendInfo_new 1 '''')], m_playerGUID = 9\<rparr>"
  have A: "FindPlayer ?w (ucast (5 :: uint32)) = Some (sample_player 5 ''Ann'')"
    by (simp add: FindPlayer_def sample_world_def sample_player_def)
  have B: "FindPlayer ?w (ucast (9 :: uint32)) = Some (sample_player 9 ''Bob'')"
    by (simp add: FindPlayer_def sample_world_def sample_player_def)
  have friend: "HasFriend 5 ?s" by code_simp
  have vis: "Status (SocialMgr_GetFriendInfo ?w [(9, ?s)] (Some (sample_player 9 ''Bob'')) 5 FriendInfo_default)
      \<noteq> FRIEND_STATUS_OFFLINE" by code_simp
  have guid: "plr_GUID (sample_player 9 ''Bob'') = 9" by code_simp
  show ?thesis
    using broadcast_reaches_exactly_the_viewers
        [OF A, of "Packet 1 []" "\<lparr>sm_socialMap = [(9, ?s)], sm_sent = [], sm_sql = []\<rparr>"] B friend vis guid
    by (auto intro!: exI [of _ "sample_player 9 ''Bob''"])
qed


text \<open>
  The reply to an add-friend request tells the truth: exactly one
  \<open>SMSG_FRIEND_STATUS\<close> goes to the player, it says "added" exactly when the character was not on the
  friend list before and is on it now, and apart from that insertion neither list changes.
\<close>
theorem add_friend_reply_matches_list:
  assumes ok: "social_ok (social_of player st)" and m: "smap_ok (sm_socialMap st)"
    and st': "st' = HandleAddFriendOpcodeCallBack w raceStore accountSecurity trunc esc
      (Some (guid, race, acct)) note (Some player) st"
  shows "\<exists>res rest. sm_sent st' = sm_sent st @
        [(plr_GUID player, Packet SMSG_FRIEND_STATUS (U8 (FriendsResult_value res) # U64 (ucast guid) # rest))]
    \<and> (res \<in> {FRIEND_ADDED_ONLINE, FRIEND_ADDED_OFFLINE}
         \<longleftrightarrow> guid \<notin> social_lists (social_of player st) False \<and> guid \<in> social_lists (social_of player st') False)
    \<and> social_lists (social_of player st') False - {guid} = social_lists (social_of player st) False - {guid}
    \<and> social_lists (social_of player st') True = social_lists (social_of player st) True"
proof -
  let ?s0 = "social_of player st"
  obtain r s1 sql1 where add: "AddToSocialList guid False ?s0 = (r, s1, sql1)"
    by (cases "AddToSocialList guid False ?s0") auto
  have s1: "social_ok s1" using AddToSocialList_ok [OF ok, of guid False] by (simp add: add)
  have lists1: "(r, social_lists s1) = spec_add guid False (social_lists ?s0)"
    using lists_of_add [OF ok, of guid False] by (simp add: add)
  have reply: "\<exists>rest. SocialMgr_SendFriendStatus w player res guid False x =
      social_send (plr_GUID player) (Packet SMSG_FRIEND_STATUS (U8 (FriendsResult_value res) # U64 (ucast guid) # rest)) x"
    for res x by (rule SendFriendStatus_one)
  have lists: "social_lists (social_of player (noted trunc esc guid note player st s sql)) = social_lists s"
    if "social_ok s" for s sql
    by (simp add: noted_def m lists_of_noted [OF that])
  have has: "HasFriend guid ?s0 \<longleftrightarrow> guid \<in> social_lists ?s0 False" by (simp add: social_lists_def)
  obtain res x where x: "st' = SocialMgr_SendFriendStatus w player res guid False x"
    and cases: "x = st \<and> res = FRIEND_NOT_FOUND
       \<or> x = noted trunc esc guid note player st ?s0 [] \<and> res \<in> {FRIEND_SELF, FRIEND_ENEMY, FRIEND_ALREADY}
       \<or> x = noted trunc esc guid note player st s1 sql1 \<and> \<not> HasFriend guid ?s0
         \<and> (if r then res \<in> {FRIEND_ADDED_ONLINE, FRIEND_ADDED_OFFLINE} else res = FRIEND_LIST_FULL)"
    unfolding st' using AddFriend_shape [OF add] by blast
  obtain rest where rest: "st' = social_send (plr_GUID player)
      (Packet SMSG_FRIEND_STATUS (U8 (FriendsResult_value res) # U64 (ucast guid) # rest)) x"
    using reply x by blast
  have sent: "sm_sent x = sm_sent st" using cases by (auto simp: noted_def)
  have "(res \<in> {FRIEND_ADDED_ONLINE, FRIEND_ADDED_OFFLINE}
         \<longleftrightarrow> guid \<notin> social_lists ?s0 False \<and> guid \<in> social_lists (social_of player x) False)
    \<and> social_lists (social_of player x) False - {guid} = social_lists ?s0 False - {guid}
    \<and> social_lists (social_of player x) True = social_lists ?s0 True"
    using cases
  proof (elim disjE conjE)
    assume "x = noted trunc esc guid note player st s1 sql1" "\<not> HasFriend guid ?s0"
      and res: "if r then res \<in> {FRIEND_ADDED_ONLINE, FRIEND_ADDED_OFFLINE} else res = FRIEND_LIST_FULL"
    then have "social_lists (social_of player x) = social_lists s1" "guid \<notin> social_lists ?s0 False"
      by (simp_all add: lists [OF s1] has)
    with lists1 res show ?thesis by (cases r) (auto simp: spec_add_def split: if_splits)
  qed (auto simp: lists [OF ok])
  with rest sent show ?thesis by auto
qed


theorem add_friend_reply_matches_list_witness:
  "\<exists>res rest. sm_sent (HandleAddFriendOpcodeCallBack (sample_world [sample_player 5 ''Ann'']) (\<lambda>_. Some 1) (\<lambda>_. 0)
       (\<lambda>s n. take n s) id (Some (9, 2, 1)) ''hi'' (Some (sample_player 5 ''Ann''))
       \<lparr>sm_socialMap = [(5, PlayerSocial_new\<lparr>m_playerGUID := 5\<rparr>)], sm_sent = [], sm_sql = []\<rparr>)
     = [(5, Packet SMSG_FRIEND_STATUS (U8 (FriendsResult_value res) # U64 9 # rest))]"
proof -
  let ?st = "\<lparr>sm_socialMap = [(5, PlayerSocial_new\<lparr>m_playerGUID := 5\<rparr>)], sm_sent = [], sm_sql = []\<rparr>"
  have ok: "social_ok (social_of (sample_player 5 ''Ann'') ?st)" by code_simp
  have m: "smap_ok (sm_socialMap ?st)" by code_simp
  have "plr_GUID (sample_player 5 ''Ann'') = 5" by code_simp
  then show ?thesis
    using add_friend_reply_matches_list [OF ok m refl, of "sample_world [sample_player 5 ''Ann'']" "\<lambda>_. Some 1"
        "\<lambda>_. 0" "\<lambda>s n. take n s" id 9 2 1 "''hi''"]
    by auto
qed

end
