(* ===== verification/Channel.thy ===== *)
theory Channel
  imports Game_World Util_Strings
begin

text \<open>
  A chat channel: \<^verbatim>\<open>src/server/game/Chat/Channels/Channel.h\<close> and \<^verbatim>\<open>Channel.cpp\<close>.  The record has the fields
  of the class and a trace of what the channel did to the outside, oldest first: packets sent (with the
  receiver's GUID), players told that they joined or left, statements executed.  Every operation is a
  function from the environment, its arguments and the channel to the channel.
\<close>

section \<open>Constants\<close>

definition SMSG_CHANNEL_NOTIFY :: uint32 where "SMSG_CHANNEL_NOTIFY = 0x7CAC"
definition SMSG_CHANNEL_LIST :: uint32 where "SMSG_CHANNEL_LIST = 0x69E0"
definition SMSG_MESSAGECHAT :: uint32 where "SMSG_MESSAGECHAT = 0x61E4"
definition SMSG_USERLIST_ADD :: uint32 where "SMSG_USERLIST_ADD = 0xF8CC"
definition SMSG_USERLIST_REMOVE :: uint32 where "SMSG_USERLIST_REMOVE = 0xEF80"
definition SMSG_USERLIST_UPDATE :: uint32 where "SMSG_USERLIST_UPDATE = 0x2C8C"
definition CHAT_MSG_CHANNEL :: uint8 where "CHAT_MSG_CHANNEL = 0x11"
definition LANG_UNIVERSAL :: uint32 where "LANG_UNIVERSAL = 0"

definition CHANNEL_FLAG_CUSTOM :: uint8 where "CHANNEL_FLAG_CUSTOM = 0x01"
definition CHANNEL_FLAG_TRADE :: uint8 where "CHANNEL_FLAG_TRADE = 0x04"
definition CHANNEL_FLAG_NOT_LFG :: uint8 where "CHANNEL_FLAG_NOT_LFG = 0x08"
definition CHANNEL_FLAG_GENERAL :: uint8 where "CHANNEL_FLAG_GENERAL = 0x10"
definition CHANNEL_FLAG_CITY :: uint8 where "CHANNEL_FLAG_CITY = 0x20"
definition CHANNEL_FLAG_LFG :: uint8 where "CHANNEL_FLAG_LFG = 0x40"

definition CHANNEL_DBC_FLAG_ZONE_DEP :: uint32 where "CHANNEL_DBC_FLAG_ZONE_DEP = 0x00002"
definition CHANNEL_DBC_FLAG_GLOBAL :: uint32 where "CHANNEL_DBC_FLAG_GLOBAL = 0x00004"
definition CHANNEL_DBC_FLAG_TRADE :: uint32 where "CHANNEL_DBC_FLAG_TRADE = 0x00008"
definition CHANNEL_DBC_FLAG_CITY_ONLY :: uint32 where "CHANNEL_DBC_FLAG_CITY_ONLY = 0x00010"
definition CHANNEL_DBC_FLAG_CITY_ONLY2 :: uint32 where "CHANNEL_DBC_FLAG_CITY_ONLY2 = 0x00020"
definition CHANNEL_DBC_FLAG_GUILD_REQ :: uint32 where "CHANNEL_DBC_FLAG_GUILD_REQ = 0x20000"
definition CHANNEL_DBC_FLAG_LFG :: uint32 where "CHANNEL_DBC_FLAG_LFG = 0x40000"

definition MEMBER_FLAG_NONE :: uint8 where "MEMBER_FLAG_NONE = 0x00"
definition MEMBER_FLAG_OWNER :: uint8 where "MEMBER_FLAG_OWNER = 0x01"
definition MEMBER_FLAG_MODERATOR :: uint8 where "MEMBER_FLAG_MODERATOR = 0x02"
definition MEMBER_FLAG_MUTED :: uint8 where "MEMBER_FLAG_MUTED = 0x08"

section \<open>State\<close>

record PlayerInfo =
  pi_player :: uint64
  pi_flags :: uint8

definition PlayerInfo_default :: PlayerInfo where
  "PlayerInfo_default = \<lparr>pi_player = 0, pi_flags = 0\<rparr>"

definition PlayerInfo_IsOwner :: "PlayerInfo \<Rightarrow> bool" where
  "PlayerInfo_IsOwner i \<longleftrightarrow> pi_flags i AND MEMBER_FLAG_OWNER \<noteq> 0"

definition PlayerInfo_SetOwner :: "bool \<Rightarrow> PlayerInfo \<Rightarrow> PlayerInfo" where
  "PlayerInfo_SetOwner state i =
     (if state then i\<lparr>pi_flags := pi_flags i OR MEMBER_FLAG_OWNER\<rparr>
      else i\<lparr>pi_flags := pi_flags i AND NOT MEMBER_FLAG_OWNER\<rparr>)"

definition PlayerInfo_IsModerator :: "PlayerInfo \<Rightarrow> bool" where
  "PlayerInfo_IsModerator i \<longleftrightarrow> pi_flags i AND MEMBER_FLAG_MODERATOR \<noteq> 0"

definition PlayerInfo_SetModerator :: "bool \<Rightarrow> PlayerInfo \<Rightarrow> PlayerInfo" where
  "PlayerInfo_SetModerator state i =
     (if state then i\<lparr>pi_flags := pi_flags i OR MEMBER_FLAG_MODERATOR\<rparr>
      else i\<lparr>pi_flags := pi_flags i AND NOT MEMBER_FLAG_MODERATOR\<rparr>)"

definition PlayerInfo_IsMuted :: "PlayerInfo \<Rightarrow> bool" where
  "PlayerInfo_IsMuted i \<longleftrightarrow> pi_flags i AND MEMBER_FLAG_MUTED \<noteq> 0"

definition PlayerInfo_SetMuted :: "bool \<Rightarrow> PlayerInfo \<Rightarrow> PlayerInfo" where
  "PlayerInfo_SetMuted state i =
     (if state then i\<lparr>pi_flags := pi_flags i OR MEMBER_FLAG_MUTED\<rparr>
      else i\<lparr>pi_flags := pi_flags i AND NOT MEMBER_FLAG_MUTED\<rparr>)"

text \<open>The prepared statements \<open>CHAR_ADD_CHANNEL\<close>, \<open>CHAR_SET_CHANNEL\<close>, \<open>CHAR_SET_CHANNEL_USAGE\<close> and \<open>CHAR_CLEAN_CHANNEL\<close>.\<close>

datatype channel_sql =
    SqlAddChannel string uint32
  | SqlSetChannel bool bool string string string uint32
  | SqlSetChannelUsage string uint32
  | SqlCleanChannel uint32

datatype channel_event =
    SendPacket uint64 packet
  | JoinedChannel uint64
  | LeftChannel uint64
  | ChannelSql channel_sql

record Channel =
  players :: "(uint64, PlayerInfo) smap"
  banned :: "uint64 list"
  m_announce :: bool
  m_ownership :: bool
  m_name :: string
  m_password :: string
  m_flags :: uint8
  m_channelId :: uint32
  m_ownerGUID :: uint64
  m_IsSaved :: bool
  m_Team :: uint32
  ch_trace :: "channel_event list"

record chat_env =
  ce_world :: World
  ce_socials :: SocialMap

definition GetPlayer :: "chat_env \<Rightarrow> uint64 \<Rightarrow> Player option" where
  "GetPlayer E guid = FindPlayer (ce_world E) guid"

definition GetPlayerByName :: "chat_env \<Rightarrow> string \<Rightarrow> Player option" where
  "GetPlayerByName E name = FindPlayerByName (ce_world E) name"

definition emit_events :: "channel_event list \<Rightarrow> Channel \<Rightarrow> Channel" where
  "emit_events es ch = ch\<lparr>ch_trace := ch_trace ch @ es\<rparr>"

section \<open>Queries\<close>

definition Channel_IsOn :: "uint64 \<Rightarrow> Channel \<Rightarrow> bool" where
  "Channel_IsOn who ch \<longleftrightarrow> smap_find (players ch) who \<noteq> None"

definition Channel_IsBanned :: "uint64 \<Rightarrow> Channel \<Rightarrow> bool" where
  "Channel_IsBanned guid ch \<longleftrightarrow> guid \<in> set (banned ch)"

definition Channel_IsConstant :: "Channel \<Rightarrow> bool" where
  "Channel_IsConstant ch \<longleftrightarrow> m_channelId ch \<noteq> 0"

definition Channel_HasFlag :: "uint8 \<Rightarrow> Channel \<Rightarrow> bool" where
  "Channel_HasFlag flag ch \<longleftrightarrow> m_flags ch AND flag \<noteq> 0"

definition Channel_IsLFG :: "Channel \<Rightarrow> bool" where
  "Channel_IsLFG ch \<longleftrightarrow> m_flags ch AND CHANNEL_FLAG_LFG \<noteq> 0"

definition Channel_GetNumPlayers :: "Channel \<Rightarrow> uint32" where
  "Channel_GetNumPlayers ch = of_nat (length (players ch))"

definition Channel_GetPlayerFlags :: "uint64 \<Rightarrow> Channel \<Rightarrow> uint8" where
  "Channel_GetPlayerFlags p ch =
     (case smap_find (players ch) p of None \<Rightarrow> 0 | Some i \<Rightarrow> pi_flags i)"

text \<open>\<open>players[p]\<close> read on a member.\<close>

definition member :: "uint64 \<Rightarrow> Channel \<Rightarrow> PlayerInfo" where
  "member p ch = smap_at PlayerInfo_default (players ch) p"

section \<open>Sending\<close>

definition Channel_SendToOne :: "chat_env \<Rightarrow> packet \<Rightarrow> uint64 \<Rightarrow> Channel \<Rightarrow> Channel" where
  "Channel_SendToOne E data who ch =
     emit_events (case GetPlayer E who of None \<Rightarrow> [] | Some plr \<Rightarrow> [SendPacket (plr_GUID plr) data]) ch"

definition Channel_SendToAll :: "chat_env \<Rightarrow> packet \<Rightarrow> uint64 \<Rightarrow> Channel \<Rightarrow> Channel" where
  "Channel_SendToAll E data p ch =
     emit_events (concat (map (\<lambda>i.
       case GetPlayer E (fst i) of
         None \<Rightarrow> []
       | Some plr \<Rightarrow> if p = 0 \<or> \<not> HasIgnore (GUID_LOPART p) (GetSocial (ce_socials E) plr)
                     then [SendPacket (plr_GUID plr) data] else []) (players ch))) ch"

definition Channel_SendToAllButOne :: "chat_env \<Rightarrow> packet \<Rightarrow> uint64 \<Rightarrow> Channel \<Rightarrow> Channel" where
  "Channel_SendToAllButOne E data who ch =
     emit_events (concat (map (\<lambda>i.
       if fst i \<noteq> who
       then (case GetPlayer E (fst i) of None \<Rightarrow> [] | Some plr \<Rightarrow> [SendPacket (plr_GUID plr) data])
       else []) (players ch))) ch"

section \<open>Notifications\<close>

definition MakeNotifyPacket :: "uint8 \<Rightarrow> field list \<Rightarrow> Channel \<Rightarrow> packet" where
  "MakeNotifyPacket notify_type rest ch =
     Packet SMSG_CHANNEL_NOTIFY ([U8 notify_type, Str (m_name ch)] @ rest)"

definition MakeJoined :: "uint64 \<Rightarrow> Channel \<Rightarrow> packet" where
  "MakeJoined guid = MakeNotifyPacket 0x00 [U64 guid]"

definition MakeLeft :: "uint64 \<Rightarrow> Channel \<Rightarrow> packet" where
  "MakeLeft guid = MakeNotifyPacket 0x01 [U64 guid]"

definition MakeYouJoined :: "Channel \<Rightarrow> packet" where
  "MakeYouJoined ch = MakeNotifyPacket 0x02 [U8 (m_flags ch), U32 (m_channelId ch), U32 0] ch"

definition MakeYouLeft :: "Channel \<Rightarrow> packet" where
  "MakeYouLeft ch = MakeNotifyPacket 0x03 [U32 (m_channelId ch), U8 (of_bool (Channel_IsConstant ch))] ch"

definition MakeWrongPassword :: "Channel \<Rightarrow> packet" where
  "MakeWrongPassword = MakeNotifyPacket 0x04 []"

definition MakeNotMember :: "Channel \<Rightarrow> packet" where
  "MakeNotMember = MakeNotifyPacket 0x05 []"

definition MakeNotModerator :: "Channel \<Rightarrow> packet" where
  "MakeNotModerator = MakeNotifyPacket 0x06 []"

definition MakePasswordChanged :: "uint64 \<Rightarrow> Channel \<Rightarrow> packet" where
  "MakePasswordChanged guid = MakeNotifyPacket 0x07 [U64 guid]"

definition MakeOwnerChanged :: "uint64 \<Rightarrow> Channel \<Rightarrow> packet" where
  "MakeOwnerChanged guid = MakeNotifyPacket 0x08 [U64 guid]"

definition MakePlayerNotFound :: "string \<Rightarrow> Channel \<Rightarrow> packet" where
  "MakePlayerNotFound name = MakeNotifyPacket 0x09 [Str name]"

definition MakeNotOwner :: "Channel \<Rightarrow> packet" where
  "MakeNotOwner = MakeNotifyPacket 0x0A []"

definition MakeChannelOwner :: "chat_env \<Rightarrow> Channel \<Rightarrow> packet" where
  "MakeChannelOwner E ch =
     (let name = (case GetPlayerNameByGUID (ce_world E) (m_ownerGUID ch) of
                    None \<Rightarrow> ''PLAYER_NOT_FOUND''
                  | Some n \<Rightarrow> if n = [] then ''PLAYER_NOT_FOUND'' else n)
      in MakeNotifyPacket 0x0B
           [Str (if Channel_IsConstant ch \<or> m_ownerGUID ch = 0 then ''Nobody'' else name)] ch)"

definition MakeModeChange :: "uint64 \<Rightarrow> uint8 \<Rightarrow> Channel \<Rightarrow> packet" where
  "MakeModeChange guid oldflags ch =
     MakeNotifyPacket 0x0C [U64 guid, U8 oldflags, U8 (Channel_GetPlayerFlags guid ch)] ch"

definition MakeAnnouncementsOn :: "uint64 \<Rightarrow> Channel \<Rightarrow> packet" where
  "MakeAnnouncementsOn guid = MakeNotifyPacket 0x0D [U64 guid]"

definition MakeAnnouncementsOff :: "uint64 \<Rightarrow> Channel \<Rightarrow> packet" where
  "MakeAnnouncementsOff guid = MakeNotifyPacket 0x0E [U64 guid]"

definition MakeMuted :: "Channel \<Rightarrow> packet" where
  "MakeMuted = MakeNotifyPacket 0x11 []"

definition MakePlayerKicked :: "uint64 \<Rightarrow> uint64 \<Rightarrow> Channel \<Rightarrow> packet" where
  "MakePlayerKicked bad good = MakeNotifyPacket 0x12 [U64 bad, U64 good]"

definition MakeBanned :: "Channel \<Rightarrow> packet" where
  "MakeBanned = MakeNotifyPacket 0x13 []"

definition MakePlayerBanned :: "uint64 \<Rightarrow> uint64 \<Rightarrow> Channel \<Rightarrow> packet" where
  "MakePlayerBanned bad good = MakeNotifyPacket 0x14 [U64 bad, U64 good]"

definition MakePlayerUnbanned :: "uint64 \<Rightarrow> uint64 \<Rightarrow> Channel \<Rightarrow> packet" where
  "MakePlayerUnbanned bad good = MakeNotifyPacket 0x15 [U64 bad, U64 good]"

definition MakePlayerNotBanned :: "string \<Rightarrow> Channel \<Rightarrow> packet" where
  "MakePlayerNotBanned name = MakeNotifyPacket 0x16 [Str name]"

definition MakePlayerAlreadyMember :: "uint64 \<Rightarrow> Channel \<Rightarrow> packet" where
  "MakePlayerAlreadyMember guid = MakeNotifyPacket 0x17 [U64 guid]"

definition MakeInvite :: "uint64 \<Rightarrow> Channel \<Rightarrow> packet" where
  "MakeInvite guid = MakeNotifyPacket 0x18 [U64 guid]"

definition MakeInviteWrongFaction :: "Channel \<Rightarrow> packet" where
  "MakeInviteWrongFaction = MakeNotifyPacket 0x19 []"

definition MakeWrongFaction :: "Channel \<Rightarrow> packet" where
  "MakeWrongFaction = MakeNotifyPacket 0x1A []"

definition MakeInvalidName :: "Channel \<Rightarrow> packet" where
  "MakeInvalidName = MakeNotifyPacket 0x1B []"

definition MakeNotModerated :: "Channel \<Rightarrow> packet" where
  "MakeNotModerated = MakeNotifyPacket 0x1C []"

definition MakePlayerInvited :: "string \<Rightarrow> Channel \<Rightarrow> packet" where
  "MakePlayerInvited name = MakeNotifyPacket 0x1D [Str name]"

definition MakePlayerInviteBanned :: "string \<Rightarrow> Channel \<Rightarrow> packet" where
  "MakePlayerInviteBanned name = MakeNotifyPacket 0x1E [Str name]"

definition MakeThrottled :: "Channel \<Rightarrow> packet" where
  "MakeThrottled = MakeNotifyPacket 0x1F []"

definition MakeNotInArea :: "Channel \<Rightarrow> packet" where
  "MakeNotInArea = MakeNotifyPacket 0x20 []"

definition MakeNotInLfg :: "Channel \<Rightarrow> packet" where
  "MakeNotInLfg = MakeNotifyPacket 0x21 []"

definition MakeVoiceOn :: "uint64 \<Rightarrow> Channel \<Rightarrow> packet" where
  "MakeVoiceOn guid = MakeNotifyPacket 0x22 [U64 guid]"

definition MakeVoiceOff :: "uint64 \<Rightarrow> Channel \<Rightarrow> packet" where
  "MakeVoiceOff guid = MakeNotifyPacket 0x23 [U64 guid]"


section \<open>Creation and persistence\<close>

text \<open>
  The row of \<open>CHAR_LOAD_CHANNEL\<close> (announce, ownership, password, banned list, which may be NULL) is an
  argument.  The assignment \<open>channel_id = 0\<close> of the custom branch changes the parameter only, so the
  field keeps the value it was initialised with.
\<close>

fun load_bans :: "string list \<Rightarrow> uint64 list \<Rightarrow> uint64 list" where
  "load_bans [] bs = bs"
| "load_bans (t # ts) bs =
     (let banned_guid = (word_of_int (atol t) :: uint64)
      in load_bans ts (if banned_guid \<noteq> 0 then sset_insert banned_guid bs else bs))"

definition Channel_new ::
  "chat_env \<Rightarrow> (bool \<times> bool \<times> string \<times> string option) option \<Rightarrow> string \<Rightarrow> uint32 \<Rightarrow> uint32 \<Rightarrow> Channel" where
  "Channel_new E row name channel_id Team =
     (let ch = \<lparr>players = [], banned = [], m_announce = True, m_ownership = True, m_name = name, m_password = '''',
                m_flags = 0, m_channelId = channel_id, m_ownerGUID = 0, m_IsSaved = False, m_Team = Team, ch_trace = []\<rparr>
      in case w_ChatChannels (ce_world E) channel_id of
           Some dbc_flags \<Rightarrow>
             ch\<lparr>m_announce := False, m_ownership := False,
                m_flags := ((CHANNEL_FLAG_GENERAL
                  OR (if dbc_flags AND CHANNEL_DBC_FLAG_TRADE \<noteq> 0 then CHANNEL_FLAG_TRADE else 0))
                  OR (if dbc_flags AND CHANNEL_DBC_FLAG_CITY_ONLY2 \<noteq> 0 then CHANNEL_FLAG_CITY else 0))
                  OR (if dbc_flags AND CHANNEL_DBC_FLAG_LFG \<noteq> 0 then CHANNEL_FLAG_LFG else CHANNEL_FLAG_NOT_LFG)\<rparr>
         | None \<Rightarrow>
             let ch1 = ch\<lparr>m_flags := CHANNEL_FLAG_CUSTOM\<rparr> in
             if CONFIG_PRESERVE_CUSTOM_CHANNELS (ce_world E)
             then (case row of
                     Some (announce, ownership, password, bannedList) \<Rightarrow>
                       ch1\<lparr>m_announce := announce, m_ownership := ownership, m_password := password,
                           banned := (case bannedList of None \<Rightarrow> []
                                      | Some s \<Rightarrow> load_bans (Tokens s CHR '' '') []),
                           m_IsSaved := True\<rparr>
                   | None \<Rightarrow> emit_events [ChannelSql (SqlAddChannel name Team)] (ch1\<lparr>m_IsSaved := True\<rparr>))
             else ch1)"

definition ban_list_string :: "uint64 list \<Rightarrow> string" where
  "ban_list_string bs = concat (map (\<lambda>g. dec_string (unat g) @ '' '') bs)"

definition Channel_UpdateChannelInDB :: "Channel \<Rightarrow> Channel" where
  "Channel_UpdateChannelInDB ch =
     emit_events (if m_IsSaved ch
       then [ChannelSql (SqlSetChannel (m_announce ch) (m_ownership ch) (m_password ch)
               (ban_list_string (banned ch)) (m_name ch) (m_Team ch))]
       else []) ch"

definition Channel_UpdateChannelUseageInDB :: "Channel \<Rightarrow> Channel" where
  "Channel_UpdateChannelUseageInDB ch =
     emit_events [ChannelSql (SqlSetChannelUsage (m_name ch) (m_Team ch))] ch"

definition Channel_CleanOldChannelsInDB :: "World \<Rightarrow> channel_sql list" where
  "Channel_CleanOldChannelsInDB w =
     (if CONFIG_PRESERVE_CUSTOM_CHANNEL_DURATION w > 0
      then [SqlCleanChannel (CONFIG_PRESERVE_CUSTOM_CHANNEL_DURATION w * of_nat DAY)] else [])"

section \<open>Membership\<close>

definition Channel_JoinNotify :: "chat_env \<Rightarrow> uint64 \<Rightarrow> Channel \<Rightarrow> Channel" where
  "Channel_JoinNotify E guid ch =
     (let data = Packet (if Channel_IsConstant ch then SMSG_USERLIST_ADD else SMSG_USERLIST_UPDATE)
            [U64 guid, U8 (Channel_GetPlayerFlags guid ch), U8 (m_flags ch),
             U32 (Channel_GetNumPlayers ch), Str (m_name ch)]
      in if Channel_IsConstant ch then Channel_SendToAllButOne E data guid ch
         else Channel_SendToAll E data 0 ch)"

definition Channel_LeaveNotify :: "chat_env \<Rightarrow> uint64 \<Rightarrow> Channel \<Rightarrow> Channel" where
  "Channel_LeaveNotify E guid ch =
     (let data = Packet SMSG_USERLIST_REMOVE
            [U64 guid, U8 (m_flags ch), U32 (Channel_GetNumPlayers ch), Str (m_name ch)]
      in if Channel_IsConstant ch then Channel_SendToAllButOne E data guid ch
         else Channel_SendToAll E data 0 ch)"

definition with_players :: "((uint64, PlayerInfo) smap \<Rightarrow> (uint64, PlayerInfo) smap) \<Rightarrow> Channel \<Rightarrow> Channel" where
  "with_players f ch = ch\<lparr>players := f (players ch)\<rparr>"

text \<open>\<open>SetOwner(uint64 guid, bool exclaim)\<close>.\<close>

definition Channel_SetOwner :: "chat_env \<Rightarrow> uint64 \<Rightarrow> bool \<Rightarrow> Channel \<Rightarrow> Channel" where
  "Channel_SetOwner E guid exclaim ch =
     (let ch1 = (if m_ownerGUID ch \<noteq> 0
                 then (case smap_find (players ch) (m_ownerGUID ch) of
                         Some i \<Rightarrow> with_players (smap_put (m_ownerGUID ch) (PlayerInfo_SetOwner False i)) ch
                       | None \<Rightarrow> ch)
                 else ch);
          ch2 = ch1\<lparr>m_ownerGUID := guid\<rparr>
      in if guid \<noteq> 0 then
           let oldFlag = Channel_GetPlayerFlags guid ch2;
               ch3 = with_players (smap_modify PlayerInfo_default guid (PlayerInfo_SetModerator True)) ch2;
               ch4 = with_players (smap_modify PlayerInfo_default guid (PlayerInfo_SetOwner True)) ch3;
               ch5 = Channel_SendToAll E (MakeModeChange guid oldFlag ch4) 0 ch4;
               ch6 = (if exclaim then Channel_SendToAll E (MakeOwnerChanged guid ch5) 0 ch5 else ch5)
           in Channel_UpdateChannelInDB ch6
         else ch2)"

text \<open>Whether a join or leave is announced: not for a game master when the server hides them.\<close>

definition announces :: "chat_env \<Rightarrow> Player option \<Rightarrow> Channel \<Rightarrow> bool" where
  "announces E plr ch \<longleftrightarrow> m_announce ch \<and>
     (case plr of None \<Rightarrow> True
      | Some p \<Rightarrow> plr_Security p < SEC_GAMEMASTER \<or> \<not> CONFIG_SILENTLY_GM_JOIN_TO_CHANNEL (ce_world E))"

definition Channel_Join :: "chat_env \<Rightarrow> uint64 \<Rightarrow> string \<Rightarrow> Channel \<Rightarrow> Channel" where
  "Channel_Join E p pass ch =
     (if Channel_IsOn p ch then
        (if \<not> Channel_IsConstant ch then Channel_SendToOne E (MakePlayerAlreadyMember p ch) p ch else ch)
      else if Channel_IsBanned p ch then Channel_SendToOne E (MakeBanned ch) p ch
      else if length (m_password ch) > 0 \<and> pass \<noteq> m_password ch
      then Channel_SendToOne E (MakeWrongPassword ch) p ch
      else
        let plr = GetPlayer E p in
        if (case plr of None \<Rightarrow> False
            | Some q \<Rightarrow> Channel_HasFlag CHANNEL_FLAG_LFG ch \<and> CONFIG_RESTRICTED_LFG_CHANNEL (ce_world E) \<and>
                        plr_Security q = SEC_PLAYER \<and> plr_InGroup q)
        then Channel_SendToOne E (MakeNotInLfg ch) p ch
        else
          let ch1 = emit_events (case plr of None \<Rightarrow> [] | Some q \<Rightarrow> [JoinedChannel (plr_GUID q)]) ch;
              ch2 = (if announces E plr ch1 then Channel_SendToAll E (MakeJoined p ch1) 0 ch1 else ch1);
              ch3 = with_players (smap_put p \<lparr>pi_player = p, pi_flags = MEMBER_FLAG_NONE\<rparr>) ch2;
              ch4 = Channel_SendToOne E (MakeYouJoined ch3) p ch3;
              ch5 = Channel_JoinNotify E p ch4
          in if \<not> Channel_IsConstant ch5 then
               let ch6 = (if players ch5 \<noteq> [] then Channel_UpdateChannelUseageInDB ch5 else ch5)
               in if m_ownerGUID ch6 = 0 \<and> m_ownership ch6
                  then with_players (smap_modify PlayerInfo_default p (PlayerInfo_SetModerator True))
                         (Channel_SetOwner E p (length (players ch6) > 1) ch6)
                  else ch6
             else ch5)"

definition Channel_Leave :: "chat_env \<Rightarrow> uint64 \<Rightarrow> bool \<Rightarrow> Channel \<Rightarrow> Channel" where
  "Channel_Leave E p send ch =
     (if \<not> Channel_IsOn p ch then (if send then Channel_SendToOne E (MakeNotMember ch) p ch else ch)
      else
        let plr = GetPlayer E p;
            ch1 = (if send then
                     let ch0 = Channel_SendToOne E (MakeYouLeft ch) p ch
                     in emit_events (case plr of None \<Rightarrow> [] | Some q \<Rightarrow> [LeftChannel (plr_GUID q)]) ch0
                   else ch);
            changeowner = PlayerInfo_IsOwner (member p ch1);
            ch2 = with_players (smap_erase p) ch1;
            ch3 = (if announces E plr ch2 then Channel_SendToAll E (MakeLeft p ch2) 0 ch2 else ch2);
            ch4 = Channel_LeaveNotify E p ch3
        in if \<not> Channel_IsConstant ch4 then
             let ch5 = Channel_UpdateChannelUseageInDB ch4
             in if changeowner \<and> m_ownership ch5 \<and> players ch5 \<noteq> []
                then let newowner = pi_player (snd (hd (players ch5)))
                     in Channel_SetOwner E newowner True
                          (with_players (smap_modify PlayerInfo_default newowner (PlayerInfo_SetModerator True)) ch5)
                else ch5
           else ch4)"

section \<open>Moderation\<close>

definition sec_of :: "Player option \<Rightarrow> AccountTypes" where
  "sec_of plr = (case plr of None \<Rightarrow> SEC_PLAYER | Some p \<Rightarrow> plr_Security p)"

definition Channel_KickOrBan :: "chat_env \<Rightarrow> uint64 \<Rightarrow> string \<Rightarrow> bool \<Rightarrow> Channel \<Rightarrow> Channel" where
  "Channel_KickOrBan E good badname ban ch =
     (let sec = sec_of (GetPlayer E good) in
      if \<not> Channel_IsOn good ch then Channel_SendToOne E (MakeNotMember ch) good ch
      else if \<not> PlayerInfo_IsModerator (member good ch) \<and> sec < SEC_GAMEMASTER
      then Channel_SendToOne E (MakeNotModerator ch) good ch
      else case GetPlayerByName E badname of
        None \<Rightarrow> Channel_SendToOne E (MakePlayerNotFound badname ch) good ch
      | Some badp \<Rightarrow>
          let bad = plr_GUID badp in
          if \<not> Channel_IsOn bad ch then Channel_SendToOne E (MakePlayerNotFound badname ch) good ch
          else if sec < SEC_GAMEMASTER \<and> bad = m_ownerGUID ch \<and> good \<noteq> m_ownerGUID ch
          then Channel_SendToOne E (MakeNotOwner ch) good ch
          else
            let changeowner = (m_ownerGUID ch = bad);
                (data, ch1) =
                  (if ban \<and> \<not> Channel_IsBanned bad ch
                   then let ch0 = ch\<lparr>banned := sset_insert bad (banned ch)\<rparr>
                        in (MakePlayerBanned bad good ch0, Channel_UpdateChannelInDB ch0)
                   else (MakePlayerKicked bad good ch, ch));
                ch2 = Channel_SendToAll E data 0 ch1;
                ch3 = emit_events [LeftChannel bad] (with_players (smap_erase bad) ch2)
            in if changeowner \<and> m_ownership ch3 \<and> players ch3 \<noteq> []
               then Channel_SetOwner E good True
                      (with_players (smap_modify PlayerInfo_default good (PlayerInfo_SetModerator True)) ch3)
               else ch3)"

definition Channel_UnBan :: "chat_env \<Rightarrow> uint64 \<Rightarrow> string \<Rightarrow> Channel \<Rightarrow> Channel" where
  "Channel_UnBan E good badname ch =
     (let sec = sec_of (GetPlayer E good) in
      if \<not> Channel_IsOn good ch then Channel_SendToOne E (MakeNotMember ch) good ch
      else if \<not> PlayerInfo_IsModerator (member good ch) \<and> sec < SEC_GAMEMASTER
      then Channel_SendToOne E (MakeNotModerator ch) good ch
      else case GetPlayerByName E badname of
        None \<Rightarrow> Channel_SendToOne E (MakePlayerNotFound badname ch) good ch
      | Some badp \<Rightarrow>
          let bad = plr_GUID badp in
          if \<not> Channel_IsBanned bad ch then Channel_SendToOne E (MakePlayerNotFound badname ch) good ch
          else let ch1 = ch\<lparr>banned := sset_erase bad (banned ch)\<rparr>
               in Channel_UpdateChannelInDB (Channel_SendToAll E (MakePlayerUnbanned bad good ch1) 0 ch1))"

definition Channel_Password :: "chat_env \<Rightarrow> uint64 \<Rightarrow> string \<Rightarrow> Channel \<Rightarrow> Channel" where
  "Channel_Password E p pass ch =
     (let sec = sec_of (GetPlayer E p) in
      if \<not> Channel_IsOn p ch then Channel_SendToOne E (MakeNotMember ch) p ch
      else if \<not> PlayerInfo_IsModerator (member p ch) \<and> sec < SEC_GAMEMASTER
      then Channel_SendToOne E (MakeNotModerator ch) p ch
      else let ch1 = ch\<lparr>m_password := pass\<rparr>
           in Channel_UpdateChannelInDB (Channel_SendToAll E (MakePasswordChanged p ch1) 0 ch1))"

definition Channel_SetModerator :: "chat_env \<Rightarrow> uint64 \<Rightarrow> bool \<Rightarrow> Channel \<Rightarrow> Channel" where
  "Channel_SetModerator E p setIt ch =
     (if PlayerInfo_IsModerator (member p ch) \<noteq> setIt then
        let oldFlag = Channel_GetPlayerFlags p ch;
            ch1 = with_players (smap_modify PlayerInfo_default p (PlayerInfo_SetModerator setIt)) ch
        in Channel_SendToAll E (MakeModeChange p oldFlag ch1) 0 ch1
      else ch)"

definition Channel_SetMute :: "chat_env \<Rightarrow> uint64 \<Rightarrow> bool \<Rightarrow> Channel \<Rightarrow> Channel" where
  "Channel_SetMute E p setIt ch =
     (if PlayerInfo_IsMuted (member p ch) \<noteq> setIt then
        let oldFlag = Channel_GetPlayerFlags p ch;
            ch1 = with_players (smap_modify PlayerInfo_default p (PlayerInfo_SetMuted setIt)) ch
        in Channel_SendToAll E (MakeModeChange p oldFlag ch1) 0 ch1
      else ch)"

definition Channel_SetMode :: "chat_env \<Rightarrow> uint64 \<Rightarrow> string \<Rightarrow> bool \<Rightarrow> bool \<Rightarrow> Channel \<Rightarrow> Channel" where
  "Channel_SetMode E p p2n modIt setIt ch =
     (case GetPlayer E p of
        None \<Rightarrow> ch
      | Some plr \<Rightarrow>
          let sec = plr_Security plr in
          if \<not> Channel_IsOn p ch then Channel_SendToOne E (MakeNotMember ch) p ch
          else if \<not> PlayerInfo_IsModerator (member p ch) \<and> sec < SEC_GAMEMASTER
          then Channel_SendToOne E (MakeNotModerator ch) p ch
          else case GetPlayerByName E p2n of
            None \<Rightarrow> Channel_SendToOne E (MakePlayerNotFound p2n ch) p ch
          | Some newp \<Rightarrow>
              if p = m_ownerGUID ch \<and> plr_GUID newp = m_ownerGUID ch \<and> modIt then ch
              else if \<not> Channel_IsOn (plr_GUID newp) ch
              then Channel_SendToOne E (MakePlayerNotFound p2n ch) p ch
              else if (plr_Security plr < SEC_GAMEMASTER \<or> plr_Security newp < SEC_GAMEMASTER) \<and>
                      plr_Team plr \<noteq> plr_Team newp \<and>
                      \<not> CONFIG_ALLOW_TWO_SIDE_INTERACTION_CHANNEL (ce_world E)
              then Channel_SendToOne E (MakePlayerNotFound p2n ch) p ch
              else if m_ownerGUID ch = plr_GUID newp \<and> m_ownerGUID ch \<noteq> p
              then Channel_SendToOne E (MakeNotOwner ch) p ch
              else if modIt then Channel_SetModerator E (plr_GUID newp) setIt ch
              else Channel_SetMute E (plr_GUID newp) setIt ch)"

text \<open>\<open>SetOwner(uint64 p, const char *newname)\<close>.\<close>

definition Channel_SetOwnerByName :: "chat_env \<Rightarrow> uint64 \<Rightarrow> string \<Rightarrow> Channel \<Rightarrow> Channel" where
  "Channel_SetOwnerByName E p newname ch =
     (case GetPlayer E p of
        None \<Rightarrow> ch
      | Some plr \<Rightarrow>
          if \<not> Channel_IsOn p ch then Channel_SendToOne E (MakeNotMember ch) p ch
          else if plr_Security plr < SEC_GAMEMASTER \<and> p \<noteq> m_ownerGUID ch
          then Channel_SendToOne E (MakeNotOwner ch) p ch
          else case GetPlayerByName E newname of
            None \<Rightarrow> Channel_SendToOne E (MakePlayerNotFound newname ch) p ch
          | Some newp \<Rightarrow>
              if \<not> Channel_IsOn (plr_GUID newp) ch
              then Channel_SendToOne E (MakePlayerNotFound newname ch) p ch
              else if plr_Team newp \<noteq> plr_Team plr \<and>
                      \<not> CONFIG_ALLOW_TWO_SIDE_INTERACTION_CHANNEL (ce_world E)
              then Channel_SendToOne E (MakePlayerNotFound newname ch) p ch
              else Channel_SetOwner E (plr_GUID newp) True
                     (with_players (smap_modify PlayerInfo_default (plr_GUID newp) (PlayerInfo_SetModerator True)) ch))"

definition Channel_SendWhoOwner :: "chat_env \<Rightarrow> uint64 \<Rightarrow> Channel \<Rightarrow> Channel" where
  "Channel_SendWhoOwner E p ch =
     (if \<not> Channel_IsOn p ch then Channel_SendToOne E (MakeNotMember ch) p ch
      else Channel_SendToOne E (MakeChannelOwner E ch) p ch)"

definition Channel_List :: "chat_env \<Rightarrow> Player \<Rightarrow> Channel \<Rightarrow> Channel" where
  "Channel_List E player ch =
     (let p = plr_GUID player in
      if \<not> Channel_IsOn p ch then Channel_SendToOne E (MakeNotMember ch) p ch
      else
        let shown = filter (\<lambda>i. case GetPlayer E (fst i) of
                       None \<Rightarrow> False
                     | Some plr \<Rightarrow>
                         (plr_Security player > SEC_PLAYER \<or>
                          sec_value (plr_Security plr) \<le> CONFIG_GM_LEVEL_IN_WHO_LIST (ce_world E)) \<and>
                         Player_IsVisibleGloballyFor plr player) (players ch);
            data = Packet SMSG_CHANNEL_LIST ([U8 1, Str (m_name ch), U8 (m_flags ch), U32 0]
                     @ concat (map (\<lambda>i. [U64 (fst i), U8 (pi_flags (snd i))]) shown))
        in Channel_SendToOne E (packet_put 3 (of_nat (length shown)) data) p ch)"

definition Channel_Announce :: "chat_env \<Rightarrow> uint64 \<Rightarrow> Channel \<Rightarrow> Channel" where
  "Channel_Announce E p ch =
     (let sec = sec_of (GetPlayer E p) in
      if \<not> Channel_IsOn p ch then Channel_SendToOne E (MakeNotMember ch) p ch
      else if \<not> PlayerInfo_IsModerator (member p ch) \<and> sec < SEC_GAMEMASTER
      then Channel_SendToOne E (MakeNotModerator ch) p ch
      else let ch1 = ch\<lparr>m_announce := \<not> m_announce ch\<rparr>
           in Channel_UpdateChannelInDB (Channel_SendToAll E
                (if m_announce ch1 then MakeAnnouncementsOn p ch1 else MakeAnnouncementsOff p ch1) 0 ch1))"

text \<open>\<open>what\<close> is a C string: NULL is \<open>None\<close>.\<close>

definition Channel_Say :: "chat_env \<Rightarrow> uint64 \<Rightarrow> string option \<Rightarrow> uint32 \<Rightarrow> Channel \<Rightarrow> Channel" where
  "Channel_Say E p what lang ch =
     (case what of
        None \<Rightarrow> ch
      | Some what \<Rightarrow>
          let lang = (if CONFIG_ALLOW_TWO_SIDE_INTERACTION_CHANNEL (ce_world E) then LANG_UNIVERSAL else lang);
              plr = GetPlayer E p
          in if \<not> Channel_IsOn p ch then Channel_SendToOne E (MakeNotMember ch) p ch
             else if PlayerInfo_IsMuted (member p ch) then Channel_SendToOne E (MakeMuted ch) p ch
             else
               let messageLength = (of_nat (length what + 1) :: uint32);
                   data = Packet SMSG_MESSAGECHAT
                     [U8 CHAT_MSG_CHANNEL, U32 lang, U64 p, U32 0, Str (m_name ch), U64 p,
                      U32 messageLength, Str what, U8 (case plr of Some q \<Rightarrow> Player_chatTag q | None \<Rightarrow> 0)]
               in Channel_SendToAll E data (if \<not> PlayerInfo_IsModerator (member p ch) then p else 0) ch)"

definition Channel_Invite :: "chat_env \<Rightarrow> uint64 \<Rightarrow> string \<Rightarrow> Channel \<Rightarrow> Channel" where
  "Channel_Invite E p newname ch =
     (if \<not> Channel_IsOn p ch then Channel_SendToOne E (MakeNotMember ch) p ch
      else case GetPlayerByName E newname of
        None \<Rightarrow> Channel_SendToOne E (MakePlayerNotFound newname ch) p ch
      | Some newp \<Rightarrow>
          if Channel_IsBanned (plr_GUID newp) ch
          then Channel_SendToOne E (MakePlayerInviteBanned newname ch) p ch
          else case GetPlayer E p of
            None \<Rightarrow> ch
          | Some plr \<Rightarrow>
              if plr_Team newp \<noteq> plr_Team plr \<and> \<not> CONFIG_ALLOW_TWO_SIDE_INTERACTION_CHANNEL (ce_world E)
              then Channel_SendToOne E (MakeInviteWrongFaction ch) p ch
              else if Channel_IsOn (plr_GUID newp) ch
              then Channel_SendToOne E (MakePlayerAlreadyMember (plr_GUID newp) ch) p ch
              else
                let ch1 = (if \<not> HasIgnore (GUID_LOPART p) (GetSocial (ce_socials E) newp)
                           then Channel_SendToOne E (MakeInvite p ch) (plr_GUID newp) ch else ch)
                in Channel_SendToOne E (MakePlayerInvited (plr_Name newp) ch1) p ch1)"

section \<open>Calls\<close>

datatype chan_op =
    OpJoin uint64 string | OpLeave uint64 bool | OpKickOrBan uint64 string bool | OpUnBan uint64 string
  | OpPassword uint64 string | OpSetMode uint64 string bool bool | OpSetOwner uint64 string
  | OpSendWhoOwner uint64 | OpList Player | OpAnnounce uint64 | OpSay uint64 "string option" uint32
  | OpInvite uint64 string

text \<open>A call in the environment it happens in.\<close>

fun chan_step :: "chat_env \<times> chan_op \<Rightarrow> Channel \<Rightarrow> Channel" where
  "chan_step (E, OpJoin p pass) ch = Channel_Join E p pass ch"
| "chan_step (E, OpLeave p send) ch = Channel_Leave E p send ch"
| "chan_step (E, OpKickOrBan good bad ban) ch = Channel_KickOrBan E good bad ban ch"
| "chan_step (E, OpUnBan good bad) ch = Channel_UnBan E good bad ch"
| "chan_step (E, OpPassword p pass) ch = Channel_Password E p pass ch"
| "chan_step (E, OpSetMode p n modIt setIt) ch = Channel_SetMode E p n modIt setIt ch"
| "chan_step (E, OpSetOwner p n) ch = Channel_SetOwnerByName E p n ch"
| "chan_step (E, OpSendWhoOwner p) ch = Channel_SendWhoOwner E p ch"
| "chan_step (E, OpList pl) ch = Channel_List E pl ch"
| "chan_step (E, OpAnnounce p) ch = Channel_Announce E p ch"
| "chan_step (E, OpSay p what lang) ch = Channel_Say E p what lang ch"
| "chan_step (E, OpInvite p n) ch = Channel_Invite E p n ch"

end
