(* ===== verification/Channel_Props.thy ===== *)
theory Channel_Props
  imports Channel
begin

text \<open>
  What holds of a channel over its life: the ownership invariant, who may change what, who receives
  what, and that the database row follows the channel.
\<close>

section \<open>What sending leaves alone\<close>

text \<open>The channel without its trace.\<close>

definition core :: "Channel \<Rightarrow> Channel" where
  "core ch = ch\<lparr>ch_trace := []\<rparr>"

lemma emit_fields [simp]:
  "players (emit_events es ch) = players ch" "banned (emit_events es ch) = banned ch"
  "m_announce (emit_events es ch) = m_announce ch" "m_ownership (emit_events es ch) = m_ownership ch"
  "m_name (emit_events es ch) = m_name ch" "m_password (emit_events es ch) = m_password ch"
  "m_flags (emit_events es ch) = m_flags ch" "m_channelId (emit_events es ch) = m_channelId ch"
  "m_ownerGUID (emit_events es ch) = m_ownerGUID ch" "m_IsSaved (emit_events es ch) = m_IsSaved ch"
  "m_Team (emit_events es ch) = m_Team ch" "ch_trace (emit_events es ch) = ch_trace ch @ es"
  "core (emit_events es ch) = core ch"
  by (simp_all add: emit_events_def core_def)

lemmas send_defs = Channel_SendToOne_def Channel_SendToAll_def Channel_SendToAllButOne_def
  Channel_UpdateChannelInDB_def Channel_UpdateChannelUseageInDB_def Channel_JoinNotify_def
  Channel_LeaveNotify_def Let_def

lemma send_core [simp]:
  "core (Channel_SendToOne E d p ch) = core ch"
  "core (Channel_SendToAll E d p ch) = core ch"
  "core (Channel_SendToAllButOne E d p ch) = core ch"
  "core (Channel_UpdateChannelInDB ch) = core ch"
  "core (Channel_UpdateChannelUseageInDB ch) = core ch"
  "core (Channel_JoinNotify E p ch) = core ch"
  "core (Channel_LeaveNotify E p ch) = core ch"
  by (simp_all add: send_defs)

lemma core_fields:
  "core a = core b \<longleftrightarrow> players a = players b \<and> banned a = banned b \<and> m_announce a = m_announce b \<and>
     m_ownership a = m_ownership b \<and> m_name a = m_name b \<and> m_password a = m_password b \<and>
     m_flags a = m_flags b \<and> m_channelId a = m_channelId b \<and> m_ownerGUID a = m_ownerGUID b \<and>
     m_IsSaved a = m_IsSaved b \<and> m_Team a = m_Team b"
  by (cases a; cases b) (auto simp: core_def)



lemma send_fields [simp]:
  "players (Channel_SendToOne E d p ch) = players ch" "players (Channel_SendToAll E d p ch) = players ch"
  "players (Channel_UpdateChannelInDB ch) = players ch"
  "players (Channel_UpdateChannelUseageInDB ch) = players ch"
  "players (Channel_JoinNotify E p ch) = players ch" "players (Channel_LeaveNotify E p ch) = players ch"
  "banned (Channel_SendToOne E d p ch) = banned ch" "banned (Channel_SendToAll E d p ch) = banned ch"
  "banned (Channel_UpdateChannelInDB ch) = banned ch"
  "banned (Channel_UpdateChannelUseageInDB ch) = banned ch"
  "banned (Channel_JoinNotify E p ch) = banned ch" "banned (Channel_LeaveNotify E p ch) = banned ch"
  "m_ownerGUID (Channel_SendToOne E d p ch) = m_ownerGUID ch"
  "m_ownerGUID (Channel_SendToAll E d p ch) = m_ownerGUID ch"
  "m_ownerGUID (Channel_UpdateChannelInDB ch) = m_ownerGUID ch"
  "m_ownerGUID (Channel_UpdateChannelUseageInDB ch) = m_ownerGUID ch"
  "m_ownerGUID (Channel_JoinNotify E p ch) = m_ownerGUID ch"
  "m_ownerGUID (Channel_LeaveNotify E p ch) = m_ownerGUID ch"
  "m_ownership (Channel_SendToOne E d p ch) = m_ownership ch"
  "m_ownership (Channel_SendToAll E d p ch) = m_ownership ch"
  "m_ownership (Channel_UpdateChannelInDB ch) = m_ownership ch"
  "m_ownership (Channel_UpdateChannelUseageInDB ch) = m_ownership ch"
  "m_ownership (Channel_JoinNotify E p ch) = m_ownership ch"
  "m_ownership (Channel_LeaveNotify E p ch) = m_ownership ch"
  "m_channelId (Channel_SendToOne E d p ch) = m_channelId ch"
  "m_channelId (Channel_SendToAll E d p ch) = m_channelId ch"
  "m_channelId (Channel_UpdateChannelInDB ch) = m_channelId ch"
  "m_channelId (Channel_UpdateChannelUseageInDB ch) = m_channelId ch"
  "m_channelId (Channel_JoinNotify E p ch) = m_channelId ch"
  "m_channelId (Channel_LeaveNotify E p ch) = m_channelId ch"
  by (simp_all add: send_defs)

lemma with_players_fields [simp]:
  "players (with_players f ch) = f (players ch)" "banned (with_players f ch) = banned ch"
  "m_ownerGUID (with_players f ch) = m_ownerGUID ch" "m_ownership (with_players f ch) = m_ownership ch"
  "m_channelId (with_players f ch) = m_channelId ch" "m_name (with_players f ch) = m_name ch"
  "m_announce (with_players f ch) = m_announce ch" "m_password (with_players f ch) = m_password ch"
  "m_flags (with_players f ch) = m_flags ch" "m_IsSaved (with_players f ch) = m_IsSaved ch"
  "m_Team (with_players f ch) = m_Team ch" "ch_trace (with_players f ch) = ch_trace ch"
  by (simp_all add: with_players_def)

lemma IsConstant_frame [simp]:
  "Channel_IsConstant (Channel_SendToAll E d p ch) = Channel_IsConstant ch"
  "Channel_IsConstant (Channel_SendToOne E d p ch) = Channel_IsConstant ch"
  "Channel_IsConstant (emit_events es ch) = Channel_IsConstant ch"
  "Channel_IsConstant (with_players f ch) = Channel_IsConstant ch"
  "Channel_IsConstant (Channel_JoinNotify E p ch) = Channel_IsConstant ch"
  "Channel_IsConstant (Channel_LeaveNotify E p ch) = Channel_IsConstant ch"
  "Channel_IsConstant (Channel_UpdateChannelUseageInDB ch) = Channel_IsConstant ch"
  by (simp_all add: Channel_IsConstant_def)

section \<open>Member flags\<close>

lemmas member_flag_defs = MEMBER_FLAG_NONE_def MEMBER_FLAG_OWNER_def MEMBER_FLAG_MODERATOR_def MEMBER_FLAG_MUTED_def

lemma info_player [simp]:
  "pi_player (PlayerInfo_SetOwner b i) = pi_player i"
  "pi_player (PlayerInfo_SetModerator b i) = pi_player i"
  "pi_player (PlayerInfo_SetMuted b i) = pi_player i"
  by (simp_all add: PlayerInfo_SetOwner_def PlayerInfo_SetModerator_def PlayerInfo_SetMuted_def)

lemma flag_bits:
  fixes x :: uint8
  shows "(x OR 1) AND 1 = 1" "(x OR 1) AND 2 = x AND 2" "(x OR 1) AND 8 = x AND 8"
    "(x OR 2) AND 1 = x AND 1" "(x OR 2) AND 2 = 2" "(x OR 2) AND 8 = x AND 8"
    "(x OR 8) AND 1 = x AND 1" "(x OR 8) AND 2 = x AND 2" "(x OR 8) AND 8 = 8"
    "(x AND NOT 1) AND 1 = 0" "(x AND NOT 1) AND 2 = x AND 2" "(x AND NOT 1) AND 8 = x AND 8"
    "(x AND NOT 2) AND 1 = x AND 1" "(x AND NOT 2) AND 2 = 0" "(x AND NOT 2) AND 8 = x AND 8"
    "(x AND NOT 8) AND 1 = x AND 1" "(x AND NOT 8) AND 2 = x AND 2" "(x AND NOT 8) AND 8 = 0"
  by (simp_all add: bit.conj_disj_distrib2 and.assoc)

lemma info_flags [simp]:
  "PlayerInfo_IsOwner (PlayerInfo_SetOwner b i) = b"
  "PlayerInfo_IsOwner (PlayerInfo_SetModerator b i) = PlayerInfo_IsOwner i"
  "PlayerInfo_IsOwner (PlayerInfo_SetMuted b i) = PlayerInfo_IsOwner i"
  "PlayerInfo_IsModerator (PlayerInfo_SetOwner b i) = PlayerInfo_IsModerator i"
  "PlayerInfo_IsModerator (PlayerInfo_SetModerator b i) = b"
  "PlayerInfo_IsModerator (PlayerInfo_SetMuted b i) = PlayerInfo_IsModerator i"
  "PlayerInfo_IsMuted (PlayerInfo_SetOwner b i) = PlayerInfo_IsMuted i"
  "PlayerInfo_IsMuted (PlayerInfo_SetModerator b i) = PlayerInfo_IsMuted i"
  "PlayerInfo_IsMuted (PlayerInfo_SetMuted b i) = b"
  by (simp_all add: PlayerInfo_SetOwner_def PlayerInfo_SetModerator_def PlayerInfo_SetMuted_def
      PlayerInfo_IsOwner_def PlayerInfo_IsModerator_def PlayerInfo_IsMuted_def member_flag_defs flag_bits and.assoc)

lemma info_none [simp]:
  "\<not> PlayerInfo_IsOwner \<lparr>pi_player = p, pi_flags = MEMBER_FLAG_NONE\<rparr>"
  "\<not> PlayerInfo_IsModerator \<lparr>pi_player = p, pi_flags = MEMBER_FLAG_NONE\<rparr>"
  by (simp_all add: PlayerInfo_IsOwner_def PlayerInfo_IsModerator_def member_flag_defs)

section \<open>The invariant\<close>

text \<open>
  Entries carry their own key; a member with the owner flag is the recorded owner and a moderator; nobody
  who is banned is a member.
\<close>

definition member_ok :: "Channel \<Rightarrow> uint64 \<Rightarrow> PlayerInfo \<Rightarrow> bool" where
  "member_ok ch g i \<longleftrightarrow> pi_player i = g
     \<and> (PlayerInfo_IsOwner i \<longrightarrow> g = m_ownerGUID ch \<and> g \<noteq> 0 \<and> PlayerInfo_IsModerator i) \<and> g \<notin> set (banned ch)"

definition chan_ok :: "Channel \<Rightarrow> bool" where
  "chan_ok ch \<longleftrightarrow> smap_ok (players ch) \<and> sset_ok (banned ch)
     \<and> list_all (\<lambda>e. member_ok ch (fst e) (snd e)) (players ch)"

lemma chan_okI:
  assumes "smap_ok (players ch)" "sset_ok (banned ch)"
    and "\<And>g i. smap_find (players ch) g = Some i \<Longrightarrow> member_ok ch g i"
  shows "chan_ok ch"
  using assms by (auto simp: chan_ok_def list_all_iff find_Some_iff)

lemma chan_okD:
  assumes "chan_ok ch"
  shows "smap_ok (players ch)" "sset_ok (banned ch)"
    and "smap_find (players ch) g = Some i \<Longrightarrow> member_ok ch g i"
  using assms by (simp_all add: chan_ok_def) (force simp: list_all_iff dest: find_SomeD)

lemma chan_ok_core: "core a = core b \<Longrightarrow> chan_ok a = chan_ok b"
  by (simp add: core_fields chan_ok_def member_ok_def)

lemma chan_ok_frame [simp]:
  "chan_ok (emit_events es ch) = chan_ok ch"
  "chan_ok (Channel_SendToOne E d p ch) = chan_ok ch"
  "chan_ok (Channel_SendToAll E d p ch) = chan_ok ch"
  "chan_ok (Channel_UpdateChannelInDB ch) = chan_ok ch"
  "chan_ok (Channel_UpdateChannelUseageInDB ch) = chan_ok ch"
  "chan_ok (Channel_JoinNotify E p ch) = chan_ok ch"
  "chan_ok (Channel_LeaveNotify E p ch) = chan_ok ch"
  by (rule chan_ok_core, simp)+


lemma chan_ok_put:
  assumes "chan_ok ch" "member_ok ch g i"
  shows "chan_ok (with_players (smap_put g i) ch)"
  using chan_okD [OF assms(1)] assms(2)
  by (intro chan_okI) (auto simp: smap_simps member_ok_def split: if_splits)

lemma chan_ok_modify:
  assumes "chan_ok ch" "smap_find (players ch) g = Some i" "member_ok ch g (f i)"
  shows "chan_ok (with_players (smap_modify d g f) ch)"
  using chan_ok_put [OF assms(1,3)] assms(2) by (simp add: smap_modify_def with_players_def)

lemma chan_ok_erase: "chan_ok ch \<Longrightarrow> chan_ok (with_players (smap_erase g) ch)"
  by (intro chan_okI) (auto simp: smap_simps member_ok_def dest: chan_okD split: if_splits)

lemma member_find: "smap_find (players ch) g = Some i \<Longrightarrow> member g ch = i"
  by (simp add: member_def)

section \<open>Changing the owner\<close>

text \<open>What \<open>SetOwner\<close> does to the members.\<close>

definition disowned :: "uint64 \<Rightarrow> (uint64, PlayerInfo) smap \<Rightarrow> (uint64, PlayerInfo) smap" where
  "disowned old m =
     (if old \<noteq> 0 then (case smap_find m old of Some i \<Rightarrow> smap_put old (PlayerInfo_SetOwner False i) m | None \<Rightarrow> m)
      else m)"

lemma SetOwner_fields:
  "players (Channel_SetOwner E guid exclaim ch) =
     (if guid \<noteq> 0
      then smap_modify PlayerInfo_default guid (PlayerInfo_SetOwner True)
             (smap_modify PlayerInfo_default guid (PlayerInfo_SetModerator True) (disowned (m_ownerGUID ch) (players ch)))
      else disowned (m_ownerGUID ch) (players ch))"
  "m_ownerGUID (Channel_SetOwner E guid exclaim ch) = guid"
  "banned (Channel_SetOwner E guid exclaim ch) = banned ch"
  "m_ownership (Channel_SetOwner E guid exclaim ch) = m_ownership ch"
  "m_channelId (Channel_SetOwner E guid exclaim ch) = m_channelId ch"
  by (auto simp: Channel_SetOwner_def disowned_def Let_def split: option.split)

lemma disowned_ok: "smap_ok m \<Longrightarrow> smap_ok (disowned old m)"
  by (simp add: disowned_def smap_simps split: option.split)

lemma SetOwner_smap_ok: "smap_ok (players ch) \<Longrightarrow> smap_ok (players (Channel_SetOwner E guid exclaim ch))"
  by (simp add: SetOwner_fields smap_simps disowned_ok)

lemma find_disowned:
  "smap_ok m \<Longrightarrow> smap_find (disowned old m) g =
     (if g = old \<and> old \<noteq> 0 then map_option (PlayerInfo_SetOwner False) (smap_find m g) else smap_find m g)"
  by (auto simp: disowned_def smap_simps split: option.split)

lemma find_SetOwner:
  assumes "smap_ok (players ch)" "guid \<noteq> 0" "smap_find (players ch) guid = Some i"
  shows "\<exists>j. pi_player j = pi_player i \<and> PlayerInfo_IsOwner j \<and> PlayerInfo_IsModerator j \<and>
     smap_find (players (Channel_SetOwner E guid exclaim ch)) g =
     (if g = guid then Some j
      else if g = m_ownerGUID ch \<and> m_ownerGUID ch \<noteq> 0
      then map_option (PlayerInfo_SetOwner False) (smap_find (players ch) g)
      else smap_find (players ch) g)"
proof -
  obtain k where k: "smap_find (disowned (m_ownerGUID ch) (players ch)) guid = Some k" "pi_player k = pi_player i"
    using assms by (cases "guid = m_ownerGUID ch") (simp_all add: find_disowned)
  then show ?thesis using assms
    by (intro exI [of _ "PlayerInfo_SetOwner True (PlayerInfo_SetModerator True k)"])
      (simp add: SetOwner_fields smap_simps disowned_ok find_disowned)
qed

lemma SetOwner_ok:
  assumes ok: "chan_ok ch" and on: "guid \<noteq> 0 \<Longrightarrow> Channel_IsOn guid ch"
  shows "chan_ok (Channel_SetOwner E guid exclaim ch)"
proof (rule chan_okI)
  have m: "smap_ok (players ch)" using ok by (rule chan_okD)
  show "smap_ok (players (Channel_SetOwner E guid exclaim ch))"
    using m by (simp add: SetOwner_fields disowned_ok smap_simps)
  show "sset_ok (banned (Channel_SetOwner E guid exclaim ch))"
    using ok by (simp add: SetOwner_fields chan_okD)
  fix g i'
  assume g: "smap_find (players (Channel_SetOwner E guid exclaim ch)) g = Some i'"
  show "member_ok (Channel_SetOwner E guid exclaim ch) g i'"
  proof (cases "guid = 0")
    case True
    with g m chan_okD(3) [OF ok, of g] show ?thesis
      by (auto simp: SetOwner_fields find_disowned member_ok_def split: if_splits)
  next
    case False
    then obtain i where i: "smap_find (players ch) guid = Some i"
      using on by (auto simp: Channel_IsOn_def)
    have pi: "pi_player i = guid" "guid \<notin> set (banned ch)"
      using chan_okD(3) [OF ok i] by (simp_all add: member_ok_def)
    obtain j where j: "pi_player j = pi_player i" "PlayerInfo_IsOwner j" "PlayerInfo_IsModerator j"
      and find: "Some i' = (if g = guid then Some j
        else if g = m_ownerGUID ch \<and> m_ownerGUID ch \<noteq> 0
        then map_option (PlayerInfo_SetOwner False) (smap_find (players ch) g)
        else smap_find (players ch) g)"
      using find_SetOwner [OF m False i, of E exclaim g] g by auto
    show ?thesis
    proof (cases "g = guid")
      case True
      with find j pi False show ?thesis by (simp add: SetOwner_fields member_ok_def)
    next
      case other: False
      with find obtain k where k: "smap_find (players ch) g = Some k"
        "i' = (if g = m_ownerGUID ch \<and> m_ownerGUID ch \<noteq> 0 then PlayerInfo_SetOwner False k else k)"
        by (cases "smap_find (players ch) g") (auto split: if_splits)
      from chan_okD(3) [OF ok k(1)] k(2) show ?thesis
        by (auto simp: SetOwner_fields member_ok_def)
    qed
  qed
qed

lemma IsOn_frame [simp]:
  "Channel_IsOn g (emit_events es ch) = Channel_IsOn g ch"
  "Channel_IsOn g (Channel_SendToAll E d p ch) = Channel_IsOn g ch"
  "Channel_IsOn g (Channel_SendToOne E d p ch) = Channel_IsOn g ch"
  "Channel_IsOn g (Channel_UpdateChannelInDB ch) = Channel_IsOn g ch"
  "Channel_IsOn g (Channel_UpdateChannelUseageInDB ch) = Channel_IsOn g ch"
  "Channel_IsOn g (Channel_JoinNotify E p ch) = Channel_IsOn g ch"
  "Channel_IsOn g (Channel_LeaveNotify E p ch) = Channel_IsOn g ch"
  by (simp_all add: Channel_IsOn_def)

lemma IsOn_modify:
  "chan_ok ch \<Longrightarrow> Channel_IsOn g (with_players (smap_modify d k f) ch) \<longleftrightarrow> g = k \<or> Channel_IsOn g ch"
  by (simp add: Channel_IsOn_def smap_simps chan_okD)

lemma SetModerator_True_ok:
  assumes ok: "chan_ok ch" and on: "Channel_IsOn g ch"
  shows "chan_ok (with_players (smap_modify PlayerInfo_default g (PlayerInfo_SetModerator True)) ch)"
proof -
  obtain i where i: "smap_find (players ch) g = Some i" using on by (auto simp: Channel_IsOn_def)
  show ?thesis
    using chan_okD(3) [OF ok i] by (intro chan_ok_modify [OF ok i]) (auto simp: member_ok_def)
qed

text \<open>The hand-over that three operations end with.\<close>

lemma hand_over_ok:
  assumes "chan_ok ch" "Channel_IsOn g ch"
  shows "chan_ok (Channel_SetOwner E g exclaim
    (with_players (smap_modify PlayerInfo_default g (PlayerInfo_SetModerator True)) ch))"
  using assms by (intro SetOwner_ok SetModerator_True_ok) (simp_all add: IsOn_modify)

section \<open>Every operation keeps the invariant\<close>

lemma Join_ok:
  assumes ok: "chan_ok ch"
  shows "chan_ok (Channel_Join E p pass ch)"
proof (cases "Channel_IsOn p ch \<or> Channel_IsBanned p ch")
  case True
  with ok show ?thesis by (auto simp: Channel_Join_def)
next
  case False
  let ?new = "\<lambda>ch. with_players (smap_put p \<lparr>pi_player = p, pi_flags = MEMBER_FLAG_NONE\<rparr>) ch"
  have new: "chan_ok (?new c) \<and> Channel_IsOn p (?new c)" if "core c = core ch" for c
  proof -
    have c: "chan_ok c" using chan_ok_core [OF that] ok by simp
    have "p \<notin> set (banned c)" using that False by (simp add: core_fields Channel_IsBanned_def)
    with c show ?thesis
      by (auto intro!: chan_ok_put simp: member_ok_def Channel_IsOn_def smap_simps chan_okD)
  qed
  have own: "chan_ok (with_players (smap_modify PlayerInfo_default p (PlayerInfo_SetModerator True))
      (Channel_SetOwner E p ex c))" if "chan_ok c" "Channel_IsOn p c" for ex c
  proof (rule SetModerator_True_ok)
    show "chan_ok (Channel_SetOwner E p ex c)" using that by (intro SetOwner_ok)
    show "Channel_IsOn p (Channel_SetOwner E p ex c)"
      using that find_SetOwner [of c p _ E ex p] chan_okD(1) [OF that(1)]
      by (cases "p = 0") (auto simp: Channel_IsOn_def SetOwner_fields find_disowned smap_simps disowned_ok)
  qed
  show ?thesis
    using False ok new own by (auto simp: Channel_Join_def Let_def split: option.splits)
qed


text \<open>The channel after a member has been removed, before the hand-over.\<close>

definition left :: "chat_env \<Rightarrow> uint64 \<Rightarrow> bool \<Rightarrow> Channel \<Rightarrow> Channel" where
  "left E p send ch =
     (let plr = GetPlayer E p;
          ch1 = (if send then
                   emit_events (case plr of None \<Rightarrow> [] | Some q \<Rightarrow> [LeftChannel (plr_GUID q)])
                     (Channel_SendToOne E (MakeYouLeft ch) p ch)
                 else ch);
          ch2 = with_players (smap_erase p) ch1;
          ch3 = (if announces E plr ch2 then Channel_SendToAll E (MakeLeft p ch2) 0 ch2 else ch2);
          ch4 = Channel_LeaveNotify E p ch3
      in if \<not> Channel_IsConstant ch4 then Channel_UpdateChannelUseageInDB ch4 else ch4)"

lemma core_with_players [simp]: "core (with_players f ch) = with_players f (core ch)"
  by (simp add: core_def with_players_def)

lemma with_players_core: "core a = core b \<Longrightarrow> core (with_players f a) = core (with_players f b)"
  by simp

lemma left_core: "core (left E p send ch) = core (with_players (smap_erase p) ch)"
  by (simp add: left_def Let_def)

lemma left_fields [simp]:
  "players (left E p send ch) = smap_erase p (players ch)"
  "m_ownership (left E p send ch) = m_ownership ch"
  "m_channelId (left E p send ch) = m_channelId ch"
  "m_ownerGUID (left E p send ch) = m_ownerGUID ch"
  by (simp_all add: left_def Let_def)

lemma member_frame [simp]:
  "member p (emit_events es ch) = member p ch" "member p (Channel_SendToOne E d q ch) = member p ch"
  by (simp_all add: member_def)

lemma Leave_unfold:
  "Channel_Leave E p send ch =
     (if \<not> Channel_IsOn p ch then (if send then Channel_SendToOne E (MakeNotMember ch) p ch else ch)
      else if \<not> Channel_IsConstant ch \<and> PlayerInfo_IsOwner (member p ch) \<and> m_ownership ch
              \<and> smap_erase p (players ch) \<noteq> []
      then let newowner = pi_player (snd (hd (smap_erase p (players ch))))
           in Channel_SetOwner E newowner True
                (with_players (smap_modify PlayerInfo_default newowner (PlayerInfo_SetModerator True)) (left E p send ch))
      else left E p send ch)"
  by (simp add: Channel_Leave_def left_def Let_def)

lemma next_owner_on:
  assumes "chan_ok ch" "players ch \<noteq> []"
  shows "Channel_IsOn (pi_player (snd (hd (players ch)))) ch"
proof -
  obtain g i m where "players ch = (g, i) # m" using assms(2) by (cases "players ch") auto
  with assms(1) show ?thesis by (simp add: chan_ok_def member_ok_def Channel_IsOn_def find_Cons)
qed

lemma Leave_ok:
  assumes ok: "chan_ok ch"
  shows "chan_ok (Channel_Leave E p send ch)"
proof -
  have l: "chan_ok (left E p send ch)"
    using chan_ok_core [OF left_core] chan_ok_erase [OF ok] by blast
  with ok next_owner_on [OF l] hand_over_ok [OF l] show ?thesis
    by (auto simp: Leave_unfold Let_def)
qed

lemma chan_ok_unban: "chan_ok ch \<Longrightarrow> chan_ok (ch\<lparr>banned := sset_erase g (banned ch)\<rparr>)"
  by (auto simp: chan_ok_def member_ok_def list_all_iff smap_simps)

lemma chan_ok_settings [simp]:
  "chan_ok (ch\<lparr>m_password := x\<rparr>) = chan_ok ch" "chan_ok (ch\<lparr>m_announce := b\<rparr>) = chan_ok ch"
  by (simp_all add: chan_ok_def member_ok_def)

lemma chan_ok_ban_erase:
  assumes "chan_ok ch"
  shows "chan_ok (with_players (smap_erase g) (ch\<lparr>banned := sset_insert g (banned ch)\<rparr>))"
  using chan_okD [OF assms]
  by (intro chan_okI) (auto simp: smap_simps member_ok_def split: if_splits)

text \<open>
  The one call that breaks the invariant is an owner kicking himself: \<open>players[newowner]\<close> then
  re-inserts him with a value-initialised entry.
\<close>

fun chan_guard :: "chat_env \<times> chan_op \<Rightarrow> Channel \<Rightarrow> bool" where
  "chan_guard (E, OpKickOrBan good badname ban) ch =
     (case GetPlayerByName E badname of
        None \<Rightarrow> True
      | Some bad \<Rightarrow> \<not> (plr_GUID bad = good \<and> good = m_ownerGUID ch))"
| "chan_guard _ ch = True"

text \<open>The state in which the members of a successful kick are handed on.\<close>

definition kicked :: "chat_env \<Rightarrow> uint64 \<Rightarrow> uint64 \<Rightarrow> bool \<Rightarrow> Channel \<Rightarrow> Channel" where
  "kicked E good bad ban ch =
     (if ban \<and> \<not> Channel_IsBanned bad ch
      then let ch0 = ch\<lparr>banned := sset_insert bad (banned ch)\<rparr>
           in emit_events [LeftChannel bad] (with_players (smap_erase bad)
                (Channel_SendToAll E (MakePlayerBanned bad good ch0) 0 (Channel_UpdateChannelInDB ch0)))
      else emit_events [LeftChannel bad] (with_players (smap_erase bad)
             (Channel_SendToAll E (MakePlayerKicked bad good ch) 0 ch)))"

lemma kicked_fields [simp]:
  "players (kicked E good bad ban ch) = smap_erase bad (players ch)"
  "m_ownerGUID (kicked E good bad ban ch) = m_ownerGUID ch"
  "m_ownership (kicked E good bad ban ch) = m_ownership ch"
  by (simp_all add: kicked_def Let_def)

lemma kicked_ok:
  assumes ok: "chan_ok ch"
  shows "chan_ok (kicked E good bad ban ch)"
proof (cases "ban \<and> \<not> Channel_IsBanned bad ch")
  case True
  let ?ch0 = "ch\<lparr>banned := sset_insert bad (banned ch)\<rparr>"
  have "chan_ok (with_players (smap_erase bad)
      (Channel_SendToAll E (MakePlayerBanned bad good ?ch0) 0 (Channel_UpdateChannelInDB ?ch0)))
    = chan_ok (with_players (smap_erase bad) ?ch0)"
    by (intro chan_ok_core with_players_core) simp
  with True chan_ok_ban_erase [OF ok] show ?thesis by (simp add: kicked_def Let_def)
next
  case False
  with ok show ?thesis by (auto simp: kicked_def intro: chan_ok_erase)
qed

lemma banned_update_fields:
  "players (ch\<lparr>banned := b\<rparr>) = players ch" "m_ownership (ch\<lparr>banned := b\<rparr>) = m_ownership ch"
  by simp_all

lemma KickOrBan_unfold:
  "Channel_KickOrBan E good badname ban ch =
     (if \<not> Channel_IsOn good ch then Channel_SendToOne E (MakeNotMember ch) good ch
      else if \<not> PlayerInfo_IsModerator (member good ch) \<and> sec_of (GetPlayer E good) < SEC_GAMEMASTER
      then Channel_SendToOne E (MakeNotModerator ch) good ch
      else case GetPlayerByName E badname of
        None \<Rightarrow> Channel_SendToOne E (MakePlayerNotFound badname ch) good ch
      | Some badp \<Rightarrow>
          if \<not> Channel_IsOn (plr_GUID badp) ch then Channel_SendToOne E (MakePlayerNotFound badname ch) good ch
          else if sec_of (GetPlayer E good) < SEC_GAMEMASTER \<and> plr_GUID badp = m_ownerGUID ch \<and> good \<noteq> m_ownerGUID ch
          then Channel_SendToOne E (MakeNotOwner ch) good ch
          else if m_ownerGUID ch = plr_GUID badp \<and> m_ownership ch \<and> smap_erase (plr_GUID badp) (players ch) \<noteq> []
          then Channel_SetOwner E good True
                 (with_players (smap_modify PlayerInfo_default good (PlayerInfo_SetModerator True))
                   (kicked E good (plr_GUID badp) ban ch))
          else kicked E good (plr_GUID badp) ban ch)"
proof (cases "GetPlayerByName E badname")
  case None
  then show ?thesis by (simp only: Channel_KickOrBan_def Let_def option.case)
next
  case (Some badp)
  show ?thesis
  proof (cases "ban \<and> \<not> Channel_IsBanned (plr_GUID badp) ch")
    case True
    show ?thesis
      by (simp only: Channel_KickOrBan_def kicked_def Let_def Some option.case True [THEN eqTrueI] if_True prod.case
          emit_fields with_players_fields send_fields banned_update_fields)
  next
    case False
    show ?thesis
      by (simp only: Channel_KickOrBan_def kicked_def Let_def Some option.case False [THEN Eq_FalseI] if_False prod.case
          emit_fields with_players_fields send_fields)
  qed
qed

lemma KickOrBan_ok:
  assumes ok: "chan_ok ch" and guard: "chan_guard (E, OpKickOrBan good badname ban) ch"
  shows "chan_ok (Channel_KickOrBan E good badname ban ch)"
proof -
  have stays: "Channel_IsOn good (kicked E good (plr_GUID badp) ban ch)"
    if "Channel_IsOn good ch" "GetPlayerByName E badname = Some badp" "m_ownerGUID ch = plr_GUID badp" for badp
    using that guard by (auto simp: Channel_IsOn_def smap_simps)
  show ?thesis
    using ok stays kicked_ok [OF ok] hand_over_ok by (auto simp: KickOrBan_unfold split: option.split)
qed

lemma UnBan_ok: "chan_ok ch \<Longrightarrow> chan_ok (Channel_UnBan E good badname ch)"
  by (simp add: Channel_UnBan_def Let_def chan_ok_unban split: option.split)

lemma Password_ok: "chan_ok ch \<Longrightarrow> chan_ok (Channel_Password E p pass ch)"
  by (simp add: Channel_Password_def Let_def)

lemma Announce_ok: "chan_ok ch \<Longrightarrow> chan_ok (Channel_Announce E p ch)"
  by (simp add: Channel_Announce_def Let_def)

lemma SetModerator_ok:
  assumes ok: "chan_ok ch" and on: "Channel_IsOn g ch" and no: "g \<noteq> m_ownerGUID ch"
  shows "chan_ok (Channel_SetModerator E g b ch)"
proof -
  obtain i where i: "smap_find (players ch) g = Some i" using on by (auto simp: Channel_IsOn_def)
  have "chan_ok (with_players (smap_modify PlayerInfo_default g (PlayerInfo_SetModerator b)) ch)"
    using chan_okD(3) [OF ok i] no by (intro chan_ok_modify [OF ok i]) (auto simp: member_ok_def)
  with ok show ?thesis by (simp add: Channel_SetModerator_def Let_def)
qed

lemma SetMute_ok:
  assumes ok: "chan_ok ch" and on: "Channel_IsOn g ch"
  shows "chan_ok (Channel_SetMute E g b ch)"
proof -
  obtain i where i: "smap_find (players ch) g = Some i" using on by (auto simp: Channel_IsOn_def)
  have "chan_ok (with_players (smap_modify PlayerInfo_default g (PlayerInfo_SetMuted b)) ch)"
    using chan_okD(3) [OF ok i] by (intro chan_ok_modify [OF ok i]) (auto simp: member_ok_def)
  with ok show ?thesis by (simp add: Channel_SetMute_def Let_def)
qed

lemma SetMode_ok:
  assumes ok: "chan_ok ch"
  shows "chan_ok (Channel_SetMode E p p2n modIt setIt ch)"
  using ok SetModerator_ok [OF ok] SetMute_ok [OF ok]
  by (auto simp: Channel_SetMode_def Let_def split: option.split)

lemma SetOwnerByName_ok: "chan_ok ch \<Longrightarrow> chan_ok (Channel_SetOwnerByName E p newname ch)"
  by (auto simp: Channel_SetOwnerByName_def intro: hand_over_ok split: option.split)

text \<open>Operations that only send.\<close>

lemma query_core [simp]:
  "core (Channel_SendWhoOwner E p ch) = core ch"
  "core (Channel_List E pl ch) = core ch"
  "core (Channel_Say E p what lang ch) = core ch"
  "core (Channel_Invite E p n ch) = core ch"
  by (simp_all add: Channel_SendWhoOwner_def Channel_List_def Channel_Say_def Channel_Invite_def Let_def
      split: option.split)

lemma query_ok [simp]:
  "chan_ok (Channel_SendWhoOwner E p ch) = chan_ok ch"
  "chan_ok (Channel_List E pl ch) = chan_ok ch"
  "chan_ok (Channel_Say E p what lang ch) = chan_ok ch"
  "chan_ok (Channel_Invite E p n ch) = chan_ok ch"
  by (rule chan_ok_core, simp)+

interpretation chan: guarded_system chan_guard chan_step chan_ok
proof unfold_locales
  fix ch :: Channel and c :: "chat_env \<times> chan_op"
  assume ok: "chan_ok ch" and guard: "chan_guard c ch"
  obtain E op where c: "c = (E, op)" by (cases c)
  show "chan_ok (chan_step c ch)"
    using ok guard unfolding c
    by (cases op) (simp_all add: Join_ok Leave_ok KickOrBan_ok UnBan_ok Password_ok Announce_ok SetMode_ok
        SetOwnerByName_ok del: chan_guard.simps)
qed

lemma Channel_new_ok: "chan_ok (Channel_new E row name cid Team)"
proof -
  have bans: "sset_ok bs \<Longrightarrow> sset_ok (load_bans ts bs)" for ts bs
    by (induction ts bs rule: load_bans.induct) (auto simp: Let_def smap_simps)
  show ?thesis
    using bans [of "[]"]
    by (auto simp: Channel_new_def Let_def chan_ok_def split: option.split prod.split)
qed


section \<open>Rejections\<close>

text \<open>Whether \<open>p\<close> may moderate: a member with the moderator flag, or a member who is a game master.\<close>

definition may_moderate :: "chat_env \<Rightarrow> uint64 \<Rightarrow> Channel \<Rightarrow> bool" where
  "may_moderate E p ch \<longleftrightarrow> Channel_IsOn p ch \<and>
     (PlayerInfo_IsModerator (member p ch) \<or> sec_of (GetPlayer E p) \<ge> SEC_GAMEMASTER)"

fun moderation_by :: "chan_op \<Rightarrow> uint64 option" where
  "moderation_by (OpKickOrBan p _ _) = Some p"
| "moderation_by (OpUnBan p _) = Some p"
| "moderation_by (OpPassword p _) = Some p"
| "moderation_by (OpSetMode p _ _ _) = Some p"
| "moderation_by (OpAnnounce p) = Some p"
| "moderation_by _ = None"

lemma SendToOne_trace:
  "ch_trace (Channel_SendToOne E d p ch) =
     ch_trace ch @ (if GetPlayer E p = None then [] else [SendPacket p d])"
  by (auto simp: Channel_SendToOne_def GetPlayer_def dest: FindPlayer_GUID split: option.split)

lemma moderation_rejected:
  assumes "moderation_by op = Some p" "\<not> may_moderate E p ch"
  shows "chan_step (E, op) ch = ch \<or>
    (\<exists>d \<in> {MakeNotMember ch, MakeNotModerator ch}. chan_step (E, op) ch = Channel_SendToOne E d p ch)"
  using assms
  by (cases op)
    (auto simp: may_moderate_def not_le sec_of_def Channel_KickOrBan_def Channel_UnBan_def Channel_Password_def
      Channel_SetMode_def Channel_Announce_def Let_def split: option.split)

section \<open>Joining\<close>

lemma IsOn_SetOwner:
  assumes "smap_ok (players ch)"
  shows "Channel_IsOn q (Channel_SetOwner E p ex ch) \<longleftrightarrow> Channel_IsOn q ch \<or> (q = p \<and> p \<noteq> 0)"
  using assms
  by (auto simp: Channel_IsOn_def SetOwner_fields find_disowned smap_simps disowned_ok split: if_splits)

definition lfg_refused :: "chat_env \<Rightarrow> uint64 \<Rightarrow> Channel \<Rightarrow> bool" where
  "lfg_refused E p ch \<longleftrightarrow>
     (case GetPlayer E p of None \<Rightarrow> False
      | Some q \<Rightarrow> Channel_HasFlag CHANNEL_FLAG_LFG ch \<and> CONFIG_RESTRICTED_LFG_CHANNEL (ce_world E) \<and>
                  plr_Security q = SEC_PLAYER \<and> plr_InGroup q)"

definition admitted :: "chat_env \<Rightarrow> uint64 \<Rightarrow> string \<Rightarrow> Channel \<Rightarrow> bool" where
  "admitted E p pass ch \<longleftrightarrow> \<not> Channel_IsBanned p ch \<and> (m_password ch = [] \<or> pass = m_password ch)
     \<and> \<not> lfg_refused E p ch"

text \<open>The channel once the newcomer is entered and told, before ownership is settled.\<close>

definition joined :: "chat_env \<Rightarrow> uint64 \<Rightarrow> Channel \<Rightarrow> Channel" where
  "joined E p ch =
     (let plr = GetPlayer E p;
          ch1 = emit_events (case plr of None \<Rightarrow> [] | Some q \<Rightarrow> [JoinedChannel (plr_GUID q)]) ch;
          ch2 = (if announces E plr ch1 then Channel_SendToAll E (MakeJoined p ch1) 0 ch1 else ch1);
          ch3 = with_players (smap_put p \<lparr>pi_player = p, pi_flags = MEMBER_FLAG_NONE\<rparr>) ch2;
          ch4 = Channel_SendToOne E (MakeYouJoined ch3) p ch3;
          ch5 = Channel_JoinNotify E p ch4
      in if \<not> Channel_IsConstant ch5 then Channel_UpdateChannelUseageInDB ch5 else ch5)"

lemma joined_core:
  "core (joined E p ch) = core (with_players (smap_put p \<lparr>pi_player = p, pi_flags = MEMBER_FLAG_NONE\<rparr>) ch)"
  by (simp add: joined_def Let_def)

lemma joined_fields [simp]:
  "players (joined E p ch) = smap_put p \<lparr>pi_player = p, pi_flags = MEMBER_FLAG_NONE\<rparr> (players ch)"
  "m_ownerGUID (joined E p ch) = m_ownerGUID ch" "m_ownership (joined E p ch) = m_ownership ch"
  by (simp_all add: joined_def Let_def)

lemma Join_admitted:
  assumes "\<not> Channel_IsOn p ch" "admitted E p pass ch"
  shows "Channel_Join E p pass ch =
    (if \<not> Channel_IsConstant ch \<and> m_ownerGUID ch = 0 \<and> m_ownership ch
     then with_players (smap_modify PlayerInfo_default p (PlayerInfo_SetModerator True))
            (Channel_SetOwner E p (length (players (joined E p ch)) > 1) (joined E p ch))
     else joined E p ch)"
proof -
  have c: "\<not> Channel_IsBanned p ch" "\<not> (length (m_password ch) > 0 \<and> pass \<noteq> m_password ch)"
      "\<not> (case GetPlayer E p of None \<Rightarrow> False
        | Some q \<Rightarrow> Channel_HasFlag CHANNEL_FLAG_LFG ch \<and> CONFIG_RESTRICTED_LFG_CHANNEL (ce_world E) \<and>
                    plr_Security q = SEC_PLAYER \<and> plr_InGroup q)"
    using assms(2) by (auto simp: admitted_def lfg_refused_def)
  show ?thesis
    unfolding Channel_Join_def Let_def if_not_P [OF assms(1)] if_not_P [OF c(1)] if_not_P [OF c(2)] if_not_P [OF c(3)]
    by (simp add: joined_def Let_def)
qed

lemma Join_refused:
  assumes "\<not> (\<not> Channel_IsOn p ch \<and> admitted E p pass ch)"
  shows "Channel_Join E p pass ch = ch \<or>
    (\<exists>d \<in> {MakePlayerAlreadyMember p ch, MakeBanned ch, MakeWrongPassword ch, MakeNotInLfg ch}.
       Channel_Join E p pass ch = Channel_SendToOne E d p ch)"
  using assms unfolding admitted_def lfg_refused_def by (auto simp: Channel_Join_def Let_def)

lemma IsOn_Join:
  assumes "smap_ok (players ch)"
  shows "Channel_IsOn q (Channel_Join E p pass ch) \<longleftrightarrow> Channel_IsOn q ch \<or> (q = p \<and> admitted E p pass ch)"
proof (cases "\<not> Channel_IsOn p ch \<and> admitted E p pass ch")
  case True
  have j: "smap_ok (players (joined E p ch))" using assms by (simp add: smap_simps)
  have on: "Channel_IsOn q (joined E p ch) \<longleftrightarrow> Channel_IsOn q ch \<or> q = p"
    using assms by (simp add: Channel_IsOn_def smap_simps)
  have "smap_ok (players (Channel_SetOwner E p x (joined E p ch)))" for x
    by (rule SetOwner_smap_ok [OF j])
  then have "Channel_IsOn q (with_players (smap_modify PlayerInfo_default p (PlayerInfo_SetModerator True))
      (Channel_SetOwner E p x (joined E p ch))) \<longleftrightarrow> q = p \<or> Channel_IsOn q (Channel_SetOwner E p x (joined E p ch))" for x
    by (simp add: Channel_IsOn_def smap_simps)
  with True on IsOn_SetOwner [OF j] show ?thesis by (auto simp: Join_admitted)
next
  case False
  then have "Channel_IsOn q (Channel_Join E p pass ch) = Channel_IsOn q ch"
    using Join_refused [OF False] by auto
  with False show ?thesis by auto
qed

section \<open>A sample channel\<close>

text \<open>Ann (5) founds a custom channel, Bob (9) joins it.\<close>

definition sample_env :: chat_env where
  "sample_env = \<lparr>ce_world = sample_world [sample_player 5 ''Ann'', sample_player 9 ''Bob''], ce_socials = []\<rparr>"

definition sample_joins :: "(chat_env \<times> chan_op) list" where
  "sample_joins = [(sample_env, OpJoin 5 ''''), (sample_env, OpJoin 9 '''')]"

definition sample_channel :: Channel where
  "sample_channel = run_ops chan_step sample_joins (Channel_new sample_env None ''World'' 0 67)"

lemma sample_channel_ok: "chan_ok sample_channel"
  by code_simp

section \<open>Properties: membership and authority\<close>

text \<open>
  C13 (invariant).  Over every sequence of calls on a channel, except an owner kicking himself: each
  member's entry carries the member's own GUID, no banned player is a member, and a member with the
  owner flag is the recorded owner and a moderator, so there is at most one.
\<close>
theorem channel_ownership_invariant:
  assumes "legal_run chan_guard chan_step ops (Channel_new E row name cid Team)"
    and "ch = run_ops chan_step ops (Channel_new E row name cid Team)"
  shows "list_all (\<lambda>(g, i). pi_player i = g \<and> g \<notin> set (banned ch)
    \<and> (PlayerInfo_IsOwner i \<longrightarrow> g = m_ownerGUID ch \<and> PlayerInfo_IsModerator i)) (players ch)"
proof -
  have "chan_ok ch"
    unfolding assms(2) by (rule chan.run_inv [OF Channel_new_ok assms(1)])
  then show ?thesis by (auto simp: chan_ok_def member_ok_def list_all_iff)
qed

theorem channel_ownership_invariant_witness:
  "list_all (\<lambda>(g, i). pi_player i = g \<and> g \<notin> set (banned sample_channel)
    \<and> (PlayerInfo_IsOwner i \<longrightarrow> g = m_ownerGUID sample_channel \<and> PlayerInfo_IsModerator i)) (players sample_channel)
   \<and> map fst (players sample_channel) = [5, 9] \<and> m_ownerGUID sample_channel = 5"
proof -
  have "legal_run chan_guard chan_step sample_joins (Channel_new sample_env None ''World'' 0 67)" by code_simp
  from channel_ownership_invariant [OF this sample_channel_def]
  have "list_all (\<lambda>(g, i). pi_player i = g \<and> g \<notin> set (banned sample_channel)
    \<and> (PlayerInfo_IsOwner i \<longrightarrow> g = m_ownerGUID sample_channel \<and> PlayerInfo_IsModerator i)) (players sample_channel)" .
  moreover have "map fst (players sample_channel) = [5, 9] \<and> m_ownerGUID sample_channel = 5" by code_simp
  ultimately show ?thesis by simp
qed

text \<open>
  C24 (safety).  A call of the moderation operations (kick, ban, unban, password, mode, announcements) by
  somebody who is not a member, or is neither moderator nor game master, leaves the channel as it is
  and tells only the caller, with at most one notice.
\<close>
theorem moderation_needs_authority:
  assumes "moderation_by op = Some p" "\<not> may_moderate E p ch"
  shows "core (chan_step (E, op) ch) = core ch \<and>
    (\<exists>es. ch_trace (chan_step (E, op) ch) = ch_trace ch @ es \<and>
      es \<in> {[], [SendPacket p (MakeNotMember ch)], [SendPacket p (MakeNotModerator ch)]})"
  using moderation_rejected [OF assms] by (auto simp: SendToOne_trace)

theorem moderation_needs_authority_witness:
  "core (chan_step (sample_env, OpPassword 9 ''x'') sample_channel) = core sample_channel"
proof -
  have "moderation_by (OpPassword 9 ''x'') = Some 9" by simp
  moreover have "\<not> may_moderate sample_env 9 sample_channel" by code_simp
  ultimately show ?thesis by (rule moderation_needs_authority [THEN conjunct1])
qed

text \<open>
  After \<open>Join\<close> the caller is on the channel exactly when he already was, or is not
  banned, gives the password if there is one, and is not kept out of the looking-for-group channel;
  the other memberships stay as they were.
\<close>
theorem join_admits_exactly:
  assumes "smap_ok (players ch)"
  shows "Channel_IsOn q (Channel_Join E p pass ch) \<longleftrightarrow> Channel_IsOn q ch \<or> (q = p \<and> admitted E p pass ch)"
  by (rule IsOn_Join [OF assms])

theorem join_admits_exactly_witness:
  "Channel_IsOn 7 (Channel_Join sample_env 7 '''' sample_channel)
   \<and> \<not> Channel_IsOn 7 (Channel_Join sample_env 7 ''no'' (sample_channel\<lparr>m_password := ''yes''\<rparr>))"
proof -
  have "smap_ok (players sample_channel)" "smap_ok (players (sample_channel\<lparr>m_password := ''yes''\<rparr>))"
    using chan_okD(1) [OF sample_channel_ok] by simp_all
  note inst = this [THEN join_admits_exactly]
  have "admitted sample_env 7 '''' sample_channel"
    "\<not> admitted sample_env 7 ''no'' (sample_channel\<lparr>m_password := ''yes''\<rparr>)"
    "\<not> Channel_IsOn 7 (sample_channel\<lparr>m_password := ''yes''\<rparr>)" by code_simp+
  with inst show ?thesis by simp
qed

text \<open>
  When the owner of a custom channel with ownership leaves others behind, the
  remaining member with the smallest GUID becomes owner and moderator and nobody else has the owner flag.
\<close>
theorem leaving_owner_hands_over:
  assumes ok: "chan_ok ch" and "Channel_IsOn p ch" "PlayerInfo_IsOwner (member p ch)"
    and "\<not> Channel_IsConstant ch" "m_ownership ch" "smap_erase p (players ch) \<noteq> []"
    and ch': "ch' = Channel_Leave E p send ch" and new: "new = fst (hd (smap_erase p (players ch)))"
    and "new \<noteq> 0"
  shows "m_ownerGUID ch' = new \<and> PlayerInfo_IsModerator (member new ch')
    \<and> (Channel_IsOn g ch' \<longleftrightarrow> Channel_IsOn g ch \<and> g \<noteq> p)
    \<and> (Channel_IsOn g ch' \<longrightarrow> new \<le> g \<and> (PlayerInfo_IsOwner (member g ch') \<longleftrightarrow> g = new))"
proof -
  let ?m = "smap_erase p (players ch)"
  obtain i m where hd: "?m = (new, i) # m" using assms(6) new by (cases ?m) auto
  have l: "chan_ok (left E p send ch)"
    using chan_ok_core [OF left_core] chan_ok_erase [OF ok] by blast
  have i: "smap_find (players (left E p send ch)) new = Some i" by (simp add: hd find_Cons)
  then have pi: "pi_player i = new" using chan_okD(3) [OF l] by (simp add: member_ok_def)
  let ?c = "with_players (smap_modify PlayerInfo_default new (PlayerInfo_SetModerator True)) (left E p send ch)"
  have eq: "ch' = Channel_SetOwner E new True ?c"
    using assms(2-6) pi by (simp add: ch' Leave_unfold Let_def hd)
  have on: "Channel_IsOn new (left E p send ch)" using i by (simp add: Channel_IsOn_def)
  have c: "chan_ok ?c" using l on by (rule SetModerator_True_ok)
  have ok': "chan_ok ch'" unfolding eq by (rule hand_over_ok [OF l on])
  have mc: "smap_ok (players ?c)" using c by (rule chan_okD)
  have fc: "smap_find (players ?c) new = Some (PlayerInfo_SetModerator True i)"
    using chan_okD(1) [OF l] i by (simp add: smap_simps)
  have owner: "\<exists>j. smap_find (players ch') new = Some j \<and> PlayerInfo_IsOwner j \<and> PlayerInfo_IsModerator j"
    using find_SetOwner [OF mc assms(9) fc, of E True new] by (auto simp: eq)
  have "Channel_IsOn g ch' \<longleftrightarrow> Channel_IsOn g (left E p send ch)"
    using on by (auto simp: eq IsOn_SetOwner [OF mc] IsOn_modify [OF l])
  moreover have "Channel_IsOn g (left E p send ch) \<longleftrightarrow> Channel_IsOn g ch \<and> g \<noteq> p"
    by (simp add: Channel_IsOn_def smap_simps)
  moreover have "new \<le> g" if "Channel_IsOn g (left E p send ch)"
  proof -
    have "smap_ok ((new, i) # m)" using chan_okD(1) [OF l] hd by simp
    with that hd show ?thesis using hd_least [of "(new, i)" m g] by (simp add: Channel_IsOn_def)
  qed
  moreover have "PlayerInfo_IsOwner (member g ch') \<longleftrightarrow> g = new" if "Channel_IsOn g ch'"
    using that owner chan_okD(3) [OF ok', of g] by (auto simp: Channel_IsOn_def member_def member_ok_def eq SetOwner_fields(2))
  moreover have "PlayerInfo_IsModerator (member new ch')" using owner by (auto simp: member_def)
  ultimately show ?thesis by (simp add: eq SetOwner_fields(2))
qed


theorem leaving_owner_hands_over_witness:
  "m_ownerGUID (Channel_Leave sample_env 5 True sample_channel) = 9"
proof -
  have "Channel_IsOn 5 sample_channel" "PlayerInfo_IsOwner (member 5 sample_channel)"
    "\<not> Channel_IsConstant sample_channel" "m_ownership sample_channel"
    "smap_erase 5 (players sample_channel) \<noteq> []" by code_simp+
  note prems = sample_channel_ok this
  have new: "9 = fst (hd (smap_erase 5 (players sample_channel)))" by code_simp
  have "(9 :: uint64) \<noteq> 0" by simp
  from leaving_owner_hands_over [OF prems refl new this, of sample_env True] show ?thesis by blast
qed


section \<open>Properties: an owner who kicks himself\<close>

lemma kicked_banned:
  "banned (kicked E good bad ban ch) = (if ban then sset_insert bad (banned ch) else banned ch)"
  by (auto simp: kicked_def Let_def Channel_IsBanned_def sset_insert_def)

text \<open>
  An owner who kicks himself stays on the channel and stays its owner: \<open>players[newowner]\<close>
  re-inserts him with a value-initialised entry whose player field is 0.  If he bans himself he is a
  banned member.
\<close>
theorem owner_kicking_himself_stays:
  assumes ok: "chan_ok ch" and on: "Channel_IsOn g ch" and "PlayerInfo_IsModerator (member g ch)"
    and g: "g = m_ownerGUID ch" "g \<noteq> 0" and "m_ownership ch" "smap_erase g (players ch) \<noteq> []"
    and name: "GetPlayerByName E n = Some b" "plr_GUID b = g"
    and ch': "ch' = Channel_KickOrBan E g n ban ch"
  shows "Channel_IsOn g ch' \<and> PlayerInfo_IsOwner (member g ch') \<and> pi_player (member g ch') = 0
    \<and> (ban \<longrightarrow> Channel_IsBanned g ch')"
proof -
  let ?c = "with_players (smap_modify PlayerInfo_default g (PlayerInfo_SetModerator True)) (kicked E g g ban ch)"
  have eq: "ch' = Channel_SetOwner E g True ?c"
    using assms by (simp add: KickOrBan_unfold)
  have k: "smap_ok (players (kicked E g g ban ch))" using kicked_ok [OF ok] by (rule chan_okD)
  then have c: "smap_ok (players ?c)" by (simp add: smap_simps)
  have "smap_find (players (kicked E g g ban ch)) g = None" by (simp add: smap_simps)
  then have "smap_find (players ?c) g = Some (PlayerInfo_SetModerator True PlayerInfo_default)"
    using k by (simp add: smap_simps smap_at_def)
  from find_SetOwner [OF c g(2) this, of E True g]
  obtain j where "smap_find (players ch') g = Some j" "pi_player j = 0" "PlayerInfo_IsOwner j"
    by (auto simp: eq PlayerInfo_default_def)
  then show ?thesis
    by (auto simp: Channel_IsOn_def member_def Channel_IsBanned_def eq SetOwner_fields kicked_banned)
qed

theorem owner_kicking_himself_stays_witness:
  "pi_player (member 5 (Channel_KickOrBan sample_env 5 ''Ann'' True sample_channel)) = 0
   \<and> Channel_IsBanned 5 (Channel_KickOrBan sample_env 5 ''Ann'' True sample_channel)"
proof -
  have "Channel_IsOn 5 sample_channel" "PlayerInfo_IsModerator (member 5 sample_channel)"
    "5 = m_ownerGUID sample_channel" "(5 :: uint64) \<noteq> 0" "m_ownership sample_channel"
    "smap_erase 5 (players sample_channel) \<noteq> []" by code_simp+
  note prems = sample_channel_ok this
  have "GetPlayerByName sample_env ''Ann'' = Some (sample_player 5 ''Ann'')"
    by (simp add: GetPlayerByName_def FindPlayerByName_def sample_env_def sample_world_def sample_player_def)
  moreover have "plr_GUID (sample_player 5 ''Ann'') = 5" by code_simp
  ultimately show ?thesis using owner_kicking_himself_stays [OF prems _ _ refl] by simp
qed

text \<open>
  When the last member of a custom channel is its owner and kicks himself, the channel
  keeps him as recorded owner: whoever joins next is not made owner, so the channel stays without one.
\<close>
theorem emptied_channel_keeps_stale_owner:
  assumes "players ch = [(g, i)]" "PlayerInfo_IsModerator i" "m_ownerGUID ch = g" "g \<noteq> 0"
    and name: "GetPlayerByName E n = Some b" "plr_GUID b = g"
    and "p \<noteq> g" "admitted E' p pass ch"
    and ch': "ch' = Channel_Join E' p pass (Channel_KickOrBan E g n False ch)"
  shows "map fst (players ch') = [p] \<and> m_ownerGUID ch' = g \<and> \<not> PlayerInfo_IsOwner (member p ch')"
proof -
  have on: "Channel_IsOn g ch" "member g ch = i" "smap_erase g (players ch) = []"
    using assms(1) by (simp_all add: Channel_IsOn_def member_def smap_at_def find_Cons smap_erase_def)
  have kick: "Channel_KickOrBan E g n False ch = kicked E g g False ch"
    using on assms by (simp add: KickOrBan_unfold)
  have core: "core (kicked E g g False ch) = core (with_players (smap_erase g) ch)"
    by (simp add: kicked_def)
  have "admitted E' p pass (kicked E g g False ch)"
    using assms(8) core
    by (simp add: admitted_def lfg_refused_def Channel_IsBanned_def Channel_HasFlag_def core_fields
        flip: core_with_players cong: option.case_cong)
  moreover have "\<not> Channel_IsOn p (kicked E g g False ch)" using on by (simp add: Channel_IsOn_def)
  ultimately have "ch' = joined E' p (kicked E g g False ch)"
    using assms(3,4) by (simp add: ch' kick Join_admitted)
  then show ?thesis using on assms(3) by (simp add: member_def smap_at_def find_Cons)
qed

theorem emptied_channel_keeps_stale_owner_witness:
  "m_ownerGUID (Channel_Join sample_env 9 '''' (Channel_KickOrBan sample_env 5 ''Ann'' False
     (Channel_Join sample_env 5 '''' (Channel_new sample_env None ''World'' 0 67)))) = 5"
proof -
  let ?ch = "Channel_Join sample_env 5 '''' (Channel_new sample_env None ''World'' 0 67)"
  have "players ?ch = [(5, \<lparr>pi_player = 5, pi_flags = 3\<rparr>)]"
    "PlayerInfo_IsModerator \<lparr>pi_player = 5, pi_flags = 3\<rparr>" "m_ownerGUID ?ch = 5" "(5 :: uint64) \<noteq> 0"
    by code_simp+
  moreover have "GetPlayerByName sample_env ''Ann'' = Some (sample_player 5 ''Ann'')"
    by (simp add: GetPlayerByName_def FindPlayerByName_def sample_env_def sample_world_def sample_player_def)
  moreover have "plr_GUID (sample_player 5 ''Ann'') = 5" "(9 :: uint64) \<noteq> 5" "admitted sample_env 9 '''' ?ch"
    by code_simp+
  ultimately show ?thesis
    using emptied_channel_keeps_stale_owner [of ?ch 5 "\<lparr>pi_player = 5, pi_flags = 3\<rparr>" sample_env "''Ann''"
        "sample_player 5 ''Ann''" 9 sample_env "''''", OF _ _ _ _ _ _ _ _ refl] by blast
qed

section \<open>Properties: chat\<close>

lemma SendToAll_trace:
  "ch_trace (Channel_SendToAll E d s ch) = ch_trace ch @
     map (\<lambda>q. SendPacket q d) (filter (\<lambda>q. case GetPlayer E q of None \<Rightarrow> False
       | Some plr \<Rightarrow> s = 0 \<or> \<not> HasIgnore (GUID_LOPART s) (GetSocial (ce_socials E) plr)) (map fst (players ch)))"
proof -
  have "concat (map (\<lambda>i. case GetPlayer E (fst i) of None \<Rightarrow> []
       | Some plr \<Rightarrow> if s = 0 \<or> \<not> HasIgnore (GUID_LOPART s) (GetSocial (ce_socials E) plr)
                     then [SendPacket (plr_GUID plr) d] else []) m)
    = map (\<lambda>q. SendPacket q d) (filter (\<lambda>q. case GetPlayer E q of None \<Rightarrow> False
       | Some plr \<Rightarrow> s = 0 \<or> \<not> HasIgnore (GUID_LOPART s) (GetSocial (ce_socials E) plr)) (map fst m))"
    for m :: "(uint64, PlayerInfo) smap"
    by (induction m) (auto simp: GetPlayer_def dest: FindPlayer_GUID split: option.split)
  then show ?thesis by (simp add: Channel_SendToAll_def)
qed

text \<open>Who hears \<open>p\<close>: the members in the world, but not those who ignore \<open>p\<close> unless \<open>p\<close> is a moderator.\<close>

definition hears :: "chat_env \<Rightarrow> uint64 \<Rightarrow> Channel \<Rightarrow> uint64 \<Rightarrow> bool" where
  "hears E p ch q = (case GetPlayer E q of None \<Rightarrow> False
     | Some plr \<Rightarrow> PlayerInfo_IsModerator (member p ch) \<or> \<not> HasIgnore (GUID_LOPART p) (GetSocial (ce_socials E) plr))"

definition chat_message :: "chat_env \<Rightarrow> uint64 \<Rightarrow> string \<Rightarrow> uint32 \<Rightarrow> Channel \<Rightarrow> packet" where
  "chat_message E p what lang ch = Packet SMSG_MESSAGECHAT
     [U8 CHAT_MSG_CHANNEL, U32 (if CONFIG_ALLOW_TWO_SIDE_INTERACTION_CHANNEL (ce_world E) then LANG_UNIVERSAL else lang),
      U64 p, U32 0, Str (m_name ch), U64 p, U32 (of_nat (length what + 1)), Str what,
      U8 (case GetPlayer E p of Some q \<Rightarrow> Player_chatTag q | None \<Rightarrow> 0)]"

lemma Say_trace:
  assumes "p \<noteq> 0"
  shows "ch_trace (Channel_Say E p (Some what) lang ch) = ch_trace ch @
    (if Channel_IsOn p ch \<and> \<not> PlayerInfo_IsMuted (member p ch)
     then map (\<lambda>q. SendPacket q (chat_message E p what lang ch)) (filter (hears E p ch) (map fst (players ch)))
     else if GetPlayer E p = None then []
     else [SendPacket p (if Channel_IsOn p ch then MakeMuted ch else MakeNotMember ch)])"
proof (cases "Channel_IsOn p ch \<and> \<not> PlayerInfo_IsMuted (member p ch)")
  case True
  have "Channel_Say E p (Some what) lang ch =
      Channel_SendToAll E (chat_message E p what lang ch) (if \<not> PlayerInfo_IsModerator (member p ch) then p else 0) ch"
    using True by (simp add: Channel_Say_def chat_message_def Let_def)
  moreover have "hears E p ch = (\<lambda>q. case GetPlayer E q of None \<Rightarrow> False
       | Some plr \<Rightarrow> (if \<not> PlayerInfo_IsModerator (member p ch) then p else 0) = 0
           \<or> \<not> HasIgnore (GUID_LOPART (if \<not> PlayerInfo_IsModerator (member p ch) then p else 0)) (GetSocial (ce_socials E) plr))"
    using assms by (auto simp: hears_def fun_eq_iff split: option.split)
  ultimately show ?thesis using True by (simp add: SendToAll_trace)
next
  case False
  then show ?thesis by (auto simp: Channel_Say_def Let_def SendToOne_trace)
qed

text \<open>
  C31 (functional).  What a member says goes, in GUID order and once each, to exactly the members in the
  world that do not ignore the speaker, and to the ignoring ones too when the speaker is a moderator; a
  muted member and an outsider reach nobody, they only get a notice themselves.
\<close>
theorem say_reaches_exactly:
  assumes "p \<noteq> 0"
  shows "ch_trace (Channel_Say E p (Some what) lang ch) = ch_trace ch @
    (if Channel_IsOn p ch \<and> \<not> PlayerInfo_IsMuted (member p ch)
     then map (\<lambda>q. SendPacket q (chat_message E p what lang ch)) (filter (hears E p ch) (map fst (players ch)))
     else if GetPlayer E p = None then []
     else [SendPacket p (if Channel_IsOn p ch then MakeMuted ch else MakeNotMember ch)])"
  by (rule Say_trace [OF assms])

theorem say_reaches_exactly_witness:
  "ch_trace (Channel_Say sample_env 9 (Some ''hi'') 1 sample_channel) = ch_trace sample_channel @
     [SendPacket 5 (chat_message sample_env 9 ''hi'' 1 sample_channel),
      SendPacket 9 (chat_message sample_env 9 ''hi'' 1 sample_channel)]"
proof -
  have "Channel_IsOn 9 sample_channel \<and> \<not> PlayerInfo_IsMuted (member 9 sample_channel)"
    "filter (hears sample_env 9 sample_channel) (map fst (players sample_channel)) = [5, 9]" by code_simp+
  with say_reaches_exactly [of 9 sample_env "''hi''" 1 sample_channel] show ?thesis by simp
qed

end
