(* ===== verification/Channel_Db.thy ===== *)
theory Channel_Db
  imports Channel_Props
begin

text \<open>
  Persistence of custom channels: the row of the \<open>channels\<close> table follows the channel through every
  call, and the constructor rebuilds the same settings and ban list from it.
\<close>

section \<open>The ban list as text\<close>

text \<open>Player GUIDs are positive and small enough for \<open>atol\<close>.\<close>

definition guid_ok :: "uint64 \<Rightarrow> bool" where
  "guid_ok g \<longleftrightarrow> g \<noteq> 0 \<and> unat g < 2 ^ 63"

lemma Tokens_ban_list: "Tokens (ban_list_string bs) CHR '' '' = map (\<lambda>g. dec_string (unat g)) bs"
proof -
  have "\<forall>t \<in> set (map (\<lambda>g. dec_string (unat g)) bs). CHR '' '' \<notin> set t \<and> CHR 0x00 \<notin> set t"
    using dec_string_digits by fastforce
  from Tokens_loop_joined [OF _ this] show ?thesis
    by (simp add: Tokens_def ban_list_string_def comp_def)
qed

lemma load_bans_set:
  "list_all guid_ok gs \<Longrightarrow> sset_ok bs \<Longrightarrow>
   set (load_bans (map (\<lambda>g. dec_string (unat g)) gs) bs) = set gs \<union> set bs
   \<and> sset_ok (load_bans (map (\<lambda>g. dec_string (unat g)) gs) bs)"
proof (induction gs arbitrary: bs)
  case Nil
  then show ?case by simp
next
  case (Cons g gs)
  have "word_of_int (atol (dec_string (unat g))) = g"
    using Cons.prems by (simp add: atol_dec_string guid_ok_def)
  with Cons show ?case by (auto simp: Let_def guid_ok_def smap_simps)
qed

lemma ban_list_roundtrip:
  assumes "list_all guid_ok bs" "sset_ok bs"
  shows "load_bans (Tokens (ban_list_string bs) CHR '' '') [] = bs"
proof -
  have "set (load_bans (map (\<lambda>g. dec_string (unat g)) bs) []) = set bs"
    "sset_ok (load_bans (map (\<lambda>g. dec_string (unat g)) bs) [])"
    using load_bans_set [OF assms(1), of "[]"] by simp_all
  then show ?thesis
    using assms(2) unfolding Tokens_ban_list sset_ok_def by (intro sorted_distinct_set_unique) auto
qed

section \<open>The row of a channel\<close>

type_synonym channel_row = "bool \<times> bool \<times> string \<times> string option"

fun exec_channel :: "channel_event \<Rightarrow> channel_row option \<Rightarrow> channel_row option" where
  "exec_channel (ChannelSql (SqlSetChannel announce ownership password bans name team)) r =
     Some (announce, ownership, password, Some bans)"
| "exec_channel _ r = r"

definition db_row :: "channel_row option \<Rightarrow> Channel \<Rightarrow> channel_row option" where
  "db_row r ch = fold exec_channel (ch_trace ch) r"

definition bans_of :: "string option \<Rightarrow> uint64 list" where
  "bans_of s = (case s of None \<Rightarrow> [] | Some s \<Rightarrow> load_bans (Tokens s CHR '' '') [])"

definition row_describes :: "channel_row option \<Rightarrow> Channel \<Rightarrow> bool" where
  "row_describes r ch \<longleftrightarrow> map_option (\<lambda>(announce, ownership, password, bans).
       (announce, ownership, password, bans_of bans)) r
     = Some (m_announce ch, m_ownership ch, m_password ch, banned ch)"

text \<open>A saved channel whose row describes it.\<close>

definition db_inv :: "channel_row option \<Rightarrow> Channel \<Rightarrow> bool" where
  "db_inv r ch \<longleftrightarrow> m_IsSaved ch \<and> list_all guid_ok (banned ch) \<and> sset_ok (banned ch)
     \<and> row_describes (db_row r ch) ch"

fun quiet :: "channel_event \<Rightarrow> bool" where
  "quiet (ChannelSql (SqlSetChannel _ _ _ _ _ _)) = False"
| "quiet _ = True"

lemma exec_quiet: "quiet e \<Longrightarrow> exec_channel e r = r"
  by (induction e rule: quiet.induct) auto

lemma fold_quiet: "list_all quiet es \<Longrightarrow> fold exec_channel es r = r"
  by (induction es) (auto simp: exec_quiet)

lemma db_inv_emit: "list_all quiet es \<Longrightarrow> db_inv r (emit_events es ch) = db_inv r ch"
  by (simp add: db_inv_def db_row_def row_describes_def fold_quiet)

lemma db_inv_frame [simp]:
  "db_inv r (Channel_SendToOne E d p ch) = db_inv r ch"
  "db_inv r (Channel_SendToAll E d p ch) = db_inv r ch"
  "db_inv r (Channel_SendToAllButOne E d p ch) = db_inv r ch"
  "db_inv r (Channel_JoinNotify E p ch) = db_inv r ch"
  "db_inv r (Channel_LeaveNotify E p ch) = db_inv r ch"
  "db_inv r (Channel_UpdateChannelUseageInDB ch) = db_inv r ch"
  by (auto simp: send_defs list_all_iff intro!: db_inv_emit split: option.splits if_splits)

lemma db_inv_members [simp]:
  "db_inv r (with_players f ch) = db_inv r ch"
  "db_inv r (ch\<lparr>m_ownerGUID := g\<rparr>) = db_inv r ch"
  "db_inv r (emit_events [JoinedChannel g] ch) = db_inv r ch"
  "db_inv r (emit_events [LeftChannel g] ch) = db_inv r ch"
  "db_inv r (emit_events [] ch) = db_inv r ch"
  by (simp_all add: db_inv_def db_row_def row_describes_def)

lemma db_inv_update:
  "m_IsSaved ch \<Longrightarrow> list_all guid_ok (banned ch) \<Longrightarrow> sset_ok (banned ch) \<Longrightarrow> db_inv r (Channel_UpdateChannelInDB ch)"
  by (simp add: db_inv_def Channel_UpdateChannelInDB_def db_row_def row_describes_def bans_of_def ban_list_roundtrip)

lemma saved_frame [simp]:
  "m_IsSaved (Channel_SendToOne E d p ch) = m_IsSaved ch" "m_IsSaved (Channel_SendToAll E d p ch) = m_IsSaved ch"
  by (simp_all add: send_defs)

lemma db_inv_SetOwner: "db_inv r ch \<Longrightarrow> db_inv r (Channel_SetOwner E guid ex ch)"
proof -
  assume "db_inv r ch"
  then have "m_IsSaved ch" "list_all guid_ok (banned ch)" "sset_ok (banned ch)" by (simp_all add: db_inv_def)
  then show ?thesis using \<open>db_inv r ch\<close>
    by (auto simp: Channel_SetOwner_def Let_def intro!: db_inv_update split: option.split)
qed

section \<open>Every operation keeps the row\<close>

definition env_ok :: "chat_env \<Rightarrow> bool" where
  "env_ok E \<longleftrightarrow> list_all (\<lambda>p. guid_ok (plr_GUID p)) (w_players (ce_world E))"

lemma named_guid_ok: "env_ok E \<Longrightarrow> GetPlayerByName E n = Some p \<Longrightarrow> guid_ok (plr_GUID p)"
  by (auto simp: env_ok_def GetPlayerByName_def FindPlayerByName_def List.find_Some_iff list_all_length)

lemma db_inv_Join: "db_inv r ch \<Longrightarrow> db_inv r (Channel_Join E p pass ch)"
proof (cases "\<not> Channel_IsOn p ch \<and> admitted E p pass ch")
  case True
  assume inv: "db_inv r ch"
  have j: "db_inv r (joined E p ch)"
    using inv by (simp add: joined_def Let_def split: option.split)
  with True db_inv_SetOwner [OF j] show ?thesis by (simp add: Join_admitted)
next
  case False
  assume "db_inv r ch"
  with Join_refused [OF False] show ?thesis by auto
qed

lemma db_inv_Leave: "db_inv r ch \<Longrightarrow> db_inv r (Channel_Leave E p send ch)"
proof -
  assume inv: "db_inv r ch"
  then have "db_inv r (left E p send ch)"
    by (simp add: left_def Let_def split: option.split)
  with inv show ?thesis by (auto simp: Leave_unfold Let_def intro!: db_inv_SetOwner)
qed

lemma db_inv_Kick:
  assumes inv: "db_inv r ch" and E: "env_ok E"
  shows "db_inv r (Channel_KickOrBan E good badname ban ch)"
proof -
  have bans: "m_IsSaved ch" "list_all guid_ok (sset_insert g (banned ch))" "sset_ok (sset_insert g (banned ch))"
    if "guid_ok g" for g
    using inv that by (simp_all add: db_inv_def list_all_iff smap_simps)
  show ?thesis
  proof (cases "GetPlayerByName E badname")
    case None
    with inv show ?thesis by (simp add: KickOrBan_unfold)
  next
    case (Some p)
    have "db_inv r (kicked E good (plr_GUID p) ban ch)"
      using inv bans [OF named_guid_ok [OF E Some]] by (simp add: kicked_def Let_def db_inv_update)
    with inv Some show ?thesis by (simp add: KickOrBan_unfold db_inv_SetOwner)
  qed
qed

lemma db_inv_UnBan: "db_inv r ch \<Longrightarrow> db_inv r (Channel_UnBan E good badname ch)"
proof -
  assume inv: "db_inv r ch"
  then have "m_IsSaved ch" "list_all guid_ok (sset_erase g (banned ch))" "sset_ok (sset_erase g (banned ch))" for g
    by (simp_all add: db_inv_def list_all_iff smap_simps)
  with inv show ?thesis by (simp add: Channel_UnBan_def Let_def db_inv_update split: option.split)
qed

lemma db_inv_settings:
  assumes inv: "db_inv r ch"
  shows "db_inv r (Channel_Password E p pass ch)" "db_inv r (Channel_Announce E p ch)"
proof -
  have "m_IsSaved ch" "list_all guid_ok (banned ch)" "sset_ok (banned ch)" using inv by (simp_all add: db_inv_def)
  with inv show "db_inv r (Channel_Password E p pass ch)" "db_inv r (Channel_Announce E p ch)"
    by (simp_all add: Channel_Password_def Channel_Announce_def Let_def db_inv_update)
qed

lemma db_inv_modes:
  assumes inv: "db_inv r ch"
  shows "db_inv r (Channel_SetMode E p n modIt setIt ch)" "db_inv r (Channel_SetOwnerByName E p n ch)"
  using inv
  by (simp_all add: Channel_SetMode_def Channel_SetOwnerByName_def Channel_SetModerator_def Channel_SetMute_def
      Let_def db_inv_SetOwner split: option.split)

lemma db_inv_queries:
  assumes inv: "db_inv r ch"
  shows "db_inv r (Channel_SendWhoOwner E p ch)" "db_inv r (Channel_List E pl ch)"
    "db_inv r (Channel_Say E p what lang ch)" "db_inv r (Channel_Invite E p n ch)"
  using inv
  by (simp_all add: Channel_SendWhoOwner_def Channel_List_def Channel_Say_def Channel_Invite_def Let_def
      split: option.split)

fun db_guard :: "chat_env \<times> chan_op \<Rightarrow> Channel \<Rightarrow> bool" where
  "db_guard (E, op) ch = env_ok E"

interpretation chandb: guarded_system db_guard chan_step "db_inv r" for r
proof unfold_locales
  fix ch :: Channel and c :: "chat_env \<times> chan_op"
  assume inv: "db_inv r ch" and guard: "db_guard c ch"
  obtain E op where c: "c = (E, op)" by (cases c)
  show "db_inv r (chan_step c ch)"
    using inv guard unfolding c
    by (cases op) (simp_all add: db_inv_Join db_inv_Leave db_inv_Kick db_inv_UnBan db_inv_settings db_inv_modes
        db_inv_queries)
qed


section \<open>Properties\<close>



end
