(* ===== verification/Channel_Mgr.thy ===== *)
theory Channel_Mgr
  imports Channel_Props
begin

text \<open>
  The two channel managers (\<^verbatim>\<open>src/server/game/Chat/Channels/ChannelMgr.cpp\<close>), the packet handlers
  (\<^verbatim>\<open>ChannelHandler.cpp\<close>) and the list of joined channels that every player keeps (\<^verbatim>\<open>Player.cpp\<close>).  A channel
  object is named by its manager and its key in the manager's map.
\<close>

section \<open>State\<close>

definition SMSG_CHANNEL_MEMBER_COUNT :: uint32 where "SMSG_CHANNEL_MEMBER_COUNT = 0x2CEC"

datatype side = AllianceChannelMgr | HordeChannelMgr

type_synonym channel_ref = "side \<times> string"

record ChannelMgr =
  cm_team :: uint32
  cm_channels :: "string \<rightharpoonup> Channel"

text \<open>
  \<open>cs_joined\<close> is \<open>m_channels\<close> of every player; \<open>cs_log\<close> holds what all channels and handlers did, in order.
\<close>

record ChatState =
  cs_mgr :: "side \<Rightarrow> ChannelMgr"
  cs_joined :: "uint64 \<Rightarrow> channel_ref list"
  cs_log :: "channel_event list"

text \<open>
  The environment: the chat environment, lower-casing of names (through wide strings), the rows of the
  \<open>channels\<close> table, the flags of a zone, \<open>normalizePlayerName\<close>, the number of rows of the channel store, and the
  name of a built-in channel in a zone (\<open>snprintf\<close> of its pattern).
\<close>

record chat_srv =
  cv_env :: chat_env
  cv_lower :: "string \<Rightarrow> string"
  cv_row :: "string \<Rightarrow> uint32 \<Rightarrow> (bool \<times> bool \<times> string \<times> string option) option"
  cv_zone :: "uint32 \<Rightarrow> uint32 option"
  cv_normalize :: "string \<Rightarrow> string option"
  cv_numRows :: nat
  cv_pattern :: "uint32 \<Rightarrow> string"
  cv_zoneName :: "uint32 \<Rightarrow> uint32 \<Rightarrow> string"
  cv_cityName :: "uint32 \<Rightarrow> string"

section \<open>Channels through references\<close>

text \<open>What a channel's call does to the players' own lists.\<close>

fun apply_event :: "channel_ref \<Rightarrow> channel_event \<Rightarrow> (uint64 \<Rightarrow> channel_ref list) \<Rightarrow> uint64 \<Rightarrow> channel_ref list" where
  "apply_event c (JoinedChannel g) J = J(g := J g @ [c])"
| "apply_event c (LeftChannel g) J = J(g := filter (\<lambda>d. d \<noteq> c) (J g))"
| "apply_event c _ J = J"

definition get_channel :: "channel_ref \<Rightarrow> ChatState \<Rightarrow> Channel option" where
  "get_channel c st = cm_channels (cs_mgr st (fst c)) (snd c)"

definition set_channel :: "channel_ref \<Rightarrow> Channel option \<Rightarrow> ChatState \<Rightarrow> ChatState" where
  "set_channel c ch st =
     st\<lparr>cs_mgr := (cs_mgr st)(fst c := (cs_mgr st (fst c))
          \<lparr>cm_channels := (cm_channels (cs_mgr st (fst c)))(snd c := ch)\<rparr>)\<rparr>"

definition new_events :: "Channel \<Rightarrow> Channel \<Rightarrow> channel_event list" where
  "new_events ch ch' = drop (length (ch_trace ch)) (ch_trace ch')"

definition call_channel :: "channel_ref \<Rightarrow> (Channel \<Rightarrow> Channel) \<Rightarrow> ChatState \<Rightarrow> ChatState" where
  "call_channel c f st =
     (case get_channel c st of
        None \<Rightarrow> st
      | Some ch \<Rightarrow>
          let ch' = f ch; es = new_events ch ch'
          in (set_channel c (Some ch') st)
               \<lparr>cs_joined := fold (apply_event c) es (cs_joined st), cs_log := cs_log st @ es\<rparr>)"

definition send_direct :: "Player \<Rightarrow> packet \<Rightarrow> ChatState \<Rightarrow> ChatState" where
  "send_direct p pkt st = st\<lparr>cs_log := cs_log st @ [SendPacket (plr_GUID p) pkt]\<rparr>"

section \<open>The managers\<close>

definition channelMgr :: "chat_srv \<Rightarrow> uint32 \<Rightarrow> side option" where
  "channelMgr V team =
     (if CONFIG_ALLOW_TWO_SIDE_INTERACTION_CHANNEL (ce_world (cv_env V)) then Some AllianceChannelMgr
      else if team = ALLIANCE then Some AllianceChannelMgr
      else if team = HORDE then Some HordeChannelMgr
      else None)"

definition ChannelMgr_GetJoinChannel ::
  "chat_srv \<Rightarrow> side \<Rightarrow> string \<Rightarrow> uint32 \<Rightarrow> ChatState \<Rightarrow> channel_ref \<times> ChatState" where
  "ChannelMgr_GetJoinChannel V s name channel_id st =
     (let c = (s, cv_lower V name) in
      case get_channel c st of
        None \<Rightarrow>
          let team = cm_team (cs_mgr st s);
              nchan = Channel_new (cv_env V) (cv_row V name team) name channel_id team
          in (c, (set_channel c (Some nchan) st)\<lparr>cs_log := cs_log st @ ch_trace nchan\<rparr>)
      | Some _ \<Rightarrow> (c, st))"

definition MakeNotOnPacket :: "string \<Rightarrow> packet" where
  "MakeNotOnPacket name = Packet SMSG_CHANNEL_NOTIFY [U8 0x05, Str name]"

definition ChannelMgr_GetChannel ::
  "chat_srv \<Rightarrow> side \<Rightarrow> string \<Rightarrow> Player \<Rightarrow> bool \<Rightarrow> ChatState \<Rightarrow> channel_ref option \<times> ChatState" where
  "ChannelMgr_GetChannel V s name p pkt st =
     (let c = (s, cv_lower V name) in
      case get_channel c st of
        None \<Rightarrow> (None, if pkt then send_direct p (MakeNotOnPacket name) st else st)
      | Some _ \<Rightarrow> (Some c, st))"

definition ChannelMgr_LeftChannel :: "chat_srv \<Rightarrow> side \<Rightarrow> string \<Rightarrow> ChatState \<Rightarrow> ChatState" where
  "ChannelMgr_LeftChannel V s name st =
     (let c = (s, cv_lower V name) in
      case get_channel c st of
        None \<Rightarrow> st
      | Some ch \<Rightarrow>
          if Channel_GetNumPlayers ch = 0 \<and> \<not> Channel_IsConstant ch then set_channel c None st else st)"

section \<open>Handlers\<close>

definition AREA_FLAG_CAPITAL :: uint32 where "AREA_FLAG_CAPITAL = 0x00000100"
definition AREA_FLAG_ARENA_INSTANCE :: uint32 where "AREA_FLAG_ARENA_INSTANCE = 0x00010000"

definition Player_CanJoinConstantChannelInZone :: "uint32 \<Rightarrow> uint32 \<Rightarrow> bool" where
  "Player_CanJoinConstantChannelInZone channel_flags zone_flags =
     (if channel_flags AND CHANNEL_DBC_FLAG_ZONE_DEP \<noteq> 0 then
        (if zone_flags AND AREA_FLAG_ARENA_INSTANCE \<noteq> 0 then False
         else if channel_flags AND CHANNEL_DBC_FLAG_CITY_ONLY \<noteq> 0 \<and> zone_flags AND AREA_FLAG_CAPITAL = 0 then False
         else True)
      else True)"

definition HandleJoinChannel ::
  "chat_srv \<Rightarrow> Player \<Rightarrow> 'z ByteBuffer_scheme \<Rightarrow> ChatState \<Rightarrow> bb_error + ChatState" where
  "HandleJoinChannel V player recvPacket st =
     bindE (in_u32 recvPacket) (\<lambda>(channel_id, d0).
     if channel_id \<noteq> 0 \<and>
        (case w_ChatChannels (ce_world (cv_env V)) channel_id of
           None \<Rightarrow> True
         | Some flags \<Rightarrow>
             (case cv_zone V (plr_ZoneId player) of
                None \<Rightarrow> True
              | Some zone_flags \<Rightarrow> \<not> Player_CanJoinConstantChannelInZone flags zone_flags))
     then Inr st
     else
       bindE (in_u8 d0) (\<lambda>(unknown1, d1).
       bindE (in_u8 d1) (\<lambda>(unknown2, d2).
       bindE (in_string d2) (\<lambda>(pass, d3).
       bindE (in_string d3) (\<lambda>(channelname, d4).
       if channelname = [] then Inr st
       else case channelMgr V (plr_Team player) of
              None \<Rightarrow> Inr st
            | Some s \<Rightarrow>
                let st1 = st\<lparr>cs_mgr := (cs_mgr st)(s := (cs_mgr st s)\<lparr>cm_team := plr_Team player\<rparr>)\<rparr>;
                    (c, st2) = ChannelMgr_GetJoinChannel V s channelname channel_id st1
                in Inr (call_channel c (Channel_Join (cv_env V) (plr_GUID player) pass) st2))))))"

definition HandleLeaveChannel ::
  "chat_srv \<Rightarrow> Player \<Rightarrow> 'z ByteBuffer_scheme \<Rightarrow> ChatState \<Rightarrow> bb_error + ChatState" where
  "HandleLeaveChannel V player recvPacket st =
     bindE (in_u32 recvPacket) (\<lambda>(unk, d0).
     bindE (in_string d0) (\<lambda>(channelname, d1).
     if channelname = [] then Inr st
     else case channelMgr V (plr_Team player) of
            None \<Rightarrow> Inr st
          | Some s \<Rightarrow>
              let (r, st1) = ChannelMgr_GetChannel V s channelname player True st;
                  st2 = (case r of None \<Rightarrow> st1
                         | Some c \<Rightarrow> call_channel c (Channel_Leave (cv_env V) (plr_GUID player) True) st1)
              in Inr (ChannelMgr_LeftChannel V s channelname st2)))"

text \<open>
  The shape the remaining handlers share: find the player's manager and the channel, and call it.
\<close>

definition with_channel ::
  "chat_srv \<Rightarrow> Player \<Rightarrow> string \<Rightarrow> (Channel \<Rightarrow> Channel) \<Rightarrow> ChatState \<Rightarrow> ChatState" where
  "with_channel V player channelname f st =
     (case channelMgr V (plr_Team player) of
        None \<Rightarrow> st
      | Some s \<Rightarrow>
          let (r, st1) = ChannelMgr_GetChannel V s channelname player True st
          in case r of None \<Rightarrow> st1 | Some c \<Rightarrow> call_channel c f st1)"

text \<open>Handlers whose packet is a channel name, and handlers with a player name after it.\<close>

definition channel_request ::
  "chat_srv \<Rightarrow> Player \<Rightarrow> 'z ByteBuffer_scheme \<Rightarrow> (Channel \<Rightarrow> Channel) \<Rightarrow> ChatState \<Rightarrow> bb_error + ChatState" where
  "channel_request V player recvPacket f st =
     bindE (in_string recvPacket) (\<lambda>(channelname, d0). Inr (with_channel V player channelname f st))"

definition member_request ::
  "chat_srv \<Rightarrow> Player \<Rightarrow> 'z ByteBuffer_scheme \<Rightarrow> (string \<Rightarrow> Channel \<Rightarrow> Channel) \<Rightarrow> ChatState \<Rightarrow> bb_error + ChatState" where
  "member_request V player recvPacket f st =
     bindE (in_string recvPacket) (\<lambda>(channelname, d0).
     bindE (in_string d0) (\<lambda>(otp, d1).
     Inr (case cv_normalize V otp of None \<Rightarrow> st | Some name \<Rightarrow> with_channel V player channelname (f name) st)))"

definition HandleChannelList ::
  "chat_srv \<Rightarrow> Player \<Rightarrow> 'z ByteBuffer_scheme \<Rightarrow> ChatState \<Rightarrow> bb_error + ChatState" where
  "HandleChannelList V player recvPacket = channel_request V player recvPacket (Channel_List (cv_env V) player)"

definition HandleChannelPassword ::
  "chat_srv \<Rightarrow> Player \<Rightarrow> 'z ByteBuffer_scheme \<Rightarrow> ChatState \<Rightarrow> bb_error + ChatState" where
  "HandleChannelPassword V player recvPacket st =
     bindE (in_string recvPacket) (\<lambda>(channelname, d0).
     bindE (in_string d0) (\<lambda>(pass, d1).
     Inr (with_channel V player channelname (Channel_Password (cv_env V) (plr_GUID player) pass) st)))"

definition HandleChannelSetOwner ::
  "chat_srv \<Rightarrow> Player \<Rightarrow> 'z ByteBuffer_scheme \<Rightarrow> ChatState \<Rightarrow> bb_error + ChatState" where
  "HandleChannelSetOwner V player recvPacket =
     member_request V player recvPacket (Channel_SetOwnerByName (cv_env V) (plr_GUID player))"

definition HandleChannelOwner ::
  "chat_srv \<Rightarrow> Player \<Rightarrow> 'z ByteBuffer_scheme \<Rightarrow> ChatState \<Rightarrow> bb_error + ChatState" where
  "HandleChannelOwner V player recvPacket =
     channel_request V player recvPacket (Channel_SendWhoOwner (cv_env V) (plr_GUID player))"

definition HandleChannelModerator ::
  "chat_srv \<Rightarrow> Player \<Rightarrow> 'z ByteBuffer_scheme \<Rightarrow> ChatState \<Rightarrow> bb_error + ChatState" where
  "HandleChannelModerator V player recvPacket =
     member_request V player recvPacket (\<lambda>n. Channel_SetMode (cv_env V) (plr_GUID player) n True True)"

definition HandleChannelUnmoderator ::
  "chat_srv \<Rightarrow> Player \<Rightarrow> 'z ByteBuffer_scheme \<Rightarrow> ChatState \<Rightarrow> bb_error + ChatState" where
  "HandleChannelUnmoderator V player recvPacket =
     member_request V player recvPacket (\<lambda>n. Channel_SetMode (cv_env V) (plr_GUID player) n True False)"

definition HandleChannelMute ::
  "chat_srv \<Rightarrow> Player \<Rightarrow> 'z ByteBuffer_scheme \<Rightarrow> ChatState \<Rightarrow> bb_error + ChatState" where
  "HandleChannelMute V player recvPacket =
     member_request V player recvPacket (\<lambda>n. Channel_SetMode (cv_env V) (plr_GUID player) n False True)"

definition HandleChannelUnmute ::
  "chat_srv \<Rightarrow> Player \<Rightarrow> 'z ByteBuffer_scheme \<Rightarrow> ChatState \<Rightarrow> bb_error + ChatState" where
  "HandleChannelUnmute V player recvPacket =
     member_request V player recvPacket (\<lambda>n. Channel_SetMode (cv_env V) (plr_GUID player) n False False)"

definition HandleChannelInvite ::
  "chat_srv \<Rightarrow> Player \<Rightarrow> 'z ByteBuffer_scheme \<Rightarrow> ChatState \<Rightarrow> bb_error + ChatState" where
  "HandleChannelInvite V player recvPacket =
     member_request V player recvPacket (Channel_Invite (cv_env V) (plr_GUID player))"

definition HandleChannelKick ::
  "chat_srv \<Rightarrow> Player \<Rightarrow> 'z ByteBuffer_scheme \<Rightarrow> ChatState \<Rightarrow> bb_error + ChatState" where
  "HandleChannelKick V player recvPacket =
     member_request V player recvPacket (\<lambda>n. Channel_KickOrBan (cv_env V) (plr_GUID player) n False)"

definition HandleChannelBan ::
  "chat_srv \<Rightarrow> Player \<Rightarrow> 'z ByteBuffer_scheme \<Rightarrow> ChatState \<Rightarrow> bb_error + ChatState" where
  "HandleChannelBan V player recvPacket =
     member_request V player recvPacket (\<lambda>n. Channel_KickOrBan (cv_env V) (plr_GUID player) n True)"

definition HandleChannelUnban ::
  "chat_srv \<Rightarrow> Player \<Rightarrow> 'z ByteBuffer_scheme \<Rightarrow> ChatState \<Rightarrow> bb_error + ChatState" where
  "HandleChannelUnban V player recvPacket =
     member_request V player recvPacket (Channel_UnBan (cv_env V) (plr_GUID player))"

definition HandleChannelAnnouncements ::
  "chat_srv \<Rightarrow> Player \<Rightarrow> 'z ByteBuffer_scheme \<Rightarrow> ChatState \<Rightarrow> bb_error + ChatState" where
  "HandleChannelAnnouncements V player recvPacket =
     channel_request V player recvPacket (Channel_Announce (cv_env V) (plr_GUID player))"

definition HandleChannelDisplayListQuery ::
  "chat_srv \<Rightarrow> Player \<Rightarrow> 'z ByteBuffer_scheme \<Rightarrow> ChatState \<Rightarrow> bb_error + ChatState" where
  "HandleChannelDisplayListQuery V player recvPacket = HandleChannelList V player recvPacket"

definition HandleGetChannelMemberCount ::
  "chat_srv \<Rightarrow> Player \<Rightarrow> 'z ByteBuffer_scheme \<Rightarrow> ChatState \<Rightarrow> bb_error + ChatState" where
  "HandleGetChannelMemberCount V player recvPacket st =
     bindE (in_string recvPacket) (\<lambda>(channelname, d0).
     Inr (case channelMgr V (plr_Team player) of
            None \<Rightarrow> st
          | Some s \<Rightarrow>
              let (r, st1) = ChannelMgr_GetChannel V s channelname player True st
              in case r of
                   None \<Rightarrow> st1
                 | Some c \<Rightarrow>
                     (case get_channel c st1 of
                        None \<Rightarrow> st1
                      | Some chn \<Rightarrow>
                          send_direct player (Packet SMSG_CHANNEL_MEMBER_COUNT
                            [Str (m_name chn), U8 (m_flags chn), U32 (Channel_GetNumPlayers chn)]) st1)))"

definition HandleSetChannelWatch ::
  "'z ByteBuffer_scheme \<Rightarrow> ChatState \<Rightarrow> bb_error + ChatState" where
  "HandleSetChannelWatch recvPacket st = bindE (in_string recvPacket) (\<lambda>(channelname, d0). Inr st)"

section \<open>The player's own list\<close>

text \<open>
  \<open>CleanupChannels\<close> at logout: the list is emptied from its head; each channel is left silently and
  deleted when it is empty.  The recursion is over the list the player has.
\<close>

fun CleanupChannels_loop :: "chat_srv \<Rightarrow> Player \<Rightarrow> channel_ref list \<Rightarrow> ChatState \<Rightarrow> ChatState" where
  "CleanupChannels_loop V player [] st = st"
| "CleanupChannels_loop V player (c # cs) st =
     (let st1 = st\<lparr>cs_joined := (cs_joined st)(plr_GUID player := cs)\<rparr>;
          st2 = call_channel c (Channel_Leave (cv_env V) (plr_GUID player) False) st1;
          st3 = (case channelMgr V (plr_Team player) of
                   None \<Rightarrow> st2
                 | Some s \<Rightarrow>
                     (case get_channel c st2 of
                        None \<Rightarrow> st2
                      | Some ch \<Rightarrow> ChannelMgr_LeftChannel V s (m_name ch) st2))
      in CleanupChannels_loop V player cs st3)"

definition Player_CleanupChannels :: "chat_srv \<Rightarrow> Player \<Rightarrow> ChatState \<Rightarrow> ChatState" where
  "Player_CleanupChannels V player st =
     CleanupChannels_loop V player (cs_joined st (plr_GUID player)) st"

definition Player_LeaveLFGChannel :: "chat_srv \<Rightarrow> Player \<Rightarrow> ChatState \<Rightarrow> ChatState" where
  "Player_LeaveLFGChannel V player st =
     (case find (\<lambda>c. case get_channel c st of None \<Rightarrow> False | Some ch \<Rightarrow> Channel_IsLFG ch)
             (cs_joined st (plr_GUID player)) of
        None \<Rightarrow> st
      | Some c \<Rightarrow> call_channel c (Channel_Leave (cv_env V) (plr_GUID player) True) st)"

text \<open>
  One round of the loop of \<open>UpdateLocalChannels\<close>, for row \<open>i\<close> of the channel store: the choice of the channels to
  join and to leave (\<open>None\<close>: \<open>continue\<close>), and the joining and leaving.
\<close>

definition UpdateLocalChannels_pick ::
  "chat_srv \<Rightarrow> Player \<Rightarrow> uint32 \<Rightarrow> uint32 \<Rightarrow> side \<Rightarrow> uint32 \<Rightarrow> ChatState \<Rightarrow>
     (channel_ref option \<times> channel_ref option \<times> bool \<times> ChatState) option" where
  "UpdateLocalChannels_pick V player newZone zone_flags s i st =
     (case w_ChatChannels (ce_world (cv_env V)) i of
        None \<Rightarrow> None
      | Some flags \<Rightarrow>
          if flags AND CHANNEL_DBC_FLAG_ZONE_DEP = 0 then None
          else if flags AND CHANNEL_DBC_FLAG_GUILD_REQ \<noteq> 0 \<and> plr_GuildId player \<noteq> 0 then None
          else
            let usedChannel = find (\<lambda>c. case get_channel c st of None \<Rightarrow> False | Some ch \<Rightarrow> m_channelId ch = i)
                                (cs_joined st (plr_GUID player));
                canJoin = Player_CanJoinConstantChannelInZone flags zone_flags;
                isGlobal = (flags AND CHANNEL_DBC_FLAG_GLOBAL \<noteq> 0);
                cityOnly = (flags AND CHANNEL_DBC_FLAG_CITY_ONLY \<noteq> 0)
            in if canJoin then
                 if \<not> isGlobal then
                   if cityOnly \<and> usedChannel \<noteq> None then None
                   else
                     let (c, st1) = ChannelMgr_GetJoinChannel V s
                           (if cityOnly then cv_cityName V i else cv_zoneName V i newZone) i st
                     in (case usedChannel of
                           None \<Rightarrow> Some (Some c, None, True, st1)
                         | Some u \<Rightarrow> if c \<noteq> u then Some (Some c, Some u, False, st1)
                                     else Some (None, None, True, st1))
                 else let (c, st1) = ChannelMgr_GetJoinChannel V s (cv_pattern V i) i st
                      in Some (Some c, None, True, st1)
               else Some (None, usedChannel, True, st))"

definition UpdateLocalChannels_leave :: "chat_srv \<Rightarrow> Player \<Rightarrow> side \<Rightarrow> channel_ref \<Rightarrow> bool \<Rightarrow> ChatState \<Rightarrow> ChatState" where
  "UpdateLocalChannels_leave V player s removeChannel sendRemove st =
     (let st1 = call_channel removeChannel (Channel_Leave (cv_env V) (plr_GUID player) sendRemove) st;
          name = (case get_channel removeChannel st1 of Some ch \<Rightarrow> m_name ch | None \<Rightarrow> []);
          st2 = st1\<lparr>cs_joined := apply_event removeChannel (LeftChannel (plr_GUID player)) (cs_joined st1)\<rparr>
      in ChannelMgr_LeftChannel V s name st2)"

definition UpdateLocalChannels_row :: "chat_srv \<Rightarrow> Player \<Rightarrow> uint32 \<Rightarrow> uint32 \<Rightarrow> side \<Rightarrow> uint32 \<Rightarrow> ChatState \<Rightarrow> ChatState" where
  "UpdateLocalChannels_row V player newZone zone_flags s i st =
     (case UpdateLocalChannels_pick V player newZone zone_flags s i st of
        None \<Rightarrow> st
      | Some (joinChannel, removeChannel, sendRemove, st1) \<Rightarrow>
          let st2 = (case joinChannel of None \<Rightarrow> st1
                     | Some c \<Rightarrow> call_channel c (Channel_Join (cv_env V) (plr_GUID player) []) st1)
          in case removeChannel of
               None \<Rightarrow> st2
             | Some u \<Rightarrow> UpdateLocalChannels_leave V player s u sendRemove st2)"

definition Player_UpdateLocalChannels :: "chat_srv \<Rightarrow> Player \<Rightarrow> bool \<Rightarrow> bool \<Rightarrow> uint32 \<Rightarrow> ChatState \<Rightarrow> ChatState" where
  "Player_UpdateLocalChannels V player playerLoading beingTeleportedFar newZone st =
     (if playerLoading \<and> \<not> beingTeleportedFar then st
      else case cv_zone V newZone of
        None \<Rightarrow> st
      | Some zone_flags \<Rightarrow>
          (case channelMgr V (plr_Team player) of
             None \<Rightarrow> st
           | Some s \<Rightarrow> fold (\<lambda>i. UpdateLocalChannels_row V player newZone zone_flags s (of_nat i)) [0..<cv_numRows V] st))"


section \<open>Which calls tell players that they joined or left\<close>

fun is_move :: "channel_event \<Rightarrow> bool" where
  "is_move (JoinedChannel _) = True"
| "is_move (LeftChannel _) = True"
| "is_move _ = False"

text \<open>\<open>adds xs a b\<close>: \<open>b\<close> extends the trace of \<open>a\<close>, and the joins and leaves among the new events are \<open>xs\<close>.\<close>

definition adds :: "channel_event list \<Rightarrow> Channel \<Rightarrow> Channel \<Rightarrow> bool" where
  "adds xs a b \<longleftrightarrow> (\<exists>es. ch_trace b = ch_trace a @ es \<and> filter is_move es = xs)"

lemma adds_refl [simp]: "adds [] ch ch"
  by (simp add: adds_def)

lemma adds_emit: "adds xs a b \<Longrightarrow> filter is_move es = ys \<Longrightarrow> adds (xs @ ys) a (emit_events es b)"
  by (auto simp: adds_def)

lemma adds_emit_quiet: "adds xs a b \<Longrightarrow> filter is_move es = [] \<Longrightarrow> adds xs a (emit_events es b)"
  using adds_emit [of xs a b es "[]"] by simp

lemma adds_frame:
  "adds xs a b \<Longrightarrow> adds xs a (with_players f b)"
  "adds xs a b \<Longrightarrow> adds xs a (b\<lparr>m_ownerGUID := g\<rparr>)"
  "adds xs a b \<Longrightarrow> adds xs a (b\<lparr>banned := bs\<rparr>)"
  "adds xs a b \<Longrightarrow> adds xs a (b\<lparr>m_password := pw\<rparr>)"
  "adds xs a b \<Longrightarrow> adds xs a (b\<lparr>m_announce := an\<rparr>)"
  by (simp_all add: adds_def)

lemma adds_send:
  assumes "adds xs a b"
  shows "adds xs a (Channel_SendToOne E d p b)" "adds xs a (Channel_SendToAll E d p b)"
    "adds xs a (Channel_SendToAllButOne E d p b)" "adds xs a (Channel_UpdateChannelInDB b)"
    "adds xs a (Channel_UpdateChannelUseageInDB b)"
proof -
  show "adds xs a (Channel_SendToOne E d p b)" "adds xs a (Channel_UpdateChannelInDB b)"
    "adds xs a (Channel_UpdateChannelUseageInDB b)"
    using assms by (simp_all add: send_defs adds_emit_quiet split: option.split)
  have "list_all (\<lambda>e. \<not> is_move e) (concat (map f m)) \<Longrightarrow> filter is_move (concat (map f m)) = []"
    for f :: "uint64 \<times> PlayerInfo \<Rightarrow> channel_event list" and m
    by (simp add: list_all_iff filter_empty_conv)
  note quiet = adds_emit_quiet [OF assms this]
  show "adds xs a (Channel_SendToAll E d p b)" "adds xs a (Channel_SendToAllButOne E d p b)"
    unfolding send_defs
    by (rule quiet, auto simp: list_all_iff split: option.splits if_splits)+
qed

lemma adds_notify:
  assumes "adds xs a b"
  shows "adds xs a (Channel_JoinNotify E p b)" "adds xs a (Channel_LeaveNotify E p b)"
  using assms by (simp_all add: Channel_JoinNotify_def Channel_LeaveNotify_def Let_def adds_send)

lemma adds_SetOwner: "adds xs a b \<Longrightarrow> adds xs a (Channel_SetOwner E g ex b)"
  by (auto simp: Channel_SetOwner_def Let_def intro!: adds_send adds_frame split: option.split)

lemmas adds_intros = adds_send adds_frame adds_notify adds_SetOwner

lemma adds_joined:
  "adds (if GetPlayer E p = None then [] else [JoinedChannel p]) ch (joined E p ch)"
proof (cases "GetPlayer E p")
  case None
  then show ?thesis
    by (auto simp: joined_def Let_def intro!: adds_intros adds_emit_quiet)
next
  case (Some q)
  then have "plr_GUID q = p" by (simp add: GetPlayer_def FindPlayer_GUID)
  with Some have "adds [JoinedChannel p] ch (emit_events [JoinedChannel (plr_GUID q)] ch)"
    using adds_emit [OF adds_refl, of "[JoinedChannel (plr_GUID q)]"] by simp
  with Some show ?thesis by (auto simp: joined_def Let_def intro!: adds_intros)
qed

lemma adds_left:
  "adds (if send \<and> GetPlayer E p \<noteq> None then [LeftChannel p] else []) ch (left E p send ch)"
proof (cases "GetPlayer E p")
  case None
  then show ?thesis by (auto simp: left_def Let_def intro!: adds_intros adds_emit_quiet)
next
  case (Some q)
  then have "plr_GUID q = p" by (simp add: GetPlayer_def FindPlayer_GUID)
  with Some have "adds [LeftChannel p] ch
      (emit_events [LeftChannel (plr_GUID q)] (Channel_SendToOne E (MakeYouLeft ch) p ch))"
    using adds_emit [OF adds_send(1) [OF adds_refl], of "[LeftChannel (plr_GUID q)]"] by simp
  with Some show ?thesis by (auto simp: left_def Let_def intro!: adds_intros)
qed

lemma adds_kicked: "adds [LeftChannel bad] ch (kicked E good bad ban ch)"
proof -
  have emit: "adds [] ch x \<Longrightarrow> adds [LeftChannel bad] ch (emit_events [LeftChannel bad] x)" for x
    using adds_emit [of "[]" ch x "[LeftChannel bad]"] by simp
  show ?thesis by (auto simp: kicked_def Let_def intro!: emit adds_intros)
qed


text \<open>The joins and leaves an operation reports.\<close>

fun op_moves :: "chat_env \<times> chan_op \<Rightarrow> Channel \<Rightarrow> channel_event list" where
  "op_moves (E, OpJoin p pass) ch =
     (if \<not> Channel_IsOn p ch \<and> admitted E p pass ch \<and> GetPlayer E p \<noteq> None then [JoinedChannel p] else [])"
| "op_moves (E, OpLeave p send) ch =
     (if Channel_IsOn p ch \<and> send \<and> GetPlayer E p \<noteq> None then [LeftChannel p] else [])"
| "op_moves (E, OpKickOrBan good badname ban) ch =
     (if may_moderate E good ch
      then (case GetPlayerByName E badname of
              None \<Rightarrow> []
            | Some b \<Rightarrow>
                if Channel_IsOn (plr_GUID b) ch \<and>
                   \<not> (sec_of (GetPlayer E good) < SEC_GAMEMASTER \<and> plr_GUID b = m_ownerGUID ch \<and> good \<noteq> m_ownerGUID ch)
                then [LeftChannel (plr_GUID b)] else [])
      else [])"
| "op_moves _ ch = []"

lemma adds_Join: "adds (op_moves (E, OpJoin p pass) ch) ch (Channel_Join E p pass ch)"
proof (cases "\<not> Channel_IsOn p ch \<and> admitted E p pass ch")
  case True
  with adds_joined [of E p ch] show ?thesis by (auto simp: Join_admitted intro!: adds_intros)
next
  case False
  have "adds [] ch (Channel_Join E p pass ch)"
    using Join_refused [OF False] by (auto intro!: adds_intros)
  with False show ?thesis by auto
qed

lemma adds_Leave: "adds (op_moves (E, OpLeave p send) ch) ch (Channel_Leave E p send ch)"
proof (cases "Channel_IsOn p ch")
  case True
  with adds_left [of send E p ch] show ?thesis by (auto simp: Leave_unfold Let_def intro!: adds_intros)
next
  case False
  then show ?thesis by (auto simp: Leave_unfold intro!: adds_intros)
qed

lemma Kick_done:
  assumes b: "GetPlayerByName E badname = Some b" "may_moderate E good ch" "Channel_IsOn (plr_GUID b) ch"
    "\<not> (sec_of (GetPlayer E good) < SEC_GAMEMASTER \<and> plr_GUID b = m_ownerGUID ch \<and> good \<noteq> m_ownerGUID ch)"
  shows "Channel_KickOrBan E good badname ban ch =
    (if m_ownerGUID ch = plr_GUID b \<and> m_ownership ch \<and> smap_erase (plr_GUID b) (players ch) \<noteq> []
          then Channel_SetOwner E good True
                 (with_players (smap_modify PlayerInfo_default good (PlayerInfo_SetModerator True))
                   (kicked E good (plr_GUID b) ban ch))
          else kicked E good (plr_GUID b) ban ch)"
proof -
  have m: "(\<not> Channel_IsOn good ch) = False" "(\<not> Channel_IsOn (plr_GUID b) ch) = False"
    "(\<not> PlayerInfo_IsModerator (member good ch) \<and> sec_of (GetPlayer E good) < SEC_GAMEMASTER) = False"
    "(sec_of (GetPlayer E good) < SEC_GAMEMASTER \<and> plr_GUID b = m_ownerGUID ch \<and> good \<noteq> m_ownerGUID ch) = False"
    using assms by (auto simp: may_moderate_def)
  show ?thesis unfolding KickOrBan_unfold b(1) option.case m if_False by (rule refl)
qed

lemma if_chain:
  "A \<or> B \<or> C \<or> D \<Longrightarrow>
   \<exists>x. (if A then f a else if B then f b else if C then f c else if D then f d else r) = f x"
  by auto

lemma Kick_refused:
  assumes "\<not> (may_moderate E good ch \<and> (\<exists>b. GetPlayerByName E badname = Some b \<and> Channel_IsOn (plr_GUID b) ch \<and>
    \<not> (sec_of (GetPlayer E good) < SEC_GAMEMASTER \<and> plr_GUID b = m_ownerGUID ch \<and> good \<noteq> m_ownerGUID ch)))"
  shows "\<exists>d. Channel_KickOrBan E good badname ban ch = Channel_SendToOne E d good ch"
proof (cases "may_moderate E good ch")
  case False
  then have "(\<not> Channel_IsOn good ch) \<or> (\<not> PlayerInfo_IsModerator (member good ch) \<and> sec_of (GetPlayer E good) < SEC_GAMEMASTER)"
    by (auto simp: may_moderate_def)
  then show ?thesis unfolding KickOrBan_unfold by (metis (full_types))
next
  case True
  show ?thesis
  proof (cases "GetPlayerByName E badname")
    case None
    then show ?thesis unfolding KickOrBan_unfold None option.case by (metis (full_types))
  next
    case (Some b)
    then have "\<not> Channel_IsOn (plr_GUID b) ch \<or>
      sec_of (GetPlayer E good) < SEC_GAMEMASTER \<and> plr_GUID b = m_ownerGUID ch \<and> good \<noteq> m_ownerGUID ch"
      using True assms by blast
    then show ?thesis unfolding KickOrBan_unfold Some option.case
      by (intro if_chain [where f = "\<lambda>d. Channel_SendToOne E d good ch"]) blast
  qed
qed

lemma op_moves_Kick:
  assumes "GetPlayerByName E badname = Some b" "may_moderate E good ch" "Channel_IsOn (plr_GUID b) ch"
    "\<not> (sec_of (GetPlayer E good) < SEC_GAMEMASTER \<and> plr_GUID b = m_ownerGUID ch \<and> good \<noteq> m_ownerGUID ch)"
  shows "op_moves (E, OpKickOrBan good badname ban) ch = [LeftChannel (plr_GUID b)]"
  unfolding op_moves.simps assms(1) option.case using assms(2-) by (simp only: if_True simp_thms)

lemma op_moves_Kick_refused:
  assumes "\<not> (may_moderate E good ch \<and> (\<exists>b. GetPlayerByName E badname = Some b \<and> Channel_IsOn (plr_GUID b) ch \<and>
    \<not> (sec_of (GetPlayer E good) < SEC_GAMEMASTER \<and> plr_GUID b = m_ownerGUID ch \<and> good \<noteq> m_ownerGUID ch)))"
  shows "op_moves (E, OpKickOrBan good badname ban) ch = []"
  using assms by (cases "GetPlayerByName E badname") auto

definition kick_works :: "chat_env \<Rightarrow> uint64 \<Rightarrow> string \<Rightarrow> Channel \<Rightarrow> Player \<Rightarrow> bool" where
  "kick_works E good badname ch b \<longleftrightarrow>
     GetPlayerByName E badname = Some b \<and> may_moderate E good ch \<and> Channel_IsOn (plr_GUID b) ch \<and>
     \<not> (sec_of (GetPlayer E good) < SEC_GAMEMASTER \<and> plr_GUID b = m_ownerGUID ch \<and> good \<noteq> m_ownerGUID ch)"

lemma Kick_cases:
  obtains (refused) d where "Channel_KickOrBan E good badname ban ch = Channel_SendToOne E d good ch"
      and "op_moves (E, OpKickOrBan good badname ban) ch = []"
  | (kicks) b where "kick_works E good badname ch b"
proof (cases "\<exists>b. kick_works E good badname ch b")
  case True
  then show thesis using kicks by blast
next
  case False
  then show thesis
    using refused Kick_refused [of E good ch badname ban] op_moves_Kick_refused [of E good ch badname ban]
    unfolding kick_works_def by blast
qed

lemma adds_Kick: "adds (op_moves (E, OpKickOrBan good badname ban) ch) ch (Channel_KickOrBan E good badname ban ch)"
proof (cases rule: Kick_cases [of E good badname ban ch])
  case (refused d)
  then show ?thesis by (simp only: adds_send(1) adds_refl)
next
  case (kicks b)
  note w = kicks [unfolded kick_works_def]
  have moves: "op_moves (E, OpKickOrBan good badname ban) ch = [LeftChannel (plr_GUID b)]"
    using w by (intro op_moves_Kick) auto
  have k: "adds [LeftChannel (plr_GUID b)] ch (kicked E good (plr_GUID b) ban ch)" by (rule adds_kicked)
  have "Channel_KickOrBan E good badname ban ch =
    (if m_ownerGUID ch = plr_GUID b \<and> m_ownership ch \<and> smap_erase (plr_GUID b) (players ch) \<noteq> []
     then Channel_SetOwner E good True (with_players (smap_modify PlayerInfo_default good
         (PlayerInfo_SetModerator True)) (kicked E good (plr_GUID b) ban ch))
     else kicked E good (plr_GUID b) ban ch)"
    using w by (intro Kick_done) auto
  then show ?thesis unfolding moves by (metis k adds_SetOwner adds_frame(1))
qed

lemma adds_UnBan: "adds [] ch (Channel_UnBan E p n ch)"
  by (simp add: Channel_UnBan_def Let_def adds_intros split: option.split)

lemma adds_Password: "adds [] ch (Channel_Password E p pass ch)"
  by (simp add: Channel_Password_def Let_def adds_intros split: option.split)

lemma adds_SetModerator: "adds xs a b \<Longrightarrow> adds xs a (Channel_SetModerator E g st b)"
  by (simp add: Channel_SetModerator_def Let_def adds_intros)

lemma adds_SetMute: "adds xs a b \<Longrightarrow> adds xs a (Channel_SetMute E g st b)"
  by (simp add: Channel_SetMute_def Let_def adds_intros)

lemma adds_SetMode: "adds [] ch (Channel_SetMode E p n m s ch)"
  by (simp add: Channel_SetMode_def Let_def adds_intros adds_SetModerator adds_SetMute split: option.split)

lemma adds_SetOwnerByName: "adds [] ch (Channel_SetOwnerByName E p n ch)"
  by (simp add: Channel_SetOwnerByName_def Let_def adds_intros split: option.split)

lemma adds_SendWhoOwner: "adds [] ch (Channel_SendWhoOwner E p ch)"
  by (simp add: Channel_SendWhoOwner_def Let_def adds_intros split: option.split)

lemma adds_List: "adds [] ch (Channel_List E p ch)"
  by (simp add: Channel_List_def Let_def adds_intros adds_emit_quiet split: option.split)

lemma adds_Announce: "adds [] ch (Channel_Announce E p ch)"
  by (simp add: Channel_Announce_def Let_def adds_intros split: option.split)

lemma adds_Say: "adds [] ch (Channel_Say E p what lang ch)"
  by (simp add: Channel_Say_def Let_def adds_intros split: option.split)

lemma adds_Invite: "adds [] ch (Channel_Invite E p n ch)"
  by (simp add: Channel_Invite_def Let_def adds_intros split: option.split)

lemmas adds_quiet = adds_UnBan adds_Password adds_SetMode adds_SetOwnerByName adds_SendWhoOwner adds_List
  adds_Announce adds_Say adds_Invite

lemma adds_step: "adds (op_moves (E, op) ch) ch (chan_step (E, op) ch)"
proof (cases op)
  case (OpJoin p pass)
  then show ?thesis using adds_Join by simp
next
  case (OpLeave p send)
  then show ?thesis using adds_Leave by simp
next
  case (OpKickOrBan g n b)
  then show ?thesis using adds_Kick by simp
qed (simp_all add: adds_quiet)

interpretation chan_log: traced_system chan_step ch_trace
proof
  fix c :: "chat_env \<times> chan_op" and s
  obtain E op where "c = (E, op)" by (cases c)
  with adds_step [of E op s] show "\<exists>es. ch_trace (chan_step c s) = ch_trace s @ es" by (auto simp: adds_def)
qed

section \<open>Membership after each operation\<close>

lemma IsOn_hand_over:
  assumes "chan_ok ch" "Channel_IsOn g ch"
  shows "Channel_IsOn q (Channel_SetOwner E g ex
    (with_players (smap_modify PlayerInfo_default g (PlayerInfo_SetModerator True)) ch)) \<longleftrightarrow> Channel_IsOn q ch"
  using assms chan_okD(1) [OF SetModerator_True_ok [OF assms]]
  by (auto simp: IsOn_SetOwner IsOn_modify)

lemma IsOn_left: "Channel_IsOn q (left E p send ch) \<longleftrightarrow> Channel_IsOn q ch \<and> q \<noteq> p"
  by (simp add: Channel_IsOn_def smap_simps)

lemma left_ok: "chan_ok ch \<Longrightarrow> chan_ok (left E p send ch)"
  using chan_ok_core [OF left_core] chan_ok_erase by blast

lemma IsOn_Leave:
  assumes ok: "chan_ok ch"
  shows "Channel_IsOn q (Channel_Leave E p send ch) \<longleftrightarrow> Channel_IsOn q ch \<and> q \<noteq> p"
proof -
  have l: "chan_ok (left E p send ch)" by (rule left_ok [OF ok])
  have "Channel_IsOn q (Channel_SetOwner E n True
      (with_players (smap_modify PlayerInfo_default n (PlayerInfo_SetModerator True)) (left E p send ch)))
    \<longleftrightarrow> Channel_IsOn q (left E p send ch)"
    if "n = pi_player (snd (hd (smap_erase p (players ch))))" "smap_erase p (players ch) \<noteq> []" for n
    using next_owner_on [OF l] that by (intro IsOn_hand_over [OF l]) simp
  then show ?thesis by (auto simp: Leave_unfold Let_def IsOn_left)
qed

lemma IsOn_kicked: "Channel_IsOn q (kicked E good bad ban ch) \<longleftrightarrow> Channel_IsOn q ch \<and> q \<noteq> bad"
  by (simp add: Channel_IsOn_def smap_simps)

lemma IsOn_Kick:
  assumes ok: "chan_ok ch" and guard: "chan_guard (E, OpKickOrBan good badname ban) ch"
  shows "Channel_IsOn q (Channel_KickOrBan E good badname ban ch) \<longleftrightarrow>
    Channel_IsOn q ch \<and> LeftChannel q \<notin> set (op_moves (E, OpKickOrBan good badname ban) ch)"
proof (cases rule: Kick_cases [of E good badname ban ch])
  case (refused d)
  then show ?thesis by simp
next
  case (kicks b)
  note w = kicks [unfolded kick_works_def]
  let ?k = "kicked E good (plr_GUID b) ban ch"
  have moves: "op_moves (E, OpKickOrBan good badname ban) ch = [LeftChannel (plr_GUID b)]"
    using w by (intro op_moves_Kick) auto
  have kick: "Channel_KickOrBan E good badname ban ch =
    (if m_ownerGUID ch = plr_GUID b \<and> m_ownership ch \<and> smap_erase (plr_GUID b) (players ch) \<noteq> []
     then Channel_SetOwner E good True (with_players (smap_modify PlayerInfo_default good
         (PlayerInfo_SetModerator True)) ?k)
     else ?k)"
    using w by (intro Kick_done) auto
  have "Channel_IsOn q (Channel_SetOwner E good True
      (with_players (smap_modify PlayerInfo_default good (PlayerInfo_SetModerator True)) ?k)) \<longleftrightarrow> Channel_IsOn q ?k"
    if "m_ownerGUID ch = plr_GUID b"
  proof (rule IsOn_hand_over)
    show "chan_ok ?k" by (rule kicked_ok [OF ok])
    have "good \<noteq> plr_GUID b" "Channel_IsOn good ch" using that guard w by (auto simp: may_moderate_def)
    then show "Channel_IsOn good ?k" by (simp add: IsOn_kicked)
  qed
  then show ?thesis unfolding moves kick by (simp only: IsOn_kicked split: if_split) auto
qed

lemma SetMode_IsOn:
  assumes ok: "chan_ok ch"
  shows "Channel_IsOn q (Channel_SetMode E p n modIt setIt ch) \<longleftrightarrow> Channel_IsOn q ch"
    and "Channel_IsOn q (Channel_SetOwnerByName E p n ch) \<longleftrightarrow> Channel_IsOn q ch"
  using ok IsOn_modify [OF ok] IsOn_hand_over [OF ok]
  by (auto simp: Channel_SetMode_def Channel_SetOwnerByName_def Channel_SetModerator_def Channel_SetMute_def Let_def
      split: option.split)

lemma query_IsOn:
  "Channel_IsOn q (Channel_SendWhoOwner E p ch) \<longleftrightarrow> Channel_IsOn q ch"
  "Channel_IsOn q (Channel_List E pl ch) \<longleftrightarrow> Channel_IsOn q ch"
  "Channel_IsOn q (Channel_Say E p what lang ch) \<longleftrightarrow> Channel_IsOn q ch"
  "Channel_IsOn q (Channel_Invite E p n ch) \<longleftrightarrow> Channel_IsOn q ch"
  "Channel_IsOn q (Channel_UnBan E p n ch) \<longleftrightarrow> Channel_IsOn q ch"
  "Channel_IsOn q (Channel_Password E p n ch) \<longleftrightarrow> Channel_IsOn q ch"
  "Channel_IsOn q (Channel_Announce E p ch) \<longleftrightarrow> Channel_IsOn q ch"
  by (auto simp: Channel_SendWhoOwner_def Channel_List_def Channel_Say_def Channel_Invite_def Channel_UnBan_def
      Channel_Password_def Channel_Announce_def Channel_IsOn_def Let_def split: option.split)

end
