(* ===== verification/Channel_Sync.thy ===== *)
theory Channel_Sync
  imports Channel_Mgr
begin

text \<open>
  The channels' member maps and the players' own channel lists, kept in two places by the code, agree after every
  request a client can send, after a logout and after a zone change.  Pointers to channels are only in the
  players' lists, so the agreement is also what makes the deletion of an empty channel safe.
\<close>

section \<open>One call of a channel\<close>

text \<open>The player an operation is about is logged in; a departure without a packet is the caller's to record.\<close>

fun op_present :: "chat_env \<times> chan_op \<Rightarrow> bool" where
  "op_present (E, OpJoin p pass) = (GetPlayer E p \<noteq> None)"
| "op_present (E, OpLeave p send) = (send \<and> GetPlayer E p \<noteq> None)"
| "op_present _ = True"

lemma op_moves_shape:
  "op_moves (E, op) ch = [] \<or> (\<exists>x. op_moves (E, op) ch = [LeftChannel x]) \<or>
   (\<exists>x pass. op_moves (E, op) ch = [JoinedChannel x] \<and> \<not> Channel_IsOn x ch \<and> op = OpJoin x pass)"
  by (cases op) (auto split: option.split)

lemma op_moves_cases:
  obtains "op_moves (E, op) ch = []"
  | x where "op_moves (E, op) ch = [LeftChannel x]"
  | x pass where "op_moves (E, op) ch = [JoinedChannel x]" "\<not> Channel_IsOn x ch" "op = OpJoin x pass"
  using op_moves_shape [of E op ch] by blast

lemma IsOn_step:
  assumes ok: "chan_ok ch" and guard: "chan_guard (E, op) ch" and here: "op_present (E, op)"
  shows "Channel_IsOn q (chan_step (E, op) ch) \<longleftrightarrow>
    JoinedChannel q \<in> set (op_moves (E, op) ch) \<or>
    Channel_IsOn q ch \<and> LeftChannel q \<notin> set (op_moves (E, op) ch)"
proof (cases op)
  case (OpJoin p pass)
  with here show ?thesis by (auto simp: IsOn_Join [OF chan_okD(1) [OF ok]])
next
  case (OpLeave p send)
  with here show ?thesis by (auto simp: IsOn_Leave [OF ok])
next
  case (OpKickOrBan g n b)
  have "Channel_IsOn q (Channel_KickOrBan E g n b ch) \<longleftrightarrow>
      Channel_IsOn q ch \<and> LeftChannel q \<notin> set (op_moves (E, OpKickOrBan g n b) ch)"
    using guard OpKickOrBan by (intro IsOn_Kick [OF ok]) simp
  moreover have "JoinedChannel q \<notin> set (op_moves (E, OpKickOrBan g n b) ch)"
    by (cases rule: op_moves_cases [of E "OpKickOrBan g n b" ch]) (auto simp del: op_moves.simps)
  ultimately show ?thesis unfolding OpKickOrBan chan_step.simps by blast
qed (simp_all add: SetMode_IsOn [OF ok] query_IsOn)

lemma fold_moves: "fold (apply_event c) (filter is_move es) J = fold (apply_event c) es J"
proof (induction es arbitrary: J)
  case (Cons e es)
  then show ?case by (cases e) (auto simp: fun_upd_def)
qed simp

lemma fold_adds:
  "adds xs ch ch' \<Longrightarrow> fold (apply_event c) (new_events ch ch') J = fold (apply_event c) xs J"
  by (auto simp: adds_def new_events_def fold_moves)

section \<open>State access\<close>

lemma get_set_channel [simp]:
  "get_channel d (set_channel c ch st) = (if d = c then ch else get_channel d st)"
  by (cases c; cases d) (auto simp: get_channel_def set_channel_def)

lemma set_channel_fields [simp]:
  "cs_joined (set_channel c ch st) = cs_joined st" "cs_log (set_channel c ch st) = cs_log st"
  by (simp_all add: set_channel_def)

lemma get_channel_frame [simp]:
  "get_channel c (st\<lparr>cs_joined := J\<rparr>) = get_channel c st"
  "get_channel c (st\<lparr>cs_log := l\<rparr>) = get_channel c st"
  "get_channel c (st\<lparr>cs_mgr := (cs_mgr st)(s := (cs_mgr st s)\<lparr>cm_team := t\<rparr>)\<rparr>) = get_channel c st"
  by (simp_all add: get_channel_def)

lemma send_direct_fields [simp]:
  "get_channel c (send_direct p pkt st) = get_channel c st" "cs_joined (send_direct p pkt st) = cs_joined st"
  by (simp_all add: send_direct_def)

lemma get_call_channel [simp]:
  "get_channel d (call_channel c f st) = (if d = c then map_option f (get_channel c st) else get_channel d st)"
  by (auto simp: call_channel_def Let_def split: option.split)

lemma joined_call_step:
  "cs_joined (call_channel c (chan_step (E, op)) st) =
     (case get_channel c st of None \<Rightarrow> cs_joined st
      | Some ch \<Rightarrow> fold (apply_event c) (op_moves (E, op) ch) (cs_joined st))"
  using fold_adds [OF adds_step] by (auto simp: call_channel_def Let_def split: option.split)

section \<open>The agreement\<close>

text \<open>A character's identifier: a low part that is not zero, and no entry and high part.\<close>

definition player_guid :: "uint64 \<Rightarrow> bool" where
  "player_guid g \<longleftrightarrow> 0 < g \<and> g < 0x100000000"

definition chat_inv :: "ChatState \<Rightarrow> bool" where
  "chat_inv st \<longleftrightarrow>
     (\<forall>q. distinct (cs_joined st q)) \<and>
     (\<forall>c. get_channel c st = None \<longrightarrow> (\<forall>q. c \<notin> set (cs_joined st q))) \<and>
     (\<forall>c ch. get_channel c st = Some ch \<longrightarrow>
        chan_ok ch \<and> (\<forall>q. (c \<in> set (cs_joined st q) \<longleftrightarrow> Channel_IsOn q ch) \<and>
          (Channel_IsOn q ch \<longrightarrow> player_guid q)))"

lemma chat_invD:
  assumes "chat_inv st"
  shows "distinct (cs_joined st q)"
    and "get_channel c st = None \<Longrightarrow> c \<notin> set (cs_joined st q)"
    and "get_channel c st = Some ch \<Longrightarrow> chan_ok ch"
    and "get_channel c st = Some ch \<Longrightarrow> c \<in> set (cs_joined st q) \<longleftrightarrow> Channel_IsOn q ch"
    and "get_channel c st = Some ch \<Longrightarrow> Channel_IsOn q ch \<Longrightarrow> player_guid q"
  using assms unfolding chat_inv_def by metis+

lemma chat_invI:
  assumes "\<And>q. distinct (cs_joined st q)"
    and "\<And>c q. get_channel c st = None \<Longrightarrow> c \<notin> set (cs_joined st q)"
    and "\<And>c ch. get_channel c st = Some ch \<Longrightarrow> chan_ok ch"
    and "\<And>c ch q. get_channel c st = Some ch \<Longrightarrow> c \<in> set (cs_joined st q) \<longleftrightarrow> Channel_IsOn q ch"
    and "\<And>c ch q. get_channel c st = Some ch \<Longrightarrow> Channel_IsOn q ch \<Longrightarrow> player_guid q"
  shows "chat_inv st"
  using assms unfolding chat_inv_def by blast

lemma chat_inv_cong:
  assumes "\<And>c. get_channel c a = get_channel c b" and "cs_joined a = cs_joined b"
  shows "chat_inv a = chat_inv b"
  by (simp add: chat_inv_def assms)

lemma chat_inv_frame [simp]:
  "chat_inv (st\<lparr>cs_log := l\<rparr>) = chat_inv st"
  "chat_inv (st\<lparr>cs_mgr := (cs_mgr st)(s := (cs_mgr st s)\<lparr>cm_team := t\<rparr>)\<rparr>) = chat_inv st"
  "chat_inv (send_direct p pkt st) = chat_inv st"
  by (rule chat_inv_cong; simp)+

text \<open>How a change of one channel keeps the agreement.\<close>

lemma chat_inv_update:
  assumes inv: "chat_inv st" and ch: "get_channel c st = Some ch"
    and get: "\<And>d. get_channel d st' = (if d = c then Some ch' else get_channel d st)"
    and ok: "chan_ok ch'"
    and other: "\<And>d q. d \<noteq> c \<Longrightarrow> d \<in> set (cs_joined st' q) \<longleftrightarrow> d \<in> set (cs_joined st q)"
    and here: "\<And>q. c \<in> set (cs_joined st' q) \<longleftrightarrow> Channel_IsOn q ch'"
    and dist: "\<And>q. distinct (cs_joined st' q)"
    and guids: "\<And>q. Channel_IsOn q ch' \<Longrightarrow> player_guid q"
  shows "chat_inv st'"
proof (rule chat_invI)
  fix d q
  show "d \<notin> set (cs_joined st' q)" if "get_channel d st' = None"
    using that chat_invD(2) [OF inv, of d q] by (cases "d = c") (simp_all add: get other)
next
  fix d chd
  assume d: "get_channel d st' = Some chd"
  show "chan_ok chd" using d ok chat_invD(3) [OF inv, of d] by (cases "d = c") (simp_all add: get)
  show "d \<in> set (cs_joined st' q) \<longleftrightarrow> Channel_IsOn q chd" for q
    using d here [of q] chat_invD(4) [OF inv, of d] by (cases "d = c") (simp_all add: get other)
  show "player_guid q" if "Channel_IsOn q chd" for q
    using d that guids chat_invD(5) [OF inv, of d] by (cases "d = c") (simp_all add: get)
qed (rule dist)

lemma call_step_inv:
  assumes inv: "chat_inv st" and here: "op_present (E, op)"
    and guard: "\<And>ch. get_channel c st = Some ch \<Longrightarrow> chan_guard (E, op) ch"
    and guid: "\<And>p pass. op = OpJoin p pass \<Longrightarrow> player_guid p"
  shows "chat_inv (call_channel c (chan_step (E, op)) st)"
proof (cases "get_channel c st")
  case None
  then show ?thesis using inv by (simp add: call_channel_def)
next
  case (Some ch)
  note ok = chat_invD(3) [OF inv Some]
  note on = IsOn_step [OF ok guard [OF Some] here]
  have J: "cs_joined (call_channel c (chan_step (E, op)) st) = fold (apply_event c) (op_moves (E, op) ch) (cs_joined st)"
    by (simp add: joined_call_step Some)
  note here_iff = chat_invD(4) [OF inv Some]
  note dist = chat_invD(1) [OF inv]
  show ?thesis
  proof (rule chat_inv_update [OF inv Some, where ch' = "chan_step (E, op) ch"])
    show "chan_ok (chan_step (E, op) ch)" by (rule chan.step_inv [OF ok guard [OF Some]])
    fix q
    show "distinct (cs_joined (call_channel c (chan_step (E, op)) st) q)"
      unfolding J using dist here_iff
      by (cases rule: op_moves_cases [of E op ch]) (auto simp del: op_moves.simps)
    show "c \<in> set (cs_joined (call_channel c (chan_step (E, op)) st) q) \<longleftrightarrow> Channel_IsOn q (chan_step (E, op) ch)"
      unfolding on J using here_iff
      by (cases rule: op_moves_cases [of E op ch]) (auto simp del: op_moves.simps)
    show "player_guid q" if "Channel_IsOn q (chan_step (E, op) ch)"
      using that chat_invD(5) [OF inv Some, of q] guid unfolding on
      by (cases rule: op_moves_cases [of E op ch]) (auto simp del: op_moves.simps)
    show "d \<in> set (cs_joined (call_channel c (chan_step (E, op)) st) q) \<longleftrightarrow> d \<in> set (cs_joined st q)"
      if "d \<noteq> c" for d
      unfolding J using that by (cases rule: op_moves_cases [of E op ch]) (auto simp del: op_moves.simps)
  qed (simp add: Some)
qed

lemma leave_recorded_inv:
  assumes inv: "chat_inv st"
    and get: "\<And>d. get_channel d st' =
      (if d = c then map_option (Channel_Leave E p send) (get_channel c st) else get_channel d st)"
    and J: "cs_joined st' = (cs_joined st)(p := filter (\<lambda>d. d \<noteq> c) (cs_joined st p))"
  shows "chat_inv st'"
proof (cases "get_channel c st")
  case None
  then have "c \<notin> set (cs_joined st p)" using chat_invD(2) [OF inv] by blast
  then have "filter (\<lambda>d. d \<noteq> c) (cs_joined st p) = cs_joined st p" by (auto simp: filter_id_conv)
  with None get J have "chat_inv st' = chat_inv st" by (intro chat_inv_cong) auto
  then show ?thesis using inv by simp
next
  case (Some ch)
  note ok = chat_invD(3) [OF inv Some]
  show ?thesis
  proof (rule chat_inv_update [OF inv Some])
    show "get_channel d st' = (if d = c then Some (Channel_Leave E p send ch) else get_channel d st)" for d
      by (simp add: get Some)
    show "chan_ok (Channel_Leave E p send ch)" by (rule Leave_ok [OF ok])
    show "c \<in> set (cs_joined st' q) \<longleftrightarrow> Channel_IsOn q (Channel_Leave E p send ch)" for q
      using chat_invD(4) [OF inv Some, of q] by (simp add: J IsOn_Leave [OF ok])
    show "distinct (cs_joined st' q)" for q using chat_invD(1) [OF inv] by (simp add: J)
    show "player_guid q" if "Channel_IsOn q (Channel_Leave E p send ch)" for q
      using that chat_invD(5) [OF inv Some, of q] by (simp add: IsOn_Leave [OF ok])
  qed (simp add: J)
qed

section \<open>The managers\<close>

lemma player_guid_new: "low \<noteq> 0 \<Longrightarrow> player_guid (MAKE_NEW_GUID (ucast (low :: uint32)) 0 HIGHGUID_PLAYER)"
proof -
  assume "low \<noteq> 0"
  moreover have "unat low < 2 ^ 32" using unsigned_less [of low, where 'a = nat] by simp
  ultimately show ?thesis
    unfolding player_guid_def MAKE_NEW_GUID_def HIGHGUID_PLAYER_def
    by (simp add: word_less_nat_alt unsigned_ucast_eq take_bit_nat_eq_self unat_gt_0)
qed

lemma card_player_guid: "finite S \<Longrightarrow> \<forall>g\<in>S. player_guid g \<Longrightarrow> card S < 2 ^ 32"
proof -
  assume fin: "finite S" and all: "\<forall>g\<in>S. player_guid g"
  have "card S = card (unat ` S)" by (intro card_image [symmetric] inj_onI) (simp add: word_unat_eq_iff)
  also have "unat ` S \<subseteq> {1..<2 ^ 32}"
    using all by (auto simp: player_guid_def word_less_nat_alt Suc_le_eq)
  then have "card (unat ` S) \<le> card {1..<2 ^ 32 :: nat}" by (rule card_mono [rotated]) simp
  finally show ?thesis by simp
qed

lemma GetNumPlayers_0:
  assumes inv: "chat_inv st" and ch: "get_channel c st = Some ch" and "Channel_GetNumPlayers ch = 0"
  shows "players ch = []"
proof -
  have ok: "smap_ok (players ch)" using chan_okD(1) chat_invD(3) [OF inv ch] by blast
  have "\<forall>g \<in> set (map fst (players ch)). player_guid g"
    using chat_invD(5) [OF inv ch] by (auto simp: Channel_IsOn_def find_None_iff image_iff)
  then have "card (set (map fst (players ch))) < 2 ^ 32" by (intro card_player_guid) simp_all
  moreover have "card (set (map fst (players ch))) = length (players ch)"
    using ok by (metis distinct_card length_map smap_ok_distinct)
  ultimately have "length (players ch) < 2 ^ 32" by simp
  with assms(3) show ?thesis
    by (simp add: Channel_GetNumPlayers_def word_of_nat_eq_0_iff) (metis nat_dvd_not_less length_greater_0_conv)
qed

lemma LeftChannel_inv:
  assumes inv: "chat_inv st"
  shows "chat_inv (ChannelMgr_LeftChannel V s name st)"
proof -
  let ?c = "(s, cv_lower V name)"
  have "chat_inv (set_channel ?c None st)" if ch: "get_channel ?c st = Some ch" and "Channel_GetNumPlayers ch = 0" for ch
  proof (rule chat_invI)
    have none: "?c \<notin> set (cs_joined st q)" for q
      using chat_invD(4) [OF inv ch, of q] GetNumPlayers_0 [OF inv that] by (simp add: Channel_IsOn_def smap_simps)
    show "d \<notin> set (cs_joined (set_channel ?c None st) q)" if "get_channel d (set_channel ?c None st) = None" for d q
      using that none chat_invD(2) [OF inv] by (cases "d = ?c") auto
  qed (use inv chat_invD [OF inv] in \<open>auto split: if_splits\<close>)
  with inv show ?thesis by (auto simp: ChannelMgr_LeftChannel_def Let_def split: option.split)
qed

lemma joined_LeftChannel [simp]: "cs_joined (ChannelMgr_LeftChannel V s name st) = cs_joined st"
  by (simp add: ChannelMgr_LeftChannel_def Let_def split: option.split)

lemma Channel_new_empty [simp]: "players (Channel_new E row name cid Team) = []"
  by (simp add: Channel_new_def Let_def split: option.split prod.split)

lemma GetJoinChannel_inv:
  assumes inv: "chat_inv st" and r: "ChannelMgr_GetJoinChannel V s name cid st = (c, st')"
  shows "chat_inv st'"
proof (cases "get_channel (s, cv_lower V name) st")
  case None
  let ?n = "Channel_new (cv_env V) (cv_row V name (cm_team (cs_mgr st s))) name cid (cm_team (cs_mgr st s))"
  have "chat_inv (set_channel (s, cv_lower V name) (Some ?n) st)"
  proof (rule chat_invI)
    show "d \<in> set (cs_joined (set_channel (s, cv_lower V name) (Some ?n) st) q) \<longleftrightarrow> Channel_IsOn q ch"
      if "get_channel d (set_channel (s, cv_lower V name) (Some ?n) st) = Some ch" for d ch q
      using that None chat_invD(2) [OF inv None] chat_invD(4) [OF inv, of d]
      by (cases "d = (s, cv_lower V name)") (auto simp: Channel_IsOn_def smap_simps)
  qed (use inv chat_invD [OF inv] Channel_new_ok in \<open>auto simp: Channel_IsOn_def smap_simps split: if_splits\<close>)
  with r None show ?thesis by (auto simp: ChannelMgr_GetJoinChannel_def Let_def)
next
  case (Some ch)
  with r inv show ?thesis by (simp add: ChannelMgr_GetJoinChannel_def Let_def)
qed

lemma GetJoinChannel_inv_snd: "chat_inv st \<Longrightarrow> chat_inv (snd (ChannelMgr_GetJoinChannel V s name cid st))"
  by (metis GetJoinChannel_inv prod.collapse)

lemma GetChannel_inv:
  "ChannelMgr_GetChannel V s name p pkt st = (r, st') \<Longrightarrow> chat_inv st' = chat_inv st"
  by (auto simp: ChannelMgr_GetChannel_def Let_def split: option.splits if_splits)

section \<open>Requests of a client\<close>

datatype chan_msg =
    CMSG_JOIN_CHANNEL | CMSG_LEAVE_CHANNEL | CMSG_CHANNEL_LIST | CMSG_CHANNEL_PASSWORD | CMSG_CHANNEL_SET_OWNER
  | CMSG_CHANNEL_OWNER | CMSG_CHANNEL_MODERATOR | CMSG_CHANNEL_UNMODERATOR | CMSG_CHANNEL_MUTE
  | CMSG_CHANNEL_UNMUTE | CMSG_CHANNEL_INVITE | CMSG_CHANNEL_KICK | CMSG_CHANNEL_BAN | CMSG_CHANNEL_UNBAN
  | CMSG_CHANNEL_ANNOUNCEMENTS | CMSG_CHANNEL_DISPLAY_LIST | CMSG_GET_CHANNEL_MEMBER_COUNT | CMSG_SET_CHANNEL_WATCH

text \<open>The rows of the opcode table (\<^verbatim>\<open>Opcodes.cpp\<close>) that lead to channel handlers.\<close>

fun channel_opcode :: "chan_msg \<Rightarrow> chat_srv \<Rightarrow> Player \<Rightarrow> ByteBuffer \<Rightarrow> ChatState \<Rightarrow> bb_error + ChatState" where
  "channel_opcode CMSG_JOIN_CHANNEL V p pkt st = HandleJoinChannel V p pkt st"
| "channel_opcode CMSG_LEAVE_CHANNEL V p pkt st = HandleLeaveChannel V p pkt st"
| "channel_opcode CMSG_CHANNEL_LIST V p pkt st = HandleChannelList V p pkt st"
| "channel_opcode CMSG_CHANNEL_PASSWORD V p pkt st = HandleChannelPassword V p pkt st"
| "channel_opcode CMSG_CHANNEL_SET_OWNER V p pkt st = HandleChannelSetOwner V p pkt st"
| "channel_opcode CMSG_CHANNEL_OWNER V p pkt st = HandleChannelOwner V p pkt st"
| "channel_opcode CMSG_CHANNEL_MODERATOR V p pkt st = HandleChannelModerator V p pkt st"
| "channel_opcode CMSG_CHANNEL_UNMODERATOR V p pkt st = HandleChannelUnmoderator V p pkt st"
| "channel_opcode CMSG_CHANNEL_MUTE V p pkt st = HandleChannelMute V p pkt st"
| "channel_opcode CMSG_CHANNEL_UNMUTE V p pkt st = HandleChannelUnmute V p pkt st"
| "channel_opcode CMSG_CHANNEL_INVITE V p pkt st = HandleChannelInvite V p pkt st"
| "channel_opcode CMSG_CHANNEL_KICK V p pkt st = HandleChannelKick V p pkt st"
| "channel_opcode CMSG_CHANNEL_BAN V p pkt st = HandleChannelBan V p pkt st"
| "channel_opcode CMSG_CHANNEL_UNBAN V p pkt st = HandleChannelUnban V p pkt st"
| "channel_opcode CMSG_CHANNEL_ANNOUNCEMENTS V p pkt st = HandleChannelAnnouncements V p pkt st"
| "channel_opcode CMSG_CHANNEL_DISPLAY_LIST V p pkt st = HandleChannelDisplayListQuery V p pkt st"
| "channel_opcode CMSG_GET_CHANNEL_MEMBER_COUNT V p pkt st = HandleGetChannelMemberCount V p pkt st"
| "channel_opcode CMSG_SET_CHANNEL_WATCH V p pkt st = HandleSetChannelWatch pkt st"

text \<open>
  Everything that touches the channels of a player: a message of his client, logging out, entering a zone and
  leaving the group-search channel.  A read past the end of a message ends the handler with an exception; the
  session drops the message.
\<close>

datatype chat_call =
    Message chan_msg ByteBuffer | Logout | EnterZone bool bool uint32 | LeaveLFG

fun chat_step :: "chat_srv \<times> Player \<times> chat_call \<Rightarrow> ChatState \<Rightarrow> ChatState" where
  "chat_step (V, p, Message m pkt) st = (case channel_opcode m V p pkt st of Inl _ \<Rightarrow> st | Inr st' \<Rightarrow> st')"
| "chat_step (V, p, Logout) st = Player_CleanupChannels V p st"
| "chat_step (V, p, EnterZone loading tele zone) st = Player_UpdateLocalChannels V p loading tele zone st"
| "chat_step (V, p, LeaveLFG) st = Player_LeaveLFGChannel V p st"

text \<open>
  The caller is in the world under his own identifier, and no kick or ban names the one who sends it: what
  such a request does to an owner is the subject of \<open>owner_kicking_himself_stays\<close>.
\<close>

definition names_himself :: "chat_srv \<Rightarrow> Player \<Rightarrow> ByteBuffer \<Rightarrow> bool" where
  "names_himself V p pkt =
     (case bindE (in_string pkt) (\<lambda>(channelname, d0). in_string d0) of
        Inl _ \<Rightarrow> False
      | Inr (otp, _) \<Rightarrow>
          (case cv_normalize V otp of
             None \<Rightarrow> False
           | Some n \<Rightarrow> (case GetPlayerByName (cv_env V) n of None \<Rightarrow> False | Some b \<Rightarrow> plr_GUID b = plr_GUID p)))"

fun chat_guard :: "chat_srv \<times> Player \<times> chat_call \<Rightarrow> ChatState \<Rightarrow> bool" where
  "chat_guard (V, p, call) st \<longleftrightarrow>
     GetPlayer (cv_env V) (plr_GUID p) = Some p \<and> player_guid (plr_GUID p) \<and>
     (case call of
        Message m pkt \<Rightarrow> (m = CMSG_CHANNEL_KICK \<or> m = CMSG_CHANNEL_BAN) \<longrightarrow> \<not> names_himself V p pkt
      | _ \<Rightarrow> True)"

lemma with_channel_inv:
  assumes inv: "chat_inv st" and here: "op_present (cv_env V, op)" and guard: "\<And>ch. chan_guard (cv_env V, op) ch"
    and op: "\<And>q pass. op \<noteq> OpJoin q pass"
  shows "chat_inv (with_channel V p name (chan_step (cv_env V, op)) st)"
  using inv here guard op
  by (auto simp: with_channel_def ChannelMgr_GetChannel_def Let_def intro!: call_step_inv split: option.split)

lemma channel_request_inv:
  assumes "channel_request V p pkt (chan_step (cv_env V, op)) st = Inr st'" "chat_inv st"
    "op_present (cv_env V, op)" "\<And>ch. chan_guard (cv_env V, op) ch" "\<And>q pass. op \<noteq> OpJoin q pass"
  shows "chat_inv st'"
  using assms with_channel_inv [OF assms(2-)]
  by (auto simp: channel_request_def bindE_Inr_iff)

lemma member_request_inv:
  assumes "member_request V p pkt (\<lambda>n. chan_step (cv_env V, f n)) st = Inr st'" and inv: "chat_inv st"
    and "\<And>n. op_present (cv_env V, f n)" "\<And>n q pass. f n \<noteq> OpJoin q pass"
    and guard: "\<And>cn d0 otp d1 n ch. in_string pkt = Inr (cn, d0) \<Longrightarrow> in_string d0 = Inr (otp, d1) \<Longrightarrow>
      cv_normalize V otp = Some n \<Longrightarrow> chan_guard (cv_env V, f n) ch"
  shows "chat_inv st'"
proof -
  have w: "chat_inv (with_channel V p cn (chan_step (cv_env V, f n)) st)"
    if "in_string pkt = Inr (cn, d0)" "in_string d0 = Inr (otp, d1)" "cv_normalize V otp = Some n" for cn d0 otp d1 n
    using assms(3,4) guard [OF that] by (intro with_channel_inv [OF inv])
  show ?thesis
    using assms(1) inv by (auto simp: member_request_def bindE_Inr_iff dest: w split: option.splits)
qed

lemma step_ops:
  "Channel_Join E g pass = chan_step (E, OpJoin g pass)"
  "Channel_Leave E g send = chan_step (E, OpLeave g send)"
  "Channel_KickOrBan E g n b = chan_step (E, OpKickOrBan g n b)"
  "Channel_UnBan E g n = chan_step (E, OpUnBan g n)"
  "Channel_Password E g pass = chan_step (E, OpPassword g pass)"
  "Channel_SetMode E g n m s = chan_step (E, OpSetMode g n m s)"
  "Channel_SetOwnerByName E g n = chan_step (E, OpSetOwner g n)"
  "Channel_SendWhoOwner E g = chan_step (E, OpSendWhoOwner g)"
  "Channel_List E p = chan_step (E, OpList p)"
  "Channel_Announce E g = chan_step (E, OpAnnounce g)"
  "Channel_Invite E g n = chan_step (E, OpInvite g n)"
  by (rule ext, simp)+

lemma step_ops_fun:
  "Channel_UnBan E g = (\<lambda>n. chan_step (E, OpUnBan g n))"
  "Channel_SetOwnerByName E g = (\<lambda>n. chan_step (E, OpSetOwner g n))"
  "Channel_Invite E g = (\<lambda>n. chan_step (E, OpInvite g n))"
  by (intro ext, simp)+

lemma HandleJoinChannel_inv:
  assumes "HandleJoinChannel V p pkt st = Inr st'" and inv: "chat_inv st"
    and here: "GetPlayer (cv_env V) (plr_GUID p) = Some p" "player_guid (plr_GUID p)"
  shows "chat_inv st'"
proof -
  have join: "chat_inv (call_channel (fst r) (Channel_Join (cv_env V) (plr_GUID p) pass) (snd r))"
    if "r = ChannelMgr_GetJoinChannel V s name cid (st\<lparr>cs_mgr := (cs_mgr st)(s := (cs_mgr st s)\<lparr>cm_team := t\<rparr>)\<rparr>)"
    for r s t name cid pass
    unfolding step_ops using here inv that by (intro call_step_inv) (auto intro!: GetJoinChannel_inv_snd)
  show ?thesis
    using assms(1) inv join [OF refl]
    by (auto simp: HandleJoinChannel_def bindE_Inr_iff Let_def case_prod_unfold split: if_splits option.splits)
qed

lemma HandleLeaveChannel_inv:
  assumes "HandleLeaveChannel V p pkt st = Inr st'" and inv: "chat_inv st"
    and here: "GetPlayer (cv_env V) (plr_GUID p) = Some p"
  shows "chat_inv st'"
proof -
  have leave: "chat_inv (call_channel c (Channel_Leave (cv_env V) (plr_GUID p) True) st1)" if "chat_inv st1" for c st1
    unfolding step_ops using here that by (intro call_step_inv) auto
  show ?thesis
    using assms(1) inv
    by (auto simp: HandleLeaveChannel_def bindE_Inr_iff Let_def GetChannel_inv leave
        intro!: LeftChannel_inv split: if_splits option.splits prod.splits)
qed

lemma kick_guard:
  assumes "\<not> names_himself V p pkt" "in_string pkt = Inr (cn, d0)" "in_string d0 = Inr (otp, d1)"
    "cv_normalize V otp = Some n"
  shows "chan_guard (cv_env V, OpKickOrBan (plr_GUID p) n b) ch"
  using assms by (auto simp: names_himself_def split: option.split)

lemma GetChannelMemberCount_inv:
  "HandleGetChannelMemberCount V p pkt st = Inr st' \<Longrightarrow> chat_inv st \<Longrightarrow> chat_inv st'"
  by (clarsimp simp: HandleGetChannelMemberCount_def bindE_Inr_iff)
    (auto simp: ChannelMgr_GetChannel_def Let_def split: option.split)

lemma message_inv:
  assumes r: "channel_opcode m V p pkt st = Inr st'" and inv: "chat_inv st"
    and guard: "chat_guard (V, p, Message m pkt) st"
  shows "chat_inv st'"
proof (cases m)
  case CMSG_JOIN_CHANNEL
  with r guard show ?thesis by (auto intro: HandleJoinChannel_inv [OF _ inv])
next
  case CMSG_LEAVE_CHANNEL
  with r guard show ?thesis by (auto intro: HandleLeaveChannel_inv [OF _ inv])
next
  case CMSG_CHANNEL_LIST
  with r show ?thesis by (auto simp: HandleChannelList_def step_ops intro: channel_request_inv [OF _ inv])
next
  case CMSG_CHANNEL_PASSWORD
  with r show ?thesis
    by (auto simp: HandleChannelPassword_def bindE_Inr_iff step_ops intro!: with_channel_inv [OF inv])
next
  case CMSG_CHANNEL_OWNER
  with r show ?thesis by (auto simp: HandleChannelOwner_def step_ops intro: channel_request_inv [OF _ inv])
next
  case CMSG_CHANNEL_ANNOUNCEMENTS
  with r show ?thesis by (auto simp: HandleChannelAnnouncements_def step_ops intro: channel_request_inv [OF _ inv])
next
  case CMSG_CHANNEL_DISPLAY_LIST
  with r show ?thesis
    by (auto simp: HandleChannelDisplayListQuery_def HandleChannelList_def step_ops intro: channel_request_inv [OF _ inv])
next
  case CMSG_GET_CHANNEL_MEMBER_COUNT
  with r show ?thesis using GetChannelMemberCount_inv [OF _ inv] by simp
next
  case CMSG_SET_CHANNEL_WATCH
  with r inv show ?thesis by (auto simp: HandleSetChannelWatch_def bindE_Inr_iff)
next
  case CMSG_CHANNEL_KICK
  then have r': "member_request V p pkt (\<lambda>n. chan_step (cv_env V, OpKickOrBan (plr_GUID p) n False)) st = Inr st'"
    using r by (simp add: HandleChannelKick_def step_ops del: chan_step.simps)
  show ?thesis
    by (rule member_request_inv [OF r' inv]) (use kick_guard guard CMSG_CHANNEL_KICK in \<open>auto simp del: chan_guard.simps\<close>)
next
  case CMSG_CHANNEL_BAN
  then have r': "member_request V p pkt (\<lambda>n. chan_step (cv_env V, OpKickOrBan (plr_GUID p) n True)) st = Inr st'"
    using r by (simp add: HandleChannelBan_def step_ops del: chan_step.simps)
  show ?thesis
    by (rule member_request_inv [OF r' inv]) (use kick_guard guard CMSG_CHANNEL_BAN in \<open>auto simp del: chan_guard.simps\<close>)
qed (use r in \<open>auto simp: HandleChannelSetOwner_def HandleChannelModerator_def HandleChannelUnmoderator_def
    HandleChannelMute_def HandleChannelUnmute_def HandleChannelInvite_def HandleChannelUnban_def step_ops
    step_ops_fun intro: member_request_inv [OF _ inv] simp del: chan_step.simps\<close>)

section \<open>Logout and zone changes\<close>

lemma Leave_call_joined:
  "cs_joined (call_channel c (Channel_Leave E p False) st) = cs_joined st"
  unfolding step_ops joined_call_step by (simp split: option.split)

lemma Cleanup_loop_inv:
  assumes "chat_inv st" "cs_joined st (plr_GUID p) = cs"
  shows "chat_inv (CleanupChannels_loop V p cs st) \<and> cs_joined (CleanupChannels_loop V p cs st) (plr_GUID p) = []"
  using assms
proof (induction cs arbitrary: st)
  case Nil
  then show ?case by simp
next
  case (Cons c cs)
  let ?st1 = "st\<lparr>cs_joined := (cs_joined st)(plr_GUID p := cs)\<rparr>"
  let ?st2 = "call_channel c (Channel_Leave (cv_env V) (plr_GUID p) False) ?st1"
  let ?st3 = "case channelMgr V (plr_Team p) of None \<Rightarrow> ?st2
    | Some s \<Rightarrow> (case get_channel c ?st2 of None \<Rightarrow> ?st2 | Some ch \<Rightarrow> ChannelMgr_LeftChannel V s (m_name ch) ?st2)"
  have "c \<notin> set cs" using chat_invD(1) [OF Cons.prems(1), of "plr_GUID p"] Cons.prems(2) by simp
  then have rest: "filter (\<lambda>d. d \<noteq> c) (cs_joined st (plr_GUID p)) = cs"
    using Cons.prems(2) by (auto simp: filter_id_conv)
  have "chat_inv ?st2"
    by (rule leave_recorded_inv [OF Cons.prems(1), where c = c and E = "cv_env V" and p = "plr_GUID p" and send = False])
      (simp_all add: Leave_call_joined rest)
  then have "chat_inv ?st3" by (auto intro: LeftChannel_inv split: option.split)
  moreover have "cs_joined ?st3 (plr_GUID p) = cs" by (simp add: Leave_call_joined split: option.split)
  ultimately show ?case using Cons.IH [of ?st3] by (simp only: CleanupChannels_loop.simps Let_def)
qed

lemma LeaveLFG_inv:
  assumes inv: "chat_inv st" and here: "GetPlayer (cv_env V) (plr_GUID p) = Some p"
  shows "chat_inv (Player_LeaveLFGChannel V p st)"
  using inv here by (auto simp: Player_LeaveLFGChannel_def step_ops intro!: call_step_inv split: option.split)

lemma leave_then_record_joined:
  "apply_event u (LeftChannel p) (cs_joined (call_channel u (Channel_Leave E p send) st)) =
     (cs_joined st)(p := filter (\<lambda>d. d \<noteq> u) (cs_joined st p))"
  unfolding step_ops joined_call_step by (auto simp: fun_eq_iff split: option.split)

lemma UpdateLocal_leave_inv:
  assumes inv: "chat_inv st"
  shows "chat_inv (UpdateLocalChannels_leave V p s u send st)"
  unfolding UpdateLocalChannels_leave_def Let_def
  by (intro LeftChannel_inv leave_recorded_inv [OF inv, where c = u and E = "cv_env V" and p = "plr_GUID p" and send = send])
    (simp_all add: leave_then_record_joined del: apply_event.simps)

lemma UpdateLocal_pick_inv:
  assumes "UpdateLocalChannels_pick V p z f s i st = Some (j, r, sr, st1)" and inv: "chat_inv st"
  shows "chat_inv st1"
  using assms GetJoinChannel_inv_snd [OF inv]
  by (fastforce simp: UpdateLocalChannels_pick_def Let_def case_prod_unfold split: option.splits if_splits)

lemma UpdateLocal_row_inv:
  assumes inv: "chat_inv st" and here: "GetPlayer (cv_env V) (plr_GUID p) = Some p" "player_guid (plr_GUID p)"
  shows "chat_inv (UpdateLocalChannels_row V p z f s i st)"
proof -
  have join: "chat_inv (call_channel c (Channel_Join (cv_env V) (plr_GUID p) []) st1)" if "chat_inv st1" for c st1
    unfolding step_ops using here that by (intro call_step_inv) auto
  show ?thesis
    using inv join UpdateLocal_pick_inv [OF _ inv]
    by (auto simp: UpdateLocalChannels_row_def Let_def intro!: UpdateLocal_leave_inv split: option.split prod.split)
qed

lemma UpdateLocalChannels_inv:
  assumes inv: "chat_inv st" and here: "GetPlayer (cv_env V) (plr_GUID p) = Some p" "player_guid (plr_GUID p)"
  shows "chat_inv (Player_UpdateLocalChannels V p loading tele zone st)"
proof -
  have "chat_inv (fold (\<lambda>i. UpdateLocalChannels_row V p zone f s (of_nat i)) rs st)" for f s rs
    using inv by (induction rs arbitrary: st) (auto intro: UpdateLocal_row_inv [OF _ here])
  with inv show ?thesis by (auto simp: Player_UpdateLocalChannels_def split: option.split)
qed

section \<open>Histories\<close>

interpretation chat: guarded_system chat_guard chat_step chat_inv
proof
  fix st and c :: "chat_srv \<times> Player \<times> chat_call"
  assume inv: "chat_inv st" and guard: "chat_guard c st"
  obtain V p call where c: "c = (V, p, call)" by (cases c)
  show "chat_inv (chat_step c st)"
  proof (cases call)
    case (Message m pkt)
    with c guard inv message_inv [of m V p pkt st] show ?thesis
      by (auto split: sum.split simp del: channel_opcode.simps chat_guard.simps)
  next
    case Logout
    with c inv Cleanup_loop_inv show ?thesis by (auto simp: Player_CleanupChannels_def)
  next
    case (EnterZone l t z)
    with c inv guard show ?thesis by (auto intro: UpdateLocalChannels_inv)
  next
    case LeaveLFG
    with c inv guard show ?thesis by (auto intro: LeaveLFG_inv)
  qed
qed

text \<open>The server before the first player enters: no channel exists and nobody has joined one.\<close>

definition chat_start :: "uint32 \<Rightarrow> uint32 \<Rightarrow> ChatState" where
  "chat_start a h =
     \<lparr>cs_mgr = (\<lambda>s. \<lparr>cm_team = (if s = AllianceChannelMgr then a else h), cm_channels = (\<lambda>_. None)\<rparr>),
      cs_joined = (\<lambda>_. []), cs_log = []\<rparr>"

lemma chat_start_inv: "chat_inv (chat_start a h)"
  by (simp add: chat_inv_def chat_start_def get_channel_def)

lemma Leave_IsConstant: "Channel_IsConstant (Channel_Leave E p send ch) = Channel_IsConstant ch"
  by (simp add: Leave_unfold Let_def left_def Channel_IsConstant_def SetOwner_fields)

section \<open>A sample server\<close>

definition sample_srv :: chat_srv where
  "sample_srv = \<lparr>cv_env = sample_env, cv_lower = (\<lambda>s. s), cv_row = (\<lambda>_ _. None), cv_zone = (\<lambda>_. None),
     cv_normalize = Some, cv_numRows = 0, cv_pattern = (\<lambda>_. []), cv_zoneName = (\<lambda>_ _. []), cv_cityName = (\<lambda>_. [])\<rparr>"

text \<open>The messages ``join Wd'' and ``leave Wd'' as they arrive.\<close>

definition join_Wd :: ByteBuffer where
  "join_Wd = \<lparr>bb_rpos = 0, bb_wpos = 10, bb_storage = [0, 0, 0, 0, 0, 0, 0, 87, 100, 0]\<rparr>"

definition leave_Wd :: ByteBuffer where
  "leave_Wd = \<lparr>bb_rpos = 0, bb_wpos = 7, bb_storage = [0, 0, 0, 0, 87, 100, 0]\<rparr>"

lemmas read_defs = in_u32_def in_u8_def bb_read_def bb_read_at_def add64_def bb_size_def

definition sample_calls :: "(chat_srv \<times> Player \<times> chat_call) list" where
  "sample_calls = [(sample_srv, sample_player 5 ''Ann'', Message CMSG_JOIN_CHANNEL join_Wd)]"

definition sample_chat :: ChatState where
  "sample_chat = run_ops chat_step sample_calls (chat_start 469 67)"

lemma HandleJoinChannel_parsed:
  assumes "in_u32 pkt = Inr (0, d0)" "in_u8 d0 = Inr (u1, d1)" "in_u8 d1 = Inr (u2, d2)"
    "in_string d2 = Inr (pass, d3)" "in_string d3 = Inr (name, d4)" "name \<noteq> []"
    and mgr: "channelMgr V (plr_Team p) = Some s"
  shows "\<exists>st'. HandleJoinChannel V p pkt st = Inr st' \<and>
    get_channel (s, cv_lower V name) st' = Some (Channel_Join (cv_env V) (plr_GUID p) pass
      (case get_channel (s, cv_lower V name) st of
         Some ch \<Rightarrow> ch
       | None \<Rightarrow> Channel_new (cv_env V) (cv_row V name (plr_Team p)) name 0 (plr_Team p)))"
  using assms by (auto simp: HandleJoinChannel_def ChannelMgr_GetJoinChannel_def Let_def split: option.split)

lemma sample_guard:
  assumes "case call of Message m pkt \<Rightarrow> m \<noteq> CMSG_CHANNEL_KICK \<and> m \<noteq> CMSG_CHANNEL_BAN | _ \<Rightarrow> True"
  shows "chat_guard (sample_srv, sample_player 5 ''Ann'', call) st"
proof -
  have "GetPlayer (cv_env sample_srv) (plr_GUID (sample_player 5 ''Ann'')) = Some (sample_player 5 ''Ann'')"
    "player_guid (plr_GUID (sample_player 5 ''Ann''))" by code_simp+
  with assms show ?thesis by (auto split: chat_call.split)
qed

lemma sample_run: "legal_run chat_guard chat_step sample_calls (chat_start 469 67)"
  unfolding sample_calls_def using sample_guard [of "Message CMSG_JOIN_CHANNEL join_Wd"] by simp

text \<open>After the message of the sample, Ann is alone on the channel \<open>Wd\<close>.\<close>

lemma sample_chat_channel:
  "get_channel (HordeChannelMgr, ''Wd'') sample_chat =
     Some (Channel_Join sample_env 5 '''' (Channel_new sample_env None ''Wd'' 0 67))"
proof -
  let ?d = "\<lambda>n. join_Wd\<lparr>bb_rpos := n\<rparr>"
  have u: "in_u32 join_Wd = Inr (0, ?d 4)" "in_u8 (?d 4) = Inr (0, ?d 5)" "in_u8 (?d 5) = Inr (0, ?d 6)"
    by (simp_all add: join_Wd_def read_defs)
  have z: "in_string (?d 6) = Inr ('''', ?d 7)" "in_string (?d 7) = Inr (''Wd'', ?d 10)" by code_simp+
  have m: "channelMgr sample_srv (plr_Team (sample_player 5 ''Ann'')) = Some HordeChannelMgr" by code_simp
  have e: "get_channel (HordeChannelMgr, ''Wd'') (chat_start 469 67) = None" by (simp add: get_channel_def chat_start_def)
  have v: "cv_env sample_srv = sample_env" "cv_lower sample_srv ''Wd'' = ''Wd''" "cv_row sample_srv n t = None"
    "plr_GUID (sample_player 5 ''Ann'') = 5" "plr_Team (sample_player 5 ''Ann'') = 67" for n t
    by (simp_all add: sample_srv_def sample_player_def HORDE_def)
  obtain st' where "HandleJoinChannel sample_srv (sample_player 5 ''Ann'') join_Wd (chat_start 469 67) = Inr st'"
    "get_channel (HordeChannelMgr, ''Wd'') st' = Some (Channel_Join sample_env 5 '''' (Channel_new sample_env None ''Wd'' 0 67))"
    using HandleJoinChannel_parsed [OF u z _ m, of "chat_start 469 67"] by (auto simp: v e)
  then show ?thesis by (simp add: sample_chat_def sample_calls_def)
qed

lemma sample_member:
  "Channel_IsOn q (Channel_Join sample_env 5 '''' (Channel_new sample_env None ''Wd'' 0 67)) \<longleftrightarrow> q = 5"
proof -
  have "admitted sample_env 5 '''' (Channel_new sample_env None ''Wd'' 0 67)" by code_simp
  then show ?thesis
    using IsOn_Join [OF chan_okD(1) [OF Channel_new_ok]] by (simp add: Channel_IsOn_def)
qed

section \<open>Properties: the two views of membership\<close>



text \<open>
  Logging out at the end of such a history takes the player off every channel of both managers, and
  empties his list: no member map keeps somebody who is gone.
\<close>
theorem logout_leaves_every_channel:
  assumes "legal_run chat_guard chat_step calls (chat_start a h)"
    and "chat_guard (V, p, Logout) (run_ops chat_step calls (chat_start a h))"
    and "st = Player_CleanupChannels V p (run_ops chat_step calls (chat_start a h))"
  shows "cs_joined st (plr_GUID p) = [] \<and> (\<forall>c ch. get_channel c st = Some ch \<longrightarrow> \<not> Channel_IsOn (plr_GUID p) ch)"
proof -
  have "chat_inv (run_ops chat_step calls (chat_start a h))" by (rule chat.run_inv [OF chat_start_inv assms(1)])
  from Cleanup_loop_inv [OF this refl, of V p] have inv: "chat_inv st" and nil: "cs_joined st (plr_GUID p) = []"
    by (simp_all add: assms(3) Player_CleanupChannels_def)
  show ?thesis using nil chat_invD(4) [OF inv] by (metis empty_iff empty_set)
qed

theorem logout_leaves_every_channel_witness:
  "(\<exists>ch. get_channel (HordeChannelMgr, ''Wd'') sample_chat = Some ch \<and> Channel_IsOn 5 ch) \<and>
   (\<nexists>c ch. get_channel c (Player_CleanupChannels sample_srv (sample_player 5 ''Ann'') sample_chat) = Some ch \<and>
      Channel_IsOn 5 ch)"
proof -
  have g: "chat_guard (sample_srv, sample_player 5 ''Ann'', Logout) (run_ops chat_step sample_calls (chat_start 469 67))"
    by (rule sample_guard) simp
  have "plr_GUID (sample_player 5 ''Ann'') = 5" by code_simp
  with logout_leaves_every_channel [OF sample_run g refl] sample_chat_channel sample_member
  show ?thesis by (simp add: sample_chat_def)
qed

text \<open>
  A leave message for an existing channel, after such a history: the channel is deleted when it
  is a custom channel and the leaver was its only member; otherwise it stays, without him.
\<close>
theorem leaving_deletes_empty_channel:
  assumes run: "legal_run chat_guard chat_step calls (chat_start a h)"
    and st: "st = run_ops chat_step calls (chat_start a h)"
    and guard: "chat_guard (V, p, Message CMSG_LEAVE_CHANNEL pkt) st"
    and parse: "in_u32 pkt = Inr (unk, d0)" "in_string d0 = Inr (name, d1)" "name \<noteq> []"
    and mgr: "channelMgr V (plr_Team p) = Some s"
    and ch: "get_channel (s, cv_lower V name) st = Some ch"
  shows "\<exists>st'. HandleLeaveChannel V p pkt st = Inr st' \<and> get_channel (s, cv_lower V name) st' =
    (if \<not> Channel_IsConstant ch \<and> (\<forall>q. Channel_IsOn q ch \<longrightarrow> q = plr_GUID p) then None
     else Some (Channel_Leave (cv_env V) (plr_GUID p) True ch))"
proof -
  let ?c = "(s, cv_lower V name)"
  let ?ch = "Channel_Leave (cv_env V) (plr_GUID p) True ch"
  let ?st2 = "call_channel ?c (Channel_Leave (cv_env V) (plr_GUID p) True) st"
  have inv: "chat_inv st" unfolding st by (rule chat.run_inv [OF chat_start_inv run])
  have inv2: "chat_inv ?st2" unfolding step_ops using guard by (intro call_step_inv [OF inv]) auto
  have get2: "get_channel ?c ?st2 = Some ?ch" by (simp add: ch)
  have h: "HandleLeaveChannel V p pkt st = Inr (ChannelMgr_LeftChannel V s name ?st2)"
    using parse by (simp add: HandleLeaveChannel_def mgr ch ChannelMgr_GetChannel_def)
  have "players ?ch = [] \<longleftrightarrow> (\<forall>q. \<not> Channel_IsOn q ?ch)"
    by (cases "players ?ch") (auto simp: Channel_IsOn_def find_Cons)
  moreover have "Channel_GetNumPlayers ?ch = 0 \<longleftrightarrow> players ?ch = []"
    using GetNumPlayers_0 [OF inv2 get2] by (auto simp: Channel_GetNumPlayers_def)
  ultimately have "Channel_GetNumPlayers ?ch = 0 \<longleftrightarrow> (\<forall>q. Channel_IsOn q ch \<longrightarrow> q = plr_GUID p)"
    using IsOn_Leave [OF chat_invD(3) [OF inv ch]] by auto
  then have "get_channel ?c (ChannelMgr_LeftChannel V s name ?st2) =
    (if \<not> Channel_IsConstant ch \<and> (\<forall>q. Channel_IsOn q ch \<longrightarrow> q = plr_GUID p) then None else Some ?ch)"
    by (auto simp: ChannelMgr_LeftChannel_def Let_def ch Leave_IsConstant)
  with h show ?thesis by blast
qed

theorem leaving_deletes_empty_channel_witness:
  "\<exists>st'. HandleLeaveChannel sample_srv (sample_player 5 ''Ann'') leave_Wd sample_chat = Inr st' \<and>
     get_channel (HordeChannelMgr, ''Wd'') st' = None"
proof -
  let ?ch = "Channel_Join sample_env 5 '''' (Channel_new sample_env None ''Wd'' 0 67)"
  have g: "chat_guard (sample_srv, sample_player 5 ''Ann'', Message CMSG_LEAVE_CHANNEL leave_Wd) sample_chat"
    by (rule sample_guard) simp
  have u: "in_u32 leave_Wd = Inr (0, leave_Wd\<lparr>bb_rpos := 4\<rparr>)" by (simp add: leave_Wd_def read_defs)
  have z: "in_string (leave_Wd\<lparr>bb_rpos := 4\<rparr>) = Inr (''Wd'', leave_Wd\<lparr>bb_rpos := 7\<rparr>)" by code_simp
  have m: "channelMgr sample_srv (plr_Team (sample_player 5 ''Ann'')) = Some HordeChannelMgr" by code_simp
  have l: "cv_lower sample_srv ''Wd'' = ''Wd''" and c: "\<not> Channel_IsConstant ?ch"
    and i: "plr_GUID (sample_player 5 ''Ann'') = 5" by code_simp+
  have "get_channel (HordeChannelMgr, cv_lower sample_srv ''Wd'') sample_chat = Some ?ch"
    using sample_chat_channel by (simp only: l)
  from leaving_deletes_empty_channel [OF sample_run sample_chat_def g u z _ m this] c sample_member
  show ?thesis by (simp add: i l)
qed

end
