(* ===== verification/Reputation.thy ===== *)
theory Reputation
  imports Byte_Buffer Std_Map
begin

text \<open>
  A player's standing with the factions of the game (\<^verbatim>\<open>src/server/game/Reputation/ReputationMgr.cpp\<close> and
  \<^verbatim>\<open>.h\<close>): ranks, the faction map with its flags, the counters the achievements read, spillover, the packets
  and the rows of \<open>character_reputation\<close>.  \<open>int32\<close> values are integers whose arithmetic is wrapped with
  \<open>wrap32\<close>; the counters are bytes.  A \<open>FactionState*\<close> is the key of its node in the map.  Floating-point
  arithmetic, the data stores and the world's rate are parameters (\<open>rep_env\<close>).
\<close>

section \<open>Ranks\<close>

datatype ReputationRank =
    REP_HATED | REP_HOSTILE | REP_UNFRIENDLY | REP_NEUTRAL | REP_FRIENDLY | REP_HONORED | REP_REVERED | REP_EXALTED

fun rank_value :: "ReputationRank \<Rightarrow> nat" where
  "rank_value REP_HATED = 0"
| "rank_value REP_HOSTILE = 1"
| "rank_value REP_UNFRIENDLY = 2"
| "rank_value REP_NEUTRAL = 3"
| "rank_value REP_FRIENDLY = 4"
| "rank_value REP_HONORED = 5"
| "rank_value REP_REVERED = 6"
| "rank_value REP_EXALTED = 7"

lemma rank_value_inj: "rank_value a = rank_value b \<longleftrightarrow> a = b"
  by (cases a; cases b) auto

instantiation ReputationRank :: linorder
begin

definition less_eq_ReputationRank :: "ReputationRank \<Rightarrow> ReputationRank \<Rightarrow> bool" where
  "less_eq_ReputationRank a b \<longleftrightarrow> rank_value a \<le> rank_value b"

definition less_ReputationRank :: "ReputationRank \<Rightarrow> ReputationRank \<Rightarrow> bool" where
  "less_ReputationRank a b \<longleftrightarrow> rank_value a < rank_value b"

instance
  by standard (auto simp: less_eq_ReputationRank_def less_ReputationRank_def rank_value_inj)

end

lemmas rank_order = less_eq_ReputationRank_def less_ReputationRank_def

definition Reputation_Cap :: int where "Reputation_Cap = 42999"
definition Reputation_Bottom :: int where "Reputation_Bottom = -42000"

text \<open>The ranks with their width in points (\<open>PointsInRank\<close>), from the highest down, as the loop visits them.\<close>

definition PointsInRank_down :: "(ReputationRank \<times> int) list" where
  "PointsInRank_down =
     [(REP_EXALTED, 1000), (REP_REVERED, 21000), (REP_HONORED, 12000), (REP_FRIENDLY, 6000), (REP_NEUTRAL, 3000),
      (REP_UNFRIENDLY, 3000), (REP_HOSTILE, 3000), (REP_HATED, 36000)]"

fun rank_loop :: "int \<Rightarrow> int \<Rightarrow> (ReputationRank \<times> int) list \<Rightarrow> ReputationRank" where
  "rank_loop standing limit [] = REP_HATED"
| "rank_loop standing limit ((rank, points) # rest) =
     (let limit' = limit - points in if standing \<ge> limit' then rank else rank_loop standing limit' rest)"

definition ReputationToRank :: "int \<Rightarrow> ReputationRank" where
  "ReputationToRank standing = rank_loop standing (Reputation_Cap + 1) PointsInRank_down"

section \<open>Data\<close>

definition FACTION_FLAG_NONE :: uint8 where "FACTION_FLAG_NONE = 0x00"
definition FACTION_FLAG_VISIBLE :: uint8 where "FACTION_FLAG_VISIBLE = 0x01"
definition FACTION_FLAG_AT_WAR :: uint8 where "FACTION_FLAG_AT_WAR = 0x02"
definition FACTION_FLAG_HIDDEN :: uint8 where "FACTION_FLAG_HIDDEN = 0x04"
definition FACTION_FLAG_INVISIBLE_FORCED :: uint8 where "FACTION_FLAG_INVISIBLE_FORCED = 0x08"
definition FACTION_FLAG_PEACE_FORCED :: uint8 where "FACTION_FLAG_PEACE_FORCED = 0x10"
definition FACTION_FLAG_INACTIVE :: uint8 where "FACTION_FLAG_INACTIVE = 0x20"
definition FACTION_FLAG_RIVAL :: uint8 where "FACTION_FLAG_RIVAL = 0x40"
definition FACTION_FLAG_SPECIAL :: uint8 where "FACTION_FLAG_SPECIAL = 0x80"

type_synonym RepListID = uint32
type_synonym float32 = uint32   \<comment> \<open>the bits of a \<open>float\<close>\<close>

record FactionEntry =
  fe_ID :: uint32
  fe_reputationListID :: int
  fe_BaseRepRaceMask :: "uint32 list"
  fe_BaseRepClassMask :: "uint32 list"
  fe_BaseRepValue :: "int list"
  fe_ReputationFlags :: "uint32 list"
  fe_team :: uint32
  fe_spilloverRateIn :: float32
  fe_spilloverRateOut :: float32
  fe_spilloverMaxRankIn :: uint32

record RepSpilloverTemplate =
  st_faction :: "uint32 list"
  st_faction_rate :: "float32 list"
  st_faction_rank :: "uint32 list"

record FactionState =
  fs_ID :: uint32
  fs_ReputationListID :: RepListID
  fs_Flags :: uint8
  fs_Standing :: int
  fs_needSend :: bool
  fs_needSave :: bool

definition FactionState_zero :: FactionState where
  "FactionState_zero = \<lparr>fs_ID = 0, fs_ReputationListID = 0, fs_Flags = 0, fs_Standing = 0, fs_needSend = False,
     fs_needSave = False\<rparr>"

datatype criteria = KNOWN_FACTIONS | GAIN_REPUTATION | GAIN_EXALTED_REPUTATION | GAIN_REVERED_REPUTATION
  | GAIN_HONORED_REPUTATION

datatype rep_event =
    SendDirectMessage packet
  | OnPlayerReputationChange uint32 int bool
  | ReputationChanged uint32
  | UpdateAchievementCriteria criteria uint32
  | SqlDeleteReputation uint32
  | SqlInsertReputation uint32 int uint8

record ReputationMgr =
  m_factions :: "(RepListID, FactionState) smap"
  m_forcedReactions :: "(uint32, ReputationRank) smap"
  m_visibleFactionCount :: uint8
  m_honoredFactionCount :: uint8
  m_reveredFactionCount :: uint8
  m_exaltedFactionCount :: uint8
  rm_log :: "rep_event list"

text \<open>
  The owner's masks and loading flag, the stores, and the floating-point operations the code performs:
  \<open>float(i)\<close>, \<open>x * y\<close>, \<open>int32(x)\<close>, \<open>x != 0.0f\<close> and \<open>int32(floor((float)i * rate + 0.5))\<close>.
\<close>

record rep_env =
  re_raceMask :: uint32
  re_classMask :: uint32
  re_PlayerLoading :: bool
  re_numRows :: uint32
  re_store :: "uint32 \<Rightarrow> FactionEntry option"
  re_spillover :: "uint32 \<Rightarrow> RepSpilloverTemplate option"
  re_teamList :: "uint32 \<Rightarrow> uint32 list option"
  re_float :: "int \<Rightarrow> float32"
  re_fmul :: "float32 \<Rightarrow> float32 \<Rightarrow> float32"
  re_int32 :: "float32 \<Rightarrow> int"
  re_nonzero :: "float32 \<Rightarrow> bool"
  re_gain :: "int \<Rightarrow> int"

definition rep_emit :: "rep_event list \<Rightarrow> ReputationMgr \<Rightarrow> ReputationMgr" where
  "rep_emit es m = m\<lparr>rm_log := rm_log m @ es\<rparr>"

definition list_key :: "FactionEntry \<Rightarrow> RepListID" where
  "list_key e = word_of_int (fe_reputationListID e)"

section \<open>Reading\<close>

definition ReputationMgr_GetState :: "FactionEntry \<Rightarrow> ReputationMgr \<Rightarrow> FactionState option" where
  "ReputationMgr_GetState e m =
     (if fe_reputationListID e \<ge> 0 then smap_find (m_factions m) (list_key e) else None)"

text \<open>The first of the four columns that applies to the owner's race and class.\<close>

definition base_column :: "rep_env \<Rightarrow> FactionEntry \<Rightarrow> nat option" where
  "base_column R e =
     find (\<lambda>i. (fe_BaseRepRaceMask e ! i AND re_raceMask R \<noteq> 0 \<or>
                 (fe_BaseRepRaceMask e ! i = 0 \<and> fe_BaseRepClassMask e ! i \<noteq> 0)) \<and>
               (fe_BaseRepClassMask e ! i AND re_classMask R \<noteq> 0 \<or> fe_BaseRepClassMask e ! i = 0)) [0..<4]"

definition ReputationMgr_GetBaseReputation :: "rep_env \<Rightarrow> FactionEntry \<Rightarrow> int" where
  "ReputationMgr_GetBaseReputation R e =
     (case base_column R e of None \<Rightarrow> 0 | Some i \<Rightarrow> fe_BaseRepValue e ! i)"

definition ReputationMgr_GetDefaultStateFlags :: "rep_env \<Rightarrow> FactionEntry \<Rightarrow> uint32" where
  "ReputationMgr_GetDefaultStateFlags R e =
     (case base_column R e of None \<Rightarrow> 0 | Some i \<Rightarrow> fe_ReputationFlags e ! i)"

definition ReputationMgr_GetReputation :: "rep_env \<Rightarrow> FactionEntry \<Rightarrow> ReputationMgr \<Rightarrow> int" where
  "ReputationMgr_GetReputation R e m =
     (case ReputationMgr_GetState e m of
        None \<Rightarrow> 0
      | Some s \<Rightarrow> wrap32 (ReputationMgr_GetBaseReputation R e + fs_Standing s))"

definition ReputationMgr_GetReputationById :: "rep_env \<Rightarrow> uint32 \<Rightarrow> ReputationMgr \<Rightarrow> int" where
  "ReputationMgr_GetReputationById R faction_id m =
     (case re_store R faction_id of None \<Rightarrow> 0 | Some e \<Rightarrow> ReputationMgr_GetReputation R e m)"

definition ReputationMgr_GetRank :: "rep_env \<Rightarrow> FactionEntry \<Rightarrow> ReputationMgr \<Rightarrow> ReputationRank" where
  "ReputationMgr_GetRank R e m = ReputationToRank (ReputationMgr_GetReputation R e m)"

definition ReputationMgr_GetBaseRank :: "rep_env \<Rightarrow> FactionEntry \<Rightarrow> ReputationRank" where
  "ReputationMgr_GetBaseRank R e = ReputationToRank (ReputationMgr_GetBaseReputation R e)"

text \<open>\<open>Player::GetReputationRank\<close>: an unknown faction has reputation 0.\<close>

definition Player_GetReputationRank :: "rep_env \<Rightarrow> uint32 \<Rightarrow> ReputationMgr \<Rightarrow> ReputationRank" where
  "Player_GetReputationRank R faction m =
     (case re_store R faction of None \<Rightarrow> ReputationToRank 0 | Some e \<Rightarrow> ReputationMgr_GetRank R e m)"

definition ReputationMgr_GetForcedRankIfAny :: "uint32 \<Rightarrow> ReputationMgr \<Rightarrow> ReputationRank option" where
  "ReputationMgr_GetForcedRankIfAny faction m = smap_find (m_forcedReactions m) faction"

section \<open>Packets\<close>

definition SMSG_INITIALIZE_FACTIONS :: uint32 where "SMSG_INITIALIZE_FACTIONS = 0x25C0"
definition SMSG_SET_FACTION_VISIBLE :: uint32 where "SMSG_SET_FACTION_VISIBLE = 0x3988"
definition SMSG_SET_FACTION_STANDING :: uint32 where "SMSG_SET_FACTION_STANDING = 0x718C"
definition SMSG_SET_FORCED_REACTIONS :: uint32 where "SMSG_SET_FORCED_REACTIONS = 0x100DB"

definition ReputationMgr_ApplyForceReaction :: "uint32 \<Rightarrow> ReputationRank \<Rightarrow> bool \<Rightarrow> ReputationMgr \<Rightarrow> ReputationMgr" where
  "ReputationMgr_ApplyForceReaction faction_id rank apply_it m =
     (if apply_it then m\<lparr>m_forcedReactions := smap_put faction_id rank (m_forcedReactions m)\<rparr>
      else m\<lparr>m_forcedReactions := smap_erase faction_id (m_forcedReactions m)\<rparr>)"

definition ReputationMgr_SendForceReactions :: "ReputationMgr \<Rightarrow> ReputationMgr" where
  "ReputationMgr_SendForceReactions m =
     rep_emit [SendDirectMessage (Packet SMSG_SET_FORCED_REACTIONS
       (U32 (of_nat (length (m_forcedReactions m))) #
        concat (map (\<lambda>(f, r). [U32 f, U32 (of_nat (rank_value r))]) (m_forcedReactions m))))] m"

text \<open>
  \<open>SendState\<close>: the faction itself, then every other faction that waits to be sent; the placeholder at
  \<open>p_count\<close> is overwritten with the number of pairs.
\<close>

definition state_fields :: "FactionState \<Rightarrow> field list" where
  "state_fields s = [U32 (fs_ReputationListID s), U32 (word_of_int (fs_Standing s))]"

definition ReputationMgr_SendState :: "RepListID \<Rightarrow> ReputationMgr \<Rightarrow> ReputationMgr" where
  "ReputationMgr_SendState k m =
     (case smap_find (m_factions m) k of
        None \<Rightarrow> m
      | Some faction \<Rightarrow>
          let others = filter (\<lambda>s. fs_needSend s \<and> fs_ReputationListID s \<noteq> fs_ReputationListID faction)
                         (map snd (m_factions m));
              count = 1 + of_nat (length others)
          in rep_emit [SendDirectMessage (Packet SMSG_SET_FACTION_STANDING
               ([F32 0, U8 0, U32 count] @ state_fields faction @ concat (map state_fields others)))]
               (m\<lparr>m_factions := map (\<lambda>(j, s). (j, s\<lparr>fs_needSend := False\<rparr>)) (m_factions m)\<rparr>))"

definition ReputationMgr_SendStates :: "ReputationMgr \<Rightarrow> ReputationMgr" where
  "ReputationMgr_SendStates m = fold ReputationMgr_SendState (map fst (m_factions m)) m"

definition ReputationMgr_SendVisible :: "rep_env \<Rightarrow> RepListID \<Rightarrow> ReputationMgr \<Rightarrow> ReputationMgr" where
  "ReputationMgr_SendVisible R k m =
     (case smap_find (m_factions m) k of
        None \<Rightarrow> m
      | Some faction \<Rightarrow>
          if re_PlayerLoading R then m
          else rep_emit [SendDirectMessage (Packet SMSG_SET_FACTION_VISIBLE [U32 (fs_ReputationListID faction)])] m)"

text \<open>
  \<open>SendInitialReputations\<close>: \<open>for (; a != k; a++)\<close> counts in \<open>uint32\<close>, so it ends for every \<open>k\<close>, after
  wrapping around when \<open>k\<close> is below \<open>a\<close>.
\<close>

definition absent_entry :: "field list" where
  "absent_entry = [U8 0x00, U32 0x00000000]"

definition state_entry :: "FactionState \<Rightarrow> field list" where
  "state_entry s = [U8 (fs_Flags s), U32 (word_of_int (fs_Standing s))]"

function fill_absent :: "RepListID \<Rightarrow> RepListID \<Rightarrow> field list" where
  "fill_absent a k = (if a = k then [] else absent_entry @ fill_absent (a + 1) k)"
  by pat_completeness auto

termination fill_absent
proof (relation "measure (\<lambda>(a, k). unat (k - a))")
  fix a k :: RepListID
  assume "a \<noteq> k"
  then have "k - a \<noteq> 0" by simp
  then have "unat (k - a - 1) < unat (k - a)" by (simp add: unat_minus_one unat_gt_0)
  then show "((a + 1, k), a, k) \<in> measure (\<lambda>(a, k). unat (k - a))" by (simp add: diff_diff_add)
qed simp

declare fill_absent.simps [simp del]

fun initial_loop :: "RepListID \<Rightarrow> (RepListID, FactionState) smap \<Rightarrow> field list" where
  "initial_loop a [] = fill_absent a 128"
| "initial_loop a ((k, s) # rest) = fill_absent a k @ state_entry s @ initial_loop (k + 1) rest"

definition ReputationMgr_SendInitialReputations :: "ReputationMgr \<Rightarrow> ReputationMgr" where
  "ReputationMgr_SendInitialReputations m =
     rep_emit [SendDirectMessage (Packet SMSG_INITIALIZE_FACTIONS (U32 0x00000080 # initial_loop 0 (m_factions m)))]
       (m\<lparr>m_factions := map (\<lambda>(j, s). (j, s\<lparr>fs_needSend := False\<rparr>)) (m_factions m)\<rparr>)"

section \<open>Changing\<close>

definition ReputationMgr_UpdateRankCounters :: "ReputationRank \<Rightarrow> ReputationRank \<Rightarrow> ReputationMgr \<Rightarrow> ReputationMgr" where
  "ReputationMgr_UpdateRankCounters old_rank new_rank m =
     (let ex = (if old_rank \<ge> REP_EXALTED then m_exaltedFactionCount m - 1 else m_exaltedFactionCount m);
          rv = (if old_rank \<ge> REP_REVERED then m_reveredFactionCount m - 1 else m_reveredFactionCount m);
          hn = (if old_rank \<ge> REP_HONORED then m_honoredFactionCount m - 1 else m_honoredFactionCount m)
      in m\<lparr>m_exaltedFactionCount := (if new_rank \<ge> REP_EXALTED then ex + 1 else ex),
           m_reveredFactionCount := (if new_rank \<ge> REP_REVERED then rv + 1 else rv),
           m_honoredFactionCount := (if new_rank \<ge> REP_HONORED then hn + 1 else hn)\<rparr>)"

text \<open>Writing through a pointer to a node of the map.\<close>

definition at_faction :: "RepListID \<Rightarrow> (FactionState \<Rightarrow> FactionState) \<Rightarrow> ReputationMgr \<Rightarrow> ReputationMgr" where
  "at_faction k f m =
     (case smap_find (m_factions m) k of
        None \<Rightarrow> m
      | Some s \<Rightarrow> m\<lparr>m_factions := smap_put k (f s) (m_factions m)\<rparr>)"

definition ReputationMgr_SetVisible_state :: "rep_env \<Rightarrow> RepListID \<Rightarrow> ReputationMgr \<Rightarrow> ReputationMgr" where
  "ReputationMgr_SetVisible_state R k m =
     (case smap_find (m_factions m) k of
        None \<Rightarrow> m
      | Some faction \<Rightarrow>
          if fs_Flags faction AND (FACTION_FLAG_INVISIBLE_FORCED OR FACTION_FLAG_HIDDEN) \<noteq> 0 \<and>
             fs_Flags faction AND FACTION_FLAG_SPECIAL = 0
          then m
          else if fs_Flags faction AND FACTION_FLAG_VISIBLE \<noteq> 0 then m
          else
            let m1 = at_faction k (\<lambda>s. s\<lparr>fs_Flags := fs_Flags s OR FACTION_FLAG_VISIBLE, fs_needSend := True,
                                         fs_needSave := True\<rparr>) m
            in ReputationMgr_SendVisible R k (m1\<lparr>m_visibleFactionCount := m_visibleFactionCount m1 + 1\<rparr>))"

definition ReputationMgr_SetVisible_entry :: "rep_env \<Rightarrow> FactionEntry \<Rightarrow> ReputationMgr \<Rightarrow> ReputationMgr" where
  "ReputationMgr_SetVisible_entry R e m =
     (if fe_reputationListID e < 0 then m
      else case smap_find (m_factions m) (list_key e) of
             None \<Rightarrow> m
           | Some _ \<Rightarrow> ReputationMgr_SetVisible_state R (list_key e) m)"

text \<open>The argument is the \<open>faction\<close> field of the template.\<close>

definition ReputationMgr_SetVisible_template :: "rep_env \<Rightarrow> uint32 \<Rightarrow> ReputationMgr \<Rightarrow> ReputationMgr" where
  "ReputationMgr_SetVisible_template R faction m =
     (if faction = 0 then m
      else case re_store R faction of
             None \<Rightarrow> m
           | Some e \<Rightarrow>
               if \<not> (fe_BaseRepRaceMask e ! 1 AND re_raceMask R \<noteq> 0 \<and> fe_BaseRepValue e ! 1 = Reputation_Bottom)
               then ReputationMgr_SetVisible_entry R e m else m)"

definition ReputationMgr_SetAtWar_state :: "RepListID \<Rightarrow> bool \<Rightarrow> ReputationMgr \<Rightarrow> ReputationMgr" where
  "ReputationMgr_SetAtWar_state k atWar m =
     at_faction k (\<lambda>s.
       if atWar \<and> fs_Flags s AND FACTION_FLAG_PEACE_FORCED \<noteq> 0 then s
       else if (fs_Flags s AND FACTION_FLAG_AT_WAR \<noteq> 0) = atWar then s
       else s\<lparr>fs_Flags := (if atWar then fs_Flags s OR FACTION_FLAG_AT_WAR
                           else fs_Flags s AND NOT FACTION_FLAG_AT_WAR),
              fs_needSend := True, fs_needSave := True\<rparr>) m"

definition ReputationMgr_SetAtWar :: "RepListID \<Rightarrow> bool \<Rightarrow> ReputationMgr \<Rightarrow> ReputationMgr" where
  "ReputationMgr_SetAtWar repListID on m =
     (case smap_find (m_factions m) repListID of
        None \<Rightarrow> m
      | Some s \<Rightarrow>
          if fs_Flags s AND (FACTION_FLAG_INVISIBLE_FORCED OR FACTION_FLAG_HIDDEN) \<noteq> 0 then m
          else ReputationMgr_SetAtWar_state repListID on m)"

definition ReputationMgr_SetInactive_state :: "RepListID \<Rightarrow> bool \<Rightarrow> ReputationMgr \<Rightarrow> ReputationMgr" where
  "ReputationMgr_SetInactive_state k inactive m =
     at_faction k (\<lambda>s.
       if inactive \<and> (fs_Flags s AND (FACTION_FLAG_INVISIBLE_FORCED OR FACTION_FLAG_HIDDEN) \<noteq> 0 \<or>
                       fs_Flags s AND FACTION_FLAG_VISIBLE = 0) then s
       else if (fs_Flags s AND FACTION_FLAG_INACTIVE \<noteq> 0) = inactive then s
       else s\<lparr>fs_Flags := (if inactive then fs_Flags s OR FACTION_FLAG_INACTIVE
                           else fs_Flags s AND NOT FACTION_FLAG_INACTIVE),
              fs_needSend := True, fs_needSave := True\<rparr>) m"

definition ReputationMgr_SetInactive :: "RepListID \<Rightarrow> bool \<Rightarrow> ReputationMgr \<Rightarrow> ReputationMgr" where
  "ReputationMgr_SetInactive repListID on m =
     (case smap_find (m_factions m) repListID of None \<Rightarrow> m | Some _ \<Rightarrow> ReputationMgr_SetInactive_state repListID on m)"

definition clamp_rep :: "int \<Rightarrow> int" where
  "clamp_rep standing =
     (if standing > Reputation_Cap then Reputation_Cap
      else if standing < Reputation_Bottom then Reputation_Bottom else standing)"

definition ReputationMgr_SetOneFactionReputation ::
  "rep_env \<Rightarrow> FactionEntry \<Rightarrow> int \<Rightarrow> bool \<Rightarrow> ReputationMgr \<Rightarrow> bool \<times> ReputationMgr" where
  "ReputationMgr_SetOneFactionReputation R e standing incremental m =
     (let k = list_key e in
      case smap_find (m_factions m) k of
        None \<Rightarrow> (False, m)
      | Some s \<Rightarrow>
          let BaseRep = ReputationMgr_GetBaseReputation R e;
              standing1 = (if incremental then wrap32 (re_gain R standing + wrap32 (fs_Standing s + BaseRep)) else standing);
              standing2 = clamp_rep standing1;
              old_rank = ReputationToRank (wrap32 (fs_Standing s + BaseRep));
              new_rank = ReputationToRank standing2;
              m1 = at_faction k (\<lambda>s. s\<lparr>fs_Standing := wrap32 (standing2 - BaseRep), fs_needSend := True,
                                        fs_needSave := True\<rparr>) m;
              m2 = ReputationMgr_SetVisible_state R k m1;
              m3 = (if new_rank \<le> REP_HOSTILE then ReputationMgr_SetAtWar_state k True m2 else m2);
              m4 = ReputationMgr_UpdateRankCounters old_rank new_rank m3
          in (True, rep_emit (ReputationChanged (fe_ID e) #
                map (\<lambda>c. UpdateAchievementCriteria c (fe_ID e))
                  [KNOWN_FACTIONS, GAIN_REPUTATION, GAIN_EXALTED_REPUTATION, GAIN_REVERED_REPUTATION,
                   GAIN_HONORED_REPUTATION]) m4))"

text \<open>
  The spillover of a template in the database: four slots, each with a rank above which it is not given.  The
  loader of the templates refuses a slot whose faction is not in the store, so the \<open>None\<close> branch stands for
  a dereference of \<open>NULL\<close> that cannot happen.
\<close>

definition spill_slot :: "rep_env \<Rightarrow> RepSpilloverTemplate \<Rightarrow> int \<Rightarrow> bool \<Rightarrow> nat \<Rightarrow> ReputationMgr \<Rightarrow> ReputationMgr" where
  "spill_slot R t standing incremental i m =
     (if st_faction t ! i \<noteq> 0 \<and> rank_value (Player_GetReputationRank R (st_faction t ! i) m) \<le> unat (st_faction_rank t ! i)
      then case re_store R (st_faction t ! i) of
             None \<Rightarrow> m
           | Some f \<Rightarrow> snd (ReputationMgr_SetOneFactionReputation R f
                         (re_int32 R (re_fmul R (re_float R standing) (st_faction_rate t ! i))) incremental m)
      else m)"

text \<open>One faction of an affiliation list; the flag is \<open>res\<close>.\<close>

definition spill_faction ::
  "rep_env \<Rightarrow> FactionEntry \<Rightarrow> float32 \<Rightarrow> bool \<Rightarrow> uint32 \<Rightarrow> bool \<times> ReputationMgr \<Rightarrow> bool \<times> ReputationMgr" where
  "spill_faction R e spillOverRepOut incremental fid = (\<lambda>(res, m).
     case re_store R fid of
       None \<Rightarrow> (res, m)
     | Some f \<Rightarrow>
         if fe_ID f = fe_ID e \<or> rank_value (ReputationMgr_GetRank R f m) > unat (fe_spilloverMaxRankIn f) then (res, m)
         else
           let spilloverRep = re_int32 R (re_fmul R spillOverRepOut (fe_spilloverRateIn f))
           in if spilloverRep \<noteq> 0 \<or> \<not> incremental
              then ReputationMgr_SetOneFactionReputation R f spilloverRep incremental m
              else (res, m))"

definition spill_by_dbc :: "rep_env \<Rightarrow> FactionEntry \<Rightarrow> int \<Rightarrow> bool \<Rightarrow> ReputationMgr \<Rightarrow> bool \<times> ReputationMgr" where
  "spill_by_dbc R e standing incremental m =
     (let flist = re_teamList R (fe_ID e);
          out = re_float R standing;
          (out1, flist1, m1) =
            (if flist = None \<and> fe_team e \<noteq> 0 \<and> re_nonzero R (fe_spilloverRateOut e) then
               let out1 = re_fmul R out (fe_spilloverRateOut e) in
               case re_store R (fe_team e) of
                 None \<Rightarrow> (out1, flist, m)
               | Some parent \<Rightarrow>
                   (case smap_find (m_factions m) (list_key parent) of
                      Some ps \<Rightarrow>
                        if fs_Flags ps AND FACTION_FLAG_SPECIAL \<noteq> 0
                        then (out1, flist, snd (ReputationMgr_SetOneFactionReputation R parent (re_int32 R out1) incremental m))
                        else (out1, re_teamList R (fe_team e), m)
                    | None \<Rightarrow> (out1, re_teamList R (fe_team e), m))
             else (out, flist, m))
      in case flist1 of
           None \<Rightarrow> (False, m1)
         | Some fs \<Rightarrow> fold (spill_faction R e out1 incremental) fs (False, m1))"

definition ReputationMgr_SetReputation :: "rep_env \<Rightarrow> FactionEntry \<Rightarrow> int \<Rightarrow> bool \<Rightarrow> ReputationMgr \<Rightarrow> bool \<times> ReputationMgr" where
  "ReputationMgr_SetReputation R e standing incremental m =
     (let m0 = rep_emit [OnPlayerReputationChange (fe_ID e) standing incremental] m;
          (res, m1) = (case re_spillover R (fe_ID e) of
             Some t \<Rightarrow> (False, fold (spill_slot R t standing incremental) [0..<4] m0)
           | None \<Rightarrow> spill_by_dbc R e standing incremental m0)
      in case smap_find (m_factions m1) (list_key e) of
           None \<Rightarrow> (res, m1)
         | Some _ \<Rightarrow>
             let (res2, m2) = ReputationMgr_SetOneFactionReputation R e standing incremental m1
             in (res2, ReputationMgr_SendState (list_key e) m2))"

section \<open>Loading and saving\<close>

definition init_row :: "rep_env \<Rightarrow> nat \<Rightarrow> ReputationMgr \<Rightarrow> ReputationMgr" where
  "init_row R i m =
     (case re_store R (of_nat i) of
        None \<Rightarrow> m
      | Some e \<Rightarrow>
          if fe_reputationListID e < 0 then m
          else
            let s = \<lparr>fs_ID = fe_ID e, fs_ReputationListID = list_key e,
                     fs_Flags = ucast (ReputationMgr_GetDefaultStateFlags R e), fs_Standing = 0,
                     fs_needSend = True, fs_needSave = True\<rparr>;
                m1 = (if fs_Flags s AND FACTION_FLAG_VISIBLE \<noteq> 0
                      then m\<lparr>m_visibleFactionCount := m_visibleFactionCount m + 1\<rparr> else m);
                m2 = ReputationMgr_UpdateRankCounters REP_HOSTILE (ReputationMgr_GetBaseRank R e) m1
            in m2\<lparr>m_factions := smap_put (fs_ReputationListID s) s (m_factions m2)\<rparr>)"

definition ReputationMgr_Initialize :: "rep_env \<Rightarrow> ReputationMgr \<Rightarrow> ReputationMgr" where
  "ReputationMgr_Initialize R m =
     fold (init_row R) [1..<unat (re_numRows R)]
       (m\<lparr>m_factions := [], m_visibleFactionCount := 0, m_honoredFactionCount := 0, m_reveredFactionCount := 0,
          m_exaltedFactionCount := 0\<rparr>)"

text \<open>A row of the query: faction (\<open>GetUInt16\<close>), standing (\<open>GetUInt32\<close>) and flags (\<open>GetUInt16\<close>).\<close>

type_synonym rep_row = "uint16 \<times> uint32 \<times> uint16"

definition load_row :: "rep_env \<Rightarrow> rep_row \<Rightarrow> ReputationMgr \<Rightarrow> ReputationMgr" where
  "load_row R row m =
     (case row of (faction, standing, flags) \<Rightarrow>
      case re_store R (ucast faction) of
        None \<Rightarrow> m
      | Some e \<Rightarrow>
          if fe_reputationListID e < 0 then m
          else
            let k = list_key e;
                dbFactionFlags = (ucast flags :: uint32);
                m1 = m\<lparr>m_factions := smap_modify FactionState_zero k (\<lambda>s. s\<lparr>fs_Standing := sint standing\<rparr>) (m_factions m)\<rparr>;
                BaseRep = ReputationMgr_GetBaseReputation R e;
                m2 = ReputationMgr_UpdateRankCounters (ReputationToRank BaseRep)
                       (ReputationToRank (wrap32 (BaseRep + sint standing))) m1;
                m3 = (if dbFactionFlags AND ucast FACTION_FLAG_VISIBLE \<noteq> 0 then ReputationMgr_SetVisible_state R k m2 else m2);
                m4 = (if dbFactionFlags AND ucast FACTION_FLAG_INACTIVE \<noteq> 0 then ReputationMgr_SetInactive_state k True m3 else m3);
                m5 = (if dbFactionFlags AND ucast FACTION_FLAG_AT_WAR \<noteq> 0 then ReputationMgr_SetAtWar_state k True m4
                      else if fs_Flags (smap_at FactionState_zero (m_factions m4) k) AND FACTION_FLAG_VISIBLE \<noteq> 0
                      then ReputationMgr_SetAtWar_state k False m4 else m4);
                m6 = (if ReputationMgr_GetRank R e m5 \<le> REP_HOSTILE then ReputationMgr_SetAtWar_state k True m5 else m5)
            in at_faction k (\<lambda>s. if ucast (fs_Flags s) = dbFactionFlags
                                 then s\<lparr>fs_needSend := False, fs_needSave := False\<rparr> else s) m6)"

definition ReputationMgr_LoadFromDB :: "rep_env \<Rightarrow> rep_row list \<Rightarrow> ReputationMgr \<Rightarrow> ReputationMgr" where
  "ReputationMgr_LoadFromDB R rows m = fold (load_row R) rows (ReputationMgr_Initialize R m)"

definition ReputationMgr_SaveToDB :: "ReputationMgr \<Rightarrow> ReputationMgr" where
  "ReputationMgr_SaveToDB m =
     rep_emit (concat (map (\<lambda>(k, s). if fs_needSave s
         then [SqlDeleteReputation (fs_ID s), SqlInsertReputation (fs_ID s) (fs_Standing s) (fs_Flags s)] else [])
         (m_factions m)))
       (m\<lparr>m_factions := map (\<lambda>(k, s). (k, s\<lparr>fs_needSave := False\<rparr>)) (m_factions m)\<rparr>)"

definition ReputationMgr_new :: ReputationMgr where
  "ReputationMgr_new = \<lparr>m_factions = [], m_forcedReactions = [], m_visibleFactionCount = 0, m_honoredFactionCount = 0,
     m_reveredFactionCount = 0, m_exaltedFactionCount = 0, rm_log = []\<rparr>"

section \<open>Messages of the client\<close>

definition HandleSetFactionAtWar :: "'z ByteBuffer_scheme \<Rightarrow> ReputationMgr \<Rightarrow> bb_error + ReputationMgr" where
  "HandleSetFactionAtWar recv_data m =
     bindE (in_u32 recv_data) (\<lambda>(repListID, d0).
     bindE (in_u8 d0) (\<lambda>(flag, d1). Inr (ReputationMgr_SetAtWar repListID (flag \<noteq> 0) m)))"

definition HandleSetFactionInactiveOpcode :: "'z ByteBuffer_scheme \<Rightarrow> ReputationMgr \<Rightarrow> bb_error + ReputationMgr" where
  "HandleSetFactionInactiveOpcode recv_data m =
     bindE (in_u32 recv_data) (\<lambda>(replistid, d0).
     bindE (in_u8 d0) (\<lambda>(inactive, d1). Inr (ReputationMgr_SetInactive replistid (inactive \<noteq> 0) m)))"

end
