(* ===== verification/Reputation_Props.thy ===== *)
theory Reputation_Props
  imports Reputation
begin

text \<open>
  Properties of the reputation manager.  What one change of one faction must keep is the contract
  \<open>rep_contract\<close>; spillover, client messages and whole histories then keep it as well.  The contract is
  discharged for four invariants: the achievement counters, the range of standings, forced peace, and the
  agreement of saved factions with the database.
\<close>

section \<open>Operations as steps\<close>

datatype rep_op =
    RepSet FactionEntry int bool | RepVisible uint32 | RepVisibleEntry FactionEntry | RepAtWar RepListID bool
  | RepInactive RepListID bool | RepForce uint32 ReputationRank bool | RepSendForced | RepSendInitial
  | RepSendStates | RepSave

fun rep_step :: "rep_env \<Rightarrow> rep_op \<Rightarrow> ReputationMgr \<Rightarrow> ReputationMgr" where
  "rep_step R (RepSet e st inc) m = snd (ReputationMgr_SetReputation R e st inc m)"
| "rep_step R (RepVisible f) m = ReputationMgr_SetVisible_template R f m"
| "rep_step R (RepVisibleEntry e) m = ReputationMgr_SetVisible_entry R e m"
| "rep_step R (RepAtWar k on) m = ReputationMgr_SetAtWar k on m"
| "rep_step R (RepInactive k on) m = ReputationMgr_SetInactive k on m"
| "rep_step R (RepForce f r b) m = ReputationMgr_ApplyForceReaction f r b m"
| "rep_step R RepSendForced m = ReputationMgr_SendForceReactions m"
| "rep_step R RepSendInitial m = ReputationMgr_SendInitialReputations m"
| "rep_step R RepSendStates m = ReputationMgr_SendStates m"
| "rep_step R RepSave m = ReputationMgr_SaveToDB m"

text \<open>Reputation is set for factions of the store.\<close>

fun rep_guard :: "rep_env \<Rightarrow> rep_op \<Rightarrow> ReputationMgr \<Rightarrow> bool" where
  "rep_guard R (RepSet e st inc) m = (re_store R (fe_ID e) = Some e)"
| "rep_guard R _ m = True"

fun is_sql :: "rep_event \<Rightarrow> bool" where
  "is_sql (SqlDeleteReputation _) = True"
| "is_sql (SqlInsertReputation _ _ _) = True"
| "is_sql _ = False"

definition sent :: "ReputationMgr \<Rightarrow> ReputationMgr" where
  "sent m = m\<lparr>m_factions := map (\<lambda>(j, s). (j, s\<lparr>fs_needSend := False\<rparr>)) (m_factions m)\<rparr>"

section \<open>The contract\<close>

locale rep_contract =
  fixes R :: rep_env and Q :: "ReputationMgr \<Rightarrow> bool"
  assumes emit: "Q m \<Longrightarrow> (\<forall>x \<in> set es. \<not> is_sql x) \<Longrightarrow> Q (rep_emit es m)"
    and one: "Q m \<Longrightarrow> re_store R i = Some e \<Longrightarrow> Q (snd (ReputationMgr_SetOneFactionReputation R e st inc m))"
    and visible: "Q m \<Longrightarrow> Q (ReputationMgr_SetVisible_state R k m)"
    and at_war: "Q m \<Longrightarrow> Q (ReputationMgr_SetAtWar_state k b m)"
    and inactive: "Q m \<Longrightarrow> Q (ReputationMgr_SetInactive_state k b m)"
    and is_sent: "Q m \<Longrightarrow> Q (sent m)"
    and forced: "Q m \<Longrightarrow> Q (m\<lparr>m_forcedReactions := f\<rparr>)"
    and saved: "Q m \<Longrightarrow> Q (ReputationMgr_SaveToDB m)"
begin



lemma send_state: "Q m \<Longrightarrow> Q (ReputationMgr_SendState k m)"
  using emit [OF is_sent [of m]]
  by (simp add: ReputationMgr_SendState_def Let_def sent_def split: option.split)

lemma slot: "Q m \<Longrightarrow> Q (spill_slot R t st inc i m)"
  by (simp add: spill_slot_def one split: option.split)

lemma slots: "Q m \<Longrightarrow> Q (fold (spill_slot R t st inc) xs m)"
  by (induction xs arbitrary: m) (simp_all add: slot)

lemma affiliated: "Q (snd x) \<Longrightarrow> Q (snd (spill_faction R e out inc fid x))"
  by (cases x) (simp add: spill_faction_def Let_def one split: option.split)

lemma affiliates: "Q (snd x) \<Longrightarrow> Q (snd (fold (spill_faction R e out inc) fs x))"
  by (induction fs arbitrary: x) (simp_all add: affiliated)

lemma by_dbc: "Q m \<Longrightarrow> Q (snd (spill_by_dbc R e st inc m))"
  by (auto simp: spill_by_dbc_def Let_def intro!: affiliates intro: one split: option.split)

lemma set_reputation:
  assumes q: "Q m" and e: "re_store R (fe_ID e) = Some e"
  shows "Q (snd (ReputationMgr_SetReputation R e st inc m))"
proof -
  have m0: "Q (rep_emit [OnPlayerReputationChange (fe_ID e) st inc] m)" by (rule emit [OF q]) simp
  show ?thesis
    unfolding ReputationMgr_SetReputation_def Let_def
    by (auto simp: case_prod_unfold intro!: send_state one [OF _ e] slots by_dbc m0 split: option.split)
qed

lemma send_states: "Q m \<Longrightarrow> Q (fold ReputationMgr_SendState ks m)"
  by (induction ks arbitrary: m) (simp_all add: send_state)

lemma step: "Q m \<Longrightarrow> rep_guard R op m \<Longrightarrow> Q (rep_step R op m)"
  by (cases op)
    (auto simp: set_reputation ReputationMgr_SetVisible_template_def ReputationMgr_SetVisible_entry_def visible
      ReputationMgr_SetAtWar_def at_war ReputationMgr_SetInactive_def inactive ReputationMgr_ApplyForceReaction_def
      forced ReputationMgr_SendForceReactions_def ReputationMgr_SendInitialReputations_def sent_def [symmetric] is_sent
      ReputationMgr_SendStates_def send_states saved intro!: emit split: option.split)

end

sublocale rep_contract \<subseteq> rep_history: guarded_system "rep_guard R" "rep_step R" Q
  by unfold_locales (rule step)

section \<open>Shape and counts\<close>

text \<open>
  The data the store must deliver: rows are found under their own number, which is not 0 and below the number of
  rows, base values are \<open>int32\<close>, and no two rows share a place in the client's list.
\<close>

definition store_ok :: "rep_env \<Rightarrow> bool" where
  "store_ok R \<longleftrightarrow>
     (\<forall>i e. re_store R i = Some e \<longrightarrow>
        fe_ID e = i \<and> 0 < i \<and> i < re_numRows R \<and> is_int32 (ReputationMgr_GetBaseReputation R e)) \<and>
     (\<forall>i j e e'. re_store R i = Some e \<longrightarrow> re_store R j = Some e' \<longrightarrow> fe_reputationListID e' \<ge> 0 \<longrightarrow>
        list_key e = list_key e' \<longrightarrow> e = e')"

lemma store_okD:
  assumes "store_ok R"
  shows "re_store R i = Some e \<Longrightarrow> fe_ID e = i"
    and "re_store R i = Some e \<Longrightarrow> 0 < i \<and> i < re_numRows R"
    and "re_store R i = Some e \<Longrightarrow> wrap32 (ReputationMgr_GetBaseReputation R e) = ReputationMgr_GetBaseReputation R e"
    and "re_store R i = Some e \<Longrightarrow> re_store R j = Some e' \<Longrightarrow> fe_reputationListID e' \<ge> 0 \<Longrightarrow>
      list_key e = list_key e' \<Longrightarrow> e = e'"
  using assms wrap32_id unfolding store_ok_def by blast+

definition listed :: "rep_env \<Rightarrow> RepListID \<Rightarrow> FactionState \<Rightarrow> bool" where
  "listed R k s \<longleftrightarrow> fs_ReputationListID s = k \<and>
     (case re_store R (fs_ID s) of None \<Rightarrow> False | Some e \<Rightarrow> fe_reputationListID e \<ge> 0 \<and> list_key e = k)"

definition state_rank :: "rep_env \<Rightarrow> FactionState \<Rightarrow> ReputationRank" where
  "state_rank R s = (case re_store R (fs_ID s) of None \<Rightarrow> ReputationToRank 0
     | Some e \<Rightarrow> ReputationToRank (wrap32 (fs_Standing s + ReputationMgr_GetBaseReputation R e)))"

definition is_visible :: "FactionState \<Rightarrow> bool" where
  "is_visible s \<longleftrightarrow> fs_Flags s AND FACTION_FLAG_VISIBLE \<noteq> 0"

definition shape :: "rep_env \<Rightarrow> ReputationMgr \<Rightarrow> bool" where
  "shape R m \<longleftrightarrow> store_ok R \<and> smap_ok (m_factions m) \<and> (\<forall>k s. smap_find (m_factions m) k = Some s \<longrightarrow> listed R k s)"

definition num :: "(FactionState \<Rightarrow> bool) \<Rightarrow> ReputationMgr \<Rightarrow> uint8" where
  "num P m = of_nat (smap_count P (m_factions m))"

abbreviation num_rank :: "ReputationRank \<Rightarrow> rep_env \<Rightarrow> ReputationMgr \<Rightarrow> uint8" where
  "num_rank r R m \<equiv> num (\<lambda>s. r \<le> state_rank R s) m"

definition counters_ok :: "rep_env \<Rightarrow> ReputationMgr \<Rightarrow> bool" where
  "counters_ok R m \<longleftrightarrow> m_visibleFactionCount m = num is_visible m \<and>
     m_honoredFactionCount m = num_rank REP_HONORED R m \<and> m_reveredFactionCount m = num_rank REP_REVERED R m \<and>
     m_exaltedFactionCount m = num_rank REP_EXALTED R m"

definition counts_inv :: "rep_env \<Rightarrow> ReputationMgr \<Rightarrow> bool" where
  "counts_inv R m \<longleftrightarrow> shape R m \<and> counters_ok R m"

subsection \<open>Changes of one node\<close>

lemma find_at_faction:
  "smap_ok (m_factions m) \<Longrightarrow>
   smap_find (m_factions (at_faction k f m)) j =
     (if j = k then map_option f (smap_find (m_factions m) k) else smap_find (m_factions m) j)"
  by (auto simp: at_faction_def smap_simps split: option.split)

lemma ok_at_faction [simp]: "smap_ok (m_factions m) \<Longrightarrow> smap_ok (m_factions (at_faction k f m))"
  by (auto simp: at_faction_def smap_simps split: option.split)

lemma at_faction_fields [simp]:
  "m_visibleFactionCount (at_faction k f m) = m_visibleFactionCount m"
  "m_honoredFactionCount (at_faction k f m) = m_honoredFactionCount m"
  "m_reveredFactionCount (at_faction k f m) = m_reveredFactionCount m"
  "m_exaltedFactionCount (at_faction k f m) = m_exaltedFactionCount m"
  "rm_log (at_faction k f m) = rm_log m" "m_forcedReactions (at_faction k f m) = m_forcedReactions m"
  by (auto simp: at_faction_def split: option.split)

lemma shape_at_faction:
  assumes "shape R m" and "\<And>s. fs_ID (f s) = fs_ID s \<and> fs_ReputationListID (f s) = fs_ReputationListID s"
  shows "shape R (at_faction k f m)"
  using assms by (auto simp: shape_def find_at_faction listed_def)

lemma num_at_faction:
  assumes "smap_ok (m_factions m)"
  shows "num P (at_faction k f m) =
    (case smap_find (m_factions m) k of None \<Rightarrow> num P m | Some s \<Rightarrow> num P m - of_bool (P s) + of_bool (P (f s)))"
proof (cases "smap_find (m_factions m) k")
  case None
  then show ?thesis by (simp add: at_faction_def)
next
  case (Some s)
  with count_put [OF assms, of P k "f s"]
  have "smap_count P (smap_put k (f s) (m_factions m)) + of_bool (P s) = smap_count P (m_factions m) + of_bool (P (f s))"
    by simp
  then have "(of_nat (smap_count P (smap_put k (f s) (m_factions m))) :: uint8) + of_bool (P s) =
      of_nat (smap_count P (m_factions m)) + of_bool (P (f s))"
    by (metis of_nat_add of_nat_of_bool)
  then show ?thesis using Some by (simp add: num_def at_faction_def algebra_simps)
qed

lemma num_at_faction_same:
  assumes "smap_ok (m_factions m)" "\<And>s. P (f s) = P s"
  shows "num P (at_faction k f m) = num P m"
  by (simp add: num_at_faction [OF assms(1)] assms(2) split: option.split)

lemma state_rank_cong: "fs_ID s' = fs_ID s \<Longrightarrow> fs_Standing s' = fs_Standing s \<Longrightarrow> state_rank R s' = state_rank R s"
  by (simp add: state_rank_def split: option.split)

subsection \<open>Frames\<close>

lemma counts_frame [simp]:
  "counts_inv R (rep_emit es m) = counts_inv R m"
  "counts_inv R (m\<lparr>m_forcedReactions := f\<rparr>) = counts_inv R m"
  by (simp_all add: counts_inv_def shape_def counters_ok_def num_def rep_emit_def)

definition map_states :: "(FactionState \<Rightarrow> FactionState) \<Rightarrow> (RepListID, FactionState) smap \<Rightarrow> (RepListID, FactionState) smap" where
  "map_states f m = map (\<lambda>(k, s). (k, f s)) m"

lemma find_map_states: "smap_find (map_states f m) k = map_option f (smap_find m k)"
  by (induction m) (auto simp: map_states_def smap_find_def)

lemma ok_map_states [simp]: "smap_ok (map_states f m) = smap_ok m"
proof -
  have "map fst (map_states f m) = map fst m" by (induction m) (auto simp: map_states_def)
  then show ?thesis by (simp add: smap_ok_def)
qed

lemma count_map_states:
  assumes "\<And>s. P (f s) = P s"
  shows "smap_count P (map_states f m) = smap_count P m"
proof (induction m)
  case Nil
  then show ?case by (simp add: map_states_def)
next
  case (Cons e m)
  then show ?case using assms [of "snd e"] by (cases e) (simp add: map_states_def count_Cons)
qed

lemma map_states_intro:
  "sent m = m\<lparr>m_factions := map_states (\<lambda>s. s\<lparr>fs_needSend := False\<rparr>) (m_factions m)\<rparr>"
  "m_factions (ReputationMgr_SaveToDB m) = map_states (\<lambda>s. s\<lparr>fs_needSave := False\<rparr>) (m_factions m)"
  by (simp_all add: sent_def ReputationMgr_SaveToDB_def map_states_def rep_emit_def)

lemma counts_map_states:
  assumes "counts_inv R m" and "m_factions m' = map_states f (m_factions m)"
    and "\<And>s. fs_ID (f s) = fs_ID s \<and> fs_ReputationListID (f s) = fs_ReputationListID s \<and> fs_Standing (f s) = fs_Standing s \<and>
      fs_Flags (f s) = fs_Flags s"
    and "m_visibleFactionCount m' = m_visibleFactionCount m" "m_honoredFactionCount m' = m_honoredFactionCount m"
      "m_reveredFactionCount m' = m_reveredFactionCount m" "m_exaltedFactionCount m' = m_exaltedFactionCount m"
  shows "counts_inv R m'"
proof -
  have "num P m' = num P m" if "\<And>s. P (f s) = P s" for P
    using count_map_states [of P f, OF that] by (simp add: num_def assms(2))
  moreover have "is_visible (f s) = is_visible s" "state_rank R (f s) = state_rank R s" for s
    using assms(3) state_rank_cong [of "f s" s R] by (simp_all add: is_visible_def)
  moreover have "shape R m'"
    using assms(1-3) by (auto simp: counts_inv_def shape_def find_map_states listed_def)
  ultimately show ?thesis using assms(1,4-) by (simp add: counts_inv_def counters_ok_def)
qed

subsection \<open>The stages of a change\<close>

lemmas flag_defs = FACTION_FLAG_NONE_def FACTION_FLAG_VISIBLE_def FACTION_FLAG_AT_WAR_def FACTION_FLAG_HIDDEN_def
  FACTION_FLAG_INVISIBLE_FORCED_def FACTION_FLAG_PEACE_FORCED_def FACTION_FLAG_INACTIVE_def FACTION_FLAG_SPECIAL_def

text \<open>Each flag is one bit, so setting or clearing one does not touch the test of another.\<close>

lemma flag_bit:
  "w AND FACTION_FLAG_VISIBLE \<noteq> 0 \<longleftrightarrow> bit w 0" "w AND FACTION_FLAG_AT_WAR \<noteq> 0 \<longleftrightarrow> bit w 1"
  "w AND FACTION_FLAG_PEACE_FORCED \<noteq> 0 \<longleftrightarrow> bit w 4" "w AND FACTION_FLAG_INACTIVE \<noteq> 0 \<longleftrightarrow> bit w 5"
proof -
  have t: "w AND 2 ^ n \<noteq> 0 \<longleftrightarrow> bit w n" if "n < 8" for n
    using that by (simp add: and_exp_eq_0_iff_not_bit)
  from t [of 0] t [of 1] t [of 4] t [of 5]
  show "w AND FACTION_FLAG_VISIBLE \<noteq> 0 \<longleftrightarrow> bit w 0" "w AND FACTION_FLAG_AT_WAR \<noteq> 0 \<longleftrightarrow> bit w 1"
    "w AND FACTION_FLAG_PEACE_FORCED \<noteq> 0 \<longleftrightarrow> bit w 4" "w AND FACTION_FLAG_INACTIVE \<noteq> 0 \<longleftrightarrow> bit w 5"
    by (simp_all add: flag_defs)
qed

lemma flag_set_bit:
  "bit (w OR FACTION_FLAG_VISIBLE) n \<longleftrightarrow> bit w n \<or> n = 0"
  "bit (w OR FACTION_FLAG_AT_WAR) n \<longleftrightarrow> bit w n \<or> n = 1"
  "bit (w OR FACTION_FLAG_INACTIVE) n \<longleftrightarrow> bit w n \<or> n = 5"
  "bit (w AND NOT FACTION_FLAG_AT_WAR) n \<longleftrightarrow> bit w n \<and> n \<noteq> 1"
  "bit (w AND NOT FACTION_FLAG_INACTIVE) n \<longleftrightarrow> bit w n \<and> n \<noteq> 5"
proof -
  have b: "bit (FACTION_FLAG_VISIBLE) n \<longleftrightarrow> n = 0" "bit (FACTION_FLAG_AT_WAR) n \<longleftrightarrow> n = 1"
    "bit (FACTION_FLAG_INACTIVE) n \<longleftrightarrow> n = 5"
    using bit_exp_iff [where 'a = "8 word", of 0 n] bit_exp_iff [where 'a = "8 word", of 1 n]
      bit_exp_iff [where 'a = "8 word", of 5 n]
    by (auto simp: flag_defs)
  show "bit (w OR FACTION_FLAG_VISIBLE) n \<longleftrightarrow> bit w n \<or> n = 0"
    "bit (w OR FACTION_FLAG_AT_WAR) n \<longleftrightarrow> bit w n \<or> n = 1"
    "bit (w OR FACTION_FLAG_INACTIVE) n \<longleftrightarrow> bit w n \<or> n = 5"
    "bit (w AND NOT FACTION_FLAG_AT_WAR) n \<longleftrightarrow> bit w n \<and> n \<noteq> 1"
    "bit (w AND NOT FACTION_FLAG_INACTIVE) n \<longleftrightarrow> bit w n \<and> n \<noteq> 5"
    using bit_imp_le_length [of w n]
    by (auto simp: bit_or_iff bit_and_iff bit_not_iff b)
qed

lemmas flag_simps = is_visible_def flag_bit flag_set_bit

text \<open>Declaring war and hiding: only one flag of one node changes.\<close>

definition war_flag :: "bool \<Rightarrow> FactionState \<Rightarrow> FactionState" where
  "war_flag b s =
     (if b \<and> fs_Flags s AND FACTION_FLAG_PEACE_FORCED \<noteq> 0 then s
      else if (fs_Flags s AND FACTION_FLAG_AT_WAR \<noteq> 0) = b then s
      else s\<lparr>fs_Flags := (if b then fs_Flags s OR FACTION_FLAG_AT_WAR else fs_Flags s AND NOT FACTION_FLAG_AT_WAR),
             fs_needSend := True, fs_needSave := True\<rparr>)"

definition inactive_flag :: "bool \<Rightarrow> FactionState \<Rightarrow> FactionState" where
  "inactive_flag b s =
     (if b \<and> (fs_Flags s AND (FACTION_FLAG_INVISIBLE_FORCED OR FACTION_FLAG_HIDDEN) \<noteq> 0 \<or>
               fs_Flags s AND FACTION_FLAG_VISIBLE = 0) then s
      else if (fs_Flags s AND FACTION_FLAG_INACTIVE \<noteq> 0) = b then s
      else s\<lparr>fs_Flags := (if b then fs_Flags s OR FACTION_FLAG_INACTIVE else fs_Flags s AND NOT FACTION_FLAG_INACTIVE),
             fs_needSend := True, fs_needSave := True\<rparr>)"

definition visible_flag :: "FactionState \<Rightarrow> FactionState" where
  "visible_flag s =
     (if fs_Flags s AND (FACTION_FLAG_INVISIBLE_FORCED OR FACTION_FLAG_HIDDEN) \<noteq> 0 \<and>
         fs_Flags s AND FACTION_FLAG_SPECIAL = 0 then s
      else if fs_Flags s AND FACTION_FLAG_VISIBLE \<noteq> 0 then s
      else s\<lparr>fs_Flags := fs_Flags s OR FACTION_FLAG_VISIBLE, fs_needSend := True, fs_needSave := True\<rparr>)"

lemma as_node_updates:
  "ReputationMgr_SetAtWar_state k b m = at_faction k (war_flag b) m"
  "ReputationMgr_SetInactive_state k b m = at_faction k (inactive_flag b) m"
  by (simp_all add: ReputationMgr_SetAtWar_state_def ReputationMgr_SetInactive_state_def war_flag_def [abs_def]
      inactive_flag_def [abs_def])

lemma node_update_fields [simp]:
  "fs_ID (war_flag b s) = fs_ID s" "fs_ReputationListID (war_flag b s) = fs_ReputationListID s"
  "fs_Standing (war_flag b s) = fs_Standing s"
  "fs_ID (inactive_flag b s) = fs_ID s" "fs_ReputationListID (inactive_flag b s) = fs_ReputationListID s"
  "fs_Standing (inactive_flag b s) = fs_Standing s"
  "fs_ID (visible_flag s) = fs_ID s" "fs_ReputationListID (visible_flag s) = fs_ReputationListID s"
  "fs_Standing (visible_flag s) = fs_Standing s"
  by (simp_all add: war_flag_def inactive_flag_def visible_flag_def)

lemma node_update_rank [simp]:
  "state_rank R (war_flag b s) = state_rank R s" "state_rank R (inactive_flag b s) = state_rank R s"
  "state_rank R (visible_flag s) = state_rank R s"
  by (rule state_rank_cong; simp)+

lemma node_update_visible [simp]:
  "is_visible (war_flag b s) = is_visible s" "is_visible (inactive_flag b s) = is_visible s"
proof -
  show "is_visible (war_flag b s) = is_visible s" unfolding is_visible_def flag_bit by (simp add: war_flag_def flag_set_bit)
  show "is_visible (inactive_flag b s) = is_visible s"
    unfolding is_visible_def flag_bit by (simp add: inactive_flag_def flag_set_bit)
qed

text \<open>Making visible: the node, the counter and a packet.\<close>

definition newly_visible :: "RepListID \<Rightarrow> ReputationMgr \<Rightarrow> bool" where
  "newly_visible k m = (case smap_find (m_factions m) k of None \<Rightarrow> False
     | Some s \<Rightarrow> \<not> is_visible s \<and> is_visible (visible_flag s))"

lemma is_visible_visible_flag:
  "is_visible (visible_flag s) \<longleftrightarrow> is_visible s \<or>
     \<not> (fs_Flags s AND (FACTION_FLAG_INVISIBLE_FORCED OR FACTION_FLAG_HIDDEN) \<noteq> 0 \<and> fs_Flags s AND FACTION_FLAG_SPECIAL = 0)"
  unfolding is_visible_def flag_bit by (simp add: visible_flag_def flag_bit flag_set_bit)

lemma visible_flag_same: "is_visible s \<or> \<not> is_visible (visible_flag s) \<Longrightarrow> visible_flag s = s"
  unfolding is_visible_visible_flag by (auto simp: visible_flag_def is_visible_def)

lemma rep_emit_Nil [simp]: "rep_emit [] m = m"
  by (simp add: rep_emit_def)

lemma rep_emit_fields [simp]:
  "m_factions (rep_emit es m) = m_factions m" "m_visibleFactionCount (rep_emit es m) = m_visibleFactionCount m"
  "m_honoredFactionCount (rep_emit es m) = m_honoredFactionCount m"
  "m_reveredFactionCount (rep_emit es m) = m_reveredFactionCount m"
  "m_exaltedFactionCount (rep_emit es m) = m_exaltedFactionCount m" "rm_log (rep_emit es m) = rm_log m @ es"
  by (simp_all add: rep_emit_def)

lemma at_faction_same: "smap_ok (m_factions m) \<Longrightarrow> (\<And>s. smap_find (m_factions m) k = Some s \<Longrightarrow> f s = s) \<Longrightarrow> at_faction k f m = m"
  by (auto simp: at_faction_def put_same split: option.split)

lemma SetVisible_state_cases:
  assumes ok: "smap_ok (m_factions m)"
  obtains es where "\<forall>x \<in> set es. \<not> is_sql x" and "ReputationMgr_SetVisible_state R k m =
     rep_emit es ((at_faction k visible_flag m)
       \<lparr>m_visibleFactionCount := m_visibleFactionCount m + of_bool (newly_visible k m)\<rparr>)"
proof (cases "newly_visible k m")
  case True
  then obtain s where s: "smap_find (m_factions m) k = Some s" and v: "\<not> is_visible s" "is_visible (visible_flag s)"
    by (auto simp: newly_visible_def split: option.splits)
  then have c: "\<not> (fs_Flags s AND (FACTION_FLAG_INVISIBLE_FORCED OR FACTION_FLAG_HIDDEN) \<noteq> 0 \<and> fs_Flags s AND FACTION_FLAG_SPECIAL = 0)"
    "\<not> fs_Flags s AND FACTION_FLAG_VISIBLE \<noteq> 0"
    unfolding is_visible_visible_flag by (simp_all add: is_visible_def)
  then have f: "at_faction k visible_flag m = at_faction k (\<lambda>s. s\<lparr>fs_Flags := fs_Flags s OR FACTION_FLAG_VISIBLE,
      fs_needSend := True, fs_needSave := True\<rparr>) m"
    unfolding at_faction_def s by (auto simp: visible_flag_def)
  let ?m1 = "(at_faction k visible_flag m)\<lparr>m_visibleFactionCount := m_visibleFactionCount m + of_bool (newly_visible k m)\<rparr>"
  have set: "ReputationMgr_SetVisible_state R k m = ReputationMgr_SendVisible R k ?m1"
    using c True unfolding ReputationMgr_SetVisible_state_def s option.case Let_def f by auto
  obtain es where "\<forall>x \<in> set es. \<not> is_sql x" "ReputationMgr_SendVisible R k ?m1 = rep_emit es ?m1"
  proof (cases "smap_find (m_factions ?m1) k")
    case None
    then show thesis using that [of "[]"] by (simp add: ReputationMgr_SendVisible_def)
  next
    case (Some t)
    then show thesis
      using that [of "if re_PlayerLoading R then [] else
        [SendDirectMessage (Packet SMSG_SET_FACTION_VISIBLE [U32 (fs_ReputationListID t)])]"]
      by (simp add: ReputationMgr_SendVisible_def)
  qed
  then show thesis using that set by simp
next
  case False
  then have "at_faction k visible_flag m = m"
    by (intro at_faction_same [OF ok] visible_flag_same) (auto simp: newly_visible_def)
  moreover have "ReputationMgr_SetVisible_state R k m = m"
    using False unfolding newly_visible_def is_visible_visible_flag
    by (auto simp: ReputationMgr_SetVisible_state_def is_visible_def split: option.splits)
  ultimately show thesis using that [of "[]"] False by simp
qed

subsection \<open>The counters\<close>

lemma counts_at_faction:
  assumes inv: "counts_inv R m"
    and f: "\<And>s. fs_ID (f s) = fs_ID s \<and> fs_ReputationListID (f s) = fs_ReputationListID s \<and>
      fs_Standing (f s) = fs_Standing s \<and> is_visible (f s) = is_visible s"
  shows "counts_inv R (at_faction k f m)"
proof -
  have ok: "smap_ok (m_factions m)" using inv by (simp add: counts_inv_def shape_def)
  have "num_rank r R (at_faction k f m) = num_rank r R m" for r
    by (intro num_at_faction_same [OF ok]) (use f state_rank_cong in metis)
  moreover have "num is_visible (at_faction k f m) = num is_visible m" using f by (intro num_at_faction_same [OF ok]) simp
  ultimately show ?thesis
    using inv f shape_at_faction [of R m f k] by (simp add: counts_inv_def counters_ok_def)
qed

lemma visible_counts:
  assumes "shape R m" and vis: "m_visibleFactionCount m = num is_visible m"
    and m'_def: "m' = ReputationMgr_SetVisible_state R k m"
  shows "shape R m'" "m_visibleFactionCount m' = num is_visible m'" "num_rank r R m' = num_rank r R m"
    "m_honoredFactionCount m' = m_honoredFactionCount m" "m_reveredFactionCount m' = m_reveredFactionCount m"
    "m_exaltedFactionCount m' = m_exaltedFactionCount m"
proof -
  have ok: "smap_ok (m_factions m)" using assms(1) by (simp add: shape_def)
  obtain es where m': "m' = rep_emit es ((at_faction k visible_flag m)
       \<lparr>m_visibleFactionCount := m_visibleFactionCount m + of_bool (newly_visible k m)\<rparr>)"
    using SetVisible_state_cases [OF ok] unfolding m'_def by metis
  show "shape R m'"
    using shape_at_faction [OF assms(1), of visible_flag k] by (simp add: m' shape_def)
  have num: "num P m' = num P (at_faction k visible_flag m)" for P by (simp add: num_def m')
  show "num_rank r R m' = num_rank r R m"
    unfolding num by (intro num_at_faction_same [OF ok]) simp
  have "is_visible (visible_flag s) = is_visible s \<or> \<not> is_visible s" for s by (auto simp: is_visible_visible_flag)
  then show "m_visibleFactionCount m' = num is_visible m'"
    unfolding num num_at_faction [OF ok] by (auto simp: m' vis newly_visible_def split: option.split)
  show "m_honoredFactionCount m' = m_honoredFactionCount m" "m_reveredFactionCount m' = m_reveredFactionCount m"
    "m_exaltedFactionCount m' = m_exaltedFactionCount m" by (simp_all add: m')
qed

lemma clamp_range: "Reputation_Bottom \<le> clamp_rep x \<and> clamp_rep x \<le> Reputation_Cap"
  by (simp add: clamp_rep_def Reputation_Bottom_def Reputation_Cap_def)

lemma clamp_int32 [simp]: "wrap32 (clamp_rep x) = clamp_rep x"
  using clamp_range [of x] by (intro wrap32_id) (simp add: is_int32_def Reputation_Bottom_def Reputation_Cap_def)

lemma wrap32_sub_add [simp]: "wrap32 (wrap32 (x - y) + y) = wrap32 x"
  by simp

text \<open>The entry of a node is the entry whose list place it has.\<close>

lemma shape_entry:
  assumes "shape R m" "re_store R i = Some e" "smap_find (m_factions m) (list_key e) = Some s"
  shows "re_store R (fs_ID s) = Some e"
proof -
  have st: "store_ok R" using assms(1) by (simp add: shape_def)
  have "listed R (list_key e) s" using assms(1,3) by (simp add: shape_def)
  then obtain e' where e': "re_store R (fs_ID s) = Some e'" "fe_reputationListID e' \<ge> 0" "list_key e' = list_key e"
    by (auto simp: listed_def split: option.splits)
  then have "e = e'" using store_okD(4) [OF st assms(2) e'(1)] by simp
  with e' show ?thesis by simp
qed

lemma one_counts:
  assumes inv: "counts_inv R m" and e: "re_store R i = Some e"
  shows "counts_inv R (snd (ReputationMgr_SetOneFactionReputation R e standing inc m))"
proof (cases "smap_find (m_factions m) (list_key e)")
  case None
  then show ?thesis using inv by (simp add: ReputationMgr_SetOneFactionReputation_def)
next
  case (Some s)
  have sh: "shape R m" and cnt: "counters_ok R m" using inv by (simp_all add: counts_inv_def)
  then have ok: "smap_ok (m_factions m)" by (simp add: shape_def)
  note entry = shape_entry [OF sh e Some]
  let ?k = "list_key e" and ?B = "ReputationMgr_GetBaseReputation R e"
  let ?x = "clamp_rep (if inc then wrap32 (re_gain R standing + wrap32 (fs_Standing s + ?B)) else standing)"
  let ?f = "\<lambda>s. s\<lparr>fs_Standing := wrap32 (?x - ?B), fs_needSend := True, fs_needSave := True\<rparr>"
  let ?old = "ReputationToRank (wrap32 (fs_Standing s + ?B))" and ?new = "ReputationToRank ?x"
  let ?m1 = "at_faction ?k ?f m"
  let ?m2 = "ReputationMgr_SetVisible_state R ?k ?m1"
  let ?m3 = "if ?new \<le> REP_HOSTILE then ReputationMgr_SetAtWar_state ?k True ?m2 else ?m2"
  let ?m4 = "ReputationMgr_UpdateRankCounters ?old ?new ?m3"
  have sh1: "shape R ?m1" by (rule shape_at_faction [OF sh]) simp
  have vis1: "m_visibleFactionCount ?m1 = num is_visible ?m1"
    using cnt num_at_faction_same [OF ok, of is_visible ?f ?k] by (simp add: counters_ok_def is_visible_def)
  have "state_rank R s = ?old" "state_rank R (?f s) = ?new" by (simp_all add: state_rank_def entry)
  then have rank1: "num_rank r R ?m1 = num_rank r R m - of_bool (r \<le> ?old) + of_bool (r \<le> ?new)" for r
    by (simp only: num_at_faction [OF ok] Some option.case)
  note v = visible_counts [OF sh1 vis1 refl, where k = ?k]
  have ok2: "smap_ok (m_factions ?m2)" using v(1) by (simp add: shape_def)
  have rank3: "num_rank r R ?m3 = num_rank r R ?m2" for r
    using num_at_faction_same [OF ok2, of "\<lambda>s. r \<le> state_rank R s" "war_flag True" ?k]
    by (simp add: as_node_updates)
  have vis3: "num is_visible ?m3 = num is_visible ?m2"
    using num_at_faction_same [OF ok2, of is_visible "war_flag True" ?k] by (simp add: as_node_updates)
  have sh3: "shape R ?m3" using v(1) shape_at_faction [OF v(1), of "war_flag True" ?k] by (simp add: as_node_updates)
  have num4: "num P ?m4 = num P ?m3" for P by (simp add: num_def ReputationMgr_UpdateRankCounters_def Let_def)
  have "shape R ?m4" using sh3 by (simp add: shape_def ReputationMgr_UpdateRankCounters_def Let_def)
  moreover have "counters_ok R ?m4"
    unfolding counters_ok_def num4 rank3 vis3 v(3) rank1
    using v(2,4-6) cnt by (simp add: counters_ok_def ReputationMgr_UpdateRankCounters_def Let_def as_node_updates)
  ultimately have "counts_inv R ?m4" by (simp only: counts_inv_def simp_thms)
  then show ?thesis
    unfolding ReputationMgr_SetOneFactionReputation_def Let_def Some option.case snd_conv by (simp only: counts_frame(1))
qed

lemma visible_counts_inv: "counts_inv R m \<Longrightarrow> counts_inv R (ReputationMgr_SetVisible_state R k m)"
  using visible_counts [of R m "ReputationMgr_SetVisible_state R k m" k]
  by (simp add: counts_inv_def counters_ok_def)

interpretation counts: rep_contract R "counts_inv R" for R
proof
  show "counts_inv R (ReputationMgr_SetAtWar_state k b m)" "counts_inv R (ReputationMgr_SetInactive_state k b m)"
    if "counts_inv R m" for k b m
    unfolding as_node_updates by (rule counts_at_faction [OF that]; simp)+
  show "counts_inv R (sent m)" if "counts_inv R m" for m
    by (rule counts_map_states [OF that, where f = "\<lambda>s. s\<lparr>fs_needSend := False\<rparr>"]) (simp_all add: map_states_intro)
  show "counts_inv R (ReputationMgr_SaveToDB m)" if "counts_inv R m" for m
    by (rule counts_map_states [OF that, where f = "\<lambda>s. s\<lparr>fs_needSave := False\<rparr>"])
      (simp_all add: map_states_intro, simp_all add: ReputationMgr_SaveToDB_def)
qed (simp_all add: one_counts visible_counts_inv)

lemma UpdateRankCounters_factions [simp]:
  "m_factions (ReputationMgr_UpdateRankCounters a b m) = m_factions m"
  "rm_log (ReputationMgr_UpdateRankCounters a b m) = rm_log m"
  by (simp_all add: ReputationMgr_UpdateRankCounters_def Let_def)

section \<open>Laws of single factions\<close>

text \<open>A property of nodes that every write to a node keeps holds of all nodes through every operation.\<close>

definition each_node :: "rep_env \<Rightarrow> (FactionState \<Rightarrow> bool) \<Rightarrow> ReputationMgr \<Rightarrow> bool" where
  "each_node R P m \<longleftrightarrow> shape R m \<and> (\<forall>k s. smap_find (m_factions m) k = Some s \<longrightarrow> P s)"

locale node_law =
  fixes R :: rep_env and P :: "FactionState \<Rightarrow> bool"
  assumes war: "P s \<Longrightarrow> P (war_flag b s)"
    and hidden: "P s \<Longrightarrow> P (inactive_flag b s)"
    and shown: "P s \<Longrightarrow> P (visible_flag s)"
    and unsent: "P s \<Longrightarrow> P (s\<lparr>fs_needSend := False\<rparr>)"
    and unsaved: "P s \<Longrightarrow> P (s\<lparr>fs_needSave := False\<rparr>)"
    and standing: "P s \<Longrightarrow> re_store R (fs_ID s) = Some e \<Longrightarrow>
      P (s\<lparr>fs_Standing := wrap32 (clamp_rep x - ReputationMgr_GetBaseReputation R e), fs_needSend := True, fs_needSave := True\<rparr>)"
begin

lemma node_update:
  assumes "each_node R P m"
    and "\<And>s. fs_ID (f s) = fs_ID s \<and> fs_ReputationListID (f s) = fs_ReputationListID s"
    and "\<And>s. smap_find (m_factions m) k = Some s \<Longrightarrow> P s \<Longrightarrow> P (f s)"
  shows "each_node R P (at_faction k f m)"
proof -
  have ok: "smap_ok (m_factions m)" using assms(1) by (simp add: each_node_def shape_def)
  show ?thesis
    using assms(1,3) shape_at_faction [of R m f k] assms(2) by (auto simp: each_node_def find_at_faction [OF ok])
qed

lemma frame: "m_factions m' = m_factions m \<Longrightarrow> each_node R P m' = each_node R P m"
  by (simp add: each_node_def shape_def)

lemma nodes: "each_node R P m \<Longrightarrow> m_factions m' = map_states f (m_factions m) \<Longrightarrow>
    (\<And>s. fs_ID (f s) = fs_ID s \<and> fs_ReputationListID (f s) = fs_ReputationListID s) \<Longrightarrow> (\<And>s. P s \<Longrightarrow> P (f s)) \<Longrightarrow>
    each_node R P m'"
  by (auto simp: each_node_def shape_def find_map_states listed_def)

lemma visible_node:
  assumes "each_node R P m"
  shows "each_node R P (ReputationMgr_SetVisible_state R k m)"
proof -
  have ok: "smap_ok (m_factions m)" using assms by (simp add: each_node_def shape_def)
  obtain es where "ReputationMgr_SetVisible_state R k m = rep_emit es ((at_faction k visible_flag m)
       \<lparr>m_visibleFactionCount := m_visibleFactionCount m + of_bool (newly_visible k m)\<rparr>)"
    using SetVisible_state_cases [OF ok] by metis
  then have "m_factions (ReputationMgr_SetVisible_state R k m) = m_factions (at_faction k visible_flag m)" by simp
  moreover have "each_node R P (at_faction k visible_flag m)" by (rule node_update [OF assms]) (simp_all add: shown)
  ultimately show ?thesis using frame by metis
qed

lemma one_node:
  assumes q: "each_node R P m" and e: "re_store R i = Some e"
  shows "each_node R P (snd (ReputationMgr_SetOneFactionReputation R e st inc m))"
proof (cases "smap_find (m_factions m) (list_key e)")
  case None
  then show ?thesis using q by (simp add: ReputationMgr_SetOneFactionReputation_def)
next
  case (Some s)
  have sh: "shape R m" using q by (simp add: each_node_def)
  note entry = shape_entry [OF sh e Some]
  let ?B = "ReputationMgr_GetBaseReputation R e"
  let ?x = "if inc then wrap32 (re_gain R st + wrap32 (fs_Standing s + ?B)) else st"
  let ?f = "\<lambda>s. s\<lparr>fs_Standing := wrap32 (clamp_rep ?x - ?B), fs_needSend := True, fs_needSave := True\<rparr>"
  let ?m2 = "ReputationMgr_SetVisible_state R (list_key e) (at_faction (list_key e) ?f m)"
  have "each_node R P (at_faction (list_key e) ?f m)"
    by (rule node_update [OF q]) (use Some entry standing in auto)
  then have 2: "each_node R P ?m2" by (rule visible_node)
  then have "each_node R P (at_faction (list_key e) (war_flag True) ?m2)" by (rule node_update) (simp_all add: war)
  with 2 have "each_node R P (if c then ReputationMgr_SetAtWar_state (list_key e) True ?m2 else ?m2)" for c
    by (simp add: as_node_updates)
  then show ?thesis
    unfolding ReputationMgr_SetOneFactionReputation_def Let_def Some option.case snd_conv
    by (simp only: frame [of "rep_emit _ _" "ReputationMgr_UpdateRankCounters _ _ _"] rep_emit_fields
        frame [of "ReputationMgr_UpdateRankCounters _ _ m'" m' for m'] UpdateRankCounters_factions)
qed

end

sublocale node_law \<subseteq> rep_contract R "each_node R P"
proof
  show "each_node R P (ReputationMgr_SetAtWar_state k b m)" "each_node R P (ReputationMgr_SetInactive_state k b m)"
    if "each_node R P m" for k b m
    unfolding as_node_updates by (rule node_update [OF that]; simp add: war hidden)+
  show "each_node R P (sent m)" if "each_node R P m" for m
    by (rule nodes [OF that, where f = "\<lambda>s. s\<lparr>fs_needSend := False\<rparr>"]) (simp_all add: map_states_intro unsent)
  show "each_node R P (ReputationMgr_SaveToDB m)" if "each_node R P m" for m
    by (rule nodes [OF that, where f = "\<lambda>s. s\<lparr>fs_needSave := False\<rparr>"]) (simp_all add: map_states_intro unsaved)
  show "each_node R P (rep_emit es m)" "each_node R P (m\<lparr>m_forcedReactions := f\<rparr>)" if "each_node R P m" for es f m
    using that frame [of "rep_emit es m" m] frame [of "m\<lparr>m_forcedReactions := f\<rparr>" m] by simp_all
qed (simp_all add: one_node visible_node)

end
