(* ===== verification/Reputation_Load.thy ===== *)
theory Reputation_Load
  imports Reputation_Props
begin

text \<open>
  What a manager that was just loaded satisfies, and the properties of whole histories: loading, then any
  sequence of changes, client requests and saves.
\<close>

section \<open>Initialisation\<close>

text \<open>After the rows below \<open>n\<close>: the nodes are those of the listed rows below \<open>n\<close>, with standing 0.\<close>

definition inited :: "rep_env \<Rightarrow> nat \<Rightarrow> ReputationMgr \<Rightarrow> bool" where
  "inited R n m \<longleftrightarrow> counts_inv R m \<and>
     (\<forall>k s. smap_find (m_factions m) k = Some s \<longrightarrow> unat (fs_ID s) < n \<and> fs_Standing s = 0 \<and> fs_needSave s \<and>
        (\<exists>e. re_store R (fs_ID s) = Some e \<and> fs_Flags s = ucast (ReputationMgr_GetDefaultStateFlags R e))) \<and>
     (\<forall>i e. re_store R i = Some e \<longrightarrow> unat i < n \<longrightarrow> fe_reputationListID e \<ge> 0 \<longrightarrow>
        smap_find (m_factions m) (list_key e) \<noteq> None)"

lemma num_put_absent:
  "smap_ok (m_factions m) \<Longrightarrow> smap_find (m_factions m) k = None \<Longrightarrow> m_factions m' = smap_put k s (m_factions m) \<Longrightarrow>
   num P m' = num P m + of_bool (P s)"
  using count_put [of "m_factions m" P k s] by (simp add: num_def)

lemma unat_index: "unat i = n \<Longrightarrow> i = of_nat n"
  by auto

lemma unat_small: "n < 2 ^ 32 \<Longrightarrow> unat (of_nat n :: uint32) = n"
  by (simp add: unat_of_nat take_bit_nat_eq_self)

lemma init_row_inited:
  assumes st: "store_ok R" and n: "n < 2 ^ 32" and inv: "inited R n m"
  shows "inited R (Suc n) (init_row R n m)"
proof (cases "re_store R (of_nat n)")
  case None
  with inv n show ?thesis
    by (auto simp: init_row_def inited_def less_Suc_eq dest: unat_index)
next
  case (Some e)
  show ?thesis
  proof (cases "fe_reputationListID e < 0")
    case True
    with Some inv n show ?thesis
      by (auto simp: init_row_def inited_def less_Suc_eq dest: unat_index)
  next
    case False
    let ?k = "list_key e"
    let ?s = "\<lparr>fs_ID = fe_ID e, fs_ReputationListID = ?k, fs_Flags = ucast (ReputationMgr_GetDefaultStateFlags R e),
      fs_Standing = 0, fs_needSend = True, fs_needSave = True\<rparr>"
    have id: "fe_ID e = of_nat n" "re_store R (fe_ID e) = Some e" using store_okD(1) [OF st Some] Some by simp_all
    have sh: "shape R m" and ok: "smap_ok (m_factions m)" and cnt: "counters_ok R m"
      using inv by (simp_all add: inited_def counts_inv_def shape_def)
    have absent: "smap_find (m_factions m) ?k = None"
    proof (rule ccontr)
      assume "smap_find (m_factions m) ?k \<noteq> None"
      then obtain s where s: "smap_find (m_factions m) ?k = Some s" by auto
      from shape_entry [OF sh id(2) s] store_okD(1) [OF st] have "fs_ID s = fe_ID e" by simp
      moreover have "unat (fs_ID s) < n" using inv s by (simp add: inited_def)
      ultimately show False using n by (simp add: id unat_small)
    qed
    have fac: "m_factions (init_row R n m) = smap_put ?k ?s (m_factions m)"
      using Some False by (simp add: init_row_def Let_def)
    have num: "num P (init_row R n m) = num P m + of_bool (P ?s)" for P
      by (rule num_put_absent [OF ok absent fac])
    have "state_rank R ?s = ReputationMgr_GetBaseRank R e"
      using store_okD(3) [OF st Some] by (simp add: state_rank_def id(2) ReputationMgr_GetBaseRank_def)
    then have "counters_ok R (init_row R n m)"
      unfolding counters_ok_def num using cnt Some False
      by (simp add: counters_ok_def init_row_def Let_def ReputationMgr_UpdateRankCounters_def rank_order is_visible_def)
    moreover have "shape R (init_row R n m)"
      using sh False id by (auto simp: shape_def fac smap_simps listed_def split: if_splits)
    ultimately have "counts_inv R (init_row R n m)" by (simp add: counts_inv_def)
    with inv n False Some id show ?thesis
      by (auto simp: inited_def fac smap_simps ok less_Suc_eq unat_small dest: unat_index split: if_splits)
  qed
qed

lemma Initialize_inited:
  assumes st: "store_ok R"
  shows "inited R (unat (re_numRows R)) (ReputationMgr_Initialize R m)"
proof -
  let ?m0 = "m\<lparr>m_factions := [], m_visibleFactionCount := 0, m_honoredFactionCount := 0, m_reveredFactionCount := 0,
    m_exaltedFactionCount := 0\<rparr>"
  have "\<not> unat i < 1" if "re_store R i = Some e" for i e
    using store_okD(2) [OF st that] by (simp add: word_less_nat_alt)
  then have 1: "inited R 1 ?m0"
    unfolding inited_def by (simp add: st counts_inv_def shape_def counters_ok_def num_def) fastforce
  have "inited R n (fold (init_row R) [1..<n] ?m0)" if "1 \<le> n" "n \<le> 2 ^ 32" for n
    using that
  proof (induction n rule: dec_induct)
    case base
    then show ?case using 1 by simp
  next
    case (step n)
    then show ?case using init_row_inited [OF st, of n] by simp
  qed
  moreover have "inited R 0 ?m0" by (auto simp: st inited_def counts_inv_def shape_def counters_ok_def num_def)
  moreover have "unat (re_numRows R) \<le> 2 ^ 32" using unsigned_less [of "re_numRows R", where 'a = nat] by simp
  ultimately show ?thesis
    by (cases "unat (re_numRows R) = 0") (simp_all add: ReputationMgr_Initialize_def)
qed

section \<open>Loading the rows\<close>

text \<open>Operations on one node that leave identity and standing of every node alone.\<close>

definition same_standings :: "ReputationMgr \<Rightarrow> ReputationMgr \<Rightarrow> bool" where
  "same_standings m m' \<longleftrightarrow> smap_ok (m_factions m') \<and> (\<forall>k. map_option (\<lambda>s. (fs_ID s, fs_Standing s)) (smap_find (m_factions m') k)
     = map_option (\<lambda>s. (fs_ID s, fs_Standing s)) (smap_find (m_factions m) k))"

lemma same_standings_refl: "smap_ok (m_factions m) \<Longrightarrow> same_standings m m"
  by (simp add: same_standings_def)

lemma same_standings_at_faction:
  assumes "same_standings a m" "\<And>s. fs_ID (f s) = fs_ID s \<and> fs_Standing (f s) = fs_Standing s"
  shows "same_standings a (at_faction k f m)"
  using assms by (auto simp: same_standings_def find_at_faction option.map_comp comp_def)

lemma same_standings_visible:
  assumes "same_standings a m"
  shows "same_standings a (ReputationMgr_SetVisible_state R k m)"
proof -
  have ok: "smap_ok (m_factions m)" using assms by (simp add: same_standings_def)
  obtain es where "ReputationMgr_SetVisible_state R k m = rep_emit es ((at_faction k visible_flag m)
       \<lparr>m_visibleFactionCount := m_visibleFactionCount m + of_bool (newly_visible k m)\<rparr>)"
    using SetVisible_state_cases [OF ok] by metis
  then have "m_factions (ReputationMgr_SetVisible_state R k m) = m_factions (at_faction k visible_flag m)" by simp
  moreover have "same_standings a (at_faction k visible_flag m)" by (rule same_standings_at_faction [OF assms]) simp
  ultimately show ?thesis by (simp add: same_standings_def)
qed

text \<open>
  The parts of a row's processing: the standing with its counters, then flags, then the marks that nothing has to
  be sent or saved.
\<close>

definition load_standing :: "rep_env \<Rightarrow> FactionEntry \<Rightarrow> int \<Rightarrow> ReputationMgr \<Rightarrow> ReputationMgr" where
  "load_standing R e x m =
     ReputationMgr_UpdateRankCounters (ReputationToRank (ReputationMgr_GetBaseReputation R e))
       (ReputationToRank (wrap32 (ReputationMgr_GetBaseReputation R e + x)))
       (at_faction (list_key e) (\<lambda>s. s\<lparr>fs_Standing := x\<rparr>) m)"

definition load_flags :: "rep_env \<Rightarrow> FactionEntry \<Rightarrow> uint32 \<Rightarrow> ReputationMgr \<Rightarrow> ReputationMgr" where
  "load_flags R e dbFactionFlags m =
     (let k = list_key e;
          m3 = (if dbFactionFlags AND ucast FACTION_FLAG_VISIBLE \<noteq> 0 then ReputationMgr_SetVisible_state R k m else m);
          m4 = (if dbFactionFlags AND ucast FACTION_FLAG_INACTIVE \<noteq> 0 then ReputationMgr_SetInactive_state k True m3 else m3);
          m5 = (if dbFactionFlags AND ucast FACTION_FLAG_AT_WAR \<noteq> 0 then ReputationMgr_SetAtWar_state k True m4
                else if fs_Flags (smap_at FactionState_zero (m_factions m4) k) AND FACTION_FLAG_VISIBLE \<noteq> 0
                then ReputationMgr_SetAtWar_state k False m4 else m4)
      in (if ReputationMgr_GetRank R e m5 \<le> REP_HOSTILE then ReputationMgr_SetAtWar_state k True m5 else m5))"

definition unmark :: "uint32 \<Rightarrow> FactionState \<Rightarrow> FactionState" where
  "unmark dbFactionFlags s =
     (if ucast (fs_Flags s) = dbFactionFlags then s\<lparr>fs_needSend := False, fs_needSave := False\<rparr> else s)"

lemma unmark_fields [simp]:
  "fs_ID (unmark d s) = fs_ID s" "fs_ReputationListID (unmark d s) = fs_ReputationListID s"
  "fs_Standing (unmark d s) = fs_Standing s" "fs_Flags (unmark d s) = fs_Flags s" "is_visible (unmark d s) = is_visible s"
  by (simp_all add: unmark_def is_visible_def)

lemma load_row_split:
  assumes "re_store R (ucast f) = Some e" "fe_reputationListID e \<ge> 0" "smap_find (m_factions m) (list_key e) = Some s"
  shows "load_row R (f, x, fl) m =
    at_faction (list_key e) (unmark (ucast fl)) (load_flags R e (ucast fl) (load_standing R e (sint x) m))"
proof -
  have m1: "m\<lparr>m_factions := smap_modify FactionState_zero (list_key e) (\<lambda>s. s\<lparr>fs_Standing := sint x\<rparr>) (m_factions m)\<rparr> =
      at_faction (list_key e) (\<lambda>s. s\<lparr>fs_Standing := sint x\<rparr>) m"
    using assms(3) by (simp add: at_faction_def smap_modify_def)
  show ?thesis
    unfolding load_row_def prod.case assms(1) option.case Let_def m1 load_flags_def load_standing_def unmark_def [abs_def]
    using assms(2) by simp
qed

lemma load_flags_keeps:
  assumes "Q m"
    and "\<And>m. Q m \<Longrightarrow> Q (ReputationMgr_SetVisible_state R (list_key e) m)"
    and "\<And>b m. Q m \<Longrightarrow> Q (ReputationMgr_SetInactive_state (list_key e) b m)"
    and "\<And>b m. Q m \<Longrightarrow> Q (ReputationMgr_SetAtWar_state (list_key e) b m)"
  shows "Q (load_flags R e fl m)"
  unfolding load_flags_def Let_def using assms by (simp split: if_split)

lemma load_standing_counts:
  assumes inv: "counts_inv R m" and e: "re_store R i = Some e"
    and s: "smap_find (m_factions m) (list_key e) = Some s" "fs_Standing s = 0"
  shows "counts_inv R (load_standing R e x m)"
proof -
  let ?f = "\<lambda>s. s\<lparr>fs_Standing := x\<rparr>" and ?B = "ReputationMgr_GetBaseReputation R e"
  let ?m1 = "at_faction (list_key e) ?f m"
  have sh: "shape R m" and cnt: "counters_ok R m" and ok: "smap_ok (m_factions m)"
    using inv by (simp_all add: counts_inv_def shape_def)
  have st: "store_ok R" using sh by (simp add: shape_def)
  note entry = shape_entry [OF sh e s(1)]
  have "state_rank R s = ReputationToRank ?B" "state_rank R (?f s) = ReputationToRank (wrap32 (?B + x))"
    using store_okD(3) [OF st e] s(2) by (simp_all add: state_rank_def entry add.commute)
  then have rank: "num_rank r R ?m1 = num_rank r R m - of_bool (r \<le> ReputationToRank ?B) + of_bool (r \<le> ReputationToRank (wrap32 (?B + x)))" for r
    by (simp only: num_at_faction [OF ok] s(1) option.case)
  have vis: "num is_visible ?m1 = num is_visible m" by (rule num_at_faction_same [OF ok]) (simp add: is_visible_def)
  have num: "num P (load_standing R e x m) = num P ?m1" for P by (simp add: load_standing_def num_def)
  have "counters_ok R (load_standing R e x m)"
    unfolding counters_ok_def num rank vis using cnt
    by (simp add: counters_ok_def load_standing_def ReputationMgr_UpdateRankCounters_def Let_def)
  moreover have "shape R (load_standing R e x m)"
    using shape_at_faction [OF sh, of ?f "list_key e"] by (simp add: shape_def load_standing_def)
  ultimately show ?thesis by (simp add: counts_inv_def)
qed

text \<open>While rows are loaded: factions without a row so far have standing 0, and every listed row has a node.\<close>

definition loading :: "rep_env \<Rightarrow> uint32 set \<Rightarrow> ReputationMgr \<Rightarrow> bool" where
  "loading R F m \<longleftrightarrow> counts_inv R m \<and>
     (\<forall>k s. smap_find (m_factions m) k = Some s \<longrightarrow> fs_ID s \<notin> F \<longrightarrow> fs_Standing s = 0) \<and>
     (\<forall>i e. re_store R i = Some e \<longrightarrow> fe_reputationListID e \<ge> 0 \<longrightarrow> smap_find (m_factions m) (list_key e) \<noteq> None)"

lemma inited_loading:
  assumes "store_ok R"
  shows "loading R {} (ReputationMgr_Initialize R m)"
  using Initialize_inited [OF assms, of m] store_okD(2) [OF assms]
  by (auto simp: loading_def inited_def word_less_nat_alt)

lemma loading_same:
  assumes "loading R F m" "same_standings m m'" "counts_inv R m'"
  shows "loading R F m'"
proof -
  have eq: "map_option (\<lambda>s. (fs_ID s, fs_Standing s)) (smap_find (m_factions m') k) =
      map_option (\<lambda>s. (fs_ID s, fs_Standing s)) (smap_find (m_factions m) k)" for k
    using assms(2) by (simp add: same_standings_def)
  have "fs_Standing s' = 0" if "smap_find (m_factions m') k = Some s'" "fs_ID s' \<notin> F" for k s'
    using eq [of k] that assms(1) by (cases "smap_find (m_factions m) k") (auto simp: loading_def)
  moreover have "smap_find (m_factions m') k \<noteq> None" if "smap_find (m_factions m) k \<noteq> None" for k
    using eq [of k] that by auto
  ultimately show ?thesis using assms(1,3) by (auto simp: loading_def)
qed

lemma ucast_up_inj: "(ucast (a :: uint16) :: uint32) = ucast b \<Longrightarrow> a = b"
proof -
  have "unat (ucast x :: uint32) = unat x" for x :: uint16
    using unsigned_less [of x, where 'a = nat] by (simp add: unsigned_ucast_eq take_bit_nat_eq_self)
  then show "ucast a = (ucast b :: uint32) \<Longrightarrow> a = b" by (metis word_unat_eq_iff)
qed

lemma load_row_loading:
  assumes st: "store_ok R" and ld: "loading R F m" and new: "(ucast f :: uint32) \<notin> F"
  shows "loading R (insert (ucast f) F) (load_row R (f, x, fl) m)"
proof (cases "\<exists>e. re_store R (ucast f) = Some e \<and> fe_reputationListID e \<ge> 0")
  case False
  then have "load_row R (f, x, fl) m = m" by (auto simp: load_row_def split: option.split)
  with ld show ?thesis by (simp add: loading_def)
next
  case True
  then obtain e where e: "re_store R (ucast f) = Some e" "fe_reputationListID e \<ge> 0" by blast
  then have "smap_find (m_factions m) (list_key e) \<noteq> None" using ld unfolding loading_def by blast
  then obtain s where s: "smap_find (m_factions m) (list_key e) = Some s" by blast
  have id: "fe_ID e = ucast f" using store_okD(1) [OF st e(1)] .
  have inv: "counts_inv R m" and ok: "smap_ok (m_factions m)"
    using ld by (simp_all add: loading_def counts_inv_def shape_def)
  have "fs_ID s = ucast f"
    using store_okD(1) [OF st shape_entry [OF _ e(1) s]] inv id by (simp add: counts_inv_def)
  with ld s new have zero: "fs_Standing s = 0" by (auto simp: loading_def)
  let ?m2 = "load_standing R e (sint x) m" and ?m6 = "load_flags R e (ucast fl) (load_standing R e (sint x) m)"
  have c2: "counts_inv R ?m2" by (rule load_standing_counts [OF inv e(1) s zero])
  have f2: "m_factions ?m2 = m_factions (at_faction (list_key e) (\<lambda>s. s\<lparr>fs_Standing := sint x\<rparr>) m)"
    by (simp add: load_standing_def)
  have l2: "loading R (insert (ucast f) F) ?m2"
    using ld c2 \<open>fs_ID s = ucast f\<close> s
    by (auto simp: loading_def f2 find_at_faction [OF ok] split: if_splits)
  have "smap_ok (m_factions ?m2)" using c2 by (simp add: counts_inv_def shape_def)
  with c2 have 6: "counts_inv R ?m6 \<and> same_standings ?m2 ?m6"
    by (intro load_flags_keeps [where Q = "\<lambda>m'. counts_inv R m' \<and> same_standings ?m2 m'"])
      (simp_all add: same_standings_refl visible_counts_inv same_standings_visible as_node_updates
        counts_at_faction same_standings_at_faction)
  let ?m7 = "at_faction (list_key e) (unmark (ucast fl)) ?m6"
  have "counts_inv R ?m7" "same_standings ?m2 ?m7"
    using 6 by (auto intro!: counts_at_faction same_standings_at_faction)
  from loading_same [OF l2 this(2,1)] load_row_split [OF e s] show ?thesis by simp
qed

lemma LoadFromDB_loading:
  assumes st: "store_ok R" and rows: "distinct (map fst rows)"
  shows "loading R (set (map (ucast \<circ> fst) rows)) (ReputationMgr_LoadFromDB R rows m)"
proof -
  have "loading R (F \<union> set (map (ucast \<circ> fst) rows)) (fold (load_row R) rows m)"
    if "loading R F m" "distinct (map fst rows)" "\<forall>r \<in> set rows. ucast (fst r) \<notin> F" for F m
    using that
  proof (induction rows arbitrary: F m)
    case Nil
    then show ?case by simp
  next
    case (Cons r rows)
    obtain f x fl where r: "r = (f, x, fl)" by (cases r)
    have "ucast (fst q) \<noteq> (ucast f :: uint32)" if "q \<in> set rows" for q
      using that Cons.prems(2) ucast_up_inj by (force simp: r image_iff)
    then show ?case
      using Cons.IH [of "insert (ucast f) F" "load_row R r m"] load_row_loading [OF st Cons.prems(1), of f x fl] Cons.prems
      by (simp add: r)
  qed
  from this [OF inited_loading [OF st] rows] show ?thesis by (simp add: ReputationMgr_LoadFromDB_def)
qed

lemma loading_counts: "loading R F m \<Longrightarrow> counts_inv R m"
  by (simp add: loading_def)

section \<open>Laws of nodes through loading\<close>

context node_law
begin

lemma load_row_node:
  assumes q: "each_node R P m" and ld: "loading R F m"
    and ok: "\<And>s e. re_store R (ucast f) = Some e \<Longrightarrow> fs_ID s = ucast f \<Longrightarrow> P s \<Longrightarrow> P (s\<lparr>fs_Standing := sint x\<rparr>)"
  shows "each_node R P (load_row R (f, x, fl) m)"
proof (cases "\<exists>e. re_store R (ucast f) = Some e \<and> fe_reputationListID e \<ge> 0")
  case False
  then have "load_row R (f, x, fl) m = m" by (auto simp: load_row_def split: option.split)
  with q show ?thesis by simp
next
  case True
  then obtain e where e: "re_store R (ucast f) = Some e" "fe_reputationListID e \<ge> 0" by blast
  then have "smap_find (m_factions m) (list_key e) \<noteq> None" using ld unfolding loading_def by blast
  then obtain s where s: "smap_find (m_factions m) (list_key e) = Some s" by blast
  have st: "store_ok R" using q by (simp add: each_node_def shape_def)
  have "fs_ID s = ucast f"
    using store_okD(1) [OF st shape_entry [OF _ e(1) s]] store_okD(1) [OF st e(1)] q by (simp add: each_node_def)
  with ok e s have "each_node R P (at_faction (list_key e) (\<lambda>s. s\<lparr>fs_Standing := sint x\<rparr>) m)"
    by (intro node_update [OF q]) auto
  moreover have "m_factions (load_standing R e (sint x) m) = m_factions (at_faction (list_key e) (\<lambda>s. s\<lparr>fs_Standing := sint x\<rparr>) m)"
    by (simp add: load_standing_def)
  ultimately have "each_node R P (load_standing R e (sint x) m)" using frame by metis
  then have "each_node R P (load_flags R e (ucast fl) (load_standing R e (sint x) m))"
    by (intro load_flags_keeps [where Q = "each_node R P"]) (simp_all add: visible inactive at_war)
  then have "each_node R P (at_faction (list_key e) (unmark (ucast fl)) (load_flags R e (ucast fl) (load_standing R e (sint x) m)))"
  proof (rule node_update)
    show "P (unmark (ucast fl) s)" if "P s" for s
      using unsaved [OF unsent [OF that]] that by (simp add: unmark_def)
  qed simp
  then show ?thesis by (simp add: load_row_split [OF e s])
qed

lemma LoadFromDB_node:
  assumes init: "each_node R P (ReputationMgr_Initialize R m)" and rows: "distinct (map fst rows)"
    and ok: "\<And>f x fl e s. (f, x, fl) \<in> set rows \<Longrightarrow> re_store R (ucast f) = Some e \<Longrightarrow> fs_ID s = ucast f \<Longrightarrow> P s \<Longrightarrow>
      P (s\<lparr>fs_Standing := sint x\<rparr>)"
  shows "each_node R P (ReputationMgr_LoadFromDB R rows m)"
proof -
  have store: "store_ok R" using init by (simp add: each_node_def shape_def)
  have "each_node R P (fold (load_row R) rs m)"
    if "each_node R P m" "loading R F m" "distinct (map fst rs)" "\<forall>r \<in> set rs. ucast (fst r) \<notin> F" "set rs \<subseteq> set rows" for rs F m
    using that
  proof (induction rs arbitrary: F m)
    case Nil
    then show ?case by simp
  next
    case (Cons r rs)
    obtain f x fl where r: "r = (f, x, fl)" by (cases r)
    have "ucast (fst q) \<noteq> (ucast f :: uint32)" if "q \<in> set rs" for q
      using that Cons.prems(3) ucast_up_inj by (force simp: r image_iff)
    moreover have "each_node R P (load_row R (f, x, fl) m)"
      by (rule load_row_node [OF Cons.prems(1,2)]) (use ok Cons.prems(5) r in auto)
    moreover have "loading R (insert (ucast f) F) (load_row R (f, x, fl) m)"
      using load_row_loading [OF store Cons.prems(2)] Cons.prems(4) by (simp add: r)
    ultimately show ?case using Cons.IH [of "load_row R r m" "insert (ucast f) F"] Cons.prems by (simp add: r)
  qed
  from this [OF init inited_loading [OF store] rows] show ?thesis by (simp add: ReputationMgr_LoadFromDB_def)
qed

end

section \<open>Forced peace and the range of standings\<close>

definition at_peace :: "FactionState \<Rightarrow> bool" where
  "at_peace s \<longleftrightarrow> \<not> (fs_Flags s AND FACTION_FLAG_PEACE_FORCED \<noteq> 0 \<and> fs_Flags s AND FACTION_FLAG_AT_WAR \<noteq> 0)"

interpretation peace: node_law R at_peace for R
proof
  show "at_peace (war_flag b s)" if "at_peace s" for b s
    using that unfolding at_peace_def flag_bit by (auto simp: war_flag_def flag_bit flag_set_bit)
  show "at_peace (inactive_flag b s)" if "at_peace s" for b s
    using that unfolding at_peace_def flag_bit by (auto simp: inactive_flag_def flag_bit flag_set_bit)
  show "at_peace (visible_flag s)" if "at_peace s" for s
    using that unfolding at_peace_def flag_bit by (auto simp: visible_flag_def flag_bit flag_set_bit)
qed (simp_all add: at_peace_def)

definition in_range :: "rep_env \<Rightarrow> FactionState \<Rightarrow> bool" where
  "in_range R s \<longleftrightarrow> (case re_store R (fs_ID s) of None \<Rightarrow> True
     | Some e \<Rightarrow> wrap32 (ReputationMgr_GetBaseReputation R e + fs_Standing s) \<in> {Reputation_Bottom..Reputation_Cap})"

interpretation range: node_law R "in_range R" for R
proof
  show "in_range R (s\<lparr>fs_Standing := wrap32 (clamp_rep x - ReputationMgr_GetBaseReputation R e), fs_needSend := True,
      fs_needSave := True\<rparr>)" if "re_store R (fs_ID s) = Some e" for s e x
    using clamp_range [of x] that by (simp add: in_range_def add.commute)
qed (simp_all add: in_range_def split: option.splits)

lemma Initialize_nodes:
  assumes "store_ok R" and "\<And>i e s. re_store R i = Some e \<Longrightarrow> fs_ID s = i \<Longrightarrow> fs_Standing s = 0 \<Longrightarrow>
      fs_Flags s = ucast (ReputationMgr_GetDefaultStateFlags R e) \<Longrightarrow> P s"
  shows "each_node R P (ReputationMgr_Initialize R m)"
  using Initialize_inited [OF assms(1), of m] assms(2) unfolding inited_def each_node_def counts_inv_def by blast

end
