(* ===== verification/Reputation_Db.thy ===== *)
theory Reputation_Db
  imports Reputation_Load
begin

text \<open>
  The rows of \<open>character_reputation\<close> and the marks \<open>needSave\<close>: a faction that is not marked has its row.
\<close>

section \<open>The table\<close>

type_synonym rep_table = "uint32 \<Rightarrow> (int \<times> uint8) option"

fun rep_sql :: "rep_event \<Rightarrow> rep_table \<Rightarrow> rep_table" where
  "rep_sql (SqlDeleteReputation f) T = T(f := None)"
| "rep_sql (SqlInsertReputation f x fl) T = T(f := Some (x, fl))"
| "rep_sql _ T = T"

definition table_after :: "rep_table \<Rightarrow> rep_event list \<Rightarrow> rep_table" where
  "table_after T es = fold rep_sql es T"

lemma table_after_simps [simp]:
  "table_after T [] = T" "table_after T (es @ fs) = table_after (table_after T es) fs"
  "table_after T (e # es) = table_after (rep_sql e T) es"
  by (simp_all add: table_after_def)

lemma table_quiet: "\<forall>x \<in> set es. \<not> is_sql x \<Longrightarrow> table_after T es = T"
proof (induction es)
  case (Cons e es)
  then show ?case by (cases e) auto
qed simp

text \<open>The rows a query returns, as a table.\<close>

definition rows_table :: "rep_row list \<Rightarrow> rep_table" where
  "rows_table rows = map_of (map (\<lambda>(f, x, fl). (ucast f, (sint x, ucast fl))) rows)"

definition in_table :: "rep_table \<Rightarrow> FactionState \<Rightarrow> bool" where
  "in_table T s \<longleftrightarrow> fs_needSave s \<or> T (fs_ID s) = Some (fs_Standing s, fs_Flags s)"

definition saved_inv :: "rep_env \<Rightarrow> rep_table \<Rightarrow> ReputationMgr \<Rightarrow> bool" where
  "saved_inv R T m \<longleftrightarrow> each_node R (in_table (table_after T (rm_log m))) m"

section \<open>Every change is marked\<close>

lemma flags_marked:
  "in_table T s \<Longrightarrow> in_table T (war_flag b s)" "in_table T s \<Longrightarrow> in_table T (inactive_flag b s)"
  "in_table T s \<Longrightarrow> in_table T (visible_flag s)"
  by (auto simp: in_table_def war_flag_def inactive_flag_def visible_flag_def)

lemma each_node_at_faction:
  assumes "each_node R P m"
    and "\<And>s. fs_ID (f s) = fs_ID s \<and> fs_ReputationListID (f s) = fs_ReputationListID s"
    and "\<And>s. P s \<Longrightarrow> P (f s)"
  shows "each_node R P (at_faction k f m)"
proof -
  have ok: "smap_ok (m_factions m)" using assms(1) by (simp add: each_node_def shape_def)
  show ?thesis
    using assms(1,3) shape_at_faction [of R m f k] assms(2) by (auto simp: each_node_def find_at_faction [OF ok])
qed

lemma saved_at_faction:
  assumes "saved_inv R T m"
    and "\<And>s. fs_ID (f s) = fs_ID s \<and> fs_ReputationListID (f s) = fs_ReputationListID s"
    and "\<And>T s. in_table T s \<Longrightarrow> in_table T (f s)"
  shows "saved_inv R T (at_faction k f m)"
  using assms each_node_at_faction [of R "in_table (table_after T (rm_log m))" m f k] by (simp add: saved_inv_def)

lemma rep_saved_frame: "m_factions m' = m_factions m \<Longrightarrow> table_after T (rm_log m') = table_after T (rm_log m) \<Longrightarrow>
    saved_inv R T m' = saved_inv R T m"
  by (simp add: saved_inv_def each_node_def shape_def)

lemma saved_emit: "saved_inv R T m \<Longrightarrow> \<forall>x \<in> set es. \<not> is_sql x \<Longrightarrow> saved_inv R T (rep_emit es m)"
  using rep_saved_frame [of "rep_emit es m" m T R] by (simp add: table_quiet)

lemma saved_visible:
  assumes "saved_inv R T m"
  shows "saved_inv R T (ReputationMgr_SetVisible_state R k m)"
proof -
  have ok: "smap_ok (m_factions m)" using assms by (simp add: saved_inv_def each_node_def shape_def)
  obtain es where es: "\<forall>x \<in> set es. \<not> is_sql x" and v: "ReputationMgr_SetVisible_state R k m =
     rep_emit es ((at_faction k visible_flag m)
       \<lparr>m_visibleFactionCount := m_visibleFactionCount m + of_bool (newly_visible k m)\<rparr>)" (is "_ = rep_emit es ?m1")
    by (rule SetVisible_state_cases [OF ok])
  have "saved_inv R T (at_faction k visible_flag m)" by (rule saved_at_faction [OF assms]) (simp_all add: flags_marked)
  then have "saved_inv R T ?m1" using rep_saved_frame [of ?m1 "at_faction k visible_flag m" T R] by simp
  then show ?thesis unfolding v by (rule saved_emit [OF _ es])
qed

lemma saved_one:
  assumes inv: "saved_inv R T m"
  shows "saved_inv R T (snd (ReputationMgr_SetOneFactionReputation R e x inc m))"
proof (cases "smap_find (m_factions m) (list_key e)")
  case None
  then show ?thesis using inv by (simp add: ReputationMgr_SetOneFactionReputation_def)
next
  case (Some s)
  have m1: "saved_inv R T (at_faction k (\<lambda>s. s\<lparr>fs_Standing := y, fs_needSend := True, fs_needSave := True\<rparr>) m)" for k y
    by (rule saved_at_faction [OF inv]) (simp_all add: in_table_def)
  have m3: "saved_inv R T (if c then ReputationMgr_SetAtWar_state k True m' else m')" if "saved_inv R T m'" for c k m'
    using that by (simp add: as_node_updates saved_at_faction flags_marked)
  have m4: "saved_inv R T (ReputationMgr_UpdateRankCounters a b m')" if "saved_inv R T m'" for a b m'
    using that rep_saved_frame [of "ReputationMgr_UpdateRankCounters a b m'" m' T R] by simp
  show ?thesis
    unfolding ReputationMgr_SetOneFactionReputation_def Let_def Some option.case snd_conv
    by (intro saved_emit m4 m3 saved_visible m1) simp
qed

section \<open>Saving\<close>

lemma save_rows_other:
  "f \<notin> fs_ID ` snd ` set m \<Longrightarrow>
   table_after T (concat (map (\<lambda>(k, s). if fs_needSave s
      then [SqlDeleteReputation (fs_ID s), SqlInsertReputation (fs_ID s) (fs_Standing s) (fs_Flags s)] else []) m)) f = T f"
  by (induction m arbitrary: T) auto

lemma save_rows:
  assumes "distinct (map (fs_ID \<circ> snd) m)" "(k, s) \<in> set m" "in_table T s"
  shows "table_after T (concat (map (\<lambda>(k, s). if fs_needSave s
      then [SqlDeleteReputation (fs_ID s), SqlInsertReputation (fs_ID s) (fs_Standing s) (fs_Flags s)] else []) m)) (fs_ID s) =
      Some (fs_Standing s, fs_Flags s)"
  using assms
proof (induction m arbitrary: T)
  case Nil
  then show ?case by simp
next
  case (Cons a m)
  show ?case
  proof (cases "a = (k, s)")
    case True
    then show ?thesis using Cons.prems by (auto simp: save_rows_other in_table_def image_image)
  next
    case False
    obtain j t where a: "a = (j, t)" by (cases a)
    have "(k, s) \<in> set m" using False Cons.prems(2) by simp
    moreover have "fs_ID t \<noteq> fs_ID s" using Cons.prems(1) calculation by (force simp: a image_iff)
    ultimately show ?thesis using Cons.IH Cons.prems by (auto simp: a in_table_def)
  qed
qed

lemma shape_distinct_IDs:
  assumes sh: "shape R m"
  shows "distinct (map (fs_ID \<circ> snd) (m_factions m))"
proof -
  have ok: "smap_ok (m_factions m)" using sh by (simp add: shape_def)
  have key: "list_key (the (re_store R (fs_ID s))) = k" if "(k, s) \<in> set (m_factions m)" for k s
  proof -
    have "listed R k s" using that sh by (simp add: shape_def find_Some_iff [OF ok])
    then show ?thesis by (auto simp: listed_def split: option.splits)
  qed
  have "map fst (m_factions m) = map (\<lambda>i. list_key (the (re_store R i))) (map (fs_ID \<circ> snd) (m_factions m))"
    using key by (auto simp: map_eq_conv)
  then show ?thesis using smap_ok_distinct [OF ok] distinct_map by metis
qed

lemma SaveToDB_rows:
  assumes inv: "saved_inv R T m" and s: "smap_find (m_factions m) k = Some s"
  shows "table_after T (rm_log (ReputationMgr_SaveToDB m)) (fs_ID s) = Some (fs_Standing s, fs_Flags s)"
proof -
  have sh: "shape R m" and it: "in_table (table_after T (rm_log m)) s"
    using inv s by (auto simp: saved_inv_def each_node_def)
  have "(k, s) \<in> set (m_factions m)" using s by (rule find_SomeD)
  from save_rows [OF shape_distinct_IDs [OF sh] this it] show ?thesis by (simp add: ReputationMgr_SaveToDB_def)
qed

lemma saved_save:
  assumes inv: "saved_inv R T m"
  shows "saved_inv R T (ReputationMgr_SaveToDB m)"
proof -
  have f: "m_factions (ReputationMgr_SaveToDB m) = map_states (\<lambda>s. s\<lparr>fs_needSave := False\<rparr>) (m_factions m)"
    by (rule map_states_intro)
  have "shape R (ReputationMgr_SaveToDB m)"
    using inv by (auto simp: saved_inv_def each_node_def shape_def f find_map_states listed_def)
  then show ?thesis
    using SaveToDB_rows [OF inv] by (auto simp: saved_inv_def each_node_def f find_map_states in_table_def)
qed

interpretation db: rep_contract R "saved_inv R T" for R T
proof
  show "saved_inv R T (ReputationMgr_SetAtWar_state k b m)" "saved_inv R T (ReputationMgr_SetInactive_state k b m)"
    if "saved_inv R T m" for k b m
    unfolding as_node_updates by (rule saved_at_faction [OF that]; simp add: flags_marked)+
  show "saved_inv R T (sent m)" if "saved_inv R T m" for m
    using that
    by (auto simp: saved_inv_def each_node_def shape_def map_states_intro find_map_states listed_def in_table_def) blast
  show "saved_inv R T (m\<lparr>m_forcedReactions := f\<rparr>)" if "saved_inv R T m" for f m
    using that rep_saved_frame [of "m\<lparr>m_forcedReactions := f\<rparr>" m T R] by simp
qed (simp_all add: saved_emit saved_visible saved_one saved_save)

section \<open>Loading\<close>

lemma Initialize_log [simp]: "rm_log (ReputationMgr_Initialize R m) = rm_log m"
proof -
  have "rm_log (init_row R i m) = rm_log m" for i m
    by (simp add: init_row_def Let_def split: option.split)
  then have "rm_log (fold (init_row R) xs m) = rm_log m" for xs m by (induction xs arbitrary: m) simp_all
  then show ?thesis by (simp add: ReputationMgr_Initialize_def)
qed

definition quiet :: "ReputationMgr \<Rightarrow> bool" where
  "quiet m \<longleftrightarrow> (\<forall>x \<in> set (rm_log m). \<not> is_sql x)"

definition only_at :: "RepListID \<Rightarrow> ReputationMgr \<Rightarrow> ReputationMgr \<Rightarrow> bool" where
  "only_at k m m' \<longleftrightarrow> smap_ok (m_factions m') \<and> (\<forall>j. j \<noteq> k \<longrightarrow> smap_find (m_factions m') j = smap_find (m_factions m) j)"

lemma only_at_faction: "only_at k m m' \<Longrightarrow> only_at k m (at_faction k f m')"
  by (auto simp: only_at_def find_at_faction)

lemma quiet_frame [simp]: "quiet (at_faction k f m) = quiet m"
  by (simp add: quiet_def)

lemma visible_quiet_only:
  assumes "quiet m'" "only_at k m m'"
  shows "quiet (ReputationMgr_SetVisible_state R k m') \<and> only_at k m (ReputationMgr_SetVisible_state R k m')"
proof -
  have ok: "smap_ok (m_factions m')" using assms(2) by (simp add: only_at_def)
  obtain es where es: "\<forall>x \<in> set es. \<not> is_sql x" and v: "ReputationMgr_SetVisible_state R k m' =
     rep_emit es ((at_faction k visible_flag m')
       \<lparr>m_visibleFactionCount := m_visibleFactionCount m' + of_bool (newly_visible k m')\<rparr>)"
    by (rule SetVisible_state_cases [OF ok])
  have "only_at k m (at_faction k visible_flag m')" by (rule only_at_faction [OF assms(2)])
  then have "only_at k m (ReputationMgr_SetVisible_state R k m')" unfolding v only_at_def rep_emit_def by simp
  moreover have "quiet (ReputationMgr_SetVisible_state R k m')"
    unfolding v quiet_def rep_emit_def using es assms(1) by (auto simp: quiet_def)
  ultimately show ?thesis by simp
qed

text \<open>Factions that have no row yet are marked to be saved.\<close>

definition fresh :: "uint32 set \<Rightarrow> ReputationMgr \<Rightarrow> bool" where
  "fresh F m \<longleftrightarrow> (\<forall>k s. smap_find (m_factions m) k = Some s \<longrightarrow> fs_ID s \<notin> F \<longrightarrow> fs_needSave s)"

lemma flags_back: "(ucast (a :: uint8) :: uint32) = ucast (b :: uint16) \<Longrightarrow> ucast b = a"
proof -
  assume "(ucast a :: uint32) = ucast b"
  then have "bit (ucast a :: uint32) n = bit (ucast b :: uint32) n" for n by simp
  then have b: "(n < 32 \<and> bit a n) = (n < 32 \<and> bit b n)" for n by (simp add: bit_unsigned_iff)
  have "bit b n = bit a n" if "n < 8" for n
  proof -
    have "n < 32" using that by simp
    with b [of n] show ?thesis by simp
  qed
  then show "ucast b = a" by (intro bit_word_eqI) (simp add: bit_unsigned_iff)
qed

lemma load_row_saved:
  assumes inv: "saved_inv R T m" "quiet m" "fresh F m" and ld: "loading R F m" and new: "(ucast f :: uint32) \<notin> F"
    and T: "T (ucast f) = Some (sint x, ucast fl)"
  shows "saved_inv R T (load_row R (f, x, fl) m) \<and> quiet (load_row R (f, x, fl) m) \<and>
    fresh (insert (ucast f) F) (load_row R (f, x, fl) m)"
proof (cases "\<exists>e. re_store R (ucast f) = Some e \<and> fe_reputationListID e \<ge> 0")
  case False
  then have "load_row R (f, x, fl) m = m" by (auto simp: load_row_def split: option.split)
  with inv show ?thesis by (auto simp: fresh_def)
next
  case True
  then obtain e where e: "re_store R (ucast f) = Some e" "fe_reputationListID e \<ge> 0" by blast
  let ?k = "list_key e"
  from e have "smap_find (m_factions m) ?k \<noteq> None" using ld unfolding loading_def by blast
  then obtain s where s: "smap_find (m_factions m) ?k = Some s" by blast
  have sh: "shape R m" and st: "store_ok R" and ok: "smap_ok (m_factions m)"
    using inv(1) by (simp_all add: saved_inv_def each_node_def shape_def)
  have id: "fs_ID s = ucast f"
    using store_okD(1) [OF st shape_entry [OF sh e(1) s]] store_okD(1) [OF st e(1)] by simp
  with inv(3) s new have need: "fs_needSave s" by (auto simp: fresh_def)
  let ?m1 = "at_faction ?k (\<lambda>s. s\<lparr>fs_Standing := sint x\<rparr>) m"
  let ?m2 = "load_standing R e (sint x) m"
  let ?m6 = "load_flags R e (ucast fl) ?m2"
  have fl2: "m_factions ?m2 = m_factions ?m1" "rm_log ?m2 = rm_log m" by (simp_all add: load_standing_def)
  have s2: "smap_find (m_factions ?m2) ?k = Some (s\<lparr>fs_Standing := sint x\<rparr>)"
    using s by (simp add: fl2 find_at_faction [OF ok])
  have "shape R ?m1" by (rule shape_at_faction [OF sh]) simp
  then have "saved_inv R T ?m1"
    using inv(1) need s by (auto simp: saved_inv_def each_node_def find_at_faction [OF ok] in_table_def)
  then have 2: "saved_inv R T ?m2" using rep_saved_frame [of ?m2 ?m1 T R] fl2 by simp
  have ok2: "smap_ok (m_factions ?m2)" using 2 by (simp add: saved_inv_def each_node_def shape_def)
  have only2: "only_at ?k m ?m2" using only_at_faction [of ?k m m] ok by (simp add: only_at_def fl2)
  let ?Q = "\<lambda>m'. saved_inv R T m' \<and> same_standings ?m2 m' \<and> quiet m' \<and> only_at ?k m m'"
  have "quiet ?m2" using inv(2) by (simp add: quiet_def fl2)
  then have 6: "?Q ?m6"
    using 2 same_standings_refl [OF ok2] only2
    by (intro load_flags_keeps [where Q = ?Q])
      (auto simp: saved_visible same_standings_visible visible_quiet_only as_node_updates saved_at_faction flags_marked
        same_standings_at_faction only_at_faction)
  then obtain t where t: "smap_find (m_factions ?m6) ?k = Some t" "fs_ID t = ucast f" "fs_Standing t = sint x"
    using s2 id by (auto simp: same_standings_def dest!: spec [of _ ?k])
  have T6: "table_after T (rm_log ?m6) = T" using 6 by (simp add: quiet_def table_quiet)
  let ?m7 = "at_faction ?k (unmark (ucast fl)) ?m6"
  have ok6: "smap_ok (m_factions ?m6)" using 6 by (simp add: only_at_def)
  have mark: "in_table T (unmark (ucast fl) t)" if "in_table T t"
    using that T t by (auto simp: unmark_def in_table_def flags_back)
  have "shape R ?m7" using 6 by (intro shape_at_faction) (auto simp: saved_inv_def each_node_def)
  then have "saved_inv R T ?m7"
    using 6 mark t by (auto simp: saved_inv_def each_node_def find_at_faction [OF ok6] T6)
  moreover have "fresh (insert (ucast f) F) ?m7"
    using inv(3) 6 t by (auto simp: fresh_def find_at_faction [OF ok6] only_at_def split: if_splits)
  ultimately show ?thesis using 6 by (simp add: load_row_split [OF e s])
qed

lemma rows_table_in:
  assumes "distinct (map fst rows)" "(f, x, fl) \<in> set rows"
  shows "rows_table rows (ucast f) = Some (sint x, ucast fl)"
proof -
  have "map fst (map (\<lambda>(f, x, fl). (ucast f :: uint32, (sint x, ucast fl :: uint8))) rows) = map (ucast \<circ> fst) rows"
    by (induction rows) auto
  moreover have "distinct (map (ucast \<circ> fst) rows :: uint32 list)"
    using assms(1) ucast_up_inj by (simp add: distinct_map inj_on_def)
  ultimately have d: "distinct (map fst (map (\<lambda>(f, x, fl). (ucast f :: uint32, (sint x, ucast fl :: uint8))) rows))"
    by (simp only:)
  have "(ucast f, (sint x, ucast fl)) \<in> set (map (\<lambda>(f, x, fl). (ucast f :: uint32, (sint x, ucast fl :: uint8))) rows)"
    unfolding set_map by (rule image_eqI [OF _ assms(2)]) simp
  with d show ?thesis unfolding rows_table_def by (rule map_of_is_SomeI)
qed

lemma LoadFromDB_saved:
  assumes st: "store_ok R" and rows: "distinct (map fst rows)"
  shows "saved_inv R (rows_table rows) (ReputationMgr_LoadFromDB R rows ReputationMgr_new)"
proof -
  let ?T = "rows_table rows" and ?m0 = "ReputationMgr_Initialize R ReputationMgr_new"
  have "saved_inv R ?T (fold (load_row R) rs m)"
    if "saved_inv R ?T m" "quiet m" "fresh F m" "loading R F m" "distinct (map fst rs)" "\<forall>r \<in> set rs. ucast (fst r) \<notin> F"
      "set rs \<subseteq> set rows" for rs F m
    using that
  proof (induction rs arbitrary: F m)
    case Nil
    then show ?case by simp
  next
    case (Cons r rs)
    obtain f x fl where r: "r = (f, x, fl)" by (cases r)
    have other: "ucast (fst q) \<noteq> (ucast f :: uint32)" if "q \<in> set rs" for q
      using that Cons.prems(5) ucast_up_inj by (force simp: r image_iff)
    have new: "ucast f \<notin> F" and T: "?T (ucast f) = Some (sint x, ucast fl)"
      using Cons.prems(6,7) rows_table_in [OF rows] by (auto simp: r)
    note row = load_row_saved [OF Cons.prems(1-4) new T] load_row_loading [OF st Cons.prems(4) new, of x fl]
    show ?case
      using Cons.IH [of "load_row R r m" "insert (ucast f) F"] row other Cons.prems(5-7) by (simp add: r)
  qed
  moreover have "inited R (unat (re_numRows R)) ?m0" by (rule Initialize_inited [OF st])
  then have "fresh {} ?m0" "saved_inv R ?T ?m0"
    by (auto simp: fresh_def saved_inv_def each_node_def inited_def counts_inv_def in_table_def)
  moreover have "quiet ?m0" by (simp add: quiet_def ReputationMgr_new_def)
  ultimately show ?thesis
    using inited_loading [OF st, of ReputationMgr_new] rows by (simp add: ReputationMgr_LoadFromDB_def)
qed

lemma state_rank_GetRank:
  assumes sh: "shape R m" and s: "(k, s) \<in> set (m_factions m)"
  shows "Player_GetReputationRank R (fs_ID s) m = state_rank R s"
proof -
  have f: "smap_find (m_factions m) k = Some s" using sh s by (simp add: shape_def find_Some_iff)
  then have "listed R k s" using sh by (simp add: shape_def)
  then obtain e where e: "re_store R (fs_ID s) = Some e" "fe_reputationListID e \<ge> 0" "list_key e = k"
    by (auto simp: listed_def split: option.splits)
  then show ?thesis
    using f by (simp add: Player_GetReputationRank_def ReputationMgr_GetRank_def ReputationMgr_GetReputation_def
      ReputationMgr_GetState_def state_rank_def add.commute)
qed

lemma count_cong:
  assumes "\<And>k s. (k, s) \<in> set m \<Longrightarrow> P s = Q s"
  shows "smap_count P m = smap_count Q m"
  using assms
proof (induction m)
  case (Cons a m)
  have "smap_count P m = smap_count Q m" "P (snd a) = Q (snd a)"
    using Cons.prems [of "fst a" "snd a"] by (auto intro!: Cons.IH Cons.prems)
  then show ?case by (cases a) (simp add: count_Cons)
qed simp

end
