(* ===== verification/Reputation_Laws.thy ===== *)
theory Reputation_Laws
  imports Reputation_Db
begin

text \<open>
  What the reputation manager promises: ranks, counters, the range of standings, forced peace, the result of
  setting a reputation, the packets, and that nothing is lost between a save and the next load.
\<close>

section \<open>Every listed faction has a node\<close>

definition has_all :: "rep_env \<Rightarrow> ReputationMgr \<Rightarrow> bool" where
  "has_all R m \<longleftrightarrow> shape R m \<and>
     (\<forall>i e. re_store R i = Some e \<longrightarrow> fe_reputationListID e \<ge> 0 \<longrightarrow> smap_find (m_factions m) (list_key e) \<noteq> None)"

definition same_keys :: "ReputationMgr \<Rightarrow> ReputationMgr \<Rightarrow> bool" where
  "same_keys m m' \<longleftrightarrow> (\<forall>k. (smap_find (m_factions m') k = None) = (smap_find (m_factions m) k = None))"

lemma has_all_keys: "has_all R m \<Longrightarrow> same_keys m m' \<Longrightarrow> shape R m' \<Longrightarrow> has_all R m'"
  by (simp add: has_all_def same_keys_def)

lemma keys_at_faction: "smap_ok (m_factions m) \<Longrightarrow> same_keys m (at_faction k f m)"
  by (simp add: same_keys_def find_at_faction)

lemma same_keys_trans: "same_keys a b \<Longrightarrow> same_keys b c \<Longrightarrow> same_keys a c"
  by (simp add: same_keys_def)

lemma keys_frame: "m_factions m' = m_factions m \<Longrightarrow> same_keys m m'"
  by (simp add: same_keys_def)

lemma keys_map_states: "m_factions m' = map_states f (m_factions m) \<Longrightarrow> same_keys m m'"
  by (simp add: same_keys_def find_map_states)

lemma visible_factions:
  assumes "smap_ok (m_factions m)"
  shows "m_factions (ReputationMgr_SetVisible_state R k m) = m_factions (at_faction k visible_flag m)"
proof -
  obtain es where "ReputationMgr_SetVisible_state R k m = rep_emit es ((at_faction k visible_flag m)
       \<lparr>m_visibleFactionCount := m_visibleFactionCount m + of_bool (newly_visible k m)\<rparr>)"
    by (rule SetVisible_state_cases [OF assms])
  then show ?thesis by simp
qed

text \<open>The node a change leaves: the new standing, made visible, and at war when the rank is hostile or below.\<close>

definition new_standing :: "rep_env \<Rightarrow> FactionEntry \<Rightarrow> int \<Rightarrow> bool \<Rightarrow> FactionState \<Rightarrow> int" where
  "new_standing R e st inc s = clamp_rep (if inc then
     wrap32 (re_gain R st + wrap32 (fs_Standing s + ReputationMgr_GetBaseReputation R e)) else st)"

definition changed_node :: "rep_env \<Rightarrow> FactionEntry \<Rightarrow> int \<Rightarrow> FactionState \<Rightarrow> FactionState" where
  "changed_node R e x s =
     (let t = visible_flag (s\<lparr>fs_Standing := wrap32 (x - ReputationMgr_GetBaseReputation R e), fs_needSend := True,
                fs_needSave := True\<rparr>)
      in if ReputationToRank x \<le> REP_HOSTILE then war_flag True t else t)"

lemma one_factions:
  assumes ok: "smap_ok (m_factions m)" and s: "smap_find (m_factions m) (list_key e) = Some s"
  shows "smap_find (m_factions (snd (ReputationMgr_SetOneFactionReputation R e st inc m))) k =
    (if k = list_key e then Some (changed_node R e (new_standing R e st inc s) s) else smap_find (m_factions m) k)"
proof -
  let ?x = "new_standing R e st inc s"
  let ?f = "\<lambda>s. s\<lparr>fs_Standing := wrap32 (?x - ReputationMgr_GetBaseReputation R e), fs_needSend := True, fs_needSave := True\<rparr>"
  let ?m1 = "at_faction (list_key e) ?f m"
  let ?m2 = "ReputationMgr_SetVisible_state R (list_key e) ?m1"
  let ?m3 = "if ReputationToRank ?x \<le> REP_HOSTILE then ReputationMgr_SetAtWar_state (list_key e) True ?m2 else ?m2"
  have ok1: "smap_ok (m_factions ?m1)" using ok by simp
  have ok2: "smap_ok (m_factions ?m2)" unfolding visible_factions [OF ok1] using ok1 by simp
  have "m_factions (snd (ReputationMgr_SetOneFactionReputation R e st inc m)) = m_factions ?m3"
    unfolding ReputationMgr_SetOneFactionReputation_def Let_def s option.case snd_conv rep_emit_fields
      UpdateRankCounters_factions new_standing_def ..
  then show ?thesis
    using s by (simp add: as_node_updates find_at_faction [OF ok2] visible_factions [OF ok1] find_at_faction [OF ok1]
      find_at_faction [OF ok] changed_node_def Let_def)
qed

lemma one_keys: "smap_ok (m_factions m) \<Longrightarrow> same_keys m (snd (ReputationMgr_SetOneFactionReputation R e st inc m))"
proof (cases "smap_find (m_factions m) (list_key e)")
  case None
  then show ?thesis by (simp add: ReputationMgr_SetOneFactionReputation_def same_keys_def)
next
  case (Some s)
  assume "smap_ok (m_factions m)"
  from one_factions [OF this Some] Some show ?thesis by (simp add: same_keys_def)
qed

interpretation nodes: node_law R "\<lambda>_. True" for R
  by unfold_locales simp_all

lemma shape_each: "shape R m = each_node R (\<lambda>_. True) m"
  by (simp add: each_node_def)

lemma has_allD: "has_all R m \<Longrightarrow> each_node R (\<lambda>_. True) m" "has_all R m \<Longrightarrow> smap_ok (m_factions m)"
  by (simp_all add: has_all_def each_node_def shape_def)

interpretation complete: rep_contract R "has_all R" for R
proof
  show "has_all R (rep_emit es m)" if "has_all R m" "\<forall>x \<in> set es. \<not> is_sql x" for m es
    using nodes.emit [OF has_allD(1) [OF that(1)] that(2)] that(1)
    by (intro has_all_keys [OF that(1)] keys_frame) (simp_all add: shape_each)
  show "has_all R (snd (ReputationMgr_SetOneFactionReputation R e st inc m))" if "has_all R m" "re_store R i = Some e" for m i e st inc
    using nodes.one [OF has_allD(1) [OF that(1)] that(2)]
    by (intro has_all_keys [OF that(1)] one_keys has_allD(2) [OF that(1)]) (simp add: shape_each)
  show "has_all R (ReputationMgr_SetVisible_state R k m)" if "has_all R m" for k m
  proof (rule has_all_keys [OF that])
    show "same_keys m (ReputationMgr_SetVisible_state R k m)"
      using keys_at_faction [OF has_allD(2) [OF that], of k visible_flag]
      by (simp add: same_keys_def visible_factions [OF has_allD(2) [OF that]])
    show "shape R (ReputationMgr_SetVisible_state R k m)"
      using nodes.visible [OF has_allD(1) [OF that]] by (simp add: shape_each)
  qed
  show "has_all R (ReputationMgr_SetAtWar_state k b m)" if "has_all R m" for k b m
    using nodes.at_war [OF has_allD(1) [OF that], of k b]
    by (intro has_all_keys [OF that]) (simp_all add: shape_each as_node_updates keys_at_faction has_allD(2) [OF that])
  show "has_all R (ReputationMgr_SetInactive_state k b m)" if "has_all R m" for k b m
    using nodes.inactive [OF has_allD(1) [OF that], of k b]
    by (intro has_all_keys [OF that]) (simp_all add: shape_each as_node_updates keys_at_faction has_allD(2) [OF that])
  show "has_all R (sent m)" if "has_all R m" for m
    using nodes.is_sent [OF has_allD(1) [OF that]]
    by (intro has_all_keys [OF that] keys_map_states) (simp_all add: shape_each map_states_intro)
  show "has_all R (m\<lparr>m_forcedReactions := f\<rparr>)" if "has_all R m" for f m
    using nodes.forced [OF has_allD(1) [OF that], of f]
    by (intro has_all_keys [OF that] keys_frame) (simp_all add: shape_each)
  show "has_all R (ReputationMgr_SaveToDB m)" if "has_all R m" for m
    using nodes.saved [OF has_allD(1) [OF that]]
    by (intro has_all_keys [OF that] keys_map_states) (simp_all add: shape_each map_states_intro)
qed

lemma loading_has_all: "loading R F m \<Longrightarrow> has_all R m"
  unfolding loading_def has_all_def counts_inv_def by blast

section \<open>What a load leaves\<close>

lemma load_row_standing:
  assumes ld: "loading R F m" and e: "re_store R (ucast f) = Some e" "fe_reputationListID e \<ge> 0"
  shows "map_option fs_Standing (smap_find (m_factions (load_row R (f, x, fl) m)) k) =
    (if k = list_key e then Some (sint x) else map_option fs_Standing (smap_find (m_factions m) k))"
proof -
  from e have "smap_find (m_factions m) (list_key e) \<noteq> None" using ld unfolding loading_def by blast
  then obtain s where s: "smap_find (m_factions m) (list_key e) = Some s" by blast
  have ok: "smap_ok (m_factions m)" using ld by (simp add: loading_def counts_inv_def shape_def)
  let ?m2 = "load_standing R e (sint x) m"
  let ?m7 = "at_faction (list_key e) (unmark (ucast fl)) (load_flags R e (ucast fl) ?m2)"
  have f2: "m_factions ?m2 = m_factions (at_faction (list_key e) (\<lambda>s. s\<lparr>fs_Standing := sint x\<rparr>) m)"
    by (simp add: load_standing_def)
  have "smap_ok (m_factions ?m2)" unfolding f2 using ok by simp
  then have "same_standings ?m2 (load_flags R e (ucast fl) ?m2)"
    by (intro load_flags_keeps [where Q = "same_standings ?m2"])
      (simp_all add: same_standings_refl same_standings_visible as_node_updates same_standings_at_faction)
  then have "same_standings ?m2 ?m7" by (rule same_standings_at_faction) simp
  then have "map_option snd (map_option (\<lambda>s. (fs_ID s, fs_Standing s)) (smap_find (m_factions ?m7) k)) =
      map_option snd (map_option (\<lambda>s. (fs_ID s, fs_Standing s)) (smap_find (m_factions ?m2) k))"
    by (simp add: same_standings_def)
  then show ?thesis
    using s by (simp add: load_row_split [OF e s] f2 find_at_faction [OF ok] option.map_comp comp_def)
qed

lemma load_row_other:
  assumes ld: "loading R F m" and e: "re_store R i = Some e" "fe_reputationListID e \<ge> 0" and "ucast f \<noteq> i"
  shows "map_option fs_Standing (smap_find (m_factions (load_row R (f, x, fl) m)) (list_key e)) =
    map_option fs_Standing (smap_find (m_factions m) (list_key e))"
proof (cases "\<exists>d. re_store R (ucast f) = Some d \<and> fe_reputationListID d \<ge> 0")
  case True
  then obtain d where d: "re_store R (ucast f) = Some d" "fe_reputationListID d \<ge> 0" by blast
  have st: "store_ok R" using ld by (simp add: loading_def counts_inv_def shape_def)
  have "list_key d \<noteq> list_key e"
    using store_okD(4) [OF st d(1) e] store_okD(1) [OF st d(1)] store_okD(1) [OF st e(1)] assms(4) by auto
  then show ?thesis by (simp add: load_row_standing [OF ld d])
next
  case False
  then have "load_row R (f, x, fl) m = m" by (auto simp: load_row_def split: option.split)
  then show ?thesis by simp
qed

lemma load_rows_standing:
  assumes st: "store_ok R" and e: "re_store R (ucast f) = Some e" "fe_reputationListID e \<ge> 0"
  shows "loading R F m \<Longrightarrow> distinct (map fst rows) \<Longrightarrow> \<forall>r \<in> set rows. ucast (fst r) \<notin> F \<Longrightarrow> (f, x, fl) \<in> set rows \<or>
      f \<notin> fst ` set rows \<and> map_option fs_Standing (smap_find (m_factions m) (list_key e)) = Some (sint x) \<Longrightarrow>
    map_option fs_Standing (smap_find (m_factions (fold (load_row R) rows m)) (list_key e)) = Some (sint x)"
proof (induction rows arbitrary: F m)
  case Nil
  then show ?case by simp
next
  case (Cons r rows)
  obtain g y gl where r: "r = (g, y, gl)" by (cases r)
  have other: "ucast (fst q) \<noteq> (ucast g :: uint32)" if "q \<in> set rows" for q
    using that Cons.prems(2) ucast_up_inj by (force simp: r image_iff)
  have ld: "loading R (insert (ucast g) F) (load_row R r m)"
    using load_row_loading [OF st Cons.prems(1)] Cons.prems(3) by (simp add: r)
  have "(f, x, fl) \<in> set rows \<or> f \<notin> fst ` set rows \<and>
      map_option fs_Standing (smap_find (m_factions (load_row R r m)) (list_key e)) = Some (sint x)"
  proof (cases "g = f")
    case True
    with Cons.prems(2,4) have "(f, x, fl) = r \<or> r \<noteq> r" "f \<notin> fst ` set rows" by (auto simp: r image_iff)
    then show ?thesis using load_row_standing [OF Cons.prems(1) e, of y gl "list_key e"] True by (simp add: r)
  next
    case False
    then have "ucast g \<noteq> (ucast f :: uint32)" using ucast_up_inj by blast
    from load_row_other [OF Cons.prems(1) e this, of y gl] Cons.prems(4) False show ?thesis by (auto simp: r)
  qed
  then show ?case using Cons.IH [OF ld] Cons.prems(2,3) other by (simp add: r)
qed

lemma LoadFromDB_standing:
  assumes st: "store_ok R" and rows: "distinct (map fst rows)" "(f, x, fl) \<in> set rows"
    and e: "re_store R (ucast f) = Some e" "fe_reputationListID e \<ge> 0"
  shows "\<exists>s. smap_find (m_factions (ReputationMgr_LoadFromDB R rows m)) (list_key e) = Some s \<and> fs_Standing s = sint x"
  using load_rows_standing [OF st e inited_loading [OF st] rows(1), of x fl] rows(2)
  by (auto simp: ReputationMgr_LoadFromDB_def)

section \<open>The initial packet\<close>

text \<open>Reference: place \<open>j\<close> of the client's list shows the faction with that place, or nothing.\<close>

definition place :: "(RepListID, FactionState) smap \<Rightarrow> nat \<Rightarrow> field list" where
  "place fs j = (case smap_find fs (of_nat j) of None \<Rightarrow> absent_entry | Some s \<Rightarrow> state_entry s)"

lemma fill_absent_upto:
  assumes "a \<le> b" "b \<le> 128"
  shows "fill_absent (of_nat a) (of_nat b) = concat (map (\<lambda>_. absent_entry) [a..<b])"
  using assms
proof (induction "b - a" arbitrary: a)
  case 0
  then show ?case by (simp add: fill_absent.simps)
next
  case (Suc d)
  have u: "unat (of_nat n :: uint32) = n" if "n \<le> 128" for n using that by (intro unat_small) simp
  have "a \<le> 128" "b \<le> 128" "a \<noteq> b" using Suc.prems Suc.hyps(2) by simp_all
  then have ne: "(of_nat a :: uint32) \<noteq> of_nat b" using u [of a] u [of b] by metis
  have "fill_absent (of_nat (Suc a)) (of_nat b) = concat (map (\<lambda>_. absent_entry) [Suc a..<b])"
    by (rule Suc.hyps) (use Suc in auto)
  from this have tail: "fill_absent (of_nat a + 1) (of_nat b) = concat (map (\<lambda>_. absent_entry) [Suc a..<b])"
    by (simp add: add.commute)
  have "[a..<b] = a # [Suc a..<b]" using Suc.prems Suc.hyps(2) by (simp add: upt_conv_Cons)
  then show ?case by (subst fill_absent.simps) (simp add: ne tail)
qed

lemma find_below: "smap_ok fs \<Longrightarrow> \<forall>k \<in> fst ` set fs. j < k \<Longrightarrow> smap_find fs j = None"
  by (auto simp: find_None_iff)

lemma initial_loop_places:
  assumes "smap_ok fs" "\<forall>k \<in> fst ` set fs. of_nat a \<le> k \<and> k < 128" "a \<le> 128"
  shows "initial_loop (of_nat a) fs = concat (map (place fs) [a..<128])"
  using assms
proof (induction fs arbitrary: a)
  case Nil
  have "fill_absent (of_nat a) (of_nat 128) = concat (map (\<lambda>_. absent_entry) [a..<128])"
    by (rule fill_absent_upto) (use Nil in auto)
  then show ?case by (simp add: place_def smap_find_def)
next
  case (Cons e fs)
  obtain k s where e: "e = (k, s)" by (cases e)
  define b where "b = unat k"
  have k: "k = of_nat b" by (simp add: b_def)
  have b: "a \<le> b" "b < 128"
    using Cons.prems(2,3) unat_small [of a] by (auto simp: e b_def word_le_nat_alt word_less_nat_alt)
  have ok: "smap_ok fs" and above: "\<forall>j \<in> fst ` set fs. k < j"
    using Cons.prems(1) by (auto simp: smap_ok_def e)
  have rest: "\<forall>j \<in> fst ` set fs. of_nat (Suc b) \<le> j \<and> j < 128"
  proof
    fix j assume j: "j \<in> fst ` set fs"
    then have "k < j" "j < 128" using above Cons.prems(2) by auto
    then show "of_nat (Suc b) \<le> j \<and> j < 128"
      using b(2) unat_small [of "Suc b"] by (simp add: word_le_nat_alt word_less_nat_alt b_def)
  qed
  have small: "(of_nat n :: uint32) < of_nat m" if "n < m" "m \<le> 128" for n m
    using that unat_small [of n] unat_small [of m] by (simp add: word_less_nat_alt)
  have before: "place (e # fs) j = absent_entry" if "j < b" for j
  proof -
    have "(of_nat j :: uint32) < k" using small [OF that] b(2) by (simp add: k)
    then have "\<forall>i \<in> fst ` set (e # fs). of_nat j < i" using above less_trans by (auto simp: e)
    then show ?thesis using find_below [OF Cons.prems(1)] by (simp add: place_def)
  qed
  have after: "place (e # fs) j = place fs j" if "b < j" "j < 128" for j
    using small [OF that(1)] that(2) by (auto simp: place_def smap_find_def e k)
  have split: "[a..<128] = [a..<b] @ b # [Suc b..<128]"
    using b upt_add_eq_append [of a b "128 - b"] upt_conv_Cons [of b 128] by simp
  have low: "map (place (e # fs)) [a..<b] = map (\<lambda>_. absent_entry) [a..<b]" using before by simp
  have high: "map (place (e # fs)) [Suc b..<128] = map (place fs) [Suc b..<128]" using after by simp
  have mid: "place (e # fs) b = state_entry s" by (simp add: place_def smap_find_def e k)
  have "initial_loop (of_nat (Suc b)) fs = concat (map (place fs) [Suc b..<128])"
    by (rule Cons.IH [OF ok rest]) (use b in simp)
  then have loop: "initial_loop (k + 1) fs = concat (map (place fs) [Suc b..<128])" by (simp add: k add.commute)
  have "fill_absent (of_nat a) k = concat (map (\<lambda>_. absent_entry) [a..<b])"
    unfolding k by (rule fill_absent_upto) (use b in auto)
  then show ?case unfolding split map_append list.map concat_append concat.simps low high mid by (simp add: e loop)
qed

section \<open>Sessions\<close>

text \<open>The state after loading and any sequence of operations.\<close>

definition rep_session :: "rep_env \<Rightarrow> rep_row list \<Rightarrow> rep_op list \<Rightarrow> ReputationMgr \<Rightarrow> bool" where
  "rep_session R rows ops m \<longleftrightarrow> store_ok R \<and> distinct (map fst rows) \<and>
     legal_run (rep_guard R) (rep_step R) ops (ReputationMgr_LoadFromDB R rows ReputationMgr_new) \<and>
     m = run_ops (rep_step R) ops (ReputationMgr_LoadFromDB R rows ReputationMgr_new)"

lemma session_counts: "rep_session R rows ops m \<Longrightarrow> counts_inv R m"
  unfolding rep_session_def
  using counts.rep_history.run_inv [OF loading_counts [OF LoadFromDB_loading]] by blast

lemma session_complete: "rep_session R rows ops m \<Longrightarrow> has_all R m"
  unfolding rep_session_def
  using complete.rep_history.run_inv [OF loading_has_all [OF LoadFromDB_loading]] by blast

lemma session_saved: "rep_session R rows ops m \<Longrightarrow> saved_inv R (rows_table rows) m"
  unfolding rep_session_def
  using db.rep_history.run_inv [OF LoadFromDB_saved] by blast

lemma session_shape: "rep_session R rows ops m \<Longrightarrow> shape R m"
  using session_complete by (simp add: has_all_def)

lemma in_range_reputation:
  assumes "each_node R (in_range R) m"
  shows "ReputationMgr_GetReputationById R i m \<in> {-42000..42999}"
proof (cases "\<exists>e s. re_store R i = Some e \<and> ReputationMgr_GetState e m = Some s")
  case False
  then show ?thesis
    by (auto simp: ReputationMgr_GetReputationById_def ReputationMgr_GetReputation_def split: option.split)
next
  case True
  then obtain e s where e: "re_store R i = Some e" "ReputationMgr_GetState e m = Some s" by blast
  then have s: "smap_find (m_factions m) (list_key e) = Some s" by (auto simp: ReputationMgr_GetState_def split: if_splits)
  have "re_store R (fs_ID s) = Some e" using assms by (intro shape_entry [OF _ e(1) s]) (simp add: each_node_def)
  moreover have "in_range R s" using assms s by (simp add: each_node_def)
  ultimately show ?thesis
    using e by (simp add: in_range_def ReputationMgr_GetReputationById_def ReputationMgr_GetReputation_def
      Reputation_Bottom_def Reputation_Cap_def)
qed

lemma wrap32_standing: "x \<in> {-42000..42999} \<Longrightarrow> wrap32 x = x"
  by (intro wrap32_id) (auto simp: is_int32_def)

lemma small_place:
  assumes "0 \<le> fe_reputationListID e" "fe_reputationListID e < 128"
  shows "list_key e < 128"
  using assms by (simp add: list_key_def word_less_def uint_word_of_int)

text \<open>The last step of \<open>SetReputation\<close> sets the faction itself and sends it.\<close>

lemma sent_node:
  "smap_find (m_factions m) k = Some s \<Longrightarrow>
   smap_find (m_factions (ReputationMgr_SendState k m)) k = Some (s\<lparr>fs_needSend := False\<rparr>)"
  using map_states_intro(1) [of m]
  by (simp add: ReputationMgr_SendState_def Let_def sent_def find_map_states map_states_def [symmetric])

lemma SetReputation_node:
  assumes all: "has_all R m" and e: "re_store R (fe_ID e) = Some e" "fe_reputationListID e \<ge> 0"
    and set: "ReputationMgr_SetReputation R e x inc m = (res, m')"
  obtains s where "res" and "smap_find (m_factions m') (list_key e) =
    Some ((changed_node R e (new_standing R e x inc s) s)\<lparr>fs_needSend := False\<rparr>)"
proof -
  let ?m0 = "rep_emit [OnPlayerReputationChange (fe_ID e) x inc] m"
  let ?p = "case re_spillover R (fe_ID e) of Some t \<Rightarrow> (False, fold (spill_slot R t x inc) [0..<4] ?m0)
    | None \<Rightarrow> spill_by_dbc R e x inc ?m0"
  have "has_all R ?m0" by (rule complete.emit [OF all]) simp
  then have m1: "has_all R (snd ?p)" by (simp add: complete.slots complete.by_dbc split: option.split)
  then obtain s where s: "smap_find (m_factions (snd ?p)) (list_key e) = Some s"
    using e unfolding has_all_def by blast
  let ?q = "ReputationMgr_SetOneFactionReputation R e x inc (snd ?p)"
  have "(res, m') = (fst ?q, ReputationMgr_SendState (list_key e) (snd ?q))"
    using set s unfolding ReputationMgr_SetReputation_def Let_def by (simp add: case_prod_unfold)
  moreover have "fst ?q" using s by (simp add: ReputationMgr_SetOneFactionReputation_def Let_def)
  moreover have "smap_find (m_factions (snd ?q)) (list_key e) = Some (changed_node R e (new_standing R e x inc s) s)"
    by (simp add: one_factions [OF has_allD(2) [OF m1] s])
  ultimately show thesis using that [of s] sent_node by simp
qed

section \<open>A sample\<close>

text \<open>One faction, number 21 at place 3 of the list, that starts at 500 points for everybody.\<close>

definition sample_faction :: FactionEntry where
  "sample_faction = \<lparr>fe_ID = 21, fe_reputationListID = 3, fe_BaseRepRaceMask = [0xFFFF, 0, 0, 0],
     fe_BaseRepClassMask = [0, 0, 0, 0], fe_BaseRepValue = [500, 0, 0, 0], fe_ReputationFlags = [0x10, 0, 0, 0], fe_team = 0,
     fe_spilloverRateIn = 0, fe_spilloverRateOut = 0, fe_spilloverMaxRankIn = 0\<rparr>"

definition sample_rep :: rep_env where
  "sample_rep = \<lparr>re_raceMask = 1, re_classMask = 1, re_PlayerLoading = False, re_numRows = 30,
     re_store = (\<lambda>i. if i = 21 then Some sample_faction else None), re_spillover = (\<lambda>_. None), re_teamList = (\<lambda>_. None),
     re_float = word_of_int, re_fmul = (\<lambda>x y. 0), re_int32 = uint, re_nonzero = (\<lambda>x. x \<noteq> 0), re_gain = (\<lambda>x. x)\<rparr>"

definition sample_ops :: "rep_op list" where
  "sample_ops = [RepSet sample_faction 9000 False, RepAtWar 3 True, RepSendInitial]"

lemma sample_base: "ReputationMgr_GetBaseReputation sample_rep sample_faction = 500"
  and sample_flags: "(ucast (ReputationMgr_GetDefaultStateFlags sample_rep sample_faction) :: uint8) AND FACTION_FLAG_AT_WAR = 0"
  by code_simp+

lemma sample_entry: "re_store sample_rep i = Some e \<longleftrightarrow> i = 21 \<and> e = sample_faction"
  by (auto simp: sample_rep_def)

lemma sample_store: "store_ok sample_rep"
proof -
  have "ReputationMgr_GetBaseReputation sample_rep sample_faction = 500" by code_simp
  then show ?thesis by (simp add: store_ok_def sample_rep_def is_int32_def sample_faction_def split: if_splits)
qed

lemma sample_legal: "legal_run (rep_guard sample_rep) (rep_step sample_rep) sample_ops m"
  by (simp add: sample_ops_def sample_rep_def sample_faction_def)

definition sample_after :: ReputationMgr where
  "sample_after = run_ops (rep_step sample_rep) sample_ops (ReputationMgr_LoadFromDB sample_rep [] ReputationMgr_new)"

definition sample_rows :: "rep_row list" where
  "sample_rows = [(21, 8500, 0x11)]"

lemma sample_session: "rep_session sample_rep [] sample_ops sample_after"
  by (simp add: rep_session_def sample_store sample_legal sample_after_def)

lemma table_sql: "table_after T es = table_after T (filter is_sql es)"
proof (induction es arbitrary: T)
  case (Cons e es)
  have "rep_sql e T = T" if "\<not> is_sql e" using that by (cases e) simp_all
  then show ?case using Cons.IH [of "rep_sql e T"] by simp
qed simp

lemma sample_rows_saved:
  "rows_table sample_rows = table_after (rows_table []) (rm_log (ReputationMgr_SaveToDB sample_after))"
proof -
  have "filter is_sql (rm_log (ReputationMgr_SaveToDB sample_after)) = [SqlDeleteReputation 21, SqlInsertReputation 21 8500 0x11]"
    by code_simp
  then show ?thesis by (subst table_sql) (simp add: rows_table_def sample_rows_def)
qed

section \<open>Properties\<close>

text \<open>
  The loop that finds a rank computes the published thresholds: exalted from 42000 points,
  revered from 21000, honored from 9000, friendly from 3000, neutral from 0, unfriendly from -3000, hostile
  from -6000, and hated below.
\<close>
theorem rank_thresholds:
  "ReputationToRank x =
     (if x \<ge> 42000 then REP_EXALTED else if x \<ge> 21000 then REP_REVERED else if x \<ge> 9000 then REP_HONORED
      else if x \<ge> 3000 then REP_FRIENDLY else if x \<ge> 0 then REP_NEUTRAL else if x \<ge> -3000 then REP_UNFRIENDLY
      else if x \<ge> -6000 then REP_HOSTILE else REP_HATED)"
  by (simp add: ReputationToRank_def Reputation_Cap_def PointsInRank_down_def Let_def)

text \<open>
  C3 (invariant).  The four byte counters that the achievements read always equal, modulo 256, the number of
  visible factions and of factions with rank honored, revered and exalted: after loading and after every
  sequence of reputation changes with their spillover, client requests, packets and saves.
\<close>
theorem faction_counters_exact:
  assumes "rep_session R rows ops m"
  shows "m_visibleFactionCount m = of_nat (smap_count is_visible (m_factions m)) \<and>
    m_honoredFactionCount m = of_nat (smap_count (\<lambda>s. REP_HONORED \<le> Player_GetReputationRank R (fs_ID s) m) (m_factions m)) \<and>
    m_reveredFactionCount m = of_nat (smap_count (\<lambda>s. REP_REVERED \<le> Player_GetReputationRank R (fs_ID s) m) (m_factions m)) \<and>
    m_exaltedFactionCount m = of_nat (smap_count (\<lambda>s. REP_EXALTED \<le> Player_GetReputationRank R (fs_ID s) m) (m_factions m))"
proof -
  have sh: "shape R m" and c: "counters_ok R m" using session_counts [OF assms] by (simp_all add: counts_inv_def)
  have "smap_count (\<lambda>s. r \<le> Player_GetReputationRank R (fs_ID s) m) (m_factions m) =
      smap_count (\<lambda>s. r \<le> state_rank R s) (m_factions m)" for r
    using state_rank_GetRank [OF sh] by (intro count_cong) auto
  then show ?thesis using c by (simp add: counters_ok_def num_def)
qed

theorem faction_counters_exact_witness:
  "m_honoredFactionCount sample_after =
     of_nat (smap_count (\<lambda>s. REP_HONORED \<le> Player_GetReputationRank sample_rep (fs_ID s) sample_after) (m_factions sample_after))"
  using faction_counters_exact [OF sample_session] by simp

text \<open>
  C6 (roundtrip).  Nothing is lost between two sessions: when the state at the end of a session is saved, and the next
  login reads the table the statements leave, every faction has the reputation it had.
\<close>
theorem reputation_survives_relog:
  assumes "rep_session R rows ops m"
    and "distinct (map fst rows')"
    and "rows_table rows' = table_after (rows_table rows) (rm_log (ReputationMgr_SaveToDB m))"
  shows "ReputationMgr_GetReputationById R i (ReputationMgr_LoadFromDB R rows' m0) = ReputationMgr_GetReputationById R i m"
proof (cases "\<exists>e. re_store R i = Some e \<and> fe_reputationListID e \<ge> 0")
  case False
  then show ?thesis
    by (auto simp: ReputationMgr_GetReputationById_def ReputationMgr_GetReputation_def ReputationMgr_GetState_def
        split: option.split)
next
  case True
  then obtain e where e: "re_store R i = Some e" "fe_reputationListID e \<ge> 0" by blast
  have st: "store_ok R" using assms(1) by (simp add: rep_session_def)
  have "smap_find (m_factions m) (list_key e) \<noteq> None"
    using session_complete [OF assms(1)] e unfolding has_all_def by blast
  then obtain s where s: "smap_find (m_factions m) (list_key e) = Some s" by blast
  have "fs_ID s = i"
    using store_okD(1) [OF st shape_entry [OF session_shape [OF assms(1)] e(1) s]] store_okD(1) [OF st e(1)] by simp
  with SaveToDB_rows [OF session_saved [OF assms(1)] s]
  have "rows_table rows' i = Some (fs_Standing s, fs_Flags s)" by (simp add: assms(3))
  then obtain f x fl where r: "(f, x, fl) \<in> set rows'" "i = ucast f" "fs_Standing s = sint x"
    unfolding rows_table_def by (auto dest!: map_of_SomeD)
  from LoadFromDB_standing [OF st assms(2) r(1)] e r(2) obtain t
    where "smap_find (m_factions (ReputationMgr_LoadFromDB R rows' m0)) (list_key e) = Some t" "fs_Standing t = sint x"
    by blast
  then show ?thesis
    using e s r(3) by (simp add: ReputationMgr_GetReputationById_def ReputationMgr_GetReputation_def ReputationMgr_GetState_def)
qed

theorem reputation_survives_relog_witness:
  "ReputationMgr_GetReputationById sample_rep 21 (ReputationMgr_LoadFromDB sample_rep sample_rows ReputationMgr_new) =
     ReputationMgr_GetReputationById sample_rep 21 sample_after"
  by (rule reputation_survives_relog [OF sample_session _ sample_rows_saved]) (simp add: sample_rows_def)

text \<open>
  Setting a reputation (not adding to it) gives exactly that reputation, cut to the range from
  -42000 to 42999, whatever the spillover to other factions did before; it returns true, and a faction whose rank is
  then hostile or worse is at war unless peace is forced.
\<close>
theorem SetReputation_sets:
  assumes "rep_session R rows ops m"
    and "re_store R (fe_ID e) = Some e" and "fe_reputationListID e \<ge> 0"
    and "ReputationMgr_SetReputation R e x False m = (res, m')"
  shows "res \<and> ReputationMgr_GetReputation R e m' = clamp_rep x \<and>
    (ReputationMgr_GetRank R e m' \<le> REP_HOSTILE \<longrightarrow>
      (\<exists>s. ReputationMgr_GetState e m' = Some s \<and>
         (fs_Flags s AND FACTION_FLAG_AT_WAR \<noteq> 0 \<or> fs_Flags s AND FACTION_FLAG_PEACE_FORCED \<noteq> 0)))"
proof -
  obtain s where res and "smap_find (m_factions m') (list_key e) =
      Some ((changed_node R e (new_standing R e x False s) s)\<lparr>fs_needSend := False\<rparr>)"
    by (rule SetReputation_node [OF session_complete [OF assms(1)] assms(2-4)])
  then obtain t where fin: "smap_find (m_factions m') (list_key e) = Some t"
    and t: "t = (changed_node R e (clamp_rep x) s)\<lparr>fs_needSend := False\<rparr>"
    by (simp add: new_standing_def)
  have st: "fs_Standing t = wrap32 (clamp_rep x - ReputationMgr_GetBaseReputation R e)"
    by (simp add: t changed_node_def Let_def)
  have rep: "ReputationMgr_GetReputation R e m' = clamp_rep x"
    using fin assms(3) by (simp add: ReputationMgr_GetReputation_def ReputationMgr_GetState_def st add.commute)
  have "bit (fs_Flags t) 1 \<or> bit (fs_Flags t) 4" if "ReputationToRank (clamp_rep x) \<le> REP_HOSTILE"
    using that by (auto simp: t changed_node_def Let_def war_flag_def flag_bit flag_set_bit)
  then show ?thesis
    using rep fin assms(3) \<open>res\<close> by (simp add: ReputationMgr_GetRank_def ReputationMgr_GetState_def flag_bit)
qed

theorem SetReputation_sets_witness:
  "fst (ReputationMgr_SetReputation sample_rep sample_faction 50000 False sample_after) \<and>
   ReputationMgr_GetReputation sample_rep sample_faction
     (snd (ReputationMgr_SetReputation sample_rep sample_faction 50000 False sample_after)) = 42999"
  using SetReputation_sets [OF sample_session _ _ surjective_pairing, of sample_faction 50000]
  by (simp add: sample_rep_def sample_faction_def clamp_rep_def Reputation_Cap_def)

text \<open>
  If the base reputations and the stored rows are in the range from -42000 to 42999, so is every reputation
  at every later moment.
\<close>
theorem reputation_in_range:
  assumes "rep_session R rows ops m"
    and "\<And>i e. re_store R i = Some e \<Longrightarrow> ReputationMgr_GetBaseReputation R e \<in> {-42000..42999}"
    and "\<And>f x fl e. (f, x, fl) \<in> set rows \<Longrightarrow> re_store R (ucast f) = Some e \<Longrightarrow>
      ReputationMgr_GetBaseReputation R e + sint x \<in> {-42000..42999}"
  shows "ReputationMgr_GetReputationById R i m \<in> {-42000..42999}"
proof -
  have st: "store_ok R" and rows: "distinct (map fst rows)" using assms(1) by (simp_all add: rep_session_def)
  have "each_node R (in_range R) (ReputationMgr_Initialize R ReputationMgr_new)"
    by (rule Initialize_nodes [OF st]) (use assms(2) in \<open>auto simp: in_range_def Reputation_Bottom_def Reputation_Cap_def wrap32_standing\<close>)
  then have "each_node R (in_range R) (ReputationMgr_LoadFromDB R rows ReputationMgr_new)"
    by (rule range.LoadFromDB_node [OF _ rows])
      (use assms(3) in \<open>auto simp: in_range_def Reputation_Bottom_def Reputation_Cap_def wrap32_standing\<close>)
  then have "each_node R (in_range R) m"
    using assms(1) range.rep_history.run_inv unfolding rep_session_def by blast
  then show ?thesis using in_range_reputation by blast
qed

theorem reputation_in_range_witness:
  "ReputationMgr_GetReputationById sample_rep 21 sample_after \<in> {-42000..42999}"
  by (rule reputation_in_range [OF sample_session]) (simp_all add: sample_entry sample_base)

text \<open>
  Forced peace holds: if no faction starts with both flags, no faction with the forced-peace flag is ever at
  war, whatever the rows say, the client asks for, and however far the reputation falls.
\<close>
theorem forced_peace_holds:
  assumes "rep_session R rows ops m"
    and "\<And>i e. re_store R i = Some e \<Longrightarrow> 
      \<not> (ucast (ReputationMgr_GetDefaultStateFlags R e) AND FACTION_FLAG_PEACE_FORCED \<noteq> 0 \<and>
         ucast (ReputationMgr_GetDefaultStateFlags R e) AND FACTION_FLAG_AT_WAR \<noteq> 0)"
    and "smap_find (m_factions m) k = Some s"
  shows "\<not> (fs_Flags s AND FACTION_FLAG_PEACE_FORCED \<noteq> 0 \<and> fs_Flags s AND FACTION_FLAG_AT_WAR \<noteq> 0)"
proof -
  have st: "store_ok R" and rows: "distinct (map fst rows)" using assms(1) by (simp_all add: rep_session_def)
  have "each_node R at_peace (ReputationMgr_Initialize R ReputationMgr_new)"
    using assms(2) by (intro Initialize_nodes [OF st]) (simp add: at_peace_def)
  then have "each_node R at_peace (ReputationMgr_LoadFromDB R rows ReputationMgr_new)"
    by (rule peace.LoadFromDB_node [OF _ rows]) (simp add: at_peace_def)
  then have "each_node R at_peace m"
    using assms(1) peace.rep_history.run_inv unfolding rep_session_def by blast
  then show ?thesis using assms(3) by (simp add: each_node_def at_peace_def)
qed

theorem forced_peace_holds_witness:
  "\<nexists>s. smap_find (m_factions sample_after) 3 = Some s \<and>
     fs_Flags s AND FACTION_FLAG_PEACE_FORCED \<noteq> 0 \<and> fs_Flags s AND FACTION_FLAG_AT_WAR \<noteq> 0"
  using forced_peace_holds [OF sample_session, of 3] by (auto simp: sample_entry sample_flags)

text \<open>
  The packet of the initial reputations, whose loop fills the gaps between the nodes of an ordered map,
  has exactly one entry for each of the 128 places of the client's list, in order: flags and standing of the faction with
  that place, or zeros.
\<close>
theorem initial_reputations_places:
  assumes "rep_session R rows ops m"
    and "\<And>i e. re_store R i = Some e \<Longrightarrow> fe_reputationListID e < 128"
  shows "rm_log (ReputationMgr_SendInitialReputations m) = rm_log m @
    [SendDirectMessage (Packet SMSG_INITIALIZE_FACTIONS (U32 128 # concat (map (place (m_factions m)) [0..<128])))]"
proof -
  have sh: "shape R m" by (rule session_shape [OF assms(1)])
  have "k < 128" if "(k, s) \<in> set (m_factions m)" for k s
  proof -
    have "listed R k s" using that sh by (auto simp: shape_def find_Some_iff)
    then obtain e where "re_store R (fs_ID s) = Some e" "fe_reputationListID e \<ge> 0" "list_key e = k"
      by (auto simp: listed_def split: option.splits)
    with assms(2) show ?thesis using small_place [of e] by simp
  qed
  then have "initial_loop (of_nat 0) (m_factions m) = concat (map (place (m_factions m)) [0..<128])"
    using sh by (intro initial_loop_places) (auto simp: shape_def)
  then show ?thesis by (simp add: ReputationMgr_SendInitialReputations_def)
qed

theorem initial_reputations_places_witness:
  "rm_log (ReputationMgr_SendInitialReputations sample_after) = rm_log sample_after @
    [SendDirectMessage (Packet SMSG_INITIALIZE_FACTIONS (U32 128 # concat (map (place (m_factions sample_after)) [0..<128])))]"
  by (rule initial_reputations_places [OF sample_session]) (auto simp: sample_entry sample_faction_def)

end
