(* ===== verification/Reputation_Spill.thy ===== *)
theory Reputation_Spill
  imports Reputation_Laws
begin

text \<open>
  The loader of the spillover templates (\<open>ObjectMgr::LoadReputationSpilloverTemplate\<close>,
  \<^verbatim>\<open>src/server/game/Globals/ObjectMgr.cpp\<close>), with the lines it writes to the error log.
\<close>

section \<open>Rows\<close>

text \<open>The faction, then four times a faction, a rate and a rank.\<close>

type_synonym spill_row = "uint32 \<times> (uint32 \<times> float32 \<times> uint32) list"

datatype spill_error =
    FactionMissing uint32
  | FactionNoTeam uint32
  | SlotMissing uint32 uint32
  | SlotUnlisted uint32 uint32
  | SlotBadRank uint32 uint32

definition MAX_REPUTATION_RANK :: nat where "MAX_REPUTATION_RANK = 8"

definition row_template :: "spill_row \<Rightarrow> RepSpilloverTemplate" where
  "row_template row = \<lparr>st_faction = map fst (snd row), st_faction_rate = map (fst \<circ> snd) (snd row),
     st_faction_rank = map (snd \<circ> snd) (snd row)\<rparr>"

text \<open>The first loop over the slots only logs: its \<open>continue\<close> goes on with the next slot.\<close>

definition slot_errors :: "(uint32 \<Rightarrow> FactionEntry option) \<Rightarrow> uint32 \<Rightarrow> RepSpilloverTemplate \<Rightarrow> nat \<Rightarrow> spill_error list" where
  "slot_errors store factionId t i =
     (if st_faction t ! i \<noteq> 0 then
        case store (st_faction t ! i) of
          None \<Rightarrow> [SlotMissing (st_faction t ! i) factionId]
        | Some e \<Rightarrow>
            if fe_reputationListID e < 0 then [SlotUnlisted (st_faction t ! i) factionId]
            else if unat (st_faction_rank t ! i) \<ge> MAX_REPUTATION_RANK
            then [SlotBadRank (st_faction_rank t ! i) (st_faction t ! i)] else []
      else [])"

text \<open>The four checks that follow: the first slot whose faction does not exist ends the row.\<close>

definition first_missing :: "(uint32 \<Rightarrow> FactionEntry option) \<Rightarrow> RepSpilloverTemplate \<Rightarrow> uint32 option" where
  "first_missing store t = find (\<lambda>f. f \<noteq> 0 \<and> store f = None) (map (\<lambda>i. st_faction t ! i) [0..<4])"

definition spill_load_row ::
  "(uint32 \<Rightarrow> FactionEntry option) \<Rightarrow> spill_row \<Rightarrow>
   (uint32 \<Rightarrow> RepSpilloverTemplate option) \<times> spill_error list \<Rightarrow> (uint32 \<Rightarrow> RepSpilloverTemplate option) \<times> spill_error list" where
  "spill_load_row store row = (\<lambda>(T, log).
     let factionId = fst row; repTemplate = row_template row in
     case store factionId of
       None \<Rightarrow> (T, log @ [FactionMissing factionId])
     | Some factionEntry \<Rightarrow>
         if fe_team factionEntry = 0 then (T, log @ [FactionNoTeam factionId])
         else
           let log1 = log @ concat (map (slot_errors store factionId repTemplate) [0..<4]) in
           case first_missing store repTemplate of
             Some f \<Rightarrow> (T, log1 @ [FactionMissing f])
           | None \<Rightarrow> (T(factionId \<mapsto> repTemplate), log1))"

definition LoadReputationSpilloverTemplate ::
  "(uint32 \<Rightarrow> FactionEntry option) \<Rightarrow> spill_row list \<Rightarrow> (uint32 \<Rightarrow> RepSpilloverTemplate option) \<times> spill_error list" where
  "LoadReputationSpilloverTemplate store rows = fold (spill_load_row store) rows (Map.empty, [])"

section \<open>What is loaded\<close>

definition spill_sound :: "(uint32 \<Rightarrow> FactionEntry option) \<Rightarrow> (uint32 \<Rightarrow> RepSpilloverTemplate option) \<Rightarrow> bool" where
  "spill_sound store T \<longleftrightarrow> (\<forall>f t. T f = Some t \<longrightarrow> (\<exists>e. store f = Some e \<and> fe_team e \<noteq> 0) \<and>
     (\<forall>i < 4. st_faction t ! i \<noteq> 0 \<longrightarrow> store (st_faction t ! i) \<noteq> None))"

lemma first_missing_None: "first_missing store t = None \<longleftrightarrow> (\<forall>i < 4. st_faction t ! i \<noteq> 0 \<longrightarrow> store (st_faction t ! i) \<noteq> None)"
  by (auto simp: first_missing_def List.find_None_iff)

lemma spill_load_row_sound:
  "spill_sound store (fst p) \<Longrightarrow> spill_sound store (fst (spill_load_row store row p))"
  by (cases p) (auto simp: spill_load_row_def Let_def spill_sound_def first_missing_None split: option.split)

lemma LoadSpillover_sound: "spill_sound store (fst (LoadReputationSpilloverTemplate store rows))"
proof -
  have "spill_sound store (fst (fold (spill_load_row store) rows p))" if "spill_sound store (fst p)" for p
    using that by (induction rows arbitrary: p) (simp_all add: spill_load_row_sound)
  from this [of "(Map.empty, [])"] show ?thesis
    by (simp add: LoadReputationSpilloverTemplate_def spill_sound_def)
qed

section \<open>Properties\<close>

text \<open>
  The spillover of \<open>SetReputation\<close> uses the store's entry of every slot without a test for \<open>NULL\<close>; with
  templates from the loader there is always one.
\<close>
theorem spillover_never_null:
  assumes "re_spillover R = fst (LoadReputationSpilloverTemplate (re_store R) rows)"
    and "re_spillover R f = Some t" and "i < 4" and "st_faction t ! i \<noteq> 0"
  shows "\<exists>e. re_store R (st_faction t ! i) = Some e"
  using LoadSpillover_sound [of "re_store R" rows] assms by (auto simp: spill_sound_def)

definition spill_team_faction :: FactionEntry where
  "spill_team_faction = sample_faction\<lparr>fe_team := 7\<rparr>"

definition sample_spill :: rep_env where
  "sample_spill = sample_rep\<lparr>re_store := (\<lambda>i. if i = 21 then Some spill_team_faction else None),
     re_spillover := fst (LoadReputationSpilloverTemplate (\<lambda>i. if i = 21 then Some spill_team_faction else None)
       [(21, [(21, 0, 9), (0, 0, 0), (0, 0, 0), (0, 0, 0)])])\<rparr>"

theorem spillover_never_null_witness:
  "\<exists>t e. re_spillover sample_spill 21 = Some t \<and> re_store sample_spill (st_faction t ! 0) = Some e"
proof -
  let ?t = "row_template (21, [(21, 0, 9), (0, 0, 0), (0, 0, 0), (0, 0, 0)])"
  have t: "re_spillover sample_spill 21 = Some ?t" by code_simp
  have "\<exists>e. re_store sample_spill (st_faction ?t ! 0) = Some e"
    by (rule spillover_never_null [OF _ t, of "[(21, [(21, 0, 9), (0, 0, 0), (0, 0, 0), (0, 0, 0)])]"])
      (simp_all add: sample_spill_def row_template_def)
  with t show ?thesis by blast
qed

text \<open>
  A slot whose faction cannot be listed, or whose rank is not a rank, is reported as skipped and kept: the row
  is loaded with the slot as soon as its factions exist.
\<close>
lemma reported_slot_is_kept:
  assumes "store factionId = Some e" "fe_team e \<noteq> 0"
    and "\<And>i. i < 4 \<Longrightarrow> fst (slots ! i) \<noteq> 0 \<Longrightarrow> store (fst (slots ! i)) \<noteq> None" and "length slots = 4"
  shows "fst (LoadReputationSpilloverTemplate store [(factionId, slots)]) factionId = Some (row_template (factionId, slots))"
proof -
  have "first_missing store (row_template (factionId, slots)) = None"
    unfolding first_missing_None using assms(3,4) by (simp add: row_template_def)
  with assms(1,2) show ?thesis by (simp add: LoadReputationSpilloverTemplate_def spill_load_row_def Let_def)
qed

lemma reported_slot_is_kept_witness:
  "let r = LoadReputationSpilloverTemplate (re_store sample_spill) [(21, [(21, 0, 9), (0, 0, 0), (0, 0, 0), (0, 0, 0)])]
   in snd r = [SlotBadRank 9 21] \<and> map_option (\<lambda>t. st_faction_rank t ! 0) (fst r 21) = Some 9"
proof -
  let ?slots = "[(21, 0, 9), (0, 0, 0), (0, 0, 0), (0, 0, 0)]" and ?store = "re_store sample_spill"
  have "fst (LoadReputationSpilloverTemplate ?store [(21, ?slots)]) 21 = Some (row_template (21, ?slots))"
  proof (rule reported_slot_is_kept)
    show "?store 21 = Some spill_team_faction" by (simp add: sample_spill_def)
    show "fe_team spill_team_faction \<noteq> 0" by (simp add: spill_team_faction_def)
    show "?store (fst (?slots ! i)) \<noteq> None" if "i < 4" "fst (?slots ! i) \<noteq> 0" for i
    proof -
      have "i \<in> {0, 1, 2, 3}" using that(1) by auto
      then show ?thesis using that(2) by (auto simp: sample_spill_def)
    qed
  qed simp
  moreover have "snd (LoadReputationSpilloverTemplate ?store [(21, ?slots)]) = [SlotBadRank 9 21]" by code_simp
  ultimately show ?thesis by (simp add: row_template_def)
qed

end
