(* ===== verification/Tickets.thy ===== *)
theory Tickets
  imports Game_World Util_Strings
begin

text \<open>
  Game-master tickets: the manager (\<^verbatim>\<open>src/server/game/Tickets/TicketMgr.cpp\<close> and \<^verbatim>\<open>.h\<close>) and the messages of the
  client (\<^verbatim>\<open>Handlers/TicketHandler.cpp\<close>).  A \<open>GM_Ticket*\<close> is the index of the ticket in the list.  Texts that come
  from the language table are its entry number with the arguments.
\<close>

section \<open>Data\<close>

definition GMTICKET_QUEUE_STATUS_DISABLED :: uint32 where "GMTICKET_QUEUE_STATUS_DISABLED = 0"
definition GMTICKET_QUEUE_STATUS_ENABLED :: uint32 where "GMTICKET_QUEUE_STATUS_ENABLED = 1"
definition GMTICKET_STATUS_HASTEXT :: uint32 where "GMTICKET_STATUS_HASTEXT = 0x06"
definition GMTICKET_STATUS_DEFAULT :: uint32 where "GMTICKET_STATUS_DEFAULT = 0x0A"
definition GMTICKET_RESPONSE_FAILURE :: uint32 where "GMTICKET_RESPONSE_FAILURE = 1"
definition GMTICKET_RESPONSE_SUCCESS :: uint32 where "GMTICKET_RESPONSE_SUCCESS = 2"
definition GMTICKET_RESPONSE_TICKET_DELETED :: uint32 where "GMTICKET_RESPONSE_TICKET_DELETED = 9"
definition TICKET_UNASSIGNED :: uint8 where "TICKET_UNASSIGNED = 0"
definition TICKET_ASSIGNED :: uint8 where "TICKET_ASSIGNED = 1"
definition TICKET_IN_ESCALATION_QUEUE :: uint8 where "TICKET_IN_ESCALATION_QUEUE = 2"
definition TICKET_ESCALATED_ASSIGNED :: uint8 where "TICKET_ESCALATED_ASSIGNED = 3"
definition GMTICKET_OPENEDBYGM_STATUS_NOT_OPENED :: uint8 where "GMTICKET_OPENEDBYGM_STATUS_NOT_OPENED = 0"
definition GMTICKET_OPENEDBYGM_STATUS_OPENED :: uint8 where "GMTICKET_OPENEDBYGM_STATUS_OPENED = 1"

definition SMSG_QUERY_TIME_RESPONSE :: uint32 where "SMSG_QUERY_TIME_RESPONSE = 0xF1AC"
definition SMSG_GMTICKET_CREATE :: uint32 where "SMSG_GMTICKET_CREATE = 0xA8A0"
definition SMSG_GMTICKET_UPDATETEXT :: uint32 where "SMSG_GMTICKET_UPDATETEXT = 0xA5E8"
definition SMSG_GMTICKET_GETTICKET :: uint32 where "SMSG_GMTICKET_GETTICKET = 0x2284"
definition SMSG_GMTICKET_DELETETICKET :: uint32 where "SMSG_GMTICKET_DELETETICKET = 0xF48C"
definition SMSG_GMTICKET_SYSTEMSTATUS :: uint32 where "SMSG_GMTICKET_SYSTEMSTATUS = 0xB9C0"
definition SMSG_GMRESPONSE_RECEIVED :: uint32 where "SMSG_GMRESPONSE_RECEIVED = 0x33AC"
definition SMSG_GMRESPONSE_STATUS_UPDATE :: uint32 where "SMSG_GMRESPONSE_STATUS_UPDATE = 0x0101"

text \<open>\<open>closed\<close> is 0 for an open ticket, and otherwise who closed it.\<close>

record GM_Ticket =
  tk_guid :: uint64
  tk_playerGuid :: uint64
  tk_name :: string
  tk_pos :: "uint32 list"
  tk_map :: uint32
  tk_message :: string
  tk_createtime :: uint64
  tk_timestamp :: uint64
  tk_closed :: int
  tk_assignedToGM :: uint64
  tk_comment :: string
  tk_completed :: bool
  tk_escalated :: uint8
  tk_viewed :: bool
  tk_response :: string

text \<open>A row of \<open>gm_tickets\<close>, in a statement (with string literals) or in the table.\<close>

record ticket_row =
  tr_guid :: uint64
  tr_playerGuid :: uint64
  tr_name :: string
  tr_message :: string
  tr_createtime :: uint64
  tr_map :: uint32
  tr_pos :: "string list"
  tr_timestamp :: uint64
  tr_closed :: int
  tr_assignedto :: uint64
  tr_comment :: string
  tr_completed :: bool
  tr_escalated :: uint8
  tr_viewed :: bool

datatype text_arg = Num uint64 | Txt string

type_synonym lang_text = "nat \<times> text_arg list"

datatype ticket_event =
    TkSend uint64 packet
  | TkNotification uint64 lang_text
  | TkGMText lang_text
  | TkSysMessage "lang_text list"
  | TkGlobalGM "lang_text list"
  | SqlReplaceTicket ticket_row
  | SqlDeleteTicket uint32
  | SqlText string

record TicketMgr =
  m_GMTicketList :: "GM_Ticket list"
  m_GMticketid :: uint64
  m_GMSurveyID :: uint64
  tm_status :: bool
  m_openTickets :: uint64
  lastChange :: uint64
  tm_log :: "ticket_event list"

text \<open>
  What the code reads of its surroundings: the world, \<open>time(NULL)\<close>, the database client's \<open>EscapeString\<close>, the output
  and input of \<open>float\<close> as text, the ages in days that packets carry, configuration values, the outcome of
  the survey's dice, the indeterminate \<open>viewed\<close> of a fresh \<open>GM_Ticket\<close>, and the character and account tables.
\<close>

record tk_env =
  te_world :: World
  te_time :: uint64
  te_EscapeString :: "string \<Rightarrow> string"
  te_float_text :: "uint32 \<Rightarrow> string"
  te_text_float :: "string \<Rightarrow> uint32"
  te_age :: "uint64 \<Rightarrow> uint32"
  te_change_age :: "uint64 \<Rightarrow> uint32"
  te_NextDailyQuestsResetTime :: uint64
  CONFIG_TICKET_LEVEL_REQ :: uint32
  te_survey :: bool
  te_viewed :: bool
  te_normalizePlayerName :: "string \<Rightarrow> bool \<times> string"
  te_GetPlayerGUIDByName :: "string \<Rightarrow> uint64"
  te_GetPlayerAccountIdByGUID :: "uint64 \<Rightarrow> uint32"
  te_GetSecurity :: "uint32 \<Rightarrow> nat"

definition tk_emit :: "ticket_event list \<Rightarrow> TicketMgr \<Rightarrow> TicketMgr" where
  "tk_emit es m = m\<lparr>tm_log := tm_log m @ es\<rparr>"

section \<open>The manager\<close>

definition TicketMgr_new :: "tk_env \<Rightarrow> TicketMgr" where
  "TicketMgr_new E = \<lparr>m_GMTicketList = [], m_GMticketid = 0, m_GMSurveyID = 0, tm_status = True, m_openTickets = 0,
     lastChange = te_time E, tm_log = []\<rparr>"

definition GenerateGMTicketId :: "TicketMgr \<Rightarrow> uint64 \<times> TicketMgr" where
  "GenerateGMTicketId m = (m_GMticketid m + 1, m\<lparr>m_GMticketid := m_GMticketid m + 1\<rparr>)"

definition GetNextSurveyID :: "TicketMgr \<Rightarrow> uint64 \<times> TicketMgr" where
  "GetNextSurveyID m = (m_GMSurveyID m + 1, m\<lparr>m_GMSurveyID := m_GMSurveyID m + 1\<rparr>)"

definition TicketMgr_UpdateLastChange :: "tk_env \<Rightarrow> TicketMgr \<Rightarrow> TicketMgr" where
  "TicketMgr_UpdateLastChange E m = m\<lparr>lastChange := te_time E\<rparr>"

definition TicketMgr_Initialize :: "bool \<Rightarrow> TicketMgr \<Rightarrow> TicketMgr" where
  "TicketMgr_Initialize CONFIG_ALLOW_TICKETS m = m\<lparr>tm_status := CONFIG_ALLOW_TICKETS\<rparr>"

text \<open>The three searches: the index of the first ticket that fits.\<close>

definition first_ticket :: "(GM_Ticket \<Rightarrow> bool) \<Rightarrow> TicketMgr \<Rightarrow> nat option" where
  "first_ticket P m = find (\<lambda>i. P (m_GMTicketList m ! i)) [0..<length (m_GMTicketList m)]"

definition GetGMTicket :: "uint64 \<Rightarrow> TicketMgr \<Rightarrow> nat option" where
  "GetGMTicket ticketGuid = first_ticket (\<lambda>t. tk_guid t = ticketGuid)"

definition GetGMTicketByPlayer :: "uint64 \<Rightarrow> TicketMgr \<Rightarrow> nat option" where
  "GetGMTicketByPlayer playerGuid = first_ticket (\<lambda>t. tk_playerGuid t = playerGuid \<and> tk_closed t = 0)"

definition GetOldestOpenGMTicket :: "TicketMgr \<Rightarrow> nat option" where
  "GetOldestOpenGMTicket = first_ticket (\<lambda>t. tk_closed t = 0 \<and> \<not> tk_completed t)"

definition ticket_at :: "nat \<Rightarrow> TicketMgr \<Rightarrow> GM_Ticket" where
  "ticket_at i m = m_GMTicketList m ! i"

definition set_ticket :: "nat \<Rightarrow> (GM_Ticket \<Rightarrow> GM_Ticket) \<Rightarrow> TicketMgr \<Rightarrow> TicketMgr" where
  "set_ticket i f m = m\<lparr>m_GMTicketList := (m_GMTicketList m)[i := f (ticket_at i m)]\<rparr>"

definition AddOrUpdateGMTicket_sql :: "tk_env \<Rightarrow> GM_Ticket \<Rightarrow> TicketMgr \<Rightarrow> TicketMgr" where
  "AddOrUpdateGMTicket_sql E t m =
     tk_emit [SqlReplaceTicket
       \<lparr>tr_guid = tk_guid t, tr_playerGuid = tk_playerGuid t, tr_name = te_EscapeString E (tk_name t),
        tr_message = te_EscapeString E (tk_message t), tr_createtime = tk_createtime t, tr_map = tk_map t,
        tr_pos = map (te_float_text E) (tk_pos t), tr_timestamp = tk_timestamp t, tr_closed = tk_closed t,
        tr_assignedto = tk_assignedToGM t, tr_comment = te_EscapeString E (tk_comment t), tr_completed = tk_completed t,
        tr_escalated = tk_escalated t, tr_viewed = tk_viewed t\<rparr>] m"

definition AddOrUpdateGMTicket :: "tk_env \<Rightarrow> GM_Ticket \<Rightarrow> bool \<Rightarrow> TicketMgr \<Rightarrow> TicketMgr" where
  "AddOrUpdateGMTicket E t create m =
     (let m1 = (if create
                then m\<lparr>m_GMTicketList := m_GMTicketList m @ [t],
                       m_openTickets := (if tk_closed t = 0 then m_openTickets m + 1 else m_openTickets m)\<rparr>
                else m)
      in AddOrUpdateGMTicket_sql E t m1)"

text \<open>The loop over the list; a permanent removal ends it.\<close>

fun RemoveGMTicket_loop :: "tk_env \<Rightarrow> uint64 \<Rightarrow> int \<Rightarrow> bool \<Rightarrow> nat list \<Rightarrow> TicketMgr \<Rightarrow> TicketMgr" where
  "RemoveGMTicket_loop E guid source permanently [] m = m"
| "RemoveGMTicket_loop E guid source permanently (i # is) m =
     (if tk_guid (ticket_at i m) = guid then
        if permanently
        then tk_emit [SqlDeleteTicket (ucast guid)]
               (m\<lparr>m_GMTicketList := take i (m_GMTicketList m) @ drop (Suc i) (m_GMTicketList m)\<rparr>)
        else
          let m1 = set_ticket i (\<lambda>t. t\<lparr>tk_closed := source\<rparr>) m;
              m2 = (if source \<noteq> 0 then m1\<lparr>m_openTickets := m_openTickets m1 - 1\<rparr> else m1)
          in RemoveGMTicket_loop E guid source permanently is (AddOrUpdateGMTicket_sql E (ticket_at i m2) m2)
      else RemoveGMTicket_loop E guid source permanently is m)"

definition RemoveGMTicket :: "tk_env \<Rightarrow> nat \<Rightarrow> int \<Rightarrow> bool \<Rightarrow> TicketMgr \<Rightarrow> TicketMgr" where
  "RemoveGMTicket E ticket source permanently m =
     RemoveGMTicket_loop E (tk_guid (ticket_at ticket m)) source permanently [0..<length (m_GMTicketList m)] m"

text \<open>By number: \<open>None\<close> is the failed assertion.\<close>

definition RemoveGMTicket_guid :: "tk_env \<Rightarrow> uint64 \<Rightarrow> int \<Rightarrow> bool \<Rightarrow> TicketMgr \<Rightarrow> TicketMgr option" where
  "RemoveGMTicket_guid E ticketGuid source permanently m =
     map_option (\<lambda>ticket. RemoveGMTicket E ticket source permanently m) (GetGMTicket ticketGuid m)"

text \<open>Loading: numbers and times are read as \<open>uint32\<close>, \<open>closed\<close> as \<open>int32\<close>.\<close>

definition ticket_of_row :: "tk_env \<Rightarrow> ticket_row \<Rightarrow> GM_Ticket" where
  "ticket_of_row E r =
     \<lparr>tk_guid = ucast (ucast (tr_guid r) :: uint32), tk_playerGuid = ucast (ucast (tr_playerGuid r) :: uint32),
      tk_name = tr_name r, tk_pos = map (te_text_float E) (tr_pos r), tk_map = tr_map r, tk_message = tr_message r,
      tk_createtime = ucast (ucast (tr_createtime r) :: uint32), tk_timestamp = ucast (ucast (tr_timestamp r) :: uint32),
      tk_closed = wrap32 (tr_closed r), tk_assignedToGM = tr_assignedto r, tk_comment = tr_comment r,
      tk_completed = tr_completed r, tk_escalated = tr_escalated r, tk_viewed = tr_viewed r, tk_response = ''''\<rparr>"

definition load_ticket :: "tk_env \<Rightarrow> ticket_row \<Rightarrow> TicketMgr \<Rightarrow> TicketMgr" where
  "load_ticket E r m =
     (let t = ticket_of_row E r in
      m\<lparr>m_openTickets := (if tk_closed t = 0 then m_openTickets m + 1 else m_openTickets m),
        m_GMTicketList := m_GMTicketList m @ [t]\<rparr>)"

text \<open>\<open>maxguid\<close> is what \<open>SELECT MAX(guid)\<close> returns for a table that is not empty.\<close>

definition LoadGMTickets :: "tk_env \<Rightarrow> ticket_row list \<Rightarrow> uint64 \<Rightarrow> TicketMgr \<Rightarrow> TicketMgr" where
  "LoadGMTickets E rows maxguid m =
     (let m0 = m\<lparr>m_GMTicketList := [], m_GMticketid := 0, m_openTickets := 0\<rparr> in
      if rows = [] then m0 else (fold (load_ticket E) rows m0)\<lparr>m_GMticketid := maxguid\<rparr>)"

definition LoadGMSurveys :: "uint32 option \<Rightarrow> TicketMgr \<Rightarrow> TicketMgr" where
  "LoadGMSurveys result m = m\<lparr>m_GMSurveyID := (case result of None \<Rightarrow> 0 | Some n \<Rightarrow> ucast n)\<rparr>"

section \<open>Packets\<close>

definition c_str :: "string \<Rightarrow> string" where
  "c_str s = takeWhile (\<lambda>c. c \<noteq> CHR 0x00) s"

definition SendQueryTimeResponse :: "tk_env \<Rightarrow> Player \<Rightarrow> TicketMgr \<Rightarrow> TicketMgr" where
  "SendQueryTimeResponse E plr =
     tk_emit [TkSend (plr_GUID plr) (Packet SMSG_QUERY_TIME_RESPONSE
       [U32 (ucast (te_time E)), U32 (ucast (te_NextDailyQuestsResetTime E - te_time E))])]"

definition SendGMTicketGetTicket ::
  "tk_env \<Rightarrow> Player \<Rightarrow> uint32 \<Rightarrow> string option \<Rightarrow> GM_Ticket option \<Rightarrow> TicketMgr \<Rightarrow> TicketMgr" where
  "SendGMTicketGetTicket E plr status text ticket m =
     (let details =
            (if status = GMTICKET_STATUS_HASTEXT then
               [Str (case text of None \<Rightarrow> '''' | Some t \<Rightarrow> t), U8 0x7] @
               (case ticket of
                  Some t \<Rightarrow>
                    [F32 (te_age E (tk_timestamp t)),
                     F32 (case GetOldestOpenGMTicket m of
                            Some i \<Rightarrow> te_age E (tk_timestamp (ticket_at i m)) | None \<Rightarrow> 0),
                     F32 (te_change_age E (lastChange m)),
                     U8 (if tk_escalated t \<le> TICKET_IN_ESCALATION_QUEUE then tk_escalated t else TICKET_IN_ESCALATION_QUEUE),
                     U8 (if tk_viewed t then GMTICKET_OPENEDBYGM_STATUS_OPENED else GMTICKET_OPENEDBYGM_STATUS_NOT_OPENED)]
                | None \<Rightarrow> [F32 0, F32 0, F32 0x3F800000, U8 0, U8 0])
             else [])
      in tk_emit [TkSend (plr_GUID plr) (Packet SMSG_GMTICKET_GETTICKET ([U32 status, U32 1] @ details))] m)"

definition SendGMTicketResponse :: "Player \<Rightarrow> GM_Ticket \<Rightarrow> TicketMgr \<Rightarrow> TicketMgr" where
  "SendGMTicketResponse plr t =
     tk_emit [TkSend (plr_GUID plr) (Packet SMSG_GMRESPONSE_RECEIVED
       [U32 1, U32 0, Str (c_str (tk_message t)), Str (c_str (tk_response t)), U8 0, U8 0, U8 0])]"

definition ticket_reply :: "Player \<Rightarrow> uint32 \<Rightarrow> uint32 \<Rightarrow> TicketMgr \<Rightarrow> TicketMgr" where
  "ticket_reply plr opcode answer = tk_emit [TkSend (plr_GUID plr) (Packet opcode [U32 answer])]"

section \<open>Messages of the client\<close>

text \<open>
  What a handler did before a read beyond the end of the packet threw stays done, so a handler returns the state and the
  exception, if any.
\<close>

type_synonym handled = "TicketMgr \<times> bb_error option"

definition read_ticket ::
  "'z ByteBuffer_scheme \<Rightarrow> bb_error + uint32 \<times> uint32 list \<times> string" where
  "read_ticket recv_data =
     bindE (in_u32 recv_data) (\<lambda>(map_id, d0).
     bindE (in_float d0) (\<lambda>(x, d1).
     bindE (in_float d1) (\<lambda>(y, d2).
     bindE (in_float d2) (\<lambda>(z, d3).
     bindE (in_string d3) (\<lambda>(ticketText, d4).
     bindE (in_u32 d4) (\<lambda>(unk, d5).
     bindE (in_u8 d5) (\<lambda>(needResponse, d6).
     bindE (in_u32 d6) (\<lambda>(unk1, d7).
     bindE (in_u32 d7) (\<lambda>(unk2, d8). Inr (map_id, [x, y, z], ticketText))))))))))"

definition new_ticket :: "tk_env \<Rightarrow> Player \<Rightarrow> uint64 \<Rightarrow> uint32 \<times> uint32 list \<times> string \<Rightarrow> GM_Ticket" where
  "new_ticket E plr guid = (\<lambda>(map_id, pos, ticketText).
     \<lparr>tk_guid = guid, tk_playerGuid = plr_GUID plr, tk_name = plr_Name plr, tk_pos = pos,
      tk_map = map_id, tk_message = ticketText, tk_createtime = te_time E, tk_timestamp = te_time E,
      tk_closed = 0, tk_assignedToGM = 0, tk_comment = '''', tk_completed = False,
      tk_escalated = TICKET_UNASSIGNED, tk_viewed = te_viewed E, tk_response = ''''\<rparr>)"

definition create_ticket :: "tk_env \<Rightarrow> Player \<Rightarrow> uint32 \<times> uint32 list \<times> string \<Rightarrow> TicketMgr \<Rightarrow> TicketMgr" where
  "create_ticket E plr text m =
     (let (guid, m2) = GenerateGMTicketId m;
          m3 = AddOrUpdateGMTicket E (new_ticket E plr guid text) True m2;
          m4 = ticket_reply plr SMSG_GMTICKET_CREATE GMTICKET_RESPONSE_SUCCESS m3
      in tk_emit [TkGMText (2000, [Txt (plr_Name plr), Num guid])] m4)"

definition HandleGMTicketCreateOpcode :: "tk_env \<Rightarrow> Player \<Rightarrow> 'z ByteBuffer_scheme \<Rightarrow> TicketMgr \<Rightarrow> handled" where
  "HandleGMTicketCreateOpcode E plr recv_data m =
     (if \<not> tm_status m then (m, None)
      else if ucast (plr_Level plr) < CONFIG_TICKET_LEVEL_REQ E
      then (tk_emit [TkNotification (plr_GUID plr) (6608, [Num (ucast (CONFIG_TICKET_LEVEL_REQ E))])] m, None)
      else if GetGMTicketByPlayer (plr_GUID plr) m \<noteq> None
      then (ticket_reply plr SMSG_GMTICKET_CREATE GMTICKET_RESPONSE_FAILURE m, None)
      else
        let m1 = SendQueryTimeResponse E plr m in
        case read_ticket recv_data of
          Inl e \<Rightarrow> (m1, Some e)
        | Inr text \<Rightarrow> (create_ticket E plr text m1, None))"

definition HandleGMTicketUpdateOpcode :: "tk_env \<Rightarrow> Player \<Rightarrow> 'z ByteBuffer_scheme \<Rightarrow> TicketMgr \<Rightarrow> handled" where
  "HandleGMTicketUpdateOpcode E plr recv_data m =
     (case in_string recv_data of
        Inl e \<Rightarrow> (m, Some e)
      | Inr (message, _) \<Rightarrow>
          case GetGMTicketByPlayer (plr_GUID plr) m of
            None \<Rightarrow> (ticket_reply plr SMSG_GMTICKET_UPDATETEXT GMTICKET_RESPONSE_FAILURE m, None)
          | Some i \<Rightarrow>
              let m1 = set_ticket i (\<lambda>t. t\<lparr>tk_message := message, tk_timestamp := te_time E\<rparr>) m;
                  m2 = AddOrUpdateGMTicket E (ticket_at i m1) False m1;
                  m3 = ticket_reply plr SMSG_GMTICKET_UPDATETEXT GMTICKET_RESPONSE_SUCCESS m2
              in (tk_emit [TkGMText (2001, [Txt (plr_Name plr), Num (tk_guid (ticket_at i m3))])] m3, None))"

text \<open>A GUID as the \<open>int64\<close> that \<open>closed\<close> holds.\<close>

definition as_source :: "uint64 \<Rightarrow> int" where
  "as_source guid = sint guid"

definition HandleGMTicketDeleteOpcode :: "tk_env \<Rightarrow> Player \<Rightarrow> TicketMgr \<Rightarrow> TicketMgr" where
  "HandleGMTicketDeleteOpcode E plr m =
     (case GetGMTicketByPlayer (plr_GUID plr) m of
        None \<Rightarrow> m
      | Some i \<Rightarrow>
          let m1 = ticket_reply plr SMSG_GMTICKET_DELETETICKET GMTICKET_RESPONSE_TICKET_DELETED m;
              m2 = tk_emit [TkGMText (2002, [Txt (plr_Name plr), Num (tk_guid (ticket_at i m1))])] m1;
              m3 = RemoveGMTicket E i (as_source (plr_GUID plr)) False m2
          in SendGMTicketGetTicket E plr GMTICKET_STATUS_DEFAULT None None m3)"

definition HandleGMTicketGetTicketOpcode :: "tk_env \<Rightarrow> Player \<Rightarrow> TicketMgr \<Rightarrow> TicketMgr" where
  "HandleGMTicketGetTicketOpcode E plr m =
     (let m1 = SendQueryTimeResponse E plr m in
      case GetGMTicketByPlayer (plr_GUID plr) m1 of
        Some i \<Rightarrow>
          (if tk_completed (ticket_at i m1) then SendGMTicketResponse plr (ticket_at i m1) m1
           else SendGMTicketGetTicket E plr GMTICKET_STATUS_HASTEXT (Some (c_str (tk_message (ticket_at i m1))))
                  (Some (ticket_at i m1)) m1)
      | None \<Rightarrow> SendGMTicketGetTicket E plr GMTICKET_STATUS_DEFAULT None None m1)"

definition HandleGMTicketSystemStatusOpcode :: "Player \<Rightarrow> TicketMgr \<Rightarrow> TicketMgr" where
  "HandleGMTicketSystemStatusOpcode plr m =
     ticket_reply plr SMSG_GMTICKET_SYSTEMSTATUS
       (if tm_status m then GMTICKET_QUEUE_STATUS_ENABLED else GMTICKET_QUEUE_STATUS_DISABLED) m"

text \<open>At most ten answers of a survey; the statements of those read before an exception have been executed.\<close>

fun survey_loop ::
  "tk_env \<Rightarrow> uint64 \<Rightarrow> nat \<Rightarrow> 'z ByteBuffer_scheme \<Rightarrow> TicketMgr \<Rightarrow> TicketMgr \<times> (bb_error + 'z ByteBuffer_scheme)" where
  "survey_loop E nextSurveyID 0 d m = (m, Inr d)"
| "survey_loop E nextSurveyID (Suc n) d m =
     (case in_u32 d of
        Inl e \<Rightarrow> (m, Inl e)
      | Inr (subSurveyId, d1) \<Rightarrow>
          if subSurveyId = 0 then (m, Inr d1)
          else
            case bindE (in_u8 d1) (\<lambda>(rank, d2). bindE (in_string d2) (\<lambda>(comment, d3). Inr (rank, comment, d3))) of
              Inl e \<Rightarrow> (m, Inl e)
            | Inr (rank, comment, d3) \<Rightarrow>
                survey_loop E nextSurveyID n d3
                  (tk_emit [SqlText (''INSERT INTO gm_subsurveys (surveyid, subsurveyid, rank, comment) VALUES ('' @
                     dec_string (unat (ucast nextSurveyID :: uint32)) @ '' '' @ dec_string (unat subSurveyId) @ '', '' @
                     dec_string (unat rank) @ '', '' @ [CHR 0x27] @ te_EscapeString E comment @ [CHR 0x27] @ '');'')] m))"

definition HandleGMSurveySubmit :: "tk_env \<Rightarrow> Player \<Rightarrow> 'z ByteBuffer_scheme \<Rightarrow> TicketMgr \<Rightarrow> handled" where
  "HandleGMSurveySubmit E plr recv_data m =
     (let (nextSurveyID, m1) = GetNextSurveyID m in
      case in_u32 recv_data of
        Inl e \<Rightarrow> (m1, Some e)
      | Inr (mainSurvey, d0) \<Rightarrow>
          case survey_loop E nextSurveyID 10 d0 m1 of
            (m2, Inl e) \<Rightarrow> (m2, Some e)
          | (m2, Inr d1) \<Rightarrow>
              case in_string d1 of
                Inl e \<Rightarrow> (m2, Some e)
              | Inr (comment, _) \<Rightarrow>
                  (tk_emit [SqlText (''INSERT INTO gm_surveys (player, surveyid, mainSurvey, overall_comment, timestamp) VALUES ('' @
                     dec_string (unat (plr_GUID plr)) @ '', '' @ dec_string (unat (ucast nextSurveyID :: uint32)) @ '', '' @
                     dec_string (unat mainSurvey) @ '', '' @ [CHR 0x27] @ te_EscapeString E comment @ [CHR 0x27] @ '', '' @
                     ''0'' @ '');'')] m2, None))"

definition HandleReportLag :: "tk_env \<Rightarrow> Player \<Rightarrow> 'z ByteBuffer_scheme \<Rightarrow> TicketMgr \<Rightarrow> handled" where
  "HandleReportLag E plr recv_data m =
     (case bindE (in_u32 recv_data) (\<lambda>(lagType, d0).
           bindE (in_u32 d0) (\<lambda>(mapId, d1).
           bindE (in_float d1) (\<lambda>(x, d2).
           bindE (in_float d2) (\<lambda>(y, d3).
           bindE (in_float d3) (\<lambda>(z, d4). Inr (lagType, mapId, x, y, z)))))) of
        Inl e \<Rightarrow> (m, Some e)
      | Inr (lagType, mapId, x, y, z) \<Rightarrow>
          (tk_emit [SqlText (''INSERT INTO lag_reports (player, lag_type, map, posX, posY, posZ) VALUES ('' @
             dec_string (unat (plr_GUID plr)) @ '', '' @ dec_string (unat lagType) @ '', '' @ dec_string (unat mapId) @ '', '' @
             te_float_text E x @ '', '' @ te_float_text E y @ '', '' @ te_float_text E z @ '');'')] m, None))"

definition HandleGMResponseResolve :: "tk_env \<Rightarrow> Player \<Rightarrow> TicketMgr \<Rightarrow> TicketMgr" where
  "HandleGMResponseResolve E plr m =
     (case GetGMTicketByPlayer (plr_GUID plr) m of
        None \<Rightarrow> m
      | Some i \<Rightarrow>
          let getSurvey = (if te_survey E then 1 else 0);
              m1 = tk_emit [TkSend (plr_GUID plr) (Packet SMSG_GMRESPONSE_STATUS_UPDATE [U8 getSurvey])] m;
              m2 = ticket_reply plr SMSG_GMTICKET_DELETETICKET GMTICKET_RESPONSE_TICKET_DELETED m1;
              m3 = RemoveGMTicket E i (as_source (plr_GUID plr)) True m2
          in SendGMTicketGetTicket E plr GMTICKET_STATUS_DEFAULT None None m3)"

end
