(* ===== verification/Ticket_Commands.thy ===== *)
theory Ticket_Commands
  imports Tickets
begin

text \<open>
  The game masters' ticket commands (\<^verbatim>\<open>src/server/game/Chat/Commands/TicketCommands.cpp\<close>).  A command returns whether its
  syntax was right, and the new state; \<open>None\<close> stands for the dereference of \<open>NULL\<close> in \<open>atoi(strtok(...))\<close> for arguments
  that are only separators.
\<close>

type_synonym command_result = "(bool \<times> TicketMgr) option"

section \<open>Arguments\<close>

text \<open>\<open>atoi\<close> of the C library is the low 32 bits of \<open>strtol\<close>; the result is converted to \<open>uint64\<close>.\<close>

definition atoi64 :: "string \<Rightarrow> uint64" where
  "atoi64 s = word_of_int (wrap32 (atol s))"

text \<open>\<open>strtok\<close>: the token and the text that the next call goes on with.\<close>

definition strtok :: "char \<Rightarrow> string \<Rightarrow> (string \<times> string) option" where
  "strtok sep s =
     (let t = dropWhile (\<lambda>c. c = sep) s in
      if t = [] then None else Some (takeWhile (\<lambda>c. c \<noteq> sep) t, drop 1 (dropWhile (\<lambda>c. c \<noteq> sep) t)))"

definition newline :: char where "newline = CHR 0x0A"

section \<open>Texts\<close>

definition text_head :: "GM_Ticket \<Rightarrow> lang_text list" where
  "text_head t = [(2017, [Num (tk_guid t)]), (2018, [Txt (c_str (tk_name t))])]"

definition text_times :: "tk_env \<Rightarrow> GM_Ticket \<Rightarrow> lang_text list" where
  "text_times E t =
     [(2025, [Txt (c_str (secsToTimeString (unat (te_time E - tk_createtime t)) True False))]),
      (2019, [Txt (c_str (secsToTimeString (unat (te_time E - tk_timestamp t)) True False))])]"

definition text_assigned :: "tk_env \<Rightarrow> GM_Ticket \<Rightarrow> lang_text list" where
  "text_assigned E t =
     (case GetPlayerNameByGUID (te_world E) (tk_assignedToGM t) of None \<Rightarrow> [] | Some gmname \<Rightarrow> [(2020, [Txt (c_str gmname)])])"

text \<open>The name that \<open>GetPlayerNameByGUID\<close> leaves in its argument: empty when there is no such character.\<close>

definition name_of :: "tk_env \<Rightarrow> uint64 \<Rightarrow> string" where
  "name_of E guid = (case GetPlayerNameByGUID (te_world E) guid of None \<Rightarrow> '''' | Some n \<Rightarrow> n)"

definition sys_message :: "nat \<Rightarrow> text_arg list \<Rightarrow> TicketMgr \<Rightarrow> TicketMgr" where
  "sys_message entry args = tk_emit [TkSysMessage [(entry, args)]]"

section \<open>Lists\<close>

definition HandleGMTicketListCommand :: "tk_env \<Rightarrow> TicketMgr \<Rightarrow> command_result" where
  "HandleGMTicketListCommand E m =
     Some (True, tk_emit (TkSysMessage [(2009, [])] #
       map (\<lambda>t. TkSysMessage (text_head t @ text_times E t @ text_assigned E t))
         (filter (\<lambda>t. \<not> (tk_closed t \<noteq> 0 \<or> tk_completed t)) (m_GMTicketList m))) m)"

definition HandleGMTicketListOnlineCommand :: "tk_env \<Rightarrow> TicketMgr \<Rightarrow> command_result" where
  "HandleGMTicketListOnlineCommand E m =
     Some (True, tk_emit (TkSysMessage [(2010, [])] #
       map (\<lambda>t. TkSysMessage (text_head t @ text_times E t @ text_assigned E t))
         (filter (\<lambda>t. \<not> (tk_closed t \<noteq> 0 \<or> tk_completed t \<or> FindPlayer (te_world E) (tk_playerGuid t) = None))
           (m_GMTicketList m))) m)"

definition HandleGMTicketListClosedCommand :: "tk_env \<Rightarrow> TicketMgr \<Rightarrow> command_result" where
  "HandleGMTicketListClosedCommand E m =
     Some (True, tk_emit (TkSysMessage [(2011, [])] #
       map (\<lambda>t. TkSysMessage (text_head t @ text_times E t @ text_assigned E t))
         (filter (\<lambda>t. \<not> tk_closed t = 0) (m_GMTicketList m))) m)"

definition HandleGMTicketListEscalatedCommand :: "tk_env \<Rightarrow> TicketMgr \<Rightarrow> command_result" where
  "HandleGMTicketListEscalatedCommand E m =
     Some (True, tk_emit (TkSysMessage [(2026, [])] #
       map (\<lambda>t. TkSysMessage (text_head t @ text_times E t))
         (filter (\<lambda>t. \<not> (tk_escalated t \<noteq> TICKET_IN_ESCALATION_QUEUE \<or> tk_closed t \<noteq> 0)) (m_GMTicketList m))) m)"

section \<open>Reading one ticket\<close>

definition show_ticket :: "tk_env \<Rightarrow> nat \<Rightarrow> TicketMgr \<Rightarrow> TicketMgr" where
  "show_ticket E i m =
     (let m1 = set_ticket i (\<lambda>t. t\<lparr>tk_viewed := True\<rparr>) m; t = ticket_at i m1 in
      tk_emit [TkSysMessage (text_head t @ text_times E t @ text_assigned E t @ [(2022, [Txt (c_str (tk_message t))])] @
        (if length (c_str (tk_comment t)) \<noteq> 0 then [(2023, [Txt (c_str (tk_comment t))])] else []))] m1)"

definition HandleGMTicketGetByIdCommand :: "tk_env \<Rightarrow> string \<Rightarrow> TicketMgr \<Rightarrow> command_result" where
  "HandleGMTicketGetByIdCommand E args m =
     (if args = [] then Some (False, m)
      else case GetGMTicket (atoi64 args) m of
             None \<Rightarrow> Some (True, sys_message 2005 [] m)
           | Some i \<Rightarrow>
               if tk_closed (ticket_at i m) \<noteq> 0 \<or> tk_completed (ticket_at i m) then Some (True, sys_message 2005 [] m)
               else Some (True, show_ticket E i m))"

definition HandleGMTicketGetByNameCommand :: "tk_env \<Rightarrow> string \<Rightarrow> TicketMgr \<Rightarrow> command_result" where
  "HandleGMTicketGetByNameCommand E args m =
     (if args = [] then Some (False, m)
      else case FindPlayerByName (te_world E) (c_str (snd (te_normalizePlayerName E args))) of
             None \<Rightarrow> Some (True, sys_message 330 [] m)
           | Some plr \<Rightarrow>
               case GetGMTicketByPlayer (plr_GUID plr) m of
                 None \<Rightarrow> Some (True, sys_message 2005 [] m)
               | Some i \<Rightarrow> Some (True, show_ticket E i m))"

section \<open>Closing and deleting\<close>

definition HandleGMTicketCloseByIdCommand :: "tk_env \<Rightarrow> Player \<Rightarrow> string \<Rightarrow> TicketMgr \<Rightarrow> command_result" where
  "HandleGMTicketCloseByIdCommand E gm args m =
     (if args = [] then Some (False, m)
      else case GetGMTicket (atoi64 args) m of
             None \<Rightarrow> Some (True, sys_message 2005 [] m)
           | Some i \<Rightarrow>
               let t = ticket_at i m in
               if tk_closed t \<noteq> 0 \<or> tk_completed t then Some (True, sys_message 2005 [] m)
               else if tk_assignedToGM t \<noteq> 0 \<and> tk_assignedToGM t \<noteq> plr_GUID gm
               then Some (True, sys_message 2016 [Num (tk_guid t)] m)
               else
                 let m1 = tk_emit [TkGlobalGM (text_head t @ [(2003, [Txt (plr_Name gm)])])] m;
                     plr = FindPlayer (te_world E) (tk_playerGuid t);
                     m2 = RemoveGMTicket E i (as_source (plr_GUID gm)) False m1
                 in case plr of
                      None \<Rightarrow> Some (True, m2)
                    | Some p \<Rightarrow>
                        if \<not> plr_InWorld p then Some (True, m2)
                        else Some (True, TicketMgr_UpdateLastChange E
                               (ticket_reply p SMSG_GMTICKET_DELETETICKET GMTICKET_RESPONSE_TICKET_DELETED m2)))"

definition HandleGMTicketDeleteByIdCommand :: "tk_env \<Rightarrow> Player \<Rightarrow> string \<Rightarrow> TicketMgr \<Rightarrow> command_result" where
  "HandleGMTicketDeleteByIdCommand E gm args m =
     (if args = [] then Some (False, m)
      else case GetGMTicket (atoi64 args) m of
             None \<Rightarrow> Some (True, sys_message 2005 [] m)
           | Some i \<Rightarrow>
               let t = ticket_at i m in
               if tk_closed t = 0 then Some (True, sys_message 2006 [] m)
               else
                 let m1 = tk_emit [TkGlobalGM (text_head t @ [(2004, [Txt (plr_Name gm)])])] m;
                     plr = FindPlayer (te_world E) (tk_playerGuid t);
                     m2 = RemoveGMTicket E i (-1) True m1;
                     m3 = (case plr of
                             None \<Rightarrow> m2
                           | Some p \<Rightarrow>
                               if plr_InWorld p
                               then ticket_reply p SMSG_GMTICKET_DELETETICKET GMTICKET_RESPONSE_TICKET_DELETED m2 else m2)
                 in Some (True, TicketMgr_UpdateLastChange E m3))"

section \<open>Assigning\<close>

definition assign_ticket :: "tk_env \<Rightarrow> nat \<Rightarrow> uint64 \<Rightarrow> nat \<Rightarrow> TicketMgr \<Rightarrow> TicketMgr" where
  "assign_ticket E i tarGUID gmlevel m =
     (let m1 = set_ticket i (\<lambda>t. t\<lparr>tk_assignedToGM := tarGUID,
              tk_escalated := (if gmlevel = sec_value SEC_ADMINISTRATOR \<and> tk_escalated t = TICKET_IN_ESCALATION_QUEUE
                               then TICKET_ESCALATED_ASSIGNED
                               else if tk_escalated t = TICKET_UNASSIGNED then TICKET_ASSIGNED else tk_escalated t)\<rparr>) m;
          m2 = AddOrUpdateGMTicket E (ticket_at i m1) False m1;
          m3 = tk_emit [TkGlobalGM (text_head (ticket_at i m2) @ [(2020, [Txt (c_str (name_of E tarGUID))])])] m2
      in TicketMgr_UpdateLastChange E m3)"

definition HandleGMTicketAssignToCommand :: "tk_env \<Rightarrow> Player \<Rightarrow> string \<Rightarrow> TicketMgr \<Rightarrow> command_result" where
  "HandleGMTicketAssignToCommand E cplr args m =
     (if args = [] then Some (False, m)
      else case strtok (CHR '' '') args of
        None \<Rightarrow> None
      | Some (tguid, rest) \<Rightarrow>
          case strtok (CHR '' '') rest of
            None \<Rightarrow> Some (False, m)
          | Some (targetgm, _) \<Rightarrow>
              let (ok, targm) = te_normalizePlayerName E targetgm in
              if \<not> ok then Some (False, m)
              else case GetGMTicket (atoi64 tguid) m of
                None \<Rightarrow> Some (True, sys_message 2005 [] m)
              | Some i \<Rightarrow>
                  let t = ticket_at i m;
                      tarGUID = te_GetPlayerGUIDByName E (c_str targm);
                      gmlevel = te_GetSecurity E (te_GetPlayerAccountIdByGUID E tarGUID)
                  in if tk_closed t \<noteq> 0 then Some (True, sys_message 2005 [] m)
                     else if tarGUID = 0 \<or> gmlevel = sec_value SEC_PLAYER then Some (True, sys_message 2012 [] m)
                     else if tk_assignedToGM t = tarGUID then Some (True, sys_message 2013 [Num (tk_guid t)] m)
                     else if tk_assignedToGM t \<noteq> 0 \<and> tk_assignedToGM t \<noteq> plr_GUID cplr
                     then Some (True, sys_message 2007 [Num (tk_guid t), Txt (c_str (name_of E tarGUID))] m)
                     else Some (True, assign_ticket E i tarGUID gmlevel m))"

definition unassign_ticket :: "tk_env \<Rightarrow> Player \<Rightarrow> nat \<Rightarrow> TicketMgr \<Rightarrow> TicketMgr" where
  "unassign_ticket E cplr i m =
     (let t = ticket_at i m;
          m1 = tk_emit [TkGlobalGM (text_head t @ [(2020, [Txt (c_str (name_of E (tk_assignedToGM t)))]),
                                                    (2021, [Txt (plr_Name cplr)])])] m;
          m2 = set_ticket i (\<lambda>t. t\<lparr>tk_assignedToGM := 0,
                 tk_escalated := (if tk_escalated t \<noteq> TICKET_UNASSIGNED \<and> tk_escalated t \<noteq> TICKET_IN_ESCALATION_QUEUE
                                  then tk_escalated t - 1 else tk_escalated t)\<rparr>) m1;
          m3 = AddOrUpdateGMTicket E (ticket_at i m2) False m2
      in TicketMgr_UpdateLastChange E m3)"

definition HandleGMTicketUnAssignCommand :: "tk_env \<Rightarrow> Player \<Rightarrow> string \<Rightarrow> TicketMgr \<Rightarrow> command_result" where
  "HandleGMTicketUnAssignCommand E cplr args m =
     (if args = [] then Some (False, m)
      else case GetGMTicket (atoi64 args) m of
             None \<Rightarrow> Some (True, sys_message 2005 [] m)
           | Some i \<Rightarrow>
               let t = ticket_at i m in
               if tk_closed t \<noteq> 0 then Some (True, sys_message 2005 [] m)
               else if tk_assignedToGM t = 0 then Some (True, sys_message 2014 [Num (tk_guid t)] m)
               else if (case FindPlayer (te_world E) (tk_assignedToGM t) of
                          None \<Rightarrow> False | Some p \<Rightarrow> plr_InWorld p \<and> plr_Security p > plr_Security cplr)
               then Some (True, sys_message 2015 [] m)
               else Some (True, unassign_ticket E cplr i m))"

section \<open>Working on a ticket\<close>

text \<open>The common beginning of the commands that write to a ticket: number, text, and who may write.\<close>

definition may_write :: "Player \<Rightarrow> GM_Ticket \<Rightarrow> bool" where
  "may_write cplr t \<longleftrightarrow> \<not> (tk_assignedToGM t \<noteq> 0 \<and> tk_assignedToGM t \<noteq> plr_GUID cplr)"

definition comment_ticket :: "tk_env \<Rightarrow> Player \<Rightarrow> nat \<Rightarrow> string \<Rightarrow> TicketMgr \<Rightarrow> TicketMgr" where
  "comment_ticket E cplr i comment m =
     (let m1 = set_ticket i (\<lambda>t. t\<lparr>tk_comment := comment\<rparr>) m;
          t = ticket_at i m1;
          m2 = AddOrUpdateGMTicket E t False m1;
          m3 = tk_emit [TkGlobalGM (text_head t @ text_assigned E t @
                 [(2024, [Txt (plr_Name cplr), Txt (c_str (tk_comment t))])])] m2
      in TicketMgr_UpdateLastChange E m3)"

definition HandleGMTicketCommentCommand :: "tk_env \<Rightarrow> Player \<Rightarrow> string \<Rightarrow> TicketMgr \<Rightarrow> command_result" where
  "HandleGMTicketCommentCommand E cplr args m =
     (if args = [] then Some (False, m)
      else case strtok (CHR '' '') args of
        None \<Rightarrow> None
      | Some (tguid, rest) \<Rightarrow>
          case strtok newline rest of
            None \<Rightarrow> Some (False, m)
          | Some (comment, _) \<Rightarrow>
              case GetGMTicket (atoi64 tguid) m of
                None \<Rightarrow> Some (True, sys_message 2005 [] m)
              | Some i \<Rightarrow>
                  if tk_closed (ticket_at i m) \<noteq> 0 then Some (True, sys_message 2005 [] m)
                  else if \<not> may_write cplr (ticket_at i m)
                  then Some (True, sys_message 2007 [Num (tk_guid (ticket_at i m))] m)
                  else Some (True, comment_ticket E cplr i comment m))"

definition escalate_ticket :: "tk_env \<Rightarrow> nat \<Rightarrow> TicketMgr \<Rightarrow> TicketMgr" where
  "escalate_ticket E i m =
     (let m1 = set_ticket i (\<lambda>t. t\<lparr>tk_escalated := TICKET_IN_ESCALATION_QUEUE\<rparr>) m;
          t = ticket_at i m1;
          m2 = (case FindPlayer (te_world E) (tk_playerGuid t) of
                  None \<Rightarrow> m1
                | Some p \<Rightarrow>
                    if plr_InWorld p
                    then SendGMTicketGetTicket E p GMTICKET_STATUS_HASTEXT (Some (c_str (tk_message t))) (Some t) m1
                    else m1)
      in TicketMgr_UpdateLastChange E m2)"

definition HandleGMTicketEscalateCommand :: "tk_env \<Rightarrow> string \<Rightarrow> TicketMgr \<Rightarrow> command_result" where
  "HandleGMTicketEscalateCommand E args m =
     (if args = [] then Some (False, m)
      else case GetGMTicket (atoi64 args) m of
             None \<Rightarrow> Some (True, sys_message 2005 [] m)
           | Some i \<Rightarrow>
               if tk_closed (ticket_at i m) \<noteq> 0 \<or> tk_completed (ticket_at i m) \<or>
                  tk_escalated (ticket_at i m) \<noteq> TICKET_UNASSIGNED
               then Some (True, sys_message 2005 [] m)
               else Some (True, escalate_ticket E i m))"

definition HandleGMTicketCompleteCommand :: "tk_env \<Rightarrow> string \<Rightarrow> TicketMgr \<Rightarrow> command_result" where
  "HandleGMTicketCompleteCommand E args m =
     (if args = [] then Some (False, m)
      else case GetGMTicket (atoi64 args) m of
             None \<Rightarrow> Some (True, sys_message 2005 [] m)
           | Some i \<Rightarrow>
               let t = ticket_at i m in
               if tk_closed t \<noteq> 0 \<or> tk_completed t then Some (True, sys_message 2005 [] m)
               else
                 let m1 = (case FindPlayer (te_world E) (tk_playerGuid t) of
                             None \<Rightarrow> m
                           | Some p \<Rightarrow> if plr_InWorld p then SendGMTicketResponse p t m else m)
                 in Some (True, TicketMgr_UpdateLastChange E m1))"

definition respond_ticket :: "tk_env \<Rightarrow> nat \<Rightarrow> string \<Rightarrow> TicketMgr \<Rightarrow> TicketMgr" where
  "respond_ticket E i text m =
     (let m1 = set_ticket i (\<lambda>t. t\<lparr>tk_response := tk_response t @ text\<rparr>) m
      in AddOrUpdateGMTicket E (ticket_at i m1) False m1)"

definition response_append :: "tk_env \<Rightarrow> string \<Rightarrow> Player \<Rightarrow> string \<Rightarrow> TicketMgr \<Rightarrow> command_result" where
  "response_append E line_end cplr args m =
     (if args = [] then Some (False, m)
      else case strtok (CHR '' '') args of
        None \<Rightarrow> None
      | Some (tguid, rest) \<Rightarrow>
          case strtok newline rest of
            None \<Rightarrow> Some (False, m)
          | Some (response, _) \<Rightarrow>
              case GetGMTicket (atoi64 tguid) m of
                None \<Rightarrow> Some (True, sys_message 2005 [] m)
              | Some i \<Rightarrow>
                  if tk_closed (ticket_at i m) \<noteq> 0 then Some (True, sys_message 2005 [] m)
                  else if \<not> may_write cplr (ticket_at i m)
                  then Some (True, sys_message 2007 [Num (tk_guid (ticket_at i m))] m)
                  else Some (True, respond_ticket E i (response @ line_end) m))"

definition HandleGMTicketResponseAppendCommand :: "tk_env \<Rightarrow> Player \<Rightarrow> string \<Rightarrow> TicketMgr \<Rightarrow> command_result" where
  "HandleGMTicketResponseAppendCommand E = response_append E []"

definition HandleGMTicketResponseAppendLnCommand :: "tk_env \<Rightarrow> Player \<Rightarrow> string \<Rightarrow> TicketMgr \<Rightarrow> command_result" where
  "HandleGMTicketResponseAppendLnCommand E = response_append E [newline]"

definition HandleToggleGMTicketSystem :: "TicketMgr \<Rightarrow> command_result" where
  "HandleToggleGMTicketSystem m =
     (let m1 = m\<lparr>tm_status := \<not> tm_status m\<rparr> in
      Some (True, if tm_status m1 then sys_message 1134 [] m1 else sys_message 1135 [] m1))"

end
