(* ===== verification/Ticket_Props.thy ===== *)
theory Ticket_Props
  imports Ticket_Commands
begin

text \<open>
  The life of tickets as a state machine.  \<open>ticket_move\<close> is the abstract machine: a ticket is opened, edited, marked, closed
  or deleted, and the table follows.  Every message of a client and every command is shown to be such a move; the
  invariants are then proved by rule induction on the moves.
\<close>

section \<open>The abstract machine\<close>

fun is_ticket_sql :: "ticket_event \<Rightarrow> bool" where
  "is_ticket_sql (SqlReplaceTicket _) = True"
| "is_ticket_sql (SqlDeleteTicket _) = True"
| "is_ticket_sql _ = False"

definition appends :: "TicketMgr \<Rightarrow> TicketMgr \<Rightarrow> ticket_event list \<Rightarrow> bool" where
  "appends m m' S \<longleftrightarrow> (\<exists>es. tm_log m' = tm_log m @ es \<and> filter is_ticket_sql es = S)"

text \<open>
  How values become text and back: the escaping of string literals, and the text of a \<open>float\<close> as the statement prints it
  and as the loader reads it.
\<close>

record ticket_codec =
  cd_escape :: "string \<Rightarrow> string"
  cd_print :: "uint32 \<Rightarrow> string"
  cd_read :: "string \<Rightarrow> uint32"

definition te_codec :: "tk_env \<Rightarrow> ticket_codec" where
  "te_codec E = \<lparr>cd_escape = te_EscapeString E, cd_print = te_float_text E, cd_read = te_text_float E\<rparr>"

text \<open>
  The row that stands for a ticket.  The three coordinates of the row are the printed position of the ticket; for a
  ticket that was not saved since it was loaded they are the texts its position was read from.
\<close>

definition row_for :: "ticket_codec \<Rightarrow> GM_Ticket \<Rightarrow> ticket_row \<Rightarrow> bool" where
  "row_for codec t r \<longleftrightarrow> tr_guid r = tk_guid t \<and> tr_playerGuid r = tk_playerGuid t \<and> tr_name r = cd_escape codec (tk_name t) \<and>
     tr_message r = cd_escape codec (tk_message t) \<and> tr_createtime r = tk_createtime t \<and> tr_map r = tk_map t \<and>
     (tr_pos r = map (cd_print codec) (tk_pos t) \<or> tk_pos t = map (cd_read codec) (tr_pos r)) \<and>
     tr_timestamp r = tk_timestamp t \<and> tr_closed r = tk_closed t \<and> tr_assignedto r = tk_assignedToGM t \<and>
     tr_comment r = cd_escape codec (tk_comment t) \<and> tr_completed r = tk_completed t"

text \<open>
  Escalation and assignment: 1 and 3 are assigned, 0 is not; a ticket in the escalation queue (2) may have been
  given to a game master who is not an administrator.
\<close>

definition escalation_ok :: "GM_Ticket \<Rightarrow> bool" where
  "escalation_ok t \<longleftrightarrow> tk_escalated t \<in> {0, 1, 2, 3} \<and> (tk_escalated t = 0 \<longrightarrow> tk_assignedToGM t = 0) \<and>
     (tk_escalated t \<in> {1, 3} \<longrightarrow> tk_assignedToGM t \<noteq> 0)"

definition same_ticket :: "GM_Ticket \<Rightarrow> GM_Ticket \<Rightarrow> bool" where
  "same_ticket t t' \<longleftrightarrow> tk_guid t' = tk_guid t \<and> tk_playerGuid t' = tk_playerGuid t \<and> tk_closed t' = tk_closed t \<and>
     tk_completed t' = tk_completed t \<and> (escalation_ok t \<longrightarrow> escalation_ok t')"

definition is_open :: "GM_Ticket \<Rightarrow> bool" where
  "is_open t \<longleftrightarrow> tk_closed t = 0"

inductive ticket_move :: "ticket_codec \<Rightarrow> bool \<Rightarrow> TicketMgr \<Rightarrow> TicketMgr \<Rightarrow> bool" for codec :: ticket_codec and resolving :: bool where
  quiet: "m_GMTicketList m' = m_GMTicketList m \<Longrightarrow> m_openTickets m' = m_openTickets m \<Longrightarrow> m_GMticketid m' = m_GMticketid m \<Longrightarrow>
    appends m m' [] \<Longrightarrow> ticket_move codec resolving m m'"
| opened: "m_GMTicketList m' = m_GMTicketList m @ [t] \<Longrightarrow> m_openTickets m' = m_openTickets m + 1 \<Longrightarrow>
    m_GMticketid m' = m_GMticketid m + 1 \<Longrightarrow> unat (m_GMticketid m) + 1 < 2 ^ 32 \<Longrightarrow> tk_guid t = m_GMticketid m + 1 \<Longrightarrow>
    is_open t \<Longrightarrow> \<not> tk_completed t \<Longrightarrow> escalation_ok t \<Longrightarrow>
    (\<And>u. u \<in> set (m_GMTicketList m) \<Longrightarrow> tk_playerGuid u = tk_playerGuid t \<Longrightarrow> \<not> is_open u) \<Longrightarrow>
    row_for codec t r \<Longrightarrow> appends m m' [SqlReplaceTicket r] \<Longrightarrow> ticket_move codec resolving m m'"
| edited: "i < length (m_GMTicketList m) \<Longrightarrow> same_ticket (m_GMTicketList m ! i) t \<Longrightarrow> is_open t \<Longrightarrow>
    m_GMTicketList m' = (m_GMTicketList m)[i := t] \<Longrightarrow> m_openTickets m' = m_openTickets m \<Longrightarrow>
    m_GMticketid m' = m_GMticketid m \<Longrightarrow> row_for codec t r \<Longrightarrow> appends m m' [SqlReplaceTicket r] \<Longrightarrow> ticket_move codec resolving m m'"
| marked: "i < length (m_GMTicketList m) \<Longrightarrow> same_ticket (m_GMTicketList m ! i) t \<Longrightarrow>
    t = (m_GMTicketList m ! i)\<lparr>tk_viewed := v, tk_escalated := x\<rparr> \<Longrightarrow>
    m_GMTicketList m' = (m_GMTicketList m)[i := t] \<Longrightarrow> m_openTickets m' = m_openTickets m \<Longrightarrow>
    m_GMticketid m' = m_GMticketid m \<Longrightarrow> appends m m' [] \<Longrightarrow> ticket_move codec resolving m m'"
| closed_by: "i < length (m_GMTicketList m) \<Longrightarrow> is_open (m_GMTicketList m ! i) \<Longrightarrow> source \<noteq> 0 \<Longrightarrow>
    t = (m_GMTicketList m ! i)\<lparr>tk_closed := source\<rparr> \<Longrightarrow>
    m_GMTicketList m' = (m_GMTicketList m)[i := t] \<Longrightarrow> m_openTickets m' = m_openTickets m - 1 \<Longrightarrow>
    m_GMticketid m' = m_GMticketid m \<Longrightarrow> row_for codec t r \<Longrightarrow> appends m m' [SqlReplaceTicket r] \<Longrightarrow> ticket_move codec resolving m m'"
| deleted: "i < length (m_GMTicketList m) \<Longrightarrow> \<not> is_open (m_GMTicketList m ! i) \<or> resolving \<Longrightarrow>
    m_GMTicketList m' = take i (m_GMTicketList m) @ drop (Suc i) (m_GMTicketList m) \<Longrightarrow> m_openTickets m' = m_openTickets m \<Longrightarrow>
    m_GMticketid m' = m_GMticketid m \<Longrightarrow> appends m m' [SqlDeleteTicket (ucast (tk_guid (m_GMTicketList m ! i)))] \<Longrightarrow>
    ticket_move codec resolving m m'"

section \<open>Messages and commands\<close>

datatype ticket_msg = MsgCreate | MsgUpdate | MsgDelete | MsgGetTicket | MsgSystemStatus | MsgSurvey | MsgLag | MsgResolve

fun ticket_message :: "tk_env \<Rightarrow> Player \<Rightarrow> WorldPacket \<Rightarrow> ticket_msg \<Rightarrow> TicketMgr \<Rightarrow> TicketMgr" where
  "ticket_message E plr recv MsgCreate m = fst (HandleGMTicketCreateOpcode E plr recv m)"
| "ticket_message E plr recv MsgUpdate m = fst (HandleGMTicketUpdateOpcode E plr recv m)"
| "ticket_message E plr recv MsgDelete m = HandleGMTicketDeleteOpcode E plr m"
| "ticket_message E plr recv MsgGetTicket m = HandleGMTicketGetTicketOpcode E plr m"
| "ticket_message E plr recv MsgSystemStatus m = HandleGMTicketSystemStatusOpcode plr m"
| "ticket_message E plr recv MsgSurvey m = fst (HandleGMSurveySubmit E plr recv m)"
| "ticket_message E plr recv MsgLag m = fst (HandleReportLag E plr recv m)"
| "ticket_message E plr recv MsgResolve m = HandleGMResponseResolve E plr m"

datatype ticket_cmd =
    CmdList | CmdListOnline | CmdListClosed | CmdListEscalated | CmdGetById | CmdGetByName | CmdCloseById | CmdDeleteById
  | CmdAssignTo | CmdUnAssign | CmdComment | CmdEscalate | CmdComplete | CmdResponseAppend | CmdResponseAppendLn | CmdToggle

fun ticket_command :: "tk_env \<Rightarrow> Player \<Rightarrow> string \<Rightarrow> ticket_cmd \<Rightarrow> TicketMgr \<Rightarrow> command_result" where
  "ticket_command E gm args CmdList m = HandleGMTicketListCommand E m"
| "ticket_command E gm args CmdListOnline m = HandleGMTicketListOnlineCommand E m"
| "ticket_command E gm args CmdListClosed m = HandleGMTicketListClosedCommand E m"
| "ticket_command E gm args CmdListEscalated m = HandleGMTicketListEscalatedCommand E m"
| "ticket_command E gm args CmdGetById m = HandleGMTicketGetByIdCommand E args m"
| "ticket_command E gm args CmdGetByName m = HandleGMTicketGetByNameCommand E args m"
| "ticket_command E gm args CmdCloseById m = HandleGMTicketCloseByIdCommand E gm args m"
| "ticket_command E gm args CmdDeleteById m = HandleGMTicketDeleteByIdCommand E gm args m"
| "ticket_command E gm args CmdAssignTo m = HandleGMTicketAssignToCommand E gm args m"
| "ticket_command E gm args CmdUnAssign m = HandleGMTicketUnAssignCommand E gm args m"
| "ticket_command E gm args CmdComment m = HandleGMTicketCommentCommand E gm args m"
| "ticket_command E gm args CmdEscalate m = HandleGMTicketEscalateCommand E args m"
| "ticket_command E gm args CmdComplete m = HandleGMTicketCompleteCommand E args m"
| "ticket_command E gm args CmdResponseAppend m = HandleGMTicketResponseAppendCommand E gm args m"
| "ticket_command E gm args CmdResponseAppendLn m = HandleGMTicketResponseAppendLnCommand E gm args m"
| "ticket_command E gm args CmdToggle m = HandleToggleGMTicketSystem m"

text \<open>
  One step of the server: a message of a player or a command of a game master, both in the world (so their GUIDs are not 0),
  in any surroundings with the given escaping and the given text form of numbers.  Ticket numbers stay below \<open>2^32\<close>, which is what the column holds.
  \<open>resolving\<close> says whether players may send \<open>CMSG_GMRESPONSE_RESOLVE\<close>.
\<close>

inductive ticket_step :: "ticket_codec \<Rightarrow> bool \<Rightarrow> TicketMgr \<Rightarrow> TicketMgr \<Rightarrow> bool" for codec :: ticket_codec and resolving :: bool where
  message: "te_codec E = codec \<Longrightarrow> plr_GUID plr \<noteq> 0 \<Longrightarrow> (msg = MsgCreate \<Longrightarrow> unat (m_GMticketid m) + 1 < 2 ^ 32) \<Longrightarrow>
    (msg = MsgResolve \<Longrightarrow> resolving) \<Longrightarrow> ticket_step codec resolving m (ticket_message E plr recv msg m)"
| command: "te_codec E = codec \<Longrightarrow> plr_GUID gm \<noteq> 0 \<Longrightarrow> ticket_command E gm args cmd m = Some (r, m') \<Longrightarrow>
    ticket_step codec resolving m m'"

text \<open>Loading a consistent table, then steps.\<close>

definition rows_ok :: "ticket_row list \<Rightarrow> uint64 \<Rightarrow> bool" where
  "rows_ok rows maxguid \<longleftrightarrow>
     distinct (map tr_guid rows) \<and> unat maxguid < 2 ^ 32 \<and>
     (\<forall>r \<in> set rows. tr_guid r \<le> maxguid \<and> unat (tr_playerGuid r) < 2 ^ 32 \<and> is_int32 (tr_closed r) \<and>
        unat (tr_createtime r) < 2 ^ 32 \<and> unat (tr_timestamp r) < 2 ^ 32) \<and>
     distinct (map tr_playerGuid (filter (\<lambda>r. tr_closed r = 0) rows))"

inductive ticket_reach :: "ticket_codec \<Rightarrow> bool \<Rightarrow> ticket_row list \<Rightarrow> TicketMgr \<Rightarrow> bool"
  for codec :: ticket_codec and resolving :: bool and rows :: "ticket_row list" where
  loaded: "te_codec E = codec \<Longrightarrow> rows_ok rows maxguid \<Longrightarrow> ticket_reach codec resolving rows (LoadGMTickets E rows maxguid (TicketMgr_new E))"
| stepped: "ticket_reach codec resolving rows m \<Longrightarrow> ticket_step codec resolving m m' \<Longrightarrow> ticket_reach codec resolving rows m'"

section \<open>Frames\<close>

lemma tk_emit_fields [simp]:
  "m_GMTicketList (tk_emit es m) = m_GMTicketList m" "m_openTickets (tk_emit es m) = m_openTickets m"
  "m_GMticketid (tk_emit es m) = m_GMticketid m" "tm_log (tk_emit es m) = tm_log m @ es" "lastChange (tk_emit es m) = lastChange m"
  by (simp_all add: tk_emit_def)

lemma set_ticket_fields [simp]:
  "m_GMTicketList (set_ticket i f m) = (m_GMTicketList m)[i := f (m_GMTicketList m ! i)]"
  "m_openTickets (set_ticket i f m) = m_openTickets m" "m_GMticketid (set_ticket i f m) = m_GMticketid m"
  "tm_log (set_ticket i f m) = tm_log m"
  by (simp_all add: set_ticket_def ticket_at_def)

lemma UpdateLastChange_fields [simp]:
  "m_GMTicketList (TicketMgr_UpdateLastChange E m) = m_GMTicketList m"
  "m_openTickets (TicketMgr_UpdateLastChange E m) = m_openTickets m"
  "m_GMticketid (TicketMgr_UpdateLastChange E m) = m_GMticketid m" "tm_log (TicketMgr_UpdateLastChange E m) = tm_log m"
  by (simp_all add: TicketMgr_UpdateLastChange_def)

text \<open>What only writes packets and texts.\<close>

definition only_talks :: "(TicketMgr \<Rightarrow> TicketMgr) \<Rightarrow> bool" where
  "only_talks f \<longleftrightarrow> (\<forall>m. m_GMTicketList (f m) = m_GMTicketList m \<and> m_openTickets (f m) = m_openTickets m \<and>
     m_GMticketid (f m) = m_GMticketid m \<and> appends m (f m) [])"

lemma appends_trans: "appends a b S \<Longrightarrow> appends b c S' \<Longrightarrow> appends a c (S @ S')"
  by (auto simp: appends_def)

lemma appends_refl [simp]: "appends m m []"
  by (simp add: appends_def)

lemma only_talks_emit: "filter is_ticket_sql es = [] \<Longrightarrow> only_talks (tk_emit es)"
  by (auto simp: only_talks_def appends_def)

lemma only_talks_simps [simp]:
  "only_talks (ticket_reply plr opcode a)" "only_talks (SendQueryTimeResponse E plr)"
  "only_talks (SendGMTicketResponse plr t)" "only_talks (sys_message n as)" "only_talks (SendGMTicketGetTicket E plr s tx ot)"
  "only_talks (TicketMgr_UpdateLastChange E)"
  by (simp_all add: ticket_reply_def SendQueryTimeResponse_def SendGMTicketResponse_def sys_message_def only_talks_emit)
    (auto simp: only_talks_def appends_def SendGMTicketGetTicket_def Let_def)

lemma only_talksD:
  assumes "only_talks f"
  shows "m_GMTicketList (f m) = m_GMTicketList m" "m_openTickets (f m) = m_openTickets m"
    "m_GMticketid (f m) = m_GMticketid m" "appends m (f m) []"
  using assms by (simp_all add: only_talks_def)

lemma quiet_move: "only_talks f \<Longrightarrow> ticket_move codec resolving m (f m)"
  by (rule ticket_move.quiet) (simp_all add: only_talksD)

text \<open>Talking before or after a move does not matter.\<close>

definition same_tickets :: "TicketMgr \<Rightarrow> TicketMgr \<Rightarrow> bool" where
  "same_tickets m m' \<longleftrightarrow> m_GMTicketList m' = m_GMTicketList m \<and> m_openTickets m' = m_openTickets m \<and>
     m_GMticketid m' = m_GMticketid m \<and> appends m m' []"

lemma same_tickets_talk: "only_talks f \<Longrightarrow> same_tickets m (f m)"
  by (simp add: same_tickets_def only_talksD)

lemma move_framed:
  assumes "ticket_move codec resolving a b" "same_tickets m a" "same_tickets b m'"
  shows "ticket_move codec resolving m m'"
proof -
  have app: "appends m m' S" if "appends a b S" for S
    using appends_trans [OF appends_trans [OF _ that], of m "[]" m' "[]"] assms(2,3) by (simp add: same_tickets_def)
  note eq = assms(2,3) [unfolded same_tickets_def]
  from assms(1) show ?thesis
  proof cases
    case quiet
    then show ?thesis using eq app by (intro ticket_move.quiet) auto
  next
    case (opened t r)
    then show ?thesis using eq app by (intro ticket_move.opened [where t = t and r = r]) auto
  next
    case (edited i t r)
    then show ?thesis using eq app by (intro ticket_move.edited [where i = i and t = t and r = r]) auto
  next
    case (marked i t x v)
    then show ?thesis using eq app by (intro ticket_move.marked [where i = i and t = t and v = v and x = x]) auto
  next
    case (closed_by i source t r)
    then show ?thesis using eq app by (intro ticket_move.closed_by [where i = i and source = source and t = t and r = r]) auto
  next
    case (deleted i)
    then show ?thesis using eq app by (intro ticket_move.deleted [where i = i]) auto
  qed
qed

lemma same_tickets_refl [simp]: "same_tickets m m"
  by (simp add: same_tickets_def)

lemma move_talk: "ticket_move codec resolving m m' \<Longrightarrow> only_talks f \<Longrightarrow> ticket_move codec resolving m (f m')"
  by (rule move_framed [OF _ same_tickets_refl same_tickets_talk])

lemma talk_move: "only_talks f \<Longrightarrow> ticket_move codec resolving (f m) m' \<Longrightarrow> ticket_move codec resolving m m'"
  by (rule move_framed [OF _ same_tickets_talk same_tickets_refl])

section \<open>The operations of the manager are moves\<close>

definition ids_ok :: "TicketMgr \<Rightarrow> bool" where
  "ids_ok m \<longleftrightarrow> distinct (map tk_guid (m_GMTicketList m)) \<and> (\<forall>t \<in> set (m_GMTicketList m). tk_guid t \<le> m_GMticketid m) \<and>
     unat (m_GMticketid m) < 2 ^ 32"

lemma ids_distinct: "ids_ok m \<Longrightarrow> i < length (m_GMTicketList m) \<Longrightarrow> j < length (m_GMTicketList m) \<Longrightarrow> i \<noteq> j \<Longrightarrow>
    tk_guid (m_GMTicketList m ! i) \<noteq> tk_guid (m_GMTicketList m ! j)"
  by (auto simp: ids_ok_def distinct_conv_nth)

lemma first_ticket_Some:
  "first_ticket P m = Some i \<Longrightarrow> i < length (m_GMTicketList m) \<and> P (m_GMTicketList m ! i)"
  by (auto simp: first_ticket_def List.find_Some_iff)

lemma first_ticket_None:
  "first_ticket P m = None \<longleftrightarrow> (\<forall>t \<in> set (m_GMTicketList m). \<not> P t)"
  by (auto simp: first_ticket_def List.find_None_iff set_conv_nth)

lemmas ticket_lookup = GetGMTicket_def GetGMTicketByPlayer_def GetOldestOpenGMTicket_def

lemma Remove_loop_skip:
  "(\<And>j. j \<in> set is \<Longrightarrow> tk_guid (m_GMTicketList m ! j) \<noteq> g) \<Longrightarrow> RemoveGMTicket_loop E g src p (is @ js) m = RemoveGMTicket_loop E g src p js m"
  by (induction "is") (auto simp: ticket_at_def)

lemma RemoveGMTicket_at:
  assumes "ids_ok m" "i < length (m_GMTicketList m)"
  shows "RemoveGMTicket E i src p m = RemoveGMTicket_loop E (tk_guid (m_GMTicketList m ! i)) src p (i # [Suc i..<length (m_GMTicketList m)]) m"
proof -
  have "[0..<length (m_GMTicketList m)] = [0..<i] @ i # [Suc i..<length (m_GMTicketList m)]"
    using assms(2) upt_add_eq_append [of 0 i "length (m_GMTicketList m) - i"] upt_conv_Cons [of i "length (m_GMTicketList m)"] by simp
  then show ?thesis
    unfolding RemoveGMTicket_def ticket_at_def
    using Remove_loop_skip [of "[0..<i]" m] ids_distinct [OF assms(1) _ assms(2)] assms(2) by simp
qed

lemma row_for_saved:
  "row_for (te_codec E) t
     \<lparr>tr_guid = tk_guid t, tr_playerGuid = tk_playerGuid t, tr_name = te_EscapeString E (tk_name t),
      tr_message = te_EscapeString E (tk_message t), tr_createtime = tk_createtime t, tr_map = tk_map t,
      tr_pos = map (te_float_text E) (tk_pos t), tr_timestamp = tk_timestamp t, tr_closed = tk_closed t,
      tr_assignedto = tk_assignedToGM t, tr_comment = te_EscapeString E (tk_comment t), tr_completed = tk_completed t,
      tr_escalated = tk_escalated t, tr_viewed = tk_viewed t\<rparr>"
  by (simp add: row_for_def te_codec_def)

lemma sql_fields [simp]:
  "m_GMTicketList (AddOrUpdateGMTicket_sql E t m) = m_GMTicketList m"
  "m_openTickets (AddOrUpdateGMTicket_sql E t m) = m_openTickets m"
  "m_GMticketid (AddOrUpdateGMTicket_sql E t m) = m_GMticketid m"
  by (simp_all add: AddOrUpdateGMTicket_sql_def)

lemma sql_appends: "\<exists>r. row_for (te_codec E) t r \<and> appends m (AddOrUpdateGMTicket_sql E t m) [SqlReplaceTicket r]"
  unfolding AddOrUpdateGMTicket_sql_def appends_def
  by (intro exI conjI, rule row_for_saved [of E t]) auto

lemma close_move:
  assumes ids: "ids_ok m" and i: "i < length (m_GMTicketList m)" "is_open (m_GMTicketList m ! i)" and src: "src \<noteq> 0"
  shows "ticket_move (te_codec E) resolving m (RemoveGMTicket E i src False m)"
proof -
  let ?t = "(m_GMTicketList m ! i)\<lparr>tk_closed := src\<rparr>"
  let ?m1 = "set_ticket i (\<lambda>t. t\<lparr>tk_closed := src\<rparr>) m"
  let ?m2 = "?m1\<lparr>m_openTickets := m_openTickets ?m1 - 1\<rparr>"
  let ?m3 = "AddOrUpdateGMTicket_sql E ?t ?m2"
  have t2: "ticket_at i ?m2 = ?t" using i(1) by (simp add: ticket_at_def)
  have skip: "RemoveGMTicket_loop E (tk_guid (m_GMTicketList m ! i)) src False ([Suc i..<length (m_GMTicketList m)] @ []) ?m3
      = RemoveGMTicket_loop E (tk_guid (m_GMTicketList m ! i)) src False [] ?m3"
    by (rule Remove_loop_skip) (use ids_distinct [OF ids _ i(1)] in auto)
  have rm: "RemoveGMTicket E i src False m = ?m3"
    unfolding RemoveGMTicket_at [OF ids i(1)] using skip src i(1) by (simp add: Let_def ticket_at_def)
  obtain r where r: "row_for (te_codec E) ?t r" "appends ?m2 ?m3 [SqlReplaceTicket r]" using sql_appends by blast
  have "appends m ?m2 []" by (simp add: appends_def)
  from appends_trans [OF this r(2)] show ?thesis
    unfolding rm by (intro ticket_move.closed_by [OF i src refl _ _ _ r(1)]) simp_all
qed

lemma delete_move:
  assumes ids: "ids_ok m" and i: "i < length (m_GMTicketList m)" "\<not> is_open (m_GMTicketList m ! i) \<or> resolving"
  shows "ticket_move codec resolving m (RemoveGMTicket E i src True m)"
  unfolding RemoveGMTicket_at [OF ids i(1)]
  by (rule ticket_move.deleted [OF i]) (simp_all add: ticket_at_def appends_def)

lemma edit_move:
  assumes i: "i < length (m_GMTicketList m)" "same_ticket (m_GMTicketList m ! i) (f (m_GMTicketList m ! i))" "is_open (m_GMTicketList m ! i)"
  shows "ticket_move (te_codec E) resolving m (AddOrUpdateGMTicket E (ticket_at i (set_ticket i f m)) False (set_ticket i f m))"
proof -
  let ?t = "f (m_GMTicketList m ! i)" and ?m1 = "set_ticket i f m"
  have t: "ticket_at i ?m1 = ?t" using i(1) by (simp add: ticket_at_def)
  obtain r where r: "row_for (te_codec E) ?t r" "appends ?m1 (AddOrUpdateGMTicket_sql E ?t ?m1) [SqlReplaceTicket r]"
    using sql_appends by blast
  have op: "is_open ?t" using i(2,3) by (simp add: same_ticket_def is_open_def)
  have "appends m ?m1 []" by (simp add: appends_def)
  from appends_trans [OF this r(2)] show ?thesis
    unfolding t AddOrUpdateGMTicket_def Let_def
    by (intro ticket_move.edited [OF i(1,2) op _ _ _ r(1)]) simp_all
qed

lemma mark_move:
  assumes "i < length (m_GMTicketList m)" "same_ticket (m_GMTicketList m ! i) t"
    "t = (m_GMTicketList m ! i)\<lparr>tk_viewed := v, tk_escalated := x\<rparr>" "f (m_GMTicketList m ! i) = t"
  shows "ticket_move codec resolving m (set_ticket i f m)"
  by (rule ticket_move.marked [OF assms(1-3)]) (simp_all add: assms(4) appends_def)

lemma create_move:
  assumes "unat (m_GMticketid m) + 1 < 2 ^ 32" "GetGMTicketByPlayer (tk_playerGuid t) m = None"
    "tk_guid t = m_GMticketid m + 1" "is_open t" "\<not> tk_completed t" "escalation_ok t"
  shows "ticket_move (te_codec E) resolving m (AddOrUpdateGMTicket E t True (m\<lparr>m_GMticketid := m_GMticketid m + 1\<rparr>))"
proof -
  let ?m1 = "m\<lparr>m_GMticketid := m_GMticketid m + 1, m_GMTicketList := m_GMTicketList m @ [t], m_openTickets := m_openTickets m + 1\<rparr>"
  obtain r where r: "row_for (te_codec E) t r" "appends ?m1 (AddOrUpdateGMTicket_sql E t ?m1) [SqlReplaceTicket r]"
    using sql_appends by blast
  have "appends m ?m1 []" by (simp add: appends_def)
  from appends_trans [OF this r(2)] show ?thesis
    unfolding AddOrUpdateGMTicket_def Let_def using assms
    by (intro ticket_move.opened [OF _ _ _ assms(1) assms(3-6) _ r(1)])
      (auto simp: is_open_def ticket_lookup first_ticket_None)
qed

end
