(* ===== verification/Ticket_Laws.thy ===== *)
theory Ticket_Laws
  imports Ticket_Props
begin

text \<open>
  Every message and every command is a move of the abstract machine; invariants of the moves; what they mean for players,
  game masters and the table \<open>gm_tickets\<close>.
\<close>

section \<open>Messages are moves\<close>

lemma byPlayer_Some:
  "GetGMTicketByPlayer p m = Some i \<Longrightarrow> i < length (m_GMTicketList m) \<and> is_open (m_GMTicketList m ! i)"
  by (auto simp: ticket_lookup is_open_def dest!: first_ticket_Some)

lemma byGuid_Some:
  "GetGMTicket g m = Some i \<Longrightarrow> i < length (m_GMTicketList m)"
  by (auto simp: ticket_lookup dest!: first_ticket_Some)

lemma same_ticketI:
  "tk_guid t' = tk_guid t \<Longrightarrow> tk_playerGuid t' = tk_playerGuid t \<Longrightarrow> tk_closed t' = tk_closed t \<Longrightarrow> tk_completed t' = tk_completed t \<Longrightarrow>
   tk_escalated t' = tk_escalated t \<Longrightarrow> tk_assignedToGM t' = tk_assignedToGM t \<Longrightarrow> same_ticket t t'"
  by (simp add: same_ticket_def escalation_ok_def)

lemma as_source_0: "as_source g = 0 \<longleftrightarrow> g = 0"
  by (simp add: as_source_def signed_eq_0_iff)

lemma ids_ok_cong: "m_GMTicketList m' = m_GMTicketList m \<Longrightarrow> m_GMticketid m' = m_GMticketid m \<Longrightarrow> ids_ok m' = ids_ok m"
  by (simp add: ids_ok_def)

lemma only_talks_id: "only_talks (\<lambda>m. m)"
  by (simp add: only_talks_def)

lemma new_ticket_fields:
  "tk_guid (new_ticket E plr g x) = g" "tk_playerGuid (new_ticket E plr g x) = plr_GUID plr" "is_open (new_ticket E plr g x)"
  "\<not> tk_completed (new_ticket E plr g x)" "escalation_ok (new_ticket E plr g x)"
  by (cases x; simp add: new_ticket_def is_open_def escalation_ok_def TICKET_UNASSIGNED_def)+

lemma create_ticket_move:
  assumes "unat (m_GMticketid m) + 1 < 2 ^ 32" "GetGMTicketByPlayer (plr_GUID plr) m = None"
  shows "ticket_move (te_codec E) resolving m (create_ticket E plr x m)"
proof -
  have mv: "ticket_move (te_codec E) resolving m
      (AddOrUpdateGMTicket E (new_ticket E plr (m_GMticketid m + 1) x) True (m\<lparr>m_GMticketid := m_GMticketid m + 1\<rparr>))"
    using assms by (intro create_move) (simp_all add: new_ticket_fields)
  show ?thesis
    unfolding create_ticket_def GenerateGMTicketId_def Let_def prod.case
    by (rule move_talk [OF move_talk [OF mv]]) (simp_all add: only_talks_emit)
qed

lemma create_step:
  assumes "unat (m_GMticketid m) + 1 < 2 ^ 32"
  shows "ticket_move (te_codec E) resolving m (fst (HandleGMTicketCreateOpcode E plr recv m))"
proof -
  let ?q = "SendQueryTimeResponse E plr"
  have q: "only_talks ?q" by simp
  have "ticket_move (te_codec E) resolving m (create_ticket E plr x (?q m))"
    if "GetGMTicketByPlayer (plr_GUID plr) m = None" for x
    using that assms
    by (intro talk_move [OF q create_ticket_move]) (simp_all add: only_talksD [OF q] ticket_lookup first_ticket_None)
  moreover have "ticket_move (te_codec E) resolving m (?q m)" by (rule quiet_move [OF q])
  moreover have "ticket_move (te_codec E) resolving m (tk_emit [TkNotification g x] m)" for g x
    by (rule quiet_move) (simp add: only_talks_emit)
  moreover have "ticket_move (te_codec E) resolving m (ticket_reply plr oc a m)" for oc a by (rule quiet_move) simp
  moreover note quiet_move [OF only_talks_id]
  ultimately show ?thesis
    unfolding HandleGMTicketCreateOpcode_def Let_def by (simp split: sum.split)
qed

lemma update_step: "ticket_move (te_codec E) resolving m (fst (HandleGMTicketUpdateOpcode E plr recv m))"
proof (cases "in_string recv")
  case (Inl e)
  then show ?thesis using quiet_move [OF only_talks_id] by (simp add: HandleGMTicketUpdateOpcode_def)
next
  case (Inr r)
  obtain message d where r: "r = (message, d)" by (cases r)
  show ?thesis
  proof (cases "GetGMTicketByPlayer (plr_GUID plr) m")
    case None
    then show ?thesis using Inr r quiet_move [of "ticket_reply plr SMSG_GMTICKET_UPDATETEXT GMTICKET_RESPONSE_FAILURE"]
      by (simp add: HandleGMTicketUpdateOpcode_def)
  next
    case (Some i)
    let ?f = "\<lambda>t. t\<lparr>tk_message := message, tk_timestamp := te_time E\<rparr>"
    let ?m2 = "AddOrUpdateGMTicket E (ticket_at i (set_ticket i ?f m)) False (set_ticket i ?f m)"
    let ?m3 = "ticket_reply plr SMSG_GMTICKET_UPDATETEXT GMTICKET_RESPONSE_SUCCESS ?m2"
    have mv: "ticket_move (te_codec E) resolving m ?m2"
      using byPlayer_Some [OF Some] by (intro edit_move) (simp_all add: same_ticketI)
    have eq: "fst (HandleGMTicketUpdateOpcode E plr recv m) =
        tk_emit [TkGMText (2001, [Txt (plr_Name plr), Num (tk_guid (ticket_at i ?m3))])] ?m3"
      by (simp add: HandleGMTicketUpdateOpcode_def Let_def Inr r Some)
    show ?thesis unfolding eq by (rule move_talk [OF move_talk [OF mv]]) (simp_all add: only_talks_emit)
  qed
qed

lemma abandon_step:
  assumes ids: "ids_ok m" and "plr_GUID plr \<noteq> 0"
  shows "ticket_move (te_codec E) resolving m (HandleGMTicketDeleteOpcode E plr m)"
proof (cases "GetGMTicketByPlayer (plr_GUID plr) m")
  case None
  then show ?thesis using quiet_move [OF only_talks_id] by (simp add: HandleGMTicketDeleteOpcode_def)
next
  case (Some i)
  let ?r = "ticket_reply plr SMSG_GMTICKET_DELETETICKET GMTICKET_RESPONSE_TICKET_DELETED"
  let ?g = "tk_emit [TkGMText (2002, [Txt (plr_Name plr), Num (tk_guid (ticket_at i (?r m)))])]"
  have tk: "only_talks ?r" "only_talks ?g" by (simp_all add: only_talks_emit)
  have "ids_ok (?g (?r m))" using ids by (subst ids_ok_cong [of _ m]) (simp_all add: only_talksD)
  then have mv: "ticket_move (te_codec E) resolving (?g (?r m)) (RemoveGMTicket E i (as_source (plr_GUID plr)) False (?g (?r m)))"
    using byPlayer_Some [OF Some] assms(2) by (intro close_move) (simp_all add: only_talksD as_source_0)
  have eq: "HandleGMTicketDeleteOpcode E plr m = SendGMTicketGetTicket E plr GMTICKET_STATUS_DEFAULT None None
      (RemoveGMTicket E i (as_source (plr_GUID plr)) False (?g (?r m)))"
    by (simp add: HandleGMTicketDeleteOpcode_def Let_def Some)
  show ?thesis unfolding eq by (rule move_talk [OF talk_move [OF tk(1) talk_move [OF tk(2) mv]]]) simp
qed

lemma resolve_step:
  assumes ids: "ids_ok m"
  shows "ticket_move codec True m (HandleGMResponseResolve E plr m)"
proof (cases "GetGMTicketByPlayer (plr_GUID plr) m")
  case None
  then show ?thesis using quiet_move [OF only_talks_id] by (simp add: HandleGMResponseResolve_def)
next
  case (Some i)
  let ?g = "tk_emit [TkSend (plr_GUID plr) (Packet SMSG_GMRESPONSE_STATUS_UPDATE [U8 (if te_survey E then 1 else 0)])]"
  let ?r = "ticket_reply plr SMSG_GMTICKET_DELETETICKET GMTICKET_RESPONSE_TICKET_DELETED"
  have tk: "only_talks ?g" "only_talks ?r" by (simp_all add: only_talks_emit)
  have "ids_ok (?r (?g m))" using ids by (subst ids_ok_cong [of _ m]) (simp_all add: only_talksD)
  then have mv: "ticket_move codec True (?r (?g m)) (RemoveGMTicket E i (as_source (plr_GUID plr)) True (?r (?g m)))"
    using byPlayer_Some [OF Some] by (intro delete_move) (simp_all add: only_talksD)
  have eq: "HandleGMResponseResolve E plr m = SendGMTicketGetTicket E plr GMTICKET_STATUS_DEFAULT None None
      (RemoveGMTicket E i (as_source (plr_GUID plr)) True (?r (?g m)))"
    by (simp add: HandleGMResponseResolve_def Let_def Some)
  show ?thesis unfolding eq by (rule move_talk [OF talk_move [OF tk(1) talk_move [OF tk(2) mv]]]) simp
qed

lemma resolve_removes:
  assumes ids: "ids_ok m" and i: "GetGMTicketByPlayer (plr_GUID plr) m = Some i"
  shows "m_openTickets (HandleGMResponseResolve E plr m) = m_openTickets m"
    "m_GMTicketList (HandleGMResponseResolve E plr m) = take i (m_GMTicketList m) @ drop (Suc i) (m_GMTicketList m)"
proof -
  let ?g = "tk_emit [TkSend (plr_GUID plr) (Packet SMSG_GMRESPONSE_STATUS_UPDATE [U8 (if te_survey E then 1 else 0)])]"
  let ?r = "ticket_reply plr SMSG_GMTICKET_DELETETICKET GMTICKET_RESPONSE_TICKET_DELETED"
  let ?m2 = "?r (?g m)"
  have l: "m_GMTicketList ?m2 = m_GMTicketList m" "m_openTickets ?m2 = m_openTickets m" by (simp_all add: only_talksD)
  have "ids_ok ?m2" using ids by (subst ids_ok_cong [of _ m]) (simp_all add: only_talksD)
  then have rm: "RemoveGMTicket E i (as_source (plr_GUID plr)) True ?m2 =
      tk_emit [SqlDeleteTicket (ucast (tk_guid (m_GMTicketList m ! i)))]
        (?m2\<lparr>m_GMTicketList := take i (m_GMTicketList m) @ drop (Suc i) (m_GMTicketList m)\<rparr>)"
    using byPlayer_Some [OF i] by (subst RemoveGMTicket_at) (simp_all add: l ticket_at_def)
  have eq: "HandleGMResponseResolve E plr m = SendGMTicketGetTicket E plr GMTICKET_STATUS_DEFAULT None None
      (RemoveGMTicket E i (as_source (plr_GUID plr)) True ?m2)"
    by (simp add: HandleGMResponseResolve_def Let_def i)
  show "m_openTickets (HandleGMResponseResolve E plr m) = m_openTickets m"
    "m_GMTicketList (HandleGMResponseResolve E plr m) = take i (m_GMTicketList m) @ drop (Suc i) (m_GMTicketList m)"
    unfolding eq rm by (simp_all add: only_talksD l)
qed

lemma same_move: "same_tickets m m' \<Longrightarrow> ticket_move codec resolving m m'"
  by (rule ticket_move.quiet) (simp_all add: same_tickets_def)

lemma same_tickets_trans: "same_tickets a b \<Longrightarrow> same_tickets b c \<Longrightarrow> same_tickets a c"
  using appends_trans [of a b "[]" c "[]"] by (simp add: same_tickets_def)

lemma same_text: "same_tickets a m \<Longrightarrow> same_tickets a (tk_emit [SqlText x] m)"
  by (erule same_tickets_trans) (simp add: same_tickets_talk only_talks_emit)

lemma survey_loop_talks: "same_tickets a m \<Longrightarrow> same_tickets a (fst (survey_loop E n k d m))"
  by (induction k arbitrary: d m) (simp_all add: same_text case_prod_unfold split: sum.split)

lemma survey_step: "ticket_move codec resolving m (fst (HandleGMSurveySubmit E plr recv m))"
proof (rule same_move)
  let ?m1 = "m\<lparr>m_GMSurveyID := m_GMSurveyID m + 1\<rparr>"
  have 1: "same_tickets m ?m1" by (simp add: same_tickets_def appends_def)
  show "same_tickets m (fst (HandleGMSurveySubmit E plr recv m))"
  proof (cases "in_u32 recv")
    case (Inl e)
    then show ?thesis using 1 by (simp add: HandleGMSurveySubmit_def Let_def GetNextSurveyID_def)
  next
    case (Inr r)
    obtain main d0 where r: "r = (main, d0)" by (cases r)
    obtain m2 x where l: "survey_loop E (m_GMSurveyID m + 1) 10 d0 ?m1 = (m2, x)" by fastforce
    have "same_tickets m m2"
      using survey_loop_talks [OF 1, of E "m_GMSurveyID m + 1" 10 d0] by (simp add: l)
    then show ?thesis
      by (simp add: HandleGMSurveySubmit_def Let_def GetNextSurveyID_def Inr r l same_text case_prod_unfold split: sum.split)
  qed
qed

lemma lag_step: "ticket_move codec resolving m (fst (HandleReportLag E plr recv m))"
  unfolding HandleReportLag_def
  by (rule same_move) (simp add: same_text case_prod_unfold split: sum.split)

lemma get_step: "ticket_move codec resolving m (HandleGMTicketGetTicketOpcode E plr m)"
proof (rule same_move)
  have "same_tickets m (f (SendQueryTimeResponse E plr m))" if "only_talks f" for f
    by (rule same_tickets_trans [OF same_tickets_talk same_tickets_talk]) (simp_all add: that)
  then show "same_tickets m (HandleGMTicketGetTicketOpcode E plr m)"
    by (simp add: HandleGMTicketGetTicketOpcode_def Let_def split: option.split)
qed

lemma status_step: "ticket_move codec resolving m (HandleGMTicketSystemStatusOpcode plr m)"
  unfolding HandleGMTicketSystemStatusOpcode_def by (rule quiet_move) simp

lemma message_move:
  assumes "ids_ok m" "plr_GUID plr \<noteq> 0" "msg = MsgCreate \<Longrightarrow> unat (m_GMticketid m) + 1 < 2 ^ 32" "msg = MsgResolve \<Longrightarrow> resolving"
  shows "ticket_move (te_codec E) resolving m (ticket_message E plr recv msg m)"
proof (cases msg)
  case MsgResolve
  then show ?thesis using assms(4) resolve_step [OF assms(1)] by simp
qed (use assms in \<open>simp_all add: create_step update_step abandon_step get_step survey_step lag_step status_step\<close>)

section \<open>Commands are moves\<close>

lemma told: "ticket_move codec resolving m (sys_message n as m)" "ticket_move codec resolving m m"
  by (rule quiet_move, simp, rule quiet_move [OF only_talks_id])

lemma listing: "ticket_move codec resolving m (tk_emit (TkSysMessage x # map (\<lambda>t. TkSysMessage (f t)) ts) m)"
proof (rule quiet_move [OF only_talks_emit])
  show "filter is_ticket_sql (TkSysMessage x # map (\<lambda>t. TkSysMessage (f t)) ts) = []" by (simp add: filter_map o_def)
qed

lemma show_step:
  assumes "i < length (m_GMTicketList m)"
  shows "ticket_move codec resolving m (show_ticket E i m)"
proof -
  let ?t = "(m_GMTicketList m ! i)\<lparr>tk_viewed := True\<rparr>"
  have "ticket_move codec resolving m (set_ticket i (\<lambda>t. t\<lparr>tk_viewed := True\<rparr>) m)"
    by (rule mark_move [OF assms, where t = ?t and v = True and x = "tk_escalated (m_GMTicketList m ! i)"]) (simp_all add: same_ticketI)
  then show ?thesis
    unfolding show_ticket_def Let_def by (rule move_talk) (simp add: only_talks_emit)
qed

lemma get_by_id_step: "HandleGMTicketGetByIdCommand E args m = Some (r, m') \<Longrightarrow> ticket_move codec resolving m m'"
  unfolding HandleGMTicketGetByIdCommand_def by (auto simp: told show_step dest!: byGuid_Some split: if_splits option.splits)

lemma get_by_name_step: "HandleGMTicketGetByNameCommand E args m = Some (r, m') \<Longrightarrow> ticket_move codec resolving m m'"
  unfolding HandleGMTicketGetByNameCommand_def by (auto simp: told show_step dest!: byPlayer_Some split: if_splits option.splits)

lemma close_step:
  assumes ids: "ids_ok m" and gm: "plr_GUID gm \<noteq> 0" and cmd: "HandleGMTicketCloseByIdCommand E gm args m = Some (r, m')"
  shows "ticket_move (te_codec E) resolving m m'"
proof (cases "m' = m \<or> (\<exists>n as. m' = sys_message n as m)")
  case True
  then show ?thesis using told by auto
next
  case False
  with cmd obtain i where i: "GetGMTicket (atoi64 args) m = Some i" "tk_closed (ticket_at i m) = 0"
    by (auto simp: HandleGMTicketCloseByIdCommand_def Let_def split: if_splits option.splits)
  let ?h = "tk_emit [TkGlobalGM (text_head (ticket_at i m) @ [(2003, [Txt (plr_Name gm)])])]"
  let ?m2 = "RemoveGMTicket E i (as_source (plr_GUID gm)) False (?h m)"
  have op: "i < length (m_GMTicketList m)" "is_open (m_GMTicketList m ! i)"
    using byGuid_Some [OF i(1)] i(2) by (simp_all add: is_open_def ticket_at_def)
  have h: "only_talks ?h" by (simp add: only_talks_emit)
  have "ids_ok (?h m)" using ids by (subst ids_ok_cong [of _ m]) simp_all
  then have "ticket_move (te_codec E) resolving (?h m) ?m2"
    using op gm by (intro close_move) (simp_all add: as_source_0)
  then have mv: "ticket_move (te_codec E) resolving m ?m2" by (rule talk_move [OF h])
  have "m' = ?m2 \<or> (\<exists>p. m' = TicketMgr_UpdateLastChange E (ticket_reply p SMSG_GMTICKET_DELETETICKET GMTICKET_RESPONSE_TICKET_DELETED ?m2))"
    using cmd False i by (auto simp: HandleGMTicketCloseByIdCommand_def Let_def split: if_splits option.splits)
  then show ?thesis using mv move_talk [OF move_talk [OF mv only_talks_simps(1)] only_talks_simps(6)] by auto
qed

lemma delete_step:
  assumes ids: "ids_ok m" and cmd: "HandleGMTicketDeleteByIdCommand E gm args m = Some (r, m')"
  shows "ticket_move codec resolving m m'"
proof (cases "m' = m \<or> (\<exists>n as. m' = sys_message n as m)")
  case True
  then show ?thesis using told by auto
next
  case False
  with cmd obtain i where i: "GetGMTicket (atoi64 args) m = Some i" "tk_closed (ticket_at i m) \<noteq> 0"
    by (auto simp: HandleGMTicketDeleteByIdCommand_def Let_def split: if_splits option.splits)
  let ?h = "tk_emit [TkGlobalGM (text_head (ticket_at i m) @ [(2004, [Txt (plr_Name gm)])])]"
  let ?m2 = "RemoveGMTicket E i (-1) True (?h m)"
  have op: "i < length (m_GMTicketList m)" "\<not> is_open (m_GMTicketList m ! i)"
    using byGuid_Some [OF i(1)] i(2) by (simp_all add: is_open_def ticket_at_def)
  have h: "only_talks ?h" by (simp add: only_talks_emit)
  have "ids_ok (?h m)" using ids by (subst ids_ok_cong [of _ m]) simp_all
  then have "ticket_move codec resolving (?h m) ?m2" using op by (intro delete_move) simp_all
  then have mv: "ticket_move codec resolving m ?m2" by (rule talk_move [OF h])
  have "m' = TicketMgr_UpdateLastChange E ?m2 \<or>
      (\<exists>p. m' = TicketMgr_UpdateLastChange E (ticket_reply p SMSG_GMTICKET_DELETETICKET GMTICKET_RESPONSE_TICKET_DELETED ?m2))"
    using cmd False i by (auto simp: HandleGMTicketDeleteByIdCommand_def Let_def split: if_splits option.splits)
  then show ?thesis
    using move_talk [OF mv only_talks_simps(6)] move_talk [OF move_talk [OF mv only_talks_simps(1)] only_talks_simps(6)] by auto
qed

lemma open_at:
  assumes "GetGMTicket g m = Some i" "tk_closed (ticket_at i m) = 0"
  shows "i < length (m_GMTicketList m)" "is_open (m_GMTicketList m ! i)"
  using assms byGuid_Some [OF assms(1)] by (simp_all add: is_open_def ticket_at_def)

lemma tested_tk [simp]:
  "TICKET_UNASSIGNED = 0" "TICKET_ASSIGNED = 1" "TICKET_IN_ESCALATION_QUEUE = 2" "TICKET_ESCALATED_ASSIGNED = 3"
  by (simp_all add: TICKET_UNASSIGNED_def TICKET_ASSIGNED_def TICKET_IN_ESCALATION_QUEUE_def TICKET_ESCALATED_ASSIGNED_def)

lemma assign_move:
  assumes "i < length (m_GMTicketList m)" "is_open (m_GMTicketList m ! i)" "tarGUID \<noteq> 0"
  shows "ticket_move (te_codec E) resolving m (assign_ticket E i tarGUID gmlevel m)"
proof -
  let ?f = "\<lambda>t. t\<lparr>tk_assignedToGM := tarGUID,
    tk_escalated := (if gmlevel = sec_value SEC_ADMINISTRATOR \<and> tk_escalated t = TICKET_IN_ESCALATION_QUEUE
                     then TICKET_ESCALATED_ASSIGNED
                     else if tk_escalated t = TICKET_UNASSIGNED then TICKET_ASSIGNED else tk_escalated t)\<rparr>"
  have "same_ticket t (?f t)" for t using assms(3) by (simp add: same_ticket_def escalation_ok_def)
  then have mv: "ticket_move (te_codec E) resolving m
      (AddOrUpdateGMTicket E (ticket_at i (set_ticket i ?f m)) False (set_ticket i ?f m))"
    using assms by (intro edit_move)
  show ?thesis
    unfolding assign_ticket_def Let_def
    by (rule move_talk [OF move_talk [OF mv] only_talks_simps(6)]) (simp add: only_talks_emit)
qed

lemma assign_step:
  "HandleGMTicketAssignToCommand E cplr args m = Some (r, m') \<Longrightarrow> ticket_move (te_codec E) resolving m m'"
  unfolding HandleGMTicketAssignToCommand_def Let_def
  by (auto simp: told case_prod_unfold assign_move open_at split: if_splits option.splits)

lemma unassign_move:
  assumes "i < length (m_GMTicketList m)" "is_open (m_GMTicketList m ! i)"
  shows "ticket_move (te_codec E) resolving m (unassign_ticket E cplr i m)"
proof -
  let ?f = "\<lambda>t. t\<lparr>tk_assignedToGM := 0, tk_escalated := (if tk_escalated t \<noteq> TICKET_UNASSIGNED \<and>
    tk_escalated t \<noteq> TICKET_IN_ESCALATION_QUEUE then tk_escalated t - 1 else tk_escalated t)\<rparr>"
  let ?h = "tk_emit [TkGlobalGM (text_head (ticket_at i m) @ [(2020, [Txt (c_str (name_of E (tk_assignedToGM (ticket_at i m))))]),
    (2021, [Txt (plr_Name cplr)])])]"
  have h: "only_talks ?h" by (simp add: only_talks_emit)
  have st: "same_ticket t (?f t)" for t by (auto simp: same_ticket_def escalation_ok_def)
  have "ticket_move (te_codec E) resolving (?h m)
      (AddOrUpdateGMTicket E (ticket_at i (set_ticket i ?f (?h m))) False (set_ticket i ?f (?h m)))"
    by (rule edit_move [where f = ?f], simp add: assms, rule st, simp add: assms)
  from move_talk [OF talk_move [OF h this] only_talks_simps(6)] show ?thesis
    unfolding unassign_ticket_def Let_def .
qed

lemma unassign_step:
  "HandleGMTicketUnAssignCommand E cplr args m = Some (r, m') \<Longrightarrow> ticket_move (te_codec E) resolving m m'"
  unfolding HandleGMTicketUnAssignCommand_def Let_def
  by (auto simp: told unassign_move open_at split: if_splits option.splits)

lemma comment_move:
  assumes "i < length (m_GMTicketList m)" "is_open (m_GMTicketList m ! i)"
  shows "ticket_move (te_codec E) resolving m (comment_ticket E cplr i comment m)"
proof -
  let ?f = "\<lambda>t. t\<lparr>tk_comment := comment\<rparr>"
  have mv: "ticket_move (te_codec E) resolving m
      (AddOrUpdateGMTicket E (ticket_at i (set_ticket i ?f m)) False (set_ticket i ?f m))"
    using assms by (intro edit_move) (simp_all add: same_ticketI)
  show ?thesis
    unfolding comment_ticket_def Let_def
    by (rule move_talk [OF move_talk [OF mv] only_talks_simps(6)]) (auto simp: only_talks_emit)
qed

lemma comment_step:
  "HandleGMTicketCommentCommand E cplr args m = Some (r, m') \<Longrightarrow> ticket_move (te_codec E) resolving m m'"
  unfolding HandleGMTicketCommentCommand_def
  by (auto simp: told comment_move open_at split: if_splits option.splits)

lemma respond_move:
  assumes "i < length (m_GMTicketList m)" "is_open (m_GMTicketList m ! i)"
  shows "ticket_move (te_codec E) resolving m (respond_ticket E i txt m)"
  unfolding respond_ticket_def Let_def using assms by (intro edit_move) (simp_all add: same_ticketI)

lemma response_step:
  "response_append E e cplr args m = Some (r, m') \<Longrightarrow> ticket_move (te_codec E) resolving m m'"
  unfolding response_append_def
  by (auto simp: told respond_move open_at split: if_splits option.splits)

lemma escalate_move:
  assumes "i < length (m_GMTicketList m)" "tk_escalated (m_GMTicketList m ! i) = TICKET_UNASSIGNED"
  shows "ticket_move codec resolving m (escalate_ticket E i m)"
proof -
  let ?f = "\<lambda>t. t\<lparr>tk_escalated := TICKET_IN_ESCALATION_QUEUE\<rparr>"
  let ?t = "ticket_at i (set_ticket i ?f m)"
  let ?g = "\<lambda>m. case FindPlayer (te_world E) (tk_playerGuid ?t) of None \<Rightarrow> m | Some p \<Rightarrow> if plr_InWorld p
    then SendGMTicketGetTicket E p GMTICKET_STATUS_HASTEXT (Some (c_str (tk_message ?t))) (Some ?t) m else m"
  have g: "only_talks ?g"
  proof (cases "FindPlayer (te_world E) (tk_playerGuid ?t)")
    case (Some p)
    then show ?thesis by (cases "plr_InWorld p") (simp_all add: only_talks_id)
  qed (simp add: only_talks_id)
  have "ticket_move codec resolving m (set_ticket i ?f m)"
    using assms
    by (intro mark_move [where t = "?f (m_GMTicketList m ! i)" and v = "tk_viewed (m_GMTicketList m ! i)" and x = 2])
      (simp_all add: same_ticket_def escalation_ok_def)
  from move_talk [OF move_talk [OF this g] only_talks_simps(6)] show ?thesis
    unfolding escalate_ticket_def Let_def .
qed

lemma escalate_step:
  "HandleGMTicketEscalateCommand E args m = Some (r, m') \<Longrightarrow> ticket_move codec resolving m m'"
  unfolding HandleGMTicketEscalateCommand_def
  by (auto simp: told escalate_move byGuid_Some ticket_at_def split: if_splits option.splits)

lemma complete_step:
  assumes "HandleGMTicketCompleteCommand E args m = Some (r, m')"
  shows "same_tickets m m'"
proof -
  have "same_tickets m (TicketMgr_UpdateLastChange E (f m))" if "only_talks f" for f
    by (rule same_tickets_trans [OF same_tickets_talk [OF that] same_tickets_talk]) simp
  from this [OF only_talks_id] this [OF only_talks_simps(3)] show ?thesis
    using assms same_tickets_talk [OF only_talks_simps(4)]
    by (auto simp: HandleGMTicketCompleteCommand_def Let_def split: if_splits option.splits)
qed

lemma toggle_step: "HandleToggleGMTicketSystem m = Some (r, m') \<Longrightarrow> same_tickets m m'"
  by (auto simp: HandleToggleGMTicketSystem_def Let_def sys_message_def same_tickets_def appends_def)

lemma list_step:
  "HandleGMTicketListCommand E m = Some (r, m') \<Longrightarrow> ticket_move codec resolving m m'"
  "HandleGMTicketListOnlineCommand E m = Some (r, m') \<Longrightarrow> ticket_move codec resolving m m'"
  "HandleGMTicketListClosedCommand E m = Some (r, m') \<Longrightarrow> ticket_move codec resolving m m'"
  "HandleGMTicketListEscalatedCommand E m = Some (r, m') \<Longrightarrow> ticket_move codec resolving m m'"
  unfolding HandleGMTicketListCommand_def HandleGMTicketListOnlineCommand_def HandleGMTicketListClosedCommand_def
    HandleGMTicketListEscalatedCommand_def
  by (auto intro: listing)

lemma command_move:
  assumes "ids_ok m" "plr_GUID gm \<noteq> 0" "ticket_command E gm args cmd m = Some (r, m')"
  shows "ticket_move (te_codec E) resolving m m'"
  using assms
  by (cases cmd)
    (auto intro: list_step get_by_id_step get_by_name_step close_step delete_step assign_step unassign_step comment_step
      response_step escalate_step same_move complete_step toggle_step
      simp: HandleGMTicketResponseAppendCommand_def HandleGMTicketResponseAppendLnCommand_def)

lemma step_move:
  assumes "ticket_step codec resolving m m'" "ids_ok m"
  shows "ticket_move codec resolving m m'"
  using assms(1)
proof cases
  case (message E plr msg recv)
  then show ?thesis using message_move [OF assms(2)] by blast
next
  case (command E gm args cmd r)
  then show ?thesis using command_move [OF assms(2)] by blast
qed

end
