(* ===== verification/Ticket_Inv.thy ===== *)
theory Ticket_Inv
  imports Ticket_Laws
begin

text \<open>
  Invariants of the ticket machine, by rule induction over the reachable states.  The contract \<open>ticket_law\<close> says what an
  invariant needs: loading establishes it and every move keeps it.
\<close>

section \<open>Shapes of moves\<close>

lemma split_at:
  assumes "i < length xs"
  obtains a b where "xs = a @ (xs ! i) # b" "\<And>t. xs[i := t] = a @ t # b" "take i xs @ drop (Suc i) xs = a @ b"
  using assms id_take_nth_drop [OF assms] upd_conv_take_nth_drop [OF assms] by metis

lemma move_shape:
  assumes "ticket_move codec resolving m m'"
  obtains (same) "m_GMTicketList m' = m_GMTicketList m" "m_openTickets m' = m_openTickets m" "m_GMticketid m' = m_GMticketid m"
  | (grown) t where "m_GMTicketList m' = m_GMTicketList m @ [t]" "m_openTickets m' = m_openTickets m + 1"
      "m_GMticketid m' = m_GMticketid m + 1" "unat (m_GMticketid m) + 1 < 2 ^ 32" "tk_guid t = m_GMticketid m + 1" "is_open t"
      "\<not> tk_completed t" "escalation_ok t" "\<And>u. u \<in> set (m_GMTicketList m) \<Longrightarrow> tk_playerGuid u = tk_playerGuid t \<Longrightarrow> \<not> is_open u"
  | (changed) a x b t where "m_GMTicketList m = a @ x # b" "m_GMTicketList m' = a @ t # b" "m_GMticketid m' = m_GMticketid m"
      "same_ticket x t" "m_openTickets m' = m_openTickets m"
  | (shut) a x b t where "m_GMTicketList m = a @ x # b" "m_GMTicketList m' = a @ t # b" "m_GMticketid m' = m_GMticketid m"
      "is_open x" "\<not> is_open t" "m_openTickets m' = m_openTickets m - 1" "\<exists>c. t = x\<lparr>tk_closed := c\<rparr>"
  | (removed) a x b where "m_GMTicketList m = a @ x # b" "m_GMTicketList m' = a @ b" "m_GMticketid m' = m_GMticketid m"
      "\<not> is_open x \<or> resolving" "m_openTickets m' = m_openTickets m"
  using assms
proof cases
  case quiet
  then show thesis using same by blast
next
  case (opened t r)
  then show thesis using grown by blast
next
  case (edited i t r)
  then show thesis using changed split_at [OF edited(1)] by metis
next
  case (marked i t x v)
  then show thesis using changed split_at [OF marked(1)] by metis
next
  case (closed_by i source t r)
  then have "\<not> is_open t" by (simp add: is_open_def)
  then show thesis using shut split_at [OF closed_by(1)] closed_by by metis
next
  case (deleted i)
  then show thesis using removed split_at [OF deleted(1)] by metis
qed

section \<open>Numbers\<close>

lemma next_id:
  assumes "unat (g :: uint64) + 1 < 2 ^ 32"
  shows "unat (g + 1) = unat g + 1" "x \<le> g \<Longrightarrow> x < g + 1"
proof -
  show n: "unat (g + 1) = unat g + 1" using assms by (subst unat_word_ariths(1)) simp
  show "x < g + 1" if "x \<le> g" using that n by (simp add: word_le_nat_alt word_less_nat_alt)
qed

lemma ids_kept:
  assumes "ticket_move codec resolving m m'" "ids_ok m"
  shows "ids_ok m'"
  using assms(1)
proof (cases rule: move_shape)
  case (grown t)
  have less: "tk_guid u < tk_guid t" if "u \<in> set (m_GMTicketList m)" for u
    using next_id(2) [OF grown(4)] assms(2) that grown(5) by (simp add: ids_ok_def)
  then have "tk_guid t \<notin> tk_guid ` set (m_GMTicketList m)" by fastforce
  then show ?thesis
    using assms(2) grown(1,3,4,5) next_id(1) [OF grown(4)] less less_imp_le by (auto simp: ids_ok_def)
next
  case (shut a x b t)
  then show ?thesis using assms(2) by (auto simp: ids_ok_def)
qed (use assms(2) in \<open>auto simp: ids_ok_def same_ticket_def\<close>)

section \<open>Loading\<close>

lemma load_fold:
  "m_GMTicketList (fold (load_ticket E) rows m) = m_GMTicketList m @ map (ticket_of_row E) rows"
  "m_openTickets (fold (load_ticket E) rows m) = m_openTickets m + of_nat (length (filter is_open (map (ticket_of_row E) rows)))"
  "tm_log (fold (load_ticket E) rows m) = tm_log m"
proof (induction rows arbitrary: m)
  case (Cons r rows)
  case 1 then show ?case using Cons by (simp add: load_ticket_def Let_def)
  case 2 then show ?case using Cons by (simp add: load_ticket_def Let_def is_open_def)
  case 3 then show ?case using Cons by (simp add: load_ticket_def Let_def)
qed simp_all

lemma LoadGMTickets_fields:
  "m_GMTicketList (LoadGMTickets E rows maxguid m) = map (ticket_of_row E) rows"
  "m_openTickets (LoadGMTickets E rows maxguid m) = of_nat (length (filter is_open (map (ticket_of_row E) rows)))"
  "m_GMticketid (LoadGMTickets E rows maxguid m) = (if rows = [] then 0 else maxguid)"
  "tm_log (LoadGMTickets E rows maxguid m) = tm_log m"
  by (simp_all add: LoadGMTickets_def Let_def load_fold)

lemma back32: "unat (x :: uint64) < 2 ^ 32 \<Longrightarrow> ucast (ucast x :: uint32) = x"
proof -
  assume "unat x < 2 ^ 32"
  then have "unat (ucast (ucast x :: uint32) :: uint64) = unat x"
    by (simp add: unsigned_ucast_eq unsigned_take_bit_eq take_bit_nat_eq_self)
  then show ?thesis by (simp add: word_unat_eq_iff)
qed

text \<open>In the table strings are not escaped.\<close>

definition plain :: "ticket_codec \<Rightarrow> ticket_codec" where
  "plain codec = codec\<lparr>cd_escape := \<lambda>s. s\<rparr>"

lemma loaded_ticket:
  assumes "rows_ok rows maxguid" "r \<in> set rows"
  shows "tk_guid (ticket_of_row E r) = tr_guid r" "tk_playerGuid (ticket_of_row E r) = tr_playerGuid r"
    "tk_closed (ticket_of_row E r) = tr_closed r" "row_for (plain (te_codec E)) (ticket_of_row E r) r"
proof -
  have b: "unat (tr_guid r) < 2 ^ 32" "unat (tr_playerGuid r) < 2 ^ 32" "unat (tr_createtime r) < 2 ^ 32"
    "unat (tr_timestamp r) < 2 ^ 32" "is_int32 (tr_closed r)"
    using assms le_less_trans [of "unat (tr_guid r)" "unat maxguid"] by (auto simp: rows_ok_def word_le_nat_alt)
  then show "tk_guid (ticket_of_row E r) = tr_guid r" "tk_playerGuid (ticket_of_row E r) = tr_playerGuid r"
    "tk_closed (ticket_of_row E r) = tr_closed r" "row_for (plain (te_codec E)) (ticket_of_row E r) r"
    by (simp_all add: ticket_of_row_def row_for_def plain_def te_codec_def back32 wrap32_id)
qed

lemma loaded_ids:
  assumes "rows_ok rows maxguid"
  shows "ids_ok (LoadGMTickets E rows maxguid m)"
proof -
  have "map tk_guid (map (ticket_of_row E) rows) = map tr_guid rows"
    using loaded_ticket(1) [OF assms] by simp
  then show ?thesis
    using assms loaded_ticket(1) [OF assms] by (auto simp: ids_ok_def LoadGMTickets_fields rows_ok_def simp del: map_map)
qed

section \<open>The contract of an invariant\<close>

locale ticket_law =
  fixes codec :: ticket_codec and resolving :: bool and rows :: "ticket_row list" and I :: "TicketMgr \<Rightarrow> bool"
  assumes start: "te_codec E = codec \<Longrightarrow> rows_ok rows maxguid \<Longrightarrow> I (LoadGMTickets E rows maxguid (TicketMgr_new E))"
    and kept: "ids_ok m \<Longrightarrow> I m \<Longrightarrow> ticket_move codec resolving m m' \<Longrightarrow> I m'"
begin

lemma reach_law: "ticket_reach codec resolving rows m \<Longrightarrow> ids_ok m \<and> I m"
proof (induction rule: ticket_reach.induct)
  case (loaded E maxguid)
  then show ?case using loaded_ids start by simp
next
  case (stepped m m')
  then have "ticket_move codec resolving m m'" using step_move by blast
  with stepped.IH show ?case using ids_kept kept by blast
qed

end

text \<open>At most one open ticket for each player.\<close>

definition one_open :: "TicketMgr \<Rightarrow> bool" where
  "one_open m \<longleftrightarrow> distinct (map tk_playerGuid (filter is_open (m_GMTicketList m)))"

lemma loaded_open:
  assumes "rows_ok rows maxguid"
  shows "map tk_playerGuid (filter is_open (map (ticket_of_row E) rows)) = map tr_playerGuid (filter (\<lambda>r. tr_closed r = 0) rows)"
proof -
  have "filter (is_open \<circ> ticket_of_row E) rows = filter (\<lambda>r. tr_closed r = 0) rows"
    using loaded_ticket(3) [OF assms] by (intro filter_cong) (simp_all add: is_open_def)
  then show ?thesis using loaded_ticket(2) [OF assms] by (simp add: filter_map)
qed

interpretation open_law: ticket_law codec resolving rows one_open for codec resolving rows
proof
  show "one_open (LoadGMTickets E rows maxguid (TicketMgr_new E))" if "te_codec E = codec" "rows_ok rows maxguid" for E maxguid
    using that unfolding one_open_def LoadGMTickets_fields loaded_open [OF that(2)] by (simp add: rows_ok_def)
  show "one_open m'" if "ids_ok m" and inv: "one_open m" and "ticket_move codec resolving m m'" for m m'
    using that(3)
  proof (cases rule: move_shape)
    case (grown t)
    then show ?thesis using inv by (auto simp: one_open_def)
  next
    case (shut a x b t)
    then show ?thesis using inv by (auto simp: one_open_def)
  qed (use inv in \<open>auto simp: one_open_def same_ticket_def is_open_def split: if_splits\<close>)
qed

text \<open>Without the resolve message the counter of open tickets is exact.\<close>

definition count_exact :: "TicketMgr \<Rightarrow> bool" where
  "count_exact m \<longleftrightarrow> m_openTickets m = of_nat (length (filter is_open (m_GMTicketList m)))"

interpretation count_law: ticket_law codec False rows count_exact for codec rows
proof
  show "count_exact (LoadGMTickets E rows maxguid (TicketMgr_new E))" for maxguid E
    by (simp add: count_exact_def LoadGMTickets_fields)
  show "count_exact m'" if "ids_ok m" and inv: "count_exact m" and "ticket_move codec False m m'" for m m'
    using that(3)
    by (cases rule: move_shape) (use inv in \<open>auto simp: count_exact_def same_ticket_def is_open_def\<close>)
qed

text \<open>Escalation and assignment agree if they do in the table.\<close>

definition escalations :: "ticket_row list \<Rightarrow> TicketMgr \<Rightarrow> bool" where
  "escalations rows m \<longleftrightarrow> (\<forall>E. list_all (\<lambda>r. escalation_ok (ticket_of_row E r)) rows) \<longrightarrow> list_all escalation_ok (m_GMTicketList m)"

interpretation escalation_law: ticket_law codec resolving rows "escalations rows" for codec resolving rows
proof
  show "escalations rows (LoadGMTickets E rows maxguid (TicketMgr_new E))" for maxguid E
    by (simp add: escalations_def LoadGMTickets_fields list_all_iff)
  show "escalations rows m'" if "ids_ok m" and inv: "escalations rows m" and "ticket_move codec resolving m m'" for m m'
    using that(3)
  proof (cases rule: move_shape)
    case (shut a x b t)
    then have "escalation_ok x = escalation_ok t" by (auto simp: escalation_ok_def)
    with shut inv show ?thesis by (auto simp: escalations_def)
  qed (use inv in \<open>auto simp: escalations_def same_ticket_def\<close>)
qed

section \<open>The table\<close>

type_synonym ticket_table = "uint64 \<Rightarrow> ticket_row option"

definition unescaped :: "(string \<Rightarrow> string) \<Rightarrow> ticket_row \<Rightarrow> ticket_row" where
  "unescaped unesc r = r\<lparr>tr_name := unesc (tr_name r), tr_message := unesc (tr_message r), tr_comment := unesc (tr_comment r)\<rparr>"

fun exec_ticket :: "(string \<Rightarrow> string) \<Rightarrow> ticket_event \<Rightarrow> ticket_table \<Rightarrow> ticket_table" where
  "exec_ticket unesc (SqlReplaceTicket r) T = T(tr_guid r \<mapsto> unescaped unesc r)"
| "exec_ticket unesc (SqlDeleteTicket g) T = T(ucast g := None)"
| "exec_ticket unesc _ T = T"

definition ticket_rows :: "ticket_row list \<Rightarrow> ticket_table" where
  "ticket_rows rows = map_of (map (\<lambda>r. (tr_guid r, r)) rows)"

definition table_of :: "(string \<Rightarrow> string) \<Rightarrow> ticket_row list \<Rightarrow> TicketMgr \<Rightarrow> ticket_table" where
  "table_of unesc rows m = fold (exec_ticket unesc) (tm_log m) (ticket_rows rows)"

definition table_agrees :: "(string \<Rightarrow> string) \<Rightarrow> ticket_codec \<Rightarrow> ticket_row list \<Rightarrow> TicketMgr \<Rightarrow> bool" where
  "table_agrees unesc codec rows m \<longleftrightarrow> dom (table_of unesc rows m) = tk_guid ` set (m_GMTicketList m) \<and>
     (\<forall>t \<in> set (m_GMTicketList m). \<exists>r. table_of unesc rows m (tk_guid t) = Some r \<and> row_for (plain codec) t r)"

lemma exec_filter: "fold (exec_ticket unesc) es T = fold (exec_ticket unesc) (filter is_ticket_sql es) T"
proof (induction es arbitrary: T)
  case (Cons e es)
  have "exec_ticket unesc e T = T" if "\<not> is_ticket_sql e" using that by (cases e) simp_all
  then show ?case using Cons.IH [of "exec_ticket unesc e T"] by simp
qed simp

lemma table_appends: "appends m m' S \<Longrightarrow> table_of unesc rows m' = fold (exec_ticket unesc) S (table_of unesc rows m)"
  unfolding appends_def table_of_def using exec_filter by (metis fold_append comp_apply)

lemma ticket_table_quiet: "appends m m' [] \<Longrightarrow> table_of unesc rows m' = table_of unesc rows m"
  by (simp add: table_appends)

lemma row_for_unescaped:
  assumes "\<And>s. unesc (cd_escape codec s) = s" "row_for codec t r"
  shows "row_for (plain codec) t (unescaped unesc r)" "tr_guid r = tk_guid t"
  using assms by (simp_all add: row_for_def unescaped_def plain_def)

lemma table_put:
  assumes agr: "table_agrees unesc codec rows m" and guids: "distinct (map tk_guid (a @ x # b))" and m: "m_GMTicketList m = a @ x # b"
    and m': "m_GMTicketList m' = a @ t # b" "tk_guid t = tk_guid x" and unesc: "\<And>s. unesc (cd_escape codec s) = s" and r: "row_for codec t r"
    and app: "appends m m' [SqlReplaceTicket r]"
  shows "table_agrees unesc codec rows m'"
proof -
  have T: "table_of unesc rows m' = (table_of unesc rows m)(tk_guid t \<mapsto> unescaped unesc r)"
    using table_appends [OF app] row_for_unescaped(2) [OF unesc r] by simp
  have "tk_guid u \<noteq> tk_guid t" if "u \<in> set a \<union> set b" for u using guids that m'(2) by (auto simp: image_iff)
  then show ?thesis
    using agr m m' row_for_unescaped(1) [OF unesc r] unfolding table_agrees_def T by auto
qed

lemma table_kept:
  assumes unesc: "\<And>s. unesc (cd_escape codec s) = s" and ids: "ids_ok m" and agr: "table_agrees unesc codec rows m" and mv: "ticket_move codec resolving m m'"
  shows "table_agrees unesc codec rows m'"
  using mv
proof cases
  case quiet
  then show ?thesis using agr by (simp add: table_agrees_def ticket_table_quiet)
next
  case (opened t r)
  have T: "table_of unesc rows m' = (table_of unesc rows m)(tk_guid t \<mapsto> unescaped unesc r)"
    using table_appends [OF opened(11)] row_for_unescaped(2) [OF unesc opened(10)] by simp
  have "tk_guid u \<noteq> tk_guid t" if "u \<in> set (m_GMTicketList m)" for u
    using next_id(2) [OF opened(4)] ids that opened(5) by (fastforce simp: ids_ok_def)
  then show ?thesis
    using agr opened(1) row_for_unescaped(1) [OF unesc opened(10)] unfolding table_agrees_def T by auto
next
  case (edited i t r)
  obtain a b where "m_GMTicketList m = a @ (m_GMTicketList m ! i) # b" "m_GMTicketList m' = a @ t # b"
    using split_at [OF edited(1)] edited(4) by metis
  moreover have "distinct (map tk_guid (m_GMTicketList m))" using ids by (simp add: ids_ok_def)
  ultimately show ?thesis
    using table_put [OF agr _ _ _ _ unesc edited(7,8)] edited(2) by (metis same_ticket_def)
next
  case (marked i t x v)
  obtain a b where l: "m_GMTicketList m = a @ (m_GMTicketList m ! i) # b" "m_GMTicketList m' = a @ t # b"
    using split_at [OF marked(1)] marked(4) by metis
  have "row_for (plain codec) t r = row_for (plain codec) (m_GMTicketList m ! i) r" "tk_guid t = tk_guid (m_GMTicketList m ! i)" for r
    by (simp_all add: row_for_def marked(3))
  moreover have "set (m_GMTicketList m) = insert (m_GMTicketList m ! i) (set a \<union> set b)"
    by (subst l(1)) auto
  ultimately show ?thesis using agr l(2) unfolding table_agrees_def ticket_table_quiet [OF marked(7)] by simp
next
  case (closed_by i source t r)
  obtain a b where "m_GMTicketList m = a @ (m_GMTicketList m ! i) # b" "m_GMTicketList m' = a @ t # b"
    using split_at [OF closed_by(1)] closed_by(5) by metis
  moreover have "distinct (map tk_guid (m_GMTicketList m))" "tk_guid t = tk_guid (m_GMTicketList m ! i)"
    using ids by (simp_all add: ids_ok_def closed_by(4))
  ultimately show ?thesis
    using table_put [OF agr _ _ _ _ unesc closed_by(8,9)] by metis
next
  case (deleted i)
  let ?x = "m_GMTicketList m ! i"
  obtain a b where l: "m_GMTicketList m = a @ ?x # b" "m_GMTicketList m' = a @ b"
    using split_at [OF deleted(1)] deleted(3) by metis
  have "tk_guid ?x \<le> m_GMticketid m" "unat (m_GMticketid m) < 2 ^ 32" using ids deleted(1) by (simp_all add: ids_ok_def)
  then have "unat (tk_guid ?x) < 2 ^ 32" unfolding word_le_nat_alt by (rule le_less_trans)
  then have T: "table_of unesc rows m' = (table_of unesc rows m)(tk_guid ?x := None)"
    using table_appends [OF deleted(6)] back32 by simp
  have "distinct (map tk_guid (a @ ?x # b))" using ids l(1) by (simp add: ids_ok_def)
  then have "tk_guid u \<noteq> tk_guid ?x" if "u \<in> set a \<union> set b" for u using that by (auto simp: image_iff)
  moreover have "set (m_GMTicketList m) = insert ?x (set a \<union> set b)" by (subst l(1)) auto
  ultimately show ?thesis using agr l(2) unfolding table_agrees_def T by auto
qed

text \<open>The agreement as an invariant; \<open>unesc\<close> is how the database reads a literal.\<close>

definition table_inv :: "(string \<Rightarrow> string) \<Rightarrow> ticket_codec \<Rightarrow> ticket_row list \<Rightarrow> TicketMgr \<Rightarrow> bool" where
  "table_inv unesc codec rows m \<longleftrightarrow> (\<forall>s. unesc (cd_escape codec s) = s) \<longrightarrow> table_agrees unesc codec rows m"

interpretation table_law: ticket_law codec resolving rows "table_inv unesc codec rows" for codec resolving rows unesc
proof
  show "table_inv unesc codec rows (LoadGMTickets E rows maxguid (TicketMgr_new E))" if cd: "te_codec E = codec" and ok: "rows_ok rows maxguid" for E maxguid
  proof -
    have T: "table_of unesc rows (LoadGMTickets E rows maxguid (TicketMgr_new E)) = ticket_rows rows"
      by (simp add: table_of_def LoadGMTickets_fields TicketMgr_new_def)
    have "ticket_rows rows (tr_guid r) = Some r" if "r \<in> set rows" for r
      unfolding ticket_rows_def using that ok by (intro map_of_is_SomeI) (auto simp: rows_ok_def comp_def)
    moreover have "dom (ticket_rows rows) = tr_guid ` set rows" by (force simp: ticket_rows_def dom_map_of_conv_image_fst)
    ultimately show ?thesis
      using loaded_ticket [OF ok, of _ E, unfolded cd] unfolding table_inv_def table_agrees_def T LoadGMTickets_fields by (auto simp: image_image)
  qed
  show "table_inv unesc codec rows m'" if "ids_ok m" "table_inv unesc codec rows m" "ticket_move codec resolving m m'" for m m'
    using table_kept [OF _ that(1) _ that(3)] that(2) by (simp add: table_inv_def)
qed

end
