(* ===== verification/Ticket_Spec.thy ===== *)
theory Ticket_Spec
  imports Ticket_Inv
begin

text \<open>What the ticket system promises to players, to game masters and across restarts.\<close>

section \<open>A sample\<close>

text \<open>One open ticket in the table; the game master with GUID 9 closes it.\<close>

definition sample_row :: ticket_row where
  "sample_row = \<lparr>tr_guid = 1, tr_playerGuid = 5, tr_name = ''Ana'', tr_message = ''help'', tr_createtime = 10, tr_map = 0,
     tr_pos = [''0'', ''0'', ''0''], tr_timestamp = 10, tr_closed = 0, tr_assignedto = 0, tr_comment = '''', tr_completed = False,
     tr_escalated = 0, tr_viewed = False\<rparr>"

definition sample_tk_env :: tk_env where
  "sample_tk_env = \<lparr>te_world = sample_world [], te_time = 100, te_EscapeString = (\<lambda>s. s), te_float_text = (\<lambda>_. ''0''),
     te_text_float = (\<lambda>_. 0), te_age = (\<lambda>_. 0), te_change_age = (\<lambda>_. 0), te_NextDailyQuestsResetTime = 0,
     CONFIG_TICKET_LEVEL_REQ = 1, te_survey = False, te_viewed = False, te_normalizePlayerName = (\<lambda>s. (True, s)),
     te_GetPlayerGUIDByName = (\<lambda>_. 9), te_GetPlayerAccountIdByGUID = (\<lambda>_. 1), te_GetSecurity = (\<lambda>_. 3)\<rparr>"

definition sample_loaded :: TicketMgr where
  "sample_loaded = LoadGMTickets sample_tk_env [sample_row] 1 (TicketMgr_new sample_tk_env)"

definition sample_gm :: Player where
  "sample_gm = (sample_player 9 ''Gamemaster'')\<lparr>plr_Security := SEC_GAMEMASTER\<rparr>"

definition sample_closed :: TicketMgr where
  "sample_closed = snd (the (ticket_command sample_tk_env sample_gm ''1'' CmdCloseById sample_loaded))"

lemma sample_reach: "ticket_reach (te_codec sample_tk_env) resolving [sample_row] sample_loaded"
proof -
  have "rows_ok [sample_row] 1" by (simp add: rows_ok_def sample_row_def is_int32_def)
  then show ?thesis unfolding sample_loaded_def by (rule ticket_reach.loaded [OF refl])
qed

lemma sample_close: "ticket_command sample_tk_env sample_gm ''1'' CmdCloseById sample_loaded = Some (True, sample_closed)"
proof -
  have "case ticket_command sample_tk_env sample_gm ''1'' CmdCloseById sample_loaded of Some (r, _) \<Rightarrow> r | None \<Rightarrow> False"
    by code_simp
  then show ?thesis by (auto simp: sample_closed_def split: option.splits)
qed

lemma sample_closed_reach: "ticket_reach (te_codec sample_tk_env) resolving [sample_row] sample_closed"
proof (rule ticket_reach.stepped [OF sample_reach])
  show "ticket_step (te_codec sample_tk_env) resolving sample_loaded sample_closed"
    by (rule ticket_step.command [OF refl _ sample_close]) (simp add: sample_gm_def sample_player_def)
qed

lemma sample_list:
  "map tk_playerGuid (m_GMTicketList sample_loaded) = [5]" "map is_open (m_GMTicketList sample_loaded) = [True]"
  "map is_open (m_GMTicketList sample_closed) = [False]" "map tk_guid (m_GMTicketList sample_closed) = [1]"
  by code_simp+

section \<open>Properties\<close>

text \<open>
  C18 (invariant).  Over every history of messages and commands after loading a consistent table, ticket numbers are
  unique and no player has two open tickets.
\<close>
theorem one_open_ticket_per_player:
  assumes "ticket_reach codec resolving rows m"
  shows "distinct (map tk_guid (m_GMTicketList m)) \<and> distinct (map tk_playerGuid (filter is_open (m_GMTicketList m)))"
  using open_law.reach_law [OF assms] by (simp add: ids_ok_def one_open_def)

theorem one_open_ticket_per_player_witness:
  "distinct (map tk_guid (m_GMTicketList sample_closed)) \<and> distinct (map tk_playerGuid (filter is_open (m_GMTicketList sample_closed)))"
  by (rule one_open_ticket_per_player [OF sample_closed_reach])

text \<open>
  C7 (refinement).  The list in memory implements the table \<open>gm_tickets\<close>: after every history the statements executed so far
  leave exactly one row for each ticket, with its player, name, message, map, times, closer, assignment, comment and
  completion, and with its position as the statement printed it or, if it was not saved since, as it was loaded.  Only \<open>viewed\<close> and \<open>escalated\<close>, which commands change without saving, may differ.
\<close>
theorem ticket_table_refines_list:
  assumes "ticket_reach codec resolving rows m" and "\<And>s. unesc (cd_escape codec s) = s"
  shows "dom (table_of unesc rows m) = tk_guid ` set (m_GMTicketList m) \<and>
    (\<forall>t \<in> set (m_GMTicketList m). \<exists>r. table_of unesc rows m (tk_guid t) = Some r \<and> row_for (plain codec) t r)"
  using table_law.reach_law [OF assms(1), of unesc] assms(2) by (simp add: table_inv_def table_agrees_def)

theorem ticket_table_refines_list_witness:
  "dom (table_of (\<lambda>s. s) [sample_row] sample_closed) = {1} \<and>
   (\<exists>r. table_of (\<lambda>s. s) [sample_row] sample_closed (tk_guid (hd (m_GMTicketList sample_closed))) = Some r \<and>
      row_for (plain (te_codec sample_tk_env)) (hd (m_GMTicketList sample_closed)) r)"
proof -
  have c: "cd_escape (te_codec sample_tk_env) s = s" for s by (simp add: te_codec_def sample_tk_env_def)
  have "tk_guid ` set (m_GMTicketList sample_closed) = set (map tk_guid (m_GMTicketList sample_closed))" by simp
  then have "tk_guid ` set (m_GMTicketList sample_closed) = {1}" by (simp only: sample_list) simp
  moreover have "hd (m_GMTicketList sample_closed) \<in> set (m_GMTicketList sample_closed)"
    using sample_list(4) by (cases "m_GMTicketList sample_closed") auto
  ultimately show ?thesis using ticket_table_refines_list [OF sample_closed_reach, of "\<lambda>s. s", OF c] by blast
qed

text \<open>
  As long as no player resolves an answered ticket, the number that \<open>GetOpenTicketCount\<close> returns is the
  number of open tickets.
\<close>
theorem open_ticket_count_exact:
  assumes "ticket_reach codec False rows m"
  shows "m_openTickets m = of_nat (length (filter is_open (m_GMTicketList m)))"
  using count_law.reach_law [OF assms] by (simp add: count_exact_def)

theorem open_ticket_count_exact_witness:
  "m_openTickets sample_closed = of_nat (length (filter is_open (m_GMTicketList sample_closed)))"
  by (rule open_ticket_count_exact [OF sample_closed_reach])

text \<open>
  Resolving deletes an open ticket without counting it down: afterwards the counter is one more than the number
  of open tickets, and the next resolve makes it worse.
\<close>
theorem resolve_keeps_counting:
  assumes "ticket_reach codec resolving rows m" and "m_openTickets m = of_nat (length (filter is_open (m_GMTicketList m)))"
    and "GetGMTicketByPlayer (plr_GUID plr) m \<noteq> None"
  shows "m_openTickets (HandleGMResponseResolve E plr m) =
    of_nat (length (filter is_open (m_GMTicketList (HandleGMResponseResolve E plr m)))) + 1"
proof -
  obtain i where i: "GetGMTicketByPlayer (plr_GUID plr) m = Some i" using assms(3) by blast
  have op: "i < length (m_GMTicketList m)" "is_open (m_GMTicketList m ! i)" using byPlayer_Some [OF i] by simp_all
  have ids: "ids_ok m" using open_law.reach_law [OF assms(1)] by simp
  have res: "m_openTickets (HandleGMResponseResolve E plr m) = m_openTickets m"
    "m_GMTicketList (HandleGMResponseResolve E plr m) = take i (m_GMTicketList m) @ drop (Suc i) (m_GMTicketList m)"
    using resolve_removes [OF ids i] by simp_all
  obtain a b where l: "m_GMTicketList m = a @ (m_GMTicketList m ! i) # b" "take i (m_GMTicketList m) @ drop (Suc i) (m_GMTicketList m) = a @ b"
    using split_at [OF op(1)] by metis
  have "length (filter is_open (m_GMTicketList m)) = Suc (length (filter is_open (a @ b)))"
    using op(2) by (subst l(1)) simp
  then show ?thesis unfolding res l(2) assms(2) by simp
qed

theorem resolve_keeps_counting_witness:
  "m_openTickets (HandleGMResponseResolve sample_tk_env (sample_player 5 ''Ana'') sample_loaded) = 1 \<and>
   m_GMTicketList (HandleGMResponseResolve sample_tk_env (sample_player 5 ''Ana'') sample_loaded) = []"
proof -
  let ?m' = "HandleGMResponseResolve sample_tk_env (sample_player 5 ''Ana'') sample_loaded"
  have l: "map tk_guid (m_GMTicketList ?m') = []" by code_simp
  have "m_openTickets sample_loaded = of_nat (length (filter is_open (m_GMTicketList sample_loaded)))"
    "GetGMTicketByPlayer (plr_GUID (sample_player 5 ''Ana'')) sample_loaded \<noteq> None"
    by code_simp+
  from resolve_keeps_counting [OF sample_reach this, of sample_tk_env] l show ?thesis by simp
qed

text \<open>
  C32 (safety).  A ticket that is assigned to a game master can only be worked on by him: when another one closes it,
  comments on it, answers it or assigns it, every ticket stays as it was.
\<close>
theorem assigned_ticket_protected:
  assumes "GetGMTicket (atoi64 args) m = Some i" and "GetGMTicket (atoi64 tguid) m = Some i"
    and "strtok (CHR '' '') args = Some (tguid, rest)"
    and "tk_assignedToGM (ticket_at i m) \<noteq> 0" and "tk_assignedToGM (ticket_at i m) \<noteq> plr_GUID gm"
    and "cmd \<in> {CmdCloseById, CmdComment, CmdResponseAppend, CmdResponseAppendLn, CmdAssignTo}"
    and "ticket_command E gm args cmd m = Some (r, m')"
  shows "m_GMTicketList m' = m_GMTicketList m"
proof -
  have deny: "\<not> may_write gm (ticket_at i m)" using assms(4,5) by (simp add: may_write_def)
  have talk: "m_GMTicketList (sys_message n as m) = m_GMTicketList m" for n as by (simp add: only_talksD)
  from assms(6) consider "cmd = CmdCloseById" | "cmd = CmdComment" | "cmd = CmdResponseAppend" | "cmd = CmdResponseAppendLn"
    | "cmd = CmdAssignTo" by blast
  then show ?thesis
  proof cases
    case 1
    with assms talk show ?thesis
      by (auto simp: HandleGMTicketCloseByIdCommand_def Let_def split: if_splits)
  next
    case 2
    with assms talk deny show ?thesis
      by (auto simp: HandleGMTicketCommentCommand_def split: if_splits option.splits)
  next
    case 3
    with assms talk deny show ?thesis
      by (auto simp: HandleGMTicketResponseAppendCommand_def response_append_def split: if_splits option.splits)
  next
    case 4
    with assms talk deny show ?thesis
      by (auto simp: HandleGMTicketResponseAppendLnCommand_def response_append_def split: if_splits option.splits)
  next
    case 5
    with assms talk show ?thesis
      by (auto simp: HandleGMTicketAssignToCommand_def Let_def split: if_splits option.splits prod.splits)
  qed
qed

definition sample_assigned :: TicketMgr where
  "sample_assigned = set_ticket 0 (\<lambda>t. t\<lparr>tk_assignedToGM := 7, tk_escalated := 1\<rparr>) sample_loaded"

theorem assigned_ticket_protected_witness:
  "m_GMTicketList (snd (the (ticket_command sample_tk_env sample_gm ''1 done'' CmdComment sample_assigned))) = m_GMTicketList sample_assigned"
proof -
  have "case ticket_command sample_tk_env sample_gm ''1 done'' CmdComment sample_assigned of Some _ \<Rightarrow> True | None \<Rightarrow> False"
    by code_simp
  then obtain r m' where c: "ticket_command sample_tk_env sample_gm ''1 done'' CmdComment sample_assigned = Some (r, m')"
    by (auto split: option.splits)
  have g: "GetGMTicket (atoi64 ''1 done'') sample_assigned = Some 0" "GetGMTicket (atoi64 ''1'') sample_assigned = Some 0"
    "strtok (CHR '' '') ''1 done'' = Some (''1'', ''done'')" "tk_assignedToGM (ticket_at 0 sample_assigned) \<noteq> 0"
    "tk_assignedToGM (ticket_at 0 sample_assigned) \<noteq> plr_GUID sample_gm"
    by code_simp+
  show ?thesis unfolding c using assigned_ticket_protected [OF g _ c] by simp
qed

text \<open>
  C39 (type).  The escalation state of a ticket is always one of the four values of the enumeration and agrees with its
  assignment, if this holds in the table: an unassigned ticket has no game master, an assigned one has one.
\<close>
theorem escalation_states_consistent:
  assumes "ticket_reach codec resolving rows m" and "\<And>E r. r \<in> set rows \<Longrightarrow> escalation_ok (ticket_of_row E r)"
    and "t \<in> set (m_GMTicketList m)"
  shows "tk_escalated t \<in> {TICKET_UNASSIGNED, TICKET_ASSIGNED, TICKET_IN_ESCALATION_QUEUE, TICKET_ESCALATED_ASSIGNED} \<and>
    (tk_escalated t = TICKET_UNASSIGNED \<longrightarrow> tk_assignedToGM t = 0) \<and>
    (tk_escalated t \<in> {TICKET_ASSIGNED, TICKET_ESCALATED_ASSIGNED} \<longrightarrow> tk_assignedToGM t \<noteq> 0)"
proof -
  have "list_all escalation_ok (m_GMTicketList m)"
    using escalation_law.reach_law [OF assms(1)] assms(2) by (simp add: escalations_def list_all_iff)
  then have "escalation_ok t" using assms(3) by (simp add: list_all_iff)
  then show ?thesis by (simp add: escalation_ok_def)
qed

theorem escalation_states_consistent_witness:
  "tk_escalated (hd (m_GMTicketList sample_closed)) \<in> {0, 1, 2, 3}"
proof -
  have ok: "escalation_ok (ticket_of_row E r)" if "r \<in> set [sample_row]" for E r
    using that by (simp add: escalation_ok_def ticket_of_row_def sample_row_def)
  have "m_GMTicketList sample_closed \<noteq> []" using sample_list(4) by auto
  then have "hd (m_GMTicketList sample_closed) \<in> set (m_GMTicketList sample_closed)" by simp
  from escalation_states_consistent [OF sample_closed_reach [of True] ok this] show ?thesis by simp
qed

text \<open>
  No message and no command ever marks a ticket as completed: the command that is named after it only sends the answer.
\<close>
lemma nothing_completes:
  assumes "ticket_reach codec resolving rows m" and "ticket_step codec resolving m m'"
    and "t \<in> set (m_GMTicketList m')" and "tk_completed t"
  shows "\<exists>u \<in> set (m_GMTicketList m). tk_guid u = tk_guid t \<and> tk_completed u"
proof -
  have "ids_ok m" using open_law.reach_law [OF assms(1)] by simp
  from step_move [OF assms(2) this] show ?thesis
  proof (cases rule: move_shape)
    case (shut a x b u)
    then show ?thesis using assms(3,4) by auto
  qed (use assms(3,4) in \<open>auto simp: same_ticket_def\<close>)
qed

end
