(* ===== verification/Group_State.thy ===== *)
theory Group_State
  imports Game_World
begin

text \<open>
  Player groups (\<^verbatim>\<open>src/server/game/Groups/Group.cpp\<close> and \<^verbatim>\<open>.h\<close>).  Groups live on the heap: \<open>gs_groups\<close> maps the
  address of a group that was created and not yet deleted to its fields.  Players hold pointers to groups
  (invitation, group, original group) in \<open>gs_players\<close>, one entry per player object.  Following a pointer to a deleted
  group sets \<open>gs_uaf\<close>.  Packets, statements, script hooks and calls to the instance, visibility, achievement and inventory code
  are appended to \<open>gs_trace\<close>.  A player object always has its session.
\<close>

section \<open>Constants\<close>

definition SMSG_GROUP_LIST :: uint32 where "SMSG_GROUP_LIST = 0x6D8C"
definition SMSG_GROUP_SET_LEADER :: uint32 where "SMSG_GROUP_SET_LEADER = 0xE88C"
definition SMSG_GROUP_UNINVITE :: uint32 where "SMSG_GROUP_UNINVITE = 0x3ACC"
definition SMSG_GROUP_DESTROYED :: uint32 where "SMSG_GROUP_DESTROYED = 0x22CC"
definition MSG_RAID_TARGET_UPDATE :: uint32 where "MSG_RAID_TARGET_UPDATE = 0xA5AC"
definition MSG_RAID_READY_CHECK_CONFIRM :: uint32 where "MSG_RAID_READY_CHECK_CONFIRM = 0xA2AC"
definition SMSG_LOOT_ROLL :: uint32 where "SMSG_LOOT_ROLL = 0x66A8"
definition SMSG_LOOT_ROLL_WON :: uint32 where "SMSG_LOOT_ROLL_WON = 0x6280"
definition SMSG_LOOT_ALL_PASSED :: uint32 where "SMSG_LOOT_ALL_PASSED = 0x6AC4"
definition SMSG_LOOT_START_ROLL :: uint32 where "SMSG_LOOT_START_ROLL = 0xEB84"

definition HIGHGUID_GROUP :: uint64 where "HIGHGUID_GROUP = 0x1F50"

definition MAXGROUPSIZE :: nat where "MAXGROUPSIZE = 5"
definition MAXRAIDSIZE :: nat where "MAXRAIDSIZE = 40"
definition MAX_RAID_SUBGROUPS :: nat where "MAX_RAID_SUBGROUPS = MAXRAIDSIZE div MAXGROUPSIZE"
definition TARGETICONCOUNT :: nat where "TARGETICONCOUNT = 8"

definition GROUPTYPE_NORMAL :: uint8 where "GROUPTYPE_NORMAL = 0x00"
definition GROUPTYPE_RAID :: uint8 where "GROUPTYPE_RAID = 0x02"
definition GROUPTYPE_BGRAID :: uint8 where "GROUPTYPE_BGRAID = 0x03"
definition GROUPTYPE_UNK1 :: uint8 where "GROUPTYPE_UNK1 = 0x04"
definition GROUPTYPE_LFG :: uint8 where "GROUPTYPE_LFG = 0x08"

definition MEMBER_FLAG_ASSISTANT :: uint8 where "MEMBER_FLAG_ASSISTANT = 0x01"
definition MEMBER_FLAG_MAINTANK :: uint8 where "MEMBER_FLAG_MAINTANK = 0x02"
definition MEMBER_FLAG_MAINASSIST :: uint8 where "MEMBER_FLAG_MAINASSIST = 0x04"

definition MEMBER_STATUS_OFFLINE :: uint8 where "MEMBER_STATUS_OFFLINE = 0"
definition MEMBER_STATUS_ONLINE :: uint8 where "MEMBER_STATUS_ONLINE = 1"
definition MEMBER_STATUS_PVP :: uint8 where "MEMBER_STATUS_PVP = 2"

definition GROUP_UPDATE_FULL :: uint32 where "GROUP_UPDATE_FULL = 0x7FFFF"
definition LEVELREQUIREMENT_HEROIC :: uint8 where "LEVELREQUIREMENT_HEROIC = 70"

definition FREE_FOR_ALL :: uint32 where "FREE_FOR_ALL = 0"
definition MASTER_LOOT :: uint32 where "MASTER_LOOT = 2"
definition GROUP_LOOT :: uint32 where "GROUP_LOOT = 3"
definition NEED_BEFORE_GREED :: uint32 where "NEED_BEFORE_GREED = 4"
definition ITEM_QUALITY_UNCOMMON :: uint32 where "ITEM_QUALITY_UNCOMMON = 2"

section \<open>State\<close>

type_synonym group_ptr = nat
type_synonym loot_ptr = nat

datatype RollVote = PASS | NEED | GREED | DISENCHANT | NOT_EMITED_YET | NOT_VALID

fun vote_value :: "RollVote \<Rightarrow> uint8" where
  "vote_value PASS = 0"
| "vote_value NEED = 1"
| "vote_value GREED = 2"
| "vote_value DISENCHANT = 3"
| "vote_value NOT_EMITED_YET = 4"
| "vote_value NOT_VALID = 5"

text \<open>\<open>rl_loot\<close> is the target of the reference to the loot; it is cleared when the loot is.\<close>

record Roll =
  itemGUID :: uint64
  itemid :: uint32
  itemRandomPropId :: uint32
  itemRandomSuffix :: uint32
  itemCount :: uint8
  playerVote :: "(uint64, RollVote) smap"
  totalPlayersRolling :: uint8
  totalNeed :: uint8
  totalGreed :: uint8
  totalPass :: uint8
  itemSlot :: uint8
  rollVoteMask :: uint8
  rl_loot :: "loot_ptr option"

record LootItem =
  li_itemid :: uint32
  li_randomSuffix :: uint32
  li_randomPropertyId :: uint32
  li_allowedGUIDs :: "uint32 list"
  li_count :: uint8
  is_looted :: bool
  is_blocked :: bool
  freeforall :: bool
  is_underthreshold :: bool

record Loot =
  lt_items :: "LootItem list"
  unlootedCount :: uint8

text \<open>\<open>RequiredDisenchantSkill\<close> is signed and compared with an unsigned number: the field holds the converted value.\<close>

record ItemPrototype =
  ip_Quality :: uint32
  ip_Flags2 :: uint32
  ip_RequiredDisenchantSkill :: uint32
  ip_DisenchantID :: uint32

text \<open>What a loot lies in: its map and, for the timers, whether it is a creature or a game object.\<close>

datatype looted_kind = LootedCreature | LootedGameObject | LootedOther

record MemberSlot =
  ms_guid :: uint64
  ms_name :: string
  ms_group :: uint8
  ms_flags :: uint8
  ms_roles :: uint8

text \<open>
  A reference from a player to a group, as an element of the group's list of references: the player's \<open>m_group\<close>
  or his \<open>m_originalGroup\<close>.
\<close>

datatype ref_kind = GroupRef | OriginalRef

record Group =
  m_memberSlots :: "MemberSlot list"
  m_memberMgr :: "(uint64 \<times> ref_kind) list"
  m_invitees :: "uint64 list"
  m_leaderGuid :: uint64
  m_leaderName :: string
  m_groupType :: uint8
  m_dungeonDifficulty :: uint8
  m_raidDifficulty :: uint8
  m_bgGroup :: bool
  m_targetIcons :: "uint64 list"
  m_lootMethod :: uint32
  m_looterGuid :: uint64
  RollId :: "Roll list"
  m_lootThreshold :: uint32
  m_subGroupsCounts :: "uint8 list option"
  m_guid :: uint64
  m_counter :: uint32
  m_maxEnchantingLevel :: uint32

definition Group_new :: Group where
  "Group_new =
     \<lparr>m_memberSlots = [], m_memberMgr = [], m_invitees = [], m_leaderGuid = 0, m_leaderName = [],
      m_groupType = GROUPTYPE_NORMAL, m_dungeonDifficulty = 0, m_raidDifficulty = 0, m_bgGroup = False,
      m_targetIcons = replicate TARGETICONCOUNT 0, m_lootMethod = FREE_FOR_ALL, m_looterGuid = 0, RollId = [],
      m_lootThreshold = ITEM_QUALITY_UNCOMMON, m_subGroupsCounts = None, m_guid = 0, m_counter = 0,
      m_maxEnchantingLevel = 0\<rparr>"

text \<open>What a player object keeps for groups.  Unlinking a reference leaves its sub-group number.\<close>

record PlayerRefs =
  pr_groupInvite :: "group_ptr option"
  pr_group :: "group_ptr option"
  pr_subGroup :: uint8
  pr_originalGroup :: "group_ptr option"
  pr_originalSubGroup :: uint8
  pr_dungeonDifficulty :: uint8
  pr_raidDifficulty :: uint8
  pr_updateMask :: uint32
  pr_InstanceValid :: bool
  pr_passOnGroupLoot :: bool

definition PlayerRefs_new :: PlayerRefs where
  "PlayerRefs_new =
     \<lparr>pr_groupInvite = None, pr_group = None, pr_subGroup = 0, pr_originalGroup = None, pr_originalSubGroup = 0,
      pr_dungeonDifficulty = 0, pr_raidDifficulty = 0, pr_updateMask = 0, pr_InstanceValid = True,
      pr_passOnGroupLoot = False\<rparr>"

datatype RemoveMethod = GROUP_REMOVEMETHOD_DEFAULT | GROUP_REMOVEMETHOD_KICK | GROUP_REMOVEMETHOD_LEAVE

datatype group_sql =
    InsertMember uint32 uint32 uint8 uint8 uint8                \<comment> \<open>group, member, flags, sub-group, roles\<close>
  | InsertMemberShort uint32 uint32                             \<comment> \<open>group, member; sub-group 0\<close>
  | DeleteMember uint32                                         \<comment> \<open>by member\<close>
  | DeleteMembers uint32                                        \<comment> \<open>by group\<close>
  | DeleteMembersOr uint32 uint32                               \<comment> \<open>by group or member\<close>
  | UpdateMemberSubgroup uint8 uint32
  | UpdateMemberFlags uint8 uint32
  | DeleteGroup uint32
  | InsertGroup uint32 uint32 uint32 uint32 uint32 "uint64 list" uint8 uint8 uint8
  | UpdateGroupType uint8 uint32
  | UpdateLeader uint32 uint32
  | UpdateDifficulty uint8 uint32
  | UpdateRaidDifficulty uint8 uint32
  | DeletePermanentInstances uint32 uint32

datatype group_event =
    GroupPacket uint64 packet
  | GroupSql group_sql
  | OnGroupAddMember group_ptr uint64
  | OnGroupInviteMember group_ptr uint64
  | OnGroupRemoveMember group_ptr uint64 RemoveMethod uint64 "string option"
  | OnGroupChangeLeader group_ptr uint64 uint64
  | OnGroupDisband group_ptr
  | UpdateForQuestWorldObjects uint64
  | UpdateObjectVisibility uint64
  | ForceGroupValuesUpdate uint64
  | SendDungeonDifficulty uint64
  | SendRaidDifficulty uint64
  | PlayerResetInstances uint64 bool
  | GroupResetInstances group_ptr bool
  | RemovePermanentBinds group_ptr
  | ConvertInstancesToGroup group_ptr uint64
  | NotifyItemRemoved loot_ptr uint8
  | RollAchievement uint64 uint8 uint32 uint8
  | StoreNewItem uint64 uint32 uint32 "uint32 list option"
  | SendEquipError uint64 uint8 uint32
  | AutoStoreDisenchantLoot uint64 uint32
  | StartGroupLootTimer uint32 uint32
  | LfgUpdateRoleCheck uint64 uint64 uint32
  | GroupLogError
  | PacketException bb_error

record GroupState =
  gs_groups :: "group_ptr \<Rightarrow> Group option"
  gs_players :: "uint64 \<Rightarrow> PlayerRefs option"
  gs_next :: group_ptr
  gs_registry :: "group_ptr list"                                \<comment> \<open>\<open>ObjectMgr::mGroupSet\<close>\<close>
  gs_hiGroupGuid :: uint32
  gs_hiItemGuid :: uint32
  gs_loots :: "loot_ptr \<Rightarrow> Loot option"
  gs_loot_fault :: bool                                          \<comment> \<open>an item outside the loot, or no item prototype\<close>
  gs_draws :: nat
  gs_uaf :: bool
  gs_trace :: "group_event list"

text \<open>
  The environment: players in the world, social lists, what the code reads of players and of the dungeon
  finder, name lookups, configuration, and the random numbers (\<open>ge_urand n a b\<close> is the \<open>n\<close>-th draw from \<open>[a, b]\<close>).
\<close>

record group_env =
  ge_world :: World
  ge_socials :: SocialMap
  ge_enchanting :: "uint64 \<Rightarrow> uint32"
  ge_isGameMaster :: "uint64 \<Rightarrow> bool"
  ge_InstanceId :: "uint64 \<Rightarrow> uint32"
  ge_MapId :: "uint64 \<Rightarrow> uint32"
  ge_IsDungeon :: "uint32 \<Rightarrow> bool"
  ge_InBattleground :: "uint64 \<Rightarrow> bool"
  ge_isInCombat :: "uint64 \<Rightarrow> bool"
  ge_stats_packet :: "uint64 \<Rightarrow> packet"
  ge_in_sight :: "uint64 \<Rightarrow> uint64 \<Rightarrow> bool"
  ge_lfg_state :: "uint64 \<Rightarrow> uint32"
  ge_lfg_dungeon :: "uint64 \<Rightarrow> uint32"
  ge_lfg_kicks :: "uint64 \<Rightarrow> uint32"
  ge_lfg_votes :: "uint64 \<Rightarrow> nat"
  ge_normalizePlayerName :: "string \<Rightarrow> bool \<times> string"
  ge_GetPlayerGUIDByName :: "string \<Rightarrow> uint64"
  ge_CONFIG_ALLOW_GM_GROUP :: bool
  ge_CONFIG_ALLOW_TWO_SIDE_INTERACTION_GROUP :: bool
  ge_urand :: "nat \<Rightarrow> uint32 \<Rightarrow> uint32 \<Rightarrow> uint32"
  ge_CanStoreNewItem :: "uint64 \<Rightarrow> uint32 \<Rightarrow> uint8 \<Rightarrow> uint8"
  ge_ItemPrototype :: "uint32 \<Rightarrow> ItemPrototype option"
  ge_CanUseItem :: "uint64 \<Rightarrow> uint32 \<Rightarrow> uint8"
  ge_AllowedForPlayer :: "LootItem \<Rightarrow> uint64 \<Rightarrow> bool"

section \<open>The heap\<close>

definition ge_GetPlayer :: "group_env \<Rightarrow> uint64 \<Rightarrow> Player option" where
  "ge_GetPlayer E guid = FindPlayer (ge_world E) guid"

definition grp :: "GroupState \<Rightarrow> group_ptr \<Rightarrow> Group" where
  "grp s g = (case gs_groups s g of None \<Rightarrow> Group_new | Some x \<Rightarrow> x)"

definition upd_grp :: "group_ptr \<Rightarrow> (Group \<Rightarrow> Group) \<Rightarrow> GroupState \<Rightarrow> GroupState" where
  "upd_grp g f s = (case gs_groups s g of None \<Rightarrow> s | Some x \<Rightarrow> s\<lparr>gs_groups := (gs_groups s)(g := Some (f x))\<rparr>)"

definition refs :: "GroupState \<Rightarrow> uint64 \<Rightarrow> PlayerRefs" where
  "refs s p = (case gs_players s p of None \<Rightarrow> PlayerRefs_new | Some r \<Rightarrow> r)"

definition upd_refs :: "uint64 \<Rightarrow> (PlayerRefs \<Rightarrow> PlayerRefs) \<Rightarrow> GroupState \<Rightarrow> GroupState" where
  "upd_refs p f s = (case gs_players s p of None \<Rightarrow> s | Some r \<Rightarrow> s\<lparr>gs_players := (gs_players s)(p := Some (f r))\<rparr>)"

definition gs_emit :: "group_event list \<Rightarrow> GroupState \<Rightarrow> GroupState" where
  "gs_emit es s = s\<lparr>gs_trace := gs_trace s @ es\<rparr>"

text \<open>A pointer is followed: it must point to a group that was not deleted.\<close>

definition follow :: "group_ptr \<Rightarrow> GroupState \<Rightarrow> GroupState" where
  "follow g s = (if gs_groups s g = None then s\<lparr>gs_uaf := True\<rparr> else s)"

section \<open>References from players\<close>

definition ref_target :: "ref_kind \<Rightarrow> PlayerRefs \<Rightarrow> group_ptr option" where
  "ref_target k r = (case k of GroupRef \<Rightarrow> pr_group r | OriginalRef \<Rightarrow> pr_originalGroup r)"

definition set_target :: "ref_kind \<Rightarrow> group_ptr option \<Rightarrow> PlayerRefs \<Rightarrow> PlayerRefs" where
  "set_target k t r = (case k of GroupRef \<Rightarrow> r\<lparr>pr_group := t\<rparr> | OriginalRef \<Rightarrow> r\<lparr>pr_originalGroup := t\<rparr>)"

definition ref_subGroup :: "ref_kind \<Rightarrow> PlayerRefs \<Rightarrow> uint8" where
  "ref_subGroup k r = (case k of GroupRef \<Rightarrow> pr_subGroup r | OriginalRef \<Rightarrow> pr_originalSubGroup r)"

definition set_subGroup :: "ref_kind \<Rightarrow> uint8 \<Rightarrow> PlayerRefs \<Rightarrow> PlayerRefs" where
  "set_subGroup k n r = (case k of GroupRef \<Rightarrow> r\<lparr>pr_subGroup := n\<rparr> | OriginalRef \<Rightarrow> r\<lparr>pr_originalSubGroup := n\<rparr>)"

definition ref_unlink :: "ref_kind \<Rightarrow> uint64 \<Rightarrow> GroupState \<Rightarrow> GroupState" where
  "ref_unlink k p s =
     (case ref_target k (refs s p) of
        None \<Rightarrow> s
      | Some t \<Rightarrow>
          upd_refs p (set_target k None)
            (upd_grp t (\<lambda>x. x\<lparr>m_memberMgr := removeAll (p, k) (m_memberMgr x)\<rparr>) s))"

text \<open>\<open>link\<close> unlinks first; the target's list gets the reference at its head.\<close>

definition ref_link :: "ref_kind \<Rightarrow> group_ptr \<Rightarrow> uint64 \<Rightarrow> GroupState \<Rightarrow> GroupState" where
  "ref_link k g p s =
     upd_refs p (set_target k (Some g))
       (upd_grp g (\<lambda>x. x\<lparr>m_memberMgr := (p, k) # m_memberMgr x\<rparr>) (ref_unlink k p s))"

definition Player_SetGroup :: "uint64 \<Rightarrow> (group_ptr \<times> uint8) option \<Rightarrow> GroupState \<Rightarrow> GroupState" where
  "Player_SetGroup p t s =
     gs_emit [UpdateObjectVisibility p]
       (case t of
          None \<Rightarrow> ref_unlink GroupRef p s
        | Some (g, subgroup) \<Rightarrow> upd_refs p (set_subGroup GroupRef subgroup) (ref_link GroupRef g p s))"

definition Player_SetOriginalGroup :: "uint64 \<Rightarrow> (group_ptr \<times> uint8) option \<Rightarrow> GroupState \<Rightarrow> GroupState" where
  "Player_SetOriginalGroup p t s =
     (case t of
        None \<Rightarrow> ref_unlink OriginalRef p s
      | Some (g, subgroup) \<Rightarrow> upd_refs p (set_subGroup OriginalRef subgroup) (ref_link OriginalRef g p s))"

definition Player_SetBattlegroundRaid :: "uint64 \<Rightarrow> group_ptr \<Rightarrow> uint8 \<Rightarrow> GroupState \<Rightarrow> GroupState" where
  "Player_SetBattlegroundRaid p g subgroup s =
     (let s1 = Player_SetOriginalGroup p (map_option (\<lambda>t. (t, pr_subGroup (refs s p))) (pr_group (refs s p))) s
      in upd_refs p (set_subGroup GroupRef subgroup) (ref_link GroupRef g p (ref_unlink GroupRef p s1)))"

definition Player_RemoveFromBattlegroundRaid :: "uint64 \<Rightarrow> GroupState \<Rightarrow> GroupState" where
  "Player_RemoveFromBattlegroundRaid p s =
     (let s1 = ref_unlink GroupRef p s;
          s2 = (case pr_originalGroup (refs s1 p) of
                  None \<Rightarrow> s1
                | Some g \<Rightarrow> upd_refs p (set_subGroup GroupRef (pr_originalSubGroup (refs s1 p))) (ref_link GroupRef g p s1))
      in Player_SetOriginalGroup p None s2)"

text \<open>\<open>delete group\<close>: the list of references is destroyed and invalidates the references that are still in it.
  The pointers of a battleground to its raids and of instance saves to groups are not modelled.\<close>

definition Group_delete :: "group_ptr \<Rightarrow> GroupState \<Rightarrow> GroupState" where
  "Group_delete g s =
     (let s1 = foldr (\<lambda>(p, k). upd_refs p (set_target k None)) (m_memberMgr (grp s g)) s
      in s1\<lparr>gs_groups := (gs_groups s1)(g := None)\<rparr>)"

definition Group_alloc :: "GroupState \<Rightarrow> group_ptr \<times> GroupState" where
  "Group_alloc s = (gs_next s, s\<lparr>gs_groups := (gs_groups s)(gs_next s := Some Group_new), gs_next := Suc (gs_next s)\<rparr>)"

section \<open>Queries\<close>

definition Group_isRaidGroup :: "Group \<Rightarrow> bool" where
  "Group_isRaidGroup x \<longleftrightarrow> m_groupType x AND GROUPTYPE_RAID \<noteq> 0"

definition Group_isLFGGroup :: "Group \<Rightarrow> bool" where
  "Group_isLFGGroup x \<longleftrightarrow> m_groupType x AND GROUPTYPE_LFG \<noteq> 0"

definition Group_isBGGroup :: "Group \<Rightarrow> bool" where
  "Group_isBGGroup x \<longleftrightarrow> m_bgGroup x"

definition Group_GetMembersCount :: "Group \<Rightarrow> uint32" where
  "Group_GetMembersCount x = of_nat (length (m_memberSlots x))"

definition Group_IsCreated :: "Group \<Rightarrow> bool" where
  "Group_IsCreated x \<longleftrightarrow> Group_GetMembersCount x > 0"

definition Group_IsFull :: "Group \<Rightarrow> bool" where
  "Group_IsFull x =
     (if Group_isRaidGroup x then length (m_memberSlots x) \<ge> MAXRAIDSIZE else length (m_memberSlots x) \<ge> MAXGROUPSIZE)"

definition getMemberSlot :: "uint64 \<Rightarrow> Group \<Rightarrow> MemberSlot option" where
  "getMemberSlot guid x = find (\<lambda>m. ms_guid m = guid) (m_memberSlots x)"

definition Group_IsMember :: "uint64 \<Rightarrow> Group \<Rightarrow> bool" where
  "Group_IsMember guid x \<longleftrightarrow> getMemberSlot guid x \<noteq> None"

definition Group_IsLeader :: "uint64 \<Rightarrow> Group \<Rightarrow> bool" where
  "Group_IsLeader guid x \<longleftrightarrow> m_leaderGuid x = guid"

definition Group_IsAssistant :: "uint64 \<Rightarrow> Group \<Rightarrow> bool" where
  "Group_IsAssistant guid x =
     (case getMemberSlot guid x of None \<Rightarrow> False | Some m \<Rightarrow> ms_flags m AND MEMBER_FLAG_ASSISTANT \<noteq> 0)"

definition Group_GetMemberGUID :: "string \<Rightarrow> Group \<Rightarrow> uint64" where
  "Group_GetMemberGUID name x =
     (case find (\<lambda>m. ms_name m = name) (m_memberSlots x) of None \<Rightarrow> 0 | Some m \<Rightarrow> ms_guid m)"

definition Group_GetMemberGroup :: "uint64 \<Rightarrow> Group \<Rightarrow> uint8" where
  "Group_GetMemberGroup guid x =
     (case getMemberSlot guid x of None \<Rightarrow> of_nat (MAX_RAID_SUBGROUPS + 1) | Some m \<Rightarrow> ms_group m)"

definition Group_GetRoles :: "uint64 \<Rightarrow> Group \<Rightarrow> uint8" where
  "Group_GetRoles guid x = (case getMemberSlot guid x of None \<Rightarrow> 0 | Some m \<Rightarrow> ms_roles m)"

definition Group_HasFreeSlotSubGroup :: "uint8 \<Rightarrow> Group \<Rightarrow> bool" where
  "Group_HasFreeSlotSubGroup subgroup x =
     (case m_subGroupsCounts x of None \<Rightarrow> False | Some c \<Rightarrow> unat (c ! unat subgroup) < MAXGROUPSIZE)"

definition Group_SameSubGroup :: "uint64 \<Rightarrow> uint64 \<Rightarrow> Group \<Rightarrow> bool" where
  "Group_SameSubGroup guid1 guid2 x =
     (case getMemberSlot guid2 x of
        None \<Rightarrow> False
      | Some m2 \<Rightarrow> (case getMemberSlot guid1 x of None \<Rightarrow> False | Some m1 \<Rightarrow> ms_group m1 = ms_group m2))"

definition Group_GetInvited :: "uint64 \<Rightarrow> Group \<Rightarrow> uint64 option" where
  "Group_GetInvited guid x = find (\<lambda>p. p = guid) (m_invitees x)"

text \<open>The name of a player object, in the world or not.\<close>

definition player_name :: "group_env \<Rightarrow> uint64 \<Rightarrow> string" where
  "player_name E p = (case find (\<lambda>q. plr_GUID q = p) (w_players (ge_world E)) of None \<Rightarrow> [] | Some q \<Rightarrow> plr_Name q)"

definition Group_GetInvitedByName :: "group_env \<Rightarrow> string \<Rightarrow> Group \<Rightarrow> uint64 option" where
  "Group_GetInvitedByName E name x = find (\<lambda>p. player_name E p = name) (m_invitees x)"

section \<open>Sub-group counters and member slots\<close>

definition Group_SubGroupCounterIncrease :: "uint8 \<Rightarrow> Group \<Rightarrow> Group" where
  "Group_SubGroupCounterIncrease n x =
     (case m_subGroupsCounts x of
        None \<Rightarrow> x
      | Some c \<Rightarrow> x\<lparr>m_subGroupsCounts := Some (c[unat n := c ! unat n + 1])\<rparr>)"

definition Group_SubGroupCounterDecrease :: "uint8 \<Rightarrow> Group \<Rightarrow> Group" where
  "Group_SubGroupCounterDecrease n x =
     (case m_subGroupsCounts x of
        None \<Rightarrow> x
      | Some c \<Rightarrow> x\<lparr>m_subGroupsCounts := Some (c[unat n := c ! unat n - 1])\<rparr>)"

definition Group_initRaidSubGroupsCounter :: "Group \<Rightarrow> Group" where
  "Group_initRaidSubGroupsCounter x =
     x\<lparr>m_subGroupsCounts := Some (fold (\<lambda>m c. c[unat (ms_group m) := c ! unat (ms_group m) + 1])
        (m_memberSlots x) (replicate MAX_RAID_SUBGROUPS 0))\<rparr>"

text \<open>The first slot of a member is changed in place.\<close>

fun slot_update :: "uint64 \<Rightarrow> (MemberSlot \<Rightarrow> MemberSlot) \<Rightarrow> MemberSlot list \<Rightarrow> MemberSlot list" where
  "slot_update guid f [] = []"
| "slot_update guid f (m # ms) = (if ms_guid m = guid then f m # ms else m # slot_update guid f ms)"

fun slot_erase :: "uint64 \<Rightarrow> MemberSlot list \<Rightarrow> MemberSlot list" where
  "slot_erase guid [] = []"
| "slot_erase guid (m # ms) = (if ms_guid m = guid then ms else m # slot_erase guid ms)"

definition toggle_flag :: "uint8 \<Rightarrow> bool \<Rightarrow> MemberSlot \<Rightarrow> MemberSlot" where
  "toggle_flag flag on m = m\<lparr>ms_flags := (if on then ms_flags m OR flag else ms_flags m AND NOT flag)\<rparr>"

definition Group_ToggleGroupMemberFlag :: "uint64 \<Rightarrow> uint8 \<Rightarrow> bool \<Rightarrow> Group \<Rightarrow> Group" where
  "Group_ToggleGroupMemberFlag guid flag on x =
     x\<lparr>m_memberSlots := slot_update guid (toggle_flag flag on) (m_memberSlots x)\<rparr>"

definition Group_RemoveUniqueGroupMemberFlag :: "uint8 \<Rightarrow> Group \<Rightarrow> Group" where
  "Group_RemoveUniqueGroupMemberFlag flag x =
     x\<lparr>m_memberSlots := map (\<lambda>m. if ms_flags m AND flag \<noteq> 0 then toggle_flag flag False m else m) (m_memberSlots x)\<rparr>"

end
