(* ===== verification/Group_Rolls.thy ===== *)
theory Group_Rolls
  imports Group_State
begin

text \<open>
  Loot rolls of a group (\<^verbatim>\<open>Group.cpp\<close>, the section on the loot system): votes are counted, and when all have voted or the time is
  over the item goes to the voter with the highest random number, need before greed.
\<close>

section \<open>Packets\<close>

definition voters_packet :: "group_env \<Rightarrow> (RollVote \<Rightarrow> bool) \<Rightarrow> Roll \<Rightarrow> packet \<Rightarrow> group_event list" where
  "voters_packet E P r data =
     concat (map (\<lambda>(p, v). case ge_GetPlayer E p of None \<Rightarrow> [] | Some _ \<Rightarrow> if P v then [GroupPacket p data] else [])
       (playerVote r))"

definition Group_SendLootStartRoll :: "group_env \<Rightarrow> uint32 \<Rightarrow> uint32 \<Rightarrow> Roll \<Rightarrow> GroupState \<Rightarrow> GroupState" where
  "Group_SendLootStartRoll E CountDown mapid r =
     gs_emit (voters_packet E (\<lambda>v. v = NOT_EMITED_YET) r
       (Packet SMSG_LOOT_START_ROLL
         [U64 (itemGUID r), U32 mapid, U32 (ucast (totalPlayersRolling r)), U32 (itemid r), U32 (itemRandomSuffix r),
          U32 (itemRandomPropId r), U32 (ucast (itemCount r)), U32 CountDown, U8 (rollVoteMask r)]))"

definition Group_SendLootRoll ::
  "group_env \<Rightarrow> uint64 \<Rightarrow> uint64 \<Rightarrow> uint8 \<Rightarrow> uint8 \<Rightarrow> Roll \<Rightarrow> GroupState \<Rightarrow> GroupState" where
  "Group_SendLootRoll E SourceGuid TargetGuid RollNumber RollType r =
     gs_emit (voters_packet E (\<lambda>v. v \<noteq> NOT_VALID) r
       (Packet SMSG_LOOT_ROLL
         [U64 SourceGuid, U32 0, U64 TargetGuid, U32 (itemid r), U32 (itemRandomSuffix r), U32 (itemRandomPropId r),
          U8 RollNumber, U8 RollType, U8 0]))"

definition Group_SendLootRollWon ::
  "group_env \<Rightarrow> uint64 \<Rightarrow> uint64 \<Rightarrow> uint8 \<Rightarrow> uint8 \<Rightarrow> Roll \<Rightarrow> GroupState \<Rightarrow> GroupState" where
  "Group_SendLootRollWon E SourceGuid TargetGuid RollNumber RollType r =
     gs_emit (voters_packet E (\<lambda>v. v \<noteq> NOT_VALID) r
       (Packet SMSG_LOOT_ROLL_WON
         [U64 SourceGuid, U32 0, U32 (itemid r), U32 (itemRandomSuffix r), U32 (itemRandomPropId r), U64 TargetGuid,
          U8 RollNumber, U8 RollType]))"

definition Group_SendLootAllPassed :: "group_env \<Rightarrow> uint32 \<Rightarrow> Roll \<Rightarrow> GroupState \<Rightarrow> GroupState" where
  "Group_SendLootAllPassed E NumberOfPlayers r =
     gs_emit (voters_packet E (\<lambda>v. v \<noteq> NOT_VALID) r
       (Packet SMSG_LOOT_ALL_PASSED
         [U64 (itemGUID r), U32 NumberOfPlayers, U32 (itemid r), U32 (itemRandomPropId r), U32 (itemRandomSuffix r)]))"

section \<open>The items of a loot\<close>

text \<open>An access outside the vector is undefined.\<close>

definition loot_item :: "GroupState \<Rightarrow> loot_ptr \<Rightarrow> uint8 \<Rightarrow> LootItem option" where
  "loot_item s l slot =
     (case gs_loots s l of
        None \<Rightarrow> None
      | Some lt \<Rightarrow> if unat slot < length (lt_items lt) then Some (lt_items lt ! unat slot) else None)"

definition upd_item :: "loot_ptr \<Rightarrow> uint8 \<Rightarrow> (LootItem \<Rightarrow> LootItem) \<Rightarrow> GroupState \<Rightarrow> GroupState" where
  "upd_item l slot f s =
     (case gs_loots s l of
        None \<Rightarrow> s\<lparr>gs_loot_fault := True\<rparr>
      | Some lt \<Rightarrow>
          if unat slot < length (lt_items lt)
          then s\<lparr>gs_loots := (gs_loots s)(l := Some (lt\<lparr>lt_items := (lt_items lt)[unat slot := f (lt_items lt ! unat slot)]\<rparr>))\<rparr>
          else s\<lparr>gs_loot_fault := True\<rparr>)"

definition unlooted_dec :: "loot_ptr \<Rightarrow> GroupState \<Rightarrow> GroupState" where
  "unlooted_dec l s =
     (case gs_loots s l of
        None \<Rightarrow> s
      | Some lt \<Rightarrow> s\<lparr>gs_loots := (gs_loots s)(l := Some (lt\<lparr>unlootedCount := unlootedCount lt - 1\<rparr>))\<rparr>)"

definition roll_loot :: "Roll \<Rightarrow> loot_ptr" where
  "roll_loot r = (case rl_loot r of None \<Rightarrow> 0 | Some l \<Rightarrow> l)"

section \<open>Counting a roll\<close>

definition ROLL_PASS :: uint8 where "ROLL_PASS = 0"
definition ROLL_NEED :: uint8 where "ROLL_NEED = 1"
definition ROLL_GREED :: uint8 where "ROLL_GREED = 2"
definition ROLL_DISENCHANT :: uint8 where "ROLL_DISENCHANT = 3"
definition MAX_ROLL_TYPE :: uint8 where "MAX_ROLL_TYPE = 4"
definition EQUIP_ERR_OK :: uint8 where "EQUIP_ERR_OK = 0"
definition ACHIEVEMENT_CRITERIA_TYPE_ROLL_NEED_ON_LOOT :: uint8 where "ACHIEVEMENT_CRITERIA_TYPE_ROLL_NEED_ON_LOOT = 50"
definition ACHIEVEMENT_CRITERIA_TYPE_ROLL_GREED_ON_LOOT :: uint8 where "ACHIEVEMENT_CRITERIA_TYPE_ROLL_GREED_ON_LOOT = 51"

text \<open>
  The loop over the votes: every voter of the wanted kind draws a number, which all are told; the highest so far is
  kept, with the vote it belongs to.  The type in the packet is \<open>ROLL_NEED\<close> or the vote itself.
\<close>

fun roll_loop ::
  "group_env \<Rightarrow> (RollVote \<Rightarrow> bool) \<Rightarrow> Roll \<Rightarrow> (uint64 \<times> RollVote) list \<Rightarrow> uint64 \<times> uint8 \<times> RollVote \<Rightarrow> GroupState \<Rightarrow>
     (uint64 \<times> uint8 \<times> RollVote) \<times> GroupState" where
  "roll_loop E P r [] best s = (best, s)"
| "roll_loop E P r ((p, v) # votes) (maxguid, maxresul, rollvote) s =
     (if P v then
        let randomN = ucast (ge_urand E (gs_draws s) 1 100);
            s1 = Group_SendLootRoll E 0 p randomN (vote_value v) r (s\<lparr>gs_draws := Suc (gs_draws s)\<rparr>)
        in roll_loop E P r votes (if maxresul < randomN then (p, randomN, v) else (maxguid, maxresul, rollvote)) s1
      else roll_loop E P r votes (maxguid, maxresul, rollvote) s)"

text \<open>The winner gets the item, or an error and the item becomes free for all.\<close>

definition give_item :: "group_env \<Rightarrow> uint64 \<Rightarrow> Roll \<Rightarrow> GroupState \<Rightarrow> GroupState" where
  "give_item E p r s =
     (let l = roll_loot r in
      case loot_item s l (itemSlot r) of
        None \<Rightarrow> s\<lparr>gs_loot_fault := True\<rparr>
      | Some item \<Rightarrow>
          let msg = ge_CanStoreNewItem E p (itemid r) (li_count item)
          in if msg = EQUIP_ERR_OK
             then gs_emit [StoreNewItem p (itemid r) (li_randomPropertyId item)
                          (if length (li_allowedGUIDs item) > 1 then Some (li_allowedGUIDs item) else None)]
                    (unlooted_dec l (gs_emit [NotifyItemRemoved l (itemSlot r)]
                      (upd_item l (itemSlot r) (\<lambda>i. i\<lparr>is_looted := True\<rparr>) s)))
             else gs_emit [SendEquipError p msg (itemid r)]
                    (upd_item l (itemSlot r) (\<lambda>i. i\<lparr>is_blocked := False\<rparr>) s))"

definition disenchant_item :: "group_env \<Rightarrow> uint64 \<Rightarrow> Roll \<Rightarrow> GroupState \<Rightarrow> GroupState" where
  "disenchant_item E p r s =
     (let l = roll_loot r;
          s1 = unlooted_dec l (gs_emit [NotifyItemRemoved l (itemSlot r)]
                 (upd_item l (itemSlot r) (\<lambda>i. i\<lparr>is_looted := True\<rparr>) s))
      in case ge_ItemPrototype E (itemid r) of
           None \<Rightarrow> s1\<lparr>gs_loot_fault := True\<rparr>
         | Some pProto \<Rightarrow> gs_emit [AutoStoreDisenchantLoot p (ip_DisenchantID pProto)] s1)"

definition count_need :: "group_env \<Rightarrow> Roll \<Rightarrow> GroupState \<Rightarrow> GroupState" where
  "count_need E r s =
     (case playerVote r of
        [] \<Rightarrow> s
      | (first, _) # _ \<Rightarrow>
          let ((maxguid, maxresul, _), s1) = roll_loop E (\<lambda>v. v = NEED) r (playerVote r) (first, 0, NOT_VALID) s;
              s2 = Group_SendLootRollWon E 0 maxguid maxresul ROLL_NEED r s1
          in case ge_GetPlayer E maxguid of
               None \<Rightarrow> s2
             | Some _ \<Rightarrow>
                 give_item E maxguid r
                   (gs_emit [RollAchievement maxguid ACHIEVEMENT_CRITERIA_TYPE_ROLL_NEED_ON_LOOT (itemid r) maxresul] s2))"

definition count_greed :: "group_env \<Rightarrow> Roll \<Rightarrow> GroupState \<Rightarrow> GroupState" where
  "count_greed E r s =
     (case playerVote r of
        [] \<Rightarrow> s
      | (first, _) # _ \<Rightarrow>
          let ((maxguid, maxresul, rollvote), s1) =
                roll_loop E (\<lambda>v. v = GREED \<or> v = DISENCHANT) r (playerVote r) (first, 0, NOT_VALID) s;
              s2 = Group_SendLootRollWon E 0 maxguid maxresul (vote_value rollvote) r s1
          in case ge_GetPlayer E maxguid of
               None \<Rightarrow> s2
             | Some _ \<Rightarrow>
                 let s3 = gs_emit [RollAchievement maxguid ACHIEVEMENT_CRITERIA_TYPE_ROLL_GREED_ON_LOOT (itemid r) maxresul] s2
                 in if rollvote = GREED then give_item E maxguid r s3
                    else if rollvote = DISENCHANT then disenchant_item E maxguid r s3
                    else s3)"

definition erase_roll :: "group_ptr \<Rightarrow> nat \<Rightarrow> GroupState \<Rightarrow> GroupState" where
  "erase_roll g i s = upd_grp g (\<lambda>x. x\<lparr>RollId := take i (RollId x) @ drop (Suc i) (RollId x)\<rparr>) s"

definition Group_CountTheRoll :: "group_env \<Rightarrow> group_ptr \<Rightarrow> nat \<Rightarrow> uint32 \<Rightarrow> GroupState \<Rightarrow> GroupState" where
  "Group_CountTheRoll E g i NumberOfPlayers s =
     (let r = RollId (grp s g) ! i in
      erase_roll g i
        (if rl_loot r = None then s
         else if totalNeed r > 0 then count_need E r s
         else if totalGreed r > 0 then count_greed E r s
         else upd_item (roll_loot r) (itemSlot r) (\<lambda>i. i\<lparr>is_blocked := False\<rparr>)
                (Group_SendLootAllPassed E NumberOfPlayers r s)))"

section \<open>Votes\<close>

text \<open>\<open>GetRoll\<close> returns an iterator: an index of \<open>RollId\<close>.\<close>

definition Group_GetRoll :: "uint64 \<Rightarrow> Group \<Rightarrow> nat option" where
  "Group_GetRoll guid x =
     find (\<lambda>i. itemGUID (RollId x ! i) = guid \<and> rl_loot (RollId x ! i) \<noteq> None) [0..<length (RollId x)]"

definition upd_roll :: "group_ptr \<Rightarrow> nat \<Rightarrow> (Roll \<Rightarrow> Roll) \<Rightarrow> GroupState \<Rightarrow> GroupState" where
  "upd_roll g i f = upd_grp g (\<lambda>x. x\<lparr>RollId := (RollId x)[i := f (RollId x ! i)]\<rparr>)"

text \<open>The vote of one choice: the packet's number and type, and what is counted.\<close>

definition cast_vote :: "uint64 \<Rightarrow> uint8 \<Rightarrow> Roll \<Rightarrow> Roll" where
  "cast_vote p choice r =
     (if choice = ROLL_PASS then r\<lparr>totalPass := totalPass r + 1, playerVote := smap_put p PASS (playerVote r)\<rparr>
      else if choice = ROLL_NEED then r\<lparr>totalNeed := totalNeed r + 1, playerVote := smap_put p NEED (playerVote r)\<rparr>
      else if choice = ROLL_GREED then r\<lparr>totalGreed := totalGreed r + 1, playerVote := smap_put p GREED (playerVote r)\<rparr>
      else if choice = ROLL_DISENCHANT
      then r\<lparr>totalGreed := totalGreed r + 1, playerVote := smap_put p DISENCHANT (playerVote r)\<rparr>
      else r)"

definition send_vote :: "group_env \<Rightarrow> uint64 \<Rightarrow> uint8 \<Rightarrow> Roll \<Rightarrow> GroupState \<Rightarrow> GroupState" where
  "send_vote E p choice r s =
     (if choice = ROLL_PASS then Group_SendLootRoll E 0 p 128 ROLL_PASS r s
      else if choice = ROLL_NEED then Group_SendLootRoll E 0 p 0 0 r s
      else if choice = ROLL_GREED then Group_SendLootRoll E 0 p 128 ROLL_GREED r s
      else if choice = ROLL_DISENCHANT then Group_SendLootRoll E 0 p 128 ROLL_DISENCHANT r s
      else s)"

text \<open>The counters are promoted to \<open>int\<close> before they are added.\<close>

definition all_voted :: "Roll \<Rightarrow> bool" where
  "all_voted r \<longleftrightarrow> unat (totalPass r) + unat (totalNeed r) + unat (totalGreed r) \<ge> unat (totalPlayersRolling r)"

definition Group_CountRollVote ::
  "group_env \<Rightarrow> group_ptr \<Rightarrow> uint64 \<Rightarrow> uint64 \<Rightarrow> uint32 \<Rightarrow> uint8 \<Rightarrow> GroupState \<Rightarrow> GroupState" where
  "Group_CountRollVote E g playerGUID Guid NumberOfPlayers Choice s =
     (case Group_GetRoll Guid (grp s g) of
        None \<Rightarrow> s
      | Some i \<Rightarrow>
          let roll = RollId (grp s g) ! i in
          if smap_find (playerVote roll) playerGUID = None then s
          else if (case gs_loots s (roll_loot roll) of None \<Rightarrow> False | Some lt \<Rightarrow> lt_items lt = []) then s
          else
            let s1 = upd_roll g i (cast_vote playerGUID Choice) (send_vote E playerGUID Choice roll s)
            in if all_voted (cast_vote playerGUID Choice roll) then Group_CountTheRoll E g i NumberOfPlayers s1 else s1)"

lemma upd_item_groups [simp]: "gs_groups (upd_item l i f s) = gs_groups s"
  by (simp add: upd_item_def split: option.splits)

lemma roll_events_groups [simp]:
  "gs_groups (gs_emit es s) = gs_groups s" "gs_groups (unlooted_dec l s) = gs_groups s"
  "gs_groups (Group_SendLootRoll E a b c d r s) = gs_groups s"
  "gs_groups (Group_SendLootRollWon E a b c d r s) = gs_groups s"
  "gs_groups (Group_SendLootAllPassed E n r s) = gs_groups s"
  by (simp_all add: gs_emit_def unlooted_dec_def Group_SendLootRoll_def Group_SendLootRollWon_def
      Group_SendLootAllPassed_def split: option.splits)

lemma roll_loop_groups [simp]: "gs_groups (snd (roll_loop E P r vs best s)) = gs_groups s"
  by (induction E P r vs best s rule: roll_loop.induct) (simp_all add: Let_def)

lemma give_item_groups [simp]:
  "gs_groups (give_item E p r s) = gs_groups s" "gs_groups (disenchant_item E p r s) = gs_groups s"
  by (simp_all add: give_item_def disenchant_item_def Let_def split: option.split)

lemma count_groups [simp]: "gs_groups (count_need E r s) = gs_groups s" "gs_groups (count_greed E r s) = gs_groups s"
  by (simp_all add: count_need_def count_greed_def Let_def case_prod_unfold split: list.split option.split)

lemma CountTheRoll_groups:
  "gs_groups (Group_CountTheRoll E g i n s) = gs_groups (erase_roll g i s)"
  by (simp add: Group_CountTheRoll_def erase_roll_def upd_grp_def Let_def split: option.split)

lemma CountTheRoll_shortens:
  "i < length (RollId (grp s g)) \<Longrightarrow>
   length (RollId (grp (Group_CountTheRoll E g i n s) g)) < length (RollId (grp s g))"
  by (auto simp: grp_def CountTheRoll_groups erase_roll_def upd_grp_def Group_new_def split: option.splits)

text \<open>
  The time is over for one loot.  The source starts again from the first roll after every roll it has counted, and counting
  erases the roll.
\<close>

function Group_EndRoll_from :: "group_env \<Rightarrow> group_ptr \<Rightarrow> loot_ptr \<Rightarrow> nat \<Rightarrow> GroupState \<Rightarrow> GroupState" where
  "Group_EndRoll_from E g l i s =
     (if i < length (RollId (grp s g))
      then if rl_loot (RollId (grp s g) ! i) = Some l
           then Group_EndRoll_from E g l 0 (Group_CountTheRoll E g i (of_nat (length (m_memberSlots (grp s g)))) s)
           else Group_EndRoll_from E g l (Suc i) s
      else s)"
  by pat_completeness auto

termination Group_EndRoll_from
  by (relation "measures [\<lambda>(E, g, l, i, s). length (RollId (grp s g)), \<lambda>(E, g, l, i, s). length (RollId (grp s g)) - i]")
    (auto simp: CountTheRoll_shortens)

declare Group_EndRoll_from.simps [simp del]

definition Group_EndRoll :: "group_env \<Rightarrow> group_ptr \<Rightarrow> loot_ptr \<Rightarrow> GroupState \<Rightarrow> GroupState" where
  "Group_EndRoll E g l s = Group_EndRoll_from E g l 0 s"

section \<open>Starting rolls\<close>

definition HIGHGUID_ITEM :: uint64 where "HIGHGUID_ITEM = 0x4000"
definition ROLL_FLAG_TYPE_NEED :: uint8 where "ROLL_FLAG_TYPE_NEED = 0x02"
definition ROLL_FLAG_TYPE_DISENCHANT :: uint8 where "ROLL_FLAG_TYPE_DISENCHANT = 0x08"
definition ROLL_ALL_TYPE_NO_DISENCHANT :: uint8 where "ROLL_ALL_TYPE_NO_DISENCHANT = 0x07"
definition ITEM_FLAGS_EXTRA_NEED_ROLL_DISABLED :: uint32 where "ITEM_FLAGS_EXTRA_NEED_ROLL_DISABLED = 0x100"

definition Roll_new :: "uint64 \<Rightarrow> LootItem \<Rightarrow> Roll" where
  "Roll_new guid li =
     \<lparr>itemGUID = guid, itemid = li_itemid li, itemRandomPropId = li_randomPropertyId li,
      itemRandomSuffix = li_randomSuffix li, itemCount = li_count li, playerVote = [], totalPlayersRolling = 0, totalNeed = 0,
      totalGreed = 0, totalPass = 0, itemSlot = 0, rollVoteMask = ROLL_ALL_TYPE_NO_DISENCHANT, rl_loot = None\<rparr>"

text \<open>At the last number the source also asks the world to stop.\<close>

definition GenerateLowGuid_item :: "GroupState \<Rightarrow> uint32 \<times> GroupState" where
  "GenerateLowGuid_item s = (gs_hiItemGuid s, s\<lparr>gs_hiItemGuid := gs_hiItemGuid s + 1\<rparr>)"

text \<open>One member who may roll; whoever passes on all loot has voted at once.\<close>

definition enter_roll :: "(uint64 \<Rightarrow> bool) \<Rightarrow> (uint64 \<Rightarrow> bool) \<Rightarrow> uint64 \<Rightarrow> Roll \<Rightarrow> Roll" where
  "enter_roll may_roll passes p r =
     (if \<not> may_roll p then r
      else if passes p
      then r\<lparr>totalPlayersRolling := totalPlayersRolling r + 1, playerVote := smap_put p PASS (playerVote r),
             totalPass := totalPass r + 1\<rparr>
      else r\<lparr>totalPlayersRolling := totalPlayersRolling r + 1, playerVote := smap_put p NOT_EMITED_YET (playerVote r)\<rparr>)"

definition roll_mask :: "bool \<Rightarrow> uint32 \<Rightarrow> ItemPrototype \<Rightarrow> uint8 \<Rightarrow> uint8" where
  "roll_mask nbg skill item vmask =
     (let m = (if ip_DisenchantID item \<noteq> 0 \<and> skill \<ge> ip_RequiredDisenchantSkill item
               then vmask OR ROLL_FLAG_TYPE_DISENCHANT else vmask)
      in if nbg \<and> ip_Flags2 item AND ITEM_FLAGS_EXTRA_NEED_ROLL_DISABLED \<noteq> 0 then m AND NOT ROLL_FLAG_TYPE_NEED else m)"

definition pass_packets :: "group_env \<Rightarrow> Roll \<Rightarrow> GroupState \<Rightarrow> GroupState" where
  "pass_packets E r s =
     fold (\<lambda>(p, v) s. case ge_GetPlayer E p of
             None \<Rightarrow> s
           | Some _ \<Rightarrow> if v = PASS then Group_SendLootRoll E (itemGUID r) p 128 ROLL_PASS r s else s) (playerVote r) s"

text \<open>
  The roll for one item over the threshold.  \<open>nbg\<close> is set for need before greed, which asks in addition that the member can use
  the item, lets an item forbid need, and starts the timer of a creature only.
\<close>

definition start_timer :: "bool \<Rightarrow> looted_kind \<Rightarrow> Group \<Rightarrow> GroupState \<Rightarrow> GroupState" where
  "start_timer nbg kind x s =
     (if kind = LootedCreature \<or> kind = LootedGameObject \<and> \<not> nbg
      then gs_emit [StartGroupLootTimer 60000 (GUID_LOPART (m_guid x))] s else s)"

definition start_roll ::
  "group_env \<Rightarrow> bool \<Rightarrow> (uint64 \<Rightarrow> bool) \<Rightarrow> uint32 \<Rightarrow> looted_kind \<Rightarrow> group_ptr \<Rightarrow> loot_ptr \<Rightarrow> uint8 \<Rightarrow> LootItem \<Rightarrow>
     ItemPrototype \<Rightarrow> GroupState \<Rightarrow> GroupState" where
  "start_roll E nbg near mapid kind g l slot li item s =
     (let (low, s1) = GenerateLowGuid_item s;
          x = grp s1 g;
          may_roll = (\<lambda>p. ge_AllowedForPlayer E li p \<and> near p \<and> (nbg \<longrightarrow> ge_CanUseItem E p (li_itemid li) = EQUIP_ERR_OK));
          r0 = fold (enter_roll may_roll (\<lambda>p. pr_passOnGroupLoot (refs s1 p))) (map fst (m_memberMgr x))
                 (Roll_new (MAKE_NEW_GUID (ucast low) 0 HIGHGUID_ITEM) li)
      in if totalPlayersRolling r0 > 0 then
           let r = r0\<lparr>rl_loot := Some l, itemSlot := slot,
                      rollVoteMask := roll_mask nbg (m_maxEnchantingLevel x) item (rollVoteMask r0)\<rparr>;
               s2 = upd_item l slot (\<lambda>i. i\<lparr>is_blocked := True\<rparr>) s1;
               s3 = (if totalPass r \<noteq> 0 then pass_packets E r s2 else s2);
               s4 = upd_grp g (\<lambda>x. x\<lparr>RollId := RollId x @ [r]\<rparr>) (Group_SendLootStartRoll E 60000 mapid r s3)
           in start_timer nbg kind x s4
         else s1)"

definition roll_item ::
  "group_env \<Rightarrow> bool \<Rightarrow> (uint64 \<Rightarrow> bool) \<Rightarrow> uint32 \<Rightarrow> looted_kind \<Rightarrow> group_ptr \<Rightarrow> loot_ptr \<Rightarrow> uint8 \<Rightarrow> GroupState \<Rightarrow> GroupState" where
  "roll_item E nbg near mapid kind g l slot s =
     (case loot_item s l slot of
        None \<Rightarrow> s\<lparr>gs_loot_fault := True\<rparr>
      | Some li \<Rightarrow>
          if freeforall li then s
          else case ge_ItemPrototype E (li_itemid li) of
                 None \<Rightarrow> if nbg then s\<lparr>gs_loot_fault := True\<rparr> else s
               | Some item \<Rightarrow>
                   if ip_Quality item \<ge> m_lootThreshold (grp s g) then start_roll E nbg near mapid kind g l slot li item s
                   else upd_item l slot (\<lambda>i. i\<lparr>is_underthreshold := True\<rparr>) s)"

definition loot_slots :: "GroupState \<Rightarrow> loot_ptr \<Rightarrow> uint8 list" where
  "loot_slots s l = (case gs_loots s l of None \<Rightarrow> [] | Some lt \<Rightarrow> map of_nat [0..<length (lt_items lt)])"

definition Group_GroupLoot ::
  "group_env \<Rightarrow> (uint64 \<Rightarrow> bool) \<Rightarrow> uint32 \<Rightarrow> looted_kind \<Rightarrow> group_ptr \<Rightarrow> loot_ptr \<Rightarrow> GroupState \<Rightarrow> GroupState" where
  "Group_GroupLoot E near mapid kind g l s = fold (roll_item E False near mapid kind g l) (loot_slots s l) s"

definition Group_NeedBeforeGreed ::
  "group_env \<Rightarrow> (uint64 \<Rightarrow> bool) \<Rightarrow> uint32 \<Rightarrow> looted_kind \<Rightarrow> group_ptr \<Rightarrow> loot_ptr \<Rightarrow> GroupState \<Rightarrow> GroupState" where
  "Group_NeedBeforeGreed E near mapid kind g l s = fold (roll_item E True near mapid kind g l) (loot_slots s l) s"

text \<open>\<open>Loot::clear\<close> empties the loot and invalidates the references of the rolls for it.\<close>

definition Loot_clear :: "loot_ptr \<Rightarrow> GroupState \<Rightarrow> GroupState" where
  "Loot_clear l s =
     s\<lparr>gs_loots := (case gs_loots s l of
          None \<Rightarrow> gs_loots s | Some lt \<Rightarrow> (gs_loots s)(l := Some (lt\<lparr>lt_items := [], unlootedCount := 0\<rparr>))),
       gs_groups := (\<lambda>g. map_option (\<lambda>x. x\<lparr>RollId :=
          map (\<lambda>r. if rl_loot r = Some l then r\<lparr>rl_loot := None\<rparr> else r) (RollId x)\<rparr>) (gs_groups s g))\<rparr>"

section \<open>A member leaves\<close>

definition withdraw_vote :: "uint64 \<Rightarrow> Roll \<Rightarrow> Roll" where
  "withdraw_vote guid r =
     (case smap_find (playerVote r) guid of
        None \<Rightarrow> r
      | Some v \<Rightarrow>
          let r1 = (if v = GREED \<or> v = DISENCHANT then r\<lparr>totalGreed := totalGreed r - 1\<rparr>
                    else if v = NEED then r\<lparr>totalNeed := totalNeed r - 1\<rparr>
                    else if v = PASS then r\<lparr>totalPass := totalPass r - 1\<rparr> else r);
              r2 = (if v \<noteq> NOT_VALID then r1\<lparr>totalPlayersRolling := totalPlayersRolling r1 - 1\<rparr> else r1)
          in r2\<lparr>playerVote := smap_erase guid (playerVote r2)\<rparr>)"

definition Group_removeRoll :: "group_env \<Rightarrow> group_ptr \<Rightarrow> uint64 \<Rightarrow> nat \<Rightarrow> GroupState \<Rightarrow> GroupState" where
  "Group_removeRoll E g guid i s =
     (if i < length (RollId (grp s g)) then
        let roll = RollId (grp s g) ! i in
        if smap_find (playerVote roll) guid = None then s
        else Group_CountRollVote E g guid (itemGUID roll) (of_nat (length (m_memberSlots (grp s g))) - 1) MAX_ROLL_TYPE
               (upd_roll g i (withdraw_vote guid) s)
      else s)"

definition Group_removeRolls :: "group_env \<Rightarrow> group_ptr \<Rightarrow> uint64 \<Rightarrow> GroupState \<Rightarrow> GroupState" where
  "Group_removeRolls E g guid s = fold (Group_removeRoll E g guid) [0..<length (RollId (grp s g))] s"

end
