(* ===== verification/Group_Ops.thy ===== *)
theory Group_Ops
  imports Group_Rolls
begin

text \<open>
  The operations of a group (\<^verbatim>\<open>src/server/game/Groups/Group.cpp\<close>): each is a function of the environment, the address of the
  subgroup, its arguments and the state.
\<close>

section \<open>Sending\<close>

definition LFG_STATE_BOOT :: uint32 where "LFG_STATE_BOOT = 4"
definition LFG_STATE_FINISHED_DUNGEON :: uint32 where "LFG_STATE_FINISHED_DUNGEON = 6"

definition other_member_fields :: "group_env \<Rightarrow> Group \<Rightarrow> MemberSlot \<Rightarrow> field list" where
  "other_member_fields E x m =
     [Str (ms_name m), U64 (ms_guid m),
      U8 ((if ge_GetPlayer E (ms_guid m) \<noteq> None then MEMBER_STATUS_ONLINE else MEMBER_STATUS_OFFLINE) OR
          (if Group_isBGGroup x then MEMBER_STATUS_PVP else 0)),
      U8 (ms_group m), U8 (ms_flags m), U8 (ms_roles m)]"

definition group_list_packet :: "group_env \<Rightarrow> Group \<Rightarrow> MemberSlot \<Rightarrow> packet" where
  "group_list_packet E x m =
     Packet SMSG_GROUP_LIST
       ([U8 (m_groupType x), U8 (ms_group m), U8 (ms_flags m), U8 (ms_roles m)] @
        (if Group_isLFGGroup x
         then [U8 (if ge_lfg_state E (m_guid x) = LFG_STATE_FINISHED_DUNGEON then 2 else 0), U32 (ge_lfg_dungeon E (m_guid x))]
         else []) @
        [U64 (m_guid x), U32 (m_counter x), U32 (Group_GetMembersCount x - 1)] @
        concat (map (\<lambda>m2. if ms_guid m = ms_guid m2 then [] else other_member_fields E x m2) (m_memberSlots x)) @
        [U64 (m_leaderGuid x)] @
        (if Group_GetMembersCount x - 1 \<noteq> 0
         then [U8 (ucast (m_lootMethod x)), U64 (m_looterGuid x), U8 (ucast (m_lootThreshold x)),
               U8 (m_dungeonDifficulty x), U8 (m_raidDifficulty x)]
         else []))"

text \<open>Every packet that is sent increases \<open>m_counter\<close>.\<close>

definition send_update_to :: "group_env \<Rightarrow> group_ptr \<Rightarrow> MemberSlot \<Rightarrow> GroupState \<Rightarrow> GroupState" where
  "send_update_to E g m s =
     (case ge_GetPlayer E (ms_guid m) of
        None \<Rightarrow> s
      | Some _ \<Rightarrow>
          if pr_group (refs s (ms_guid m)) \<noteq> Some g then s
          else gs_emit [GroupPacket (ms_guid m) (group_list_packet E (grp s g) m)]
                 (upd_grp g (\<lambda>x. x\<lparr>m_counter := m_counter x + 1\<rparr>) s))"

definition Group_SendUpdate :: "group_env \<Rightarrow> group_ptr \<Rightarrow> GroupState \<Rightarrow> GroupState" where
  "Group_SendUpdate E g s = fold (send_update_to E g) (m_memberSlots (grp s g)) s"

definition Group_UpdatePlayerOutOfRange :: "group_env \<Rightarrow> group_ptr \<Rightarrow> uint64 \<Rightarrow> GroupState \<Rightarrow> GroupState" where
  "Group_UpdatePlayerOutOfRange E g p s =
     (case ge_GetPlayer E p of
        None \<Rightarrow> s
      | Some _ \<Rightarrow>
          gs_emit (map (\<lambda>q. GroupPacket q (ge_stats_packet E p))
            (filter (\<lambda>q. \<not> ge_in_sight E q p) (map fst (m_memberMgr (grp s g))))) s)"

definition Group_BroadcastPacket :: "packet \<Rightarrow> bool \<Rightarrow> uint8 option \<Rightarrow> uint64 \<Rightarrow> group_ptr \<Rightarrow> GroupState \<Rightarrow> GroupState" where
  "Group_BroadcastPacket data ignorePlayersInBGRaid subgroup ignore g s =
     gs_emit (concat (map (\<lambda>(p, k).
       if ignore \<noteq> 0 \<and> p = ignore \<or> ignorePlayersInBGRaid \<and> pr_group (refs s p) \<noteq> Some g then []
       else if subgroup = None \<or> subgroup = Some (ref_subGroup k (refs s p)) then [GroupPacket p data] else [])
       (m_memberMgr (grp s g)))) s"

definition Group_BroadcastReadyCheck :: "packet \<Rightarrow> group_ptr \<Rightarrow> GroupState \<Rightarrow> GroupState" where
  "Group_BroadcastReadyCheck data g s =
     gs_emit (map (\<lambda>p. GroupPacket p data)
       (filter (\<lambda>p. Group_IsLeader p (grp s g) \<or> Group_IsAssistant p (grp s g)) (map fst (m_memberMgr (grp s g))))) s"

definition Group_OfflineReadyCheck :: "group_env \<Rightarrow> group_ptr \<Rightarrow> GroupState \<Rightarrow> GroupState" where
  "Group_OfflineReadyCheck E g s =
     fold (\<lambda>m s. if ge_GetPlayer E (ms_guid m) = None
                 then Group_BroadcastReadyCheck (Packet MSG_RAID_READY_CHECK_CONFIRM [U64 (ms_guid m), U8 0]) g s else s)
       (m_memberSlots (grp s g)) s"

definition Group_BroadcastGroupUpdate :: "group_env \<Rightarrow> group_ptr \<Rightarrow> GroupState \<Rightarrow> GroupState" where
  "Group_BroadcastGroupUpdate E g s =
     gs_emit (map (\<lambda>m. ForceGroupValuesUpdate (ms_guid m))
       (filter (\<lambda>m. ge_GetPlayer E (ms_guid m) \<noteq> None) (m_memberSlots (grp s g)))) s"

section \<open>Invitations\<close>

definition Group_RemoveInvite :: "group_ptr \<Rightarrow> uint64 \<Rightarrow> GroupState \<Rightarrow> GroupState" where
  "Group_RemoveInvite g p s =
     upd_refs p (\<lambda>r. r\<lparr>pr_groupInvite := None\<rparr>) (upd_grp g (\<lambda>x. x\<lparr>m_invitees := removeAll p (m_invitees x)\<rparr>) s)"

definition Group_RemoveAllInvites :: "group_ptr \<Rightarrow> GroupState \<Rightarrow> GroupState" where
  "Group_RemoveAllInvites g s =
     upd_grp g (\<lambda>x. x\<lparr>m_invitees := []\<rparr>)
       (fold (\<lambda>p. upd_refs p (\<lambda>r. r\<lparr>pr_groupInvite := None\<rparr>)) (m_invitees (grp s g)) s)"

text \<open>A player's group, or his original group when he is in a battleground raid.\<close>

definition normal_group :: "uint64 \<Rightarrow> GroupState \<Rightarrow> group_ptr option \<times> GroupState" where
  "normal_group p s =
     (case pr_group (refs s p) of
        None \<Rightarrow> (None, s)
      | Some t \<Rightarrow> (if Group_isBGGroup (grp s t) then pr_originalGroup (refs s p) else Some t, follow t s))"

definition Group_AddInvite :: "group_ptr \<Rightarrow> uint64 \<Rightarrow> GroupState \<Rightarrow> bool \<times> GroupState" where
  "Group_AddInvite g p s =
     (if pr_groupInvite (refs s p) \<noteq> None then (False, s)
      else
        let (t, s1) = normal_group p s in
        if t \<noteq> None then (False, s1)
        else
          (True, gs_emit [OnGroupInviteMember g p]
             (upd_refs p (\<lambda>r. r\<lparr>pr_groupInvite := Some g\<rparr>)
               (upd_grp g (\<lambda>x. x\<lparr>m_invitees := p # m_invitees x\<rparr>) (Group_RemoveInvite g p s1)))))"

definition Group_AddLeaderInvite :: "group_ptr \<Rightarrow> Player \<Rightarrow> GroupState \<Rightarrow> bool \<times> GroupState" where
  "Group_AddLeaderInvite g player s =
     (let (ok, s1) = Group_AddInvite g (plr_GUID player) s in
      if \<not> ok then (False, s1)
      else (True, upd_grp g (\<lambda>x. x\<lparr>m_leaderGuid := plr_GUID player, m_leaderName := plr_Name player\<rparr>) s1))"

section \<open>Members\<close>

definition find_subgroup :: "uint8 list \<Rightarrow> nat option" where
  "find_subgroup c = find (\<lambda>i. unat (c ! i) < MAXGROUPSIZE) [0..<MAX_RAID_SUBGROUPS]"

text \<open>
  \<open>_addMember(guid, name, group)\<close>.  \<open>GetBoundInstance(player)\<close> always returns \<open>NULL\<close>, so a new member's instance is
  never marked valid here.
\<close>

definition Group_addMemberTo :: "group_env \<Rightarrow> group_ptr \<Rightarrow> uint64 \<Rightarrow> string \<Rightarrow> uint8 \<Rightarrow> GroupState \<Rightarrow> bool \<times> GroupState" where
  "Group_addMemberTo E g guid name subgroup s =
     (if Group_IsFull (grp s g) then (False, s)
      else if guid = 0 then (False, s)
      else
        let m = \<lparr>ms_guid = guid, ms_name = name, ms_group = subgroup, ms_flags = 0, ms_roles = 0\<rparr>;
            s1 = upd_grp g (\<lambda>x. Group_SubGroupCounterIncrease subgroup (x\<lparr>m_memberSlots := m_memberSlots x @ [m]\<rparr>)) s;
            s2 = (case ge_GetPlayer E guid of
                    None \<Rightarrow> s1
                  | Some _ \<Rightarrow>
                      let s1 = upd_refs guid (\<lambda>r. r\<lparr>pr_groupInvite := None\<rparr>) s1 in
                      if pr_group (refs s1 guid) \<noteq> None \<and> Group_isBGGroup (grp s1 g)
                      then Player_SetBattlegroundRaid guid g subgroup s1
                      else if pr_group (refs s1 guid) \<noteq> None then Player_SetOriginalGroup guid (Some (g, subgroup)) s1
                      else Player_SetGroup guid (Some (g, subgroup)) s1);
            s3 = (if Group_isRaidGroup (grp s2 g) then s2
                  else upd_grp g (\<lambda>x. x\<lparr>m_targetIcons := replicate TARGETICONCOUNT 0\<rparr>) s2)
        in (True, if Group_isBGGroup (grp s3 g) then s3
                  else gs_emit [GroupSql (InsertMember (GUID_LOPART (m_guid (grp s3 g))) (GUID_LOPART guid) 0 subgroup 0)] s3))"

definition Group_addMember :: "group_env \<Rightarrow> group_ptr \<Rightarrow> uint64 \<Rightarrow> string \<Rightarrow> GroupState \<Rightarrow> bool \<times> GroupState" where
  "Group_addMember E g guid name s =
     (case m_subGroupsCounts (grp s g) of
        None \<Rightarrow> Group_addMemberTo E g guid name 0 s
      | Some c \<Rightarrow>
          (case find_subgroup c of
             None \<Rightarrow> (False, s)
           | Some groupid \<Rightarrow> Group_addMemberTo E g guid name (of_nat groupid) s))"

text \<open>What \<open>AddMember\<close> does for a player in the world after he was added.\<close>

definition welcome_member :: "group_env \<Rightarrow> group_ptr \<Rightarrow> Player \<Rightarrow> GroupState \<Rightarrow> GroupState" where
  "welcome_member E g player s =
     (let p = plr_GUID player;
          s1 = (if Group_IsLeader p (grp s g) \<or> Group_isBGGroup (grp s g) then s
                else
                  let s = gs_emit [PlayerResetInstances p False, PlayerResetInstances p True] s in
                  if plr_Level player < LEVELREQUIREMENT_HEROIC then s
                  else
                    let d = m_dungeonDifficulty (grp s g); rd = m_raidDifficulty (grp s g);
                        s = (if pr_dungeonDifficulty (refs s p) \<noteq> d
                             then gs_emit [SendDungeonDifficulty p] (upd_refs p (\<lambda>r. r\<lparr>pr_dungeonDifficulty := d\<rparr>) s) else s)
                    in if pr_raidDifficulty (refs s p) \<noteq> rd
                       then gs_emit [SendRaidDifficulty p] (upd_refs p (\<lambda>r. r\<lparr>pr_raidDifficulty := rd\<rparr>) s) else s);
          s2 = Group_UpdatePlayerOutOfRange E g p
                 (upd_refs p (\<lambda>r. r\<lparr>pr_updateMask := pr_updateMask r OR GROUP_UPDATE_FULL\<rparr>) s1);
          s3 = (if Group_isRaidGroup (grp s2 g) then gs_emit [UpdateForQuestWorldObjects p] s2 else s2)
      in if m_maxEnchantingLevel (grp s3 g) < ge_enchanting E p
         then upd_grp g (\<lambda>x. x\<lparr>m_maxEnchantingLevel := ge_enchanting E p\<rparr>) s3 else s3)"

definition Group_AddMember :: "group_env \<Rightarrow> group_ptr \<Rightarrow> uint64 \<Rightarrow> string \<Rightarrow> GroupState \<Rightarrow> bool \<times> GroupState" where
  "Group_AddMember E g guid name s =
     (let (ok, s1) = Group_addMember E g guid name s in
      if \<not> ok then (False, s1)
      else
        let s2 = gs_emit [OnGroupAddMember g guid] (Group_SendUpdate E g s1)
        in (True, case ge_GetPlayer E guid of None \<Rightarrow> s2 | Some player \<Rightarrow> welcome_member E g player s2))"

definition Group_ResetMaxEnchantingLevel :: "group_env \<Rightarrow> group_ptr \<Rightarrow> GroupState \<Rightarrow> GroupState" where
  "Group_ResetMaxEnchantingLevel E g =
     upd_grp g (\<lambda>x. x\<lparr>m_maxEnchantingLevel :=
       fold (\<lambda>m a. case ge_GetPlayer E (ms_guid m) of
                None \<Rightarrow> a
              | Some _ \<Rightarrow> if a < ge_enchanting E (ms_guid m) then ge_enchanting E (ms_guid m) else a) (m_memberSlots x) 0\<rparr>)"

definition Group_homebindIfInstance :: "group_env \<Rightarrow> uint64 \<Rightarrow> GroupState \<Rightarrow> GroupState" where
  "Group_homebindIfInstance E p s =
     (if \<not> ge_isGameMaster E p \<and> ge_IsDungeon E (ge_MapId E p) then upd_refs p (\<lambda>r. r\<lparr>pr_InstanceValid := False\<rparr>) s else s)"

definition Group_setLeader :: "group_env \<Rightarrow> group_ptr \<Rightarrow> uint64 \<Rightarrow> GroupState \<Rightarrow> GroupState" where
  "Group_setLeader E g guid s =
     (case getMemberSlot guid (grp s g) of
        None \<Rightarrow> s
      | Some slot \<Rightarrow>
          let s1 = gs_emit [OnGroupChangeLeader g (m_leaderGuid (grp s g)) guid] s;
              low = GUID_LOPART (m_guid (grp s1 g));
              s2 = (if Group_isBGGroup (grp s1 g) then s1
                    else gs_emit ((if ge_GetPlayer E guid \<noteq> None then [RemovePermanentBinds g] else []) @
                               [ConvertInstancesToGroup g guid,
                                GroupSql (DeletePermanentInstances low (GUID_LOPART guid)),
                                GroupSql (UpdateLeader (GUID_LOPART guid) low)]) s1)
          in upd_grp g (\<lambda>x. Group_ToggleGroupMemberFlag guid MEMBER_FLAG_ASSISTANT False
               (x\<lparr>m_leaderGuid := guid, m_leaderName := ms_name slot\<rparr>)) s2)"

text \<open>\<open>_removeMember\<close> also tells whether the leader was removed.\<close>

definition leave_refs :: "group_ptr \<Rightarrow> uint64 \<Rightarrow> GroupState \<Rightarrow> GroupState" where
  "leave_refs g p s =
     (if Group_isBGGroup (grp s g) then Player_RemoveFromBattlegroundRaid p s
      else if pr_originalGroup (refs s p) = Some g then Player_SetOriginalGroup p None s
      else Player_SetGroup p None s)"

definition Group_removeMember :: "group_env \<Rightarrow> group_ptr \<Rightarrow> uint64 \<Rightarrow> GroupState \<Rightarrow> bool \<times> GroupState" where
  "Group_removeMember E g guid s =
     (let s1 = (case ge_GetPlayer E guid of None \<Rightarrow> s | Some _ \<Rightarrow> leave_refs g guid s);
          s2 = Group_removeRolls E g guid s1;
          s3 = (case getMemberSlot guid (grp s2 g) of
                  None \<Rightarrow> s2
                | Some slot \<Rightarrow>
                    upd_grp g (\<lambda>x. (Group_SubGroupCounterDecrease (ms_group slot) x)
                      \<lparr>m_memberSlots := slot_erase guid (m_memberSlots x)\<rparr>) s2);
          s4 = (if Group_isBGGroup (grp s3 g) then s3 else gs_emit [GroupSql (DeleteMember (GUID_LOPART guid))] s3)
      in if m_leaderGuid (grp s4 g) = guid
         then (True, case m_memberSlots (grp s4 g) of [] \<Rightarrow> s4 | m # _ \<Rightarrow> Group_setLeader E g (ms_guid m) s4)
         else (False, s4))"

text \<open>The message that a player is in no group any more, or the list of the group that he is in again.\<close>

definition farewell :: "group_env \<Rightarrow> group_ptr \<Rightarrow> uint64 \<Rightarrow> GroupState \<Rightarrow> GroupState" where
  "farewell E g p s =
     (case pr_group (refs s p) of
        Some t \<Rightarrow> Group_SendUpdate E t (follow t s)
      | None \<Rightarrow>
          gs_emit [GroupPacket p (Packet SMSG_GROUP_LIST
             [U8 0x10, U8 0, U8 0, U8 0, U64 (m_guid (grp s g)), U32 (m_counter (grp s g)), U32 0, U64 0])] s)"

definition disband_member :: "group_env \<Rightarrow> bool \<Rightarrow> group_ptr \<Rightarrow> MemberSlot \<Rightarrow> GroupState \<Rightarrow> GroupState" where
  "disband_member E hideDestroy g m s =
     (case ge_GetPlayer E (ms_guid m) of
        None \<Rightarrow> s
      | Some _ \<Rightarrow>
          let p = ms_guid m;
              s1 = leave_refs g p s;
              s2 = (if Group_isRaidGroup (grp s1 g) then gs_emit [UpdateForQuestWorldObjects p] s1 else s1);
              s3 = (if hideDestroy then s2 else gs_emit [GroupPacket p (Packet SMSG_GROUP_DESTROYED [])] s2)
          in Group_homebindIfInstance E p (farewell E g p s3))"

definition Group_Disband :: "group_env \<Rightarrow> bool \<Rightarrow> group_ptr \<Rightarrow> GroupState \<Rightarrow> GroupState" where
  "Group_Disband E hideDestroy g s =
     (let s1 = fold (disband_member E hideDestroy g) (m_memberSlots (grp s g)) (gs_emit [OnGroupDisband g] s);
          s2 = Group_RemoveAllInvites g (upd_grp g (\<lambda>x. x\<lparr>RollId := [], m_memberSlots := []\<rparr>) s1);
          s3 = (if Group_isBGGroup (grp s2 g) then s2
                else gs_emit [GroupSql (DeleteGroup (GUID_LOPART (m_guid (grp s2 g)))),
                           GroupSql (DeleteMembers (GUID_LOPART (m_guid (grp s2 g)))),
                           GroupResetInstances g False, GroupResetInstances g True] s2)
      in upd_grp g (\<lambda>x. x\<lparr>m_guid := 0, m_leaderGuid := 0, m_leaderName := []\<rparr>) s3)"

definition removed_player :: "group_env \<Rightarrow> group_ptr \<Rightarrow> RemoveMethod \<Rightarrow> uint64 \<Rightarrow> GroupState \<Rightarrow> GroupState" where
  "removed_player E g method p s =
     (let s1 = (if Group_isRaidGroup (grp s g) then gs_emit [UpdateForQuestWorldObjects p] s else s);
          s2 = (if method = GROUP_REMOVEMETHOD_KICK then gs_emit [GroupPacket p (Packet SMSG_GROUP_UNINVITE [])] s1 else s1)
      in Group_homebindIfInstance E p (farewell E g p s2))"

definition announce_leader :: "string \<Rightarrow> group_ptr \<Rightarrow> GroupState \<Rightarrow> GroupState" where
  "announce_leader name g = Group_BroadcastPacket (Packet SMSG_GROUP_SET_LEADER [Str name]) True None 0 g"

definition Group_RemoveMember ::
  "group_env \<Rightarrow> group_ptr \<Rightarrow> uint64 \<Rightarrow> RemoveMethod \<Rightarrow> uint64 \<Rightarrow> string option \<Rightarrow> GroupState \<Rightarrow> uint32 \<times> GroupState" where
  "Group_RemoveMember E g guid method kicker reason s =
     (let s1 = gs_emit [OnGroupRemoveMember g guid method kicker reason] (Group_BroadcastGroupUpdate E g s) in
      if Group_isLFGGroup (grp s1 g) \<and> method = GROUP_REMOVEMETHOD_KICK then (Group_GetMembersCount (grp s1 g), s1)
      else
        let s2 =
          (if Group_GetMembersCount (grp s1 g) > (if Group_isBGGroup (grp s1 g) then 1 else 2) then
             let (leaderChanged, s2) = Group_removeMember E g guid s1;
                 s3 = (case ge_GetPlayer E guid of None \<Rightarrow> s2 | Some _ \<Rightarrow> removed_player E g method guid s2);
                 s4 = (if leaderChanged then announce_leader (ms_name (hd (m_memberSlots (grp s3 g)))) g s3 else s3)
             in Group_ResetMaxEnchantingLevel E g (Group_SendUpdate E g s4)
           else Group_Disband E False g s1)
        in (Group_GetMembersCount (grp s2 g), s2))"

definition Group_ChangeLeader :: "group_env \<Rightarrow> group_ptr \<Rightarrow> uint64 \<Rightarrow> GroupState \<Rightarrow> GroupState" where
  "Group_ChangeLeader E g guid s =
     (case getMemberSlot guid (grp s g) of
        None \<Rightarrow> s
      | Some slot \<Rightarrow> Group_SendUpdate E g (announce_leader (ms_name slot) g (Group_setLeader E g guid s)))"

section \<open>Creating and converting\<close>

definition Group_ConvertToLFG :: "group_env \<Rightarrow> group_ptr \<Rightarrow> GroupState \<Rightarrow> GroupState" where
  "Group_ConvertToLFG E g s =
     (let s1 = upd_grp g (\<lambda>x. x\<lparr>m_groupType := (m_groupType x OR GROUPTYPE_LFG) OR GROUPTYPE_UNK1,
                               m_lootMethod := NEED_BEFORE_GREED\<rparr>) s;
          s2 = (if Group_isBGGroup (grp s1 g) then s1
                else gs_emit [GroupSql (UpdateGroupType (m_groupType (grp s1 g)) (GUID_LOPART (m_guid (grp s1 g))))] s1)
      in Group_SendUpdate E g s2)"

definition quest_objects_all :: "group_env \<Rightarrow> group_ptr \<Rightarrow> GroupState \<Rightarrow> GroupState" where
  "quest_objects_all E g s =
     gs_emit (map (\<lambda>m. UpdateForQuestWorldObjects (ms_guid m))
       (filter (\<lambda>m. ge_GetPlayer E (ms_guid m) \<noteq> None) (m_memberSlots (grp s g)))) s"

definition store_type :: "group_env \<Rightarrow> group_ptr \<Rightarrow> GroupState \<Rightarrow> GroupState" where
  "store_type E g s =
     quest_objects_all E g (Group_SendUpdate E g
       (if Group_isBGGroup (grp s g) then s
        else gs_emit [GroupSql (UpdateGroupType (m_groupType (grp s g)) (GUID_LOPART (m_guid (grp s g))))] s))"

definition Group_ConvertToRaid :: "group_env \<Rightarrow> group_ptr \<Rightarrow> GroupState \<Rightarrow> GroupState" where
  "Group_ConvertToRaid E g s =
     store_type E g
       (upd_grp g (\<lambda>x. Group_initRaidSubGroupsCounter (x\<lparr>m_groupType := m_groupType x OR GROUPTYPE_RAID\<rparr>)) s)"

definition Group_ConvertToGroup :: "group_env \<Rightarrow> group_ptr \<Rightarrow> GroupState \<Rightarrow> GroupState" where
  "Group_ConvertToGroup E g s =
     (if length (m_memberSlots (grp s g)) > 5 then s
      else store_type E g (upd_grp g (\<lambda>x. x\<lparr>m_groupType := GROUPTYPE_NORMAL, m_subGroupsCounts := None\<rparr>) s))"

text \<open>At the last number the source also asks the world to stop.\<close>

definition GenerateLowGuid_group :: "GroupState \<Rightarrow> uint32 \<times> GroupState" where
  "GenerateLowGuid_group s = (gs_hiGroupGuid s, s\<lparr>gs_hiGroupGuid := gs_hiGroupGuid s + 1\<rparr>)"

text \<open>The fields \<open>Create\<close> sets before the first member is added.\<close>

definition created :: "uint64 \<Rightarrow> string \<Rightarrow> uint32 \<Rightarrow> PlayerRefs option \<Rightarrow> Group \<Rightarrow> Group" where
  "created guid name lowguid leader x =
     (let x1 = x\<lparr>m_guid := MAKE_NEW_GUID (ucast lowguid) 0 HIGHGUID_GROUP, m_leaderGuid := guid, m_leaderName := name,
                 m_groupType := (if Group_isBGGroup x then GROUPTYPE_BGRAID else GROUPTYPE_NORMAL)\<rparr>;
          x2 = (if Group_isRaidGroup x1 then Group_initRaidSubGroupsCounter x1 else x1)
      in x2\<lparr>m_lootMethod := GROUP_LOOT, m_lootThreshold := ITEM_QUALITY_UNCOMMON, m_looterGuid := guid,
           m_dungeonDifficulty := (case leader of Some r \<Rightarrow> if Group_isBGGroup x then 0 else pr_dungeonDifficulty r | None \<Rightarrow> 0),
           m_raidDifficulty := (case leader of Some r \<Rightarrow> if Group_isBGGroup x then 0 else pr_raidDifficulty r | None \<Rightarrow> 0)\<rparr>)"

definition create_rows :: "uint32 \<Rightarrow> uint64 \<Rightarrow> Group \<Rightarrow> group_event list" where
  "create_rows lowguid guid x =
     [GroupSql (DeleteGroup lowguid), GroupSql (DeleteMembersOr lowguid (GUID_LOPART guid)),
      GroupSql (InsertMemberShort lowguid (GUID_LOPART guid)),
      GroupSql (InsertGroup lowguid (GUID_LOPART (m_leaderGuid x)) (m_lootMethod x) (GUID_LOPART (m_looterGuid x))
        (m_lootThreshold x) (m_targetIcons x) (m_groupType x) (m_dungeonDifficulty x) (m_raidDifficulty x))]"

definition Group_Create :: "group_env \<Rightarrow> group_ptr \<Rightarrow> uint64 \<Rightarrow> string \<Rightarrow> GroupState \<Rightarrow> bool \<times> GroupState" where
  "Group_Create E g guid name s =
     (let (lowguid, s1) = GenerateLowGuid_group s;
          leader = (case ge_GetPlayer E guid of None \<Rightarrow> None | Some _ \<Rightarrow> Some (refs s1 guid));
          s2 = upd_grp g (created guid name lowguid leader) s1
      in if Group_isBGGroup (grp s2 g) then Group_AddMember E g guid name s2
         else
           let (ok, s3) = Group_AddMember E g guid name (gs_emit [ConvertInstancesToGroup g guid] s2)
           in if ok then (True, gs_emit (create_rows lowguid guid (grp s3 g)) s3) else (False, s3))"

section \<open>Sub-groups and flags\<close>

definition Group_setMembersGroup :: "group_ptr \<Rightarrow> uint64 \<Rightarrow> uint8 \<Rightarrow> GroupState \<Rightarrow> bool \<times> GroupState" where
  "Group_setMembersGroup g guid subgroup s =
     (case getMemberSlot guid (grp s g) of
        None \<Rightarrow> (False, s)
      | Some _ \<Rightarrow>
          let s1 = upd_grp g (\<lambda>x. Group_SubGroupCounterIncrease subgroup
                     (x\<lparr>m_memberSlots := slot_update guid (\<lambda>m. m\<lparr>ms_group := subgroup\<rparr>) (m_memberSlots x)\<rparr>)) s
          in (True, if Group_isBGGroup (grp s1 g) then s1
                    else gs_emit [GroupSql (UpdateMemberSubgroup subgroup (GUID_LOPART guid))] s1))"

definition counter_dec :: "uint8 \<Rightarrow> group_ptr \<Rightarrow> GroupState \<Rightarrow> GroupState" where
  "counter_dec n g = upd_grp g (Group_SubGroupCounterDecrease n)"

definition Group_ChangePlayersGroup :: "group_env \<Rightarrow> group_ptr \<Rightarrow> uint64 \<Rightarrow> uint8 \<Rightarrow> GroupState \<Rightarrow> GroupState" where
  "Group_ChangePlayersGroup E g p subgroup s =
     (if \<not> Group_isRaidGroup (grp s g) then s
      else if pr_subGroup (refs s p) = subgroup then s
      else
        let (ok, s1) = Group_setMembersGroup g p subgroup s in
        if \<not> ok then s1
        else
          let (prev, s2) =
            (if pr_group (refs s1 p) = Some g then (pr_subGroup (refs s1 p), upd_refs p (set_subGroup GroupRef subgroup) s1)
             else (pr_originalSubGroup (refs s1 p), upd_refs p (set_subGroup OriginalRef subgroup) s1))
          in Group_SendUpdate E g (counter_dec prev g s2))"

definition Group_ChangeMembersGroup :: "group_env \<Rightarrow> group_ptr \<Rightarrow> uint64 \<Rightarrow> uint8 \<Rightarrow> GroupState \<Rightarrow> GroupState" where
  "Group_ChangeMembersGroup E g guid subgroup s =
     (if \<not> Group_isRaidGroup (grp s g) then s
      else case ge_GetPlayer E guid of
             None \<Rightarrow>
               let prev = Group_GetMemberGroup guid (grp s g) in
               if prev = subgroup then s
               else
                 let (ok, s1) = Group_setMembersGroup g guid subgroup s in
                 if ok then Group_SendUpdate E g (counter_dec prev g s1) else s1
           | Some _ \<Rightarrow> Group_ChangePlayersGroup E g guid subgroup s)"

text \<open>The statement has the flags of the slot after the change.\<close>

definition store_flags :: "group_ptr \<Rightarrow> uint64 \<Rightarrow> GroupState \<Rightarrow> GroupState" where
  "store_flags g guid s =
     (if Group_isBGGroup (grp s g) then s
      else case getMemberSlot guid (grp s g) of
             None \<Rightarrow> s
           | Some m \<Rightarrow> gs_emit [GroupSql (UpdateMemberFlags (ms_flags m) (GUID_LOPART guid))] s)"

definition Group_SetAssistant :: "group_env \<Rightarrow> group_ptr \<Rightarrow> uint64 \<Rightarrow> bool \<Rightarrow> GroupState \<Rightarrow> GroupState" where
  "Group_SetAssistant E g guid on s =
     (if \<not> Group_isRaidGroup (grp s g) then s
      else if \<not> Group_IsMember guid (grp s g) then s
      else Group_SendUpdate E g (store_flags g guid
             (upd_grp g (Group_ToggleGroupMemberFlag guid MEMBER_FLAG_ASSISTANT on) s)))"

text \<open>\<open>SetMainTank\<close> and \<open>SetMainAssistant\<close>: the flag is first taken from every member.\<close>

definition set_unique_flag :: "uint8 \<Rightarrow> group_env \<Rightarrow> group_ptr \<Rightarrow> uint64 \<Rightarrow> bool \<Rightarrow> GroupState \<Rightarrow> GroupState" where
  "set_unique_flag flag E g guid on s =
     (if \<not> Group_isRaidGroup (grp s g) then s
      else if \<not> Group_IsMember guid (grp s g) then s
      else Group_SendUpdate E g (store_flags g guid
             (upd_grp g (\<lambda>x. Group_ToggleGroupMemberFlag guid flag on (Group_RemoveUniqueGroupMemberFlag flag x)) s)))"

definition Group_SetMainTank :: "group_env \<Rightarrow> group_ptr \<Rightarrow> uint64 \<Rightarrow> bool \<Rightarrow> GroupState \<Rightarrow> GroupState" where
  "Group_SetMainTank = set_unique_flag MEMBER_FLAG_MAINTANK"

definition Group_SetMainAssistant :: "group_env \<Rightarrow> group_ptr \<Rightarrow> uint64 \<Rightarrow> bool \<Rightarrow> GroupState \<Rightarrow> GroupState" where
  "Group_SetMainAssistant = set_unique_flag MEMBER_FLAG_MAINASSIST"

definition Group_SetRoles :: "group_env \<Rightarrow> group_ptr \<Rightarrow> uint64 \<Rightarrow> uint8 \<Rightarrow> GroupState \<Rightarrow> GroupState" where
  "Group_SetRoles E g guid roles s =
     (if \<not> Group_IsMember guid (grp s g) then s
      else Group_SendUpdate E g
             (upd_grp g (\<lambda>x. x\<lparr>m_memberSlots := slot_update guid (\<lambda>m. m\<lparr>ms_roles := roles\<rparr>) (m_memberSlots x)\<rparr>) s))"

section \<open>Target icons, loot settings, difficulty\<close>

definition put_icon :: "nat \<Rightarrow> uint64 \<Rightarrow> uint64 \<Rightarrow> group_ptr \<Rightarrow> GroupState \<Rightarrow> GroupState" where
  "put_icon i whoGuid targetGuid g s =
     Group_BroadcastPacket (Packet MSG_RAID_TARGET_UPDATE [U8 0, U64 whoGuid, U8 (of_nat i), U64 targetGuid]) True None 0 g
       (upd_grp g (\<lambda>x. x\<lparr>m_targetIcons := (m_targetIcons x)[i := targetGuid]\<rparr>) s)"

text \<open>The recursive call of the source has target 0 and does not recurse again.\<close>

definition Group_SetTargetIcon :: "uint8 \<Rightarrow> uint64 \<Rightarrow> uint64 \<Rightarrow> group_ptr \<Rightarrow> GroupState \<Rightarrow> GroupState" where
  "Group_SetTargetIcon n whoGuid targetGuid g s =
     (if unat n \<ge> TARGETICONCOUNT then s
      else
        put_icon (unat n) whoGuid targetGuid g
          (if targetGuid \<noteq> 0
           then fold (\<lambda>i s. if m_targetIcons (grp s g) ! i = targetGuid then put_icon i 0 0 g s else s) [0..<TARGETICONCOUNT] s
           else s))"

definition Group_SendTargetIconList :: "uint64 \<Rightarrow> group_ptr \<Rightarrow> GroupState \<Rightarrow> GroupState" where
  "Group_SendTargetIconList p g s =
     gs_emit [GroupPacket p (Packet MSG_RAID_TARGET_UPDATE (U8 1 #
       concat (map (\<lambda>i. if m_targetIcons (grp s g) ! i = 0 then []
                        else [U8 (of_nat i), U64 (m_targetIcons (grp s g) ! i)]) [0..<TARGETICONCOUNT])))] s"

text \<open>
  The next player in turn: from the one after the current looter to the end, then from the start to the current one included.
  \<open>near\<close> tells who is close enough to the looted object.
\<close>

definition next_looter :: "group_env \<Rightarrow> (uint64 \<Rightarrow> bool) \<Rightarrow> uint64 \<Rightarrow> MemberSlot list \<Rightarrow> uint64 option" where
  "next_looter E near old slots =
     (let here = (\<lambda>p. ge_GetPlayer E p \<noteq> None \<and> near p);
          (before, rest) = (takeWhile (\<lambda>m. ms_guid m \<noteq> old) slots, dropWhile (\<lambda>m. ms_guid m \<noteq> old) slots)
      in find here (map ms_guid (tl rest @ before @ take 1 rest)))"

definition Group_UpdateLooterGuid :: "group_env \<Rightarrow> (uint64 \<Rightarrow> bool) \<Rightarrow> bool \<Rightarrow> group_ptr \<Rightarrow> GroupState \<Rightarrow> GroupState" where
  "Group_UpdateLooterGuid E near ifneed g s =
     (let x = grp s g; old = m_looterGuid x in
      if m_lootMethod x = MASTER_LOOT \<or> m_lootMethod x = FREE_FOR_ALL then s
      else if Group_IsMember old x \<and> ifneed \<and> ge_GetPlayer E old \<noteq> None \<and> near old then s
      else
        case next_looter E near old (m_memberSlots x) of
          Some p \<Rightarrow> if old \<noteq> p then Group_SendUpdate E g (upd_grp g (\<lambda>x. x\<lparr>m_looterGuid := p\<rparr>) s) else s
        | None \<Rightarrow> Group_SendUpdate E g (upd_grp g (\<lambda>x. x\<lparr>m_looterGuid := 0\<rparr>) s))"

definition Group_SetDungeonDifficulty :: "(uint64 \<Rightarrow> uint8) \<Rightarrow> uint8 \<Rightarrow> group_ptr \<Rightarrow> GroupState \<Rightarrow> GroupState" where
  "Group_SetDungeonDifficulty level d g s =
     (let s1 = upd_grp g (\<lambda>x. x\<lparr>m_dungeonDifficulty := d\<rparr>) s;
          s2 = (if Group_isBGGroup (grp s1 g) then s1
                else gs_emit [GroupSql (UpdateDifficulty d (GUID_LOPART (m_guid (grp s1 g))))] s1)
      in fold (\<lambda>(p, _) s. if level p < LEVELREQUIREMENT_HEROIC then s
                 else gs_emit [SendDungeonDifficulty p] (upd_refs p (\<lambda>r. r\<lparr>pr_dungeonDifficulty := d\<rparr>) s)) (m_memberMgr (grp s2 g)) s2)"

definition Group_SetRaidDifficulty :: "(uint64 \<Rightarrow> uint8) \<Rightarrow> uint8 \<Rightarrow> group_ptr \<Rightarrow> GroupState \<Rightarrow> GroupState" where
  "Group_SetRaidDifficulty level d g s =
     (let s1 = upd_grp g (\<lambda>x. x\<lparr>m_raidDifficulty := d\<rparr>) s;
          s2 = (if Group_isBGGroup (grp s1 g) then s1
                else gs_emit [GroupSql (UpdateRaidDifficulty d (GUID_LOPART (m_guid (grp s1 g))))] s1)
      in fold (\<lambda>(p, _) s. if level p < LEVELREQUIREMENT_HEROIC then s
                 else gs_emit [SendRaidDifficulty p] (upd_refs p (\<lambda>r. r\<lparr>pr_raidDifficulty := d\<rparr>) s)) (m_memberMgr (grp s2 g)) s2)"

end
