(* ===== verification/Group_Handlers.thy ===== *)
theory Group_Handlers
  imports Group_Ops
begin

text \<open>
  The group functions of \<open>Player\<close> (\<^verbatim>\<open>Player.cpp\<close>), the client messages of \<^verbatim>\<open>GroupHandler.cpp\<close>, login and logout as far as groups are
  concerned, and the loading of the stored groups (\<^verbatim>\<open>ObjectMgr.cpp\<close>, \<^verbatim>\<open>Group.cpp\<close>).  A packet that is too short ends the handler
  with an exception, which the session catches; nothing was changed before.
\<close>

section \<open>Constants\<close>

definition SMSG_PARTY_COMMAND_RESULT :: uint32 where "SMSG_PARTY_COMMAND_RESULT = 0x26E0"
definition SMSG_GROUP_INVITE :: uint32 where "SMSG_GROUP_INVITE = 0xA8A8"
definition SMSG_GROUP_DECLINE :: uint32 where "SMSG_GROUP_DECLINE = 0xABAC"
definition MSG_MINIMAP_PING :: uint32 where "MSG_MINIMAP_PING = 0xC475"
definition MSG_RANDOM_ROLL :: uint32 where "MSG_RANDOM_ROLL = 0xB7A4"
definition MSG_RAID_READY_CHECK :: uint32 where "MSG_RAID_READY_CHECK = 0xFDC0"

definition PARTY_OP_INVITE :: uint32 where "PARTY_OP_INVITE = 0"
definition PARTY_OP_UNINVITE :: uint32 where "PARTY_OP_UNINVITE = 1"
definition PARTY_OP_LEAVE :: uint32 where "PARTY_OP_LEAVE = 2"

definition ERR_PARTY_RESULT_OK :: uint32 where "ERR_PARTY_RESULT_OK = 0"
definition ERR_BAD_PLAYER_NAME_S :: uint32 where "ERR_BAD_PLAYER_NAME_S = 1"
definition ERR_TARGET_NOT_IN_GROUP_S :: uint32 where "ERR_TARGET_NOT_IN_GROUP_S = 2"
definition ERR_TARGET_NOT_IN_INSTANCE_S :: uint32 where "ERR_TARGET_NOT_IN_INSTANCE_S = 3"
definition ERR_GROUP_FULL :: uint32 where "ERR_GROUP_FULL = 4"
definition ERR_ALREADY_IN_GROUP_S :: uint32 where "ERR_ALREADY_IN_GROUP_S = 5"
definition ERR_NOT_IN_GROUP :: uint32 where "ERR_NOT_IN_GROUP = 6"
definition ERR_NOT_LEADER :: uint32 where "ERR_NOT_LEADER = 7"
definition ERR_PLAYER_WRONG_FACTION :: uint32 where "ERR_PLAYER_WRONG_FACTION = 8"
definition ERR_IGNORING_YOU_S :: uint32 where "ERR_IGNORING_YOU_S = 9"
definition ERR_INVITE_RESTRICTED :: uint32 where "ERR_INVITE_RESTRICTED = 13"
definition ERR_PARTY_LFG_BOOT_LIMIT :: uint32 where "ERR_PARTY_LFG_BOOT_LIMIT = 20"
definition ERR_PARTY_LFG_BOOT_IN_PROGRESS :: uint32 where "ERR_PARTY_LFG_BOOT_IN_PROGRESS = 22"
definition ERR_PARTY_LFG_BOOT_TOO_FEW_PLAYERS :: uint32 where "ERR_PARTY_LFG_BOOT_TOO_FEW_PLAYERS = 23"
definition ERR_PARTY_LFG_BOOT_DUNGEON_COMPLETE :: uint32 where "ERR_PARTY_LFG_BOOT_DUNGEON_COMPLETE = 28"
definition ERR_PARTY_LFG_BOOT_LOOT_ROLLS :: uint32 where "ERR_PARTY_LFG_BOOT_LOOT_ROLLS = 29"

definition ACHIEVEMENT_CRITERIA_TYPE_ROLL_NEED :: uint8 where "ACHIEVEMENT_CRITERIA_TYPE_ROLL_NEED = 93"
definition ACHIEVEMENT_CRITERIA_TYPE_ROLL_GREED :: uint8 where "ACHIEVEMENT_CRITERIA_TYPE_ROLL_GREED = 94"

section \<open>The registry of groups\<close>

definition AddGroup :: "group_ptr \<Rightarrow> GroupState \<Rightarrow> GroupState" where
  "AddGroup g s = s\<lparr>gs_registry := List.insert g (gs_registry s)\<rparr>"

definition RemoveGroup :: "group_ptr \<Rightarrow> GroupState \<Rightarrow> GroupState" where
  "RemoveGroup g s = s\<lparr>gs_registry := removeAll g (gs_registry s)\<rparr>"

fun find_group :: "uint32 \<Rightarrow> group_ptr list \<Rightarrow> GroupState \<Rightarrow> group_ptr option \<times> GroupState" where
  "find_group guid [] s = (None, s)"
| "find_group guid (g # gs) s =
     (if GUID_LOPART (m_guid (grp s g)) = guid then (Some g, follow g s) else find_group guid gs (follow g s))"

definition GetGroupByGUID :: "uint32 \<Rightarrow> GroupState \<Rightarrow> group_ptr option \<times> GroupState" where
  "GetGroupByGUID guid s = find_group guid (gs_registry s) s"

section \<open>Group functions of players\<close>

definition Player_UninviteFromGroup :: "group_env \<Rightarrow> uint64 \<Rightarrow> GroupState \<Rightarrow> GroupState" where
  "Player_UninviteFromGroup E p s =
     (case pr_groupInvite (refs s p) of
        None \<Rightarrow> s
      | Some g \<Rightarrow>
          let s1 = Group_RemoveInvite g p (follow g s) in
          if Group_GetMembersCount (grp s1 g) \<le> 1
          then Group_delete g
                 (if Group_IsCreated (grp s1 g) then RemoveGroup g (Group_Disband E True g s1)
                  else Group_RemoveAllInvites g s1)
          else s1)"

definition Player_RemoveFromGroup ::
  "group_env \<Rightarrow> group_ptr option \<Rightarrow> uint64 \<Rightarrow> RemoveMethod \<Rightarrow> uint64 \<Rightarrow> string option \<Rightarrow> GroupState \<Rightarrow> GroupState" where
  "Player_RemoveFromGroup E t guid method kicker reason s =
     (case t of
        None \<Rightarrow> s
      | Some g \<Rightarrow>
          let (n, s1) = Group_RemoveMember E g guid method kicker reason (follow g s)
          in if n \<le> 1 then Group_delete g (RemoveGroup g s1) else s1)"

definition Player_CanUninviteFromGroup :: "group_env \<Rightarrow> uint64 \<Rightarrow> GroupState \<Rightarrow> uint32 \<times> GroupState" where
  "Player_CanUninviteFromGroup E p s =
     (case pr_group (refs s p) of
        None \<Rightarrow> (ERR_NOT_IN_GROUP, s)
      | Some g \<Rightarrow>
          let x = grp s g; gguid = m_guid x in
          (if Group_isLFGGroup x then
             (if ge_lfg_kicks E gguid = 0 then ERR_PARTY_LFG_BOOT_LIMIT
              else if ge_lfg_state E gguid = LFG_STATE_BOOT then ERR_PARTY_LFG_BOOT_IN_PROGRESS
              else if length (m_memberSlots x) \<le> ge_lfg_votes E gguid then ERR_PARTY_LFG_BOOT_TOO_FEW_PLAYERS
              else if ge_lfg_state E gguid = LFG_STATE_FINISHED_DUNGEON then ERR_PARTY_LFG_BOOT_DUNGEON_COMPLETE
              else if RollId x \<noteq> [] then ERR_PARTY_LFG_BOOT_LOOT_ROLLS
              else ERR_PARTY_RESULT_OK)
           else if \<not> Group_IsLeader p x \<and> \<not> Group_IsAssistant p x then ERR_NOT_LEADER
           else if ge_InBattleground E p then ERR_INVITE_RESTRICTED
           else ERR_PARTY_RESULT_OK, follow g s))"

text \<open>\<open>_LoadGroup\<close>: the row is the group of the player in \<open>group_member\<close>.\<close>

definition Player_LoadGroup :: "Player \<Rightarrow> uint32 option \<Rightarrow> GroupState \<Rightarrow> GroupState" where
  "Player_LoadGroup player row s =
     (case row of
        None \<Rightarrow> s
      | Some lowguid \<Rightarrow>
          let (t, s1) = GetGroupByGUID lowguid s; p = plr_GUID player in
          (case t of
             None \<Rightarrow> s1
           | Some g \<Rightarrow>
               let s2 = Player_SetGroup p (Some (g, Group_GetMemberGroup p (grp s1 g))) s1 in
               if plr_Level player < LEVELREQUIREMENT_HEROIC then s2
               else upd_refs p (\<lambda>r. r\<lparr>pr_dungeonDifficulty := m_dungeonDifficulty (grp s2 g),
                                     pr_raidDifficulty := m_raidDifficulty (grp s2 g)\<rparr>) s2))"

text \<open>A player object is created with the stored difficulties.\<close>

definition group_login :: "Player \<Rightarrow> uint8 \<Rightarrow> uint8 \<Rightarrow> uint32 option \<Rightarrow> GroupState \<Rightarrow> GroupState" where
  "group_login player dungeonDiff raidDiff row s =
     Player_LoadGroup player row
       (s\<lparr>gs_players := (gs_players s)(plr_GUID player :=
          Some (PlayerRefs_new\<lparr>pr_dungeonDifficulty := dungeonDiff, pr_raidDifficulty := raidDiff\<rparr>))\<rparr>)"

text \<open>
  \<open>LogoutPlayer\<close>: the invitation is withdrawn, a player who logs out by himself leaves a group that is no raid, the group is told,
  and the references end with the player object.
\<close>

definition group_logout :: "group_env \<Rightarrow> uint64 \<Rightarrow> bool \<Rightarrow> GroupState \<Rightarrow> GroupState" where
  "group_logout E p m_Socket s =
     (let s1 = Player_UninviteFromGroup E p s;
          s2 = (case pr_group (refs s1 p) of
                  None \<Rightarrow> s1
                | Some g \<Rightarrow>
                    let s1 = follow g s1 in
                    if \<not> Group_isRaidGroup (grp s1 g) \<and> m_Socket
                    then Player_RemoveFromGroup E (Some g) p GROUP_REMOVEMETHOD_DEFAULT 0 None s1 else s1);
          s3 = (case pr_group (refs s2 p) of
                  None \<Rightarrow> s2
                | Some g \<Rightarrow> Group_ResetMaxEnchantingLevel E g (Group_SendUpdate E g (follow g s2)));
          s4 = ref_unlink OriginalRef p (ref_unlink GroupRef p s3)
      in s4\<lparr>gs_players := (gs_players s4)(p := None)\<rparr>)"

section \<open>Messages\<close>

definition parse :: "bb_error + 'a \<Rightarrow> ('a \<Rightarrow> GroupState) \<Rightarrow> GroupState \<Rightarrow> GroupState" where
  "parse r f s = (case r of Inl e \<Rightarrow> gs_emit [PacketException e] s | Inr x \<Rightarrow> f x)"

definition SendPartyResult :: "uint64 \<Rightarrow> uint32 \<Rightarrow> string \<Rightarrow> uint32 \<Rightarrow> GroupState \<Rightarrow> GroupState" where
  "SendPartyResult p operation member res =
     gs_emit [GroupPacket p (Packet SMSG_PARTY_COMMAND_RESULT [U32 operation, Str member, U32 res, U32 0, U64 0])]"

definition invite_packet :: "uint8 \<Rightarrow> Player \<Rightarrow> packet" where
  "invite_packet flag player = Packet SMSG_GROUP_INVITE [U8 flag, Str (plr_Name player), U32 0, U8 0, U32 0]"

text \<open>The checks of \<open>HandleGroupInviteOpcode\<close> that read only the two players: \<open>Some\<close> of an answer ends the request.\<close>

definition invite_refused :: "group_env \<Rightarrow> Player \<Rightarrow> Player \<Rightarrow> GroupState \<Rightarrow> uint32 option option" where
  "invite_refused E me player s =
     (let p = plr_GUID me; q = plr_GUID player in
      if \<not> ge_CONFIG_ALLOW_GM_GROUP E \<and> \<not> ge_isGameMaster E p \<and> ge_isGameMaster E q then Some None
      else if \<not> ge_CONFIG_ALLOW_TWO_SIDE_INTERACTION_GROUP E \<and> plr_Team me \<noteq> plr_Team player
      then Some (Some ERR_PLAYER_WRONG_FACTION)
      else if ge_InstanceId E p \<noteq> 0 \<and> ge_InstanceId E q \<noteq> 0 \<and> ge_InstanceId E p \<noteq> ge_InstanceId E q \<and>
        ge_MapId E p = ge_MapId E q
      then Some (Some ERR_TARGET_NOT_IN_INSTANCE_S)
      else if ge_InstanceId E q \<noteq> 0 \<and> pr_dungeonDifficulty (refs s q) \<noteq> pr_dungeonDifficulty (refs s p)
      then Some (Some ERR_IGNORING_YOU_S)
      else if HasIgnore (GUID_LOPART p) (GetSocial (ge_socials E) player) then Some (Some ERR_IGNORING_YOU_S)
      else None)"

text \<open>A new group that only has invitations; it is deleted again when one of them fails.\<close>

definition invite_new_group :: "Player \<Rightarrow> uint64 \<Rightarrow> GroupState \<Rightarrow> bool \<times> GroupState" where
  "invite_new_group me q s =
     (let (g, s1) = Group_alloc s;
          (ok, s2) = Group_AddLeaderInvite g me s1
      in if \<not> ok then (False, Group_delete g s2)
         else
           let (ok, s3) = Group_AddInvite g q s2
           in if \<not> ok then (False, Group_delete g s3) else (True, s3))"

definition invite_player :: "group_env \<Rightarrow> Player \<Rightarrow> string \<Rightarrow> Player \<Rightarrow> GroupState \<Rightarrow> GroupState" where
  "invite_player E me membername player s =
     (let p = plr_GUID me; q = plr_GUID player;
          (t, s1) = normal_group p s;
          (t2, s2) = normal_group q s1
      in if t2 \<noteq> None \<or> pr_groupInvite (refs s2 q) \<noteq> None then
           let s3 = SendPartyResult p PARTY_OP_INVITE membername ERR_ALREADY_IN_GROUP_S s2
           in if t2 \<noteq> None then gs_emit [GroupPacket q (invite_packet 0 me)] s3 else s3
         else
           let answer = (\<lambda>s. SendPartyResult p PARTY_OP_INVITE membername ERR_PARTY_RESULT_OK
                               (gs_emit [GroupPacket q (invite_packet 1 me)] s))
           in case t of
                Some g \<Rightarrow>
                  let s3 = follow g s2 in
                  if \<not> Group_IsLeader p (grp s3 g) \<and> \<not> Group_IsAssistant p (grp s3 g)
                  then SendPartyResult p PARTY_OP_INVITE [] ERR_NOT_LEADER s3
                  else if Group_IsFull (grp s3 g) then SendPartyResult p PARTY_OP_INVITE [] ERR_GROUP_FULL s3
                  else
                    let (ok, s4) = Group_AddInvite g q s3 in
                    if ok then answer s4 else s4
              | None \<Rightarrow>
                  let (ok, s3) = invite_new_group me q s2 in
                  if ok then answer s3 else s3)"

definition HandleGroupInviteOpcode :: "group_env \<Rightarrow> Player \<Rightarrow> 'z ByteBuffer_scheme \<Rightarrow> GroupState \<Rightarrow> GroupState" where
  "HandleGroupInviteOpcode E me recv_data s =
     parse (in_string recv_data) (\<lambda>(name0, d0).
     parse (in_u32 d0) (\<lambda>_.
       let p = plr_GUID me; (ok, membername) = ge_normalizePlayerName E name0 in
       if \<not> ok then SendPartyResult p PARTY_OP_INVITE membername ERR_BAD_PLAYER_NAME_S s
       else
         case FindPlayerByName (ge_world E) membername of
           None \<Rightarrow> SendPartyResult p PARTY_OP_INVITE membername ERR_BAD_PLAYER_NAME_S s
         | Some player \<Rightarrow>
             (case invite_refused E me player s of
                Some None \<Rightarrow> s
              | Some (Some res) \<Rightarrow> SendPartyResult p PARTY_OP_INVITE membername res s
              | None \<Rightarrow> invite_player E me membername player s)) s) s"

text \<open>The invited player is taken into the group, which is created when he is the first to accept.\<close>

definition accept_invite :: "group_env \<Rightarrow> Player \<Rightarrow> group_ptr \<Rightarrow> GroupState \<Rightarrow> GroupState" where
  "accept_invite E me g s =
     (if m_leaderGuid (grp s g) = plr_GUID me then gs_emit [GroupLogError] s
      else
        let p = plr_GUID me; s1 = Group_RemoveInvite g p s in
        if Group_IsFull (grp s1 g) then SendPartyResult p PARTY_OP_INVITE [] ERR_GROUP_FULL s1
        else
          let lead = m_leaderGuid (grp s1 g);
              s2 = (if Group_IsCreated (grp s1 g) then s1
                    else
                      let s = (if ge_GetPlayer E lead \<noteq> None then Group_RemoveInvite g lead s1 else s1)
                      in AddGroup g (snd (Group_Create E g lead (m_leaderName (grp s g)) s)));
              (ok, s3) = Group_AddMember E g p (plr_Name me) s2
          in if ok then Group_BroadcastGroupUpdate E g s3 else s3)"

definition HandleGroupAcceptOpcode :: "group_env \<Rightarrow> Player \<Rightarrow> 'z ByteBuffer_scheme \<Rightarrow> GroupState \<Rightarrow> GroupState" where
  "HandleGroupAcceptOpcode E me recv_data s =
     parse (in_u32 recv_data) (\<lambda>_.
       case pr_groupInvite (refs s (plr_GUID me)) of
         None \<Rightarrow> s
       | Some g \<Rightarrow> accept_invite E me g (follow g s)) s"

definition HandleGroupDeclineOpcode :: "group_env \<Rightarrow> Player \<Rightarrow> GroupState \<Rightarrow> GroupState" where
  "HandleGroupDeclineOpcode E me s =
     (case pr_groupInvite (refs s (plr_GUID me)) of
        None \<Rightarrow> s
      | Some g \<Rightarrow>
          let s1 = follow g s; lead = m_leaderGuid (grp s1 g);
              s2 = Player_UninviteFromGroup E (plr_GUID me) s1
          in case ge_GetPlayer E lead of
               None \<Rightarrow> s2
             | Some _ \<Rightarrow> gs_emit [GroupPacket lead (Packet SMSG_GROUP_DECLINE [Str (plr_Name me)])] s2)"

definition HandleGroupUninviteGuidOpcode :: "group_env \<Rightarrow> Player \<Rightarrow> 'z ByteBuffer_scheme \<Rightarrow> GroupState \<Rightarrow> GroupState" where
  "HandleGroupUninviteGuidOpcode E me recv_data s =
     parse (in_u64 recv_data) (\<lambda>(guid, d0).
     parse (in_string d0) (\<lambda>(reason, _).
       let p = plr_GUID me in
       if guid = p then gs_emit [GroupLogError] s
       else
         let (res, s1) = Player_CanUninviteFromGroup E p s in
         if res \<noteq> ERR_PARTY_RESULT_OK then SendPartyResult p PARTY_OP_UNINVITE [] res s1
         else
           case pr_group (refs s1 p) of
             None \<Rightarrow> s1
           | Some g \<Rightarrow>
               let x = grp s1 g in
               if Group_IsLeader guid x then SendPartyResult p PARTY_OP_UNINVITE [] ERR_NOT_LEADER s1
               else if Group_IsMember guid x
               then Player_RemoveFromGroup E (Some g) guid GROUP_REMOVEMETHOD_KICK p (Some reason) s1
               else case Group_GetInvited guid x of
                      Some q \<Rightarrow> Player_UninviteFromGroup E q s1
                    | None \<Rightarrow> SendPartyResult p PARTY_OP_UNINVITE [] ERR_TARGET_NOT_IN_GROUP_S s1) s) s"

definition HandleGroupUninviteOpcode :: "group_env \<Rightarrow> Player \<Rightarrow> 'z ByteBuffer_scheme \<Rightarrow> GroupState \<Rightarrow> GroupState" where
  "HandleGroupUninviteOpcode E me recv_data s =
     parse (in_string recv_data) (\<lambda>(name0, _).
       let p = plr_GUID me; (ok, membername) = ge_normalizePlayerName E name0 in
       if \<not> ok then s
       else if plr_Name me = membername then gs_emit [GroupLogError] s
       else
         let (res, s1) = Player_CanUninviteFromGroup E p s in
         if res \<noteq> ERR_PARTY_RESULT_OK then SendPartyResult p PARTY_OP_UNINVITE [] res s1
         else
           case pr_group (refs s1 p) of
             None \<Rightarrow> s1
           | Some g \<Rightarrow>
               let x = grp s1 g; guid = Group_GetMemberGUID membername x in
               if guid \<noteq> 0 then Player_RemoveFromGroup E (Some g) guid GROUP_REMOVEMETHOD_KICK p None s1
               else case Group_GetInvitedByName E membername x of
                      Some q \<Rightarrow> Player_UninviteFromGroup E q s1
                    | None \<Rightarrow> SendPartyResult p PARTY_OP_UNINVITE membername ERR_TARGET_NOT_IN_GROUP_S s1) s"

definition HandleGroupSetLeaderOpcode :: "group_env \<Rightarrow> Player \<Rightarrow> 'z ByteBuffer_scheme \<Rightarrow> GroupState \<Rightarrow> GroupState" where
  "HandleGroupSetLeaderOpcode E me recv_data s =
     (case pr_group (refs s (plr_GUID me)) of
        None \<Rightarrow> s
      | Some g \<Rightarrow>
          parse (in_u64 recv_data) (\<lambda>(guid, _).
            let s1 = follow g s in
            if ge_GetPlayer E guid = None \<or> \<not> Group_IsLeader (plr_GUID me) (grp s1 g) \<or> pr_group (refs s1 guid) \<noteq> Some g
            then s1
            else Group_ChangeLeader E g guid s1) s)"

definition HandleGroupDisbandOpcode :: "group_env \<Rightarrow> Player \<Rightarrow> GroupState \<Rightarrow> GroupState" where
  "HandleGroupDisbandOpcode E me s =
     (let p = plr_GUID me in
      case pr_group (refs s p) of
        None \<Rightarrow> s
      | Some g \<Rightarrow>
          if ge_InBattleground E p then SendPartyResult p PARTY_OP_INVITE [] ERR_INVITE_RESTRICTED s
          else Player_RemoveFromGroup E (Some g) p GROUP_REMOVEMETHOD_LEAVE 0 None
                 (SendPartyResult p PARTY_OP_LEAVE (plr_Name me) ERR_PARTY_RESULT_OK s))"

definition HandleLootMethodOpcode :: "group_env \<Rightarrow> Player \<Rightarrow> 'z ByteBuffer_scheme \<Rightarrow> GroupState \<Rightarrow> GroupState" where
  "HandleLootMethodOpcode E me recv_data s =
     (case pr_group (refs s (plr_GUID me)) of
        None \<Rightarrow> s
      | Some g \<Rightarrow>
          parse (in_u32 recv_data) (\<lambda>(lootMethod, d0).
          parse (in_u64 d0) (\<lambda>(lootMaster, d1).
          parse (in_u32 d1) (\<lambda>(lootThreshold, _).
            let s1 = follow g s in
            if \<not> Group_IsLeader (plr_GUID me) (grp s1 g) then s1
            else Group_SendUpdate E g
                   (upd_grp g (\<lambda>x. x\<lparr>m_lootMethod := lootMethod, m_looterGuid := lootMaster, m_lootThreshold := lootThreshold\<rparr>) s1)) s) s) s)"

definition HandleLootRoll :: "group_env \<Rightarrow> Player \<Rightarrow> 'z ByteBuffer_scheme \<Rightarrow> GroupState \<Rightarrow> GroupState" where
  "HandleLootRoll E me recv_data s =
     (case pr_group (refs s (plr_GUID me)) of
        None \<Rightarrow> s
      | Some g \<Rightarrow>
          parse (in_u64 recv_data) (\<lambda>(Guid, d0).
          parse (in_u32 d0) (\<lambda>(NumberOfPlayers, d1).
          parse (in_u8 d1) (\<lambda>(rollType, _).
            let s1 = Group_CountRollVote E g (plr_GUID me) Guid NumberOfPlayers rollType (follow g s) in
            if rollType = ROLL_NEED then gs_emit [RollAchievement (plr_GUID me) ACHIEVEMENT_CRITERIA_TYPE_ROLL_NEED 1 0] s1
            else if rollType = ROLL_GREED then gs_emit [RollAchievement (plr_GUID me) ACHIEVEMENT_CRITERIA_TYPE_ROLL_GREED 1 0] s1
            else s1) s) s) s)"

definition HandleMinimapPingOpcode :: "Player \<Rightarrow> 'z ByteBuffer_scheme \<Rightarrow> GroupState \<Rightarrow> GroupState" where
  "HandleMinimapPingOpcode me recv_data s =
     (case pr_group (refs s (plr_GUID me)) of
        None \<Rightarrow> s
      | Some g \<Rightarrow>
          parse (in_float recv_data) (\<lambda>(x, d0).
          parse (in_float d0) (\<lambda>(y, _).
            Group_BroadcastPacket (Packet MSG_MINIMAP_PING [U64 (plr_GUID me), F32 x, F32 y]) True None (plr_GUID me) g
              (follow g s)) s) s)"

definition HandleRandomRollOpcode :: "group_env \<Rightarrow> Player \<Rightarrow> 'z ByteBuffer_scheme \<Rightarrow> GroupState \<Rightarrow> GroupState" where
  "HandleRandomRollOpcode E me recv_data s =
     parse (in_u32 recv_data) (\<lambda>(minimum, d0).
     parse (in_u32 d0) (\<lambda>(maximum, _).
       if minimum > maximum \<or> maximum > 10000 then s
       else
         let roll = ge_urand E (gs_draws s) minimum maximum;
             s1 = s\<lparr>gs_draws := Suc (gs_draws s)\<rparr>;
             data = Packet MSG_RANDOM_ROLL [U32 minimum, U32 maximum, U32 roll, U64 (plr_GUID me)]
         in case pr_group (refs s1 (plr_GUID me)) of
              Some g \<Rightarrow> Group_BroadcastPacket data False None 0 g (follow g s1)
            | None \<Rightarrow> gs_emit [GroupPacket (plr_GUID me) data] s1) s) s"

definition HandleRaidTargetUpdateOpcode :: "Player \<Rightarrow> 'z ByteBuffer_scheme \<Rightarrow> GroupState \<Rightarrow> GroupState" where
  "HandleRaidTargetUpdateOpcode me recv_data s =
     (let p = plr_GUID me in
      case pr_group (refs s p) of
        None \<Rightarrow> s
      | Some g \<Rightarrow>
          parse (in_u8 recv_data) (\<lambda>(x, d0).
            let s1 = follow g s in
            if x = 0xFF then Group_SendTargetIconList p g s1
            else if Group_isRaidGroup (grp s1 g) \<and> \<not> Group_IsLeader p (grp s1 g) \<and> \<not> Group_IsAssistant p (grp s1 g) then s1
            else parse (in_u64 d0) (\<lambda>(guid, _). Group_SetTargetIcon x p guid g s1) s1) s)"

definition HandleGroupRaidConvertOpcode :: "group_env \<Rightarrow> Player \<Rightarrow> 'z ByteBuffer_scheme \<Rightarrow> GroupState \<Rightarrow> GroupState" where
  "HandleGroupRaidConvertOpcode E me recv_data s =
     (let p = plr_GUID me in
      case pr_group (refs s p) of
        None \<Rightarrow> s
      | Some g \<Rightarrow>
          if ge_InBattleground E p then s
          else
            let s1 = follow g s in
            if \<not> Group_IsLeader p (grp s1 g) \<or> Group_GetMembersCount (grp s1 g) < 2 then s1
            else
              parse (in_bool recv_data) (\<lambda>(toRaid, _).
                let s2 = SendPartyResult p PARTY_OP_INVITE [] ERR_PARTY_RESULT_OK s1 in
                if toRaid then Group_ConvertToRaid E g s2 else Group_ConvertToGroup E g s2) s1)"

definition HandleGroupChangeSubGroupOpcode :: "group_env \<Rightarrow> Player \<Rightarrow> 'z ByteBuffer_scheme \<Rightarrow> GroupState \<Rightarrow> GroupState" where
  "HandleGroupChangeSubGroupOpcode E me recv_data s =
     (let p = plr_GUID me in
      case pr_group (refs s p) of
        None \<Rightarrow> s
      | Some g \<Rightarrow>
          parse (in_string recv_data) (\<lambda>(name, d0).
          parse (in_u8 d0) (\<lambda>(groupNr, _).
            if unat groupNr \<ge> MAX_RAID_SUBGROUPS then s
            else
              let s1 = follow g s in
              if \<not> Group_IsLeader p (grp s1 g) \<and> \<not> Group_IsAssistant p (grp s1 g) then s1
              else if \<not> Group_HasFreeSlotSubGroup groupNr (grp s1 g) then s1
              else
                case FindPlayerByName (ge_world E) name of
                  Some movedPlayer \<Rightarrow>
                    if ge_isInCombat E (plr_GUID movedPlayer) then s1
                    else Group_ChangePlayersGroup E g (plr_GUID movedPlayer) groupNr s1
                | None \<Rightarrow> Group_ChangeMembersGroup E g (ge_GetPlayerGUIDByName E name) groupNr s1) s) s)"

definition HandleGroupAssistantLeaderOpcode :: "group_env \<Rightarrow> Player \<Rightarrow> 'z ByteBuffer_scheme \<Rightarrow> GroupState \<Rightarrow> GroupState" where
  "HandleGroupAssistantLeaderOpcode E me recv_data s =
     (case pr_group (refs s (plr_GUID me)) of
        None \<Rightarrow> s
      | Some g \<Rightarrow>
          parse (in_u64 recv_data) (\<lambda>(guid, d0).
          parse (in_u8 d0) (\<lambda>(flag, _).
            let s1 = follow g s in
            if \<not> Group_IsLeader (plr_GUID me) (grp s1 g) then s1 else Group_SetAssistant E g guid (flag \<noteq> 0) s1) s) s)"

definition HandlePartyAssignmentOpcode :: "group_env \<Rightarrow> Player \<Rightarrow> 'z ByteBuffer_scheme \<Rightarrow> GroupState \<Rightarrow> GroupState" where
  "HandlePartyAssignmentOpcode E me recv_data s =
     (let p = plr_GUID me in
      case pr_group (refs s p) of
        None \<Rightarrow> s
      | Some g \<Rightarrow>
          parse (in_u8 recv_data) (\<lambda>(flag, d0).
          parse (in_u8 d0) (\<lambda>(on, d1).
          parse (in_u64 d1) (\<lambda>(guid, _).
            let s1 = follow g s in
            if \<not> Group_IsLeader p (grp s1 g) \<and> \<not> Group_IsAssistant p (grp s1 g) then s1
            else if flag = 0 then Group_SetMainTank E g guid (on \<noteq> 0) s1
            else if flag = 1 then Group_SetMainAssistant E g guid (on \<noteq> 0) s1
            else s1) s) s) s)"

definition HandleRaidReadyCheckOpcode :: "group_env \<Rightarrow> Player \<Rightarrow> 'z ByteBuffer_scheme \<Rightarrow> GroupState \<Rightarrow> GroupState" where
  "HandleRaidReadyCheckOpcode E me recv_data s =
     (let p = plr_GUID me in
      case pr_group (refs s p) of
        None \<Rightarrow> s
      | Some g \<Rightarrow>
          if bb_size recv_data = 0 then
            let s1 = follow g s in
            if \<not> Group_IsLeader p (grp s1 g) \<and> \<not> Group_IsAssistant p (grp s1 g) then s1
            else Group_OfflineReadyCheck E g
                   (Group_BroadcastPacket (Packet MSG_RAID_READY_CHECK [U64 p]) False None 0 g s1)
          else
            parse (in_u8 recv_data) (\<lambda>(state, _).
              Group_BroadcastReadyCheck (Packet MSG_RAID_READY_CHECK_CONFIRM [U64 p, U8 state]) g (follow g s)) s)"

definition HandleOptOutOfLootOpcode :: "Player \<Rightarrow> 'z ByteBuffer_scheme \<Rightarrow> GroupState \<Rightarrow> GroupState" where
  "HandleOptOutOfLootOpcode me recv_data s =
     parse (in_u32 recv_data) (\<lambda>(passOnLoot, _).
       upd_refs (plr_GUID me) (\<lambda>r. r\<lparr>pr_passOnGroupLoot := (passOnLoot \<noteq> 0)\<rparr>) s) s"

definition HandleGroupSetRoles :: "group_env \<Rightarrow> Player \<Rightarrow> 'z ByteBuffer_scheme \<Rightarrow> GroupState \<Rightarrow> GroupState" where
  "HandleGroupSetRoles E me recv_data s =
     parse (in_u32 recv_data) (\<lambda>(roles, d0).
     parse (in_u64 d0) (\<lambda>(guid, _).
       case ge_GetPlayer E guid of
         None \<Rightarrow> s
       | Some plr \<Rightarrow>
           (case pr_group (refs s (plr_GUID plr)) of
              None \<Rightarrow> s
            | Some g \<Rightarrow>
                if pr_group (refs s (plr_GUID me)) \<noteq> Some g then s
                else
                  let s1 = Group_SetRoles E g (plr_GUID plr) (ucast roles) (follow g s)
                  in if Group_isLFGGroup (grp s1 g) then gs_emit [LfgUpdateRoleCheck (m_guid (grp s1 g)) guid roles] s1 else s1)) s) s"

section \<open>Loading\<close>

record group_row =
  gr_leaderGuid :: uint32
  gr_lootMethod :: uint8
  gr_looterGuid :: uint32
  gr_lootThreshold :: uint16
  gr_icons :: "uint32 list"
  gr_groupType :: uint8
  gr_difficulty :: uint8
  gr_raiddifficulty :: uint8
  gr_guid :: uint32

text \<open>Group, member, flags, sub-group, roles.\<close>

type_synonym member_row = "uint32 \<times> uint32 \<times> uint8 \<times> uint8 \<times> uint8"

definition Group_LoadMemberFromDB ::
  "group_env \<Rightarrow> group_ptr \<Rightarrow> uint32 \<Rightarrow> uint8 \<Rightarrow> uint8 \<Rightarrow> uint8 \<Rightarrow> GroupState \<Rightarrow> GroupState" where
  "Group_LoadMemberFromDB E g guidLow memberFlags subgroup roles s =
     (let guid = MAKE_NEW_GUID (ucast guidLow) 0 HIGHGUID_PLAYER in
      case GetPlayerNameByGUID (ge_world E) guid of
        None \<Rightarrow> gs_emit [GroupSql (DeleteMember guidLow)] s
      | Some name \<Rightarrow>
          upd_grp g (\<lambda>x. Group_SubGroupCounterIncrease subgroup (x\<lparr>m_memberSlots := m_memberSlots x @
            [\<lparr>ms_guid = guid, ms_name = name, ms_group = subgroup, ms_flags = memberFlags, ms_roles = roles\<rparr>]\<rparr>)) s)"

definition Group_LoadGroupFromDB :: "group_env \<Rightarrow> group_ptr \<Rightarrow> group_row \<Rightarrow> GroupState \<Rightarrow> bool \<times> GroupState" where
  "Group_LoadGroupFromDB E g row s =
     (if Group_isBGGroup (grp s g) then (False, s)
      else
        let guid = MAKE_NEW_GUID (ucast (gr_guid row)) 0 HIGHGUID_GROUP;
            lead = MAKE_NEW_GUID (ucast (gr_leaderGuid row)) 0 HIGHGUID_PLAYER;
            s1 = upd_grp g (\<lambda>x. x\<lparr>m_guid := guid, m_leaderGuid := lead\<rparr>) s
        in case GetPlayerNameByGUID (ge_world E) (ucast (gr_leaderGuid row)) of
             None \<Rightarrow> (False, s1)
           | Some name \<Rightarrow>
               (True, upd_grp g (\<lambda>x.
                  let x1 = x\<lparr>m_leaderName := name, m_lootMethod := ucast (gr_lootMethod row),
                             m_looterGuid := MAKE_NEW_GUID (ucast (gr_looterGuid row)) 0 HIGHGUID_PLAYER,
                             m_lootThreshold := ucast (gr_lootThreshold row), m_targetIcons := map ucast (gr_icons row),
                             m_groupType := gr_groupType row\<rparr>;
                      x2 = (if Group_isRaidGroup x1 then Group_initRaidSubGroupsCounter x1 else x1)
                  in x2\<lparr>m_dungeonDifficulty := (if gr_difficulty row \<ge> 3 then 0 else gr_difficulty row),
                       m_raidDifficulty := (if gr_raiddifficulty row \<ge> 4 then 0 else gr_raiddifficulty row)\<rparr>) s1))"

definition load_group :: "group_env \<Rightarrow> group_row \<Rightarrow> GroupState \<Rightarrow> GroupState" where
  "load_group E row s = (let (g, s1) = Group_alloc s in AddGroup g (snd (Group_LoadGroupFromDB E g row s1)))"

text \<open>The group is looked up again when the group column changes; it starts with 0 and the last group that was loaded.\<close>

fun load_members :: "group_env \<Rightarrow> uint32 \<Rightarrow> group_ptr option \<Rightarrow> member_row list \<Rightarrow> GroupState \<Rightarrow> GroupState" where
  "load_members E groupLowGuid t [] s = s"
| "load_members E groupLowGuid t ((low, memberGuid, memberFlags, subgroup, roles) # rows) s =
     (let (t1, s1) = (if groupLowGuid \<noteq> low then GetGroupByGUID low s else (t, s));
          s2 = (case t1 of
                  None \<Rightarrow> gs_emit [GroupLogError] s1
                | Some g \<Rightarrow> Group_LoadMemberFromDB E g memberGuid memberFlags subgroup roles s1)
      in load_members E low t1 rows s2)"

definition LoadGroups :: "group_env \<Rightarrow> group_row list \<Rightarrow> member_row list \<Rightarrow> GroupState \<Rightarrow> GroupState" where
  "LoadGroups E rows members s =
     (if rows = [] then s
      else
        let s1 = fold (load_group E) rows s
        in load_members E 0 (Some (gs_next s1 - 1)) members s1)"

end
