(* ===== verification/Group_View.thy ===== *)
theory Group_View
  imports Group_Handlers
begin

text \<open>
  What membership, invitations and pointers look like, without packets, flags, loot and difficulties: \<open>view\<close>.  Operations
  that only send, or change what the view leaves out, leave the view as it is.
\<close>

section \<open>The view\<close>

record gview =
  v_slots :: "(uint64 \<times> uint8) list"
  v_invs :: "uint64 set"
  v_leader :: uint64
  v_counts :: "uint8 list option"
  v_raid :: bool
  v_low :: uint32
  v_bg :: bool
  v_mgr :: "(uint64 \<times> ref_kind) set"

record rview =
  rv_invite :: "group_ptr option"
  rv_group :: "group_ptr option"
  rv_sub :: uint8
  rv_orig :: "group_ptr option"

record gworld =
  gw_grp :: "group_ptr \<Rightarrow> gview option"
  gw_ply :: "uint64 \<Rightarrow> rview option"
  gw_next :: group_ptr
  gw_reg :: "group_ptr set"
  gw_uaf :: bool

definition slot_view :: "MemberSlot \<Rightarrow> uint64 \<times> uint8" where
  "slot_view m = (ms_guid m, ms_group m)"

definition gview_of :: "Group \<Rightarrow> gview" where
  "gview_of x = \<lparr>v_slots = map slot_view (m_memberSlots x), v_invs = set (m_invitees x), v_leader = m_leaderGuid x,
     v_counts = m_subGroupsCounts x, v_raid = Group_isRaidGroup x, v_low = GUID_LOPART (m_guid x), v_bg = m_bgGroup x,
     v_mgr = set (m_memberMgr x)\<rparr>"

definition rview_of :: "PlayerRefs \<Rightarrow> rview" where
  "rview_of r = \<lparr>rv_invite = pr_groupInvite r, rv_group = pr_group r, rv_sub = pr_subGroup r, rv_orig = pr_originalGroup r\<rparr>"

definition view :: "GroupState \<Rightarrow> gworld" where
  "view s = \<lparr>gw_grp = (\<lambda>g. map_option gview_of (gs_groups s g)), gw_ply = (\<lambda>p. map_option rview_of (gs_players s p)),
     gw_next = gs_next s, gw_reg = set (gs_registry s), gw_uaf = gs_uaf s\<rparr>"

definition wg_upd :: "group_ptr \<Rightarrow> (gview \<Rightarrow> gview) \<Rightarrow> gworld \<Rightarrow> gworld" where
  "wg_upd g f w = w\<lparr>gw_grp := (\<lambda>h. if h = g then map_option f (gw_grp w g) else gw_grp w h)\<rparr>"

definition wp_upd :: "uint64 \<Rightarrow> (rview \<Rightarrow> rview) \<Rightarrow> gworld \<Rightarrow> gworld" where
  "wp_upd p f w = w\<lparr>gw_ply := (\<lambda>q. if q = p then map_option f (gw_ply w p) else gw_ply w q)\<rparr>"

lemma view_sel [simp]:
  "gw_grp (view s) g = map_option gview_of (gs_groups s g)" "gw_ply (view s) p = map_option rview_of (gs_players s p)"
  "gw_next (view s) = gs_next s" "gw_reg (view s) = set (gs_registry s)" "gw_uaf (view s) = gs_uaf s"
  by (simp_all add: view_def)

lemma gview_sel [simp]:
  "v_slots (gview_of x) = map slot_view (m_memberSlots x)" "v_invs (gview_of x) = set (m_invitees x)"
  "v_leader (gview_of x) = m_leaderGuid x" "v_counts (gview_of x) = m_subGroupsCounts x"
  "v_raid (gview_of x) = Group_isRaidGroup x" "v_low (gview_of x) = GUID_LOPART (m_guid x)"
  "v_bg (gview_of x) = m_bgGroup x" "v_mgr (gview_of x) = set (m_memberMgr x)"
  by (simp_all add: gview_of_def)

lemma rview_sel [simp]:
  "rv_invite (rview_of r) = pr_groupInvite r" "rv_group (rview_of r) = pr_group r" "rv_sub (rview_of r) = pr_subGroup r"
  "rv_orig (rview_of r) = pr_originalGroup r"
  by (simp_all add: rview_of_def)

lemma wg_upd_sel [simp]:
  "gw_grp (wg_upd g f w) h = (if h = g then map_option f (gw_grp w g) else gw_grp w h)"
  "gw_ply (wg_upd g f w) = gw_ply w" "gw_next (wg_upd g f w) = gw_next w" "gw_reg (wg_upd g f w) = gw_reg w"
  "gw_uaf (wg_upd g f w) = gw_uaf w"
  by (simp_all add: wg_upd_def)

lemma wp_upd_sel [simp]:
  "gw_ply (wp_upd p f w) q = (if q = p then map_option f (gw_ply w p) else gw_ply w q)"
  "gw_grp (wp_upd p f w) = gw_grp w" "gw_next (wp_upd p f w) = gw_next w" "gw_reg (wp_upd p f w) = gw_reg w"
  "gw_uaf (wp_upd p f w) = gw_uaf w"
  by (simp_all add: wp_upd_def)

lemma gworld_eqI:
  "(\<And>g. gw_grp w g = gw_grp w' g) \<Longrightarrow> (\<And>p. gw_ply w p = gw_ply w' p) \<Longrightarrow> gw_next w = gw_next w' \<Longrightarrow> gw_reg w = gw_reg w' \<Longrightarrow>
   gw_uaf w = gw_uaf w' \<Longrightarrow> w = (w' :: gworld)"
  by (rule gworld.equality) auto

section \<open>The heap\<close>

lemma gs_groups_upd_grp: "gs_groups (upd_grp g f s) h = (if h = g then map_option f (gs_groups s g) else gs_groups s h)"
  by (simp add: upd_grp_def split: option.split)

lemma gs_players_upd_refs: "gs_players (upd_refs p f s) q = (if q = p then map_option f (gs_players s p) else gs_players s q)"
  by (simp add: upd_refs_def split: option.split)

lemma upd_grp_sel [simp]:
  "gs_players (upd_grp g f s) = gs_players s" "gs_next (upd_grp g f s) = gs_next s"
  "gs_registry (upd_grp g f s) = gs_registry s" "gs_uaf (upd_grp g f s) = gs_uaf s" "gs_trace (upd_grp g f s) = gs_trace s"
  "gs_hiGroupGuid (upd_grp g f s) = gs_hiGroupGuid s" "gs_draws (upd_grp g f s) = gs_draws s"
  "gs_loots (upd_grp g f s) = gs_loots s" "gs_loot_fault (upd_grp g f s) = gs_loot_fault s"
  by (simp_all add: upd_grp_def split: option.split)

lemma upd_refs_sel [simp]:
  "gs_groups (upd_refs p f s) = gs_groups s" "gs_next (upd_refs p f s) = gs_next s"
  "gs_registry (upd_refs p f s) = gs_registry s" "gs_uaf (upd_refs p f s) = gs_uaf s" "gs_trace (upd_refs p f s) = gs_trace s"
  "gs_hiGroupGuid (upd_refs p f s) = gs_hiGroupGuid s" "gs_draws (upd_refs p f s) = gs_draws s"
  "gs_loots (upd_refs p f s) = gs_loots s" "gs_loot_fault (upd_refs p f s) = gs_loot_fault s"
  by (simp_all add: upd_refs_def split: option.split)

lemma emit_sel [simp]:
  "gs_players (gs_emit es s) = gs_players s" "gs_next (gs_emit es s) = gs_next s"
  "gs_registry (gs_emit es s) = gs_registry s" "gs_uaf (gs_emit es s) = gs_uaf s" "gs_trace (gs_emit es s) = gs_trace s @ es"
  "gs_hiGroupGuid (gs_emit es s) = gs_hiGroupGuid s" "gs_draws (gs_emit es s) = gs_draws s" "gs_loots (gs_emit es s) = gs_loots s"
  "gs_loot_fault (gs_emit es s) = gs_loot_fault s" "grp (gs_emit es s) g = grp s g" "refs (gs_emit es s) p = refs s p"
  by (simp_all add: gs_emit_def grp_def refs_def)

lemma grp_alive [simp]: "gs_groups s g = Some x \<Longrightarrow> grp s g = x"
  by (simp add: grp_def)

lemma refs_alive [simp]: "gs_players s p = Some r \<Longrightarrow> refs s p = r"
  by (simp add: refs_def)

lemma grp_upd_grp: "grp (upd_grp g f s) h = (if h = g \<and> gs_groups s g \<noteq> None then f (grp s g) else grp s h)"
  by (auto simp: grp_def gs_groups_upd_grp split: option.splits)

lemma refs_upd_refs: "refs (upd_refs p f s) q = (if q = p \<and> gs_players s p \<noteq> None then f (refs s p) else refs s q)"
  by (auto simp: refs_def gs_players_upd_refs split: option.splits)

lemma grp_upd_refs [simp]: "grp (upd_refs p f s) g = grp s g"
  by (simp add: grp_def)

lemma refs_upd_grp [simp]: "refs (upd_grp g f s) p = refs s p"
  by (simp add: refs_def)

lemma follow_alive [simp]: "gs_groups s g = Some x \<Longrightarrow> follow g s = s"
  by (simp add: follow_def)

lemma view_upd_grp: "(\<And>x. gview_of (f x) = f' (gview_of x)) \<Longrightarrow> view (upd_grp g f s) = wg_upd g f' (view s)"
  by (rule gworld_eqI) (auto simp: gs_groups_upd_grp option.map_comp comp_def)

lemma view_upd_refs: "(\<And>r. rview_of (f r) = f' (rview_of r)) \<Longrightarrow> view (upd_refs p f s) = wp_upd p f' (view s)"
  by (rule gworld_eqI) (auto simp: gs_players_upd_refs option.map_comp comp_def)

section \<open>Quiet operations\<close>

lemma view_emit [simp]: "view (gs_emit es s) = view s"
  by (rule gworld_eqI) simp_all

lemma view_same_grp: "(\<And>x. gview_of (f x) = gview_of x) \<Longrightarrow> view (upd_grp g f s) = view s"
  by (rule gworld_eqI) (auto simp: gs_groups_upd_grp option.map_comp comp_def)

lemma view_same_refs: "(\<And>r. rview_of (f r) = rview_of r) \<Longrightarrow> view (upd_refs p f s) = view s"
  by (rule gworld_eqI) (auto simp: gs_players_upd_refs option.map_comp comp_def)

lemma view_fold: "(\<And>x s. view (f x s) = view s) \<Longrightarrow> view (fold f xs s) = view s"
  by (induction xs arbitrary: s) auto

lemma view_loots [simp]: "view (s\<lparr>gs_loots := l\<rparr>) = view s" "view (s\<lparr>gs_loot_fault := b\<rparr>) = view s"
  "view (s\<lparr>gs_draws := n\<rparr>) = view s" "view (s\<lparr>gs_hiItemGuid := m\<rparr>) = view s" "view (s\<lparr>gs_hiGroupGuid := m\<rparr>) = view s"
  by (rule gworld_eqI; simp)+

lemma send_update_to_view [simp]: "view (send_update_to E g m s) = view s"
  by (auto simp: send_update_to_def gview_of_def Group_isRaidGroup_def intro!: view_same_grp split: option.split)

lemma SendUpdate_view [simp]: "view (Group_SendUpdate E g s) = view s"
  by (simp add: Group_SendUpdate_def view_fold)

lemma broadcasts_view [simp]:
  "view (Group_UpdatePlayerOutOfRange E g p s) = view s" "view (Group_BroadcastPacket d b n i g s) = view s"
  "view (Group_BroadcastReadyCheck d g s) = view s" "view (Group_BroadcastGroupUpdate E g s) = view s"
  "view (announce_leader name g s) = view s" "view (quest_objects_all E g s) = view s"
  by (simp_all add: Group_UpdatePlayerOutOfRange_def Group_BroadcastPacket_def Group_BroadcastReadyCheck_def
      Group_BroadcastGroupUpdate_def announce_leader_def quest_objects_all_def split: option.split)

lemma OfflineReadyCheck_view [simp]: "view (Group_OfflineReadyCheck E g s) = view s"
  by (simp add: Group_OfflineReadyCheck_def view_fold)

lemma store_type_view [simp]: "view (store_type E g s) = view s"
  by (simp add: store_type_def)

lemma ResetMaxEnchantingLevel_view [simp]: "view (Group_ResetMaxEnchantingLevel E g s) = view s"
  by (auto simp: Group_ResetMaxEnchantingLevel_def gview_of_def Group_isRaidGroup_def intro!: view_same_grp)

lemma homebind_view [simp]: "view (Group_homebindIfInstance E p s) = view s"
  by (auto simp: Group_homebindIfInstance_def rview_of_def intro!: view_same_refs)

lemma gview_flags [simp]:
  "gview_of (Group_ToggleGroupMemberFlag p f on x) = gview_of x" "gview_of (Group_RemoveUniqueGroupMemberFlag f x) = gview_of x"
proof -
  have "map slot_view (slot_update p (toggle_flag f on) ms) = map slot_view ms" for ms
    by (induction ms) (auto simp: slot_view_def toggle_flag_def)
  then show "gview_of (Group_ToggleGroupMemberFlag p f on x) = gview_of x"
    by (simp add: gview_of_def Group_ToggleGroupMemberFlag_def Group_isRaidGroup_def)
  show "gview_of (Group_RemoveUniqueGroupMemberFlag f x) = gview_of x"
    by (auto simp: gview_of_def Group_RemoveUniqueGroupMemberFlag_def Group_isRaidGroup_def slot_view_def toggle_flag_def)
qed

lemma store_flags_view [simp]: "view (store_flags g p s) = view s"
  by (simp add: store_flags_def split: option.split)

lemma flags_view [simp]:
  "view (Group_SetAssistant E g p on s) = view s" "view (Group_SetMainTank E g p on s) = view s"
  "view (Group_SetMainAssistant E g p on s) = view s"
  by (simp_all add: Group_SetAssistant_def Group_SetMainTank_def Group_SetMainAssistant_def set_unique_flag_def view_same_grp)

lemma SetRoles_view [simp]: "view (Group_SetRoles E g p n s) = view s"
proof -
  have "map slot_view (slot_update p (\<lambda>m. m\<lparr>ms_roles := n\<rparr>) ms) = map slot_view ms" for ms
    by (induction ms) (auto simp: slot_view_def)
  then show ?thesis by (auto simp: Group_SetRoles_def gview_of_def Group_isRaidGroup_def intro!: view_same_grp)
qed

lemma put_icon_view [simp]: "view (put_icon i a b g s) = view s"
  by (auto simp: put_icon_def gview_of_def Group_isRaidGroup_def intro!: view_same_grp)

lemma icons_view [simp]:
  "view (Group_SetTargetIcon n a b g s) = view s" "view (Group_SendTargetIconList p g s) = view s"
  by (simp_all add: Group_SetTargetIcon_def Group_SendTargetIconList_def view_fold)

lemma looter_view [simp]: "view (Group_UpdateLooterGuid E near b g s) = view s"
  by (auto simp: Group_UpdateLooterGuid_def Let_def gview_of_def Group_isRaidGroup_def intro!: view_same_grp split: option.split)

lemma difficulty_view [simp]:
  "view (Group_SetDungeonDifficulty level d g s) = view s" "view (Group_SetRaidDifficulty level d g s) = view s"
  by (auto simp: Group_SetDungeonDifficulty_def Group_SetRaidDifficulty_def Let_def gview_of_def rview_of_def
      Group_isRaidGroup_def intro!: view_same_grp view_same_refs trans [OF view_fold])

lemma SendPartyResult_view [simp]: "view (SendPartyResult p a b c s) = view s"
  by (simp add: SendPartyResult_def)

section \<open>Rolls are quiet\<close>

lemma loot_view [simp]:
  "view (upd_item l i f s) = view s" "view (unlooted_dec l s) = view s"
  "view (Group_SendLootRoll E a b c d r s) = view s" "view (Group_SendLootRollWon E a b c d r s) = view s"
  "view (Group_SendLootAllPassed E n r s) = view s" "view (Group_SendLootStartRoll E n k r s) = view s"
  by (simp_all add: upd_item_def unlooted_dec_def Group_SendLootRoll_def Group_SendLootRollWon_def
      Group_SendLootAllPassed_def Group_SendLootStartRoll_def split: option.split)

lemma roll_loop_view [simp]: "view (snd (roll_loop E P r vs best s)) = view s"
  by (induction E P r vs best s rule: roll_loop.induct) (simp_all add: Let_def)

lemma give_item_view [simp]: "view (give_item E p r s) = view s" "view (disenchant_item E p r s) = view s"
  by (simp_all add: give_item_def disenchant_item_def Let_def split: option.split)

lemma count_view [simp]: "view (count_need E r s) = view s" "view (count_greed E r s) = view s"
  by (cases "playerVote r"; simp add: count_need_def count_greed_def Let_def case_prod_unfold del: roll_loop.simps
      split: option.split)+

lemma gview_rolls [simp]: "gview_of (x\<lparr>RollId := rs\<rparr>) = gview_of x"
  by (simp add: gview_of_def Group_isRaidGroup_def)

lemma erase_roll_view [simp]: "view (erase_roll g i s) = view s" "view (upd_roll g i f s) = view s"
  by (simp_all add: erase_roll_def upd_roll_def view_same_grp)

lemma CountTheRoll_view [simp]: "view (Group_CountTheRoll E g i n s) = view s"
  by (simp add: Group_CountTheRoll_def Let_def)

lemma CountRollVote_view [simp]: "view (Group_CountRollVote E g p guid n c s) = view s"
  by (simp add: Group_CountRollVote_def send_vote_def Let_def split: option.split)

lemma EndRoll_view [simp]: "view (Group_EndRoll E g l s) = view s"
proof -
  have "view (Group_EndRoll_from E g l i s) = view s" for i
  proof (induction E g l i s rule: Group_EndRoll_from.induct)
    case (1 E g l i s)
    then show ?case by (subst Group_EndRoll_from.simps) simp
  qed
  then show ?thesis by (simp add: Group_EndRoll_def)
qed

lemma removeRolls_view [simp]: "view (Group_removeRolls E g p s) = view s"
  by (simp add: Group_removeRolls_def Group_removeRoll_def Let_def view_fold)

lemma pass_packets_view [simp]: "view (pass_packets E r s) = view s"
  by (simp add: pass_packets_def case_prod_unfold view_fold split: option.split)

lemma start_roll_view [simp]: "view (start_roll E nbg near mapid kind g l slot li item s) = view s"
  by (simp add: start_roll_def GenerateLowGuid_item_def start_timer_def Let_def view_same_grp)

lemma starting_view [simp]:
  "view (Group_GroupLoot E near mapid kind g l s) = view s" "view (Group_NeedBeforeGreed E near mapid kind g l s) = view s"
  by (simp_all add: Group_GroupLoot_def Group_NeedBeforeGreed_def roll_item_def view_fold split: option.split)

lemma Loot_clear_view [simp]: "view (Loot_clear l s) = view s"
  by (rule gworld_eqI) (simp_all add: Loot_clear_def option.map_comp comp_def)

end
