(* ===== verification/Group_Moves.thy ===== *)
theory Group_Moves
  imports Group_View
begin

text \<open>
  Groups as a state machine on the view: one rule for each way in which memberships, invitations and pointers change.  The
  invariant \<open>ginv\<close> says that players and groups agree, that the counters of the sub-groups are exact, that nobody is in two groups
  and that no pointer dangles.
\<close>

section \<open>Members\<close>

definition mems :: "gview \<Rightarrow> uint64 set" where
  "mems v = fst ` set (v_slots v)"

lemma memsI: "(p, n) \<in> set (v_slots v) \<Longrightarrow> p \<in> mems v"
  by (force simp: mems_def)

lemma memsE: "p \<in> mems v \<Longrightarrow> (\<And>n. (p, n) \<in> set (v_slots v) \<Longrightarrow> P) \<Longrightarrow> P"
  by (auto simp: mems_def)

lemma mems_upd [simp]:
  "mems (v\<lparr>v_invs := I\<rparr>) = mems v" "mems (v\<lparr>v_low := l\<rparr>) = mems v" "mems (v\<lparr>v_leader := q\<rparr>) = mems v"
  "mems (v\<lparr>v_mgr := M\<rparr>) = mems v" "mems (v\<lparr>v_counts := c\<rparr>) = mems v" "mems (v\<lparr>v_raid := b\<rparr>) = mems v"
  by (simp_all add: mems_def)

lemma mems_empty: "mems v = {} \<longleftrightarrow> v_slots v = []"
  by (simp add: mems_def)

section \<open>Changes\<close>

definition set_invite :: "group_ptr \<Rightarrow> uint64 \<Rightarrow> gworld \<Rightarrow> gworld" where
  "set_invite g q w = wp_upd q (\<lambda>r. r\<lparr>rv_invite := Some g\<rparr>) (wg_upd g (\<lambda>v. v\<lparr>v_invs := insert q (v_invs v)\<rparr>) w)"

definition drop_invite :: "group_ptr \<Rightarrow> uint64 \<Rightarrow> gworld \<Rightarrow> gworld" where
  "drop_invite g q w = wp_upd q (\<lambda>r. r\<lparr>rv_invite := None\<rparr>) (wg_upd g (\<lambda>v. v\<lparr>v_invs := v_invs v - {q}\<rparr>) w)"

definition view_new :: "uint64 \<Rightarrow> gview" where
  "view_new p = \<lparr>v_slots = [], v_invs = {}, v_leader = p, v_counts = None, v_raid = False, v_low = 0, v_bg = False, v_mgr = {}\<rparr>"

definition cnt_inc :: "uint8 \<Rightarrow> uint8 list option \<Rightarrow> uint8 list option" where
  "cnt_inc n = map_option (\<lambda>c. c[unat n := c ! unat n + 1])"

definition cnt_dec :: "uint8 \<Rightarrow> uint8 list option \<Rightarrow> uint8 list option" where
  "cnt_dec n = map_option (\<lambda>c. c[unat n := c ! unat n - 1])"

definition enter :: "group_ptr \<Rightarrow> uint64 \<Rightarrow> uint8 \<Rightarrow> gworld \<Rightarrow> gworld" where
  "enter g q n w =
     wp_upd q (\<lambda>r. r\<lparr>rv_group := Some g, rv_sub := n\<rparr>)
       (wg_upd g (\<lambda>v. v\<lparr>v_slots := v_slots v @ [(q, n)], v_counts := cnt_inc n (v_counts v),
                       v_mgr := insert (q, GroupRef) (v_mgr v)\<rparr>) w)"

definition leave :: "group_ptr \<Rightarrow> uint64 \<Rightarrow> uint8 \<Rightarrow> gworld \<Rightarrow> gworld" where
  "leave g p n w =
     wp_upd p (\<lambda>r. if rv_group r = Some g then r\<lparr>rv_group := None\<rparr> else r)
       (wg_upd g (\<lambda>v. let sl = filter (\<lambda>x. fst x \<noteq> p) (v_slots v)
                      in v\<lparr>v_slots := sl, v_counts := cnt_dec n (v_counts v), v_mgr := v_mgr v - {(p, GroupRef)},
                           v_leader := (if v_leader v = p then fst (hd sl) else v_leader v)\<rparr>) w)"

definition unref :: "group_ptr \<Rightarrow> rview \<Rightarrow> rview" where
  "unref g r = r\<lparr>rv_invite := (if rv_invite r = Some g then None else rv_invite r),
     rv_group := (if rv_group r = Some g then None else rv_group r)\<rparr>"

definition dissolve :: "group_ptr \<Rightarrow> gworld \<Rightarrow> gworld" where
  "dissolve g w =
     w\<lparr>gw_grp := (gw_grp w)(g := None),
       gw_ply := (\<lambda>p. map_option (unref g) (gw_ply w p)),
       gw_reg := gw_reg w - {g}\<rparr>"

definition init_counts :: "(uint64 \<times> uint8) list \<Rightarrow> uint8 list" where
  "init_counts sl = fold (\<lambda>x c. c[unat (snd x) := c ! unat (snd x) + 1]) sl (replicate 8 0)"

definition reslot :: "uint64 \<Rightarrow> uint8 \<Rightarrow> (uint64 \<times> uint8) list \<Rightarrow> (uint64 \<times> uint8) list" where
  "reslot p n = map (\<lambda>x. if fst x = p then (p, n) else x)"

definition regroup :: "group_ptr \<Rightarrow> uint64 \<Rightarrow> uint8 \<Rightarrow> uint8 \<Rightarrow> gworld \<Rightarrow> gworld" where
  "regroup g p m n w =
     wp_upd p (\<lambda>r. r\<lparr>rv_sub := n\<rparr>)
       (wg_upd g (\<lambda>v. v\<lparr>v_slots := reslot p n (v_slots v), v_counts := cnt_dec m (cnt_inc n (v_counts v))\<rparr>) w)"

definition arrive :: "uint64 \<Rightarrow> rview \<Rightarrow> gworld \<Rightarrow> gworld" where
  "arrive p r w = w\<lparr>gw_ply := (gw_ply w)(p := Some r)\<rparr>"

definition no_refs :: rview where
  "no_refs = \<lparr>rv_invite = None, rv_group = None, rv_sub = 0, rv_orig = None\<rparr>"

definition depart :: "uint64 \<Rightarrow> gworld \<Rightarrow> gworld" where
  "depart p w =
     w\<lparr>gw_ply := (gw_ply w)(p := None),
       gw_grp := (\<lambda>g. map_option (\<lambda>v. v\<lparr>v_mgr := v_mgr v - {(p, GroupRef)}\<rparr>) (gw_grp w g))\<rparr>"

lemmas change_defs = set_invite_def drop_invite_def enter_def leave_def dissolve_def regroup_def arrive_def depart_def

section \<open>Moves\<close>

definition free :: "uint64 \<Rightarrow> gworld \<Rightarrow> bool" where
  "free q w \<longleftrightarrow> (\<exists>r. gw_ply w q = Some r \<and> rv_invite r = None \<and> rv_group r = None)"

definition room :: "uint8 \<Rightarrow> gview \<Rightarrow> bool" where
  "room n v = (case v_counts v of None \<Rightarrow> n = 0 \<and> length (v_slots v) < 5 | Some c \<Rightarrow> unat n < 8 \<and> unat (c ! unat n) < 5)"

inductive gmove :: "gworld \<Rightarrow> gworld \<Rightarrow> bool" where
  invite: "gw_grp w g = Some v \<Longrightarrow> v_slots v \<noteq> [] \<Longrightarrow> free q w \<Longrightarrow> gmove w (set_invite g q w)"
| found: "free p w \<Longrightarrow> free q w \<Longrightarrow> p \<noteq> q \<Longrightarrow> gw_next w = g \<Longrightarrow>
    gmove w (set_invite g q (set_invite g p (w\<lparr>gw_grp := (gw_grp w)(g := Some (view_new p)), gw_next := Suc g\<rparr>)))"
| waste: "gmove w (w\<lparr>gw_next := Suc (gw_next w)\<rparr>)"
| uninvite: "gw_grp w g = Some v \<Longrightarrow> v_slots v \<noteq> [] \<Longrightarrow> q \<in> v_invs v \<Longrightarrow> gmove w (drop_invite g q w)"
| join: "gw_grp w g = Some v \<Longrightarrow> v_slots v \<noteq> [] \<Longrightarrow> q \<in> v_invs v \<Longrightarrow> room n v \<Longrightarrow>
    gmove w (enter g q n (drop_invite g q w))"
| create: "gw_grp w g = Some v \<Longrightarrow> v_slots v = [] \<Longrightarrow> q \<in> v_invs v \<Longrightarrow> l = v_leader v \<Longrightarrow> l \<noteq> q \<Longrightarrow>
    gmove w (enter g q 0 (enter g l 0 (drop_invite g l (drop_invite g q
      (wg_upd g (\<lambda>v. v\<lparr>v_low := low\<rparr>) (w\<lparr>gw_reg := insert g (gw_reg w)\<rparr>))))))"
| leave: "gw_grp w g = Some v \<Longrightarrow> (p, n) \<in> set (v_slots v) \<Longrightarrow> 2 < length (v_slots v) \<Longrightarrow> gmove w (leave g p n w)"
| dissolve: "gw_grp w g = Some v \<Longrightarrow> gmove w (dissolve g w)"
| lead: "gw_grp w g = Some v \<Longrightarrow> p \<in> mems v \<Longrightarrow> gmove w (wg_upd g (\<lambda>v. v\<lparr>v_leader := p\<rparr>) w)"
| raid: "gw_grp w g = Some v \<Longrightarrow> v_slots v \<noteq> [] \<Longrightarrow>
    gmove w (wg_upd g (\<lambda>v. v\<lparr>v_raid := True, v_counts := Some (init_counts (v_slots v))\<rparr>) w)"
| party: "gw_grp w g = Some v \<Longrightarrow> v_slots v \<noteq> [] \<Longrightarrow> length (v_slots v) \<le> 5 \<Longrightarrow>
    gmove w (wg_upd g (\<lambda>v. v\<lparr>v_raid := False, v_counts := None\<rparr>) w)"
| regroup: "gw_grp w g = Some v \<Longrightarrow> (p, m) \<in> set (v_slots v) \<Longrightarrow> v_raid v \<Longrightarrow> room n v \<Longrightarrow> m \<noteq> n \<Longrightarrow> gmove w (regroup g p m n w)"
| login: "gw_ply w p = None \<Longrightarrow> p \<noteq> 0 \<Longrightarrow> (\<forall>g v. gw_grp w g = Some v \<longrightarrow> p \<notin> mems v) \<Longrightarrow>
    gmove w (arrive p no_refs w)"
| relog: "gw_ply w p = None \<Longrightarrow> p \<noteq> 0 \<Longrightarrow> gw_grp w g = Some v \<Longrightarrow> (p, n) \<in> set (v_slots v) \<Longrightarrow>
    gmove w (wg_upd g (\<lambda>v. v\<lparr>v_mgr := insert (p, GroupRef) (v_mgr v)\<rparr>)
      (arrive p (no_refs\<lparr>rv_group := Some g, rv_sub := n\<rparr>) w))"
| logout: "gw_ply w p = Some r \<Longrightarrow> rv_invite r = None \<Longrightarrow> gmove w (depart p w)"

inductive gmoves :: "gworld \<Rightarrow> gworld \<Rightarrow> bool" where
  none: "gmoves w w"
| more: "gmoves w w' \<Longrightarrow> gmove w' w'' \<Longrightarrow> gmoves w w''"

lemma gmoves_one: "gmove w w' \<Longrightarrow> gmoves w w'"
  by (rule gmoves.more [OF gmoves.none])

lemma gmoves_trans: assumes "gmoves w w'" "gmoves w' w''" shows "gmoves w w''"
  using assms(2,1) by (induction rule: gmoves.induct) (auto intro: gmoves.intros)

section \<open>The invariant\<close>

definition occ :: "nat \<Rightarrow> (uint64 \<times> uint8) list \<Rightarrow> nat" where
  "occ i sl = length (filter (\<lambda>x. unat (snd x) = i) sl)"

definition gok :: "gview \<Rightarrow> bool" where
  "gok v \<longleftrightarrow> distinct (map fst (v_slots v)) \<and> (\<forall>x \<in> set (v_slots v). unat (snd x) < 8 \<and> fst x \<noteq> 0) \<and>
     (\<forall>i. occ i (v_slots v) \<le> 5) \<and> \<not> v_bg v \<and>
     (case v_counts v of
        None \<Rightarrow> \<not> v_raid v \<and> length (v_slots v) \<le> 5
      | Some c \<Rightarrow> v_raid v \<and> length c = 8 \<and> (\<forall>i<8. unat (c ! i) = occ i (v_slots v)))"

definition group_shape :: "group_ptr \<Rightarrow> gview \<Rightarrow> gworld \<Rightarrow> bool" where
  "group_shape g v w =
     (if v_slots v = [] then v_leader v \<in> v_invs v \<and> g \<notin> gw_reg w \<and> \<not> v_raid v
      else v_leader v \<in> mems v \<and> 2 \<le> length (v_slots v) \<and> g \<in> gw_reg w)"

definition linked :: "gworld \<Rightarrow> uint64 \<Rightarrow> group_ptr \<Rightarrow> bool" where
  "linked w p g \<longleftrightarrow> (\<exists>r. gw_ply w p = Some r \<and> rv_group r = Some g)"

definition ply_ok :: "gworld \<Rightarrow> uint64 \<Rightarrow> rview \<Rightarrow> bool" where
  "ply_ok w p r \<longleftrightarrow> p \<noteq> 0 \<and> rv_orig r = None \<and>
     (\<forall>g. rv_group r = Some g \<longrightarrow> (\<exists>v. gw_grp w g = Some v \<and> (p, rv_sub r) \<in> set (v_slots v))) \<and>
     (\<forall>g. rv_invite r = Some g \<longrightarrow> rv_group r = None \<and> (\<exists>v. gw_grp w g = Some v \<and> p \<in> v_invs v))"

definition grp_ok :: "gworld \<Rightarrow> group_ptr \<Rightarrow> gview \<Rightarrow> bool" where
  "grp_ok w g v \<longleftrightarrow> gok v \<and> g < gw_next w \<and>
     (\<forall>p r. gw_ply w p = Some r \<longrightarrow> p \<in> mems v \<longrightarrow> rv_group r = Some g) \<and>
     (\<forall>p \<in> v_invs v. \<exists>r. gw_ply w p = Some r \<and> rv_invite r = Some g) \<and>
     (\<forall>p k. (p, k) \<in> v_mgr v \<longleftrightarrow> k = GroupRef \<and> linked w p g)"

definition one_group :: "gworld \<Rightarrow> bool" where
  "one_group w \<longleftrightarrow> (\<forall>g h v u p. gw_grp w g = Some v \<longrightarrow> gw_grp w h = Some u \<longrightarrow> p \<in> mems v \<longrightarrow> p \<in> mems u \<longrightarrow> g = h)"

definition gbase :: "gworld \<Rightarrow> bool" where
  "gbase w \<longleftrightarrow> \<not> gw_uaf w \<and> one_group w \<and> (\<forall>g \<in> gw_reg w. gw_grp w g \<noteq> None) \<and>
     (\<forall>p r. gw_ply w p = Some r \<longrightarrow> ply_ok w p r) \<and> (\<forall>g v. gw_grp w g = Some v \<longrightarrow> grp_ok w g v)"

definition ginv :: "gworld \<Rightarrow> bool" where
  "ginv w \<longleftrightarrow> gbase w \<and> (\<forall>g v. gw_grp w g = Some v \<longrightarrow> group_shape g v w)"

lemma ginv_base: "ginv w \<Longrightarrow> gbase w"
  by (simp add: ginv_def)

lemma ginv_shape: "ginv w \<Longrightarrow> gw_grp w g = Some v \<Longrightarrow> group_shape g v w"
  by (simp add: ginv_def)

lemma gbase_ply: "gbase w \<Longrightarrow> gw_ply w p = Some r \<Longrightarrow> ply_ok w p r"
  by (simp add: gbase_def)

lemma gbase_grp: "gbase w \<Longrightarrow> gw_grp w g = Some v \<Longrightarrow> grp_ok w g v"
  by (simp add: gbase_def)

lemma gbaseI:
  "\<not> gw_uaf w \<Longrightarrow> one_group w \<Longrightarrow> (\<And>g. g \<in> gw_reg w \<Longrightarrow> gw_grp w g \<noteq> None) \<Longrightarrow> (\<And>p r. gw_ply w p = Some r \<Longrightarrow> ply_ok w p r) \<Longrightarrow>
   (\<And>g v. gw_grp w g = Some v \<Longrightarrow> grp_ok w g v) \<Longrightarrow> gbase w"
  by (simp add: gbase_def)

section \<open>Counters\<close>

lemma occ_simps [simp]:
  "occ i [] = 0" "occ i (x # sl) = of_bool (unat (snd x) = i) + occ i sl" "occ i (sl @ tl') = occ i sl + occ i tl'"
  by (simp_all add: occ_def)

lemma distinct_head:
  assumes "distinct (map fst (x # sl))" "(p, n) \<in> set (x # sl)" "fst x = p"
  shows "x = (p, n)" "p \<notin> fst ` set sl"
proof -
  show "p \<notin> fst ` set sl" using assms(1,3) by auto
  then have "(p, n) \<notin> set sl" by force
  with assms(2) show "x = (p, n)" by simp
qed

lemma remove_absent: "p \<notin> fst ` set sl \<Longrightarrow> filter (\<lambda>x. fst x \<noteq> p) sl = sl"
  by (auto simp: filter_id_conv)

lemma length_remove:
  "distinct (map fst sl) \<Longrightarrow> (p, n) \<in> set sl \<Longrightarrow> Suc (length (filter (\<lambda>x. fst x \<noteq> p) sl)) = length sl"
proof (induction sl)
  case Nil
  then show ?case by simp
next
  case (Cons x sl)
  show ?case
  proof (cases "fst x = p")
    case True
    from distinct_head [OF Cons.prems True] True show ?thesis by (simp add: remove_absent)
  next
    case False
    with Cons show ?thesis by auto
  qed
qed

lemma occ_remove:
  "distinct (map fst sl) \<Longrightarrow> (p, n) \<in> set sl \<Longrightarrow> occ i (filter (\<lambda>x. fst x \<noteq> p) sl) + of_bool (unat n = i) = occ i sl"
proof (induction sl)
  case Nil
  then show ?case by simp
next
  case (Cons x sl)
  show ?case
  proof (cases "fst x = p")
    case True
    from distinct_head [OF Cons.prems True] show ?thesis by (simp add: remove_absent add.commute)
  next
    case False
    with Cons show ?thesis by auto
  qed
qed

lemma occ_reslot:
  "distinct (map fst sl) \<Longrightarrow> (p, m) \<in> set sl \<Longrightarrow>
   occ i (reslot p n sl) + of_bool (unat m = i) = occ i sl + of_bool (unat n = i)"
proof (induction sl)
  case Nil
  then show ?case by simp
next
  case (Cons x sl)
  show ?case
  proof (cases "fst x = p")
    case True
    note h = distinct_head [OF Cons.prems True]
    then have "reslot p n sl = sl" unfolding reslot_def by (intro map_idI) auto
    with h show ?thesis by (simp add: reslot_def)
  next
    case False
    with Cons show ?thesis by (auto simp: reslot_def)
  qed
qed

lemma keys_reslot [simp]: "map fst (reslot p n sl) = map fst sl"
  by (induction sl) (auto simp: reslot_def)

lemma length_reslot [simp]: "length (reslot p n sl) = length sl" "reslot p n sl = [] \<longleftrightarrow> sl = []"
  by (simp_all add: reslot_def)

lemma set_reslot: "x \<in> set (reslot p n sl) \<Longrightarrow> x = (p, n) \<or> x \<in> set sl"
  by (auto simp: reslot_def split: if_splits)

lemma in_reslot: "(p, m) \<in> set sl \<Longrightarrow> (p, n) \<in> set (reslot p n sl)"
  by (force simp: reslot_def)

lemma reslot_other: "q \<noteq> p \<Longrightarrow> (q, m) \<in> set (reslot p n sl) \<longleftrightarrow> (q, m) \<in> set sl"
  by (auto simp: reslot_def image_iff split: if_splits)

lemma unat_inc8: "unat (x :: uint8) < 5 \<Longrightarrow> unat (x + 1) = unat x + 1"
  by (rule unat_plus_simple [THEN iffD1, THEN trans]) (auto simp: word_le_nat_alt unat_word_ariths)

lemma unat_dec8: "0 < unat (x :: uint8) \<Longrightarrow> unat (x - 1) = unat x - 1"
  by (simp add: unat_minus_one unat_gt_0)

lemma init_counts_gen:
  "length c = 8 \<Longrightarrow> (\<forall>i<8. unat (c ! i) + occ i sl \<le> 5) \<Longrightarrow> (\<forall>x \<in> set sl. unat (snd x) < 8) \<Longrightarrow>
   length (fold (\<lambda>x c. c[unat (snd x) := c ! unat (snd x) + 1]) sl c) = 8 \<and>
   (\<forall>i<8. unat (fold (\<lambda>x c. c[unat (snd x) := c ! unat (snd x) + 1]) sl c ! i) = unat ((c :: uint8 list) ! i) + occ i sl)"
proof (induction sl arbitrary: c)
  case Nil
  then show ?case by simp
next
  case (Cons x sl)
  let ?k = "unat (snd x)"
  let ?c = "c[?k := c ! ?k + 1]"
  from Cons.prems have k: "?k < 8" by simp
  with Cons.prems(2) have "unat (c ! ?k) < 5" by fastforce
  then have inc: "unat (?c ! i) = unat (c ! i) + of_bool (?k = i)" if "i < 8" for i
    using k that Cons.prems(1) by (auto simp: nth_list_update unat_inc8)
  have "length ?c = 8" "\<forall>i<8. unat (?c ! i) + occ i sl \<le> 5"
    using Cons.prems by (auto simp: inc add.assoc)
  from Cons.IH [OF this] Cons.prems(3) show ?case by (simp add: inc add.assoc)
qed

lemma init_counts_exact:
  "(\<forall>i. occ i sl \<le> 5) \<Longrightarrow> (\<forall>x \<in> set sl. unat (snd x) < 8) \<Longrightarrow>
   length (init_counts sl) = 8 \<and> (\<forall>i<8. unat (init_counts sl ! i) = occ i sl)"
  using init_counts_gen [of "replicate 8 0" sl] by (simp add: init_counts_def)

section \<open>One group\<close>

lemma occ_le_length: "occ i sl \<le> length sl"
  by (simp add: occ_def)

lemma gok_enter:
  assumes "gok v" "room n v" "q \<notin> mems v" "q \<noteq> 0"
  shows "gok (v\<lparr>v_slots := v_slots v @ [(q, n)], v_counts := cnt_inc n (v_counts v), v_mgr := M, v_invs := I\<rparr>)"
proof (cases "v_counts v")
  case None
  with assms have l: "length (v_slots v @ [(q, n)]) \<le> 5" by (simp add: room_def)
  have "occ i (v_slots v @ [(q, n)]) \<le> 5" for i using le_trans [OF occ_le_length l] .
  with None assms l show ?thesis
    by (auto simp: gok_def room_def cnt_inc_def mems_def simp del: occ_simps)
next
  case (Some c)
  with assms have "unat n < 8" "unat (c ! unat n) < 5" "length c = 8" by (auto simp: room_def gok_def)
  with Some assms show ?thesis
    by (auto simp: gok_def cnt_inc_def nth_list_update unat_inc8 mems_def)
qed

lemma gok_leave:
  assumes "gok v" "(p, n) \<in> set (v_slots v)"
  shows "gok (v\<lparr>v_slots := filter (\<lambda>x. fst x \<noteq> p) (v_slots v), v_counts := cnt_dec n (v_counts v), v_mgr := M, v_leader := l\<rparr>)"
proof -
  let ?sl = "filter (\<lambda>x. fst x \<noteq> p) (v_slots v)"
  have o: "occ i ?sl + of_bool (unat n = i) = occ i (v_slots v)" for i
    using assms by (intro occ_remove) (auto simp: gok_def)
  then have "occ i ?sl \<le> occ i (v_slots v)" for i by (metis le_add1)
  with assms(1) have five: "occ i ?sl \<le> 5" for i unfolding gok_def by (meson le_trans)
  have d: "distinct (map fst ?sl)" using assms(1) by (simp add: gok_def distinct_map_filter)
  show ?thesis
  proof (cases "v_counts v")
    case None
    moreover have "length ?sl \<le> 5"
      using None assms(1) by (simp add: gok_def le_trans [OF length_filter_le])
    ultimately show ?thesis using assms(1) five d by (auto simp: gok_def cnt_dec_def)
  next
    case (Some c)
    have n: "unat n < 8" using assms by (fastforce simp: gok_def)
    have c: "length c = 8" "\<And>i. i < 8 \<Longrightarrow> unat (c ! i) = occ i (v_slots v)" using Some assms(1) by (auto simp: gok_def)
    have "0 < unat (c ! unat n)" using c(2) [OF n] o [of "unat n"] by simp
    then have "unat (c[unat n := c ! unat n - 1] ! i) = occ i ?sl" if "i < 8" for i
      using c o [of i] n that by (auto simp: nth_list_update unat_dec8)
    with Some c assms(1) five d show ?thesis by (auto simp: gok_def cnt_dec_def)
  qed
qed

lemma gok_regroup:
  assumes "gok v" "(p, m) \<in> set (v_slots v)" "v_raid v" "room n v" "m \<noteq> n"
  shows "gok (v\<lparr>v_slots := reslot p n (v_slots v), v_counts := cnt_dec m (cnt_inc n (v_counts v))\<rparr>)"
proof -
  let ?sl = "reslot p n (v_slots v)"
  from assms(1,3) obtain c where c: "v_counts v = Some c" "length c = 8" "\<And>i. i < 8 \<Longrightarrow> unat (c ! i) = occ i (v_slots v)"
    by (auto simp: gok_def split: option.splits)
  from assms(4) c have n: "unat n < 8" "unat (c ! unat n) < 5" by (auto simp: room_def)
  have m: "unat m < 8" using assms(1,2) by (fastforce simp: gok_def)
  have mn: "unat m \<noteq> unat n" using assms(5) by (simp add: word_unat_eq_iff)
  have o: "occ i ?sl + of_bool (unat m = i) = occ i (v_slots v) + of_bool (unat n = i)" for i
    using assms by (intro occ_reslot) (auto simp: gok_def)
  have "0 < unat (c ! unat m)" using c(3) [OF m] o [of "unat m"] mn by simp
  then have ex: "unat (c[unat n := c ! unat n + 1, unat m := c[unat n := c ! unat n + 1] ! unat m - 1] ! i) = occ i ?sl"
    if "i < 8" for i
    using c o [of i] n m mn that by (auto simp: nth_list_update unat_dec8 unat_inc8)
  have "occ i (v_slots v) \<le> 5" for i using assms(1) by (simp add: gok_def)
  then have "occ i ?sl \<le> 5" for i
    using o [of i] c(3) [OF n(1)] n by (cases "unat n = i"; simp) (metis le_add1 le_trans)
  moreover have "p \<noteq> 0" using assms(1,2) by (fastforce simp: gok_def)
  ultimately show ?thesis using ex c assms(1,3) n
    by (auto simp: gok_def cnt_dec_def cnt_inc_def dest!: set_reslot)
qed

lemma gok_raid:
  assumes "gok v" shows "gok (v\<lparr>v_raid := True, v_counts := Some (init_counts (v_slots v))\<rparr>)"
  using assms init_counts_exact [of "v_slots v"] by (auto simp: gok_def)

section \<open>Players and groups agree\<close>

lemma mems_slots [simp]:
  "mems (u\<lparr>v_slots := v_slots v @ [(q, n)]\<rparr>) = insert q (mems v)"
  "mems (u\<lparr>v_slots := filter (\<lambda>x. fst x \<noteq> q) (v_slots v)\<rparr>) = mems v - {q}"
  "mems (u\<lparr>v_slots := reslot q n (v_slots v)\<rparr>) = mems v"
proof -
  show "mems (u\<lparr>v_slots := reslot q n (v_slots v)\<rparr>) = mems v"
    by (simp add: mems_def flip: set_map)
qed (auto simp: mems_def)

lemma slot_unique: "gok v \<Longrightarrow> (p, n) \<in> set (v_slots v) \<Longrightarrow> (p, m) \<in> set (v_slots v) \<Longrightarrow> n = m"
  by (auto simp: gok_def dest: eq_key_imp_eq_value)

lemma gbase_sub:
  assumes "gbase w" "gw_ply w p = Some r" "gw_grp w g = Some v" "(p, n) \<in> set (v_slots v)"
  shows "rv_group r = Some g" "rv_sub r = n"
proof -
  have "grp_ok w g v" using assms(1,3) by (rule gbase_grp)
  with assms(2) memsI [OF assms(4)] show g: "rv_group r = Some g" by (auto simp: grp_ok_def)
  with gbase_ply [OF assms(1,2)] assms(3) have "(p, rv_sub r) \<in> set (v_slots v)" by (auto simp: ply_ok_def)
  with assms(4) \<open>grp_ok w g v\<close> show "rv_sub r = n" by (auto simp: grp_ok_def dest: slot_unique)
qed

lemma gbase_not_member:
  assumes "gbase w" "gw_ply w p = Some r" "rv_group r = None" "gw_grp w g = Some v"
  shows "p \<notin> mems v"
  using gbase_grp [OF assms(1,4)] assms(2,3) by (auto simp: grp_ok_def)

lemma gbase_invited:
  assumes "gbase w" "gw_grp w g = Some v" "q \<in> v_invs v"
  obtains r where "gw_ply w q = Some r" "rv_invite r = Some g" "rv_group r = None" "q \<noteq> 0"
proof -
  obtain r where r: "gw_ply w q = Some r" "rv_invite r = Some g"
    using gbase_grp [OF assms(1,2)] assms(3) by (auto simp: grp_ok_def)
  moreover have "rv_group r = None" "q \<noteq> 0" using gbase_ply [OF assms(1) r(1)] r(2) by (auto simp: ply_ok_def)
  ultimately show ?thesis using that by blast
qed

lemma gok_other [simp]: "gok (v\<lparr>v_invs := I\<rparr>) = gok v" "gok (v\<lparr>v_low := l\<rparr>) = gok v" "gok (v\<lparr>v_leader := p\<rparr>) = gok v"
  "gok (v\<lparr>v_mgr := M\<rparr>) = gok v"
  by (simp_all add: gok_def split: option.split)

lemma linked_wg [simp]: "linked (wg_upd g f w) p h = linked w p h"
  by (simp add: linked_def)

lemma linked_wp: "linked (wp_upd q f w) p h = (if p = q then \<exists>r. gw_ply w q = Some r \<and> rv_group (f r) = Some h else linked w p h)"
  by (auto simp: linked_def)

lemma one_group_mono:
  assumes "gbase w" "\<And>g v'. gw_grp w' g = Some v' \<Longrightarrow> mems v' = {} \<or> (\<exists>v. gw_grp w g = Some v \<and> mems v' \<subseteq> mems v)"
  shows "one_group w'"
  unfolding one_group_def
proof (intro allI impI)
  fix g h v u p
  assume "gw_grp w' g = Some v" "gw_grp w' h = Some u" "p \<in> mems v" "p \<in> mems u"
  with assms(2) obtain v1 u1 where "gw_grp w g = Some v1" "p \<in> mems v1" "gw_grp w h = Some u1" "p \<in> mems u1" by blast
  with assms(1) show "g = h" by (auto simp: gbase_def one_group_def)
qed

section \<open>Invitations\<close>

lemma set_invite_base:
  assumes base: "gbase w" and g: "gw_grp w g = Some v" and q: "free q w"
  shows "gbase (set_invite g q w)"
proof -
  obtain r where r: "gw_ply w q = Some r" "rv_invite r = None" "rv_group r = None" using q by (auto simp: free_def)
  let ?w = "set_invite g q w"
  have lnk: "linked ?w p h = linked w p h" for p h
    using r by (auto simp: set_invite_def linked_wp linked_def)
  show ?thesis
  proof (rule gbaseI)
    show "\<not> gw_uaf ?w" using base by (simp add: gbase_def set_invite_def)
    show "one_group ?w" using base by (rule one_group_mono) (auto simp: set_invite_def split: if_splits)
    show "gw_grp ?w h \<noteq> None" if "h \<in> gw_reg ?w" for h using base that by (auto simp: gbase_def set_invite_def)
    show "ply_ok ?w p rp" if "gw_ply ?w p = Some rp" for p rp
      using that gbase_ply [OF base] g r by (fastforce simp: set_invite_def ply_ok_def split: if_splits)
    show "grp_ok ?w h u" if h: "gw_grp ?w h = Some u" for h u
    proof -
      obtain u0 where u0: "gw_grp w h = Some u0" "u = u0 \<or> h = g \<and> u = u0\<lparr>v_invs := insert q (v_invs u0)\<rparr>"
        using h g by (auto simp: set_invite_def split: if_splits)
      have "grp_ok w h u0" using base u0(1) by (rule gbase_grp)
      with u0 g r show ?thesis
        unfolding grp_ok_def lnk by (auto simp: set_invite_def split: if_splits)
    qed
  qed
qed

lemma drop_invite_base:
  assumes base: "gbase w" and g: "gw_grp w g = Some v" and q: "q \<in> v_invs v"
  shows "gbase (drop_invite g q w)"
proof -
  obtain r where r: "gw_ply w q = Some r" "rv_invite r = Some g" "rv_group r = None" "q \<noteq> 0"
    using gbase_invited [OF base g q] .
  let ?w = "drop_invite g q w"
  have lnk: "linked ?w p h = linked w p h" for p h
    using r by (auto simp: drop_invite_def linked_wp linked_def)
  show ?thesis
  proof (rule gbaseI)
    show "\<not> gw_uaf ?w" using base by (simp add: gbase_def drop_invite_def)
    show "one_group ?w" using base by (rule one_group_mono) (auto simp: drop_invite_def split: if_splits)
    show "gw_grp ?w h \<noteq> None" if "h \<in> gw_reg ?w" for h using base that by (auto simp: gbase_def drop_invite_def)
    show "ply_ok ?w p rp" if "gw_ply ?w p = Some rp" for p rp
      using that gbase_ply [OF base] g r by (fastforce simp: drop_invite_def ply_ok_def split: if_splits)
    show "grp_ok ?w h u" if h: "gw_grp ?w h = Some u" for h u
    proof -
      obtain u0 where u0: "gw_grp w h = Some u0" "h \<noteq> g \<and> u = u0 \<or> h = g \<and> u = u0\<lparr>v_invs := v_invs u0 - {q}\<rparr>"
        using h g by (auto simp: drop_invite_def split: if_splits)
      have "grp_ok w h u0" using base u0(1) by (rule gbase_grp)
      with u0 g r show ?thesis
        unfolding grp_ok_def lnk by (auto simp: drop_invite_def split: if_splits)
    qed
  qed
qed

section \<open>Members come and go\<close>

lemma enter_base:
  assumes base: "gbase w" and g: "gw_grp w g = Some v" and q: "free q w" and room: "room n v"
  shows "gbase (enter g q n w)"
proof -
  obtain r where r: "gw_ply w q = Some r" "rv_invite r = None" "rv_group r = None" using q by (auto simp: free_def)
  let ?w = "enter g q n w"
  let ?v = "v\<lparr>v_slots := v_slots v @ [(q, n)], v_counts := cnt_inc n (v_counts v), v_mgr := insert (q, GroupRef) (v_mgr v)\<rparr>"
  have out: "q \<notin> mems u" if "gw_grp w h = Some u" for h u using gbase_not_member [OF base r(1,3) that] .
  have q0: "q \<noteq> 0" using gbase_ply [OF base r(1)] by (simp add: ply_ok_def)
  have grp: "gw_grp ?w h = (if h = g then Some ?v else gw_grp w h)" for h using g by (simp add: enter_def)
  have ply: "gw_ply ?w p = (if p = q then Some (r\<lparr>rv_group := Some g, rv_sub := n\<rparr>) else gw_ply w p)" for p
    using r by (simp add: enter_def)
  have mems: "mems ?v = insert q (mems v)" by simp
  have lnk: "linked ?w p h = (if p = q then h = g else linked w p h)" for p h by (auto simp: linked_def ply)
  have nl: "\<not> linked w q h" for h using r by (simp add: linked_def)
  have ok: "grp_ok w g v" using base g by (rule gbase_grp)
  have "gok (?v\<lparr>v_invs := v_invs v\<rparr>)"
    using gok_enter [OF _ room out [OF g] q0, where M = "insert (q, GroupRef) (v_mgr v)" and I = "v_invs v"] ok
    by (simp add: grp_ok_def)
  then have gok: "gok ?v" by simp
  show ?thesis
  proof (rule gbaseI)
    show "\<not> gw_uaf ?w" using base by (simp add: gbase_def enter_def)
    show "one_group ?w"
      unfolding one_group_def grp using base out g mems by (auto simp: gbase_def one_group_def split: if_splits)
    show "gw_grp ?w h \<noteq> None" if "h \<in> gw_reg ?w" for h using base that by (auto simp: gbase_def enter_def)
    show "ply_ok ?w p rp" if p: "gw_ply ?w p = Some rp" for p rp
    proof (cases "p = q")
      case True
      with p r q0 gbase_ply [OF base r(1)] show ?thesis by (auto simp: ply grp ply_ok_def)
    next
      case False
      with p have "ply_ok w p rp" by (auto simp: ply intro: gbase_ply [OF base])
      then show ?thesis using g by (auto simp: ply_ok_def grp)
    qed
    show "grp_ok ?w h u" if h: "gw_grp ?w h = Some u" for h u
    proof (cases "h = g")
      case True
      with h have "u = ?v" by (simp add: grp)
      with ok gok r True show ?thesis
        unfolding grp_ok_def lnk ply by (auto simp: mems nl enter_def)
    next
      case False
      with h have u: "gw_grp w h = Some u" by (simp add: grp)
      with False gbase_grp [OF base u] out [OF u] r show ?thesis
        unfolding grp_ok_def lnk ply by (auto simp: nl enter_def)
    qed
  qed
qed

lemma leave_base:
  assumes base: "gbase w" and g: "gw_grp w g = Some v" and p: "(p, n) \<in> set (v_slots v)"
  shows "gbase (leave g p n w)"
proof -
  let ?w = "leave g p n w"
  let ?sl = "filter (\<lambda>x. fst x \<noteq> p) (v_slots v)"
  let ?v = "v\<lparr>v_slots := ?sl, v_counts := cnt_dec n (v_counts v), v_mgr := v_mgr v - {(p, GroupRef)},
    v_leader := (if v_leader v = p then fst (hd ?sl) else v_leader v)\<rparr>"
  have grp: "gw_grp ?w h = (if h = g then Some ?v else gw_grp w h)" for h using g by (simp add: leave_def Let_def)
  have ok: "grp_ok w g v" using base g by (rule gbase_grp)
  have gok: "gok ?v"
    using gok_leave [OF _ p, where M = "v_mgr v - {(p, GroupRef)}" and l = "if v_leader v = p then fst (hd ?sl) else v_leader v"] ok
    by (simp add: grp_ok_def)
  have here: "rv_group r = Some g" if "gw_ply w p = Some r" for r using gbase_sub(1) [OF base that g p] .
  have ply: "gw_ply ?w q = (if q = p then map_option (\<lambda>r. r\<lparr>rv_group := None\<rparr>) (gw_ply w p) else gw_ply w q)" for q
    using here by (cases "gw_ply w p") (auto simp: leave_def)
  have lnk: "linked ?w q h = (q \<noteq> p \<and> linked w q h)" for q h by (auto simp: linked_def ply)
  show ?thesis
  proof (rule gbaseI)
    show "\<not> gw_uaf ?w" using base by (simp add: gbase_def leave_def)
    show "one_group ?w" using base by (rule one_group_mono) (auto simp: grp g split: if_splits)
    show "gw_grp ?w h \<noteq> None" if "h \<in> gw_reg ?w" for h using base that by (auto simp: gbase_def leave_def)
    show "ply_ok ?w q rq" if q: "gw_ply ?w q = Some rq" for q rq
    proof (cases "q = p")
      case True
      then obtain r where r: "gw_ply w p = Some r" "rq = r\<lparr>rv_group := None\<rparr>" using q by (auto simp: ply)
      with gbase_ply [OF base r(1)] here [OF r(1)] True show ?thesis by (auto simp: ply_ok_def)
    next
      case False
      with q have "ply_ok w q rq" by (auto simp: ply intro: gbase_ply [OF base])
      then show ?thesis using g False by (auto simp: ply_ok_def grp)
    qed
    show "grp_ok ?w h u" if h: "gw_grp ?w h = Some u" for h u
    proof (cases "h = g")
      case True
      with h have "u = ?v" by (simp add: grp)
      with ok gok here True show ?thesis
        unfolding grp_ok_def lnk ply by (auto simp: leave_def split: if_splits)
    next
      case False
      with h have u: "gw_grp w h = Some u" by (simp add: grp)
      have "p \<notin> mems u" using base u g False memsI [OF p] by (auto simp: gbase_def one_group_def)
      moreover have "\<not> linked w p h" using False here by (auto simp: linked_def)
      ultimately show ?thesis
        using gbase_grp [OF base u] unfolding grp_ok_def lnk ply by (auto simp: leave_def split: if_splits)
    qed
  qed
qed

lemma wg_upd_base:
  assumes base: "gbase w" and g: "gw_grp w g = Some v"
    and f: "gok (f v)" "v_slots (f v) = v_slots v" "v_invs (f v) = v_invs v" "v_mgr (f v) = v_mgr v"
  shows "gbase (wg_upd g f w)"
proof -
  let ?w = "wg_upd g f w"
  have m: "mems (f v) = mems v" using f(2) by (simp add: mems_def)
  show ?thesis
  proof (rule gbaseI)
    show "\<not> gw_uaf ?w" using base by (simp add: gbase_def)
    show "one_group ?w" using base by (rule one_group_mono) (auto simp: g m split: if_splits)
    show "gw_grp ?w h \<noteq> None" if "h \<in> gw_reg ?w" for h using base that by (auto simp: gbase_def)
    show "ply_ok ?w q r" if q: "gw_ply ?w q = Some r" for q r
    proof -
      from q have "ply_ok w q r" using base by (simp add: gbase_ply)
      then show ?thesis using g f by (auto simp: ply_ok_def)
    qed
    show "grp_ok ?w h u" if h: "gw_grp ?w h = Some u" for h u
    proof (cases "h = g")
      case True
      with h g gbase_grp [OF base g] f m show ?thesis by (simp add: grp_ok_def)
    next
      case False
      with h show ?thesis using gbase_grp [OF base, of h u] by (simp add: grp_ok_def)
    qed
  qed
qed

lemma regroup_base:
  assumes base: "gbase w" and g: "gw_grp w g = Some v" and p: "(p, m) \<in> set (v_slots v)" and r: "v_raid v" "room n v" "m \<noteq> n"
  shows "gbase (regroup g p m n w)"
proof -
  let ?w = "regroup g p m n w"
  let ?v = "v\<lparr>v_slots := reslot p n (v_slots v), v_counts := cnt_dec m (cnt_inc n (v_counts v))\<rparr>"
  have grp: "gw_grp ?w h = (if h = g then Some ?v else gw_grp w h)" for h using g by (simp add: regroup_def)
  have ply: "gw_ply ?w q = (if q = p then map_option (\<lambda>r. r\<lparr>rv_sub := n\<rparr>) (gw_ply w p) else gw_ply w q)" for q
    by (simp add: regroup_def)
  have ok: "grp_ok w g v" using base g by (rule gbase_grp)
  have gok: "gok ?v" using ok r p by (intro gok_regroup) (auto simp: grp_ok_def)
  have lnk: "linked ?w q h = linked w q h" for q h by (auto simp: linked_def ply)
  show ?thesis
  proof (rule gbaseI)
    show "\<not> gw_uaf ?w" using base by (simp add: gbase_def regroup_def)
    show "one_group ?w" using base by (rule one_group_mono) (auto simp: grp g split: if_splits)
    show "gw_grp ?w h \<noteq> None" if "h \<in> gw_reg ?w" for h using base that by (auto simp: gbase_def regroup_def)
    show "ply_ok ?w q rq" if q: "gw_ply ?w q = Some rq" for q rq
    proof (cases "q = p")
      case True
      then obtain s where s: "gw_ply w p = Some s" "rq = s\<lparr>rv_sub := n\<rparr>" using q by (auto simp: ply)
      have "rv_group s = Some g" using gbase_sub(1) [OF base s(1) g p] .
      with gbase_ply [OF base s(1)] s True in_reslot [OF p] show ?thesis by (auto simp: ply_ok_def grp)
    next
      case False
      with q have "ply_ok w q rq" by (auto simp: ply intro: gbase_ply [OF base])
      then show ?thesis using g False by (auto simp: ply_ok_def grp reslot_other)
    qed
    show "grp_ok ?w h u" if h: "gw_grp ?w h = Some u" for h u
    proof (cases "h = g")
      case True
      with h have "u = ?v" by (simp add: grp)
      with ok gok True show ?thesis
        unfolding grp_ok_def lnk ply by (auto simp: regroup_def split: if_splits)
    next
      case False
      with h have "gw_grp w h = Some u" by (simp add: grp)
      from gbase_grp [OF base this] show ?thesis
        unfolding grp_ok_def lnk ply by (auto simp: regroup_def split: if_splits)
    qed
  qed
qed

lemma dissolve_base:
  assumes base: "gbase w"
  shows "gbase (dissolve g w)"
proof (rule gbaseI)
  let ?w = "dissolve g w"
  show "\<not> gw_uaf ?w" using base by (simp add: gbase_def dissolve_def)
  show "one_group ?w" using base by (rule one_group_mono) (auto simp: dissolve_def split: if_splits)
  show "gw_grp ?w h \<noteq> None" if "h \<in> gw_reg ?w" for h using base that by (auto simp: gbase_def dissolve_def)
  show "ply_ok ?w q rq" if q: "gw_ply ?w q = Some rq" for q rq
  proof -
    from q obtain r where r: "gw_ply w q = Some r" "rq = unref g r"
      by (auto simp: dissolve_def)
    with gbase_ply [OF base r(1)] show ?thesis by (auto simp: ply_ok_def dissolve_def unref_def split: if_splits)
  qed
  show "grp_ok ?w h u" if h: "gw_grp ?w h = Some u" for h u
  proof -
    from h have u: "gw_grp w h = Some u" "h \<noteq> g" by (auto simp: dissolve_def split: if_splits)
    have F: "rv_invite (unref g r) = Some h \<longleftrightarrow> rv_invite r = Some h" "rv_group (unref g r) = Some h \<longleftrightarrow> rv_group r = Some h" for r
      using u(2) by (auto simp: unref_def)
    have lnk: "linked ?w q h = linked w q h" for q
      by (cases "gw_ply w q") (auto simp: linked_def dissolve_def F)
    have ok: "grp_ok w h u" using base u(1) by (rule gbase_grp)
    have "\<exists>r'. gw_ply ?w p = Some r' \<and> rv_invite r' = Some h" if "p \<in> v_invs u" for p
    proof -
      from ok that obtain r where "gw_ply w p = Some r" "rv_invite r = Some h" by (auto simp: grp_ok_def)
      then show ?thesis by (intro exI [of _ "unref g r"]) (simp add: dissolve_def F)
    qed
    with ok show ?thesis unfolding grp_ok_def lnk by (auto simp: dissolve_def F)
  qed
qed

lemma arrive_base:
  assumes base: "gbase w" and p: "gw_ply w p = None" "p \<noteq> 0" "\<And>g v. gw_grp w g = Some v \<Longrightarrow> p \<notin> mems v"
  shows "gbase (arrive p no_refs w)"
proof (rule gbaseI)
  let ?w = "arrive p no_refs w"
  show "\<not> gw_uaf ?w" using base by (simp add: gbase_def arrive_def)
  show "one_group ?w" using base by (rule one_group_mono) (auto simp: arrive_def)
  show "gw_grp ?w h \<noteq> None" if "h \<in> gw_reg ?w" for h using base that by (auto simp: gbase_def arrive_def)
  show "ply_ok ?w q rq" if q: "gw_ply ?w q = Some rq" for q rq
    using q p gbase_ply [OF base, of q rq] by (auto simp: ply_ok_def arrive_def no_refs_def split: if_splits)
  show "grp_ok ?w h u" if h: "gw_grp ?w h = Some u" for h u
  proof -
    from h have u: "gw_grp w h = Some u" by (simp add: arrive_def)
    have "linked ?w q h = linked w q h" for q using p by (auto simp: linked_def arrive_def no_refs_def)
    with gbase_grp [OF base u] p(1) p(3) [OF u] show ?thesis
      by (auto simp: grp_ok_def arrive_def no_refs_def split: if_splits)
  qed
qed

lemma relog_base:
  assumes base: "gbase w" and p: "gw_ply w p = None" "p \<noteq> 0" and g: "gw_grp w g = Some v" "(p, n) \<in> set (v_slots v)"
  shows "gbase (wg_upd g (\<lambda>v. v\<lparr>v_mgr := insert (p, GroupRef) (v_mgr v)\<rparr>) (arrive p (no_refs\<lparr>rv_group := Some g, rv_sub := n\<rparr>) w))"
    (is "gbase ?w")
proof (rule gbaseI)
  have lnk: "linked ?w q h = (if q = p then h = g else linked w q h)" for q h
    by (auto simp: linked_def arrive_def)
  show "\<not> gw_uaf ?w" using base by (simp add: gbase_def arrive_def)
  show "one_group ?w" using base by (rule one_group_mono) (auto simp: arrive_def split: if_splits)
  show "gw_grp ?w h \<noteq> None" if "h \<in> gw_reg ?w" for h using base that by (auto simp: gbase_def arrive_def)
  show "ply_ok ?w q rq" if q: "gw_ply ?w q = Some rq" for q rq
    using q p g gbase_ply [OF base, of q rq] by (auto simp: ply_ok_def arrive_def no_refs_def split: if_splits)
  show "grp_ok ?w h u" if h: "gw_grp ?w h = Some u" for h u
  proof (cases "h = g")
    case True
    have "p \<notin> v_invs v" using gbase_grp [OF base g(1)] p(1) by (auto simp: grp_ok_def)
    with True h g gbase_grp [OF base g(1)] p show ?thesis
      unfolding grp_ok_def lnk by (auto simp: arrive_def split: if_splits)
  next
    case False
    then have u: "gw_grp w h = Some u" using h by (simp add: arrive_def)
    have "p \<notin> mems u" using base u g False memsI [OF g(2)] by (auto simp: gbase_def one_group_def)
    moreover have "\<not> linked w p h" using p by (simp add: linked_def)
    moreover have "p \<notin> v_invs u" using gbase_grp [OF base u] p(1) by (auto simp: grp_ok_def)
    ultimately show ?thesis using False gbase_grp [OF base u] p
      unfolding grp_ok_def lnk by (auto simp: arrive_def split: if_splits)
  qed
qed

lemma depart_base:
  assumes base: "gbase w" and p: "gw_ply w p = Some r" "rv_invite r = None"
  shows "gbase (depart p w)"
proof (rule gbaseI)
  let ?w = "depart p w"
  have lnk: "linked ?w q h = (q \<noteq> p \<and> linked w q h)" for q h by (auto simp: linked_def depart_def)
  show "\<not> gw_uaf ?w" using base by (simp add: gbase_def depart_def)
  show "one_group ?w" using base by (rule one_group_mono) (auto simp: depart_def)
  show "gw_grp ?w h \<noteq> None" if "h \<in> gw_reg ?w" for h using base that by (auto simp: gbase_def depart_def)
  show "ply_ok ?w q rq" if q: "gw_ply ?w q = Some rq" for q rq
  proof -
    have "ply_ok w q rq" using q by (auto simp: depart_def intro: gbase_ply [OF base] split: if_splits)
    then show ?thesis by (auto simp: ply_ok_def depart_def)
  qed
  show "grp_ok ?w h u" if h: "gw_grp ?w h = Some u" for h u
  proof -
    from h obtain u0 where u0: "gw_grp w h = Some u0" "u = u0\<lparr>v_mgr := v_mgr u0 - {(p, GroupRef)}\<rparr>" by (auto simp: depart_def)
    have "p \<notin> v_invs u0" using gbase_grp [OF base u0(1)] p by (auto simp: grp_ok_def)
    with gbase_grp [OF base u0(1)] u0 show ?thesis unfolding grp_ok_def lnk by (auto simp: depart_def)
  qed
qed

lemma alloc_base:
  assumes base: "gbase w" and g: "gw_next w = g"
  shows "gbase (w\<lparr>gw_grp := (gw_grp w)(g := Some (view_new p)), gw_next := Suc g\<rparr>)" (is "gbase ?w")
proof (rule gbaseI)
  have fresh: "gw_grp w g = None"
    using gbase_grp [OF base, of g] g by (cases "gw_grp w g") (auto simp: grp_ok_def)
  have m: "mems (view_new p) = {}" by (simp add: mems_def view_new_def)
  have lnk: "linked ?w q h = linked w q h" for q h by (simp add: linked_def)
  have none: "\<not> linked w q g" for q using fresh gbase_ply [OF base] by (fastforce simp: linked_def ply_ok_def)
  show "\<not> gw_uaf ?w" using base by (simp add: gbase_def)
  show "one_group ?w" using base by (rule one_group_mono) (auto simp: m split: if_splits)
  show "gw_grp ?w h \<noteq> None" if "h \<in> gw_reg ?w" for h using base that by (auto simp: gbase_def)
  show "ply_ok ?w q rq" if q: "gw_ply ?w q = Some rq" for q rq
    using q fresh gbase_ply [OF base, of q rq] by (fastforce simp: ply_ok_def)
  show "grp_ok ?w h u" if h: "gw_grp ?w h = Some u" for h u
  proof (cases "h = g")
    case True
    with h m none show ?thesis unfolding grp_ok_def lnk by (auto simp: view_new_def gok_def)
  next
    case False
    with h gbase_grp [OF base, of h u] g show ?thesis unfolding grp_ok_def lnk by auto
  qed
qed

section \<open>Every move keeps the invariant\<close>

lemma ginvI:
  "gbase w \<Longrightarrow> (\<And>g v. gw_grp w g = Some v \<Longrightarrow> group_shape g v w) \<Longrightarrow> ginv w"
  by (simp add: ginv_def)

lemma free_after_drop:
  assumes "gbase w" "gw_grp w g = Some v" "q \<in> v_invs v"
  shows "free q (drop_invite g q w)"
proof -
  obtain r where "gw_ply w q = Some r" "rv_group r = None" using gbase_invited [OF assms] .
  then show ?thesis by (auto simp: free_def drop_invite_def)
qed

lemma free_other: "p \<noteq> q \<Longrightarrow> free p (drop_invite g q w) = free p w" "p \<noteq> q \<Longrightarrow> free p (enter g q n w) = free p w"
  "p \<noteq> q \<Longrightarrow> free p (set_invite g q w) = free p w"
  by (simp_all add: free_def drop_invite_def enter_def set_invite_def)

lemma room_invs [simp]: "room n (v\<lparr>v_invs := I\<rparr>) = room n v" "room n (v\<lparr>v_low := l\<rparr>) = room n v"
  by (simp_all add: room_def split: option.split)

lemma found_inv:
  assumes inv: "ginv w" and p: "free p w" and q: "free q w" "p \<noteq> q" and g: "gw_next w = g"
  shows "ginv (set_invite g q (set_invite g p (w\<lparr>gw_grp := (gw_grp w)(g := Some (view_new p)), gw_next := Suc g\<rparr>)))"
    (is "ginv (set_invite g q (set_invite g p ?w))")
proof (rule ginvI)
  note base = ginv_base [OF inv]
  have 1: "gbase ?w" using base g by (rule alloc_base)
  have 2: "gbase (set_invite g p ?w)" using p by (intro set_invite_base [OF 1, of _ "view_new p"]) (auto simp: free_def)
  show "gbase (set_invite g q (set_invite g p ?w))"
    using q by (intro set_invite_base [OF 2, of _ "view_new p\<lparr>v_invs := {p}\<rparr>"])
      (auto simp: free_other free_def set_invite_def view_new_def)
  have "g \<notin> gw_reg w"
    using base g gbase_grp [OF base, of g] by (cases "gw_grp w g") (auto simp: gbase_def grp_ok_def)
  then show "group_shape h u (set_invite g q (set_invite g p ?w))" if "gw_grp (set_invite g q (set_invite g p ?w)) h = Some u" for h u
    using that ginv_shape [OF inv, of h u] by (auto simp: set_invite_def group_shape_def view_new_def split: if_splits)
qed

lemma join_inv:
  assumes inv: "ginv w" and g: "gw_grp w g = Some v" and sl: "v_slots v \<noteq> []" and q: "q \<in> v_invs v" "room n v"
  shows "ginv (enter g q n (drop_invite g q w))"
proof (rule ginvI)
  note base = ginv_base [OF inv]
  show "gbase (enter g q n (drop_invite g q w))"
    using g q free_after_drop [OF base g q(1)]
    by (intro enter_base [OF drop_invite_base [OF base g q(1)], of _ "v\<lparr>v_invs := v_invs v - {q}\<rparr>"]) (auto simp: drop_invite_def)
  show "group_shape h u (enter g q n (drop_invite g q w))" if "gw_grp (enter g q n (drop_invite g q w)) h = Some u" for h u
    using that g sl ginv_shape [OF inv, of h] by (auto simp: enter_def drop_invite_def group_shape_def split: if_splits)
qed

lemma create_inv:
  assumes inv: "ginv w" and g: "gw_grp w g = Some v" and sl: "v_slots v = []" and q: "q \<in> v_invs v"
    and l: "l = v_leader v" "l \<noteq> q"
  shows "ginv (enter g q 0 (enter g l 0 (drop_invite g l (drop_invite g q
      (wg_upd g (\<lambda>v. v\<lparr>v_low := low\<rparr>) (w\<lparr>gw_reg := insert g (gw_reg w)\<rparr>))))))" (is "ginv (enter g q 0 (enter g l 0 ?w3))")
proof (rule ginvI)
  let ?w0 = "w\<lparr>gw_reg := insert g (gw_reg w)\<rparr>"
  let ?v1 = "v\<lparr>v_low := low\<rparr>"
  let ?w1 = "wg_upd g (\<lambda>v. v\<lparr>v_low := low\<rparr>) ?w0"
  let ?w2 = "drop_invite g q ?w1"
  note base = ginv_base [OF inv]
  have sh: "v_leader v \<in> v_invs v" "\<not> v_raid v" using ginv_shape [OF inv g] sl by (auto simp: group_shape_def)
  have okv: "gok v" using gbase_grp [OF base g] by (simp add: grp_ok_def)
  then have none: "v_counts v = None" using sh by (auto simp: gok_def split: option.splits)
  have "gbase ?w0" using base g by (auto simp: gbase_def one_group_def ply_ok_def grp_ok_def linked_def)
  then have b1: "gbase ?w1" using g okv by (intro wg_upd_base) auto
  have g1: "gw_grp ?w1 g = Some ?v1" using g by simp
  have b2: "gbase ?w2" using drop_invite_base [OF b1 g1, of q] q by simp
  have g2: "gw_grp ?w2 g = Some (?v1\<lparr>v_invs := v_invs v - {q}\<rparr>)" using g by (simp add: drop_invite_def)
  have lin: "l \<in> v_invs (?v1\<lparr>v_invs := v_invs v - {q}\<rparr>)" using sh l by simp
  have b3: "gbase ?w3" using b2 g2 lin by (rule drop_invite_base)
  have g3: "gw_grp ?w3 g = Some (?v1\<lparr>v_invs := v_invs v - {q} - {l}\<rparr>)" using g by (simp add: drop_invite_def)
  have fl: "free l ?w3" using b2 g2 lin by (rule free_after_drop)
  have fq: "free q ?w3" using free_after_drop [OF b1 g1] q l by (simp add: free_other)
  have b4: "gbase (enter g l 0 ?w3)" using b3 g3 fl none sl by (intro enter_base) (auto simp: room_def)
  show "gbase (enter g q 0 (enter g l 0 ?w3))"
    using fq l g3 none sl
    by (intro enter_base [OF b4]) (auto simp: free_other, auto simp: enter_def room_def cnt_inc_def)
  show "group_shape h u (enter g q 0 (enter g l 0 ?w3))" if "gw_grp (enter g q 0 (enter g l 0 ?w3)) h = Some u" for h u
  proof (cases "h = g")
    case True
    with that g3 sl l show ?thesis by (auto simp: enter_def group_shape_def drop_invite_def mems_def)
  next
    case False
    with that have "gw_grp w h = Some u" by (simp add: enter_def drop_invite_def)
    from ginv_shape [OF inv this] False show ?thesis by (auto simp: group_shape_def enter_def drop_invite_def)
  qed
qed

lemma leave_inv:
  assumes inv: "ginv w" and g: "gw_grp w g = Some v" and p: "(p, n) \<in> set (v_slots v)" and len: "2 < length (v_slots v)"
  shows "ginv (leave g p n w)"
proof (rule ginvI)
  note base = ginv_base [OF inv]
  show "gbase (leave g p n w)" using base g p by (rule leave_base)
  let ?sl = "filter (\<lambda>x. fst x \<noteq> p) (v_slots v)"
  have "Suc (length ?sl) = length (v_slots v)"
    using gbase_grp [OF base g] p by (intro length_remove) (simp_all add: grp_ok_def gok_def)
  then have two: "2 \<le> length ?sl" using len by simp
  then have hd: "hd ?sl \<in> set ?sl" by (intro list.set_sel(1)) auto
  then have hd': "fst (hd ?sl) \<in> mems v - {p}" by (auto simp: mems_def)
  have sh: "v_leader v \<in> mems v" "g \<in> gw_reg w"
    using ginv_shape [OF inv g] len by (auto simp: group_shape_def split: if_splits)
  show "group_shape h u (leave g p n w)" if h: "gw_grp (leave g p n w) h = Some u" for h u
  proof (cases "h = g")
    case True
    then have u: "u = v\<lparr>v_slots := ?sl, v_counts := cnt_dec n (v_counts v), v_mgr := v_mgr v - {(p, GroupRef)},
        v_leader := (if v_leader v = p then fst (hd ?sl) else v_leader v)\<rparr>"
      using h g by (simp add: leave_def Let_def)
    show ?thesis unfolding u using True two hd' sh by (auto simp: group_shape_def leave_def)
  next
    case False
    then show ?thesis using h ginv_shape [OF inv, of h u] by (simp add: group_shape_def leave_def)
  qed
qed

lemma invite_inv:
  assumes inv: "ginv w" and hyps: "gw_grp w g = Some v" "v_slots v \<noteq> []" "free q w"
  shows "ginv (set_invite g q w)"
proof (rule ginvI)
  note base = ginv_base [OF inv]
  show "gbase (set_invite g q w)" using base hyps(1,3) by (rule set_invite_base)
  show "group_shape h u (set_invite g q w)" if "gw_grp (set_invite g q w) h = Some u" for h u
    using that hyps ginv_shape [OF inv, of h] by (auto simp: set_invite_def group_shape_def split: if_splits)
qed

lemma waste_inv:
  assumes "ginv w"
  shows "ginv (w\<lparr>gw_next := Suc (gw_next w)\<rparr>)"
proof -
  have "grp_ok (w\<lparr>gw_next := Suc (gw_next w)\<rparr>) g v" if "gw_grp w g = Some v" for g v
    using gbase_grp [OF ginv_base [OF assms] that] by (simp add: grp_ok_def linked_def less_SucI)
  with assms show ?thesis by (simp add: ginv_def gbase_def one_group_def ply_ok_def group_shape_def)
qed

lemma uninvite_inv:
  assumes inv: "ginv w" and hyps: "gw_grp w g = Some v" "v_slots v \<noteq> []" "q \<in> v_invs v"
  shows "ginv (drop_invite g q w)"
proof (rule ginvI)
  note base = ginv_base [OF inv]
  show "gbase (drop_invite g q w)" using base hyps(1,3) by (rule drop_invite_base)
  show "group_shape h u (drop_invite g q w)" if "gw_grp (drop_invite g q w) h = Some u" for h u
    using that hyps ginv_shape [OF inv, of h] by (auto simp: drop_invite_def group_shape_def split: if_splits)
qed

lemma dissolve_inv:
  assumes inv: "ginv w" and hyps: "gw_grp w g = Some v"
  shows "ginv (dissolve g w)"
proof (rule ginvI)
  note base = ginv_base [OF inv]
  show "gbase (dissolve g w)" using base by (rule dissolve_base)
  show "group_shape h u (dissolve g w)" if "gw_grp (dissolve g w) h = Some u" for h u
    using that ginv_shape [OF inv, of h u] by (auto simp: dissolve_def group_shape_def split: if_splits)
qed

lemma lead_inv:
  assumes inv: "ginv w" and hyps: "gw_grp w g = Some v" "p \<in> mems v"
  shows "ginv (wg_upd g (\<lambda>v. v\<lparr>v_leader := p\<rparr>) w)"
proof (rule ginvI)
  note base = ginv_base [OF inv]
  show "gbase (wg_upd g (\<lambda>v. v\<lparr>v_leader := p\<rparr>) w)" using base hyps gbase_grp [OF base hyps(1)] by (intro wg_upd_base) (auto simp: grp_ok_def)
  show "group_shape h u (wg_upd g (\<lambda>v. v\<lparr>v_leader := p\<rparr>) w)" if "gw_grp (wg_upd g (\<lambda>v. v\<lparr>v_leader := p\<rparr>) w) h = Some u" for h u
    using that hyps mems_empty [of v] ginv_shape [OF inv, of h] by (auto simp: group_shape_def split: if_splits)
qed

lemma raid_inv:
  assumes inv: "ginv w" and hyps: "gw_grp w g = Some v" "v_slots v \<noteq> []"
  shows "ginv (wg_upd g (\<lambda>v. v\<lparr>v_raid := True, v_counts := Some (init_counts (v_slots v))\<rparr>) w)"
proof (rule ginvI)
  note base = ginv_base [OF inv]
  show "gbase (wg_upd g (\<lambda>v. v\<lparr>v_raid := True, v_counts := Some (init_counts (v_slots v))\<rparr>) w)" using base hyps gbase_grp [OF base hyps(1)] by (intro wg_upd_base) (auto simp: grp_ok_def intro: gok_raid)
  show "group_shape h u (wg_upd g (\<lambda>v. v\<lparr>v_raid := True, v_counts := Some (init_counts (v_slots v))\<rparr>) w)" if "gw_grp (wg_upd g (\<lambda>v. v\<lparr>v_raid := True, v_counts := Some (init_counts (v_slots v))\<rparr>) w) h = Some u" for h u
    using that hyps ginv_shape [OF inv, of h] by (auto simp: group_shape_def split: if_splits)
qed

lemma party_inv:
  assumes inv: "ginv w" and hyps: "gw_grp w g = Some v" "v_slots v \<noteq> []" "length (v_slots v) \<le> 5"
  shows "ginv (wg_upd g (\<lambda>v. v\<lparr>v_raid := False, v_counts := None\<rparr>) w)"
proof (rule ginvI)
  note base = ginv_base [OF inv]
  show "gbase (wg_upd g (\<lambda>v. v\<lparr>v_raid := False, v_counts := None\<rparr>) w)" using base hyps gbase_grp [OF base hyps(1)] by (intro wg_upd_base) (auto simp: grp_ok_def gok_def)
  show "group_shape h u (wg_upd g (\<lambda>v. v\<lparr>v_raid := False, v_counts := None\<rparr>) w)" if "gw_grp (wg_upd g (\<lambda>v. v\<lparr>v_raid := False, v_counts := None\<rparr>) w) h = Some u" for h u
    using that hyps ginv_shape [OF inv, of h] by (auto simp: group_shape_def split: if_splits)
qed

lemma regroup_inv:
  assumes inv: "ginv w" and hyps: "gw_grp w g = Some v" "(p, m) \<in> set (v_slots v)" "v_raid v" "room n v" "m \<noteq> n"
  shows "ginv (regroup g p m n w)"
proof (rule ginvI)
  note base = ginv_base [OF inv]
  show "gbase (regroup g p m n w)" using base hyps by (rule regroup_base)
  show "group_shape h u (regroup g p m n w)" if "gw_grp (regroup g p m n w) h = Some u" for h u
    using that hyps(1,2) ginv_shape [OF inv, of h] by (auto simp: regroup_def group_shape_def split: if_splits)
qed

lemma login_inv:
  assumes inv: "ginv w" and hyps: "gw_ply w p = None" "p \<noteq> 0" "\<forall>g v. gw_grp w g = Some v \<longrightarrow> p \<notin> mems v"
  shows "ginv (arrive p no_refs w)"
proof (rule ginvI)
  note base = ginv_base [OF inv]
  show "gbase (arrive p no_refs w)" using base hyps by (intro arrive_base) auto
  show "group_shape h u (arrive p no_refs w)" if "gw_grp (arrive p no_refs w) h = Some u" for h u
    using that ginv_shape [OF inv, of h u] by (simp add: arrive_def group_shape_def)
qed

lemma relog_inv:
  assumes inv: "ginv w" and hyps: "gw_ply w p = None" "p \<noteq> 0" "gw_grp w g = Some v" "(p, n) \<in> set (v_slots v)"
  shows "ginv (wg_upd g (\<lambda>v. v\<lparr>v_mgr := insert (p, GroupRef) (v_mgr v)\<rparr>) (arrive p (no_refs\<lparr>rv_group := Some g, rv_sub := n\<rparr>) w))"
  using relog_base [OF ginv_base [OF inv] hyps] ginv_shape [OF inv]
  by (auto simp: ginv_def arrive_def group_shape_def split: if_splits)

lemma logout_inv:
  assumes inv: "ginv w" and hyps: "gw_ply w p = Some r" "rv_invite r = None"
  shows "ginv (depart p w)"
  using depart_base [OF ginv_base [OF inv] hyps] ginv_shape [OF inv]
  by (auto simp: ginv_def depart_def group_shape_def)

lemmas move_invs = invite_inv found_inv waste_inv uninvite_inv join_inv create_inv leave_inv dissolve_inv lead_inv raid_inv
  party_inv regroup_inv login_inv relog_inv logout_inv

lemma gmove_ginv: "gmove w w' \<Longrightarrow> ginv w \<Longrightarrow> ginv w'"
  by (induction rule: gmove.induct) (intro move_invs; assumption)+

lemma gmoves_ginv: "gmoves w w' \<Longrightarrow> ginv w \<Longrightarrow> ginv w'"
  by (induction rule: gmoves.induct) (auto intro: gmove_ginv)

end
