(* ===== verification/Group_Sim.thy ===== *)
theory Group_Sim
  imports Group_Moves
begin

text \<open>Every message, login and logout is a sequence of moves.\<close>

section \<open>Reading the view\<close>

lemma view_grpE:
  assumes "gw_grp (view s) g = Some v"
  obtains x where "gs_groups s g = Some x" "gview_of x = v" "grp s g = x"
  using assms by (auto simp: grp_def)

lemma view_plyE:
  assumes "gw_ply (view s) p = Some r"
  obtains y where "gs_players s p = Some y" "rview_of y = r" "refs s p = y"
  using assms by (auto simp: refs_def)

lemma view_upd_at:
  "gs_groups s g = Some x \<Longrightarrow> gview_of (f x) = f' (gview_of x) \<Longrightarrow> view (upd_grp g f s) = wg_upd g f' (view s)"
  by (rule gworld_eqI) (auto simp: gs_groups_upd_grp)

lemma mems_view: "mems (gview_of x) = ms_guid ` set (m_memberSlots x)"
  by (force simp: mems_def slot_view_def)

lemma getMemberSlot_None: "getMemberSlot p x = None \<longleftrightarrow> p \<notin> mems (gview_of x)"
  by (auto simp: getMemberSlot_def List.find_None_iff mems_view)

lemma getMemberSlot_Some: "getMemberSlot p x = Some m \<Longrightarrow> ms_guid m = p \<and> (p, ms_group m) \<in> set (v_slots (gview_of x))"
  by (auto simp: getMemberSlot_def List.find_Some_iff slot_view_def)

lemma IsMember_view: "Group_IsMember p x \<longleftrightarrow> p \<in> mems (gview_of x)"
  by (simp add: Group_IsMember_def getMemberSlot_None)

lemma IsLeader_view: "Group_IsLeader p x \<longleftrightarrow> v_leader (gview_of x) = p"
  by (simp add: Group_IsLeader_def)

lemma ginv_follow:
  assumes "ginv (view s)" "pr_group (refs s p) = Some g"
  obtains x y where "gs_groups s g = Some x" "gs_players s p = Some y" "pr_group y = Some g" "grp_ok (view s) g (gview_of x)"
    "(p, pr_subGroup y) \<in> set (v_slots (gview_of x))" "follow g s = s"
proof -
  obtain y where y: "gs_players s p = Some y" "pr_group y = Some g"
    using assms(2) by (cases "gs_players s p") (auto simp: refs_def PlayerRefs_new_def)
  have "ply_ok (view s) p (rview_of y)" using ginv_base [OF assms(1)] y(1) by (intro gbase_ply) auto
  with y(2) obtain x where x: "gs_groups s g = Some x" "(p, pr_subGroup y) \<in> set (v_slots (gview_of x))"
    by (auto simp: ply_ok_def)
  moreover have "grp_ok (view s) g (gview_of x)" using ginv_base [OF assms(1)] x(1) by (intro gbase_grp) auto
  ultimately show ?thesis using that y by auto
qed

lemma ginv_invite:
  assumes "ginv (view s)" "pr_groupInvite (refs s p) = Some g"
  obtains x y where "gs_groups s g = Some x" "gs_players s p = Some y" "pr_groupInvite y = Some g" "pr_group y = None"
    "p \<in> v_invs (gview_of x)" "grp_ok (view s) g (gview_of x)" "follow g s = s"
proof -
  obtain y where y: "gs_players s p = Some y" "pr_groupInvite y = Some g"
    using assms(2) by (cases "gs_players s p") (auto simp: refs_def PlayerRefs_new_def)
  have "ply_ok (view s) p (rview_of y)" using ginv_base [OF assms(1)] y(1) by (intro gbase_ply) auto
  with y(2) obtain x where x: "gs_groups s g = Some x" "p \<in> v_invs (gview_of x)" "pr_group y = None"
    by (auto simp: ply_ok_def)
  moreover have "grp_ok (view s) g (gview_of x)" using ginv_base [OF assms(1)] x(1) by (intro gbase_grp) auto
  ultimately show ?thesis using that y by auto
qed

lemma ginv_orig: "ginv (view s) \<Longrightarrow> pr_originalGroup (refs s p) = None"
  using gbase_ply [OF ginv_base, of "view s" p] by (cases "gs_players s p") (auto simp: refs_def PlayerRefs_new_def ply_ok_def)

lemma ginv_bg: "ginv (view s) \<Longrightarrow> gs_groups s g = Some x \<Longrightarrow> \<not> m_bgGroup x"
  using gbase_grp [OF ginv_base, of "view s" g "gview_of x"] by (auto simp: grp_ok_def gok_def)

lemma length_occ:
  "(\<And>x. x \<in> set sl \<Longrightarrow> unat (snd x) < 8) \<Longrightarrow> length sl = (\<Sum>i<8. occ i sl)"
proof (induction sl)
  case (Cons x sl)
  have "(\<Sum>i<8. of_bool (unat (snd x) = i)) = (1 :: nat)"
    using Cons.prems sum.delta [of "{..<8 :: nat}" "unat (snd x)" "\<lambda>_. 1 :: nat"]
    by (simp add: of_bool_def eq_commute)
  with Cons show ?case by (simp add: sum.distrib)
qed simp

lemma ginv_size:
  assumes "ginv (view s)" "gs_groups s g = Some x"
  shows "length (m_memberSlots x) \<le> 40" "m_memberSlots x \<noteq> [] \<Longrightarrow> 2 \<le> length (m_memberSlots x)"
proof -
  have ok: "gok (gview_of x)" using gbase_grp [OF ginv_base [OF assms(1)], of g "gview_of x"] assms(2) by (simp add: grp_ok_def)
  have "length (v_slots (gview_of x)) = (\<Sum>i<8. occ i (v_slots (gview_of x)))"
    using ok by (intro length_occ) (auto simp: gok_def)
  also have "\<dots> \<le> (\<Sum>i<(8 :: nat). 5)" using ok by (intro sum_mono) (auto simp: gok_def simp del: gview_sel)
  finally show "length (m_memberSlots x) \<le> 40" by simp
  show "m_memberSlots x \<noteq> [] \<Longrightarrow> 2 \<le> length (m_memberSlots x)"
    using ginv_shape [OF assms(1), of g "gview_of x"] assms(2) by (auto simp: group_shape_def split: if_splits)
qed

lemma count_less:
  assumes "length (m_memberSlots x) \<le> 40" "n < 40"
  shows "of_nat n < Group_GetMembersCount x \<longleftrightarrow> n < length (m_memberSlots x)"
proof -
  have "unat (of_nat (length (m_memberSlots x)) :: uint32) = length (m_memberSlots x)" "unat (of_nat n :: uint32) = n"
    using assms by (simp_all add: unat_of_nat take_bit_nat_eq_self)
  then show ?thesis by (simp add: Group_GetMembersCount_def word_less_nat_alt)
qed

text \<open>Nobody is between two maps: the player objects are the players in the world.\<close>

definition here :: "group_env \<Rightarrow> GroupState \<Rightarrow> bool" where
  "here E s \<longleftrightarrow> (\<forall>p. ge_GetPlayer E p \<noteq> None \<longleftrightarrow> gs_players s p \<noteq> None)"

lemma here_view: "here E s \<Longrightarrow> view s' = view s \<Longrightarrow> here E s'"
proof -
  assume h: "here E s" "view s' = view s"
  then have "gw_ply (view s') p = gw_ply (view s) p" for p by simp
  then have "gs_players s' p = None \<longleftrightarrow> gs_players s p = None" for p by (metis view_sel(2) map_option_is_None)
  with h(1) show ?thesis by (simp add: here_def)
qed

section \<open>Primitive changes\<close>

lemma wp_upd_id: "(\<And>r. gw_ply w p = Some r \<Longrightarrow> f r = r) \<Longrightarrow> wp_upd p f w = w"
  by (rule gworld_eqI) (cases "gw_ply w p"; simp)+

lemma wg_upd_id: "(\<And>v. gw_grp w g = Some v \<Longrightarrow> f v = v) \<Longrightarrow> wg_upd g f w = w"
  by (rule gworld_eqI) (cases "gw_grp w g"; simp)+

lemma RemoveInvite_view: "view (Group_RemoveInvite g p s) = drop_invite g p (view s)"
  unfolding Group_RemoveInvite_def drop_invite_def
  by (subst view_upd_refs [where f' = "\<lambda>r. r\<lparr>rv_invite := None\<rparr>"], simp add: rview_of_def,
      subst view_upd_grp [where f' = "\<lambda>v. v\<lparr>v_invs := v_invs v - {p}\<rparr>"])
    (auto simp: gview_of_def Group_isRaidGroup_def)

lemma invited_view:
  "view (upd_refs q (\<lambda>r. r\<lparr>pr_groupInvite := Some g\<rparr>) (upd_grp g (\<lambda>x. x\<lparr>m_invitees := q # m_invitees x\<rparr>) s)) = set_invite g q (view s)"
  unfolding set_invite_def
  by (subst view_upd_refs [where f' = "\<lambda>r. r\<lparr>rv_invite := Some g\<rparr>"], simp add: rview_of_def,
      subst view_upd_grp [where f' = "\<lambda>v. v\<lparr>v_invs := insert q (v_invs v)\<rparr>"])
    (auto simp: gview_of_def Group_isRaidGroup_def)

lemma drop_invite_id:
  "(\<And>r. gw_ply w q = Some r \<Longrightarrow> rv_invite r = None) \<Longrightarrow> (\<And>v. gw_grp w g = Some v \<Longrightarrow> q \<notin> v_invs v) \<Longrightarrow> drop_invite g q w = w"
  by (simp add: drop_invite_def wp_upd_id wg_upd_id)

section \<open>Joining\<close>

lemma link_view:
  assumes "gs_players s p = Some y" "pr_group y = None"
  shows "view (Player_SetGroup p (Some (g, n)) s) =
    wp_upd p (\<lambda>r. r\<lparr>rv_group := Some g, rv_sub := n\<rparr>) (wg_upd g (\<lambda>v. v\<lparr>v_mgr := insert (p, GroupRef) (v_mgr v)\<rparr>) (view s))"
  using assms
  by (intro gworld_eqI) (auto simp: Player_SetGroup_def ref_link_def ref_unlink_def ref_target_def set_target_def
      set_subGroup_def gs_players_upd_refs gs_groups_upd_grp option.map_comp comp_def gview_of_def rview_of_def
      Group_isRaidGroup_def intro!: option.map_cong)

lemma unlink_view:
  assumes "gs_players s p = Some y"
  shows "view (Player_SetGroup p None s) =
    (case pr_group y of None \<Rightarrow> view s
     | Some g \<Rightarrow> wp_upd p (\<lambda>r. r\<lparr>rv_group := None\<rparr>) (wg_upd g (\<lambda>v. v\<lparr>v_mgr := v_mgr v - {(p, GroupRef)}\<rparr>) (view s)))"
  using assms
  by (intro gworld_eqI) (auto simp: Player_SetGroup_def ref_unlink_def ref_target_def set_target_def
      gs_players_upd_refs gs_groups_upd_grp option.map_comp comp_def gview_of_def rview_of_def
      Group_isRaidGroup_def intro!: option.map_cong split: option.split)

lemma gview_counter_inc:
  "gview_of (Group_SubGroupCounterIncrease n x) = (gview_of x)\<lparr>v_counts := cnt_inc n (m_subGroupsCounts x)\<rparr>"
  "gview_of (Group_SubGroupCounterDecrease n x) = (gview_of x)\<lparr>v_counts := cnt_dec n (m_subGroupsCounts x)\<rparr>"
  by (simp_all add: gview_of_def Group_SubGroupCounterIncrease_def Group_SubGroupCounterDecrease_def cnt_inc_def cnt_dec_def
      Group_isRaidGroup_def split: option.split)

lemma addMemberTo_view:
  assumes x: "gs_groups s g = Some x" "\<not> m_bgGroup x" "\<not> Group_IsFull x" and p: "p \<noteq> 0" "ge_GetPlayer E p \<noteq> None"
    and y: "gs_players s p = Some y" "pr_group y = None" "pr_groupInvite y = None"
  shows "fst (Group_addMemberTo E g p name n s)" "view (snd (Group_addMemberTo E g p name n s)) = enter g p n (view s)"
proof -
  let ?m = "\<lparr>ms_guid = p, ms_name = name, ms_group = n, ms_flags = 0, ms_roles = 0\<rparr>"
  let ?f = "\<lambda>x. Group_SubGroupCounterIncrease n (x\<lparr>m_memberSlots := m_memberSlots x @ [?m]\<rparr>)"
  let ?s1 = "upd_refs p (\<lambda>r. r\<lparr>pr_groupInvite := None\<rparr>) (upd_grp g ?f s)"
  have bg: "\<not> m_bgGroup (?f x)" using x(2) by (simp add: Group_SubGroupCounterIncrease_def split: option.split)
  have y1: "gs_players ?s1 p = Some y" using y by (simp add: gs_players_upd_refs)
  have v1: "view ?s1 = wg_upd g (\<lambda>v. v\<lparr>v_slots := v_slots v @ [(p, n)], v_counts := cnt_inc n (v_counts v)\<rparr>) (view s)"
  proof -
    have "view ?s1 = wp_upd p (\<lambda>r. r\<lparr>rv_invite := None\<rparr>) (view (upd_grp g ?f s))"
      by (rule view_upd_refs) (simp add: rview_of_def)
    also have "\<dots> = view (upd_grp g ?f s)" using y by (intro wp_upd_id) (auto simp: rview_of_def)
    also have "\<dots> = wg_upd g (\<lambda>v. v\<lparr>v_slots := v_slots v @ [(p, n)], v_counts := cnt_inc n (v_counts v)\<rparr>) (view s)"
      by (rule view_upd_grp) (simp add: gview_counter_inc, simp add: gview_of_def slot_view_def Group_isRaidGroup_def)
    finally show ?thesis .
  qed
  have v2: "view (Player_SetGroup p (Some (g, n)) ?s1) = enter g p n (view s)"
    unfolding link_view [OF y1 y(2)] v1 enter_def
    by (rule arg_cong [where f = "wp_upd p _"], rule gworld_eqI) (auto simp: option.map_comp comp_def)
  have icons: "view (upd_grp g (\<lambda>x. x\<lparr>m_targetIcons := I\<rparr>) s') = view s'" for s' I
    by (rule view_same_grp) (simp add: gview_of_def Group_isRaidGroup_def)
  show "fst (Group_addMemberTo E g p name n s)" using x p by (simp add: Group_addMemberTo_def Let_def)
  show "view (snd (Group_addMemberTo E g p name n s)) = enter g p n (view s)"
    using x p y y1 v2 icons by (auto simp: Group_addMemberTo_def Let_def split: option.splits)
qed

lemma find_subgroup_Some: "find_subgroup c = Some i \<Longrightarrow> i < 8 \<and> unat (c ! i) < 5"
  by (auto simp: find_subgroup_def List.find_Some_iff MAX_RAID_SUBGROUPS_def MAXRAIDSIZE_def MAXGROUPSIZE_def)

lemma not_full_room:
  assumes "gok (gview_of x)" "m_subGroupsCounts x = None" "\<not> Group_IsFull x"
  shows "room 0 (gview_of x)"
  using assms by (auto simp: room_def Group_IsFull_def MAXGROUPSIZE_def gok_def)

text \<open>A player who is free is added to a sub-group with room, or nothing happens because the group is full.\<close>

lemma addMember_view:
  assumes x: "gs_groups s g = Some x" "gok (gview_of x)" and p: "p \<noteq> 0" "ge_GetPlayer E p \<noteq> None"
    and y: "gs_players s p = Some y" "pr_group y = None" "pr_groupInvite y = None"
  shows "\<not> fst (Group_addMember E g p name s) \<and> view (snd (Group_addMember E g p name s)) = view s \<or>
    fst (Group_addMember E g p name s) \<and> (\<exists>n. room n (gview_of x) \<and> view (snd (Group_addMember E g p name s)) = enter g p n (view s))"
    (is "?no \<or> ?yes")
    and "m_subGroupsCounts x = None \<Longrightarrow> \<not> Group_IsFull x \<Longrightarrow> fst (Group_addMember E g p name s) \<and>
      view (snd (Group_addMember E g p name s)) = enter g p 0 (view s)"
proof -
  have bg: "\<not> m_bgGroup x" using x(2) by (simp add: gok_def)
  note add = addMemberTo_view [OF x(1) bg _ p y]
  have full: "Group_addMemberTo E g p name n s = (False, s)" if "Group_IsFull x" for n
    using that x by (simp add: Group_addMemberTo_def)
  show "fst (Group_addMember E g p name s) \<and> view (snd (Group_addMember E g p name s)) = enter g p 0 (view s)"
    if "m_subGroupsCounts x = None" "\<not> Group_IsFull x"
    using that x add by (simp add: Group_addMember_def)
  show "?no \<or> ?yes"
  proof (cases "m_subGroupsCounts x")
    case None
    then show ?thesis
      using x full [of 0] add [of name 0] not_full_room [OF x(2)]
      by (cases "Group_IsFull x") (auto simp: Group_addMember_def)
  next
    case (Some c)
    show ?thesis
    proof (cases "find_subgroup c")
      case None
      then show ?thesis using x Some by (simp add: Group_addMember_def)
    next
      case (Some i)
      from find_subgroup_Some [OF this] have i: "i < 8" "unat (c ! i) < 5" by auto
      then have "unat (of_nat i :: uint8) = i" by (simp add: unat_of_nat take_bit_nat_eq_self)
      with i \<open>m_subGroupsCounts x = Some c\<close> have "room (of_nat i) (gview_of x)" by (simp add: room_def)
      with Some \<open>m_subGroupsCounts x = Some c\<close> show ?thesis
        using x full [of "of_nat i"] add [of name "of_nat i"]
        by (cases "Group_IsFull x") (auto simp: Group_addMember_def)
    qed
  qed
qed

lemma rview_quiet [simp]:
  "rview_of (r\<lparr>pr_dungeonDifficulty := d\<rparr>) = rview_of r" "rview_of (r\<lparr>pr_raidDifficulty := d\<rparr>) = rview_of r"
  "rview_of (r\<lparr>pr_updateMask := m\<rparr>) = rview_of r" "rview_of (r\<lparr>pr_passOnGroupLoot := b\<rparr>) = rview_of r"
  by (simp_all add: rview_of_def)

lemma gview_quiet [simp]:
  "gview_of (x\<lparr>m_maxEnchantingLevel := n\<rparr>) = gview_of x" "gview_of (x\<lparr>m_lootMethod := a, m_looterGuid := b, m_lootThreshold := c\<rparr>) = gview_of x"
  by (simp_all add: gview_of_def Group_isRaidGroup_def)

lemma welcome_view [simp]: "view (welcome_member E g player s) = view s"
  by (simp add: welcome_member_def Let_def view_same_refs view_same_grp)

lemma AddMember_view:
  "fst (Group_AddMember E g p name s) = fst (Group_addMember E g p name s)"
  "view (snd (Group_AddMember E g p name s)) = view (snd (Group_addMember E g p name s))"
  by (auto simp: Group_AddMember_def Let_def case_prod_unfold split: option.split)

section \<open>Leading and leaving\<close>

lemma setLeader_view:
  assumes "gs_groups s g = Some x" "p \<in> mems (gview_of x)"
  shows "view (Group_setLeader E g p s) = wg_upd g (\<lambda>v. v\<lparr>v_leader := p\<rparr>) (view s)"
proof -
  obtain m where m: "getMemberSlot p x = Some m" using assms(2) getMemberSlot_None [of p x] by auto
  have "view (upd_grp g (\<lambda>x. Group_ToggleGroupMemberFlag p MEMBER_FLAG_ASSISTANT False (x\<lparr>m_leaderGuid := p, m_leaderName := ms_name m\<rparr>)) s')
      = wg_upd g (\<lambda>v. v\<lparr>v_leader := p\<rparr>) (view s')" for s'
    by (rule view_upd_grp) (simp, simp add: gview_of_def Group_isRaidGroup_def)
  then show ?thesis using assms(1) m by (simp add: Group_setLeader_def Let_def)
qed

lemma slot_erase_view:
  "distinct (map fst (map slot_view ms)) \<Longrightarrow> map slot_view (slot_erase p ms) = filter (\<lambda>x. fst x \<noteq> p) (map slot_view ms)"
proof (induction ms)
  case Nil
  then show ?case by simp
next
  case (Cons m ms)
  then show ?case by (auto simp: slot_view_def intro!: remove_absent [symmetric])
qed

lemma leave_refs_view:
  assumes "ginv (view s)" "gs_groups s g = Some x" "gs_players s p = Some y"
  shows "view (leave_refs g p s) =
    (case pr_group y of None \<Rightarrow> view s
     | Some h \<Rightarrow> wp_upd p (\<lambda>r. r\<lparr>rv_group := None\<rparr>) (wg_upd h (\<lambda>v. v\<lparr>v_mgr := v_mgr v - {(p, GroupRef)}\<rparr>) (view s)))"
  using unlink_view [OF assms(3)] ginv_bg [OF assms(1,2)] ginv_orig [OF assms(1), of p] assms(2)
  by (simp add: leave_refs_def Group_isBGGroup_def)

lemma mgr_absent: "a \<notin> v_mgr v \<Longrightarrow> v\<lparr>v_mgr := v_mgr v - {a}\<rparr> = v"
  by simp

lemma slots_head: "map slot_view ms = sl \<Longrightarrow> sl \<noteq> [] \<Longrightarrow> \<exists>m ms'. ms = m # ms' \<and> ms_guid m = fst (hd sl)"
  by (cases ms) (auto simp: slot_view_def)

text \<open>The reference of a member who leaves, whether he is in the world or not.\<close>

lemma leaving_ref_view:
  assumes inv: "ginv (view s)" and E: "here E s" and x: "gs_groups s g = Some x" "(p, n) \<in> set (v_slots (gview_of x))"
  shows "view (case ge_GetPlayer E p of None \<Rightarrow> s | Some _ \<Rightarrow> leave_refs g p s) =
    wp_upd p (\<lambda>r. if rv_group r = Some g then r\<lparr>rv_group := None\<rparr> else r)
      (wg_upd g (\<lambda>v. v\<lparr>v_mgr := v_mgr v - {(p, GroupRef)}\<rparr>) (view s))" (is "_ = ?w")
proof (cases "gs_players s p")
  case None
  then have "(p, GroupRef) \<notin> v_mgr (gview_of x)"
    using gbase_grp [OF ginv_base [OF inv], of g "gview_of x"] x by (auto simp: grp_ok_def linked_def)
  then have "wg_upd g (\<lambda>v. v\<lparr>v_mgr := v_mgr v - {(p, GroupRef)}\<rparr>) (view s) = view s"
    using x by (intro wg_upd_id mgr_absent) auto
  then have "?w = view s" using None by (simp del: wp_upd_sel) (rule wp_upd_id, simp)
  moreover have "ge_GetPlayer E p = None" using E None unfolding here_def by blast
  ultimately show ?thesis by simp
next
  case (Some y)
  then have y: "pr_group y = Some g" using gbase_sub(1) [OF ginv_base [OF inv], of p "rview_of y" g "gview_of x" n] x by simp
  have "ge_GetPlayer E p \<noteq> None" using E Some unfolding here_def by blast
  then obtain pl where pl: "ge_GetPlayer E p = Some pl" by blast
  show ?thesis using leave_refs_view [OF inv x(1) Some] y Some unfolding pl by (intro gworld_eqI) auto
qed

lemma erased_slot:
  assumes "gok (gview_of x)" "(p, n) \<in> set (v_slots (gview_of x))" "getMemberSlot p x = Some m"
  shows "gview_of ((Group_SubGroupCounterDecrease (ms_group m) x)\<lparr>m_memberSlots := slot_erase p (m_memberSlots x)\<rparr>) =
    (gview_of x)\<lparr>v_slots := filter (\<lambda>x. fst x \<noteq> p) (v_slots (gview_of x)), v_counts := cnt_dec n (v_counts (gview_of x))\<rparr>"
proof -
  have "map slot_view (slot_erase p (m_memberSlots x)) = filter (\<lambda>x. fst x \<noteq> p) (v_slots (gview_of x))"
    using slot_erase_view [of "m_memberSlots x" p] assms(1) by (simp add: gok_def)
  moreover have "ms_group m = n" using getMemberSlot_Some [OF assms(3)] assms(2) slot_unique [OF assms(1)] by blast
  ultimately show ?thesis
    by (auto simp: gview_of_def Group_SubGroupCounterDecrease_def cnt_dec_def Group_isRaidGroup_def split: option.split)
qed

lemma slots_remain:
  assumes "gok v" "(p, n) \<in> set (v_slots v)" "2 < length (v_slots v)"
  shows "filter (\<lambda>x. fst x \<noteq> p) (v_slots v) \<noteq> []"
proof
  assume "filter (\<lambda>x. fst x \<noteq> p) (v_slots v) = []"
  moreover have "Suc (length (filter (\<lambda>x. fst x \<noteq> p) (v_slots v))) = length (v_slots v)"
    using assms by (intro length_remove) (auto simp: gok_def)
  ultimately show False using assms(3) by (simp only: list.size)
qed

lemma removeMember_view:
  assumes inv: "ginv (view s)" and E: "here E s" and x: "gs_groups s g = Some x" "(p, n) \<in> set (v_slots (gview_of x))"
    and len: "2 < length (m_memberSlots x)"
  shows "view (snd (Group_removeMember E g p s)) = leave g p n (view s)"
proof -
  have ok: "gok (gview_of x)" using gbase_grp [OF ginv_base [OF inv], of g "gview_of x"] x by (simp add: grp_ok_def)
  define s1 where "s1 = (case ge_GetPlayer E p of None \<Rightarrow> s | Some _ \<Rightarrow> leave_refs g p s)"
  define s2 where "s2 = Group_removeRolls E g p s1"
  define w1 where "w1 = wp_upd p (\<lambda>r. if rv_group r = Some g then r\<lparr>rv_group := None\<rparr> else r)
    (wg_upd g (\<lambda>v. v\<lparr>v_mgr := v_mgr v - {(p, GroupRef)}\<rparr>) (view s))"
  have v2: "view s2 = w1" using leaving_ref_view [OF inv E x] by (simp add: s1_def s2_def w1_def)
  have "gw_grp (view s2) g = Some ((gview_of x)\<lparr>v_mgr := v_mgr (gview_of x) - {(p, GroupRef)}\<rparr>)"
    unfolding v2 w1_def using x(1) by simp
  then obtain x2 where x2: "gs_groups s2 g = Some x2" "gview_of x2 = (gview_of x)\<lparr>v_mgr := v_mgr (gview_of x) - {(p, GroupRef)}\<rparr>"
    by (rule view_grpE)
  have f2: "v_slots (gview_of x2) = v_slots (gview_of x)" "v_leader (gview_of x2) = m_leaderGuid x" "gok (gview_of x2)"
    unfolding x2(2) using ok by simp_all
  then have bg2: "\<not> v_bg (gview_of x2)" by (simp add: gok_def)
  have "p \<in> mems (gview_of x2)" by (rule memsI [of _ n]) (simp only: f2(1) x(2))
  then obtain m where m: "getMemberSlot p x2 = Some m" using getMemberSlot_None [of p x2] by auto
  let ?f = "\<lambda>x. (Group_SubGroupCounterDecrease (ms_group m) x)\<lparr>m_memberSlots := slot_erase p (m_memberSlots x)\<rparr>"
  let ?sl = "filter (\<lambda>x. fst x \<noteq> p) (v_slots (gview_of x))"
  have gf: "gview_of (?f x2) = (gview_of x2)\<lparr>v_slots := ?sl, v_counts := cnt_dec n (v_counts (gview_of x2))\<rparr>"
    using erased_slot [OF f2(3) x(2) [folded f2(1)] m] unfolding f2(1) .
  define s3 where "s3 = upd_grp g ?f s2"
  define s4 where "s4 = gs_emit [GroupSql (DeleteMember (GUID_LOPART p))] s3"
  have v4: "view s4 = wg_upd g (\<lambda>v. v\<lparr>v_slots := ?sl, v_counts := cnt_dec n (v_counts v)\<rparr>) w1"
    unfolding s4_def view_emit s3_def v2 [symmetric] using x2(1) gf by (rule view_upd_at)
  have x3: "gs_groups s3 g = Some (?f x2)" "gs_groups s4 g = Some (?f x2)" using x2(1) by (simp_all add: s3_def s4_def gs_groups_upd_grp)
  have f3: "\<not> v_bg (gview_of (?f x2))" "v_leader (gview_of (?f x2)) = m_leaderGuid x" unfolding gf using f2(2) bg2 by simp_all
  have "map slot_view (m_memberSlots (?f x2)) = ?sl" using arg_cong [OF gf, of v_slots] by simp
  from slots_head [OF this slots_remain [OF ok x(2)]] len
  obtain m' ms' where ms': "m_memberSlots (?f x2) = m' # ms'" "ms_guid m' = fst (hd ?sl)" by auto
  have "snd (Group_removeMember E g p s) = (if m_leaderGuid x = p then Group_setLeader E g (fst (hd ?sl)) s4 else s4)"
    unfolding Group_removeMember_def Let_def s1_def [symmetric] s2_def [symmetric]
    using m f3(1,2) x2(1) x3 ms' by (simp add: s3_def [symmetric] s4_def [symmetric] Group_isBGGroup_def)
  moreover have "view (Group_setLeader E g (fst (hd ?sl)) s4) = wg_upd g (\<lambda>v. v\<lparr>v_leader := fst (hd ?sl)\<rparr>) (view s4)"
    using ms' by (intro setLeader_view [OF x3(2)]) (auto simp: mems_view)
  ultimately have "view (snd (Group_removeMember E g p s)) =
      wg_upd g (\<lambda>v. v\<lparr>v_leader := (if m_leaderGuid x = p then fst (hd ?sl) else v_leader v)\<rparr>) (view s4)"
    by (auto simp: wg_upd_id)
  also have "\<dots> = leave g p n (view s)"
    unfolding v4 w1_def leave_def using x(1) by (intro gworld_eqI) (auto simp: Let_def option.map_comp comp_def)
  finally show ?thesis .
qed

end
