(* ===== verification/Group_Ends.thy ===== *)
theory Group_Ends
  imports Group_Sim
begin

text \<open>How groups end: disbanding and deleting clear every pointer to the group.\<close>

section \<open>On the way to a group's end\<close>

definition towards :: "group_ptr \<Rightarrow> gworld \<Rightarrow> gworld \<Rightarrow> bool" where
  "towards g w w' \<longleftrightarrow> (\<forall>h. h \<noteq> g \<longrightarrow> gw_grp w' h = gw_grp w h) \<and>
     (\<forall>p. map_option (unref g) (gw_ply w' p) = map_option (unref g) (gw_ply w p)) \<and>
     gw_next w' = gw_next w \<and> gw_reg w' = gw_reg w \<and> gw_uaf w' = gw_uaf w \<and>
     (\<exists>v. gw_grp w' g = Some v \<and> \<not> v_bg v \<and> (\<forall>p k. (p, k) \<in> v_mgr v \<longleftrightarrow> k = GroupRef \<and> linked w' p g)) \<and>
     (\<forall>p r. gw_ply w' p = Some r \<longrightarrow> rv_orig r = None) \<and>
     (\<forall>v p r. gw_grp w' g = Some v \<longrightarrow> gw_ply w' p = Some r \<longrightarrow> rv_invite r = Some g \<longrightarrow> p \<in> v_invs v) \<and>
     (\<forall>v p. gw_grp w' g = Some v \<longrightarrow> p \<in> v_invs v \<longrightarrow> (\<exists>r. gw_ply w' p = Some r \<and> rv_invite r \<in> {None, Some g}))"

lemma unref_drop [simp]: "rv_group r = Some g \<Longrightarrow> unref g (r\<lparr>rv_group := None\<rparr>) = unref g r"
  by (simp add: unref_def)

lemma unref_invite [simp]: "rv_invite r = Some g \<Longrightarrow> unref g (r\<lparr>rv_invite := None\<rparr>) = unref g r"
  by (simp add: unref_def)

lemma towards_refl:
  assumes "ginv w" "gw_grp w g = Some v"
  shows "towards g w w"
  using gbase_grp [OF ginv_base [OF assms(1)] assms(2)] gbase_ply [OF ginv_base [OF assms(1)]] assms(2)
  by (force simp: towards_def grp_ok_def gok_def ply_ok_def)

lemma towards_grp:
  assumes "towards g w (view s)" "\<And>x. v_mgr (gview_of (f x)) = v_mgr (gview_of x)" "\<And>x. v_bg (gview_of (f x)) = v_bg (gview_of x)"
    "\<And>x. v_invs (gview_of (f x)) = v_invs (gview_of x)"
  shows "towards g w (view (upd_grp g f s))"
proof -
  have "linked (view (upd_grp g f s)) p g = linked (view s) p g" for p by (simp add: linked_def)
  with assms show ?thesis by (auto simp: towards_def gs_groups_upd_grp simp del: gview_sel)
qed

lemma towards_unref: "towards g w w' \<Longrightarrow> map_option (unref g) (gw_ply w' p) = map_option (unref g) (gw_ply w p)"
  by (simp add: towards_def)

lemma towards_orig: "towards g w w' \<Longrightarrow> gw_ply w' p = Some r \<Longrightarrow> rv_orig r = None"
  by (simp add: towards_def)

lemma towards_wp_invite:
  assumes t: "towards g w w'" and r: "gw_ply w' p = Some r" "rv_invite r = Some g"
  shows "towards g w (wp_upd p (\<lambda>r. r\<lparr>rv_invite := None\<rparr>) w')"
proof -
  have l: "linked (wp_upd p (\<lambda>r. r\<lparr>rv_invite := None\<rparr>) w') q g = linked w' q g" for q using r by (auto simp: linked_def)
  have u: "Some (unref g (r\<lparr>rv_invite := None\<rparr>)) = map_option (unref g) (gw_ply w p)"
    using towards_unref [OF t, of p] r by simp
  have o: "rv_orig r = None" using towards_orig [OF t r(1)] .
  from t r u l o show ?thesis unfolding towards_def by auto
qed

lemma towards_wp_group:
  assumes t: "towards g w w'" and r: "gw_ply w' p = Some r" "rv_group r = Some g"
  shows "towards g w (wp_upd p (\<lambda>r. r\<lparr>rv_group := None\<rparr>) (wg_upd g (\<lambda>v. v\<lparr>v_mgr := v_mgr v - {(p, GroupRef)}\<rparr>) w'))"
    (is "towards g w ?w")
proof -
  have l: "linked ?w q g = (q \<noteq> p \<and> linked w' q g)" for q using r by (auto simp: linked_def)
  have u: "Some (unref g (r\<lparr>rv_group := None\<rparr>)) = map_option (unref g) (gw_ply w p)"
    using towards_unref [OF t, of p] r by simp
  have o: "rv_orig r = None" using towards_orig [OF t r(1)] .
  obtain v where "gw_grp w' g = Some v" "\<not> v_bg v" "\<And>q k. (q, k) \<in> v_mgr v \<longleftrightarrow> k = GroupRef \<and> linked w' q g"
    using t unfolding towards_def by blast
  with t r u l o show ?thesis unfolding towards_def by auto
qed

lemma towards_invite:
  assumes "towards g w (view s)" "gs_players s p = Some y" "pr_groupInvite y = Some g"
  shows "towards g w (view (upd_refs p (\<lambda>r. r\<lparr>pr_groupInvite := None\<rparr>) s))"
proof -
  have "view (upd_refs p (\<lambda>r. r\<lparr>pr_groupInvite := None\<rparr>) s) = wp_upd p (\<lambda>r. r\<lparr>rv_invite := None\<rparr>) (view s)"
    by (intro view_upd_refs) (simp add: rview_of_def)
  then show ?thesis using towards_wp_invite [OF assms(1), of p "rview_of y"] assms(2,3) by simp
qed

lemma towards_unlink:
  assumes t: "towards g w (view s)" and y: "gs_players s p = Some y" "pr_group y = Some g"
  shows "towards g w (view (Player_SetGroup p None s))"
  using towards_wp_group [OF t, of p "rview_of y"] unlink_view [OF y(1)] y by simp

lemma Group_delete_fold:
  "view (foldr (\<lambda>(p, k). upd_refs p (set_target k None)) xs s) =
   (view s)\<lparr>gw_ply := (\<lambda>p. map_option (\<lambda>r. r\<lparr>rv_group := (if (p, GroupRef) \<in> set xs then None else rv_group r),
      rv_orig := (if (p, OriginalRef) \<in> set xs then None else rv_orig r)\<rparr>) (gw_ply (view s) p))\<rparr>"
proof (induction xs)
  case Nil
  show ?case by (rule gworld_eqI) (auto simp: option.map_ident)
next
  case (Cons x xs)
  obtain p k where x: "x = (p, k)" by (cases x)
  have "rview_of (set_target k None r) = (case k of GroupRef \<Rightarrow> (rview_of r)\<lparr>rv_group := None\<rparr> | OriginalRef \<Rightarrow> (rview_of r)\<lparr>rv_orig := None\<rparr>)" for r
    by (simp add: set_target_def rview_of_def split: ref_kind.split)
  then have "view (foldr (\<lambda>(p, k). upd_refs p (set_target k None)) (x # xs) s) =
      wp_upd p (\<lambda>r. case k of GroupRef \<Rightarrow> r\<lparr>rv_group := None\<rparr> | OriginalRef \<Rightarrow> r\<lparr>rv_orig := None\<rparr>)
        (view (foldr (\<lambda>(p, k). upd_refs p (set_target k None)) xs s))"
    unfolding x by (simp add: view_upd_refs)
  also have "\<dots> = (view s)\<lparr>gw_ply := (\<lambda>p. map_option (\<lambda>r. r\<lparr>rv_group := (if (p, GroupRef) \<in> set (x # xs) then None else rv_group r),
      rv_orig := (if (p, OriginalRef) \<in> set (x # xs) then None else rv_orig r)\<rparr>) (gw_ply (view s) p))\<rparr>"
    unfolding Cons.IH x by (rule gworld_eqI) (auto simp: option.map_comp comp_def split: ref_kind.split intro!: option.map_cong)
  finally show ?case .
qed

lemma Group_delete_view:
  assumes t: "towards g w (view s)" and inv: "\<And>p r. gw_ply (view s) p = Some r \<Longrightarrow> rv_invite r \<noteq> Some g"
  shows "view (Group_delete g s) = (dissolve g w)\<lparr>gw_reg := gw_reg w\<rparr>"
proof (rule gworld_eqI)
  obtain x where x: "gs_groups s g = Some x" "\<And>p k. (p, k) \<in> set (m_memberMgr x) \<longleftrightarrow> k = GroupRef \<and> linked (view s) p g"
    using t unfolding towards_def by auto
  let ?s1 = "foldr (\<lambda>(p, k). upd_refs p (set_target k None)) (m_memberMgr x) s"
  have del: "Group_delete g s = ?s1\<lparr>gs_groups := (gs_groups ?s1)(g := None)\<rparr>" using x(1) by (simp add: Group_delete_def Let_def)
  note v1 = Group_delete_fold [of "m_memberMgr x" s]
  have sel: "gw_grp (view (Group_delete g s)) h = (if h = g then None else gw_grp (view ?s1) h)"
    "gw_ply (view (Group_delete g s)) p = gw_ply (view ?s1) p" "gw_next (view (Group_delete g s)) = gw_next (view ?s1)"
    "gw_reg (view (Group_delete g s)) = gw_reg (view ?s1)" "gw_uaf (view (Group_delete g s)) = gw_uaf (view ?s1)" for h p
    by (simp_all add: del)
  have T: "h \<noteq> g \<Longrightarrow> gw_grp (view s) h = gw_grp w h" "map_option (unref g) (gw_ply (view s) p) = map_option (unref g) (gw_ply w p)" for h p
    using t unfolding towards_def by blast+
  show "gw_grp (view (Group_delete g s)) h = gw_grp ((dissolve g w)\<lparr>gw_reg := gw_reg w\<rparr>) h" for h
    unfolding sel v1 using T(1) [of h] by (simp add: dissolve_def)
  show "gw_ply (view (Group_delete g s)) p = gw_ply ((dissolve g w)\<lparr>gw_reg := gw_reg w\<rparr>) p" for p
  proof -
    have "gw_ply (view (Group_delete g s)) p = map_option (unref g) (gw_ply (view s) p)"
    proof (cases "gw_ply (view s) p")
      case (Some r)
      have "rv_orig r = None" using t Some unfolding towards_def by blast
      moreover have "rv_invite r \<noteq> Some g" using inv Some by blast
      moreover have "(p, GroupRef) \<in> set (m_memberMgr x) \<longleftrightarrow> rv_group r = Some g" using x(2) Some by (auto simp: linked_def)
      moreover have "(p, OriginalRef) \<notin> set (m_memberMgr x)" using x(2) by auto
      ultimately show ?thesis unfolding sel v1 using Some by (simp add: unref_def del: view_sel)
    qed (simp add: sel v1 del: view_sel)
    then show ?thesis using T(2) [of p] by (simp add: dissolve_def)
  qed
  show "gw_next (view (Group_delete g s)) = gw_next ((dissolve g w)\<lparr>gw_reg := gw_reg w\<rparr>)"
    "gw_reg (view (Group_delete g s)) = gw_reg ((dissolve g w)\<lparr>gw_reg := gw_reg w\<rparr>)"
    "gw_uaf (view (Group_delete g s)) = gw_uaf ((dissolve g w)\<lparr>gw_reg := gw_reg w\<rparr>)"
    unfolding sel v1 using t by (simp_all add: dissolve_def towards_def)
qed


section \<open>Ending a group\<close>

lemma towards_alive: "towards g w (view s) \<Longrightarrow> \<exists>x. gs_groups s g = Some x \<and> \<not> m_bgGroup x"
  unfolding towards_def by auto

lemma clear_invites_players:
  "gs_players (fold (\<lambda>p. upd_refs p (\<lambda>r. r\<lparr>pr_groupInvite := None\<rparr>)) ps s) q =
   (if q \<in> set ps then map_option (\<lambda>r. r\<lparr>pr_groupInvite := None\<rparr>) (gs_players s q) else gs_players s q)"
  by (induction ps arbitrary: s) (auto simp: gs_players_upd_refs option.map_comp comp_def)

lemma RemoveAllInvites_fold:
  "towards g w (view s) \<Longrightarrow> set ps \<subseteq> v_invs (gview_of (grp s g)) \<Longrightarrow>
   towards g w (view (fold (\<lambda>p. upd_refs p (\<lambda>r. r\<lparr>pr_groupInvite := None\<rparr>)) ps s)) \<and>
   (\<forall>p y. gs_players (fold (\<lambda>p. upd_refs p (\<lambda>r. r\<lparr>pr_groupInvite := None\<rparr>)) ps s) p = Some y \<longrightarrow> pr_groupInvite y = Some g \<longrightarrow>
      p \<in> v_invs (gview_of (grp s g)) - set ps)"
proof (induction ps arbitrary: s)
  case Nil
  then obtain x where "gs_groups s g = Some x" using towards_alive by blast
  with Nil show ?case unfolding towards_def by auto
next
  case (Cons p ps)
  let ?s1 = "upd_refs p (\<lambda>r. r\<lparr>pr_groupInvite := None\<rparr>) s"
  obtain x where x: "gs_groups s g = Some x" using towards_alive [OF Cons.prems(1)] by blast
  have "p \<in> v_invs (gview_of x)" using Cons.prems(2) x by simp
  then obtain y where y: "gs_players s p = Some y" "pr_groupInvite y = None \<or> pr_groupInvite y = Some g"
    using Cons.prems(1) x unfolding towards_def by (auto dest!: spec [of _ "gview_of x"])
  have t: "towards g w (view ?s1)"
  proof (cases "pr_groupInvite y")
    case None
    then have "view ?s1 = view s" by (intro gworld_eqI) (auto simp: gs_players_upd_refs y rview_of_def)
    then show ?thesis using Cons.prems by simp
  next
    case (Some h)
    then show ?thesis using y by (intro towards_invite [OF Cons.prems(1) y(1)]) auto
  qed
  have "set ps \<subseteq> v_invs (gview_of (grp ?s1 g))" using Cons.prems(2) x by simp
  from Cons.IH [OF t this] have ih: "towards g w (view (fold (\<lambda>p. upd_refs p (\<lambda>r. r\<lparr>pr_groupInvite := None\<rparr>)) (p # ps) s))" by simp
  moreover have "q \<in> v_invs (gview_of (grp s g)) - set (p # ps)"
    if "gs_players (fold (\<lambda>p. upd_refs p (\<lambda>r. r\<lparr>pr_groupInvite := None\<rparr>)) (p # ps) s) q = Some z" "pr_groupInvite z = Some g" for q z
  proof -
    have q: "q \<notin> set (p # ps)" "gs_players s q = Some z" using that unfolding clear_invites_players by (auto split: if_splits)
    moreover have "q \<in> v_invs (gview_of x)" using Cons.prems(1) q(2) that(2) x unfolding towards_def by auto
    ultimately show ?thesis using x by simp
  qed
  ultimately show ?case by blast
qed

lemma RemoveAllInvites_towards:
  assumes t: "towards g w (view s)"
  shows "towards g w (view (Group_RemoveAllInvites g s))"
    and "gw_ply (view (Group_RemoveAllInvites g s)) p = Some r \<Longrightarrow> rv_invite r \<noteq> Some g"
proof -
  obtain x where x: "gs_groups s g = Some x" using towards_alive [OF t] by blast
  define s1 where "s1 = fold (\<lambda>p. upd_refs p (\<lambda>r. r\<lparr>pr_groupInvite := None\<rparr>)) (m_invitees x) s"
  have f: "towards g w (view s1)" "\<And>p y. gs_players s1 p = Some y \<Longrightarrow> pr_groupInvite y \<noteq> Some g"
    using RemoveAllInvites_fold [OF t, of "m_invitees x"] x unfolding s1_def by auto
  have a: "Group_RemoveAllInvites g s = upd_grp g (\<lambda>x. x\<lparr>m_invitees := []\<rparr>) s1"
    using x by (simp add: Group_RemoveAllInvites_def s1_def)
  have l: "linked (view (upd_grp g (\<lambda>x. x\<lparr>m_invitees := []\<rparr>) s1)) q g = linked (view s1) q g" for q by (simp add: linked_def)
  show "towards g w (view (Group_RemoveAllInvites g s))"
    using f unfolding a towards_def l by (auto simp: gs_groups_upd_grp)
  show "gw_ply (view (Group_RemoveAllInvites g s)) p = Some r \<Longrightarrow> rv_invite r \<noteq> Some g"
    using f(2) unfolding a by auto
qed

lemma disband_member_towards:
  assumes t: "towards g w (view s)" and m: "ge_GetPlayer E (ms_guid m) \<noteq> None \<Longrightarrow> \<exists>y. gs_players s (ms_guid m) = Some y \<and> pr_group y = Some g"
  shows "towards g w (view (disband_member E b g m s))"
    and "q \<noteq> ms_guid m \<Longrightarrow> gw_ply (view (disband_member E b g m s)) q = gw_ply (view s) q"
proof -
  let ?p = "ms_guid m"
  have "towards g w (view (disband_member E b g m s)) \<and>
    (q \<noteq> ?p \<longrightarrow> gw_ply (view (disband_member E b g m s)) q = gw_ply (view s) q)"
  proof (cases "ge_GetPlayer E ?p")
    case None
    then show ?thesis using t by (simp add: disband_member_def)
  next
    case (Some pl)
    then obtain y where y: "gs_players s ?p = Some y" "pr_group y = Some g" using m by auto
    obtain x where x: "gs_groups s g = Some x" "\<not> m_bgGroup x" using towards_alive [OF t] by blast
    have "pr_originalGroup y = None" using towards_orig [OF t, of ?p "rview_of y"] y by simp
    then have lr: "leave_refs g ?p s = Player_SetGroup ?p None s"
      using x y by (simp add: leave_refs_def Group_isBGGroup_def)
    let ?s1 = "Player_SetGroup ?p None s"
    have none: "pr_group (refs ?s1 ?p) = None"
      using y by (simp add: Player_SetGroup_def ref_unlink_def ref_target_def set_target_def refs_upd_refs)
    have "view (disband_member E b g m s) = view ?s1"
      using Some none by (simp add: disband_member_def Let_def lr farewell_def)
    then show ?thesis using towards_unlink [OF t y] unlink_view [OF y(1)] y by simp
  qed
  then show "towards g w (view (disband_member E b g m s))"
    "q \<noteq> ms_guid m \<Longrightarrow> gw_ply (view (disband_member E b g m s)) q = gw_ply (view s) q" by blast+
qed

lemma disband_fold_towards:
  "towards g w (view s) \<Longrightarrow> distinct (map ms_guid ms) \<Longrightarrow>
   (\<And>m. m \<in> set ms \<Longrightarrow> ge_GetPlayer E (ms_guid m) \<noteq> None \<Longrightarrow> \<exists>y. gs_players s (ms_guid m) = Some y \<and> pr_group y = Some g) \<Longrightarrow>
   towards g w (view (fold (disband_member E b g) ms s))"
proof (induction ms arbitrary: s)
  case Nil
  then show ?case by simp
next
  case (Cons m ms)
  have m: "ge_GetPlayer E (ms_guid m) \<noteq> None \<Longrightarrow> \<exists>y. gs_players s (ms_guid m) = Some y \<and> pr_group y = Some g" using Cons.prems(3) by simp
  let ?s1 = "disband_member E b g m s"
  have "\<exists>y. gs_players ?s1 (ms_guid m') = Some y \<and> pr_group y = Some g"
    if m': "m' \<in> set ms" "ge_GetPlayer E (ms_guid m') \<noteq> None" for m'
  proof -
    obtain y where y: "gs_players s (ms_guid m') = Some y" "pr_group y = Some g" using Cons.prems(3) m' by auto
    have "ms_guid m' \<noteq> ms_guid m" using Cons.prems(2) m' by (metis distinct.simps(2) image_eqI list.set_map list.simps(9))
    from disband_member_towards(2) [OF Cons.prems(1) m this] y
    have "gw_ply (view ?s1) (ms_guid m') = Some (rview_of y)" by simp
    then show ?thesis using y(2) by (metis rview_sel(2) view_plyE)
  qed
  then have "towards g w (view (fold (disband_member E b g) ms ?s1))"
    using Cons.prems(2) disband_member_towards(1) [OF Cons.prems(1) m] by (intro Cons.IH) auto
  then show ?case by simp
qed

lemma Disband_towards:
  assumes inv: "ginv (view s)" and E: "here E s" and x: "gs_groups s g = Some x"
  shows "towards g (view s) (view (Group_Disband E b g s))"
    and "gw_ply (view (Group_Disband E b g s)) p = Some r \<Longrightarrow> rv_invite r \<noteq> Some g"
proof -
  note base = ginv_base [OF inv]
  define s1 where "s1 = fold (disband_member E b g) (m_memberSlots x) (gs_emit [OnGroupDisband g] s)"
  have ok: "grp_ok (view s) g (gview_of x)" using base x by (intro gbase_grp) auto
  have t0: "towards g (view s) (view (gs_emit [OnGroupDisband g] s))" using towards_refl [OF inv, of g "gview_of x"] x by simp
  have "\<exists>y. gs_players (gs_emit [OnGroupDisband g] s) (ms_guid m) = Some y \<and> pr_group y = Some g"
    if "m \<in> set (m_memberSlots x)" "ge_GetPlayer E (ms_guid m) \<noteq> None" for m
  proof -
    obtain y where y: "gs_players s (ms_guid m) = Some y" using E \<open>ge_GetPlayer E (ms_guid m) \<noteq> None\<close> unfolding here_def by blast
    have m: "ms_guid m \<in> mems (gview_of x)" using that(1) by (auto simp: mems_view)
    have "gw_ply (view s) (ms_guid m) = Some (rview_of y)" using y by simp
    with ok m have "rv_group (rview_of y) = Some g" unfolding grp_ok_def by blast
    then show ?thesis using y by simp
  qed
  then have t1: "towards g (view s) (view s1)" unfolding s1_def
    using ok by (intro disband_fold_towards [OF t0]) (auto simp: grp_ok_def gok_def slot_view_def comp_def)
  let ?s2 = "upd_grp g (\<lambda>x. x\<lparr>RollId := [], m_memberSlots := []\<rparr>) s1"
  have t2: "towards g (view s) (view ?s2)" using t1 by (rule towards_grp) (simp_all add: gview_of_def)
  let ?s3 = "Group_RemoveAllInvites g ?s2"
  note t3 = RemoveAllInvites_towards [OF t2]
  define s4 where "s4 = (if Group_isBGGroup (grp ?s3 g) then ?s3
          else gs_emit [GroupSql (DeleteGroup (GUID_LOPART (m_guid (grp ?s3 g)))),
                     GroupSql (DeleteMembers (GUID_LOPART (m_guid (grp ?s3 g)))),
                     GroupResetInstances g False, GroupResetInstances g True] ?s3)"
  have v4: "view s4 = view ?s3" by (simp add: s4_def)
  have d: "Group_Disband E b g s = upd_grp g (\<lambda>x. x\<lparr>m_guid := 0, m_leaderGuid := 0, m_leaderName := []\<rparr>) s4"
    using x by (simp add: Group_Disband_def Let_def s1_def s4_def)
  show "towards g (view s) (view (Group_Disband E b g s))"
    unfolding d by (rule towards_grp) (simp_all add: gview_of_def t3(1) v4)
  have "gw_ply (view (Group_Disband E b g s)) p = gw_ply (view s4) p" unfolding d by simp
  then show "gw_ply (view (Group_Disband E b g s)) p = Some r \<Longrightarrow> rv_invite r \<noteq> Some g"
    using t3(2) [of p r] unfolding v4 by metis
qed

end
