(* ===== verification/Group_Runs.thy ===== *)
theory Group_Runs
  imports Group_Ends
begin

text \<open>The operations that change groups are runs of the state machine.\<close>

section \<open>Runs without logins and logouts\<close>

definition calm :: "gworld \<Rightarrow> gworld \<Rightarrow> bool" where
  "calm w w' \<longleftrightarrow> gmoves w w' \<and> (\<forall>p. gw_ply w' p = None \<longleftrightarrow> gw_ply w p = None)"

lemma calm_refl [simp, intro]: "calm w w"
  by (simp add: calm_def gmoves.none)

lemma calm_trans: "calm w w' \<Longrightarrow> calm w' w'' \<Longrightarrow> calm w w''"
  unfolding calm_def by (metis gmoves_trans)

lemma calm_one: "gmove w w' \<Longrightarrow> (\<And>p. gw_ply w' p = None \<longleftrightarrow> gw_ply w p = None) \<Longrightarrow> calm w w'"
  by (simp add: calm_def gmoves_one)

lemma calm_ginv: "calm w w' \<Longrightarrow> ginv w \<Longrightarrow> ginv w'"
  unfolding calm_def using gmoves_ginv by blast

lemma calm_here: "calm (view s) (view s') \<Longrightarrow> here E s \<Longrightarrow> here E s'"
  by (simp add: calm_def here_def)

lemma calm_quiet: "view s' = view s \<Longrightarrow> calm (view s) (view s')"
  by simp

section \<open>Leaving\<close>

lemma towards_drop:
  assumes "towards g w w'" "p \<in> (case gw_grp w' g of None \<Rightarrow> {} | Some v \<Rightarrow> v_invs v)"
  shows "towards g w (drop_invite g p w')"
proof -
  obtain v where v: "gw_grp w' g = Some v" "\<not> v_bg v" "p \<in> v_invs v"
    "\<And>p k. (p, k) \<in> v_mgr v \<longleftrightarrow> k = GroupRef \<and> linked w' p g"
    using assms unfolding towards_def by auto
  obtain r where r: "gw_ply w' p = Some r" "rv_invite r \<in> {None, Some g}" using assms(1) v unfolding towards_def by blast
  have l: "linked (drop_invite g p w') q g = linked w' q g" for q using r by (auto simp: linked_def drop_invite_def)
  have o: "rv_orig r = None" using towards_orig [OF assms(1) r(1)] .
  have u: "Some (unref g (r\<lparr>rv_invite := None\<rparr>)) = map_option (unref g) (gw_ply w p)"
    using towards_unref [OF assms(1), of p] r by (auto simp: unref_def)
  from assms(1) v r l o u show ?thesis unfolding towards_def by (auto simp: drop_invite_def)
qed

lemma dissolve_reg: "g \<notin> gw_reg w \<Longrightarrow> (dissolve g w)\<lparr>gw_reg := gw_reg w\<rparr> = dissolve g w"
  by (simp add: dissolve_def)

lemma dissolve_calm: "gw_grp w g = Some v \<Longrightarrow> calm w (dissolve g w)"
  by (rule calm_one, rule gmove.dissolve) (auto simp: dissolve_def)

lemma leave_calm: "gw_grp w g = Some v \<Longrightarrow> (p, n) \<in> set (v_slots v) \<Longrightarrow> 2 < length (v_slots v) \<Longrightarrow> calm w (leave g p n w)"
  by (rule calm_one, rule gmove.leave) (auto simp: leave_def)

lemma RemoveGroup_view: "view (RemoveGroup g s) = (view s)\<lparr>gw_reg := gw_reg (view s) - {g}\<rparr>"
  by (rule gworld_eqI) (simp_all add: RemoveGroup_def)

lemma RemoveGroup_delete: "view (Group_delete g (RemoveGroup g s)) = (view (Group_delete g s))\<lparr>gw_reg := gw_reg (view s) - {g}\<rparr>"
proof -
  have f: "foldr (\<lambda>(p, k). upd_refs p (set_target k None)) xs (RemoveGroup g s) =
    RemoveGroup g (foldr (\<lambda>(p, k). upd_refs p (set_target k None)) xs s)" for xs
    by (induction xs) (auto simp: RemoveGroup_def upd_refs_def split: option.split)
  have r: "gs_registry (foldr (\<lambda>(p, k). upd_refs p (set_target k None)) xs s) = gs_registry s" for xs
    by (induction xs) auto
  show ?thesis
    by (rule gworld_eqI) (simp_all add: Group_delete_def Let_def f, simp_all add: RemoveGroup_def grp_def r)
qed

lemma Disband_empty: "m_memberSlots (grp (Group_Disband E b g s) g) = []"
proof -
  have f: "grp (fold (\<lambda>p. upd_refs p (\<lambda>r. r\<lparr>pr_groupInvite := None\<rparr>)) ps s') g = grp s' g" for ps s'
    by (induction ps arbitrary: s') simp_all
  have i: "m_memberSlots (grp (Group_RemoveAllInvites g s') g) = m_memberSlots (grp s' g)" for s'
    by (simp add: Group_RemoveAllInvites_def grp_upd_grp f)
  have e: "m_memberSlots (grp (upd_grp g (\<lambda>x. x\<lparr>RollId := [], m_memberSlots := []\<rparr>) s') g) = []" for s'
    by (auto simp: grp_upd_grp) (simp add: grp_def Group_new_def)
  have l: "m_memberSlots (grp (upd_grp g (\<lambda>x. x\<lparr>m_guid := 0, m_leaderGuid := 0, m_leaderName := []\<rparr>) s') g) = m_memberSlots (grp s' g)" for s'
    by (simp add: grp_upd_grp)
  show ?thesis unfolding Group_Disband_def Let_def l by (simp add: i e)
qed

lemma Disband_delete_view:
  assumes "ginv (view s)" "here E s" "gs_groups s g = Some x"
  shows "view (Group_delete g (RemoveGroup g (Group_Disband E b g s))) = dissolve g (view s)"
proof -
  note d = Disband_towards [OF assms, of b]
  have "gw_reg (view (Group_Disband E b g s)) = gw_reg (view s)" using d(1) by (simp add: towards_def)
  moreover have "view (Group_delete g (Group_Disband E b g s)) = (dissolve g (view s))\<lparr>gw_reg := gw_reg (view s)\<rparr>"
    by (rule Group_delete_view [OF d(1)]) (rule d(2))
  ultimately show ?thesis unfolding RemoveGroup_delete by (simp add: dissolve_def del: view_sel)
qed

lemma UninviteFromGroup_calm:
  assumes inv: "ginv (view s)" and E: "here E s"
  shows "calm (view s) (view (Player_UninviteFromGroup E p s))"
    and "pr_groupInvite (refs (Player_UninviteFromGroup E p s) p) = None"
proof -
  have "calm (view s) (view (Player_UninviteFromGroup E p s)) \<and> pr_groupInvite (refs (Player_UninviteFromGroup E p s) p) = None"
  proof (cases "pr_groupInvite (refs s p)")
    case None
    then show ?thesis by (simp add: Player_UninviteFromGroup_def)
  next
    case (Some g)
    then obtain x y where x: "gs_groups s g = Some x" "gs_players s p = Some y" "pr_groupInvite y = Some g"
      "p \<in> v_invs (gview_of x)" "grp_ok (view s) g (gview_of x)" "follow g s = s"
      using ginv_invite [OF inv] by metis
    let ?s1 = "Group_RemoveInvite g p s"
    have g1: "m_memberSlots (grp ?s1 g) = m_memberSlots x" using x by (simp add: Group_RemoveInvite_def grp_upd_grp)
    show ?thesis
    proof (cases "m_memberSlots x = []")
      case True
      have u: "Player_UninviteFromGroup E p s = Group_delete g (Group_RemoveAllInvites g ?s1)"
        using Some x True g1 by (simp add: Player_UninviteFromGroup_def Let_def Group_GetMembersCount_def Group_IsCreated_def)
      have t: "towards g (view s) (view ?s1)" unfolding RemoveInvite_view
        using x by (intro towards_drop towards_refl [OF inv, of g "gview_of x"]) auto
      note r = RemoveAllInvites_towards [OF t]
      have "g \<notin> gw_reg (view s)" using ginv_shape [OF inv, of g "gview_of x"] x True by (simp add: group_shape_def)
      then have v: "view (Player_UninviteFromGroup E p s) = dissolve g (view s)"
        unfolding u using Group_delete_view [OF r(1)] r(2) dissolve_reg by metis
      have "gw_ply (dissolve g (view s)) p = Some (unref g (rview_of y))" using x by (simp add: dissolve_def)
      then have "gw_ply (view (Player_UninviteFromGroup E p s)) p = Some (unref g (rview_of y))" using v by simp
      then obtain z where z: "gs_players (Player_UninviteFromGroup E p s) p = Some z" "rview_of z = unref g (rview_of y)"
        by (rule view_plyE)
      have "rv_invite (rview_of z) = None" unfolding z(2) using x(3) by (simp add: unref_def)
      then have "pr_groupInvite (refs (Player_UninviteFromGroup E p s) p) = None" using z(1) by simp
      then show ?thesis using dissolve_calm [of "view s" g "gview_of x"] x v by simp
    next
      case False
      then have len: "2 \<le> length (m_memberSlots x)" "length (m_memberSlots x) \<le> 40" using ginv_size [OF inv x(1)] by auto
      have "1 < Group_GetMembersCount x" using count_less [OF len(2), of 1] len(1) by simp
      then have "\<not> Group_GetMembersCount (grp ?s1 g) \<le> 1" using g1 by (simp add: Group_GetMembersCount_def)
      then have u: "Player_UninviteFromGroup E p s = ?s1"
        using Some x by (simp add: Player_UninviteFromGroup_def Let_def)
      have "gmove (view s) (drop_invite g p (view s))" using x False by (intro gmove.uninvite [of _ g "gview_of x"]) auto
      then have "calm (view s) (view ?s1)" unfolding RemoveInvite_view by (rule calm_one) (auto simp: drop_invite_def)
      moreover have "pr_groupInvite (refs ?s1 p) = None" using x by (simp add: Group_RemoveInvite_def refs_upd_refs)
      ultimately show ?thesis unfolding u by simp
    qed
  qed
  then show "calm (view s) (view (Player_UninviteFromGroup E p s))" "pr_groupInvite (refs (Player_UninviteFromGroup E p s) p) = None" by blast+
qed


lemma farewell_view: "pr_group (refs s p) = None \<Longrightarrow> view (farewell E g p s) = view s"
  by (simp add: farewell_def)

lemma removed_player_view:
  assumes "pr_group (refs s p) = None"
  shows "view (removed_player E g method p s) = view s"
proof -
  have "view (farewell E g p s') = view s" if "view s' = view s" "refs s' p = refs s p" for s'
    using that assms by (simp add: farewell_view)
  then show ?thesis by (simp add: removed_player_def Let_def)
qed

lemma left_refs:
  assumes "ginv w" "view s' = leave g p n w" "gw_grp w g = Some v" "(p, n) \<in> set (v_slots v)"
  shows "pr_group (refs s' p) = None"
proof (cases "gw_ply w p")
  case None
  then have "gw_ply (view s') p = None" using assms(2) by (simp add: leave_def)
  then show ?thesis by (simp add: refs_def PlayerRefs_new_def)
next
  case (Some r)
  have "rv_group r = Some g"
    using gbase_grp [OF ginv_base [OF assms(1)] assms(3)] Some memsI [OF assms(4)] unfolding grp_ok_def by blast
  then have "gw_ply (view s') p = Some (r\<lparr>rv_group := None\<rparr>)" using assms(2) Some by (simp add: leave_def)
  then obtain z where z: "gs_players s' p = Some z" "rview_of z = r\<lparr>rv_group := None\<rparr>" by (rule view_plyE)
  have "rv_group (rview_of z) = None" unfolding z(2) by simp
  then show ?thesis using z(1) by simp
qed

lemma leave_length:
  assumes "view s' = leave g p n (view s)" "gs_groups s g = Some x" "gok (gview_of x)" "(p, n) \<in> set (v_slots (gview_of x))"
  shows "Suc (length (m_memberSlots (grp s' g))) = length (m_memberSlots x)"
proof -
  have "map_option v_slots (gw_grp (view s') g) = Some (filter (\<lambda>x. fst x \<noteq> p) (v_slots (gview_of x)))"
    using assms(1,2) by (simp add: leave_def Let_def)
  then obtain z where "gs_groups s' g = Some z" "v_slots (gview_of z) = filter (\<lambda>x. fst x \<noteq> p) (v_slots (gview_of x))"
    by auto
  then have z: "grp s' g = z" "length (m_memberSlots z) = length (filter (\<lambda>x. fst x \<noteq> p) (v_slots (gview_of x)))"
    by (simp, metis gview_sel(1) length_map)
  show ?thesis using z length_remove [of "v_slots (gview_of x)" p n] assms(3,4) by (simp add: gok_def)
qed

text \<open>A member who leaves or is removed: nothing for a kick in a dungeon finder group, one member less, or the end of the group.\<close>

lemma RemoveFromGroup_view:
  assumes inv: "ginv (view s)" and E: "here E s" and x: "gs_groups s g = Some x" "(p, n) \<in> set (v_slots (gview_of x))"
  shows "view (Player_RemoveFromGroup E (Some g) p method k r s) = view s \<or>
    2 < length (m_memberSlots x) \<and> view (Player_RemoveFromGroup E (Some g) p method k r s) = leave g p n (view s) \<or>
    view (Player_RemoveFromGroup E (Some g) p method k r s) = dissolve g (view s)"
proof -
  define s1 where "s1 = gs_emit [OnGroupRemoveMember g p method k r] (Group_BroadcastGroupUpdate E g s)"
  have v1: "view s1 = view s" by (simp add: s1_def)
  have inv1: "ginv (view s1)" and E1: "here E s1" using inv here_view [OF E v1] v1 by simp_all
  have g1: "gs_groups s1 g = Some x" using x(1) by (simp add: s1_def Group_BroadcastGroupUpdate_def gs_emit_def)
  have ok: "gok (gview_of x)" using gbase_grp [OF ginv_base [OF inv], of g "gview_of x"] x by (simp add: grp_ok_def)
  have bg: "\<not> Group_isBGGroup x" using ginv_bg [OF inv x(1)] by (simp add: Group_isBGGroup_def)
  have "m_memberSlots x \<noteq> []" using x(2) by auto
  then have len: "2 \<le> length (m_memberSlots x)" "length (m_memberSlots x) \<le> 40" using ginv_size [OF inv x(1)] by simp_all
  have c: "1 < Group_GetMembersCount x" using count_less [OF len(2), of 1] len(1) by simp
  consider (kick) "Group_isLFGGroup x \<and> method = GROUP_REMOVEMETHOD_KICK"
    | (leave) "\<not> (Group_isLFGGroup x \<and> method = GROUP_REMOVEMETHOD_KICK)" "2 < length (m_memberSlots x)"
    | (disband) "\<not> (Group_isLFGGroup x \<and> method = GROUP_REMOVEMETHOD_KICK)" "length (m_memberSlots x) = 2"
    using len by linarith
  then show ?thesis
  proof cases
    case kick
    then have "Group_RemoveMember E g p method k r s = (Group_GetMembersCount x, s1)"
      unfolding Group_RemoveMember_def s1_def [symmetric] Let_def using g1 by simp
    then have "Player_RemoveFromGroup E (Some g) p method k r s = s1"
      using x(1) c by (simp add: Player_RemoveFromGroup_def)
    then show ?thesis using v1 by simp
  next
    case leave
    have c2: "2 < Group_GetMembersCount x" using count_less [OF len(2), of 2] leave(2) by simp
    define s2 where "s2 = snd (Group_removeMember E g p s1)"
    have v2: "view s2 = leave g p n (view s)"
      using removeMember_view [OF inv1 E1 g1 x(2) leave(2)] v1 by (simp add: s2_def)
    define s3 where "s3 = (case ge_GetPlayer E p of None \<Rightarrow> s2 | Some _ \<Rightarrow> removed_player E g method p s2)"
    have v3: "view s3 = leave g p n (view s)"
      using removed_player_view left_refs [OF inv v2, of "gview_of x"] x v2 by (simp add: s3_def split: option.split)
    define s4 where "s4 = (if fst (Group_removeMember E g p s1) then announce_leader (ms_name (hd (m_memberSlots (grp s3 g)))) g s3 else s3)"
    define s5 where "s5 = Group_ResetMaxEnchantingLevel E g (Group_SendUpdate E g s4)"
    have v5: "view s5 = leave g p n (view s)" using v3 by (simp add: s4_def s5_def)
    have rm: "Group_RemoveMember E g p method k r s = (Group_GetMembersCount (grp s5 g), s5)"
      unfolding Group_RemoveMember_def s1_def [symmetric] s5_def s4_def s3_def s2_def Let_def case_prod_unfold
      by (simp only: grp_alive [OF g1] bg c2 leave(1) if_False if_True)
    have l5: "length (m_memberSlots (grp s5 g)) \<le> 40" "1 < length (m_memberSlots (grp s5 g))"
      using leave_length [OF v5 x(1) ok x(2)] len leave(2) by auto
    have "1 < Group_GetMembersCount (grp s5 g)" using count_less [OF l5(1), of 1] l5(2) by simp
    then have "Player_RemoveFromGroup E (Some g) p method k r s = s5" using x(1) rm by (simp add: Player_RemoveFromGroup_def)
    then show ?thesis using v5 leave(2) by simp
  next
    case disband
    then have c2: "\<not> 2 < Group_GetMembersCount x" using count_less [OF len(2), of 2] by simp
    define s2 where "s2 = Group_Disband E False g s1"
    have rm: "Group_RemoveMember E g p method k r s = (Group_GetMembersCount (grp s2 g), s2)"
      unfolding Group_RemoveMember_def s1_def [symmetric] Let_def s2_def
      by (simp only: grp_alive [OF g1] bg c2 disband(1) if_False if_True)
    have "m_memberSlots (grp s2 g) = []" unfolding s2_def by (rule Disband_empty)
    then have "Player_RemoveFromGroup E (Some g) p method k r s = Group_delete g (RemoveGroup g s2)"
      using x(1) rm by (simp add: Player_RemoveFromGroup_def Group_GetMembersCount_def)
    moreover have "view (Group_delete g (RemoveGroup g s2)) = dissolve g (view s)"
      using Disband_delete_view [OF inv1 E1 g1] v1 by (simp add: s2_def)
    ultimately show ?thesis by simp
  qed
qed

lemma RemoveFromGroup_calm:
  assumes inv: "ginv (view s)" and E: "here E s" and x: "gs_groups s g = Some x" "(p, n) \<in> set (v_slots (gview_of x))"
  shows "calm (view s) (view (Player_RemoveFromGroup E (Some g) p method k r s))"
proof -
  have gv: "gw_grp (view s) g = Some (gview_of x)" using x by simp
  have "2 < length (m_memberSlots x) \<Longrightarrow> calm (view s) (leave g p n (view s))" by (rule leave_calm [OF gv x(2)]) simp
  with RemoveFromGroup_view [OF assms, of "method" k r] dissolve_calm [OF gv] show ?thesis by auto
qed

lemma RemoveFromGroup_invite:
  assumes inv: "ginv (view s)" and E: "here E s" and x: "gs_groups s g = Some x" "(p, n) \<in> set (v_slots (gview_of x))"
    and y: "gs_players s q = Some y" "pr_groupInvite y = None"
  obtains z where "gs_players (Player_RemoveFromGroup E (Some g) p method k r s) q = Some z" "pr_groupInvite z = None"
proof -
  let ?s' = "Player_RemoveFromGroup E (Some g) p method k r s"
  have "map_option rv_invite (gw_ply w' q) = Some None" if "w' = view s \<or> w' = leave g p n (view s) \<or> w' = dissolve g (view s)" for w'
    using that y by (auto simp: leave_def dissolve_def unref_def simp del: map_option_eq_Some)
  from this [of "view ?s'"] RemoveFromGroup_view [OF inv E x, of "method" k r]
  obtain r' where r': "gw_ply (view ?s') q = Some r'" "rv_invite r' = None" by blast
  from r'(1) obtain z where z: "gs_players ?s' q = Some z" "rview_of z = r'" by (rule view_plyE)
  have "pr_groupInvite z = None" using z(2) r'(2) by auto
  with z(1) show ?thesis by (rule that)
qed


section \<open>Inviting\<close>

lemma normal_group_ginv:
  assumes "ginv (view s)"
  shows "normal_group p s = (pr_group (refs s p), s)"
proof (cases "pr_group (refs s p)")
  case (Some g)
  then obtain x where "gs_groups s g = Some x" "follow g s = s" using ginv_follow [OF assms] by metis
  then show ?thesis using Some ginv_bg [OF assms] by (simp add: normal_group_def Group_isBGGroup_def)
qed (simp add: normal_group_def)

lemma free_view: "free p (view s) \<longleftrightarrow> gs_players s p \<noteq> None \<and> pr_groupInvite (refs s p) = None \<and> pr_group (refs s p) = None"
  by (cases "gs_players s p") (auto simp: free_def)

lemma set_drop_invite:
  assumes "free p w"
  shows "set_invite g p (drop_invite g p w) = set_invite g p w"
  using assms by (intro gworld_eqI) (auto simp: set_invite_def drop_invite_def free_def option.map_comp comp_def intro!: option.map_cong)

lemma AddInvite_view:
  assumes "normal_group p s = (pr_group (refs s p), s)" "free p (view s)"
  shows "fst (Group_AddInvite g p s)" "view (snd (Group_AddInvite g p s)) = set_invite g p (view s)"
  using assms by (simp_all add: Group_AddInvite_def free_view invited_view RemoveInvite_view set_drop_invite)

lemma set_invite_calm:
  "gw_grp w g = Some v \<Longrightarrow> v_slots v \<noteq> [] \<Longrightarrow> free q w \<Longrightarrow> calm w (set_invite g q w)"
  by (rule calm_one, rule gmove.invite) (auto simp: set_invite_def)

lemma alloc_view:
  "view (snd (Group_alloc s)) = (view s)\<lparr>gw_grp := (gw_grp (view s))(gs_next s := Some (gview_of Group_new)), gw_next := Suc (gs_next s)\<rparr>"
  by (rule gworld_eqI) (simp_all add: Group_alloc_def)

lemma alloc_refs [simp]: "refs (snd (Group_alloc s)) p = refs s p" "fst (Group_alloc s) = gs_next s"
  "gs_players (snd (Group_alloc s)) = gs_players s"
  by (simp_all add: Group_alloc_def refs_def)

lemma normal_group_none: "pr_group (refs s p) = None \<Longrightarrow> normal_group p s = (pr_group (refs s p), s)"
  by (simp add: normal_group_def)

lemma gview_new: "gview_of Group_new = view_new 0"
  by (simp add: gview_of_def Group_new_def view_new_def Group_isRaidGroup_def GROUPTYPE_NORMAL_def GUID_LOPART_def)

lemma lead_first:
  assumes "gw_grp w g = None"
  shows "wg_upd g (\<lambda>v. v\<lparr>v_leader := p\<rparr>) (set_invite g p (w\<lparr>gw_grp := (gw_grp w)(g := Some (view_new 0)), gw_next := n\<rparr>)) =
    set_invite g p (w\<lparr>gw_grp := (gw_grp w)(g := Some (view_new p)), gw_next := n\<rparr>)"
  by (rule gworld_eqI) (auto simp: set_invite_def view_new_def)

lemma fresh_group: "ginv (view s) \<Longrightarrow> gs_groups s (gs_next s) = None"
  using gbase_grp [OF ginv_base, of "view s" "gs_next s"] by (cases "gs_groups s (gs_next s)") (auto simp: grp_ok_def)

lemma invite_new_group_view:
  assumes inv: "ginv (view s)" and p: "free (plr_GUID me) (view s)" and q: "free q (view s)" "q \<noteq> plr_GUID me"
  shows "fst (invite_new_group me q s)"
    "view (snd (invite_new_group me q s)) = set_invite (gs_next s) q (set_invite (gs_next s) (plr_GUID me)
      ((view s)\<lparr>gw_grp := (gw_grp (view s))(gs_next s := Some (view_new (plr_GUID me))), gw_next := Suc (gs_next s)\<rparr>))"
proof -
  let ?p = "plr_GUID me" and ?g = "gs_next s" and ?s1 = "snd (Group_alloc s)"
  have pg: "pr_group (refs s ?p) = None" using p by (simp add: free_view)
  have fp: "free ?p (view ?s1)" using p by (simp add: free_view)
  note i1 = AddInvite_view [OF normal_group_none fp, of ?g]
  define s2 where "s2 = snd (Group_AddLeaderInvite ?g me ?s1)"
  have "view (upd_grp ?g (\<lambda>x. x\<lparr>m_leaderGuid := ?p, m_leaderName := plr_Name me\<rparr>) s') = wg_upd ?g (\<lambda>v. v\<lparr>v_leader := ?p\<rparr>) (view s')" for s'
    by (rule view_upd_grp) (simp add: gview_of_def Group_isRaidGroup_def)
  then have v2: "view s2 = set_invite ?g ?p ((view s)\<lparr>gw_grp := (gw_grp (view s))(?g := Some (view_new ?p)), gw_next := Suc ?g\<rparr>)"
    and ok: "fst (Group_AddLeaderInvite ?g me ?s1)"
    using i1 pg lead_first [of "view s" ?g ?p] fresh_group [OF inv]
    by (simp_all add: s2_def Group_AddLeaderInvite_def case_prod_unfold Let_def alloc_view gview_new)
  have fq: "free q (view s2)" using q unfolding v2 by (auto simp: free_def set_invite_def)
  then have nq: "normal_group q s2 = (pr_group (refs s2 q), s2)" by (intro normal_group_none) (simp add: free_view)
  note i2 = AddInvite_view [OF nq fq, of ?g]
  show "fst (invite_new_group me q s)" using ok i2 by (simp add: invite_new_group_def case_prod_unfold Let_def s2_def)
  have "view (snd (invite_new_group me q s)) = set_invite ?g q (view s2)"
    using ok i2 by (simp add: invite_new_group_def case_prod_unfold Let_def s2_def)
  then show "view (snd (invite_new_group me q s)) = set_invite ?g q (set_invite ?g ?p
      ((view s)\<lparr>gw_grp := (gw_grp (view s))(?g := Some (view_new ?p)), gw_next := Suc ?g\<rparr>))" unfolding v2 .
qed

lemma invite_new_group_calm:
  assumes inv: "ginv (view s)" and p: "gs_players s (plr_GUID me) \<noteq> None" "pr_group (refs s (plr_GUID me)) = None"
    and q: "free q (view s)" "q \<noteq> plr_GUID me"
  shows "calm (view s) (view (snd (invite_new_group me q s)))"
proof (cases "pr_groupInvite (refs s (plr_GUID me))")
  case (Some h)
  then have "snd (invite_new_group me q s) = Group_delete (gs_next s) (snd (Group_alloc s))"
    by (simp add: invite_new_group_def case_prod_unfold Group_AddLeaderInvite_def Group_AddInvite_def Let_def)
  moreover have "view (Group_delete (gs_next s) (snd (Group_alloc s))) = (view s)\<lparr>gw_next := Suc (gw_next (view s))\<rparr>"
    using fresh_group [OF inv] by (intro gworld_eqI) (auto simp: Group_alloc_def Group_delete_def Let_def grp_def Group_new_def)
  ultimately show ?thesis using gmove.waste [of "view s"] by (intro calm_one) auto
next
  case None
  then have fp: "free (plr_GUID me) (view s)" using p by (simp add: free_view)
  have "gmove (view s) (view (snd (invite_new_group me q s)))" unfolding invite_new_group_view(2) [OF inv fp q]
    using gmove.found [OF fp q(1), of "gs_next s"] q(2) by auto
  then show ?thesis by (rule calm_one) (auto simp: invite_new_group_view(2) [OF inv fp q] set_invite_def simp del: view_sel)
qed

lemma invite_player_calm:
  assumes inv: "ginv (view s)" and p: "gs_players s (plr_GUID me) \<noteq> None" and q: "gs_players s (plr_GUID player) \<noteq> None"
    and ne: "plr_GUID player \<noteq> plr_GUID me"
  shows "calm (view s) (view (invite_player E me name player s))"
proof (cases "pr_group (refs s (plr_GUID player)) \<noteq> None \<or> pr_groupInvite (refs s (plr_GUID player)) \<noteq> None")
  case True
  then show ?thesis using normal_group_ginv [OF inv] by (auto simp: invite_player_def Let_def)
next
  case False
  then have fq: "free (plr_GUID player) (view s)" using q by (simp add: free_view)
  show ?thesis
  proof (cases "pr_group (refs s (plr_GUID me))")
    case None
    then show ?thesis using invite_new_group_calm [OF inv p None fq ne] normal_group_ginv [OF inv] False
      by (simp add: invite_player_def Let_def case_prod_unfold)
  next
    case (Some g)
    obtain x and y :: PlayerRefs where x: "gs_groups s g = Some x" "(plr_GUID me, pr_subGroup y) \<in> set (v_slots (gview_of x))" "follow g s = s"
      by (rule ginv_follow [OF inv Some]) blast
    have "v_slots (gview_of x) \<noteq> []" using x(2) by auto
    then have "calm (view s) (set_invite g (plr_GUID player) (view s))" using x fq by (intro set_invite_calm [of _ _ "gview_of x"]) auto
    then show ?thesis using AddInvite_view [OF normal_group_ginv [OF inv] fq, of g] normal_group_ginv [OF inv] False Some x
      by (simp add: invite_player_def Let_def case_prod_unfold)
  qed
qed

end
