(* ===== verification/Group_Joins.thy ===== *)
theory Group_Joins
  imports Group_Runs
begin

text \<open>Accepting an invitation, leading, converting and moving between sub-groups are runs of the state machine.\<close>

section \<open>Accepting\<close>

lemma AddGroup_view: "view (AddGroup g s) = (view s)\<lparr>gw_reg := insert g (gw_reg (view s))\<rparr>"
  by (rule gworld_eqI) (simp_all add: AddGroup_def)

lemma enter_reg: "(enter g p n w)\<lparr>gw_reg := insert g (gw_reg (enter g p n w))\<rparr> = enter g p n (w\<lparr>gw_reg := insert g (gw_reg w)\<rparr>)"
  by (rule gworld_eqI) (simp_all add: enter_def)

lemma created_view:
  assumes "\<not> m_bgGroup x" "\<not> Group_isRaidGroup x"
  shows "gview_of (created (m_leaderGuid x) name low leader x) = (gview_of x)\<lparr>v_low := GUID_LOPART (MAKE_NEW_GUID (ucast low) 0 HIGHGUID_GROUP)\<rparr>"
  using assms by (simp add: created_def Let_def Group_isBGGroup_def Group_isRaidGroup_def GROUPTYPE_NORMAL_def gview_of_def)

lemma created_fields [simp]:
  "m_memberSlots (created p name low l x) = m_memberSlots x" "m_bgGroup (created p name low l x) = m_bgGroup x"
  by (simp_all add: created_def Let_def Group_initRaidSubGroupsCounter_def)

text \<open>A player without a group and without an invitation is added to a party that has room.\<close>

lemma AddMember_party:
  assumes x: "gs_groups s g = Some x" "gok (gview_of x)" "m_subGroupsCounts x = None" "\<not> Group_IsFull x"
    and p: "p \<noteq> 0" "ge_GetPlayer E p \<noteq> None" and f: "free p (view s)"
  shows "fst (Group_AddMember E g p name s)" "view (snd (Group_AddMember E g p name s)) = enter g p 0 (view s)"
proof -
  obtain y where y: "gs_players s p = Some y" "pr_group y = None" "pr_groupInvite y = None" using f by (auto simp: free_view)
  show "fst (Group_AddMember E g p name s)" "view (snd (Group_AddMember E g p name s)) = enter g p 0 (view s)"
    using addMember_view(2) [OF x(1,2) p y x(3,4), of name] AddMember_view [of E g p name s] by simp_all
qed

lemma Create_view:
  assumes x: "gs_groups s g = Some x" "gok (gview_of x)" "m_subGroupsCounts x = None" "m_memberSlots x = []" "\<not> Group_isRaidGroup x"
    and p: "m_leaderGuid x = p" "p \<noteq> 0" "ge_GetPlayer E p \<noteq> None" and f: "free p (view s)"
  shows "\<exists>low. view (snd (Group_Create E g p name s)) = enter g p 0 (wg_upd g (\<lambda>v. v\<lparr>v_low := low\<rparr>) (view s))"
proof -
  have bg: "\<not> m_bgGroup x" using x(2) by (simp add: gok_def)
  let ?low = "gs_hiGroupGuid s"
  define s1 where "s1 = s\<lparr>gs_hiGroupGuid := ?low + 1\<rparr>"
  define ld where "ld = (case ge_GetPlayer E p of None \<Rightarrow> None | Some _ \<Rightarrow> Some (refs s1 p))"
  define s2 where "s2 = upd_grp g (created p name ?low ld) s1"
  let ?x2 = "created p name ?low ld x"
  have gx: "gview_of ?x2 = (gview_of x)\<lparr>v_low := GUID_LOPART (MAKE_NEW_GUID (ucast ?low) 0 HIGHGUID_GROUP)\<rparr>"
    using created_view [OF bg x(5)] p(1) by simp
  have v1: "view s1 = view s" by (simp add: s1_def)
  have g2: "gs_groups s2 g = Some ?x2" using x(1) by (simp add: s2_def gs_groups_upd_grp s1_def)
  have v2: "view s2 = wg_upd g (\<lambda>v. v\<lparr>v_low := GUID_LOPART (MAKE_NEW_GUID (ucast ?low) 0 HIGHGUID_GROUP)\<rparr>) (view s)"
    unfolding s2_def v1 [symmetric] using x(1) gx by (intro view_upd_at) (simp_all add: s1_def)
  have ok2: "gok (gview_of ?x2)" using x(2) gx by simp
  have "v_counts (gview_of ?x2) = None" "v_raid (gview_of ?x2) = False" unfolding gx using x by simp_all
  then have c2: "m_subGroupsCounts ?x2 = None" "\<not> Group_IsFull ?x2" using x(4) by (simp_all add: Group_IsFull_def MAXGROUPSIZE_def)
  have e: "gs_groups (gs_emit [ConvertInstancesToGroup g p] s2) g = Some ?x2" using g2 by (simp add: gs_emit_def)
  have f2: "free p (view (gs_emit [ConvertInstancesToGroup g p] s2))" using f by (simp add: v2 free_def)
  note a = AddMember_party [OF e ok2 c2 p(2,3) f2, of name]
  have "snd (Group_Create E g p name s) = gs_emit (create_rows ?low p (grp (snd (Group_AddMember E g p name (gs_emit [ConvertInstancesToGroup g p] s2))) g))
      (snd (Group_AddMember E g p name (gs_emit [ConvertInstancesToGroup g p] s2)))"
    unfolding Group_Create_def GenerateLowGuid_group_def Let_def case_prod_unfold fst_conv snd_conv
      s1_def [symmetric] ld_def [symmetric] s2_def [symmetric]
    by (simp add: grp_alive [OF g2] Group_isBGGroup_def bg a(1))
  then show ?thesis using a(2) v2 by (intro exI) simp
qed

lemma RemoveInvite_grp:
  "gs_groups s g = Some x \<Longrightarrow> gs_groups (Group_RemoveInvite g p s) g = Some (x\<lparr>m_invitees := removeAll p (m_invitees x)\<rparr>)"
  by (simp add: Group_RemoveInvite_def gs_groups_upd_grp)

lemma gview_invitees [simp]: "gview_of (x\<lparr>m_invitees := I\<rparr>) = (gview_of x)\<lparr>v_invs := set I\<rparr>"
  by (simp add: gview_of_def Group_isRaidGroup_def)

lemma invitees_simps [simp]:
  "Group_IsFull (x\<lparr>m_invitees := I\<rparr>) = Group_IsFull x" "Group_isRaidGroup (x\<lparr>m_invitees := I\<rparr>) = Group_isRaidGroup x"
  "Group_IsCreated (x\<lparr>m_invitees := I\<rparr>) = Group_IsCreated x"
  by (simp_all add: Group_IsFull_def Group_isRaidGroup_def Group_IsCreated_def Group_GetMembersCount_def)

lemma IsCreated_ginv: "ginv (view s) \<Longrightarrow> gs_groups s g = Some x \<Longrightarrow> Group_IsCreated x \<longleftrightarrow> m_memberSlots x \<noteq> []"
  using count_less [of x 0] ginv_size(1) [of s g x] by (simp add: Group_IsCreated_def)

lemma uninvite_calm: "gw_grp w g = Some v \<Longrightarrow> v_slots v \<noteq> [] \<Longrightarrow> q \<in> v_invs v \<Longrightarrow> calm w (drop_invite g q w)"
  by (rule calm_one, rule gmove.uninvite) (auto simp: drop_invite_def)

lemma join_calm:
  "gw_grp w g = Some v \<Longrightarrow> v_slots v \<noteq> [] \<Longrightarrow> q \<in> v_invs v \<Longrightarrow> room n v \<Longrightarrow> calm w (enter g q n (drop_invite g q w))"
  by (rule calm_one, rule gmove.join) (auto simp: drop_invite_def enter_def)

text \<open>Joining a group that has members.\<close>

lemma join_view:
  assumes inv: "ginv (view s)" and E: "here E s" and x: "gs_groups s g = Some x" "m_memberSlots x \<noteq> []"
    and p: "gs_players s p = Some y" "pr_groupInvite y = Some g" "pr_group y = None" "p \<in> v_invs (gview_of x)"
  shows "calm (view s) (view (snd (Group_AddMember E g p name (Group_RemoveInvite g p s))))"
proof -
  let ?s1 = "Group_RemoveInvite g p s" and ?x1 = "x\<lparr>m_invitees := removeAll p (m_invitees x)\<rparr>"
  have ok: "gok (gview_of x)" and p0: "p \<noteq> 0"
    using gbase_grp [OF ginv_base [OF inv], of g "gview_of x"] gbase_ply [OF ginv_base [OF inv], of p "rview_of y"] x p
    by (simp_all add: grp_ok_def ply_ok_def)
  have y1: "gs_players ?s1 p = Some (y\<lparr>pr_groupInvite := None\<rparr>)" using p by (simp add: Group_RemoveInvite_def gs_players_upd_refs)
  have "ge_GetPlayer E p \<noteq> None" using E p by (simp add: here_def)
  from addMember_view(1) [OF RemoveInvite_grp [OF x(1)] _ p0 this y1, of name] ok p
  consider "view (snd (Group_addMember E g p name ?s1)) = drop_invite g p (view s)"
    | n where "room n (gview_of x)" "view (snd (Group_addMember E g p name ?s1)) = enter g p n (drop_invite g p (view s))"
    by (auto simp: RemoveInvite_view)
  then show ?thesis unfolding AddMember_view
  proof cases
    case 1
    then show "calm (view s) (view (snd (Group_addMember E g p name ?s1)))"
      using uninvite_calm [of "view s" g "gview_of x" p] x p by simp
  next
    case 2
    then show "calm (view s) (view (snd (Group_addMember E g p name ?s1)))"
      using join_calm [of "view s" g "gview_of x" p n] x p by simp
  qed
qed

text \<open>The first player who accepts: the group is created with its leader, then he is added.\<close>

lemma create_view:
  assumes inv: "ginv (view s)" and E: "here E s" and x: "gs_groups s g = Some x" "m_memberSlots x = []"
    and p: "gs_players s p = Some y" "pr_groupInvite y = Some g" "p \<in> v_invs (gview_of x)" "m_leaderGuid x \<noteq> p"
    and l: "m_leaderGuid x = l"
  shows "\<exists>low. view (snd (Group_AddMember E g p name
      (AddGroup g (snd (Group_Create E g l lname (Group_RemoveInvite g l (Group_RemoveInvite g p s))))))) =
    enter g p 0 (enter g l 0 (drop_invite g l (drop_invite g p
      (wg_upd g (\<lambda>v. v\<lparr>v_low := low\<rparr>) ((view s)\<lparr>gw_reg := insert g (gw_reg (view s))\<rparr>)))))"
proof -
  note base = ginv_base [OF inv]
  let ?w = "view s" and ?v = "gview_of x"
  have gv: "gw_grp ?w g = Some ?v" using x by simp
  have ok: "grp_ok ?w g ?v" and sh: "group_shape g ?v ?w" using gbase_grp [OF base gv] ginv_shape [OF inv gv] .
  have li: "l \<in> v_invs ?v" "\<not> Group_isRaidGroup x" using sh x(2) l by (simp_all add: group_shape_def)
  have c: "m_subGroupsCounts x = None" using ok li(2) by (auto simp: grp_ok_def gok_def split: option.splits)
  obtain r where r: "gw_ply ?w l = Some r" "rv_invite r = Some g" using ok li(1) unfolding grp_ok_def by blast
  have po: "p \<noteq> 0" "l \<noteq> 0" "rv_group r = None" "pr_group y = None"
    using gbase_ply [OF base r(1)] gbase_ply [OF base, of p "rview_of y"] r(2) p by (auto simp: ply_ok_def)
  have on: "ge_GetPlayer E p \<noteq> None" "ge_GetPlayer E l \<noteq> None" using E p r(1) by (auto simp: here_def)
  define s2 where "s2 = Group_RemoveInvite g l (Group_RemoveInvite g p s)"
  let ?x2 = "x\<lparr>m_invitees := removeAll l (removeAll p (m_invitees x))\<rparr>"
  have g2: "gs_groups s2 g = Some ?x2" using RemoveInvite_grp [OF RemoveInvite_grp [OF x(1)]] by (simp add: s2_def)
  have v2: "view s2 = drop_invite g l (drop_invite g p ?w)" by (simp add: s2_def RemoveInvite_view)
  have fl: "free l (view s2)" unfolding v2 using r po by (auto simp: free_def drop_invite_def)
  have fp: "free p (view s2)" unfolding v2 using p po by (auto simp: free_def drop_invite_def)
  have "\<exists>low. view (snd (Group_Create E g l lname s2)) = enter g l 0 (wg_upd g (\<lambda>v. v\<lparr>v_low := low\<rparr>) (view s2))"
    using ok c x(2) li(2) l po(2) on(2) by (intro Create_view [OF g2 _ _ _ _ _ _ _ fl]) (simp_all add: grp_ok_def)
  then obtain low where v3: "view (snd (Group_Create E g l lname s2)) = enter g l 0 (wg_upd g (\<lambda>v. v\<lparr>v_low := low\<rparr>) (view s2))" ..
  define s3 where "s3 = AddGroup g (snd (Group_Create E g l lname s2))"
  have v3': "view s3 = enter g l 0 (drop_invite g l (drop_invite g p (wg_upd g (\<lambda>v. v\<lparr>v_low := low\<rparr>) (?w\<lparr>gw_reg := insert g (gw_reg ?w)\<rparr>))))"
    unfolding s3_def AddGroup_view v3 enter_reg v2
    by (rule arg_cong [where f = "enter g l 0"], rule gworld_eqI) (auto simp: drop_invite_def x(1))
  have "gw_grp (view s3) g = Some (?v\<lparr>v_low := low, v_invs := v_invs ?v - {p} - {l}, v_slots := [(l, 0)], v_counts := None, v_mgr := insert (l, GroupRef) (v_mgr ?v)\<rparr>)"
    unfolding v3' using x c by (simp add: enter_def drop_invite_def cnt_inc_def)
  then obtain x3 where x3: "gs_groups s3 g = Some x3" "gview_of x3 = ?v\<lparr>v_low := low, v_invs := v_invs ?v - {p} - {l}, v_slots := [(l, 0)],
      v_counts := None, v_mgr := insert (l, GroupRef) (v_mgr ?v)\<rparr>" by (rule view_grpE)
  have sel: "v_slots (gview_of x3) = [(l, 0)]" "v_counts (gview_of x3) = None" "v_raid (gview_of x3) = False" "\<not> v_bg (gview_of x3)"
    unfolding x3(2) using li(2) ok by (simp_all add: grp_ok_def gok_def)
  have ok3: "gok (gview_of x3)" unfolding gok_def sel using po(2) sel(4) by (simp add: occ_def)
  have "length (m_memberSlots x3) = 1" using sel(1) by (metis gview_sel(1) length_map length_Cons list.size(3) One_nat_def)
  then have nf: "m_subGroupsCounts x3 = None" "\<not> Group_IsFull x3"
    using sel by (simp_all add: Group_IsFull_def MAXGROUPSIZE_def)
  have fp3: "free p (view s3)" using fp p(4) l unfolding v3' v2 by (auto simp: free_def enter_def drop_invite_def)
  from AddMember_party(2) [OF x3(1) ok3 nf po(1) on(1) fp3, of name]
  show ?thesis unfolding v3' unfolding s3_def s2_def by (rule exI [where x = low])
qed

lemma create_calm:
  assumes "ginv (view s)" "here E s" "gs_groups s g = Some x" "m_memberSlots x = []"
    "gs_players s p = Some y" "pr_groupInvite y = Some g" "p \<in> v_invs (gview_of x)" "m_leaderGuid x \<noteq> p" "m_leaderGuid x = l"
  shows "calm (view s) (view (snd (Group_AddMember E g p name
    (AddGroup g (snd (Group_Create E g l lname (Group_RemoveInvite g l (Group_RemoveInvite g p s))))))))"
proof -
  obtain low where v: "view (snd (Group_AddMember E g p name
      (AddGroup g (snd (Group_Create E g l lname (Group_RemoveInvite g l (Group_RemoveInvite g p s))))))) =
    enter g p 0 (enter g l 0 (drop_invite g l (drop_invite g p
      (wg_upd g (\<lambda>v. v\<lparr>v_low := low\<rparr>) ((view s)\<lparr>gw_reg := insert g (gw_reg (view s))\<rparr>)))))"
    using create_view [OF assms] by blast
  have "gmove (view s) (enter g p 0 (enter g l 0 (drop_invite g l (drop_invite g p
      (wg_upd g (\<lambda>v. v\<lparr>v_low := low\<rparr>) ((view s)\<lparr>gw_reg := insert g (gw_reg (view s))\<rparr>))))))"
    using gmove.create [of "view s" g "gview_of x" p l low] assms by simp
  then show ?thesis unfolding v by (rule calm_one) (auto simp: enter_def drop_invite_def)
qed


text \<open>Accepting the invitation of a group that is not created yet.\<close>

lemma accept_first:
  assumes inv: "ginv (view s)" and E: "here E s" and x: "gs_groups s g = Some x" "m_memberSlots x = []" "m_leaderGuid x \<noteq> plr_GUID me"
  shows "view (accept_invite E me g s) = view (snd (Group_AddMember E g (plr_GUID me) (plr_Name me)
    (AddGroup g (snd (Group_Create E g (m_leaderGuid x) (m_leaderName x)
      (Group_RemoveInvite g (m_leaderGuid x) (Group_RemoveInvite g (plr_GUID me) s)))))))"
proof -
  have ok: "grp_ok (view s) g (gview_of x)" using gbase_grp [OF ginv_base [OF inv], of g "gview_of x"] x by simp
  note g1 = RemoveInvite_grp [OF x(1), of "plr_GUID me"]
  have "\<not> Group_IsFull x" using x(2) by (simp add: Group_IsFull_def MAXGROUPSIZE_def MAXRAIDSIZE_def)
  moreover have "m_leaderGuid x \<in> v_invs (gview_of x)" using ginv_shape [OF inv, of g "gview_of x"] x by (simp add: group_shape_def)
  then have "ge_GetPlayer E (m_leaderGuid x) \<noteq> None" using ok E unfolding grp_ok_def here_def by fastforce
  ultimately show ?thesis using x g1 RemoveInvite_grp [OF g1, of "m_leaderGuid x"] IsCreated_ginv [OF inv x(1)]
    by (simp add: accept_invite_def Let_def case_prod_unfold)
qed

lemma accept_invite_calm:
  assumes inv: "ginv (view s)" and E: "here E s" and p: "pr_groupInvite (refs s (plr_GUID me)) = Some g"
  shows "calm (view s) (view (accept_invite E me g s))"
proof -
  let ?p = "plr_GUID me" and ?s1 = "Group_RemoveInvite g (plr_GUID me) s"
  obtain x and y where x: "gs_groups s g = Some x" and y: "gs_players s ?p = Some y" "pr_groupInvite y = Some g" "pr_group y = None"
    "?p \<in> v_invs (gview_of x)" and ok: "grp_ok (view s) g (gview_of x)"
    by (rule ginv_invite [OF inv p])
  note g1 = RemoveInvite_grp [OF x, of ?p]
  note cr = IsCreated_ginv [OF inv x]
  show ?thesis
  proof (cases "m_leaderGuid x = ?p")
    case True
    then show ?thesis using x by (simp add: accept_invite_def)
  next
    case ld: False
    show ?thesis
    proof (cases "m_memberSlots x = []")
      case True
      from create_calm [OF inv E x True y(1,2,4) ld refl] accept_first [OF inv E x True ld] show ?thesis by simp
    next
      case False
      then have "calm (view s) (view ?s1)" unfolding RemoveInvite_view using uninvite_calm [of "view s" g "gview_of x" ?p] x y by simp
      then show ?thesis using join_view [OF inv E x False y] x g1 cr False ld
        by (simp add: accept_invite_def Let_def case_prod_unfold)
    qed
  qed
qed

section \<open>Leading and converting\<close>

lemma ChangeLeader_calm:
  assumes "ginv (view s)" "gs_groups s g = Some x"
  shows "calm (view s) (view (Group_ChangeLeader E g p s))"
proof (cases "getMemberSlot p x")
  case None
  then show ?thesis using assms(2) by (simp add: Group_ChangeLeader_def)
next
  case (Some m)
  then have p: "p \<in> mems (gview_of x)" using getMemberSlot_None [of p x] by simp
  then have "calm (view s) (wg_upd g (\<lambda>v. v\<lparr>v_leader := p\<rparr>) (view s))"
    using assms(2) by (intro calm_one gmove.lead [of _ _ "gview_of x"]) auto
  then show ?thesis using Some assms(2) setLeader_view [OF assms(2) p] by (simp add: Group_ChangeLeader_def)
qed

lemma ConvertToRaid_view:
  "view (Group_ConvertToRaid E g s) = wg_upd g (\<lambda>v. v\<lparr>v_raid := True, v_counts := Some (init_counts (v_slots v))\<rparr>) (view s)"
proof -
  have f: "fold (\<lambda>m c. c[unat (ms_group m) := c ! unat (ms_group m) + 1]) ms c =
      fold (\<lambda>x c. c[unat (snd x) := c ! unat (snd x) + 1]) (map slot_view ms) c" for ms and c :: "uint8 list"
    by (induction ms arbitrary: c) (simp_all add: slot_view_def)
  have "view (upd_grp g (\<lambda>x. Group_initRaidSubGroupsCounter (x\<lparr>m_groupType := m_groupType x OR GROUPTYPE_RAID\<rparr>)) s) =
      wg_upd g (\<lambda>v. v\<lparr>v_raid := True, v_counts := Some (init_counts (v_slots v))\<rparr>) (view s)"
    by (rule view_upd_grp) (simp add: gview_of_def Group_initRaidSubGroupsCounter_def Group_isRaidGroup_def GROUPTYPE_RAID_def
        init_counts_def f MAX_RAID_SUBGROUPS_def MAXRAIDSIZE_def MAXGROUPSIZE_def)
  then show ?thesis by (simp add: Group_ConvertToRaid_def)
qed

lemma ConvertToRaid_calm:
  assumes "gs_groups s g = Some x" "m_memberSlots x \<noteq> []"
  shows "calm (view s) (view (Group_ConvertToRaid E g s))"
  unfolding ConvertToRaid_view using assms by (intro calm_one gmove.raid [of _ _ "gview_of x"]) auto

lemma ConvertToGroup_calm:
  assumes "ginv (view s)" "gs_groups s g = Some x" "m_memberSlots x \<noteq> []"
  shows "calm (view s) (view (Group_ConvertToGroup E g s))"
proof (cases "5 < length (m_memberSlots x)")
  case True
  then show ?thesis using assms by (simp add: Group_ConvertToGroup_def)
next
  case False
  have "view (upd_grp g (\<lambda>x. x\<lparr>m_groupType := GROUPTYPE_NORMAL, m_subGroupsCounts := None\<rparr>) s) =
      wg_upd g (\<lambda>v. v\<lparr>v_raid := False, v_counts := None\<rparr>) (view s)"
    by (rule view_upd_grp) (simp add: gview_of_def Group_isRaidGroup_def GROUPTYPE_NORMAL_def)
  moreover have "gmove (view s) (wg_upd g (\<lambda>v. v\<lparr>v_raid := False, v_counts := None\<rparr>) (view s))"
    using assms False by (intro gmove.party [of _ _ "gview_of x"]) auto
  ultimately show ?thesis using False assms(2) by (intro calm_one) (simp_all add: Group_ConvertToGroup_def)
qed

lemma ConvertToLFG_view [simp]: "view (Group_ConvertToLFG E g s) = view s"
proof -
  have "((n OR GROUPTYPE_LFG) OR GROUPTYPE_UNK1) AND GROUPTYPE_RAID = n AND GROUPTYPE_RAID" for n :: uint8
    by (simp add: GROUPTYPE_LFG_def GROUPTYPE_UNK1_def GROUPTYPE_RAID_def bit.conj_disj_distrib2)
  then have "gview_of (x\<lparr>m_groupType := (m_groupType x OR GROUPTYPE_LFG) OR GROUPTYPE_UNK1, m_lootMethod := l\<rparr>) = gview_of x" for x l
    by (simp add: gview_of_def Group_isRaidGroup_def)
  then show ?thesis by (simp add: Group_ConvertToLFG_def Let_def view_same_grp)
qed


section \<open>Sub-groups\<close>

lemma slot_update_view:
  "distinct (map fst (map slot_view ms)) \<Longrightarrow>
   map slot_view (slot_update p (\<lambda>m. m\<lparr>ms_group := n\<rparr>) ms) = reslot p n (map slot_view ms)"
proof (induction ms)
  case (Cons m ms)
  show ?case
  proof (cases "ms_guid m = p")
    case True
    then have "p \<notin> fst ` set (map slot_view ms)" using Cons.prems by (auto simp: slot_view_def)
    then have "reslot p n (map slot_view ms) = map slot_view ms" unfolding reslot_def by (intro map_idI) (metis image_eqI)
    moreover have "reslot p n (map slot_view (m # ms)) = (p, n) # reslot p n (map slot_view ms)" using True by (simp add: reslot_def slot_view_def)
    moreover have "slot_view (m\<lparr>ms_group := n\<rparr>) = (p, n)" using True by (simp add: slot_view_def)
    ultimately show ?thesis using True by simp
  next
    case False
    then show ?thesis using Cons by (simp add: reslot_def slot_view_def)
  qed
qed (simp add: reslot_def)

lemma counter_dec_view: "view (counter_dec n g s) = wg_upd g (\<lambda>v. v\<lparr>v_counts := cnt_dec n (v_counts v)\<rparr>) (view s)"
  unfolding counter_dec_def by (rule view_upd_grp) (simp add: gview_counter_inc)

lemma setMembersGroup_view:
  assumes "gs_groups s g = Some x" "gok (gview_of x)" "p \<in> mems (gview_of x)"
  shows "fst (Group_setMembersGroup g p n s)"
    "view (snd (Group_setMembersGroup g p n s)) = wg_upd g (\<lambda>v. v\<lparr>v_slots := reslot p n (v_slots v), v_counts := cnt_inc n (v_counts v)\<rparr>) (view s)"
    "refs (snd (Group_setMembersGroup g p n s)) q = refs s q"
proof -
  obtain m where m: "getMemberSlot p x = Some m" using assms(3) getMemberSlot_None [of p x] by auto
  let ?f = "\<lambda>x. Group_SubGroupCounterIncrease n (x\<lparr>m_memberSlots := slot_update p (\<lambda>m. m\<lparr>ms_group := n\<rparr>) (m_memberSlots x)\<rparr>)"
  have "gview_of (?f x) = (gview_of x)\<lparr>v_slots := reslot p n (v_slots (gview_of x)), v_counts := cnt_inc n (v_counts (gview_of x))\<rparr>"
    using slot_update_view [of "m_memberSlots x" p n] assms(2)
    by (simp add: gview_counter_inc gok_def) (simp add: gview_of_def Group_isRaidGroup_def)
  then have v: "view (upd_grp g ?f s) = wg_upd g (\<lambda>v. v\<lparr>v_slots := reslot p n (v_slots v), v_counts := cnt_inc n (v_counts v)\<rparr>) (view s)"
    by (rule view_upd_at [OF assms(1)])
  then show "fst (Group_setMembersGroup g p n s)"
    "view (snd (Group_setMembersGroup g p n s)) = wg_upd g (\<lambda>v. v\<lparr>v_slots := reslot p n (v_slots v), v_counts := cnt_inc n (v_counts v)\<rparr>) (view s)"
    "refs (snd (Group_setMembersGroup g p n s)) q = refs s q"
    using m assms(1) by (simp_all add: Group_setMembersGroup_def Let_def)
qed

lemma regroup_calm:
  "gw_grp w g = Some v \<Longrightarrow> (p, m) \<in> set (v_slots v) \<Longrightarrow> v_raid v \<Longrightarrow> room n v \<Longrightarrow> m \<noteq> n \<Longrightarrow> calm w (regroup g p m n w)"
  by (rule calm_one, rule gmove.regroup) (auto simp: regroup_def)

lemma free_slot_room:
  assumes "gok (gview_of x)" "Group_HasFreeSlotSubGroup n x" "unat n < 8"
  shows "room n (gview_of x)"
  using assms by (auto simp: room_def Group_HasFreeSlotSubGroup_def MAXGROUPSIZE_def split: option.splits)

lemma ChangePlayersGroup_calm:
  assumes inv: "ginv (view s)" and x: "gs_groups s g = Some x" "Group_HasFreeSlotSubGroup n x" "unat n < 8"
    and p: "gs_players s p \<noteq> None"
  shows "calm (view s) (view (Group_ChangePlayersGroup E g p n s))"
proof (cases "\<not> Group_isRaidGroup x \<or> pr_subGroup (refs s p) = n \<or> p \<notin> mems (gview_of x)")
  case True
  then show ?thesis using x(1) getMemberSlot_None [of p x]
    by (auto simp: Group_ChangePlayersGroup_def Group_setMembersGroup_def)
next
  case False
  note base = ginv_base [OF inv]
  have gv: "gw_grp (view s) g = Some (gview_of x)" using x by simp
  have ok: "grp_ok (view s) g (gview_of x)" by (rule gbase_grp [OF base gv])
  then have ok': "gok (gview_of x)" by (simp add: grp_ok_def)
  obtain y where y: "gs_players s p = Some y" using p by auto
  have pg: "pr_group y = Some g"
  proof -
    have "gw_ply (view s) p = Some (rview_of y)" using y by simp
    with ok False have "rv_group (rview_of y) = Some g" unfolding grp_ok_def by blast
    then show ?thesis by simp
  qed
  have sub: "(p, pr_subGroup y) \<in> set (v_slots (gview_of x))"
    using gbase_ply [OF base, of p "rview_of y"] y pg x(1) by (auto simp: ply_ok_def)
  define s1 where "s1 = snd (Group_setMembersGroup g p n s)"
  note m = setMembersGroup_view [OF x(1) ok', of p n, folded s1_def]
  define s2 where "s2 = upd_refs p (set_subGroup GroupRef n) s1"
  have v2: "view s2 = wp_upd p (\<lambda>r. r\<lparr>rv_sub := n\<rparr>) (view s1)" unfolding s2_def
    by (rule view_upd_refs) (simp add: set_subGroup_def rview_of_def)
  have c: "Group_ChangePlayersGroup E g p n s = Group_SendUpdate E g (counter_dec (pr_subGroup y) g s2)"
    using False x(1) m(1) m(3) [of p] y pg unfolding s1_def s2_def
    by (simp add: Group_ChangePlayersGroup_def Let_def case_prod_unfold)
  have "view (Group_ChangePlayersGroup E g p n s) = regroup g p (pr_subGroup y) n (view s)"
    unfolding c regroup_def SendUpdate_view counter_dec_view v2 using m(2) False
    by (intro gworld_eqI) (auto simp: gv simp del: view_sel)
  moreover have "calm (view s) (regroup g p (pr_subGroup y) n (view s))"
    using False y free_slot_room [OF ok' x(2,3)] by (intro regroup_calm [OF gv sub]) auto
  ultimately show ?thesis by simp
qed

lemma ChangeMembersGroup_calm:
  assumes inv: "ginv (view s)" and E: "here E s" and x: "gs_groups s g = Some x" "Group_HasFreeSlotSubGroup n x" "unat n < 8"
  shows "calm (view s) (view (Group_ChangeMembersGroup E g p n s))"
proof (cases "ge_GetPlayer E p")
  case (Some pl)
  then have "gs_players s p \<noteq> None" using E unfolding here_def by blast
  then show ?thesis using ChangePlayersGroup_calm [OF inv x] x Some by (simp add: Group_ChangeMembersGroup_def)
next
  case off: None
  show ?thesis
  proof (cases "\<not> Group_isRaidGroup x \<or> Group_GetMemberGroup p x = n \<or> p \<notin> mems (gview_of x)")
    case True
    then show ?thesis using x(1) off getMemberSlot_None [of p x]
      by (auto simp: Group_ChangeMembersGroup_def Group_setMembersGroup_def Let_def)
  next
    case False
    have gv: "gw_grp (view s) g = Some (gview_of x)" using x by simp
    have ok: "gok (gview_of x)" using gbase_grp [OF ginv_base [OF inv] gv] by (simp add: grp_ok_def)
    obtain m where m: "getMemberSlot p x = Some m" using False getMemberSlot_None [of p x] by auto
    then have prev: "Group_GetMemberGroup p x = ms_group m" by (simp add: Group_GetMemberGroup_def)
    have none: "gs_players s p = None" using E off unfolding here_def by blast
    define s1 where "s1 = snd (Group_setMembersGroup g p n s)"
    note sm = setMembersGroup_view [OF x(1) ok, of p n, folded s1_def]
    have c: "Group_ChangeMembersGroup E g p n s = Group_SendUpdate E g (counter_dec (ms_group m) g s1)"
      using False x(1) sm(1) off prev unfolding s1_def by (simp add: Group_ChangeMembersGroup_def Let_def case_prod_unfold)
    have "view (Group_ChangeMembersGroup E g p n s) = regroup g p (ms_group m) n (view s)"
      unfolding c regroup_def SendUpdate_view counter_dec_view using sm(2) False none
      by (intro gworld_eqI) (auto simp: gv simp del: view_sel, simp)
    moreover have "calm (view s) (regroup g p (ms_group m) n (view s))"
      using False prev free_slot_room [OF ok x(2,3)] getMemberSlot_Some [OF m] by (intro regroup_calm [OF gv]) auto
    ultimately show ?thesis by simp
  qed
qed

end
