(* ===== verification/Group_History.thy ===== *)
theory Group_History
  imports Group_Joins
begin

text \<open>
  Histories: players log in and out, send messages, and the server works on groups.  The roster is the list of players in the
  world, which the handlers read.
\<close>

section \<open>Operations and histories\<close>

datatype group_op =
    OpLogin Player uint8 uint8 "uint32 option"
  | OpLogout uint64 bool
  | OpInvite Player ByteBuffer
  | OpAccept Player ByteBuffer
  | OpDecline Player
  | OpUninviteGuid Player ByteBuffer
  | OpUninvite Player ByteBuffer
  | OpSetLeader Player ByteBuffer
  | OpDisband Player
  | OpLootMethod Player ByteBuffer
  | OpLootRoll Player ByteBuffer
  | OpMinimapPing Player ByteBuffer
  | OpRandomRoll Player ByteBuffer
  | OpRaidTargetUpdate Player ByteBuffer
  | OpRaidConvert Player ByteBuffer
  | OpChangeSubGroup Player ByteBuffer
  | OpAssistantLeader Player ByteBuffer
  | OpPartyAssignment Player ByteBuffer
  | OpReadyCheck Player ByteBuffer
  | OpOptOutOfLoot Player ByteBuffer
  | OpSetRoles Player ByteBuffer
  | OpConvertToLFG group_ptr
  | OpGroupLoot "uint64 \<Rightarrow> bool" uint32 looted_kind group_ptr loot_ptr
  | OpNeedBeforeGreed "uint64 \<Rightarrow> bool" uint32 looted_kind group_ptr loot_ptr
  | OpEndRoll group_ptr loot_ptr
  | OpLootClear loot_ptr
  | OpUpdateLooterGuid "uint64 \<Rightarrow> bool" bool group_ptr
  | OpDungeonDifficulty "uint64 \<Rightarrow> uint8" uint8 group_ptr
  | OpRaidDifficulty "uint64 \<Rightarrow> uint8" uint8 group_ptr

fun do_op :: "group_env \<Rightarrow> group_op \<Rightarrow> GroupState \<Rightarrow> GroupState" where
  "do_op E (OpLogin player dd rd row) = group_login player dd rd row"
| "do_op E (OpLogout p sock) = group_logout E p sock"
| "do_op E (OpInvite me d) = HandleGroupInviteOpcode E me d"
| "do_op E (OpAccept me d) = HandleGroupAcceptOpcode E me d"
| "do_op E (OpDecline me) = HandleGroupDeclineOpcode E me"
| "do_op E (OpUninviteGuid me d) = HandleGroupUninviteGuidOpcode E me d"
| "do_op E (OpUninvite me d) = HandleGroupUninviteOpcode E me d"
| "do_op E (OpSetLeader me d) = HandleGroupSetLeaderOpcode E me d"
| "do_op E (OpDisband me) = HandleGroupDisbandOpcode E me"
| "do_op E (OpLootMethod me d) = HandleLootMethodOpcode E me d"
| "do_op E (OpLootRoll me d) = HandleLootRoll E me d"
| "do_op E (OpMinimapPing me d) = HandleMinimapPingOpcode me d"
| "do_op E (OpRandomRoll me d) = HandleRandomRollOpcode E me d"
| "do_op E (OpRaidTargetUpdate me d) = HandleRaidTargetUpdateOpcode me d"
| "do_op E (OpRaidConvert me d) = HandleGroupRaidConvertOpcode E me d"
| "do_op E (OpChangeSubGroup me d) = HandleGroupChangeSubGroupOpcode E me d"
| "do_op E (OpAssistantLeader me d) = HandleGroupAssistantLeaderOpcode E me d"
| "do_op E (OpPartyAssignment me d) = HandlePartyAssignmentOpcode E me d"
| "do_op E (OpReadyCheck me d) = HandleRaidReadyCheckOpcode E me d"
| "do_op E (OpOptOutOfLoot me d) = HandleOptOutOfLootOpcode me d"
| "do_op E (OpSetRoles me d) = HandleGroupSetRoles E me d"
| "do_op E (OpConvertToLFG g) = Group_ConvertToLFG E g"
| "do_op E (OpGroupLoot near m k g l) = Group_GroupLoot E near m k g l"
| "do_op E (OpNeedBeforeGreed near m k g l) = Group_NeedBeforeGreed E near m k g l"
| "do_op E (OpEndRoll g l) = Group_EndRoll E g l"
| "do_op E (OpLootClear l) = Loot_clear l"
| "do_op E (OpUpdateLooterGuid near b g) = Group_UpdateLooterGuid E near b g"
| "do_op E (OpDungeonDifficulty level d g) = Group_SetDungeonDifficulty level d g"
| "do_op E (OpRaidDifficulty level d g) = Group_SetRaidDifficulty level d g"

fun op_sender :: "group_op \<Rightarrow> Player option" where
  "op_sender (OpInvite me d) = Some me"
| "op_sender (OpAccept me d) = Some me"
| "op_sender (OpDecline me) = Some me"
| "op_sender (OpUninviteGuid me d) = Some me"
| "op_sender (OpUninvite me d) = Some me"
| "op_sender (OpSetLeader me d) = Some me"
| "op_sender (OpDisband me) = Some me"
| "op_sender (OpLootMethod me d) = Some me"
| "op_sender (OpLootRoll me d) = Some me"
| "op_sender (OpMinimapPing me d) = Some me"
| "op_sender (OpRandomRoll me d) = Some me"
| "op_sender (OpRaidTargetUpdate me d) = Some me"
| "op_sender (OpRaidConvert me d) = Some me"
| "op_sender (OpChangeSubGroup me d) = Some me"
| "op_sender (OpAssistantLeader me d) = Some me"
| "op_sender (OpPartyAssignment me d) = Some me"
| "op_sender (OpReadyCheck me d) = Some me"
| "op_sender (OpOptOutOfLoot me d) = Some me"
| "op_sender (OpSetRoles me d) = Some me"
| "op_sender _ = None"

text \<open>The name an invitation asks for, and the group that a \<open>group_member\<close> row leads to.\<close>

definition invite_target :: "group_env \<Rightarrow> ByteBuffer \<Rightarrow> Player option" where
  "invite_target E data =
     (case in_string data of
        Inl e \<Rightarrow> None
      | Inr (name, _) \<Rightarrow> FindPlayerByName (ge_world E) (snd (ge_normalizePlayerName E name)))"

definition row_group :: "uint32 option \<Rightarrow> GroupState \<Rightarrow> group_ptr option" where
  "row_group row s = (case row of None \<Rightarrow> None | Some low \<Rightarrow> fst (GetGroupByGUID low s))"

definition group_of :: "uint64 \<Rightarrow> GroupState \<Rightarrow> group_ptr option" where
  "group_of p s = find (\<lambda>g. case gs_groups s g of None \<Rightarrow> False | Some x \<Rightarrow> Group_IsMember p x) [0..<gs_next s]"

text \<open>
  What a step needs: senders are in the world, nobody invites himself (\<open>self_invite_leaves_dangling_pointer\<close>), a player who logs in was
  not in the world and his row names the group that lists him.  There are no battleground raids.
\<close>

fun op_ok :: "Player list \<Rightarrow> group_env \<Rightarrow> group_op \<Rightarrow> GroupState \<Rightarrow> bool" where
  "op_ok ros E (OpLogin player dd rd row) s \<longleftrightarrow>
     plr_InWorld player \<and> plr_GUID player \<noteq> 0 \<and> plr_GUID player \<notin> plr_GUID ` set ros \<and>
     row_group row s = group_of (plr_GUID player) s"
| "op_ok ros E (OpLogout p sock) s \<longleftrightarrow> p \<in> plr_GUID ` set ros"
| "op_ok ros E (OpInvite me d) s \<longleftrightarrow>
     me \<in> set ros \<and> (case invite_target E d of None \<Rightarrow> True | Some player \<Rightarrow> plr_GUID player \<noteq> plr_GUID me)"
| "op_ok ros E op s \<longleftrightarrow> (case op_sender op of None \<Rightarrow> True | Some me \<Rightarrow> me \<in> set ros)"

text \<open>
  The surroundings of a step: every player object that exists is in the world.  \<open>FindPlayer\<close>, which the operations call, returns \<open>NULL\<close> for
  an object that exists but is not in the world, as between two maps.  The operations have that case, but what they then leave
  behind breaks the agreement of groups and players (\<open>kick_between_maps_keeps_pointer\<close>), so histories exclude it.
\<close>

definition in_world :: "Player list \<Rightarrow> group_env \<Rightarrow> group_env" where
  "in_world ros E = E\<lparr>ge_world := (ge_world E)\<lparr>w_players := ros\<rparr>\<rparr>"

fun roster :: "group_op \<Rightarrow> Player list \<Rightarrow> Player list" where
  "roster (OpLogin player dd rd row) ros = player # ros"
| "roster (OpLogout p sock) ros = filter (\<lambda>q. plr_GUID q \<noteq> p) ros"
| "roster _ ros = ros"

fun group_step :: "group_env \<times> group_op \<Rightarrow> Player list \<times> GroupState \<Rightarrow> Player list \<times> GroupState" where
  "group_step (E, op) (ros, s) = (roster op ros, do_op (in_world ros E) op s)"

fun group_guard :: "group_env \<times> group_op \<Rightarrow> Player list \<times> GroupState \<Rightarrow> bool" where
  "group_guard (E, op) (ros, s) = op_ok ros (in_world ros E) op s"

definition no_groups :: "uint32 \<Rightarrow> uint32 \<Rightarrow> (loot_ptr \<Rightarrow> Loot option) \<Rightarrow> GroupState" where
  "no_groups lowgroup lowitem loots =
     \<lparr>gs_groups = Map.empty, gs_players = Map.empty, gs_next = 0, gs_registry = [], gs_hiGroupGuid = lowgroup,
      gs_hiItemGuid = lowitem, gs_loots = loots, gs_loot_fault = False, gs_draws = 0, gs_uaf = False, gs_trace = []\<rparr>"

section \<open>Login and logout\<close>

lemma find_group_alive:
  "(\<And>g. g \<in> set gs \<Longrightarrow> gs_groups s g \<noteq> None) \<Longrightarrow> snd (find_group low gs s) = s \<and>
   (\<forall>g. fst (find_group low gs s) = Some g \<longrightarrow> g \<in> set gs)"
proof (induction gs)
  case (Cons h gs)
  obtain x where "gs_groups s h = Some x" using Cons.prems [of h] by auto
  then show ?case using Cons by auto
qed simp

lemma registry_alive: "ginv (view s) \<Longrightarrow> g \<in> set (gs_registry s) \<Longrightarrow> gs_groups s g \<noteq> None"
  using ginv_base [of "view s"] by (auto simp: gbase_def)

lemma GetGroupByGUID_ginv:
  assumes "ginv (view s)"
  shows "snd (GetGroupByGUID low s) = s" "fst (GetGroupByGUID low s) = Some g \<Longrightarrow> g \<in> set (gs_registry s)"
  using find_group_alive [of "gs_registry s" s low] registry_alive [OF assms] by (auto simp: GetGroupByGUID_def)

lemma group_of_spec:
  assumes "ginv (view s)"
  shows "group_of p s = Some g \<longleftrightarrow> (\<exists>x. gs_groups s g = Some x \<and> p \<in> mems (gview_of x))"
proof -
  have alive: "g < gs_next s" if "gs_groups s g = Some x" for g x
    using gbase_grp [OF ginv_base [OF assms], of g "gview_of x"] that by (simp add: grp_ok_def)
  have one: "g = h" if "gs_groups s g = Some x" "p \<in> mems (gview_of x)" "gs_groups s h = Some y" "p \<in> mems (gview_of y)" for g h x y
    using ginv_base [OF assms] that unfolding gbase_def one_group_def by (metis view_sel(1) option.map(2))
  let ?P = "\<lambda>g. case gs_groups s g of None \<Rightarrow> False | Some x \<Rightarrow> Group_IsMember p x"
  have P: "?P g \<longleftrightarrow> (\<exists>x. gs_groups s g = Some x \<and> p \<in> mems (gview_of x))" for g
    by (simp add: IsMember_view split: option.split)
  show ?thesis
  proof
    assume "group_of p s = Some g"
    then show "\<exists>x. gs_groups s g = Some x \<and> p \<in> mems (gview_of x)" unfolding group_of_def List.find_Some_iff P by blast
  next
    assume g: "\<exists>x. gs_groups s g = Some x \<and> p \<in> mems (gview_of x)"
    then have "?P g" "g \<in> set [0..<gs_next s]" using P alive by auto
    then obtain h where h: "group_of p s = Some h" unfolding group_of_def by (metis List.find_None_iff not_None_eq)
    then have "\<exists>y. gs_groups s h = Some y \<and> p \<in> mems (gview_of y)" unfolding group_of_def List.find_Some_iff P by blast
    with g one have "g = h" by blast
    with h show "group_of p s = Some g" by simp
  qed
qed

lemma group_login_moves:
  assumes inv: "ginv (view s)" and p: "gs_players s (plr_GUID player) = None" "plr_GUID player \<noteq> 0"
    and row: "row_group row s = group_of (plr_GUID player) s"
  shows "gmoves (view s) (view (group_login player dd rd row s))"
proof -
  let ?p = "plr_GUID player" and ?y = "PlayerRefs_new\<lparr>pr_dungeonDifficulty := dd, pr_raidDifficulty := rd\<rparr>"
  define s1 where "s1 = s\<lparr>gs_players := (gs_players s)(?p := Some ?y)\<rparr>"
  have v1: "view s1 = arrive ?p no_refs (view s)"
    by (rule gworld_eqI) (simp_all add: s1_def arrive_def no_refs_def rview_of_def PlayerRefs_new_def)
  have y1: "gs_players s1 ?p = Some ?y" "pr_group ?y = None" by (simp_all add: s1_def PlayerRefs_new_def)
  have find1: "find_group low gs s1 = (fst (find_group low gs s), s1)" if "\<forall>g \<in> set gs. gs_groups s g \<noteq> None" for low gs
    using that by (induction gs) (auto simp: follow_def s1_def grp_def)
  have get1: "GetGroupByGUID low s1 = (fst (GetGroupByGUID low s), s1)" for low
    using find1 [of "gs_registry s" low] registry_alive [OF inv] by (simp add: GetGroupByGUID_def s1_def)
  have l: "group_login player dd rd row s = Player_LoadGroup player row s1" by (simp add: group_login_def s1_def)
  show ?thesis
  proof (cases "group_of ?p s")
    case None
    then have "view (Player_LoadGroup player row s1) = view s1"
      using row get1 by (auto simp: Player_LoadGroup_def row_group_def split: option.splits)
    moreover have "?p \<notin> mems v" if "gw_grp (view s) g = Some v" for g v
      using None that group_of_spec [OF inv, of ?p g] by auto
    then have "gmove (view s) (view s1)" unfolding v1 using p by (intro gmove.login) auto
    ultimately show ?thesis unfolding l using gmoves_one by simp
  next
    case (Some g)
    then obtain x where x: "gs_groups s g = Some x" "?p \<in> mems (gview_of x)" using group_of_spec [OF inv] by blast
    then obtain m where m: "getMemberSlot ?p x = Some m" using getMemberSlot_None [of ?p x] by auto
    obtain low where low: "row = Some low" "fst (GetGroupByGUID low s) = Some g"
      using row Some by (auto simp: row_group_def split: option.splits)
    have g1: "grp s1 g = x" using x by (simp add: s1_def grp_def)
    have "view (Player_LoadGroup player row s1) = view (Player_SetGroup ?p (Some (g, ms_group m)) s1)"
      using low get1 m by (simp add: Player_LoadGroup_def Let_def g1 Group_GetMemberGroup_def view_same_refs)
    also have "\<dots> = wg_upd g (\<lambda>v. v\<lparr>v_mgr := insert (?p, GroupRef) (v_mgr v)\<rparr>) (arrive ?p (no_refs\<lparr>rv_group := Some g, rv_sub := ms_group m\<rparr>) (view s))"
      unfolding link_view [OF y1] v1 by (rule gworld_eqI) (auto simp: arrive_def)
    finally show ?thesis unfolding l
      using gmove.relog [of "view s" ?p g "gview_of x" "ms_group m"] p x getMemberSlot_Some [OF m] by (auto intro: gmoves_one)
  qed
qed


end
