(* ===== verification/Group_Safe.thy ===== *)
theory Group_Safe
  imports Group_History
begin

text \<open>Every step of a history is a run of the state machine, so the invariant holds in every history.\<close>

section \<open>Logout\<close>

lemma unlink_all_view:
  assumes inv: "ginv (view s)" and y: "gs_players s p = Some y"
  shows "view ((ref_unlink OriginalRef p (ref_unlink GroupRef p s))\<lparr>gs_players :=
    (gs_players (ref_unlink OriginalRef p (ref_unlink GroupRef p s)))(p := None)\<rparr>) = depart p (view s)"
proof -
  have orig: "pr_originalGroup y = None" using ginv_orig [OF inv, of p] y by simp
  have mgr: "(p, GroupRef) \<in> set (m_memberMgr x) \<longleftrightarrow> pr_group y = Some g" if "gs_groups s g = Some x" for g x
    using gbase_grp [OF ginv_base [OF inv], of g "gview_of x"] that y by (simp add: grp_ok_def linked_def)
  show ?thesis
  proof (cases "pr_group y")
    case None
    then have "view (s\<lparr>gs_players := (gs_players s)(p := None)\<rparr>) = depart p (view s)"
    proof (intro gworld_eqI)
      show "gw_grp (view (s\<lparr>gs_players := (gs_players s)(p := None)\<rparr>)) h = gw_grp (depart p (view s)) h" for h
        using mgr [of h] None by (cases "gs_groups s h") (auto simp: depart_def)
    qed (simp_all add: depart_def)
    then show ?thesis using None orig y by (simp add: ref_unlink_def ref_target_def)
  next
    case (Some g)
    define s1 where "s1 = ref_unlink GroupRef p s"
    have s1: "s1 = upd_refs p (set_target GroupRef None) (upd_grp g (\<lambda>x. x\<lparr>m_memberMgr := removeAll (p, GroupRef) (m_memberMgr x)\<rparr>) s)"
      using Some y by (simp add: s1_def ref_unlink_def ref_target_def)
    have "refs s1 p = set_target GroupRef None y" using y by (simp add: s1 refs_upd_refs)
    then have "ref_unlink OriginalRef p s1 = s1" using orig by (simp add: ref_unlink_def ref_target_def set_target_def)
    moreover have "view (s1\<lparr>gs_players := (gs_players s1)(p := None)\<rparr>) = depart p (view s)"
    proof (intro gworld_eqI)
      show "gw_grp (view (s1\<lparr>gs_players := (gs_players s1)(p := None)\<rparr>)) h = gw_grp (depart p (view s)) h" for h
        using mgr [of h] Some by (cases "gs_groups s h")
          (auto simp: depart_def s1 gs_groups_upd_grp gview_of_def Group_isRaidGroup_def)
      show "gw_ply (view (s1\<lparr>gs_players := (gs_players s1)(p := None)\<rparr>)) q = gw_ply (depart p (view s)) q" for q
        by (simp add: depart_def s1 gs_players_upd_refs)
    qed (simp_all add: depart_def s1)
    ultimately show ?thesis by (simp add: s1_def)
  qed
qed

lemma group_logout_moves:
  assumes inv: "ginv (view s)" and E: "here E s" and p: "gs_players s p \<noteq> None"
  shows "gmoves (view s) (view (group_logout E p sock s))"
    and "gs_players (group_logout E p sock s) q = None \<longleftrightarrow> q = p \<or> gs_players s q = None"
proof -
  define s1 where "s1 = Player_UninviteFromGroup E p s"
  note c1 = UninviteFromGroup_calm [OF inv E, of p, folded s1_def]
  note inv1 = calm_ginv [OF c1(1) inv] and E1 = calm_here [OF c1(1) E]
  have "gw_ply (view s1) p \<noteq> None" using c1(1) p by (simp add: calm_def)
  then obtain y1 where y1: "gs_players s1 p = Some y1" by auto
  then have i1: "pr_groupInvite y1 = None" using c1(2) by simp
  define s2 where "s2 = (case pr_group (refs s1 p) of None \<Rightarrow> s1 | Some g \<Rightarrow>
      let s1 = follow g s1 in if \<not> Group_isRaidGroup (grp s1 g) \<and> sock
      then Player_RemoveFromGroup E (Some g) p GROUP_REMOVEMETHOD_DEFAULT 0 None s1 else s1)"
  have c2: "calm (view s1) (view s2) \<and> (\<exists>y. gs_players s2 p = Some y \<and> pr_groupInvite y = None)"
  proof (cases "pr_group (refs s1 p)")
    case None
    then show ?thesis using y1 i1 by (simp add: s2_def)
  next
    case (Some g)
    obtain x y where x: "gs_groups s1 g = Some x" "(p, pr_subGroup y) \<in> set (v_slots (gview_of x))"
      and y: "gs_players s1 p = Some y" "follow g s1 = s1"
      by (rule ginv_follow [OF inv1 Some])
    note f = RemoveFromGroup_calm [OF inv1 E1 x, of GROUP_REMOVEMETHOD_DEFAULT 0 None]
    obtain z where "gs_players (Player_RemoveFromGroup E (Some g) p GROUP_REMOVEMETHOD_DEFAULT 0 None s1) p = Some z" "pr_groupInvite z = None"
      by (rule RemoveFromGroup_invite [OF inv1 E1 x y1 i1])
    then show ?thesis using f Some y i1 y1 by (simp add: s2_def)
  qed
  then obtain y2 where y2: "gs_players s2 p = Some y2" "pr_groupInvite y2 = None" by blast
  note inv2 = calm_ginv [OF conjunct1 [OF c2] inv1]
  define s3 where "s3 = (case pr_group (refs s2 p) of None \<Rightarrow> s2 | Some g \<Rightarrow> Group_ResetMaxEnchantingLevel E g (Group_SendUpdate E g (follow g s2)))"
  have v3: "view s3 = view s2"
  proof (cases "pr_group (refs s2 p)")
    case (Some g)
    then obtain x where "gs_groups s2 g = Some x" by (rule ginv_follow [OF inv2]) blast
    then show ?thesis using Some by (simp add: s3_def)
  qed (simp add: s3_def)
  have "gw_ply (view s3) p = Some (rview_of y2)" using v3 y2 by simp
  then obtain y3 where y3: "gs_players s3 p = Some y3" "rview_of y3 = rview_of y2" by (rule view_plyE)
  have fin: "view (group_logout E p sock s) = depart p (view s3)"
    using unlink_all_view [of s3 p y3] inv2 v3 y3(1)
    unfolding group_logout_def s1_def [symmetric] Let_def s2_def [unfolded Let_def, symmetric] s3_def [symmetric] by simp
  have "gmove (view s3) (depart p (view s3))" using v3 y2 by (intro gmove.logout [of _ _ "rview_of y2"]) auto
  then have "gmoves (view s2) (view (group_logout E p sock s))" unfolding fin v3 by (rule gmoves_one)
  then show "gmoves (view s) (view (group_logout E p sock s))"
    using c1(1) c2 unfolding calm_def by (meson gmoves_trans)
  have "gw_ply (view (group_logout E p sock s)) q = None \<longleftrightarrow> q = p \<or> gw_ply (view s) q = None"
    unfolding fin v3 using c1(1) c2 by (auto simp: calm_def depart_def simp del: view_sel)
  then show "gs_players (group_logout E p sock s) q = None \<longleftrightarrow> q = p \<or> gs_players s q = None" by simp
qed


section \<open>Messages\<close>

lemma parse_calm [intro]:
  "(\<And>x. r = Inr x \<Longrightarrow> calm (view s) (view (f x))) \<Longrightarrow> calm (view s) (view (parse r f s))"
  by (cases r) (simp_all add: parse_def)

lemma group_calm [intro]:
  assumes "ginv (view s)"
    "\<And>g x. t = Some g \<Longrightarrow> gs_groups s g = Some x \<Longrightarrow> follow g s = s \<Longrightarrow> m_memberSlots x \<noteq> [] \<Longrightarrow> calm (view s) (view (f g))"
    and "t = pr_group (refs s p)"
  shows "calm (view s) (view (case t of None \<Rightarrow> s | Some g \<Rightarrow> f g))"
proof (cases t)
  case (Some g)
  then have pg: "pr_group (refs s p) = Some g" using assms(3) by simp
  obtain x and y :: PlayerRefs where x: "gs_groups s g = Some x" "(p, pr_subGroup y) \<in> set (v_slots (gview_of x))" "follow g s = s"
    by (rule ginv_follow [OF assms(1) pg]) blast
  have "m_memberSlots x \<noteq> []" using x(2) by auto
  then show ?thesis using assms(2) [OF Some x(1,3)] Some by simp
qed simp

lemma SetLeader_calm:
  assumes "ginv (view s)"
  shows "calm (view s) (view (HandleGroupSetLeaderOpcode E me d s))"
  unfolding HandleGroupSetLeaderOpcode_def
  by (rule group_calm [OF assms _ refl], rule parse_calm) (auto simp: Let_def intro: ChangeLeader_calm [OF assms])

lemma Disband_calm:
  assumes inv: "ginv (view s)" and E: "here E s"
  shows "calm (view s) (view (HandleGroupDisbandOpcode E me s))"
proof (cases "pr_group (refs s (plr_GUID me))")
  case None
  then show ?thesis by (simp add: HandleGroupDisbandOpcode_def)
next
  case (Some g)
  obtain x y where x: "gs_groups s g = Some x" "(plr_GUID me, pr_subGroup y) \<in> set (v_slots (gview_of x))"
    and y: "gs_players s (plr_GUID me) = Some y" by (rule ginv_follow [OF inv Some])
  define s1 where "s1 = SendPartyResult (plr_GUID me) PARTY_OP_LEAVE (plr_Name me) ERR_PARTY_RESULT_OK s"
  have v1: "view s1 = view s" by (simp add: s1_def)
  have "gs_groups s1 g = Some x" using x by (simp add: s1_def SendPartyResult_def gs_emit_def)
  then have "calm (view s1) (view (Player_RemoveFromGroup E (Some g) (plr_GUID me) GROUP_REMOVEMETHOD_LEAVE 0 None s1))"
    using inv v1 here_view [OF E v1] x(2) by (intro RemoveFromGroup_calm) auto
  then show ?thesis using Some v1 by (simp add: HandleGroupDisbandOpcode_def Let_def s1_def)
qed

lemma CanUninvite_state:
  assumes "ginv (view s)"
  obtains res where "Player_CanUninviteFromGroup E p s = (res, s)"
proof (cases "pr_group (refs s p)")
  case None
  then show ?thesis using that by (simp add: Player_CanUninviteFromGroup_def)
next
  case (Some g)
  then have "follow g s = s" by (rule ginv_follow [OF assms])
  then show ?thesis using that Some unfolding Player_CanUninviteFromGroup_def Let_def by simp
qed

lemma remove_member_calm:
  assumes "ginv (view s)" "here E s" "gs_groups s g = Some x" "p \<in> mems (gview_of x)"
  shows "calm (view s) (view (Player_RemoveFromGroup E (Some g) p method k r s))"
  using assms RemoveFromGroup_calm by (auto elim!: memsE)

lemma UninviteGuid_calm:
  assumes inv: "ginv (view s)" and E: "here E s"
  shows "calm (view s) (view (HandleGroupUninviteGuidOpcode E me d s))"
proof -
  obtain res where can: "Player_CanUninviteFromGroup E (plr_GUID me) s = (res, s)" by (rule CanUninvite_state [OF inv])
  have "calm (view s) (view (case pr_group (refs s (plr_GUID me)) of None \<Rightarrow> s | Some g \<Rightarrow>
      if Group_IsLeader guid (grp s g) then SendPartyResult (plr_GUID me) PARTY_OP_UNINVITE [] ERR_NOT_LEADER s
      else if Group_IsMember guid (grp s g) then Player_RemoveFromGroup E (Some g) guid GROUP_REMOVEMETHOD_KICK (plr_GUID me) (Some reason) s
      else (case Group_GetInvited guid (grp s g) of Some q \<Rightarrow> Player_UninviteFromGroup E q s
           | None \<Rightarrow> SendPartyResult (plr_GUID me) PARTY_OP_UNINVITE [] ERR_TARGET_NOT_IN_GROUP_S s)))" for guid reason
    by (rule group_calm [OF inv _ refl])
      (auto simp: Let_def IsMember_view intro: remove_member_calm [OF inv E] UninviteFromGroup_calm(1) [OF inv E] split: option.split)
  then show ?thesis unfolding HandleGroupUninviteGuidOpcode_def Let_def can by (auto intro!: parse_calm)
qed

lemma find_in: "find P xs = Some x \<Longrightarrow> x \<in> set xs \<and> P x"
  by (auto simp: List.find_Some_iff)

lemma GetMemberGUID_mem: "Group_GetMemberGUID name x \<noteq> 0 \<Longrightarrow> Group_GetMemberGUID name x \<in> mems (gview_of x)"
  by (cases "find (\<lambda>m. ms_name m = name) (m_memberSlots x)")
    (auto simp: Group_GetMemberGUID_def mems_view dest: find_in)

lemma Uninvite_calm:
  assumes inv: "ginv (view s)" and E: "here E s"
  shows "calm (view s) (view (HandleGroupUninviteOpcode E me d s))"
proof -
  obtain res where can: "Player_CanUninviteFromGroup E (plr_GUID me) s = (res, s)" by (rule CanUninvite_state [OF inv])
  have "calm (view s) (view (case pr_group (refs s (plr_GUID me)) of None \<Rightarrow> s | Some g \<Rightarrow>
      if Group_GetMemberGUID name (grp s g) \<noteq> 0
      then Player_RemoveFromGroup E (Some g) (Group_GetMemberGUID name (grp s g)) GROUP_REMOVEMETHOD_KICK (plr_GUID me) None s
      else (case Group_GetInvitedByName E name (grp s g) of Some q \<Rightarrow> Player_UninviteFromGroup E q s
           | None \<Rightarrow> SendPartyResult (plr_GUID me) PARTY_OP_UNINVITE name ERR_TARGET_NOT_IN_GROUP_S s)))" for name
    by (rule group_calm [OF inv _ refl])
      (auto simp: Let_def intro!: remove_member_calm [OF inv E] UninviteFromGroup_calm(1) [OF inv E] GetMemberGUID_mem split: option.split)
  then show ?thesis unfolding HandleGroupUninviteOpcode_def Let_def can by (auto intro!: parse_calm simp: case_prod_unfold)
qed

lemma here_by_name:
  assumes "here E s" "\<forall>q \<in> set (w_players (ge_world E)). plr_InWorld q" "FindPlayerByName (ge_world E) name = Some player"
  shows "gs_players s (plr_GUID player) \<noteq> None"
proof -
  have "plr_InWorld player" "player \<in> set (w_players (ge_world E))"
    using assms(3) by (auto simp: FindPlayerByName_def List.find_Some_iff)
  then have "find (\<lambda>q. plr_GUID q = plr_GUID player) (w_players (ge_world E)) \<noteq> None" by (auto simp: List.find_None_iff)
  then have "FindPlayer (ge_world E) (plr_GUID player) \<noteq> None"
    using assms(2) by (auto simp: FindPlayer_def dest: find_in)
  then show ?thesis using assms(1) unfolding here_def ge_GetPlayer_def by blast
qed

lemma Invite_calm:
  assumes inv: "ginv (view s)" and E: "here E s" "\<forall>q \<in> set (w_players (ge_world E)). plr_InWorld q" and me: "gs_players s (plr_GUID me) \<noteq> None"
    and ne: "case invite_target E d of None \<Rightarrow> True | Some player \<Rightarrow> plr_GUID player \<noteq> plr_GUID me"
  shows "calm (view s) (view (HandleGroupInviteOpcode E me d s))"
proof -
  have "calm (view s) (view (case FindPlayerByName (ge_world E) name of
           None \<Rightarrow> SendPartyResult (plr_GUID me) PARTY_OP_INVITE name ERR_BAD_PLAYER_NAME_S s
         | Some player \<Rightarrow> (case invite_refused E me player s of
              Some None \<Rightarrow> s
            | Some (Some res) \<Rightarrow> SendPartyResult (plr_GUID me) PARTY_OP_INVITE name res s
            | None \<Rightarrow> invite_player E me name player s)))"
    if "in_string d = Inr (name0, d0)" "snd (ge_normalizePlayerName E name0) = name" for name0 d0 name
  proof (cases "FindPlayerByName (ge_world E) name")
    case (Some player)
    then have "plr_GUID player \<noteq> plr_GUID me" using ne that by (simp add: invite_target_def)
    from invite_player_calm [OF inv me here_by_name [OF E Some] this] Some show ?thesis by (auto split: option.split)
  qed simp
  then show ?thesis unfolding HandleGroupInviteOpcode_def
    by (auto intro!: parse_calm simp: Let_def split: prod.split)
qed

lemma Accept_calm:
  assumes inv: "ginv (view s)" and E: "here E s"
  shows "calm (view s) (view (HandleGroupAcceptOpcode E me d s))"
  unfolding HandleGroupAcceptOpcode_def
proof (rule parse_calm)
  show "calm (view s) (view (case pr_groupInvite (refs s (plr_GUID me)) of None \<Rightarrow> s | Some g \<Rightarrow> accept_invite E me g (follow g s)))"
  proof (cases "pr_groupInvite (refs s (plr_GUID me))")
    case (Some g)
    then have "follow g s = s" by (rule ginv_invite [OF inv])
    then show ?thesis using accept_invite_calm [OF inv E Some] Some by simp
  qed simp
qed

lemma Decline_calm:
  assumes inv: "ginv (view s)" and E: "here E s"
  shows "calm (view s) (view (HandleGroupDeclineOpcode E me s))"
proof (cases "pr_groupInvite (refs s (plr_GUID me))")
  case (Some g)
  then have "follow g s = s" by (rule ginv_invite [OF inv])
  then show ?thesis using UninviteFromGroup_calm(1) [OF inv E, of "plr_GUID me"] Some
    by (simp add: HandleGroupDeclineOpcode_def Let_def split: option.split)
qed (simp add: HandleGroupDeclineOpcode_def)

lemma RaidConvert_calm:
  assumes inv: "ginv (view s)"
  shows "calm (view s) (view (HandleGroupRaidConvertOpcode E me d s))"
proof -
  have c: "calm (view s) (view (Group_ConvertToRaid E g (SendPartyResult p a b c s)))"
    "calm (view s) (view (Group_ConvertToGroup E g (SendPartyResult p a b c s)))"
    if "gs_groups s g = Some x" "m_memberSlots x \<noteq> []" for g x p a b c
  proof -
    have s: "gs_groups (SendPartyResult p a b c s) g = Some x" "ginv (view (SendPartyResult p a b c s))"
      using that inv by (simp_all add: SendPartyResult_def gs_emit_def) (simp add: gs_emit_def [symmetric])
    show "calm (view s) (view (Group_ConvertToRaid E g (SendPartyResult p a b c s)))"
      using ConvertToRaid_calm [OF s(1) that(2), of E] by simp
    show "calm (view s) (view (Group_ConvertToGroup E g (SendPartyResult p a b c s)))"
      using ConvertToGroup_calm [OF s(2,1) that(2)] by simp
  qed
  show ?thesis unfolding HandleGroupRaidConvertOpcode_def Let_def
    by (rule group_calm [OF inv _ refl]) (auto intro!: parse_calm c)
qed

lemma ChangeSubGroup_calm:
  assumes inv: "ginv (view s)" and E: "here E s" "\<forall>q \<in> set (w_players (ge_world E)). plr_InWorld q"
  shows "calm (view s) (view (HandleGroupChangeSubGroupOpcode E me d s))"
  unfolding HandleGroupChangeSubGroupOpcode_def Let_def
  by (rule group_calm [OF inv _ refl])
    (auto intro!: parse_calm ChangePlayersGroup_calm [OF inv] ChangeMembersGroup_calm [OF inv E(1)] here_by_name [OF E]
      simp: MAX_RAID_SUBGROUPS_def MAXRAIDSIZE_def MAXGROUPSIZE_def split: option.split)

text \<open>The messages that change neither members nor invitations.\<close>

lemma quiet_calm:
  assumes inv: "ginv (view s)"
  shows "calm (view s) (view (HandleLootMethodOpcode E me d s))" "calm (view s) (view (HandleLootRoll E me d s))"
    "calm (view s) (view (HandleMinimapPingOpcode me d s))" "calm (view s) (view (HandleRandomRollOpcode E me d s))"
    "calm (view s) (view (HandleRaidTargetUpdateOpcode me d s))" "calm (view s) (view (HandleGroupAssistantLeaderOpcode E me d s))"
    "calm (view s) (view (HandlePartyAssignmentOpcode E me d s))" "calm (view s) (view (HandleRaidReadyCheckOpcode E me d s))"
    "calm (view s) (view (HandleOptOutOfLootOpcode me d s))" "calm (view s) (view (HandleGroupSetRoles E me d s))"
proof -
  show "calm (view s) (view (HandleLootMethodOpcode E me d s))" unfolding HandleLootMethodOpcode_def Let_def
    by (rule group_calm [OF inv _ refl]) (auto intro!: parse_calm simp: view_same_grp)
  show "calm (view s) (view (HandleLootRoll E me d s))" unfolding HandleLootRoll_def Let_def
    by (rule group_calm [OF inv _ refl]) (auto intro!: parse_calm)
  show "calm (view s) (view (HandleMinimapPingOpcode me d s))" unfolding HandleMinimapPingOpcode_def
    by (rule group_calm [OF inv _ refl]) (auto intro!: parse_calm)
  show "calm (view s) (view (HandleRaidTargetUpdateOpcode me d s))" unfolding HandleRaidTargetUpdateOpcode_def Let_def
    by (rule group_calm [OF inv _ refl]) (auto intro!: parse_calm)
  show "calm (view s) (view (HandleGroupAssistantLeaderOpcode E me d s))" unfolding HandleGroupAssistantLeaderOpcode_def Let_def
    by (rule group_calm [OF inv _ refl]) (auto intro!: parse_calm)
  show "calm (view s) (view (HandlePartyAssignmentOpcode E me d s))" unfolding HandlePartyAssignmentOpcode_def Let_def
    by (rule group_calm [OF inv _ refl]) (auto intro!: parse_calm)
  show "calm (view s) (view (HandleRaidReadyCheckOpcode E me d s))" unfolding HandleRaidReadyCheckOpcode_def Let_def
    by (rule group_calm [OF inv _ refl]) (auto intro!: parse_calm)
  show "calm (view s) (view (HandleOptOutOfLootOpcode me d s))" unfolding HandleOptOutOfLootOpcode_def
    by (auto intro!: parse_calm simp: view_same_refs)
  show "calm (view s) (view (HandleRandomRollOpcode E me d s))"
  proof -
    have "calm (view s) (view (case pr_group (refs (s\<lparr>gs_draws := n\<rparr>) p) of
        Some g \<Rightarrow> Group_BroadcastPacket data False None 0 g (follow g (s\<lparr>gs_draws := n\<rparr>)) | None \<Rightarrow> gs_emit es (s\<lparr>gs_draws := n\<rparr>)))" for n p data es
    proof -
      have "pr_group (refs (s\<lparr>gs_draws := n\<rparr>) p) = pr_group (refs s p)" by (simp add: refs_def)
      moreover have "view (follow g (s\<lparr>gs_draws := n\<rparr>)) = view s" if pg: "pr_group (refs s p) = Some g" for g
      proof -
        obtain x where "gs_groups s g = Some x" by (rule ginv_follow [OF inv pg]) blast
        then show ?thesis by (simp add: follow_def)
      qed
      ultimately show ?thesis by (simp split: option.split)
    qed
    then show ?thesis unfolding HandleRandomRollOpcode_def Let_def by (auto intro!: parse_calm)
  qed
  show "calm (view s) (view (HandleGroupSetRoles E me d s))"
  proof -
    have "calm (view s) (view (case pr_group (refs s p) of None \<Rightarrow> s | Some g \<Rightarrow> if pr_group (refs s q) \<noteq> Some g then s
        else let s1 = Group_SetRoles E g p roles (follow g s) in
          if Group_isLFGGroup (grp s1 g) then gs_emit [LfgUpdateRoleCheck (m_guid (grp s1 g)) guid r] s1 else s1))" for p q roles guid r
      unfolding Let_def by (rule group_calm [OF inv _ refl]) auto
    then show ?thesis unfolding HandleGroupSetRoles_def by (auto intro!: parse_calm split: option.split)
  qed
qed


section \<open>Histories\<close>

definition hist_inv :: "Player list \<times> GroupState \<Rightarrow> bool" where
  "hist_inv h \<longleftrightarrow> ginv (view (snd h)) \<and> (\<forall>q \<in> set (fst h). plr_InWorld q) \<and>
     (\<forall>p. gs_players (snd h) p \<noteq> None \<longleftrightarrow> p \<in> plr_GUID ` set (fst h))"

lemma in_world_players [simp]: "w_players (ge_world (in_world ros E)) = ros"
  by (simp add: in_world_def)

lemma in_world_here:
  assumes "hist_inv (ros, s)"
  shows "here (in_world ros E) s"
proof -
  have iw: "plr_InWorld q" if "q \<in> set ros" for q using assms that by (simp add: hist_inv_def)
  have "FindPlayer (ge_world (in_world ros E)) p \<noteq> None \<longleftrightarrow> p \<in> plr_GUID ` set ros" for p
  proof (cases "find (\<lambda>q. plr_GUID q = p) ros")
    case None
    moreover from None have "p \<notin> plr_GUID ` set ros" by (auto simp: List.find_None_iff)
    ultimately show ?thesis by (simp add: FindPlayer_def)
  next
    case (Some q)
    then have "q \<in> set ros" "plr_GUID q = p" using find_in by fast+
    with Some iw show ?thesis by (auto simp: FindPlayer_def)
  qed
  then show ?thesis using assms by (simp add: here_def ge_GetPlayer_def hist_inv_def)
qed

lemma hist_inv_calm:
  assumes "hist_inv (ros, s)" "calm (view s) (view s')"
  shows "hist_inv (ros, s')"
proof -
  have "gs_players s' p = None \<longleftrightarrow> gs_players s p = None" for p
    using assms(2) unfolding calm_def by (metis view_sel(2) map_option_is_None)
  then show ?thesis using assms calm_ginv [OF assms(2)] by (simp add: hist_inv_def)
qed

lemma group_login_players:
  assumes "ginv (view s)" "gs_players s (plr_GUID player) = None" "plr_GUID player \<noteq> 0" "row_group row s = group_of (plr_GUID player) s"
  shows "gs_players (group_login player dd rd row s) q = None \<longleftrightarrow> q \<noteq> plr_GUID player \<and> gs_players s q = None"
proof -
  have "gs_players (snd (find_group low gs u)) = gs_players u" for low gs u
    by (induction gs arbitrary: u) (simp_all add: follow_def)
  then show ?thesis
    by (auto simp: group_login_def Player_LoadGroup_def Let_def GetGroupByGUID_def case_prod_unfold Player_SetGroup_def ref_link_def
        ref_unlink_def gs_players_upd_refs split: option.splits)
qed


text \<open>The invariant, and that the step is a run of the state machine.\<close>

lemma step_moves:
  assumes h: "hist_inv (ros, s)" and ok: "op_ok ros (in_world ros E) op s"
  shows "hist_inv (roster op ros, do_op (in_world ros E) op s) \<and> gmoves (view s) (view (do_op (in_world ros E) op s))"
proof -
  let ?E = "in_world ros E"
  have inv: "ginv (view s)" and iw: "\<forall>q \<in> set (w_players (ge_world ?E)). plr_InWorld q" using h by (simp_all add: hist_inv_def)
  note E = in_world_here [OF h, of E]
  have on: "gs_players s p \<noteq> None \<longleftrightarrow> p \<in> plr_GUID ` set ros" for p using h by (simp add: hist_inv_def)
  have sender: "gs_players s (plr_GUID me) \<noteq> None" if "me \<in> set ros" for me using on that by blast
  have calm: "calm (view s) (view (do_op ?E op s)) \<Longrightarrow> roster op ros = ros \<Longrightarrow> ?thesis"
    using hist_inv_calm [OF h] by (simp add: calm_def)
  note quiet = quiet_calm [OF inv]
  show ?thesis
  proof (cases op)
    case (OpLogin player dd rd row)
    then have p: "plr_InWorld player" "gs_players s (plr_GUID player) = None" "plr_GUID player \<noteq> 0"
      "row_group row s = group_of (plr_GUID player) s" using ok on [of "plr_GUID player"] by auto
    have m: "gmoves (view s) (view (do_op ?E op s))" using group_login_moves [OF inv p(2-4), of dd rd] OpLogin by simp
    from m gmoves_ginv [OF m inv] show ?thesis using OpLogin p(1) iw on group_login_players [OF inv p(2-4), of dd rd] by (auto simp: hist_inv_def)
  next
    case (OpLogout p sock)
    then have p: "gs_players s p \<noteq> None" using ok on by simp
    have m: "gmoves (view s) (view (do_op ?E op s))" using group_logout_moves(1) [OF inv E p, of sock] OpLogout by simp
    from m gmoves_ginv [OF m inv] show ?thesis using OpLogout iw on group_logout_moves(2) [OF inv E p, of sock] by (auto simp: hist_inv_def)
  next
    case (OpInvite me d)
    then show ?thesis using ok Invite_calm [OF inv E iw sender, of me d] by (intro calm) auto
  next
    case (OpAccept me d)
    then show ?thesis using Accept_calm [OF inv E] by (intro calm) auto
  next
    case (OpDecline me)
    then show ?thesis using Decline_calm [OF inv E] by (intro calm) auto
  next
    case (OpUninviteGuid me d)
    then show ?thesis using UninviteGuid_calm [OF inv E] by (intro calm) auto
  next
    case (OpUninvite me d)
    then show ?thesis using Uninvite_calm [OF inv E] by (intro calm) auto
  next
    case (OpSetLeader me d)
    then show ?thesis using SetLeader_calm [OF inv] by (intro calm) auto
  next
    case (OpDisband me)
    then show ?thesis using Disband_calm [OF inv E] by (intro calm) auto
  next
    case (OpRaidConvert me d)
    then show ?thesis using RaidConvert_calm [OF inv] by (intro calm) auto
  next
    case (OpChangeSubGroup me d)
    then show ?thesis using ChangeSubGroup_calm [OF inv E iw] by (intro calm) auto
  qed (intro calm; simp add: quiet)+
qed

interpretation group_history: guarded_system group_guard group_step hist_inv
proof
  fix c h
  assume "hist_inv h" "group_guard c h"
  then show "hist_inv (group_step c h)" by (cases c; cases h) (simp add: step_moves)
qed

interpretation group_machine: guarded_system group_guard group_step "\<lambda>h. hist_inv h \<and> gmoves w (view (snd h))" for w
proof
  fix c h
  assume "hist_inv h \<and> gmoves w (view (snd h))" "group_guard c h"
  then show "hist_inv (group_step c h) \<and> gmoves w (view (snd (group_step c h)))"
    by (cases c; cases h) (auto simp: step_moves intro: gmoves_trans)
qed

lemma start_inv: "hist_inv ([], no_groups lowgroup lowitem loots)"
  by (auto simp: hist_inv_def no_groups_def ginv_def gbase_def one_group_def)

text \<open>A state that a history can reach from a server without groups.\<close>

lemmas history_inv = group_history.run_inv [OF start_inv]

end
