(* ===== verification/Group_Sample.thy ===== *)
theory Group_Sample
  imports Group_Safe
begin

text \<open>A sample history, in which two players found a raid, and the state it leads to.\<close>

definition sample_group_env :: group_env where
  "sample_group_env =
     \<lparr>ge_world = sample_world [], ge_socials = [], ge_enchanting = (\<lambda>_. 0), ge_isGameMaster = (\<lambda>_. False), ge_InstanceId = (\<lambda>_. 0),
      ge_MapId = (\<lambda>_. 0), ge_IsDungeon = (\<lambda>_. False), ge_InBattleground = (\<lambda>_. False), ge_isInCombat = (\<lambda>_. False),
      ge_stats_packet = (\<lambda>_. Packet 0 []), ge_in_sight = (\<lambda>_ _. True), ge_lfg_state = (\<lambda>_. 0), ge_lfg_dungeon = (\<lambda>_. 0),
      ge_lfg_kicks = (\<lambda>_. 0), ge_lfg_votes = (\<lambda>_. 0), ge_normalizePlayerName = (\<lambda>n. (True, n)),
      ge_GetPlayerGUIDByName = (\<lambda>_. 0), ge_CONFIG_ALLOW_GM_GROUP = True, ge_CONFIG_ALLOW_TWO_SIDE_INTERACTION_GROUP = True,
      ge_urand = (\<lambda>n a b. a + of_nat (n * 37 mod 100)), ge_CanStoreNewItem = (\<lambda>_ _ _. 0), ge_ItemPrototype = (\<lambda>_. None),
      ge_CanUseItem = (\<lambda>_ _. 0), ge_AllowedForPlayer = (\<lambda>_ _. True)\<rparr>"

definition packet_of :: "uint8 list \<Rightarrow> ByteBuffer" where
  "packet_of bs = \<lparr>bb_rpos = 0, bb_wpos = length bs, bb_storage = bs\<rparr>"

lemmas packet_defs = packet_of_def in_u32_def in_u8_def in_bool_def bb_read_def bb_read_at_def add64_def bb_size_def

definition ann :: Player where "ann = sample_player 5 ''A''"
definition bob :: Player where "bob = sample_player 9 ''B''"

text \<open>Ann invites Bob, he accepts, and she makes the party a raid.\<close>

definition sample_meeting :: "(group_env \<times> group_op) list" where
  "sample_meeting = map (Pair sample_group_env)
     [OpLogin ann 0 0 None, OpLogin bob 0 0 None, OpInvite ann (packet_of [66, 0, 0, 0, 0, 0]),
      OpAccept bob (packet_of [0, 0, 0, 0]), OpRaidConvert ann (packet_of [1])]"

abbreviation sample_start :: "Player list \<times> GroupState" where
  "sample_start \<equiv> ([], no_groups 1 1 Map.empty)"

definition met_env :: group_env where "met_env = in_world [bob, ann] sample_group_env"
definition met2 :: GroupState where "met2 = group_login bob 0 0 None (group_login ann 0 0 None (no_groups 1 1 Map.empty))"
definition met3 :: GroupState where "met3 = HandleGroupInviteOpcode met_env ann (packet_of [66, 0, 0, 0, 0, 0]) met2"
definition met4 :: GroupState where "met4 = HandleGroupAcceptOpcode met_env bob (packet_of [0, 0, 0, 0]) met3"
definition met5 :: GroupState where "met5 = HandleGroupRaidConvertOpcode met_env ann (packet_of [1]) met4"

lemma sample_meeting_run: "run_ops group_step sample_meeting sample_start = ([bob, ann], met5)"
  by (simp add: sample_meeting_def met_env_def met2_def met3_def met4_def met5_def)

lemma met5_run: "met5 = snd (run_ops group_step sample_meeting sample_start)"
  by (simp add: sample_meeting_run)

lemma sample_meeting_legal: "legal_run group_guard group_step sample_meeting sample_start"
proof -
  have next0: "gs_next (group_login q 0 0 None s) = gs_next s" for q s
    by (simp add: group_login_def Player_LoadGroup_def)
  have row: "row_group None s = group_of p s" if "gs_next s = 0" for s p
    using that by (simp add: row_group_def group_of_def)
  have n: "gs_next (no_groups 1 1 Map.empty) = 0" by (simp add: no_groups_def)
  have pl: "plr_GUID ann = 5" "plr_GUID bob = 9" "plr_InWorld ann" "plr_InWorld bob"
    by (simp_all add: ann_def bob_def sample_player_def)
  have t1: "invite_target (in_world [bob, ann] sample_group_env) (packet_of [66, 0, 0, 0, 0, 0]) = Some bob" by code_simp
  show ?thesis unfolding sample_meeting_def using n pl t1 by (simp add: row next0)
qed

lemma met2_view: "view met2 = arrive 9 no_refs (arrive 5 no_refs (view (no_groups 1 1 Map.empty)))"
  by (rule gworld_eqI)
    (simp_all add: met2_def group_login_def Player_LoadGroup_def arrive_def no_refs_def rview_of_def PlayerRefs_new_def
      ann_def bob_def sample_player_def)

lemma legal_take: "legal_run ok step cs h \<Longrightarrow> legal_run ok step (take n cs) h"
  by (induction cs arbitrary: h n) (auto simp: take_Cons split: nat.split)

lemma met_inv: "ginv (view met2)" "ginv (view met3)" "ginv (view met4)"
  "here met_env met2" "here met_env met3" "here met_env met4"
proof -
  note l = legal_take [OF sample_meeting_legal]
  have r: "run_ops group_step (take 2 sample_meeting) sample_start = ([bob, ann], met2)"
    "run_ops group_step (take 3 sample_meeting) sample_start = ([bob, ann], met3)"
    "run_ops group_step (take 4 sample_meeting) sample_start = ([bob, ann], met4)"
    by (simp_all add: sample_meeting_def met_env_def met2_def met3_def met4_def)
  have h: "hist_inv ([bob, ann], met2)" "hist_inv ([bob, ann], met3)" "hist_inv ([bob, ann], met4)"
    using history_inv [OF l [of 2]] history_inv [OF l [of 3]] history_inv [OF l [of 4]] unfolding r by simp_all
  then show "ginv (view met2)" "ginv (view met3)" "ginv (view met4)" by (simp_all add: hist_inv_def)
  show "here met_env met2" "here met_env met3" "here met_env met4" unfolding met_env_def using in_world_here h by blast+
qed

lemma ann_bob [simp]: "plr_GUID ann = 5" "plr_GUID bob = 9"
  by (simp_all add: ann_def bob_def sample_player_def)

lemma met3_view:
  "view met3 = set_invite 0 9 (set_invite 0 5 ((view met2)\<lparr>gw_grp := (gw_grp (view met2))(0 := Some (view_new 5)), gw_next := 1\<rparr>))"
proof -
  have f: "free 5 (view met2)" "free 9 (view met2)" by (simp_all add: met2_view free_def arrive_def no_refs_def)
  then have g: "pr_group (refs met2 5) = None" "pr_group (refs met2 9) = None" "pr_groupInvite (refs met2 9) = None"
    by (simp_all add: free_view)
  have p: "in_string (packet_of [66, 0, 0, 0, 0, 0]) = Inr (''B'', (packet_of [66, 0, 0, 0, 0, 0])\<lparr>bb_rpos := 2\<rparr>)"
    "ge_normalizePlayerName met_env ''B'' = (True, ''B'')" "FindPlayerByName (ge_world met_env) ''B'' = Some bob"
    by code_simp+
  have p2: "in_u32 ((packet_of [66, 0, 0, 0, 0, 0])\<lparr>bb_rpos := 2\<rparr>) = Inr (0, (packet_of [66, 0, 0, 0, 0, 0])\<lparr>bb_rpos := 6\<rparr>)"
    by (simp add: packet_defs)
  have r: "invite_refused met_env ann bob met2 = None"
  proof -
    have "ge_CONFIG_ALLOW_GM_GROUP met_env" "ge_CONFIG_ALLOW_TWO_SIDE_INTERACTION_GROUP met_env" "ge_InstanceId met_env q = 0"
      "\<not> HasIgnore (GUID_LOPART 5) (GetSocial (ge_socials met_env) bob)" for q
      by code_simp+
    then show ?thesis by (simp add: invite_refused_def Let_def)
  qed
  have n: "gs_next met2 = 0" using met2_view by (metis view_sel(3) arrive_def gworld.select_convs(3) gworld.surjective gworld.update_convs(2) no_groups_def GroupState.select_convs(3))
  have "view met3 = view (snd (invite_new_group ann 9 met2))"
    using invite_new_group_view(1) [OF met_inv(1), of ann 9] f g
    by (simp add: met3_def HandleGroupInviteOpcode_def parse_def p p2 r invite_player_def normal_group_none Let_def case_prod_unfold)
  also have "\<dots> = set_invite 0 9 (set_invite 0 5 ((view met2)\<lparr>gw_grp := (gw_grp (view met2))(0 := Some (view_new 5)), gw_next := 1\<rparr>))"
    using invite_new_group_view(2) [OF met_inv(1), of ann 9] f n by simp
  finally show ?thesis .
qed

lemma met3_grp: "\<exists>x. gs_groups met3 0 = Some x \<and> m_memberSlots x = [] \<and> m_leaderGuid x = 5 \<and> set (m_invitees x) = {9, 5}"
proof -
  have "gw_grp (view met3) 0 = Some ((view_new 5)\<lparr>v_invs := {9, 5}\<rparr>)" by (simp add: met3_view set_invite_def view_new_def)
  then obtain x where x: "gs_groups met3 0 = Some x" "gview_of x = (view_new 5)\<lparr>v_invs := {9, 5}\<rparr>" by (rule view_grpE)
  have "v_slots (gview_of x) = []" "v_leader (gview_of x) = 5" "v_invs (gview_of x) = {9, 5}" unfolding x(2) by (simp_all add: view_new_def)
  with x(1) show ?thesis by simp
qed

lemma met3_refs: "pr_groupInvite (refs met3 9) = Some 0" "gs_players met3 9 \<noteq> None"
proof -
  have "gw_ply (view met3) 9 = Some (no_refs\<lparr>rv_invite := Some 0\<rparr>)" by (simp add: met3_view met2_view set_invite_def arrive_def)
  then obtain y where y: "gs_players met3 9 = Some y" "rview_of y = no_refs\<lparr>rv_invite := Some 0\<rparr>" by (rule view_plyE)
  have "rv_invite (rview_of y) = Some 0" unfolding y(2) by simp
  then show "pr_groupInvite (refs met3 9) = Some 0" "gs_players met3 9 \<noteq> None" using y(1) by simp_all
qed

lemma met4_grp: "\<exists>v. gw_grp (view met4) 0 = Some v \<and> v_slots v = [(5, 0), (9, 0)] \<and> v_leader v = 5"
  "\<exists>r. gw_ply (view met4) 5 = Some r \<and> rv_group r = Some 0"
proof -
  from met3_grp obtain x where x: "gs_groups met3 0 = Some x" and sel: "m_memberSlots x = []" "m_leaderGuid x = 5" "set (m_invitees x) = {9, 5}"
    by (elim exE conjE)
  obtain y where y: "gs_players met3 9 = Some y" and yi: "pr_groupInvite y = Some 0" using met3_refs by auto
  have p: "in_u32 (packet_of [0, 0, 0, 0]) = Inr (0, (packet_of [0, 0, 0, 0])\<lparr>bb_rpos := 4\<rparr>)"
    by (simp add: packet_defs)
  have "met4 = accept_invite met_env bob 0 met3"
    using x y yi by (simp add: met4_def HandleGroupAcceptOpcode_def parse_def p)
  then have "view met4 = view (snd (Group_AddMember met_env 0 9 (plr_Name bob)
    (AddGroup 0 (snd (Group_Create met_env 0 5 (m_leaderName x) (Group_RemoveInvite 0 5 (Group_RemoveInvite 0 9 met3)))))))"
    using accept_first [OF met_inv(2,5) x, of bob] sel by simp
  also obtain low where "\<dots> = enter 0 9 0 (enter 0 5 0 (drop_invite 0 5 (drop_invite 0 9
      (wg_upd 0 (\<lambda>v. v\<lparr>v_low := low\<rparr>) ((view met3)\<lparr>gw_reg := insert 0 (gw_reg (view met3))\<rparr>)))))"
    using create_view [OF met_inv(2,5) x _ y yi, where l = 5 and name = "plr_Name bob" and lname = "m_leaderName x"] sel by auto
  finally have v: "view met4 = enter 0 9 0 (enter 0 5 0 (drop_invite 0 5 (drop_invite 0 9
      (wg_upd 0 (\<lambda>v. v\<lparr>v_low := low\<rparr>) ((view met3)\<lparr>gw_reg := insert 0 (gw_reg (view met3))\<rparr>)))))" .
  show "\<exists>v. gw_grp (view met4) 0 = Some v \<and> v_slots v = [(5, 0), (9, 0)] \<and> v_leader v = 5"
    unfolding v by (simp add: met3_view enter_def drop_invite_def set_invite_def view_new_def)
  show "\<exists>r. gw_ply (view met4) 5 = Some r \<and> rv_group r = Some 0"
    unfolding v by (simp add: met3_view met2_view enter_def drop_invite_def set_invite_def arrive_def)
qed


text \<open>At the end there is a raid with two members in its first sub-group.\<close>

lemma met5_grp:
  "\<exists>x. gs_groups met5 0 = Some x \<and> map slot_view (m_memberSlots x) = [(5, 0), (9, 0)] \<and> Group_isRaidGroup x"
proof -
  from met4_grp(1) obtain v where v: "gw_grp (view met4) 0 = Some v" "v_slots v = [(5, 0), (9, 0)]" "v_leader v = 5" by blast
  from v(1) obtain x where x: "gs_groups met4 0 = Some x" "gview_of x = v" by (rule view_grpE)
  from met4_grp(2) obtain r where r: "gw_ply (view met4) 5 = Some r" "rv_group r = Some 0" by blast
  from r(1) obtain y where y: "gs_players met4 5 = Some y" "rview_of y = r" by (rule view_plyE)
  have yg: "pr_group y = Some 0" using r(2) y(2) by auto
  have sl: "map slot_view (m_memberSlots x) = [(5, 0), (9, 0)]" "m_leaderGuid x = 5" using v x(2) by auto
  have "length (m_memberSlots x) = 2" using arg_cong [OF sl(1), of length] by simp
  then have c: "\<not> Group_GetMembersCount x < 2" by (simp add: Group_GetMembersCount_def)
  have p: "in_bool (packet_of [1]) = Inr (True, (packet_of [1])\<lparr>bb_rpos := 1\<rparr>)" by (simp add: packet_defs)
  have e: "\<not> ge_InBattleground met_env 5" by (simp add: met_env_def in_world_def sample_group_env_def)
  have "view met5 = wg_upd 0 (\<lambda>v. v\<lparr>v_raid := True, v_counts := Some (init_counts (v_slots v))\<rparr>) (view met4)"
    using x y yg c e sl(2)
    by (simp add: met5_def HandleGroupRaidConvertOpcode_def parse_def p Group_IsLeader_def Let_def ConvertToRaid_view)
  then have "gw_grp (view met5) 0 = Some (v\<lparr>v_raid := True, v_counts := Some (init_counts (v_slots v))\<rparr>)" using v(1) by (simp del: view_sel)
  then obtain z where z: "gs_groups met5 0 = Some z" "gview_of z = v\<lparr>v_raid := True, v_counts := Some (init_counts (v_slots v))\<rparr>"
    by (rule view_grpE)
  have "v_slots (gview_of z) = [(5, 0), (9, 0)]" "v_raid (gview_of z)" unfolding z(2) using v(2) by simp_all
  with z(1) show ?thesis by auto
qed

end
