(* ===== verification/Group_Props.thy ===== *)
theory Group_Props
  imports Group_Sample
begin

text \<open>The properties of groups in histories.\<close>

lemma history_ginv:
  "legal_run group_guard group_step calls ([], no_groups lowgroup lowitem loots) \<Longrightarrow>
   ginv (view (snd (run_ops group_step calls ([], no_groups lowgroup lowitem loots))))"
  using history_inv by (simp add: hist_inv_def)

section \<open>Pointers and counters\<close>

text \<open>
  C2 (safety).  No dangling group pointer: whatever players do and in whatever order, as long as nobody invites himself and nobody
  is between two maps, no handler follows a pointer to a deleted group, the registry holds only live groups, and the
  group and the invitation of every player are live.
\<close>
theorem group_pointers_never_dangle:
  assumes "legal_run group_guard group_step calls ([], no_groups lowgroup lowitem loots)"
    and "s = snd (run_ops group_step calls ([], no_groups lowgroup lowitem loots))"
  shows "\<not> gs_uaf s \<and> (\<forall>g \<in> set (gs_registry s). gs_groups s g \<noteq> None) \<and>
    (\<forall>p y g. gs_players s p = Some y \<and> (pr_group y = Some g \<or> pr_groupInvite y = Some g) \<longrightarrow> gs_groups s g \<noteq> None)"
proof -
  have inv: "ginv (view s)" using history_ginv [OF assms(1)] assms(2) by simp
  have "gs_groups s g \<noteq> None" if "gs_players s p = Some y" "pr_group y = Some g \<or> pr_groupInvite y = Some g" for p y g
    using gbase_ply [OF ginv_base [OF inv], of p "rview_of y"] that by (auto simp: ply_ok_def)
  then show ?thesis using inv registry_alive [OF inv] by (auto simp: ginv_def gbase_def)
qed

theorem group_pointers_never_dangle_witness:
  "legal_run group_guard group_step sample_meeting sample_start \<and> \<not> gs_uaf met5 \<and> gs_groups met5 0 \<noteq> None"
  using sample_meeting_legal group_pointers_never_dangle [OF sample_meeting_legal met5_run] met5_grp by auto



section \<open>Members\<close>



text \<open>
  Why histories keep players in the world: a member who is removed while his object is between two maps keeps his pointer to the group
  and his sub-group, because \<open>_removeMember\<close> does not find him.
\<close>
lemma kick_between_maps_keeps_pointer:
  assumes "ge_GetPlayer E p = None"
  shows "gw_ply (view (snd (Group_removeMember E g p s))) q = gw_ply (view s) q"
proof -
  have upd: "gw_ply (view (upd_grp h f t)) q = gw_ply (view t) q" for h f t by (simp add: upd_grp_def split: option.split)
  have emit: "gw_ply (view (gs_emit es t)) q = gw_ply (view t) q" for es t by (simp add: gs_emit_def)
  have lead: "gw_ply (view (Group_setLeader E h j t)) q = gw_ply (view t) q" for h j t
    by (simp add: Group_setLeader_def Let_def upd emit del: view_sel split: option.split)
  have rolls: "gw_ply (view (Group_removeRolls E h j t)) q = gw_ply (view t) q" for h j t by (simp only: removeRolls_view)
  show ?thesis using assms by (simp add: Group_removeMember_def Let_def upd emit lead rolls del: view_sel split: option.split list.split)
qed



lemma find_subgroup_room:
  assumes "gok (gview_of x)" "m_subGroupsCounts x = Some c" "\<not> Group_IsFull x"
  shows "find_subgroup c \<noteq> None"
proof
  assume "find_subgroup c = None"
  then have ge: "5 \<le> unat (c ! i)" if "i < 8" for i
    using that by (auto simp: find_subgroup_def List.find_None_iff MAX_RAID_SUBGROUPS_def MAXRAIDSIZE_def MAXGROUPSIZE_def not_less
        dest!: spec [of _ i])
  have c: "\<And>i. i < 8 \<Longrightarrow> unat (c ! i) = occ i (v_slots (gview_of x))" "Group_isRaidGroup x"
    using assms(1,2) by (auto simp: gok_def)
  have "length (v_slots (gview_of x)) = (\<Sum>i<8. occ i (v_slots (gview_of x)))"
    using assms(1) by (intro length_occ) (auto simp: gok_def)
  moreover have "(\<Sum>i<(8 :: nat). 5) \<le> (\<Sum>i<8. occ i (v_slots (gview_of x)))"
    using ge c(1) by (intro sum_mono) (auto simp del: gview_sel)
  ultimately show False using assms(3) c(2) by (simp add: Group_IsFull_def MAXRAIDSIZE_def)
qed


lemma addMember_joins:
  assumes x: "gs_groups s g = Some x" "gok (gview_of x)" "\<not> Group_IsFull x" and p: "p \<noteq> 0" "ge_GetPlayer E p \<noteq> None"
    and y: "gs_players s p = Some y" "pr_group y = None" "pr_groupInvite y = None"
  shows "\<exists>n. view (snd (Group_addMember E g p name s)) = enter g p n (view s)"
proof -
  have bg: "\<not> m_bgGroup x" using x(2) by (simp add: gok_def)
  note add = addMemberTo_view(2) [OF x(1) bg x(3) p y]
  show ?thesis
  proof (cases "m_subGroupsCounts x")
    case None
    then show ?thesis using x(1) add by (auto simp: Group_addMember_def)
  next
    case (Some c)
    then obtain i where "find_subgroup c = Some i" using find_subgroup_room [OF x(2) Some x(3)] by auto
    then show ?thesis using x(1) add Some by (auto simp: Group_addMember_def)
  qed
qed

lemma accept_joins:
  assumes inv: "ginv (view s)" and E: "here E s" and p: "pr_groupInvite (refs s (plr_GUID me)) = Some g"
    and x: "gs_groups s g = Some x" "m_leaderGuid x \<noteq> plr_GUID me" "\<not> Group_IsFull x"
  shows "\<exists>n w. view (accept_invite E me g s) = enter g (plr_GUID me) n w \<and> gw_grp w g \<noteq> None \<and> free (plr_GUID me) w"
proof -
  let ?p = "plr_GUID me"
  obtain x' and y where x': "gs_groups s g = Some x'" and y: "gs_players s ?p = Some y" "pr_groupInvite y = Some g" "pr_group y = None"
    "?p \<in> v_invs (gview_of x')" and ok: "grp_ok (view s) g (gview_of x')"
    by (rule ginv_invite [OF inv p])
  have e: "x' = x" using x' x(1) by simp
  note cr = IsCreated_ginv [OF inv x(1)]
  show ?thesis
  proof (cases "m_memberSlots x = []")
    case True
    define W where "W low = enter g (m_leaderGuid x) 0 (drop_invite g (m_leaderGuid x) (drop_invite g ?p
      (wg_upd g (\<lambda>v. v\<lparr>v_low := low\<rparr>) ((view s)\<lparr>gw_reg := insert g (gw_reg (view s))\<rparr>))))" for low
    have "\<exists>low. view (accept_invite E me g s) = enter g ?p 0 (W low)"
      using create_view [OF inv E x(1) True y(1,2) _ x(2) refl, of "plr_Name me" "m_leaderName x"] accept_first [OF inv E x(1) True x(2)] y(4) e
      by (simp add: W_def)
    moreover have "gw_grp (W low) g \<noteq> None" "free ?p (W low)" for low
      using x y(1,3) by (auto simp: W_def enter_def drop_invite_def free_def)
    ultimately show ?thesis by blast
  next
    case False
    let ?s1 = "Group_RemoveInvite g ?p s"
    have p0: "?p \<noteq> 0" using gbase_ply [OF ginv_base [OF inv], of ?p "rview_of y"] y(1) by (simp add: ply_ok_def)
    have on: "ge_GetPlayer E ?p \<noteq> None" using E y(1) by (simp add: here_def)
    have y1: "gs_players ?s1 ?p = Some (y\<lparr>pr_groupInvite := None\<rparr>)" using y by (simp add: Group_RemoveInvite_def gs_players_upd_refs)
    obtain n where n: "view (snd (Group_addMember E g ?p (plr_Name me) ?s1)) = enter g ?p n (view ?s1)"
      using addMember_joins [OF RemoveInvite_grp [OF x(1)] _ _ p0 on y1, of "plr_Name me"] ok e x(3) y(3) by (auto simp: grp_ok_def)
    have "view (accept_invite E me g s) = enter g ?p n (drop_invite g ?p (view s))"
      using n x cr False RemoveInvite_grp [OF x(1), of ?p] AddMember_view [of E g ?p "plr_Name me" ?s1]
      by (simp add: accept_invite_def Let_def case_prod_unfold RemoveInvite_view)
    moreover have "gw_grp (drop_invite g ?p (view s)) g \<noteq> None" "free ?p (drop_invite g ?p (view s))"
      using x(1) y(1,3) by (auto simp: drop_invite_def free_def)
    ultimately show ?thesis by blast
  qed
qed

text \<open>
  C16 (liveness).  An invitation that is accepted while the group has room leads to membership: the player is listed, points
  to the group and has no invitation any more.
\<close>
theorem accepted_invitation_joins:
  assumes "legal_run group_guard group_step calls ([], no_groups lowgroup lowitem loots)"
    and "(ros, s) = run_ops group_step calls ([], no_groups lowgroup lowitem loots)"
    and "pr_groupInvite (refs s (plr_GUID me)) = Some g" "gs_groups s g = Some x" "m_leaderGuid x \<noteq> plr_GUID me" "\<not> Group_IsFull x"
    and "in_u32 d = Inr (u, d')" and "s' = HandleGroupAcceptOpcode (in_world ros E) me d s"
  shows "Group_IsMember (plr_GUID me) (grp s' g) \<and> pr_group (refs s' (plr_GUID me)) = Some g \<and> pr_groupInvite (refs s' (plr_GUID me)) = None"
proof -
  let ?p = "plr_GUID me"
  have h: "hist_inv (ros, s)" using history_inv [OF assms(1)] unfolding assms(2) [symmetric] .
  then have inv: "ginv (view s)" by (simp add: hist_inv_def)
  obtain n w where w: "view (accept_invite (in_world ros E) me g s) = enter g ?p n w" "gw_grp w g \<noteq> None" "free ?p w"
    using accept_joins [OF inv in_world_here [OF h] assms(3-6)] by blast
  have "view s' = enter g ?p n w" using assms(3,4,7,8) w(1) by (simp add: HandleGroupAcceptOpcode_def parse_def)
  moreover obtain v r where "gw_grp w g = Some v" and r: "gw_ply w ?p = Some r" "rv_invite r = None" using w(2,3) by (auto simp: free_def)
  ultimately have *: "map_option v_slots (gw_grp (view s') g) = Some (v_slots v @ [(?p, n)])"
    "gw_ply (view s') ?p = Some (r\<lparr>rv_group := Some g, rv_sub := n\<rparr>)" by (simp_all add: enter_def)
  from *(2) obtain z where z: "gs_players s' ?p = Some z" "rview_of z = r\<lparr>rv_group := Some g, rv_sub := n\<rparr>" by (rule view_plyE)
  have "rv_group (rview_of z) = Some g" "rv_invite (rview_of z) = None" unfolding z(2) using r(2) by simp_all
  then have "pr_group (refs s' ?p) = Some g" "pr_groupInvite (refs s' ?p) = None" using z(1) by simp_all
  moreover from *(1) obtain u where u: "gs_groups s' g = Some u" "v_slots (gview_of u) = v_slots v @ [(?p, n)]" by auto
  have "?p \<in> mems (gview_of u)" by (rule memsI [of _ n]) (simp add: u(2) del: gview_sel)
  then have "Group_IsMember ?p (grp s' g)" using u(1) by (simp add: IsMember_view)
  ultimately show ?thesis by blast
qed

theorem accepted_invitation_joins_witness:
  "Group_IsMember 9 (grp met4 0) \<and> pr_group (refs met4 9) = Some 0"
proof -
  have run: "([bob, ann], met3) = run_ops group_step (take 3 sample_meeting) sample_start"
    by (simp add: sample_meeting_def met_env_def met2_def met3_def)
  have inv: "pr_groupInvite (refs met3 (plr_GUID bob)) = Some 0" using met3_refs by simp
  have pk: "in_u32 (packet_of [0, 0, 0, 0]) = Inr (0, (packet_of [0, 0, 0, 0])\<lparr>bb_rpos := 4\<rparr>)" by (simp add: packet_defs)
  obtain x where x: "gs_groups met3 0 = Some x" "m_memberSlots x = []" "m_leaderGuid x = 5" using met3_grp by (elim exE conjE)
  have nf: "m_leaderGuid x \<noteq> plr_GUID bob" "\<not> Group_IsFull x" using x by (simp_all add: Group_IsFull_def MAXGROUPSIZE_def MAXRAIDSIZE_def)
  have "met4 = HandleGroupAcceptOpcode (in_world [bob, ann] sample_group_env) bob (packet_of [0, 0, 0, 0]) met3"
    by (simp add: met4_def met_env_def)
  from accepted_invitation_joins [OF legal_take [OF sample_meeting_legal] run inv x(1) nf pk this] show ?thesis by simp
qed

end
