(* ===== verification/Group_Roll_Props.thy ===== *)
theory Group_Roll_Props
  imports Group_Sample
begin

text \<open>Properties of loot rolls, and what goes wrong when a player invites himself.\<close>

section \<open>The winner of a roll\<close>

lemma roll_loop_best:
  "best = (bp, bn, bv) \<Longrightarrow> vs = filter (\<lambda>e. P (snd e)) votes \<Longrightarrow> (\<And>i. draw i = ucast (ge_urand E (gs_draws s + i) 1 100)) \<Longrightarrow>
    fst (roll_loop E P rl votes best s) = best \<and> (\<forall>j < length vs. draw j \<le> bn) \<or>
    (\<exists>i < length vs. fst (roll_loop E P rl votes best s) = (fst (vs ! i), draw i, snd (vs ! i)) \<and> bn < draw i \<and>
       (\<forall>j < length vs. draw j \<le> draw i) \<and> (\<forall>j < i. draw j < draw i))"
proof (induction votes arbitrary: best bp bn bv vs draw s)
  case Nil
  then show ?case by simp
next
  case (Cons e votes)
  obtain p v where e: "e = (p, v)" by (cases e)
  show ?case
  proof (cases "P v")
    case False
    then show ?thesis using Cons.IH [OF Cons.prems(1) refl Cons.prems(3)] Cons.prems e by simp
  next
    case True
    let ?vs = "filter (\<lambda>e. P (snd e)) votes" and ?s = "Group_SendLootRoll E 0 p (draw 0) (vote_value v) rl (s\<lparr>gs_draws := Suc (gs_draws s)\<rparr>)"
    have vs: "vs = e # ?vs" using Cons.prems(2) True e by simp
    have d: "gs_draws ?s = Suc (gs_draws s)" by (simp add: Group_SendLootRoll_def)
    have dr: "draw (Suc i) = ucast (ge_urand E (gs_draws ?s + i) 1 100)" for i using Cons.prems(3) [of "Suc i"] d by simp
    let ?b = "if bn < draw 0 then (p, draw 0, v) else (bp, bn, bv)"
    have step: "roll_loop E P rl (e # votes) best s = roll_loop E P rl votes ?b ?s"
      using True e Cons.prems(1) Cons.prems(3) [of 0] by (simp add: Let_def)
    have all: "(\<forall>j < length vs. Q j) \<longleftrightarrow> Q 0 \<and> (\<forall>j < length ?vs. Q (Suc j))" for Q
      unfolding vs by (auto simp: less_Suc_eq_0_disj)
    have ex: "(\<exists>i < length vs. Q i) \<longleftrightarrow> Q 0 \<or> (\<exists>i < length ?vs. Q (Suc i))" for Q
      unfolding vs by (auto simp: less_Suc_eq_0_disj)
    have lt: "(\<forall>j < Suc i. Q j) \<longleftrightarrow> Q 0 \<and> (\<forall>j < i. Q (Suc j))" for Q i by (auto simp: less_Suc_eq_0_disj)
    show ?thesis
    proof (cases "bn < draw 0")
      case True
      from Cons.IH [of "(p, draw 0, v)" p "draw 0" v ?vs "\<lambda>i. draw (Suc i)" ?s, OF refl refl dr] True
      show ?thesis unfolding step all ex lt unfolding vs using e Cons.prems(1) by (auto intro: less_imp_le less_trans)
    next
      case False
      from Cons.IH [of "(bp, bn, bv)" bp bn bv ?vs "\<lambda>i. draw (Suc i)" ?s, OF refl refl dr] False
      show ?thesis unfolding step all ex lt unfolding vs using e Cons.prems(1) by (auto simp: not_less intro: le_less_trans less_imp_le)
    qed
  qed
qed

text \<open>
  C27 (functional).  The winner of a roll: when random numbers from 1 to 100 are between 1 and 100, counting ends with a player who gave a vote of the
  wanted kind, the number he drew, which is the highest, and his vote; of equal numbers the first drawn wins.
\<close>
theorem roll_winner_has_highest_number:
  assumes "\<And>n. 1 \<le> ge_urand E n 1 100 \<and> ge_urand E n 1 100 \<le> 100"
    and "vs = filter (\<lambda>e. P (snd e)) votes" and "vs \<noteq> []"
    and "\<And>i. draw i = ucast (ge_urand E (gs_draws s + i) 1 100)"
  shows "\<exists>i < length vs. fst (roll_loop E P rl votes (first, 0, NOT_VALID) s) = (fst (vs ! i), draw i, snd (vs ! i)) \<and>
    (\<forall>j < length vs. draw j \<le> draw i) \<and> (\<forall>j < i. draw j < draw i)"
proof -
  have "0 < draw 0"
  proof -
    have "unat (ge_urand E (gs_draws s) 1 100) \<le> 100" "1 \<le> unat (ge_urand E (gs_draws s) 1 100)"
      using assms(1) [of "gs_draws s"] by (simp_all add: word_le_nat_alt)
    then have "unat (draw 0) = unat (ge_urand E (gs_draws s) 1 100)" unfolding assms(4) by (simp add: unsigned_ucast_eq unsigned_take_bit_eq take_bit_nat_eq_self)
    then show ?thesis using \<open>1 \<le> unat _\<close> by (simp add: word_less_nat_alt)
  qed
  with roll_loop_best [OF refl assms(2,4), where bn = 0 and bp = first and bv = NOT_VALID and rl = rl] assms(3) show ?thesis by auto
qed


text \<open>A roll with three voters: two need the item, one is greedy.\<close>

definition sample_roll :: Roll where
  "sample_roll = \<lparr>itemGUID = 77, itemid = 7, itemRandomPropId = 0, itemRandomSuffix = 0, itemCount = 1,
     playerVote = [(5, NEED), (9, GREED), (12, NEED)], totalPlayersRolling = 3, totalNeed = 2, totalGreed = 1, totalPass = 0,
     itemSlot = 0, rollVoteMask = 7, rl_loot = Some 3\<rparr>"

definition sample_rand :: "nat \<Rightarrow> uint32 \<Rightarrow> uint32 \<Rightarrow> uint32" where
  "sample_rand n a b = (if a = 1 \<and> b = 100 then (if n = 0 then 17 else 64) else a)"

theorem roll_winner_has_highest_number_witness:
  "fst (roll_loop (sample_group_env\<lparr>ge_urand := sample_rand\<rparr>) (\<lambda>v. v = NEED) sample_roll (playerVote sample_roll) (5, 0, NOT_VALID)
     (no_groups 1 1 Map.empty)) = (12, 64, NEED)"
proof -
  let ?E = "sample_group_env\<lparr>ge_urand := sample_rand\<rparr>" and ?s = "no_groups 1 1 Map.empty"
  have u: "1 \<le> ge_urand ?E n 1 100 \<and> ge_urand ?E n 1 100 \<le> 100" for n by (simp add: sample_rand_def)
  define vs where "vs = [(5 :: uint64, NEED), (12, NEED)]"
  have vs: "vs = filter (\<lambda>e. snd e = NEED) (playerVote sample_roll)" by (simp add: sample_roll_def vs_def)
  have "vs \<noteq> []" by (simp add: vs_def)
  from roll_winner_has_highest_number [OF u vs this refl, where s = ?s and rl = sample_roll and first = 5]
  obtain i where i: "i < length vs"
    "fst (roll_loop ?E (\<lambda>v. v = NEED) sample_roll (playerVote sample_roll) (5, 0, NOT_VALID) ?s) =
       (fst (vs ! i), ucast (ge_urand ?E (gs_draws ?s + i) 1 100), snd (vs ! i))"
    "\<forall>j < length vs. (ucast (ge_urand ?E (gs_draws ?s + j) 1 100) :: uint8) \<le> ucast (ge_urand ?E (gs_draws ?s + i) 1 100)"
    by blast
  have "i \<noteq> 0" using spec [OF i(3), of 1] by (auto simp: sample_rand_def no_groups_def vs_def split: if_splits)
  then have "i = 1" using i(1) by (simp add: vs_def)
  then show ?thesis using i(2) by (simp add: sample_rand_def no_groups_def vs_def)
qed

section \<open>The end of the rolls of a loot\<close>

text \<open>
  Counting one roll, apart from its place in \<open>RollId\<close>: whoever needs the item draws for it, else the greedy ones, and when all passed
  they are told so and the item is no longer blocked.  A roll whose loot is gone has nothing to count.
\<close>

definition count_roll :: "group_env \<Rightarrow> uint32 \<Rightarrow> Roll \<Rightarrow> GroupState \<Rightarrow> GroupState" where
  "count_roll E n r s =
     (case rl_loot r of
        None \<Rightarrow> s
      | Some l \<Rightarrow>
          if totalNeed r > 0 then count_need E r s
          else if totalGreed r > 0 then count_greed E r s
          else upd_item l (itemSlot r) (\<lambda>i. i\<lparr>is_blocked := False\<rparr>) (Group_SendLootAllPassed E n r s))"

text \<open>Counting does not look at the groups: it commutes with every change of them.\<close>

definition with_groups :: "(group_ptr \<Rightarrow> Group option) \<Rightarrow> GroupState \<Rightarrow> GroupState" where
  "with_groups G s = s\<lparr>gs_groups := G\<rparr>"

lemma with_groups_item:
  "gs_emit es (with_groups G s) = with_groups G (gs_emit es s)" "loot_item (with_groups G s) = loot_item s"
  "upd_item l i f (with_groups G s) = with_groups G (upd_item l i f s)" "unlooted_dec l (with_groups G s) = with_groups G (unlooted_dec l s)"
  "(with_groups G s)\<lparr>gs_loot_fault := b\<rparr> = with_groups G (s\<lparr>gs_loot_fault := b\<rparr>)"
  "(with_groups G s)\<lparr>gs_draws := k\<rparr> = with_groups G (s\<lparr>gs_draws := k\<rparr>)" "gs_draws (with_groups G s) = gs_draws s"
  by (auto simp: with_groups_def gs_emit_def loot_item_def upd_item_def unlooted_dec_def fun_eq_iff split: option.split)

lemma with_groups_sends:
  "Group_SendLootRoll E a b c d r (with_groups G s) = with_groups G (Group_SendLootRoll E a b c d r s)"
  "Group_SendLootRollWon E a b c d r (with_groups G s) = with_groups G (Group_SendLootRollWon E a b c d r s)"
  "Group_SendLootAllPassed E n r (with_groups G s) = with_groups G (Group_SendLootAllPassed E n r s)"
  by (simp_all add: Group_SendLootRoll_def Group_SendLootRollWon_def Group_SendLootAllPassed_def with_groups_item)

lemma with_groups_give:
  "give_item E p r (with_groups G s) = with_groups G (give_item E p r s)"
  "disenchant_item E p r (with_groups G s) = with_groups G (disenchant_item E p r s)"
  by (simp_all add: give_item_def disenchant_item_def Let_def with_groups_item split: option.split)

lemma with_groups_loop:
  "roll_loop E P r vs best (with_groups G s) = map_prod id (with_groups G) (roll_loop E P r vs best s)"
  by (induction E P r vs best s rule: roll_loop.induct) (simp_all add: Let_def with_groups_item with_groups_sends)

lemma loop_resultE:
  fixes x :: "(uint64 \<times> uint8 \<times> RollVote) \<times> GroupState"
  obtains p n v s where "x = ((p, n, v), s)"
  by (metis surj_pair)

lemma with_groups_need: "count_need E r (with_groups G s) = with_groups G (count_need E r s)"
proof (cases "playerVote r")
  case (Cons e vs)
  obtain p0 v0 where e: "e = (p0, v0)" by (cases e)
  obtain p n v s1 where l: "roll_loop E (\<lambda>v. v = NEED) r (e # vs) (p0, 0, NOT_VALID) s = ((p, n, v), s1)"
    by (rule loop_resultE)
  then have "roll_loop E (\<lambda>v. v = NEED) r (e # vs) (p0, 0, NOT_VALID) (with_groups G s) = ((p, n, v), with_groups G s1)"
    unfolding with_groups_loop by simp
  with l show ?thesis unfolding count_need_def Cons e Let_def by (cases "ge_GetPlayer E p") (simp_all add: with_groups_sends with_groups_item with_groups_give del: roll_loop.simps)
qed (simp add: count_need_def)

lemma with_groups_greed: "count_greed E r (with_groups G s) = with_groups G (count_greed E r s)"
proof (cases "playerVote r")
  case (Cons e vs)
  let ?P = "\<lambda>v. v = GREED \<or> v = DISENCHANT"
  obtain p0 v0 where e: "e = (p0, v0)" by (cases e)
  obtain p n v s1 where l: "roll_loop E ?P r (e # vs) (p0, 0, NOT_VALID) s = ((p, n, v), s1)"
    by (rule loop_resultE)
  then have "roll_loop E ?P r (e # vs) (p0, 0, NOT_VALID) (with_groups G s) = ((p, n, v), with_groups G s1)"
    unfolding with_groups_loop by simp
  with l show ?thesis unfolding count_greed_def Cons e Let_def by (cases "ge_GetPlayer E p") (simp_all add: with_groups_sends with_groups_item with_groups_give del: roll_loop.simps)
qed (simp add: count_greed_def)

lemma with_groups_count: "count_roll E n r (with_groups G s) = with_groups G (count_roll E n r s)"
  by (simp add: count_roll_def with_groups_item with_groups_sends with_groups_need with_groups_greed split: option.split)

lemma count_roll_groups: "gs_groups (count_roll E n r s) = gs_groups s"
  by (simp add: count_roll_def split: option.split)

text \<open>Only the list of rolls of one group is replaced.\<close>

definition with_rolls :: "group_ptr \<Rightarrow> Roll list \<Rightarrow> GroupState \<Rightarrow> GroupState" where
  "with_rolls g rs = upd_grp g (\<lambda>x. x\<lparr>RollId := rs\<rparr>)"

lemma count_with_rolls: "count_roll E n r (with_rolls g rs s) = with_rolls g rs (count_roll E n r s)"
proof (cases "gs_groups s g")
  case (Some x)
  then have w: "with_rolls g rs t = with_groups ((gs_groups s)(g := Some (x\<lparr>RollId := rs\<rparr>))) t" if "gs_groups t = gs_groups s" for t
    using that by (simp add: with_rolls_def upd_grp_def with_groups_def)
  show ?thesis by (simp add: w count_roll_groups with_groups_count)
qed (simp add: with_rolls_def upd_grp_def count_roll_groups)

lemma count_all_with_rolls: "fold (count_roll E n) qs (with_rolls g rs s) = with_rolls g rs (fold (count_roll E n) qs s)"
  by (induction qs arbitrary: s) (simp_all add: count_with_rolls)

lemma with_rolls_twice: "with_rolls g rs (with_rolls g qs s) = with_rolls g rs s"
  by (simp add: with_rolls_def upd_grp_def split: option.split)

lemma CountTheRoll_counts:
  "gs_groups s g = Some x \<Longrightarrow> Group_CountTheRoll E g i n s =
     with_rolls g (take i (RollId x) @ drop (Suc i) (RollId x)) (count_roll E n (RollId x ! i) s)"
  by (simp add: Group_CountTheRoll_def count_roll_def erase_roll_def with_rolls_def upd_grp_def Let_def roll_loot_def split: option.split)

lemma EndRoll_from_spec:
  "gs_groups s g = Some x \<Longrightarrow> (\<And>r. r \<in> set (take i (RollId x)) \<Longrightarrow> rl_loot r \<noteq> Some l) \<Longrightarrow>
   Group_EndRoll_from E g l i s = with_rolls g (filter (\<lambda>r. rl_loot r \<noteq> Some l) (RollId x))
     (fold (count_roll E (of_nat (length (m_memberSlots x)))) (filter (\<lambda>r. rl_loot r = Some l) (RollId x)) s)"
proof (induction E g l i s arbitrary: x rule: Group_EndRoll_from.induct)
  case (1 E g l i s)
  have gx: "grp s g = x" using 1 by simp
  let ?n = "of_nat (length (m_memberSlots x)) :: uint32"
  show ?case
  proof (cases "i < length (RollId x)")
    case False
    then have no: "\<forall>r \<in> set (RollId x). rl_loot r \<noteq> Some l" using 1(4) by auto
    then have "filter (\<lambda>r. rl_loot r \<noteq> Some l) (RollId x) = RollId x" "filter (\<lambda>r. rl_loot r = Some l) (RollId x) = []" by auto
    moreover have "with_rolls g (RollId x) s = s" using 1(3) by (simp add: with_rolls_def upd_grp_def fun_upd_idem)
    ultimately show ?thesis using gx False by (subst Group_EndRoll_from.simps) simp
  next
    case i: True
    show ?thesis
    proof (cases "rl_loot (RollId x ! i) = Some l")
      case True
      let ?s = "Group_CountTheRoll E g i ?n s" and ?rs = "take i (RollId x) @ drop (Suc i) (RollId x)"
      let ?x = "x\<lparr>RollId := ?rs\<rparr>"
      have g: "gs_groups ?s g = Some ?x" using 1(3) by (simp add: CountTheRoll_groups erase_roll_def gs_groups_upd_grp)
      have here: "filter (\<lambda>r. rl_loot r = Some l) (RollId x) = (RollId x ! i) # filter (\<lambda>r. rl_loot r = Some l) ?rs"
        "filter (\<lambda>r. rl_loot r \<noteq> Some l) (RollId x) = filter (\<lambda>r. rl_loot r \<noteq> Some l) ?rs"
        using True 1(4) by (subst id_take_nth_drop [OF i]; simp)+
      have "Group_EndRoll_from E g l i s = Group_EndRoll_from E g l 0 ?s" using gx i True by (subst Group_EndRoll_from.simps) simp
      also have "\<dots> = with_rolls g (filter (\<lambda>r. rl_loot r \<noteq> Some l) ?rs) (fold (count_roll E ?n) (filter (\<lambda>r. rl_loot r = Some l) ?rs) ?s)"
        using 1(1) [of ?x] gx i True g by simp
      also have "?s = with_rolls g ?rs (count_roll E ?n (RollId x ! i) s)" by (rule CountTheRoll_counts [OF 1(3)])
      finally show ?thesis by (simp only: count_all_with_rolls with_rolls_twice here fold_simps)
    next
      case False
      have "Group_EndRoll_from E g l i s = Group_EndRoll_from E g l (Suc i) s" using gx i False by (subst Group_EndRoll_from.simps) simp
      moreover have "rl_loot r \<noteq> Some l" if "r \<in> set (take (Suc i) (RollId x))" for r
        using that 1(4) False i by (auto simp: take_Suc_conv_app_nth)
      ultimately show ?thesis using 1(2) [of x] gx i False 1(3) by simp
    qed
  qed
qed

text \<open>
  C26 (liveness).  When the time for a loot is over every roll for it ends: \<open>EndRoll\<close> counts each of them exactly once, in the order of the list, with
  the number of members, and erases them, although counting erases from the list that is being walked; the rolls for other loot stay, in their
  order, and nothing else changes.
\<close>
theorem EndRoll_ends_every_roll:
  assumes "gs_groups s g = Some x"
  shows "Group_EndRoll E g l s = with_rolls g (filter (\<lambda>r. rl_loot r \<noteq> Some l) (RollId x))
      (fold (count_roll E (of_nat (length (m_memberSlots x)))) (filter (\<lambda>r. rl_loot r = Some l) (RollId x)) s) \<and>
    RollId (grp (Group_EndRoll E g l s) g) = filter (\<lambda>r. rl_loot r \<noteq> Some l) (RollId x)"
proof -
  have groups: "gs_groups (fold (count_roll E n) rs s) = gs_groups s" for n rs
    by (induction rs arbitrary: s) (simp_all add: count_roll_groups)
  show ?thesis using EndRoll_from_spec [OF assms, of 0] assms groups
    by (simp add: Group_EndRoll_def with_rolls_def grp_upd_grp)
qed

text \<open>A group with the roll of the sample, and one for other loot.\<close>

definition rolling :: GroupState where
  "rolling = (no_groups 1 1 [3 \<mapsto> \<lparr>lt_items = [\<lparr>li_itemid = 7, li_randomSuffix = 0, li_randomPropertyId = 0, li_allowedGUIDs = [],
       li_count = 1, is_looted = False, is_blocked = True, freeforall = False, is_underthreshold = False\<rparr>], unlootedCount = 1\<rparr>])
     \<lparr>gs_groups := [0 \<mapsto> Group_new\<lparr>RollId := [sample_roll, sample_roll\<lparr>itemGUID := 78, rl_loot := Some 4\<rparr>]\<rparr>]\<rparr>"


lemma rolling_grp:
  "gs_groups rolling 0 = Some (Group_new\<lparr>RollId := [sample_roll, sample_roll\<lparr>itemGUID := 78, rl_loot := Some 4\<rparr>]\<rparr>)"
  by (simp add: rolling_def)

theorem EndRoll_ends_every_roll_witness:
  "RollId (grp (Group_EndRoll sample_group_env 0 3 rolling) 0) = [sample_roll\<lparr>itemGUID := 78, rl_loot := Some 4\<rparr>] \<and>
   Group_EndRoll sample_group_env 0 3 rolling =
     with_rolls 0 [sample_roll\<lparr>itemGUID := 78, rl_loot := Some 4\<rparr>] (count_roll sample_group_env 0 sample_roll rolling)"
proof -
  let ?x = "Group_new\<lparr>RollId := [sample_roll, sample_roll\<lparr>itemGUID := 78, rl_loot := Some 4\<rparr>]\<rparr>"
  have "filter (\<lambda>r. rl_loot r \<noteq> Some 3) (RollId ?x) = [sample_roll\<lparr>itemGUID := 78, rl_loot := Some 4\<rparr>]"
    "filter (\<lambda>r. rl_loot r = Some 3) (RollId ?x) = [sample_roll]" "(of_nat (length (m_memberSlots ?x)) :: uint32) = 0"
    by (simp_all add: sample_roll_def Group_new_def)
  note rolls = this
  show ?thesis using EndRoll_ends_every_roll [OF rolling_grp, of sample_group_env 3, unfolded rolls, unfolded fold_simps]
    by (rule conj_commute [THEN iffD1])
qed

section \<open>Votes that are counted wrongly\<close>

lemma grp_upd_roll:
  "gs_groups s g = Some x \<Longrightarrow> gs_groups (upd_roll g i f s) g = Some (x\<lparr>RollId := (RollId x)[i := f (RollId x ! i)]\<rparr>)"
  by (simp add: upd_roll_def gs_groups_upd_grp)

lemma withdraw_fields [simp]: "itemGUID (withdraw_vote p r) = itemGUID r" "rl_loot (withdraw_vote p r) = rl_loot r"
  by (simp_all add: withdraw_vote_def Let_def split: option.split)

lemma withdraw_gone: "smap_find (playerVote (withdraw_vote p r)) p = None"
  by (auto simp: withdraw_vote_def Let_def find_erase split: option.split)

lemma GetRoll_update:
  assumes "itemGUID (f (RollId x ! i)) = itemGUID (RollId x ! i)" "rl_loot (f (RollId x ! i)) = rl_loot (RollId x ! i)"
  shows "Group_GetRoll guid (x\<lparr>RollId := (RollId x)[i := f (RollId x ! i)]\<rparr>) = Group_GetRoll guid x"
proof -
  have "itemGUID ((RollId x)[i := f (RollId x ! i)] ! j) = itemGUID (RollId x ! j)"
    "rl_loot ((RollId x)[i := f (RollId x ! i)] ! j) = rl_loot (RollId x ! j)" if "j < length (RollId x)" for j
    using assms that by (cases "j = i"; simp)+
  then show ?thesis unfolding Group_GetRoll_def by (intro find_cong) auto
qed

text \<open>
  A member who leaves is taken out of a roll, but the roll is not counted, even when everybody who is left has voted: his vote is erased before
  \<open>CountRollVote\<close> is asked to look, which then does nothing because he has no vote.  The roll waits for its timer.
\<close>
theorem leaving_never_completes_roll:
  assumes "gs_groups s g = Some x" "i < length (RollId x)" "smap_find (playerVote (RollId x ! i)) p \<noteq> None"
    and "Group_GetRoll (itemGUID (RollId x ! i)) x = Some i" and "all_voted (withdraw_vote p (RollId x ! i))"
  shows "RollId (grp (Group_removeRoll E g p i s) g) = (RollId x)[i := withdraw_vote p (RollId x ! i)]"
proof -
  let ?s = "upd_roll g i (withdraw_vote p) s" and ?x = "x\<lparr>RollId := (RollId x)[i := withdraw_vote p (RollId x ! i)]\<rparr>"
  have g: "gs_groups ?s g = Some ?x" by (rule grp_upd_roll [OF assms(1)])
  have "Group_GetRoll (itemGUID (RollId x ! i)) ?x = Some i" using GetRoll_update [of "withdraw_vote p" x i] assms(4) by simp
  then have "Group_CountRollVote E g p (itemGUID (RollId x ! i)) n c ?s = ?s" for n c
    using g assms(2) withdraw_gone [of p "RollId x ! i"] by (simp add: Group_CountRollVote_def)
  then show ?thesis using assms(1-3) g by (auto simp: Group_removeRoll_def Let_def)
qed

text \<open>The third voter has not voted and leaves; the two others have.\<close>

definition waiting_roll :: Roll where
  "waiting_roll = sample_roll\<lparr>playerVote := [(5, NEED), (9, GREED), (12, NOT_EMITED_YET)], totalNeed := 1\<rparr>"

definition waiting :: GroupState where
  "waiting = rolling\<lparr>gs_groups := [0 \<mapsto> Group_new\<lparr>RollId := [waiting_roll]\<rparr>]\<rparr>"

lemma waiting_facts:
  "gs_groups waiting 0 = Some (Group_new\<lparr>RollId := [waiting_roll]\<rparr>)"
  "Group_GetRoll 77 (Group_new\<lparr>RollId := [waiting_roll]\<rparr>) = Some 0" "itemGUID waiting_roll = 77"
  "smap_find (playerVote waiting_roll) 12 = Some NOT_EMITED_YET" "smap_find (playerVote waiting_roll) 5 = Some NEED"
  "all_voted (withdraw_vote 12 waiting_roll)"
  by (simp add: waiting_def, code_simp+)

theorem leaving_never_completes_roll_witness:
  "all_voted (withdraw_vote 12 waiting_roll) \<and>
   RollId (grp (Group_removeRoll sample_group_env 0 12 0 waiting) 0) = [withdraw_vote 12 waiting_roll]"
  using leaving_never_completes_roll [OF waiting_facts(1), of 0 12 sample_group_env] waiting_facts by simp

lemma cast_fields [simp]: "itemGUID (cast_vote p c r) = itemGUID r" "rl_loot (cast_vote p c r) = rl_loot r"
  by (simp_all add: cast_vote_def)

lemma send_vote_groups [simp]: "gs_groups (send_vote E p c r s) = gs_groups s"
  by (simp add: send_vote_def)

text \<open>
  A second vote counts again: when a player who already needs an item votes need once more, the total reaches the number of players
  rolling one vote too early and the roll is counted and erased, although another player has not voted yet.
\<close>
theorem second_vote_ends_roll_early:
  assumes "gs_groups s g = Some x" "Group_GetRoll guid x = Some i" "smap_find (playerVote (RollId x ! i)) p = Some NEED"
    and "smap_find (playerVote (RollId x ! i)) q = Some NOT_EMITED_YET"
    and "gs_loots s (roll_loot (RollId x ! i)) = Some lt" "lt_items lt \<noteq> []" "totalNeed (RollId x ! i) < 255"
    and "unat (totalPlayersRolling (RollId x ! i)) =
      Suc (unat (totalPass (RollId x ! i)) + unat (totalNeed (RollId x ! i)) + unat (totalGreed (RollId x ! i)))"
  shows "RollId (grp (Group_CountRollVote E g p guid n ROLL_NEED s) g) = take i (RollId x) @ drop (Suc i) (RollId x)"
proof -
  have i: "i < length (RollId x)" using assms(2) by (auto simp: Group_GetRoll_def List.find_Some_iff)
  have n: "ROLL_NEED \<noteq> ROLL_PASS" by (simp add: ROLL_NEED_def ROLL_PASS_def)
  have "unat (totalNeed (RollId x ! i)) < 255" using assms(7) by (simp add: word_less_nat_alt)
  then have "unat (totalNeed (RollId x ! i) + 1) = Suc (unat (totalNeed (RollId x ! i)))" by (simp add: unat_word_ariths)
  then have v: "all_voted (cast_vote p ROLL_NEED (RollId x ! i))" using assms(8) n by (simp add: all_voted_def cast_vote_def)
  let ?s = "upd_roll g i (cast_vote p ROLL_NEED) (send_vote E p ROLL_NEED (RollId x ! i) s)"
  have g: "gs_groups ?s g = Some (x\<lparr>RollId := (RollId x)[i := cast_vote p ROLL_NEED (RollId x ! i)]\<rparr>)"
    by (rule grp_upd_roll) (simp add: assms(1))
  have "Group_CountRollVote E g p guid n ROLL_NEED s = Group_CountTheRoll E g i n ?s"
    using assms(1-3,5,6) v by (simp add: Group_CountRollVote_def Let_def)
  moreover have "gs_groups (Group_CountTheRoll E g i n ?s) g = Some (x\<lparr>RollId := take i (RollId x) @ drop (Suc i) (RollId x)\<rparr>)"
    unfolding CountTheRoll_groups using g by (simp add: erase_roll_def gs_groups_upd_grp)
  ultimately show ?thesis by simp
qed

theorem second_vote_ends_roll_early_witness:
  "smap_find (playerVote waiting_roll) 12 = Some NOT_EMITED_YET \<and>
   RollId (grp (Group_CountRollVote sample_group_env 0 5 77 3 ROLL_NEED waiting) 0) = []"
proof -
  have "gs_loots waiting 3 = Some (the (gs_loots waiting 3))" "lt_items (the (gs_loots waiting 3)) \<noteq> []" "roll_loot waiting_roll = 3"
    "totalNeed waiting_roll < 255" "unat (totalPlayersRolling waiting_roll) =
      Suc (unat (totalPass waiting_roll) + unat (totalNeed waiting_roll) + unat (totalGreed waiting_roll))"
    by (simp_all add: waiting_def rolling_def no_groups_def waiting_roll_def sample_roll_def roll_loot_def)
  with second_vote_ends_roll_early [OF waiting_facts(1,2), of 5 12 "the (gs_loots waiting 3)" sample_group_env 3] waiting_facts
  show ?thesis by simp
qed


section \<open>Inviting oneself\<close>

text \<open>
  C33 (error).  Nothing stops a player from inviting himself.  The new group is deleted again because the second invitation of the same
  player fails, but the first is not withdrawn: the player keeps a pointer to the deleted group, and both declining and logging out follow it.
\<close>
theorem self_invite_leaves_dangling_pointer:
  assumes "gs_players s (plr_GUID me) = Some y" "pr_groupInvite y = None" "pr_group y = None" "pr_originalGroup y = None"
    and "in_string d = Inr (name0, d0)" "in_u32 d0 = Inr (u, d1)" "ge_normalizePlayerName E name0 = (True, name)"
    and "FindPlayerByName (ge_world E) name = Some me" "invite_refused E me me s = None"
    and "s' = HandleGroupInviteOpcode E me d s"
  shows "pr_groupInvite (refs s' (plr_GUID me)) = Some (gs_next s) \<and> gs_groups s' (gs_next s) = None \<and>
    gs_uaf (HandleGroupDeclineOpcode E me s') \<and> gs_uaf (group_logout E (plr_GUID me) sock s')"
proof -
  let ?p = "plr_GUID me" and ?g = "gs_next s"
  have r: "refs s ?p = y" using assms(1) by simp
  define s2 where "s2 = snd (Group_AddLeaderInvite ?g me (snd (Group_alloc s)))"
  have a: "Group_AddLeaderInvite ?g me (snd (Group_alloc s)) = (True, s2)"
    using r assms(2,3) by (simp add: s2_def Group_AddLeaderInvite_def Group_AddInvite_def normal_group_def Let_def)
  have y2: "gs_players s2 ?p = Some (y\<lparr>pr_groupInvite := Some ?g\<rparr>)"
    using assms(1-3) r by (simp add: s2_def Group_AddLeaderInvite_def Group_AddInvite_def normal_group_def Let_def
        Group_RemoveInvite_def gs_players_upd_refs)
  have m2: "m_memberMgr (grp s2 ?g) = []"
    using assms(2,3) r by (simp add: s2_def Group_AddLeaderInvite_def Group_AddInvite_def normal_group_def Let_def
        Group_RemoveInvite_def grp_upd_grp) (simp add: Group_alloc_def grp_def Group_new_def)
  have "invite_new_group me ?p s = (False, Group_delete ?g s2)"
    using a y2 by (simp add: invite_new_group_def case_prod_unfold Group_AddInvite_def)
  then have s': "s' = Group_delete ?g s2"
    using assms(2,3,5-10) r by (simp add: HandleGroupInviteOpcode_def parse_def invite_player_def normal_group_def Let_def)
  have d: "gs_groups s' ?g = None" "gs_players s' ?p = Some (y\<lparr>pr_groupInvite := Some ?g\<rparr>)"
    using m2 y2 by (simp_all add: s' Group_delete_def Let_def)
  define s3 where "s3 = Player_UninviteFromGroup E ?p s'"
  have uaf: "gs_uaf (Player_UninviteFromGroup E ?p (follow ?g s'))" "gs_uaf s3" "pr_group (refs s3 ?p) = None" "pr_originalGroup (refs s3 ?p) = None"
    using d assms(3,4) by (simp_all add: s3_def Player_UninviteFromGroup_def follow_def refs_def Let_def Group_RemoveInvite_def
        upd_grp_def upd_refs_def grp_def Group_new_def Group_GetMembersCount_def Group_IsCreated_def Group_RemoveAllInvites_def Group_delete_def)
  have "gs_uaf (HandleGroupDeclineOpcode E me s')"
    using d uaf(1) by (simp add: HandleGroupDeclineOpcode_def Let_def split: option.split)
  moreover have "gs_uaf (group_logout E ?p sock s')"
    using uaf unfolding group_logout_def s3_def [symmetric] by (simp add: Let_def ref_unlink_def ref_target_def)
  ultimately show ?thesis using d by simp
qed

theorem self_invite_leaves_dangling_pointer_witness:
  "gs_uaf (HandleGroupDeclineOpcode met_env ann (HandleGroupInviteOpcode met_env ann (packet_of [65, 0, 0, 0, 0, 0]) met2))"
proof -
  have "gw_ply (view met2) 5 = Some no_refs" by (simp add: met2_view arrive_def)
  then obtain y where y: "gs_players met2 5 = Some y" "rview_of y = no_refs" by (rule view_plyE)
  have "rv_invite (rview_of y) = None" "rv_group (rview_of y) = None" "rv_orig (rview_of y) = None" unfolding y(2) by (simp_all add: no_refs_def)
  then have yf: "gs_players met2 (plr_GUID ann) = Some y" "pr_groupInvite y = None" "pr_group y = None" "pr_originalGroup y = None"
    using y(1) by simp_all
  have p: "in_string (packet_of [65, 0, 0, 0, 0, 0]) = Inr (''A'', (packet_of [65, 0, 0, 0, 0, 0])\<lparr>bb_rpos := 2\<rparr>)"
    "ge_normalizePlayerName met_env ''A'' = (True, ''A'')" "FindPlayerByName (ge_world met_env) ''A'' = Some ann" by code_simp+
  have p2: "in_u32 ((packet_of [65, 0, 0, 0, 0, 0])\<lparr>bb_rpos := 2\<rparr>) = Inr (0, (packet_of [65, 0, 0, 0, 0, 0])\<lparr>bb_rpos := 6\<rparr>)"
    by (simp add: packet_defs)
  have "ge_CONFIG_ALLOW_GM_GROUP met_env" "ge_CONFIG_ALLOW_TWO_SIDE_INTERACTION_GROUP met_env" "ge_InstanceId met_env q = 0"
    "\<not> HasIgnore (GUID_LOPART 5) (GetSocial (ge_socials met_env) ann)" for q
    by code_simp+
  then have r: "invite_refused met_env ann ann met2 = None" by (simp add: invite_refused_def Let_def)
  from self_invite_leaves_dangling_pointer [OF yf p(1) p2 p(2,3) r refl] show ?thesis by blast
qed

end
