(* ===== verification/Hash_Map.thy ===== *)
theory Hash_Map
  imports Std_Map "HOL-Library.Multiset"
begin

text \<open>
  \<open>UNORDERED_MAP\<close>, the hash map of the C++ library, as the list of its entries in iteration order.  The language does not fix that
  order: \<open>place ks k\<close>, a parameter, orders the key \<open>k\<close> of a map with the keys \<open>ks\<close>, so that an insertion may
  reorder all entries.  The laws are those of the ordered map.
\<close>

type_synonym ('k, 'v) hmap = "('k \<times> 'v) list"

definition hmap_find :: "('k, 'v) hmap \<Rightarrow> 'k \<Rightarrow> 'v option" where
  "hmap_find m k = map_of m k"

text \<open>A change of the element that a pointer found by \<open>find\<close> points to.\<close>

definition hmap_update :: "'k \<Rightarrow> ('v \<Rightarrow> 'v) \<Rightarrow> ('k, 'v) hmap \<Rightarrow> ('k, 'v) hmap" where
  "hmap_update k f m = map (\<lambda>(j, v). (j, if j = k then f v else v)) m"

definition hmap_put :: "('k list \<Rightarrow> 'k \<Rightarrow> nat) \<Rightarrow> 'k \<Rightarrow> 'v \<Rightarrow> ('k, 'v) hmap \<Rightarrow> ('k, 'v) hmap" where
  "hmap_put place k v m =
     (if k \<in> fst ` set m then hmap_update k (\<lambda>_. v) m
      else sort_key (\<lambda>e. place (map fst m @ [k]) (fst e)) (m @ [(k, v)]))"

definition hmap_erase :: "'k \<Rightarrow> ('k, 'v) hmap \<Rightarrow> ('k, 'v) hmap" where
  "hmap_erase k m = filter (\<lambda>e. fst e \<noteq> k) m"

definition hmap_ok :: "('k, 'v) hmap \<Rightarrow> bool" where
  "hmap_ok m \<longleftrightarrow> distinct (map fst m)"

lemma hmap_ok_Nil [simp]: "hmap_ok []"
  by (simp add: hmap_ok_def)

lemma hmap_find_Nil [simp]: "hmap_find [] k = None"
  by (simp add: hmap_find_def)

lemma hmap_find_None: "hmap_find m k = None \<longleftrightarrow> k \<notin> fst ` set m"
  by (simp add: hmap_find_def map_of_eq_None_iff)

lemma hmap_find_iff: "hmap_ok m \<Longrightarrow> hmap_find m k = Some v \<longleftrightarrow> (k, v) \<in> set m"
  by (simp add: hmap_find_def hmap_ok_def)

lemma hmap_findD: "hmap_find m k = Some v \<Longrightarrow> (k, v) \<in> set m"
  by (simp add: hmap_find_def map_of_SomeD)

lemma hmap_ok_erase [smap_simps]: "hmap_ok m \<Longrightarrow> hmap_ok (hmap_erase k m)"
  by (simp add: hmap_ok_def hmap_erase_def distinct_map inj_on_def)

lemma hmap_find_erase [smap_simps]: "hmap_find (hmap_erase k m) j = (if j = k then None else hmap_find m j)"
  by (induction m) (auto simp: hmap_find_def hmap_erase_def)

lemma hmap_keys_update [simp]: "map fst (hmap_update k f m) = map fst m"
  by (simp add: hmap_update_def case_prod_unfold comp_def)

lemma hmap_ok_update [smap_simps]: "hmap_ok (hmap_update k f m) \<longleftrightarrow> hmap_ok m"
  by (simp add: hmap_ok_def)

lemma hmap_find_update [smap_simps]:
  "hmap_find (hmap_update k f m) j = (if j = k then map_option f (hmap_find m j) else hmap_find m j)"
  by (induction m) (auto simp: hmap_find_def hmap_update_def)

lemma hmap_length_update [simp]: "length (hmap_update k f m) = length m"
  by (simp add: hmap_update_def)

lemma hmap_update_Nil [simp]: "hmap_update k f m = [] \<longleftrightarrow> m = []"
  by (simp add: hmap_update_def)

lemma set_put_new: "k \<notin> fst ` set m \<Longrightarrow> set (hmap_put place k v m) = insert (k, v) (set m)"
  by (simp add: hmap_put_def)

lemma hmap_length_put: "length (hmap_put place k v m) = (if k \<in> fst ` set m then length m else Suc (length m))"
  by (simp add: hmap_put_def)

lemma distinct_keys_sort: "distinct (map fst (sort_key f m)) \<longleftrightarrow> distinct (map fst m)"
proof -
  have "mset (map fst (sort_key f m)) = mset (map fst m)" by simp
  then show ?thesis by (rule mset_eq_imp_distinct_iff)
qed

lemma hmap_ok_put [smap_simps]: "hmap_ok m \<Longrightarrow> hmap_ok (hmap_put place k v m)"
  by (auto simp: hmap_put_def hmap_ok_update) (auto simp: hmap_ok_def distinct_keys_sort)

lemma hmap_find_put [smap_simps]:
  assumes "hmap_ok m"
  shows "hmap_find (hmap_put place k v m) j = (if j = k then Some v else hmap_find m j)"
proof (cases "k \<in> fst ` set m")
  case True
  then have "hmap_find m k \<noteq> None" by (simp add: hmap_find_None)
  with True show ?thesis by (auto simp: hmap_put_def hmap_find_update)
next
  case False
  have "hmap_find (hmap_put place k v m) j = Some w \<longleftrightarrow> (if j = k then Some v else hmap_find m j) = Some w" for w
    using set_put_new [OF False, of place v] False
    by (auto simp: hmap_find_iff hmap_ok_put assms image_iff)
  then show ?thesis by (metis option.exhaust)
qed

text \<open>The hash map is an implementation of the interface that clients of maps rely on.\<close>

interpretation hash: map_store hmap_find "hmap_put place" hmap_erase hmap_ok for place
  by unfold_locales (simp_all add: smap_simps)

end
