(* ===== verification/Guild_State.thy ===== *)
theory Guild_State
  imports Game_World Hash_Map
begin

text \<open>
  Guilds (\<^verbatim>\<open>src/server/game/Guilds/Guild.cpp\<close> and \<^verbatim>\<open>.h\<close>): members, ranks, bank tabs, event logs, and the methods of these parts.
  A guild object is named by its identifier; \<open>gd_guilds\<close> has the objects, \<open>gd_store\<close> the keys of \<open>GuildMgr::GuildStore\<close> in iteration
  order.  Players in the world are \<open>gd_online\<close>, the \<open>Player\<close> record with the fields that guilds use.  Packets, prepared
  statements, script hooks and calls to spells and reputation are appended to \<open>gd_trace\<close>.
\<close>

section \<open>Constants\<close>

definition HIGHGUID_GUILD :: uint64 where "HIGHGUID_GUILD = 0x1FF6"

definition GUILD_BANK_MAX_TABS :: uint8 where "GUILD_BANK_MAX_TABS = 8"
definition GUILD_BANK_MAX_SLOTS :: uint8 where "GUILD_BANK_MAX_SLOTS = 98"
definition GUILD_BANK_MONEY_LOGS_TAB :: uint8 where "GUILD_BANK_MONEY_LOGS_TAB = 100"
definition GUILD_RANKS_MIN_COUNT :: uint8 where "GUILD_RANKS_MIN_COUNT = 3"
definition GUILD_RANKS_MAX_COUNT :: uint8 where "GUILD_RANKS_MAX_COUNT = 10"
definition GUILD_RANK_NONE :: uint8 where "GUILD_RANK_NONE = 0xFF"
definition GUILD_WITHDRAW_MONEY_UNLIMITED :: uint32 where "GUILD_WITHDRAW_MONEY_UNLIMITED = 0xFFFFFFFF"
definition GUILD_WITHDRAW_SLOT_UNLIMITED :: uint32 where "GUILD_WITHDRAW_SLOT_UNLIMITED = 0xFFFFFFFF"
definition GUILD_EVENT_LOG_GUID_UNDEFINED :: uint32 where "GUILD_EVENT_LOG_GUID_UNDEFINED = 0xFFFFFFFF"
definition MAX_GUILD_BANK_TAB_TEXT_LEN :: nat where "MAX_GUILD_BANK_TAB_TEXT_LEN = 500"

definition GUILD_MEMBER_FLAG_OFFLINE :: uint8 where "GUILD_MEMBER_FLAG_OFFLINE = 0"
definition GUILD_MEMBER_FLAG_ONLINE :: uint8 where "GUILD_MEMBER_FLAG_ONLINE = 1"

definition GR_GUILDMASTER :: uint8 where "GR_GUILDMASTER = 0"
definition GR_OFFICER :: uint8 where "GR_OFFICER = 1"

definition GR_RIGHT_EMPTY :: uint32 where "GR_RIGHT_EMPTY = 0x40"
definition GR_RIGHT_GCHATLISTEN :: uint32 where "GR_RIGHT_GCHATLISTEN = GR_RIGHT_EMPTY OR 0x1"
definition GR_RIGHT_GCHATSPEAK :: uint32 where "GR_RIGHT_GCHATSPEAK = GR_RIGHT_EMPTY OR 0x2"
definition GR_RIGHT_OFFCHATLISTEN :: uint32 where "GR_RIGHT_OFFCHATLISTEN = GR_RIGHT_EMPTY OR 0x4"
definition GR_RIGHT_OFFCHATSPEAK :: uint32 where "GR_RIGHT_OFFCHATSPEAK = GR_RIGHT_EMPTY OR 0x8"
definition GR_RIGHT_INVITE :: uint32 where "GR_RIGHT_INVITE = GR_RIGHT_EMPTY OR 0x10"
definition GR_RIGHT_REMOVE :: uint32 where "GR_RIGHT_REMOVE = GR_RIGHT_EMPTY OR 0x20"
definition GR_RIGHT_PROMOTE :: uint32 where "GR_RIGHT_PROMOTE = GR_RIGHT_EMPTY OR 0x80"
definition GR_RIGHT_DEMOTE :: uint32 where "GR_RIGHT_DEMOTE = GR_RIGHT_EMPTY OR 0x100"
definition GR_RIGHT_SETMOTD :: uint32 where "GR_RIGHT_SETMOTD = GR_RIGHT_EMPTY OR 0x1000"
definition GR_RIGHT_EPNOTE :: uint32 where "GR_RIGHT_EPNOTE = GR_RIGHT_EMPTY OR 0x2000"
definition GR_RIGHT_EOFFNOTE :: uint32 where "GR_RIGHT_EOFFNOTE = GR_RIGHT_EMPTY OR 0x8000"
definition GR_RIGHT_MODIFY_GUILD_INFO :: uint32 where "GR_RIGHT_MODIFY_GUILD_INFO = GR_RIGHT_EMPTY OR 0x10000"
definition GR_RIGHT_WITHDRAW_REPAIR :: uint32 where "GR_RIGHT_WITHDRAW_REPAIR = 0x40000"
definition GR_RIGHT_WITHDRAW_GOLD :: uint32 where "GR_RIGHT_WITHDRAW_GOLD = 0x80000"
definition GR_RIGHT_ALL :: uint32 where "GR_RIGHT_ALL = 0x1FFFBF"

definition GUILD_BANK_RIGHT_VIEW_TAB :: uint8 where "GUILD_BANK_RIGHT_VIEW_TAB = 1"
definition GUILD_BANK_RIGHT_PUT_ITEM :: uint8 where "GUILD_BANK_RIGHT_PUT_ITEM = 2"
definition GUILD_BANK_RIGHT_DEPOSIT_ITEM :: uint8 where
  "GUILD_BANK_RIGHT_DEPOSIT_ITEM = GUILD_BANK_RIGHT_VIEW_TAB OR GUILD_BANK_RIGHT_PUT_ITEM"
definition GUILD_BANK_RIGHT_FULL :: uint8 where "GUILD_BANK_RIGHT_FULL = 0xFF"

definition CLASS_WARRIOR :: uint8 where "CLASS_WARRIOR = 1"
definition MAX_CLASSES :: uint8 where "MAX_CLASSES = 12"

datatype GuildEventLogTypes =
    GUILD_EVENT_LOG_INVITE_PLAYER | GUILD_EVENT_LOG_JOIN_GUILD | GUILD_EVENT_LOG_PROMOTE_PLAYER
  | GUILD_EVENT_LOG_DEMOTE_PLAYER | GUILD_EVENT_LOG_UNINVITE_PLAYER | GUILD_EVENT_LOG_LEAVE_GUILD

fun event_value :: "GuildEventLogTypes \<Rightarrow> uint8" where
  "event_value GUILD_EVENT_LOG_INVITE_PLAYER = 1"
| "event_value GUILD_EVENT_LOG_JOIN_GUILD = 2"
| "event_value GUILD_EVENT_LOG_PROMOTE_PLAYER = 3"
| "event_value GUILD_EVENT_LOG_DEMOTE_PLAYER = 4"
| "event_value GUILD_EVENT_LOG_UNINVITE_PLAYER = 5"
| "event_value GUILD_EVENT_LOG_LEAVE_GUILD = 6"

text \<open>The types of bank events are kept as their numbers: a row of the table may have any.\<close>

definition GUILD_BANK_LOG_DEPOSIT_ITEM :: uint8 where "GUILD_BANK_LOG_DEPOSIT_ITEM = 1"
definition GUILD_BANK_LOG_WITHDRAW_ITEM :: uint8 where "GUILD_BANK_LOG_WITHDRAW_ITEM = 2"
definition GUILD_BANK_LOG_MOVE_ITEM :: uint8 where "GUILD_BANK_LOG_MOVE_ITEM = 3"
definition GUILD_BANK_LOG_DEPOSIT_MONEY :: uint8 where "GUILD_BANK_LOG_DEPOSIT_MONEY = 4"
definition GUILD_BANK_LOG_WITHDRAW_MONEY :: uint8 where "GUILD_BANK_LOG_WITHDRAW_MONEY = 5"
definition GUILD_BANK_LOG_REPAIR_MONEY :: uint8 where "GUILD_BANK_LOG_REPAIR_MONEY = 6"
definition GUILD_BANK_LOG_MOVE_ITEM2 :: uint8 where "GUILD_BANK_LOG_MOVE_ITEM2 = 7"

section \<open>Data\<close>

record RemainingValue =
  rem_value :: uint32
  rem_resetTime :: uint32

record Profession =
  prof_skillID :: uint32
  prof_rank :: uint32
  prof_level :: uint32

record GuildMember =
  gm_guid :: uint64
  gm_name :: string
  gm_zoneId :: uint32
  gm_level :: uint8
  gm_class :: uint8
  gm_flags :: uint8
  gm_logoutTime :: uint64
  gm_accountId :: uint32
  gm_rankId :: uint8
  gm_publicNote :: string
  gm_officerNote :: string
  gm_bankRemaining :: "RemainingValue list"                     \<comment> \<open>one per tab, then the money\<close>
  gm_achievementPoints :: uint32
  gm_professions :: "Profession list"

record GuildBankRightsAndSlots =
  rs_rights :: uint8
  rs_slots :: uint32

record RankInfo =
  rk_rankId :: uint8
  rk_name :: string
  rk_rights :: uint32
  rk_bankMoneyPerDay :: uint32
  rk_tabs :: "GuildBankRightsAndSlots list"

text \<open>What bank tabs read and write of an item; the enchantments are those of the slots that have one, with their numbers.\<close>

record BankItem =
  it_guid :: uint32
  it_entry :: uint32
  it_randomPropertyId :: uint32
  it_suffixFactor :: uint32
  it_count :: uint32
  it_charges :: uint8
  it_enchantments :: "(uint8 \<times> uint32) list"
  it_maxStack :: uint32
  it_soulBound :: bool

record BankTab =
  bt_tabId :: uint8
  bt_name :: string
  bt_icon :: string
  bt_text :: string
  bt_items :: "BankItem option list"

record EventLogEntry =
  el_guid :: uint32
  el_timestamp :: uint64
  el_eventType :: uint8
  el_playerGuid1 :: uint32
  el_playerGuid2 :: uint32
  el_newRank :: uint8

record BankEventLogEntry =
  be_guid :: uint32
  be_timestamp :: uint64
  be_eventType :: uint8
  be_bankTabId :: uint8
  be_playerGuid :: uint32
  be_itemOrMoney :: uint32
  be_itemStackCount :: uint16
  be_destTabId :: uint8

record 'e LogHolder =
  lh_log :: "'e list"
  lh_maxRecords :: uint32
  lh_nextGUID :: uint32

record EmblemInfo =
  em_style :: uint32
  em_color :: uint32
  em_borderStyle :: uint32
  em_borderColor :: uint32
  em_backgroundColor :: uint32

record GuildNews =
  gnw_type :: uint32
  gnw_timestamp :: uint64
  gnw_value1 :: uint32
  gnw_value2 :: uint32
  gnw_source_guid :: uint64
  gnw_flags :: uint32

record Guild =
  gl_id :: uint32
  gl_name :: string
  gl_leaderGuid :: uint64
  gl_motd :: string
  gl_info :: string
  gl_createdDate :: uint64
  gl_level :: uint8
  gl_xp :: uint64
  gl_nextLevelXP :: uint64
  gl_today_xp :: uint64
  gl_xp_cap :: uint64
  gl_emblemInfo :: EmblemInfo
  gl_accountsNumber :: uint32
  gl_bankMoney :: uint64
  gl_ranks :: "RankInfo list"
  gl_members :: "(uint32, GuildMember) hmap"
  gl_bankTabs :: "BankTab list"
  gl_news :: "GuildNews list"
  gl_lastXPSave :: uint32
  gl_eventLog :: "EventLogEntry LogHolder"
  gl_bankEventLog :: "BankEventLogEntry LogHolder list"         \<comment> \<open>one per tab, then the money\<close>

text \<open>A player object: the base record with rank, invitation and purse.  \<open>plr_GuildId\<close> is \<open>m_guildId\<close>.\<close>

record GuildPlayer = Player +
  plr_Rank :: uint8
  plr_GuildIdInvited :: uint32
  plr_Money :: uint32

text \<open>Statements, by the table they work on, with the names of the source.\<close>

datatype guild_log_sql =
    CHAR_DEL_GUILD_EVENTLOG uint32 uint32
  | CHAR_ADD_GUILD_EVENTLOG uint32 EventLogEntry
  | CHAR_DEL_GUILD_EVENTLOGS uint32
  | CHAR_DEL_GUILD_BANK_EVENTLOG uint32 uint32 uint8
  | CHAR_ADD_GUILD_BANK_EVENTLOG uint32 BankEventLogEntry
  | CHAR_DEL_GUILD_BANK_EVENTLOGS uint32

datatype guild_rank_sql =
    CHAR_ADD_GUILD_RANK uint32 uint8 string uint32
  | CHAR_SET_GUILD_RANK_NAME string uint8 uint32
  | CHAR_SET_GUILD_RANK_RIGHTS uint32 uint8 uint32
  | CHAR_SET_GUILD_RANK_BANK_MONEY uint32 uint8 uint32
  | CHAR_DEL_GUILD_RANKS uint32
  | CHAR_DEL_GUILD_LOWEST_RANK uint32 uint8                         \<comment> \<open>deletes the rows with \<open>rid >= ?\<close>\<close>
  | UPDATE_GUILD_RANK_RID uint32 uint32 uint32                      \<comment> \<open>new number, old number, guild\<close>

datatype guild_right_sql =
    CHAR_DEL_GUILD_BANK_RIGHT uint32 uint8 uint8
  | CHAR_ADD_GUILD_BANK_RIGHT uint32 uint8 uint8 uint8 uint32
  | CHAR_ADD_GUILD_BANK_RIGHT_DEFAULT uint32 uint8 uint8
  | CHAR_DEL_GUILD_BANK_RIGHTS uint32
  | CHAR_DEL_GUILD_BANK_RIGHTS_FOR_RANK uint32 uint8
  | UPDATE_GUILD_BANK_RIGHT_RID uint32 uint32 uint32

datatype guild_tab_sql =
    CHAR_ADD_GUILD_BANK_TAB uint32 uint8
  | CHAR_DEL_GUILD_BANK_TAB uint32 uint8
  | CHAR_DEL_GUILD_BANK_TABS uint32
  | CHAR_SET_GUILD_BANK_TAB_INFO string string uint32 uint8
  | CHAR_SET_GUILD_BANK_TAB_TEXT string uint32 uint8
  | CHAR_DEL_GUILD_BANK_ITEM uint32 uint8 uint8
  | CHAR_ADD_GUILD_BANK_ITEM uint32 uint8 uint8 uint32
  | CHAR_DEL_GUILD_BANK_ITEMS uint32

text \<open>
  The statements for single tabs are numbered by the tab, their first argument.  The database layer prepares them for the tabs 0 to 5; what the
  code executes for the tabs 6 and 7 is the statement that comes next there, which changes no rank and no note either.
\<close>

datatype guild_member_sql =
    CHAR_ADD_GUILD_MEMBER uint32 uint32 uint8 string string "Profession list"
  | CHAR_DEL_GUILD_MEMBER uint32
  | CHAR_DEL_GUILD_MEMBERS uint32
  | CHAR_SET_GUILD_MEMBER_PNOTE string uint32
  | CHAR_SET_GUILD_MEMBER_OFFNOTE string uint32
  | CHAR_SET_GUILD_MEMBER_RANK uint8 uint32
  | CHAR_SET_GUILD_MEMBER_BANK_REM_MONEY uint32 uint32 uint32
  | CHAR_SET_GUILD_MEMBER_BANK_REM_SLOTS uint8 uint32 uint32 uint32
  | CHAR_SET_GUILD_MEMBER_BANK_TIME_MONEY uint32 uint32 uint32 uint32
  | CHAR_SET_GUILD_MEMBER_BANK_TIME_REM_SLOTS uint8 uint32 uint32 uint32 uint32
  | CHAR_RESET_GUILD_RANK_BANK_RESET_TIME uint32 uint8
  | CHAR_RESET_GUILD_RANK_BANK_TIME uint8 uint32 uint8

datatype guild_sql =
    CHAR_ADD_GUILD uint32 string uint32 string string uint64 EmblemInfo uint64 uint64 uint64 uint64 uint32
  | CHAR_DEL_GUILD uint32
  | CHAR_SET_GUILD_MOTD string uint32
  | CHAR_SET_GUILD_INFO string uint32
  | CHAR_SET_GUILD_LEADER uint32 uint32
  | CHAR_SET_GUILD_EMBLEM_INFO EmblemInfo uint32
  | CHAR_SET_GUILD_BANK_MONEY uint64 uint32
  | CHAR_GUILD_SAVE_XP uint64 uint64 uint64 uint32 uint32
  | CHAR_ADD_GUILD_NEWS uint32 uint32 uint8 uint32 uint32 uint8 uint64

datatype guild_hook =
    OnGuildCreate uint64 string
  | OnGuildDisband
  | OnGuildAddMember "uint64 option" uint8
  | OnGuildRemoveMember "uint64 option" bool bool
  | OnGuildMOTDChanged string
  | OnGuildInfoChanged string
  | OnGuildMemberDepositMoney uint64 uint32
  | OnGuildMemberWitdrawMoney uint64 uint32 bool
  | OnGuildEvent uint8 uint32 uint32 uint8
  | OnGuildBankEvent uint8 uint8 uint32 uint32 uint16 uint8
  | OnGuildItemMove uint64 BankItem uint8 uint8 uint8 uint8

datatype guild_player_call =
    SaveGoldToDB uint32
  | LearnSpell uint32
  | RemoveSpell uint32
  | SetPlayerReputation uint32 int
  | RemovePetitionsAndSigns
  | SetGuildLevelField uint8
  | OnPlayerMoneyChanged int
  | SendTooMuchGold
  | SendPlayerMoneyNotify int
  | SendItemError uint8 BankItem
  | GmCommandLog
  | RemoveFeignDeath

datatype guild_event =
    GuildPacket uint64 packet
  | GuildSql guild_sql
  | LogSql guild_log_sql
  | RankSql guild_rank_sql
  | RightSql guild_right_sql
  | TabSql guild_tab_sql
  | MemberSql guild_member_sql
  | ItemSaveToDB BankItem
  | ItemDeleteFromDB BankItem
  | GuildHook uint32 guild_hook
  | PlayerCall uint64 guild_player_call
  | GuildLogError
  | GuildOutOfRange uint32                                          \<comment> \<open>an access behind the end of \<open>m_ranks\<close>\<close>
  | GuildPacketError bb_error
  | GuildMemberFreed uint32                                         \<comment> \<open>a \<open>Member\<close> is deleted whose pointer stays in \<open>m_members\<close>\<close>

record GuildState =
  gd_guilds :: "uint32 \<Rightarrow> Guild option"
  gd_store :: "uint32 list"
  gd_online :: "GuildPlayer list"
  gd_nextGuildId :: uint32
  gd_nextItemGuid :: uint32
  gd_trace :: "guild_event list"

text \<open>
  The environment: clocks, the order of the hash maps, social lists, what the code reads of players, of the character table and of data
  stores, texts, floating-point values, and configuration.  \<open>gn_lootShare p d\<close> is what goes to the guild when a player who
  is looting gets \<open>d\<close> copper.
\<close>

record guild_env =
  gn_time :: uint64
  gn_mstime :: uint32
  gn_place :: "uint32 list \<Rightarrow> uint32 \<Rightarrow> nat"
  gn_storePlace :: "uint32 list \<Rightarrow> uint32 \<Rightarrow> nat"
  gn_socials :: SocialMap
  gn_accountId :: "uint64 \<Rightarrow> uint32"
  gn_achievementPoints :: "uint64 \<Rightarrow> uint32"
  gn_professionSpells :: "uint64 \<Rightarrow> uint32 list"
  gn_spellSkill :: "uint32 \<Rightarrow> uint32"
  gn_SkillValue :: "uint64 \<Rightarrow> uint32 \<Rightarrow> uint32"
  gn_SpellRank :: "uint32 \<Rightarrow> uint32"
  gn_GuildIdFromDB :: "uint64 \<Rightarrow> uint32"
  gn_charData :: "uint32 \<Rightarrow> (string \<times> uint8 \<times> uint8 \<times> uint32 \<times> uint32) option"
  gn_ZoneIdFromDB :: "uint64 \<Rightarrow> uint32"
  gn_TeamByGUID :: "uint64 \<Rightarrow> uint32"
  gn_XPForGuildLevel :: "uint8 \<Rightarrow> uint64"
  gn_perks :: "nat \<Rightarrow> uint32 option"
  gn_perkRows :: nat
  gn_rankNames :: "uint8 \<Rightarrow> string list"
  gn_floatDays :: "uint64 \<Rightarrow> uint32"
  gn_timeBitFields :: "uint64 \<Rightarrow> uint32"
  gn_utf8truncate :: "string \<Rightarrow> nat \<Rightarrow> string"
  gn_normalizePlayerName :: "string \<Rightarrow> bool \<times> string"
  gn_lootShare :: "uint64 \<Rightarrow> int \<Rightarrow> uint64 option"
  gn_atGuildBank :: "uint64 \<Rightarrow> uint64 \<Rightarrow> bool"
  gn_atTabardVendor :: "uint64 \<Rightarrow> uint64 \<Rightarrow> bool"
  gn_locale :: "uint64 \<Rightarrow> uint8"
  gn_feigning :: "uint64 \<Rightarrow> bool"
  gn_guildRewards :: "(uint64 \<times> uint32 \<times> uint32 \<times> uint32) list"      \<comment> \<open>price, achievement, standing, item\<close>
  gn_CONFIG_ALLOW_TWO_SIDE_INTERACTION_GUILD :: bool
  gn_CONFIG_GUILD_EVENT_LOG_COUNT :: uint32
  gn_CONFIG_GUILD_BANK_EVENT_LOG_COUNT :: uint32
  gn_CONFIG_GUILD_ADVANCEMENT_ENABLED :: bool
  gn_CONFIG_GUILD_ADVANCEMENT_MAX_LEVEL :: uint32
  gn_CONFIG_GM_LOG_TRADE :: bool
  gn_AllowMultipleGuildMaster :: bool

end
