(* ===== verification/Guild_Parts.thy ===== *)
theory Guild_Parts
  imports Guild_State
begin

text \<open>
  The parts of a guild and their methods: event logs, ranks, bank tabs, members, and the queries of \<open>Guild\<close> over them.  A
  method that executes statements returns them with the new object.
\<close>

section \<open>Event logs\<close>

text \<open>A limit of 0 makes the source divide by zero and take the front of an empty list.\<close>

definition LogHolder_new :: "uint32 \<Rightarrow> 'e LogHolder" where
  "LogHolder_new maxRecords = \<lparr>lh_log = [], lh_maxRecords = maxRecords, lh_nextGUID = GUILD_EVENT_LOG_GUID_UNDEFINED\<rparr>"

definition LogHolder_CanInsert :: "'e LogHolder \<Rightarrow> bool" where
  "LogHolder_CanInsert h \<longleftrightarrow> length (lh_log h) < unat (lh_maxRecords h)"

definition LogHolder_LoadEvent :: "('e \<Rightarrow> uint32) \<Rightarrow> 'e \<Rightarrow> 'e LogHolder \<Rightarrow> 'e LogHolder" where
  "LogHolder_LoadEvent GetGUID entry h =
     h\<lparr>lh_nextGUID := (if lh_nextGUID h = GUILD_EVENT_LOG_GUID_UNDEFINED then GetGUID entry else lh_nextGUID h),
       lh_log := entry # lh_log h\<rparr>"

definition LogHolder_AddEvent :: "'e \<Rightarrow> 'e LogHolder \<Rightarrow> 'e LogHolder" where
  "LogHolder_AddEvent entry h =
     h\<lparr>lh_log := (if length (lh_log h) \<ge> unat (lh_maxRecords h) then tl (lh_log h) else lh_log h) @ [entry]\<rparr>"

definition LogHolder_GetNextGUID :: "'e LogHolder \<Rightarrow> uint32 \<times> 'e LogHolder" where
  "LogHolder_GetNextGUID h =
     (let g = (if lh_nextGUID h = GUILD_EVENT_LOG_GUID_UNDEFINED then 0 else (lh_nextGUID h + 1) mod lh_maxRecords h)
      in (g, h\<lparr>lh_nextGUID := g\<rparr>))"

definition LogHolder_WritePacket :: "('e \<Rightarrow> field list) \<Rightarrow> 'e LogHolder \<Rightarrow> field list" where
  "LogHolder_WritePacket WritePacket h = U8 (of_nat (length (lh_log h))) # concat (map WritePacket (lh_log h))"

definition EventLogEntry_SaveToDB :: "uint32 \<Rightarrow> EventLogEntry \<Rightarrow> guild_event list" where
  "EventLogEntry_SaveToDB guildId e =
     [LogSql (CHAR_DEL_GUILD_EVENTLOG guildId (el_guid e)), LogSql (CHAR_ADD_GUILD_EVENTLOG guildId e)]"

definition EventLogEntry_WritePacket :: "guild_env \<Rightarrow> EventLogEntry \<Rightarrow> field list" where
  "EventLogEntry_WritePacket E e =
     [U8 (el_eventType e), U64 (MAKE_NEW_GUID (ucast (el_playerGuid1 e)) 0 HIGHGUID_PLAYER)] @
     (if el_eventType e \<noteq> event_value GUILD_EVENT_LOG_JOIN_GUILD \<and> el_eventType e \<noteq> event_value GUILD_EVENT_LOG_LEAVE_GUILD
      then [U64 (MAKE_NEW_GUID (ucast (el_playerGuid2 e)) 0 HIGHGUID_PLAYER)] else []) @
     (if el_eventType e = event_value GUILD_EVENT_LOG_PROMOTE_PLAYER \<or> el_eventType e = event_value GUILD_EVENT_LOG_DEMOTE_PLAYER
      then [U8 (el_newRank e)] else []) @
     [U32 (ucast (gn_time E - el_timestamp e))]"

definition BankEventLogEntry_IsMoneyEvent :: "uint8 \<Rightarrow> bool" where
  "BankEventLogEntry_IsMoneyEvent eventType \<longleftrightarrow>
     eventType = GUILD_BANK_LOG_DEPOSIT_MONEY \<or> eventType = GUILD_BANK_LOG_WITHDRAW_MONEY \<or> eventType = GUILD_BANK_LOG_REPAIR_MONEY"

definition BankEventLogEntry_SaveToDB :: "uint32 \<Rightarrow> BankEventLogEntry \<Rightarrow> guild_event list" where
  "BankEventLogEntry_SaveToDB guildId e =
     [LogSql (CHAR_DEL_GUILD_BANK_EVENTLOG guildId (be_guid e) (be_bankTabId e)), LogSql (CHAR_ADD_GUILD_BANK_EVENTLOG guildId e)]"

definition BankEventLogEntry_WritePacket :: "guild_env \<Rightarrow> BankEventLogEntry \<Rightarrow> field list" where
  "BankEventLogEntry_WritePacket E e =
     [U8 (be_eventType e), U64 (MAKE_NEW_GUID (ucast (be_playerGuid e)) 0 HIGHGUID_PLAYER)] @
     (if be_eventType e < GUILD_BANK_LOG_DEPOSIT_MONEY
      then [U32 (be_itemOrMoney e), U32 (ucast (be_itemStackCount e))] @
           (if be_eventType e = GUILD_BANK_LOG_MOVE_ITEM \<or> be_eventType e = GUILD_BANK_LOG_MOVE_ITEM2 then [U8 (be_destTabId e)] else [])
      else [U64 (ucast (be_itemOrMoney e))]) @
     [U32 (ucast (gn_time E - be_timestamp e))]"

section \<open>Ranks\<close>

definition rs_none :: GuildBankRightsAndSlots where "rs_none = \<lparr>rs_rights = 0, rs_slots = 0\<rparr>"

definition SetGuildMasterValues :: "GuildBankRightsAndSlots \<Rightarrow> GuildBankRightsAndSlots" where
  "SetGuildMasterValues rs = rs\<lparr>rs_rights := GUILD_BANK_RIGHT_FULL, rs_slots := GUILD_WITHDRAW_SLOT_UNLIMITED\<rparr>"

definition RankInfo_new :: "uint8 \<Rightarrow> string \<Rightarrow> uint32 \<Rightarrow> uint32 \<Rightarrow> RankInfo" where
  "RankInfo_new rankId name rights money =
     \<lparr>rk_rankId = rankId, rk_name = name, rk_rights = rights, rk_bankMoneyPerDay = money,
      rk_tabs = replicate (unat GUILD_BANK_MAX_TABS) rs_none\<rparr>"

definition RankInfo_LoadFromDB :: "uint8 \<Rightarrow> string \<Rightarrow> uint32 \<Rightarrow> uint32 \<Rightarrow> RankInfo" where
  "RankInfo_LoadFromDB rankId name rights money =
     RankInfo_new rankId name (if rankId = GR_GUILDMASTER then rights OR GR_RIGHT_ALL else rights) money"

definition RankInfo_SaveToDB :: "uint32 \<Rightarrow> RankInfo \<Rightarrow> guild_event list" where
  "RankInfo_SaveToDB guildId r = [RankSql (CHAR_ADD_GUILD_RANK guildId (rk_rankId r) (rk_name r) (rk_rights r))]"

definition RankInfo_WritePacket :: "RankInfo \<Rightarrow> field list" where
  "RankInfo_WritePacket r =
     [Str (rk_name r), U32 (rk_rights r)] @ map (\<lambda>t. U32 (ucast (rs_rights t))) (rk_tabs r) @
     map (\<lambda>t. U32 (rs_slots t)) (rk_tabs r) @ [U32 (rk_bankMoneyPerDay r)]"

definition RankInfo_SetName :: "uint32 \<Rightarrow> string \<Rightarrow> RankInfo \<Rightarrow> RankInfo \<times> guild_event list" where
  "RankInfo_SetName guildId name r =
     (if rk_name r = name then (r, [])
      else (r\<lparr>rk_name := name\<rparr>, [RankSql (CHAR_SET_GUILD_RANK_NAME name (rk_rankId r) guildId)]))"

definition RankInfo_SetRights :: "uint32 \<Rightarrow> uint32 \<Rightarrow> RankInfo \<Rightarrow> RankInfo \<times> guild_event list" where
  "RankInfo_SetRights guildId rights0 r =
     (let rights = (if rk_rankId r = GR_GUILDMASTER then GR_RIGHT_ALL else rights0) in
      if rk_rights r = rights then (r, [])
      else (r\<lparr>rk_rights := rights\<rparr>, [RankSql (CHAR_SET_GUILD_RANK_RIGHTS rights (rk_rankId r) guildId)]))"

definition RankInfo_SetBankMoneyPerDay :: "uint32 \<Rightarrow> uint32 \<Rightarrow> RankInfo \<Rightarrow> RankInfo \<times> guild_event list" where
  "RankInfo_SetBankMoneyPerDay guildId money0 r =
     (let money = (if rk_rankId r = GR_GUILDMASTER then GUILD_WITHDRAW_MONEY_UNLIMITED else money0) in
      if rk_bankMoneyPerDay r = money then (r, [])
      else (r\<lparr>rk_bankMoneyPerDay := money\<rparr>,
            [RankSql (CHAR_SET_GUILD_RANK_BANK_MONEY money (rk_rankId r) guildId),
             MemberSql (CHAR_RESET_GUILD_RANK_BANK_RESET_TIME guildId (rk_rankId r))]))"

text \<open>The callers pass the number of a purchased tab, which is below \<open>GUILD_BANK_MAX_TABS\<close>.\<close>

definition RankInfo_SetBankTabSlotsAndRights ::
  "uint32 \<Rightarrow> uint8 \<Rightarrow> GuildBankRightsAndSlots \<Rightarrow> bool \<Rightarrow> RankInfo \<Rightarrow> RankInfo \<times> guild_event list" where
  "RankInfo_SetBankTabSlotsAndRights guildId tabId rs0 saveToDB r =
     (let rs = (if rk_rankId r = GR_GUILDMASTER then SetGuildMasterValues rs0 else rs0) in
      if rk_tabs r ! unat tabId = rs then (r, [])
      else (r\<lparr>rk_tabs := (rk_tabs r)[unat tabId := rs]\<rparr>,
            if saveToDB then
              [RightSql (CHAR_DEL_GUILD_BANK_RIGHT guildId tabId (rk_rankId r)),
               RightSql (CHAR_ADD_GUILD_BANK_RIGHT guildId tabId (rk_rankId r) (rs_rights rs) (rs_slots rs)),
               MemberSql (CHAR_RESET_GUILD_RANK_BANK_TIME tabId guildId (rk_rankId r))]
            else []))"

definition RankInfo_GetBankMoneyPerDay :: "RankInfo \<Rightarrow> uint32" where
  "RankInfo_GetBankMoneyPerDay r =
     (if rk_rankId r = GR_GUILDMASTER then GUILD_WITHDRAW_MONEY_UNLIMITED else rk_bankMoneyPerDay r)"

definition RankInfo_GetBankTabRights :: "uint8 \<Rightarrow> RankInfo \<Rightarrow> uint8" where
  "RankInfo_GetBankTabRights tabId r = (if tabId < GUILD_BANK_MAX_TABS then rs_rights (rk_tabs r ! unat tabId) else 0)"

definition RankInfo_GetBankTabSlotsPerDay :: "uint8 \<Rightarrow> RankInfo \<Rightarrow> uint32" where
  "RankInfo_GetBankTabSlotsPerDay tabId r =
     (if tabId < GUILD_BANK_MAX_TABS
      then if rk_rankId r = GR_GUILDMASTER then GUILD_WITHDRAW_SLOT_UNLIMITED else rs_slots (rk_tabs r ! unat tabId)
      else 0)"

section \<open>Bank tabs\<close>

definition BankTab_new :: "uint8 \<Rightarrow> BankTab" where
  "BankTab_new tabId =
     \<lparr>bt_tabId = tabId, bt_name = [], bt_icon = [], bt_text = [], bt_items = replicate (unat GUILD_BANK_MAX_SLOTS) None\<rparr>"

definition BankTab_GetItem :: "uint8 \<Rightarrow> BankTab \<Rightarrow> BankItem option" where
  "BankTab_GetItem slotId t = (if slotId < GUILD_BANK_MAX_SLOTS then bt_items t ! unat slotId else None)"

definition BankTab_SetInfo :: "uint32 \<Rightarrow> string \<Rightarrow> string \<Rightarrow> BankTab \<Rightarrow> BankTab \<times> guild_event list" where
  "BankTab_SetInfo guildId name icon t =
     (if bt_name t = name \<and> bt_icon t = icon then (t, [])
      else (t\<lparr>bt_name := name, bt_icon := icon\<rparr>, [TabSql (CHAR_SET_GUILD_BANK_TAB_INFO name icon guildId (bt_tabId t))]))"

definition BankTab_SetText :: "guild_env \<Rightarrow> uint32 \<Rightarrow> string \<Rightarrow> BankTab \<Rightarrow> BankTab \<times> guild_event list" where
  "BankTab_SetText E guildId text t =
     (if bt_text t = text then (t, [])
      else
        let txt = gn_utf8truncate E text MAX_GUILD_BANK_TAB_TEXT_LEN
        in (t\<lparr>bt_text := txt\<rparr>, [TabSql (CHAR_SET_GUILD_BANK_TAB_TEXT txt guildId (bt_tabId t))]))"

definition BankTab_SetItem :: "uint32 \<Rightarrow> uint8 \<Rightarrow> BankItem option \<Rightarrow> BankTab \<Rightarrow> bool \<times> BankTab \<times> guild_event list" where
  "BankTab_SetItem guildId slotId pItem t =
     (if slotId \<ge> GUILD_BANK_MAX_SLOTS then (False, t, [])
      else (True, t\<lparr>bt_items := (bt_items t)[unat slotId := pItem]\<rparr>,
            TabSql (CHAR_DEL_GUILD_BANK_ITEM guildId (bt_tabId t) slotId) #
            (case pItem of
               None \<Rightarrow> []
             | Some item \<Rightarrow> [TabSql (CHAR_ADD_GUILD_BANK_ITEM guildId (bt_tabId t) slotId (it_guid item)), ItemSaveToDB item])))"

definition BankTab_WriteSlotPacket :: "uint8 \<Rightarrow> BankTab \<Rightarrow> field list" where
  "BankTab_WriteSlotPacket slotId t =
     (case BankTab_GetItem slotId t of
        None \<Rightarrow> [U8 slotId, U32 0]
      | Some item \<Rightarrow>
          [U8 slotId, U32 (it_entry item)] @
          (if it_entry item = 0 then []
           else
             [U32 0, U32 (it_randomPropertyId item)] @
             (if it_randomPropertyId item \<noteq> 0 then [U32 (it_suffixFactor item)] else []) @
             [U32 (it_count item), U32 0, U8 (it_charges item), U32 0, U32 0,
              U8 (of_nat (length (it_enchantments item)))] @
             concat (map (\<lambda>(i, enchId). [U8 i, U32 enchId]) (it_enchantments item))))"

definition slot_ids :: "uint8 list" where
  "slot_ids = map of_nat [0..<unat GUILD_BANK_MAX_SLOTS]"

definition BankTab_WritePacket :: "BankTab \<Rightarrow> field list" where
  "BankTab_WritePacket t = U8 GUILD_BANK_MAX_SLOTS # concat (map (\<lambda>slotId. BankTab_WriteSlotPacket slotId t) slot_ids)"

definition BankTab_WriteInfoPacket :: "BankTab \<Rightarrow> field list" where
  "BankTab_WriteInfoPacket t = [Str (bt_name t), Str (bt_icon t)]"

section \<open>Emblems\<close>

definition EmblemInfo_new :: EmblemInfo where
  "EmblemInfo_new = \<lparr>em_style = 0, em_color = 0, em_borderStyle = 0, em_borderColor = 0, em_backgroundColor = 0\<rparr>"

definition EmblemInfo_WritePacket :: "EmblemInfo \<Rightarrow> field list" where
  "EmblemInfo_WritePacket e =
     [U32 (em_style e), U32 (em_color e), U32 (em_borderStyle e), U32 (em_borderColor e), U32 (em_backgroundColor e)]"

section \<open>The guild object and the state\<close>

definition Guild_new :: Guild where
  "Guild_new =
     \<lparr>gl_id = 0, gl_name = [], gl_leaderGuid = 0, gl_motd = [], gl_info = [], gl_createdDate = 0, gl_level = 0, gl_xp = 0,
      gl_nextLevelXP = 0, gl_today_xp = 0, gl_xp_cap = 0, gl_emblemInfo = EmblemInfo_new, gl_accountsNumber = 0, gl_bankMoney = 0,
      gl_ranks = [], gl_members = [], gl_bankTabs = [], gl_news = [], gl_lastXPSave = 0,
      gl_eventLog = LogHolder_new 0, gl_bankEventLog = []\<rparr>"

definition gld :: "GuildState \<Rightarrow> uint32 \<Rightarrow> Guild" where
  "gld s g = (case gd_guilds s g of None \<Rightarrow> Guild_new | Some x \<Rightarrow> x)"

definition upd_gld :: "uint32 \<Rightarrow> (Guild \<Rightarrow> Guild) \<Rightarrow> GuildState \<Rightarrow> GuildState" where
  "upd_gld g f s = (case gd_guilds s g of None \<Rightarrow> s | Some x \<Rightarrow> s\<lparr>gd_guilds := (gd_guilds s)(g := Some (f x))\<rparr>)"

definition gd_emit :: "guild_event list \<Rightarrow> GuildState \<Rightarrow> GuildState" where
  "gd_emit es s = s\<lparr>gd_trace := gd_trace s @ es\<rparr>"

text \<open>A change of a guild that also executes statements.\<close>

definition gld_do :: "uint32 \<Rightarrow> (Guild \<Rightarrow> Guild \<times> guild_event list) \<Rightarrow> GuildState \<Rightarrow> GuildState" where
  "gld_do g f s = gd_emit (snd (f (gld s g))) (upd_gld g (\<lambda>x. fst (f x)) s)"

definition gd_FindPlayer :: "uint64 \<Rightarrow> GuildState \<Rightarrow> GuildPlayer option" where
  "gd_FindPlayer guid s =
     (case find (\<lambda>p. plr_GUID p = guid) (gd_online s) of
        None \<Rightarrow> None | Some p \<Rightarrow> if plr_InWorld p then Some p else None)"

definition gd_FindPlayerByName :: "string \<Rightarrow> GuildState \<Rightarrow> GuildPlayer option" where
  "gd_FindPlayerByName name s = find (\<lambda>p. plr_InWorld p \<and> plr_Name p = name) (gd_online s)"

definition upd_plr :: "uint64 \<Rightarrow> (GuildPlayer \<Rightarrow> GuildPlayer) \<Rightarrow> GuildState \<Rightarrow> GuildState" where
  "upd_plr guid f s = s\<lparr>gd_online := map (\<lambda>p. if plr_GUID p = guid then f p else p) (gd_online s)\<rparr>"

definition GuildPlayer_new :: GuildPlayer where
  "GuildPlayer_new = Player.extend (sample_player 0 []) \<lparr>plr_Rank = 0, plr_GuildIdInvited = 0, plr_Money = 0\<rparr>"

text \<open>The player of a session.\<close>

definition plr :: "GuildState \<Rightarrow> uint64 \<Rightarrow> GuildPlayer" where
  "plr s guid = (case find (\<lambda>p. plr_GUID p = guid) (gd_online s) of None \<Rightarrow> GuildPlayer_new | Some p \<Rightarrow> p)"

definition SetInGuild :: "uint64 \<Rightarrow> uint32 \<Rightarrow> GuildState \<Rightarrow> GuildState" where
  "SetInGuild p guildId = upd_plr p (\<lambda>r. r\<lparr>plr_GuildId := guildId\<rparr>)"

definition SetRank :: "uint64 \<Rightarrow> uint8 \<Rightarrow> GuildState \<Rightarrow> GuildState" where
  "SetRank p rankId = upd_plr p (\<lambda>r. r\<lparr>plr_Rank := rankId\<rparr>)"

definition SetGuildIdInvited :: "uint64 \<Rightarrow> uint32 \<Rightarrow> GuildState \<Rightarrow> GuildState" where
  "SetGuildIdInvited p guildId = upd_plr p (\<lambda>r. r\<lparr>plr_GuildIdInvited := guildId\<rparr>)"

section \<open>Queries of a guild\<close>

definition Guild_GetRanksSize :: "Guild \<Rightarrow> uint8" where
  "Guild_GetRanksSize x = of_nat (length (gl_ranks x))"

definition Guild_GetRankInfo :: "uint8 \<Rightarrow> Guild \<Rightarrow> RankInfo option" where
  "Guild_GetRankInfo rankId x = (if rankId < Guild_GetRanksSize x then Some (gl_ranks x ! unat rankId) else None)"

definition Guild_GetLowestRankId :: "Guild \<Rightarrow> uint8" where
  "Guild_GetLowestRankId x = of_nat (length (gl_ranks x)) - 1"

definition Guild_GetRankRights :: "uint8 \<Rightarrow> Guild \<Rightarrow> uint32" where
  "Guild_GetRankRights rankId x = (case Guild_GetRankInfo rankId x of None \<Rightarrow> 0 | Some r \<Rightarrow> rk_rights r)"

definition Guild_GetRankName :: "uint8 \<Rightarrow> Guild \<Rightarrow> string" where
  "Guild_GetRankName rankId x = (case Guild_GetRankInfo rankId x of None \<Rightarrow> ''<unknown>'' | Some r \<Rightarrow> rk_name r)"

definition Guild_HasRankRight :: "GuildPlayer \<Rightarrow> uint32 \<Rightarrow> Guild \<Rightarrow> bool" where
  "Guild_HasRankRight player right x \<longleftrightarrow> Guild_GetRankRights (plr_Rank player) x AND right \<noteq> GR_RIGHT_EMPTY"

definition Guild_GetPurchasedTabsSize :: "Guild \<Rightarrow> uint8" where
  "Guild_GetPurchasedTabsSize x = of_nat (length (gl_bankTabs x))"

definition Guild_GetBankTab :: "uint8 \<Rightarrow> Guild \<Rightarrow> BankTab option" where
  "Guild_GetBankTab tabId x = (if unat tabId < length (gl_bankTabs x) then Some (gl_bankTabs x ! unat tabId) else None)"

definition Guild_GetMember :: "uint64 \<Rightarrow> Guild \<Rightarrow> GuildMember option" where
  "Guild_GetMember guid x = hmap_find (gl_members x) (GUID_LOPART guid)"

definition Guild_IsLeader :: "GuildPlayer \<Rightarrow> Guild \<Rightarrow> bool" where
  "Guild_IsLeader player x \<longleftrightarrow>
     plr_GUID player = gl_leaderGuid x \<or>
     (case Guild_GetMember (plr_GUID player) x of None \<Rightarrow> False | Some m \<Rightarrow> gm_rankId m = GR_GUILDMASTER)"

definition Guild_GetRankBankMoneyPerDay :: "uint8 \<Rightarrow> Guild \<Rightarrow> uint32" where
  "Guild_GetRankBankMoneyPerDay rankId x =
     (case Guild_GetRankInfo rankId x of None \<Rightarrow> 0 | Some r \<Rightarrow> RankInfo_GetBankMoneyPerDay r)"

definition Guild_GetRankBankTabSlotsPerDay :: "uint8 \<Rightarrow> uint8 \<Rightarrow> Guild \<Rightarrow> uint32" where
  "Guild_GetRankBankTabSlotsPerDay rankId tabId x =
     (if tabId < Guild_GetPurchasedTabsSize x
      then (case Guild_GetRankInfo rankId x of None \<Rightarrow> 0 | Some r \<Rightarrow> RankInfo_GetBankTabSlotsPerDay tabId r)
      else 0)"

definition Guild_GetRankBankTabRights :: "uint8 \<Rightarrow> uint8 \<Rightarrow> Guild \<Rightarrow> uint8" where
  "Guild_GetRankBankTabRights rankId tabId x =
     (case Guild_GetRankInfo rankId x of None \<Rightarrow> 0 | Some r \<Rightarrow> RankInfo_GetBankTabRights tabId r)"

definition Guild_MemberHasTabRights :: "uint64 \<Rightarrow> uint8 \<Rightarrow> uint8 \<Rightarrow> Guild \<Rightarrow> bool" where
  "Guild_MemberHasTabRights guid tabId rights x =
     (case Guild_GetMember guid x of
        None \<Rightarrow> False
      | Some m \<Rightarrow>
          gm_rankId m = GR_GUILDMASTER \<or> gl_leaderGuid x = guid \<or>
          Guild_GetRankBankTabRights (gm_rankId m) tabId x AND rights = rights)"

section \<open>Members\<close>

definition upd_member :: "uint64 \<Rightarrow> (GuildMember \<Rightarrow> GuildMember) \<Rightarrow> Guild \<Rightarrow> Guild" where
  "upd_member guid f x = x\<lparr>gl_members := hmap_update (GUID_LOPART guid) f (gl_members x)\<rparr>"

text \<open>
  The first two primary professions of a player.  \<open>SetStats\<close> declares a second variable \<open>skill\<close> in its loop, so that the one it
  stores is always 0; \<open>UpdateMemberData\<close> has the loop without that declaration.
\<close>

definition professions_of :: "guild_env \<Rightarrow> uint64 \<Rightarrow> (uint32 \<Rightarrow> uint32) \<Rightarrow> Profession list" where
  "professions_of E p skill =
     (let found = map (\<lambda>sp. \<lparr>prof_skillID = skill sp, prof_rank = gn_SpellRank E sp, prof_level = gn_SkillValue E p (skill sp)\<rparr>)
                    (take 2 (gn_professionSpells E p))
      in found @ replicate (2 - length found) \<lparr>prof_skillID = 0, prof_rank = 0, prof_level = 0\<rparr>)"

definition Member_SetStats :: "guild_env \<Rightarrow> GuildPlayer \<Rightarrow> GuildMember \<Rightarrow> GuildMember" where
  "Member_SetStats E player m =
     m\<lparr>gm_name := plr_Name player, gm_level := plr_Level player, gm_class := plr_Class player, gm_zoneId := plr_ZoneId player,
       gm_accountId := gn_accountId E (plr_GUID player), gm_achievementPoints := gn_achievementPoints E (plr_GUID player),
       gm_professions := professions_of E (plr_GUID player) (\<lambda>_. 0)\<rparr>"

definition Member_SetStatsFrom :: "string \<Rightarrow> uint8 \<Rightarrow> uint8 \<Rightarrow> uint32 \<Rightarrow> uint32 \<Rightarrow> GuildMember \<Rightarrow> GuildMember" where
  "Member_SetStatsFrom name level cls zoneId accountId m =
     m\<lparr>gm_name := name, gm_level := level, gm_class := cls, gm_zoneId := zoneId, gm_accountId := accountId,
       gm_professions := replicate 2 \<lparr>prof_skillID = 0, prof_rank = 0, prof_level = 0\<rparr>\<rparr>"

definition Member_CheckStats :: "GuildMember \<Rightarrow> bool" where
  "Member_CheckStats m \<longleftrightarrow> \<not> gm_level m < 1 \<and> \<not> (gm_class m < CLASS_WARRIOR \<or> gm_class m \<ge> MAX_CLASSES)"

text \<open>The constructor leaves the statistics uninitialised; every caller sets them.\<close>

definition Member_new :: "guild_env \<Rightarrow> uint64 \<Rightarrow> uint8 \<Rightarrow> GuildMember" where
  "Member_new E guid rankId =
     \<lparr>gm_guid = guid, gm_name = [], gm_zoneId = 0, gm_level = 0, gm_class = 0, gm_flags = GUILD_MEMBER_FLAG_OFFLINE,
      gm_logoutTime = gn_time E, gm_accountId = 0, gm_rankId = rankId, gm_publicNote = [], gm_officerNote = [],
      gm_bankRemaining = replicate (Suc (unat GUILD_BANK_MAX_TABS)) \<lparr>rem_value = 0, rem_resetTime = 0\<rparr>,
      gm_achievementPoints = 0, gm_professions = replicate 2 \<lparr>prof_skillID = 0, prof_rank = 0, prof_level = 0\<rparr>\<rparr>"

definition Member_SetPublicNote :: "string \<Rightarrow> GuildMember \<Rightarrow> GuildMember \<times> guild_event list" where
  "Member_SetPublicNote note m =
     (if gm_publicNote m = note then (m, [])
      else (m\<lparr>gm_publicNote := note\<rparr>, [MemberSql (CHAR_SET_GUILD_MEMBER_PNOTE note (GUID_LOPART (gm_guid m)))]))"

definition Member_SetOfficerNote :: "string \<Rightarrow> GuildMember \<Rightarrow> GuildMember \<times> guild_event list" where
  "Member_SetOfficerNote note m =
     (if gm_officerNote m = note then (m, [])
      else (m\<lparr>gm_officerNote := note\<rparr>, [MemberSql (CHAR_SET_GUILD_MEMBER_OFFNOTE note (GUID_LOPART (gm_guid m)))]))"

definition Member_SaveToDB :: "uint32 \<Rightarrow> GuildMember \<Rightarrow> guild_event list" where
  "Member_SaveToDB guildId m =
     [MemberSql (CHAR_ADD_GUILD_MEMBER guildId (GUID_LOPART (gm_guid m)) (gm_rankId m) (gm_publicNote m) (gm_officerNote m)
        (gm_professions m))]"

definition Member_ChangeRank :: "uint32 \<Rightarrow> GuildMember \<Rightarrow> uint8 \<Rightarrow> GuildState \<Rightarrow> GuildState" where
  "Member_ChangeRank g m newRank s =
     (let s1 = upd_gld g (upd_member (gm_guid m) (\<lambda>m. m\<lparr>gm_rankId := newRank\<rparr>)) s;
          s2 = (if gd_FindPlayer (gm_guid m) s1 \<noteq> None then SetRank (gm_guid m) newRank s1 else s1)
      in gd_emit [MemberSql (CHAR_SET_GUILD_MEMBER_RANK newRank (GUID_LOPART (gm_guid m)))] s2)"

definition Member_DecreaseBankRemainingValue :: "uint32 \<Rightarrow> uint8 \<Rightarrow> uint32 \<Rightarrow> GuildMember \<Rightarrow> GuildMember \<times> guild_event list" where
  "Member_DecreaseBankRemainingValue guildId tabId amount m =
     (let rv = gm_bankRemaining m ! unat tabId; rv' = rv\<lparr>rem_value := rem_value rv - amount\<rparr>
      in (m\<lparr>gm_bankRemaining := (gm_bankRemaining m)[unat tabId := rv']\<rparr>,
          [MemberSql (if tabId = GUILD_BANK_MAX_TABS
             then CHAR_SET_GUILD_MEMBER_BANK_REM_MONEY (rem_value rv') guildId (GUID_LOPART (gm_guid m))
             else CHAR_SET_GUILD_MEMBER_BANK_REM_SLOTS tabId (rem_value rv') guildId (GUID_LOPART (gm_guid m)))]))"

text \<open>What a member may still take today; a period that is over is renewed, although the method is \<open>const\<close>.\<close>

definition cur_minutes :: "guild_env \<Rightarrow> uint32" where
  "cur_minutes E = ucast (gn_time E div 60)"

definition Member_renew :: "guild_env \<Rightarrow> Guild \<Rightarrow> uint8 \<Rightarrow> GuildMember \<Rightarrow> GuildMember \<times> guild_event list" where
  "Member_renew E x tabId m =
     (if cur_minutes E > rem_resetTime (gm_bankRemaining m ! unat tabId) + 1440 then
        let v = (if tabId = GUILD_BANK_MAX_TABS then Guild_GetRankBankMoneyPerDay (gm_rankId m) x
                 else Guild_GetRankBankTabSlotsPerDay (gm_rankId m) tabId x)
        in (m\<lparr>gm_bankRemaining := (gm_bankRemaining m)[unat tabId := \<lparr>rem_value = v, rem_resetTime = cur_minutes E\<rparr>]\<rparr>,
            [MemberSql (if tabId = GUILD_BANK_MAX_TABS
               then CHAR_SET_GUILD_MEMBER_BANK_TIME_MONEY (cur_minutes E) v (gl_id x) (GUID_LOPART (gm_guid m))
               else CHAR_SET_GUILD_MEMBER_BANK_TIME_REM_SLOTS tabId (cur_minutes E) v (gl_id x) (GUID_LOPART (gm_guid m)))])
      else (m, []))"

definition Member_GetBankRemainingValue ::
  "guild_env \<Rightarrow> Guild \<Rightarrow> uint8 \<Rightarrow> GuildMember \<Rightarrow> uint32 \<times> GuildMember \<times> guild_event list" where
  "Member_GetBankRemainingValue E x tabId m =
     (if gm_rankId m = GR_GUILDMASTER
      then (if tabId = GUILD_BANK_MAX_TABS then GUILD_WITHDRAW_MONEY_UNLIMITED else GUILD_WITHDRAW_SLOT_UNLIMITED, m, [])
      else if tabId \<noteq> GUILD_BANK_MAX_TABS \<and>
        Guild_GetRankBankTabRights (gm_rankId m) tabId x AND GUILD_BANK_RIGHT_VIEW_TAB \<noteq> GUILD_BANK_RIGHT_VIEW_TAB
      then (0, m, [])
      else
        let (m1, es) = Member_renew E x tabId m
        in (rem_value (gm_bankRemaining m1 ! unat tabId), m1, es))"

definition Member_ResetTabTimes :: "GuildMember \<Rightarrow> GuildMember" where
  "Member_ResetTabTimes m =
     m\<lparr>gm_bankRemaining := map (\<lambda>rv. rv\<lparr>rem_resetTime := 0\<rparr>) (take (unat GUILD_BANK_MAX_TABS) (gm_bankRemaining m)) @
                          drop (unat GUILD_BANK_MAX_TABS) (gm_bankRemaining m)\<rparr>"

definition Member_ResetMoneyTime :: "GuildMember \<Rightarrow> GuildMember" where
  "Member_ResetMoneyTime m =
     (let rv = gm_bankRemaining m ! unat GUILD_BANK_MAX_TABS
      in m\<lparr>gm_bankRemaining := (gm_bankRemaining m)[unat GUILD_BANK_MAX_TABS := rv\<lparr>rem_resetTime := 0\<rparr>]\<rparr>)"

text \<open>\<open>_GetMemberRemainingSlots\<close> and, for the tab \<open>GUILD_BANK_MAX_TABS\<close>, \<open>_GetMemberRemainingMoney\<close>.\<close>

definition Guild_GetMemberRemaining :: "guild_env \<Rightarrow> uint32 \<Rightarrow> uint64 \<Rightarrow> uint8 \<Rightarrow> GuildState \<Rightarrow> uint32 \<times> GuildState" where
  "Guild_GetMemberRemaining E g guid tabId s =
     (case Guild_GetMember guid (gld s g) of
        None \<Rightarrow> (0, s)
      | Some m \<Rightarrow>
          let (v, m1, es) = Member_GetBankRemainingValue E (gld s g) tabId m
          in (v, gd_emit es (upd_gld g (upd_member guid (\<lambda>_. m1)) s)))"

definition Guild_DecreaseMemberRemainingSlots :: "guild_env \<Rightarrow> uint32 \<Rightarrow> uint64 \<Rightarrow> uint8 \<Rightarrow> GuildState \<Rightarrow> GuildState" where
  "Guild_DecreaseMemberRemainingSlots E g guid tabId s =
     (let (n, s1) = Guild_GetMemberRemaining E g guid tabId s in
      if n \<noteq> 0 \<and> n < GUILD_WITHDRAW_SLOT_UNLIMITED
      then (case Guild_GetMember guid (gld s1 g) of
              None \<Rightarrow> s1
            | Some m \<Rightarrow>
                let (m1, es) = Member_DecreaseBankRemainingValue (gl_id (gld s1 g)) tabId 1 m
                in gd_emit es (upd_gld g (upd_member guid (\<lambda>_. m1)) s1))
      else s1)"

end
