(* ===== verification/Guild_Ops.thy ===== *)
theory Guild_Ops
  imports Guild_Parts
begin

text \<open>
  The methods of \<open>Guild\<close> (\<^verbatim>\<open>Guild.cpp\<close>) below the client commands: messages, logs, ranks, bank money, experience, membership, and
  the registry \<open>GuildMgr\<close> (\<^verbatim>\<open>GuildMgr.cpp\<close>).  A method works on the guild object \<open>g\<close> of the state.
\<close>

section \<open>Constants\<close>

definition SMSG_GUILD_QUERY_RESPONSE :: uint32 where "SMSG_GUILD_QUERY_RESPONSE = 0x3F80"
definition SMSG_GUILD_INVITE :: uint32 where "SMSG_GUILD_INVITE = 0x010C"
definition SMSG_GUILD_INFO :: uint32 where "SMSG_GUILD_INFO = 0x20A8"
definition SMSG_GUILD_ROSTER :: uint32 where "SMSG_GUILD_ROSTER = 0x4D5C"
definition SMSG_GUILD_EVENT :: uint32 where "SMSG_GUILD_EVENT = 0xB7C4"
definition SMSG_GUILD_MAX_DAILY_XP :: uint32 where "SMSG_GUILD_MAX_DAILY_XP = 0x441C"
definition SMSG_GUILD_NEWS_UPDATE :: uint32 where "SMSG_GUILD_NEWS_UPDATE = 0x485E"
definition SMSG_GUILD_XP_UPDATE :: uint32 where "SMSG_GUILD_XP_UPDATE = 0x440E"
definition SMSG_GUILD_COMMAND_RESULT :: uint32 where "SMSG_GUILD_COMMAND_RESULT = 0x23C0"
definition MSG_SAVE_GUILD_EMBLEM :: uint32 where "MSG_SAVE_GUILD_EMBLEM = 0x31AC"
definition SMSG_GUILD_RANK :: uint32 where "SMSG_GUILD_RANK = 0x411E"
definition SMSG_GUILD_BANK_LIST :: uint32 where "SMSG_GUILD_BANK_LIST = 0xA6A8"
definition MSG_GUILD_BANK_LOG_QUERY :: uint32 where "MSG_GUILD_BANK_LOG_QUERY = 0xF584"
definition MSG_GUILD_PERMISSIONS :: uint32 where "MSG_GUILD_PERMISSIONS = 0xF4C4"
definition MSG_GUILD_BANK_MONEY_WITHDRAWN :: uint32 where "MSG_GUILD_BANK_MONEY_WITHDRAWN = 0x6CE4"
definition MSG_GUILD_EVENT_LOG_QUERY :: uint32 where "MSG_GUILD_EVENT_LOG_QUERY = 0x69EC"
definition MSG_QUERY_GUILD_BANK_TEXT :: uint32 where "MSG_QUERY_GUILD_BANK_TEXT = 0xA2C4"
definition SMSG_MESSAGECHAT_GUILD :: uint32 where "SMSG_MESSAGECHAT_GUILD = 0x61E4"
definition CHAT_MSG_GUILD :: uint8 where "CHAT_MSG_GUILD = 4"
definition CHAT_MSG_OFFICER :: uint8 where "CHAT_MSG_OFFICER = 5"

definition GUILD_CREATE_S :: uint32 where "GUILD_CREATE_S = 0"
definition GUILD_INVITE_S :: uint32 where "GUILD_INVITE_S = 1"
definition GUILD_QUIT_S :: uint32 where "GUILD_QUIT_S = 3"
definition GUILD_UNK1 :: uint32 where "GUILD_UNK1 = 0x13"

definition ERR_PLAYER_NO_MORE_IN_GUILD :: uint32 where "ERR_PLAYER_NO_MORE_IN_GUILD = 0"
definition ERR_ALREADY_IN_GUILD_S :: uint32 where "ERR_ALREADY_IN_GUILD_S = 3"
definition ERR_ALREADY_INVITED_TO_GUILD_S :: uint32 where "ERR_ALREADY_INVITED_TO_GUILD_S = 5"
definition ERR_GUILD_NAME_INVALID :: uint32 where "ERR_GUILD_NAME_INVALID = 6"
definition ERR_GUILD_LEADER_LEAVE :: uint32 where "ERR_GUILD_LEADER_LEAVE = 8"
definition ERR_GUILD_PERMISSIONS :: uint32 where "ERR_GUILD_PERMISSIONS = 8"
definition ERR_GUILD_PLAYER_NOT_IN_GUILD :: uint32 where "ERR_GUILD_PLAYER_NOT_IN_GUILD = 9"
definition ERR_GUILD_PLAYER_NOT_IN_GUILD_S :: uint32 where "ERR_GUILD_PLAYER_NOT_IN_GUILD_S = 0xA"
definition ERR_GUILD_PLAYER_NOT_FOUND_S :: uint32 where "ERR_GUILD_PLAYER_NOT_FOUND_S = 0xB"
definition ERR_GUILD_NOT_ALLIED :: uint32 where "ERR_GUILD_NOT_ALLIED = 0xC"
definition ERR_GUILD_RANK_TOO_HIGH_S :: uint32 where "ERR_GUILD_RANK_TOO_HIGH_S = 0xD"
definition ERR_GUILD_RANK_TOO_LOW_S :: uint32 where "ERR_GUILD_RANK_TOO_LOW_S = 0xE"

definition GE_PROMOTION :: uint8 where "GE_PROMOTION = 1"
definition GE_DEMOTION :: uint8 where "GE_DEMOTION = 2"
definition GE_MOTD :: uint8 where "GE_MOTD = 3"
definition GE_JOINED :: uint8 where "GE_JOINED = 4"
definition GE_LEFT :: uint8 where "GE_LEFT = 5"
definition GE_REMOVED :: uint8 where "GE_REMOVED = 6"
definition GE_LEADER_CHANGED :: uint8 where "GE_LEADER_CHANGED = 8"
definition GE_DISBANDED :: uint8 where "GE_DISBANDED = 9"
definition GE_UPDATE_ROSTER :: uint8 where "GE_UPDATE_ROSTER = 0xC"
definition GE_SIGNED_ON :: uint8 where "GE_SIGNED_ON = 0x10"
definition GE_SIGNED_OFF :: uint8 where "GE_SIGNED_OFF = 0x11"

definition ERR_GUILDEMBLEM_SUCCESS :: uint32 where "ERR_GUILDEMBLEM_SUCCESS = 0"
definition ERR_GUILDEMBLEM_NOGUILD :: uint32 where "ERR_GUILDEMBLEM_NOGUILD = 2"
definition ERR_GUILDEMBLEM_NOTGUILDMASTER :: uint32 where "ERR_GUILDEMBLEM_NOTGUILDMASTER = 3"
definition ERR_GUILDEMBLEM_NOTENOUGHMONEY :: uint32 where "ERR_GUILDEMBLEM_NOTENOUGHMONEY = 4"
definition ERR_GUILDEMBLEM_INVALIDVENDOR :: uint32 where "ERR_GUILDEMBLEM_INVALIDVENDOR = 5"

definition GUILD_NEWS_GUILD_LEVEL_REACHED :: uint32 where "GUILD_NEWS_GUILD_LEVEL_REACHED = 6"
definition MAX_MONEY_AMOUNT :: int where "MAX_MONEY_AMOUNT = 0x7FFFFFFF - 1"
definition GOLD :: uint32 where "GOLD = 10000"
definition EMBLEM_PRICE :: uint32 where "EMBLEM_PRICE = 10 * GOLD"
definition GUILD_REPUTATION :: uint32 where "GUILD_REPUTATION = 1168"

section \<open>Messages\<close>

definition SendCommandResult :: "uint64 \<Rightarrow> uint32 \<Rightarrow> uint32 \<Rightarrow> string \<Rightarrow> GuildState \<Rightarrow> GuildState" where
  "SendCommandResult p type errCode param =
     gd_emit [GuildPacket p (Packet SMSG_GUILD_COMMAND_RESULT [U32 type, Str param, U32 errCode])]"

definition SendSaveEmblemResult :: "uint64 \<Rightarrow> uint32 \<Rightarrow> GuildState \<Rightarrow> GuildState" where
  "SendSaveEmblemResult p errCode = gd_emit [GuildPacket p (Packet MSG_SAVE_GUILD_EMBLEM [U32 errCode])]"

definition Guild_Members :: "Guild \<Rightarrow> GuildMember list" where
  "Guild_Members x = map snd (gl_members x)"

text \<open>The members whose \<open>FindPlayer\<close> finds a player, in the order of the map.\<close>

definition Guild_OnlineMembers :: "uint32 \<Rightarrow> GuildState \<Rightarrow> GuildMember list" where
  "Guild_OnlineMembers g s = filter (\<lambda>m. gd_FindPlayer (gm_guid m) s \<noteq> None) (Guild_Members (gld s g))"

definition Guild_BroadcastPacket :: "uint32 \<Rightarrow> packet \<Rightarrow> GuildState \<Rightarrow> GuildState" where
  "Guild_BroadcastPacket g pkt s = gd_emit (map (\<lambda>m. GuildPacket (gm_guid m) pkt) (Guild_OnlineMembers g s)) s"

definition Guild_BroadcastPacketToRank :: "uint32 \<Rightarrow> packet \<Rightarrow> uint8 \<Rightarrow> GuildState \<Rightarrow> GuildState" where
  "Guild_BroadcastPacketToRank g pkt rankId s =
     gd_emit (map (\<lambda>m. GuildPacket (gm_guid m) pkt) (filter (\<lambda>m. gm_rankId m = rankId) (Guild_OnlineMembers g s))) s"

text \<open>To one session, or to all when there is none.\<close>

definition Guild_SendOrBroadcast :: "uint32 \<Rightarrow> uint64 option \<Rightarrow> packet \<Rightarrow> GuildState \<Rightarrow> GuildState" where
  "Guild_SendOrBroadcast g session pkt =
     (case session of None \<Rightarrow> Guild_BroadcastPacket g pkt | Some p \<Rightarrow> gd_emit [GuildPacket p pkt])"

definition Guild_BroadcastEvent :: "uint32 \<Rightarrow> uint8 \<Rightarrow> uint64 \<Rightarrow> string list \<Rightarrow> GuildState \<Rightarrow> GuildState" where
  "Guild_BroadcastEvent g guildEvent guid params =
     Guild_BroadcastPacket g
       (Packet SMSG_GUILD_EVENT
          ([U8 guildEvent, U8 (of_nat (length params))] @ map Str params @ (if guid \<noteq> 0 then [U64 guid] else [])))"

definition Guild_BroadcastToGuild :: "guild_env \<Rightarrow> uint32 \<Rightarrow> uint64 \<Rightarrow> bool \<Rightarrow> string \<Rightarrow> uint32 \<Rightarrow> GuildState \<Rightarrow> GuildState" where
  "Guild_BroadcastToGuild E g p officerOnly msg language s =
     (let x = gld s g; sender = plr s p in
      if Guild_HasRankRight sender (if officerOnly then GR_RIGHT_OFFCHATSPEAK else GR_RIGHT_GCHATSPEAK) x then
        let data = Packet SMSG_MESSAGECHAT_GUILD
              [U8 (if officerOnly then CHAT_MSG_OFFICER else CHAT_MSG_GUILD), U32 language, U64 p, U32 0, U64 p,
               U32 (of_nat (length msg + 1)), Str msg, U8 (Player_chatTag (Player.truncate sender))];
            hears = (\<lambda>m. case gd_FindPlayer (gm_guid m) s of
              None \<Rightarrow> False
            | Some r \<Rightarrow>
                Guild_HasRankRight r (if officerOnly then GR_RIGHT_OFFCHATLISTEN else GR_RIGHT_GCHATLISTEN) x \<and>
                \<not> HasIgnore (GUID_LOPART p) (GetSocial (gn_socials E) (Player.truncate r)))
        in gd_emit (map (\<lambda>m. GuildPacket (gm_guid m) data) (filter hears (Guild_Members x))) s
      else s)"

definition Guild_SendUpdateRoster :: "uint32 \<Rightarrow> uint64 option \<Rightarrow> GuildState \<Rightarrow> GuildState" where
  "Guild_SendUpdateRoster g session =
     (case session of
        None \<Rightarrow> Guild_BroadcastEvent g GE_UPDATE_ROSTER 0 []
      | Some p \<Rightarrow> gd_emit [GuildPacket p (Packet SMSG_GUILD_EVENT [U8 GE_UPDATE_ROSTER, U8 0])])"

definition rank_entry :: "nat \<Rightarrow> RankInfo \<Rightarrow> field list" where
  "rank_entry i r = [U32 (of_nat i), U32 (of_nat i)] @ RankInfo_WritePacket r"

definition Guild_SendGuildRankInfo :: "uint32 \<Rightarrow> uint64 option \<Rightarrow> GuildState \<Rightarrow> GuildState" where
  "Guild_SendGuildRankInfo g session s =
     (let ranks = take (unat (Guild_GetRanksSize (gld s g))) (gl_ranks (gld s g)) in
      Guild_SendOrBroadcast g session
        (Packet SMSG_GUILD_RANK
           (U32 (ucast (Guild_GetRanksSize (gld s g))) # concat (map2 rank_entry [0..<length ranks] ranks))) s)"

definition roster_packet :: "guild_env \<Rightarrow> Guild \<Rightarrow> packet" where
  "roster_packet E x =
     (let ms = Guild_Members x; each = (\<lambda>f. concat (map f ms)); none = (\<lambda>z. map (\<lambda>_. z) ms) in
      Packet SMSG_GUILD_ROSTER
        ([Str (gl_motd x), U32 (of_nat (length ms))] @
         replicate (unat ((of_nat (length ms) :: uint32) div 8 + 1)) (U8 0) @
         each (\<lambda>m. [Str (gm_publicNote m)]) @ none (U64 0) @
         [Str (gl_info x)] @
         each (\<lambda>m. [U8 (gm_flags m)]) @ each (\<lambda>m. [U32 (gm_zoneId m)]) @ none (U32 0) @
         each (\<lambda>m. [Str (gm_officerNote m)]) @ none (U64 0) @ none (U8 0) @
         each (\<lambda>m. [U64 (gm_guid m)]) @ each (\<lambda>m. [U8 (gm_class m)]) @ each (\<lambda>m. [Str (gm_name m)]) @ none (U32 0) @
         each (\<lambda>m. [U32 (ucast (gm_rankId m))]) @ none (U32 0) @ each (\<lambda>m. [U8 (gm_level m)]) @
         each (\<lambda>m. concat (map (\<lambda>pr. [U32 (prof_level pr), U32 (prof_skillID pr), U32 (prof_rank pr)]) (gm_professions m))) @
         none (U32 0) @
         each (\<lambda>m. [F32 (if gm_flags m AND GUILD_MEMBER_FLAG_ONLINE \<noteq> 0 then 0 else gn_floatDays E (gn_time E - gm_logoutTime m))])))"

definition Guild_HandleRoster :: "guild_env \<Rightarrow> uint32 \<Rightarrow> uint64 option \<Rightarrow> GuildState \<Rightarrow> GuildState" where
  "Guild_HandleRoster E g session s =
     Guild_SendUpdateRoster g session
       (Guild_SendGuildRankInfo g session (Guild_SendOrBroadcast g session (roster_packet E (gld s g)) s))"

definition Guild_HandleQuery :: "uint32 \<Rightarrow> uint64 \<Rightarrow> GuildState \<Rightarrow> GuildState" where
  "Guild_HandleQuery g p s =
     (let x = gld s g; n = unat (Guild_GetRanksSize x); is = [0..<unat GUILD_RANKS_MAX_COUNT];
          nums = map (\<lambda>i. U32 (if i < n then of_nat i else 0)) is
      in gd_emit [GuildPacket p (Packet SMSG_GUILD_QUERY_RESPONSE
           ([U64 (MAKE_NEW_GUID (ucast (gl_id x)) 0 HIGHGUID_GUILD), Str (gl_name x)] @
            map (\<lambda>i. if i < n then Str (rk_name (gl_ranks x ! i)) else U8 0) is @ nums @ nums @
            EmblemInfo_WritePacket (gl_emblemInfo x) @ [U32 7]))] s)"

section \<open>Logs\<close>

definition Guild_LogEvent :: "guild_env \<Rightarrow> uint32 \<Rightarrow> GuildEventLogTypes \<Rightarrow> uint32 \<Rightarrow> uint32 \<Rightarrow> uint8 \<Rightarrow> GuildState \<Rightarrow> GuildState" where
  "Guild_LogEvent E g eventType playerGuid1 playerGuid2 newRank s =
     (let (guid, h) = LogHolder_GetNextGUID (gl_eventLog (gld s g));
          e = \<lparr>el_guid = guid, el_timestamp = gn_time E, el_eventType = event_value eventType,
               el_playerGuid1 = playerGuid1, el_playerGuid2 = playerGuid2, el_newRank = newRank\<rparr>
      in gd_emit (EventLogEntry_SaveToDB (gl_id (gld s g)) e @
                  [GuildHook g (OnGuildEvent (event_value eventType) playerGuid1 playerGuid2 newRank)])
           (upd_gld g (\<lambda>x. x\<lparr>gl_eventLog := LogHolder_AddEvent e h\<rparr>) s))"

definition Guild_LogBankEvent ::
  "guild_env \<Rightarrow> uint32 \<Rightarrow> uint8 \<Rightarrow> uint8 \<Rightarrow> uint32 \<Rightarrow> uint32 \<Rightarrow> uint16 \<Rightarrow> uint8 \<Rightarrow> GuildState \<Rightarrow> GuildState" where
  "Guild_LogBankEvent E g eventType tabId0 lowguid itemOrMoney itemStackCount destTabId s =
     (if tabId0 > GUILD_BANK_MAX_TABS then s
      else
        let money = BankEventLogEntry_IsMoneyEvent eventType;
            tabId = (if money then GUILD_BANK_MAX_TABS else tabId0);
            dbTabId = (if money then GUILD_BANK_MONEY_LOGS_TAB else tabId0);
            (guid, h) = LogHolder_GetNextGUID (gl_bankEventLog (gld s g) ! unat tabId);
            e = \<lparr>be_guid = guid, be_timestamp = gn_time E, be_eventType = eventType, be_bankTabId = dbTabId, be_playerGuid = lowguid,
                 be_itemOrMoney = itemOrMoney, be_itemStackCount = itemStackCount, be_destTabId = destTabId\<rparr>
        in gd_emit (BankEventLogEntry_SaveToDB (gl_id (gld s g)) e @
                    [GuildHook g (OnGuildBankEvent eventType tabId lowguid itemOrMoney itemStackCount destTabId)])
             (upd_gld g (\<lambda>x. x\<lparr>gl_bankEventLog := (gl_bankEventLog x)[unat tabId := LogHolder_AddEvent e h]\<rparr>) s))"

definition Guild_CreateLogHolders :: "guild_env \<Rightarrow> Guild \<Rightarrow> Guild" where
  "Guild_CreateLogHolders E x =
     x\<lparr>gl_eventLog := LogHolder_new (gn_CONFIG_GUILD_EVENT_LOG_COUNT E),
       gl_bankEventLog := replicate (Suc (unat GUILD_BANK_MAX_TABS)) (LogHolder_new (gn_CONFIG_GUILD_BANK_EVENT_LOG_COUNT E))\<rparr>"

section \<open>Ranks\<close>

definition upd_rank :: "uint8 \<Rightarrow> (RankInfo \<Rightarrow> RankInfo \<times> guild_event list) \<Rightarrow> Guild \<Rightarrow> Guild \<times> guild_event list" where
  "upd_rank rankId f x =
     (let (r, es) = f (gl_ranks x ! unat rankId) in (x\<lparr>gl_ranks := (gl_ranks x)[unat rankId := r]\<rparr>, es))"

definition upd_members :: "(GuildMember \<Rightarrow> GuildMember) \<Rightarrow> Guild \<Rightarrow> Guild" where
  "upd_members f x = x\<lparr>gl_members := map (\<lambda>(k, m). (k, f m)) (gl_members x)\<rparr>"

text \<open>The new rank is stored with the default rights of its constructor; its daily amount of money is 0.\<close>

definition Guild_CreateRank :: "string \<Rightarrow> uint32 \<Rightarrow> Guild \<Rightarrow> Guild \<times> guild_event list" where
  "Guild_CreateRank name rights x =
     (if Guild_GetRanksSize x \<ge> GUILD_RANKS_MAX_COUNT then (x, [])
      else
        let newRankId = Guild_GetRanksSize x; info = RankInfo_new newRankId name rights 0
        in (x\<lparr>gl_ranks := gl_ranks x @ [info]\<rparr>,
            map (\<lambda>i. RightSql (CHAR_ADD_GUILD_BANK_RIGHT_DEFAULT (gl_id x) (of_nat i) newRankId))
              [0..<unat (Guild_GetPurchasedTabsSize x)] @
            RankInfo_SaveToDB (gl_id x) info))"

fun Guild_CreateRanks :: "(string \<times> uint32) list \<Rightarrow> Guild \<Rightarrow> Guild \<times> guild_event list" where
  "Guild_CreateRanks [] x = (x, [])"
| "Guild_CreateRanks ((name, rights) # rs) x =
     (let (x1, es) = Guild_CreateRank name rights x; (x2, es2) = Guild_CreateRanks rs x1 in (x2, es @ es2))"

text \<open>The five names are the texts for the locale.\<close>

definition Guild_CreateDefaultGuildRanks :: "guild_env \<Rightarrow> uint8 \<Rightarrow> Guild \<Rightarrow> Guild \<times> guild_event list" where
  "Guild_CreateDefaultGuildRanks E loc x =
     (let talk = GR_RIGHT_GCHATLISTEN OR GR_RIGHT_GCHATSPEAK;
          (x1, es) = Guild_CreateRanks (zip (gn_rankNames E loc) [GR_RIGHT_ALL, GR_RIGHT_ALL, talk, talk, talk]) x
      in (x1, [RankSql (CHAR_DEL_GUILD_RANKS (gl_id x)), RightSql (CHAR_DEL_GUILD_BANK_RIGHTS (gl_id x))] @ es))"

text \<open>
  Two ranks change places.  The numbers are compared with the minimal number of ranks, not with the number of ranks: an
  access behind the end of the vector is recorded and the method ends.
\<close>

definition Guild_SwitchRank :: "uint32 \<Rightarrow> uint32 \<Rightarrow> uint32 \<Rightarrow> GuildState \<Rightarrow> GuildState" where
  "Guild_SwitchRank g oldID newID s =
     (let ranks = gl_ranks (gld s g); gid = gl_id (gld s g) in
      if oldID = 0 \<or> newID = 0 then s
      else if oldID = newID then s
      else if oldID > ucast GUILD_RANKS_MIN_COUNT \<or> newID > ucast GUILD_RANKS_MIN_COUNT then s
      else if unat oldID \<ge> length ranks then gd_emit [GuildOutOfRange oldID] s
      else if unat newID \<ge> length ranks then gd_emit [GuildOutOfRange newID] s
      else
        gd_emit [RankSql (UPDATE_GUILD_RANK_RID 11 oldID gid), RankSql (UPDATE_GUILD_RANK_RID oldID newID gid),
                 RankSql (UPDATE_GUILD_RANK_RID newID 11 gid),
                 RightSql (UPDATE_GUILD_BANK_RIGHT_RID 11 oldID gid), RightSql (UPDATE_GUILD_BANK_RIGHT_RID oldID newID gid),
                 RightSql (UPDATE_GUILD_BANK_RIGHT_RID newID 11 gid)]
          (upd_gld g (\<lambda>x. x\<lparr>gl_ranks := (gl_ranks x)[unat oldID := gl_ranks x ! unat newID, unat newID := gl_ranks x ! unat oldID]\<rparr>) s))"

definition Guild_SetRankBankMoneyPerDay :: "uint8 \<Rightarrow> uint32 \<Rightarrow> Guild \<Rightarrow> Guild \<times> guild_event list" where
  "Guild_SetRankBankMoneyPerDay rankId moneyPerDay x =
     (if Guild_GetRankInfo rankId x = None then (x, [])
      else upd_rank rankId (RankInfo_SetBankMoneyPerDay (gl_id x) moneyPerDay)
             (upd_members (\<lambda>m. if gm_rankId m = rankId then Member_ResetMoneyTime m else m) x))"

definition Guild_SetRankBankTabRightsAndSlots ::
  "uint8 \<Rightarrow> uint8 \<Rightarrow> GuildBankRightsAndSlots \<Rightarrow> bool \<Rightarrow> Guild \<Rightarrow> Guild \<times> guild_event list" where
  "Guild_SetRankBankTabRightsAndSlots rankId tabId rightsAndSlots saveToDB x =
     (if tabId \<ge> Guild_GetPurchasedTabsSize x then (x, [])
      else if Guild_GetRankInfo rankId x = None then (x, [])
      else upd_rank rankId (RankInfo_SetBankTabSlotsAndRights (gl_id x) tabId rightsAndSlots saveToDB)
             (upd_members (\<lambda>m. if gm_rankId m = rankId then Member_ResetTabTimes m else m) x))"

section \<open>The bank\<close>

definition Guild_CreateNewBankTab :: "uint32 \<Rightarrow> GuildState \<Rightarrow> bool \<times> GuildState" where
  "Guild_CreateNewBankTab g s =
     (let x = gld s g; tabId = Guild_GetPurchasedTabsSize x in
      if tabId \<ge> GUILD_BANK_MAX_TABS then (False, s)
      else (True, gd_emit [TabSql (CHAR_DEL_GUILD_BANK_TAB (gl_id x) tabId), TabSql (CHAR_ADD_GUILD_BANK_TAB (gl_id x) tabId)]
                    (upd_gld g (\<lambda>x. x\<lparr>gl_bankTabs := gl_bankTabs x @ [BankTab_new tabId]\<rparr>) s)))"

definition Guild_DeleteBankItems :: "bool \<Rightarrow> Guild \<Rightarrow> Guild \<times> guild_event list" where
  "Guild_DeleteBankItems removeItemsFromDB x =
     (x\<lparr>gl_bankTabs := []\<rparr>,
      if removeItemsFromDB then map ItemDeleteFromDB (List.map_filter id (concat (map bt_items (gl_bankTabs x)))) else [])"

definition Guild_ModifyBankMoney :: "uint32 \<Rightarrow> uint64 \<Rightarrow> bool \<Rightarrow> GuildState \<Rightarrow> bool \<times> GuildState" where
  "Guild_ModifyBankMoney g amount add s =
     (let x = gld s g; money = (if add then gl_bankMoney x + amount else gl_bankMoney x - amount) in
      if \<not> add \<and> gl_bankMoney x < amount then (False, s)
      else (True, gd_emit [GuildSql (CHAR_SET_GUILD_BANK_MONEY money (gl_id x))] (upd_gld g (\<lambda>x. x\<lparr>gl_bankMoney := money\<rparr>) s)))"

definition Guild_SendBankTabsInfo :: "guild_env \<Rightarrow> uint32 \<Rightarrow> uint64 \<Rightarrow> GuildState \<Rightarrow> GuildState" where
  "Guild_SendBankTabsInfo E g p s =
     (let (slots, s1) = Guild_GetMemberRemaining E g p 0 s; x = gld s1 g in
      gd_emit [GuildPacket p (Packet SMSG_GUILD_BANK_LIST
        ([U64 (gl_bankMoney x), U8 0, U32 slots, U8 1, U8 (Guild_GetPurchasedTabsSize x)] @
         concat (map BankTab_WriteInfoPacket (gl_bankTabs x)) @ [U8 0]))] s1)"

definition Guild_SendBankContent :: "guild_env \<Rightarrow> uint32 \<Rightarrow> uint64 \<Rightarrow> uint8 \<Rightarrow> GuildState \<Rightarrow> GuildState" where
  "Guild_SendBankContent E g p tabId s =
     (if Guild_MemberHasTabRights p tabId GUILD_BANK_RIGHT_VIEW_TAB (gld s g)
      then (case Guild_GetBankTab tabId (gld s g) of
              None \<Rightarrow> s
            | Some tab \<Rightarrow>
                let (slots, s1) = Guild_GetMemberRemaining E g p tabId s in
                gd_emit [GuildPacket p (Packet SMSG_GUILD_BANK_LIST
                  ([U64 (gl_bankMoney (gld s1 g)), U8 tabId, U32 slots, U8 0] @ BankTab_WritePacket tab))] s1)
      else s)"

definition Guild_SendBankMoneyUpdate :: "guild_env \<Rightarrow> uint32 \<Rightarrow> uint64 \<Rightarrow> GuildState \<Rightarrow> GuildState" where
  "Guild_SendBankMoneyUpdate E g p s =
     (let (slots, s1) = Guild_GetMemberRemaining E g p 0 s in
      Guild_BroadcastPacket g (Packet SMSG_GUILD_BANK_LIST [U64 (gl_bankMoney (gld s1 g)), U8 0, U32 slots, U8 0, U8 0]) s1)"

definition Guild_SendMoneyInfo :: "guild_env \<Rightarrow> uint32 \<Rightarrow> uint64 \<Rightarrow> GuildState \<Rightarrow> GuildState" where
  "Guild_SendMoneyInfo E g p s =
     (let (money, s1) = Guild_GetMemberRemaining E g p GUILD_BANK_MAX_TABS s
      in gd_emit [GuildPacket p (Packet MSG_GUILD_BANK_MONEY_WITHDRAWN [U64 (ucast money)])] s1)"

section \<open>The registry\<close>

definition GuildMgr_AddGuild :: "guild_env \<Rightarrow> uint32 \<Rightarrow> GuildState \<Rightarrow> GuildState" where
  "GuildMgr_AddGuild E g s =
     (if g \<in> set (gd_store s) then s
      else let ks = gd_store s @ [g] in s\<lparr>gd_store := sort_key (gn_storePlace E ks) ks\<rparr>)"

definition GuildMgr_RemoveGuild :: "uint32 \<Rightarrow> GuildState \<Rightarrow> GuildState" where
  "GuildMgr_RemoveGuild g s = s\<lparr>gd_store := removeAll g (gd_store s)\<rparr>"

text \<open>Near the end of the numbers the server is told to stop; the number is given nevertheless.\<close>

definition GuildMgr_GenerateGuildId :: "GuildState \<Rightarrow> uint32 \<times> GuildState" where
  "GuildMgr_GenerateGuildId s =
     (let s1 = (if gd_nextGuildId s \<ge> 0xFFFFFFFE then gd_emit [GuildLogError] s else s)
      in (gd_nextGuildId s, s1\<lparr>gd_nextGuildId := gd_nextGuildId s + 1\<rparr>))"

definition GuildMgr_GetGuildById :: "uint32 \<Rightarrow> GuildState \<Rightarrow> uint32 option" where
  "GuildMgr_GetGuildById g s = (if g \<in> set (gd_store s) then Some g else None)"

definition toupper :: "char \<Rightarrow> char" where
  "toupper c = (let n = of_char c :: nat in if 97 \<le> n \<and> n \<le> 122 then char_of (n - 32) else c)"

definition GuildMgr_GetGuildByName :: "string \<Rightarrow> GuildState \<Rightarrow> uint32 option" where
  "GuildMgr_GetGuildByName guildName s = find (\<lambda>g. map toupper guildName = map toupper (gl_name (gld s g))) (gd_store s)"

definition GuildMgr_GetGuildByLeader :: "uint64 \<Rightarrow> GuildState \<Rightarrow> uint32 option" where
  "GuildMgr_GetGuildByLeader guid s = find (\<lambda>g. gl_leaderGuid (gld s g) = guid) (gd_store s)"

section \<open>Money of players\<close>

text \<open>The argument is an \<open>int32\<close>; for the least one the source's \<open>-d\<close> overflows.  What a guild gets of loot is \<open>gn_lootShare\<close>.\<close>

definition HasEnoughMoney :: "uint32 \<Rightarrow> GuildPlayer \<Rightarrow> bool" where
  "HasEnoughMoney amount r \<longleftrightarrow> plr_Money r \<ge> amount"

definition SetMoney :: "uint64 \<Rightarrow> uint32 \<Rightarrow> GuildState \<Rightarrow> GuildState" where
  "SetMoney p v = upd_plr p (\<lambda>r. r\<lparr>plr_Money := v\<rparr>)"

definition ModifyMoney :: "guild_env \<Rightarrow> uint64 \<Rightarrow> int \<Rightarrow> GuildState \<Rightarrow> GuildState" where
  "ModifyMoney E p d s0 =
     (let s = gd_emit [PlayerCall p (OnPlayerMoneyChanged d)] s0; money = plr_Money (plr s p) in
      if d < 0 then SetMoney p (if uint money > - d then money + of_int d else 0) s
      else if money < (of_int (MAX_MONEY_AMOUNT - d) :: uint32) then
        let s1 = (case GuildMgr_GetGuildById (plr_GuildId (plr s p)) s of
                    None \<Rightarrow> s
                  | Some g \<Rightarrow>
                      (case gn_lootShare E p d of
                         None \<Rightarrow> s
                       | Some share \<Rightarrow> upd_gld g (\<lambda>x. x\<lparr>gl_bankMoney := gl_bankMoney x + share\<rparr>) s))
        in SetMoney p (money + of_int d) (gd_emit [PlayerCall p (SendPlayerMoneyNotify d)] s1)
      else SetMoney p (of_int MAX_MONEY_AMOUNT) (if d \<noteq> 0 then gd_emit [PlayerCall p SendTooMuchGold] s else s))"

end
