(* ===== verification/Guild_Membership.thy ===== *)
theory Guild_Membership
  imports Guild_Ops
begin

text \<open>
  Members and leaders of a guild (\<^verbatim>\<open>Guild.cpp\<close>): adding and removing members, the end of a guild, its creation, experience and news,
  and what players report about themselves.
\<close>

section \<open>Adding a member\<close>

definition Guild_UpdateAccountsNumber :: "Guild \<Rightarrow> Guild" where
  "Guild_UpdateAccountsNumber x = x\<lparr>gl_accountsNumber := of_nat (length (remdups (map gm_accountId (Guild_Members x))))\<rparr>"

definition perk_spells :: "guild_env \<Rightarrow> nat \<Rightarrow> uint32 list" where
  "perk_spells E n = List.map_filter (gn_perks E) [0..<n]"

text \<open>The member object that is built for the player, if there is enough data for it.\<close>

definition Guild_BuildMember :: "guild_env \<Rightarrow> uint64 \<Rightarrow> uint8 \<Rightarrow> GuildPlayer option \<Rightarrow> GuildMember option" where
  "Guild_BuildMember E guid rankId player =
     (case player of
        Some r \<Rightarrow>
          Some (Member_SetStats E r ((Member_new E guid rankId)\<lparr>gm_flags := GUILD_MEMBER_FLAG_OFFLINE OR GUILD_MEMBER_FLAG_ONLINE\<rparr>))
      | None \<Rightarrow>
          (case gn_charData E (GUID_LOPART guid) of
             None \<Rightarrow> None
           | Some (name, level, cls, zoneId, accountId) \<Rightarrow>
               let m = Member_SetStatsFrom name level cls zoneId accountId (Member_new E guid rankId)
               in if Member_CheckStats m then Some m else None))"

definition Guild_AddMember :: "guild_env \<Rightarrow> uint32 \<Rightarrow> uint64 \<Rightarrow> uint8 \<Rightarrow> GuildState \<Rightarrow> bool \<times> GuildState" where
  "Guild_AddMember E g guid rankId0 s =
     (let player = gd_FindPlayer guid s in
      if (case player of Some r \<Rightarrow> plr_GuildId r \<noteq> 0 | None \<Rightarrow> gn_GuildIdFromDB E guid \<noteq> 0) then (False, s)
      else
        let rankId = (if rankId0 = GUILD_RANK_NONE then Guild_GetLowestRankId (gld s g) else rankId0);
            s1 = gd_emit (PlayerCall guid RemovePetitionsAndSigns #
                   (if player = None then [] else map (PlayerCall guid \<circ> LearnSpell) (perk_spells E (unat (gl_level (gld s g)))))) s
        in (case Guild_BuildMember E guid rankId player of
              None \<Rightarrow> (False, s1)
            | Some m \<Rightarrow>
                let s2 = upd_gld g (\<lambda>x. x\<lparr>gl_members := hmap_put (gn_place E) (GUID_LOPART guid) m (gl_members x)\<rparr>) s1;
                    s3 = (if length (gl_members (gld s2 g)) > 1 then Guild_HandleRoster E g None s2 else s2);
                    s4 = gd_emit (Member_SaveToDB (gl_id (gld s3 g)) m) s3;
                    s5 = (if player = None then s4
                          else SetGuildIdInvited guid 0 (SetRank guid rankId (SetInGuild guid (gl_id (gld s4 g)) s4)));
                    s6 = upd_gld g Guild_UpdateAccountsNumber s5
                in (True, gd_emit [GuildHook g (OnGuildAddMember (map_option plr_GUID player) rankId)] s6)))"

section \<open>Removing members\<close>

definition Guild_SetLeaderGUID :: "uint32 \<Rightarrow> GuildMember \<Rightarrow> GuildState \<Rightarrow> GuildState" where
  "Guild_SetLeaderGUID g m s =
     (let s1 = Member_ChangeRank g m GR_GUILDMASTER (upd_gld g (\<lambda>x. x\<lparr>gl_leaderGuid := gm_guid m\<rparr>) s)
      in gd_emit [GuildSql (CHAR_SET_GUILD_LEADER (GUID_LOPART (gm_guid m)) (gl_id (gld s1 g)))] s1)"

text \<open>
  \<open>DeleteMember\<close> takes its GUID by reference.  The reference is to a value that nobody changes meanwhile, or, when \<open>Validate\<close>
  calls it, to the member variable \<open>m_leaderGuid\<close> of the guild itself.
\<close>

datatype guid_ref = GuidValue uint64 | LeaderGuidRef

fun read_guid :: "guid_ref \<Rightarrow> Guild \<Rightarrow> uint64" where
  "read_guid (GuidValue guid) x = guid"
| "read_guid LeaderGuidRef x = gl_leaderGuid x"

text \<open>
  \<open>DeleteMember\<close> from the script call on.  \<open>guid\<close> is what the reference read at the beginning, where \<open>lowguid\<close> and \<open>player\<close> are
  computed, and \<open>now\<close> what it reads here: the member object found under \<open>now\<close> is deleted, and the entry of \<open>lowguid\<close> leaves the map.  If
  these differ the map keeps a pointer to a deleted object.
\<close>

definition Guild_EraseMemberRef :: "guild_env \<Rightarrow> uint32 \<Rightarrow> uint64 \<Rightarrow> uint64 \<Rightarrow> bool \<Rightarrow> bool \<Rightarrow> GuildState \<Rightarrow> GuildState" where
  "Guild_EraseMemberRef E g guid now isDisbanding isKicked s =
     (let player = gd_FindPlayer guid s; lowguid = GUID_LOPART guid;
          freed = (if GUID_LOPART now \<noteq> lowguid \<and> Guild_GetMember now (gld s g) \<noteq> None then [GuildMemberFreed (GUID_LOPART now)] else []);
          s1 = gd_emit (GuildHook g (OnGuildRemoveMember (map_option plr_GUID player) isDisbanding isKicked) # freed) s;
          s2 = upd_gld g (\<lambda>x. x\<lparr>gl_members := hmap_erase lowguid (gl_members x)\<rparr>) s1;
          s3 = (if gl_members (gld s2 g) \<noteq> [] then Guild_HandleRoster E g None s2 else s2);
          s4 = (if player = None then s3
                else gd_emit (map (PlayerCall guid \<circ> RemoveSpell) (perk_spells E (gn_perkRows E))) (SetRank guid 0 (SetInGuild guid 0 s3)));
          s5 = gd_emit [MemberSql (CHAR_DEL_GUILD_MEMBER lowguid)] s4
      in if isDisbanding then s5 else upd_gld g Guild_UpdateAccountsNumber s5)"

text \<open>With a value; \<open>Disband\<close> calls \<open>DeleteMember\<close> in the mode in which this is all of it.\<close>

definition Guild_EraseMember :: "guild_env \<Rightarrow> uint32 \<Rightarrow> uint64 \<Rightarrow> bool \<Rightarrow> bool \<Rightarrow> GuildState \<Rightarrow> GuildState" where
  "Guild_EraseMember E g guid = Guild_EraseMemberRef E g guid guid"

text \<open>The loop of \<open>Disband\<close>: as many rounds as there are members are enough (\<open>Disband_loop_empties\<close>).\<close>

primrec Guild_Disband_loop :: "guild_env \<Rightarrow> uint32 \<Rightarrow> nat \<Rightarrow> GuildState \<Rightarrow> GuildState" where
  "Guild_Disband_loop E g 0 s = s"
| "Guild_Disband_loop E g (Suc n) s =
     (case gl_members (gld s g) of
        [] \<Rightarrow> s
      | (k, m) # _ \<Rightarrow> Guild_Disband_loop E g n (Guild_EraseMember E g (gm_guid m) True False s))"

definition Guild_Disband :: "guild_env \<Rightarrow> uint32 \<Rightarrow> GuildState \<Rightarrow> GuildState" where
  "Guild_Disband E g s =
     (let s1 = Guild_BroadcastEvent g GE_DISBANDED 0 [] (gd_emit [GuildHook g OnGuildDisband] s);
          s2 = Guild_Disband_loop E g (length (gl_members (gld s1 g))) s1;
          gid = gl_id (gld s2 g);
          s3 = gd_emit [GuildSql (CHAR_DEL_GUILD gid), RankSql (CHAR_DEL_GUILD_RANKS gid), TabSql (CHAR_DEL_GUILD_BANK_TABS gid)] s2;
          s4 = gld_do g (Guild_DeleteBankItems True) s3;
          s5 = gd_emit [TabSql (CHAR_DEL_GUILD_BANK_ITEMS gid), RightSql (CHAR_DEL_GUILD_BANK_RIGHTS gid),
                        LogSql (CHAR_DEL_GUILD_BANK_EVENTLOGS gid), LogSql (CHAR_DEL_GUILD_EVENTLOGS gid)] s4
      in GuildMgr_RemoveGuild gid s5)"

text \<open>The member of the best rank other than the leader, the first one of several.\<close>

fun pick_leader :: "uint32 \<Rightarrow> (uint32, GuildMember) hmap \<Rightarrow> GuildMember option \<Rightarrow> GuildMember option" where
  "pick_leader lowguid [] best = best"
| "pick_leader lowguid ((k, m) # ms) best =
     pick_leader lowguid ms
       (if k = lowguid then best
        else case best of None \<Rightarrow> Some m | Some b \<Rightarrow> if gm_rankId b > gm_rankId m then Some m else Some b)"

definition Guild_DeleteMemberRef :: "guild_env \<Rightarrow> uint32 \<Rightarrow> guid_ref \<Rightarrow> bool \<Rightarrow> bool \<Rightarrow> GuildState \<Rightarrow> GuildState" where
  "Guild_DeleteMemberRef E g ref isDisbanding isKicked s =
     (let guid = read_guid ref (gld s g) in
      if gl_leaderGuid (gld s g) = guid \<and> \<not> isDisbanding then
        let lowguid = GUID_LOPART guid; ms = gl_members (gld s g) in
        (case pick_leader lowguid ms None of
           None \<Rightarrow> Guild_Disband E g s
         | Some newLeader \<Rightarrow>
             let s1 = Guild_SetLeaderGUID g newLeader s;
                 s2 = (if gd_FindPlayer (gm_guid newLeader) s1 \<noteq> None then SetRank (gm_guid newLeader) GR_GUILDMASTER s1 else s1);
                 now = read_guid ref (gld s2 g);
                 s3 = (case hmap_find ms lowguid of
                         None \<Rightarrow> s2
                       | Some oldLeader \<Rightarrow>
                           Guild_BroadcastEvent g GE_LEFT now [gm_name oldLeader]
                             (Guild_BroadcastEvent g GE_LEADER_CHANGED 0 [gm_name oldLeader, gm_name newLeader] s2))
             in Guild_EraseMemberRef E g guid now isDisbanding isKicked s3)
      else Guild_EraseMemberRef E g guid guid isDisbanding isKicked s)"

definition Guild_DeleteMember :: "guild_env \<Rightarrow> uint32 \<Rightarrow> uint64 \<Rightarrow> bool \<Rightarrow> bool \<Rightarrow> GuildState \<Rightarrow> GuildState" where
  "Guild_DeleteMember E g guid = Guild_DeleteMemberRef E g (GuidValue guid)"

definition Guild_ChangeMemberRank :: "uint32 \<Rightarrow> uint64 \<Rightarrow> uint8 \<Rightarrow> GuildState \<Rightarrow> bool \<times> GuildState" where
  "Guild_ChangeMemberRank g guid newRank s =
     (if newRank \<le> Guild_GetLowestRankId (gld s g)
      then (case Guild_GetMember guid (gld s g) of None \<Rightarrow> (False, s) | Some m \<Rightarrow> (True, Member_ChangeRank g m newRank s))
      else (False, s))"

section \<open>Experience and news\<close>

definition Guild_GenerateXPCap :: "guild_env \<Rightarrow> Guild \<Rightarrow> Guild" where
  "Guild_GenerateXPCap E x =
     (let baseXP = gn_XPForGuildLevel E (gl_level x); diff = baseXP * 15 div 100
      in x\<lparr>gl_xp_cap := (if diff < baseXP then diff + gl_xp x else baseXP)\<rparr>)"

definition xp_packet :: "Guild \<Rightarrow> packet" where
  "xp_packet x = Packet SMSG_GUILD_XP_UPDATE
     [U64 (gl_xp_cap x), U64 (gl_nextLevelXP x), U64 (gl_xp_cap x), U64 (gl_xp x), U64 (gl_today_xp x)]"

definition Guild_LevelUp :: "guild_env \<Rightarrow> uint32 \<Rightarrow> GuildState \<Rightarrow> GuildState" where
  "Guild_LevelUp E g s =
     (if \<not> gn_CONFIG_GUILD_ADVANCEMENT_ENABLED E then s
      else
        let level = gl_level (gld s g) + 1;
            s1 = upd_gld g (\<lambda>x. x\<lparr>gl_level := level, gl_nextLevelXP := gn_XPForGuildLevel E level\<rparr>) s;
            pkt = xp_packet (gld s1 g);
            spellId = (if level = 0 then 0 else case gn_perks E (unat level - 1) of None \<Rightarrow> 0 | Some sp \<Rightarrow> sp)
        in gd_emit (concat (map (\<lambda>m. let p = gm_guid m in
             [PlayerCall p (SetGuildLevelField level), GuildPacket p pkt] @ (if spellId \<noteq> 0 then [PlayerCall p (LearnSpell spellId)] else []))
             (Guild_OnlineMembers g s1))) s1)"

definition Guild_SaveXP :: "guild_env \<Rightarrow> Guild \<Rightarrow> Guild \<times> guild_event list" where
  "Guild_SaveXP E x =
     (if gn_mstime E - gl_lastXPSave x \<ge> 60000
      then (x\<lparr>gl_lastXPSave := gn_mstime E\<rparr>,
            [GuildSql (CHAR_GUILD_SAVE_XP (gl_xp x) (gl_today_xp x) (gl_xp_cap x) (ucast (gl_level x)) (gl_id x))])
      else (x, []))"

text \<open>The statement binds time and GUID with \<open>setUInt8\<close>.\<close>

definition Guild_AddGuildNews :: "guild_env \<Rightarrow> uint32 \<Rightarrow> uint32 \<Rightarrow> uint64 \<Rightarrow> uint32 \<Rightarrow> uint32 \<Rightarrow> uint32 \<Rightarrow> GuildState \<Rightarrow> GuildState" where
  "Guild_AddGuildNews E g type source_guild value1 value2 flags s =
     (let news = \<lparr>gnw_type = type, gnw_timestamp = ucast (gn_mstime E), gnw_value1 = value1, gnw_value2 = value2,
                  gnw_source_guid = source_guild, gnw_flags = flags\<rparr>;
          s1 = gd_emit [GuildSql (CHAR_ADD_GUILD_NEWS (gl_id (gld s g)) type (ucast (gn_mstime E)) value1 value2 (ucast source_guild)
                 (scast flags))] s;
          s2 = Guild_BroadcastPacket g (Packet SMSG_GUILD_NEWS_UPDATE
                 [U32 1, U32 0, U32 0, U64 source_guild, U32 value1, U32 value2, U32 type, U32 0, U32 0]) s1
      in upd_gld g (\<lambda>x. x\<lparr>gl_news := gl_news x @ [news]\<rparr>) s2)"

text \<open>
  The loop over the levels.  The local variable \<open>level\<close> is a byte: when the maximal level is at most 255 it ends within 256 rounds
  (\<open>GainXP_loop_ends\<close>).
\<close>

primrec GainXP_loop :: "guild_env \<Rightarrow> uint32 \<Rightarrow> nat \<Rightarrow> uint64 \<Rightarrow> uint64 \<Rightarrow> uint8 \<Rightarrow> GuildState \<Rightarrow> (uint64 \<times> uint8 \<times> GuildState) option" where
  "GainXP_loop E g 0 new_xp nextLvlXP level s = None"
| "GainXP_loop E g (Suc n) new_xp nextLvlXP level s =
     (if new_xp \<ge> nextLvlXP \<and> ucast level < gn_CONFIG_GUILD_ADVANCEMENT_MAX_LEVEL E
      then let s1 = Guild_LevelUp E g s in GainXP_loop E g n (new_xp - nextLvlXP) (gl_nextLevelXP (gld s1 g)) (level + 1) s1
      else Some (new_xp, level, s))"

text \<open>\<open>None\<close> stands for a loop that does not end.\<close>

definition Guild_GainXP :: "guild_env \<Rightarrow> uint32 \<Rightarrow> uint64 \<Rightarrow> GuildState \<Rightarrow> GuildState option" where
  "Guild_GainXP E g xp s =
     (let x = gld s g; new_xp = gl_xp x + xp in
      if xp = 0 then Some s
      else if \<not> gn_CONFIG_GUILD_ADVANCEMENT_ENABLED E then Some s
      else if ucast (gl_level x) \<ge> gn_CONFIG_GUILD_ADVANCEMENT_MAX_LEVEL E then Some s
      else if new_xp > gl_xp_cap x then Some s
      else
        (case GainXP_loop E g 257 new_xp (gl_nextLevelXP x) (gl_level x) s of
           None \<Rightarrow> None
         | Some (xp', level, s1) \<Rightarrow>
             let s2 = gld_do g (Guild_SaveXP E) (upd_gld g (\<lambda>x. x\<lparr>gl_xp := xp', gl_today_xp := gl_today_xp x + xp\<rparr>) s1);
                 pkt = xp_packet (gld s2 g);
                 s3 = Guild_AddGuildNews E g GUILD_NEWS_GUILD_LEVEL_REACHED 0 (ucast level) 0 0 s2
             in Some (Guild_BroadcastPacket g pkt s3)))"

section \<open>The creation of a guild\<close>

definition Guild_Create :: "guild_env \<Rightarrow> uint64 \<Rightarrow> string \<Rightarrow> GuildState \<Rightarrow> (bool \<times> uint32) \<times> GuildState" where
  "Guild_Create E p name s =
     (if GuildMgr_GetGuildByName name s \<noteq> None then ((False, 0), s)
      else
        let (gid, s1) = GuildMgr_GenerateGuildId s;
            x0 = Guild_GenerateXPCap E (Guild_new\<lparr>gl_id := gid, gl_leaderGuid := p, gl_name := name, gl_info := [],
                   gl_motd := ''No message set.'', gl_bankMoney := 0, gl_createdDate := gn_time E, gl_level := 1, gl_xp := 0, gl_today_xp := 0\<rparr>);
            x = Guild_CreateLogHolders E (x0\<lparr>gl_nextLevelXP := gn_XPForGuildLevel E (gl_level x0)\<rparr>);
            s2 = s1\<lparr>gd_guilds := (gd_guilds s1)(gid := Some x)\<rparr>;
            s3 = gd_emit [MemberSql (CHAR_DEL_GUILD_MEMBERS gid),
                   GuildSql (CHAR_ADD_GUILD gid name (GUID_LOPART p) (gl_info x) (gl_motd x) (gl_createdDate x) (gl_emblemInfo x)
                     (gl_bankMoney x) (gl_xp x) (gl_today_xp x) (gl_xp_cap x) (ucast (gl_level x))),
                   PlayerCall p (SetPlayerReputation GUILD_REPUTATION 1)] s2;
            s4 = gld_do gid (Guild_CreateDefaultGuildRanks E (gn_locale E p)) s3;
            (ret, s5) = Guild_AddMember E gid p GR_GUILDMASTER s4
        in ((ret, gid), if ret then gd_emit [GuildHook gid (OnGuildCreate p name)] s5 else s5))"

section \<open>Reports of players\<close>

definition GUILD_MEMBER_DATA_ZONEID :: uint8 where "GUILD_MEMBER_DATA_ZONEID = 0"
definition GUILD_MEMBER_DATA_ACHIEVEMENT_POINTS :: uint8 where "GUILD_MEMBER_DATA_ACHIEVEMENT_POINTS = 1"
definition GUILD_MEMBER_DATA_LEVEL :: uint8 where "GUILD_MEMBER_DATA_LEVEL = 2"
definition GUILD_MEMBER_DATA_PROFESSIONS :: uint8 where "GUILD_MEMBER_DATA_PROFESSIONS = 3"

definition Guild_UpdateMemberData :: "guild_env \<Rightarrow> uint32 \<Rightarrow> uint64 \<Rightarrow> uint8 \<Rightarrow> uint32 \<Rightarrow> GuildState \<Rightarrow> GuildState" where
  "Guild_UpdateMemberData E g p dataid value s =
     (if Guild_GetMember p (gld s g) = None then s
      else if dataid = GUILD_MEMBER_DATA_ZONEID then upd_gld g (upd_member p (\<lambda>m. m\<lparr>gm_zoneId := value\<rparr>)) s
      else if dataid = GUILD_MEMBER_DATA_ACHIEVEMENT_POINTS then upd_gld g (upd_member p (\<lambda>m. m\<lparr>gm_achievementPoints := value\<rparr>)) s
      else if dataid = GUILD_MEMBER_DATA_LEVEL then upd_gld g (upd_member p (\<lambda>m. m\<lparr>gm_level := ucast value\<rparr>)) s
      else if dataid = GUILD_MEMBER_DATA_PROFESSIONS
      then upd_gld g (upd_member p (\<lambda>m. m\<lparr>gm_professions := professions_of E p (gn_spellSkill E)\<rparr>)) s
      else gd_emit [GuildLogError] s)"

definition Guild_OnPlayerStatusChange :: "uint32 \<Rightarrow> uint64 \<Rightarrow> uint32 \<Rightarrow> bool \<Rightarrow> GuildState \<Rightarrow> GuildState" where
  "Guild_OnPlayerStatusChange g p flag state s =
     (if Guild_GetMember p (gld s g) = None then s
      else upd_gld g (upd_member p (\<lambda>m. m\<lparr>gm_flags := (if state then gm_flags m OR ucast flag else gm_flags m AND NOT (ucast flag))\<rparr>)) s)"

end
