(* ===== verification/Guild_Commands.thy ===== *)
theory Guild_Commands
  imports Guild_Membership
begin

text \<open>
  The client commands of \<open>Guild\<close> (\<^verbatim>\<open>Guild.cpp\<close>, the methods \<open>HandleX\<close> and \<open>SendX\<close>), for the guild \<open>g\<close> and the player \<open>p\<close> of
  the session.
\<close>

section \<open>Texts, emblem, leader, notes\<close>

definition Guild_HandleSetMOTD :: "uint32 \<Rightarrow> uint64 \<Rightarrow> string \<Rightarrow> GuildState \<Rightarrow> GuildState" where
  "Guild_HandleSetMOTD g p motd s =
     (if gl_motd (gld s g) = motd then s
      else if \<not> Guild_HasRankRight (plr s p) GR_RIGHT_SETMOTD (gld s g)
      then SendCommandResult p GUILD_INVITE_S ERR_GUILD_PERMISSIONS [] s
      else
        let s1 = upd_gld g (\<lambda>x. x\<lparr>gl_motd := motd\<rparr>) s
        in Guild_BroadcastEvent g GE_MOTD 0 [motd]
             (gd_emit [GuildHook g (OnGuildMOTDChanged motd), GuildSql (CHAR_SET_GUILD_MOTD motd (gl_id (gld s1 g)))] s1))"

definition Guild_HandleSetInfo :: "uint32 \<Rightarrow> uint64 \<Rightarrow> string \<Rightarrow> GuildState \<Rightarrow> GuildState" where
  "Guild_HandleSetInfo g p info s =
     (if gl_info (gld s g) = info then s
      else if \<not> Guild_HasRankRight (plr s p) GR_RIGHT_MODIFY_GUILD_INFO (gld s g)
      then SendCommandResult p GUILD_CREATE_S ERR_GUILD_PERMISSIONS [] s
      else
        let s1 = upd_gld g (\<lambda>x. x\<lparr>gl_info := info\<rparr>) s
        in gd_emit [GuildHook g (OnGuildInfoChanged info), GuildSql (CHAR_SET_GUILD_INFO info (gl_id (gld s1 g)))] s1)"

definition Guild_HandleSetEmblem :: "guild_env \<Rightarrow> uint32 \<Rightarrow> uint64 \<Rightarrow> EmblemInfo \<Rightarrow> GuildState \<Rightarrow> GuildState" where
  "Guild_HandleSetEmblem E g p emblemInfo s =
     (if \<not> Guild_IsLeader (plr s p) (gld s g) then SendSaveEmblemResult p ERR_GUILDEMBLEM_NOTGUILDMASTER s
      else if \<not> HasEnoughMoney EMBLEM_PRICE (plr s p) then SendSaveEmblemResult p ERR_GUILDEMBLEM_NOTENOUGHMONEY s
      else
        let s1 = ModifyMoney E p (- sint EMBLEM_PRICE) s;
            s2 = upd_gld g (\<lambda>x. x\<lparr>gl_emblemInfo := emblemInfo\<rparr>) s1;
            s3 = gd_emit [GuildSql (CHAR_SET_GUILD_EMBLEM_INFO emblemInfo (gl_id (gld s2 g)))] s2
        in Guild_HandleQuery g p (SendSaveEmblemResult p ERR_GUILDEMBLEM_SUCCESS s3))"

definition Guild_GetMemberByName :: "string \<Rightarrow> Guild \<Rightarrow> GuildMember option" where
  "Guild_GetMemberByName name x = find (\<lambda>m. gm_name m = name) (Guild_Members x)"

definition Guild_HandleSetLeader :: "uint32 \<Rightarrow> uint64 \<Rightarrow> string \<Rightarrow> GuildState \<Rightarrow> GuildState" where
  "Guild_HandleSetLeader g p name s =
     (if \<not> Guild_IsLeader (plr s p) (gld s g) then SendCommandResult p GUILD_INVITE_S ERR_GUILD_PERMISSIONS [] s
      else
        (case Guild_GetMember p (gld s g) of
           None \<Rightarrow> SendCommandResult p GUILD_INVITE_S ERR_GUILD_PERMISSIONS [] s
         | Some oldLeader \<Rightarrow>
             (case Guild_GetMemberByName name (gld s g) of
                None \<Rightarrow> SendCommandResult p GUILD_INVITE_S ERR_GUILD_PLAYER_NOT_IN_GUILD_S name s
              | Some newLeader \<Rightarrow>
                  Guild_BroadcastEvent g GE_LEADER_CHANGED 0 [plr_Name (plr s p), name]
                    (Member_ChangeRank g oldLeader GR_OFFICER (Guild_SetLeaderGUID g newLeader s)))))"

definition Guild_HandleSetMemberNote :: "guild_env \<Rightarrow> uint32 \<Rightarrow> uint64 \<Rightarrow> uint64 \<Rightarrow> string \<Rightarrow> bool \<Rightarrow> GuildState \<Rightarrow> GuildState" where
  "Guild_HandleSetMemberNote E g p guid note officer s =
     (if \<not> Guild_HasRankRight (plr s p) (if officer then GR_RIGHT_EOFFNOTE else GR_RIGHT_EPNOTE) (gld s g)
      then SendCommandResult p GUILD_INVITE_S ERR_GUILD_PERMISSIONS [] s
      else
        (case Guild_GetMember guid (gld s g) of
           None \<Rightarrow> s
         | Some m \<Rightarrow>
             let (m1, es) = (if officer then Member_SetOfficerNote note m else Member_SetPublicNote note m)
             in Guild_HandleRoster E g (Some p) (gd_emit es (upd_gld g (upd_member guid (\<lambda>_. m1)) s))))"

section \<open>Ranks\<close>

definition Guild_SetTabs :: "uint8 \<Rightarrow> GuildBankRightsAndSlots list \<Rightarrow> Guild \<Rightarrow> Guild \<times> guild_event list" where
  "Guild_SetTabs rankId rightsAndSlots x0 =
     fold (\<lambda>(tabId, rs) (x, es). let (x1, es1) = Guild_SetRankBankTabRightsAndSlots rankId tabId rs True x in (x1, es @ es1))
       (zip (map of_nat [0..<length rightsAndSlots]) rightsAndSlots) (x0, [])"

definition Guild_HandleSetRankInfo ::
  "guild_env \<Rightarrow> uint32 \<Rightarrow> uint64 \<Rightarrow> uint8 \<Rightarrow> string \<Rightarrow> uint32 \<Rightarrow> uint32 \<Rightarrow> GuildBankRightsAndSlots list \<Rightarrow> GuildState \<Rightarrow> GuildState" where
  "Guild_HandleSetRankInfo E g p rankId name rights moneyPerDay rightsAndSlots s =
     (if \<not> Guild_IsLeader (plr s p) (gld s g) then SendCommandResult p GUILD_INVITE_S ERR_GUILD_PERMISSIONS [] s
      else if Guild_GetRankInfo rankId (gld s g) = None then s
      else
        let gid = gl_id (gld s g);
            s1 = gld_do g (upd_rank rankId (RankInfo_SetName gid name)) s;
            s2 = gld_do g (upd_rank rankId (RankInfo_SetRights gid rights)) s1;
            s3 = gld_do g (Guild_SetRankBankMoneyPerDay rankId moneyPerDay) s2;
            s4 = gld_do g (Guild_SetTabs rankId rightsAndSlots) s3
        in Guild_HandleRoster E g None (Guild_HandleQuery g p s4))"

definition Guild_HandleAddNewRank :: "guild_env \<Rightarrow> uint32 \<Rightarrow> uint64 \<Rightarrow> string \<Rightarrow> GuildState \<Rightarrow> GuildState" where
  "Guild_HandleAddNewRank E g p name s =
     (if Guild_GetRanksSize (gld s g) \<ge> GUILD_RANKS_MAX_COUNT then s
      else if \<not> Guild_IsLeader (plr s p) (gld s g) then SendCommandResult p GUILD_INVITE_S ERR_GUILD_PERMISSIONS [] s
      else Guild_HandleRoster E g None
             (Guild_HandleQuery g p (gld_do g (Guild_CreateRank name (GR_RIGHT_GCHATLISTEN OR GR_RIGHT_GCHATSPEAK)) s)))"

definition Guild_HandleRemoveRank :: "guild_env \<Rightarrow> uint32 \<Rightarrow> uint64 \<Rightarrow> uint8 \<Rightarrow> GuildState \<Rightarrow> GuildState" where
  "Guild_HandleRemoveRank E g p rankId s =
     (if Guild_GetRanksSize (gld s g) \<le> GUILD_RANKS_MIN_COUNT \<or> rankId \<ge> Guild_GetRanksSize (gld s g) then s
      else if \<not> Guild_IsLeader (plr s p) (gld s g) then SendCommandResult p GUILD_INVITE_S ERR_GUILD_PERMISSIONS [] s
      else
        let gid = gl_id (gld s g);
            s1 = gd_emit [RightSql (CHAR_DEL_GUILD_BANK_RIGHTS_FOR_RANK gid rankId), RankSql (CHAR_DEL_GUILD_LOWEST_RANK gid rankId)] s;
            s2 = upd_gld g (\<lambda>x. x\<lparr>gl_ranks := take (unat rankId) (gl_ranks x) @ drop (Suc (unat rankId)) (gl_ranks x)\<rparr>) s1
        in Guild_HandleRoster E g None (Guild_HandleQuery g p s2))"

definition Guild_HandleUpdateMemberRank :: "guild_env \<Rightarrow> uint32 \<Rightarrow> uint64 \<Rightarrow> uint64 \<Rightarrow> bool \<Rightarrow> GuildState \<Rightarrow> GuildState" where
  "Guild_HandleUpdateMemberRank E g p guid demote s =
     (let x = gld s g; player = plr s p in
      if \<not> Guild_HasRankRight player (if demote then GR_RIGHT_DEMOTE else GR_RIGHT_PROMOTE) x
      then SendCommandResult p GUILD_INVITE_S ERR_GUILD_PERMISSIONS [] s
      else
        (case Guild_GetMember guid x of
           None \<Rightarrow> s
         | Some m \<Rightarrow>
             if gm_guid m = p then SendCommandResult p GUILD_INVITE_S ERR_GUILD_NAME_INVALID [] s
             else if demote \<and> gm_rankId m \<le> plr_Rank player
             then SendCommandResult p GUILD_INVITE_S ERR_GUILD_RANK_TOO_HIGH_S (gm_name m) s
             else if demote \<and> gm_rankId m \<ge> Guild_GetLowestRankId x
             then SendCommandResult p GUILD_INVITE_S ERR_GUILD_RANK_TOO_LOW_S (gm_name m) s
             else if \<not> demote \<and> gm_rankId m \<le> plr_Rank player + 1
             then SendCommandResult p GUILD_INVITE_S ERR_GUILD_RANK_TOO_HIGH_S (gm_name m) s
             else
               let newRankId = (if demote then gm_rankId m + 1 else gm_rankId m - 1);
                   s1 = Member_ChangeRank g m newRankId s;
                   s2 = Guild_LogEvent E g (if demote then GUILD_EVENT_LOG_DEMOTE_PLAYER else GUILD_EVENT_LOG_PROMOTE_PLAYER)
                          (GUID_LOPART p) (GUID_LOPART (gm_guid m)) newRankId s1;
                   s3 = Guild_BroadcastEvent g (if demote then GE_DEMOTION else GE_PROMOTION) 0
                          [plr_Name player, gm_name m, Guild_GetRankName newRankId (gld s2 g)] s2
               in Guild_HandleRoster E g None s3))"

section \<open>Members\<close>

definition Guild_HandleInviteMember :: "guild_env \<Rightarrow> uint32 \<Rightarrow> uint64 \<Rightarrow> string \<Rightarrow> GuildState \<Rightarrow> GuildState" where
  "Guild_HandleInviteMember E g p name s =
     (case gd_FindPlayerByName name s of
        None \<Rightarrow> SendCommandResult p GUILD_INVITE_S ERR_GUILD_PLAYER_NOT_FOUND_S name s
      | Some invitee \<Rightarrow>
          let player = plr s p in
          if HasIgnore (GUID_LOPART p) (GetSocial (gn_socials E) (Player.truncate invitee)) then s
          else if \<not> gn_CONFIG_ALLOW_TWO_SIDE_INTERACTION_GUILD E \<and> plr_Team invitee \<noteq> plr_Team player
          then SendCommandResult p GUILD_INVITE_S ERR_GUILD_NOT_ALLIED name s
          else if plr_GuildId invitee \<noteq> 0 then SendCommandResult p GUILD_INVITE_S ERR_ALREADY_IN_GUILD_S name s
          else if plr_GuildIdInvited invitee \<noteq> 0 then SendCommandResult p GUILD_INVITE_S ERR_ALREADY_INVITED_TO_GUILD_S name s
          else if \<not> Guild_HasRankRight player GR_RIGHT_INVITE (gld s g)
          then SendCommandResult p GUILD_INVITE_S ERR_GUILD_PERMISSIONS [] s
          else
            let q = plr_GUID invitee; gid = gl_id (gld s g);
                s1 = SetGuildIdInvited q gid s;
                s2 = Guild_LogEvent E g GUILD_EVENT_LOG_INVITE_PLAYER (GUID_LOPART p) (GUID_LOPART q) 0 s1
            in gd_emit [GuildPacket q (Packet SMSG_GUILD_INVITE
                 [U32 0, U32 0, U32 0, U32 0, U64 p, Str (plr_Name invitee), Str (plr_Name player), U32 0, U32 0,
                  U64 (MAKE_NEW_GUID (ucast gid) 0 HIGHGUID_GUILD), Str (gl_name (gld s2 g))])] s2)"

definition Guild_HandleAcceptMember :: "guild_env \<Rightarrow> uint32 \<Rightarrow> uint64 \<Rightarrow> GuildState \<Rightarrow> GuildState" where
  "Guild_HandleAcceptMember E g p s =
     (if \<not> gn_CONFIG_ALLOW_TWO_SIDE_INTERACTION_GUILD E \<and> plr_Team (plr s p) \<noteq> gn_TeamByGUID E (gl_leaderGuid (gld s g)) then s
      else
        let (ok, s1) = Guild_AddMember E g p GUILD_RANK_NONE s in
        if ok
        then gd_emit [PlayerCall p (SetPlayerReputation GUILD_REPUTATION 1)]
               (Guild_BroadcastEvent g GE_JOINED p [plr_Name (plr s p)]
                  (Guild_LogEvent E g GUILD_EVENT_LOG_JOIN_GUILD (GUID_LOPART p) 0 0 s1))
        else s1)"

definition Guild_HandleLeaveMember :: "guild_env \<Rightarrow> uint32 \<Rightarrow> uint64 \<Rightarrow> GuildState \<Rightarrow> GuildState" where
  "Guild_HandleLeaveMember E g p s =
     (if Guild_IsLeader (plr s p) (gld s g) then
        if length (gl_members (gld s g)) > 1 then SendCommandResult p GUILD_QUIT_S ERR_GUILD_LEADER_LEAVE [] s
        else Guild_Disband E g s
      else
        let s1 = Guild_DeleteMember E g p False False s;
            s2 = Guild_LogEvent E g GUILD_EVENT_LOG_LEAVE_GUILD (GUID_LOPART p) 0 0 s1;
            s3 = Guild_BroadcastEvent g GE_LEFT p [plr_Name (plr s p)] s2;
            s4 = gd_emit [PlayerCall p (SetPlayerReputation GUILD_REPUTATION (- 1))] s3
        in SendCommandResult p GUILD_QUIT_S ERR_PLAYER_NO_MORE_IN_GUILD (gl_name (gld s4 g)) s4)"

definition Guild_HandleRemoveMember :: "guild_env \<Rightarrow> uint32 \<Rightarrow> uint64 \<Rightarrow> uint64 \<Rightarrow> GuildState \<Rightarrow> GuildState" where
  "Guild_HandleRemoveMember E g p guid s =
     (let player = plr s p in
      if \<not> Guild_HasRankRight player GR_RIGHT_REMOVE (gld s g) then SendCommandResult p GUILD_INVITE_S ERR_GUILD_PERMISSIONS [] s
      else
        (case Guild_GetMember guid (gld s g) of
           None \<Rightarrow> s
         | Some m \<Rightarrow>
             if gm_rankId m = GR_GUILDMASTER then SendCommandResult p GUILD_QUIT_S ERR_GUILD_LEADER_LEAVE [] s
             else if gm_rankId m \<le> plr_Rank player then SendCommandResult p GUILD_QUIT_S ERR_GUILD_RANK_TOO_HIGH_S (gm_name m) s
             else
               let s1 = Guild_DeleteMember E g guid False True s;
                   s2 = Guild_LogEvent E g GUILD_EVENT_LOG_UNINVITE_PLAYER (GUID_LOPART p) (GUID_LOPART guid) 0 s1;
                   s3 = Guild_BroadcastEvent g GE_REMOVED 0 [gm_name m, plr_Name player] s2
               in gd_emit [PlayerCall p (SetPlayerReputation GUILD_REPUTATION (- 1))] s3))"

definition Guild_HandleMemberLogout :: "guild_env \<Rightarrow> uint32 \<Rightarrow> uint64 \<Rightarrow> GuildState \<Rightarrow> GuildState" where
  "Guild_HandleMemberLogout E g p s =
     (let s1 = (if Guild_GetMember p (gld s g) = None then s
                else upd_gld g (upd_member p (\<lambda>m. (Member_SetStats E (plr s p) m)
                       \<lparr>gm_logoutTime := gn_time E, gm_flags := GUILD_MEMBER_FLAG_OFFLINE\<rparr>)) s)
      in Guild_BroadcastEvent g GE_SIGNED_OFF p [plr_Name (plr s p)] s1)"

definition Guild_HandleDisband :: "guild_env \<Rightarrow> uint32 \<Rightarrow> uint64 \<Rightarrow> GuildState \<Rightarrow> GuildState" where
  "Guild_HandleDisband E g p s =
     (if \<not> Guild_IsLeader (plr s p) (gld s g) then SendCommandResult p GUILD_INVITE_S ERR_GUILD_PERMISSIONS [] s
      else Guild_Disband E g s)"

section \<open>The bank\<close>

definition Guild_HandleSetBankTabInfo :: "guild_env \<Rightarrow> uint32 \<Rightarrow> uint64 \<Rightarrow> uint8 \<Rightarrow> string \<Rightarrow> string \<Rightarrow> GuildState \<Rightarrow> GuildState" where
  "Guild_HandleSetBankTabInfo E g p tabId name icon s =
     (case Guild_GetBankTab tabId (gld s g) of
        None \<Rightarrow> s
      | Some tab \<Rightarrow>
          let (tab1, es) = BankTab_SetInfo (gl_id (gld s g)) name icon tab;
              s1 = gd_emit es (upd_gld g (\<lambda>x. x\<lparr>gl_bankTabs := (gl_bankTabs x)[unat tabId := tab1]\<rparr>) s)
          in Guild_SendBankContent E g p tabId (Guild_SendBankTabsInfo E g p s1))"

definition BankTab_SendText :: "uint32 \<Rightarrow> uint64 option \<Rightarrow> BankTab \<Rightarrow> GuildState \<Rightarrow> GuildState" where
  "BankTab_SendText g session tab =
     Guild_SendOrBroadcast g session (Packet MSG_QUERY_GUILD_BANK_TEXT [U8 (bt_tabId tab), Str (bt_text tab)])"

definition Guild_SetBankTabText :: "guild_env \<Rightarrow> uint32 \<Rightarrow> uint8 \<Rightarrow> string \<Rightarrow> GuildState \<Rightarrow> GuildState" where
  "Guild_SetBankTabText E g tabId text s =
     (case Guild_GetBankTab tabId (gld s g) of
        None \<Rightarrow> s
      | Some tab \<Rightarrow>
          let (tab1, es) = BankTab_SetText E (gl_id (gld s g)) text tab;
              s1 = gd_emit es (upd_gld g (\<lambda>x. x\<lparr>gl_bankTabs := (gl_bankTabs x)[unat tabId := tab1]\<rparr>) s)
          in BankTab_SendText g None tab1 s1)"

definition GetGuildBankTabPrice :: "uint8 \<Rightarrow> uint32" where
  "GetGuildBankTabPrice tabId =
     (if tabId = 0 then 100 else if tabId = 1 then 250 else if tabId = 2 then 500 else if tabId = 3 then 1000
      else if tabId = 4 then 2500 else if tabId = 5 then 5000 else 0)"

definition Guild_HandleBuyBankTab :: "guild_env \<Rightarrow> uint32 \<Rightarrow> uint64 \<Rightarrow> uint8 \<Rightarrow> GuildState \<Rightarrow> GuildState" where
  "Guild_HandleBuyBankTab E g p tabId s =
     (let tabCost = GetGuildBankTabPrice tabId * GOLD in
      if tabId \<noteq> Guild_GetPurchasedTabsSize (gld s g) then s
      else if tabCost = 0 then s
      else if \<not> HasEnoughMoney tabCost (plr s p) then s
      else
        let (ok, s1) = Guild_CreateNewBankTab g s in
        if \<not> ok then s1
        else
          let s2 = ModifyMoney E p (- sint tabCost) s1; rankId = plr_Rank (plr s2 p);
              s3 = gld_do g (Guild_SetRankBankMoneyPerDay rankId GUILD_WITHDRAW_MONEY_UNLIMITED) s2;
              s4 = gld_do g (Guild_SetRankBankTabRightsAndSlots rankId tabId
                     \<lparr>rs_rights = GUILD_BANK_RIGHT_FULL, rs_slots = GUILD_WITHDRAW_SLOT_UNLIMITED\<rparr> True) s3
          in Guild_SendBankTabsInfo E g p (Guild_HandleRoster E g None s4))"

definition Guild_HandleMemberDepositMoney :: "guild_env \<Rightarrow> uint32 \<Rightarrow> uint64 \<Rightarrow> uint32 \<Rightarrow> GuildState \<Rightarrow> GuildState" where
  "Guild_HandleMemberDepositMoney E g p amount s =
     (if Guild_GetPurchasedTabsSize (gld s g) = 0 then s
      else
        let s1 = gd_emit [GuildHook g (OnGuildMemberDepositMoney p amount)] s;
            s2 = snd (Guild_ModifyBankMoney g (ucast amount) True s1);
            s3 = gd_emit [PlayerCall p (SaveGoldToDB (plr_Money (plr (ModifyMoney E p (wrap32 (- sint amount)) s2) p)))]
                   (ModifyMoney E p (wrap32 (- sint amount)) s2);
            s4 = (if plr_Security (plr s3 p) > SEC_PLAYER \<and> gn_CONFIG_GM_LOG_TRADE E then gd_emit [PlayerCall p GmCommandLog] s3 else s3);
            s5 = Guild_LogBankEvent E g GUILD_BANK_LOG_DEPOSIT_MONEY 0 (GUID_LOPART p) amount 0 0 s4
        in Guild_SendBankMoneyUpdate E g p (Guild_SendBankContent E g p 0 (Guild_SendBankTabsInfo E g p s5)))"

definition Guild_HandleMemberWithdrawMoney :: "guild_env \<Rightarrow> uint32 \<Rightarrow> uint64 \<Rightarrow> uint32 \<Rightarrow> bool \<Rightarrow> GuildState \<Rightarrow> bool \<times> GuildState" where
  "Guild_HandleMemberWithdrawMoney E g p amount repair s =
     (if Guild_GetPurchasedTabsSize (gld s g) = 0 then (False, s)
      else if gl_bankMoney (gld s g) < ucast amount then (False, s)
      else if \<not> Guild_HasRankRight (plr s p) (if repair then GR_RIGHT_WITHDRAW_REPAIR else GR_RIGHT_WITHDRAW_GOLD) (gld s g) then (False, s)
      else
        let (remainingMoney, s1) = Guild_GetMemberRemaining E g p GUILD_BANK_MAX_TABS s in
        if remainingMoney = 0 then (False, s1)
        else if remainingMoney < amount then (False, s1)
        else
          let s2 = gd_emit [GuildHook g (OnGuildMemberWitdrawMoney p amount repair)] s1;
              s3 = (if remainingMoney < GUILD_WITHDRAW_MONEY_UNLIMITED
                    then (case Guild_GetMember p (gld s2 g) of
                            None \<Rightarrow> s2
                          | Some m \<Rightarrow>
                              let (m1, es) = Member_DecreaseBankRemainingValue (gl_id (gld s2 g)) GUILD_BANK_MAX_TABS amount m
                              in gd_emit es (upd_gld g (upd_member p (\<lambda>_. m1)) s2))
                    else s2);
              s4 = snd (Guild_ModifyBankMoney g (ucast amount) False s3);
              s5 = (if repair then s4
                    else gd_emit [PlayerCall p (SaveGoldToDB (plr_Money (plr (ModifyMoney E p (sint amount) s4) p)))]
                           (ModifyMoney E p (sint amount) s4));
              s6 = Guild_LogBankEvent E g (if repair then GUILD_BANK_LOG_REPAIR_MONEY else GUILD_BANK_LOG_WITHDRAW_MONEY) 0
                     (GUID_LOPART p) amount 0 0 s5;
              s7 = Guild_SendMoneyInfo E g p s6
          in (True, if repair then s7
                    else Guild_SendBankMoneyUpdate E g p (Guild_SendBankContent E g p 0 (Guild_SendBankTabsInfo E g p s7))))"

section \<open>Data for clients\<close>

definition Guild_SendInfo :: "guild_env \<Rightarrow> uint32 \<Rightarrow> uint64 \<Rightarrow> GuildState \<Rightarrow> GuildState" where
  "Guild_SendInfo E g p s =
     (let x = gld s g in
      gd_emit [GuildPacket p (Packet SMSG_GUILD_INFO
        [Str (gl_name x), U32 (gn_timeBitFields E (gl_createdDate x)), U32 (of_nat (length (gl_members x))), U32 (gl_accountsNumber x)])] s)"

definition Guild_SendEventLog :: "guild_env \<Rightarrow> uint32 \<Rightarrow> uint64 \<Rightarrow> GuildState \<Rightarrow> GuildState" where
  "Guild_SendEventLog E g p s =
     gd_emit [GuildPacket p (Packet MSG_GUILD_EVENT_LOG_QUERY
       (LogHolder_WritePacket (EventLogEntry_WritePacket E) (gl_eventLog (gld s g))))] s"

definition Guild_SendBankLog :: "guild_env \<Rightarrow> uint32 \<Rightarrow> uint64 \<Rightarrow> uint8 \<Rightarrow> GuildState \<Rightarrow> GuildState" where
  "Guild_SendBankLog E g p tabId s =
     (if tabId < Guild_GetPurchasedTabsSize (gld s g) \<or> tabId = GUILD_BANK_MAX_TABS
      then gd_emit [GuildPacket p (Packet MSG_GUILD_BANK_LOG_QUERY
             (U8 tabId # LogHolder_WritePacket (BankEventLogEntry_WritePacket E) (gl_bankEventLog (gld s g) ! unat tabId)))] s
      else s)"

definition Guild_SendBankTabData :: "guild_env \<Rightarrow> uint32 \<Rightarrow> uint64 \<Rightarrow> uint8 \<Rightarrow> GuildState \<Rightarrow> GuildState" where
  "Guild_SendBankTabData E g p tabId s =
     (if tabId < Guild_GetPurchasedTabsSize (gld s g) then Guild_SendBankContent E g p tabId (Guild_SendMoneyInfo E g p s) else s)"

definition Guild_SendBankTabText :: "uint32 \<Rightarrow> uint64 \<Rightarrow> uint8 \<Rightarrow> GuildState \<Rightarrow> GuildState" where
  "Guild_SendBankTabText g p tabId s =
     (case Guild_GetBankTab tabId (gld s g) of None \<Rightarrow> s | Some tab \<Rightarrow> BankTab_SendText g (Some p) tab s)"

definition tab_permissions :: "guild_env \<Rightarrow> uint32 \<Rightarrow> uint64 \<Rightarrow> uint8 \<Rightarrow> uint8 \<Rightarrow> field list \<times> GuildState \<Rightarrow> field list \<times> GuildState" where
  "tab_permissions E g p rankId tabId = (\<lambda>(fs, s).
     let (slots, s1) = Guild_GetMemberRemaining E g p tabId s
     in (fs @ [U32 (ucast (Guild_GetRankBankTabRights rankId tabId (gld s g))), U32 slots], s1))"

definition Guild_SendPermissions :: "guild_env \<Rightarrow> uint32 \<Rightarrow> uint64 \<Rightarrow> GuildState \<Rightarrow> GuildState" where
  "Guild_SendPermissions E g p s =
     (let rankId = plr_Rank (plr s p); x = gld s g;
          (money, s1) = Guild_GetMemberRemaining E g p GUILD_BANK_MAX_TABS s;
          (fs, s2) = fold (tab_permissions E g p rankId) (map of_nat [0..<unat GUILD_BANK_MAX_TABS]) ([], s1)
      in Guild_SendGuildRankInfo g (Some p)
           (gd_emit [GuildPacket p (Packet MSG_GUILD_PERMISSIONS
              ([U32 (ucast rankId), U32 (Guild_GetRankRights rankId x), U32 money, U8 (Guild_GetPurchasedTabsSize x)] @ fs))] s2))"

definition Guild_SendLoginInfo :: "guild_env \<Rightarrow> uint32 \<Rightarrow> uint64 \<Rightarrow> GuildState \<Rightarrow> GuildState" where
  "Guild_SendLoginInfo E g p s =
     (let s1 = gd_emit [GuildPacket p (Packet SMSG_GUILD_EVENT [U8 GE_MOTD, U8 2, Str (gl_motd (gld s g)), U8 0])] s;
          s2 = Guild_SendBankTabsInfo E g p s1;
          s3 = Guild_BroadcastEvent g GE_SIGNED_ON p [plr_Name (plr s2 p)] s2
      in if Guild_GetMember p (gld s3 g) = None then s3
         else upd_gld g (upd_member p (\<lambda>m. (Member_SetStats E (plr s3 p) m)\<lparr>gm_flags := gm_flags m OR GUILD_MEMBER_FLAG_ONLINE\<rparr>)) s3)"

definition guild_news_fields :: "guild_env \<Rightarrow> Guild \<Rightarrow> field list" where
  "guild_news_fields E x =
     (let ns = gl_news x in
      [U32 (of_nat (length ns))] @ map (\<lambda>_. U32 0) ns @ map (\<lambda>n. U32 (ucast (ucast (gn_mstime E) - gnw_timestamp n))) ns @
      map (\<lambda>n. U64 (MAKE_NEW_GUID (gnw_source_guid n) 0 HIGHGUID_PLAYER)) ns @
      concat (map (\<lambda>n. [U32 (gnw_value1 n), U32 (gnw_value2 n)]) ns) @
      map (\<lambda>n. U32 (gnw_type n)) ns @ map (\<lambda>n. U32 (gnw_flags n)) ns @ map (\<lambda>_. U32 0) ns)"

end
