(* ===== verification/Guild_Handlers.thy ===== *)
theory Guild_Handlers
  imports Guild_Commands
begin

text \<open>
  The client messages of \<^verbatim>\<open>GuildHandler.cpp\<close>, and login and logout as far as guilds are concerned (\<^verbatim>\<open>CharacterHandler.cpp\<close>,
  \<^verbatim>\<open>WorldSession.cpp\<close>).  A packet that is too short ends the handler with an exception, which the session catches; nothing was changed
  before.  The message that moves items is not here.
\<close>

definition SMSG_GUILD_REWARDS_LIST :: uint32 where "SMSG_GUILD_REWARDS_LIST = 0x0C4C"

definition gd_parse :: "bb_error + 'a \<Rightarrow> ('a \<Rightarrow> GuildState) \<Rightarrow> GuildState \<Rightarrow> GuildState" where
  "gd_parse r f s = (case r of Inl e \<Rightarrow> gd_emit [GuildPacketError e] s | Inr x \<Rightarrow> f x)"

text \<open>\<open>_GetPlayerGuild\<close>, with what is done with the guild.\<close>

definition GetPlayerGuild :: "uint64 \<Rightarrow> GuildState \<Rightarrow> uint32 option" where
  "GetPlayerGuild p s = (let g = plr_GuildId (plr s p) in if g \<noteq> 0 then GuildMgr_GetGuildById g s else None)"

definition with_guild :: "uint64 \<Rightarrow> (uint32 \<Rightarrow> GuildState \<Rightarrow> GuildState) \<Rightarrow> GuildState \<Rightarrow> GuildState" where
  "with_guild p f s = (case GetPlayerGuild p s of None \<Rightarrow> s | Some g \<Rightarrow> f g s)"

definition with_guild_or_error :: "uint64 \<Rightarrow> (uint32 \<Rightarrow> GuildState \<Rightarrow> GuildState) \<Rightarrow> GuildState \<Rightarrow> GuildState" where
  "with_guild_or_error p f s =
     (case GetPlayerGuild p s of None \<Rightarrow> SendCommandResult p GUILD_CREATE_S ERR_GUILD_PLAYER_NOT_IN_GUILD [] s | Some g \<Rightarrow> f g s)"

section \<open>Queries\<close>

definition HandleGuildQueryOpcode :: "uint64 \<Rightarrow> WorldPacket \<Rightarrow> GuildState \<Rightarrow> GuildState" where
  "HandleGuildQueryOpcode p recvPacket s =
     gd_parse (in_u64 recvPacket) (\<lambda>(guildId, d0).
     gd_parse (in_u64 d0) (\<lambda>_.
       case GuildMgr_GetGuildById (GUID_LOPART guildId) s of
         None \<Rightarrow> SendCommandResult p GUILD_CREATE_S ERR_GUILD_PLAYER_NOT_IN_GUILD [] s
       | Some g \<Rightarrow> Guild_HandleQuery g p s) s) s"

definition HandleGuildInfoOpcode :: "guild_env \<Rightarrow> uint64 \<Rightarrow> GuildState \<Rightarrow> GuildState" where
  "HandleGuildInfoOpcode E p = with_guild_or_error p (\<lambda>g. Guild_SendInfo E g p)"

definition HandleGuildRosterOpcode :: "guild_env \<Rightarrow> uint64 \<Rightarrow> GuildState \<Rightarrow> GuildState" where
  "HandleGuildRosterOpcode E p = with_guild p (\<lambda>g. Guild_HandleRoster E g (Some p))"

definition HandleGuildExperienceOpcode :: "uint64 \<Rightarrow> WorldPacket \<Rightarrow> GuildState \<Rightarrow> GuildState" where
  "HandleGuildExperienceOpcode p recvPacket s =
     gd_parse (bb_read_skip 8 recvPacket) (\<lambda>_.
       case GuildMgr_GetGuildById (plr_GuildId (plr s p)) s of
         None \<Rightarrow> s
       | Some g \<Rightarrow> gd_emit [GuildPacket p (xp_packet (gld s g))] s) s"

definition HandleGuildMaxExperienceOpcode :: "uint64 \<Rightarrow> WorldPacket \<Rightarrow> GuildState \<Rightarrow> GuildState" where
  "HandleGuildMaxExperienceOpcode p recvPacket s =
     gd_parse (bb_read_skip 8 recvPacket) (\<lambda>_.
       case GuildMgr_GetGuildById (plr_GuildId (plr s p)) s of
         None \<Rightarrow> s
       | Some g \<Rightarrow> gd_emit [GuildPacket p (Packet SMSG_GUILD_MAX_DAILY_XP [U64 (gl_xp_cap (gld s g))])] s) s"

definition HandleGuildRewardsOpcode :: "guild_env \<Rightarrow> uint64 \<Rightarrow> WorldPacket \<Rightarrow> GuildState \<Rightarrow> GuildState" where
  "HandleGuildRewardsOpcode E p recvPacket s =
     (if plr_GuildId (plr s p) = 0 \<or> \<not> gn_CONFIG_GUILD_ADVANCEMENT_ENABLED E then s
      else gd_parse (bb_read_skip 8 recvPacket) (\<lambda>_.
        let vec = gn_guildRewards E in
        if vec = [] then s
        else gd_emit [GuildPacket p (Packet SMSG_GUILD_REWARDS_LIST
          ([U32 (plr_GuildId (plr s p)), U32 (of_nat (length vec))] @ map (\<lambda>_. U32 0) vec @ map (\<lambda>_. U32 0) vec @
           map (\<lambda>(price, ach, standing, item). U64 price) vec @ map (\<lambda>(price, ach, standing, item). U32 ach) vec @
           map (\<lambda>(price, ach, standing, item). U32 standing) vec @ map (\<lambda>(price, ach, standing, item). U32 item) vec))] s) s)"

definition HandleGuildEventLogQueryOpcode :: "guild_env \<Rightarrow> uint64 \<Rightarrow> GuildState \<Rightarrow> GuildState" where
  "HandleGuildEventLogQueryOpcode E p = with_guild p (\<lambda>g. Guild_SendEventLog E g p)"

definition HandleGuildBankMoneyWithdrawn :: "guild_env \<Rightarrow> uint64 \<Rightarrow> GuildState \<Rightarrow> GuildState" where
  "HandleGuildBankMoneyWithdrawn E p = with_guild p (\<lambda>g. Guild_SendMoneyInfo E g p)"

definition HandleGuildPermissions :: "guild_env \<Rightarrow> uint64 \<Rightarrow> GuildState \<Rightarrow> GuildState" where
  "HandleGuildPermissions E p = with_guild p (\<lambda>g. Guild_SendPermissions E g p)"

definition HandleGuildQueryNews :: "guild_env \<Rightarrow> uint64 \<Rightarrow> GuildState \<Rightarrow> GuildState" where
  "HandleGuildQueryNews E p =
     with_guild p (\<lambda>g s. gd_emit [GuildPacket p (Packet SMSG_GUILD_NEWS_UPDATE (guild_news_fields E (gld s g)))] s)"

section \<open>Membership\<close>

text \<open>The object is registered only when \<open>Create\<close> succeeds; otherwise it is deleted.\<close>

definition HandleGuildCreateOpcode :: "guild_env \<Rightarrow> uint64 \<Rightarrow> WorldPacket \<Rightarrow> GuildState \<Rightarrow> GuildState" where
  "HandleGuildCreateOpcode E p recvPacket s =
     gd_parse (in_string recvPacket) (\<lambda>(name, _).
       if plr_GuildId (plr s p) \<noteq> 0 then s
       else
         let ((ok, g), s1) = Guild_Create E p name s in
         if ok then GuildMgr_AddGuild E g s1
         else if GuildMgr_GetGuildByName name s \<noteq> None then s1
         else s1\<lparr>gd_guilds := (gd_guilds s1)(g := None)\<rparr>) s"

definition HandleGuildInviteOpcode :: "guild_env \<Rightarrow> uint64 \<Rightarrow> WorldPacket \<Rightarrow> GuildState \<Rightarrow> GuildState" where
  "HandleGuildInviteOpcode E p recvPacket s =
     gd_parse (in_string recvPacket) (\<lambda>(invitedName, _).
       let (ok, name) = gn_normalizePlayerName E invitedName in
       if ok then with_guild_or_error p (\<lambda>g. Guild_HandleInviteMember E g p name) s else s) s"

definition HandleGuildRemoveOpcode :: "guild_env \<Rightarrow> uint64 \<Rightarrow> WorldPacket \<Rightarrow> GuildState \<Rightarrow> GuildState" where
  "HandleGuildRemoveOpcode E p recvPacket s =
     gd_parse (in_u64 recvPacket) (\<lambda>(guid, d0).
     gd_parse (bb_read_skip 8 d0) (\<lambda>_.
       with_guild_or_error p (\<lambda>g. Guild_HandleRemoveMember E g p guid) s) s) s"

definition HandleGuildAcceptOpcode :: "guild_env \<Rightarrow> uint64 \<Rightarrow> WorldPacket \<Rightarrow> GuildState \<Rightarrow> GuildState" where
  "HandleGuildAcceptOpcode E p recvPacket s =
     gd_parse (bb_read_skip 8 recvPacket) (\<lambda>_.
       if plr_GuildId (plr s p) \<noteq> 0 then s
       else
         (case GuildMgr_GetGuildById (plr_GuildIdInvited (plr s p)) s of
            None \<Rightarrow> s
          | Some g \<Rightarrow> Guild_HandleAcceptMember E g p s)) s"

definition HandleGuildDeclineOpcode :: "uint64 \<Rightarrow> WorldPacket \<Rightarrow> GuildState \<Rightarrow> GuildState" where
  "HandleGuildDeclineOpcode p recvPacket s =
     gd_parse (bb_read_skip 8 recvPacket) (\<lambda>_. SetInGuild p 0 (SetGuildIdInvited p 0 s)) s"

definition HandleGuildPromoteOpcode :: "guild_env \<Rightarrow> uint64 \<Rightarrow> WorldPacket \<Rightarrow> GuildState \<Rightarrow> GuildState" where
  "HandleGuildPromoteOpcode E p recvPacket s =
     gd_parse (in_u64 recvPacket) (\<lambda>(guid, d0).
     gd_parse (bb_read_skip 8 d0) (\<lambda>_.
       with_guild_or_error p (\<lambda>g. Guild_HandleUpdateMemberRank E g p guid False) s) s) s"

definition HandleGuildDemoteOpcode :: "guild_env \<Rightarrow> uint64 \<Rightarrow> WorldPacket \<Rightarrow> GuildState \<Rightarrow> GuildState" where
  "HandleGuildDemoteOpcode E p recvPacket s =
     gd_parse (in_u64 recvPacket) (\<lambda>(guid, d0).
     gd_parse (bb_read_skip 8 d0) (\<lambda>_.
       with_guild_or_error p (\<lambda>g. Guild_HandleUpdateMemberRank E g p guid True) s) s) s"

definition HandleGuildLeaveOpcode :: "guild_env \<Rightarrow> uint64 \<Rightarrow> GuildState \<Rightarrow> GuildState" where
  "HandleGuildLeaveOpcode E p = with_guild_or_error p (\<lambda>g. Guild_HandleLeaveMember E g p)"

definition HandleGuildDisbandOpcode :: "guild_env \<Rightarrow> uint64 \<Rightarrow> GuildState \<Rightarrow> GuildState" where
  "HandleGuildDisbandOpcode E p = with_guild_or_error p (\<lambda>g. Guild_HandleDisband E g p)"

definition HandleGuildLeaderOpcode :: "guild_env \<Rightarrow> uint64 \<Rightarrow> WorldPacket \<Rightarrow> GuildState \<Rightarrow> GuildState" where
  "HandleGuildLeaderOpcode E p recvPacket s =
     gd_parse (bb_read_skip 8 recvPacket) (\<lambda>d0.
     gd_parse (bb_read_skip 8 d0) (\<lambda>d1.
     gd_parse (in_string d1) (\<lambda>(name0, _).
       let (ok, name) = gn_normalizePlayerName E name0 in
       if ok then with_guild_or_error p (\<lambda>g. Guild_HandleSetLeader g p name) s else s) s) s) s"

section \<open>Texts and notes\<close>

definition HandleGuildChangeInfoTextOpcode :: "uint64 \<Rightarrow> WorldPacket \<Rightarrow> GuildState \<Rightarrow> GuildState" where
  "HandleGuildChangeInfoTextOpcode p recvPacket s =
     gd_parse (bb_read_skip 8 recvPacket) (\<lambda>d0.
     gd_parse (bb_read_skip 8 d0) (\<lambda>d1.
     gd_parse (in_string d1) (\<lambda>(info, _).
       with_guild_or_error p (\<lambda>g. Guild_HandleSetInfo g p info) s) s) s) s"

definition HandleGuildMOTDOpcode :: "uint64 \<Rightarrow> WorldPacket \<Rightarrow> GuildState \<Rightarrow> GuildState" where
  "HandleGuildMOTDOpcode p recvPacket s =
     gd_parse (bb_read_skip 8 recvPacket) (\<lambda>d0.
     gd_parse (bb_read_skip 8 d0) (\<lambda>d1.
     gd_parse (in_string d1) (\<lambda>(motd, _).
       with_guild_or_error p (\<lambda>g. Guild_HandleSetMOTD g p motd) s) s) s) s"

definition HandleGuildSetNoteOpcode :: "guild_env \<Rightarrow> uint64 \<Rightarrow> WorldPacket \<Rightarrow> GuildState \<Rightarrow> GuildState" where
  "HandleGuildSetNoteOpcode E p recvPacket s =
     gd_parse (in_u8 recvPacket) (\<lambda>(ispublic, d0).
     gd_parse (in_u64 d0) (\<lambda>(guid, d1).
     gd_parse (bb_read_skip 8 d1) (\<lambda>d2.
     gd_parse (bb_read_skip 8 d2) (\<lambda>d3.
     gd_parse (in_string d3) (\<lambda>(note, _).
       with_guild_or_error p (\<lambda>g. Guild_HandleSetMemberNote E g p guid note (ispublic = 0)) s) s) s) s) s) s"

definition HandleSaveGuildEmblemOpcode :: "guild_env \<Rightarrow> uint64 \<Rightarrow> WorldPacket \<Rightarrow> GuildState \<Rightarrow> GuildState" where
  "HandleSaveGuildEmblemOpcode E p recvPacket s =
     gd_parse (in_u64 recvPacket) (\<lambda>(vendorGuid, d0).
     gd_parse (bb_read_many in_u32 5 d0) (\<lambda>(em, _).
       if gn_atTabardVendor E p vendorGuid then
         let s1 = (if gn_feigning E p then gd_emit [PlayerCall p RemoveFeignDeath] s else s);
             emblem = \<lparr>em_style = em ! 0, em_color = em ! 1, em_borderStyle = em ! 2, em_borderColor = em ! 3,
                       em_backgroundColor = em ! 4\<rparr>
         in (case GetPlayerGuild p s1 of
               None \<Rightarrow> SendSaveEmblemResult p ERR_GUILDEMBLEM_NOGUILD s1
             | Some g \<Rightarrow> Guild_HandleSetEmblem E g p emblem s1)
       else SendSaveEmblemResult p ERR_GUILDEMBLEM_INVALIDVENDOR s) s) s"

section \<open>Ranks\<close>

definition GuildRank_apply ::
  "guild_env \<Rightarrow> uint64 \<Rightarrow> uint32 list \<Rightarrow> uint32 \<Rightarrow> uint32 \<Rightarrow> uint32 \<Rightarrow> uint32 list \<Rightarrow> uint64 \<Rightarrow> uint32 \<Rightarrow> uint64 \<Rightarrow> string \<Rightarrow>
   GuildState \<Rightarrow> GuildState" where
  "GuildRank_apply E p bankStacks new_rights new_rankId old_rankId bankRights guildId money playerGuid rankName s =
     (if p \<noteq> playerGuid then SendCommandResult p GUILD_CREATE_S ERR_GUILD_PLAYER_NOT_IN_GUILD [] s
      else if plr_GuildId (plr s p) \<noteq> GUID_LOPART guildId
      then SendCommandResult p GUILD_CREATE_S ERR_GUILD_PLAYER_NOT_IN_GUILD [] s
      else
        with_guild_or_error p (\<lambda>g s.
          let s1 = (if old_rankId \<noteq> ucast GR_GUILDMASTER
                    then Guild_HandleSetRankInfo E g p (ucast new_rankId) rankName new_rights money
                           (map2 (\<lambda>r st. \<lparr>rs_rights = ucast r, rs_slots = st\<rparr>) bankRights bankStacks) s
                    else s)
          in if old_rankId \<noteq> new_rankId \<and> old_rankId \<noteq> ucast GR_GUILDMASTER \<and> new_rankId \<noteq> ucast GR_GUILDMASTER
             then Guild_SwitchRank g old_rankId new_rankId s1 else s1) s)"

definition HandleGuildRankOpcode :: "guild_env \<Rightarrow> uint64 \<Rightarrow> WorldPacket \<Rightarrow> GuildState \<Rightarrow> GuildState" where
  "HandleGuildRankOpcode E p recvPacket s =
     gd_parse (bb_read_many in_u32 (unat GUILD_BANK_MAX_TABS) recvPacket) (\<lambda>(bankStacks, d0).
     gd_parse (in_u32 d0) (\<lambda>(new_rights, d1).
     gd_parse (in_u32 d1) (\<lambda>(new_rankId, d2).
     gd_parse (in_u32 d2) (\<lambda>(old_rankId, d3).
     gd_parse (bb_read_many in_u32 (unat GUILD_BANK_MAX_TABS) d3) (\<lambda>(bankRights, d4).
     gd_parse (in_u64 d4) (\<lambda>(guildId, d5).
     gd_parse (in_u32 d5) (\<lambda>(old_rights, d6).
     gd_parse (in_u32 d6) (\<lambda>(money, d7).
     gd_parse (in_u64 d7) (\<lambda>(playerGuid, d8).
     gd_parse (in_string d8) (\<lambda>(rankName, _).
       GuildRank_apply E p bankStacks new_rights new_rankId old_rankId bankRights guildId money playerGuid rankName s)
       s) s) s) s) s) s) s) s) s) s"

definition HandleGuildAddRankOpcode :: "guild_env \<Rightarrow> uint64 \<Rightarrow> GuildState \<Rightarrow> GuildState" where
  "HandleGuildAddRankOpcode E p = with_guild_or_error p (\<lambda>g. Guild_HandleAddNewRank E g p ''New Rank'')"

definition HandleGuildDelRankOpcode :: "guild_env \<Rightarrow> uint64 \<Rightarrow> WorldPacket \<Rightarrow> GuildState \<Rightarrow> GuildState" where
  "HandleGuildDelRankOpcode E p recvPacket s =
     gd_parse (in_u32 recvPacket) (\<lambda>(rankid, _).
       with_guild_or_error p (\<lambda>g. Guild_HandleRemoveRank E g p (ucast rankid)) s) s"

section \<open>The bank\<close>

definition HandleGuildBankerActivate :: "guild_env \<Rightarrow> uint64 \<Rightarrow> WorldPacket \<Rightarrow> GuildState \<Rightarrow> GuildState" where
  "HandleGuildBankerActivate E p recv_data s =
     gd_parse (in_u64 recv_data) (\<lambda>(goGuid, d0).
     gd_parse (in_u8 d0) (\<lambda>_.
       if gn_atGuildBank E p goGuid then
         (case GetPlayerGuild p s of
            None \<Rightarrow> SendCommandResult p GUILD_UNK1 ERR_GUILD_PLAYER_NOT_IN_GUILD [] s
          | Some g \<Rightarrow> Guild_SendBankTabsInfo E g p s)
       else s) s) s"

definition HandleGuildBankQueryTab :: "guild_env \<Rightarrow> uint64 \<Rightarrow> WorldPacket \<Rightarrow> GuildState \<Rightarrow> GuildState" where
  "HandleGuildBankQueryTab E p recv_data s =
     gd_parse (in_u64 recv_data) (\<lambda>(goGuid, d0).
     gd_parse (in_u8 d0) (\<lambda>(tabId, d1).
     gd_parse (in_u8 d1) (\<lambda>_.
       if gn_atGuildBank E p goGuid then with_guild p (\<lambda>g. Guild_SendBankTabData E g p tabId) s else s) s) s) s"

definition HandleGuildBankDepositMoney :: "guild_env \<Rightarrow> uint64 \<Rightarrow> WorldPacket \<Rightarrow> GuildState \<Rightarrow> GuildState" where
  "HandleGuildBankDepositMoney E p recv_data s =
     gd_parse (in_u64 recv_data) (\<lambda>(goGuid, d0).
     gd_parse (in_u64 d0) (\<lambda>(money, _).
       if gn_atGuildBank E p goGuid \<and> money \<noteq> 0 \<and> HasEnoughMoney (ucast money) (plr s p)
       then with_guild p (\<lambda>g. Guild_HandleMemberDepositMoney E g p (ucast money)) s else s) s) s"

definition HandleGuildBankWithdrawMoney :: "guild_env \<Rightarrow> uint64 \<Rightarrow> WorldPacket \<Rightarrow> GuildState \<Rightarrow> GuildState" where
  "HandleGuildBankWithdrawMoney E p recv_data s =
     gd_parse (in_u64 recv_data) (\<lambda>(goGuid, d0).
     gd_parse (in_u64 d0) (\<lambda>(money, _).
       if money \<noteq> 0 \<and> gn_atGuildBank E p goGuid
       then with_guild p (\<lambda>g s. snd (Guild_HandleMemberWithdrawMoney E g p (ucast money) False s)) s else s) s) s"

definition HandleGuildBankBuyTab :: "guild_env \<Rightarrow> uint64 \<Rightarrow> WorldPacket \<Rightarrow> GuildState \<Rightarrow> GuildState" where
  "HandleGuildBankBuyTab E p recv_data s =
     gd_parse (in_u64 recv_data) (\<lambda>(goGuid, d0).
     gd_parse (in_u8 d0) (\<lambda>(tabId, _).
       if gn_atGuildBank E p goGuid then with_guild p (\<lambda>g. Guild_HandleBuyBankTab E g p tabId) s else s) s) s"

definition HandleGuildBankUpdateTab :: "guild_env \<Rightarrow> uint64 \<Rightarrow> WorldPacket \<Rightarrow> GuildState \<Rightarrow> GuildState" where
  "HandleGuildBankUpdateTab E p recv_data s =
     gd_parse (in_u64 recv_data) (\<lambda>(goGuid, d0).
     gd_parse (in_u8 d0) (\<lambda>(tabId, d1).
     gd_parse (in_string d1) (\<lambda>(name, d2).
     gd_parse (in_string d2) (\<lambda>(icon, _).
       if name \<noteq> [] \<and> icon \<noteq> [] \<and> gn_atGuildBank E p goGuid
       then with_guild p (\<lambda>g. Guild_HandleSetBankTabInfo E g p tabId name icon) s else s) s) s) s) s"

definition HandleGuildBankLogQuery :: "guild_env \<Rightarrow> uint64 \<Rightarrow> WorldPacket \<Rightarrow> GuildState \<Rightarrow> GuildState" where
  "HandleGuildBankLogQuery E p recv_data s =
     gd_parse (in_u8 recv_data) (\<lambda>(tabId, _). with_guild p (\<lambda>g. Guild_SendBankLog E g p tabId) s) s"

definition HandleQueryGuildBankTabText :: "uint64 \<Rightarrow> WorldPacket \<Rightarrow> GuildState \<Rightarrow> GuildState" where
  "HandleQueryGuildBankTabText p recv_data s =
     gd_parse (in_u8 recv_data) (\<lambda>(tabId, _). with_guild p (\<lambda>g. Guild_SendBankTabText g p tabId) s) s"

definition HandleSetGuildBankTabText :: "guild_env \<Rightarrow> uint64 \<Rightarrow> WorldPacket \<Rightarrow> GuildState \<Rightarrow> GuildState" where
  "HandleSetGuildBankTabText E p recv_data s =
     gd_parse (in_u8 recv_data) (\<lambda>(tabId, d0).
     gd_parse (in_string d0) (\<lambda>(text, _).
       with_guild p (\<lambda>g. Guild_SetBankTabText E g tabId text) s) s) s"

section \<open>Login and logout\<close>

text \<open>
  \<open>row\<close> is the guild and the rank of the player in \<open>guild_member\<close>.  The player object, freshly loaded, belongs to no
  guild and is in the world.
\<close>

definition guild_login :: "guild_env \<Rightarrow> GuildPlayer \<Rightarrow> (uint32 \<times> uint8) option \<Rightarrow> GuildState \<Rightarrow> GuildState" where
  "guild_login E player row s =
     (let p = plr_GUID player;
          s1 = s\<lparr>gd_online := gd_online s @ [player\<lparr>plr_InWorld := True, plr_GuildId := 0, plr_Rank := 0, plr_GuildIdInvited := 0\<rparr>]\<rparr>;
          s2 = (case row of None \<Rightarrow> s1 | Some (guildId, rank) \<Rightarrow> SetRank p rank (SetInGuild p guildId s1))
      in if plr_GuildId (plr s2 p) = 0 then s2
         else
           (case GuildMgr_GetGuildById (plr_GuildId (plr s2 p)) s2 of
              None \<Rightarrow> SetInGuild p 0 (gd_emit [GuildLogError] s2)
            | Some g \<Rightarrow>
                let s3 = Guild_SendLoginInfo E g p s2; level = gl_level (gld s3 g)
                in gd_emit (PlayerCall p (SetGuildLevelField level) #
                     (if gn_CONFIG_GUILD_ADVANCEMENT_ENABLED E then map (PlayerCall p \<circ> LearnSpell) (perk_spells E (unat level)) else [])) s3))"

definition guild_logout :: "guild_env \<Rightarrow> uint64 \<Rightarrow> GuildState \<Rightarrow> GuildState" where
  "guild_logout E p s =
     (let s1 = (case GuildMgr_GetGuildById (plr_GuildId (plr s p)) s of None \<Rightarrow> s | Some g \<Rightarrow> Guild_HandleMemberLogout E g p s)
      in s1\<lparr>gd_online := filter (\<lambda>r. plr_GUID r \<noteq> p) (gd_online s1)\<rparr>)"

end
