(* ===== verification/Guild_View.thy ===== *)
theory Guild_View
  imports Guild_Handlers
begin

text \<open>
  Who is a member of which guild, with rank and notes, in the three places that record it: the guild objects, the players in the world
  and the table \<open>guild_member\<close>, which the statements of the trace have produced.  \<open>view\<close> collects them; operations that only send, or
  change what the view leaves out, leave it as it is.
\<close>

section \<open>The table\<close>

type_synonym view_row = "uint32 \<times> uint8 \<times> string \<times> string"     \<comment> \<open>guild, rank, public note, officer note\<close>

text \<open>\<open>guid\<close> is a unique key of the table: an insertion of a character that has a row fails.\<close>

fun exec_member :: "guild_member_sql \<Rightarrow> (uint32 \<Rightarrow> view_row option) \<Rightarrow> uint32 \<Rightarrow> view_row option" where
  "exec_member (CHAR_ADD_GUILD_MEMBER g k r pn on _) t = (if t k = None then t(k := Some (g, r, pn, on)) else t)"
| "exec_member (CHAR_DEL_GUILD_MEMBER k) t = t(k := None)"
| "exec_member (CHAR_DEL_GUILD_MEMBERS g) t = (\<lambda>k. case t k of Some row \<Rightarrow> if fst row = g then None else Some row | None \<Rightarrow> None)"
| "exec_member (CHAR_SET_GUILD_MEMBER_PNOTE pn k) t = t(k := map_option (\<lambda>(g, r, _, on). (g, r, pn, on)) (t k))"
| "exec_member (CHAR_SET_GUILD_MEMBER_OFFNOTE on k) t = t(k := map_option (\<lambda>(g, r, pn, _). (g, r, pn, on)) (t k))"
| "exec_member (CHAR_SET_GUILD_MEMBER_RANK r k) t = t(k := map_option (\<lambda>(g, _, pn, on). (g, r, pn, on)) (t k))"
| "exec_member _ t = t"

fun exec_event :: "guild_event \<Rightarrow> (uint32 \<Rightarrow> view_row option) \<Rightarrow> uint32 \<Rightarrow> view_row option" where
  "exec_event (MemberSql q) t = exec_member q t"
| "exec_event _ t = t"

definition member_table :: "guild_event list \<Rightarrow> uint32 \<Rightarrow> view_row option" where
  "member_table es = fold exec_event es (\<lambda>_. None)"

text \<open>Events that do not touch the part of the table that the view has.\<close>

fun quiet_event :: "guild_event \<Rightarrow> bool" where
  "quiet_event (MemberSql (CHAR_ADD_GUILD_MEMBER _ _ _ _ _ _)) = False"
| "quiet_event (MemberSql (CHAR_DEL_GUILD_MEMBER _)) = False"
| "quiet_event (MemberSql (CHAR_DEL_GUILD_MEMBERS _)) = False"
| "quiet_event (MemberSql (CHAR_SET_GUILD_MEMBER_PNOTE _ _)) = False"
| "quiet_event (MemberSql (CHAR_SET_GUILD_MEMBER_OFFNOTE _ _)) = False"
| "quiet_event (MemberSql (CHAR_SET_GUILD_MEMBER_RANK _ _)) = False"
| "quiet_event _ = True"

lemma guild_exec_quiet: "quiet_event e \<Longrightarrow> exec_event e t = t"
  by (cases e rule: quiet_event.cases) simp_all

lemma member_table_append: "member_table (es @ fs) = fold exec_event fs (member_table es)"
  by (simp add: member_table_def)

lemma member_table_quiet: "list_all quiet_event fs \<Longrightarrow> member_table (es @ fs) = member_table es"
  unfolding member_table_append by (induction fs) (simp_all add: guild_exec_quiet)

section \<open>The view\<close>

type_synonym member_view = "uint64 \<times> uint8 \<times> string \<times> string"    \<comment> \<open>GUID, rank, notes\<close>

record guild_view =
  gv_id :: uint32
  gv_leader :: uint64
  gv_keys_ok :: bool
  gv_members :: "uint32 \<Rightarrow> member_view option"

record guilds_view =
  vw_guilds :: "uint32 \<Rightarrow> guild_view option"
  vw_store :: "uint32 set"
  vw_online :: "(uint64 \<times> bool \<times> uint32 \<times> uint8) list"       \<comment> \<open>GUID, in the world, guild, rank\<close>
  vw_next :: uint32
  vw_rows :: "uint32 \<Rightarrow> view_row option"

definition mview :: "GuildMember \<Rightarrow> member_view" where
  "mview m = (gm_guid m, gm_rankId m, gm_publicNote m, gm_officerNote m)"

definition members_view :: "(uint32, GuildMember) hmap \<Rightarrow> uint32 \<Rightarrow> member_view option" where
  "members_view ms k = map_option mview (hmap_find ms k)"

definition gd_view :: "Guild \<Rightarrow> guild_view" where
  "gd_view x = \<lparr>gv_id = gl_id x, gv_leader = gl_leaderGuid x, gv_keys_ok = hmap_ok (gl_members x), gv_members = members_view (gl_members x)\<rparr>"

definition pview :: "GuildPlayer \<Rightarrow> uint64 \<times> bool \<times> uint32 \<times> uint8" where
  "pview r = (plr_GUID r, plr_InWorld r, plr_GuildId r, plr_Rank r)"

definition gsview :: "GuildState \<Rightarrow> guilds_view" where
  "gsview s = \<lparr>vw_guilds = (\<lambda>g. map_option gd_view (gd_guilds s g)), vw_store = set (gd_store s), vw_online = map pview (gd_online s),
     vw_next = gd_nextGuildId s, vw_rows = member_table (gd_trace s)\<rparr>"

definition vg_upd :: "uint32 \<Rightarrow> (guild_view \<Rightarrow> guild_view) \<Rightarrow> guilds_view \<Rightarrow> guilds_view" where
  "vg_upd g f v = v\<lparr>vw_guilds := (\<lambda>h. if h = g then map_option f (vw_guilds v g) else vw_guilds v h)\<rparr>"

definition vp_upd :: "uint64 \<Rightarrow> (uint32 \<times> uint8 \<Rightarrow> uint32 \<times> uint8) \<Rightarrow> guilds_view \<Rightarrow> guilds_view" where
  "vp_upd p f v = v\<lparr>vw_online := map (\<lambda>(q, w, gr). if q = p then (q, w, f gr) else (q, w, gr)) (vw_online v)\<rparr>"

definition vr_upd :: "guild_event list \<Rightarrow> guilds_view \<Rightarrow> guilds_view" where
  "vr_upd es v = v\<lparr>vw_rows := fold exec_event es (vw_rows v)\<rparr>"

lemma gsview_sel [simp]:
  "vw_guilds (gsview s) g = map_option gd_view (gd_guilds s g)" "vw_store (gsview s) = set (gd_store s)"
  "vw_online (gsview s) = map pview (gd_online s)" "vw_next (gsview s) = gd_nextGuildId s" "vw_rows (gsview s) = member_table (gd_trace s)"
  by (simp_all add: gsview_def)

lemma gd_view_sel [simp]:
  "gv_id (gd_view x) = gl_id x" "gv_leader (gd_view x) = gl_leaderGuid x" "gv_keys_ok (gd_view x) = hmap_ok (gl_members x)"
  "gv_members (gd_view x) = members_view (gl_members x)"
  by (simp_all add: gd_view_def)

lemma view_eqI:
  "(\<And>g. vw_guilds v g = vw_guilds w g) \<Longrightarrow> vw_store v = vw_store w \<Longrightarrow> vw_online v = vw_online w \<Longrightarrow> vw_next v = vw_next w \<Longrightarrow>
   vw_rows v = vw_rows w \<Longrightarrow> v = (w :: guilds_view)"
  by (rule guilds_view.equality) auto

lemma gview_eqI: "gl_id x = gl_id y \<Longrightarrow> gl_leaderGuid x = gl_leaderGuid y \<Longrightarrow> gl_members x = gl_members y \<Longrightarrow> gd_view x = gd_view y"
  by (simp add: gd_view_def)

lemma gview_upd [simp]:
  "gd_view (x\<lparr>gl_eventLog := a\<rparr>) = gd_view x" "gd_view (x\<lparr>gl_bankEventLog := b\<rparr>) = gd_view x" "gd_view (x\<lparr>gl_ranks := c\<rparr>) = gd_view x"
  "gd_view (x\<lparr>gl_bankTabs := d\<rparr>) = gd_view x" "gd_view (x\<lparr>gl_bankMoney := e\<rparr>) = gd_view x" "gd_view (x\<lparr>gl_motd := f\<rparr>) = gd_view x"
  "gd_view (x\<lparr>gl_info := f\<rparr>) = gd_view x" "gd_view (x\<lparr>gl_emblemInfo := i\<rparr>) = gd_view x" "gd_view (x\<lparr>gl_accountsNumber := j\<rparr>) = gd_view x"
  "gd_view (x\<lparr>gl_news := k\<rparr>) = gd_view x"
  by (simp_all add: gd_view_def)

section \<open>The primitives\<close>

lemma gd_guilds_upd_gld: "gd_guilds (upd_gld g f s) h = (if h = g then map_option f (gd_guilds s g) else gd_guilds s h)"
  by (simp add: upd_gld_def split: option.split)

lemma upd_gld_sel [simp]:
  "gd_store (upd_gld g f s) = gd_store s" "gd_online (upd_gld g f s) = gd_online s" "gd_nextGuildId (upd_gld g f s) = gd_nextGuildId s"
  "gd_trace (upd_gld g f s) = gd_trace s"
  by (simp_all add: upd_gld_def split: option.split)

lemma upd_gld_plr [simp]: "plr (upd_gld g f s) p = plr s p" "gd_FindPlayer p (upd_gld g f s) = gd_FindPlayer p s"
  by (simp_all add: plr_def gd_FindPlayer_def)

lemma gd_emit_sel [simp]:
  "gd_guilds (gd_emit es s) = gd_guilds s" "gd_store (gd_emit es s) = gd_store s" "gd_online (gd_emit es s) = gd_online s"
  "gd_nextGuildId (gd_emit es s) = gd_nextGuildId s" "gd_trace (gd_emit es s) = gd_trace s @ es" "gld (gd_emit es s) g = gld s g"
  "plr (gd_emit es s) p = plr s p" "gd_FindPlayer p (gd_emit es s) = gd_FindPlayer p s"
  by (simp_all add: gd_emit_def gld_def plr_def gd_FindPlayer_def)

lemma upd_plr_sel [simp]:
  "gd_guilds (upd_plr p f s) = gd_guilds s" "gd_store (upd_plr p f s) = gd_store s" "gd_nextGuildId (upd_plr p f s) = gd_nextGuildId s"
  "gd_trace (upd_plr p f s) = gd_trace s" "gld (upd_plr p f s) g = gld s g"
  by (simp_all add: upd_plr_def gld_def)

lemma gld_upd_gld: "gld (upd_gld g f s) h = (if h = g \<and> gd_guilds s g \<noteq> None then f (gld s g) else gld s h)"
  by (auto simp: gld_def upd_gld_def split: option.splits)

lemma guild_view_emit: "gsview (gd_emit es s) = vr_upd es (gsview s)"
  by (rule view_eqI) (simp_all add: vr_upd_def member_table_append)

lemma view_emit_quiet [simp]: "list_all quiet_event es \<Longrightarrow> gsview (gd_emit es s) = gsview s"
  by (rule view_eqI) (simp_all add: member_table_quiet)

lemma view_upd_gld: "(\<And>x. gd_view (f x) = h (gd_view x)) \<Longrightarrow> gsview (upd_gld g f s) = vg_upd g h (gsview s)"
  by (rule view_eqI) (simp_all add: gd_guilds_upd_gld vg_upd_def option.map_comp comp_def)

lemma view_upd_gld_quiet: "(\<And>x. gd_view (f x) = gd_view x) \<Longrightarrow> gsview (upd_gld g f s) = gsview s"
  by (rule view_eqI) (simp_all add: gd_guilds_upd_gld option.map_comp comp_def)

lemma view_upd_gld_at: "(\<And>x. gd_guilds s g = Some x \<Longrightarrow> gd_view (f x) = gd_view x) \<Longrightarrow> gsview (upd_gld g f s) = gsview s"
  by (rule view_eqI) (auto simp: gd_guilds_upd_gld option.map_comp comp_def map_option_case split: option.splits)

lemma view_upd_plr:
  "(\<And>r. pview (f r) = (plr_GUID r, plr_InWorld r, h (plr_GuildId r, plr_Rank r))) \<Longrightarrow> gsview (upd_plr p f s) = vp_upd p h (gsview s)"
  by (rule view_eqI) (simp_all add: vp_upd_def upd_plr_def pview_def)

lemma view_upd_plr_quiet: "(\<And>r. pview (f r) = pview r) \<Longrightarrow> gsview (upd_plr p f s) = gsview s"
  by (rule view_eqI) (simp_all add: upd_plr_def)

lemma view_gld_do: "(\<And>x. gd_view (fst (f x)) = gd_view x) \<Longrightarrow> (\<And>x. list_all quiet_event (snd (f x))) \<Longrightarrow> gsview (gld_do g f s) = gsview s"
  by (simp add: gld_do_def view_upd_gld_quiet)

section \<open>Quiet operations\<close>

named_theorems guild_quiet

lemma quiet_packets: "list_all quiet_event (map (\<lambda>m. GuildPacket (f m) (h m)) ms)"
  by (simp add: list_all_iff)

lemma SendCommandResult_quiet [guild_quiet]: "gsview (SendCommandResult p t e q s) = gsview s"
  by (simp add: SendCommandResult_def)

lemma SendSaveEmblemResult_quiet [guild_quiet]: "gsview (SendSaveEmblemResult p e s) = gsview s"
  by (simp add: SendSaveEmblemResult_def)

lemma BroadcastPacket_quiet [guild_quiet]: "gsview (Guild_BroadcastPacket g pkt s) = gsview s"
  by (simp add: Guild_BroadcastPacket_def quiet_packets)

lemma SendOrBroadcast_quiet [guild_quiet]: "gsview (Guild_SendOrBroadcast g t pkt s) = gsview s"
  by (simp add: Guild_SendOrBroadcast_def BroadcastPacket_quiet split: option.split)

lemma BroadcastEvent_quiet [guild_quiet]: "gsview (Guild_BroadcastEvent g e guid ps s) = gsview s"
  by (simp add: Guild_BroadcastEvent_def BroadcastPacket_quiet)

lemma SendUpdateRoster_quiet [guild_quiet]: "gsview (Guild_SendUpdateRoster g t s) = gsview s"
  by (simp add: Guild_SendUpdateRoster_def BroadcastEvent_quiet split: option.split)

lemma SendGuildRankInfo_quiet [guild_quiet]: "gsview (Guild_SendGuildRankInfo g t s) = gsview s"
  by (simp add: Guild_SendGuildRankInfo_def SendOrBroadcast_quiet Let_def)

lemma HandleRoster_quiet [guild_quiet]: "gsview (Guild_HandleRoster E g t s) = gsview s"
  by (simp add: Guild_HandleRoster_def guild_quiet)

lemma HandleQuery_quiet [guild_quiet]: "gsview (Guild_HandleQuery g p s) = gsview s"
  by (simp add: Guild_HandleQuery_def Let_def)

lemma LogEvent_quiet [guild_quiet]: "gsview (Guild_LogEvent E g t a b r s) = gsview s"
  by (simp add: Guild_LogEvent_def Let_def case_prod_unfold EventLogEntry_SaveToDB_def view_upd_gld_quiet)

lemma LogBankEvent_quiet [guild_quiet]: "gsview (Guild_LogBankEvent E g t tab k i n d s) = gsview s"
  by (simp add: Guild_LogBankEvent_def Let_def case_prod_unfold BankEventLogEntry_SaveToDB_def view_upd_gld_quiet)

lemma members_view_update:
  "(\<And>m. hmap_find ms k = Some m \<Longrightarrow> mview (f m) = mview m) \<Longrightarrow> members_view (hmap_update k f ms) = members_view ms"
  by (rule ext) (cases "hmap_find ms k"; simp add: members_view_def hmap_find_update)

lemma hmap_find_map: "hmap_find (map (\<lambda>(k, m). (k, f m)) ms) j = map_option f (hmap_find ms j)"
  by (induction ms) (auto simp: hmap_find_def)

lemma members_view_map: "(\<And>m. mview (f m) = mview m) \<Longrightarrow> members_view (map (\<lambda>(k, m). (k, f m)) ms) = members_view ms"
  by (rule ext) (simp add: members_view_def hmap_find_map option.map_comp comp_def)

lemma hmap_ok_map: "hmap_ok (map (\<lambda>(k, m). (k, f m)) ms) = hmap_ok ms"
  by (simp add: hmap_ok_def comp_def case_prod_unfold)

lemma gview_upd_member:
  "(\<And>m. Guild_GetMember guid x = Some m \<Longrightarrow> mview (f m) = mview m) \<Longrightarrow> gd_view (upd_member guid f x) = gd_view x"
  by (simp add: gd_view_def upd_member_def hmap_ok_update members_view_update Guild_GetMember_def)

lemma gview_upd_members: "(\<And>m. mview (f m) = mview m) \<Longrightarrow> gd_view (upd_members f x) = gd_view x"
  by (simp add: gd_view_def upd_members_def hmap_ok_map members_view_map)

lemma gview_upd_rank: "gd_view (fst (upd_rank r f x)) = gd_view x"
  by (simp add: upd_rank_def case_prod_unfold Let_def)

lemma events_upd_rank: "snd (upd_rank r f x) = snd (f (gl_ranks x ! unat r))"
  by (simp add: upd_rank_def case_prod_unfold Let_def)

lemma mview_renew: "mview (fst (Member_renew E x t m)) = mview m"
  by (simp add: Member_renew_def Let_def mview_def)

lemma events_renew: "list_all quiet_event (snd (Member_renew E x t m))"
  by (simp add: Member_renew_def Let_def)

lemma mview_GetBankRemainingValue: "mview (fst (snd (Member_GetBankRemainingValue E x t m))) = mview m"
  by (simp add: Member_GetBankRemainingValue_def case_prod_unfold Let_def mview_renew)

lemma events_GetBankRemainingValue: "list_all quiet_event (snd (snd (Member_GetBankRemainingValue E x t m)))"
  by (simp add: Member_GetBankRemainingValue_def case_prod_unfold Let_def events_renew)

lemma view_set_member:
  "Guild_GetMember guid (gld s g) = Some m \<Longrightarrow> mview m1 = mview m \<Longrightarrow> gsview (upd_gld g (upd_member guid (\<lambda>_. m1)) s) = gsview s"
  by (rule view_upd_gld_at) (auto simp: gld_def intro: gview_upd_member)

lemma GetMemberRemaining_quiet [guild_quiet]: "gsview (snd (Guild_GetMemberRemaining E g p t s)) = gsview s"
  by (auto simp: Guild_GetMemberRemaining_def case_prod_unfold Let_def events_GetBankRemainingValue
      intro: view_set_member mview_GetBankRemainingValue split: option.split)

end
