(* ===== verification/Guild_Quiet.thy ===== *)
theory Guild_Quiet
  imports Guild_View
begin

text \<open>The commands that leave memberships, ranks of members and notes alone.\<close>

section \<open>Parts\<close>

lemma events_SetName: "list_all quiet_event (snd (RankInfo_SetName g n r))"
  by (simp add: RankInfo_SetName_def)

lemma events_SetRights: "list_all quiet_event (snd (RankInfo_SetRights g n r))"
  by (simp add: RankInfo_SetRights_def Let_def)

lemma events_SetBankMoneyPerDay: "list_all quiet_event (snd (RankInfo_SetBankMoneyPerDay g n r))"
  by (simp add: RankInfo_SetBankMoneyPerDay_def Let_def)

lemma events_SetBankTabSlotsAndRights: "list_all quiet_event (snd (RankInfo_SetBankTabSlotsAndRights g t rs b r))"
  by (simp add: RankInfo_SetBankTabSlotsAndRights_def Let_def)

lemmas rank_events = events_upd_rank events_SetName events_SetRights events_SetBankMoneyPerDay events_SetBankTabSlotsAndRights

lemma mview_resets: "mview (Member_ResetMoneyTime m) = mview m" "mview (Member_ResetTabTimes m) = mview m"
  by (simp_all add: mview_def Member_ResetMoneyTime_def Member_ResetTabTimes_def Let_def)

lemma SetRankBankMoneyPerDay_quiet:
  "gd_view (fst (Guild_SetRankBankMoneyPerDay r n x)) = gd_view x" "list_all quiet_event (snd (Guild_SetRankBankMoneyPerDay r n x))"
  by (simp_all add: Guild_SetRankBankMoneyPerDay_def gview_upd_rank gview_upd_members mview_resets rank_events)

lemma SetRankBankTabRightsAndSlots_quiet:
  "gd_view (fst (Guild_SetRankBankTabRightsAndSlots r t rs b x)) = gd_view x"
  "list_all quiet_event (snd (Guild_SetRankBankTabRightsAndSlots r t rs b x))"
  by (simp_all add: Guild_SetRankBankTabRightsAndSlots_def gview_upd_rank gview_upd_members mview_resets rank_events)

lemma SetTabs_fold:
  "gd_view (fst (fold (\<lambda>(t, rs) (x, es). let (x1, es1) = Guild_SetRankBankTabRightsAndSlots r t rs True x in (x1, es @ es1)) ps (x, es)))
     = gd_view x \<and>
   (list_all quiet_event es \<longrightarrow> list_all quiet_event
     (snd (fold (\<lambda>(t, rs) (x, es). let (x1, es1) = Guild_SetRankBankTabRightsAndSlots r t rs True x in (x1, es @ es1)) ps (x, es))))"
proof (induction ps arbitrary: x es)
  case (Cons c ps)
  show ?case
    using Cons.IH [of "fst (Guild_SetRankBankTabRightsAndSlots r (fst c) (snd c) True x)"
        "es @ snd (Guild_SetRankBankTabRightsAndSlots r (fst c) (snd c) True x)"]
    by (simp add: case_prod_unfold Let_def SetRankBankTabRightsAndSlots_quiet)
qed simp

lemma SetTabs_quiet: "gd_view (fst (Guild_SetTabs r rs x)) = gd_view x" "list_all quiet_event (snd (Guild_SetTabs r rs x))"
  using SetTabs_fold [of r "zip (map of_nat [0..<length rs]) rs" x "[]"] by (simp_all add: Guild_SetTabs_def)

lemma CreateRank_quiet: "gd_view (fst (Guild_CreateRank n r x)) = gd_view x" "list_all quiet_event (snd (Guild_CreateRank n r x))"
  by (simp_all add: Guild_CreateRank_def Let_def RankInfo_SaveToDB_def list_all_iff)

lemma CreateRanks_quiet: "gd_view (fst (Guild_CreateRanks rs x)) = gd_view x \<and> list_all quiet_event (snd (Guild_CreateRanks rs x))"
  by (induction rs arbitrary: x) (auto simp: case_prod_unfold Let_def CreateRank_quiet)

lemma CreateDefaultGuildRanks_quiet:
  "gd_view (fst (Guild_CreateDefaultGuildRanks E l x)) = gd_view x" "list_all quiet_event (snd (Guild_CreateDefaultGuildRanks E l x))"
  by (simp_all add: Guild_CreateDefaultGuildRanks_def case_prod_unfold Let_def CreateRanks_quiet)

section \<open>The bank\<close>

lemma CreateNewBankTab_quiet [guild_quiet]: "gsview (snd (Guild_CreateNewBankTab g s)) = gsview s"
  by (simp add: Guild_CreateNewBankTab_def Let_def view_upd_gld_quiet)

lemma DeleteBankItems_quiet [guild_quiet]: "gsview (gld_do g (Guild_DeleteBankItems b) s) = gsview s"
  by (rule view_gld_do) (auto simp: Guild_DeleteBankItems_def list_all_iff)

lemma ModifyBankMoney_quiet [guild_quiet]: "gsview (snd (Guild_ModifyBankMoney g a b s)) = gsview s"
  by (simp add: Guild_ModifyBankMoney_def Let_def view_upd_gld_quiet)

lemma SendBankTabsInfo_quiet [guild_quiet]: "gsview (Guild_SendBankTabsInfo E g p s) = gsview s"
  by (simp add: Guild_SendBankTabsInfo_def case_prod_unfold Let_def guild_quiet)

lemma SendBankContent_quiet [guild_quiet]: "gsview (Guild_SendBankContent E g p t s) = gsview s"
  by (simp add: Guild_SendBankContent_def case_prod_unfold Let_def guild_quiet split: option.split)

lemma SendBankMoneyUpdate_quiet [guild_quiet]: "gsview (Guild_SendBankMoneyUpdate E g p s) = gsview s"
  by (simp add: Guild_SendBankMoneyUpdate_def case_prod_unfold Let_def guild_quiet)

lemma SendMoneyInfo_quiet [guild_quiet]: "gsview (Guild_SendMoneyInfo E g p s) = gsview s"
  by (simp add: Guild_SendMoneyInfo_def case_prod_unfold Let_def guild_quiet)

lemma SetMoney_quiet [guild_quiet]: "gsview (SetMoney p v s) = gsview s"
  by (simp add: SetMoney_def view_upd_plr_quiet pview_def)

lemma ModifyMoney_quiet [guild_quiet]: "gsview (ModifyMoney E p d s) = gsview s"
  by (simp add: ModifyMoney_def Let_def guild_quiet view_upd_gld_quiet split: option.split)

lemma SetGuildIdInvited_quiet [guild_quiet]: "gsview (SetGuildIdInvited p g s) = gsview s"
  by (simp add: SetGuildIdInvited_def view_upd_plr_quiet pview_def)

lemma DecreaseBankRemainingValue_quiet:
  "mview (fst (Member_DecreaseBankRemainingValue g t a m)) = mview m" "list_all quiet_event (snd (Member_DecreaseBankRemainingValue g t a m))"
  by (simp_all add: Member_DecreaseBankRemainingValue_def Let_def mview_def)

section \<open>Commands\<close>

lemma HandleSetMOTD_quiet [guild_quiet]: "gsview (Guild_HandleSetMOTD g p motd s) = gsview s"
  by (simp add: Guild_HandleSetMOTD_def Let_def guild_quiet view_upd_gld_quiet)

lemma HandleSetInfo_quiet [guild_quiet]: "gsview (Guild_HandleSetInfo g p info s) = gsview s"
  by (simp add: Guild_HandleSetInfo_def Let_def guild_quiet view_upd_gld_quiet)

lemma HandleSetEmblem_quiet [guild_quiet]: "gsview (Guild_HandleSetEmblem E g p em s) = gsview s"
  by (simp add: Guild_HandleSetEmblem_def Let_def guild_quiet view_upd_gld_quiet)

lemma SwitchRank_quiet [guild_quiet]: "gsview (Guild_SwitchRank g a b s) = gsview s"
  by (simp add: Guild_SwitchRank_def Let_def view_upd_gld_quiet)

lemma HandleSetRankInfo_quiet [guild_quiet]: "gsview (Guild_HandleSetRankInfo E g p r n ri m rs s) = gsview s"
  by (simp add: Guild_HandleSetRankInfo_def Let_def guild_quiet view_gld_do gview_upd_rank rank_events
      SetRankBankMoneyPerDay_quiet SetTabs_quiet)

lemma HandleAddNewRank_quiet [guild_quiet]: "gsview (Guild_HandleAddNewRank E g p n s) = gsview s"
  by (simp add: Guild_HandleAddNewRank_def guild_quiet view_gld_do CreateRank_quiet)

lemma HandleRemoveRank_quiet [guild_quiet]: "gsview (Guild_HandleRemoveRank E g p r s) = gsview s"
  by (simp add: Guild_HandleRemoveRank_def Let_def guild_quiet view_upd_gld_quiet)

lemma HandleInviteMember_quiet [guild_quiet]: "gsview (Guild_HandleInviteMember E g p n s) = gsview s"
  by (simp add: Guild_HandleInviteMember_def Let_def guild_quiet split: option.split)

lemma HandleSetBankTabInfo_quiet [guild_quiet]: "gsview (Guild_HandleSetBankTabInfo E g p t n i s) = gsview s"
  by (simp add: Guild_HandleSetBankTabInfo_def BankTab_SetInfo_def Let_def guild_quiet view_upd_gld_quiet split: option.split)

lemma SetBankTabText_quiet [guild_quiet]: "gsview (Guild_SetBankTabText E g t txt s) = gsview s"
  by (simp add: Guild_SetBankTabText_def BankTab_SetText_def BankTab_SendText_def Let_def guild_quiet view_upd_gld_quiet split: option.split)

lemma HandleBuyBankTab_quiet [guild_quiet]: "gsview (Guild_HandleBuyBankTab E g p t s) = gsview s"
  by (simp add: Guild_HandleBuyBankTab_def case_prod_unfold Let_def guild_quiet view_gld_do SetRankBankMoneyPerDay_quiet
      SetRankBankTabRightsAndSlots_quiet)

lemma HandleMemberDepositMoney_quiet [guild_quiet]: "gsview (Guild_HandleMemberDepositMoney E g p a s) = gsview s"
  by (simp add: Guild_HandleMemberDepositMoney_def Let_def guild_quiet)

lemma HandleMemberWithdrawMoney_quiet [guild_quiet]: "gsview (snd (Guild_HandleMemberWithdrawMoney E g p a r s)) = gsview s"
  by (simp add: Guild_HandleMemberWithdrawMoney_def case_prod_unfold Let_def guild_quiet view_set_member
      DecreaseBankRemainingValue_quiet split: option.split)

lemma HandleMemberLogout_quiet [guild_quiet]: "gsview (Guild_HandleMemberLogout E g p s) = gsview s"
  by (simp add: Guild_HandleMemberLogout_def Let_def guild_quiet view_upd_gld_quiet gview_upd_member mview_def Member_SetStats_def)

lemma SendLoginInfo_quiet [guild_quiet]: "gsview (Guild_SendLoginInfo E g p s) = gsview s"
  by (simp add: Guild_SendLoginInfo_def Let_def guild_quiet view_upd_gld_quiet gview_upd_member mview_def Member_SetStats_def)

lemma sends_quiet [guild_quiet]:
  "gsview (Guild_SendInfo E g p s) = gsview s" "gsview (Guild_SendEventLog E g p s) = gsview s"
  "gsview (Guild_SendBankLog E g p t s) = gsview s" "gsview (Guild_SendBankTabData E g p t s) = gsview s"
  "gsview (Guild_SendBankTabText g p t s) = gsview s"
  by (simp_all add: Guild_SendInfo_def Guild_SendEventLog_def Guild_SendBankLog_def Guild_SendBankTabData_def Guild_SendBankTabText_def
      BankTab_SendText_def Let_def guild_quiet split: option.split)

lemma tab_permissions_quiet: "gsview (snd (fold (tab_permissions E g p r) ts (fs, s))) = gsview s"
  by (induction ts arbitrary: fs s) (simp_all add: tab_permissions_def case_prod_unfold Let_def guild_quiet)

lemma SendPermissions_quiet [guild_quiet]: "gsview (Guild_SendPermissions E g p s) = gsview s"
  by (simp add: Guild_SendPermissions_def case_prod_unfold Let_def guild_quiet tab_permissions_quiet)

end
