(* ===== verification/Guild_Moves.thy ===== *)
theory Guild_Moves
  imports Guild_Quiet
begin

text \<open>
  The abstract machine of guild memberships.  Its state is the view; a move joins, ranks, notes, leads, erases, founds, disbands, logs in
  or logs out in all three places at once.  \<open>views_ok\<close> is what the moves keep: objects, players and table agree.
\<close>

section \<open>Moves\<close>

definition pguid :: "uint32 \<Rightarrow> uint64" where
  "pguid k = ucast k"

definition vm_upd :: "uint32 \<Rightarrow> (member_view option \<Rightarrow> member_view option) \<Rightarrow> guild_view \<Rightarrow> guild_view" where
  "vm_upd k f x = x\<lparr>gv_members := (gv_members x)(k := f (gv_members x k))\<rparr>"

definition v_rank :: "uint32 \<Rightarrow> uint32 \<Rightarrow> uint8 \<Rightarrow> guilds_view \<Rightarrow> guilds_view" where
  "v_rank g k r v =
     vr_upd [MemberSql (CHAR_SET_GUILD_MEMBER_RANK r k)]
       (vp_upd (pguid k) (\<lambda>(h, _). (h, r))
         (vg_upd g (vm_upd k (map_option (\<lambda>(q, _, ns). (q, r, ns)))) v))"

definition v_lead :: "uint32 \<Rightarrow> uint32 \<Rightarrow> guilds_view \<Rightarrow> guilds_view" where
  "v_lead g k v = v_rank g k GR_GUILDMASTER (vg_upd g (\<lambda>x. x\<lparr>gv_leader := pguid k\<rparr>) v)"

definition v_note :: "uint32 \<Rightarrow> uint32 \<Rightarrow> bool \<Rightarrow> string \<Rightarrow> guilds_view \<Rightarrow> guilds_view" where
  "v_note g k officer note v =
     vr_upd [MemberSql (if officer then CHAR_SET_GUILD_MEMBER_OFFNOTE note k else CHAR_SET_GUILD_MEMBER_PNOTE note k)]
       (vg_upd g (vm_upd k (map_option (\<lambda>(q, r, pn, on). (q, r, if officer then pn else note, if officer then note else on)))) v)"

definition v_erase :: "uint32 \<Rightarrow> uint32 \<Rightarrow> guilds_view \<Rightarrow> guilds_view" where
  "v_erase g k v =
     vr_upd [MemberSql (CHAR_DEL_GUILD_MEMBER k)]
       (vp_upd (pguid k) (\<lambda>_. (0, 0)) (vg_upd g (vm_upd k (\<lambda>_. None)) v))"

definition v_join :: "uint32 \<Rightarrow> uint32 \<Rightarrow> uint8 \<Rightarrow> guilds_view \<Rightarrow> guilds_view" where
  "v_join g k r v =
     vp_upd (pguid k) (\<lambda>_. (g, r))
       (vr_upd [MemberSql (CHAR_ADD_GUILD_MEMBER g k r [] [] [])]
         (vg_upd g (vm_upd k (\<lambda>_. Some (pguid k, r, [], []))) v))"

definition v_found :: "uint32 \<Rightarrow> guilds_view \<Rightarrow> guilds_view" where
  "v_found k v =
     (let g = vw_next v; x = \<lparr>gv_id = g, gv_leader = pguid k, gv_keys_ok = True, gv_members = (\<lambda>_. None)\<rparr>;
          v1 = vr_upd [MemberSql (CHAR_DEL_GUILD_MEMBERS g)] (v\<lparr>vw_guilds := (vw_guilds v)(g := Some x), vw_next := g + 1\<rparr>);
          v2 = v_join g k GR_GUILDMASTER v1
      in v2\<lparr>vw_store := insert g (vw_store v2)\<rparr>)"

definition v_disband :: "uint32 \<Rightarrow> uint32 list \<Rightarrow> guilds_view \<Rightarrow> guilds_view" where
  "v_disband g ks v = (let v1 = fold (v_erase g) ks v in v1\<lparr>vw_store := vw_store v1 - {g}\<rparr>)"

definition v_login :: "uint32 \<Rightarrow> guilds_view \<Rightarrow> guilds_view" where
  "v_login k v =
     v\<lparr>vw_online := vw_online v @ [(pguid k, True, case vw_rows v k of None \<Rightarrow> (0, 0) | Some (g, r, _) \<Rightarrow> (g, r))]\<rparr>"

definition v_logout :: "uint64 \<Rightarrow> guilds_view \<Rightarrow> guilds_view" where
  "v_logout p v = v\<lparr>vw_online := filter (\<lambda>e. fst e \<noteq> p) (vw_online v)\<rparr>"

definition v_member :: "guilds_view \<Rightarrow> uint32 \<Rightarrow> uint32 \<Rightarrow> bool" where
  "v_member v g k \<longleftrightarrow> g \<in> vw_store v \<and> (\<exists>x. vw_guilds v g = Some x \<and> gv_members x k \<noteq> None)"

inductive guild_move :: "guilds_view \<Rightarrow> guilds_view \<Rightarrow> bool" where
  move_join: "g \<in> vw_store v \<Longrightarrow> vw_rows v k = None \<Longrightarrow> guild_move v (v_join g k r v)"
| move_rank: "v_member v g k \<Longrightarrow> guild_move v (v_rank g k r v)"
| move_lead: "v_member v g k \<Longrightarrow> guild_move v (v_lead g k v)"
| move_note: "v_member v g k \<Longrightarrow> guild_move v (v_note g k officer note v)"
| move_erase: "v_member v g k \<Longrightarrow> vw_guilds v g = Some x \<Longrightarrow> gv_leader x \<noteq> pguid k \<Longrightarrow> guild_move v (v_erase g k v)"
| move_disband: "g \<in> vw_store v \<Longrightarrow> set ks = {k. v_member v g k} \<Longrightarrow> guild_move v (v_disband g ks v)"
| move_found: "vw_next v < 0xFFFFFFFE \<Longrightarrow> vw_rows v k = None \<Longrightarrow> guild_move v (v_found k v)"
| move_login: "pguid k \<notin> fst ` set (vw_online v) \<Longrightarrow> guild_move v (v_login k v)"
| move_logout: "guild_move v (v_logout p v)"

section \<open>What the moves keep\<close>

definition guild_ok :: "uint32 \<Rightarrow> guild_view \<Rightarrow> bool" where
  "guild_ok g x \<longleftrightarrow> gv_id x = g \<and> gv_keys_ok x \<and> (\<exists>k. gv_leader x = pguid k \<and> gv_members x k \<noteq> None) \<and>
     (\<forall>k mv. gv_members x k = Some mv \<longrightarrow> fst mv = pguid k)"

definition guilds_ok :: "guilds_view \<Rightarrow> bool" where
  "guilds_ok v \<longleftrightarrow> (\<forall>g \<in> vw_store v. g \<noteq> 0 \<and> g < vw_next v \<and> (\<exists>x. vw_guilds v g = Some x \<and> guild_ok g x))"

definition mrows_ok :: "guilds_view \<Rightarrow> bool" where
  "mrows_ok v \<longleftrightarrow>
     (\<forall>k g r ns. vw_rows v k = Some (g, r, ns) \<longleftrightarrow>
        g \<in> vw_store v \<and> (\<exists>x. vw_guilds v g = Some x \<and> gv_members x k = Some (pguid k, r, ns)))"

definition agrees :: "view_row option \<Rightarrow> uint32 \<times> uint8 \<Rightarrow> bool" where
  "agrees row gr \<longleftrightarrow> (case row of None \<Rightarrow> fst gr = 0 | Some (h, rank, _) \<Rightarrow> gr = (h, rank))"

definition online_ok :: "guilds_view \<Rightarrow> bool" where
  "online_ok v \<longleftrightarrow>
     distinct (map fst (vw_online v)) \<and>
     (\<forall>(p, w, gr) \<in> set (vw_online v). w \<and> (\<exists>k. p = pguid k \<and> agrees (vw_rows v k) gr))"

definition views_ok :: "guilds_view \<Rightarrow> bool" where
  "views_ok v \<longleftrightarrow> 0 < vw_next v \<and> guilds_ok v \<and> mrows_ok v \<and> online_ok v"

lemma pguid_inject [simp]: "pguid k = pguid j \<longleftrightarrow> k = j"
  unfolding pguid_def by (metis GUID_LOPART_player)

lemma LOPART_pguid [simp]: "GUID_LOPART (pguid k) = k"
  by (simp add: pguid_def GUID_LOPART_player)

lemma vg_upd_sel [simp]:
  "vw_guilds (vg_upd g f v) h = (if h = g then map_option f (vw_guilds v g) else vw_guilds v h)" "vw_store (vg_upd g f v) = vw_store v"
  "vw_online (vg_upd g f v) = vw_online v" "vw_next (vg_upd g f v) = vw_next v" "vw_rows (vg_upd g f v) = vw_rows v"
  by (simp_all add: vg_upd_def)

lemma vp_upd_sel [simp]:
  "vw_guilds (vp_upd p f v) = vw_guilds v" "vw_store (vp_upd p f v) = vw_store v" "vw_next (vp_upd p f v) = vw_next v"
  "vw_rows (vp_upd p f v) = vw_rows v" "map fst (vw_online (vp_upd p f v)) = map fst (vw_online v)"
  by (simp_all add: vp_upd_def case_prod_unfold comp_def if_distrib cong: if_cong)

lemma vp_upd_online: "(q, w, gr) \<in> set (vw_online (vp_upd p f v)) \<longleftrightarrow>
    (\<exists>gr0. (q, w, gr0) \<in> set (vw_online v) \<and> gr = (if q = p then f gr0 else gr0))"
  by (force simp: vp_upd_def split: if_splits)

lemma vr_upd_sel [simp]:
  "vw_guilds (vr_upd es v) = vw_guilds v" "vw_store (vr_upd es v) = vw_store v" "vw_next (vr_upd es v) = vw_next v"
  "vw_online (vr_upd es v) = vw_online v" "vw_rows (vr_upd es v) = fold exec_event es (vw_rows v)"
  by (simp_all add: vr_upd_def)

lemma rows_okD: "mrows_ok v \<Longrightarrow> vw_rows v k = Some (g, r, ns) \<Longrightarrow>
    g \<in> vw_store v \<and> (\<exists>x. vw_guilds v g = Some x \<and> gv_members x k = Some (pguid k, r, ns))"
  unfolding mrows_ok_def by blast

lemma rows_okI: "mrows_ok v \<Longrightarrow> g \<in> vw_store v \<Longrightarrow> vw_guilds v g = Some x \<Longrightarrow> gv_members x k = Some (pguid k, r, ns) \<Longrightarrow>
    vw_rows v k = Some (g, r, ns)"
  unfolding mrows_ok_def by blast

lemma guilds_okD:
  assumes "guilds_ok v" "g \<in> vw_store v"
  obtains x where "vw_guilds v g = Some x" "guild_ok g x" "g \<noteq> 0" "g < vw_next v"
  using assms unfolding guilds_ok_def by blast

lemma guild_ok_guid: "guild_ok g x \<Longrightarrow> gv_members x k = Some mv \<Longrightarrow> fst mv = pguid k"
  unfolding guild_ok_def by blast

lemma vm_upd_sel [simp]:
  "gv_id (vm_upd k f x) = gv_id x" "gv_leader (vm_upd k f x) = gv_leader x" "gv_keys_ok (vm_upd k f x) = gv_keys_ok x"
  "gv_members (vm_upd k f x) j = (if j = k then f (gv_members x k) else gv_members x j)"
  by (simp_all add: vm_upd_def)

lemma guild_ok_vm_upd:
  assumes "guild_ok g x" "f (gv_members x k) = None \<Longrightarrow> gv_leader x \<noteq> pguid k" "\<And>mv. f (gv_members x k) = Some mv \<Longrightarrow> fst mv = pguid k"
  shows "guild_ok g (vm_upd k f x)"
  using assms unfolding guild_ok_def vm_upd_sel by (metis pguid_inject)

lemma guilds_ok_upd:
  assumes "guilds_ok v" "vw_store v' = vw_store v" "vw_next v' = vw_next v"
    and "\<And>h. vw_guilds v' h = (if h = g then map_option f (vw_guilds v g) else vw_guilds v h)"
    and f: "\<And>x. g \<in> vw_store v \<Longrightarrow> vw_guilds v g = Some x \<Longrightarrow> guild_ok g x \<Longrightarrow> guild_ok g (f x)"
  shows "guilds_ok v'"
  unfolding guilds_ok_def
proof
  fix h assume h: "h \<in> vw_store v'"
  with assms(1,2) obtain x where "vw_guilds v h = Some x" "guild_ok h x" "h \<noteq> 0" "h < vw_next v" by (metis guilds_okD)
  with h assms show "h \<noteq> 0 \<and> h < vw_next v' \<and> (\<exists>x. vw_guilds v' h = Some x \<and> guild_ok h x)" by auto
qed

text \<open>A character without a row is a member of no guild; one with a row is a member of that guild only.\<close>

lemma row_of_member:
  assumes "guilds_ok v" "mrows_ok v" "v_member v g k"
  obtains r ns where "vw_rows v k = Some (g, r, ns)"
proof -
  from assms(3) obtain x q r ns where x: "g \<in> vw_store v" "vw_guilds v g = Some x" "gv_members x k = Some (q, r, ns)"
    unfolding v_member_def by auto
  with assms(1) have "q = pguid k" by (metis guilds_okD guild_ok_guid fst_conv option.inject)
  with x assms(2) show thesis by (metis rows_okI that)
qed

lemma no_row_no_member: "guilds_ok v \<Longrightarrow> mrows_ok v \<Longrightarrow> vw_rows v k = None \<Longrightarrow> \<not> v_member v g k"
  by (metis row_of_member option.distinct(1))

lemma member_unique: "guilds_ok v \<Longrightarrow> mrows_ok v \<Longrightarrow> v_member v g k \<Longrightarrow> v_member v h k \<Longrightarrow> g = h"
  by (metis row_of_member Pair_inject option.inject)


section \<open>The moves keep the agreement\<close>

lemma online_ok_upd:
  assumes "online_ok v" "vw_online v' = vw_online (vp_upd (pguid k) f v)" "\<And>j. j \<noteq> k \<Longrightarrow> vw_rows v' j = vw_rows v j"
    and f: "\<And>gr. agrees (vw_rows v k) gr \<Longrightarrow> agrees (vw_rows v' k) (f gr)"
  shows "online_ok v'"
proof -
  have "distinct (map fst (vw_online v'))" using assms(1) unfolding assms(2) vp_upd_sel online_ok_def by simp
  moreover have "w \<and> (\<exists>j. p = pguid j \<and> agrees (vw_rows v' j) gr)" if "(p, w, gr) \<in> set (vw_online v')" for p w gr
  proof -
    from that assms(2) obtain gr0 where gr: "(p, w, gr0) \<in> set (vw_online v)" "gr = (if p = pguid k then f gr0 else gr0)"
      by (auto simp: vp_upd_online)
    with assms(1) obtain j where "w" "p = pguid j" "agrees (vw_rows v j) gr0" unfolding online_ok_def by blast
    with gr(2) assms(3) f show ?thesis by (cases "j = k") auto
  qed
  ultimately show ?thesis unfolding online_ok_def by blast
qed

lemma rank_keeps:
  assumes "guilds_ok v" "mrows_ok v" "online_ok v" "v_member v g k"
  shows "guilds_ok (v_rank g k r v)" "mrows_ok (v_rank g k r v)" "online_ok (v_rank g k r v)"
proof -
  obtain r0 ns where row: "vw_rows v k = Some (g, r0, ns)" using row_of_member assms by blast
  have rows: "vw_rows (v_rank g k r v) = (vw_rows v)(k := Some (g, r, ns))" using row by (simp add: v_rank_def)
  have other: "\<not> v_member v h k" if "h \<noteq> g" for h using member_unique assms that by blast
  obtain x where x: "g \<in> vw_store v" "vw_guilds v g = Some x" "gv_members x k = Some (pguid k, r0, ns)"
    using rows_okD [OF assms(2) row] by blast
  show "guilds_ok (v_rank g k r v)"
    by (rule guilds_ok_upd [OF assms(1), where g = g and f = "vm_upd k (map_option (\<lambda>(q, _, ns). (q, r, ns)))"])
      (use x in \<open>auto simp: v_rank_def intro!: guild_ok_vm_upd\<close>)
  show "mrows_ok (v_rank g k r v)"
    using assms(2) x other unfolding mrows_ok_def rows by (auto simp: v_rank_def v_member_def)
  show "online_ok (v_rank g k r v)"
    by (rule online_ok_upd [where v = v and k = k and f = "\<lambda>(h, _). (h, r)"]) (use assms(3) row rows in \<open>auto simp: v_rank_def vp_upd_def agrees_def\<close>)
qed

lemma lead_keeps:
  assumes "guilds_ok v" "mrows_ok v" "online_ok v" "v_member v g k"
  shows "guilds_ok (v_lead g k v)" "mrows_ok (v_lead g k v)" "online_ok (v_lead g k v)"
proof -
  let ?w = "vg_upd g (\<lambda>x. x\<lparr>gv_leader := pguid k\<rparr>) v"
  have g: "guilds_ok ?w"
    by (rule guilds_ok_upd [OF assms(1), where g = g and f = "\<lambda>x. x\<lparr>gv_leader := pguid k\<rparr>"])
      (use assms(4) in \<open>auto simp: guild_ok_def v_member_def\<close>)
  have r: "mrows_ok ?w" using assms(2) unfolding mrows_ok_def by auto
  have o: "online_ok ?w" using assms(3) unfolding online_ok_def by simp
  have m: "v_member ?w g k" using assms(4) unfolding v_member_def by auto
  show "guilds_ok (v_lead g k v)" "mrows_ok (v_lead g k v)" "online_ok (v_lead g k v)"
    unfolding v_lead_def by (rule rank_keeps [OF g r o m])+
qed

lemma note_keeps:
  assumes "guilds_ok v" "mrows_ok v" "online_ok v" "v_member v g k"
  shows "guilds_ok (v_note g k officer note v)" "mrows_ok (v_note g k officer note v)" "online_ok (v_note g k officer note v)"
proof -
  obtain r pn on where row: "vw_rows v k = Some (g, r, pn, on)" using row_of_member assms by (metis surj_pair)
  let ?ns = "(if officer then pn else note, if officer then note else on)"
  have rows: "vw_rows (v_note g k officer note v) = (vw_rows v)(k := Some (g, r, ?ns))" using row by (simp add: v_note_def)
  have other: "\<not> v_member v h k" if "h \<noteq> g" for h using member_unique assms that by blast
  obtain x where x: "g \<in> vw_store v" "vw_guilds v g = Some x" "gv_members x k = Some (pguid k, r, pn, on)"
    using rows_okD [OF assms(2) row] by blast
  show "guilds_ok (v_note g k officer note v)"
    by (rule guilds_ok_upd [OF assms(1), where g = g and
          f = "vm_upd k (map_option (\<lambda>(q, r, pn, on). (q, r, if officer then pn else note, if officer then note else on)))"])
      (use x in \<open>auto simp: v_note_def intro!: guild_ok_vm_upd\<close>)
  show "mrows_ok (v_note g k officer note v)"
    using assms(2) x other unfolding mrows_ok_def rows by (auto simp: v_note_def v_member_def)
  show "online_ok (v_note g k officer note v)"
    by (rule online_ok_upd [where v = v and k = k and f = "\<lambda>gr. gr"])
      (use assms(3) row rows in \<open>auto simp: v_note_def vp_upd_def agrees_def case_prod_unfold\<close>)
qed

lemma erase_keeps_rows:
  assumes "guilds_ok v" "mrows_ok v" "online_ok v" "v_member v g k"
  shows "mrows_ok (v_erase g k v)" "online_ok (v_erase g k v)"
proof -
  have rows: "vw_rows (v_erase g k v) = (vw_rows v)(k := None)" by (simp add: v_erase_def)
  have other: "\<not> v_member v h k" if "h \<noteq> g" for h using member_unique assms that by blast
  show "mrows_ok (v_erase g k v)"
    using assms(2,4) other unfolding mrows_ok_def rows v_member_def by (auto simp: v_erase_def) 
  show "online_ok (v_erase g k v)"
    by (rule online_ok_upd [where v = v and k = k and f = "\<lambda>_. (0, 0)"]) (use assms(3) rows in \<open>auto simp: v_erase_def vp_upd_def agrees_def\<close>)
qed

lemma erase_keeps_guilds:
  assumes "guilds_ok v" "vw_guilds v g = Some x" "gv_leader x \<noteq> pguid k"
  shows "guilds_ok (v_erase g k v)"
  by (rule guilds_ok_upd [OF assms(1), where g = g and f = "vm_upd k (\<lambda>_. None)"])
    (use assms in \<open>auto simp: v_erase_def intro!: guild_ok_vm_upd\<close>)

lemma join_keeps:
  assumes "guilds_ok v" "mrows_ok v" "online_ok v" "g \<in> vw_store v" "vw_rows v k = None"
  shows "guilds_ok (v_join g k r v)" "mrows_ok (v_join g k r v)" "online_ok (v_join g k r v)"
proof -
  have rows: "vw_rows (v_join g k r v) = (vw_rows v)(k := Some (g, r, [], []))" using assms(5) by (simp add: v_join_def)
  have none: "\<not> v_member v h k" for h using no_row_no_member assms by blast
  show "guilds_ok (v_join g k r v)"
    by (rule guilds_ok_upd [OF assms(1), where g = g and f = "vm_upd k (\<lambda>_. Some (pguid k, r, [], []))"])
      (auto simp: v_join_def intro!: guild_ok_vm_upd)
  obtain x where "vw_guilds v g = Some x" using assms(1,4) by (metis guilds_okD)
  then show "mrows_ok (v_join g k r v)"
    using assms(2,4) none unfolding mrows_ok_def rows v_member_def by (auto simp: v_join_def)
  show "online_ok (v_join g k r v)"
    by (rule online_ok_upd [where v = v and k = k and f = "\<lambda>_. (g, r)"]) (use assms(3) rows in \<open>auto simp: v_join_def vp_upd_def agrees_def\<close>)
qed

lemma v_erase_sel:
  "vw_store (v_erase g k v) = vw_store v" "vw_next (v_erase g k v) = vw_next v" "vw_rows (v_erase g k v) = (vw_rows v)(k := None)"
  "vw_online (v_erase g k v) = map (\<lambda>(q, w, gr). (q, w, if q = pguid k then (0, 0) else gr)) (vw_online v)"
  "vw_guilds (v_erase g k v) h = (if h = g then map_option (vm_upd k (\<lambda>_. None)) (vw_guilds v g) else vw_guilds v h)"
  by (auto simp: v_erase_def vp_upd_def)

lemma fold_erase:
  "vw_store (fold (v_erase g) ks v) = vw_store v" "vw_next (fold (v_erase g) ks v) = vw_next v"
  "vw_rows (fold (v_erase g) ks v) = (\<lambda>k. if k \<in> set ks then None else vw_rows v k)"
  "vw_online (fold (v_erase g) ks v) = map (\<lambda>(q, w, gr). (q, w, if q \<in> pguid ` set ks then (0, 0) else gr)) (vw_online v)"
  "vw_guilds (fold (v_erase g) ks v) h =
     (if h = g then map_option (\<lambda>x. x\<lparr>gv_members := \<lambda>k. if k \<in> set ks then None else gv_members x k\<rparr>) (vw_guilds v g) else vw_guilds v h)"
proof (induction ks arbitrary: v)
  case Nil
  { case 1 then show ?case by simp next case 2 then show ?case by simp next case 3 then show ?case by simp
  next case 4 then show ?case by (simp add: case_prod_unfold)
  next case 5 then show ?case by (simp add: map_option.id [unfolded id_def]) }
next
  case (Cons k ks)
  { case 1 then show ?case using Cons(1) by (simp add: v_erase_sel)
  next case 2 then show ?case using Cons(2) by (simp add: v_erase_sel)
  next case 3 then show ?case using Cons(3) by (simp add: v_erase_sel fun_eq_iff)
  next case 4 then show ?case using Cons(4) by (simp add: v_erase_sel case_prod_unfold comp_def)
  next case 5 then show ?case using Cons(5)
      by (auto simp: v_erase_sel vm_upd_def option.map_comp comp_def fun_eq_iff intro!: map_option_cong) }
qed

lemma disband_keeps:
  assumes "guilds_ok v" "mrows_ok v" "online_ok v" "set ks = {k. v_member v g k}"
  shows "guilds_ok (v_disband g ks v)" "mrows_ok (v_disband g ks v)" "online_ok (v_disband g ks v)"
proof -
  let ?w = "v_disband g ks v"
  have sel: "vw_store ?w = vw_store v - {g}" "vw_next ?w = vw_next v" "\<And>h. h \<noteq> g \<Longrightarrow> vw_guilds ?w h = vw_guilds v h"
    "vw_rows ?w = (\<lambda>k. if v_member v g k then None else vw_rows v k)"
    "vw_online ?w = map (\<lambda>(q, w, gr). (q, w, if q \<in> pguid ` set ks then (0, 0) else gr)) (vw_online v)"
    by (simp_all add: v_disband_def Let_def fold_erase assms(4))
  show "guilds_ok ?w" using assms(1) unfolding guilds_ok_def sel(1,2) by (auto simp: sel(3))
  have mem: "\<not> v_member v g k" if "vw_guilds v h = Some x" "gv_members x k = Some mv" "h \<in> vw_store v" "h \<noteq> g" for h x k mv
    using member_unique [OF assms(1,2), of g k h] that unfolding v_member_def by blast
  show "mrows_ok ?w"
  proof (unfold mrows_ok_def, intro allI iffI)
    fix k h r ns assume "vw_rows ?w k = Some (h, r, ns)"
    then have "\<not> v_member v g k" "vw_rows v k = Some (h, r, ns)" by (auto simp: sel(4) split: if_splits)
    with rows_okD [OF assms(2), of k h r ns] have "h \<in> vw_store v" "\<exists>x. vw_guilds v h = Some x \<and> gv_members x k = Some (pguid k, r, ns)" "h \<noteq> g"
      by (cases ns; auto simp: v_member_def)+
    then show "h \<in> vw_store ?w \<and> (\<exists>x. vw_guilds ?w h = Some x \<and> gv_members x k = Some (pguid k, r, ns))" by (simp add: sel)
  next
    fix k h r ns assume "h \<in> vw_store ?w \<and> (\<exists>x. vw_guilds ?w h = Some x \<and> gv_members x k = Some (pguid k, r, ns))"
    then show "vw_rows ?w k = Some (h, r, ns)" using mem rows_okI [OF assms(2)] by (cases ns) (auto simp: sel)
  qed
  have "distinct (map fst (vw_online ?w))" using assms(3) by (simp add: online_ok_def sel(5) case_prod_unfold comp_def)
  moreover have "w \<and> (\<exists>k. p = pguid k \<and> agrees (vw_rows ?w k) gr)" if pw: "(p, w, gr) \<in> set (vw_online ?w)" for p w gr
  proof -
    from pw obtain gr0 where gr: "(p, w, gr0) \<in> set (vw_online v)" "gr = (if p \<in> pguid ` set ks then (0, 0) else gr0)"
      by (auto simp: sel(5))
    with assms(3) obtain k where k: "w" "p = pguid k" "agrees (vw_rows v k) gr0" unfolding online_ok_def by blast
    have "agrees (vw_rows ?w k) gr"
      using k gr(2) by (cases "v_member v g k") (auto simp: sel(4) assms(4) agrees_def)
    with k show ?thesis by blast
  qed
  ultimately show "online_ok ?w" unfolding online_ok_def by blast
qed

lemma unat_next: "(n :: uint32) < 0xFFFFFFFE \<Longrightarrow> unat (n + 1) = unat n + 1"
  by (simp add: word_less_nat_alt unat_word_ariths)

lemma found_keeps:
  assumes "0 < vw_next v" "guilds_ok v" "mrows_ok v" "online_ok v" "vw_next v < 0xFFFFFFFE" "vw_rows v k = None"
  shows "0 < vw_next (v_found k v)" "guilds_ok (v_found k v)" "mrows_ok (v_found k v)" "online_ok (v_found k v)"
proof -
  let ?g = "vw_next v" and ?w = "v_found k v"
  let ?x = "\<lparr>gv_id = ?g, gv_leader = pguid k, gv_keys_ok = True, gv_members = (\<lambda>_. None)(k := Some (pguid k, GR_GUILDMASTER, [], []))\<rparr>"
  have less: "?g < ?g + 1" "\<And>h. h < ?g \<Longrightarrow> h < ?g + 1" by (simp_all add: word_less_nat_alt unat_next [OF assms(5)])
  have new: "?g \<notin> vw_store v" using assms(2) unfolding guilds_ok_def by blast
  then have "exec_event (MemberSql (CHAR_DEL_GUILD_MEMBERS ?g)) (vw_rows v) = vw_rows v"
    using rows_okD [OF assms(3)] by (fastforce simp: fun_eq_iff split: option.splits)
  then have sel: "vw_store ?w = insert ?g (vw_store v)" "vw_next ?w = ?g + 1" "vw_guilds ?w = (vw_guilds v)(?g := Some ?x)"
    "vw_rows ?w = (vw_rows v)(k := Some (?g, GR_GUILDMASTER, [], []))" "vw_online ?w = vw_online (vp_upd (pguid k) (\<lambda>_. (?g, GR_GUILDMASTER)) v)"
    using assms(6) by (simp_all add: v_found_def v_join_def Let_def vp_upd_def vm_upd_def fun_eq_iff)
  show "0 < vw_next ?w" using less assms(1) by (simp add: sel)
  show "guilds_ok ?w" using assms(1,2) less new unfolding guilds_ok_def sel by (auto simp: guild_ok_def)
  have none: "\<not> v_member v h k" for h using no_row_no_member assms by blast
  show "mrows_ok ?w" using assms(3) new none unfolding mrows_ok_def sel v_member_def by auto
  show "online_ok ?w"
    by (rule online_ok_upd [where v = v and k = k and f = "\<lambda>_. (?g, GR_GUILDMASTER)"]) (use assms(4) sel in \<open>auto simp: agrees_def\<close>)
qed

lemma login_keeps:
  assumes "online_ok v" "pguid k \<notin> fst ` set (vw_online v)"
  shows "online_ok (v_login k v)"
  using assms unfolding online_ok_def v_login_def by (auto simp: agrees_def split: option.splits)

lemma logout_keeps: "online_ok v \<Longrightarrow> online_ok (v_logout p v)"
  unfolding online_ok_def v_logout_def by (auto simp: distinct_map_filter)

theorem guild_move_keeps: "guild_move v v' \<Longrightarrow> views_ok v \<Longrightarrow> views_ok v'"
proof (induction rule: guild_move.induct)
  case (move_join g v k r) then show ?case by (simp add: views_ok_def join_keeps) (simp add: v_join_def)
next
  case (move_rank v g k r) then show ?case by (simp add: views_ok_def rank_keeps) (simp add: v_rank_def)
next
  case (move_lead v g k) then show ?case by (simp add: views_ok_def lead_keeps) (simp add: v_lead_def v_rank_def)
next
  case (move_note v g k o n) then show ?case by (simp add: views_ok_def note_keeps) (simp add: v_note_def)
next
  case (move_erase v g k x)
  then show ?case by (simp add: views_ok_def erase_keeps_rows erase_keeps_guilds) (simp add: v_erase_def)
next
  case (move_disband g v ks)
  then show ?case by (simp add: views_ok_def disband_keeps) (simp add: v_disband_def Let_def fold_erase)
next
  case (move_found v k) then show ?case by (simp add: views_ok_def found_keeps)
next
  case (move_login k v) then show ?case by (simp add: views_ok_def login_keeps) (simp add: v_login_def guilds_ok_def mrows_ok_def)
next
  case (move_logout v p) then show ?case by (simp add: views_ok_def logout_keeps) (simp add: v_logout_def guilds_ok_def mrows_ok_def)
qed

theorem guild_moves_keep: "guild_move\<^sup>*\<^sup>* v v' \<Longrightarrow> views_ok v \<Longrightarrow> views_ok v'"
  by (induction rule: rtranclp_induct) (simp_all add: guild_move_keeps)

end
