(* ===== verification/Guild_Sim.thy ===== *)
theory Guild_Sim
  imports Guild_Moves
begin

text \<open>The operations that change memberships, as moves of the abstract machine.\<close>

section \<open>Players\<close>

definition all_in_world :: "guilds_view \<Rightarrow> bool" where
  "all_in_world v \<longleftrightarrow> (\<forall>(q, w, gr) \<in> set (vw_online v). w)"

lemma online_all_in_world: "online_ok v \<Longrightarrow> all_in_world v"
  unfolding online_ok_def all_in_world_def by blast

lemma all_in_world_vg [simp]: "all_in_world (vg_upd g f v) = all_in_world v" "all_in_world (vr_upd es v) = all_in_world v"
  by (simp_all add: all_in_world_def)

lemma all_in_world_vp [simp]: "all_in_world (vp_upd p f v) = all_in_world v"
  by (auto simp: all_in_world_def vp_upd_def split: if_splits)

lemma vp_upd_absent: "p \<notin> fst ` set (vw_online v) \<Longrightarrow> vp_upd p f v = v"
  unfolding vp_upd_def by (rule view_eqI) (force intro!: map_idI split: if_splits)+

lemma find_inD: "find P xs = Some x \<Longrightarrow> P x \<and> x \<in> set xs"
  by (induction xs) (auto split: if_splits)

lemma in_world_player: "all_in_world (gsview s) \<Longrightarrow> r \<in> set (gd_online s) \<Longrightarrow> plr_InWorld r"
  by (auto simp: all_in_world_def pview_def)

lemma FindPlayer_find: "all_in_world (gsview s) \<Longrightarrow> gd_FindPlayer p s = find (\<lambda>r. plr_GUID r = p) (gd_online s)"
  by (auto simp: gd_FindPlayer_def dest!: find_inD in_world_player split: option.splits)

lemma FindPlayer_None: "all_in_world (gsview s) \<Longrightarrow> gd_FindPlayer p s = None \<longleftrightarrow> p \<notin> fst ` set (vw_online (gsview s))"
  by (auto simp: FindPlayer_find List.find_None_iff pview_def image_iff)

lemma FindPlayer_plr: "gd_FindPlayer p s = Some r \<Longrightarrow> plr s p = r \<and> plr_GUID r = p \<and> r \<in> set (gd_online s)"
  by (auto simp: gd_FindPlayer_def plr_def dest: find_inD split: option.splits if_splits)

lemma view_SetRank: "gsview (SetRank p r s) = vp_upd p (\<lambda>(g, _). (g, r)) (gsview s)"
  unfolding SetRank_def by (rule view_upd_plr) (simp add: pview_def)

lemma view_SetInGuild: "gsview (SetInGuild p g s) = vp_upd p (\<lambda>(_, r). (g, r)) (gsview s)"
  unfolding SetInGuild_def by (rule view_upd_plr) (simp add: pview_def)

lemma vp_upd_vp_upd: "vp_upd p f (vp_upd p h v) = vp_upd p (f \<circ> h) v"
  by (rule view_eqI) (auto simp: vp_upd_def)

lemma vp_upd_commute:
  "vp_upd p f (vg_upd g h v) = vg_upd g h (vp_upd p f v)" "vp_upd p f (vr_upd es v) = vr_upd es (vp_upd p f v)"
  "vg_upd g h (vr_upd es v) = vr_upd es (vg_upd g h v)"
  by (rule view_eqI; simp add: vp_upd_def)+

section \<open>Members\<close>

lemma view_upd_gld_Some: "gd_guilds s g = Some x \<Longrightarrow> gd_view (f x) = h (gd_view x) \<Longrightarrow> gsview (upd_gld g f s) = vg_upd g h (gsview s)"
  by (rule view_eqI) (auto simp: gd_guilds_upd_gld)

lemma gview_member:
  "(\<And>m. mview (f m) = h (mview m)) \<Longrightarrow> gd_view (upd_member (pguid k) f x) = vm_upd k (map_option h) (gd_view x)"
  by (rule guild_view.equality)
     (auto simp: upd_member_def hmap_ok_update members_view_def hmap_find_update option.map_comp comp_def fun_eq_iff)

lemma view_ChangeRank:
  assumes "all_in_world (gsview s)" "gm_guid m = pguid k"
  shows "gsview (Member_ChangeRank g m r s) = v_rank g k r (gsview s)"
proof -
  let ?s1 = "upd_gld g (upd_member (gm_guid m) (\<lambda>m. m\<lparr>gm_rankId := r\<rparr>)) s"
  let ?h = "\<lambda>(q, _, ns). (q, r, ns)"
  have 1: "gsview ?s1 = vg_upd g (vm_upd k (map_option ?h)) (gsview s)"
    unfolding assms(2) by (rule view_upd_gld) (simp add: gview_member [where h = ?h] mview_def)
  then have "all_in_world (gsview ?s1)" using assms(1) by simp
  then have "gsview (if gd_FindPlayer (pguid k) ?s1 \<noteq> None then SetRank (pguid k) r ?s1 else ?s1) = vp_upd (pguid k) (\<lambda>(g, _). (g, r)) (gsview ?s1)"
    using FindPlayer_None [of ?s1 "pguid k"] by (auto simp: vp_upd_absent view_SetRank)
  with 1 show ?thesis
    unfolding Member_ChangeRank_def Let_def guild_view_emit v_rank_def by (simp only: assms(2) LOPART_pguid vp_upd_commute)
qed

lemma view_SetLeaderGUID:
  assumes "all_in_world (gsview s)" "gm_guid m = pguid k"
  shows "gsview (Guild_SetLeaderGUID g m s) = v_lead g k (gsview s)"
proof -
  have "gsview (upd_gld g (\<lambda>x. x\<lparr>gl_leaderGuid := gm_guid m\<rparr>) s) = vg_upd g (\<lambda>x. x\<lparr>gv_leader := pguid k\<rparr>) (gsview s)"
    by (rule view_upd_gld) (simp add: gd_view_def assms(2))
  with assms show ?thesis by (simp add: Guild_SetLeaderGUID_def Let_def view_ChangeRank v_lead_def)
qed

lemma all_in_world_moves [simp]:
  "all_in_world (v_rank g k r v) = all_in_world v" "all_in_world (v_lead g k v) = all_in_world v" "all_in_world (v_erase g k v) = all_in_world v"
  by (simp_all add: v_rank_def v_lead_def v_erase_def)

text \<open>The two operations with a GUID that is a value.\<close>

lemma Guild_EraseMember_eq:
  "Guild_EraseMember E g guid isDisbanding isKicked s =
     (let player = gd_FindPlayer guid s;
          s1 = gd_emit [GuildHook g (OnGuildRemoveMember (map_option plr_GUID player) isDisbanding isKicked)] s;
          s2 = upd_gld g (\<lambda>x. x\<lparr>gl_members := hmap_erase (GUID_LOPART guid) (gl_members x)\<rparr>) s1;
          s3 = (if gl_members (gld s2 g) \<noteq> [] then Guild_HandleRoster E g None s2 else s2);
          s4 = (if player = None then s3
                else gd_emit (map (PlayerCall guid \<circ> RemoveSpell) (perk_spells E (gn_perkRows E))) (SetRank guid 0 (SetInGuild guid 0 s3)));
          s5 = gd_emit [MemberSql (CHAR_DEL_GUILD_MEMBER (GUID_LOPART guid))] s4
      in if isDisbanding then s5 else upd_gld g Guild_UpdateAccountsNumber s5)"
  unfolding Guild_EraseMember_def Guild_EraseMemberRef_def Let_def by simp

lemma Guild_DeleteMember_eq:
  "Guild_DeleteMember E g guid isDisbanding isKicked s =
     (if gl_leaderGuid (gld s g) = guid \<and> \<not> isDisbanding then
        (case pick_leader (GUID_LOPART guid) (gl_members (gld s g)) None of
           None \<Rightarrow> Guild_Disband E g s
         | Some newLeader \<Rightarrow>
             let s1 = Guild_SetLeaderGUID g newLeader s;
                 s2 = (if gd_FindPlayer (gm_guid newLeader) s1 \<noteq> None then SetRank (gm_guid newLeader) GR_GUILDMASTER s1 else s1);
                 s3 = (case hmap_find (gl_members (gld s g)) (GUID_LOPART guid) of
                         None \<Rightarrow> s2
                       | Some oldLeader \<Rightarrow>
                           Guild_BroadcastEvent g GE_LEFT guid [gm_name oldLeader]
                             (Guild_BroadcastEvent g GE_LEADER_CHANGED 0 [gm_name oldLeader, gm_name newLeader] s2))
             in Guild_EraseMember E g guid isDisbanding isKicked s3)
      else Guild_EraseMember E g guid isDisbanding isKicked s)"
  unfolding Guild_DeleteMember_def Guild_DeleteMemberRef_def Guild_EraseMember_def read_guid.simps Let_def ..

lemma view_EraseMember:
  assumes "all_in_world (gsview s)" "gd_guilds s g = Some x" "hmap_ok (gl_members x)"
  shows "gsview (Guild_EraseMember E g (pguid k) d kicked s) = v_erase g k (gsview s)"
proof -
  let ?es = "[GuildHook g (OnGuildRemoveMember (map_option plr_GUID (gd_FindPlayer (pguid k) s)) d kicked)]"
  let ?s1 = "gd_emit ?es s"
  let ?s2 = "upd_gld g (\<lambda>x. x\<lparr>gl_members := hmap_erase k (gl_members x)\<rparr>) ?s1"
  let ?s3 = "if gl_members (gld ?s2 g) \<noteq> [] then Guild_HandleRoster E g None ?s2 else ?s2"
  have "gsview ?s2 = vg_upd g (vm_upd k (\<lambda>_. None)) (gsview ?s1)"
    by (rule view_upd_gld_Some [where x = x])
      (use assms in \<open>auto simp: members_view_def hmap_find_erase hmap_ok_erase fun_eq_iff intro!: guild_view.equality\<close>)
  then have 3: "gsview ?s3 = vg_upd g (vm_upd k (\<lambda>_. None)) (gsview s)" by (simp add: guild_quiet)
  let ?s4 = "if gd_FindPlayer (pguid k) s = None then ?s3
    else gd_emit (map (PlayerCall (pguid k) \<circ> RemoveSpell) (perk_spells E (gn_perkRows E))) (SetRank (pguid k) 0 (SetInGuild (pguid k) 0 ?s3))"
  have 4: "gsview ?s4 = vp_upd (pguid k) (\<lambda>_. (0, 0)) (gsview ?s3)"
  proof (cases "gd_FindPlayer (pguid k) s")
    case None
    with assms(1) show ?thesis by (simp add: FindPlayer_None 3 vp_upd_absent)
  next
    case (Some r)
    then show ?thesis by (simp add: view_SetRank view_SetInGuild vp_upd_vp_upd comp_def case_prod_unfold list_all_iff)
  qed
  then show ?thesis
    unfolding Guild_EraseMember_eq Let_def LOPART_pguid
    by (simp add: 3 guild_view_emit view_upd_gld_quiet Guild_UpdateAccountsNumber_def v_erase_def vp_upd_commute)
qed

lemma members_view_Some: "members_view ms k = Some mv \<longleftrightarrow> (\<exists>m. hmap_find ms k = Some m \<and> mv = mview m)"
  by (auto simp: members_view_def)

text \<open>The loop of \<open>Disband\<close> has enough rounds: it erases one member after the other until none is left.\<close>

lemma gld_HandleRoster: "gd_guilds (Guild_HandleRoster E g t s) = gd_guilds s"
  by (simp add: Guild_HandleRoster_def Guild_SendUpdateRoster_def Guild_BroadcastEvent_def Guild_SendGuildRankInfo_def
      Guild_SendOrBroadcast_def Guild_BroadcastPacket_def Let_def split: option.split)

lemma EraseMember_guilds:
  assumes "gd_guilds s g = Some x"
  shows "\<exists>y. gd_guilds (Guild_EraseMember E g p d kicked s) g = Some y \<and> gl_members y = hmap_erase (GUID_LOPART p) (gl_members x) \<and>
    gl_id y = gl_id x"
  using assms
  by (simp add: Guild_EraseMember_eq Let_def gd_guilds_upd_gld gld_HandleRoster SetRank_def SetInGuild_def Guild_UpdateAccountsNumber_def)

lemma hmap_erase_head: "hmap_ok ((k, m) # ms) \<Longrightarrow> hmap_erase k ((k, m) # ms) = ms"
  by (auto simp: hmap_ok_def hmap_erase_def filter_id_conv)

lemma Disband_loop_empties:
  assumes "all_in_world (gsview s)" "gd_guilds s g = Some x" "hmap_ok (gl_members x)" "\<And>k m. (k, m) \<in> set (gl_members x) \<Longrightarrow> gm_guid m = pguid k"
  shows "gsview (Guild_Disband_loop E g (length (gl_members x)) s) = fold (v_erase g) (map fst (gl_members x)) (gsview s)"
    and "\<exists>y. gd_guilds (Guild_Disband_loop E g (length (gl_members x)) s) g = Some y \<and> gl_members y = [] \<and> gl_id y = gl_id x"
proof -
  have "gsview (Guild_Disband_loop E g (length ms) s) = fold (v_erase g) (map fst ms) (gsview s) \<and>
      (\<exists>y. gd_guilds (Guild_Disband_loop E g (length ms) s) g = Some y \<and> gl_members y = [] \<and> gl_id y = gl_id x)"
    if "all_in_world (gsview s)" "gd_guilds s g = Some x" "ms = gl_members x" "hmap_ok ms" "\<forall>(k, m) \<in> set ms. gm_guid m = pguid k" for ms
    using that
  proof (induction ms arbitrary: s x)
    case Nil
    then show ?case by auto
  next
    case (Cons c ms)
    obtain k m where c: "c = (k, m)" by (cases c)
    let ?s1 = "Guild_EraseMember E g (pguid k) True False s"
    have m: "gm_guid m = pguid k" using Cons.prems(5) c by simp
    have v1: "gsview ?s1 = v_erase g k (gsview s)"
      using Cons.prems by (intro view_EraseMember [where x = x]) auto
    have er: "hmap_erase k (gl_members x) = ms" using Cons.prems(3,4) c hmap_erase_head by metis
    obtain y where y: "gd_guilds ?s1 g = Some y" "gl_members y = ms" "gl_id y = gl_id x"
      using EraseMember_guilds [OF Cons.prems(2), of E "pguid k" True False] by (auto simp: er)
    have "hmap_ok ms" using Cons.prems(4) by (simp add: hmap_ok_def)
    with Cons.IH [of ?s1 y] y Cons.prems v1 c m
    show ?case by (simp add: gld_def Cons.prems(3) [symmetric])
  qed
  from this [of "gl_members x"] assms
  show "gsview (Guild_Disband_loop E g (length (gl_members x)) s) = fold (v_erase g) (map fst (gl_members x)) (gsview s)"
    and "\<exists>y. gd_guilds (Guild_Disband_loop E g (length (gl_members x)) s) g = Some y \<and> gl_members y = [] \<and> gl_id y = gl_id x"
    by auto
qed

lemma gld_BroadcastEvent: "gd_guilds (Guild_BroadcastEvent g e p ps s) = gd_guilds s"
  by (simp add: Guild_BroadcastEvent_def Guild_BroadcastPacket_def)

lemma view_RemoveGuild: "gsview (GuildMgr_RemoveGuild g s) = (gsview s)\<lparr>vw_store := vw_store (gsview s) - {g}\<rparr>"
  by (rule view_eqI) (auto simp: GuildMgr_RemoveGuild_def)

lemma view_Disband:
  assumes "all_in_world (gsview s)" "gd_guilds s g = Some x" "gl_id x = g" "hmap_ok (gl_members x)"
    "\<And>k m. (k, m) \<in> set (gl_members x) \<Longrightarrow> gm_guid m = pguid k"
  shows "gsview (Guild_Disband E g s) = v_disband g (map fst (gl_members x)) (gsview s)"
proof -
  let ?s1 = "Guild_BroadcastEvent g GE_DISBANDED 0 [] (gd_emit [GuildHook g OnGuildDisband] s)"
  have 1: "gsview ?s1 = gsview s" "gd_guilds ?s1 g = Some x" using assms(2) by (simp_all add: guild_quiet gld_BroadcastEvent)
  then have l: "length (gl_members (gld ?s1 g)) = length (gl_members x)" by (simp add: gld_def)
  note loop = Disband_loop_empties [of ?s1 g x E, unfolded 1, OF assms(1) refl assms(4,5)]
  from loop(2) have "gl_id (gld (Guild_Disband_loop E g (length (gl_members x)) ?s1) g) = g" using assms(3) by (auto simp: gld_def)
  with loop(1) show ?thesis
    unfolding Guild_Disband_def Let_def l view_RemoveGuild by (simp add: guild_quiet v_disband_def Let_def)
qed

section \<open>Joining\<close>

lemma BuildMember_online: "\<exists>m. Guild_BuildMember E p r (Some player) = Some m \<and> mview m = (p, r, [], []) \<and> gm_guid m = p"
  by (simp add: Guild_BuildMember_def Member_SetStats_def Member_new_def mview_def)

lemma member_statement:
  "mview m = (pguid k, r, [], []) \<Longrightarrow>
   vr_upd (Member_SaveToDB g m) v = vr_upd [MemberSql (CHAR_ADD_GUILD_MEMBER g k r [] [] [])] v"
  by (simp add: Member_SaveToDB_def vr_upd_def mview_def)

lemma gld_upd_simps:
  "gd_guilds (SetRank p r s) = gd_guilds s" "gd_guilds (SetInGuild p h s) = gd_guilds s" "gd_guilds (SetGuildIdInvited p h s) = gd_guilds s"
  by (simp_all add: SetRank_def SetInGuild_def SetGuildIdInvited_def)

lemma view_AddMember:
  assumes "gd_guilds s g = Some x" "gl_id x = g" "hmap_ok (gl_members x)" "gd_FindPlayer (pguid k) s = Some player" "plr_GuildId player = 0"
  shows "fst (Guild_AddMember E g (pguid k) r s)"
    and "gsview (snd (Guild_AddMember E g (pguid k) r s)) =
      v_join g k (if r = GUILD_RANK_NONE then Guild_GetLowestRankId x else r) (gsview s)"
proof -
  let ?r = "if r = GUILD_RANK_NONE then Guild_GetLowestRankId x else r"
  have x: "gld s g = x" using assms(1) by (simp add: gld_def)
  obtain m where m: "Guild_BuildMember E (pguid k) ?r (Some player) = Some m" "mview m = (pguid k, ?r, [], [])"
    using BuildMember_online by blast
  let ?es = "PlayerCall (pguid k) RemovePetitionsAndSigns # map (PlayerCall (pguid k) \<circ> LearnSpell) (perk_spells E (unat (gl_level x)))"
  let ?s1 = "gd_emit ?es s"
  let ?s2 = "upd_gld g (\<lambda>x. x\<lparr>gl_members := hmap_put (gn_place E) k m (gl_members x)\<rparr>) ?s1"
  let ?s3 = "if length (gl_members (gld ?s2 g)) > 1 then Guild_HandleRoster E g None ?s2 else ?s2"
  have v1: "gsview ?s1 = gsview s" by (simp add: list_all_iff)
  have v2: "gsview ?s2 = vg_upd g (vm_upd k (\<lambda>_. Some (pguid k, ?r, [], []))) (gsview ?s1)"
    by (rule view_upd_gld_Some [where x = x])
      (use assms(1,3) m(2) in \<open>auto simp: members_view_def hmap_find_put hmap_ok_put fun_eq_iff intro!: guild_view.equality\<close>)
  have v3: "gsview ?s3 = vg_upd g (vm_upd k (\<lambda>_. Some (pguid k, ?r, [], []))) (gsview s)"
    using v2 unfolding v1 by (simp add: guild_quiet)
  have id3: "gl_id (gld ?s3 g) = g" using assms(1,2) by (simp add: gld_def gd_guilds_upd_gld gld_HandleRoster)
  show "fst (Guild_AddMember E g (pguid k) r s)"
    using m(1) unfolding Guild_AddMember_def Let_def assms(4) x by (simp add: assms(5))
  have "gsview (snd (Guild_AddMember E g (pguid k) r s)) =
      vp_upd (pguid k) (\<lambda>(g, _). (g, ?r)) (vp_upd (pguid k) (\<lambda>(_, r). (g, r)) (vr_upd (Member_SaveToDB g m) (gsview ?s3)))"
    using m(1) id3 unfolding Guild_AddMember_def Let_def assms(4) x
    by (simp add: assms(5) view_upd_gld_quiet Guild_UpdateAccountsNumber_def guild_quiet view_SetRank view_SetInGuild guild_view_emit
        del: if_split cong: if_cong)
  then show "gsview (snd (Guild_AddMember E g (pguid k) r s)) = v_join g k ?r (gsview s)"
    unfolding v3 member_statement [OF m(2)] v_join_def by (simp add: vp_upd_vp_upd comp_def case_prod_unfold)
qed

section \<open>Leaving\<close>

lemma guild_object:
  assumes "views_ok (gsview s)" "g \<in> set (gd_store s)"
  obtains x where "gd_guilds s g = Some x" "gld s g = x" "gl_id x = g" "g \<noteq> 0" "hmap_ok (gl_members x)" "all_in_world (gsview s)"
    "\<And>k m. (k, m) \<in> set (gl_members x) \<Longrightarrow> gm_guid m = pguid k" "\<And>k. v_member (gsview s) g k \<longleftrightarrow> hmap_find (gl_members x) k \<noteq> None"
    "\<exists>k. gl_leaderGuid x = pguid k \<and> hmap_find (gl_members x) k \<noteq> None"
proof -
  from assms obtain v where v: "vw_guilds (gsview s) g = Some v" "guild_ok g v" "g \<noteq> 0"
    unfolding views_ok_def by (metis guilds_okD gsview_sel(2))
  then obtain x where x: "gd_guilds s g = Some x" "v = gd_view x" by auto
  show thesis
  proof (rule that [OF x(1)])
    show "gld s g = x" using x by (simp add: gld_def)
    show "gl_id x = g" "hmap_ok (gl_members x)" "\<exists>k. gl_leaderGuid x = pguid k \<and> hmap_find (gl_members x) k \<noteq> None"
      using v(2) by (simp_all add: x(2) guild_ok_def members_view_def)
    show "g \<noteq> 0" by (rule v(3))
    show "all_in_world (gsview s)" using assms(1) by (simp add: views_ok_def online_all_in_world)
    show "gm_guid m = pguid k" if km: "(k, m) \<in> set (gl_members x)" for k m
    proof -
      have "hmap_find (gl_members x) k = Some m" using v(2) km by (simp add: x(2) guild_ok_def hmap_find_iff)
      then show ?thesis using guild_ok_guid [OF v(2), of k "mview m"] by (simp add: x(2) members_view_def mview_def)
    qed
    show "v_member (gsview s) g k \<longleftrightarrow> hmap_find (gl_members x) k \<noteq> None" for k
      using assms(2) x(1) by (simp add: v_member_def members_view_def mview_def)
  qed
qed

lemma pick_leader_Some:
  "pick_leader lo ms best = Some m \<Longrightarrow> best = Some m \<or> (\<exists>k. (k, m) \<in> set ms \<and> k \<noteq> lo)"
  by (induction lo ms best rule: pick_leader.induct) (auto split: option.splits if_splits)

lemma pick_leader_None: "pick_leader lo ms best = None \<Longrightarrow> best = None \<and> (\<forall>k \<in> fst ` set ms. k = lo)"
  by (induction lo ms best rule: pick_leader.induct) (auto split: option.splits if_splits)

lemma moves_Disband:
  assumes "views_ok (gsview s)" "g \<in> set (gd_store s)"
  shows "guild_move (gsview s) (gsview (Guild_Disband E g s))"
proof -
  obtain x where x: "gd_guilds s g = Some x" "gl_id x = g" "hmap_ok (gl_members x)" "all_in_world (gsview s)"
    "\<And>k m. (k, m) \<in> set (gl_members x) \<Longrightarrow> gm_guid m = pguid k" "\<And>k. v_member (gsview s) g k \<longleftrightarrow> hmap_find (gl_members x) k \<noteq> None"
    using guild_object [OF assms] by metis
  have "guild_move (gsview s) (v_disband g (map fst (gl_members x)) (gsview s))"
    by (rule move_disband) (use assms(2) x(6) in \<open>auto simp: hmap_find_None\<close>)
  then show ?thesis using view_Disband [OF x(4,1,2,3,5)] by simp
qed

lemma v_rank_again: "vp_upd (pguid k) (\<lambda>(h, _). (h, r)) (v_rank g k r v) = v_rank g k r v"
  by (simp add: v_rank_def vp_upd_commute vp_upd_vp_upd comp_def case_prod_unfold)

lemma moves_DeleteMember:
  assumes "views_ok (gsview s)" "g \<in> set (gd_store s)" "v_member (gsview s) g k"
  shows "guild_move\<^sup>*\<^sup>* (gsview s) (gsview (Guild_DeleteMember E g (pguid k) False kicked s))"
proof -
  obtain x where x: "gd_guilds s g = Some x" "gld s g = x" "gl_id x = g" "hmap_ok (gl_members x)" "all_in_world (gsview s)"
    "\<And>k m. (k, m) \<in> set (gl_members x) \<Longrightarrow> gm_guid m = pguid k" "\<And>k. v_member (gsview s) g k \<longleftrightarrow> hmap_find (gl_members x) k \<noteq> None"
    using guild_object [OF assms(1,2)] by metis
  show ?thesis
  proof (cases "gl_leaderGuid x = pguid k")
    case False
    then have "guild_move (gsview s) (v_erase g k (gsview s))"
      by (intro move_erase [where x = "gd_view x"]) (use assms(3) x(1) in auto)
    with False show ?thesis by (simp add: Guild_DeleteMember_eq x(2) view_EraseMember [OF x(5,1,4)])
  next
    case leader: True
    show ?thesis
    proof (cases "pick_leader k (gl_members x) None")
      case None
      with leader show ?thesis by (simp add: Guild_DeleteMember_eq x(2) Let_def moves_Disband assms r_into_rtranclp)
    next
      case (Some m)
      then obtain j where j: "(j, m) \<in> set (gl_members x)" "j \<noteq> k" using pick_leader_Some by fastforce
      then have m: "gm_guid m = pguid j" "v_member (gsview s) g j" using x(4,6,7) by (auto simp: hmap_find_iff)
      let ?s1 = "Guild_SetLeaderGUID g m s"
      let ?s2 = "if gd_FindPlayer (gm_guid m) ?s1 \<noteq> None then SetRank (gm_guid m) GR_GUILDMASTER ?s1 else ?s1"
      let ?s3 = "case hmap_find (gl_members x) k of None \<Rightarrow> ?s2
        | Some old \<Rightarrow> Guild_BroadcastEvent g GE_LEFT (pguid k) [gm_name old]
            (Guild_BroadcastEvent g GE_LEADER_CHANGED 0 [gm_name old, gm_name m] ?s2)"
      have v1: "gsview ?s1 = v_lead g j (gsview s)" by (rule view_SetLeaderGUID [OF x(5) m(1)])
      then have "gsview ?s2 = gsview ?s1" unfolding m(1) by (simp add: view_SetRank v_lead_def v_rank_again)
      then have v3: "gsview ?s3 = v_lead g j (gsview s)"
        using v1 by (cases "hmap_find (gl_members x) k") (simp_all only: option.case guild_quiet)
      have lead: "guild_move (gsview s) (v_lead g j (gsview s))" by (rule move_lead [OF m(2)])
      define s3 where "s3 = ?s3"
      have v: "gsview s3 = v_lead g j (gsview s)" using v3 by (simp only: s3_def)
      have ok: "views_ok (gsview s3)" using guild_move_keeps [OF lead assms(1)] v by simp
      have "vw_store (gsview s3) = vw_store (gsview s)" unfolding v by (simp add: v_lead_def v_rank_def)
      then have "g \<in> set (gd_store s3)" using assms(2) by simp
      then obtain y where y: "gd_guilds s3 g = Some y" "hmap_ok (gl_members y)" "all_in_world (gsview s3)"
        using guild_object [OF ok] by metis
      have gy: "vw_guilds (v_lead g j (gsview s)) g = Some (gd_view y)" unfolding v [symmetric] by (simp add: y(1))
      then have yv: "gd_view y = vm_upd j (map_option (\<lambda>(q, _, ns). (q, GR_GUILDMASTER, ns))) ((gd_view x)\<lparr>gv_leader := pguid j\<rparr>)"
        using x(1) by (simp add: v_lead_def v_rank_def)
      have nl: "gv_leader (gd_view y) \<noteq> pguid k" unfolding yv using j(2) by simp
      have "v_member (v_lead g j (gsview s)) g k" using assms(3) j(2) by (auto simp: v_member_def v_lead_def v_rank_def)
      from move_erase [OF this gy nl] have "guild_move (v_lead g j (gsview s)) (v_erase g k (v_lead g j (gsview s)))" .
      with lead have "guild_move\<^sup>*\<^sup>* (gsview s) (v_erase g k (v_lead g j (gsview s)))" by simp
      moreover have "Guild_DeleteMember E g (pguid k) False kicked s = Guild_EraseMember E g (pguid k) False kicked s3"
        using leader Some by (simp add: Guild_DeleteMember_eq x(2) Let_def s3_def)
      ultimately show ?thesis using view_EraseMember [OF y(3,1,2)] v by simp
    qed
  qed
qed

section \<open>Notes\<close>

lemma moves_SetMemberNote:
  assumes "views_ok (gsview s)" "g \<in> set (gd_store s)"
  shows "guild_move\<^sup>*\<^sup>* (gsview s) (gsview (Guild_HandleSetMemberNote E g p guid nt officer s))"
proof -
  obtain x where x: "gd_guilds s g = Some x" "gld s g = x" "hmap_ok (gl_members x)"
    "\<And>k m. (k, m) \<in> set (gl_members x) \<Longrightarrow> gm_guid m = pguid k" "\<And>k. v_member (gsview s) g k \<longleftrightarrow> hmap_find (gl_members x) k \<noteq> None"
    using guild_object [OF assms] by metis
  show ?thesis
  proof (cases "Guild_GetMember guid x")
    case None
    then show ?thesis by (simp add: Guild_HandleSetMemberNote_def x(2) guild_quiet)
  next
    case (Some m)
    define k where "k = GUID_LOPART guid"
    have find: "hmap_find (gl_members x) k = Some m" using Some by (simp add: Guild_GetMember_def k_def)
    then have m: "gm_guid m = pguid k" "v_member (gsview s) g k" using x by (auto dest: hmap_findD)
    define d where "d = (if officer then Member_SetOfficerNote nt m else Member_SetPublicNote nt m)"
    have new: "mview (fst d) = (pguid k, gm_rankId m, if officer then gm_publicNote m else nt, if officer then nt else gm_officerNote m)"
      by (simp add: d_def Member_SetOfficerNote_def Member_SetPublicNote_def mview_def m(1))
    have upd: "gd_view (upd_member guid (\<lambda>_. fst d) x) = vm_upd k (\<lambda>_. Some (mview (fst d))) (gd_view x)"
      using find by (auto simp: upd_member_def k_def [symmetric] members_view_def hmap_find_update hmap_ok_update fun_eq_iff
          intro!: guild_view.equality)
    let ?s1 = "upd_gld g (upd_member guid (\<lambda>_. fst d)) s"
    have v1: "gsview ?s1 = vg_upd g (vm_upd k (\<lambda>_. Some (mview (fst d)))) (gsview s)"
      by (rule view_upd_gld_Some [where x = x], rule x(1), rule upd)
    have mv: "gv_members (gd_view x) k = Some (mview m)" using find by (simp add: members_view_def)
    have "guild_move\<^sup>*\<^sup>* (gsview s) (gsview (gd_emit (snd d) ?s1))"
    proof (cases "snd d = []")
      case True
      then have "mview (fst d) = mview m"
        by (auto simp: d_def Member_SetOfficerNote_def Member_SetPublicNote_def split: if_splits)
      then have "gd_view (upd_member guid (\<lambda>_. fst d) x) = gd_view x"
        using upd mv by (simp add: vm_upd_def fun_upd_idem)
      then have "gsview ?s1 = gsview s" using x(1) by (intro view_upd_gld_at) simp
      with True show ?thesis by simp
    next
      case False
      then have sql: "snd d = [MemberSql (if officer then CHAR_SET_GUILD_MEMBER_OFFNOTE nt k else CHAR_SET_GUILD_MEMBER_PNOTE nt k)]"
        using m(1) by (auto simp: d_def Member_SetOfficerNote_def Member_SetPublicNote_def split: if_splits)
      have "vg_upd g (vm_upd k (\<lambda>_. Some (mview (fst d)))) (gsview s) =
        vg_upd g (vm_upd k (map_option (\<lambda>(q, r, pn, on). (q, r, if officer then pn else nt, if officer then nt else on)))) (gsview s)"
        using x(1) mv new m(1) by (intro view_eqI) (simp_all add: vm_upd_def mview_def)
      then have "gsview (gd_emit (snd d) ?s1) = v_note g k officer nt (gsview s)"
        by (simp add: guild_view_emit v1 sql v_note_def)
      then show ?thesis using move_note [OF m(2)] by (simp add: r_into_rtranclp)
    qed
    moreover have "Guild_HandleSetMemberNote E g p guid nt officer s =
      (if \<not> Guild_HasRankRight (plr s p) (if officer then GR_RIGHT_EOFFNOTE else GR_RIGHT_EPNOTE) x
       then SendCommandResult p GUILD_INVITE_S ERR_GUILD_PERMISSIONS [] s else Guild_HandleRoster E g (Some p) (gd_emit (snd d) ?s1))"
      using Some by (simp add: Guild_HandleSetMemberNote_def x(2) d_def case_prod_unfold Let_def)
    ultimately show ?thesis by (simp add: guild_quiet)
  qed
qed

end
