(* ===== verification/Guild_History.thy ===== *)
theory Guild_History
  imports Guild_Sim
begin

text \<open>
  Histories: the messages of players, logins and logouts, each with the environment it meets.  Every history in which the messages are
  sane is a run of the abstract machine.
\<close>

section \<open>Messages\<close>

datatype guild_opcode =
    CMSG_GUILD_QUERY | CMSG_GUILD_CREATE | CMSG_GUILD_INVITE | CMSG_GUILD_REMOVE | CMSG_GUILD_ACCEPT | CMSG_GUILD_DECLINE
  | CMSG_GUILD_INFO | CMSG_GUILD_ROSTER | CMSG_GUILD_PROMOTE | CMSG_GUILD_DEMOTE | CMSG_GUILD_LEAVE | CMSG_GUILD_DISBAND
  | CMSG_GUILD_LEADER | CMSG_GUILD_INFO_TEXT | CMSG_GUILD_MOTD | CMSG_QUERY_GUILD_XP | CMSG_QUERY_GUILD_MAX_XP
  | CMSG_QUERY_GUILD_REWARDS | CMSG_GUILD_SET_NOTE | CMSG_GUILD_RANK | CMSG_GUILD_ADD_RANK | CMSG_GUILD_DEL_RANK
  | CMSG_SAVE_GUILD_EMBLEM | CMSG_GUILD_EVENT_LOG_QUERY | CMSG_GUILD_BANK_MONEY_WITHDRAWN | CMSG_GUILD_PERMISSIONS
  | CMSG_GUILD_BANKER_ACTIVATE | CMSG_GUILD_BANK_QUERY_TAB | CMSG_GUILD_BANK_DEPOSIT_MONEY | CMSG_GUILD_BANK_WITHDRAW_MONEY
  | CMSG_GUILD_BANK_BUY_TAB | CMSG_GUILD_BANK_UPDATE_TAB | CMSG_GUILD_BANK_LOG_QUERY | CMSG_QUERY_GUILD_BANK_TEXT
  | CMSG_SET_GUILD_BANK_TEXT | CMSG_GUILD_QUERY_NEWS

fun guild_handle :: "guild_opcode \<Rightarrow> guild_env \<Rightarrow> uint64 \<Rightarrow> WorldPacket \<Rightarrow> GuildState \<Rightarrow> GuildState" where
  "guild_handle CMSG_GUILD_QUERY E p d = HandleGuildQueryOpcode p d"
| "guild_handle CMSG_GUILD_CREATE E p d = HandleGuildCreateOpcode E p d"
| "guild_handle CMSG_GUILD_INVITE E p d = HandleGuildInviteOpcode E p d"
| "guild_handle CMSG_GUILD_REMOVE E p d = HandleGuildRemoveOpcode E p d"
| "guild_handle CMSG_GUILD_ACCEPT E p d = HandleGuildAcceptOpcode E p d"
| "guild_handle CMSG_GUILD_DECLINE E p d = HandleGuildDeclineOpcode p d"
| "guild_handle CMSG_GUILD_INFO E p d = HandleGuildInfoOpcode E p"
| "guild_handle CMSG_GUILD_ROSTER E p d = HandleGuildRosterOpcode E p"
| "guild_handle CMSG_GUILD_PROMOTE E p d = HandleGuildPromoteOpcode E p d"
| "guild_handle CMSG_GUILD_DEMOTE E p d = HandleGuildDemoteOpcode E p d"
| "guild_handle CMSG_GUILD_LEAVE E p d = HandleGuildLeaveOpcode E p"
| "guild_handle CMSG_GUILD_DISBAND E p d = HandleGuildDisbandOpcode E p"
| "guild_handle CMSG_GUILD_LEADER E p d = HandleGuildLeaderOpcode E p d"
| "guild_handle CMSG_GUILD_INFO_TEXT E p d = HandleGuildChangeInfoTextOpcode p d"
| "guild_handle CMSG_GUILD_MOTD E p d = HandleGuildMOTDOpcode p d"
| "guild_handle CMSG_QUERY_GUILD_XP E p d = HandleGuildExperienceOpcode p d"
| "guild_handle CMSG_QUERY_GUILD_MAX_XP E p d = HandleGuildMaxExperienceOpcode p d"
| "guild_handle CMSG_QUERY_GUILD_REWARDS E p d = HandleGuildRewardsOpcode E p d"
| "guild_handle CMSG_GUILD_SET_NOTE E p d = HandleGuildSetNoteOpcode E p d"
| "guild_handle CMSG_GUILD_RANK E p d = HandleGuildRankOpcode E p d"
| "guild_handle CMSG_GUILD_ADD_RANK E p d = HandleGuildAddRankOpcode E p"
| "guild_handle CMSG_GUILD_DEL_RANK E p d = HandleGuildDelRankOpcode E p d"
| "guild_handle CMSG_SAVE_GUILD_EMBLEM E p d = HandleSaveGuildEmblemOpcode E p d"
| "guild_handle CMSG_GUILD_EVENT_LOG_QUERY E p d = HandleGuildEventLogQueryOpcode E p"
| "guild_handle CMSG_GUILD_BANK_MONEY_WITHDRAWN E p d = HandleGuildBankMoneyWithdrawn E p"
| "guild_handle CMSG_GUILD_PERMISSIONS E p d = HandleGuildPermissions E p"
| "guild_handle CMSG_GUILD_BANKER_ACTIVATE E p d = HandleGuildBankerActivate E p d"
| "guild_handle CMSG_GUILD_BANK_QUERY_TAB E p d = HandleGuildBankQueryTab E p d"
| "guild_handle CMSG_GUILD_BANK_DEPOSIT_MONEY E p d = HandleGuildBankDepositMoney E p d"
| "guild_handle CMSG_GUILD_BANK_WITHDRAW_MONEY E p d = HandleGuildBankWithdrawMoney E p d"
| "guild_handle CMSG_GUILD_BANK_BUY_TAB E p d = HandleGuildBankBuyTab E p d"
| "guild_handle CMSG_GUILD_BANK_UPDATE_TAB E p d = HandleGuildBankUpdateTab E p d"
| "guild_handle CMSG_GUILD_BANK_LOG_QUERY E p d = HandleGuildBankLogQuery E p d"
| "guild_handle CMSG_QUERY_GUILD_BANK_TEXT E p d = HandleQueryGuildBankTabText p d"
| "guild_handle CMSG_SET_GUILD_BANK_TEXT E p d = HandleSetGuildBankTabText E p d"
| "guild_handle CMSG_GUILD_QUERY_NEWS E p d = HandleGuildQueryNews E p"

datatype guild_msg = GuildMsg guild_opcode uint64 WorldPacket | GuildLogin GuildPlayer | GuildLogout uint64

text \<open>A login reads the row that the statements so far have left.\<close>

definition login_row :: "GuildState \<Rightarrow> uint64 \<Rightarrow> (uint32 \<times> uint8) option" where
  "login_row s p = map_option (\<lambda>(g, r, _). (g, r)) (member_table (gd_trace s) (GUID_LOPART p))"

fun guild_step :: "guild_env \<times> guild_msg \<Rightarrow> GuildState \<Rightarrow> GuildState" where
  "guild_step (E, GuildMsg op p d) s = guild_handle op E p d s"
| "guild_step (E, GuildLogin player) s = guild_login E player (login_row s (plr_GUID player)) s"
| "guild_step (E, GuildLogout p) s = guild_logout E p s"

text \<open>
  Sane messages come from players in the world, where every player object is.  Excluded are: declining while in a guild
  (\<open>decline_splits_membership\<close>), a kick whose target is no GUID of a player (\<open>kick_misses_player\<close>), and the creation of a guild when the
  numbers are used up.
\<close>

definition is_online :: "uint64 \<Rightarrow> GuildState \<Rightarrow> bool" where
  "is_online p s \<longleftrightarrow> p \<in> plr_GUID ` set (gd_online s)"

definition is_player_guid :: "uint64 \<Rightarrow> bool" where
  "is_player_guid p \<longleftrightarrow> p = pguid (GUID_LOPART p)"

fun sane_msg :: "guild_env \<times> guild_msg \<Rightarrow> GuildState \<Rightarrow> bool" where
  "sane_msg (E, GuildMsg op p d) s \<longleftrightarrow>
     is_online p s \<and> (op = CMSG_GUILD_DECLINE \<longrightarrow> plr_GuildId (plr s p) = 0) \<and>
     (op = CMSG_GUILD_REMOVE \<longrightarrow> (case in_u64 d of Inl _ \<Rightarrow> True | Inr (guid, _) \<Rightarrow> is_player_guid guid)) \<and>
     (op = CMSG_GUILD_CREATE \<longrightarrow> gd_nextGuildId s < 0xFFFFFFFE)"
| "sane_msg (E, GuildLogin player) s \<longleftrightarrow> is_player_guid (plr_GUID player) \<and> \<not> is_online (plr_GUID player) s"
| "sane_msg (E, GuildLogout p) s \<longleftrightarrow> True"

section \<open>Every message is a run of moves\<close>

lemma parse_moves:
  assumes "\<And>x. r = Inr x \<Longrightarrow> guild_move\<^sup>*\<^sup>* (gsview s) (gsview (f x))"
  shows "guild_move\<^sup>*\<^sup>* (gsview s) (gsview (gd_parse r f s))"
  using assms by (cases r) (simp_all add: gd_parse_def)

lemma parse_quiet [guild_quiet]: "(\<And>x. gsview (f x) = gsview s) \<Longrightarrow> gsview (gd_parse r f s) = gsview s"
  by (cases r) (simp_all add: gd_parse_def)

lemma GetPlayerGuild_store: "GetPlayerGuild p s = Some g \<Longrightarrow> g \<in> set (gd_store s) \<and> plr_GuildId (plr s p) = g \<and> g \<noteq> 0"
  by (auto simp: GetPlayerGuild_def GuildMgr_GetGuildById_def Let_def split: if_splits)

lemma with_guild_moves:
  assumes "\<And>g. GetPlayerGuild p s = Some g \<Longrightarrow> g \<in> set (gd_store s) \<Longrightarrow> plr_GuildId (plr s p) = g \<Longrightarrow> guild_move\<^sup>*\<^sup>* (gsview s) (gsview (f g s))"
  shows "guild_move\<^sup>*\<^sup>* (gsview s) (gsview (with_guild_or_error p f s))"
proof (cases "GetPlayerGuild p s")
  case None
  then show ?thesis by (simp add: with_guild_or_error_def guild_quiet)
next
  case (Some g)
  with assms GetPlayerGuild_store show ?thesis by (simp add: with_guild_or_error_def)
qed

lemma with_guild_quiet [guild_quiet]:
  "(\<And>g. gsview (f g s) = gsview s) \<Longrightarrow> gsview (with_guild p f s) = gsview s"
  "(\<And>g. gsview (f g s) = gsview s) \<Longrightarrow> gsview (with_guild_or_error p f s) = gsview s"
  by (simp_all add: with_guild_def with_guild_or_error_def guild_quiet split: option.split)

lemma quiet_moves: "gsview s' = gsview s \<Longrightarrow> guild_move\<^sup>*\<^sup>* (gsview s) (gsview s')"
  by simp

text \<open>The session's player, a member of the guild he names.\<close>

lemma online_player:
  assumes "views_ok (gsview s)" "is_online p s"
  obtains r k where "gd_FindPlayer p s = Some r" "plr s p = r" "p = pguid k" "agrees (vw_rows (gsview s) k) (plr_GuildId r, plr_Rank r)"
proof -
  have w: "all_in_world (gsview s)" "online_ok (gsview s)" using assms(1) by (simp_all add: views_ok_def online_all_in_world)
  have "gd_FindPlayer p s \<noteq> None" using assms(2) unfolding FindPlayer_None [OF w(1)] by (simp add: is_online_def pview_def image_image)
  then obtain r where r: "gd_FindPlayer p s = Some r" by auto
  have rp: "plr s p = r" "plr_GUID r = p" "r \<in> set (gd_online s)" using FindPlayer_plr [OF r] by auto
  then have "(p, plr_InWorld r, plr_GuildId r, plr_Rank r) \<in> set (vw_online (gsview s))" by (force simp: pview_def)
  then obtain k where "p = pguid k" "agrees (vw_rows (gsview s) k) (plr_GuildId r, plr_Rank r)"
    using w(2) unfolding online_ok_def by blast
  with r rp that show thesis by blast
qed

lemma online_member:
  assumes "views_ok (gsview s)" "is_online p s" "plr_GuildId (plr s p) = g" "g \<noteq> 0"
  obtains k where "p = pguid k" "v_member (gsview s) g k"
proof -
  obtain r k where k: "plr s p = r" "p = pguid k" "agrees (vw_rows (gsview s) k) (plr_GuildId r, plr_Rank r)"
    using online_player [OF assms(1,2)] by metis
  with assms(3,4) obtain rk ns where "vw_rows (gsview s) k = Some (g, rk, ns)" by (auto simp: agrees_def split: option.splits)
  with assms(1) have "v_member (gsview s) g k" unfolding views_ok_def v_member_def by (metis rows_okD option.distinct(1))
  with k that show thesis by blast
qed

lemma GetMember_view:
  assumes "views_ok (gsview s)" "g \<in> set (gd_store s)" "Guild_GetMember guid (gld s g) = Some m"
  shows "gm_guid m = pguid (GUID_LOPART guid)" "v_member (gsview s) g (GUID_LOPART guid)"
proof -
  obtain x where x: "gld s g = x" "\<And>k m. (k, m) \<in> set (gl_members x) \<Longrightarrow> gm_guid m = pguid k"
    "\<And>k. v_member (gsview s) g k \<longleftrightarrow> hmap_find (gl_members x) k \<noteq> None" using guild_object [OF assms(1,2)] by metis
  have find: "hmap_find (gl_members x) (GUID_LOPART guid) = Some m" using assms(3) by (simp add: Guild_GetMember_def x(1))
  show "gm_guid m = pguid (GUID_LOPART guid)" using x(2) hmap_findD [OF find] by blast
  show "v_member (gsview s) g (GUID_LOPART guid)" using x(3) find by simp
qed

lemma world_of: "views_ok (gsview s) \<Longrightarrow> all_in_world (gsview s)"
  by (simp add: views_ok_def online_all_in_world)

lemma moves_UpdateMemberRank:
  assumes "views_ok (gsview s)" "g \<in> set (gd_store s)"
  shows "guild_move\<^sup>*\<^sup>* (gsview s) (gsview (Guild_HandleUpdateMemberRank E g p guid demote s))"
proof (cases "Guild_GetMember guid (gld s g)")
  case None
  then show ?thesis by (simp add: Guild_HandleUpdateMemberRank_def Let_def guild_quiet)
next
  case (Some m)
  note m = GetMember_view [OF assms Some]
  have "guild_move\<^sup>*\<^sup>* (gsview s) (gsview (Member_ChangeRank g m r s))" for r
    unfolding view_ChangeRank [OF world_of [OF assms(1)] m(1)] by (rule r_into_rtranclp) (rule move_rank [OF m(2)])
  then show ?thesis using Some by (simp add: Guild_HandleUpdateMemberRank_def Let_def guild_quiet)
qed

lemma v_member_lead: "v_member v g k \<Longrightarrow> v_member (v_lead g j v) g k"
  by (auto simp: v_member_def v_lead_def v_rank_def)

lemma moves_SetLeader:
  assumes "views_ok (gsview s)" "g \<in> set (gd_store s)"
  shows "guild_move\<^sup>*\<^sup>* (gsview s) (gsview (Guild_HandleSetLeader g p name s))"
proof (cases "Guild_GetMember p (gld s g)")
  case None
  then show ?thesis by (simp add: Guild_HandleSetLeader_def guild_quiet)
next
  case (Some old)
  note old = GetMember_view [OF assms Some]
  show ?thesis
  proof (cases "Guild_GetMemberByName name (gld s g)")
    case None
    with Some show ?thesis by (simp add: Guild_HandleSetLeader_def guild_quiet)
  next
    case (Some new)
    obtain x where x: "gld s g = x" "hmap_ok (gl_members x)" "\<And>k m. (k, m) \<in> set (gl_members x) \<Longrightarrow> gm_guid m = pguid k"
      "\<And>k. v_member (gsview s) g k \<longleftrightarrow> hmap_find (gl_members x) k \<noteq> None" using guild_object [OF assms] by metis
    have "new \<in> set (Guild_Members x)" using Some by (auto simp: Guild_GetMemberByName_def x(1) dest: find_inD)
    then obtain j where "(j, new) \<in> set (gl_members x)" by (auto simp: Guild_Members_def)
    then have j: "gm_guid new = pguid j" "v_member (gsview s) g j" using x by (auto simp: hmap_find_iff)
    let ?s1 = "Guild_SetLeaderGUID g new s"
    have v1: "gsview ?s1 = v_lead g j (gsview s)" by (rule view_SetLeaderGUID [OF world_of [OF assms(1)] j(1)])
    have "gsview (Member_ChangeRank g old GR_OFFICER ?s1) = v_rank g (GUID_LOPART p) GR_OFFICER (gsview ?s1)"
      by (rule view_ChangeRank) (use v1 world_of [OF assms(1)] old(1) in simp_all)
    moreover have "guild_move (gsview s) (gsview ?s1)" unfolding v1 by (rule move_lead [OF j(2)])
    moreover have "guild_move (gsview ?s1) (v_rank g (GUID_LOPART p) GR_OFFICER (gsview ?s1))"
      by (rule move_rank) (simp add: v1 v_member_lead old(2))
    ultimately have "guild_move\<^sup>*\<^sup>* (gsview s) (gsview (Member_ChangeRank g old GR_OFFICER ?s1))" by simp
    with Some \<open>Guild_GetMember p (gld s g) = Some old\<close> show ?thesis by (simp add: Guild_HandleSetLeader_def guild_quiet)
  qed
qed

lemma no_guild_no_row:
  assumes "views_ok (gsview s)" "agrees (vw_rows (gsview s) k) (0, rk)"
  shows "vw_rows (gsview s) k = None"
proof (rule ccontr)
  assume "vw_rows (gsview s) k \<noteq> None"
  then obtain h rk ns where row: "vw_rows (gsview s) k = Some (h, rk, ns)" by auto
  with assms(2) have "h = 0" by (simp add: agrees_def)
  moreover have "h \<in> vw_store (gsview s)" using assms(1) row rows_okD unfolding views_ok_def by blast
  then have "h \<noteq> 0" using assms(1) unfolding views_ok_def guilds_ok_def by blast
  ultimately show False by simp
qed

lemma moves_AcceptMember:
  assumes "views_ok (gsview s)" "g \<in> set (gd_store s)" "is_online p s" "plr_GuildId (plr s p) = 0"
  shows "guild_move\<^sup>*\<^sup>* (gsview s) (gsview (Guild_HandleAcceptMember E g p s))"
proof -
  obtain x where x: "gd_guilds s g = Some x" "gl_id x = g" "hmap_ok (gl_members x)" using guild_object [OF assms(1,2)] by metis
  obtain r k where r: "gd_FindPlayer p s = Some r" "plr s p = r" "p = pguid k" "agrees (vw_rows (gsview s) k) (plr_GuildId r, plr_Rank r)"
    using online_player [OF assms(1,3)] by metis
  have none: "vw_rows (gsview s) k = None" using no_guild_no_row assms(1,4) r(2,4) by simp
  note add = view_AddMember [OF x r(1) [unfolded r(3)], of E GUILD_RANK_NONE]
  have "plr_GuildId r = 0" using assms(4) r(2) by simp
  then have "guild_move (gsview s) (gsview (snd (Guild_AddMember E g p GUILD_RANK_NONE s)))"
    unfolding r(3) add(2) [OF \<open>plr_GuildId r = 0\<close>] by (intro move_join none) (simp add: assms(2))
  then show ?thesis
    by (simp add: Guild_HandleAcceptMember_def case_prod_unfold Let_def guild_quiet r_into_rtranclp)
qed

lemma moves_LeaveMember:
  assumes "views_ok (gsview s)" "g \<in> set (gd_store s)" "is_online p s" "plr_GuildId (plr s p) = g" "g \<noteq> 0"
  shows "guild_move\<^sup>*\<^sup>* (gsview s) (gsview (Guild_HandleLeaveMember E g p s))"
proof -
  obtain k where k: "p = pguid k" "v_member (gsview s) g k" using online_member [OF assms(1,3,4,5)] by metis
  have "guild_move\<^sup>*\<^sup>* (gsview s) (gsview (Guild_Disband E g s))" using moves_Disband [OF assms(1,2)] by blast
  moreover have "guild_move\<^sup>*\<^sup>* (gsview s) (gsview (Guild_DeleteMember E g p False False s))"
    unfolding k(1) by (rule moves_DeleteMember [OF assms(1,2) k(2)])
  ultimately show ?thesis by (simp add: Guild_HandleLeaveMember_def Let_def guild_quiet)
qed

lemma moves_RemoveMember:
  assumes "views_ok (gsview s)" "g \<in> set (gd_store s)" "is_player_guid guid"
  shows "guild_move\<^sup>*\<^sup>* (gsview s) (gsview (Guild_HandleRemoveMember E g p guid s))"
proof (cases "Guild_GetMember guid (gld s g)")
  case None
  then show ?thesis by (simp add: Guild_HandleRemoveMember_def Let_def guild_quiet)
next
  case (Some m)
  have "guild_move\<^sup>*\<^sup>* (gsview s) (gsview (Guild_DeleteMember E g guid False True s))"
    using moves_DeleteMember [OF assms(1,2) GetMember_view(2) [OF assms(1,2) Some], of E True] assms(3) by (simp add: is_player_guid_def)
  with Some show ?thesis by (simp add: Guild_HandleRemoveMember_def Let_def guild_quiet)
qed

lemma moves_HandleDisband:
  assumes "views_ok (gsview s)" "g \<in> set (gd_store s)"
  shows "guild_move\<^sup>*\<^sup>* (gsview s) (gsview (Guild_HandleDisband E g p s))"
  using moves_Disband [OF assms, of E] by (simp add: Guild_HandleDisband_def guild_quiet r_into_rtranclp)

section \<open>Founding, login, logout\<close>

lemma CreateRanks_fields: "gl_members (fst (Guild_CreateRanks rs x)) = gl_members x \<and> gl_id (fst (Guild_CreateRanks rs x)) = gl_id x"
  by (induction rs arbitrary: x) (auto simp: case_prod_unfold Let_def Guild_CreateRank_def)

lemma DefaultRanks_fields:
  "gl_members (fst (Guild_CreateDefaultGuildRanks E l x)) = gl_members x" "gl_id (fst (Guild_CreateDefaultGuildRanks E l x)) = gl_id x"
  by (simp_all add: Guild_CreateDefaultGuildRanks_def case_prod_unfold Let_def CreateRanks_fields)

lemma view_AddGuild: "gsview (GuildMgr_AddGuild E g s) = (gsview s)\<lparr>vw_store := insert g (vw_store (gsview s))\<rparr>"
  by (rule view_eqI) (auto simp: GuildMgr_AddGuild_def Let_def)

lemma view_Create:
  assumes "gd_FindPlayer (pguid k) s = Some r" "plr_GuildId r = 0" "GuildMgr_GetGuildByName name s = None"
  shows "fst (Guild_Create E (pguid k) name s) = (True, gd_nextGuildId s)"
    and "gsview (GuildMgr_AddGuild E (gd_nextGuildId s) (snd (Guild_Create E (pguid k) name s))) = v_found k (gsview s)"
proof -
  define g where "g = gd_nextGuildId s"
  define x0 where "x0 = Guild_GenerateXPCap E (Guild_new\<lparr>gl_id := g, gl_leaderGuid := pguid k, gl_name := name, gl_info := [],
    gl_motd := ''No message set.'', gl_bankMoney := 0, gl_createdDate := gn_time E, gl_level := 1, gl_xp := 0, gl_today_xp := 0\<rparr>)"
  define x where "x = Guild_CreateLogHolders E (x0\<lparr>gl_nextLevelXP := gn_XPForGuildLevel E (gl_level x0)\<rparr>)"
  define s1 where "s1 = snd (GuildMgr_GenerateGuildId s)"
  define es where "es = [MemberSql (CHAR_DEL_GUILD_MEMBERS g),
    GuildSql (CHAR_ADD_GUILD g name (GUID_LOPART (pguid k)) (gl_info x) (gl_motd x) (gl_createdDate x) (gl_emblemInfo x)
      (gl_bankMoney x) (gl_xp x) (gl_today_xp x) (gl_xp_cap x) (ucast (gl_level x))),
    PlayerCall (pguid k) (SetPlayerReputation GUILD_REPUTATION 1)]"
  define s3 where "s3 = gd_emit es (s1\<lparr>gd_guilds := (gd_guilds s1)(g := Some x)\<rparr>)"
  define s4 where "s4 = gld_do g (Guild_CreateDefaultGuildRanks E (gn_locale E (pguid k))) s3"
  have s1: "gd_guilds s1 = gd_guilds s" "gd_store s1 = gd_store s" "gd_online s1 = gd_online s" "gd_nextGuildId s1 = g + 1"
    "member_table (gd_trace s1) = member_table (gd_trace s)"
    by (simp_all add: s1_def GuildMgr_GenerateGuildId_def Let_def g_def member_table_quiet)
  have x: "gl_id x = g" "gl_members x = []" "gd_view x = \<lparr>gv_id = g, gv_leader = pguid k, gv_keys_ok = True, gv_members = (\<lambda>_. None)\<rparr>"
    by (simp_all add: x_def x0_def Guild_GenerateXPCap_def Guild_CreateLogHolders_def Guild_new_def Let_def gd_view_def members_view_def
        fun_eq_iff)
  have v3: "gsview s3 = vr_upd [MemberSql (CHAR_DEL_GUILD_MEMBERS g)] ((gsview s)\<lparr>vw_guilds := (vw_guilds (gsview s))(g := Some (gd_view x)), vw_next := g + 1\<rparr>)"
    by (rule view_eqI) (simp_all add: s3_def es_def s1 member_table_append)
  have v4: "gsview s4 = gsview s3" unfolding s4_def by (rule view_gld_do) (simp_all add: CreateDefaultGuildRanks_quiet)
  obtain y where y: "gd_guilds s4 g = Some y" "gl_id y = g" "hmap_ok (gl_members y)"
    by (simp add: s4_def gld_do_def gd_guilds_upd_gld s3_def DefaultRanks_fields x)
  have p4: "gd_FindPlayer (pguid k) s4 = Some r"
    using assms(1) by (simp add: s4_def gld_do_def s3_def gd_FindPlayer_def s1(3))
  note add = view_AddMember [OF y p4 assms(2), of E GR_GUILDMASTER]
  have ne: "GR_GUILDMASTER \<noteq> GUILD_RANK_NONE" by (simp add: GR_GUILDMASTER_def GUILD_RANK_NONE_def)
  have create: "Guild_Create E (pguid k) name s =
      ((True, g), gd_emit [GuildHook g (OnGuildCreate (pguid k) name)] (snd (Guild_AddMember E g (pguid k) GR_GUILDMASTER s4)))"
    using add(1) assms(3)
    by (simp add: Guild_Create_def case_prod_unfold Let_def s4_def s3_def es_def x_def x0_def s1_def g_def GuildMgr_GenerateGuildId_def)
  have v5: "gsview (gd_emit [GuildHook g (OnGuildCreate (pguid k) name)] (snd (Guild_AddMember E g (pguid k) GR_GUILDMASTER s4))) =
      v_join g k GR_GUILDMASTER (gsview s3)" using add(2) ne v4 by simp
  have nx: "vw_next (gsview s) = g" by (simp add: g_def)
  show "fst (Guild_Create E (pguid k) name s) = (True, gd_nextGuildId s)" by (simp add: create g_def)
  show "gsview (GuildMgr_AddGuild E (gd_nextGuildId s) (snd (Guild_Create E (pguid k) name s))) = v_found k (gsview s)"
    by (simp only: g_def [symmetric] view_AddGuild create snd_conv v5 v3 v_found_def Let_def nx x(3))
qed

lemma moves_CreateOpcode:
  assumes "views_ok (gsview s)" "is_online p s" "gd_nextGuildId s < 0xFFFFFFFE"
  shows "guild_move\<^sup>*\<^sup>* (gsview s) (gsview (HandleGuildCreateOpcode E p d s))"
  unfolding HandleGuildCreateOpcode_def
proof (rule parse_moves)
  fix nd :: "string \<times> WorldPacket"
  obtain name d' where nd: "nd = (name, d')" by (cases nd)
  obtain r k where r: "gd_FindPlayer p s = Some r" "plr s p = r" "p = pguid k" "agrees (vw_rows (gsview s) k) (plr_GuildId r, plr_Rank r)"
    using online_player [OF assms(1,2)] by metis
  show "guild_move\<^sup>*\<^sup>* (gsview s) (gsview (case nd of (name, _) \<Rightarrow>
      if plr_GuildId (plr s p) \<noteq> 0 then s
      else let ((ok, g), s1) = Guild_Create E p name s in
        if ok then GuildMgr_AddGuild E g s1
        else if GuildMgr_GetGuildByName name s \<noteq> None then s1
        else s1\<lparr>gd_guilds := (gd_guilds s1)(g := None)\<rparr>))"
  proof (cases "plr_GuildId r \<noteq> 0 \<or> GuildMgr_GetGuildByName name s \<noteq> None")
    case True
    then show ?thesis by (auto simp: nd r(2) Guild_Create_def)
  next
    case False
    then have r0: "plr_GuildId r = 0" "GuildMgr_GetGuildByName name s = None" by auto
    note c = view_Create [OF r(1) [unfolded r(3)] r0, of E]
    have "guild_move (gsview s) (v_found k (gsview s))"
      by (rule move_found) (use assms(1,3) no_guild_no_row r(4) r0 in simp_all)
    with c r0 show ?thesis by (simp add: nd r(2,3) case_prod_unfold Let_def r_into_rtranclp)
  qed
qed

lemma view_logout: "gsview (guild_logout E p s) = v_logout p (gsview s)"
proof -
  let ?s1 = "case GuildMgr_GetGuildById (plr_GuildId (plr s p)) s of None \<Rightarrow> s | Some g \<Rightarrow> Guild_HandleMemberLogout E g p s"
  have 1: "gsview ?s1 = gsview s" by (simp add: guild_quiet split: option.split)
  have "gsview (?s1\<lparr>gd_online := filter (\<lambda>r. plr_GUID r \<noteq> p) (gd_online ?s1)\<rparr>) = v_logout p (gsview ?s1)"
    by (rule view_eqI) (simp_all add: v_logout_def filter_map comp_def pview_def)
  then show ?thesis unfolding 1 by (simp add: guild_logout_def Let_def)
qed

lemma upd_plr_absent: "p \<notin> plr_GUID ` set rs \<Longrightarrow> map (\<lambda>r. if plr_GUID r = p then f r else r) rs = rs"
  by (induction rs) auto

lemma find_absent: "p \<notin> plr_GUID ` set rs \<Longrightarrow> find (\<lambda>r. plr_GUID r = p) (rs @ ts) = find (\<lambda>r. plr_GUID r = p) ts"
  by (induction rs) auto

lemma view_login:
  assumes "views_ok (gsview s)" "plr_GUID player = pguid k" "\<not> is_online (pguid k) s"
  shows "gsview (guild_login E player (login_row s (pguid k)) s) = v_login k (gsview s)"
proof -
  let ?p0 = "player\<lparr>plr_InWorld := True, plr_GuildId := 0, plr_Rank := 0, plr_GuildIdInvited := 0\<rparr>"
  let ?s1 = "s\<lparr>gd_online := gd_online s @ [?p0]\<rparr>"
  have new: "pguid k \<notin> plr_GUID ` set (gd_online s)" using assms(3) by (simp add: is_online_def)
  show ?thesis
  proof (cases "member_table (gd_trace s) k")
    case None
    have "plr_GuildId (plr ?s1 (pguid k)) = 0" using new assms(2) by (simp add: plr_def find_absent)
    then have "guild_login E player (login_row s (pguid k)) s = ?s1"
      using None by (simp add: guild_login_def login_row_def assms(2) Let_def)
    moreover have "gsview ?s1 = v_login k (gsview s)"
      by (rule view_eqI) (simp_all add: v_login_def None pview_def assms(2))
    ultimately show ?thesis by simp
  next
    case (Some row)
    obtain g r ns where row: "row = (g, r, ns)" by (cases row)
    have "g \<in> vw_store (gsview s)" using assms(1) Some row rows_okD [of "gsview s" k g r ns] by (simp add: views_ok_def)
    then have g: "g \<in> set (gd_store s)" "g \<noteq> 0" using assms(1) unfolding views_ok_def guilds_ok_def by auto
    define s2 where "s2 = SetRank (pguid k) r (SetInGuild (pguid k) g ?s1)"
    have on2: "gd_online s2 = gd_online s @ [?p0\<lparr>plr_GuildId := g, plr_Rank := r\<rparr>]"
      using new assms(2) by (simp add: s2_def SetRank_def SetInGuild_def upd_plr_def upd_plr_absent)
    have st2: "gd_guilds s2 = gd_guilds s" "gd_store s2 = gd_store s" "gd_nextGuildId s2 = gd_nextGuildId s" "gd_trace s2 = gd_trace s"
      by (simp_all add: s2_def SetRank_def SetInGuild_def)
    have p2: "plr_GuildId (plr s2 (pguid k)) = g" using new assms(2) by (simp add: plr_def on2 find_absent)
    have "gsview s2 = v_login k (gsview s)"
      by (rule view_eqI) (simp_all add: v_login_def Some row pview_def assms(2) on2 st2)
    then show ?thesis
      using g Some row p2
      by (simp add: guild_login_def login_row_def assms(2) Let_def s2_def [symmetric] GuildMgr_GetGuildById_def st2 guild_quiet list_all_iff)
  qed
qed

section \<open>The refinement\<close>

lemma vp_upd_same: "(\<And>w gr. (p, w, gr) \<in> set (vw_online v) \<Longrightarrow> f gr = gr) \<Longrightarrow> vp_upd p f v = v"
  unfolding vp_upd_def by (rule view_eqI) (force intro!: map_idI split: if_splits)+

lemma GuildRank_apply_quiet: "gsview (GuildRank_apply E p bs nr ni oi br gid mo pg rn s) = gsview s"
  by (simp add: GuildRank_apply_def guild_quiet Let_def)

text \<open>The messages that change neither members nor their ranks and notes.\<close>

lemma quiet_message:
  assumes "op \<notin> {CMSG_GUILD_CREATE, CMSG_GUILD_REMOVE, CMSG_GUILD_ACCEPT, CMSG_GUILD_DECLINE, CMSG_GUILD_PROMOTE, CMSG_GUILD_DEMOTE,
    CMSG_GUILD_LEAVE, CMSG_GUILD_DISBAND, CMSG_GUILD_LEADER, CMSG_GUILD_SET_NOTE}"
  shows "gsview (guild_handle op E p d s) = gsview s"
proof (cases op)
  case CMSG_GUILD_RANK
  show ?thesis unfolding CMSG_GUILD_RANK guild_handle.simps HandleGuildRankOpcode_def
    by (simp add: parse_quiet GuildRank_apply_quiet case_prod_unfold)
next
  case CMSG_SAVE_GUILD_EMBLEM
  show ?thesis unfolding CMSG_SAVE_GUILD_EMBLEM guild_handle.simps HandleSaveGuildEmblemOpcode_def
    by (simp add: guild_quiet Let_def split: prod.split option.split)
qed (use assms in \<open>simp_all add: guild_quiet HandleGuildQueryOpcode_def HandleGuildInviteOpcode_def HandleGuildInfoOpcode_def
      HandleGuildRosterOpcode_def HandleGuildChangeInfoTextOpcode_def HandleGuildMOTDOpcode_def HandleGuildExperienceOpcode_def
      HandleGuildMaxExperienceOpcode_def HandleGuildRewardsOpcode_def HandleGuildAddRankOpcode_def HandleGuildDelRankOpcode_def
      HandleGuildEventLogQueryOpcode_def HandleGuildBankMoneyWithdrawn_def HandleGuildPermissions_def HandleGuildBankerActivate_def
      HandleGuildBankQueryTab_def HandleGuildBankDepositMoney_def HandleGuildBankWithdrawMoney_def HandleGuildBankBuyTab_def
      HandleGuildBankUpdateTab_def HandleGuildBankLogQuery_def HandleQueryGuildBankTabText_def HandleSetGuildBankTabText_def
      HandleGuildQueryNews_def Let_def split: prod.split option.split\<close>)

lemma moves_message:
  assumes ok: "views_ok (gsview s)" and sane: "sane_msg (E, GuildMsg op p d) s"
  shows "guild_move\<^sup>*\<^sup>* (gsview s) (gsview (guild_handle op E p d s))"
proof -
  have on: "is_online p s" using sane by simp
  note store = GetPlayerGuild_store
  show ?thesis
  proof (cases op)
    case CMSG_GUILD_CREATE
    then show ?thesis using moves_CreateOpcode [OF ok on] sane by simp
  next
    case CMSG_GUILD_REMOVE
    then show ?thesis unfolding CMSG_GUILD_REMOVE guild_handle.simps HandleGuildRemoveOpcode_def
      by (auto intro!: parse_moves with_guild_moves moves_RemoveMember ok) (use sane CMSG_GUILD_REMOVE in auto)
  next
    case CMSG_GUILD_ACCEPT
    have "guild_move\<^sup>*\<^sup>* (gsview s) (gsview (Guild_HandleAcceptMember E g p s))"
      if "plr_GuildId (plr s p) = 0" "GuildMgr_GetGuildById h s = Some g" for g h
      using moves_AcceptMember [OF ok _ on that(1)] that(2) by (auto simp: GuildMgr_GetGuildById_def split: if_splits)
    then show ?thesis unfolding CMSG_GUILD_ACCEPT guild_handle.simps HandleGuildAcceptOpcode_def
      by (auto intro!: parse_moves split: option.split)
  next
    case CMSG_GUILD_DECLINE
    then have g0: "plr_GuildId (plr s p) = 0" using sane by simp
    obtain r k where r: "plr s p = r" "p = pguid k" "agrees (vw_rows (gsview s) k) (plr_GuildId r, plr_Rank r)"
      using online_player [OF ok on] by metis
    have none: "vw_rows (gsview s) k = None" using no_guild_no_row [OF ok] r g0 by simp
    have "vp_upd p (\<lambda>(_, r). (0, r)) (gsview s) = gsview s"
    proof (rule vp_upd_same)
      fix w gr assume e: "(p, w, gr) \<in> set (vw_online (gsview s))"
      have "online_ok (gsview s)" using ok by (simp add: views_ok_def)
      with e obtain j where "p = pguid j" "agrees (vw_rows (gsview s) j) gr" unfolding online_ok_def by blast
      then show "(case gr of (_, r) \<Rightarrow> (0, r)) = gr" using none r(2) by (cases gr) (simp add: agrees_def)
    qed
    then have "gsview (SetInGuild p 0 (SetGuildIdInvited p 0 s)) = gsview s" by (simp add: view_SetInGuild guild_quiet)
    then show ?thesis unfolding CMSG_GUILD_DECLINE guild_handle.simps HandleGuildDeclineOpcode_def
      by (intro quiet_moves parse_quiet) simp
  next
    case CMSG_GUILD_PROMOTE
    show ?thesis unfolding CMSG_GUILD_PROMOTE guild_handle.simps HandleGuildPromoteOpcode_def
      by (auto intro!: parse_moves with_guild_moves moves_UpdateMemberRank ok)
  next
    case CMSG_GUILD_DEMOTE
    show ?thesis unfolding CMSG_GUILD_DEMOTE guild_handle.simps HandleGuildDemoteOpcode_def
      by (auto intro!: parse_moves with_guild_moves moves_UpdateMemberRank ok)
  next
    case CMSG_GUILD_LEAVE
    show ?thesis unfolding CMSG_GUILD_LEAVE guild_handle.simps HandleGuildLeaveOpcode_def
      by (rule with_guild_moves) (use store ok on in \<open>auto intro!: moves_LeaveMember\<close>)
  next
    case CMSG_GUILD_DISBAND
    show ?thesis unfolding CMSG_GUILD_DISBAND guild_handle.simps HandleGuildDisbandOpcode_def
      by (rule with_guild_moves) (use ok in \<open>auto intro!: moves_HandleDisband\<close>)
  next
    case CMSG_GUILD_LEADER
    show ?thesis unfolding CMSG_GUILD_LEADER guild_handle.simps HandleGuildLeaderOpcode_def
      by (auto simp: Let_def case_prod_unfold intro!: parse_moves with_guild_moves moves_SetLeader ok)
  next
    case CMSG_GUILD_SET_NOTE
    show ?thesis unfolding CMSG_GUILD_SET_NOTE guild_handle.simps HandleGuildSetNoteOpcode_def
      by (auto intro!: parse_moves with_guild_moves moves_SetMemberNote ok)
  qed (intro quiet_moves quiet_message; simp)+
qed

lemma step_refines:
  assumes "views_ok (gsview s)" "sane_msg c s"
  shows "guild_move\<^sup>*\<^sup>* (gsview s) (gsview (guild_step c s))"
proof -
  obtain E m where c: "c = (E, m)" by (cases c)
  show ?thesis
  proof (cases m)
    case (GuildMsg op p d)
    with c assms show ?thesis using moves_message by simp
  next
    case (GuildLogin player)
    have p: "plr_GUID player = pguid (GUID_LOPART (plr_GUID player))" using assms(2) c GuildLogin by (simp add: is_player_guid_def)
    define k where "k = GUID_LOPART (plr_GUID player)"
    have "\<not> is_online (pguid k) s" using assms(2) c GuildLogin p k_def by simp
    moreover from this have "guild_move (gsview s) (v_login k (gsview s))"
      by (intro move_login) (simp add: is_online_def pview_def image_image)
    ultimately show ?thesis using view_login [OF assms(1), of player k E] p k_def c GuildLogin by (simp add: r_into_rtranclp)
  next
    case (GuildLogout p)
    then show ?thesis using move_logout [of "gsview s" p] c by (simp add: view_logout r_into_rtranclp)
  qed
qed

end
