(* ===== verification/Guild_Sample.thy ===== *)
theory Guild_Sample
  imports Guild_History
begin

text \<open>A small world for examples: an environment, two players, packets.\<close>

definition guild_start :: GuildState where
  "guild_start = \<lparr>gd_guilds = (\<lambda>_. None), gd_store = [], gd_online = [], gd_nextGuildId = 1, gd_nextItemGuid = 1, gd_trace = []\<rparr>"

definition guild_sample_env :: "uint64 \<Rightarrow> guild_env" where
  "guild_sample_env t =
     \<lparr>gn_time = t, gn_mstime = 0, gn_place = (\<lambda>_ k. unat k), gn_storePlace = (\<lambda>_ k. unat k), gn_socials = [],
      gn_accountId = (\<lambda>p. ucast p), gn_achievementPoints = (\<lambda>_. 0), gn_professionSpells = (\<lambda>_. []), gn_spellSkill = (\<lambda>_. 0),
      gn_SkillValue = (\<lambda>_ _. 0), gn_SpellRank = (\<lambda>_. 0), gn_GuildIdFromDB = (\<lambda>_. 0), gn_charData = (\<lambda>_. None),
      gn_ZoneIdFromDB = (\<lambda>_. 0), gn_TeamByGUID = (\<lambda>_. HORDE), gn_XPForGuildLevel = (\<lambda>_. 1000), gn_perks = (\<lambda>_. None), gn_perkRows = 0,
      gn_rankNames = (\<lambda>_. [''a'', ''b'', ''c'', ''d'', ''e'']), gn_floatDays = (\<lambda>_. 0), gn_timeBitFields = (\<lambda>_. 0),
      gn_utf8truncate = (\<lambda>x n. take n x), gn_normalizePlayerName = (\<lambda>x. (True, x)), gn_lootShare = (\<lambda>_ _. None),
      gn_atGuildBank = (\<lambda>_ _. True), gn_atTabardVendor = (\<lambda>_ _. True), gn_locale = (\<lambda>_. 0), gn_feigning = (\<lambda>_. False),
      gn_guildRewards = [], gn_CONFIG_ALLOW_TWO_SIDE_INTERACTION_GUILD = False, gn_CONFIG_GUILD_EVENT_LOG_COUNT = 100,
      gn_CONFIG_GUILD_BANK_EVENT_LOG_COUNT = 25, gn_CONFIG_GUILD_ADVANCEMENT_ENABLED = True, gn_CONFIG_GUILD_ADVANCEMENT_MAX_LEVEL = 25,
      gn_CONFIG_GM_LOG_TRADE = False, gn_AllowMultipleGuildMaster = False\<rparr>"

definition guild_sample_player :: "uint32 \<Rightarrow> string \<Rightarrow> uint32 \<Rightarrow> GuildPlayer" where
  "guild_sample_player k name money =
     Player.extend (sample_player (pguid k) name) \<lparr>plr_Rank = 0, plr_GuildIdInvited = 0, plr_Money = money\<rparr>"

definition bytes_packet :: "uint8 list \<Rightarrow> WorldPacket" where
  "bytes_packet bs = WorldPacket_new\<lparr>bb_storage := bs, bb_wpos := length bs\<rparr>"

definition sample_history :: "(guild_env \<times> guild_msg) list" where
  "sample_history =
     [(guild_sample_env 100, GuildLogin (guild_sample_player 1 ''Ann'' 0)), (guild_sample_env 100, GuildLogin (guild_sample_player 2 ''Bob'' 0)),
      (guild_sample_env 101, GuildMsg CMSG_GUILD_CREATE (pguid 1) (bytes_packet [71, 0]))]"

lemma start_ok: "views_ok (gsview guild_start)"
  by (simp add: views_ok_def guilds_ok_def mrows_ok_def online_ok_def guild_start_def member_table_def)

lemma guild_sample_player_guid: "plr_GUID (guild_sample_player k name m) = pguid k"
  by (simp add: guild_sample_player_def sample_player_def Player.defs)

lemma sane_view: "is_online p s \<longleftrightarrow> p \<in> fst ` set (vw_online (gsview s))" "gd_nextGuildId s = vw_next (gsview s)"
  by (simp_all add: is_online_def pview_def image_image)

text \<open>Ann and Bob log in, Ann founds a guild.\<close>

definition sample_state :: GuildState where
  "sample_state = run_ops guild_step sample_history guild_start"

lemma sample_runs:
  shows sample_sane: "legal_run sane_msg guild_step sample_history guild_start"
    and sample_view: "gsview sample_state = v_found 1 (v_login 2 (v_login 1 (gsview guild_start)))"
proof -
  let ?E = "guild_sample_env 100" and ?a = "guild_sample_player 1 ''Ann'' 0" and ?b = "guild_sample_player 2 ''Bob'' 0"
  define s1 where "s1 = guild_step (?E, GuildLogin ?a) guild_start"
  define s2 where "s2 = guild_step (?E, GuildLogin ?b) s1"
  have o0: "\<not> is_online (pguid 1) guild_start" by (simp add: is_online_def guild_start_def)
  have v1: "gsview s1 = v_login 1 (gsview guild_start)"
    using view_login [OF start_ok guild_sample_player_guid o0] by (simp add: s1_def guild_sample_player_guid)
  have o1: "\<not> is_online (pguid 2) s1" unfolding sane_view v1 by (simp add: v_login_def guild_start_def)
  have k1: "views_ok (gsview s1)"
    unfolding v1 by (rule guild_move_keeps [OF move_login start_ok]) (use o0 in \<open>simp add: sane_view\<close>)
  then have v2: "gsview s2 = v_login 2 (gsview s1)"
    using view_login [OF _ guild_sample_player_guid o1] by (simp add: s2_def guild_sample_player_guid)
  have o2: "is_online (pguid 1) s2" "gd_nextGuildId s2 = 1" unfolding sane_view v2 v1 by (simp_all add: v_login_def guild_start_def)
  show "legal_run sane_msg guild_step sample_history guild_start"
    using o0 o1 o2
    by (simp add: sample_history_def s1_def [symmetric] s2_def [symmetric] is_player_guid_def guild_sample_player_guid del: guild_step.simps)
  have "views_ok (gsview s2)" unfolding v2 by (rule guild_move_keeps [OF move_login k1]) (use o1 in \<open>simp add: sane_view\<close>)
  then obtain r where r: "gd_FindPlayer (pguid 1) s2 = Some r" "plr s2 (pguid 1) = r" "agrees (vw_rows (gsview s2) 1) (plr_GuildId r, plr_Rank r)"
    using online_player [OF _ o2(1)] by (metis pguid_inject)
  have "vw_rows (gsview s2) 1 = None" unfolding v2 v1 by (simp add: v_login_def guild_start_def member_table_def)
  then have r0: "plr_GuildId r = 0" using r(3) by (simp add: agrees_def)
  have "vw_store (gsview s2) = {}" unfolding v2 v1 by (simp add: v_login_def guild_start_def)
  then have name: "GuildMgr_GetGuildByName ''G'' s2 = None" by (simp add: GuildMgr_GetGuildByName_def)
  have "map_sum id fst (in_string (bytes_packet [71, 0])) = Inr ''G''" by code_simp
  then have "\<exists>d. in_string (bytes_packet [71, 0]) = Inr (''G'', d)" by (cases "in_string (bytes_packet [71, 0])") auto
  then have "guild_step (guild_sample_env 101, GuildMsg CMSG_GUILD_CREATE (pguid 1) (bytes_packet [71, 0])) s2 =
      GuildMgr_AddGuild (guild_sample_env 101) (gd_nextGuildId s2) (snd (Guild_Create (guild_sample_env 101) (pguid 1) ''G'' s2))"
    using view_Create(1) [OF r(1) r0 name] r(2) r0
    by (auto simp: HandleGuildCreateOpcode_def gd_parse_def case_prod_unfold)
  moreover have "sample_state = guild_step (guild_sample_env 101, GuildMsg CMSG_GUILD_CREATE (pguid 1) (bytes_packet [71, 0])) s2"
    by (simp add: sample_state_def sample_history_def s1_def s2_def del: guild_step.simps)
  ultimately show "gsview sample_state = v_found 1 (v_login 2 (v_login 1 (gsview guild_start)))"
    using view_Create(2) [OF r(1) r0 name, of "guild_sample_env 101"] v1 v2 by simp
qed

end
