(* ===== verification/Guild_Authority.thy ===== *)
theory Guild_Authority
  imports Guild_Sample
begin

text \<open>Who can change the guild and the rank of another character.\<close>

interpretation guild_run: guarded_system sane_msg guild_step "\<lambda>s. views_ok (gsview s)"
  by unfold_locales (rule guild_moves_keep [OF step_refines])

section \<open>What a message does to the row of another character\<close>

definition recorded :: "GuildState \<Rightarrow> uint32 \<Rightarrow> view_row option" where
  "recorded s = member_table (gd_trace s)"

text \<open>
  The row of \<open>k\<close> still names guild and rank; or the player is in that guild and leads it, or is of a better rank than the row, or is
  of a better rank than the leader, whom he can then kick: the leadership, and with it a rank, passes to somebody else.
\<close>

definition row_kept :: "GuildState \<Rightarrow> uint32 \<Rightarrow> uint32 \<Rightarrow> uint8 \<Rightarrow> bool" where
  "row_kept s k g r \<longleftrightarrow> (case recorded s k of None \<Rightarrow> False | Some (g', r', _) \<Rightarrow> g' = g \<and> r' = r)"

definition outranks_leader :: "GuildState \<Rightarrow> uint64 \<Rightarrow> uint32 \<Rightarrow> bool" where
  "outranks_leader s p g \<longleftrightarrow>
     (case Guild_GetMember (gl_leaderGuid (gld s g)) (gld s g) of None \<Rightarrow> False | Some m \<Rightarrow> plr_Rank (plr s p) < gm_rankId m)"

definition may_rank :: "GuildState \<Rightarrow> uint64 \<Rightarrow> uint32 \<Rightarrow> uint8 \<Rightarrow> bool" where
  "may_rank s p g r \<longleftrightarrow> plr_GuildId (plr s p) = g \<and>
     (Guild_IsLeader (plr s p) (gld s g) \<or> plr_Rank (plr s p) < r \<or> outranks_leader s p g)"

lemma row_kept_view: "row_kept s k g r \<longleftrightarrow> (\<exists>ns. vw_rows (gsview s) k = Some (g, r, ns))"
  by (auto simp: row_kept_def recorded_def split: option.split)

lemma row_kept_quiet: "row_kept s k g r \<Longrightarrow> gsview s' = gsview s \<Longrightarrow> row_kept s' k g r"
  by (simp add: row_kept_view del: gsview_sel)

lemma parse_kept:
  assumes "row_kept s k g r" "\<And>x. v = Inr x \<Longrightarrow> row_kept (f x) k g r \<or> A"
  shows "row_kept (gd_parse v f s) k g r \<or> A"
proof (cases v)
  case (Inl e)
  have "gsview (gd_emit [GuildPacketError e] s) = gsview s" by simp
  with Inl show ?thesis using row_kept_quiet [OF assms(1)] by (simp add: gd_parse_def)
qed (use assms(2) in \<open>simp add: gd_parse_def\<close>)

lemma with_guild_kept:
  assumes "row_kept s k g r" "\<And>h. h \<in> set (gd_store s) \<Longrightarrow> plr_GuildId (plr s p) = h \<Longrightarrow> h \<noteq> 0 \<Longrightarrow> row_kept (f h s) k g r \<or> A"
  shows "row_kept (with_guild_or_error p f s) k g r \<or> A"
proof (cases "GetPlayerGuild p s")
  case None
  then have "gsview (with_guild_or_error p f s) = gsview s" by (simp add: with_guild_or_error_def guild_quiet)
  then show ?thesis using row_kept_quiet [OF assms(1)] by blast
next
  case (Some h)
  with assms(2) GetPlayerGuild_store [OF Some] show ?thesis by (simp add: with_guild_or_error_def)
qed

lemma member_has_row:
  assumes "views_ok (gsview s)" "h \<in> set (gd_store s)" "Guild_GetMember guid (gld s h) = Some m"
  shows "\<exists>ns. vw_rows (gsview s) (GUID_LOPART guid) = Some (h, gm_rankId m, ns)"
proof -
  obtain x where x: "gd_guilds s h = Some x" "gld s h = x" using guild_object [OF assms(1,2)] by metis
  have "gv_members (gd_view x) (GUID_LOPART guid) = Some (mview m)" using assms(3) x by (simp add: Guild_GetMember_def members_view_def)
  moreover have "fst (mview m) = pguid (GUID_LOPART guid)" using GetMember_view(1) [OF assms] by (simp add: mview_def)
  ultimately show ?thesis using assms(1,2) x(1) rows_okI [of "gsview s" h "gd_view x" "GUID_LOPART guid" "gm_rankId m"]
    by (auto simp: views_ok_def mview_def)
qed

text \<open>The operations on a single row.\<close>

lemma rank_rows: "vw_rows (v_rank h j q v) k = (if k = j then map_option (\<lambda>(h, _, ns). (h, q, ns)) (vw_rows v k) else vw_rows v k)"
  by (simp add: v_rank_def case_prod_unfold)

lemma erase_rows: "vw_rows (v_erase h j v) k = (if k = j then None else vw_rows v k)"
  by (simp add: v_erase_def)

lemma disband_rows: "k \<notin> set ks \<Longrightarrow> vw_rows (v_disband h ks v) k = vw_rows v k"
proof -
  assume "k \<notin> set ks"
  then have "vw_rows (fold (v_erase h) ks v) k = vw_rows v k" by (induction ks arbitrary: v) (simp_all add: erase_rows)
  then show ?thesis by (simp add: v_disband_def Let_def)
qed

section \<open>The commands\<close>

lemma update_rank_kept:
  assumes ok: "views_ok (gsview s)" "h \<in> set (gd_store s)" and p: "plr_GuildId (plr s p) = h" "plr_Rank (plr s p) \<noteq> GUILD_RANK_NONE"
    and row: "row_kept s k g r"
  shows "row_kept (Guild_HandleUpdateMemberRank E h p guid demote s) k g r \<or> may_rank s p g r"
proof (cases "\<exists>m. Guild_GetMember guid (gld s h) = Some m \<and> plr_Rank (plr s p) < gm_rankId m \<and> k = GUID_LOPART guid")
  case True
  then obtain m where m: "Guild_GetMember guid (gld s h) = Some m" "plr_Rank (plr s p) < gm_rankId m" "k = GUID_LOPART guid" by blast
  with member_has_row [OF ok m(1)] row have "g = h" "r = gm_rankId m" by (auto simp: row_kept_view)
  with m(2) p(1) show ?thesis by (simp add: may_rank_def)
next
  case False
  have "unat (plr_Rank (plr s p)) \<noteq> 255" using p(2) by (simp add: GUILD_RANK_NONE_def word_unat_eq_iff)
  then have "unat (plr_Rank (plr s p) + 1) = Suc (unat (plr_Rank (plr s p)))"
    using unsigned_less [of "plr_Rank (plr s p)", where ?'a = nat] by (simp add: unat_plus_if')
  then have up: "gm_rankId m \<le> plr_Rank (plr s p) \<Longrightarrow> gm_rankId m \<le> plr_Rank (plr s p) + 1" for m
    by (simp add: word_le_nat_alt)
  have "row_kept (Guild_HandleUpdateMemberRank E h p guid demote s) k g r"
  proof (cases "Guild_GetMember guid (gld s h)")
    case None
    then have "gsview (Guild_HandleUpdateMemberRank E h p guid demote s) = gsview s"
      by (simp add: Guild_HandleUpdateMemberRank_def Let_def guild_quiet)
    then show ?thesis by (rule row_kept_quiet [OF row])
  next
    case (Some m)
    show ?thesis
    proof (cases "gm_rankId m \<le> plr_Rank (plr s p)")
      case True
      then have "gsview (Guild_HandleUpdateMemberRank E h p guid demote s) = gsview s"
        using Some up [OF True] by (simp add: Guild_HandleUpdateMemberRank_def Let_def guild_quiet)
      then show ?thesis by (rule row_kept_quiet [OF row])
    next
      case better: False
      then have k: "k \<noteq> GUID_LOPART guid" using False Some by (auto simp: not_le)
      have "gsview (Member_ChangeRank h m q s) = v_rank h (GUID_LOPART guid) q (gsview s)" for q
        by (rule view_ChangeRank [OF world_of [OF ok(1)] GetMember_view(1) [OF ok Some]])
      then have "gsview (Guild_HandleUpdateMemberRank E h p guid demote s) = gsview s \<or>
          (\<exists>q. gsview (Guild_HandleUpdateMemberRank E h p guid demote s) = v_rank h (GUID_LOPART guid) q (gsview s))"
        using Some by (auto simp: Guild_HandleUpdateMemberRank_def Let_def guild_quiet)
      with row k show ?thesis by (auto simp: row_kept_view rank_rows simp del: gsview_sel)
    qed
  qed
  then show ?thesis by blast
qed

lemma disband_kept:
  assumes ok: "views_ok (gsview s)" "h \<in> set (gd_store s)" and p: "plr_GuildId (plr s p) = h" "Guild_IsLeader (plr s p) (gld s h)"
    and row: "row_kept s k g r"
  shows "row_kept (Guild_Disband E h s) k g r \<or> may_rank s p g r"
proof -
  obtain x where x: "gd_guilds s h = Some x" "gld s h = x" "gl_id x = h" "hmap_ok (gl_members x)"
    "\<And>k m. (k, m) \<in> set (gl_members x) \<Longrightarrow> gm_guid m = pguid k" using guild_object [OF ok] by metis
  have v: "gsview (Guild_Disband E h s) = v_disband h (map fst (gl_members x)) (gsview s)"
    by (rule view_Disband [OF world_of [OF ok(1)] x(1,3,4,5)])
  show ?thesis
  proof (cases "k \<in> set (map fst (gl_members x))")
    case True
    then obtain m where "Guild_GetMember (pguid k) (gld s h) = Some m" using x(4) by (auto simp: Guild_GetMember_def x(2) hmap_find_iff)
    with member_has_row [OF ok this] row have "g = h" by (auto simp: row_kept_view)
    with p show ?thesis by (simp add: may_rank_def)
  next
    case False
    with row show ?thesis by (simp add: row_kept_view v disband_rows del: gsview_sel)
  qed
qed

text \<open>The table when a member is erased, whatever the high part of the GUID.\<close>

lemma EraseMember_rows:
  "vw_rows (gsview (Guild_EraseMember E h guid d kicked s)) = (vw_rows (gsview s))(GUID_LOPART guid := None)"
proof -
  have up: "vw_rows (gsview (upd_gld h f t)) = vw_rows (gsview t)" "vw_rows (gsview (SetRank q r t)) = vw_rows (gsview t)"
    "vw_rows (gsview (SetInGuild q g t)) = vw_rows (gsview t)" for f q r g t
    by (simp_all add: SetRank_def SetInGuild_def)
  have roster: "vw_rows (gsview (Guild_HandleRoster E h None t)) = vw_rows (gsview t)" for t by (simp only: HandleRoster_quiet)
  have del: "vw_rows (gsview (gd_emit [MemberSql (CHAR_DEL_GUILD_MEMBER j)] t)) = (vw_rows (gsview t))(j := None)" for j t
    by (simp add: guild_view_emit vr_upd_def del: gsview_sel)
  show ?thesis unfolding Guild_EraseMember_eq Let_def
    by (simp add: up roster del list_all_iff del: gsview_sel)
qed

text \<open>When the leader is deleted a row of another guild stays as it is.\<close>

lemma delete_leader_kept:
  assumes ok: "views_ok (gsview s)" "h \<in> set (gd_store s)" and lead: "gl_leaderGuid (gld s h) = guid" and row: "row_kept s k g r" and other: "g \<noteq> h"
  shows "row_kept (Guild_DeleteMember E h guid False kicked s) k g r"
proof -
  obtain x where x: "gd_guilds s h = Some x" "gld s h = x" "gl_id x = h" "hmap_ok (gl_members x)"
    "\<And>k m. (k, m) \<in> set (gl_members x) \<Longrightarrow> gm_guid m = pguid k" "\<exists>k. gl_leaderGuid x = pguid k \<and> hmap_find (gl_members x) k \<noteq> None"
    using guild_object [OF ok] by metis
  have k: "k \<noteq> j" if "(j, m) \<in> set (gl_members x)" for j m
  proof -
    have "Guild_GetMember (pguid j) (gld s h) = Some m" using that x(4) by (simp add: Guild_GetMember_def x(2) hmap_find_iff)
    from member_has_row [OF ok this] row other show ?thesis by (auto simp: row_kept_view)
  qed
  obtain l lm where l: "guid = pguid l" "(l, lm) \<in> set (gl_members x)" using x(6) lead x(2) by (auto dest: hmap_findD)
  show ?thesis
  proof (cases "pick_leader l (gl_members x) None")
    case None
    then have "Guild_DeleteMember E h guid False kicked s = Guild_Disband E h s" using lead by (simp add: Guild_DeleteMember_eq l(1) x(2))
    moreover have "k \<notin> set (map fst (gl_members x))" using k by fastforce
    ultimately show ?thesis
      using row view_Disband [OF world_of [OF ok(1)] x(1,3,4,5)] by (simp add: row_kept_view disband_rows del: gsview_sel)
  next
    case (Some m)
    then obtain j where j: "(j, m) \<in> set (gl_members x)" using pick_leader_Some by fastforce
    have v1: "gsview (Guild_SetLeaderGUID h m s) = v_lead h j (gsview s)" by (rule view_SetLeaderGUID [OF world_of [OF ok(1)] x(5) [OF j]])
    define s2 where "s2 = (if gd_FindPlayer (gm_guid m) (Guild_SetLeaderGUID h m s) \<noteq> None
      then SetRank (gm_guid m) GR_GUILDMASTER (Guild_SetLeaderGUID h m s) else Guild_SetLeaderGUID h m s)"
    define s3 where "s3 = (case hmap_find (gl_members x) l of None \<Rightarrow> s2
      | Some old \<Rightarrow> Guild_BroadcastEvent h GE_LEFT guid [gm_name old] (Guild_BroadcastEvent h GE_LEADER_CHANGED 0 [gm_name old, gm_name m] s2))"
    have del: "Guild_DeleteMember E h guid False kicked s = Guild_EraseMember E h guid False kicked s3"
      using lead Some unfolding s3_def s2_def l(1) Guild_DeleteMember_eq x(2) LOPART_pguid Let_def by simp
    have "vw_rows (gsview s2) = vw_rows (gsview (Guild_SetLeaderGUID h m s))" by (simp add: s2_def SetRank_def)
    moreover have "gsview s3 = gsview s2" by (simp add: s3_def guild_quiet split: option.split)
    ultimately have "vw_rows (gsview s3) k = vw_rows (gsview s) k"
      using k [OF j] v1 by (simp add: rank_rows v_lead_def del: gsview_sel)
    with row k [OF l(2)] show ?thesis unfolding del by (simp add: row_kept_view EraseMember_rows l(1) del: gsview_sel)
  qed
qed

lemma remove_kept:
  assumes ok: "views_ok (gsview s)" "h \<in> set (gd_store s)" and p: "plr_GuildId (plr s p) = h" and row: "row_kept s k g r"
  shows "row_kept (Guild_HandleRemoveMember E h p guid s) k g r \<or> may_rank s p g r"
proof (cases "Guild_GetMember guid (gld s h)")
  case None
  then have "gsview (Guild_HandleRemoveMember E h p guid s) = gsview s" by (simp add: Guild_HandleRemoveMember_def Let_def guild_quiet)
  with row_kept_quiet [OF row] show ?thesis by blast
next
  case (Some m)
  let ?d = "Guild_DeleteMember E h guid False True s"
  show ?thesis
  proof (cases "gm_rankId m = GR_GUILDMASTER \<or> gm_rankId m \<le> plr_Rank (plr s p)")
    case True
    then have "gsview (Guild_HandleRemoveMember E h p guid s) = gsview s"
      using Some by (auto simp: Guild_HandleRemoveMember_def Let_def guild_quiet)
    with row_kept_quiet [OF row] show ?thesis by blast
  next
    case False
    then have rank: "plr_Rank (plr s p) < gm_rankId m" by (simp add: not_le)
    have v: "gsview (Guild_HandleRemoveMember E h p guid s) \<in> {gsview s, gsview ?d}"
      using Some by (simp add: Guild_HandleRemoveMember_def Let_def guild_quiet)
    have "row_kept ?d k g r \<or> may_rank s p g r"
    proof (cases "gl_leaderGuid (gld s h) = guid")
      case True
      with rank Some p delete_leader_kept [OF ok True row, of E True] show ?thesis by (cases "g = h") (auto simp: may_rank_def outranks_leader_def)
    next
      case False
      then have "vw_rows (gsview ?d) = (vw_rows (gsview s))(GUID_LOPART guid := None)" by (simp add: Guild_DeleteMember_eq EraseMember_rows del: gsview_sel)
      with member_has_row [OF ok Some] row rank p show ?thesis
        by (cases "k = GUID_LOPART guid") (auto simp: row_kept_view may_rank_def simp del: gsview_sel)
    qed
    then show ?thesis using v row_kept_quiet [OF row] row_kept_quiet [of ?d] by blast
  qed
qed

lemma leave_kept:
  assumes ok: "views_ok (gsview s)" "h \<in> set (gd_store s)" "is_online p s" and p: "plr_GuildId (plr s p) = h" "h \<noteq> 0" "k \<noteq> GUID_LOPART p"
    and row: "row_kept s k g r"
  shows "row_kept (Guild_HandleLeaveMember E h p s) k g r \<or> may_rank s p g r"
proof (cases "Guild_IsLeader (plr s p) (gld s h)")
  case True
  show ?thesis
  proof (cases "length (gl_members (gld s h)) > 1")
    case many: True
    then have "gsview (Guild_HandleLeaveMember E h p s) = gsview s" using True by (simp add: Guild_HandleLeaveMember_def guild_quiet)
    with row_kept_quiet [OF row] show ?thesis by blast
  next
    case False
    with True disband_kept [OF ok(1,2) p(1) True row, of E] show ?thesis by (simp add: Guild_HandleLeaveMember_def)
  qed
next
  case False
  obtain x where x: "gd_guilds s h = Some x" "gld s h = x" "hmap_ok (gl_members x)" using guild_object [OF ok(1,2)] by metis
  obtain j where j: "p = pguid j" "plr_GUID (plr s p) = p" using online_player [OF ok(1,3)] FindPlayer_plr by metis
  have "gl_leaderGuid (gld s h) \<noteq> p" using False j(2) by (auto simp: Guild_IsLeader_def)
  then have "gsview (Guild_HandleLeaveMember E h p s) = v_erase h j (gsview s)"
    using view_EraseMember [OF world_of [OF ok(1)] x(1,3), of E j] False
    by (simp add: Guild_HandleLeaveMember_def Guild_DeleteMember_eq Let_def guild_quiet j(1))
  with row p(3) j(1) show ?thesis by (simp add: row_kept_view erase_rows del: gsview_sel)
qed

lemma leader_kept:
  assumes ok: "views_ok (gsview s)" "h \<in> set (gd_store s)" and p: "plr_GuildId (plr s p) = h" "k \<noteq> GUID_LOPART p"
    and row: "row_kept s k g r"
  shows "row_kept (Guild_HandleSetLeader h p name s) k g r \<or> may_rank s p g r"
proof (cases "g = h \<and> Guild_IsLeader (plr s p) (gld s h)")
  case True
  with p show ?thesis by (simp add: may_rank_def)
next
  case other: False
  show ?thesis
  proof (cases "gsview (Guild_HandleSetLeader h p name s) = gsview s")
    case True
    with row_kept_quiet [OF row] show ?thesis by blast
  next
    case False
    then obtain old new where on: "Guild_IsLeader (plr s p) (gld s h)" "Guild_GetMember p (gld s h) = Some old"
      "Guild_GetMemberByName name (gld s h) = Some new" by (auto simp: Guild_HandleSetLeader_def guild_quiet split: if_splits option.splits)
    obtain x where x: "gld s h = x" "hmap_ok (gl_members x)" "\<And>k m. (k, m) \<in> set (gl_members x) \<Longrightarrow> gm_guid m = pguid k"
      using guild_object [OF ok] by metis
    have "new \<in> set (Guild_Members x)" using on(3) by (auto simp: Guild_GetMemberByName_def x(1) dest: find_inD)
    then obtain j where j: "(j, new) \<in> set (gl_members x)" by (auto simp: Guild_Members_def)
    have j': "gm_guid new = pguid j" "Guild_GetMember (pguid j) (gld s h) = Some new"
      using j x by (auto simp: Guild_GetMember_def hmap_find_iff)
    let ?s1 = "Guild_SetLeaderGUID h new s"
    have v1: "gsview ?s1 = v_lead h j (gsview s)" by (rule view_SetLeaderGUID [OF world_of [OF ok(1)] j'(1)])
    have "gsview (Member_ChangeRank h old GR_OFFICER ?s1) = v_rank h (GUID_LOPART p) GR_OFFICER (gsview ?s1)"
      by (rule view_ChangeRank) (use v1 world_of [OF ok(1)] GetMember_view(1) [OF ok on(2)] in simp_all)
    then have v: "gsview (Guild_HandleSetLeader h p name s) = v_rank h (GUID_LOPART p) GR_OFFICER (v_lead h j (gsview s))"
      using on by (simp add: Guild_HandleSetLeader_def guild_quiet v1)
    have "k \<noteq> j" using member_has_row [OF ok j'(2)] row other on(1) by (auto simp: row_kept_view)
    with row p(2) show ?thesis by (simp add: row_kept_view v rank_rows v_lead_def del: gsview_sel)
  qed
qed

lemma note_kept:
  assumes "row_kept s k g r"
  shows "row_kept (Guild_HandleSetMemberNote E h p guid nt officer s) k g r"
proof -
  have emit: "row_kept (gd_emit es t) k g r"
    if "row_kept t k g r" "es = [] \<or> es = [MemberSql (CHAR_SET_GUILD_MEMBER_OFFNOTE nt j)] \<or> es = [MemberSql (CHAR_SET_GUILD_MEMBER_PNOTE nt j)]" for es t j
    using that by (auto simp: row_kept_view guild_view_emit vr_upd_def simp del: gsview_sel)
  have upd: "row_kept (upd_gld h f s) k g r" for f using assms by (simp add: row_kept_def recorded_def)
  show ?thesis
  proof (cases "Guild_HasRankRight (plr s p) (if officer then GR_RIGHT_EOFFNOTE else GR_RIGHT_EPNOTE) (gld s h) \<and> Guild_GetMember guid (gld s h) \<noteq> None")
    case False
    then have "gsview (Guild_HandleSetMemberNote E h p guid nt officer s) = gsview s"
      by (auto simp: Guild_HandleSetMemberNote_def guild_quiet)
    then show ?thesis by (rule row_kept_quiet [OF assms])
  next
    case True
    then obtain m where m: "Guild_GetMember guid (gld s h) = Some m" by auto
    define d where "d = (if officer then Member_SetOfficerNote nt m else Member_SetPublicNote nt m)"
    have "row_kept (gd_emit (snd d) (upd_gld h (upd_member guid (\<lambda>_. fst d)) s)) k g r"
      by (rule emit [OF upd, where j = "GUID_LOPART (gm_guid m)"]) (auto simp: d_def Member_SetOfficerNote_def Member_SetPublicNote_def)
    moreover have "Guild_HandleSetMemberNote E h p guid nt officer s =
        Guild_HandleRoster E h (Some p) (gd_emit (snd d) (upd_gld h (upd_member guid (\<lambda>_. fst d)) s))"
      using True m by (simp add: Guild_HandleSetMemberNote_def d_def case_prod_unfold Let_def)
    ultimately show ?thesis using row_kept_quiet HandleRoster_quiet by metis
  qed
qed

lemma create_kept:
  assumes ok: "views_ok (gsview s)" "is_online p s" and k: "k \<noteq> GUID_LOPART p" and row: "row_kept s k g r"
  shows "row_kept (HandleGuildCreateOpcode E p d s) k g r"
proof -
  obtain q j where q: "gd_FindPlayer p s = Some q" "plr s p = q" "p = pguid j" using online_player [OF ok] by metis
  have old: "g \<noteq> vw_next (gsview s)"
    using ok(1) row rows_okD [of "gsview s" k g r] unfolding row_kept_view views_ok_def by (metis guilds_okD less_irrefl)
  have rows: "vw_rows (v_found j (gsview s)) k = vw_rows (gsview s) k"
    using k q(3) old row by (auto simp: v_found_def v_join_def Let_def row_kept_view simp del: gsview_sel)
  show ?thesis
  proof (cases "in_string d")
    case (Inr nd)
    obtain name d' where nd: "nd = (name, d')" by (cases nd)
    show ?thesis
    proof (cases "plr_GuildId q \<noteq> 0 \<or> GuildMgr_GetGuildByName name s \<noteq> None")
      case True
      then have "HandleGuildCreateOpcode E p d s = s" by (auto simp: HandleGuildCreateOpcode_def gd_parse_def Inr nd q(2) Guild_Create_def)
      with row show ?thesis by simp
    next
      case False
      then have f: "plr_GuildId q = 0" "GuildMgr_GetGuildByName name s = None" by auto
      note c = view_Create [OF q(1) [unfolded q(3)] f, of E]
      have "gsview (HandleGuildCreateOpcode E p d s) = v_found j (gsview s)"
        using c f by (simp add: HandleGuildCreateOpcode_def gd_parse_def Inr nd q(3) q(2) [unfolded q(3)] case_prod_unfold Let_def)
      with row rows show ?thesis by (simp add: row_kept_view del: gsview_sel)
    qed
  next
    case (Inl e)
    have "gsview (gd_emit [GuildPacketError e] s) = gsview s" by simp
    then show ?thesis using row_kept_quiet [OF row] by (simp add: HandleGuildCreateOpcode_def gd_parse_def Inl)
  qed
qed

lemma accept_kept:
  assumes ok: "views_ok (gsview s)" "h \<in> set (gd_store s)" "is_online p s" and k: "k \<noteq> GUID_LOPART p" and "plr_GuildId (plr s p) = 0"
    and row: "row_kept s k g r"
  shows "row_kept (Guild_HandleAcceptMember E h p s) k g r"
proof -
  obtain x where x: "gd_guilds s h = Some x" "gl_id x = h" "hmap_ok (gl_members x)" using guild_object [OF ok(1,2)] by metis
  obtain q j where q: "gd_FindPlayer p s = Some q" "plr s p = q" "p = pguid j" using online_player [OF ok(1,3)] by metis
  have q0: "plr_GuildId q = 0" using assms(5) q(2) by simp
  note add = view_AddMember(2) [OF x q(1) [unfolded q(3)] q0, of E GUILD_RANK_NONE]
  have "vw_rows (gsview (snd (Guild_AddMember E h p GUILD_RANK_NONE s))) k = vw_rows (gsview s) k"
    unfolding q(3) add using k q(3) by (simp add: v_join_def)
  then have a: "row_kept (snd (Guild_AddMember E h p GUILD_RANK_NONE s)) k g r" using row by (simp add: row_kept_view del: gsview_sel)
  have "gsview (Guild_HandleAcceptMember E h p s) \<in> {gsview s, gsview (snd (Guild_AddMember E h p GUILD_RANK_NONE s))}"
    by (simp add: Guild_HandleAcceptMember_def case_prod_unfold Let_def guild_quiet)
  then show ?thesis using row_kept_quiet [OF row] row_kept_quiet [OF a] by blast
qed


text \<open>Ann leads, Bob is in no guild.\<close>

lemma sample_players:
  shows sample_ok: "views_ok (gsview sample_state)"
    and sample_bob: "is_online (pguid 2) sample_state" "plr_GuildId (plr sample_state (pguid 2)) = 0" "plr_Rank (plr sample_state (pguid 2)) = 0"
    and sample_ann: "is_online (pguid 1) sample_state" "plr_GuildId (plr sample_state (pguid 1)) = 1"
    and sample_row: "row_kept sample_state 1 1 0"
proof -
  note view = sample_view [unfolded v_found_def v_join_def v_login_def Let_def guild_start_def member_table_def]
  show ok: "views_ok (gsview sample_state)" unfolding sample_state_def by (rule guild_run.run_inv [OF start_ok sample_sane])
  have onl: "vw_online (gsview sample_state) = [(pguid 1, True, 1, 0), (pguid 2, True, 0, 0)]"
    unfolding view by (simp add: vp_upd_def GR_GUILDMASTER_def member_table_def)
  then show on: "is_online (pguid 2) sample_state" and on1: "is_online (pguid 1) sample_state" unfolding sane_view(1) by simp_all
  obtain a where a: "gd_FindPlayer (pguid 1) sample_state = Some a" "plr sample_state (pguid 1) = a" using online_player [OF ok on1] by metis
  then have "pview a \<in> set (vw_online (gsview sample_state))" "plr_GUID a = pguid 1" using FindPlayer_plr [OF a(1)] by simp_all
  then show "plr_GuildId (plr sample_state (pguid 1)) = 1" unfolding onl a(2) by (auto simp: pview_def)
  obtain r where r: "gd_FindPlayer (pguid 2) sample_state = Some r" "plr sample_state (pguid 2) = r" using online_player [OF ok on] by metis
  then have "pview r \<in> set (vw_online (gsview sample_state))" "plr_GUID r = pguid 2" using FindPlayer_plr [OF r(1)] by simp_all
  then show "plr_GuildId (plr sample_state (pguid 2)) = 0" "plr_Rank (plr sample_state (pguid 2)) = 0"
    unfolding onl r(2) by (auto simp: pview_def)
  have "vw_rows (gsview sample_state) 1 = Some (1, 0, [], [])" unfolding view by (simp add: GR_GUILDMASTER_def member_table_def)
  then show "row_kept sample_state 1 1 0" by (simp add: row_kept_view del: gsview_sel)
qed

text \<open>Ann leads a guild; Bob is in it too, of the lowest rank, and has the right to remove members but tries to kick Ann.\<close>

definition two_members :: GuildState where
  "two_members =
     guild_start\<lparr>gd_guilds := (\<lambda>_. None)(1 := Some (Guild_new\<lparr>gl_id := 1, gl_leaderGuid := pguid 1,
         gl_ranks := map (\<lambda>i. RankInfo_new i [] GR_RIGHT_ALL 0) [0, 1, 2],
         gl_members := [(1, Member_new (guild_sample_env 100) (pguid 1) 0), (2, Member_new (guild_sample_env 100) (pguid 2) 2)]\<rparr>)), gd_store := [1],
       gd_online := [(guild_sample_player 1 ''Ann'' 0)\<lparr>plr_GuildId := 1\<rparr>, (guild_sample_player 2 ''Bob'' 0)\<lparr>plr_GuildId := 1, plr_Rank := 2\<rparr>],
       gd_nextGuildId := 2,
       gd_trace := [MemberSql (CHAR_ADD_GUILD_MEMBER 1 1 0 [] [] []), MemberSql (CHAR_ADD_GUILD_MEMBER 1 2 2 [] [] [])]\<rparr>"

definition kick_ann :: "guild_env \<times> guild_msg" where
  "kick_ann = (guild_sample_env 102, GuildMsg CMSG_GUILD_REMOVE (pguid 2) (bytes_packet [1, 0, 0, 0, 0, 0, 0, 0]))"

lemma two_members_sel:
  "is_online (pguid 2) two_members" "plr_Rank (plr two_members (pguid 2)) = 2" "plr_GuildId (plr two_members (pguid 2)) = 1"
  "plr_GUID (plr two_members (pguid 2)) = pguid 2" "gl_leaderGuid (gld two_members 1) = pguid 1"
  "Guild_GetMember (pguid 1) (gld two_members 1) = Some (Member_new (guild_sample_env 100) (pguid 1) 0)"
  "Guild_GetMember (pguid 2) (gld two_members 1) = Some (Member_new (guild_sample_env 100) (pguid 2) 2)"
  "row_kept two_members 1 1 0" "vw_rows (gsview two_members) = [1 \<mapsto> (1, 0, [], []), 2 \<mapsto> (1, 2, [], [])]"
  by (simp_all add: two_members_def is_online_def guild_sample_player_def Player.defs sample_player_def plr_def gld_def Guild_GetMember_def
      hmap_find_def row_kept_def recorded_def member_table_def)

lemma two_members_ok: "views_ok (gsview two_members)"
proof -
  let ?v = "gsview two_members"
  have g: "vw_guilds ?v h = (if h = 1 then Some \<lparr>gv_id = 1, gv_leader = pguid 1, gv_keys_ok = True,
      gv_members = [1 \<mapsto> (pguid 1, 0, [], []), 2 \<mapsto> (pguid 2, 2, [], [])]\<rparr> else None)" for h
    by (auto simp: two_members_def gd_view_def members_view_def hmap_ok_def hmap_find_def mview_def Member_new_def fun_eq_iff)
  have o: "vw_online ?v = [(pguid 1, True, 1, 0), (pguid 2, True, 1, 2)]" "vw_store ?v = {1}" "vw_next ?v = 2"
    by (simp_all add: two_members_def guild_sample_player_def Player.defs sample_player_def pview_def)
  have "guilds_ok ?v" unfolding guilds_ok_def o g by (auto simp: guild_ok_def split: if_splits)
  moreover have "mrows_ok ?v" unfolding mrows_ok_def o g two_members_sel(9) by auto
  moreover have "online_ok ?v" unfolding online_ok_def o two_members_sel(9) by (auto simp: agrees_def)
  ultimately show ?thesis by (simp add: views_ok_def o del: gsview_sel)
qed


end
