(* ===== verification/Guild_Props.thy ===== *)
theory Guild_Props
  imports Guild_Authority
begin

text \<open>The properties of guild memberships: the histories, the authority of ranks, and where the checks fail.\<close>

section \<open>Histories\<close>



lemma views_ok_concrete:
  assumes "views_ok (gsview s)"
  shows "g \<in> set (gd_store s) \<Longrightarrow> \<exists>m. Guild_GetMember (gl_leaderGuid (gld s g)) (gld s g) = Some m \<and> gm_guid m = gl_leaderGuid (gld s g)"
    and "recorded s k = Some (g, r, pn, on) \<longleftrightarrow> g \<in> set (gd_store s) \<and>
      (\<exists>m. Guild_GetMember (pguid k) (gld s g) = Some m \<and> gm_guid m = pguid k \<and> gm_rankId m = r \<and> gm_publicNote m = pn \<and> gm_officerNote m = on)"
    and "player \<in> set (gd_online s) \<Longrightarrow> agrees (recorded s (GUID_LOPART (plr_GUID player))) (plr_GuildId player, plr_Rank player)"
proof -
  show "\<exists>m. Guild_GetMember (gl_leaderGuid (gld s g)) (gld s g) = Some m \<and> gm_guid m = gl_leaderGuid (gld s g)"
    if st: "g \<in> set (gd_store s)"
  proof -
    obtain x k m where "gld s g = x" "gl_leaderGuid x = pguid k" "hmap_find (gl_members x) k = Some m"
      "\<And>k m. (k, m) \<in> set (gl_members x) \<Longrightarrow> gm_guid m = pguid k" using guild_object [OF assms st] by (metis option.exhaust)
    then show ?thesis by (auto simp: Guild_GetMember_def dest: hmap_findD)
  qed
  have "mrows_ok (gsview s)" using assms by (simp add: views_ok_def)
  then have "recorded s k = Some (g, r, pn, on) \<longleftrightarrow>
      g \<in> set (gd_store s) \<and> (\<exists>x. gd_guilds s g = Some x \<and> members_view (gl_members x) k = Some (pguid k, r, pn, on))"
    unfolding mrows_ok_def recorded_def by auto
  moreover have "gd_guilds s g = Some (gld s g)" if st: "g \<in> set (gd_store s)" by (rule guild_object [OF assms st]) simp
  ultimately have "recorded s k = Some (g, r, pn, on) \<longleftrightarrow>
      g \<in> set (gd_store s) \<and> members_view (gl_members (gld s g)) k = Some (pguid k, r, pn, on)" by auto
  also have "\<dots> \<longleftrightarrow> g \<in> set (gd_store s) \<and>
      (\<exists>m. Guild_GetMember (pguid k) (gld s g) = Some m \<and> gm_guid m = pguid k \<and> gm_rankId m = r \<and> gm_publicNote m = pn \<and> gm_officerNote m = on)"
    unfolding members_view_Some mview_def Guild_GetMember_def by (simp, metis)
  finally show "recorded s k = Some (g, r, pn, on) \<longleftrightarrow> g \<in> set (gd_store s) \<and>
      (\<exists>m. Guild_GetMember (pguid k) (gld s g) = Some m \<and> gm_guid m = pguid k \<and> gm_rankId m = r \<and> gm_publicNote m = pn \<and> gm_officerNote m = on)" .
  show "agrees (recorded s (GUID_LOPART (plr_GUID player))) (plr_GuildId player, plr_Rank player)" if "player \<in> set (gd_online s)"
  proof -
    have "online_ok (gsview s)" "pview player \<in> set (vw_online (gsview s))" using assms that by (simp_all add: views_ok_def)
    then obtain k where "plr_GUID player = pguid k" "agrees (vw_rows (gsview s) k) (plr_GuildId player, plr_Rank player)"
      unfolding online_ok_def pview_def by blast
    then show ?thesis by (simp add: recorded_def)
  qed
qed



end
