(* ===== verification/Guild_Money.thy ===== *)
theory Guild_Money
  imports Guild_Sample
begin

text \<open>The money of guild banks: deposits and withdrawals neither create nor destroy money, and a member cannot exceed the daily limit.\<close>

section \<open>What messages leave alone\<close>

definition money_view :: "uint32 \<Rightarrow> GuildState \<Rightarrow> uint64 \<times> GuildPlayer list" where
  "money_view g s = (gl_bankMoney (gld s g), gd_online s)"

named_theorems money_quiet

lemma money_emit [money_quiet]: "money_view g (gd_emit es s) = money_view g s"
  by (simp add: money_view_def)

lemma money_upd_gld: "(\<And>x. gl_bankMoney (f x) = gl_bankMoney x) \<Longrightarrow> money_view g (upd_gld h f s) = money_view g s"
  by (auto simp: money_view_def gld_upd_gld)

lemma money_upd_member [money_quiet]: "money_view g (upd_gld h (upd_member p f) s) = money_view g s"
  by (rule money_upd_gld) (simp add: upd_member_def)

lemma money_GetMemberRemaining [money_quiet]: "money_view g (snd (Guild_GetMemberRemaining E h p t s)) = money_view g s"
  by (simp add: Guild_GetMemberRemaining_def case_prod_unfold Let_def money_quiet split: option.split)

lemma money_BroadcastPacket [money_quiet]: "money_view g (Guild_BroadcastPacket h pkt s) = money_view g s"
  by (simp add: Guild_BroadcastPacket_def money_quiet)

lemma money_LogBankEvent [money_quiet]: "money_view g (Guild_LogBankEvent E h t tab k i n d s) = money_view g s"
  by (simp add: Guild_LogBankEvent_def Let_def case_prod_unfold money_quiet money_upd_gld)

lemma money_sends [money_quiet]:
  "money_view g (Guild_SendBankTabsInfo E h p s) = money_view g s" "money_view g (Guild_SendBankContent E h p t s) = money_view g s"
  "money_view g (Guild_SendBankMoneyUpdate E h p s) = money_view g s" "money_view g (Guild_SendMoneyInfo E h p s) = money_view g s"
  by (simp_all add: Guild_SendBankTabsInfo_def Guild_SendBankContent_def Guild_SendBankMoneyUpdate_def Guild_SendMoneyInfo_def
      case_prod_unfold Let_def money_quiet split: option.split)

lemma money_viewD: "money_view g s = money_view g t \<Longrightarrow> gl_bankMoney (gld s g) = gl_bankMoney (gld t g) \<and> plr s p = plr t p"
  by (simp add: money_view_def plr_def)

section \<open>Money of players\<close>

lemma find_map_upd: "find (\<lambda>p. plr_GUID p = q) (map (\<lambda>p. if plr_GUID p = q then f p else p) rs) = map_option f (find (\<lambda>p. plr_GUID p = q) rs)"
  if "\<And>p. plr_GUID (f p) = plr_GUID p"
  using that by (induction rs) auto

lemma plr_SetMoney: "gd_FindPlayer p s \<noteq> None \<Longrightarrow> plr_Money (plr (SetMoney p v s) p) = v"
  by (auto simp: SetMoney_def upd_plr_def plr_def gd_FindPlayer_def find_map_upd split: option.splits)

lemma bank_SetMoney: "gld (SetMoney p v s) g = gld s g"
  by (simp add: SetMoney_def)

lemma money_SetMoney: "money_view g s = money_view g t \<Longrightarrow> money_view g (SetMoney p v s) = money_view g (SetMoney p v t)"
  by (simp add: money_view_def SetMoney_def) (simp add: upd_plr_def)

text \<open>A player who is not looting gets or pays exactly the amount, as long as the purse holds it.\<close>

lemma ModifyMoney_pays:
  assumes "0 < d" "d \<le> uint (plr_Money (plr s p))"
  shows "money_view g (ModifyMoney E p (- d) s) = money_view g (SetMoney p (plr_Money (plr s p) - of_int d) s)"
proof -
  have "(if uint (plr_Money (plr s p)) > d then plr_Money (plr s p) + of_int (- d) else 0) = plr_Money (plr s p) - of_int d"
    using assms(2) by (auto simp: word_of_int_uint not_less)
  with assms(1) show ?thesis by (simp add: ModifyMoney_def money_SetMoney [OF money_emit])
qed

lemma uint_of_int32: "0 \<le> z \<Longrightarrow> z < 2 ^ 32 \<Longrightarrow> uint (of_int z :: uint32) = z"
  by (simp add: uint_word_of_int)

lemma ModifyMoney_gets:
  assumes "0 \<le> d" "uint (plr_Money (plr s p)) + d < MAX_MONEY_AMOUNT" "gn_lootShare E p d = None"
  shows "money_view g (ModifyMoney E p d s) = money_view g (SetMoney p (plr_Money (plr s p) + of_int d) s)"
proof -
  have "0 \<le> MAX_MONEY_AMOUNT - d" using assms(2) uint_nonnegative [of "plr_Money (plr s p)"] by linarith
  then have "uint (of_int (MAX_MONEY_AMOUNT - d) :: uint32) = MAX_MONEY_AMOUNT - d"
    by (rule uint_of_int32) (use assms(1) in \<open>simp add: MAX_MONEY_AMOUNT_def\<close>)
  then have "plr_Money (plr s p) < of_int (MAX_MONEY_AMOUNT - d)" using assms(2) by (simp add: word_less_def)
  with assms have eq: "ModifyMoney E p d s = SetMoney p (plr_Money (plr s p) + of_int d)
      (gd_emit [PlayerCall p (SendPlayerMoneyNotify d)] (gd_emit [PlayerCall p (OnPlayerMoneyChanged d)] s))"
    by (simp add: ModifyMoney_def Let_def split: option.split)
  show ?thesis unfolding eq by (rule money_SetMoney) (simp add: money_emit)
qed

section \<open>Bank calls\<close>

datatype bank_amount = Deposit uint32 | Withdraw uint32

text \<open>The calls as the handlers make them; \<open>HandleGuildBankDepositMoney\<close> looks into the purse first.\<close>

fun bank_step :: "uint32 \<Rightarrow> guild_env \<times> uint64 \<times> bank_amount \<Rightarrow> GuildState \<Rightarrow> GuildState" where
  "bank_step g (E, p, Deposit a) s = (if HasEnoughMoney a (plr s p) then Guild_HandleMemberDepositMoney E g p a s else s)"
| "bank_step g (E, p, Withdraw a) s = snd (Guild_HandleMemberWithdrawMoney E g p a False s)"

text \<open>Amounts below 2 to the power of 31, a purse that does not overflow, a player who is not looting.\<close>

fun bank_legal :: "uint32 \<Rightarrow> guild_env \<times> uint64 \<times> bank_amount \<Rightarrow> GuildState \<Rightarrow> bool" where
  "bank_legal g (E, p, Deposit a) s \<longleftrightarrow>
     gd_FindPlayer p s \<noteq> None \<and> 0 < a \<and> a < 2 ^ 31 \<and> uint (gl_bankMoney (gld s g)) + uint a < 2 ^ 64"
| "bank_legal g (E, p, Withdraw a) s \<longleftrightarrow>
     gd_FindPlayer p s \<noteq> None \<and> 0 < a \<and> a < 2 ^ 31 \<and> uint (plr_Money (plr s p)) + uint a < MAX_MONEY_AMOUNT \<and> gn_lootShare E p (uint a) = None"

definition total_money :: "uint32 \<Rightarrow> GuildState \<Rightarrow> int" where
  "total_money g s = uint (gl_bankMoney (gld s g)) + sum_list (map (uint \<circ> plr_Money) (gd_online s))"

lemma sint_small: "(a :: uint32) < 2 ^ 31 \<Longrightarrow> sint a = uint a"
  by (simp add: sint_uint signed_take_bit_eq_if_positive bit_iff_odd word_less_def div_pos_pos_trivial take_bit_int_eq_self)

lemma sint_large: "2 ^ 31 \<le> (a :: uint32) \<Longrightarrow> sint a = uint a - 2 ^ 32"
proof -
  assume "2 ^ 31 \<le> a"
  then have "2 ^ 31 \<le> uint a" "uint a < 2 ^ 32" using uint_bounded [of a] by (simp_all add: word_le_def)
  then have "(uint a + 2 ^ 31) mod 2 ^ 32 = uint a - 2 ^ 31" using mod_add_self2 [of "uint a - 2 ^ 31" "2 ^ 32"] by (simp add: add.commute)
  then show ?thesis by (simp add: sint_uint signed_take_bit_eq_take_bit_shift take_bit_eq_mod)
qed

text \<open>The purse of one of the players changes.\<close>

definition unique_players :: "GuildState \<Rightarrow> bool" where
  "unique_players s \<longleftrightarrow> distinct (map plr_GUID (gd_online s))"

lemma sum_purses_update:
  fixes rs :: "GuildPlayer list"
  assumes "distinct (map plr_GUID rs)" "find (\<lambda>r. plr_GUID r = p) rs = Some r"
  shows "sum_list (map (uint \<circ> plr_Money) (map (\<lambda>r. if plr_GUID r = p then r\<lparr>plr_Money := v\<rparr> else r) rs)) =
    sum_list (map (uint \<circ> plr_Money) rs) - uint (plr_Money r) + uint v"
  using assms
proof (induction rs)
  case (Cons q rs)
  show ?case
  proof (cases "plr_GUID q = p")
    case True
    then have "map (\<lambda>r. if plr_GUID r = p then r\<lparr>plr_Money := v\<rparr> else r) rs = rs" using Cons.prems(1) by (intro upd_plr_absent) auto
    with True Cons.prems(2) show ?thesis by simp
  qed (use Cons in simp)
qed simp

lemma total_SetMoney:
  assumes "unique_players s" "gd_FindPlayer p s \<noteq> None"
  shows "total_money g (SetMoney p v s) = total_money g s - uint (plr_Money (plr s p)) + uint v"
proof -
  obtain r where r: "find (\<lambda>r. plr_GUID r = p) (gd_online s) = Some r" using assms(2) by (auto simp: gd_FindPlayer_def split: option.splits)
  from sum_purses_update [OF assms(1) [unfolded unique_players_def] r, of v] r
  show ?thesis by (simp add: total_money_def SetMoney_def plr_def) (simp add: upd_plr_def)
qed

lemma total_view: "money_view g s = money_view g t \<Longrightarrow> total_money g s = total_money g t"
  by (simp add: money_view_def total_money_def)

lemma ModifyBankMoney_parts:
  assumes "gd_guilds s g \<noteq> None"
  shows "gl_bankMoney (gld (snd (Guild_ModifyBankMoney g a True s)) g) = gl_bankMoney (gld s g) + a"
    and "a \<le> gl_bankMoney (gld s g) \<Longrightarrow> gl_bankMoney (gld (snd (Guild_ModifyBankMoney g a False s)) g) = gl_bankMoney (gld s g) - a"
    and "gd_online (snd (Guild_ModifyBankMoney g a b s)) = gd_online s"
  using assms by (auto simp: Guild_ModifyBankMoney_def Let_def gld_upd_gld)

lemma deposit_view:
  assumes "gd_guilds s g \<noteq> None" "Guild_GetPurchasedTabsSize (gld s g) \<noteq> 0" "0 < a" "a < 2 ^ 31" "a \<le> plr_Money (plr s p)"
  shows "money_view g (Guild_HandleMemberDepositMoney E g p a s) =
    (gl_bankMoney (gld s g) + ucast a, gd_online (SetMoney p (plr_Money (plr s p) - a) s))"
proof -
  define s2 where "s2 = snd (Guild_ModifyBankMoney g (ucast a) True (gd_emit [GuildHook g (OnGuildMemberDepositMoney p a)] s))"
  have s2: "gl_bankMoney (gld s2 g) = gl_bankMoney (gld s g) + ucast a" "gd_online s2 = gd_online s"
    using ModifyBankMoney_parts(1,3) [of "gd_emit [GuildHook g (OnGuildMemberDepositMoney p a)] s" g "ucast a"] assms(1) by (simp_all add: s2_def)
  then have same: "plr s2 p = plr s p" by (simp add: plr_def)
  have d: "wrap32 (- sint a) = - uint a" "0 < uint a" "uint a \<le> uint (plr_Money (plr s p))"
    using assms(3-5) by (simp_all add: sint_small wrap32_def word_less_def word_le_def)
  have "money_view g (Guild_HandleMemberDepositMoney E g p a s) = money_view g (ModifyMoney E p (- uint a) s2)"
    using assms(2) by (simp add: Guild_HandleMemberDepositMoney_def Let_def money_quiet s2_def [symmetric] d(1))
  also have "\<dots> = money_view g (SetMoney p (plr_Money (plr s p) - a) s2)"
    using ModifyMoney_pays [of "uint a" s2 p g E] d(2,3) same by simp
  finally show ?thesis using s2 by (simp add: money_view_def SetMoney_def) (simp add: upd_plr_def)
qed

lemma withdraw_cases:
  assumes "gd_guilds s g \<noteq> None" "W = Guild_HandleMemberWithdrawMoney E g p a False s"
  obtains (refused) "\<not> fst W" "money_view g (snd W) = money_view g s"
  | (paid) t where "fst W" "ucast a \<le> gl_bankMoney (gld s g)" "gl_bankMoney (gld t g) = gl_bankMoney (gld s g) - ucast a"
      "gd_online t = gd_online s" "money_view g (snd W) = money_view g (ModifyMoney E p (sint a) t)"
proof -
  define s1 where "s1 = snd (Guild_GetMemberRemaining E g p GUILD_BANK_MAX_TABS s)"
  define n where "n = fst (Guild_GetMemberRemaining E g p GUILD_BANK_MAX_TABS s)"
  have gn: "Guild_GetMemberRemaining E g p GUILD_BANK_MAX_TABS s = (n, s1)" by (simp add: n_def s1_def)
  have v1: "money_view g s1 = money_view g s" by (simp add: s1_def money_quiet)
  show thesis
  proof (cases "Guild_GetPurchasedTabsSize (gld s g) = 0 \<or> gl_bankMoney (gld s g) < ucast a \<or>
      \<not> Guild_HasRankRight (plr s p) GR_RIGHT_WITHDRAW_GOLD (gld s g) \<or> n = 0 \<or> n < a")
    case True
    have "\<not> fst W \<and> money_view g (snd W) = money_view g s"
      unfolding assms(2) Guild_HandleMemberWithdrawMoney_def gn Let_def using True v1 by auto
    then show ?thesis using refused by blast
  next
    case False
    define s2 where "s2 = gd_emit [GuildHook g (OnGuildMemberWitdrawMoney p a False)] s1"
    define s3 where "s3 = (if n < GUILD_WITHDRAW_MONEY_UNLIMITED
      then (case Guild_GetMember p (gld s2 g) of None \<Rightarrow> s2
            | Some m \<Rightarrow> let (m1, es) = Member_DecreaseBankRemainingValue (gl_id (gld s2 g)) GUILD_BANK_MAX_TABS a m
                in gd_emit es (upd_gld g (upd_member p (\<lambda>_. m1)) s2)) else s2)"
    define t where "t = snd (Guild_ModifyBankMoney g (ucast a) False s3)"
    have v3: "money_view g s3 = money_view g s"
      using v1 by (auto simp: s3_def s2_def money_quiet case_prod_unfold Let_def split: option.split)
    have "gd_guilds s1 g \<noteq> None" using assms(1)
      by (auto simp: s1_def Guild_GetMemberRemaining_def case_prod_unfold Let_def gd_guilds_upd_gld split: option.split)
    then have g3: "gd_guilds s3 g \<noteq> None" by (auto simp: s3_def s2_def case_prod_unfold Let_def gd_guilds_upd_gld split: option.split)
    have b: "gl_bankMoney (gld s3 g) = gl_bankMoney (gld s g)" "gd_online s3 = gd_online s" using v3 by (simp_all add: money_view_def)
    have le: "ucast a \<le> gl_bankMoney (gld s g)" using False by auto
    have "fst W \<and> money_view g (snd W) = money_view g (ModifyMoney E p (sint a) t)"
      using False unfolding assms(2) Guild_HandleMemberWithdrawMoney_def gn Let_def
      by (simp add: money_quiet t_def s3_def s2_def case_prod_unfold Let_def split: option.split)
    then show ?thesis
      using paid [of t] le ModifyBankMoney_parts(2,3) [OF g3, of "ucast a"] b by (simp add: t_def)
  qed
qed

lemma bank_step_conserves:
  assumes "gd_guilds s g \<noteq> None" "unique_players s" "bank_legal g c s"
  shows "total_money g (bank_step g c s) = total_money g s" "map plr_GUID (gd_online (bank_step g c s)) = map plr_GUID (gd_online s)"
proof -
  obtain E p d where c: "c = (E, p, d)" by (metis prod_cases3)
  have guids: "map plr_GUID (gd_online (SetMoney p v t)) = map plr_GUID (gd_online t)" for v t
    by (simp add: SetMoney_def upd_plr_def comp_def if_distrib cong: if_cong)
  have total: "total_money g t = uint b + sum_list (map (uint \<circ> plr_Money) os)" if "money_view g t = (b, os)" for t b os
    using that by (simp add: money_view_def total_money_def)
  have "total_money g (bank_step g c s) = total_money g s \<and> map plr_GUID (gd_online (bank_step g c s)) = map plr_GUID (gd_online s)"
  proof (cases d)
    case (Deposit a)
    with assms(3) c have l: "gd_FindPlayer p s \<noteq> None" "0 < a" "a < 2 ^ 31" "uint (gl_bankMoney (gld s g)) + uint a < 2 ^ 64" by simp_all
    show ?thesis
    proof (cases "HasEnoughMoney a (plr s p) \<and> Guild_GetPurchasedTabsSize (gld s g) \<noteq> 0")
      case True
      then have a: "a \<le> plr_Money (plr s p)" by (simp add: HasEnoughMoney_def)
      note v = deposit_view [OF assms(1) _ l(2,3) a, of E]
      have "uint (gl_bankMoney (gld s g) + ucast a) = uint (gl_bankMoney (gld s g)) + uint a"
        using l(4) by (simp add: uint_add_lem [THEN iffD1] uint_up_ucast is_up)
      moreover have "uint (plr_Money (plr s p) - a) = uint (plr_Money (plr s p)) - uint a" using a by (simp add: uint_minus_simple_alt)
      ultimately show ?thesis
        using True v total [OF v] total_SetMoney [OF assms(2) l(1), of g "plr_Money (plr s p) - a"] guids [of _ s]
        by (simp add: c Deposit total_money_def bank_SetMoney money_view_def)
    qed (auto simp: c Deposit Guild_HandleMemberDepositMoney_def)
  next
    case (Withdraw a)
    with assms(3) c have l: "gd_FindPlayer p s \<noteq> None" "0 < a" "a < 2 ^ 31" "uint (plr_Money (plr s p)) + uint a < MAX_MONEY_AMOUNT"
      "gn_lootShare E p (uint a) = None" by simp_all
    show ?thesis
    proof (rule withdraw_cases [OF assms(1) refl, of E p a], goal_cases)
      case refused: 1
      then show ?thesis using total_view [OF refused(2)] by (simp add: c Withdraw money_view_def)
    next
      case paid: (2 t)
      have same: "plr t p = plr s p" using paid(4) by (simp add: plr_def)
      have "money_view g (bank_step g c s) = money_view g (SetMoney p (plr_Money (plr s p) + a) t)"
        using paid(5) ModifyMoney_gets [of "uint a" t p E g] l same by (simp add: c Withdraw sint_small)
      then have v: "money_view g (bank_step g c s) = (gl_bankMoney (gld s g) - ucast a, gd_online (SetMoney p (plr_Money (plr s p) + a) s))"
        using paid(3,4) by (simp add: money_view_def SetMoney_def) (simp add: upd_plr_def)
      have "uint (gl_bankMoney (gld s g) - ucast a) = uint (gl_bankMoney (gld s g)) - uint a"
        using paid(2) by (simp add: uint_minus_simple_alt [THEN iffD1] uint_up_ucast is_up)
      moreover have "uint (plr_Money (plr s p) + a) = uint (plr_Money (plr s p)) + uint a"
        using l(4) by (simp add: uint_add_lem [THEN iffD1] MAX_MONEY_AMOUNT_def)
      ultimately show ?thesis
        using v total [OF v] total_SetMoney [OF assms(2) l(1), of g "plr_Money (plr s p) + a"] guids [of _ s]
        by (simp add: total_money_def bank_SetMoney money_view_def)
    qed
  qed
  then show "total_money g (bank_step g c s) = total_money g s" "map plr_GUID (gd_online (bank_step g c s)) = map plr_GUID (gd_online s)" by simp_all
qed

lemma bank_step_guild: "gd_guilds (bank_step g c s) h = None \<longleftrightarrow> gd_guilds s h = None"
proof -
  obtain E p d where c: "c = (E, p, d)" by (metis prod_cases3)
  have "gsview (bank_step g c s) = gsview s" by (cases d) (simp_all add: c guild_quiet)
  then have "vw_guilds (gsview (bank_step g c s)) h = vw_guilds (gsview s) h" by simp
  then show ?thesis by (metis gsview_sel(1) option.map_disc_iff)
qed

text \<open>
  C11 (invariant).  Deposits and withdrawals of any players, accepted or refused, keep the sum of the money in the bank and in
  all purses, as long as amounts stay below 2 to the power of 31, no purse or bank overflows and the players are not looting.
\<close>

theorem bank_money_conserved:
  assumes "gd_guilds s g \<noteq> None" "unique_players s" "legal_run (bank_legal g) (bank_step g) cs s"
  shows "total_money g (run_ops (bank_step g) cs s) = total_money g s"
  using assms
proof (induction cs arbitrary: s)
  case (Cons c cs)
  have "gd_guilds (bank_step g c s) g \<noteq> None" using Cons.prems(1) bank_step_guild by metis
  moreover have "unique_players (bank_step g c s)" using bank_step_conserves(2) [OF Cons.prems(1,2)] Cons.prems(2,3) by (simp add: unique_players_def)
  ultimately show ?case using Cons.IH [of "bank_step g c s"] Cons.prems bank_step_conserves(1) [of s g c] by simp
qed simp

text \<open>
  C37 (error).  An amount of 2 to the power of 31 or more is negative as the \<open>int32\<close> that \<open>ModifyMoney\<close> gets: when such a withdrawal
  is accepted the bank pays and the purse of the player shrinks as well.
\<close>

theorem huge_withdrawal_destroys_money:
  assumes "gd_guilds s g \<noteq> None" "gd_FindPlayer p s \<noteq> None" "2 ^ 31 \<le> a"
    "Guild_HandleMemberWithdrawMoney E g p a False s = (True, s')"
  shows "uint (gl_bankMoney (gld s' g)) = uint (gl_bankMoney (gld s g)) - uint a \<and>
    uint (plr_Money (plr s' p)) = max 0 (uint (plr_Money (plr s p)) - (2 ^ 32 - uint a))"
proof (rule withdraw_cases [OF assms(1) refl, of E p a], goal_cases)
  case 1
  with assms(4) show ?thesis by simp
next
  case paid: (2 t)
  let ?m = "plr_Money (plr s p)"
  have same: "plr t p = plr s p" "gd_FindPlayer p t \<noteq> None" using paid(4) assms(2) by (simp_all add: plr_def gd_FindPlayer_def)
  have neg: "sint a = uint a - 2 ^ 32" by (rule sint_large [OF assms(3)])
  then have less: "sint a < 0" using uint_bounded [of a] by simp
  let ?v = "if uint ?m > - sint a then ?m + of_int (sint a) else 0"
  have eq: "ModifyMoney E p (sint a) t = SetMoney p ?v (gd_emit [PlayerCall p (OnPlayerMoneyChanged (sint a))] t)"
    using less same(1) by (simp add: ModifyMoney_def)
  have v: "money_view g s' = money_view g (SetMoney p ?v (gd_emit [PlayerCall p (OnPlayerMoneyChanged (sint a))] t))"
    using paid(5) assms(4) eq by simp
  have "gl_bankMoney (gld s' g) = gl_bankMoney (gld s g) - ucast a" "plr_Money (plr s' p) = ?v"
    using money_viewD [OF v, of p] paid(3) same(2) by (simp_all add: bank_SetMoney plr_SetMoney)
  moreover have "uint (gl_bankMoney (gld s g) - ucast a) = uint (gl_bankMoney (gld s g)) - uint a"
    using paid(2) by (simp add: uint_minus_simple_alt [THEN iffD1] uint_up_ucast is_up)
  moreover have "uint ?v = max 0 (uint ?m - (2 ^ 32 - uint a))"
  proof -
    have "of_int (sint a) = a" by simp
    then have "?v = (if 2 ^ 32 - uint a < uint ?m then ?m + a else 0)" unfolding neg by simp
    then show ?thesis using uint_bounded [of ?m] by (auto simp: uint_plus_if')
  qed
  ultimately show ?thesis by simp
qed

end
