(* ===== verification/Guild_Limits.thy ===== *)
theory Guild_Limits
  imports Guild_Money
begin

text \<open>The amount that a member may take from the bank within a day.\<close>

section \<open>The remaining amount\<close>

text \<open>Rank and remaining money of the member \<open>p\<close>.\<close>

definition limit_view :: "uint32 \<Rightarrow> uint64 \<Rightarrow> GuildState \<Rightarrow> (uint8 \<times> nat \<times> RemainingValue) option" where
  "limit_view g p s =
     map_option (\<lambda>m. (gm_rankId m, length (gm_bankRemaining m), gm_bankRemaining m ! unat GUILD_BANK_MAX_TABS)) (Guild_GetMember p (gld s g))"

text \<open>The period of the member has not ended at the time of the environment.\<close>

definition steady :: "guild_env \<Rightarrow> (uint8 \<times> nat \<times> RemainingValue) option \<Rightarrow> bool" where
  "steady E v \<longleftrightarrow> (case v of None \<Rightarrow> True | Some (r, n, rv) \<Rightarrow> n = 9 \<and> \<not> cur_minutes E > rem_resetTime rv + 1440)"

named_theorems limit_quiet

lemma limit_emit [limit_quiet]: "limit_view g p (gd_emit es s) = limit_view g p s"
  by (simp add: limit_view_def)

lemma limit_upd_gld: "(\<And>x. gl_members (f x) = gl_members x) \<Longrightarrow> limit_view g p (upd_gld h f s) = limit_view g p s"
  by (auto simp: limit_view_def gld_upd_gld Guild_GetMember_def)

lemma limit_BroadcastPacket [limit_quiet]: "limit_view g p (Guild_BroadcastPacket h pkt s) = limit_view g p s"
  by (simp add: Guild_BroadcastPacket_def limit_quiet)

lemma limit_LogBankEvent [limit_quiet]: "limit_view g p (Guild_LogBankEvent E h t tab k i n d s) = limit_view g p s"
  by (simp add: Guild_LogBankEvent_def Let_def case_prod_unfold limit_quiet limit_upd_gld)

lemma limit_SetMoney [limit_quiet]: "limit_view g p (SetMoney q v s) = limit_view g p s"
  by (simp add: limit_view_def bank_SetMoney)

lemma limit_ModifyMoney [limit_quiet]: "limit_view g p (ModifyMoney E q d s) = limit_view g p s"
  by (simp add: ModifyMoney_def Let_def limit_quiet limit_upd_gld split: option.split)

lemma limit_ModifyBankMoney [limit_quiet]: "limit_view g p (snd (Guild_ModifyBankMoney h a b s)) = limit_view g p s"
  by (simp add: Guild_ModifyBankMoney_def Let_def limit_quiet limit_upd_gld)

lemma GetMember_upd_member:
  "Guild_GetMember p (upd_member q f x) = (if GUID_LOPART p = GUID_LOPART q then map_option f (Guild_GetMember p x) else Guild_GetMember p x)"
  by (simp add: Guild_GetMember_def upd_member_def hmap_find_update)

lemma renew_other:
  assumes "length (gm_bankRemaining m) = 9" "\<not> cur_minutes E > rem_resetTime (gm_bankRemaining m ! 8) + 1440"
  shows "length (gm_bankRemaining (fst (Member_renew E x t m))) = 9" "gm_bankRemaining (fst (Member_renew E x t m)) ! 8 = gm_bankRemaining m ! 8"
    "gm_rankId (fst (Member_renew E x t m)) = gm_rankId m"
  using assms by (cases "unat t = 8"; auto simp: Member_renew_def Let_def GUILD_BANK_MAX_TABS_def)+

lemma remaining_member:
  assumes "length (gm_bankRemaining m) = 9" "\<not> cur_minutes E > rem_resetTime (gm_bankRemaining m ! 8) + 1440"
    "m' = fst (snd (Member_GetBankRemainingValue E x t m))"
  shows "length (gm_bankRemaining m') = 9" "gm_bankRemaining m' ! 8 = gm_bankRemaining m ! 8" "gm_rankId m' = gm_rankId m"
  using assms(1,2) by (simp_all add: assms(3) Member_GetBankRemainingValue_def case_prod_unfold Let_def renew_other)

text \<open>Players are named by different numbers.\<close>

definition apart :: "uint64 \<Rightarrow> uint64 \<Rightarrow> bool" where
  "apart p q \<longleftrightarrow> q = p \<or> GUID_LOPART q \<noteq> GUID_LOPART p"

lemma limit_GetMemberRemaining [limit_quiet]:
  assumes "steady E (limit_view g p s)" "apart p q"
  shows "limit_view g p (snd (Guild_GetMemberRemaining E g q t s)) = limit_view g p s"
proof (cases "Guild_GetMember q (gld s g)")
  case (Some m)
  show ?thesis
  proof (cases "q = p")
    case True
    with assms(1) Some have m: "length (gm_bankRemaining m) = 9" "\<not> cur_minutes E > rem_resetTime (gm_bankRemaining m ! 8) + 1440"
      by (simp_all add: steady_def limit_view_def GUILD_BANK_MAX_TABS_def)
    note k = remaining_member [OF m refl, of "gld s g" t]
    show ?thesis using True Some k m(1)
      by (auto simp: Guild_GetMemberRemaining_def limit_view_def case_prod_unfold Let_def gld_upd_gld GetMember_upd_member
          GUILD_BANK_MAX_TABS_def)
  next
    case False
    with assms(2) have "GUID_LOPART p \<noteq> GUID_LOPART q" by (auto simp: apart_def)
    with Some show ?thesis
      by (auto simp: Guild_GetMemberRemaining_def limit_view_def case_prod_unfold Let_def gld_upd_gld GetMember_upd_member)
  qed
qed (simp add: Guild_GetMemberRemaining_def)

lemma limit_sends [limit_quiet]:
  assumes "steady E (limit_view g p s)" "apart p q"
  shows "limit_view g p (Guild_SendBankTabsInfo E g q s) = limit_view g p s" "limit_view g p (Guild_SendBankContent E g q t s) = limit_view g p s"
    "limit_view g p (Guild_SendBankMoneyUpdate E g q s) = limit_view g p s" "limit_view g p (Guild_SendMoneyInfo E g q s) = limit_view g p s"
  using assms by (simp_all add: Guild_SendBankTabsInfo_def Guild_SendBankContent_def Guild_SendBankMoneyUpdate_def Guild_SendMoneyInfo_def
      case_prod_unfold Let_def limit_quiet split: option.split)

section \<open>One call\<close>

lemma deposit_limit:
  "steady E (limit_view g p s) \<Longrightarrow> apart p q \<Longrightarrow> limit_view g p (Guild_HandleMemberDepositMoney E g q a s) = limit_view g p s"
  by (simp add: Guild_HandleMemberDepositMoney_def Let_def limit_quiet)

text \<open>A withdrawal of the member itself, who is not a guild master and has a limit, counts; nothing else does.\<close>

lemma withdraw_limit:
  assumes v: "limit_view g p s = Some (r, 9, rv)" and "steady E (limit_view g p s)" "apart p q" "gd_guilds s g \<noteq> None"
    "r \<noteq> GR_GUILDMASTER" "rem_value rv < GUILD_WITHDRAW_MONEY_UNLIMITED" "W = Guild_HandleMemberWithdrawMoney E g q a b s"
  shows "if q = p \<and> fst W then a \<le> rem_value rv \<and> limit_view g p (snd W) = Some (r, 9, rv\<lparr>rem_value := rem_value rv - a\<rparr>)
    else limit_view g p (snd W) = Some (r, 9, rv)"
proof -
  define s1 where "s1 = snd (Guild_GetMemberRemaining E g q GUILD_BANK_MAX_TABS s)"
  define n where "n = fst (Guild_GetMemberRemaining E g q GUILD_BANK_MAX_TABS s)"
  have gn: "Guild_GetMemberRemaining E g q GUILD_BANK_MAX_TABS s = (n, s1)" by (simp add: n_def s1_def)
  have v1: "limit_view g p s1 = Some (r, 9, rv)" using assms(1-3) by (simp add: s1_def limit_quiet)
  have g1: "gd_guilds s1 g \<noteq> None" using assms(4)
    by (auto simp: s1_def Guild_GetMemberRemaining_def case_prod_unfold Let_def gd_guilds_upd_gld split: option.split)
  let ?right = "if b then GR_RIGHT_WITHDRAW_REPAIR else GR_RIGHT_WITHDRAW_GOLD"
  show ?thesis
  proof (cases "Guild_GetPurchasedTabsSize (gld s g) = 0 \<or> gl_bankMoney (gld s g) < ucast a \<or>
      \<not> Guild_HasRankRight (plr s q) ?right (gld s g) \<or> n = 0 \<or> n < a")
    case True
    have "\<not> fst W \<and> (snd W = s \<or> snd W = s1)"
      unfolding assms(7) Guild_HandleMemberWithdrawMoney_def gn Let_def using True by auto
    with v v1 show ?thesis by auto
  next
    case False
    define s2 where "s2 = gd_emit [GuildHook g (OnGuildMemberWitdrawMoney q a b)] s1"
    define s3 where "s3 = (if n < GUILD_WITHDRAW_MONEY_UNLIMITED
      then (case Guild_GetMember q (gld s2 g) of None \<Rightarrow> s2
            | Some m \<Rightarrow> let (m1, es) = Member_DecreaseBankRemainingValue (gl_id (gld s2 g)) GUILD_BANK_MAX_TABS a m
                in gd_emit es (upd_gld g (upd_member q (\<lambda>_. m1)) s2)) else s2)"
    have v2: "limit_view g p s2 = Some (r, 9, rv)" using v1 by (simp add: s2_def limit_quiet)
    obtain v3 where v3: "limit_view g p s3 = v3" "steady E v3"
      "if q = p then a \<le> rem_value rv \<and> v3 = Some (r, 9, rv\<lparr>rem_value := rem_value rv - a\<rparr>) else v3 = Some (r, 9, rv)"
    proof (cases "q = p")
      case True
      obtain m where m: "Guild_GetMember p (gld s g) = Some m" "gm_rankId m = r" "length (gm_bankRemaining m) = 9" "gm_bankRemaining m ! 8 = rv"
        using v by (auto simp: limit_view_def GUILD_BANK_MAX_TABS_def)
      have "\<not> cur_minutes E > rem_resetTime rv + 1440" using assms(2) v by (simp add: steady_def)
      then have n: "n = rem_value rv"
        using m True assms(5) by (simp add: n_def Guild_GetMemberRemaining_def Member_GetBankRemainingValue_def case_prod_unfold Let_def
            GUILD_BANK_MAX_TABS_def Member_renew_def)
      obtain m2 where m2: "Guild_GetMember p (gld s2 g) = Some m2" "gm_rankId m2 = r" "length (gm_bankRemaining m2) = 9" "gm_bankRemaining m2 ! 8 = rv"
        using v2 by (auto simp: limit_view_def GUILD_BANK_MAX_TABS_def)
      have "gd_guilds s2 g \<noteq> None" using g1 by (simp add: s2_def)
      then have "limit_view g p s3 = Some (r, 9, rv\<lparr>rem_value := rem_value rv - a\<rparr>)"
        using m2 True n assms(6)
        by (simp add: s3_def limit_view_def case_prod_unfold Let_def gld_upd_gld GetMember_upd_member Member_DecreaseBankRemainingValue_def
            GUILD_BANK_MAX_TABS_def)
      then show ?thesis using that assms(2) v n True False by (simp add: steady_def not_less)
    next
      case other: False
      then have lo: "GUID_LOPART p \<noteq> GUID_LOPART q" using assms(3) by (auto simp: apart_def)
      have "limit_view g p s3 = limit_view g p s2"
        using lo by (auto simp: s3_def limit_view_def case_prod_unfold Let_def gld_upd_gld GetMember_upd_member split: option.split)
      then show ?thesis using that assms(2) v v2 other by simp
    qed
    define fin where "fin t = (let s4 = snd (Guild_ModifyBankMoney g (ucast a) False t);
        s5 = (if b then s4 else gd_emit [PlayerCall q (SaveGoldToDB (plr_Money (plr (ModifyMoney E q (sint a) s4) q)))] (ModifyMoney E q (sint a) s4));
        s6 = Guild_LogBankEvent E g (if b then GUILD_BANK_LOG_REPAIR_MONEY else GUILD_BANK_LOG_WITHDRAW_MONEY) 0 (GUID_LOPART q) a 0 0 s5;
        s7 = Guild_SendMoneyInfo E g q s6
      in if b then s7 else Guild_SendBankMoneyUpdate E g q (Guild_SendBankContent E g q 0 (Guild_SendBankTabsInfo E g q s7)))" for t
    have "W = (True, fin s3)"
      using False unfolding assms(7) Guild_HandleMemberWithdrawMoney_def gn Let_def fin_def s3_def s2_def by simp
    moreover have "limit_view g p (fin s3) = limit_view g p s3" using v3(1,2) assms(3) by (simp add: fin_def Let_def limit_quiet)
    ultimately have "fst W \<and> limit_view g p (snd W) = limit_view g p s3" by simp
    with v3 show ?thesis by auto
  qed
qed

section \<open>A day\<close>

text \<open>
  What players do with the money of the bank: deposits, withdrawals, repairs paid by the bank (\<open>Player::DurabilityRepair\<close>) and the
  purchase of a tab, which sets the daily amount of the buyer's rank to unlimited and makes it due at once for its members.
\<close>

datatype bank_use = UseDeposit uint32 | UseWithdraw uint32 bool | UseBuyTab uint8

fun use_step :: "uint32 \<Rightarrow> guild_env \<times> uint64 \<times> bank_use \<Rightarrow> GuildState \<Rightarrow> GuildState" where
  "use_step g (E, q, UseDeposit a) s = (if HasEnoughMoney a (plr s q) then Guild_HandleMemberDepositMoney E g q a s else s)"
| "use_step g (E, q, UseWithdraw a repair) s = snd (Guild_HandleMemberWithdrawMoney E g q a repair s)"
| "use_step g (E, q, UseBuyTab tabId) s = Guild_HandleBuyBankTab E g q tabId s"

text \<open>The calls within the period of a member of rank \<open>r\<close> that began at minute \<open>t\<close>, with no tab bought by a player of that rank.\<close>

fun within_period :: "uint64 \<Rightarrow> uint8 \<Rightarrow> uint32 \<Rightarrow> guild_env \<times> uint64 \<times> bank_use \<Rightarrow> GuildState \<Rightarrow> bool" where
  "within_period p r t (E, q, d) s \<longleftrightarrow> apart p q \<and> \<not> cur_minutes E > t + 1440 \<and>
     (case d of UseBuyTab _ \<Rightarrow> plr_Rank (plr s q) \<noteq> r | _ \<Rightarrow> True)"

text \<open>What \<open>p\<close> takes by a sequence of bank calls, repairs included.\<close>

fun taken :: "uint32 \<Rightarrow> uint64 \<Rightarrow> (guild_env \<times> uint64 \<times> bank_use) list \<Rightarrow> GuildState \<Rightarrow> nat" where
  "taken g p [] s = 0"
| "taken g p ((E, q, d) # cs) s =
     (case d of
        UseWithdraw a repair \<Rightarrow> if q = p \<and> fst (Guild_HandleMemberWithdrawMoney E g q a repair s) then unat a else 0
      | _ \<Rightarrow> 0) +
     taken g p cs (use_step g (E, q, d) s)"

lemma use_step_guild: "gd_guilds (use_step g c s) h = None \<longleftrightarrow> gd_guilds s h = None"
proof -
  obtain E p d where c: "c = (E, p, d)" by (metis prod_cases3)
  have "gsview (use_step g c s) = gsview s" by (cases d) (simp_all add: c guild_quiet)
  then have "vw_guilds (gsview (use_step g c s)) h = vw_guilds (gsview s) h" by simp
  then show ?thesis by (metis gsview_sel(1) option.map_disc_iff)
qed

lemma rank_SetMoney: "plr_Rank (plr (SetMoney p v s) q) = plr_Rank (plr s q)"
proof -
  have "find (\<lambda>r. plr_GUID r = q) (map (\<lambda>r. if plr_GUID r = p then r\<lparr>plr_Money := v\<rparr> else r) rs) =
      map_option (\<lambda>r. if plr_GUID r = p then r\<lparr>plr_Money := v\<rparr> else r) (find (\<lambda>r. plr_GUID r = q) rs)" for rs :: "GuildPlayer list"
    by (induction rs) auto
  then show ?thesis by (simp add: SetMoney_def upd_plr_def plr_def split: option.split)
qed

lemma rank_quiet: "plr_Rank (plr (gd_emit es s) q) = plr_Rank (plr s q)" "plr_Rank (plr (upd_gld g f s) q) = plr_Rank (plr s q)"
  by (simp_all add: plr_def)

lemma rank_ModifyMoney: "plr_Rank (plr (ModifyMoney E p d s) q) = plr_Rank (plr s q)"
  by (simp add: ModifyMoney_def Let_def rank_SetMoney rank_quiet split: option.split)

text \<open>Changes to the members of other ranks.\<close>

lemma limit_upd_members:
  assumes "limit_view g p s = Some (r, n, rv)" "gd_guilds s g \<noteq> None" "gl_members (fst (h (gld s g))) = gl_members (upd_members f (gld s g)) \<or> gl_members (fst (h (gld s g))) = gl_members (gld s g)"
    "\<And>m. gm_rankId m = r \<Longrightarrow> f m = m"
  shows "limit_view g p (gld_do g h s) = Some (r, n, rv)"
proof -
  have "Guild_GetMember p (fst (h (gld s g))) = Guild_GetMember p (gld s g)"
    using assms(1,3,4) by (auto simp: limit_view_def Guild_GetMember_def upd_members_def hmap_find_map)
  then show ?thesis using assms(1,2) by (simp add: gld_do_def limit_emit limit_view_def gld_upd_gld)
qed

lemma buy_limit:
  assumes v: "limit_view g p s = Some (r, 9, rv)" "steady E (limit_view g p s)" "apart p q" "gd_guilds s g \<noteq> None" "plr_Rank (plr s q) \<noteq> r"
  shows "limit_view g p (Guild_HandleBuyBankTab E g q t s) = Some (r, 9, rv)"
proof (cases "t \<noteq> Guild_GetPurchasedTabsSize (gld s g) \<or> GetGuildBankTabPrice t * GOLD = 0 \<or> \<not> HasEnoughMoney (GetGuildBankTabPrice t * GOLD) (plr s q) \<or>
    \<not> fst (Guild_CreateNewBankTab g s)")
  case True
  then show ?thesis using v(1) by (auto simp: Guild_HandleBuyBankTab_def Guild_CreateNewBankTab_def Let_def)
next
  case False
  define s2 where "s2 = ModifyMoney E q (- sint (GetGuildBankTabPrice t * GOLD)) (snd (Guild_CreateNewBankTab g s))"
  define s3 where "s3 = gld_do g (Guild_SetRankBankMoneyPerDay (plr_Rank (plr s2 q)) GUILD_WITHDRAW_MONEY_UNLIMITED) s2"
  define s4 where "s4 = gld_do g (Guild_SetRankBankTabRightsAndSlots (plr_Rank (plr s2 q)) t
    \<lparr>rs_rights = GUILD_BANK_RIGHT_FULL, rs_slots = GUILD_WITHDRAW_SLOT_UNLIMITED\<rparr> True) s3"
  have buy: "Guild_HandleBuyBankTab E g q t s = Guild_SendBankTabsInfo E g q (Guild_HandleRoster E g None s4)"
    using False unfolding s4_def s3_def s2_def Guild_HandleBuyBankTab_def case_prod_unfold Let_def by auto
  have rank: "plr_Rank (plr s2 q) \<noteq> r"
    using v(5) by (simp add: s2_def rank_ModifyMoney Guild_CreateNewBankTab_def Let_def rank_quiet)
  have view: "gsview s2 = gsview s" "gsview s3 = gsview s2"
    by (simp_all add: s2_def s3_def guild_quiet view_gld_do SetRankBankMoneyPerDay_quiet)
  have there: "gd_guilds s2 g \<noteq> None" "gd_guilds s3 g \<noteq> None"
    using v(4) view by (metis gsview_sel(1) option.map_disc_iff)+
  have v2: "limit_view g p s2 = Some (r, 9, rv)"
    using v(1) by (simp add: s2_def limit_quiet Guild_CreateNewBankTab_def Let_def limit_upd_gld)
  have v3: "limit_view g p s3 = Some (r, 9, rv)"
    unfolding s3_def using rank
    by (intro limit_upd_members [OF v2 there(1), where f = "\<lambda>m. if gm_rankId m = plr_Rank (plr s2 q) then Member_ResetMoneyTime m else m"])
      (auto simp: Guild_SetRankBankMoneyPerDay_def upd_rank_def case_prod_unfold Let_def)
  have v4: "limit_view g p s4 = Some (r, 9, rv)"
    unfolding s4_def using rank
    by (intro limit_upd_members [OF v3 there(2), where f = "\<lambda>m. if gm_rankId m = plr_Rank (plr s2 q) then Member_ResetTabTimes m else m"])
      (auto simp: Guild_SetRankBankTabRightsAndSlots_def upd_rank_def case_prod_unfold Let_def)
  have "limit_view g p (Guild_HandleRoster E g None s4) = limit_view g p s4"
    by (simp add: Guild_HandleRoster_def Guild_SendUpdateRoster_def Guild_SendGuildRankInfo_def Guild_SendOrBroadcast_def Guild_BroadcastEvent_def Let_def limit_quiet)
  then show ?thesis using v4 v(1,2,3) by (simp add: buy limit_quiet)
qed

lemma taken_bounded:
  assumes "limit_view g p s = Some (r, 9, rv)" "gd_guilds s g \<noteq> None" "r \<noteq> GR_GUILDMASTER" "rem_value rv < GUILD_WITHDRAW_MONEY_UNLIMITED"
    "legal_run (within_period p r (rem_resetTime rv)) (use_step g) cs s"
  shows "taken g p cs s \<le> unat (rem_value rv)"
  using assms
proof (induction cs arbitrary: s rv)
  case (Cons c cs)
  obtain E q d where c: "c = (E, q, d)" by (metis prod_cases3)
  have now: "apart p q" "steady E (limit_view g p s)" using Cons.prems(1,5) by (simp_all add: c steady_def)
  have g': "gd_guilds (use_step g c s) g \<noteq> None" using Cons.prems(2) use_step_guild by metis
  have rest: "taken g p cs (use_step g c s) \<le> unat (rem_value rv')"
    if "limit_view g p (use_step g c s) = Some (r, 9, rv')" "rem_resetTime rv' = rem_resetTime rv" "rem_value rv' \<le> rem_value rv" for rv'
    using Cons.IH [OF that(1) g' Cons.prems(3)] Cons.prems(4,5) that(2,3) by auto
  show ?case
  proof (cases d)
    case (UseDeposit a)
    have "limit_view g p (use_step g c s) = Some (r, 9, rv)" using deposit_limit [OF now(2,1)] Cons.prems(1) by (simp add: c UseDeposit)
    from rest [OF this] show ?thesis by (simp add: c UseDeposit)
  next
    case (UseBuyTab t)
    have "plr_Rank (plr s q) \<noteq> r" using Cons.prems(5) by (simp add: c UseBuyTab)
    from buy_limit [OF Cons.prems(1) now(2,1) Cons.prems(2) this, of t]
    have "limit_view g p (use_step g c s) = Some (r, 9, rv)" by (simp add: c UseBuyTab)
    from rest [OF this] show ?thesis by (simp add: c UseBuyTab)
  next
    case (UseWithdraw a b)
    define W where "W = Guild_HandleMemberWithdrawMoney E g q a b s"
    note w = withdraw_limit [OF Cons.prems(1) now(2,1) Cons.prems(2-4) W_def]
    have b: "use_step g c s = snd W" by (simp add: c UseWithdraw W_def)
    show ?thesis
    proof (cases "q = p \<and> fst W")
      case True
      then have le: "a \<le> rem_value rv" "limit_view g p (snd W) = Some (r, 9, rv\<lparr>rem_value := rem_value rv - a\<rparr>)" using w by simp_all
      then have "taken g p cs (snd W) \<le> unat (rem_value rv - a)" using rest [of "rv\<lparr>rem_value := rem_value rv - a\<rparr>"] b by (simp add: word_sub_le)
      then have "taken g p cs (snd W) \<le> unat (rem_value rv) - unat a" using le(1) by (simp add: unat_sub)
      moreover have "unat a \<le> unat (rem_value rv)" using le(1) by (simp add: word_le_nat_alt)
      moreover have "taken g p (c # cs) s = unat a + taken g p cs (snd W)" using True by (auto simp: c UseWithdraw W_def)
      ultimately show ?thesis by simp
    next
      case False
      then have "taken g p cs (snd W) \<le> unat (rem_value rv)" using w rest [of rv] b by simp
      with False show ?thesis by (auto simp: c UseWithdraw W_def [symmetric])
    qed
  qed
qed simp


section \<open>Examples\<close>

text \<open>A bank with one tab; Ann leads, Bob may take 100 copper a day.\<close>

definition bank_sample :: "uint64 \<Rightarrow> uint32 \<Rightarrow> GuildState" where
  "bank_sample money purse =
     guild_start\<lparr>gd_guilds := (\<lambda>_. None)(1 := Some (Guild_new\<lparr>gl_id := 1, gl_leaderGuid := pguid 1, gl_bankMoney := money,
         gl_ranks := [RankInfo_new 0 [] GR_RIGHT_ALL 0, RankInfo_new 1 [] GR_RIGHT_ALL 100],
         gl_members := [(1, Member_new (guild_sample_env 100) (pguid 1) 0),
           (2, (Member_new (guild_sample_env 100) (pguid 2) 1)\<lparr>gm_bankRemaining := replicate 9 \<lparr>rem_value = 100, rem_resetTime = 1\<rparr>\<rparr>)],
         gl_bankTabs := [BankTab_new 0], gl_bankEventLog := replicate 9 (LogHolder_new 25)\<rparr>)), gd_store := [1],
       gd_online := [(guild_sample_player 1 ''Ann'' purse)\<lparr>plr_GuildId := 1\<rparr>, (guild_sample_player 2 ''Bob'' purse)\<lparr>plr_GuildId := 1, plr_Rank := 1\<rparr>]\<rparr>"

lemma bank_sample_sel:
  "gd_guilds (bank_sample money purse) 1 \<noteq> None" "unique_players (bank_sample money purse)"
  "gl_bankMoney (gld (bank_sample money purse) 1) = money" "Guild_GetPurchasedTabsSize (gld (bank_sample money purse) 1) = 1"
  "Guild_GetMember (pguid 1) (gld (bank_sample money purse) 1) = Some (Member_new (guild_sample_env 100) (pguid 1) 0)"
  "Guild_GetMember (pguid 2) (gld (bank_sample money purse) 1) =
     Some ((Member_new (guild_sample_env 100) (pguid 2) 1)\<lparr>gm_bankRemaining := replicate 9 \<lparr>rem_value = 100, rem_resetTime = 1\<rparr>\<rparr>)"
  "gd_FindPlayer (pguid 1) (bank_sample money purse) \<noteq> None" "gd_FindPlayer (pguid 2) (bank_sample money purse) \<noteq> None"
  "plr_Money (plr (bank_sample money purse) (pguid 1)) = purse" "plr_Money (plr (bank_sample money purse) (pguid 2)) = purse"
  "plr_Rank (plr (bank_sample money purse) (pguid 1)) = 0" "plr_Rank (plr (bank_sample money purse) (pguid 2)) = 1"
  "gl_ranks (gld (bank_sample money purse) 1) = [RankInfo_new 0 [] GR_RIGHT_ALL 0, RankInfo_new 1 [] GR_RIGHT_ALL 100]"
  by (simp_all add: bank_sample_def gld_def unique_players_def guild_sample_player_def Player.defs sample_player_def Guild_GetPurchasedTabsSize_def
      Guild_GetMember_def hmap_find_def plr_def gd_FindPlayer_def)

theorem bank_money_conserved_witness:
  "legal_run (bank_legal 1) (bank_step 1) [(guild_sample_env 100, pguid 1, Deposit 10)] (bank_sample 500 40) \<and>
   total_money 1 (run_ops (bank_step 1) [(guild_sample_env 100, pguid 1, Deposit 10)] (bank_sample 500 40)) = 580"
proof -
  have l: "legal_run (bank_legal 1) (bank_step 1) [(guild_sample_env 100, pguid 1, Deposit 10)] (bank_sample 500 40)"
    using bank_sample_sel [of 500 40] by simp
  have "total_money 1 (bank_sample 500 40) = 580"
    by (simp add: total_money_def bank_sample_def gld_def guild_sample_player_def Player.defs)
  with bank_money_conserved [OF bank_sample_sel(1,2) l] l show ?thesis by simp
qed

lemma top_uint32: "a \<le> (4294967295 :: uint32)"
proof -
  have "(4294967295 :: uint32) = - 1" by simp
  then show ?thesis by (metis word_n1_ge)
qed

lemma master_may_withdraw:
  "a \<noteq> 0 \<Longrightarrow> ucast a \<le> money \<Longrightarrow> fst (Guild_HandleMemberWithdrawMoney E 1 (pguid 1) a False (bank_sample money purse))"
  using bank_sample_sel [of money purse]
  by (simp add: Guild_HandleMemberWithdrawMoney_def case_prod_unfold Let_def Guild_GetMemberRemaining_def Member_GetBankRemainingValue_def
      Guild_HasRankRight_def Guild_GetRankRights_def Guild_GetRankInfo_def Guild_GetRanksSize_def RankInfo_new_def GR_RIGHT_ALL_def
      GR_RIGHT_WITHDRAW_GOLD_def GR_RIGHT_EMPTY_def Member_new_def GR_GUILDMASTER_def GUILD_WITHDRAW_MONEY_UNLIMITED_def not_less top_uint32)

theorem huge_withdrawal_destroys_money_witness:
  "fst (Guild_HandleMemberWithdrawMoney (guild_sample_env 100) 1 (pguid 1) 3000000000 False (bank_sample 4000000000 2000000000)) \<and>
   uint (gl_bankMoney (gld (snd (Guild_HandleMemberWithdrawMoney (guild_sample_env 100) 1 (pguid 1) 3000000000 False
     (bank_sample 4000000000 2000000000))) 1)) = 1000000000 \<and>
   uint (plr_Money (plr (snd (Guild_HandleMemberWithdrawMoney (guild_sample_env 100) 1 (pguid 1) 3000000000 False
     (bank_sample 4000000000 2000000000))) (pguid 1))) = 705032704"
proof -
  let ?W = "Guild_HandleMemberWithdrawMoney (guild_sample_env 100) 1 (pguid 1) 3000000000 False (bank_sample 4000000000 2000000000)"
  have ok: "fst ?W" by (rule master_may_withdraw) simp_all
  then have "?W = (True, snd ?W)" by (metis prod.collapse)
  from huge_withdrawal_destroys_money [OF bank_sample_sel(1,7) _ this] ok show ?thesis by (simp add: bank_sample_sel)
qed

text \<open>Ann buys a tab, Bob takes 60 copper, pays a repair of 40 and is refused 60 more.\<close>

definition bob_day :: "(guild_env \<times> uint64 \<times> bank_use) list" where
  "bob_day = map (\<lambda>(q, d). (guild_sample_env 100, q, d))
     [(pguid 1, UseBuyTab 1), (pguid 2, UseWithdraw 60 False), (pguid 2, UseWithdraw 40 True), (pguid 2, UseWithdraw 60 False)]"


end
