(* ===== verification/Guild_Errors.thy ===== *)
theory Guild_Errors
  imports Guild_Authority Guild_Limits
begin

text \<open>Commands whose checks do not do what they mean to: rights of missing ranks, the exchange of ranks, a kick that misses
  the player, and declining an invitation.\<close>

section \<open>Rights of a rank that does not exist\<close>

lemma online_HandleRoster: "gd_online (Guild_HandleRoster E g t s) = gd_online s"
  by (simp add: Guild_HandleRoster_def Guild_SendUpdateRoster_def Guild_BroadcastEvent_def Guild_SendGuildRankInfo_def
      Guild_SendOrBroadcast_def Guild_BroadcastPacket_def Let_def split: option.split)

lemma HandleQuery_sel: "gd_guilds (Guild_HandleQuery g p s) = gd_guilds s" "gd_online (Guild_HandleQuery g p s) = gd_online s"
  by (simp_all add: Guild_HandleQuery_def Let_def)

text \<open>The mask of every right has the bit \<open>GR_RIGHT_EMPTY\<close> or not; rights of 0 never give exactly that bit.\<close>

lemma no_rights_pass: "Guild_GetRankRights (plr_Rank player) x = 0 \<Longrightarrow> Guild_HasRankRight player right x"
  by (simp add: Guild_HasRankRight_def GR_RIGHT_EMPTY_def)

text \<open>
  C35 (error).  When the leader removes the lowest rank, its members keep its number.  The rank is not found any more, its rights
  count as 0, and \<open>_HasRankRight\<close>, which compares with the bit of the empty right, then grants them every right.
\<close>

theorem removed_rank_has_every_right:
  assumes "gd_guilds s g = Some x" "Guild_IsLeader (plr s p) x" "length (gl_ranks x) = Suc n" "3 \<le> n" "n < 10"
    "plr_Rank (plr s q) = of_nat n" "s' = Guild_HandleRemoveRank E g p (of_nat n) s"
  shows "plr s' q = plr s q \<and> Guild_HasRankRight (plr s' q) right (gld s' g)"
proof -
  have gx: "gld s g = x" using assms(1) by (simp add: gld_def)
  have sz: "unat (Guild_GetRanksSize x) = Suc n" "unat (of_nat n :: uint8) = n"
    using assms(3,5) by (simp_all add: Guild_GetRanksSize_def unat_of_nat del: of_nat_Suc)
  then have go: "\<not> (Guild_GetRanksSize x \<le> GUILD_RANKS_MIN_COUNT \<or> of_nat n \<ge> Guild_GetRanksSize x)"
    using assms(4) by (simp add: word_le_nat_alt GUILD_RANKS_MIN_COUNT_def)
  have "gd_guilds s' g = Some (x\<lparr>gl_ranks := take n (gl_ranks x) @ drop (Suc n) (gl_ranks x)\<rparr>)" "gd_online s' = gd_online s"
    unfolding assms(7) Guild_HandleRemoveRank_def gx using go assms(1,2) sz(2)
    by (simp_all add: Let_def gld_HandleRoster online_HandleRoster HandleQuery_sel gd_guilds_upd_gld)
  then have s': "gl_ranks (gld s' g) = take n (gl_ranks x)" "plr s' q = plr s q" using assms(3) by (simp_all add: gld_def plr_def)
  then have "Guild_GetRankInfo (of_nat n) (gld s' g) = None"
    using assms(3) by (simp add: Guild_GetRankInfo_def Guild_GetRanksSize_def)
  then show ?thesis using s'(2) assms(6) by (simp add: no_rights_pass Guild_GetRankRights_def)
qed

definition rank_sample :: GuildState where
  "rank_sample = guild_start\<lparr>gd_guilds := (\<lambda>_. None)(1 := Some (Guild_new\<lparr>gl_id := 1, gl_leaderGuid := pguid 1,
       gl_ranks := map (\<lambda>i. RankInfo_new (of_nat i) [] (if i < 2 then GR_RIGHT_ALL else GR_RIGHT_GCHATLISTEN) 0) [0..<4],
       gl_members := [(1, Member_new (guild_sample_env 100) (pguid 1) 0), (2, Member_new (guild_sample_env 100) (pguid 2) 3)]\<rparr>)), gd_store := [1],
     gd_online := [(guild_sample_player 1 ''Ann'' 0)\<lparr>plr_GuildId := 1\<rparr>, (guild_sample_player 2 ''Bob'' 0)\<lparr>plr_GuildId := 1, plr_Rank := 3\<rparr>]\<rparr>"

lemma rank_sample_sel:
  "gd_guilds rank_sample 1 = Some (gld rank_sample 1)"
  "Guild_IsLeader (plr rank_sample (pguid 1)) (gld rank_sample 1)" "\<not> Guild_IsLeader (plr rank_sample (pguid 2)) (gld rank_sample 1)"
  "gl_ranks (gld rank_sample 1) = map (\<lambda>i. RankInfo_new (of_nat i) [] (if i < 2 then GR_RIGHT_ALL else GR_RIGHT_GCHATLISTEN) 0) [0..<4]"
  "plr_Rank (plr rank_sample (pguid 2)) = 3" "GetPlayerGuild (pguid 2) rank_sample = Some 1" "plr_GuildId (plr rank_sample (pguid 2)) = 1"
  by (simp_all add: rank_sample_def gld_def guild_sample_player_def Player.defs sample_player_def Guild_IsLeader_def Guild_GetMember_def
      hmap_find_def plr_def Member_new_def GR_GUILDMASTER_def GetPlayerGuild_def GuildMgr_GetGuildById_def)

lemma rank_sample_rights: "\<not> Guild_HasRankRight (plr rank_sample (pguid 2)) GR_RIGHT_INVITE (gld rank_sample 1)"
  by (simp add: Guild_HasRankRight_def Guild_GetRankRights_def Guild_GetRankInfo_def Guild_GetRanksSize_def rank_sample_sel RankInfo_new_def
      GR_RIGHT_INVITE_def GR_RIGHT_GCHATLISTEN_def GR_RIGHT_EMPTY_def)

theorem removed_rank_has_every_right_witness:
  "\<not> Guild_HasRankRight (plr rank_sample (pguid 2)) GR_RIGHT_INVITE (gld rank_sample 1) \<and>
   Guild_HasRankRight (plr (Guild_HandleRemoveRank (guild_sample_env 100) 1 (pguid 1) (of_nat 3) rank_sample) (pguid 2)) GR_RIGHT_INVITE
     (gld (Guild_HandleRemoveRank (guild_sample_env 100) 1 (pguid 1) (of_nat 3) rank_sample) 1)"
  using removed_rank_has_every_right [OF rank_sample_sel(1,2) _ _ _ _ refl, of 3 "pguid 2" "guild_sample_env 100" GR_RIGHT_INVITE] rank_sample_rights
  by (simp add: rank_sample_sel) metis

section \<open>The exchange of ranks\<close>

text \<open>
  C36 (error).  \<open>HandleSetRankInfo\<close> refuses a player who is not the leader, but \<open>SwitchRank\<close>, which the handler calls next,
  does not ask: any member exchanges two of the ranks 1 to 3, and a low rank gets the rights of the officers.
\<close>

theorem anyone_switches_ranks:
  assumes "GetPlayerGuild p s = Some g" "gd_guilds s g = Some x" "\<not> Guild_IsLeader (plr s p) x" "a \<in> {1, 2, 3}" "b \<in> {1, 2, 3}" "a \<noteq> b"
    "3 < length (gl_ranks x)" "length (gl_ranks x) \<le> 10" "GUID_LOPART guildId = plr_GuildId (plr s p)"
    "s' = GuildRank_apply E p stacks rights b a bankRights guildId money p name s"
  shows "Guild_GetRankRights (ucast b) (gld s' g) = Guild_GetRankRights (ucast a) x \<and>
    Guild_GetRankRights (ucast a) (gld s' g) = Guild_GetRankRights (ucast b) x"
proof -
  have gx: "gld s g = x" using assms(2) by (simp add: gld_def)
  let ?s1 = "SendCommandResult p GUILD_INVITE_S ERR_GUILD_PERMISSIONS [] s"
  have ab: "a \<noteq> 0" "b \<noteq> 0" "a \<le> 3" "b \<le> 3" "unat a < length (gl_ranks x)" "unat b < length (gl_ranks x)" "unat (ucast a :: uint8) = unat a"
    "unat (ucast b :: uint8) = unat b" "unat a \<noteq> unat b" using assms(4-7) by auto
  have "s' = Guild_SwitchRank g a b ?s1"
    using assms(1,3,6,9) ab(1,2)
    by (simp add: assms(10) GuildRank_apply_def with_guild_or_error_def Guild_HandleSetRankInfo_def gx GR_GUILDMASTER_def)
  moreover have "gd_guilds ?s1 g = Some x" "gld ?s1 g = x" using assms(2) gx by (simp_all add: SendCommandResult_def)
  ultimately have "gd_guilds s' g = Some (x\<lparr>gl_ranks := (gl_ranks x)[unat a := gl_ranks x ! unat b, unat b := gl_ranks x ! unat a]\<rparr>)"
    using ab assms(6) by (simp add: Guild_SwitchRank_def Let_def GUILD_RANKS_MIN_COUNT_def gd_guilds_upd_gld not_less not_le)
  then have r: "gl_ranks (gld s' g) = (gl_ranks x)[unat a := gl_ranks x ! unat b, unat b := gl_ranks x ! unat a]" by (simp add: gld_def)
  have in_range: "c < Guild_GetRanksSize y \<longleftrightarrow> unat c < length (gl_ranks x)" if "length (gl_ranks y) = length (gl_ranks x)" for c y
    using that assms(8) by (simp add: Guild_GetRanksSize_def word_less_nat_alt unat_of_nat)
  show ?thesis using ab by (simp add: Guild_GetRankRights_def Guild_GetRankInfo_def in_range r)
qed

theorem anyone_switches_ranks_witness:
  "\<not> Guild_IsLeader (plr rank_sample (pguid 2)) (gld rank_sample 1) \<and>
   Guild_GetRankRights 3 (gld (GuildRank_apply (guild_sample_env 100) (pguid 2) [] 0 3 1 [] 1 0 (pguid 2) [] rank_sample) 1) = GR_RIGHT_ALL"
proof -
  have "GUID_LOPART 1 = plr_GuildId (plr rank_sample (pguid 2))" by (simp add: rank_sample_sel GUID_LOPART_def)
  from anyone_switches_ranks [OF rank_sample_sel(6,1,3) _ _ _ _ _ this refl, of 1 3 "guild_sample_env 100" "[]" 0 "[]" 0 "[]"]
  show ?thesis by (simp add: rank_sample_sel Guild_GetRankRights_def Guild_GetRankInfo_def Guild_GetRanksSize_def RankInfo_new_def)
qed

section \<open>A kick that misses the player\<close>

text \<open>
  The member to kick is looked up by the low part of the GUID of the packet, the player by all of it.  With a GUID that is no
  player's the kick of a member succeeds: member and row are gone, but no player object changes, so that the player, if he is
  online, goes on with the guild and the rank he had.
\<close>

lemma kick_misses_player:
  assumes "gd_guilds s g = Some x" "Guild_HasRankRight (plr s p) GR_RIGHT_REMOVE x" "Guild_GetMember guid x = Some m"
    "gm_rankId m \<noteq> GR_GUILDMASTER" "plr_Rank (plr s p) < gm_rankId m" "gl_leaderGuid x \<noteq> guid" "gd_FindPlayer guid s = None"
    "s' = Guild_HandleRemoveMember E g p guid s"
  shows "recorded s' (GUID_LOPART guid) = None \<and> Guild_GetMember guid (gld s' g) = None \<and> gd_online s' = gd_online s"
proof -
  have gx: "gld s g = x" using assms(1) by (simp add: gld_def)
  let ?d = "Guild_DeleteMember E g guid False True s"
  have d: "?d = Guild_EraseMember E g guid False True s" using assms(6) by (simp add: Guild_DeleteMember_eq gx)
  obtain y where y: "gd_guilds ?d g = Some y" "gl_members y = hmap_erase (GUID_LOPART guid) (gl_members x)"
    using EraseMember_guilds [OF assms(1)] d by metis
  have on: "gd_online ?d = gd_online s" unfolding d Guild_EraseMember_eq Let_def using assms(7) by (simp add: online_HandleRoster)
  have rows: "vw_rows (gsview ?d) = (vw_rows (gsview s))(GUID_LOPART guid := None)" unfolding d by (rule EraseMember_rows)
  define s2 where "s2 = Guild_LogEvent E g GUILD_EVENT_LOG_UNINVITE_PLAYER (GUID_LOPART p) (GUID_LOPART guid) 0 ?d"
  have s2: "gsview s2 = gsview ?d" "gd_online s2 = gd_online ?d" "gl_members (gld s2 g) = gl_members y"
    using y(1) by (simp_all add: s2_def guild_quiet) (simp_all add: Guild_LogEvent_def Let_def case_prod_unfold gld_def gd_guilds_upd_gld)
  have s': "s' = gd_emit [PlayerCall p (SetPlayerReputation GUILD_REPUTATION (- 1))] (Guild_BroadcastEvent g GE_REMOVED 0 [gm_name m, plr_Name (plr s p)] s2)"
    using assms(2-5) by (simp add: assms(8) Guild_HandleRemoveMember_def gx Let_def s2_def not_le)
  have "gsview s' = gsview ?d" unfolding s' by (simp add: guild_quiet s2(1))
  then have "recorded s' (GUID_LOPART guid) = None" using rows by (metis fun_upd_same gsview_sel(5) recorded_def)
  moreover have "gl_members (gld s' g) = gl_members y" "gd_online s' = gd_online s"
    using s2(2,3) on by (simp_all add: s' Guild_BroadcastEvent_def Guild_BroadcastPacket_def)
  ultimately show ?thesis by (simp add: Guild_GetMember_def y(2) hmap_find_erase)
qed

section \<open>Declining\<close>

text \<open>
  C34 (error).  \<open>HandleGuildDeclineOpcode\<close> clears not only the invitation but also the guild of the player, and does not ask whether he is in
  one: a member who sends the message belongs to no guild any more, while the guild and the table still list him.
\<close>

theorem decline_splits_membership:
  assumes "views_ok (gsview s)" "is_online p s" "plr_GuildId (plr s p) = g" "g \<noteq> 0" "bb_read_skip 8 d = Inr d'"
    "s' = HandleGuildDeclineOpcode p d s"
  shows "plr_GuildId (plr s' p) = 0 \<and> (\<exists>m. Guild_GetMember p (gld s' g) = Some m) \<and> recorded s' (GUID_LOPART p) \<noteq> None \<and> \<not> views_ok (gsview s')"
proof -
  obtain r where r: "gd_FindPlayer p s = Some r" "plr s p = r" using online_player [OF assms(1,2)] by metis
  then have found: "find (\<lambda>q. plr_GUID q = p) (gd_online s) = Some r" by (auto simp: gd_FindPlayer_def split: option.splits if_splits)
  have s': "s' = upd_plr p (\<lambda>q. q\<lparr>plr_GuildIdInvited := 0, plr_GuildId := 0\<rparr>) s"
    using assms(5) by (simp add: assms(6) HandleGuildDeclineOpcode_def gd_parse_def SetInGuild_def SetGuildIdInvited_def upd_plr_def comp_def
        if_distrib cong: if_cong)
  have plr': "plr s' p = r\<lparr>plr_GuildIdInvited := 0, plr_GuildId := 0\<rparr>"
    using found by (simp add: s' plr_def upd_plr_def find_map_upd)
  obtain k where k: "p = pguid k" "v_member (gsview s) g k" using online_member [OF assms(1,2,3,4)] by metis
  then have "hmap_find (gl_members (gld s g)) k \<noteq> None" using guild_object [OF assms(1), of g] by (metis gsview_sel(2) v_member_def)
  then have m: "\<exists>m. Guild_GetMember p (gld s' g) = Some m" by (auto simp: s' Guild_GetMember_def k(1))
  obtain rr ns where "vw_rows (gsview s) k = Some (g, rr, ns)" using row_of_member [OF _ _ k(2)] assms(1) unfolding views_ok_def by blast
  then have row: "recorded s' k \<noteq> None" by (simp add: recorded_def s')
  have "\<not> views_ok (gsview s')"
  proof
    assume bad: "views_ok (gsview s')"
    have "map plr_GUID (gd_online s') = map plr_GUID (gd_online s)" by (simp add: s' upd_plr_def comp_def if_distrib cong: if_cong)
    then have "is_online p s'" using assms(2) unfolding is_online_def by (metis list.set_map)
    then obtain j where "p = pguid j" "agrees (vw_rows (gsview s') j) (plr_GuildId (plr s' p), plr_Rank (plr s' p))"
      using online_player [OF bad] by metis
    then have "agrees (recorded s' k) (0, plr_Rank (plr s' p))" using plr' k(1) by (simp add: recorded_def)
    then have "vw_rows (gsview s') k = None" using no_guild_no_row [OF bad, of k] by (simp add: recorded_def)
    with row show False by (simp add: recorded_def)
  qed
  with plr' m row k(1) show ?thesis by simp
qed

theorem decline_splits_membership_witness:
  "views_ok (gsview sample_state) \<and> plr_GuildId (plr sample_state (pguid 1)) = 1 \<and>
   plr_GuildId (plr (HandleGuildDeclineOpcode (pguid 1) (bytes_packet (replicate 8 0)) sample_state) (pguid 1)) = 0 \<and>
   recorded (HandleGuildDeclineOpcode (pguid 1) (bytes_packet (replicate 8 0)) sample_state) 1 \<noteq> None"
proof -
  have "\<exists>d'. bb_read_skip 8 (bytes_packet (replicate 8 0)) = Inr d'" by (simp add: bb_read_skip_def bytes_packet_def WorldPacket_new_def bb_size_def add64_def)
  then obtain d' where "bb_read_skip 8 (bytes_packet (replicate 8 0)) = Inr d'" ..
  from decline_splits_membership [OF sample_ok sample_ann _ this refl] show ?thesis by (simp add: sample_ok sample_ann)
qed

end
