(* ===== verification/Guild_Load.thy ===== *)
theory Guild_Load
  imports Guild_Membership
begin

text \<open>
  Loading the guilds at the start of the server (\<open>GuildMgr::LoadGuilds\<close> and the \<open>LoadX\<close> methods of \<^verbatim>\<open>Guild.cpp\<close>).  \<open>guild_db\<close> has the rows
  of the tables, with the columns that the queries select; the deletions that precede the queries change it, and the queries sort.  Where
  a query leaves an order open, the rows come in the order of the table.
\<close>

section \<open>Rows\<close>

record guild_row =
  dg_guildid :: uint32
  dg_name :: string
  dg_leaderguid :: uint32
  dg_emblem :: "uint8 list"                                       \<comment> \<open>five columns, read as bytes\<close>
  dg_info :: string
  dg_motd :: string
  dg_createdate :: uint32
  dg_BankMoney :: uint64
  dg_xp :: uint64
  dg_level :: uint32
  dg_today_xp :: uint64
  dg_xp_cap :: uint64

record rank_row =
  dr_guildid :: uint32
  dr_rid :: uint8
  dr_rname :: string
  dr_rights :: uint32
  dr_BankMoneyPerDay :: uint32

text \<open>The columns of the table \<open>characters\<close> are absent when there is no such character: they read as 0 and as the empty string.\<close>

record guild_member_row =
  dm_guildid :: uint32
  dm_guid :: uint32
  dm_rank :: uint8
  dm_pnote :: string
  dm_offnote :: string
  dm_money :: RemainingValue
  dm_tabs :: "RemainingValue list"                                \<comment> \<open>\<open>GUILD_BANK_MAX_TABS\<close> pairs of columns\<close>
  dm_char :: "(string \<times> uint8 \<times> uint8 \<times> uint16 \<times> uint32 \<times> uint32) option"   \<comment> \<open>name, level, class, zone, account, logout time\<close>
  dm_professions :: "Profession list"

record right_row =
  db_guildid :: uint32
  db_TabId :: uint8
  db_rid :: uint8
  db_gbright :: uint8
  db_SlotPerDay :: uint32

record tab_row =
  dt_guildid :: uint32
  dt_TabId :: uint8
  dt_TabName :: string
  dt_TabIcon :: string
  dt_TabText :: string

text \<open>\<open>di_known\<close>: there is a prototype for the item; \<open>di_item\<close>: what \<open>Item::LoadFromDB\<close> makes of the row.\<close>

record item_row =
  di_guildid :: uint32
  di_TabId :: uint8
  di_SlotId :: uint8
  di_known :: bool
  di_item :: "BankItem option"

record guild_db =
  t_guild :: "guild_row list"
  t_guild_news :: "(uint32 \<times> GuildNews) list"
  t_guild_rank :: "rank_row list"
  t_guild_member :: "guild_member_row list"
  t_guild_bank_right :: "right_row list"
  t_guild_eventlog :: "(uint32 \<times> EventLogEntry) list"
  t_guild_bank_eventlog :: "(uint32 \<times> BankEventLogEntry) list"
  t_guild_bank_tab :: "tab_row list"
  t_guild_bank_item :: "item_row list"

section \<open>Loading the parts\<close>

definition EmblemInfo_LoadFromDB :: "uint8 list \<Rightarrow> EmblemInfo" where
  "EmblemInfo_LoadFromDB bs =
     \<lparr>em_style = ucast (bs ! 0), em_color = ucast (bs ! 1), em_borderStyle = ucast (bs ! 2), em_borderColor = ucast (bs ! 3),
      em_backgroundColor = ucast (bs ! 4)\<rparr>"

definition Guild_LoadFromDB :: "guild_env \<Rightarrow> guild_row \<Rightarrow> uint32 \<Rightarrow> Guild" where
  "Guild_LoadFromDB E row tabCount =
     (let tabs0 = (ucast tabCount :: uint8);
          purchasedTabs = (if tabs0 > GUILD_BANK_MAX_TABS then GUILD_BANK_MAX_TABS else tabs0);
          level0 = (ucast (dg_level row) :: uint8);
          x = Guild_new\<lparr>gl_id := dg_guildid row, gl_name := dg_name row,
                gl_leaderGuid := MAKE_NEW_GUID (ucast (dg_leaderguid row)) 0 HIGHGUID_PLAYER,
                gl_emblemInfo := EmblemInfo_LoadFromDB (dg_emblem row), gl_info := dg_info row, gl_motd := dg_motd row,
                gl_createdDate := ucast (dg_createdate row), gl_bankMoney := dg_BankMoney row,
                gl_bankTabs := map (BankTab_new \<circ> of_nat) [0..<unat purchasedTabs],
                gl_xp := dg_xp row, gl_level := (if level0 = 0 then 1 else level0), gl_today_xp := dg_today_xp row,
                gl_xp_cap := dg_xp_cap row\<rparr>;
          y = (if gl_xp_cap x = 0 then Guild_GenerateXPCap E x else x)
      in Guild_CreateLogHolders E (y\<lparr>gl_nextLevelXP := gn_XPForGuildLevel E (gl_level y)\<rparr>))"

definition Guild_LoadGuildNewsFromDB :: "GuildNews \<Rightarrow> Guild \<Rightarrow> Guild" where
  "Guild_LoadGuildNewsFromDB news x = x\<lparr>gl_news := gl_news x @ [news]\<rparr>"

definition Guild_LoadRankFromDB :: "rank_row \<Rightarrow> Guild \<Rightarrow> Guild" where
  "Guild_LoadRankFromDB row x =
     x\<lparr>gl_ranks := gl_ranks x @ [RankInfo_LoadFromDB (dr_rid row) (dr_rname row) (dr_rights row) (dr_BankMoneyPerDay row)]\<rparr>"

definition Member_LoadFromDB :: "guild_env \<Rightarrow> guild_member_row \<Rightarrow> GuildMember \<Rightarrow> GuildMember option" where
  "Member_LoadFromDB E row m0 =
     (let (name, level, cls, zone, account, logout) = (case dm_char row of None \<Rightarrow> ([], 0, 0, 0, 0, 0) | Some c \<Rightarrow> c);
          m = (Member_SetStatsFrom name level cls (ucast zone) account m0)
                \<lparr>gm_publicNote := dm_pnote row, gm_officerNote := dm_offnote row, gm_bankRemaining := dm_tabs row @ [dm_money row],
                 gm_logoutTime := ucast logout, gm_professions := dm_professions row\<rparr>
      in if \<not> Member_CheckStats m then None
         else Some (if gm_zoneId m = 0 then m\<lparr>gm_zoneId := gn_ZoneIdFromDB E (gm_guid m)\<rparr> else m))"

definition Guild_LoadMemberFromDB :: "guild_env \<Rightarrow> guild_member_row \<Rightarrow> Guild \<Rightarrow> Guild \<times> guild_event list" where
  "Guild_LoadMemberFromDB E row x =
     (let lowguid = dm_guid row in
      case Member_LoadFromDB E row (Member_new E (MAKE_NEW_GUID (ucast lowguid) 0 HIGHGUID_PLAYER) (dm_rank row)) of
        None \<Rightarrow> (x, [MemberSql (CHAR_DEL_GUILD_MEMBER lowguid)])
      | Some m \<Rightarrow> (x\<lparr>gl_members := hmap_put (gn_place E) lowguid m (gl_members x)\<rparr>, []))"

definition Guild_LoadBankRightFromDB :: "right_row \<Rightarrow> Guild \<Rightarrow> Guild" where
  "Guild_LoadBankRightFromDB row x =
     fst (Guild_SetRankBankTabRightsAndSlots (db_rid row) (db_TabId row) \<lparr>rs_rights = db_gbright row, rs_slots = db_SlotPerDay row\<rparr> False x)"

text \<open>Timestamps are read as 32-bit numbers.\<close>

definition Guild_LoadEventLogFromDB :: "EventLogEntry \<Rightarrow> Guild \<Rightarrow> Guild" where
  "Guild_LoadEventLogFromDB row x =
     (if LogHolder_CanInsert (gl_eventLog x)
      then x\<lparr>gl_eventLog := LogHolder_LoadEvent el_guid (row\<lparr>el_timestamp := ucast (ucast (el_timestamp row) :: uint32)\<rparr>) (gl_eventLog x)\<rparr>
      else x)"

definition Guild_LoadBankEventLogFromDB :: "BankEventLogEntry \<Rightarrow> Guild \<Rightarrow> Guild" where
  "Guild_LoadBankEventLogFromDB row x =
     (let dbTabId = be_bankTabId row; isMoneyTab = (dbTabId = GUILD_BANK_MONEY_LOGS_TAB) in
      if dbTabId < Guild_GetPurchasedTabsSize x \<or> isMoneyTab then
        let tabId = (if isMoneyTab then GUILD_BANK_MAX_TABS else dbTabId); log = gl_bankEventLog x ! unat tabId in
        if LogHolder_CanInsert log then
          if BankEventLogEntry_IsMoneyEvent (be_eventType row) \<noteq> isMoneyTab then x
          else x\<lparr>gl_bankEventLog := (gl_bankEventLog x)[unat tabId :=
                 LogHolder_LoadEvent be_guid (row\<lparr>be_timestamp := ucast (ucast (be_timestamp row) :: uint32)\<rparr>) log]\<rparr>
        else x
      else x)"

definition Guild_LoadBankTabFromDB :: "tab_row \<Rightarrow> Guild \<Rightarrow> Guild" where
  "Guild_LoadBankTabFromDB row x =
     (let tabId = unat (dt_TabId row) in
      if dt_TabId row \<ge> Guild_GetPurchasedTabsSize x then x
      else x\<lparr>gl_bankTabs := (gl_bankTabs x)[tabId :=
             (gl_bankTabs x ! tabId)\<lparr>bt_name := dt_TabName row, bt_icon := dt_TabIcon row, bt_text := dt_TabText row\<rparr>]\<rparr>)"

text \<open>When the item cannot be loaded the statement that is executed deletes the row of the slot; the row is given back.\<close>

definition BankTab_LoadItemFromDB :: "item_row \<Rightarrow> BankTab \<Rightarrow> BankTab \<times> bool" where
  "BankTab_LoadItemFromDB row t =
     (if di_SlotId row \<ge> GUILD_BANK_MAX_SLOTS then (t, False)
      else if \<not> di_known row then (t, False)
      else
        (case di_item row of
           None \<Rightarrow> (t, True)
         | Some item \<Rightarrow> (t\<lparr>bt_items := (bt_items t)[unat (di_SlotId row) := Some item]\<rparr>, False)))"

definition Guild_LoadBankItemFromDB :: "item_row \<Rightarrow> Guild \<Rightarrow> Guild \<times> bool" where
  "Guild_LoadBankItemFromDB row x =
     (let tabId = unat (di_TabId row) in
      if di_TabId row \<ge> Guild_GetPurchasedTabsSize x then (x, False)
      else let (t, broken) = BankTab_LoadItemFromDB row (gl_bankTabs x ! tabId) in (x\<lparr>gl_bankTabs := (gl_bankTabs x)[tabId := t]\<rparr>, broken))"

section \<open>Validation\<close>

definition ranks_broken :: "Guild \<Rightarrow> bool" where
  "ranks_broken x \<longleftrightarrow>
     Guild_GetRanksSize x < GUILD_RANKS_MIN_COUNT \<or> Guild_GetRanksSize x > GUILD_RANKS_MAX_COUNT \<or>
     list_ex (\<lambda>i. rk_rankId (gl_ranks x ! i) \<noteq> of_nat i) [0..<unat (Guild_GetRanksSize x)]"

definition Guild_ValidateRanks :: "guild_env \<Rightarrow> uint8 \<Rightarrow> Guild \<Rightarrow> Guild \<times> guild_event list" where
  "Guild_ValidateRanks E loc x = (if ranks_broken x then Guild_CreateDefaultGuildRanks E loc (x\<lparr>gl_ranks := []\<rparr>) else (x, []))"

text \<open>The loops over the members that change the ranks of some; the map does not change while they run.\<close>

definition change_ranks :: "uint32 \<Rightarrow> (GuildMember \<Rightarrow> bool) \<Rightarrow> uint8 \<Rightarrow> GuildState \<Rightarrow> GuildState" where
  "change_ranks g P r s = fold (\<lambda>m s. if P m then Member_ChangeRank g m r s else s) (Guild_Members (gld s g)) s"

text \<open>
  The leader is repaired: when he is not a member another one is promoted; a guild without members is disbanded.  \<open>m_leaderGuid\<close> itself is
  passed to \<open>DeleteMember\<close>, by reference.
\<close>

definition Guild_ValidateLeader :: "guild_env \<Rightarrow> uint32 \<Rightarrow> GuildState \<Rightarrow> bool \<times> GuildState" where
  "Guild_ValidateLeader E g s =
     (case Guild_GetMember (gl_leaderGuid (gld s g)) (gld s g) of
        None \<Rightarrow>
          let s1 = Guild_DeleteMemberRef E g LeaderGuidRef False False s
          in if gl_members (gld s1 g) = [] then (False, Guild_Disband E g s1) else (True, s1)
      | Some m \<Rightarrow> (True, if gm_rankId m \<noteq> GR_GUILDMASTER then Guild_SetLeaderGUID g m s else s))"

definition Guild_Validate :: "guild_env \<Rightarrow> uint8 \<Rightarrow> uint32 \<Rightarrow> GuildState \<Rightarrow> bool \<times> GuildState" where
  "Guild_Validate E loc g s =
     (let s1 = gld_do g (Guild_ValidateRanks E loc) s;
          s2 = change_ranks g (\<lambda>m. gm_rankId m > Guild_GetRanksSize (gld s1 g)) (Guild_GetLowestRankId (gld s1 g)) s1;
          (ok, s3) = Guild_ValidateLeader E g s2
      in if \<not> ok then (False, s3)
         else
           let leader = gl_leaderGuid (gld s3 g);
               s4 = (if gn_AllowMultipleGuildMaster E then s3
                     else change_ranks g (\<lambda>m. gm_rankId m = GR_GUILDMASTER \<and> gm_guid m \<noteq> leader) GR_OFFICER s3)
           in (True, upd_gld g Guild_UpdateAccountsNumber s4))"

section \<open>LoadGuilds\<close>

definition tab_count :: "guild_db \<Rightarrow> uint32 \<Rightarrow> uint32" where
  "tab_count db g = of_nat (length (filter (\<lambda>t. dt_guildid t = g) (t_guild_bank_tab db)))"

text \<open>Only the first row of the news is loaded: the newest.\<close>

definition newest_news :: "guild_db \<Rightarrow> uint32 \<Rightarrow> GuildNews option" where
  "newest_news db g =
     (case sort_key (\<lambda>n. - int (unat (gnw_timestamp n))) (map snd (filter (\<lambda>(h, _). h = g) (t_guild_news db))) of
        [] \<Rightarrow> None | n # _ \<Rightarrow> Some n)"

definition load_guild :: "guild_env \<Rightarrow> guild_db \<Rightarrow> guild_row \<Rightarrow> GuildState \<Rightarrow> GuildState" where
  "load_guild E db row s =
     (let x = Guild_LoadFromDB E row (tab_count db (dg_guildid row));
          y = (case newest_news db (gl_id x) of None \<Rightarrow> x | Some n \<Rightarrow> Guild_LoadGuildNewsFromDB n x)
      in GuildMgr_AddGuild E (gl_id y) (s\<lparr>gd_guilds := (gd_guilds s)(gl_id y := Some y)\<rparr>))"

text \<open>A row is loaded into the guild that it names, if it is registered.\<close>

definition load_guild_row :: "('r \<Rightarrow> uint32) \<Rightarrow> ('r \<Rightarrow> Guild \<Rightarrow> Guild \<times> guild_event list) \<Rightarrow> 'r \<Rightarrow> GuildState \<Rightarrow> GuildState" where
  "load_guild_row gid f row s = (case GuildMgr_GetGuildById (gid row) s of None \<Rightarrow> s | Some g \<Rightarrow> gld_do g (f row) s)"

definition load_guild_rows :: "('r \<Rightarrow> uint32) \<Rightarrow> ('r \<Rightarrow> Guild \<Rightarrow> Guild \<times> guild_event list) \<Rightarrow> 'r list \<Rightarrow> GuildState \<Rightarrow> GuildState" where
  "load_guild_rows gid f rows s = fold (load_guild_row gid f) rows s"

text \<open>The deletions: rows of guilds that do not exist, and of logs whose number exceeds the limit.\<close>

definition clean_guild_db :: "guild_env \<Rightarrow> guild_db \<Rightarrow> guild_db" where
  "clean_guild_db E db =
     (let known = (\<lambda>g. list_ex (\<lambda>r. dg_guildid r = g) (t_guild db)) in
      db\<lparr>t_guild_rank := filter (known \<circ> dr_guildid) (t_guild_rank db),
         t_guild_member := filter (known \<circ> dm_guildid) (t_guild_member db),
         t_guild_bank_right := filter (known \<circ> db_guildid) (t_guild_bank_right db),
         t_guild_eventlog := filter (\<lambda>(_, e). \<not> el_guid e > gn_CONFIG_GUILD_EVENT_LOG_COUNT E) (t_guild_eventlog db),
         t_guild_bank_eventlog := filter (\<lambda>(_, e). \<not> be_guid e > gn_CONFIG_GUILD_BANK_EVENT_LOG_COUNT E) (t_guild_bank_eventlog db),
         t_guild_bank_tab := filter (known \<circ> dt_guildid) (t_guild_bank_tab db),
         t_guild_bank_item := filter (known \<circ> di_guildid) (t_guild_bank_item db)\<rparr>)"

definition by_two :: "('r \<Rightarrow> int) \<Rightarrow> ('r \<Rightarrow> int) \<Rightarrow> 'r list \<Rightarrow> 'r list" where
  "by_two f h rows = sort_key f (sort_key h rows)"

definition load_item_rows :: "item_row list \<Rightarrow> GuildState \<Rightarrow> item_row list \<times> GuildState" where
  "load_item_rows rows s =
     fold (\<lambda>row (keep, s).
       case GuildMgr_GetGuildById (di_guildid row) s of
         None \<Rightarrow> (keep @ [row], s)
       | Some g \<Rightarrow>
           let (x, broken) = Guild_LoadBankItemFromDB row (gld s g)
           in (if broken then keep else keep @ [row], upd_gld g (\<lambda>_. x) s)) rows ([], s)"

text \<open>
  The last step.  A guild that fails is disbanded inside \<open>Validate\<close>, which already erases it from \<open>GuildStore\<close> while the loop iterates
  over that map, and then once more; the objects are deleted.  The model goes on with the next key.
\<close>

definition validate_all :: "guild_env \<Rightarrow> uint8 \<Rightarrow> GuildState \<Rightarrow> GuildState" where
  "validate_all E loc s0 =
     (let (rm, s1) = fold (\<lambda>g (rm, s). let (ok, s') = Guild_Validate E loc g s in (if ok then rm else rm @ [g], s')) (gd_store s0) ([], s0)
      in fold (\<lambda>g s. (GuildMgr_RemoveGuild g s)\<lparr>gd_guilds := (gd_guilds s)(g := None)\<rparr>) rm s1)"

definition GuildMgr_LoadGuilds :: "guild_env \<Rightarrow> uint8 \<Rightarrow> guild_db \<Rightarrow> GuildState \<Rightarrow> guild_db \<times> GuildState" where
  "GuildMgr_LoadGuilds E loc db0 s0 =
     (if t_guild db0 = [] then (db0, s0)
      else
        let s1 = fold (load_guild E db0) (sort_key (uint \<circ> dg_guildid) (t_guild db0)) s0;
            db = clean_guild_db E db0;
            s2 = load_guild_rows dr_guildid (\<lambda>r x. (Guild_LoadRankFromDB r x, [])) (by_two (uint \<circ> dr_guildid) (uint \<circ> dr_rid) (t_guild_rank db)) s1;
            s3 = load_guild_rows dm_guildid (Guild_LoadMemberFromDB E) (sort_key (uint \<circ> dm_guildid) (t_guild_member db)) s2;
            s4 = load_guild_rows db_guildid (\<lambda>r x. (Guild_LoadBankRightFromDB r x, []))
                   (by_two (uint \<circ> db_guildid) (uint \<circ> db_TabId) (t_guild_bank_right db)) s3;
            s5 = load_guild_rows fst (\<lambda>r x. (Guild_LoadEventLogFromDB (snd r) x, []))
                   (by_two (\<lambda>r. - uint (el_timestamp (snd r))) (\<lambda>r. - uint (el_guid (snd r))) (t_guild_eventlog db)) s4;
            s6 = load_guild_rows fst (\<lambda>r x. (Guild_LoadBankEventLogFromDB (snd r) x, []))
                   (by_two (\<lambda>r. - uint (be_timestamp (snd r))) (\<lambda>r. - uint (be_guid (snd r))) (t_guild_bank_eventlog db)) s5;
            s7 = load_guild_rows dt_guildid (\<lambda>r x. (Guild_LoadBankTabFromDB r x, []))
                   (by_two (uint \<circ> dt_guildid) (uint \<circ> dt_TabId) (t_guild_bank_tab db)) s6;
            (items, s8) = load_item_rows (t_guild_bank_item db) s7
        in (db\<lparr>t_guild_bank_item := items\<rparr>, validate_all E loc s8))"

end
