(* ===== verification/Guild_Log.thy ===== *)
theory Guild_Log
  imports Guild_Load Guild_Sample
begin

text \<open>
  The event logs of guilds: a holder keeps the newest entries and numbers them in a ring, the table has the same entries, and
  loading the table restores the holder.
\<close>

section \<open>The ring\<close>

text \<open>\<open>all\<close> has every event that was ever logged; the event number \<open>k\<close> has the number \<open>k mod n\<close> in the table.\<close>

definition log_ring :: "('e \<Rightarrow> uint32) \<Rightarrow> 'e list \<Rightarrow> 'e LogHolder \<Rightarrow> bool" where
  "log_ring GetGUID all h \<longleftrightarrow>
     (let n = unat (lh_maxRecords h) in
      0 < n \<and> (\<forall>k < length all. GetGUID (all ! k) = of_nat (k mod n)) \<and> lh_log h = drop (length all - n) all \<and>
      lh_nextGUID h = (if all = [] then GUILD_EVENT_LOG_GUID_UNDEFINED else of_nat ((length all - 1) mod n)))"

lemma log_ringD:
  assumes "log_ring G all h"
  shows "0 < unat (lh_maxRecords h)" "k < length all \<Longrightarrow> G (all ! k) = of_nat (k mod unat (lh_maxRecords h))"
    "lh_log h = drop (length all - unat (lh_maxRecords h)) all"
    "lh_nextGUID h = (if all = [] then GUILD_EVENT_LOG_GUID_UNDEFINED else of_nat ((length all - 1) mod unat (lh_maxRecords h)))"
  using assms by (simp_all add: log_ring_def Let_def)

lemma log_ring_new: "n \<noteq> 0 \<Longrightarrow> log_ring G [] (LogHolder_new n)"
  by (simp add: log_ring_def LogHolder_new_def unat_gt_0)

lemma small_uint32: "j < unat (n :: uint32) \<Longrightarrow> unat (of_nat j :: uint32) = j"
  using unsigned_less [of n, where ?'a = nat] by (simp add: unat_of_nat)

lemma next_in_ring:
  assumes "0 < unat (n :: uint32)" "0 < L"
  shows "(of_nat ((L - 1) mod unat n) + 1) mod n = of_nat (L mod unat n)"
    and "(of_nat ((L - 1) mod unat n) :: uint32) \<noteq> GUILD_EVENT_LOG_GUID_UNDEFINED"
proof -
  let ?j = "(L - 1) mod unat n"
  have j: "?j < unat n" using assms(1) by simp
  have bound: "unat n < 2 ^ 32" using unsigned_less [of n, where ?'a = nat] by simp
  have "unat (of_nat ?j :: uint32) = ?j" by (rule small_uint32 [OF j])
  moreover have "unat (GUILD_EVENT_LOG_GUID_UNDEFINED :: uint32) = 2 ^ 32 - 1" by (simp add: GUILD_EVENT_LOG_GUID_UNDEFINED_def)
  ultimately show "(of_nat ?j :: uint32) \<noteq> GUILD_EVENT_LOG_GUID_UNDEFINED" using j bound by (intro notI) simp
  have "of_nat ?j + 1 = (of_nat (Suc ?j) :: uint32)" by simp
  moreover have "unat (of_nat (Suc ?j) :: uint32) = Suc ?j" using j bound by (simp add: unat_of_nat del: of_nat_Suc)
  ultimately have "unat ((of_nat ?j + 1) mod n) = Suc ?j mod unat n" by (simp add: unat_mod_distrib del: of_nat_Suc)
  also have "\<dots> = L mod unat n" using assms(2) by (simp add: mod_Suc_eq)
  also have "\<dots> = unat (of_nat (L mod unat n) :: uint32)" by (rule small_uint32 [where n = n, symmetric]) (use assms(1) in simp)
  finally show "(of_nat ?j + 1) mod n = (of_nat (L mod unat n) :: uint32)" by (simp add: word_unat_eq_iff)
qed

lemma next_number:
  assumes "log_ring G all h"
  shows "LogHolder_GetNextGUID h =
    (of_nat (length all mod unat (lh_maxRecords h)), h\<lparr>lh_nextGUID := of_nat (length all mod unat (lh_maxRecords h))\<rparr>)"
  using log_ringD [OF assms] next_in_ring [of "lh_maxRecords h" "length all"]
  by (cases "all = []") (simp_all add: LogHolder_GetNextGUID_def Let_def)

lemma drop_snoc: "drop (Suc (length xs) - n) (xs @ [x]) = (if n \<le> length xs then tl (drop (length xs - n) xs) else drop (length xs - n) xs) @ [x]"
  if "0 < n"
  using that by (auto simp: tl_drop Suc_diff_le drop_Suc)

lemma log_ring_add:
  assumes "log_ring G all h" "LogHolder_GetNextGUID h = (guid, h')" "G e = guid"
  shows "log_ring G (all @ [e]) (LogHolder_AddEvent e h')"
proof -
  let ?n = "unat (lh_maxRecords h)"
  note d = log_ringD [OF assms(1)]
  have h': "h' = h\<lparr>lh_nextGUID := guid\<rparr>" "guid = of_nat (length all mod ?n)" using next_number [OF assms(1)] assms(2) by simp_all
  have len: "?n \<le> length (lh_log h) \<longleftrightarrow> ?n \<le> length all" using d(1) by (auto simp: d(3))
  have "lh_log (LogHolder_AddEvent e h') = drop (length (all @ [e]) - ?n) (all @ [e])"
    using len d(3) drop_snoc [OF d(1), of all e] by (simp add: LogHolder_AddEvent_def h' del: drop_append)
  with d h' assms(3) show ?thesis
    by (auto simp: log_ring_def Let_def LogHolder_AddEvent_def nth_append less_Suc_eq)
qed

text \<open>The entry whose number is used again is the oldest one, and it is there only when the log is full.\<close>

lemma ring_mod_neq: "k < (L :: nat) \<Longrightarrow> L - k < n \<Longrightarrow> k mod n \<noteq> L mod n"
  by (metis dvd_imp_le leD less_imp_le_nat mod_eq_dvd_iff_nat zero_less_diff)

lemma ring_reuses_oldest:
  assumes "log_ring G all h" "n = unat (lh_maxRecords h)"
  shows "filter (\<lambda>e. G e \<noteq> of_nat (length all mod n)) (lh_log h) = (if length (lh_log h) \<ge> n then tl (lh_log h) else lh_log h)"
proof -
  note d = log_ringD [OF assms(1), folded assms(2)]
  let ?L = "length all"
  have other: "G (all ! k) \<noteq> of_nat (?L mod n)" if "k < ?L" "?L - k < n" for k
  proof -
    have "unat (of_nat (k mod n) :: uint32) = k mod n" "unat (of_nat (?L mod n) :: uint32) = ?L mod n"
      using d(1) assms(2) by (metis mod_less_divisor small_uint32)+
    then show ?thesis using d(2) [OF that(1)] ring_mod_neq [OF that] by metis
  qed
  have keep: "filter (\<lambda>e. G e \<noteq> of_nat (?L mod n)) (drop i all) = drop i all" if "?L - i < n" for i
  proof (rule filter_True, intro ballI)
    fix e assume "e \<in> set (drop i all)"
    then obtain j where "j < ?L - i" "e = all ! (i + j)" by (auto simp: in_set_conv_nth)
    with other [of "i + j"] that show "G e \<noteq> of_nat (?L mod n)" by simp
  qed
  show ?thesis
  proof (cases "n \<le> ?L")
    case True
    then have "drop (?L - n) all = all ! (?L - n) # drop (Suc (?L - n)) all" using d(1) by (simp add: Cons_nth_drop_Suc)
    moreover have "G (all ! (?L - n)) = of_nat (?L mod n)" using d(1,2) True by (simp add: mod_if [of "?L"] le_mod_geq)
    ultimately show ?thesis using True keep [of "Suc (?L - n)"] d(1) by (simp add: d(3))
  next
    case False
    then show ?thesis using keep [of 0] by (simp add: d(3))
  qed
qed

lemma ring_numbers_defined:
  assumes "log_ring G all h" "e \<in> set (lh_log h)"
  shows "G e < lh_maxRecords h" "G e \<noteq> GUILD_EVENT_LOG_GUID_UNDEFINED"
proof -
  let ?n = "unat (lh_maxRecords h)"
  note d = log_ringD [OF assms(1)]
  obtain k where "k < length all" "e = all ! k" using assms(2) unfolding d(3) by (metis in_set_dropD in_set_conv_nth)
  then have "G e = of_nat (k mod ?n)" using d(2) by simp
  moreover have "unat (of_nat (k mod ?n) :: uint32) = k mod ?n" by (rule small_uint32 [where n = "lh_maxRecords h"]) (use d(1) in simp)
  ultimately show less: "G e < lh_maxRecords h" using d(1) by (simp add: word_less_nat_alt)
  have "GUILD_EVENT_LOG_GUID_UNDEFINED = (- 1 :: uint32)" by (simp add: GUILD_EVENT_LOG_GUID_UNDEFINED_def)
  with less show "G e \<noteq> GUILD_EVENT_LOG_GUID_UNDEFINED" by (metis leD word_n1_ge)
qed

lemma ring_next_last: "lh_nextGUID h = (if lh_log h = [] then GUILD_EVENT_LOG_GUID_UNDEFINED else G (last (lh_log h)))"
  if "log_ring G all h"
proof (cases "all = []")
  case False
  note d = log_ringD [OF that]
  have "length all - unat (lh_maxRecords h) < length all" using False d(1) by simp
  then have "lh_log h \<noteq> []" "last (lh_log h) = last all" by (auto simp: d(3) last_drop)
  then show ?thesis using False d(2) [of "length all - 1"] d(4) by (simp add: last_conv_nth)
qed (use log_ringD [OF that] in simp)

section \<open>The table\<close>

fun exec_eventlog :: "guild_event \<Rightarrow> (uint32 \<times> EventLogEntry) list \<Rightarrow> (uint32 \<times> EventLogEntry) list" where
  "exec_eventlog (LogSql (CHAR_DEL_GUILD_EVENTLOG g k)) t = filter (\<lambda>r. \<not> (fst r = g \<and> el_guid (snd r) = k)) t"
| "exec_eventlog (LogSql (CHAR_ADD_GUILD_EVENTLOG g e)) t = t @ [(g, e)]"
| "exec_eventlog (LogSql (CHAR_DEL_GUILD_EVENTLOGS g)) t = filter (\<lambda>r. fst r \<noteq> g) t"
| "exec_eventlog _ t = t"

definition eventlog_table :: "guild_event list \<Rightarrow> (uint32 \<times> EventLogEntry) list" where
  "eventlog_table es = fold exec_eventlog es []"

definition rows_of :: "uint32 \<Rightarrow> (uint32 \<times> 'e) list \<Rightarrow> (uint32 \<times> 'e) list" where
  "rows_of g = filter (\<lambda>r. fst r = g)"

lemma rows_of_log:
  assumes "rows_of g t = map (Pair g) es"
  shows "rows_of g (fold exec_eventlog (EventLogEntry_SaveToDB g e @ [GuildHook g hk]) t) = map (Pair g) (filter (\<lambda>x. el_guid x \<noteq> el_guid e) es @ [e])"
    and "h \<noteq> g \<Longrightarrow> rows_of g (fold exec_eventlog (EventLogEntry_SaveToDB h e @ [GuildHook h' hk]) t) = map (Pair g) es"
proof -
  have "filter (\<lambda>r. el_guid (snd r) \<noteq> el_guid e) (rows_of g t) = map (Pair g) (filter (\<lambda>x. el_guid x \<noteq> el_guid e) es)"
    unfolding assms by (simp add: filter_map comp_def)
  moreover have "filter (\<lambda>r. el_guid (snd r) \<noteq> el_guid e) (rows_of g t) =
      rows_of g (filter (\<lambda>r. \<not> (fst r = g \<and> el_guid (snd r) = el_guid e)) t)" by (auto simp: rows_of_def intro: filter_cong)
  ultimately show "rows_of g (fold exec_eventlog (EventLogEntry_SaveToDB g e @ [GuildHook g hk]) t) =
      map (Pair g) (filter (\<lambda>x. el_guid x \<noteq> el_guid e) es @ [e])" by (simp add: EventLogEntry_SaveToDB_def rows_of_def)
  show "rows_of g (fold exec_eventlog (EventLogEntry_SaveToDB h e @ [GuildHook h' hk]) t) = map (Pair g) es" if "h \<noteq> g"
    unfolding assms [symmetric] using that by (auto simp: EventLogEntry_SaveToDB_def rows_of_def intro: filter_cong)
qed

section \<open>Histories of events\<close>

type_synonym log_call = "guild_env \<times> uint32 \<times> GuildEventLogTypes \<times> uint32 \<times> uint32 \<times> uint8"

fun log_step :: "log_call \<Rightarrow> GuildState \<Rightarrow> GuildState" where
  "log_step (E, g, t, a, b, r) s = Guild_LogEvent E g t a b r s"

fun call_entry :: "log_call \<Rightarrow> EventLogEntry" where
  "call_entry (E, g, t, a, b, r) =
     \<lparr>el_guid = 0, el_timestamp = gn_time E, el_eventType = event_value t, el_playerGuid1 = a, el_playerGuid2 = b, el_newRank = r\<rparr>"

definition events_of :: "uint32 \<Rightarrow> log_call list \<Rightarrow> EventLogEntry list" where
  "events_of g cs = map call_entry (filter (\<lambda>c. fst (snd c) = g) cs)"

definition unnumbered :: "EventLogEntry \<Rightarrow> EventLogEntry" where
  "unnumbered e = e\<lparr>el_guid := 0\<rparr>"

text \<open>A guild whose log is new.\<close>

definition fresh_log :: "uint32 \<Rightarrow> uint32 \<Rightarrow> GuildState \<Rightarrow> bool" where
  "fresh_log n g s \<longleftrightarrow> n \<noteq> 0 \<and> g \<noteq> 0 \<and> (case gd_guilds s g of None \<Rightarrow> False | Some x \<Rightarrow> gl_eventLog x = LogHolder_new n) \<and>
     rows_of g (eventlog_table (gd_trace s)) = []"

definition log_ids_ok :: "GuildState \<Rightarrow> bool" where
  "log_ids_ok s \<longleftrightarrow> (\<forall>h x. gd_guilds s h = Some x \<longrightarrow> gl_id x = h)"

text \<open>All events logged for the guild so far, the holder and the table.\<close>

definition log_kept :: "uint32 \<Rightarrow> uint32 \<Rightarrow> EventLogEntry list \<Rightarrow> GuildState \<Rightarrow> bool" where
  "log_kept n g all s \<longleftrightarrow> g \<noteq> 0 \<and> log_ids_ok s \<and>
     (\<exists>x. gd_guilds s g = Some x \<and> lh_maxRecords (gl_eventLog x) = n \<and> log_ring el_guid all (gl_eventLog x) \<and>
          rows_of g (eventlog_table (gd_trace s)) = map (Pair g) (lh_log (gl_eventLog x)))"

lemma fresh_log_kept: "fresh_log n g s \<Longrightarrow> log_ids_ok s \<Longrightarrow> log_kept n g [] s"
  using log_ring_new [of n el_guid] by (auto simp: fresh_log_def log_kept_def LogHolder_new_def split: option.splits)

lemma LogEvent_parts:
  assumes "LogHolder_GetNextGUID (gl_eventLog (gld s g)) = (guid, h)"
    and "e = (call_entry (E, g, t, a, b, r))\<lparr>el_guid := guid\<rparr>"
  shows "Guild_LogEvent E g t a b r s =
    gd_emit (EventLogEntry_SaveToDB (gl_id (gld s g)) e @ [GuildHook g (OnGuildEvent (event_value t) a b r)])
      (upd_gld g (\<lambda>x. x\<lparr>gl_eventLog := LogHolder_AddEvent e h\<rparr>) s)"
  by (simp add: Guild_LogEvent_def assms Let_def)

lemma eventlog_emit: "eventlog_table (gd_trace (gd_emit es s)) = fold exec_eventlog es (eventlog_table (gd_trace s))"
  by (simp add: eventlog_table_def)

lemma ids_ok_upd: "log_ids_ok s \<Longrightarrow> (\<And>x. gl_id (f x) = gl_id x) \<Longrightarrow> log_ids_ok (upd_gld g f s)"
  by (auto simp: log_ids_ok_def gd_guilds_upd_gld)

lemma ids_ok_emit [simp]: "log_ids_ok (gd_emit es s) = log_ids_ok s"
  by (simp add: log_ids_ok_def)

lemma log_kept_step:
  assumes "log_kept n g all s"
  shows "\<exists>es. log_kept n g (all @ es) (log_step c s) \<and> map unnumbered es = events_of g [c]"
proof -
  obtain E h t a b r where c: "c = (E, h, t, a, b, r)" by (metis prod_cases6)
  obtain guid lh where nx: "LogHolder_GetNextGUID (gl_eventLog (gld s h)) = (guid, lh)" by fastforce
  define e where "e = (call_entry (E, h, t, a, b, r))\<lparr>el_guid := guid\<rparr>"
  note step = LogEvent_parts [OF nx e_def]
  from assms obtain x where x: "g \<noteq> 0" "log_ids_ok s" "gd_guilds s g = Some x" "lh_maxRecords (gl_eventLog x) = n"
    "log_ring el_guid all (gl_eventLog x)" "rows_of g (eventlog_table (gd_trace s)) = map (Pair g) (lh_log (gl_eventLog x))"
    by (auto simp: log_kept_def)
  have ids: "log_ids_ok (log_step c s)" using x(2) by (simp add: c step ids_ok_upd)
  show ?thesis
  proof (cases "h = g")
    case True
    have gx: "gld s g = x" "gl_id x = g" using x(2,3) by (auto simp: gld_def log_ids_ok_def)
    have nx': "LogHolder_GetNextGUID (gl_eventLog x) = (guid, lh)" using nx True gx by simp
    note ring = log_ring_add [OF x(5) nx', of e]
    have num: "guid = of_nat (length all mod unat n)" "lh = (gl_eventLog x)\<lparr>lh_nextGUID := guid\<rparr>"
      using next_number [OF x(5)] nx' x(4) by auto
    have "filter (\<lambda>y. el_guid y \<noteq> el_guid e) (lh_log (gl_eventLog x)) @ [e] = lh_log (LogHolder_AddEvent e lh)"
      using ring_reuses_oldest [OF x(5), of "unat n"] num x(4) by (simp add: e_def LogHolder_AddEvent_def)
    then have "rows_of g (eventlog_table (gd_trace (log_step c s))) = map (Pair g) (lh_log (LogHolder_AddEvent e lh))"
      using rows_of_log(1) [OF x(6), of e] by (simp only: c log_step.simps step [unfolded True] True gx eventlog_emit upd_gld_sel)
    moreover have "gd_guilds (log_step c s) g = Some (x\<lparr>gl_eventLog := LogHolder_AddEvent e lh\<rparr>)"
      using x(3) by (simp add: c step [unfolded True] True gd_guilds_upd_gld)
    moreover have "lh_maxRecords (LogHolder_AddEvent e lh) = n" using num(2) x(4) by (simp add: LogHolder_AddEvent_def)
    moreover have "el_guid e = guid" by (simp add: e_def)
    ultimately have "log_kept n g (all @ [e]) (log_step c s)" using ids x(1) ring by (simp add: log_kept_def)
    moreover have "map unnumbered [e] = events_of g [c]" by (simp add: e_def unnumbered_def events_of_def c True)
    ultimately show ?thesis by blast
  next
    case False
    then have "gl_id (gld s h) \<noteq> g" using x(1,2) by (auto simp: gld_def log_ids_ok_def Guild_new_def split: option.split)
    then have "rows_of g (eventlog_table (gd_trace (log_step c s))) = map (Pair g) (lh_log (gl_eventLog x))"
      using rows_of_log(2) [OF x(6)] by (simp only: c log_step.simps step eventlog_emit upd_gld_sel)
    moreover have "gd_guilds (log_step c s) g = Some x" using x(3) False by (simp add: c step gd_guilds_upd_gld)
    ultimately have "log_kept n g (all @ []) (log_step c s)" using ids x(1,4,5) by (simp add: log_kept_def)
    with False show ?thesis by (intro exI [of _ "[]"]) (simp add: events_of_def c)
  qed
qed

lemma log_kept_run:
  assumes "log_kept n g all s"
  shows "\<exists>es. log_kept n g (all @ es) (run_ops log_step cs s) \<and> map unnumbered es = events_of g cs"
  using assms
proof (induction cs arbitrary: all s)
  case (Cons c cs)
  from log_kept_step [OF Cons.prems] obtain es where es: "log_kept n g (all @ es) (log_step c s)" "map unnumbered es = events_of g [c]" by blast
  from Cons.IH [OF es(1)] obtain fs where "log_kept n g ((all @ es) @ fs) (run_ops log_step cs (log_step c s))"
    "map unnumbered fs = events_of g cs" by blast
  with es(2) show ?case by (intro exI [of _ "es @ fs"]) (auto simp: events_of_def)
qed (simp add: events_of_def exI [of _ "[]"])

section \<open>Loading\<close>

lemma ucast_ucast_small32: "(w :: uint64) < 2 ^ 32 \<Longrightarrow> ucast (ucast w :: uint32) = w"
  by (simp add: word_less_nat_alt word_unat_eq_iff unsigned_ucast_eq unsigned_take_bit_eq take_bit_nat_eq_self)

lemma load_rows_store:
  "gd_store (load_guild_rows gid f rows s) = gd_store s" "gd_guilds (load_guild_rows gid f rows s) g = None \<longleftrightarrow> gd_guilds s g = None"
  unfolding load_guild_rows_def
  by (induction rows arbitrary: s) (simp_all add: load_guild_row_def gld_do_def gd_guilds_upd_gld split: option.split)

text \<open>A guild sees only its own rows.\<close>

lemma load_rows_own:
  assumes "g \<in> set (gd_store s)" "gd_guilds s g \<noteq> None"
  shows "gld (load_guild_rows gid f rows s) g = fold (\<lambda>r x. fst (f r x)) (filter (\<lambda>r. gid r = g) rows) (gld s g)"
  using assms
proof (induction rows arbitrary: s)
  case (Cons r rows)
  have "gld (load_guild_row gid f r s) g = (if gid r = g then fst (f r (gld s g)) else gld s g)"
    using Cons.prems by (auto simp: load_guild_row_def GuildMgr_GetGuildById_def gld_do_def gld_upd_gld)
  moreover have "g \<in> set (gd_store (load_guild_row gid f r s))" "gd_guilds (load_guild_row gid f r s) g \<noteq> None"
    using load_rows_store [of gid f "[r]" s] Cons.prems by (simp_all add: load_guild_rows_def)
  ultimately show ?case using Cons.IH [of "load_guild_row gid f r s"] by (auto simp: load_guild_rows_def)
qed (simp add: load_guild_rows_def)

lemma by_two_filter: "filter P (by_two f h rows) = by_two f h (filter P rows)"
  by (simp add: by_two_def filter_sort)

lemma by_two_decreasing:
  assumes "sorted_wrt (\<lambda>a b. f b < f a) xs"
  shows "by_two f h xs = rev xs"
proof -
  have "sorted_wrt (<) (map f (rev xs))" using assms by (simp add: sorted_wrt_map sorted_wrt_rev)
  then have sorted: "sorted (map f (rev xs))" "inj_on f (set xs)" by (auto simp: strict_sorted_iff distinct_map)
  show ?thesis unfolding by_two_def by (rule sort_key_inj_key_eq) (use sorted in simp_all)
qed

lemma load_entries:
  assumes "length es \<le> unat n" "\<And>e. e \<in> set es \<Longrightarrow> el_guid e \<noteq> GUILD_EVENT_LOG_GUID_UNDEFINED"
    "\<And>e. e \<in> set es \<Longrightarrow> ucast (ucast (el_timestamp e) :: uint32) = el_timestamp e" "gl_eventLog y = LogHolder_new n"
  shows "gl_eventLog (fold Guild_LoadEventLogFromDB (rev es) y) =
    \<lparr>lh_log = es, lh_maxRecords = n, lh_nextGUID = (if es = [] then GUILD_EVENT_LOG_GUID_UNDEFINED else el_guid (last es))\<rparr>"
  using assms(1-3)
proof (induction es)
  case Nil
  then show ?case using assms(4) by (simp add: LogHolder_new_def)
next
  case (Cons e es)
  define z where "z = fold Guild_LoadEventLogFromDB (rev es) y"
  have "gl_eventLog z =
    \<lparr>lh_log = es, lh_maxRecords = n, lh_nextGUID = (if es = [] then GUILD_EVENT_LOG_GUID_UNDEFINED else el_guid (last es))\<rparr>" unfolding z_def using Cons by simp
  moreover have "es \<noteq> [] \<Longrightarrow> el_guid (last es) \<noteq> GUILD_EVENT_LOG_GUID_UNDEFINED" using Cons.prems(2) [of "last es"] by simp
  ultimately have "gl_eventLog (Guild_LoadEventLogFromDB e z) = \<lparr>lh_log = e # es, lh_maxRecords = n, lh_nextGUID = el_guid (last (e # es))\<rparr>"
    using Cons.prems(1) Cons.prems(3) [of e] by (auto simp: Guild_LoadEventLogFromDB_def LogHolder_CanInsert_def LogHolder_LoadEvent_def)
  then show ?case by (simp add: z_def)
qed

lemma log_restored:
  assumes "log_kept n g all s" "sorted_wrt (<) (map el_timestamp all)" "\<forall>e \<in> set all. el_timestamp e < 2 ^ 32"
    "t_guild_eventlog db = eventlog_table (gd_trace s)" "gn_CONFIG_GUILD_EVENT_LOG_COUNT E = n"
    "g \<in> set (gd_store s0)" "gd_guilds s0 g = Some y" "gl_eventLog y = LogHolder_new n"
  shows "gl_eventLog (gld (load_guild_rows fst (\<lambda>r x. (Guild_LoadEventLogFromDB (snd r) x, []))
      (by_two (\<lambda>r. - uint (el_timestamp (snd r))) (\<lambda>r. - uint (el_guid (snd r))) (t_guild_eventlog (clean_guild_db E db))) s0) g) =
    gl_eventLog (gld s g)"
proof -
  from assms(1) obtain x where x: "gd_guilds s g = Some x" "lh_maxRecords (gl_eventLog x) = n" "log_ring el_guid all (gl_eventLog x)"
    "rows_of g (eventlog_table (gd_trace s)) = map (Pair g) (lh_log (gl_eventLog x))" by (auto simp: log_kept_def)
  have y: "gld s0 g = y" using assms(7) by (simp add: gld_def)
  let ?log = "lh_log (gl_eventLog x)" and ?f = "\<lambda>r. - uint (el_timestamp (snd r))" and ?h = "\<lambda>r. - uint (el_guid (snd r))"
  note d = log_ringD [OF x(3)] and num = ring_numbers_defined [OF x(3)]
  have sub: "set ?log \<subseteq> set all" unfolding d(3) by (rule set_drop_subset)
  have "filter (\<lambda>r. fst r = g) (t_guild_eventlog (clean_guild_db E db)) = filter (\<lambda>r. \<not> n < el_guid (snd r)) (rows_of g (eventlog_table (gd_trace s)))"
    by (auto simp: clean_guild_db_def Let_def assms(4,5) rows_of_def case_prod_unfold intro: filter_cong)
  also have "\<dots> = map (Pair g) ?log" unfolding x(4) by (auto simp: filter_id_conv not_less intro: less_imp_le num(1) [unfolded x(2)])
  finally have rows: "filter (\<lambda>r. fst r = g) (t_guild_eventlog (clean_guild_db E db)) = map (Pair g) ?log" .
  have "sorted_wrt (\<lambda>a b. el_timestamp a < el_timestamp b) ?log" using assms(2) by (simp add: d(3) sorted_wrt_map sorted_wrt_drop)
  then have "by_two ?f ?h (map (Pair g) ?log) = rev (map (Pair g) ?log)"
    by (intro by_two_decreasing) (simp add: sorted_wrt_map word_less_def)
  then have "gl_eventLog (gld (load_guild_rows fst (\<lambda>r x. (Guild_LoadEventLogFromDB (snd r) x, []))
      (by_two ?f ?h (t_guild_eventlog (clean_guild_db E db))) s0) g) = gl_eventLog (fold Guild_LoadEventLogFromDB (rev ?log) y)"
    using assms(6,7) y by (simp add: load_rows_own by_two_filter rows rev_map fold_map comp_def)
  also have "\<dots> = \<lparr>lh_log = ?log, lh_maxRecords = n, lh_nextGUID = (if ?log = [] then GUILD_EVENT_LOG_GUID_UNDEFINED else el_guid (last ?log))\<rparr>"
  proof (rule load_entries)
    show "length ?log \<le> unat n" using x(2) by (simp add: d(3))
    show "ucast (ucast (el_timestamp e) :: uint32) = el_timestamp e" if "e \<in> set ?log" for e
      using assms(3) sub that by (intro ucast_ucast_small32) auto
  qed (use num assms(8) in auto)
  also have "\<dots> = gl_eventLog (gld s g)" using x(1,2) ring_next_last [OF x(3)] by (intro LogHolder.equality) (simp_all add: gld_def)
  finally show ?thesis .
qed

section \<open>Properties\<close>

text \<open>
  C15 (refinement).  Over any sequence of logged events of any guilds, the event log of a guild is the list of its newest events,
  as many as the limit allows and in order, and the rows of the guild in \<open>guild_eventlog\<close> are exactly these entries.
\<close>

theorem event_log_keeps_newest:
  assumes "fresh_log n g s" "log_ids_ok s" "s' = run_ops log_step cs s"
  shows "map unnumbered (lh_log (gl_eventLog (gld s' g))) = drop (length (events_of g cs) - unat n) (events_of g cs) \<and>
    rows_of g (eventlog_table (gd_trace s')) = map (Pair g) (lh_log (gl_eventLog (gld s' g)))"
proof -
  from log_kept_run [OF fresh_log_kept [OF assms(1,2)], of cs] obtain es where
    es: "log_kept n g es s'" "map unnumbered es = events_of g cs" unfolding assms(3) by auto
  then obtain x where "gd_guilds s' g = Some x" "lh_maxRecords (gl_eventLog x) = n" "log_ring el_guid es (gl_eventLog x)"
    "rows_of g (eventlog_table (gd_trace s')) = map (Pair g) (lh_log (gl_eventLog x))" by (auto simp: log_kept_def)
  then show ?thesis
    using log_ringD(3) [of el_guid es "gl_eventLog x"] es(2) [symmetric] by (simp add: gld_def drop_map)
qed

text \<open>
  C20 (roundtrip).  When the clock advances between the events of a guild, loading the table at the next start restores
  the event log exactly, so that numbering goes on in the ring where it was; the limit in the configuration is the same.
\<close>

theorem event_log_survives_restart:
  assumes "fresh_log n g s" "log_ids_ok s" "s' = run_ops log_step cs s"
    "sorted_wrt (<) (map el_timestamp (events_of g cs))" "\<forall>e \<in> set (events_of g cs). el_timestamp e < 2 ^ 32"
    "t_guild_eventlog db = eventlog_table (gd_trace s')" "gn_CONFIG_GUILD_EVENT_LOG_COUNT E = n"
    "g \<in> set (gd_store s0)" "gd_guilds s0 g = Some y" "gl_eventLog y = LogHolder_new n"
  shows "gl_eventLog (gld (load_guild_rows fst (\<lambda>r x. (Guild_LoadEventLogFromDB (snd r) x, []))
      (by_two (\<lambda>r. - uint (el_timestamp (snd r))) (\<lambda>r. - uint (el_guid (snd r))) (t_guild_eventlog (clean_guild_db E db))) s0) g) =
    gl_eventLog (gld s' g)"
proof -
  from log_kept_run [OF fresh_log_kept [OF assms(1,2)], of cs] obtain es where
    es: "log_kept n g es s'" "map unnumbered es = events_of g cs" unfolding assms(3) by auto
  have stamp: "el_timestamp (unnumbered e) = el_timestamp e" for e by (simp add: unnumbered_def)
  have "map el_timestamp (events_of g cs) = map el_timestamp es" by (simp add: es(2) [symmetric] stamp)
  moreover have "\<forall>e \<in> set es. el_timestamp e < 2 ^ 32" using assms(5) by (auto simp: es(2) [symmetric] stamp)
  ultimately show ?thesis using log_restored [OF es(1)] assms(4,6-10) by simp
qed

text \<open>Three events in a log with room for two.\<close>

definition log_sample_env :: "uint64 \<Rightarrow> guild_env" where
  "log_sample_env t = (guild_sample_env t)\<lparr>gn_CONFIG_GUILD_EVENT_LOG_COUNT := 2\<rparr>"

definition log_sample :: GuildState where
  "log_sample = guild_start\<lparr>gd_guilds := (\<lambda>_. None)(1 := Some (Guild_new\<lparr>gl_id := 1, gl_eventLog := LogHolder_new 2\<rparr>)), gd_store := [1]\<rparr>"

definition log_sample_calls :: "log_call list" where
  "log_sample_calls =
     map (\<lambda>t. (log_sample_env t, 1, GUILD_EVENT_LOG_JOIN_GUILD, ucast t, 0, 0)) [100, 101, 102]"

definition empty_db :: guild_db where
  "empty_db = \<lparr>t_guild = [], t_guild_news = [], t_guild_rank = [], t_guild_member = [], t_guild_bank_right = [], t_guild_eventlog = [],
     t_guild_bank_eventlog = [], t_guild_bank_tab = [], t_guild_bank_item = []\<rparr>"

lemma log_sample_ok: "fresh_log 2 1 log_sample" "log_ids_ok log_sample"
  by (simp_all add: fresh_log_def log_sample_def guild_start_def eventlog_table_def rows_of_def log_ids_ok_def)

lemma log_sample_events: "events_of 1 log_sample_calls = map (\<lambda>t. \<lparr>el_guid = 0, el_timestamp = t, el_eventType = 2, el_playerGuid1 = ucast t,
   el_playerGuid2 = 0, el_newRank = 0\<rparr>) [100, 101, 102]"
  by (simp add: events_of_def log_sample_calls_def log_sample_env_def guild_sample_env_def)

theorem event_log_keeps_newest_witness:
  "fresh_log 2 1 log_sample \<and> log_ids_ok log_sample \<and>
   map el_playerGuid1 (map unnumbered (lh_log (gl_eventLog (gld (run_ops log_step log_sample_calls log_sample) 1)))) = [101, 102]"
  using event_log_keeps_newest [OF log_sample_ok refl, of log_sample_calls] log_sample_ok
  by (simp add: log_sample_events)

theorem event_log_survives_restart_witness:
  "fresh_log 2 1 log_sample \<and> log_ids_ok log_sample \<and>
   gl_eventLog (gld (load_guild_rows fst (\<lambda>r x. (Guild_LoadEventLogFromDB (snd r) x, []))
      (by_two (\<lambda>r. - uint (el_timestamp (snd r))) (\<lambda>r. - uint (el_guid (snd r)))
        (t_guild_eventlog (clean_guild_db (log_sample_env 103)
          (empty_db\<lparr>t_guild_eventlog := eventlog_table (gd_trace (run_ops log_step log_sample_calls log_sample))\<rparr>)))) log_sample) 1) =
   gl_eventLog (gld (run_ops log_step log_sample_calls log_sample) 1)"
proof -
  have y: "1 \<in> set (gd_store log_sample)" "gd_guilds log_sample 1 = Some (Guild_new\<lparr>gl_id := 1, gl_eventLog := LogHolder_new 2\<rparr>)"
    "gl_eventLog (Guild_new\<lparr>gl_id := 1, gl_eventLog := LogHolder_new 2\<rparr>) = LogHolder_new 2" by (simp_all add: log_sample_def)
  have "sorted_wrt (<) (map el_timestamp (events_of 1 log_sample_calls))" "\<forall>e \<in> set (events_of 1 log_sample_calls). el_timestamp e < 2 ^ 32"
    by (simp_all add: log_sample_events)
  moreover have "gn_CONFIG_GUILD_EVENT_LOG_COUNT (log_sample_env 103) = 2" by (simp add: log_sample_env_def)
  ultimately show ?thesis using event_log_survives_restart [OF log_sample_ok refl _ _ _ _ y] log_sample_ok by simp
qed

end
