(* ===== verification/Guild_Validation.thy ===== *)
theory Guild_Validation
  imports Guild_Log
begin

text \<open>
  What \<open>Guild::Validate\<close> repairs after loading, the rank it lets pass, and the member object that it frees while it is still in use when
  the leader is not a member.
\<close>

section \<open>Objects\<close>

lemma ChangeRank_object:
  "gd_guilds s g = Some x \<Longrightarrow> gd_guilds (Member_ChangeRank g m r s) g = Some (upd_member (gm_guid m) (\<lambda>m. m\<lparr>gm_rankId := r\<rparr>) x)"
  by (simp add: Member_ChangeRank_def Let_def gd_guilds_upd_gld SetRank_def)

lemma SetLeaderGUID_object:
  "gd_guilds s g = Some x \<Longrightarrow> gd_guilds (Guild_SetLeaderGUID g m s) g =
     Some (upd_member (gm_guid m) (\<lambda>m. m\<lparr>gm_rankId := GR_GUILDMASTER\<rparr>) (x\<lparr>gl_leaderGuid := gm_guid m\<rparr>))"
  by (simp add: Guild_SetLeaderGUID_def Let_def gd_guilds_upd_gld ChangeRank_object)

lemma EraseMember_object:
  assumes "gd_guilds s g = Some x"
  shows "\<exists>a. gd_guilds (Guild_EraseMemberRef E g p q d kicked s) g =
    Some (x\<lparr>gl_members := hmap_erase (GUID_LOPART p) (gl_members x), gl_accountsNumber := a\<rparr>)"
  using assms
  by (cases x) (simp add: Guild_EraseMemberRef_def Let_def gd_guilds_upd_gld gld_HandleRoster SetRank_def SetInGuild_def
      Guild_UpdateAccountsNumber_def)

section \<open>Freed members\<close>

text \<open>The numbers of the members that were deleted although the map still points to them, in order.\<close>

fun freed_of :: "guild_event \<Rightarrow> uint32 option" where
  "freed_of (GuildMemberFreed k) = Some k"
| "freed_of _ = None"

definition freed_members :: "GuildState \<Rightarrow> uint32 list" where
  "freed_members s = List.map_filter freed_of (gd_trace s)"

named_theorems freed_quiet

lemma freed_emit: "freed_members (gd_emit es s) = freed_members s @ List.map_filter freed_of es"
  by (simp add: freed_members_def List.map_filter_def)

lemma freed_emit_none: "list_all (\<lambda>e. freed_of e = None) es \<Longrightarrow> freed_members (gd_emit es s) = freed_members s"
  by (induction es) (simp_all add: freed_emit List.map_filter_simps)

lemma freed_upd [freed_quiet]:
  "freed_members (upd_gld g f s) = freed_members s" "freed_members (SetRank p r s) = freed_members s" "freed_members (SetInGuild p h s) = freed_members s"
  by (simp_all add: freed_members_def SetRank_def SetInGuild_def)

lemma freed_BroadcastPacket [freed_quiet]: "freed_members (Guild_BroadcastPacket g pkt s) = freed_members s"
  by (simp add: Guild_BroadcastPacket_def freed_emit_none list_all_iff)

lemma freed_HandleRoster [freed_quiet]: "freed_members (Guild_HandleRoster E g None s) = freed_members s"
  by (simp add: Guild_HandleRoster_def Guild_SendUpdateRoster_def Guild_SendGuildRankInfo_def Guild_SendOrBroadcast_def Guild_BroadcastEvent_def
      Let_def freed_quiet)

lemma freed_ChangeRank [freed_quiet]: "freed_members (Member_ChangeRank g m r s) = freed_members s"
  by (simp add: Member_ChangeRank_def Let_def freed_quiet freed_emit_none)

lemma freed_change_ranks [freed_quiet]: "freed_members (change_ranks g P r s) = freed_members s"
proof -
  have "freed_members (fold (\<lambda>m s. if P m then Member_ChangeRank g m r s else s) ms s) = freed_members s" for ms
    by (induction ms arbitrary: s) (simp_all add: freed_quiet)
  then show ?thesis by (simp add: change_ranks_def)
qed

lemma freed_SetLeaderGUID [freed_quiet]: "freed_members (Guild_SetLeaderGUID g m s) = freed_members s"
  by (simp add: Guild_SetLeaderGUID_def Let_def freed_quiet freed_emit_none)

lemma CreateRank_frees_none: "list_all (\<lambda>e. freed_of e = None) (snd (Guild_CreateRank n r x))"
  by (simp add: Guild_CreateRank_def Let_def RankInfo_SaveToDB_def list_all_iff)

lemma CreateRanks_frees_none: "list_all (\<lambda>e. freed_of e = None) (snd (Guild_CreateRanks rs x))"
  by (induction rs arbitrary: x) (auto simp: case_prod_unfold Let_def CreateRank_frees_none)

lemma freed_ValidateRanks [freed_quiet]: "freed_members (gld_do g (Guild_ValidateRanks E loc) s) = freed_members s"
proof -
  have "list_all (\<lambda>e. freed_of e = None) (snd (Guild_ValidateRanks E loc x))" for x
    by (simp add: Guild_ValidateRanks_def Guild_CreateDefaultGuildRanks_def case_prod_unfold Let_def CreateRanks_frees_none)
  then show ?thesis by (simp add: gld_do_def freed_emit_none freed_quiet)
qed

lemma freed_spells: "List.map_filter freed_of (map (PlayerCall p \<circ> f) xs) = []"
  by (induction xs) (simp_all add: List.map_filter_simps)

lemma freed_EraseMember:
  "freed_members (Guild_EraseMemberRef E g p q d kicked s) =
     freed_members s @ (if GUID_LOPART q \<noteq> GUID_LOPART p \<and> Guild_GetMember q (gld s g) \<noteq> None then [GUID_LOPART q] else [])"
proof -
  define freed where "freed = (if GUID_LOPART q \<noteq> GUID_LOPART p \<and> Guild_GetMember q (gld s g) \<noteq> None then [GuildMemberFreed (GUID_LOPART q)] else [])"
  have "freed_members (Guild_EraseMemberRef E g p q d kicked s) = freed_members s @ List.map_filter freed_of freed"
    unfolding Guild_EraseMemberRef_def Let_def freed_def [symmetric]
    by (simp add: freed_quiet freed_emit freed_spells List.map_filter_simps)
  then show ?thesis by (simp add: freed_def List.map_filter_simps)
qed

section \<open>Loaded members\<close>

text \<open>The members of a loaded guild are stored under their own numbers.\<close>

definition members_ok :: "(uint32, GuildMember) hmap \<Rightarrow> bool" where
  "members_ok ms \<longleftrightarrow> hmap_ok ms \<and> list_all (\<lambda>(k, m). gm_guid m = pguid k) ms"

lemma members_okD: "members_ok ms \<Longrightarrow> hmap_find ms k = Some m \<Longrightarrow> gm_guid m = pguid k"
  by (auto simp: members_ok_def list_all_iff dest: hmap_findD)

lemma members_ok_update: "members_ok ms \<Longrightarrow> (\<And>m. gm_guid (f m) = gm_guid m) \<Longrightarrow> members_ok (hmap_update k f ms)"
  by (auto simp: members_ok_def hmap_ok_update list_all_iff) (auto simp: hmap_update_def)

lemma members_ok_erase: "members_ok ms \<Longrightarrow> members_ok (hmap_erase k ms)"
  by (auto simp: members_ok_def hmap_ok_erase list_all_iff) (auto simp: hmap_erase_def)

definition reranked :: "(GuildMember \<Rightarrow> bool) \<Rightarrow> uint8 \<Rightarrow> GuildMember \<Rightarrow> GuildMember" where
  "reranked P r m = (if P m then m\<lparr>gm_rankId := r\<rparr> else m)"

lemma change_loop_object:
  assumes "gd_guilds s g = Some x" "members_ok (gl_members x)" "distinct (map fst ms)"
    "\<And>k m. (k, m) \<in> set ms \<Longrightarrow> hmap_find (gl_members x) k = Some m"
  shows "\<exists>ns. gd_guilds (fold (\<lambda>m s. if P m then Member_ChangeRank g m r s else s) (map snd ms) s) g = Some (x\<lparr>gl_members := ns\<rparr>) \<and>
    members_ok ns \<and> map fst ns = map fst (gl_members x) \<and>
    (\<forall>k. hmap_find ns k = map_option (if k \<in> fst ` set ms then reranked P r else id) (hmap_find (gl_members x) k))"
  using assms
proof (induction ms arbitrary: s x)
  case Nil
  then show ?case by (intro exI [of _ "gl_members x"]) (simp add: option.map_id option.map_ident)
next
  case (Cons c ms)
  obtain k m where c: "c = (k, m)" by (cases c)
  have m: "hmap_find (gl_members x) k = Some m" using Cons.prems(4) [of k m] c by simp
  have guid: "gm_guid m = pguid k" by (rule members_okD [OF Cons.prems(2) m])
  define x1 where "x1 = (if P m then upd_member (gm_guid m) (\<lambda>m. m\<lparr>gm_rankId := r\<rparr>) x else x)"
  define s1 where "s1 = (if P m then Member_ChangeRank g m r s else s)"
  have obj: "gd_guilds s1 g = Some x1" using Cons.prems(1) by (simp add: s1_def x1_def ChangeRank_object)
  have x1: "x1 = x\<lparr>gl_members := gl_members x1\<rparr>" "map fst (gl_members x1) = map fst (gl_members x)" "members_ok (gl_members x1)"
    using Cons.prems(2) by (simp_all add: x1_def upd_member_def members_ok_update)
  have find: "hmap_find (gl_members x1) j = map_option (if j = k then reranked P r else id) (hmap_find (gl_members x) j)" for j
    using m guid by (simp add: x1_def upd_member_def hmap_find_update reranked_def option.map_id)
  have "hmap_find (gl_members x1) j = Some n" if "(j, n) \<in> set ms" for j n
    using Cons.prems(3,4) that c by (force simp: find option.map_id)
  with Cons.IH [OF obj x1(3)] Cons.prems(3) obtain ns where
    ns: "gd_guilds (fold (\<lambda>m s. if P m then Member_ChangeRank g m r s else s) (map snd ms) s1) g = Some (x1\<lparr>gl_members := ns\<rparr>)"
    "members_ok ns" "map fst ns = map fst (gl_members x1)"
    "\<And>j. hmap_find ns j = map_option (if j \<in> fst ` set ms then reranked P r else id) (hmap_find (gl_members x1) j)" by auto
  have "hmap_find ns j = map_option (if j \<in> fst ` set (c # ms) then reranked P r else id) (hmap_find (gl_members x) j)" for j
    using Cons.prems(3) c by (auto simp: ns(4) find option.map_id)
  moreover have "x1\<lparr>gl_members := ns\<rparr> = x\<lparr>gl_members := ns\<rparr>" by (subst x1(1)) simp
  ultimately show ?case using ns(1-3) x1(2) by (intro exI [of _ ns]) (simp add: c s1_def [symmetric])
qed

lemma change_ranks_object:
  assumes "gd_guilds s g = Some x" "members_ok (gl_members x)"
  shows "\<exists>ns. gd_guilds (change_ranks g P r s) g = Some (x\<lparr>gl_members := ns\<rparr>) \<and> members_ok ns \<and> map fst ns = map fst (gl_members x) \<and>
    (\<forall>k. hmap_find ns k = map_option (reranked P r) (hmap_find (gl_members x) k))"
proof -
  have ok: "hmap_ok (gl_members x)" using assms(2) by (simp add: members_ok_def)
  have "distinct (map fst (gl_members x))" "\<And>k m. (k, m) \<in> set (gl_members x) \<Longrightarrow> hmap_find (gl_members x) k = Some m"
    using ok by (simp_all add: hmap_ok_def hmap_find_iff [OF ok])
  from change_loop_object [OF assms this, of P r] obtain ns where
    "gd_guilds (change_ranks g P r s) g = Some (x\<lparr>gl_members := ns\<rparr>)" "members_ok ns" "map fst ns = map fst (gl_members x)"
    "\<And>k. hmap_find ns k = map_option (if k \<in> fst ` set (gl_members x) then reranked P r else id) (hmap_find (gl_members x) k)"
    using assms(1) by (auto simp: change_ranks_def gld_def Guild_Members_def)
  moreover have "hmap_find (gl_members x) k = None" if "k \<notin> fst ` set (gl_members x)" for k using that by (simp add: hmap_find_None)
  ultimately show ?thesis by (metis option.map_disc_iff option.simps(8))
qed

section \<open>Ranks\<close>

lemma ranks_broken_False:
  assumes "length (gl_ranks x) \<le> 256"
  shows "\<not> ranks_broken x \<longleftrightarrow> 3 \<le> length (gl_ranks x) \<and> length (gl_ranks x) \<le> 10 \<and> (\<forall>i < length (gl_ranks x). rk_rankId (gl_ranks x ! i) = of_nat i)"
proof (cases "length (gl_ranks x) = 256")
  case True
  then have "Guild_GetRanksSize x = 0" by (simp add: Guild_GetRanksSize_def)
  with True show ?thesis by (simp add: ranks_broken_def GUILD_RANKS_MIN_COUNT_def)
next
  case False
  with assms have "unat (Guild_GetRanksSize x) = length (gl_ranks x)" by (simp add: Guild_GetRanksSize_def unat_of_nat)
  then show ?thesis
    by (auto simp: ranks_broken_def word_less_nat_alt GUILD_RANKS_MIN_COUNT_def GUILD_RANKS_MAX_COUNT_def list_ex_iff)
qed

lemma CreateRanks_ranks:
  "length (gl_ranks x) + length rs \<le> 10 \<Longrightarrow>
   gl_ranks (fst (Guild_CreateRanks rs x)) =
     gl_ranks x @ map (\<lambda>(i, n, ri). RankInfo_new (of_nat i) n ri 0) (zip [length (gl_ranks x)..<length (gl_ranks x) + length rs] rs)"
proof (induction rs arbitrary: x)
  case (Cons c rs)
  obtain n ri where c: "c = (n, ri)" by (cases c)
  have "unat (Guild_GetRanksSize x) = length (gl_ranks x)" using Cons.prems by (simp add: Guild_GetRanksSize_def unat_of_nat)
  then have "\<not> Guild_GetRanksSize x \<ge> GUILD_RANKS_MAX_COUNT" using Cons.prems by (simp add: word_le_nat_alt GUILD_RANKS_MAX_COUNT_def)
  then have 1: "gl_ranks (fst (Guild_CreateRank n ri x)) = gl_ranks x @ [RankInfo_new (of_nat (length (gl_ranks x))) n ri 0]"
    by (simp add: Guild_CreateRank_def Let_def Guild_GetRanksSize_def)
  have "[length (gl_ranks x)..<length (gl_ranks x) + length (c # rs)] =
      length (gl_ranks x) # [Suc (length (gl_ranks x))..<Suc (length (gl_ranks x)) + length rs]" by (subst upt_conv_Cons) simp_all
  then show ?case
    using Cons.IH [of "fst (Guild_CreateRank n ri x)"] Cons.prems by (simp add: c case_prod_unfold Let_def 1)
qed simp

lemma ValidateRanks_ranks:
  assumes "length (gn_rankNames E loc) = 5" "length (gl_ranks x) \<le> 256"
  defines "y \<equiv> fst (Guild_ValidateRanks E loc x)"
  shows "\<not> ranks_broken y" "length (gl_ranks y) \<le> 256"
proof -
  have five: "\<not> ranks_broken z \<and> length (gl_ranks z) = 5" if "z = fst (Guild_CreateDefaultGuildRanks E loc (x\<lparr>gl_ranks := []\<rparr>))" for z
  proof -
    let ?n = "gn_rankNames E loc" and ?t = "GR_RIGHT_GCHATLISTEN OR GR_RIGHT_GCHATSPEAK"
    obtain a b c d e where n: "?n = [a, b, c, d, e]" using assms(1) by (auto simp: numeral_eq_Suc length_Suc_conv)
    have "gl_ranks z = map (\<lambda>(i, n, ri). RankInfo_new (of_nat i) n ri 0)
        (zip [0, 1, 2, 3, 4] [(a, GR_RIGHT_ALL), (b, GR_RIGHT_ALL), (c, ?t), (d, ?t), (e, ?t)])"
      using CreateRanks_ranks [of "x\<lparr>gl_ranks := []\<rparr>" "zip ?n [GR_RIGHT_ALL, GR_RIGHT_ALL, ?t, ?t, ?t]"]
      by (simp add: that Guild_CreateDefaultGuildRanks_def case_prod_unfold Let_def n numeral_eq_Suc)
    then have "length (gl_ranks z) = 5 \<and> (\<forall>i < 5. rk_rankId (gl_ranks z ! i) = of_nat i)"
      by (auto simp: RankInfo_new_def numeral_eq_Suc less_Suc_eq)
    then show ?thesis using ranks_broken_False [of z] by simp
  qed
  show "\<not> ranks_broken y" "length (gl_ranks y) \<le> 256"
    using five assms(2) by (auto simp: y_def Guild_ValidateRanks_def)
qed

section \<open>The repair\<close>

lemma upd_member_sel [simp]:
  "gl_ranks (upd_member p f x) = gl_ranks x" "gl_leaderGuid (upd_member p f x) = gl_leaderGuid x"
  "gl_members (upd_member p f x) = hmap_update (GUID_LOPART p) f (gl_members x)"
  by (simp_all add: upd_member_def)

text \<open>A leader who is not a member is replaced by one who is.\<close>

lemma ValidateLeader_object:
  assumes "gd_guilds s g = Some x" "members_ok (gl_members x)" "gl_leaderGuid x = pguid j" "gl_members x \<noteq> []"
  shows "\<exists>y k m. Guild_ValidateLeader E g s = (True, snd (Guild_ValidateLeader E g s)) \<and> gd_guilds (snd (Guild_ValidateLeader E g s)) g = Some y \<and>
    gl_ranks y = gl_ranks x \<and> members_ok (gl_members y) \<and> fst ` set (gl_members y) = fst ` set (gl_members x) \<and>
    gl_leaderGuid y = pguid k \<and> hmap_find (gl_members y) k = Some m \<and> gm_rankId m = GR_GUILDMASTER \<and>
    (\<forall>i n. hmap_find (gl_members y) i = Some n \<longrightarrow> gm_rankId n = GR_GUILDMASTER \<or> hmap_find (gl_members x) i = Some n) \<and>
    freed_members (snd (Guild_ValidateLeader E g s)) = freed_members s @ (if hmap_find (gl_members x) j = None then [k] else [])"
proof (cases "hmap_find (gl_members x) j")
  case None
  have gx: "gld s g = x" using assms(1) by (simp add: gld_def)
  have ok: "hmap_ok (gl_members x)" using assms(2) by (simp add: members_ok_def)
  obtain m where m: "pick_leader j (gl_members x) None = Some m"
    using pick_leader_None [of j "gl_members x" None] None assms(4) by (cases "pick_leader j (gl_members x) None") (auto simp: hmap_find_None neq_Nil_conv)
  then obtain k where k: "(k, m) \<in> set (gl_members x)" "k \<noteq> j" using pick_leader_Some by fastforce
  have guid: "gm_guid m = pguid k" using assms(2) k(1) by (auto simp: members_ok_def list_all_iff)
  define s2 where "s2 = (if gd_FindPlayer (gm_guid m) (Guild_SetLeaderGUID g m s) \<noteq> None
    then SetRank (gm_guid m) GR_GUILDMASTER (Guild_SetLeaderGUID g m s) else Guild_SetLeaderGUID g m s)"
  let ?x2 = "upd_member (gm_guid m) (\<lambda>m. m\<lparr>gm_rankId := GR_GUILDMASTER\<rparr>) (x\<lparr>gl_leaderGuid := gm_guid m\<rparr>)"
  have g2: "gd_guilds s2 g = Some ?x2" using SetLeaderGUID_object [OF assms(1), of m] by (simp add: s2_def SetRank_def)
  from EraseMember_object [OF this, of E "pguid j" "pguid k" False False] obtain a where
    er: "gd_guilds (Guild_EraseMemberRef E g (pguid j) (pguid k) False False s2) g = Some (?x2\<lparr>gl_members := hmap_erase j (gl_members ?x2), gl_accountsNumber := a\<rparr>)"
    by auto
  have nj: "j \<notin> fst ` set (gl_members x)" using None by (simp add: hmap_find_None)
  have now: "gl_leaderGuid (gld s2 g) = pguid k" using g2 by (simp add: gld_def guid)
  have del: "Guild_DeleteMemberRef E g LeaderGuidRef False False s = Guild_EraseMemberRef E g (pguid j) (pguid k) False False s2"
    using now by (simp add: Guild_DeleteMemberRef_def gx assms(3) m None Let_def s2_def)
  let ?ms = "hmap_erase j (gl_members ?x2)"
  have find: "hmap_find ?ms i = map_option (if i = k then \<lambda>m. m\<lparr>gm_rankId := GR_GUILDMASTER\<rparr> else id) (hmap_find (gl_members x) i)" for i
    using None by (simp add: guid hmap_find_erase hmap_find_update option.map_id)
  have mk: "hmap_find (gl_members x) k = Some m" using k(1) ok by (simp add: hmap_find_iff)
  have keys: "fst ` set ?ms = fst ` set (gl_members x)"
    using find by (metis (no_types, lifting) hmap_find_None option.map_disc_iff subsetI subset_antisym)
  have ne: "?ms \<noteq> []" using keys assms(4) by (metis image_is_empty set_empty)
  define y where "y = ?x2\<lparr>gl_members := ?ms, gl_accountsNumber := a\<rparr>"
  define s3 where "s3 = Guild_EraseMemberRef E g (pguid j) (pguid k) False False s2"
  have y: "gd_guilds s3 g = Some y" "gld s3 g = y" "gl_members y = ?ms" using er by (simp_all add: s3_def y_def gld_def)
  have "Guild_GetMember (gl_leaderGuid (gld s g)) (gld s g) = None" by (simp add: Guild_GetMember_def gx assms(3) None)
  with ne y have v: "Guild_ValidateLeader E g s = (True, s3)" by (simp add: Guild_ValidateLeader_def gx assms(3) del s3_def [symmetric])
  have ok: "members_ok ?ms" using assms(2) by (simp add: members_ok_erase members_ok_update)
  have "gl_leaderGuid y = pguid k" "gl_ranks y = gl_ranks x" by (simp_all add: y_def guid)
  moreover have "hmap_find ?ms k = Some (m\<lparr>gm_rankId := GR_GUILDMASTER\<rparr>)" unfolding find by (simp add: mk)
  moreover have "gm_rankId n = GR_GUILDMASTER \<or> hmap_find (gl_members x) i = Some n" if "hmap_find ?ms i = Some n" for i n
    using that mk unfolding find by (auto simp: option.map_id split: if_splits)
  moreover have "Guild_GetMember (pguid k) (gld s2 g) \<noteq> None"
    using mk g2 by (simp add: Guild_GetMember_def gld_def guid hmap_find_update)
  then have "freed_members s3 = freed_members s @ [k]" using k(2) by (simp add: s3_def freed_EraseMember s2_def freed_quiet)
  ultimately show ?thesis using v y(1,3) ok keys None by (intro exI [of _ y] exI [of _ k] exI [of _ "m\<lparr>gm_rankId := GR_GUILDMASTER\<rparr>"]) simp
next
  case (Some m)
  have gx: "gld s g = x" using assms(1) by (simp add: gld_def)
  have guid: "gm_guid m = pguid j" using members_okD [OF assms(2) Some] .
  have lead: "Guild_GetMember (gl_leaderGuid (gld s g)) (gld s g) = Some m" by (simp add: Guild_GetMember_def gx assms(3) Some)
  have keys: "fst ` set (hmap_update i f ms) = fst ` set ms" for i and f :: "GuildMember \<Rightarrow> GuildMember" and ms
    by (metis hmap_keys_update set_map)
  show ?thesis
  proof (cases "gm_rankId m = GR_GUILDMASTER")
    case True
    with lead show ?thesis using assms Some by (auto simp: Guild_ValidateLeader_def)
  next
    case False
    with lead have v: "Guild_ValidateLeader E g s = (True, Guild_SetLeaderGUID g m s)" by (simp add: Guild_ValidateLeader_def)
    show ?thesis unfolding v snd_conv SetLeaderGUID_object [OF assms(1)]
      using assms(2,3) Some by (auto simp: guid members_ok_update keys hmap_find_update freed_quiet)
  qed
qed

lemma ValidateRanks_fields:
  "gl_members (fst (Guild_ValidateRanks E loc x)) = gl_members x" "gl_leaderGuid (fst (Guild_ValidateRanks E loc x)) = gl_leaderGuid x"
proof -
  have "gv_leader (gd_view (fst (Guild_CreateDefaultGuildRanks E loc (x\<lparr>gl_ranks := []\<rparr>)))) = gl_leaderGuid x"
    unfolding CreateDefaultGuildRanks_quiet by simp
  then show "gl_leaderGuid (fst (Guild_ValidateRanks E loc x)) = gl_leaderGuid x" by (simp add: Guild_ValidateRanks_def)
qed (simp add: Guild_ValidateRanks_def DefaultRanks_fields)


text \<open>
  A guild as a table with mistakes gives it: no ranks, a member of a rank that does not exist, and a leader (9) who has left, or
  (1) whose rank is wrong.
\<close>

definition broken_member :: "uint32 \<Rightarrow> uint8 \<Rightarrow> GuildMember" where
  "broken_member k r = Member_new (guild_sample_env 100) (pguid k) r"

definition broken_guild :: "uint32 \<Rightarrow> (uint32 \<times> uint8) list \<Rightarrow> Guild" where
  "broken_guild leader ms = Guild_new\<lparr>gl_id := 1, gl_leaderGuid := pguid leader, gl_ranks := [],
     gl_members := map (\<lambda>(k, r). (k, broken_member k r)) ms\<rparr>"

definition broken_state :: "uint32 \<Rightarrow> GuildState" where
  "broken_state leader = guild_start\<lparr>gd_guilds := (\<lambda>_. None)(1 := Some (broken_guild leader [(1, 7), (2, 0)])), gd_store := [1]\<rparr>"


end
