(* ===== verification/Guild_Experience.thy ===== *)
theory Guild_Experience
  imports Guild_Sample
begin

text \<open>Guild experience: \<open>GainXP\<close> ends, and what it does to levels.\<close>

section \<open>One level\<close>

lemma unat_level [simp]: "unat (ucast (l :: uint8) :: uint32) = unat l"
proof -
  have "unat l < 256" using unsigned_less [of l, where ?'a = nat] by simp
  then show ?thesis by (simp add: unsigned_ucast_eq take_bit_nat_eq_self)
qed

lemma LevelUp_object:
  assumes "gn_CONFIG_GUILD_ADVANCEMENT_ENABLED E" "gd_guilds s g = Some x"
  shows "gd_guilds (Guild_LevelUp E g s) g = Some (x\<lparr>gl_level := gl_level x + 1, gl_nextLevelXP := gn_XPForGuildLevel E (gl_level x + 1)\<rparr>)"
  using assms by (simp add: Guild_LevelUp_def Let_def gd_guilds_upd_gld gld_def)

text \<open>The experience that the levels from \<open>a\<close> on cost, \<open>n\<close> of them, summed up without wrapping around.\<close>

primrec levels_cost :: "guild_env \<Rightarrow> uint8 \<Rightarrow> nat \<Rightarrow> nat" where
  "levels_cost E a 0 = 0"
| "levels_cost E a (Suc n) = unat (gn_XPForGuildLevel E a) + levels_cost E (a + 1) n"

text \<open>The loop ends within as many rounds as there are levels left, one more to find out; it stops at the first level that cannot be paid for.\<close>

lemma GainXP_loop_ends:
  assumes "gn_CONFIG_GUILD_ADVANCEMENT_ENABLED E" "gd_guilds s g = Some x" "gl_nextLevelXP x = gn_XPForGuildLevel E (gl_level x)"
    "gn_CONFIG_GUILD_ADVANCEMENT_MAX_LEVEL E \<le> 255" "unat (gn_CONFIG_GUILD_ADVANCEMENT_MAX_LEVEL E) - unat (gl_level x) < fuel"
  shows "\<exists>n xp' s' y. GainXP_loop E g fuel xp (gl_nextLevelXP x) (gl_level x) s = Some (xp', gl_level y, s') \<and>
    gd_guilds s' g = Some y \<and> y = x\<lparr>gl_level := gl_level x + of_nat n, gl_nextLevelXP := gn_XPForGuildLevel E (gl_level x + of_nat n)\<rparr> \<and>
    unat (gl_level x) + n \<le> max (unat (gl_level x)) (unat (gn_CONFIG_GUILD_ADVANCEMENT_MAX_LEVEL E)) \<and>
    unat xp = unat xp' + levels_cost E (gl_level x) n \<and> (xp' < gl_nextLevelXP y \<or> unat (gn_CONFIG_GUILD_ADVANCEMENT_MAX_LEVEL E) \<le> unat (gl_level y))"
  using assms(2,3,5)
proof (induction fuel arbitrary: xp s x)
  case (Suc fuel)
  let ?max = "gn_CONFIG_GUILD_ADVANCEMENT_MAX_LEVEL E" and ?l = "gl_level x"
  have cast: "ucast ?l < ?max \<longleftrightarrow> unat ?l < unat ?max" by (simp only: word_less_nat_alt unat_level)
  show ?case
  proof (cases "xp \<ge> gl_nextLevelXP x \<and> ucast ?l < ?max")
    case False
    have "x = x\<lparr>gl_level := ?l + of_nat 0, gl_nextLevelXP := gn_XPForGuildLevel E (?l + of_nat 0)\<rparr>" using Suc.prems(2) by simp
    moreover have "xp < gl_nextLevelXP x \<or> unat ?max \<le> unat ?l" using False cast by auto
    ultimately show ?thesis using False Suc.prems(1) by (intro exI [of _ 0] exI [of _ xp] exI [of _ s] exI [of _ x]) auto
  next
    case True
    have lt: "unat ?l < unat ?max" "unat ?max \<le> 255" using True cast assms(4) by (simp_all add: word_le_nat_alt)
    then have up: "unat (?l + 1) = Suc (unat ?l)" by (simp add: unat_plus_if')
    define x1 where "x1 = x\<lparr>gl_level := ?l + 1, gl_nextLevelXP := gn_XPForGuildLevel E (?l + 1)\<rparr>"
    define s1 where "s1 = Guild_LevelUp E g s"
    have x1: "gd_guilds s1 g = Some x1" "gld s1 g = x1" using LevelUp_object [OF assms(1) Suc.prems(1)] by (simp_all add: s1_def x1_def gld_def)
    have "unat ?max - unat (gl_level x1) < fuel" using Suc.prems(3) lt up by (simp add: x1_def)
    with Suc.IH [OF x1(1), of "xp - gl_nextLevelXP x"] obtain n xp' s' y where
      y: "GainXP_loop E g fuel (xp - gl_nextLevelXP x) (gl_nextLevelXP x1) (gl_level x1) s1 = Some (xp', gl_level y, s')" "gd_guilds s' g = Some y"
      "y = x1\<lparr>gl_level := gl_level x1 + of_nat n, gl_nextLevelXP := gn_XPForGuildLevel E (gl_level x1 + of_nat n)\<rparr>"
      "unat (gl_level x1) + n \<le> max (unat (gl_level x1)) (unat ?max)" "unat (xp - gl_nextLevelXP x) = unat xp' + levels_cost E (gl_level x1) n"
      "xp' < gl_nextLevelXP y \<or> unat ?max \<le> unat (gl_level y)" by (auto simp: x1_def)
    have loop: "GainXP_loop E g (Suc fuel) xp (gl_nextLevelXP x) ?l s = Some (xp', gl_level y, s')"
      using True y(1) x1(2) by (simp add: s1_def [symmetric]) (simp add: x1_def)
    have "y = x\<lparr>gl_level := ?l + of_nat (Suc n), gl_nextLevelXP := gn_XPForGuildLevel E (?l + of_nat (Suc n))\<rparr>"
      by (simp add: y(3) x1_def add.assoc)
    moreover have "unat ?l + Suc n \<le> max (unat ?l) (unat ?max)" using y(4) up lt by (simp add: x1_def)
    moreover have "unat xp = unat xp' + levels_cost E ?l (Suc n)"
      using y(5) Suc.prems(2) True [THEN conjunct1] by (simp add: x1_def unat_sub_if' word_le_nat_alt)
    ultimately show ?thesis using loop y(2,6) by (intro exI [of _ "Suc n"] exI [of _ xp'] exI [of _ s'] exI [of _ y]) blast
  qed
qed simp

section \<open>GainXP\<close>

lemma news_object:
  "gd_guilds (Guild_AddGuildNews E g t a b c d s) g = map_option (\<lambda>x. x\<lparr>gl_news := gl_news x @ [\<lparr>gnw_type = t, gnw_timestamp = ucast (gn_mstime E),
     gnw_value1 = b, gnw_value2 = c, gnw_source_guid = a, gnw_flags = d\<rparr>]\<rparr>) (gd_guilds s g)"
  by (simp add: Guild_AddGuildNews_def Let_def gd_guilds_upd_gld Guild_BroadcastPacket_def)

lemma SaveXP_fields:
  "gl_level (fst (Guild_SaveXP E x)) = gl_level x" "gl_xp (fst (Guild_SaveXP E x)) = gl_xp x" "gl_nextLevelXP (fst (Guild_SaveXP E x)) = gl_nextLevelXP x"
  by (simp_all add: Guild_SaveXP_def)

text \<open>When \<open>GainXP\<close> returns before it does anything.\<close>

definition gain_refused :: "guild_env \<Rightarrow> Guild \<Rightarrow> uint64 \<Rightarrow> bool" where
  "gain_refused E x xp \<longleftrightarrow> xp = 0 \<or> \<not> gn_CONFIG_GUILD_ADVANCEMENT_ENABLED E \<or> ucast (gl_level x) \<ge> gn_CONFIG_GUILD_ADVANCEMENT_MAX_LEVEL E \<or>
     gl_xp x + xp > gl_xp_cap x"

text \<open>
  C22 (termination).  With a maximal level of at most 255, \<open>GainXP\<close> returns.  A gain of nothing, with guild advancement switched off, at
  the maximal level, or past the guild's experience cap changes nothing; every other gain raises the guild by exactly the
  levels it pays for, at most to the maximal level: the exact sum of what they cost and what is left is what there was (as
  natural numbers, so no level is taken that the experience does not cover), and either the rest does not pay for the next
  level or the maximal level is reached.
\<close>

theorem GainXP_returns:
  assumes "gd_guilds s g = Some x" "gl_nextLevelXP x = gn_XPForGuildLevel E (gl_level x)" "gn_CONFIG_GUILD_ADVANCEMENT_MAX_LEVEL E \<le> 255"
  shows "if gain_refused E x xp then Guild_GainXP E g xp s = Some s
    else \<exists>s' y n. Guild_GainXP E g xp s = Some s' \<and> gd_guilds s' g = Some y \<and>
       gl_level y = gl_level x + of_nat n \<and> unat (gl_level x) + n \<le> unat (gn_CONFIG_GUILD_ADVANCEMENT_MAX_LEVEL E) \<and>
       unat (gl_xp x + xp) = unat (gl_xp y) + levels_cost E (gl_level x) n \<and>
       (gl_xp y < gn_XPForGuildLevel E (gl_level y) \<or> unat (gl_level y) = unat (gn_CONFIG_GUILD_ADVANCEMENT_MAX_LEVEL E))"
proof (cases "gain_refused E x xp")
  case True
  then have "Guild_GainXP E g xp s = Some s" using assms(1) by (auto simp: gain_refused_def Guild_GainXP_def Let_def gld_def)
  with True show ?thesis by simp
next
  case False
  note go = False [unfolded gain_refused_def]
  let ?max = "gn_CONFIG_GUILD_ADVANCEMENT_MAX_LEVEL E" and ?l = "gl_level x"
  have gx: "gld s g = x" using assms(1) by (simp add: gld_def)
  have lt: "unat ?l < unat ?max" "unat ?max \<le> 255" using go assms(3) unat_level [of ?l] by (simp_all only: word_less_nat_alt word_le_nat_alt not_le de_Morgan_disj) simp_all
  have fuel: "unat ?max - unat ?l < 257" using lt by simp
  obtain n xp' s1 y where y: "GainXP_loop E g 257 (gl_xp x + xp) (gl_nextLevelXP x) ?l s = Some (xp', gl_level y, s1)" "gd_guilds s1 g = Some y"
    "y = x\<lparr>gl_level := ?l + of_nat n, gl_nextLevelXP := gn_XPForGuildLevel E (?l + of_nat n)\<rparr>" "unat ?l + n \<le> max (unat ?l) (unat ?max)"
    "unat (gl_xp x + xp) = unat xp' + levels_cost E ?l n" "xp' < gl_nextLevelXP y \<or> unat ?max \<le> unat (gl_level y)"
    using GainXP_loop_ends [OF _ assms(1,2,3), of 257 "gl_xp x + xp"] go fuel by blast
  define s2 where "s2 = gld_do g (Guild_SaveXP E) (upd_gld g (\<lambda>x. x\<lparr>gl_xp := xp', gl_today_xp := gl_today_xp x + xp\<rparr>) s1)"
  define s3 where "s3 = Guild_BroadcastPacket g (xp_packet (gld s2 g)) (Guild_AddGuildNews E g GUILD_NEWS_GUILD_LEVEL_REACHED 0 (ucast (gl_level y)) 0 0 s2)"
  have gain: "Guild_GainXP E g xp s = Some s3"
    using go y(1) unfolding Guild_GainXP_def Let_def gx by (simp add: s2_def s3_def)
  have "gd_guilds s2 g = Some (fst (Guild_SaveXP E (y\<lparr>gl_xp := xp', gl_today_xp := gl_today_xp y + xp\<rparr>)))"
    using y(2) by (simp add: s2_def gld_do_def gd_guilds_upd_gld)
  then obtain z where z: "gd_guilds s3 g = Some z" "gl_level z = gl_level y" "gl_xp z = xp'"
    by (simp add: s3_def Guild_BroadcastPacket_def news_object SaveXP_fields)
  have n: "unat ?l + n \<le> unat ?max" using y(4) lt by simp
  then have "unat (gl_level y) = unat ?l + n" using lt y(3) by (simp add: unat_word_ariths unat_of_nat)
  then have "gl_level z = ?l + of_nat n" "gl_xp z < gn_XPForGuildLevel E (gl_level z) \<or> unat (gl_level z) = unat ?max"
    using z(2,3) y(3,6) n by auto
  with gain z n y(5) False show ?thesis unfolding if_not_P [OF False] by (intro exI [of _ s3] exI [of _ z] exI [of _ n]) auto
qed

definition xp_sample :: GuildState where
  "xp_sample = guild_start\<lparr>gd_guilds := (\<lambda>_. None)(1 := Some (Guild_new\<lparr>gl_id := 1, gl_level := 1, gl_xp := 900, gl_nextLevelXP := 1000, gl_xp_cap := 3000\<rparr>)),
     gd_store := [1]\<rparr>"

theorem GainXP_returns_witness:
  "\<exists>s' y. Guild_GainXP (guild_sample_env 100) 1 1500 xp_sample = Some s' \<and> gd_guilds s' 1 = Some y \<and> (gl_xp y < 1000 \<or> unat (gl_level y) = 25)"
proof -
  let ?x = "Guild_new\<lparr>gl_id := 1, gl_level := 1, gl_xp := 900, gl_nextLevelXP := 1000, gl_xp_cap := 3000\<rparr>"
  have "\<not> gain_refused (guild_sample_env 100) ?x 1500" by (simp add: gain_refused_def guild_sample_env_def word_le_nat_alt)
  moreover have "gn_XPForGuildLevel (guild_sample_env 100) = (\<lambda>_. 1000)" "gn_CONFIG_GUILD_ADVANCEMENT_MAX_LEVEL (guild_sample_env 100) = 25"
    by (simp_all add: guild_sample_env_def)
  moreover have "gd_guilds xp_sample 1 = Some ?x" by (simp add: xp_sample_def)
  ultimately show ?thesis using GainXP_returns [of xp_sample 1 ?x "guild_sample_env 100" 1500] by auto
qed

end
