(* ===== verification/Spec2Isabelle.thy ===== *)
theory Spec2Isabelle
  imports Byte_Buffer Util_Strings Timers Social_Mgr Channel_Db Channel_Sync Reputation_Spill Ticket_Spec Group_Props Group_Roll_Props Guild_Props Guild_Errors Guild_Validation Guild_Experience
begin

text \<open>
  A verification development of DarkCore, a server for an online role-playing game written in C++.  Paths below are
  relative to the repository's \<^verbatim>\<open>src/server\<close>.

  \<^bold>\<open>The program.\<close>  A world server runs one game world.  A client's session receives packets (\<^verbatim>\<open>shared/Packets\<close>), a handler
  per opcode parses them and calls the managers and entities of \<^verbatim>\<open>game\<close>, which change their state, send packets to
  players and execute SQL statements; the state is loaded from the databases at start-up or at login.  The development
  models the social side of that server, whose state machines, permissions and persistence the server itself decides:
  contacts, chat channels, groups and raids, guilds and their bank, reputation and game-master tickets, and the shared layer they are built on: packet buffers,
  string utilities, timers and the event queue.

  \<^bold>\<open>Conventions.\<close>  Machine integers are words of their width; \<open>int32\<close> arithmetic is on \<^typ>\<open>int\<close> with \<open>wrap32\<close>.  A class is a record
  with the fields of the source, a method a function from the object to the new object and the result.  What an
  operation does to the outside (packets, SQL statements, log lines, notifications) is appended to a trace in the
  record, in the order of the code.  Exceptions and early returns are values.  \<open>std::map\<close> and \<open>std::set\<close> are
  association lists and lists in increasing key order, because iteration order is visible in packets.  \<open>UNORDERED_MAP\<close> is an association list
  without repeated keys, whose order is a parameter: where a new key goes depends on the keys that are there.

  \<^bold>\<open>Theories.\<close>
    \<^item> \<^verbatim>\<open>Prelude\<close>: integer types of \<^verbatim>\<open>shared/Define.h\<close>, \<open>wrap32\<close>, shared lemmas and collections.  \<^verbatim>\<open>Std_Map\<close>: the containers,
      with find-after-put, erase, order and counting laws.
    \<^item> \<^verbatim>\<open>Byte_Buffer\<close>: \<open>ByteBuffer\<close> and \<open>WorldPacket\<close> (\<^verbatim>\<open>shared/Packets/ByteBuffer.h\<close>, \<^verbatim>\<open>WorldPacket.h\<close>).  A packet that is
      written is read back, for fields, vectors and packed GUIDs; a read never leaves the storage.
    \<^item> \<^verbatim>\<open>Util_Strings\<close>: \<open>Tokens\<close>, \<open>stripLineInvisibleChars\<close>, time strings, hexadecimal (\<^verbatim>\<open>shared/Utilities/Util.cpp\<close>).
      Round trips, and the in-place filter against a recursive specification.
    \<^item> \<^verbatim>\<open>Timers\<close>: \<^verbatim>\<open>shared/Utilities/Timer.h\<close> and \<^verbatim>\<open>EventProcessor.cpp\<close>.  Wrap-around of clock differences, and the queue
      of events: an update returns and runs each due event once.
    \<^item> \<^verbatim>\<open>Social_List\<close> and \<^verbatim>\<open>Social_Mgr\<close>: \<^verbatim>\<open>game/Entities/Player/SocialMgr.cpp\<close> and the contact handlers of \<^verbatim>\<open>MiscHandler.cpp\<close>.
      The list is two bounded sets, its table row by row the list, loading restores it, replies and broadcasts go to
      whom they should.
    \<^item> \<^verbatim>\<open>Game_World\<close>: what chat and social code reads of players and of the world (GUIDs of \<^verbatim>\<open>ObjectDefines.h\<close>, account
      levels, the player registry of \<^verbatim>\<open>ObjectAccessor\<close>, configuration).
    \<^item> \<^verbatim>\<open>Channel\<close>: \<^verbatim>\<open>game/Chat/Channels/Channel.cpp\<close>, all operations.  \<^verbatim>\<open>Channel_Props\<close>: ownership invariant, authority,
      who hears what.  \<^verbatim>\<open>Channel_Db\<close>: the row of a custom channel follows it and restores it.  \<^verbatim>\<open>Channel_Mgr\<close>: \<^verbatim>\<open>ChannelMgr.cpp\<close>,
      the handlers of \<^verbatim>\<open>ChannelHandler.cpp\<close> and the channel functions of \<^verbatim>\<open>Player.cpp\<close>.  \<^verbatim>\<open>Channel_Sync\<close>: member maps and
      players' lists agree.
    \<^item> \<^verbatim>\<open>Reputation\<close>: \<^verbatim>\<open>game/Reputation/ReputationMgr.cpp\<close>, all operations.  \<^verbatim>\<open>Reputation_Props\<close> states what one change must keep
      as a locale and lifts it to spillover, messages and histories; \<^verbatim>\<open>Reputation_Load\<close> and \<^verbatim>\<open>Reputation_Db\<close> treat loading
      and saving; \<^verbatim>\<open>Reputation_Laws\<close> holds the resulting properties; \<^verbatim>\<open>Reputation_Spill\<close> the loader of the spillover
      templates (\<^verbatim>\<open>ObjectMgr.cpp\<close>).
    \<^item> \<^verbatim>\<open>Tickets\<close> and \<^verbatim>\<open>Ticket_Commands\<close>: \<^verbatim>\<open>game/Tickets/TicketMgr.cpp\<close>, \<^verbatim>\<open>TicketHandler.cpp\<close>, \<^verbatim>\<open>TicketCommands.cpp\<close>.
      \<^verbatim>\<open>Ticket_Props\<close> is the abstract machine as a step relation, \<^verbatim>\<open>Ticket_Laws\<close> shows that every message and command is a
      sequence of its moves, \<^verbatim>\<open>Ticket_Inv\<close> has the invariants by rule induction (locale \<open>ticket_law\<close>, one interpretation
      each), \<^verbatim>\<open>Ticket_Spec\<close> what follows for players, game masters and the table.
    \<^item> \<^verbatim>\<open>Group_State\<close>, \<^verbatim>\<open>Group_Rolls\<close>, \<^verbatim>\<open>Group_Ops\<close>, \<^verbatim>\<open>Group_Handlers\<close>: \<^verbatim>\<open>game/Groups/Group.cpp\<close>, \<^verbatim>\<open>GroupHandler.cpp\<close>, the group
      functions of \<^verbatim>\<open>Player.cpp\<close> and the registry and loader of \<^verbatim>\<open>ObjectMgr.cpp\<close>.  Groups live on a heap, players hold
      pointers to them, and following a pointer to a deleted group is recorded.  \<^verbatim>\<open>Group_View\<close> abstracts a state to members and
      invitations, \<^verbatim>\<open>Group_Moves\<close> is the abstract machine (\<open>gmove\<close>) with its invariant by rule induction,
      \<^verbatim>\<open>Group_Sim\<close>, \<^verbatim>\<open>Group_Ends\<close>, \<^verbatim>\<open>Group_Runs\<close> and \<^verbatim>\<open>Group_Joins\<close> show that every operation is a sequence of its moves,
      \<^verbatim>\<open>Group_History\<close> has the dispatcher of messages, logins, logouts and timers, \<^verbatim>\<open>Group_Safe\<close> interprets the locale of
      guarded systems on it.  \<^verbatim>\<open>Group_Sample\<close> is a concrete history, \<^verbatim>\<open>Group_Props\<close> and \<^verbatim>\<open>Group_Roll_Props\<close> the properties.  Histories have
      no battleground raids, nobody in them invites himself (which the code does not prevent, and what follows then is a
      property too), nobody sends group messages between two maps, and the row read at login names the group that lists the player.
    \<^item> \<^verbatim>\<open>Hash_Map\<close>: hash maps.  \<^verbatim>\<open>Guild_State\<close>, \<^verbatim>\<open>Guild_Parts\<close>, \<^verbatim>\<open>Guild_Ops\<close>, \<^verbatim>\<open>Guild_Membership\<close>, \<^verbatim>\<open>Guild_Commands\<close>, \<^verbatim>\<open>Guild_Handlers\<close>:
      \<^verbatim>\<open>game/Guilds/Guild.cpp\<close>, \<^verbatim>\<open>GuildMgr.cpp\<close>, \<^verbatim>\<open>GuildHandler.cpp\<close> and the guild parts of login, logout and \<^verbatim>\<open>Player.cpp\<close>: the objects that
      a guild is made of (logs, ranks, tabs, members), what it does with them, joining and leaving, commands, messages.  \<^verbatim>\<open>Guild_Load\<close>: the
      loader and \<open>Validate\<close>.  \<^verbatim>\<open>Guild_View\<close> abstracts a state to membership, rank and notes as the guild objects, the players and the table
      \<^verbatim>\<open>guild_member\<close> (the replayed statements of the trace) record them; \<^verbatim>\<open>Guild_Moves\<close> is the abstract machine (\<open>guild_move\<close>), which changes
      the three at once, with its invariant; \<^verbatim>\<open>Guild_Quiet\<close>, \<^verbatim>\<open>Guild_Sim\<close> and \<^verbatim>\<open>Guild_History\<close> show that every message, login and logout is
      a sequence of its moves.  \<^verbatim>\<open>Guild_Props\<close> and \<^verbatim>\<open>Guild_Authority\<close> have what follows for histories (through the locale of
      guarded systems), \<^verbatim>\<open>Guild_Money\<close> and \<^verbatim>\<open>Guild_Limits\<close> conservation of money and the daily limits, \<^verbatim>\<open>Guild_Log\<close> the ring of
      log entries and its table, \<^verbatim>\<open>Guild_Validation\<close> the repair at loading, \<^verbatim>\<open>Guild_Experience\<close> levels, \<^verbatim>\<open>Guild_Errors\<close> consequences of
      missing checks, \<^verbatim>\<open>Guild_Sample\<close> a concrete history.  Histories have no declining by members of a guild (what follows then is
      a property), no kick of a GUID that is no player's, and do not use up the guild numbers.
    \<^item> This theory: a property of contacts and channels together.

  \<^bold>\<open>Loops.\<close>  \<open>Update_loop\<close> of the event queue may run for ever in the source (an event may add another one that is already
  due), so it is a \<open>partial_function\<close> in the option monad; that it returns is part of the theorem.  All other loops are
  structural recursions over containers, over the index lists of \<open>for\<close> statements with constant or stored bounds (the rows of the
  faction store, the 128 places of the reputation list, four spillover slots, the ten survey answers), or have a
  termination proof (\<open>Tokens\<close>, decimal digits, the loop of \<open>EndRoll\<close>, which starts again after every roll it erases), or have fuel: the
  loop of \<open>Guild::Disband\<close> as many rounds as there are members, after which none is left (\<open>Disband_loop_empties\<close>), the loop of
  \<open>GainXP\<close> 257 rounds, one more than there are levels of a byte, with \<open>None\<close> when they are not enough; that they are is a property.

  \<^bold>\<open>Parameters.\<close>  Passed as functions or record fields, never assumed to be more than their hypotheses say: floating-point
  arithmetic and its printing, the faction store (a file of the client), escaping of SQL text, lower-casing through
  wide strings, the virtual methods of events, texts of the language table, random numbers, the inventory and the dungeon finder as groups ask them, the order of hash maps, the tables of guild perks and levels, the account tables and the world's
  configuration.  A query's result is the list of its rows; where a theorem speaks of a table, the statements of the trace are
  replayed on it.

  \<^bold>\<open>Not modelled.\<close>  The combat core (\<open>Unit\<close>, \<open>Spell\<close>, auras), movement, maps, grids, collision and creature AI depend on
  floating point and on data files; the network layer, the database layer and the authentication server are I/O over
  third-party libraries; scripts, tools and \<^verbatim>\<open>dep\<close> are content or vendored code.  Of groups, shares of
  experience, instance binds and battleground queues are left out.  Of guilds, moving items between bank tabs and bags is left out, because
  it rests on the inventory of \<^verbatim>\<open>Player.cpp\<close> and on \<^verbatim>\<open>Item.cpp\<close>, and so are petitions.  Auctions, mail and trade rest on items as well;
  arena teams are floating-point ratings over the pattern of guild membership.
\<close>

section \<open>Ignore lists and channels\<close>

lemma ignored_after_add:
  assumes "social_ok s" "AddToSocialList f True s = (True, s', sql)"
  shows "HasIgnore f s'"
proof -
  have m: "smap_ok (m_playerSocialMap s)" using assms(1) by (simp add: social_ok_def)
  have "smap_count (on_list True) (m_playerSocialMap s) \<noteq> 50" using AddToSocialList_full assms(2) by fastforce
  moreover have "smap_count (on_list True) (m_playerSocialMap s) \<le> 50" using assms(1) by (simp add: social_ok_def SOCIALMGR_IGNORE_LIMIT_def)
  ultimately have "s' = s\<lparr>m_playerSocialMap := added f True (m_playerSocialMap s)\<rparr>"
    using AddToSocialList_room [of True s f] assms(2) by simp
  then have "f \<in> social_lists s' True" using lists_of_added [OF m, of f True] by simp
  then show ?thesis by (simp add: social_lists_def)
qed

text \<open>
  C29 (safety).  Once a player has put a speaker on the ignore list, nothing the speaker says in a channel reaches the player,
  unless the speaker is a moderator of the channel.
\<close>
theorem ignored_speaker_unheard:
  assumes "social_ok s" and "AddToSocialList (GUID_LOPART p) True s = (True, s', sql)"
    and "GetPlayer E q = Some listener" and "GetSocial (ce_socials E) listener = s'"
    and "p \<noteq> 0" and "q \<noteq> p" and "\<not> PlayerInfo_IsModerator (member p ch)"
  shows "\<exists>es. ch_trace (Channel_Say E p (Some what) lang ch) = ch_trace ch @ es \<and> (\<forall>x. SendPacket q x \<notin> set es)"
proof -
  have "\<not> hears E p ch q"
    using ignored_after_add [OF assms(1,2)] assms(3,4,7) by (simp add: hears_def)
  with assms(6) have "\<forall>x. SendPacket q x \<notin> set
      (if Channel_IsOn p ch \<and> \<not> PlayerInfo_IsMuted (member p ch)
       then map (\<lambda>q. SendPacket q (chat_message E p what lang ch)) (filter (hears E p ch) (map fst (players ch)))
       else if GetPlayer E p = None then []
       else [SendPacket p (if Channel_IsOn p ch then MakeMuted ch else MakeNotMember ch)])"
    by auto
  then show ?thesis unfolding Say_trace [OF assms(5)] by blast
qed

text \<open>Ann (5), who owns the sample channel, ignores Bob (9).\<close>

definition sample_ignoring :: chat_env where
  "sample_ignoring = sample_env\<lparr>ce_socials := [(5, fst (snd (AddToSocialList 9 True PlayerSocial_new)))]\<rparr>"

theorem ignored_speaker_unheard_witness:
  "\<exists>es. ch_trace (Channel_Say sample_ignoring 9 (Some ''hi'') 1 sample_channel) = ch_trace sample_channel @ es \<and>
     (\<nexists>x. SendPacket 5 x \<in> set es)"
proof -
  have "social_ok PlayerSocial_new" "GetPlayer sample_ignoring 5 = Some (sample_player 5 ''Ann'')"
    "\<not> PlayerInfo_IsModerator (member 9 sample_channel)" "GUID_LOPART 9 = 9"
    "fst (AddToSocialList 9 True PlayerSocial_new)"
    by code_simp+
  moreover have "GetSocial (ce_socials sample_ignoring) (sample_player 5 ''Ann'') = fst (snd (AddToSocialList 9 True PlayerSocial_new))"
    by code_simp
  ultimately show ?thesis
    using ignored_speaker_unheard [of PlayerSocial_new 9 "fst (snd (AddToSocialList 9 True PlayerSocial_new))"
        "snd (snd (AddToSocialList 9 True PlayerSocial_new))" sample_ignoring 5 "sample_player 5 ''Ann''" sample_channel "''hi''" 1]
    by (simp add: prod_eq_iff)
qed

end
